(* ===== verification/Prelude.thy ===== *)
theory Prelude
  imports "HOL-Library.Word"
begin

text \<open>
  The prelude of the development: names for the C integer types, facts that read signed
  arithmetic on words as arithmetic on the integers where no overflow happens, and the
  little-endian value of a byte string with the facts about its bits that the loads and
  stores of the crypto code rest on.
\<close>

unbundle bit_operations_syntax

type_synonym u8 = "8 word"
type_synonym u32 = "32 word"
type_synonym u64 = "64 word"
type_synonym i8 = "8 word"
type_synonym i32 = "32 word"
type_synonym i64 = "64 word"
type_synonym bytes = "8 word list"

text \<open>The exceptions the sources throw, by their text.\<close>

datatype exception = Runtime_error string

text \<open>
  \<open>word_exact\<close> collects the facts that turn \<open>sint\<close> of a word operation into the
  operation on integers; their premises are range conditions.  \<open>limb_defs\<close> collects the
  unfolding equations of the limb programs.
\<close>

named_theorems word_exact
named_theorems limb_defs

subsection \<open>Signed words without overflow\<close>

definition in_range :: "nat \<Rightarrow> int \<Rightarrow> bool" where
  "in_range w x \<longleftrightarrow> - (2 ^ (w - 1)) \<le> x \<and> x < 2 ^ (w - 1)"

lemma sint_of_int_exact [word_exact]:
  "in_range LENGTH('a) x \<Longrightarrow> sint (word_of_int x :: 'a::len word) = x"
  by (simp add: in_range_def sint_sbintrunc' signed_take_bit_int_eq_self)

lemma sint_add_exact [word_exact]:
  fixes x y :: "'a::len word"
  shows "in_range LENGTH('a) (sint x + sint y) \<Longrightarrow> sint (x + y) = sint x + sint y"
  by (simp add: in_range_def sint_word_add signed_take_bit_int_eq_self)

lemma sint_sub_exact [word_exact]:
  fixes x y :: "'a::len word"
  shows "in_range LENGTH('a) (sint x - sint y) \<Longrightarrow> sint (x - y) = sint x - sint y"
  using sint_of_int_exact [of "sint x - sint y", where 'a = 'a] by simp

lemma sint_mult_exact [word_exact]:
  fixes x y :: "'a::len word"
  shows "in_range LENGTH('a) (sint x * sint y) \<Longrightarrow> sint (x * y) = sint x * sint y"
  using sint_of_int_exact [of "sint x * sint y", where 'a = 'a] by simp

lemma sint_mult_const_exact [word_exact]:
  fixes x :: "'a::len word"
  shows "in_range LENGTH('a) (sint x * c) \<Longrightarrow> sint (x * word_of_int c) = sint x * c"
  using sint_of_int_exact [of "sint x * c", where 'a = 'a] by simp

lemma sint_push_exact [word_exact]:
  fixes x :: "'a::len word"
  shows "in_range LENGTH('a) (sint x * 2 ^ k) \<Longrightarrow> sint (push_bit k x) = sint x * 2 ^ k"
  using sint_of_int_exact [of "sint x * 2 ^ k", where 'a = 'a]
  by (simp add: push_bit_eq_mult)

lemma sint_sar [simp]: "sint (signed_drop_bit k x) = sint x div 2 ^ k"
  by (simp add: sint_signed_drop_bit_eq drop_bit_eq_div)

lemma scast_of_int: "(scast x :: 'b::len word) = word_of_int (sint x)"
  by (fact of_int_sint [symmetric])

lemma sint_scast_exact [word_exact]:
  "in_range LENGTH('b) (sint x) \<Longrightarrow> sint (scast x :: 'b::len word) = sint x"
  unfolding scast_of_int by (rule sint_of_int_exact)

lemma abs_div_pow2:
  fixes y :: int
  assumes "\<bar>y\<bar> \<le> c * 2 ^ k"
  shows "\<bar>y div 2 ^ k\<bar> \<le> c"
proof -
  have "- c * 2 ^ k \<le> y" and "y \<le> c * 2 ^ k" using assms by linarith+
  then have "(- c) * 2 ^ k div 2 ^ k \<le> y div 2 ^ k" and "y div 2 ^ k \<le> c * 2 ^ k div 2 ^ k"
    by (intro zdiv_mono1; simp)+
  moreover have "(- c) * 2 ^ k div 2 ^ k = - c" by (rule nonzero_mult_div_cancel_right) simp
  ultimately show ?thesis by simp
qed

subsection \<open>Byte strings as little-endian numbers\<close>

definition le_val :: "bytes \<Rightarrow> int" where
  "le_val bs = horner_sum uint (2 ^ 8) bs"

lemma le_val_Nil [simp]: "le_val [] = 0"
  by (simp add: le_val_def)

lemma le_val_Cons [simp]: "le_val (b # bs) = uint b + 256 * le_val bs"
  by (simp add: le_val_def)

lemma le_val_append: "le_val (xs @ ys) = le_val xs + 256 ^ length xs * le_val ys"
  by (induction xs) (simp_all add: algebra_simps)

lemma bit_le_val:
  "bit (le_val bs) n \<longleftrightarrow> n div 8 < length bs \<and> bit (bs ! (n div 8)) (n mod 8)"
  using bit_horner_sum_uint_exp_iff [of bs n] by (simp add: le_val_def)

lemma le_val_bounds: "0 \<le> le_val bs \<and> le_val bs < 256 ^ length bs"
proof (induction bs)
  case Nil
  then show ?case by simp
next
  case (Cons b bs)
  have "0 \<le> uint b" "uint b < 256"
    using uint_lt2p [of b] by simp_all
  with Cons show ?case by auto
qed

lemma le_val_nonneg [simp]: "0 \<le> le_val bs"
  using le_val_bounds [of bs] by blast

lemma le_val_less: "length bs = n \<Longrightarrow> le_val bs < 2 ^ (8 * n)"
  using le_val_bounds [of bs] by (simp add: power_mult)

text \<open>
  A byte string whose bytes are the consecutive octets of a number below \<open>256 ^ n\<close> has
  that number as its value: the form in which every store of the crypto code is verified.
\<close>

lemma le_val_octets:
  assumes "0 \<le> v" and "v < 2 ^ (8 * n)" and "length bs = n"
    and "\<And>i. i < n \<Longrightarrow> uint (bs ! i) = take_bit 8 (drop_bit (8 * i) v)"
  shows "le_val bs = v"
proof (rule bit_eqI)
  fix k :: nat
  have v: "take_bit (8 * n) v = v"
    using assms(1,2) by (simp add: take_bit_int_eq_self)
  have "bit (le_val bs) k \<longleftrightarrow> k div 8 < n \<and> bit (uint (bs ! (k div 8))) (k mod 8)"
    by (simp only: bit_le_val assms(3)) (simp add: bit_uint_iff)
  also have "\<dots> \<longleftrightarrow> k div 8 < n \<and> bit v k"
  proof (rule conj_cong [OF refl])
    assume "k div 8 < n"
    then have "bit (uint (bs ! (k div 8))) (k mod 8)
        = bit (take_bit 8 (drop_bit (8 * (k div 8)) v)) (k mod 8)"
      using assms(4) by simp
    then show "bit (uint (bs ! (k div 8))) (k mod 8) = bit v k"
      by (simp add: bit_take_bit_iff bit_drop_bit_eq)
  qed
  also have "\<dots> \<longleftrightarrow> k < 8 * n \<and> bit v k" by auto
  also have "\<dots> \<longleftrightarrow> bit (take_bit (8 * n) v) k" by (simp add: bit_simps)
  finally show "bit (le_val bs) k \<longleftrightarrow> bit v k" by (simp add: v)
qed

text \<open>The same for a byte string given as a literal, bit by bit.\<close>

primrec octets_ok :: "int \<Rightarrow> nat \<Rightarrow> bytes \<Rightarrow> bool" where
  "octets_ok v e [] \<longleftrightarrow> True"
| "octets_ok v e (b # bs) \<longleftrightarrow> (\<forall>k<8. bit b k = bit v (e + k)) \<and> octets_ok v (e + 8) bs"

lemma octets_ok_nth:
  "octets_ok v e bs \<Longrightarrow> i < length bs \<Longrightarrow> k < 8 \<Longrightarrow> bit (bs ! i) k = bit v (e + 8 * i + k)"
proof (induction bs arbitrary: e i)
  case Nil
  then show ?case by simp
next
  case (Cons b bs)
  then show ?case
    by (cases i) (use Cons.IH [of "e + 8" "i - 1"] in \<open>auto simp: algebra_simps\<close>)
qed

lemma le_val_octets_ok:
  assumes "0 \<le> v" and "v < 2 ^ (8 * length bs)" and "octets_ok v 0 bs"
  shows "le_val bs = v"
proof (rule le_val_octets [OF assms(1,2) refl])
  fix i assume i: "i < length bs"
  show "uint (bs ! i) = take_bit 8 (drop_bit (8 * i) v)"
  proof (rule bit_eqI)
    fix k
    show "bit (uint (bs ! i)) k = bit (take_bit 8 (drop_bit (8 * i) v)) k"
      using octets_ok_nth [OF assms(3) i, of k]
      by (auto simp: bit_uint_iff bit_take_bit_iff bit_drop_bit_eq dest: bit_imp_le_length)
  qed
qed

lemma all_less_8: "(\<forall>k<8. P k) \<longleftrightarrow> P (0::nat) \<and> P 1 \<and> P 2 \<and> P 3 \<and> P 4 \<and> P 5 \<and> P 6 \<and> P 7"
  by (simp add: numeral_eq_Suc All_less_Suc) blast

text \<open>A word that holds a group of bits of a number.\<close>

lemma bit_limb:
  fixes w :: "'a::len word"
  assumes "sint w = take_bit m (drop_bit e v)" and "m < LENGTH('a)"
  shows "bit w n \<longleftrightarrow> n < m \<and> bit v (e + n)"
proof (cases "n < LENGTH('a)")
  case True
  then have "bit w n = bit (sint w) n" by (simp add: bit_sint_iff min_def)
  then show ?thesis by (simp add: assms(1) bit_take_bit_iff bit_drop_bit_eq add.commute)
next
  case False
  then show ?thesis using assms(2) bit_imp_le_length [of w n] by auto
qed

text \<open>The octets of a number: the inverse of \<^const>\<open>le_val\<close>.\<close>

definition le_bytes :: "nat \<Rightarrow> int \<Rightarrow> bytes" where
  "le_bytes n v = map (\<lambda>i. word_of_int (drop_bit (8 * i) v)) [0..<n]"

lemma length_le_bytes [simp]: "length (le_bytes n v) = n"
  by (simp add: le_bytes_def)

lemma nth_le_bytes: "i < n \<Longrightarrow> le_bytes n v ! i = word_of_int (drop_bit (8 * i) v)"
  unfolding le_bytes_def by (subst nth_map) simp_all

lemma le_val_le_bytes: "0 \<le> v \<Longrightarrow> v < 2 ^ (8 * n) \<Longrightarrow> le_val (le_bytes n v) = v"
  by (rule le_val_octets [where n = n]) (simp_all add: nth_le_bytes uint_word_of_int take_bit_eq_mod)

lemma le_val_inject:
  assumes "length xs = length ys" and "le_val xs = le_val ys"
  shows "xs = ys"
proof (rule nth_equalityI)
  show "length xs = length ys" by fact
next
  fix i assume i: "i < length xs"
  show "xs ! i = ys ! i"
  proof (rule bit_word_eqI)
    fix k assume "k < LENGTH(8)"
    then have k: "(8 * i + k) div 8 = i" "(8 * i + k) mod 8 = k" by auto
    have "bit (le_val xs) (8 * i + k) = bit (le_val ys) (8 * i + k)" using assms(2) by simp
    then show "bit (xs ! i) k = bit (ys ! i) k"
      unfolding bit_le_val k using i assms(1) by simp
  qed
qed

lemma le_bytes_le_val: "length bs = n \<Longrightarrow> le_bytes n (le_val bs) = bs"
  using le_val_less [of bs n] by (intro le_val_inject) (simp_all add: le_val_le_bytes)

lemma le_val_zero_iff: "le_val bs = 0 \<longleftrightarrow> (\<forall>b\<in>set bs. b = 0)"
proof (induction bs)
  case Nil
  then show ?case by simp
next
  case (Cons b bs)
  have "0 \<le> uint b" "0 \<le> le_val bs" by simp_all
  then have "uint b + 256 * le_val bs = 0 \<longleftrightarrow> uint b = 0 \<and> le_val bs = 0" by linarith
  with Cons show ?case by (simp add: uint_0_iff)
qed

lemma length_32:
  assumes "length xs = 32"
  shows "xs = [xs ! 0, xs ! 1, xs ! 2, xs ! 3, xs ! 4, xs ! 5, xs ! 6, xs ! 7, xs ! 8, xs ! 9,
    xs ! 10, xs ! 11, xs ! 12, xs ! 13, xs ! 14, xs ! 15, xs ! 16, xs ! 17, xs ! 18, xs ! 19,
    xs ! 20, xs ! 21, xs ! 22, xs ! 23, xs ! 24, xs ! 25, xs ! 26, xs ! 27, xs ! 28, xs ! 29,
    xs ! 30, xs ! 31]"
  by (rule nth_equalityI) (auto simp: assms numeral_eq_Suc less_Suc_eq)

subsection \<open>Words and bits\<close>

lemma word_eq_iff_sint: "x = y \<longleftrightarrow> sint x = sint y"
  using signed_word_eqI by auto

lemma and_mask_23: "w AND 8388607 = take_bit 23 (w :: 64 word)"
  unfolding take_bit_eq_mask by (simp add: mask_eq_exp_minus_1)

lemma or_list_zero:
  "foldr (OR) ws (w::'a::len word) = 0 \<longleftrightarrow> (\<forall>x\<in>set ws. x = 0) \<and>
      w = 0"
proof (induction ws)
  case (Cons a ws)
  have "a OR foldr (OR) ws w = 0 \<longleftrightarrow> a = 0 \<and> foldr (OR) ws w = 0" by (rule
      or_eq_0_iff)
  with Cons show ?case by auto
qed simp

lemma ucast_foldr_or:
  "foldr (OR) (map ucast ws) (ucast w) = (ucast (foldr (OR) ws w) :: i32)" for w :: u8
  by (induction ws) (simp_all add: unsigned_or_eq)

lemma word_of_sint: "sint w = v \<Longrightarrow> w = word_of_int v"
  using of_int_sint [of w, where 'a = "'a word"] by (simp add: scast_id)

text \<open>The two shifts by which the code rotates a word.\<close>

lemma shifts_rotl:
  fixes x :: "'a::len word"
  assumes "0 < y" and "y < LENGTH('a)"
  shows "push_bit y x OR drop_bit (LENGTH('a) - y) x = word_rotl y x"
proof (rule bit_word_eqI)
  let ?l = "LENGTH('a)"
  fix n assume n: "n < ?l"
  have "(n + (?l - y)) mod ?l = (if y \<le> n then n - y else n + (?l - y))"
  proof (cases "y \<le> n")
    case True
    then have "n + (?l - y) = (n - y) + ?l" using assms by simp
    then show ?thesis using True n by (simp only: mod_add_self2) simp
  qed (use assms in simp)
  moreover have "\<not> bit x (n + (?l - y))" if "y \<le> n"
    using that assms by (intro impossible_bit) simp
  moreover have "bit (push_bit y x OR drop_bit (?l - y) x) n \<longleftrightarrow> y \<le> n \<and> bit x (n - y) \<or> bit x (n + (?l - y))"
    using n by (auto simp: bit_simps add.commute [of n])
  moreover have "bit (word_rotl y x) n \<longleftrightarrow> bit x ((n + (?l - y)) mod ?l)"
    using n assms by (simp add: bit_word_rotl_iff)
  ultimately show "bit (push_bit y x OR drop_bit (?l - y) x) n = bit (word_rotl y x) n" by auto
qed

text \<open>The idiom \<open>((x - 1) >> 8) + 1\<close> that turns a byte into the flag \<open>x != 0\<close>.\<close>

lemma nonzero_flag:
  fixes b :: u8
  shows "signed_drop_bit 8 ((ucast b :: i32) - 1) + 1 = of_bool (b \<noteq> 0)"
proof -
  have u: "sint (ucast b :: i32) = uint b" 
    using sint_of_int_exact [of "uint b", where 'a = 32] uint_lt2p [of b] uint_ge_0 [of b]
    by (simp add: in_range_def del: uint_ge_0)
  have r: "0 \<le> uint b" "uint b < 256" using uint_lt2p [of b] by simp_all
  have m: "sint ((ucast b :: i32) - 1) = uint b - 1"
    using sint_sub_exact [of "ucast b :: i32" 1] r by (simp add: u in_range_def)
  have "sint (signed_drop_bit 8 ((ucast b :: i32) - 1)) = (if b = 0 then - 1 else 0)"
  proof (cases "b = 0")
    case False
    then have "uint b \<noteq> 0" by (simp add: uint_0_iff)
    then have "0 \<le> uint b - 1" "uint b - 1 < 256" using r by linarith+
    with False show ?thesis by (simp add: m)
  qed (simp add: m)
  then have "signed_drop_bit 8 ((ucast b :: i32) - 1) = word_of_int (if b = 0 then - 1 else 0)"
    by (rule word_of_sint)
  then show ?thesis by simp
qed

text \<open>The test of 32 bytes for a nonzero one, as \<open>fe_isnonzero\<close> and \<open>sc_isnonzero\<close> write it.\<close>

lemma nonzero_bytes:
  assumes "length s = 32"
  shows "(let s = (\<lambda>i. ucast (s ! i) :: i32)
      in signed_drop_bit 8 ((s 0 OR s 1 OR s 2 OR s 3 OR s 4 OR s 5 OR s 6 OR s 7 OR s 8 OR
           s 9 OR s 10 OR s 11 OR s 12 OR s 13 OR s 14 OR s 15 OR s 16 OR s 17 OR
           s 18 OR s 19 OR s 20 OR s 21 OR s 22 OR s 23 OR s 24 OR s 25 OR s 26 OR
           s 27 OR s 28 OR s 29 OR s 30 OR s 31) - 1) + 1) = of_bool (le_val s \<noteq> 0)"
    (is "?l = _")
proof -
  let ?b = "foldr (OR) s 0"
  have z: "le_val s = 0 \<longleftrightarrow> ?b = 0" by (simp add: le_val_zero_iff or_list_zero)
  have u: "[0..<32] = [0, 1, 2, 3, 4, 5, 6, 7, 8, 9, 10, 11, 12, 13, 14, 15, 16, 17, 18, 19, 20,
      21, 22, 23, 24, 25, 26, 27, 28, 29, 30, 31 :: nat]"
    by (simp add: upt_rec)
  have "s = map ((!) s) [0..<32]" using map_nth [of s] assms by simp
  then have "(ucast ?b :: i32) = foldr (OR) (map ucast (map ((!) s) [0..<32])) 0"
    using ucast_foldr_or [of s 0] by simp
  then have "?l = signed_drop_bit 8 ((ucast ?b :: i32) - 1) + 1"
    unfolding Let_def u by (simp del: ucast_0)
  then show ?thesis by (simp only: nonzero_flag z)
qed

subsection \<open>Integers\<close>

lemma residue_unique:
  fixes v k m :: int
  assumes "0 \<le> v - k * m" and "v - k * m < m"
  shows "v - k * m = v mod m"
proof -
  have "(v - k * m) mod m = v mod m" by (simp add: mod_diff_eq [symmetric])
  then show ?thesis using assms by (simp add: mod_pos_pos_trivial)
qed

lemma div_sign:
  fixes y b :: int
  assumes "- b \<le> y" and "y < b"
  shows "y div b = (if y < 0 then - 1 else 0)"
proof (cases "y < 0")
  case True
  have "(y + b) div b = y div b + 1" using assms by (intro div_add_self2) simp
  moreover have "(y + b) div b = 0" using assms True by (intro div_pos_pos_trivial) simp_all
  ultimately show ?thesis using True by simp
qed (use assms in \<open>simp add: div_pos_pos_trivial\<close>)

lemma sgn_neg_iff: "sgn x = sgn y \<Longrightarrow> x < 0 \<longleftrightarrow> y < (0 :: int)"
  by (auto simp: sgn_if split: if_splits)

lemma take_bit_lt_32: "n \<le> 32 \<Longrightarrow> take_bit n (x :: int) < 2 ^ 32"
  using power_increasing [of n 32 "2 :: int"] take_bit_int_less_exp [of n x] by linarith

text \<open>Comparing digit by digit, most significant first, as a sum of signs.\<close>

lemma sgn_horner:
  fixes b :: int
  assumes "2 \<le> b" and "\<forall>d\<in>set ds. \<bar>d\<bar> < b"
  shows "sgn (horner_sum (\<lambda>d. d) b ds) = sgn (horner_sum sgn 2 ds)"
  using assms(2)
proof (induction ds)
  case (Cons d ds)
  let ?V = "horner_sum (\<lambda>d. d) b ds" and ?S = "horner_sum sgn 2 ds :: int"
  have IH: "sgn ?V = sgn ?S" and d: "\<bar>d\<bar> < b" using Cons by simp_all
  consider "?V = 0" | "0 < ?V" | "?V < 0" by linarith
  then show ?case
  proof cases
    case 1
    then have "?S = 0" using IH by (simp add: sgn_if split: if_splits)
    then show ?thesis using 1 by simp
  next
    case 2
    then have "0 < ?S" using IH by (simp add: sgn_if split: if_splits)
    moreover have "b * 1 \<le> b * ?V" using 2 assms(1) by (intro mult_left_mono) simp_all
    ultimately have "0 < d + b * ?V" "0 < sgn d + 2 * ?S" using d by (auto simp: sgn_if)
    then show ?thesis by simp
  next
    case 3
    then have "?S < 0" using IH by (simp add: sgn_if split: if_splits)
    moreover have "b * ?V \<le> b * (- 1)" using 3 assms(1) by (intro mult_left_mono) simp_all
    ultimately have "d + b * ?V < 0" "sgn d + 2 * ?S < 0" using d by (auto simp: sgn_if)
    then show ?thesis by simp
  qed
qed simp

lemma sgn_horner_bound: "\<bar>horner_sum sgn 2 ds\<bar> < (2 :: int) ^ length ds"
proof (induction ds)
  case (Cons d ds)
  have "\<bar>sgn d\<bar> \<le> 1" by (simp add: sgn_if)
  then have "\<bar>sgn d + 2 * horner_sum sgn 2 ds\<bar> \<le> 1 + 2 * \<bar>horner_sum sgn 2 ds\<bar>" by linarith
  also have "\<dots> < 2 * 2 ^ length ds" using Cons by linarith
  finally show ?case by simp
qed simp

lemma all_less_12: "(\<forall>i<12. P i) \<longleftrightarrow> P (0::nat) \<and> P 1 \<and> P 2 \<and> P 3 \<and> P 4 \<and> P 5 \<and> P 6
    \<and> P 7 \<and> P 8 \<and> P 9 \<and> P 10 \<and> P 11"
  by (simp add: numeral_eq_Suc All_less_Suc) blast

lemma le_val_take_drop:
  assumes "k + m \<le> length a"
  shows "le_val (take m (drop k a)) = take_bit (8 * m) (drop_bit (8 * k) (le_val a))"
proof (rule bit_eqI)
  fix n
  have "(8 * k + n) div 8 = k + n div 8" "(8 * k + n) mod 8 = n mod 8" by simp_all
  moreover have "n div 8 < m \<longleftrightarrow> n < 8 * m" by auto
  ultimately show "bit (le_val (take m (drop k a))) n
      = bit (take_bit (8 * m) (drop_bit (8 * k) (le_val a))) n"
    using assms by (auto simp: bit_take_bit_iff bit_drop_bit_eq bit_le_val)
qed

lemma and_mask_21: "2097151 AND w = take_bit 21 (w :: u64)"
  unfolding take_bit_eq_mask by (simp add: mask_eq_exp_minus_1 and.commute)

subsection \<open>Digits of a number in a power-of-two radix\<close>

lemma digits_sum:
  "(\<Sum>i<n. take_bit r (drop_bit (r * i) v) * 2 ^ (r * i)) = take_bit (r * n) (v::int)"
proof (induction n)
  case 0
  then show ?case by simp
next
  case (Suc n)
  have "take_bit (r * Suc n) v = v mod (2 ^ (r * n) * 2 ^ r)"
    by (simp add: take_bit_eq_mod power_add mult.commute)
  also have "\<dots> = 2 ^ (r * n) * (v div 2 ^ (r * n) mod 2 ^ r) + v mod 2 ^ (r * n)"
    by (simp add: zmod_zmult2_eq)
  finally have "take_bit (r * Suc n) v
      = take_bit r (drop_bit (r * n) v) * 2 ^ (r * n) + take_bit (r * n) v"
    by (simp add: take_bit_eq_mod drop_bit_eq_div)
  with Suc show ?case by simp
qed

subsection \<open>Loops that may fail\<close>

primrec opt_fold :: "('a \<Rightarrow> 's \<Rightarrow> 's option) \<Rightarrow> 'a list \<Rightarrow> 's \<Rightarrow> 's option" where
  "opt_fold f [] s = Some s"
| "opt_fold f (x # xs) s = Option.bind (f x s) (opt_fold f xs)"

text \<open>
  A loop whose body never fails on states that satisfy the invariant of its position: it
  returns a state with the invariant of the end.
\<close>

lemma opt_fold_invariant:
  assumes "I 0 s" and "\<And>k s. k < length xs \<Longrightarrow> I k s \<Longrightarrow> \<exists>s'. f (xs ! k) s = Some s' \<and> I (Suc k) s'"
  shows "\<exists>s'. opt_fold f xs s = Some s' \<and> I (length xs) s'"
  using assms
proof (induction xs arbitrary: s I)
  case (Cons x xs)
  obtain s1 where s1: "f x s = Some s1" "I 1 s1" using Cons.prems(2) [of 0 s] Cons.prems(1) by auto
  have "\<exists>s'. opt_fold f xs s1 = Some s' \<and> I (Suc (length xs)) s'"
    by (rule Cons.IH [where I = "\<lambda>k. I (Suc k)"]) (use s1 Cons.prems(2) [of "Suc _"] in auto)
  then show ?case using s1 by simp
qed auto

lemma fold_invariant:
  assumes "I 0 s" and "\<And>k s. k < length xs \<Longrightarrow> I k s \<Longrightarrow> I (Suc k) (f (xs ! k) s)"
  shows "I (length xs) (fold f xs s)"
  using assms
proof (induction xs arbitrary: s I)
  case (Cons x xs)
  have "I (Suc (length xs)) (fold f xs (f x s))"
    by (rule Cons.IH [where I = "\<lambda>k. I (Suc k)"]) (use Cons.prems(1) Cons.prems(2) [of 0] Cons.prems(2) [of "Suc _"] in auto)
  then show ?case by simp
qed auto

end
