(* ===== verification/Limbs.thy ===== *)
theory Limbs
  imports Prelude
begin

text \<open>
  The statement forms of which the carry chains and reductions of \<open>crypto-ops.c\<close> are
  made.  A function there keeps a number in the local variables \<open>h0, h1, ...\<close> (or
  \<open>s0, s1, ...\<close>), one limb each, and normalises it by a straight line of statements of a
  few shapes.  Here the variables are a list of words, a statement shape is a constructor of
  \<open>limb_op\<close>, and a reduction is the list of its statements in the order of the source.

  Three readings of the same program are related: on machine words (the model of the code),
  on integers, and on intervals.  The interval reading is executable and refuses a program
  in which an intermediate result could leave the range of the word: where it accepts, the
  word reading is the integer reading, so no signed overflow occurs.
\<close>

section \<open>Statements and their three readings\<close>

text \<open>
  \<^item> \<open>CarryR k i j m\<close>: \<open>carry = (h[i] + (1 << (k-1))) >> k; h[j] += carry * m; h[i] -= carry << k\<close>
  \<^item> \<open>CarryF k i j\<close>: \<open>carry = h[i] >> k; h[j] += carry; h[i] -= carry << k\<close>
  \<^item> \<open>CarryTop k i\<close>: \<open>carry = h[i] >> k; h[i] -= carry << k\<close>
  \<^item> \<open>MulAdd i j c\<close>: \<open>h[i] += h[j] * c\<close>
  \<^item> \<open>MulSub i j c\<close>: \<open>h[i] -= h[j] * c\<close>
  \<^item> \<open>ClearLimb i\<close>: \<open>h[i] = 0\<close>
\<close>

datatype limb_op =
    CarryR nat nat nat int
  | CarryF nat nat nat
  | CarryTop nat nat
  | MulAdd nat nat int
  | MulSub nat nat int
  | ClearLimb nat

primrec exec_op :: "limb_op \<Rightarrow> 'a::len word list \<Rightarrow> 'a word list" where
  "exec_op (CarryR k i j m) h =
     (let carry = signed_drop_bit k (h ! i + push_bit (k - 1) 1)
      in h[j := h ! j + carry * word_of_int m, i := h ! i - push_bit k carry])"
| "exec_op (CarryF k i j) h =
     (let carry = signed_drop_bit k (h ! i)
      in h[j := h ! j + carry, i := h ! i - push_bit k carry])"
| "exec_op (CarryTop k i) h =
     (let carry = signed_drop_bit k (h ! i) in h[i := h ! i - push_bit k carry])"
| "exec_op (MulAdd i j c) h = h[i := h ! i + h ! j * word_of_int c]"
| "exec_op (MulSub i j c) h = h[i := h ! i - h ! j * word_of_int c]"
| "exec_op (ClearLimb i) h = h[i := 0]"

primrec int_op :: "limb_op \<Rightarrow> int list \<Rightarrow> int list" where
  "int_op (CarryR k i j m) h =
     (let carry = (h ! i + 2 ^ (k - 1)) div 2 ^ k
      in h[j := h ! j + carry * m, i := h ! i - carry * 2 ^ k])"
| "int_op (CarryF k i j) h =
     (let carry = h ! i div 2 ^ k in h[j := h ! j + carry, i := h ! i - carry * 2 ^ k])"
| "int_op (CarryTop k i) h =
     (let carry = h ! i div 2 ^ k in h[i := h ! i - carry * 2 ^ k])"
| "int_op (MulAdd i j c) h = h[i := h ! i + h ! j * c]"
| "int_op (MulSub i j c) h = h[i := h ! i - h ! j * c]"
| "int_op (ClearLimb i) h = h[i := 0]"

definition exec_ops :: "limb_op list \<Rightarrow> 'a::len word list \<Rightarrow> 'a word list" where
  "exec_ops ops h = fold exec_op ops h"

definition int_ops :: "limb_op list \<Rightarrow> int list \<Rightarrow> int list" where
  "int_ops ops h = fold int_op ops h"

text \<open>
  The interval reading, for words of \<open>w\<close> bits: \<open>None\<close> when a statement is ill-formed or
  may overflow.
\<close>

type_synonym iv = "int \<times> int"

primrec iv_op :: "nat \<Rightarrow> limb_op \<Rightarrow> iv list \<Rightarrow> iv list option" where
  "iv_op w (CarryR k i j m) B =
     (let (a, b) = B ! i; (c, d) = B ! j; r = 2 ^ (k - 1);
          lo = (a + r) div 2 ^ k; hi = (b + r) div 2 ^ k
      in if i < length B \<and> j < length B \<and> i \<noteq> j \<and> 0 < k \<and> k < w - 1 \<and> 0 \<le> m \<and>
            in_range w (a + r) \<and> in_range w (b + r) \<and>
            in_range w (lo * m) \<and> in_range w (hi * m) \<and>
            in_range w (c + lo * m) \<and> in_range w (d + hi * m) \<and>
            in_range w (lo * 2 ^ k) \<and> in_range w (hi * 2 ^ k)
         then Some (B[j := (c + lo * m, d + hi * m), i := (- r, r - 1)]) else None)"
| "iv_op w (CarryF k i j) B =
     (let (a, b) = B ! i; (c, d) = B ! j; lo = a div 2 ^ k; hi = b div 2 ^ k
      in if i < length B \<and> j < length B \<and> i \<noteq> j \<and> k < w - 1 \<and>
            in_range w (c + lo) \<and> in_range w (d + hi) \<and>
            in_range w (lo * 2 ^ k) \<and> in_range w (hi * 2 ^ k)
         then Some (B[j := (c + lo, d + hi), i := (0, 2 ^ k - 1)]) else None)"
| "iv_op w (CarryTop k i) B =
     (let (a, b) = B ! i; lo = a div 2 ^ k; hi = b div 2 ^ k
      in if i < length B \<and> k < w - 1 \<and>
            in_range w (lo * 2 ^ k) \<and> in_range w (hi * 2 ^ k)
         then Some (B[i := (0, 2 ^ k - 1)]) else None)"
| "iv_op w (MulAdd i j m) B =
     (let (a, b) = B ! i; (c, d) = B ! j
      in if i < length B \<and> j < length B \<and> 0 \<le> m \<and>
            in_range w (c * m) \<and> in_range w (d * m) \<and>
            in_range w (a + c * m) \<and> in_range w (b + d * m)
         then Some (B[i := (a + c * m, b + d * m)]) else None)"
| "iv_op w (MulSub i j m) B =
     (let (a, b) = B ! i; (c, d) = B ! j
      in if i < length B \<and> j < length B \<and> 0 \<le> m \<and>
            in_range w (c * m) \<and> in_range w (d * m) \<and>
            in_range w (a - d * m) \<and> in_range w (b - c * m)
         then Some (B[i := (a - d * m, b - c * m)]) else None)"
| "iv_op w (ClearLimb i) B = (if i < length B then Some (B[i := (0, 0)]) else None)"

primrec iv_ops :: "nat \<Rightarrow> limb_op list \<Rightarrow> iv list \<Rightarrow> iv list option" where
  "iv_ops w [] B = Some B"
| "iv_ops w (p # ops) B = (case iv_op w p B of None \<Rightarrow> None | Some C \<Rightarrow> iv_ops w ops C)"

definition iv_ok :: "int list \<Rightarrow> iv list \<Rightarrow> bool" where
  "iv_ok xs B \<longleftrightarrow> length xs = length B \<and>
     (\<forall>i<length B. fst (B ! i) \<le> xs ! i \<and> xs ! i \<le> snd (B ! i))"

section \<open>Soundness of the interval reading\<close>

lemma in_range_between:
  "in_range w a \<Longrightarrow> in_range w b \<Longrightarrow> a \<le> x \<Longrightarrow> x \<le> b \<Longrightarrow> in_range w x"
  by (auto simp: in_range_def)

lemma mult_between:
  fixes x :: int
  assumes "0 \<le> m" and "a \<le> x" and "x \<le> b"
  shows "a * m \<le> x * m" and "x * m \<le> b * m"
  using assms by (auto intro: mult_right_mono)

lemma iv_ok_nth: "iv_ok xs B \<Longrightarrow> i < length B \<Longrightarrow> B ! i = (a, b) \<Longrightarrow> a \<le> xs ! i \<and> xs ! i \<le> b"
  by (auto simp: iv_ok_def)

lemma iv_ok_length: "iv_ok xs B \<Longrightarrow> length xs = length B"
  by (simp add: iv_ok_def)

lemma iv_ok_Nil [simp]: "iv_ok [] []"
  by (simp add: iv_ok_def)

lemma iv_ok_Cons [simp]: "iv_ok (x # xs) ((a, b) # B) \<longleftrightarrow> a \<le> x \<and> x
    \<le> b \<and> iv_ok xs B"
  by (auto simp: iv_ok_def All_less_Suc2)

lemma iv_ok_update:
  "iv_ok xs B \<Longrightarrow> a \<le> x \<Longrightarrow> x \<le> b \<Longrightarrow> iv_ok (xs[i := x]) (B[i := (a, b)])"
  unfolding iv_ok_def by (metis fst_conv length_list_update nth_list_update_eq nth_list_update_neq snd_conv)

lemma sint_round_const:
  "0 < k \<Longrightarrow> k < LENGTH('a::len) - 1 \<Longrightarrow> sint (push_bit (k - 1) 1 :: 'a word) = 2 ^ (k - 1)"
proof -
  assume k: "0 < k" "k < LENGTH('a) - 1"
  then have "(2::int) ^ (k - 1) < 2 ^ (LENGTH('a) - 1)" by (intro power_strict_increasing) auto
  moreover have "- (2 ^ (LENGTH('a) - 1)) \<le> (2::int) ^ (k - 1)"
    by (rule order_trans [of _ 0]) auto
  ultimately have "in_range LENGTH('a) (2 ^ (k - 1))" by (simp add: in_range_def)
  then show ?thesis
    using sint_of_int_exact [of "2 ^ (k - 1)", where 'a = 'a] by (simp add: push_bit_eq_mult)
qed

lemma in_range_small: "0 \<le> x \<Longrightarrow> x < 2 ^ k \<Longrightarrow> k < w - 1 \<Longrightarrow> in_range w x"
  unfolding in_range_def
  by (smt (verit) power_strict_increasing zero_less_power)

lemma in_range_rem:
  assumes "k < w - 1" and "0 \<le> r" and "r \<le> 2 ^ k"
  shows "in_range w (x mod 2 ^ k - r)"
proof -
  have "0 \<le> x mod 2 ^ k" "x mod 2 ^ k < 2 ^ k" by simp_all
  moreover have "(2::int) ^ k < 2 ^ (w - 1)" using assms(1) by (intro power_strict_increasing) auto
  ultimately show ?thesis using assms(2,3) unfolding in_range_def by linarith
qed

lemma minus_div_mult: "(x::int) - (x + r) div m * m = (x + r) mod m - r"
  using div_mult_mod_eq [of "x + r" m] by linarith

lemma two_pow_half: "0 < k \<Longrightarrow> (2::int) ^ k = 2 * 2 ^ (k - 1)"
  by (cases k) auto

lemma carry_round_exact:
  fixes x :: "'a::len word"
  assumes "0 < k" and "k < LENGTH('a) - 1" and "a \<le> sint x" and "sint x \<le> b"
    and "in_range LENGTH('a) (a + 2 ^ (k - 1))" and "in_range LENGTH('a) (b + 2 ^ (k - 1))"
  shows "sint (signed_drop_bit k (x + push_bit (k - 1) 1)) = (sint x + 2 ^ (k - 1)) div 2 ^ k"
    and "(a + 2 ^ (k - 1)) div 2 ^ k \<le> (sint x + 2 ^ (k - 1)) div 2 ^ k"
    and "(sint x + 2 ^ (k - 1)) div 2 ^ k \<le> (b + 2 ^ (k - 1)) div 2 ^ k"
proof -
  have "in_range LENGTH('a) (sint x + 2 ^ (k - 1))"
    by (rule in_range_between [OF assms(5,6)]) (use assms(3,4) in auto)
  then have "sint (x + push_bit (k - 1) 1) = sint x + 2 ^ (k - 1)"
    by (rule sint_add_exact [of x "push_bit (k - 1) 1", unfolded sint_round_const [OF assms(1,2)]])
  then show "sint (signed_drop_bit k (x + push_bit (k - 1) 1)) = (sint x + 2 ^ (k - 1)) div 2 ^ k"
    by simp
  show "(a + 2 ^ (k - 1)) div 2 ^ k \<le> (sint x + 2 ^ (k - 1)) div 2 ^ k"
    using assms(3) by (intro zdiv_mono1) auto
  show "(sint x + 2 ^ (k - 1)) div 2 ^ k \<le> (b + 2 ^ (k - 1)) div 2 ^ k"
    using assms(4) by (intro zdiv_mono1) auto
qed

text \<open>The remainder a carry leaves behind, on words and on integers.\<close>

lemma carry_rest_exact:
  fixes x c :: "'a::len word"
  assumes "k < LENGTH('a) - 1" and "0 \<le> r" and "r \<le> 2 ^ k"
    and "sint c = (sint x + r) div 2 ^ k"
    and "lo \<le> sint c" and "sint c \<le> hi"
    and "in_range LENGTH('a) (lo * 2 ^ k)" and "in_range LENGTH('a) (hi * 2 ^ k)"
  shows "sint (x - push_bit k c) = sint x - sint c * 2 ^ k"
    and "- r \<le> sint x - sint c * 2 ^ k" and "sint x - sint c * 2 ^ k < 2 ^ k - r"
proof -
  have rest: "sint x - sint c * 2 ^ k = (sint x + r) mod 2 ^ k - r"
    unfolding assms(4) by (rule minus_div_mult)
  have "in_range LENGTH('a) (sint c * 2 ^ k)"
    by (rule in_range_between [OF assms(7,8)]) (use assms(5,6) in auto)
  then have p: "sint (push_bit k c) = sint c * 2 ^ k" by (rule sint_push_exact)
  have "in_range LENGTH('a) (sint x - sint (push_bit k c))"
    unfolding p rest by (rule in_range_rem) fact+
  then show "sint (x - push_bit k c) = sint x - sint c * 2 ^ k"
    using sint_sub_exact [of x "push_bit k c"] p by simp
  show "- r \<le> sint x - sint c * 2 ^ k" "sint x - sint c * 2 ^ k < 2 ^ k - r"
    unfolding rest by simp_all
qed

text \<open>
  One statement: where the interval reading accepts, the word reading is the integer
  reading and its results lie in the new intervals.
\<close>

definition op_sound :: "'a::len word list \<Rightarrow> limb_op \<Rightarrow> iv list \<Rightarrow> bool" where
  "op_sound h p C \<longleftrightarrow>
     map sint (exec_op p h) = int_op p (map sint h) \<and> iv_ok (int_op p (map sint h)) C"

lemma sound_CarryR:
  fixes h :: "'a::len word list"
  assumes ok: "iv_ok (map sint h) B" and acc: "iv_op LENGTH('a) (CarryR k i j m) B = Some C"
  shows "op_sound h (CarryR k i j m) C"
proof -
  let ?w = "LENGTH('a)"
  let ?r = "(2::int) ^ (k - 1)"
  obtain a b where ab: "B ! i = (a, b)" by (cases "B ! i")
  obtain c d where cd: "B ! j = (c, d)" by (cases "B ! j")
  let ?lo = "(a + ?r) div 2 ^ k"
  let ?hi = "(b + ?r) div 2 ^ k"
  let ?x = "h ! i"
  let ?y = "h ! j"
  let ?c = "signed_drop_bit k (?x + push_bit (k - 1) 1)"
  from acc have g: "i < length B" "j < length B" "i \<noteq> j" "0 < k" "k < ?w - 1" "0 \<le> m"
      "in_range ?w (a + ?r)" "in_range ?w (b + ?r)" "in_range ?w (?lo * m)" "in_range ?w (?hi * m)"
      "in_range ?w (c + ?lo * m)" "in_range ?w (d + ?hi * m)"
      "in_range ?w (?lo * 2 ^ k)" "in_range ?w (?hi * 2 ^ k)"
    and C: "C = B[j := (c + ?lo * m, d + ?hi * m), i := (- ?r, ?r - 1)]"
    by (simp_all add: ab cd Let_def split: if_splits)
  have len: "length h = length B" using iv_ok_length [OF ok] by simp
  have x: "a \<le> sint ?x" "sint ?x \<le> b" and y: "c \<le> sint ?y" "sint ?y \<le> d"
    using iv_ok_nth [OF ok g(1) ab] iv_ok_nth [OF ok g(2) cd] g(1,2) len by simp_all
  note cr = carry_round_exact [OF g(4,5) x g(7,8)]
  have clo: "?lo \<le> sint ?c" and chi: "sint ?c \<le> ?hi" using cr by simp_all
  note mb = mult_between [OF g(6) clo chi]
  have "in_range ?w (sint ?c * m)" by (rule in_range_between [OF g(9,10) mb])
  then have cm: "sint (?c * word_of_int m) = sint ?c * m" by (rule sint_mult_const_exact)
  have "in_range ?w (sint ?y + sint ?c * m)"
    by (rule in_range_between [OF g(11,12)]) (use mb y in linarith)+
  then have y': "sint (?y + ?c * word_of_int m) = sint ?y + sint ?c * m"
    using sint_add_exact [of ?y "?c * word_of_int m"] cm by simp
  note rest = carry_rest_exact [OF g(5) _ _ cr(1) clo chi g(13,14)]
  have r: "0 \<le> ?r" "?r \<le> 2 ^ k" using two_pow_half [OF g(4)] by simp_all
  have "iv_ok ((map sint h)[j := sint ?y + sint ?c * m, i := sint ?x - sint ?c * 2 ^ k]) C"
    unfolding C using rest(2,3) [OF r] two_pow_half [OF g(4)] mb y
    by (intro iv_ok_update ok) linarith+
  moreover have "map sint (exec_op (CarryR k i j m) h)
      = (map sint h)[j := sint ?y + sint ?c * m, i := sint ?x - sint ?c * 2 ^ k]"
    by (simp only: exec_op.simps Let_def map_update y' rest(1) [OF r])
  moreover have "int_op (CarryR k i j m) (map sint h)
      = (map sint h)[j := sint ?y + sint ?c * m, i := sint ?x - sint ?c * 2 ^ k]"
    unfolding cr(1) using g(1,2) len by (simp add: Let_def)
  ultimately show ?thesis by (simp only: op_sound_def)
qed

lemma sound_CarryF:
  fixes h :: "'a::len word list"
  assumes ok: "iv_ok (map sint h) B" and acc: "iv_op LENGTH('a) (CarryF k i j) B = Some C"
  shows "op_sound h (CarryF k i j) C"
proof -
  let ?w = "LENGTH('a)"
  obtain a b where ab: "B ! i = (a, b)" by (cases "B ! i")
  obtain c d where cd: "B ! j = (c, d)" by (cases "B ! j")
  let ?lo = "a div 2 ^ k"
  let ?hi = "b div 2 ^ k"
  let ?x = "h ! i"
  let ?y = "h ! j"
  let ?c = "signed_drop_bit k ?x"
  from acc have g: "i < length B" "j < length B" "i \<noteq> j" "k < ?w - 1"
      "in_range ?w (c + ?lo)" "in_range ?w (d + ?hi)"
      "in_range ?w (?lo * 2 ^ k)" "in_range ?w (?hi * 2 ^ k)"
    and C: "C = B[j := (c + ?lo, d + ?hi), i := (0, 2 ^ k - 1)]"
    by (simp_all add: ab cd Let_def split: if_splits)
  have len: "length h = length B" using iv_ok_length [OF ok] by simp
  have x: "a \<le> sint ?x" "sint ?x \<le> b" and y: "c \<le> sint ?y" "sint ?y \<le> d"
    using iv_ok_nth [OF ok g(1) ab] iv_ok_nth [OF ok g(2) cd] g(1,2) len by simp_all
  have clo: "?lo \<le> sint ?c" and chi: "sint ?c \<le> ?hi" using x by (simp_all add: zdiv_mono1)
  have "in_range ?w (sint ?y + sint ?c)"
    by (rule in_range_between [OF g(5,6)]) (use clo chi y in linarith)+
  then have y': "sint (?y + ?c) = sint ?y + sint ?c" by (rule sint_add_exact)
  note rest = carry_rest_exact [where r = 0, OF g(4) _ _ _ clo chi g(7,8), simplified]
  have "iv_ok ((map sint h)[j := sint ?y + sint ?c, i := sint ?x - sint ?c * 2 ^ k]) C"
    unfolding C using rest(2,3) clo chi y
    by (intro iv_ok_update ok) simp_all
  then show ?thesis
    using g(1-3) len rest(1) y'
    by (simp add: op_sound_def Let_def map_update)
qed

lemma sound_CarryTop:
  fixes h :: "'a::len word list"
  assumes ok: "iv_ok (map sint h) B" and acc: "iv_op LENGTH('a) (CarryTop k i) B = Some C"
  shows "op_sound h (CarryTop k i) C"
proof -
  let ?w = "LENGTH('a)"
  obtain a b where ab: "B ! i = (a, b)" by (cases "B ! i")
  let ?lo = "a div 2 ^ k"
  let ?hi = "b div 2 ^ k"
  let ?x = "h ! i"
  let ?c = "signed_drop_bit k ?x"
  from acc have g: "i < length B" "k < ?w - 1"
      "in_range ?w (?lo * 2 ^ k)" "in_range ?w (?hi * 2 ^ k)"
    and C: "C = B[i := (0, 2 ^ k - 1)]"
    by (simp_all add: ab Let_def split: if_splits)
  have len: "length h = length B" using iv_ok_length [OF ok] by simp
  have x: "a \<le> sint ?x" "sint ?x \<le> b" using iv_ok_nth [OF ok g(1) ab] g(1) len by simp_all
  have clo: "?lo \<le> sint ?c" and chi: "sint ?c \<le> ?hi" using x by (simp_all add: zdiv_mono1)
  note rest = carry_rest_exact [where r = 0, OF g(2) _ _ _ clo chi g(3,4), simplified]
  have "iv_ok ((map sint h)[i := sint ?x - sint ?c * 2 ^ k]) C"
    unfolding C using rest(2,3) by (intro iv_ok_update ok) simp_all
  then show ?thesis
    using g(1) len rest(1) by (simp add: op_sound_def Let_def map_update)
qed

lemma sound_MulAdd:
  fixes h :: "'a::len word list"
  assumes ok: "iv_ok (map sint h) B" and acc: "iv_op LENGTH('a) (MulAdd i j m) B = Some C"
  shows "op_sound h (MulAdd i j m) C"
proof -
  let ?w = "LENGTH('a)"
  obtain a b where ab: "B ! i = (a, b)" by (cases "B ! i")
  obtain c d where cd: "B ! j = (c, d)" by (cases "B ! j")
  from acc have g: "i < length B" "j < length B" "0 \<le> m" "in_range ?w (c * m)" "in_range ?w (d * m)"
      "in_range ?w (a + c * m)" "in_range ?w (b + d * m)"
    and C: "C = B[i := (a + c * m, b + d * m)]"
    by (simp_all add: ab cd Let_def split: if_splits)
  have len: "length h = length B" using iv_ok_length [OF ok] by simp
  have x: "a \<le> sint (h ! i)" "sint (h ! i) \<le> b" and y: "c \<le> sint (h ! j)" "sint (h ! j) \<le> d"
    using iv_ok_nth [OF ok g(1) ab] iv_ok_nth [OF ok g(2) cd] g(1,2) len by simp_all
  note mb = mult_between [OF g(3) y]
  have "in_range ?w (sint (h ! j) * m)" by (rule in_range_between [OF g(4,5) mb])
  then have cm: "sint (h ! j * word_of_int m) = sint (h ! j) * m" by (rule sint_mult_const_exact)
  have "in_range ?w (sint (h ! i) + sint (h ! j) * m)"
    by (rule in_range_between [OF g(6,7)]) (use mb x in linarith)+
  then have s: "sint (h ! i + h ! j * word_of_int m) = sint (h ! i) + sint (h ! j) * m"
    using sint_add_exact [of "h ! i" "h ! j * word_of_int m"] cm by simp
  have "iv_ok ((map sint h)[i := sint (h ! i) + sint (h ! j) * m]) C"
    unfolding C using mb x by (intro iv_ok_update ok) linarith+
  then show ?thesis using g(1,2) len by (simp add: op_sound_def map_update s)
qed

lemma sound_MulSub:
  fixes h :: "'a::len word list"
  assumes ok: "iv_ok (map sint h) B" and acc: "iv_op LENGTH('a) (MulSub i j m) B = Some C"
  shows "op_sound h (MulSub i j m) C"
proof -
  let ?w = "LENGTH('a)"
  obtain a b where ab: "B ! i = (a, b)" by (cases "B ! i")
  obtain c d where cd: "B ! j = (c, d)" by (cases "B ! j")
  from acc have g: "i < length B" "j < length B" "0 \<le> m" "in_range ?w (c * m)" "in_range ?w (d * m)"
      "in_range ?w (a - d * m)" "in_range ?w (b - c * m)"
    and C: "C = B[i := (a - d * m, b - c * m)]"
    by (simp_all add: ab cd Let_def split: if_splits)
  have len: "length h = length B" using iv_ok_length [OF ok] by simp
  have x: "a \<le> sint (h ! i)" "sint (h ! i) \<le> b" and y: "c \<le> sint (h ! j)" "sint (h ! j) \<le> d"
    using iv_ok_nth [OF ok g(1) ab] iv_ok_nth [OF ok g(2) cd] g(1,2) len by simp_all
  note mb = mult_between [OF g(3) y]
  have "in_range ?w (sint (h ! j) * m)" by (rule in_range_between [OF g(4,5) mb])
  then have cm: "sint (h ! j * word_of_int m) = sint (h ! j) * m" by (rule sint_mult_const_exact)
  have "in_range ?w (sint (h ! i) - sint (h ! j) * m)"
    by (rule in_range_between [OF g(6,7)]) (use mb x in linarith)+
  then have s: "sint (h ! i - h ! j * word_of_int m) = sint (h ! i) - sint (h ! j) * m"
    using sint_sub_exact [of "h ! i" "h ! j * word_of_int m"] cm by simp
  have "iv_ok ((map sint h)[i := sint (h ! i) - sint (h ! j) * m]) C"
    unfolding C using mb x by (intro iv_ok_update ok) linarith+
  then show ?thesis using g(1,2) len by (simp add: op_sound_def map_update s)
qed

lemma sound_ClearLimb:
  fixes h :: "'a::len word list"
  assumes ok: "iv_ok (map sint h) B" and acc: "iv_op LENGTH('a) (ClearLimb i) B = Some C"
  shows "op_sound h (ClearLimb i) C"
proof -
  from acc have C: "C = B[i := (0, 0)]" by (simp split: if_splits)
  have "iv_ok ((map sint h)[i := 0]) C" unfolding C by (intro iv_ok_update ok) simp_all
  then show ?thesis by (simp add: op_sound_def map_update)
qed

lemma iv_op_sound:
  fixes h :: "'a::len word list"
  assumes "iv_ok (map sint h) B" and "iv_op LENGTH('a) p B = Some C"
  shows "op_sound h p C"
  using assms
  by (cases p)
    (blast intro: sound_CarryR sound_CarryF sound_CarryTop sound_MulAdd sound_MulSub
      sound_ClearLimb)+

theorem iv_ops_sound:
  fixes h :: "'a::len word list"
  assumes "iv_ok (map sint h) B" and "iv_ops LENGTH('a) ops B = Some C"
  shows "map sint (exec_ops ops h) = int_ops ops (map sint h)"
    and "iv_ok (int_ops ops (map sint h)) C"
proof -
  have "map sint (fold exec_op ops h) = fold int_op ops (map sint h)
      \<and> iv_ok (fold int_op ops (map sint h)) C"
    using assms
  proof (induction ops arbitrary: h B)
    case Nil
    then show ?case by simp
  next
    case (Cons p ops)
    then obtain D where D: "iv_op LENGTH('a) p B = Some D" and rest: "iv_ops LENGTH('a) ops D = Some C"
      by (auto split: option.splits)
    from iv_op_sound [OF Cons.prems(1) D] have
      eq: "map sint (exec_op p h) = int_op p (map sint h)" and ok: "iv_ok (map sint (exec_op p h)) D"
      by (simp_all add: op_sound_def)
    from Cons.IH [OF ok rest] show ?case by (simp add: eq)
  qed
  then show "map sint (exec_ops ops h) = int_ops ops (map sint h)"
    and "iv_ok (int_ops ops (map sint h)) C"
    by (simp_all add: exec_ops_def int_ops_def)
qed

text \<open>
  The form in which the reading is used: the program runs on the intervals \<open>B\<close> and ends
  inside the intervals \<open>D\<close>.  Both are concrete numbers, so it is decided by evaluation.
\<close>

definition iv_le :: "iv list \<Rightarrow> iv list \<Rightarrow> bool" where
  "iv_le B D \<longleftrightarrow> list_all2 (\<lambda>x y. fst y \<le> fst x \<and> snd x \<le> snd y) B D"

definition iv_run :: "nat \<Rightarrow> limb_op list \<Rightarrow> iv list \<Rightarrow> iv list \<Rightarrow> bool" where
  "iv_run w ops B D \<longleftrightarrow> (case iv_ops w ops B of None \<Rightarrow> False | Some C \<Rightarrow> iv_le C D)"

lemma iv_ok_mono: "iv_ok xs B \<Longrightarrow> iv_le B D \<Longrightarrow> iv_ok xs D"
  unfolding iv_ok_def iv_le_def list_all2_conv_all_nth by fastforce

lemma iv_run_sound:
  fixes h :: "'a::len word list"
  assumes "iv_run LENGTH('a) ops B D" and "iv_ok (map sint h) B"
  shows "map sint (exec_ops ops h) = int_ops ops (map sint h)"
    and "iv_ok (int_ops ops (map sint h)) D"
proof -
  from assms(1) obtain C where C: "iv_ops LENGTH('a) ops B = Some C" and le: "iv_le C D"
    by (auto simp: iv_run_def split: option.splits)
  show "map sint (exec_ops ops h) = int_ops ops (map sint h)"
    by (rule iv_ops_sound(1) [OF assms(2) C])
  show "iv_ok (int_ops ops (map sint h)) D"
    by (rule iv_ok_mono [OF iv_ops_sound(2) [OF assms(2) C] le])
qed

lemma length_exec_op [simp]: "length (exec_op p h) = length h"
  by (cases p) (simp_all add: Let_def)

lemma length_exec_ops [simp]: "length (exec_ops ops h) = length h"
  unfolding exec_ops_def by (induction ops arbitrary: h) simp_all

lemma length_int_op [simp]: "length (int_op p h) = length h"
  by (cases p) (simp_all add: Let_def)

lemma length_int_ops [simp]: "length (int_ops ops h) = length h"
  unfolding int_ops_def by (induction ops arbitrary: h) simp_all

lemma int_ops_append: "int_ops (xs @ ys) h = int_ops ys (int_ops xs h)"
  by (simp add: int_ops_def)

lemma int_ops_Nil [simp]: "int_ops [] h = h"
  by (simp add: int_ops_def)

lemma int_ops_Cons [simp]: "int_ops (p # ps) h = int_ops ps (int_op p h)"
  by (simp add: int_ops_def)

lemma exec_ops_append: "exec_ops (xs @ ys) h = exec_ops ys (exec_ops xs h)"
  by (simp add: exec_ops_def)

lemma iv_ok_take: "iv_ok xs B \<Longrightarrow> iv_ok (take n xs) (take n B)"
  by (simp add: iv_ok_def)

lemma iv_ok_map: "iv_ok (map f [0..<n]) (map g [0..<n]) \<longleftrightarrow> (\<forall>i<n. fst (g i) \<le> f i \<and> f i \<le> snd (g i))"
  by (simp add: iv_ok_def)

lemma iv_ok_append: "iv_ok xs B \<Longrightarrow> iv_ok ys D \<Longrightarrow> iv_ok (xs @ ys) (B @ D)"
  by (auto simp: iv_ok_def nth_append)

lemma map_sint_of_iv:
  assumes "iv_ok xs B" and "\<forall>(a, b)\<in>set B. in_range LENGTH('a::len) a \<and> in_range LENGTH('a) b"
  shows "map sint (map word_of_int xs :: 'a word list) = xs"
proof -
  have "in_range LENGTH('a) (xs ! i)" if "i < length xs" for i
    using assms that nth_mem [of i B] unfolding iv_ok_def
    by (cases "B ! i") (fastforce intro: in_range_between)
  then show ?thesis by (simp add: list_eq_iff_nth_eq sint_of_int_exact)
qed

text \<open>A program that only touches the first \<open>n\<close> limbs.\<close>

primrec op_within :: "nat \<Rightarrow> limb_op \<Rightarrow> bool" where
  "op_within n (CarryR k i j m) \<longleftrightarrow> i < n \<and> j < n"
| "op_within n (CarryF k i j) \<longleftrightarrow> i < n \<and> j < n"
| "op_within n (CarryTop k i) \<longleftrightarrow> i < n"
| "op_within n (MulAdd i j c) \<longleftrightarrow> i < n \<and> j < n"
| "op_within n (MulSub i j c) \<longleftrightarrow> i < n \<and> j < n"
| "op_within n (ClearLimb i) \<longleftrightarrow> i < n"

lemma exec_op_take: "op_within n p \<Longrightarrow> exec_op p (take n h) = take n (exec_op p h)"
  by (cases p) (simp_all add: Let_def take_update_swap)

lemma exec_ops_take: "list_all (op_within n) ops \<Longrightarrow> exec_ops ops (take n h) = take n (exec_ops ops h)"
  unfolding exec_ops_def by (induction ops arbitrary: h) (simp_all add: exec_op_take)

end
