(* ===== verification/Radix.thy ===== *)
theory Radix
  imports Limbs
begin

text \<open>
  The number a list of limbs stands for, and the contract of a mixed radix: which carry
  statements keep that number, exactly or modulo the modulus of the reduction.  The field
  elements of \<open>crypto-ops.c\<close> (radix 2^25.5, modulus 2^255 - 19) and its scalars (radix
  2^21) both interpret the contract.
\<close>

definition limb_value :: "(nat \<Rightarrow> int) \<Rightarrow> nat \<Rightarrow> int list \<Rightarrow> int" where
  "limb_value wt n h = (\<Sum>i<n. wt i * h ! i)"

lemma limb_value_update:
  assumes "i < n" and "n \<le> length h"
  shows "limb_value wt n (h[i := v]) = limb_value wt n h + wt i * (v - h ! i)"
proof -
  have fin: "finite {..<n}" and i: "i \<in> {..<n}" using assms(1) by simp_all
  have "limb_value wt n (h[i := v]) = wt i * v + (\<Sum>k\<in>{..<n} - {i}. wt k * h[i := v] ! k)"
    unfolding limb_value_def by (subst sum.remove [OF fin i]) (use assms in simp)
  also have "(\<Sum>k\<in>{..<n} - {i}. wt k * h[i := v] ! k) = (\<Sum>k\<in>{..<n} - {i}. wt k * h ! k)"
    by (rule sum.cong) auto
  also have "wt i * v + \<dots> = wt i * h ! i + \<dots> + wt i * (v - h ! i)"
    by (simp add: algebra_simps)
  also have "wt i * h ! i + (\<Sum>k\<in>{..<n} - {i}. wt k * h ! k) = limb_value wt n h"
    unfolding limb_value_def by (subst sum.remove [OF fin i]) simp
  finally show ?thesis .
qed

lemma limb_value_update_ge: "n \<le> i \<Longrightarrow> limb_value wt n (h[i := v]) = limb_value wt n h"
  unfolding limb_value_def by (rule sum.cong) auto

lemma limb_value_Suc: "limb_value wt (Suc n) h = limb_value wt n h + wt n * h ! n"
  by (simp add: limb_value_def)

lemma limb_value_bounds:
  assumes "iv_ok h B" and "n \<le> length B" and "\<And>i. 0 \<le> wt i"
  shows "limb_value wt n (map fst B) \<le> limb_value wt n h"
    and "limb_value wt n h \<le> limb_value wt n (map snd B)"
  using assms unfolding limb_value_def iv_ok_def
  by (auto intro!: sum_mono mult_left_mono)

lemma limb_value_linear:
  "(\<And>i. i < n \<Longrightarrow> h ! i = a ! i + e * b ! i) \<Longrightarrow>
     limb_value wt n h = limb_value wt n a + e * limb_value wt n b"
  by (simp add: limb_value_def sum.distrib sum_distrib_left algebra_simps)

lemma limb_value_take: "n \<le> m \<Longrightarrow> limb_value wt n (map sint (take m h)) = limb_value wt n (map sint h)"
  if "m \<le> length h" for h :: "'a::len word list"
  using that unfolding limb_value_def by (intro sum.cong) auto

lemma limb_value_snoc_0: "length h = n \<Longrightarrow> limb_value wt (Suc n) (h @ [0]) = limb_value wt n h"
  unfolding limb_value_Suc by (simp add: limb_value_def nth_append)

text \<open>The carry that leaves limb \<open>n - 1\<close> when \<open>q\<close> enters limb 0 and only carries are computed.\<close>

primrec carry_out :: "(nat \<Rightarrow> nat) \<Rightarrow> int \<Rightarrow> int list \<Rightarrow> nat \<Rightarrow> int" where
  "carry_out b q h 0 = q"
| "carry_out b q h (Suc n) = (h ! n + carry_out b q h n) div 2 ^ b n"

section \<open>The contract of a mixed radix\<close>

locale limb_radix =
  fixes wt :: "nat \<Rightarrow> int" and bits :: "nat \<Rightarrow> nat"
  assumes wt_Suc: "wt (Suc i) = wt i * 2 ^ bits i"
    and wt_0: "wt 0 = 1"
begin

lemma wt_pos: "0 < wt i"
  by (induction i) (simp_all add: wt_0 wt_Suc)

lemma value_CarryR:
  assumes "Suc i < n" and "n \<le> length h"
  shows "limb_value wt n (int_op (CarryR (bits i) i (Suc i) 1) h) = limb_value wt n h"
  using assms by (simp add: Let_def limb_value_update wt_Suc algebra_simps)

lemma value_CarryF:
  assumes "Suc i < n" and "n \<le> length h"
  shows "limb_value wt n (int_op (CarryF (bits i) i (Suc i)) h) = limb_value wt n h"
  using assms by (simp add: Let_def limb_value_update wt_Suc algebra_simps)

text \<open>A carry out of the last limb that is dropped takes a multiple of the next weight away.\<close>

lemma value_CarryTop:
  assumes "i < n" and "n \<le> length h"
  shows "limb_value wt n (int_op (CarryTop (bits i) i) h)
    = limb_value wt n h - wt (Suc i) * (h ! i div 2 ^ bits i)"
  using assms by (simp add: Let_def limb_value_update wt_Suc algebra_simps)

definition carry_stmt :: "nat \<Rightarrow> limb_op \<Rightarrow> bool" where
  "carry_stmt n p \<longleftrightarrow> (case p of
       CarryR k i j m \<Rightarrow> k = bits i \<and> j = Suc i \<and> m = 1 \<and> Suc i < n
     | CarryF k i j \<Rightarrow> k = bits i \<and> j = Suc i \<and> Suc i < n
     | _ \<Rightarrow> False)"

lemma value_carry_stmt:
  "carry_stmt n p \<Longrightarrow> n \<le> length h \<Longrightarrow> limb_value wt n (int_op p h) = limb_value wt n h"
  unfolding carry_stmt_def
  by (cases p) (auto simp del: int_op.simps simp: value_CarryR value_CarryF)

lemma value_carry_chain:
  "list_all (carry_stmt n) ops \<Longrightarrow> n \<le> length h \<Longrightarrow>
     limb_value wt n (int_ops ops h) = limb_value wt n h"
  by (induction ops arbitrary: h) (simp_all add: value_carry_stmt)

text \<open>
  Limbs that are non-negative and below their radix are the digits of the value: the value
  of the first \<open>n\<close> of them is below the next weight.
\<close>

lemma value_digits_bounds:
  assumes "\<And>i. i < n \<Longrightarrow> 0 \<le> h ! i \<and> h ! i < 2 ^ bits i"
  shows "0 \<le> limb_value wt n h \<and> limb_value wt n h < wt n"
  using assms
proof (induction n)
  case 0
  then show ?case by (simp add: limb_value_def wt_0)
next
  case (Suc n)
  have d: "0 \<le> h ! n" "h ! n + 1 \<le> 2 ^ bits n" using Suc.prems [of n] by auto
  have "0 \<le> wt n * h ! n" using d(1) wt_pos [of n] by simp
  moreover have "wt n * (h ! n + 1) \<le> wt n * 2 ^ bits n"
    using d(2) wt_pos [of n] by (intro mult_left_mono) auto
  ultimately show ?case
    using Suc.IH Suc.prems by (simp add: limb_value_Suc wt_Suc algebra_simps)
qed

lemma carry_out_value: "carry_out bits q h n = (limb_value wt n h + q) div wt n"
proof (induction n)
  case 0
  then show ?case by (simp add: limb_value_def wt_0)
next
  case (Suc n)
  have "(limb_value wt (Suc n) h + q) div wt (Suc n)
      = (limb_value wt n h + q + h ! n * wt n) div wt n div 2 ^ bits n"
    using wt_pos [of n] by (simp add: limb_value_Suc wt_Suc zdiv_zmult2_eq algebra_simps)
  also have "(limb_value wt n h + q + h ! n * wt n) div wt n = carry_out bits q h n + h ! n"
    using wt_pos [of n] Suc.IH by simp
  finally show ?case by (simp add: add.commute)
qed

lemma wt_dvd: "i \<le> n \<Longrightarrow> wt i dvd wt n"
  by (induction n rule: nat_induct_at_least [of i, consumes 1]) (simp_all add: wt_Suc)

lemma value_mod_wt: "i \<le> n \<Longrightarrow> limb_value wt n h mod wt i = limb_value wt i h mod wt i"
proof (induction n)
  case 0
  then show ?case by simp
next
  case (Suc n)
  show ?case
  proof (cases "i \<le> n")
    case True
    then obtain k where "wt n = wt i * k" using wt_dvd by (meson dvdE)
    then have "limb_value wt (Suc n) h mod wt i = limb_value wt n h mod wt i"
      by (simp add: limb_value_Suc mult.assoc)
    with Suc.IH True show ?thesis by simp
  next
    case False
    with Suc.prems have "i = Suc n" by simp
    then show ?thesis by simp
  qed
qed

text \<open>In-range limbs are the digits of the value, the last one its quotient.\<close>

lemma nth_top:
  assumes "\<And>j. j < n \<Longrightarrow> 0 \<le> h ! j \<and> h ! j < 2 ^ bits j"
  shows "h ! n = limb_value wt (Suc n) h div wt n"
  using value_digits_bounds [OF assms] wt_pos [of n] by (simp add: limb_value_Suc)

lemma nth_digit:
  assumes "\<And>j. j < n \<Longrightarrow> 0 \<le> h ! j \<and> h ! j < 2 ^ bits j" and "i < n" and "n \<le> m"
  shows "h ! i = limb_value wt m h div wt i mod 2 ^ bits i"
proof -
  have "0 \<le> limb_value wt (Suc i) h \<and> limb_value wt (Suc i) h < wt (Suc i)"
    using assms(1,2) by (intro value_digits_bounds) auto
  then have "limb_value wt (Suc i) h = limb_value wt m h mod wt (Suc i)"
    using value_mod_wt [of "Suc i" m h] assms(2,3) by simp
  then have "h ! i = limb_value wt m h mod (wt i * 2 ^ bits i) div wt i"
    using nth_top [of i h] assms(1,2) by (simp add: wt_Suc)
  also have "\<dots> = limb_value wt m h div wt i mod 2 ^ bits i"
    using wt_pos [of i] by (simp add: zmod_zmult2_eq)
  finally show ?thesis .
qed

end

text \<open>A radix whose carry out of the top limb re-enters at limb 0 with a factor.\<close>

locale wrap_radix = limb_radix +
  fixes top :: nat and factor :: int and modulus :: int
  assumes top_pos: "0 < top"
    and wrap: "wt (Suc top) = modulus + factor"
begin

lemma value_wrap:
  assumes "length h = Suc top"
  shows "limb_value wt (Suc top) (int_op (CarryR (bits top) top 0 factor) h) mod modulus
    = limb_value wt (Suc top) h mod modulus"
proof -
  let ?c = "(h ! top + 2 ^ (bits top - 1)) div 2 ^ bits top"
  have "limb_value wt (Suc top) (int_op (CarryR (bits top) top 0 factor) h)
      = limb_value wt (Suc top) h + ?c * factor - ?c * (wt top * 2 ^ bits top)"
    using assms top_pos by (simp add: Let_def limb_value_update wt_0 algebra_simps)
  also have "\<dots> = limb_value wt (Suc top) h - ?c * modulus"
    using wrap by (simp add: wt_Suc algebra_simps)
  also have "(limb_value wt (Suc top) h - ?c * modulus) mod modulus
      = limb_value wt (Suc top) h mod modulus"
    by (simp add: mod_diff_eq [symmetric])
  finally show ?thesis .
qed

definition wrap_stmt :: "limb_op \<Rightarrow> bool" where
  "wrap_stmt p \<longleftrightarrow> carry_stmt (Suc top) p \<or> p = CarryR (bits top) top 0 factor"

lemma value_wrap_chain:
  assumes "list_all wrap_stmt ops" and "length h = Suc top"
  shows "limb_value wt (Suc top) (int_ops ops h) mod modulus = limb_value wt (Suc top) h mod modulus"
  using assms
proof (induction ops arbitrary: h)
  case Nil
  then show ?case by simp
next
  case (Cons p ops)
  then have "limb_value wt (Suc top) (int_op p h) mod modulus
      = limb_value wt (Suc top) h mod modulus"
    using value_carry_stmt value_wrap unfolding wrap_stmt_def by auto
  with Cons show ?case by simp
qed

end

end
