(* ===== verification/Field25519.thy ===== *)
theory Field25519
  imports Prelude
begin

text \<open>
  The ring of integers modulo 2^255 - 19, over which the curve of \<open>crypto-ops.c\<close> is
  defined.  It is a type of its own with the library's ring class, so that identities
  between coordinates are ring identities, and \<open>of_int\<close> maps the number a field element
  stands for to its residue.
\<close>

definition p25519 :: int where
  "p25519 = 2 ^ 255 - 19"

lemma p25519_pos [simp]: "0 < p25519"
  by (simp add: p25519_def)

lemma p25519_gt1 [simp]: "1 < p25519"
  by (simp add: p25519_def)

typedef gf = "{0..<p25519}"
  by (rule exI [of _ 0]) simp

setup_lifting type_definition_gf

instantiation gf :: comm_ring_1
begin

lift_definition zero_gf :: gf is 0 by simp

lift_definition one_gf :: gf is 1 by simp

lift_definition plus_gf :: "gf \<Rightarrow> gf \<Rightarrow> gf" is "\<lambda>x y. (x + y) mod p25519"
  by simp

lift_definition uminus_gf :: "gf \<Rightarrow> gf" is "\<lambda>x. (- x) mod p25519"
  by simp

lift_definition minus_gf :: "gf \<Rightarrow> gf \<Rightarrow> gf" is "\<lambda>x y. (x - y) mod p25519"
  by simp

lift_definition times_gf :: "gf \<Rightarrow> gf \<Rightarrow> gf" is "\<lambda>x y. (x * y) mod p25519"
  by simp

instance
proof
  fix a b c :: gf
  show "a * b * c = a * (b * c)" by transfer (simp add: mod_simps mult.assoc)
  show "a * b = b * a" by transfer (simp add: mult.commute)
  show "1 * a = a" by transfer simp
  show "a + b + c = a + (b + c)" by transfer (simp add: mod_simps add.assoc)
  show "a + b = b + a" by transfer (simp add: add.commute)
  show "0 + a = a" by transfer simp
  show "- a + a = 0" by transfer (simp add: mod_simps)
  show "a - b = a + - b" by transfer (simp add: mod_simps)
  show "(a + b) * c = a * c + b * c" by transfer (simp add: mod_simps distrib_right)
  show "(0::gf) \<noteq> 1" by transfer simp
qed

end

lemma Rep_gf_of_nat: "Rep_gf (of_nat n) = int n mod p25519"
  by (induction n) (simp_all add: zero_gf.rep_eq one_gf.rep_eq plus_gf.rep_eq mod_simps add.commute)

lemma Rep_gf_of_int: "Rep_gf (of_int x) = x mod p25519"
  by (cases x rule: int_diff_cases) (simp add: minus_gf.rep_eq Rep_gf_of_nat mod_simps)

lemma of_int_gf_eq_iff: "(of_int x :: gf) = of_int y \<longleftrightarrow> x mod p25519 = y mod p25519"
  by (simp add: Rep_gf_inject [symmetric] Rep_gf_of_int)

lemma of_int_gf_zero_iff: "(of_int x :: gf) = 0 \<longleftrightarrow> x mod p25519 = 0"
  using of_int_gf_eq_iff [of x 0] by simp

lemma gf_of_int_mod [simp]: "(of_int (x mod p25519) :: gf) = of_int x"
  by (simp add: of_int_gf_eq_iff)

lemma gf_of_int_Rep: "of_int (Rep_gf x) = x"
proof -
  have "Rep_gf x \<in> {0..<p25519}" by (rule Rep_gf)
  then show ?thesis by (simp add: Rep_gf_inject [symmetric] Rep_gf_of_int)
qed

instantiation gf :: equal
begin

definition equal_gf :: "gf \<Rightarrow> gf \<Rightarrow> bool" where
  "equal_gf x y \<longleftrightarrow> Rep_gf x = Rep_gf y"

instance
  by standard (simp add: equal_gf_def Rep_gf_inject)

end

end
