(* ===== verification/FeArith.thy ===== *)
theory FeArith
  imports Fe
begin

text \<open>
  Correctness of the field arithmetic: every operation computes the ring operation modulo
  2^255 - 19 and keeps the limb bounds that the comments of \<open>crypto-ops.c\<close> state.  The
  products are compared with schoolbook multiplication on the integers; the carry chain is
  an instance of the radix contract of \<open>Radix\<close>, its absence of overflow an instance of
  the interval reading of \<open>Limbs\<close>.
\<close>

section \<open>Schoolbook multiplication on the integers\<close>

definition school_coef :: "nat \<Rightarrow> nat \<Rightarrow> int" where
  "school_coef i j = (if 10 \<le> i + j then 19 else 1) * (if odd i \<and> odd j then 2 else 1)"

definition fe_school :: "int list \<Rightarrow> int list \<Rightarrow> int list" where
  "fe_school F G =
     map (\<lambda>k. \<Sum>i\<leftarrow>[0..<10]. let j = (k + 10 - i) mod 10 in school_coef i j * (F ! i * G ! j)) [0..<10]"

lemma upt_10: "[0..<10] = [0, 1, 2, 3, 4, 5, 6, 7, 8, 9 :: nat]"
  by (simp add: upt_conv_Cons)

lemma fe_school_expand: "fe_school F G =
    [(F ! 0 * G ! 0) + 38 * (F ! 1 * G ! 9) + 19 * (F ! 2 * G ! 8) + 38 * (F ! 3 * G ! 7) +
      19 * (F ! 4 * G ! 6) + 38 * (F ! 5 * G ! 5) + 19 * (F ! 6 * G ! 4) + 38 * (F ! 7 * G ! 3) +
      19 * (F ! 8 * G ! 2) + 38 * (F ! 9 * G ! 1),
     (F ! 0 * G ! 1) + (F ! 1 * G ! 0) + 19 * (F ! 2 * G ! 9) + 19 * (F ! 3 * G ! 8) +
      19 * (F ! 4 * G ! 7) + 19 * (F ! 5 * G ! 6) + 19 * (F ! 6 * G ! 5) + 19 * (F ! 7 * G ! 4) +
      19 * (F ! 8 * G ! 3) + 19 * (F ! 9 * G ! 2),
     (F ! 0 * G ! 2) + 2 * (F ! 1 * G ! 1) + (F ! 2 * G ! 0) + 38 * (F ! 3 * G ! 9) +
      19 * (F ! 4 * G ! 8) + 38 * (F ! 5 * G ! 7) + 19 * (F ! 6 * G ! 6) + 38 * (F ! 7 * G ! 5) +
      19 * (F ! 8 * G ! 4) + 38 * (F ! 9 * G ! 3),
     (F ! 0 * G ! 3) + (F ! 1 * G ! 2) + (F ! 2 * G ! 1) + (F ! 3 * G ! 0) +
      19 * (F ! 4 * G ! 9) + 19 * (F ! 5 * G ! 8) + 19 * (F ! 6 * G ! 7) + 19 * (F ! 7 * G ! 6) +
      19 * (F ! 8 * G ! 5) + 19 * (F ! 9 * G ! 4),
     (F ! 0 * G ! 4) + 2 * (F ! 1 * G ! 3) + (F ! 2 * G ! 2) + 2 * (F ! 3 * G ! 1) +
      (F ! 4 * G ! 0) + 38 * (F ! 5 * G ! 9) + 19 * (F ! 6 * G ! 8) + 38 * (F ! 7 * G ! 7) +
      19 * (F ! 8 * G ! 6) + 38 * (F ! 9 * G ! 5),
     (F ! 0 * G ! 5) + (F ! 1 * G ! 4) + (F ! 2 * G ! 3) + (F ! 3 * G ! 2) + (F ! 4 * G ! 1) +
      (F ! 5 * G ! 0) + 19 * (F ! 6 * G ! 9) + 19 * (F ! 7 * G ! 8) + 19 * (F ! 8 * G ! 7) +
      19 * (F ! 9 * G ! 6),
     (F ! 0 * G ! 6) + 2 * (F ! 1 * G ! 5) + (F ! 2 * G ! 4) + 2 * (F ! 3 * G ! 3) +
      (F ! 4 * G ! 2) + 2 * (F ! 5 * G ! 1) + (F ! 6 * G ! 0) + 38 * (F ! 7 * G ! 9) +
      19 * (F ! 8 * G ! 8) + 38 * (F ! 9 * G ! 7),
     (F ! 0 * G ! 7) + (F ! 1 * G ! 6) + (F ! 2 * G ! 5) + (F ! 3 * G ! 4) + (F ! 4 * G ! 3) +
      (F ! 5 * G ! 2) + (F ! 6 * G ! 1) + (F ! 7 * G ! 0) + 19 * (F ! 8 * G ! 9) +
      19 * (F ! 9 * G ! 8),
     (F ! 0 * G ! 8) + 2 * (F ! 1 * G ! 7) + (F ! 2 * G ! 6) + 2 * (F ! 3 * G ! 5) +
      (F ! 4 * G ! 4) + 2 * (F ! 5 * G ! 3) + (F ! 6 * G ! 2) + 2 * (F ! 7 * G ! 1) +
      (F ! 8 * G ! 0) + 38 * (F ! 9 * G ! 9),
     (F ! 0 * G ! 9) + (F ! 1 * G ! 8) + (F ! 2 * G ! 7) + (F ! 3 * G ! 6) + (F ! 4 * G ! 5) +
      (F ! 5 * G ! 4) + (F ! 6 * G ! 3) + (F ! 7 * G ! 2) + (F ! 8 * G ! 1) + (F ! 9 * G ! 0)]"
  unfolding fe_school_def by (simp add: school_coef_def upt_10 numeral_2_eq_2 [symmetric])

lemma length_fe_school [simp]: "length (fe_school F G) = 10"
  by (simp add: fe_school_def)

lemma abs_sum_list_mono:
  fixes f g :: "'b \<Rightarrow> int"
  assumes "\<And>x. x \<in> set xs \<Longrightarrow> \<bar>f x\<bar> \<le> g x"
  shows "\<bar>\<Sum>x\<leftarrow>xs. f x\<bar> \<le> (\<Sum>x\<leftarrow>xs. g x)"
  using assms by (induction xs) (auto intro: order_trans [OF abs_triangle_ineq] add_mono)

lemma abs_mult_bound:
  fixes x :: int
  assumes "\<bar>x\<bar> \<le> a" and "\<bar>y\<bar> \<le> b"
  shows "\<bar>x * y\<bar> \<le> a * b"
  using assms by (simp add: abs_mult mult_mono)

text \<open>Limb bounds multiply like limbs: the bound of a product is the product of the bounds.\<close>

lemma fe_school_bound:
  assumes "\<And>i. i < 10 \<Longrightarrow> \<bar>F ! i\<bar> \<le> A ! i" and "\<And>i. i < 10 \<Longrightarrow> \<bar>G ! i\<bar> \<le> B ! i" and "k < 10"
  shows "\<bar>fe_school F G ! k\<bar> \<le> fe_school A B ! k"
proof -
  let ?j = "\<lambda>i. (k + 10 - i) mod 10"
  have c: "0 \<le> school_coef i j" for i j by (simp add: school_coef_def)
  have "\<bar>school_coef i (?j i) * (F ! i * G ! ?j i)\<bar> \<le> school_coef i (?j i) * (A ! i * B ! ?j i)"
    if "i \<in> set [0..<10]" for i
    using that assms(1,2) c by (intro abs_mult_bound) auto
  then show ?thesis
    unfolding fe_school_def Let_def using assms(3) by (simp, intro abs_sum_list_mono) simp
qed

definition sym_iv :: "int \<Rightarrow> int \<Rightarrow> iv list" where
  "sym_iv e d = [(- e, e), (- d, d), (- e, e), (- d, d), (- e, e),
                 (- d, d), (- e, e), (- d, d), (- e, e), (- d, d)]"

lemma abs_le_iff2: "\<bar>x::int\<bar> \<le> e \<longleftrightarrow> - e \<le> x \<and> x \<le> e"
  by arith

lemma sym_iv_nth:
  "\<forall>i<10. sym_iv e d ! i = (if even i then (- e, e) else (- d, d))"
  unfolding all_less_10 by (simp add: sym_iv_def)

lemma iv_ok_sym_iv:
  "iv_ok xs (sym_iv e d) \<longleftrightarrow> length xs = 10 \<and> (\<forall>i<10. \<bar>xs ! i\<bar> \<le> (if even i then e else d))"
proof -
  have "length (sym_iv e d) = 10" by (simp add: sym_iv_def)
  moreover have "(fst (sym_iv e d ! i) \<le> xs ! i \<and> xs ! i \<le> snd (sym_iv e d ! i))
      = (\<bar>xs ! i\<bar> \<le> (if even i then e else d))" if "i < 10" for i
    using sym_iv_nth [of e d, rule_format, OF that] by (cases "even i") (simp_all only: abs_le_iff2 fst_conv snd_conv if_True if_False)
  ultimately show ?thesis by (auto simp only: iv_ok_def)
qed

lemma fe_bounded_iv: "fe_bounded e d f \<longleftrightarrow> iv_ok (map sint f) (sym_iv e d)"
  unfolding fe_bounded_def iv_ok_sym_iv by (metis length_map nth_map)

lemma scast_mult_numeral:
  fixes x :: "'a::len word"
  assumes "in_range LENGTH('a) (numeral c * sint x)"
  shows "(scast (numeral c * x) :: 'b::len word) = numeral c * scast x"
proof -
  have "sint (numeral c * x) = numeral c * sint x"
    using sint_mult_const_exact [of x "numeral c"] assms by (simp add: mult.commute)
  then show ?thesis by (simp add: scast_of_int del: of_int_sint)
qed

lemma fe_school_value:
  "limb_value fe_wt 10 (fe_school F G) mod p25519
    = (limb_value fe_wt 10 F * limb_value fe_wt 10 G) mod p25519"
proof -
  let ?K = "
      2 * (F ! 1 * G ! 9) + (F ! 2 * G ! 8) + 67108864 * (F ! 2 * G ! 9) +
      2 * (F ! 3 * G ! 7) + 67108864 * (F ! 3 * G ! 8) + 4503599627370496 * (F ! 3 * G ! 9) +
      (F ! 4 * G ! 6) + 67108864 * (F ! 4 * G ! 7) + 2251799813685248 * (F ! 4 * G ! 8) +
      151115727451828646838272 * (F ! 4 * G ! 9) + 2 * (F ! 5 * G ! 5) +
      67108864 * (F ! 5 * G ! 6) + 4503599627370496 * (F ! 5 * G ! 7) +
      151115727451828646838272 * (F ! 5 * G ! 8) +
      10141204801825835211973625643008 * (F ! 5 * G ! 9) + (F ! 6 * G ! 4) +
      67108864 * (F ! 6 * G ! 5) + 2251799813685248 * (F ! 6 * G ! 6) +
      151115727451828646838272 * (F ! 6 * G ! 7) +
      5070602400912917605986812821504 * (F ! 6 * G ! 8) +
      340282366920938463463374607431768211456 * (F ! 6 * G ! 9) + 2 * (F ! 7 * G ! 3) +
      67108864 * (F ! 7 * G ! 4) + 4503599627370496 * (F ! 7 * G ! 5) +
      151115727451828646838272 * (F ! 7 * G ! 6) +
      10141204801825835211973625643008 * (F ! 7 * G ! 7) +
      340282366920938463463374607431768211456 * (F ! 7 * G ! 8) +
      22835963083295358096932575511191922182123945984 * (F ! 7 * G ! 9) + (F ! 8 * G ! 2) +
      67108864 * (F ! 8 * G ! 3) + 2251799813685248 * (F ! 8 * G ! 4) +
      151115727451828646838272 * (F ! 8 * G ! 5) +
      5070602400912917605986812821504 * (F ! 8 * G ! 6) +
      340282366920938463463374607431768211456 * (F ! 8 * G ! 7) +
      11417981541647679048466287755595961091061972992 * (F ! 8 * G ! 8) +
      766247770432944429179173513575154591809369561091801088 * (F ! 8 * G ! 9) +
      2 * (F ! 9 * G ! 1) + 67108864 * (F ! 9 * G ! 2) + 4503599627370496 * (F ! 9 * G ! 3) +
      151115727451828646838272 * (F ! 9 * G ! 4) +
      10141204801825835211973625643008 * (F ! 9 * G ! 5) +
      340282366920938463463374607431768211456 * (F ! 9 * G ! 6) +
      22835963083295358096932575511191922182123945984 * (F ! 9 * G ! 7) +
      766247770432944429179173513575154591809369561091801088 * (F ! 9 * G ! 8) +
      51422017416287688817342786954917203280710495801049370729644032 * (F ! 9 * G ! 9)"
  have "limb_value fe_wt 10 F * limb_value fe_wt 10 G
      = limb_value fe_wt 10 (fe_school F G) + p25519 * ?K"
    unfolding fe_value_expand fe_school_expand p25519_def
    by (simp add: algebra_simps)
  then show ?thesis by simp
qed

lemma fe_mul_h_words:
  assumes "fe_bounded 110729625 55364812 f" and "fe_bounded 110729625 55364812 g"
  shows "fe_mul_h f g = map word_of_int (fe_school (map sint f) (map sint g))"
proof -
  have len: "length f = 10" "length g = 10" using assms by (simp_all add: fe_bounded_def)
  have b: "\<bar>sint (f ! i)\<bar> \<le> 110729625" "\<bar>sint (g ! i)\<bar> \<le> 110729625" if "i < 10" for i
    using assms that unfolding fe_bounded_def by (auto intro: order_trans split: if_splits)
  have r: "in_range 32 (2 * sint (f ! i))" "in_range 32 (19 * sint (g ! i))" if "i < 10" for i
    using b [OF that] unfolding in_range_def by (simp_all add: abs_le_iff)
  show ?thesis
    unfolding fe_mul_h_def fe_school_expand Let_def
    using len by (simp add: scast_mult_numeral r mult.left_commute)
qed

lemma narrow_limbs:
  fixes h :: "i64 list"
  assumes "iv_ok (map sint h) (sym_iv 33889976 16944988)"
  shows "map sint (map scast h :: fe) = map sint h"
proof -
  have len: "length h = 10" using assms by (simp add: iv_ok_sym_iv)
  have "in_range 32 (sint (h ! i))" if "i < 10" for i
  proof -
    have "\<bar>sint (h ! i)\<bar> \<le> (if even i then 33889976 else 16944988)"
      using assms that len unfolding iv_ok_sym_iv by (metis nth_map)
    then show ?thesis by (simp add: in_range_def abs_le_iff2 split: if_splits)
  qed
  then show ?thesis using len by (simp add: list_eq_iff_nth_eq sint_scast_exact)
qed

lemma fe_reduce_correct:
  assumes "iv_ok (map sint h) (sym_iv 3053001392268886970 1888201660254294000)"
  shows "fe_bounded 33889976 16944988 (fe_reduce h)"
    and "fe_val (fe_reduce h) mod p25519 = limb_value fe_wt 10 (map sint h) mod p25519"
proof -
  have run: "iv_run LENGTH(64) fe_carries (sym_iv 3053001392268886970 1888201660254294000)
      (sym_iv 33889976 16944988)"
    by code_simp
  note s = iv_run_sound [OF run assms]
  have ok: "iv_ok (map sint (exec_ops fe_carries h)) (sym_iv 33889976 16944988)"
    using s by simp
  have len: "length h = 10" using assms by (simp add: iv_ok_sym_iv)
  have narrow: "map sint (fe_reduce h) = map sint (exec_ops fe_carries h)"
    unfolding fe_reduce_def by (rule narrow_limbs [OF ok])
  show "fe_bounded 33889976 16944988 (fe_reduce h)"
    unfolding fe_bounded_iv narrow by (rule ok)
  have "list_all fe_radix.wrap_stmt fe_carries"
    by (simp add: fe_carries_def fe_radix.wrap_stmt_def fe_radix.carry_stmt_def fe_bits_def)
  then show "fe_val (fe_reduce h) mod p25519 = limb_value fe_wt 10 (map sint h) mod p25519"
    using fe_radix.value_wrap_chain [of fe_carries "map sint h"] len
    by (simp add: fe_val_def narrow s(1))
qed

lemma fe_school_iv:
  assumes "fe_bounded 110729625 55364812 f" and "fe_bounded 110729625 55364812 g"
  shows "iv_ok (fe_school (map sint f) (map sint g)) (sym_iv 1526500696134443485 944100830127147000)"
proof -
  define A where "A = map (\<lambda>i. if even i then 110729625 else 55364812 :: int) [0..<10]"
  have A: "A ! i = (if even i then 110729625 else 55364812)" if "i < 10" for i
    using that by (simp add: A_def)
  have b: "\<bar>map sint f ! i\<bar> \<le> A ! i" "\<bar>map sint g ! i\<bar> \<le> A ! i" if "i < 10" for i
    using assms that A [OF that] unfolding fe_bounded_def by simp_all
  have "\<forall>k<10. fe_school A A ! k \<le> (if even k then 1526500696134443485 else 944100830127147000)"
    unfolding all_less_10 fe_school_expand by (simp add: A)
  then have "\<bar>fe_school (map sint f) (map sint g) ! k\<bar>
      \<le> (if even k then 1526500696134443485 else 944100830127147000)" if "k < 10" for k
    using fe_school_bound [OF b that] that by (blast intro: order_trans)
  then show ?thesis unfolding iv_ok_sym_iv by simp
qed

lemma map_sint_of_int:
  assumes "iv_ok xs (sym_iv e d)" and "e < 2 ^ 63" and "d < 2 ^ 63"
  shows "map sint (map word_of_int xs :: i64 list) = xs"
proof -
  have "sint (word_of_int (xs ! i) :: i64) = xs ! i" if "i < 10" for i
  proof (rule sint_of_int_exact)
    have "\<bar>xs ! i\<bar> \<le> (if even i then e else d)" using assms(1) that by (simp add: iv_ok_sym_iv)
    then show "in_range LENGTH(64) (xs ! i)"
      using assms(2,3) by (simp add: in_range_def abs_le_iff2 split: if_splits)
  qed
  then show ?thesis using assms(1) by (simp add: list_eq_iff_nth_eq iv_ok_sym_iv)
qed

text \<open>What a word-level schoolbook product gives after the reduction.\<close>

lemma fe_reduce_of_int:
  assumes "iv_ok xs (sym_iv 3053001392268886970 1888201660254294000)"
  shows "fe_bounded 33889976 16944988 (fe_reduce (map word_of_int xs))"
    and "fe_val (fe_reduce (map word_of_int xs)) mod p25519 = limb_value fe_wt 10 xs mod p25519"
proof -
  have "map sint (map word_of_int xs :: i64 list) = xs"
    by (rule map_sint_of_int [OF assms]) simp_all
  then show "fe_bounded 33889976 16944988 (fe_reduce (map word_of_int xs))"
    and "fe_val (fe_reduce (map word_of_int xs)) mod p25519 = limb_value fe_wt 10 xs mod p25519"
    using fe_reduce_correct [of "map word_of_int xs"] assms by metis+
qed

lemma iv_ok_sym_iv_mono:
  "iv_ok xs (sym_iv e d) \<Longrightarrow> e \<le> e' \<Longrightarrow> d \<le> d' \<Longrightarrow> iv_ok xs (sym_iv e' d')"
  unfolding iv_ok_sym_iv by (auto intro: order_trans)

lemma fe_mul_correct:
  assumes "fe_bounded 110729625 55364812 f" and "fe_bounded 110729625 55364812 g"
  shows "fe_bounded 33889976 16944988 (fe_mul f g)"
    and "fe_val (fe_mul f g) mod p25519 = (fe_val f * fe_val g) mod p25519"
proof -
  have ok: "iv_ok (fe_school (map sint f) (map sint g)) (sym_iv 3053001392268886970 1888201660254294000)"
    by (rule iv_ok_sym_iv_mono [OF fe_school_iv [OF assms]]) simp_all
  show "fe_bounded 33889976 16944988 (fe_mul f g)"
    unfolding fe_mul_def fe_mul_h_words [OF assms] by (rule fe_reduce_of_int(1) [OF ok])
  show "fe_val (fe_mul f g) mod p25519 = (fe_val f * fe_val g) mod p25519"
    unfolding fe_mul_def fe_mul_h_words [OF assms] fe_reduce_of_int(2) [OF ok]
    unfolding fe_school_value fe_val_def ..
qed

lemma fe_sq_h_words:
  assumes "fe_bounded 110729625 55364812 f"
  shows "fe_sq_h f = map word_of_int (fe_school (map sint f) (map sint f))"
proof -
  have len: "length f = 10" using assms by (simp add: fe_bounded_def)
  have b: "\<bar>sint (f ! i)\<bar> \<le> 110729625" if "i < 10" for i
    using assms that unfolding fe_bounded_def by (auto intro: order_trans split: if_splits)
  have r: "in_range 32 (2 * sint (f ! i))" "in_range 32 (19 * sint (f ! i))" if "i < 10" for i
    using b [OF that] unfolding in_range_def by (simp_all add: abs_le_iff)
  have b': "\<bar>sint (f ! i)\<bar> \<le> 55364812" if "i < 10" "odd i" for i
    using assms that unfolding fe_bounded_def by (auto split: if_splits)
  have r38: "in_range 32 (38 * sint (f ! i))" if "i < 10" "odd i" for i
    using b' [OF that] unfolding in_range_def by (simp_all add: abs_le_iff)
  show ?thesis
    unfolding fe_sq_h_def fe_school_expand Let_def
    using len by (simp add: scast_mult_numeral r r38)
qed

lemma fe_sq2_h_words:
  assumes "fe_bounded 110729625 55364812 f"
  shows "fe_sq2_h f = map (\<lambda>x. word_of_int (2 * x)) (fe_school (map sint f) (map sint f))"
proof -
  have "fe_sq2_h f = map (\<lambda>x. x + x) (fe_sq_h f)"
    unfolding fe_sq2_h_def fe_sq_h_def Let_def by simp
  also have "\<dots> = map (\<lambda>x. word_of_int (2 * x)) (fe_school (map sint f) (map sint f))"
    unfolding fe_sq_h_words [OF assms] by simp
  finally show ?thesis .
qed

lemma fe_sq_correct:
  assumes "fe_bounded 110729625 55364812 f"
  shows "fe_bounded 33889976 16944988 (fe_sq f)"
    and "fe_val (fe_sq f) mod p25519 = (fe_val f * fe_val f) mod p25519"
proof -
  have "fe_sq f = fe_mul f f"
    unfolding fe_sq_def fe_mul_def fe_sq_h_words [OF assms] fe_mul_h_words [OF assms assms] ..
  then show "fe_bounded 33889976 16944988 (fe_sq f)"
    and "fe_val (fe_sq f) mod p25519 = (fe_val f * fe_val f) mod p25519"
    using fe_mul_correct [OF assms assms] by simp_all
qed

lemma limb_value_double: "n \<le> length xs \<Longrightarrow> limb_value wt n (map (\<lambda>x. 2 * x) xs) = 2 * limb_value wt n xs"
  unfolding limb_value_def sum_distrib_left by (rule sum.cong) auto

lemma fe_sq2_correct:
  assumes "fe_bounded 110729625 55364812 f"
  shows "fe_bounded 33889976 16944988 (fe_sq2 f)"
    and "fe_val (fe_sq2 f) mod p25519 = (2 * (fe_val f * fe_val f)) mod p25519"
proof -
  let ?S = "fe_school (map sint f) (map sint f)"
  have d: "fe_sq2_h f = map word_of_int (map (\<lambda>x. 2 * x) ?S)"
    by (simp add: fe_sq2_h_words [OF assms])
  have ok: "iv_ok (map (\<lambda>x. 2 * x) ?S) (sym_iv 3053001392268886970 1888201660254294000)"
    using fe_school_iv [OF assms assms] unfolding iv_ok_sym_iv
    by (auto simp: abs_mult split: if_splits)
  show "fe_bounded 33889976 16944988 (fe_sq2 f)"
    unfolding fe_sq2_def d by (rule fe_reduce_of_int(1) [OF ok])
  have "fe_val (fe_sq2 f) mod p25519 = (2 * limb_value fe_wt 10 ?S) mod p25519"
    unfolding fe_sq2_def d fe_reduce_of_int(2) [OF ok] by (simp add: limb_value_double)
  also have "\<dots> = (2 * (limb_value fe_wt 10 ?S mod p25519)) mod p25519"
    by (simp add: mod_mult_right_eq)
  also have "\<dots> = (2 * (fe_val f * fe_val f)) mod p25519"
    unfolding fe_school_value fe_val_def by (simp add: mod_mult_right_eq)
  finally show "fe_val (fe_sq2 f) mod p25519 = (2 * (fe_val f * fe_val f)) mod p25519" .
qed

section \<open>The linear operations\<close>

lemma fe_list_val:
  "fe_val [h0, h1, h2, h3, h4, h5, h6, h7, h8, h9] = sint h0 + 2 ^ 26 * sint h1 + 2 ^ 51 * sint h2
     + 2 ^ 77 * sint h3 + 2 ^ 102 * sint h4 + 2 ^ 128 * sint h5 + 2 ^ 153 * sint h6
     + 2 ^ 179 * sint h7 + 2 ^ 204 * sint h8 + 2 ^ 230 * sint h9"
  unfolding fe_val_def fe_value_expand by simp

text \<open>A limb-wise operation, described by its limbs.\<close>

lemma limbwise_value:
  assumes "length h = 10" and "length f = 10" and "length g = 10"
    and "\<And>i. i < 10 \<Longrightarrow> sint (h ! i) = a * sint (f ! i) + b * sint (g ! i)"
  shows "fe_val h = a * fe_val f + b * fe_val g"
  unfolding fe_val_def limb_value_def sum_distrib_left sum.distrib [symmetric]
  by (rule sum.cong) (auto simp: assms algebra_simps)

lemma fe_add_nth: "\<forall>i<10. fe_add f g ! i = f ! i + g ! i"
  unfolding all_less_10 fe_add_def Let_def by simp

lemma fe_sub_nth: "\<forall>i<10. fe_sub f g ! i = f ! i - g ! i"
  unfolding all_less_10 fe_sub_def Let_def by simp

lemma fe_neg_nth: "\<forall>i<10. fe_neg f ! i = - (f ! i)"
  unfolding all_less_10 fe_neg_def Let_def by simp

lemma length_fe_ops [simp]:
  "length (fe_add f g) = 10" "length (fe_sub f g) = 10" "length (fe_neg f) = 10"
  "length (fe_copy f) = 10" "length fe_0 = 10" "length fe_1 = 10"
  by (simp_all add: fe_add_def fe_sub_def fe_neg_def fe_copy_def fe_0_def fe_1_def Let_def)

lemma fe_copy_id: "length f = 10 \<Longrightarrow> fe_copy f = f"
  unfolding fe_copy_def Let_def using length_10 [of f] by simp

lemma limbwise_bounded:
  assumes "length h = 10"
    and "\<And>i. i < 10 \<Longrightarrow> sint (h ! i) = x i" and "\<And>i. i < 10 \<Longrightarrow> \<bar>x i\<bar> \<le> (if even i then e else d)"
  shows "fe_bounded e d h"
  unfolding fe_bounded_def using assms by simp

lemma fe_bounded_nth: "fe_bounded e d f \<Longrightarrow> i < 10 \<Longrightarrow> \<bar>sint (f ! i)\<bar> \<le> (if even i then e else d)"
  by (simp add: fe_bounded_def)

lemma fe_bounded_length: "fe_bounded e d f \<Longrightarrow> length f = 10"
  by (simp add: fe_bounded_def)

lemma in_range_32_sum:
  assumes "\<bar>x\<bar> \<le> a" and "\<bar>y\<bar> \<le> b" and "a + b < 2 ^ 31"
  shows "in_range 32 (x + y)" and "in_range 32 (x - y)"
  using assms by (simp_all add: in_range_def abs_le_iff2)

lemma fe_add_correct:
  assumes "fe_bounded e d f" and "fe_bounded e' d' g" and "e + e' < 2 ^ 31" and "d + d' < 2 ^ 31"
  shows "fe_bounded (e + e') (d + d') (fe_add f g)" and "fe_val (fe_add f g) = fe_val f + fe_val g"
proof -
  note b = fe_bounded_nth [OF assms(1)] fe_bounded_nth [OF assms(2)]
  have s: "sint (fe_add f g ! i) = sint (f ! i) + sint (g ! i)" if "i < 10" for i
    using b [OF that] that assms(3,4) fe_add_nth
    by (auto intro!: sint_add_exact in_range_32_sum split: if_splits)
  have "\<bar>sint (f ! i) + sint (g ! i)\<bar> \<le> (if even i then e + e' else d + d')" if "i < 10" for i
    using b [OF that] by (simp split: if_splits)
  then show "fe_bounded (e + e') (d + d') (fe_add f g)"
    by (intro limbwise_bounded [OF _ s]) simp_all
  show "fe_val (fe_add f g) = fe_val f + fe_val g"
    using limbwise_value [of "fe_add f g" f g 1 1] s fe_bounded_length [OF assms(1)]
      fe_bounded_length [OF assms(2)] by simp
qed

lemma fe_sub_correct:
  assumes "fe_bounded e d f" and "fe_bounded e' d' g" and "e + e' < 2 ^ 31" and "d + d' < 2 ^ 31"
  shows "fe_bounded (e + e') (d + d') (fe_sub f g)" and "fe_val (fe_sub f g) = fe_val f - fe_val g"
proof -
  note b = fe_bounded_nth [OF assms(1)] fe_bounded_nth [OF assms(2)]
  have s: "sint (fe_sub f g ! i) = sint (f ! i) - sint (g ! i)" if "i < 10" for i
    using b [OF that] that assms(3,4) fe_sub_nth
    by (auto intro!: sint_sub_exact in_range_32_sum split: if_splits)
  have "\<bar>sint (f ! i) - sint (g ! i)\<bar> \<le> (if even i then e + e' else d + d')" if "i < 10" for i
    using b [OF that] by (simp split: if_splits)
  then show "fe_bounded (e + e') (d + d') (fe_sub f g)"
    by (intro limbwise_bounded [OF _ s]) simp_all
  show "fe_val (fe_sub f g) = fe_val f - fe_val g"
    using limbwise_value [of "fe_sub f g" f g 1 "- 1"] s fe_bounded_length [OF assms(1)]
      fe_bounded_length [OF assms(2)] by simp
qed

lemma fe_neg_correct:
  assumes "fe_bounded e d f" and "e < 2 ^ 31" and "d < 2 ^ 31"
  shows "fe_bounded e d (fe_neg f)" and "fe_val (fe_neg f) = - fe_val f"
proof -
  note b = fe_bounded_nth [OF assms(1)]
  have s: "sint (fe_neg f ! i) = - sint (f ! i)" if "i < 10" for i
    using b [OF that] that assms(2,3) fe_neg_nth sint_sub_exact [of 0 "f ! i"]
    by (auto simp: in_range_def abs_le_iff2 split: if_splits)
  show "fe_bounded e d (fe_neg f)"
    using b by (intro limbwise_bounded [OF _ s]) simp_all
  show "fe_val (fe_neg f) = - fe_val f"
    using limbwise_value [of "fe_neg f" f f "- 1" 0] s fe_bounded_length [OF assms(1)] by simp
qed

section \<open>The conditional move\<close>

lemma fe_cmov_flag:
  "length f = 10 \<Longrightarrow> length g = 10 \<Longrightarrow> fe_cmov f g (of_bool c) = Some (if c then g else f)"
  unfolding fe_cmov_def Let_def using length_10 [of f] length_10 [of g]
  by (cases c) (simp_all add: xor.assoc [symmetric])

text \<open>
  The assertion of \<open>fe_cmov\<close> tests, without branching, that the flag is 0 or 1:
  \<open>(c - 1) & ~c\<close> is all ones exactly for \<open>c = 0\<close>, and 0 for odd \<open>c\<close>.
\<close>

lemma trailing_mask_odd:
  fixes c :: "'a::len word"
  assumes "odd c"
  shows "(c - 1) AND NOT c = 0"
proof -
  have e: "even (c - 1)" using assms by simp
  have "(c - 1) AND 1 = 0" using e by (simp only: and_one_eq even_iff_mod_2_eq_zero)
  then have "c - 1 + 1 = (c - 1) OR 1" by (rule disjunctive_add_eq_or)
  then have "c = (c - 1) OR 1" by simp
  then have "(c - 1) AND NOT c = (c - 1) AND NOT ((c - 1) OR 1)" by simp
  also have "\<dots> = 0" by (rule bit_eqI) (auto simp: bit_simps)
  finally show ?thesis .
qed

lemma trailing_mask_full:
  fixes c :: "'a::len word"
  shows "(c - 1) AND NOT c = - 1 \<longleftrightarrow> c = 0"
proof
  assume "(c - 1) AND NOT c = - 1"
  then have "NOT c AND ((c - 1) AND NOT c) = NOT c AND - 1" by simp
  moreover have "NOT c AND ((c - 1) AND NOT c) = (c - 1) AND NOT c"
    by (metis and.assoc and.commute and.idem)
  ultimately have "NOT c = - 1" using \<open>(c - 1) AND NOT c = - 1\<close> by simp
  then show "c = 0" by (simp add: not_eq_complement)
qed simp

lemma fe_cmov_assert: "fe_cmov f g b = None \<longleftrightarrow> b \<noteq> 0 \<and> b \<noteq> 1"
proof -
  let ?m = "\<lambda>c::u32. (c - 1) AND NOT c"
  have "?m b OR ?m (b - 1) = - 1 \<longleftrightarrow> b = 0 \<or> b = 1"
  proof (cases "odd b")
    case True
    then have "b \<noteq> 0" by auto
    with True show ?thesis
      using trailing_mask_odd [of b] trailing_mask_full [of "b - 1"] by simp
  next
    case False
    then have "b \<noteq> 1" by auto
    moreover have "?m (b - 1) = 0" using False by (intro trailing_mask_odd) simp
    ultimately show ?thesis
      using trailing_mask_full [of b] by simp
  qed
  then show ?thesis by (simp add: fe_cmov_def Let_def diff_diff_eq)
qed

end
