(* ===== verification/FeBytes.thy ===== *)
theory FeBytes
  imports FeArith
begin

text \<open>
  Field elements and byte strings: \<open>fe_tobytes\<close> (the canonical 32-byte encoding),
  \<open>fe_isnegative\<close> and \<open>fe_isnonzero\<close> on top of it, the loads \<open>load_3\<close> and \<open>load_4\<close>
  and the inlined \<open>fe_frombytes\<close> of the two point decoders.
\<close>


section \<open>Definitions\<close>

text \<open>
  \<open>fe_tobytes\<close>: the quotient estimate \<open>q\<close>, the addition of \<open>19 * q\<close>, the floor
  carries and the 32 stores.
\<close>

definition fe_tobytes_q :: "fe \<Rightarrow> i32" where
  "fe_tobytes_q h =
     (let h0 = h ! 0; h1 = h ! 1; h2 = h ! 2; h3 = h ! 3; h4 = h ! 4; h5 = h ! 5; h6 = h ! 6;
          h7 = h ! 7; h8 = h ! 8; h9 = h ! 9;
          q = signed_drop_bit 25 (19 * h9 + push_bit 24 1);
          q = signed_drop_bit 26 (h0 + q);
          q = signed_drop_bit 25 (h1 + q);
          q = signed_drop_bit 26 (h2 + q);
          q = signed_drop_bit 25 (h3 + q);
          q = signed_drop_bit 26 (h4 + q);
          q = signed_drop_bit 25 (h5 + q);
          q = signed_drop_bit 26 (h6 + q);
          q = signed_drop_bit 25 (h7 + q);
          q = signed_drop_bit 26 (h8 + q)
      in signed_drop_bit 25 (h9 + q))"

definition fe_tobytes_carries :: "limb_op list" where
  "fe_tobytes_carries =
     [CarryF 26 0 1, CarryF 25 1 2, CarryF 26 2 3, CarryF 25 3 4, CarryF 26 4 5,
      CarryF 25 5 6, CarryF 26 6 7, CarryF 25 7 8, CarryF 26 8 9, CarryTop 25 9]"

definition fe_store :: "fe \<Rightarrow> bytes" where
  "fe_store h =
     (let h0 = h ! 0; h1 = h ! 1; h2 = h ! 2; h3 = h ! 3; h4 = h ! 4; h5 = h ! 5; h6 = h ! 6;
          h7 = h ! 7; h8 = h ! 8; h9 = h ! 9
      in [scast (signed_drop_bit 0 h0), scast (signed_drop_bit 8 h0),
          scast (signed_drop_bit 16 h0), scast (signed_drop_bit 24 h0 OR push_bit 2 h1),
          scast (signed_drop_bit 6 h1), scast (signed_drop_bit 14 h1),
          scast (signed_drop_bit 22 h1 OR push_bit 3 h2), scast (signed_drop_bit 5 h2),
          scast (signed_drop_bit 13 h2), scast (signed_drop_bit 21 h2 OR push_bit 5 h3),
          scast (signed_drop_bit 3 h3), scast (signed_drop_bit 11 h3),
          scast (signed_drop_bit 19 h3 OR push_bit 6 h4), scast (signed_drop_bit 2 h4),
          scast (signed_drop_bit 10 h4), scast (signed_drop_bit 18 h4),
          scast (signed_drop_bit 0 h5), scast (signed_drop_bit 8 h5),
          scast (signed_drop_bit 16 h5), scast (signed_drop_bit 24 h5 OR push_bit 1 h6),
          scast (signed_drop_bit 7 h6), scast (signed_drop_bit 15 h6),
          scast (signed_drop_bit 23 h6 OR push_bit 3 h7), scast (signed_drop_bit 5 h7),
          scast (signed_drop_bit 13 h7), scast (signed_drop_bit 21 h7 OR push_bit 4 h8),
          scast (signed_drop_bit 4 h8), scast (signed_drop_bit 12 h8),
          scast (signed_drop_bit 20 h8 OR push_bit 6 h9), scast (signed_drop_bit 2 h9),
          scast (signed_drop_bit 10 h9), scast (signed_drop_bit 18 h9)])"

definition fe_tobytes :: "fe \<Rightarrow> bytes" where
  "fe_tobytes h =
     (let q = fe_tobytes_q h;
          h = h[0 := h ! 0 + 19 * q]
      in fe_store (exec_ops fe_tobytes_carries h))"

section \<open>fe_store\<close>

lemma length_fe_store: "length (fe_store h) = 32"
  by (simp add: fe_store_def Let_def)

lemma fe_store_bits:
  assumes "length h = 10" and "\<And>i. i < 10 \<Longrightarrow> 0 \<le> sint (h ! i) \<and> sint (h ! i) < 2 ^ fe_bits i"
  shows "le_val (fe_store h) = fe_val h"
proof -
  let ?v = "fe_val h"
  have r: "0 \<le> ?v" "?v < 2 ^ 255"
    using fe_radix.value_digits_bounds [of 10 "map sint h"] assms
    by (simp_all add: fe_val_def fe_wt_def fe_exp_def)
  have "sint (h ! i) = take_bit (fe_bits i) (drop_bit (fe_exp i) ?v)" if "i < 10" for i
  proof -
    have "map sint h ! i = ?v div fe_wt i mod 2 ^ fe_bits i"
      unfolding fe_val_def using assms that by (intro fe_radix.nth_digit [of 10]) simp_all
    then show ?thesis using assms(1) that by (simp add: fe_wt_def take_bit_eq_mod drop_bit_eq_div)
  qed
  then have "bit (h ! i) n \<longleftrightarrow> n < fe_bits i \<and> bit ?v (fe_exp i + n)" if "i < 10" for i n
    using that by (intro bit_limb) (auto simp: fe_bits_def)
  then have b: "bit (h ! 0) n \<longleftrightarrow> n < 26 \<and> bit ?v n" 
     "bit (h ! 1) n \<longleftrightarrow> n < 25 \<and> bit ?v (26 + n)"
     "bit (h ! 2) n \<longleftrightarrow> n < 26 \<and> bit ?v (51 + n)"
     "bit (h ! 3) n \<longleftrightarrow> n < 25 \<and> bit ?v (77 + n)"
     "bit (h ! 4) n \<longleftrightarrow> n < 26 \<and> bit ?v (102 + n)"
     "bit (h ! 5) n \<longleftrightarrow> n < 25 \<and> bit ?v (128 + n)"
     "bit (h ! 6) n \<longleftrightarrow> n < 26 \<and> bit ?v (153 + n)"
     "bit (h ! 7) n \<longleftrightarrow> n < 25 \<and> bit ?v (179 + n)"
     "bit (h ! 8) n \<longleftrightarrow> n < 26 \<and> bit ?v (204 + n)"
     "bit (h ! 9) n \<longleftrightarrow> n < 25 \<and> bit ?v (230 + n)" for n
    by (simp_all add: fe_bits_def fe_exp_def)
  have nb: "\<not> bit ?v 255"
    using r by (metis bit_take_bit_iff less_irrefl take_bit_int_eq_self)
  have "octets_ok ?v 0 (fe_store h)"
    unfolding fe_store_def Let_def octets_ok.simps all_less_8
    by (simp add: bit_simps nb b b(2) [unfolded One_nat_def] numeral_2_eq_2 [symmetric] del: push_bit_Suc)
  then show ?thesis
    using r by (intro le_val_octets_ok) (simp_all add: length_fe_store)
qed


section \<open>fe_tobytes\<close>

lemma q_step:
  fixes x q :: i32
  assumes "\<bar>sint x\<bar> \<le> 110729625" and "\<bar>sint q\<bar> \<le> 32" and "k = 25 \<or> k = 26"
  shows "sint (signed_drop_bit k (x + q)) = (sint x + sint q) div 2 ^ k"
    and "\<bar>(sint x + sint q) div 2 ^ k\<bar> \<le> 32"
proof -
  have "in_range LENGTH(32) (sint x + sint q)"
    using assms(1,2) by (simp add: in_range_def abs_le_iff2)
  then show "sint (signed_drop_bit k (x + q)) = (sint x + sint q) div 2 ^ k"
    by (simp add: sint_add_exact)
  show "\<bar>(sint x + sint q) div 2 ^ k\<bar> \<le> 32"
    using assms by (intro abs_div_pow2) auto
qed

primrec q_chain :: "(nat \<Rightarrow> nat) \<Rightarrow> i32 \<Rightarrow> fe \<Rightarrow> nat \<Rightarrow> i32" where
  "q_chain b q h 0 = q"
| "q_chain b q h (Suc n) = signed_drop_bit (b n) (h ! n + q_chain b q h n)"

lemma q_chain_10: "q_chain b q h 10 =
   signed_drop_bit (b 9) (h ! 9 + signed_drop_bit (b 8) (h ! 8 + signed_drop_bit (b 7) (h ! 7 +
   signed_drop_bit (b 6) (h ! 6 + signed_drop_bit (b 5) (h ! 5 + signed_drop_bit (b 4) (h ! 4 +
   signed_drop_bit (b 3) (h ! 3 + signed_drop_bit (b 2) (h ! 2 + signed_drop_bit (b 1) (h ! 1 +
   signed_drop_bit (b 0) (h ! 0 + q))))))))))"
  by (simp add: eval_nat_numeral)

lemma fe_tobytes_q_chain:
  "fe_tobytes_q h = q_chain fe_bits (signed_drop_bit 25 (19 * h ! 9 + push_bit 24 1)) h 10"
  unfolding q_chain_10 by (simp add: fe_tobytes_q_def fe_bits_def Let_def)

lemma fe_tobytes_q_int:
  assumes "fe_bounded 110729625 55364812 h"
  shows "sint (fe_tobytes_q h)
    = (fe_val h + (19 * sint (h ! 9) + 2 ^ 24) div 2 ^ 25) div 2 ^ 255"
proof -
  let ?q0 = "(19 * sint (h ! 9) + 2 ^ 24) div 2 ^ 25"
  define w0 where "w0 = (signed_drop_bit 25 (19 * h ! 9 + push_bit 24 1) :: i32)"
  have H: "\<bar>sint (h ! i)\<bar> \<le> 110729625" if "i < 10" for i
    using fe_bounded_nth [OF assms that] by (simp split: if_splits)
  have len: "length h = 10" using assms by (simp add: fe_bounded_def)
  have h9: "\<bar>sint (h ! 9)\<bar> \<le> 55364812" using fe_bounded_nth [OF assms, of 9] by simp
  then have r: "in_range LENGTH(32) (19 * sint (h ! 9))" "in_range LENGTH(32) (19 * sint (h ! 9) + 2 ^ 24)"
    by (simp_all add: in_range_def abs_le_iff2)
  have q0: "\<bar>?q0\<bar> \<le> 32" by (rule abs_div_pow2) (use h9 in \<open>simp add: abs_le_iff2\<close>)
  have "sint (19 * h ! 9) = 19 * sint (h ! 9)"
    using sint_mult_const_exact [of "h ! 9" 19] r(1) by (simp add: mult.commute)
  moreover have "sint (push_bit 24 1 :: i32) = 2 ^ 24" by simp
  ultimately have "sint (19 * h ! 9 + push_bit 24 1) = 19 * sint (h ! 9) + 2 ^ 24"
    using sint_add_exact [of "19 * h ! 9" "push_bit 24 1"] r(2) by metis
  then have s0: "sint w0 = ?q0" by (simp only: sint_sar w0_def)
  have fb: "fe_bits n = 25 \<or> fe_bits n = 26" for n by (simp add: fe_bits_def)
  have "sint (q_chain fe_bits w0 h n) = carry_out fe_bits ?q0 (map sint h) n
      \<and> \<bar>sint (q_chain fe_bits w0 h n)\<bar> \<le> 32" if "n \<le> 10" for n
    using that
  proof (induction n)
    case 0
    then show ?case using s0 q0 by simp
  next
    case (Suc n)
    from Suc have n: "n < 10" and IH: "\<bar>sint (q_chain fe_bits w0 h n)\<bar> \<le> 32"
      "sint (q_chain fe_bits w0 h n) = carry_out fe_bits ?q0 (map sint h) n" by auto
    from q_step [OF H [OF n] IH(1) fb] n len show ?case by (simp add: IH(2))
  qed
  from this [of 10] have "sint (fe_tobytes_q h) = carry_out fe_bits ?q0 (map sint h) 10"
    unfolding fe_tobytes_q_chain w0_def by simp
  also have "\<dots> = (fe_val h + ?q0) div fe_wt 10"
    by (simp only: fe_radix.carry_out_value fe_val_def)
  finally show ?thesis by (simp add: fe_wt_def fe_exp_def)
qed

text \<open>
  The quotient is exact: the argument of the comment before \<open>fe_tobytes\<close>, in integers.
  \<open>L\<close> is the number below the top limb.
\<close>

lemma quotient_exact:
  fixes v L t :: int
  assumes "v = L + 2 ^ 230 * t" and "\<bar>L\<bar> < 2 ^ 231" and "\<bar>t\<bar> \<le> 55364812"
  shows "(v + (19 * t + 2 ^ 24) div 2 ^ 25) div 2 ^ 255 = v div (2 ^ 255 - 19)"
proof -
  let ?p = "2 ^ 255 - 19 :: int"
  define q0 where "q0 = (19 * t + 2 ^ 24) div 2 ^ 25"
  define q where "q = v div ?p"
  define r where "r = v mod ?p"
  have v: "v = q * ?p + r" by (simp add: q_def r_def)
  have rb: "0 \<le> r" "r \<le> 2 ^ 255 - 20" using pos_mod_bound [of ?p v] by (simp_all add: r_def)
  define m where "m = (19 * t + 2 ^ 24) mod 2 ^ 25"
  have m: "19 * t + 2 ^ 24 = q0 * 2 ^ 25 + m" "0 \<le> m" "m < 2 ^ 25"
    by (simp_all add: q0_def m_def)
  have v': "v = q * 2 ^ 255 - 19 * q + r" using v by (simp add: algebra_simps)
  have qb: "- 3 \<le> q" "q \<le> 3" using v' rb assms by simp_all
  have n: "v + q0 = q * 2 ^ 255 + (r - 19 * q + q0)" using v by (simp add: algebra_simps)
  have "0 \<le> r - 19 * q + q0" using v' rb m qb assms by simp
  moreover have "r - 19 * q + q0 < 2 ^ 255" using v' rb m qb assms by simp
  ultimately have "(v + q0) div 2 ^ 255 = q" unfolding n by simp
  then show ?thesis by (simp add: q0_def q_def)
qed

text \<open>The intervals of the limbs before and after the floor carries.\<close>

definition tobytes_iv :: "iv list" where
  "tobytes_iv = (sym_iv 110729625 55364812)[0 := (- 110729682, 110729682)]"

definition digits_iv :: "iv list" where
  "digits_iv = map (\<lambda>i. (0, 2 ^ fe_bits i - 1)) [0..<10]"

lemma iv_ok_digits:
  "iv_ok xs digits_iv \<longleftrightarrow> length xs = 10 \<and> (\<forall>i<10. 0 \<le> xs ! i \<and> xs ! i < 2 ^ fe_bits i)"
  by (auto simp: iv_ok_def digits_iv_def)

lemma fe_tobytes_carries_value:
  assumes "iv_ok (map sint h) tobytes_iv"
  shows "iv_ok (map sint (exec_ops fe_tobytes_carries h)) digits_iv"
    and "fe_val (exec_ops fe_tobytes_carries h) = fe_val h mod 2 ^ 255"
proof -
  let ?h = "map sint h" and ?ops = "butlast fe_tobytes_carries"
  have ops: "fe_tobytes_carries = ?ops @ [CarryTop (fe_bits 9) 9]"
    by (simp add: fe_tobytes_carries_def fe_bits_def)
  have run: "iv_run LENGTH(32) fe_tobytes_carries tobytes_iv digits_iv"
    by code_simp
  note s = iv_run_sound [OF run assms]
  show ok: "iv_ok (map sint (exec_ops fe_tobytes_carries h)) digits_iv"
    using s by simp
  have len: "length h = 10" using assms by (simp add: iv_ok_def tobytes_iv_def sym_iv_def)
  have "list_all (fe_radix.carry_stmt 10) ?ops"
    by (simp add: fe_tobytes_carries_def fe_radix.carry_stmt_def fe_bits_def)
  then have "limb_value fe_wt 10 (int_ops ?ops ?h) = fe_val h"
    by (simp add: fe_radix.value_carry_chain len fe_val_def)
  moreover have "fe_wt (Suc 9) = 2 ^ 255" by (simp add: fe_wt_def fe_exp_def)
  ultimately have "fe_val (exec_ops fe_tobytes_carries h)
      = fe_val h - 2 ^ 255 * (int_ops ?ops ?h ! 9 div 2 ^ fe_bits 9)"
    unfolding fe_val_def s(1) by (subst ops) (simp add: int_ops_append fe_radix.value_CarryTop len del: int_op.simps)
  then have "fe_val (exec_ops fe_tobytes_carries h) mod 2 ^ 255 = fe_val h mod 2 ^ 255"
    by (metis mod_mult_self2 diff_add_cancel)
  moreover have "0 \<le> fe_val (exec_ops fe_tobytes_carries h)
      \<and> fe_val (exec_ops fe_tobytes_carries h) < fe_wt 10"
    unfolding fe_val_def by (rule fe_radix.value_digits_bounds) (use ok in \<open>simp only: iv_ok_digits\<close>)
  ultimately show "fe_val (exec_ops fe_tobytes_carries h) = fe_val h mod 2 ^ 255"
    by (simp add: fe_wt_def fe_exp_def)
qed

lemma fe_low_limbs:
  assumes "fe_bounded 110729625 55364812 h"
  shows "\<bar>fe_val h - 2 ^ 230 * sint (h ! 9)\<bar> < 2 ^ 231"
proof -
  have len: "length h = 10" using assms by (rule fe_bounded_length)
  have "\<forall>i<10. \<bar>sint (h ! i)\<bar> \<le> (if even i then 110729625 else 55364812)"
    using fe_bounded_nth [OF assms] by blast
  note b = this [unfolded all_less_10 abs_le_iff2]
  have "fe_val h - 2 ^ 230 * sint (h ! 9) = sint (h ! 0) + 2 ^ 26 * sint (h ! 1) + 2 ^ 51 * sint (h ! 2)
      + 2 ^ 77 * sint (h ! 3) + 2 ^ 102 * sint (h ! 4) + 2 ^ 128 * sint (h ! 5)
      + 2 ^ 153 * sint (h ! 6) + 2 ^ 179 * sint (h ! 7) + 2 ^ 204 * sint (h ! 8)"
    by (simp add: fe_val_def fe_value_expand len)
  then show ?thesis using b by (simp add: abs_less_iff)
qed

lemma fe_tobytes_quotient:
  assumes "fe_bounded 110729625 55364812 h"
  shows "sint (fe_tobytes_q h) = fe_val h div p25519" and "\<bar>fe_val h div p25519\<bar> \<le> 3"
proof -
  let ?L = "fe_val h - 2 ^ 230 * sint (h ! 9)"
  have h9: "\<bar>sint (h ! 9)\<bar> \<le> 55364812" using fe_bounded_nth [OF assms, of 9] by simp
  have v: "fe_val h = ?L + 2 ^ 230 * sint (h ! 9)" by simp
  show "sint (fe_tobytes_q h) = fe_val h div p25519"
    unfolding fe_tobytes_q_int [OF assms] p25519_def
    by (rule quotient_exact [OF v fe_low_limbs [OF assms] h9])
  have "\<bar>fe_val h\<bar> < 3 * p25519" using fe_low_limbs [OF assms] h9 by (simp add: p25519_def abs_less_iff abs_le_iff)
  then have "- 3 * p25519 div p25519 \<le> fe_val h div p25519" "fe_val h div p25519 \<le> 3 * p25519 div p25519"
    by (intro zdiv_mono1; simp add: p25519_def)+
  then show "\<bar>fe_val h div p25519\<bar> \<le> 3" by (simp add: p25519_def)
qed

lemma length_fe_tobytes [simp]: "length (fe_tobytes h) = 32"
  by (simp add: fe_tobytes_def Let_def length_fe_store)

theorem fe_tobytes_correct:
  assumes "fe_bounded 110729625 55364812 h"
  shows "le_val (fe_tobytes h) = fe_val h mod p25519"
proof -
  let ?q = "fe_tobytes_q h"
  let ?h = "h[0 := h ! 0 + 19 * ?q]"
  have len: "length h = 10" using assms by (rule fe_bounded_length)
  note q = fe_tobytes_quotient [OF assms]
  have h0: "\<bar>sint (h ! 0)\<bar> \<le> 110729625" using fe_bounded_nth [OF assms, of 0] by simp
  have m: "sint (19 * ?q) = 19 * sint ?q"
    using sint_mult_const_exact [of ?q 19] q by (simp add: in_range_def mult.commute abs_le_iff2)
  have s0: "sint (h ! 0 + 19 * ?q) = sint (h ! 0) + 19 * sint ?q"
    using sint_add_exact [of "h ! 0" "19 * ?q"] h0 q by (simp add: m in_range_def abs_le_iff2)
  have iv: "iv_ok (map sint ?h) tobytes_iv"
    unfolding tobytes_iv_def map_update s0
    by (rule iv_ok_update) (use assms h0 q in \<open>simp_all add: fe_bounded_iv abs_le_iff2\<close>)
  have "fe_val ?h = fe_val h + 19 * (fe_val h div p25519)"
    unfolding fe_val_def map_update s0 by (subst limb_value_update) (simp_all add: len q(1) fe_val_def)
  also have "\<dots> = fe_val h mod p25519 + fe_val h div p25519 * 2 ^ 255"
    using div_mult_mod_eq [of "fe_val h" p25519] by (simp add: p25519_def algebra_simps)
  finally have "fe_val ?h mod 2 ^ 255 = (fe_val h mod p25519) mod 2 ^ 255"
    by simp
  also have "\<dots> = fe_val h mod p25519"
    using pos_mod_bound [of p25519 "fe_val h"] pos_mod_sign [of p25519 "fe_val h"]
    by (intro mod_pos_pos_trivial) (simp_all add: p25519_def)
  finally show ?thesis
    unfolding fe_tobytes_def Let_def fe_tobytes_carries_value(2) [OF iv, symmetric]
    by (subst fe_store_bits) (use fe_tobytes_carries_value(1) [OF iv] in \<open>simp_all add: iv_ok_digits len\<close>)
qed

section \<open>Sign and zero test\<close>

definition fe_isnegative :: "fe \<Rightarrow> i32" where
  "fe_isnegative f = (let s = fe_tobytes f in ucast (s ! 0) AND 1)"

definition fe_isnonzero :: "fe \<Rightarrow> i32" where
  "fe_isnonzero f =
     (let s = (\<lambda>i. ucast (fe_tobytes f ! i) :: i32)
      in signed_drop_bit 8 ((s 0 OR s 1 OR s 2 OR s 3 OR s 4 OR s 5 OR s 6 OR s 7 OR s 8 OR
           s 9 OR s 10 OR s 11 OR s 12 OR s 13 OR s 14 OR s 15 OR s 16 OR s 17 OR
           s 18 OR s 19 OR s 20 OR s 21 OR s 22 OR s 23 OR s 24 OR s 25 OR s 26 OR
           s 27 OR s 28 OR s 29 OR s 30 OR s 31) - 1) + 1)"

lemma fe_isnegative_correct:
  assumes "fe_bounded 110729625 55364812 f"
  shows "fe_isnegative f = of_bool (odd (fe_val f mod p25519))"
proof -
  let ?b = "fe_tobytes f ! 0"
  have "odd (fe_val f mod p25519) = bit (le_val (fe_tobytes f)) 0"
    by (simp add: fe_tobytes_correct [OF assms] bit_0)
  also have "\<dots> = bit ?b 0" by (subst bit_le_val) simp
  finally show ?thesis
    by (auto simp: fe_isnegative_def Let_def bit_simps intro!: bit_word_eqI)
qed

lemma fe_isnonzero_correct:
  assumes "fe_bounded 110729625 55364812 f"
  shows "fe_isnonzero f = of_bool (fe_gf f \<noteq> 0)"
proof -
  have "fe_gf f = 0 \<longleftrightarrow> le_val (fe_tobytes f) = 0"
    by (simp add: fe_tobytes_correct [OF assms] fe_gf_def of_int_gf_zero_iff)
  then show ?thesis unfolding fe_isnonzero_def by (subst nonzero_bytes) simp_all
qed

section \<open>Loads\<close>

definition load_3 :: "bytes \<Rightarrow> u64" where
  "load_3 inp =
     (let result = ucast (inp ! 0);
          result = result OR push_bit 8 (ucast (inp ! 1));
          result = result OR push_bit 16 (ucast (inp ! 2))
      in result)"

definition load_4 :: "bytes \<Rightarrow> u64" where
  "load_4 inp =
     (let result = ucast (inp ! 0);
          result = result OR push_bit 8 (ucast (inp ! 1));
          result = result OR push_bit 16 (ucast (inp ! 2));
          result = result OR push_bit 24 (ucast (inp ! 3))
      in result)"

lemma uint_ucast_byte: "uint (ucast (b :: u8) :: u64) = uint b" "uint (b :: u8) < 2 ^ 8"
  using uint_lt2p [of b] by (simp_all add: unsigned_ucast_eq take_bit_int_eq_self)

lemma uint_or_byte:
  fixes x :: u64
  assumes "uint x < 2 ^ k" and "k \<le> 56"
  shows "uint (x OR push_bit k (ucast (b :: u8))) = uint x + 2 ^ k * uint b"
    and "uint x + 2 ^ k * uint b < 2 ^ (k + 8)"
proof -
  have x: "\<not> bit x n" if "k \<le> n" for n
  proof -
    have "take_bit k (uint x) = uint x" using assms(1) by (simp add: take_bit_int_eq_self)
    then have "\<not> bit (uint x) n" using that by (metis bit_take_bit_iff not_le)
    then show ?thesis using bit_imp_le_length [of x n] by (auto simp: bit_uint_iff)
  qed
  have b: "0 \<le> uint b" "uint b + 1 \<le> 256" using uint_lt2p [of b] by simp_all
  have "2 ^ k * (uint b + 1) \<le> 2 ^ k * 256" using b(2) by (intro mult_left_mono) simp_all
  then have "uint x + 2 ^ k * uint b < 2 ^ k * 256" using assms(1) unfolding distrib_left by
      linarith
  then show lt: "uint x + 2 ^ k * uint b < 2 ^ (k + 8)" by (simp add: power_add)
  have "x AND push_bit k (ucast b) = 0"
    by (rule bit_word_eqI) (use x in \<open>auto simp: bit_simps\<close>)
  then have eq: "x OR push_bit k (ucast b) = x + push_bit k (ucast b)"
    by (rule disjunctive_add_eq_or [symmetric])
  have "uint (push_bit k (ucast b :: u64)) = 2 ^ k * uint b"
  proof -
    have "2 ^ k * uint b < 2 ^ 64"
      using lt assms(2) power_increasing [of "k + 8" 64 "2::int"] uint_ge_0 [of x] by linarith
    then show ?thesis
      using b(1)
      by (simp add: unsigned_push_bit_eq unsigned_ucast_eq take_bit_int_eq_self)
        (use uint_ucast_byte [of b] in \<open>simp add: push_bit_eq_mult take_bit_int_eq_self
            mult.commute\<close>)
  qed
  moreover have "uint x + 2 ^ k * uint b < 2 ^ 64"
    using lt assms(2) power_increasing [of "k + 8" 64 "2::int"] by linarith
  ultimately show "uint (x OR push_bit k (ucast b)) = uint x + 2 ^ k * uint b"
    unfolding eq using b(1) by (simp add: uint_word_ariths)
qed

lemma uint_load_3: "uint (load_3 s) = uint (s ! 0) + 2 ^ 8 * uint (s ! 1) + 2 ^ 16 * uint (s ! 2)"
  and load_3_bound: "uint (load_3 s) < 2 ^ 24"
proof -
  have a: "uint (ucast (s ! 0) :: u64) < 2 ^ 8" using uint_ucast_byte by metis
  have b: "uint (ucast (s ! 0) OR push_bit 8 (ucast (s ! 1)) :: u64) < 2 ^ 16"
    using uint_or_byte [OF a] by simp
  show "uint (load_3 s) = uint (s ! 0) + 2 ^ 8 * uint (s ! 1) + 2 ^ 16 * uint (s ! 2)"
    unfolding load_3_def Let_def using uint_or_byte(1) [OF a] uint_or_byte(1) [OF b]
        uint_ucast_byte(1)
    by simp
  show "uint (load_3 s) < 2 ^ 24"
    unfolding load_3_def Let_def using uint_or_byte [OF b, of "s ! 2"] by simp
qed

lemma uint_load_4: "uint (load_4 s)
    = uint (s ! 0) + 2 ^ 8 * uint (s ! 1) + 2 ^ 16 * uint (s ! 2) + 2 ^ 24 * uint (s ! 3)"
  and load_4_bound: "uint (load_4 s) < 2 ^ 32"
proof -
  have l: "load_4 s = load_3 s OR push_bit 24 (ucast (s ! 3))" by (simp add: load_4_def load_3_def)
  show "uint (load_4 s)
      = uint (s ! 0) + 2 ^ 8 * uint (s ! 1) + 2 ^ 16 * uint (s ! 2) + 2 ^ 24 * uint (s ! 3)"
    and "uint (load_4 s) < 2 ^ 32"
    unfolding l using uint_or_byte [OF load_3_bound, of s "s ! 3"] uint_load_3 [of s] by simp_all
qed

section \<open>The inlined fe_frombytes\<close>

text \<open>
  \<open>ge_frombytes_vartime\<close> clears the sign bit of the last byte,
      \<open>ge_fromfe_frombytes_vartime\<close>
  reads all 256 bits.
\<close>

definition fe_frombytes_h :: "bytes \<Rightarrow> i64 list" where
  "fe_frombytes_h s =
     [load_4 s, push_bit 6 (load_3 (drop 4 s)), push_bit 5 (load_3 (drop 7 s)),
      push_bit 3 (load_3 (drop 10 s)), push_bit 2 (load_3 (drop 13 s)), load_4 (drop 16 s),
      push_bit 7 (load_3 (drop 20 s)), push_bit 5 (load_3 (drop 23 s)),
      push_bit 4 (load_3 (drop 26 s)), push_bit 2 (load_3 (drop 29 s) AND 8388607)]"

definition fe_fromfe_h :: "bytes \<Rightarrow> i64 list" where
  "fe_fromfe_h s =
     [load_4 s, push_bit 6 (load_3 (drop 4 s)), push_bit 5 (load_3 (drop 7 s)),
      push_bit 3 (load_3 (drop 10 s)), push_bit 2 (load_3 (drop 13 s)), load_4 (drop 16 s),
      push_bit 7 (load_3 (drop 20 s)), push_bit 5 (load_3 (drop 23 s)),
      push_bit 4 (load_3 (drop 26 s)), push_bit 2 (load_3 (drop 29 s))]"

definition fe_frombytes_carries :: "limb_op list" where
  "fe_frombytes_carries =
     [CarryR 25 9 0 19, CarryR 25 1 2 1, CarryR 25 3 4 1, CarryR 25 5 6 1, CarryR 25 7 8 1,
      CarryR 26 0 1 1, CarryR 26 2 3 1, CarryR 26 4 5 1, CarryR 26 6 7 1, CarryR 26 8 9 1]"

definition fe_frombytes :: "i64 list \<Rightarrow> fe" where
  "fe_frombytes h = map scast (exec_ops fe_frombytes_carries h)"

definition fe_noncanonical :: "i64 list \<Rightarrow> bool" where
  "fe_noncanonical h \<longleftrightarrow>
     h ! 9 = 33554428 \<and> h ! 8 = 268435440 \<and> h ! 7 = 536870880 \<and> h ! 6 = 2147483520
         \<and>
     h ! 5 = 4294967295 \<and> h ! 4 = 67108860 \<and> h ! 3 = 134217720 \<and> h ! 2 = 536870880
         \<and>
     h ! 1 = 1073741760 \<and> 4294967277 \<le>s h ! 0"


text \<open>The ten loads as numbers, with their ranges.\<close>

definition load_ints :: "bytes \<Rightarrow> int list" where
  "load_ints s = [uint (load_4 s), uint (load_3 (drop 4 s)), uint (load_3 (drop 7 s)),
     uint (load_3 (drop 10 s)), uint (load_3 (drop 13 s)), uint (load_4 (drop 16 s)),
     uint (load_3 (drop 20 s)), uint (load_3 (drop 23 s)), uint (load_3 (drop 26 s)),
     uint (load_3 (drop 29 s))]"

lemma sint_push_load:
  fixes x :: u64
  assumes "uint x < 2 ^ 32" and "k \<le> 8"
  shows "sint (push_bit k x) = 2 ^ k * uint x"
proof -
  have s: "sint x = uint x"
    using assms(1) sint_of_int_exact [of "uint x", where 'a = 64] uint_ge_0 [of x]
    by (simp add: in_range_def del: uint_ge_0)
  have "(2::int) ^ k \<le> 2 ^ 8" using assms(2) by (intro power_increasing) simp_all
  then have "2 ^ k * uint x \<le> 2 ^ 8 * 2 ^ 32" using assms(1) by (intro mult_mono) simp_all
  then have "2 ^ k * uint x \<le> 1099511627776" by simp
  moreover have "0 \<le> 2 ^ k * uint x" by simp
  ultimately have "- 9223372036854775808 \<le> 2 ^ k * uint x \<and> 2 ^ k * uint x <
      9223372036854775808" by linarith
  then have "in_range LENGTH(64) (sint x * 2 ^ k)" by (simp add: in_range_def s mult.commute)
  then show ?thesis by (simp add: sint_push_exact s mult.commute)
qed

lemma load_3_bound': "uint (load_3 s) < 2 ^ 32"
  using load_3_bound [of s] by simp

lemma sint_load [simp]:
  "sint (load_4 s) = uint (load_4 s)"
  "k \<le> 8 \<Longrightarrow> sint (push_bit k (load_3 s)) = 2 ^ k * uint (load_3 s)"
  using sint_push_load [of "load_4 s" 0] sint_push_load [of "load_3 s" k] load_4_bound [of s]
    load_3_bound' [of s] by simp_all

lemma sint_load_masked [simp]:
  "sint (push_bit 2 (load_3 s AND 8388607)) = 4 * (uint (load_3 s) mod 2 ^ 23)"
proof -
  have "uint (load_3 s AND 8388607) = uint (load_3 s) mod 2 ^ 23"
    unfolding and_mask_23 unsigned_take_bit_eq by (simp add: take_bit_eq_mod)
  moreover have "uint (load_3 s) mod 2 ^ 23 < 2 ^ 32" 
    using pos_mod_bound [of "2 ^ 23" "uint (load_3 s)"] by simp
  ultimately show ?thesis using sint_push_load [of "load_3 s AND 8388607" 2] by simp
qed


lemma le_val_loads:
  assumes "length s = 32"
  shows "le_val s = load_ints s ! 0 + 2 ^ 32 * load_ints s ! 1 + 2 ^ 56 * load_ints s ! 2
     + 2 ^ 80 * load_ints s ! 3 + 2 ^ 104 * load_ints s ! 4 + 2 ^ 128 * load_ints s ! 5
     + 2 ^ 160 * load_ints s ! 6 + 2 ^ 184 * load_ints s ! 7 + 2 ^ 208 * load_ints s ! 8
     + 2 ^ 232 * load_ints s ! 9"
proof -
  note s = length_32 [OF assms]
  have "load_ints s ! 0 + 2 ^ 32 * load_ints s ! 1 + 2 ^ 56 * load_ints s ! 2
     + 2 ^ 80 * load_ints s ! 3 + 2 ^ 104 * load_ints s ! 4 + 2 ^ 128 * load_ints s ! 5
     + 2 ^ 160 * load_ints s ! 6 + 2 ^ 184 * load_ints s ! 7 + 2 ^ 208 * load_ints s ! 8
     + 2 ^ 232 * load_ints s ! 9 = le_val [s ! 0, s ! 1, s ! 2, s ! 3, s ! 4, s ! 5, s ! 6, s ! 7,
    s ! 8, s ! 9, s ! 10, s ! 11, s ! 12, s ! 13, s ! 14, s ! 15, s ! 16, s ! 17, s ! 18, s ! 19,
    s ! 20, s ! 21, s ! 22, s ! 23, s ! 24, s ! 25, s ! 26, s ! 27, s ! 28, s ! 29, s ! 30, s ! 31]"
    unfolding load_ints_def by (simp add: uint_load_3 uint_load_4 assms)
  then show ?thesis using s by metis
qed

lemma load_ints_bounds:
  "\<forall>i<10. 0 \<le> load_ints s ! i \<and> load_ints s ! i < (if i = 0 \<or> i = 5 then 2 ^
      32 else 2 ^ 24)"
  unfolding all_less_10 load_ints_def using load_4_bound load_3_bound by simp

lemma fe_fromfe_value:
  assumes "length s = 32"
  shows "limb_value fe_wt 10 (map sint (fe_fromfe_h s)) = le_val s"
  unfolding le_val_loads [OF assms] fe_value_expand fe_fromfe_h_def
  by (simp add: load_ints_def)

lemma fe_frombytes_value:
  assumes "length s = 32"
  shows "limb_value fe_wt 10 (map sint (fe_frombytes_h s)) = le_val s mod 2 ^ 255"
proof -
  let ?t = "load_ints s ! 9"
  define L where "L = le_val s - 2 ^ 232 * ?t"
  define a where "a = ?t div 2 ^ 23"
  define c where "c = ?t mod 2 ^ 23"
  have L: "0 \<le> L" "L < 2 ^ 232"
    using load_ints_bounds [of s, unfolded all_less_10] unfolding L_def le_val_loads [OF assms] by
        simp_all
  have t: "?t = 2 ^ 23 * a + c" by (simp add: a_def c_def)
  have r: "0 \<le> c" "c < 2 ^ 23" by (simp_all add: c_def)
  have "le_val s = L + 2 ^ 232 * ?t" by (simp add: L_def)
  then have "le_val s = L + 2 ^ 232 * c + a * 2 ^ 255" unfolding t by simp
  moreover have "0 \<le> L + 2 ^ 232 * c" "L + 2 ^ 232 * c < 2 ^ 255"
    using L r by simp_all
  ultimately have "le_val s mod 2 ^ 255 = L + 2 ^ 232 * (?t mod 2 ^ 23)"
    by (simp add: c_def)
  then show ?thesis
    unfolding L_def le_val_loads [OF assms] fe_value_expand fe_frombytes_h_def list.map
        sint_load_masked
    by (simp add: load_ints_def)
qed

definition loads_iv :: "iv list" where
  "loads_iv = map (\<lambda>k. (0, 2 ^ k - 1)) [32, 30, 29, 27, 26, 32, 31, 29, 28, 26]"

lemma fe_fromfe_h_iv: "iv_ok (map sint (fe_fromfe_h s)) loads_iv"
  using load_ints_bounds [of s, unfolded all_less_10 load_ints_def]
  by (simp add: loads_iv_def fe_fromfe_h_def)

lemma fe_frombytes_h_iv: "iv_ok (map sint (fe_frombytes_h s)) loads_iv"
proof -
  have "0 \<le> uint (load_3 (drop 29 s)) mod 2 ^ 23" "uint (load_3 (drop 29 s)) mod 2 ^ 23 < 2 ^
      23"
    by simp_all
  then show ?thesis
    using load_ints_bounds [of s, unfolded all_less_10 load_ints_def]
    unfolding fe_frombytes_h_def list.map sint_load_masked by (simp add: loads_iv_def)
qed

lemma fe_frombytes_correct:
  assumes "iv_ok (map sint h) loads_iv"
  shows "fe_bounded 33889976 16944988 (fe_frombytes h)"
    and "fe_gf (fe_frombytes h) = of_int (limb_value fe_wt 10 (map sint h))"
proof -
  let ?B = "sym_iv 33889976 16944988"
  have run: "iv_run LENGTH(64) fe_frombytes_carries loads_iv ?B" by code_simp
  note s = iv_run_sound [OF run assms]
  have len: "length h = 10" using assms by (simp add: iv_ok_def loads_iv_def)
  have ok: "iv_ok (map sint (exec_ops fe_frombytes_carries h)) ?B" using s by simp
  have narrow: "map sint (fe_frombytes h) = map sint (exec_ops fe_frombytes_carries h)"
    unfolding fe_frombytes_def by (rule narrow_limbs [OF ok]) 
  show "fe_bounded 33889976 16944988 (fe_frombytes h)"
    unfolding fe_bounded_iv narrow by (rule ok)
  have "list_all fe_radix.wrap_stmt fe_frombytes_carries"
    by (simp add: fe_frombytes_carries_def fe_radix.wrap_stmt_def fe_radix.carry_stmt_def
        fe_bits_def)
  then show "fe_gf (fe_frombytes h) = of_int (limb_value fe_wt 10 (map sint h))"
    using fe_radix.value_wrap_chain [of fe_frombytes_carries "map sint h"] len
    by (simp add: fe_gf_def of_int_gf_eq_iff fe_val_def narrow s(1))
qed

lemma top_residues:
  fixes a0 a1 a2 a3 a4 a5 a6 a7 a8 a9 :: int
  assumes "0 \<le> a0 \<and> a0 \<le> 4294967295" and "0 \<le> a1 \<and> a1 \<le> 16777215" and "0
      \<le> a2 \<and> a2 \<le> 16777215" and "0 \<le> a3 \<and> a3 \<le> 16777215" and "0 \<le> a4
      \<and> a4 \<le> 16777215" and "0 \<le> a5 \<and> a5 \<le> 4294967295" and "0 \<le> a6 \<and>
      a6 \<le> 16777215" and "0 \<le> a7 \<and> a7 \<le> 16777215" and "0 \<le> a8 \<and> a8 \<le>
      16777215" and "0 \<le> a9 \<and> a9 \<le> 8388607"
  shows "a9 = 8388607 \<and> a8 = 16777215 \<and> a7 = 16777215 \<and> a6 = 16777215 \<and> a5 =
      4294967295 \<and> a4 = 16777215 \<and> a3 = 16777215 \<and> a2 = 16777215 \<and> a1 =
      16777215 \<and> 4294967277 \<le> a0 \<longleftrightarrow>
    2 ^ 255 - 19 \<le> a0 + 2 ^ 32 * a1 + 2 ^ 56 * a2 + 2 ^ 80 * a3 + 2 ^ 104 * a4 + 2 ^ 128 * a5
        + 2 ^ 160 * a6 + 2 ^ 184 * a7 + 2 ^ 208 * a8 + 2 ^ 232 * a9"
proof -
  define S where "S = a0 + 4294967296 * a1 + 72057594037927936 * a2 + 1208925819614629174706176 *
      a3 + 20282409603651670423947251286016 * a4 + 340282366920938463463374607431768211456 * a5 +
      1461501637330902918203684832716283019655932542976 * a6 +
      24519928653854221733733552434404946937899825954937634816 * a7 +
      411376139330301510538742295639337626245683966408394965837152256 * a8 +
      6901746346790563787434755862277025452451108972170386555162524223799296 * a9"
  have "57896044618658097711785492504343953926634992332820282019728792003956564819949 \<le> S
      \<longleftrightarrow> a9 = 8388607 \<and> a8 = 16777215 \<and> a7 = 16777215 \<and> a6 =
      16777215 \<and> a5 = 4294967295 \<and> a4 = 16777215 \<and> a3 = 16777215 \<and> a2 =
      16777215 \<and> a1 = 16777215 \<and> 4294967277 \<le> a0"
  proof
    assume S: "57896044618658097711785492504343953926634992332820282019728792003956564819949 \<le>
        S"
    have h9: "a9 = 8388607" using S assms  unfolding S_def by linarith
    have h8: "a8 = 16777215" using S assms h9 unfolding S_def by linarith
    have h7: "a7 = 16777215" using S assms h9 h8 unfolding S_def by linarith
    have h6: "a6 = 16777215" using S assms h9 h8 h7 unfolding S_def by linarith
    have h5: "a5 = 4294967295" using S assms h9 h8 h7 h6 unfolding S_def by linarith
    have h4: "a4 = 16777215" using S assms h9 h8 h7 h6 h5 unfolding S_def by linarith
    have h3: "a3 = 16777215" using S assms h9 h8 h7 h6 h5 h4 unfolding S_def by linarith
    have h2: "a2 = 16777215" using S assms h9 h8 h7 h6 h5 h4 h3 unfolding S_def by linarith
    have h1: "a1 = 16777215" using S assms h9 h8 h7 h6 h5 h4 h3 h2 unfolding S_def by linarith
    have "4294967277 \<le> a0" using S h1 h2 h3 h4 h5 h6 h7 h8 h9 unfolding S_def by linarith
    with h1 h2 h3 h4 h5 h6 h7 h8 h9 show "a9 = 8388607 \<and> a8 = 16777215 \<and> a7 = 16777215
        \<and> a6 = 16777215 \<and> a5 = 4294967295 \<and> a4 = 16777215 \<and> a3 = 16777215
        \<and> a2 = 16777215 \<and> a1 = 16777215 \<and> 4294967277 \<le> a0"
      by simp
  qed (simp add: S_def)
  then show ?thesis by (simp add: S_def)
qed

lemma fe_noncanonical_iff:
  assumes "length s = 32"
  shows "fe_noncanonical (fe_frombytes_h s) \<longleftrightarrow> p25519 \<le> le_val s mod 2 ^ 255"
proof -
  let ?m = "uint (load_3 (drop 29 s)) mod 2 ^ 23"
  let ?l = "load_ints s"
  have m: "0 \<le> ?m \<and> ?m \<le> 8388607" using pos_mod_bound [of "2 ^ 23" "uint (load_3
      (drop 29 s))"] by simp
  have b: "\<forall>i<10. 0 \<le> ?l ! i \<and> ?l ! i \<le> (if i = 0 \<or> i = 5 then 4294967295
      else 16777215)"
    using load_ints_bounds [of s] unfolding all_less_10 by simp
  have "p25519 \<le> le_val s mod 2 ^ 255 \<longleftrightarrow> p25519 \<le> ?l ! 0 + 2 ^ 32 * ?l
      ! 1 + 2 ^ 56 * ?l ! 2
     + 2 ^ 80 * ?l ! 3 + 2 ^ 104 * ?l ! 4 + 2 ^ 128 * ?l ! 5 + 2 ^ 160 * ?l ! 6 + 2 ^ 184 * ?l ! 7
     + 2 ^ 208 * ?l ! 8 + 2 ^ 232 * ?m"
    unfolding fe_frombytes_value [OF assms, symmetric] fe_value_expand fe_frombytes_h_def list.map
      sint_load_masked by (simp add: load_ints_def)
  also have "\<dots> \<longleftrightarrow> ?m = 8388607 \<and> ?l ! 8 = 16777215 \<and> ?l ! 7 =
      16777215 \<and> ?l ! 6 = 16777215 \<and>
      ?l ! 5 = 4294967295 \<and> ?l ! 4 = 16777215 \<and> ?l ! 3 = 16777215 \<and> ?l ! 2 =
          16777215 \<and>
      ?l ! 1 = 16777215 \<and> 4294967277 \<le> ?l ! 0"
    unfolding p25519_def using b m
    by (intro top_residues [symmetric]) (simp_all add: all_less_10)
  also have "\<dots> \<longleftrightarrow> fe_noncanonical (fe_frombytes_h s)"
    unfolding fe_noncanonical_def word_eq_iff_sint word_sle_eq
    by (simp add: fe_frombytes_h_def load_ints_def sint_load_masked [unfolded push_bit_and] del:
        push_bit_and)
  finally show ?thesis ..
qed

end
