(* ===== verification/FePow.thy ===== *)
theory FePow
  imports FeBytes
begin

text \<open>
  The fixed exponentiations of \<open>crypto-ops.c\<close>: \<open>fe_invert\<close> (exponent \<open>p - 2\<close>) and
  \<open>fe_divpowm1\<close> (which inlines \<open>fe_pow22523\<close>, exponent \<open>(p - 5) / 8\<close>).  Both are straight
  lines of squarings and multiplications; the locale states what they rely on of \<open>fe_mul\<close>
  and \<open>fe_sq\<close> and derives the exponent of every intermediate variable.
\<close>

section \<open>Definitions\<close>

definition fe_invert :: "fe \<Rightarrow> fe" where
  "fe_invert z =
     (let t0 = fe_sq z;
          t1 = fe_sq t0;
          t1 = fe_sq t1;
          t1 = fe_mul z t1;
          t0 = fe_mul t0 t1;
          t2 = fe_sq t0;
          t1 = fe_mul t1 t2;
          t2 = fe_sq t1;
          t2 = (fe_sq ^^ 4) t2;
          t1 = fe_mul t2 t1;
          t2 = fe_sq t1;
          t2 = (fe_sq ^^ 9) t2;
          t2 = fe_mul t2 t1;
          t3 = fe_sq t2;
          t3 = (fe_sq ^^ 19) t3;
          t2 = fe_mul t3 t2;
          t2 = fe_sq t2;
          t2 = (fe_sq ^^ 9) t2;
          t1 = fe_mul t2 t1;
          t2 = fe_sq t1;
          t2 = (fe_sq ^^ 49) t2;
          t2 = fe_mul t2 t1;
          t3 = fe_sq t2;
          t3 = (fe_sq ^^ 99) t3;
          t2 = fe_mul t3 t2;
          t2 = fe_sq t2;
          t2 = (fe_sq ^^ 49) t2;
          t1 = fe_mul t2 t1;
          t1 = fe_sq t1;
          t1 = (fe_sq ^^ 4) t1
      in fe_mul t1 t0)"

definition fe_divpowm1 :: "fe \<Rightarrow> fe \<Rightarrow> fe" where
  "fe_divpowm1 u v =
     (let v3 = fe_sq v;
          v3 = fe_mul v3 v;
          uv7 = fe_sq v3;
          uv7 = fe_mul uv7 v;
          uv7 = fe_mul uv7 u;
          t0 = fe_sq uv7;
          t1 = fe_sq t0;
          t1 = fe_sq t1;
          t1 = fe_mul uv7 t1;
          t0 = fe_mul t0 t1;
          t0 = fe_sq t0;
          t0 = fe_mul t1 t0;
          t1 = fe_sq t0;
          t1 = (fe_sq ^^ 4) t1;
          t0 = fe_mul t1 t0;
          t1 = fe_sq t0;
          t1 = (fe_sq ^^ 9) t1;
          t1 = fe_mul t1 t0;
          t2 = fe_sq t1;
          t2 = (fe_sq ^^ 19) t2;
          t1 = fe_mul t2 t1;
          t1 = (fe_sq ^^ 10) t1;
          t0 = fe_mul t1 t0;
          t1 = fe_sq t0;
          t1 = (fe_sq ^^ 49) t1;
          t1 = fe_mul t1 t0;
          t2 = fe_sq t1;
          t2 = (fe_sq ^^ 99) t2;
          t1 = fe_mul t2 t1;
          t1 = (fe_sq ^^ 50) t1;
          t0 = fe_mul t1 t0;
          t0 = fe_sq t0;
          t0 = fe_sq t0;
          t0 = fe_mul t0 uv7;
          t0 = fe_mul t0 v3
      in fe_mul t0 u)"

section \<open>Exponents of a multiplication chain\<close>

text \<open>
  \<open>ok\<close> is the range the operations accept and \<open>res\<close> the narrower range of their results.
  \<open>pw x y a b f\<close>: the representation \<open>f\<close> is usable and stands for \<open>x ^ a * y ^ b\<close>;
  \<open>pr x y a b f\<close>: moreover it is in the range of a result.
\<close>

locale power_chain =
  fixes mul :: "'r \<Rightarrow> 'r \<Rightarrow> 'r" and sq :: "'r \<Rightarrow> 'r"
    and abs :: "'r \<Rightarrow> 'v::comm_monoid_mult" and ok :: "'r \<Rightarrow> bool" and res :: "'r \<Rightarrow> bool"
  assumes res_ok: "res f \<Longrightarrow> ok f"
    and mul_res: "ok f \<Longrightarrow> ok g \<Longrightarrow> res (mul f g)"
    and mul_abs: "ok f \<Longrightarrow> ok g \<Longrightarrow> abs (mul f g) = abs f * abs g"
    and sq_res: "ok f \<Longrightarrow> res (sq f)"
    and sq_abs: "ok f \<Longrightarrow> abs (sq f) = abs f * abs f"
begin

definition pw :: "'v \<Rightarrow> 'v \<Rightarrow> nat \<Rightarrow> nat \<Rightarrow> 'r \<Rightarrow> bool" where
  "pw x y a b f \<longleftrightarrow> ok f \<and> abs f = x ^ a * y ^ b"

lemma pw_mul: "pw x y a b f \<Longrightarrow> pw x y c d g \<Longrightarrow> pw x y (a + c) (b + d) (mul f g)"
  by (simp add: pw_def res_ok mul_res mul_abs power_add ac_simps)

lemma pw_sq: "pw x y a b f \<Longrightarrow> pw x y (2 * a) (2 * b) (sq f)"
  by (simp add: pw_def res_ok sq_res sq_abs power_add mult_2 mult_2_right ac_simps)

lemma pw_iter: "pw x y a b f \<Longrightarrow> pw x y (2 ^ k * a) (2 ^ k * b) ((sq ^^ k) f)"
proof (induction k)
  case (Suc k)
  from pw_sq [OF Suc.IH [OF Suc.prems]] show ?case by (simp add: mult.assoc)
qed simp

definition pr :: "'v \<Rightarrow> 'v \<Rightarrow> nat \<Rightarrow> nat \<Rightarrow> 'r \<Rightarrow> bool" where
  "pr x y a b f \<longleftrightarrow> res f \<and> abs f = x ^ a * y ^ b"

lemma pr_mul: "pw x y a b f \<Longrightarrow> pw x y c d g \<Longrightarrow> pr x y (a + c) (b + d) (mul f g)"
  by (simp add: pr_def pw_def mul_res mul_abs power_add ac_simps)

lemma pr_let: "pw x y a b f \<Longrightarrow> (\<And>t. pw x y a b t \<Longrightarrow> pr x y c d (F t)) \<Longrightarrow> pr x y c d (Let f F)"
  by (simp add: Let_def)

lemma pw_left: "ok f \<Longrightarrow> pw (abs f) y 1 0 f"
  by (simp add: pw_def)

lemma pw_right: "ok f \<Longrightarrow> pw x (abs f) 0 1 f"
  by (simp add: pw_def)

lemma pr_exponents: "pr x y a b f \<Longrightarrow> a = a' \<Longrightarrow> b = b' \<Longrightarrow> pr x y a' b' f"
  by simp

lemmas pw_step = pw_mul pw_iter pw_sq

end

text \<open>
  The precondition of \<open>fe_mul\<close> and \<open>fe_sq\<close> (limbs up to \<open>1.65 * 2 ^ 26\<close> and half of it)
  and the postcondition (\<open>1.01 * 2 ^ 25\<close> and half of it).
\<close>

abbreviation fe_arg :: "fe \<Rightarrow> bool" where
  "fe_arg \<equiv> fe_bounded 110729625 55364812"

abbreviation fe_res :: "fe \<Rightarrow> bool" where
  "fe_res \<equiv> fe_bounded 33889976 16944988"

lemma fe_bounded_mono: "fe_bounded e d f \<Longrightarrow> e \<le> e' \<Longrightarrow> d \<le> d' \<Longrightarrow> fe_bounded e' d' f"
  unfolding fe_bounded_def by (auto intro: order_trans)

lemma fe_gf_eqI: "fe_val f mod p25519 = v mod p25519 \<Longrightarrow> fe_gf f = of_int v"
  by (simp add: fe_gf_def of_int_gf_eq_iff)

interpretation fe_chain: power_chain fe_mul fe_sq fe_gf fe_arg fe_res
proof
  show "fe_arg f" if "fe_res f" for f using that by (rule fe_bounded_mono) simp_all
next
  fix f g assume "fe_arg f" "fe_arg g"
  then show "fe_res (fe_mul f g)" and "fe_gf (fe_mul f g) = fe_gf f * fe_gf g"
    using fe_mul_correct [of f g] fe_gf_eqI [of "fe_mul f g" "fe_val f * fe_val g"]
    by (simp_all add: fe_gf_def)
next
  fix f assume "fe_arg f"
  then show "fe_res (fe_sq f)" and "fe_gf (fe_sq f) = fe_gf f * fe_gf f"
    using fe_sq_correct [of f] fe_gf_eqI [of "fe_sq f" "fe_val f * fe_val f"]
    by (simp_all add: fe_gf_def power2_eq_square)
qed

section \<open>fe_invert and fe_divpowm1\<close>

lemma fe_invert_pr:
  assumes "fe_arg z"
  shows "fe_chain.pr (fe_gf z) 1 (2 ^ 255 - 21) 0 (fe_invert z)"
  using fe_chain.pw_left [OF assms, of 1] unfolding fe_invert_def
  by - (rule fe_chain.pr_exponents, (rule fe_chain.pr_let, rule fe_chain.pw_step, assumption+)+,
      rule fe_chain.pr_mul, assumption+, simp_all)

lemma fe_divpowm1_pr:
  assumes "fe_arg u" and "fe_arg v"
  shows "fe_chain.pr (fe_gf u) (fe_gf v) (2 ^ 252 - 2) (7 * 2 ^ 252 - 18) (fe_divpowm1 u v)"
  using fe_chain.pw_left [OF assms(1), of "fe_gf v"] fe_chain.pw_right [OF assms(2), of "fe_gf u"]
  unfolding fe_divpowm1_def
  by - (rule fe_chain.pr_exponents, (rule fe_chain.pr_let, rule fe_chain.pw_step, assumption+)+,
      rule fe_chain.pr_mul, assumption+, simp_all)

lemma fe_invert_correct:
  assumes "fe_arg z"
  shows "fe_res (fe_invert z)" and "fe_gf (fe_invert z) = fe_gf z ^ (2 ^ 255 - 21)"
  using fe_invert_pr [OF assms] by (simp_all only: fe_chain.pr_def power_one power_0 mult_1_right)

lemma fe_divpowm1_correct:
  assumes "fe_arg u" and "fe_arg v"
  shows "fe_res (fe_divpowm1 u v)"
    and "fe_gf (fe_divpowm1 u v)
      = fe_gf u * fe_gf v ^ 3 * (fe_gf u * fe_gf v ^ 7) ^ (2 ^ 252 - 3)"
proof -
  note r = fe_divpowm1_pr [OF assms, unfolded fe_chain.pr_def]
  show "fe_res (fe_divpowm1 u v)" using r by blast
  have e: "2 ^ 252 - 2 = Suc (2 ^ 252 - 3)" "7 * 2 ^ 252 - 18 = 3 + 7 * (2 ^ 252 - 3 :: nat)" by simp_all
  have "x * y ^ 3 * (x * y ^ 7) ^ n = x ^ Suc n * y ^ (3 + 7 * n)" for x y :: gf and n
    by (simp add: power_mult_distrib power_add mult.left_commute mult.assoc flip: power_mult)
  then show "fe_gf (fe_divpowm1 u v)
      = fe_gf u * fe_gf v ^ 3 * (fe_gf u * fe_gf v ^ 7) ^ (2 ^ 252 - 3)"
    using r unfolding e by (simp only:)
qed

end
