(* ===== verification/Checked.thy ===== *)
theory Checked
  imports Limbs "HOL-Library.Monad_Syntax"
begin

text \<open>
  A second reading of the limb programs, in which a signed operation whose exact result does not fit
  into its width has no result.  The word reading of \<open>Limbs\<close> wraps around there, while C leaves
  the behaviour undefined: a program that returns in this reading runs without signed overflow, and
  then both readings agree.  A left shift of a negative number is read as a product, as the compilers do.
\<close>

section \<open>Operations that refuse to overflow\<close>

definition add_s :: "'a::len word \<Rightarrow> 'a word \<Rightarrow> 'a word option" where
  "add_s x y = (if in_range LENGTH('a) (sint x + sint y) then Some (x + y) else None)"

definition sub_s :: "'a::len word \<Rightarrow> 'a word \<Rightarrow> 'a word option" where
  "sub_s x y = (if in_range LENGTH('a) (sint x - sint y) then Some (x - y) else None)"

definition mul_s :: "'a::len word \<Rightarrow> 'a word \<Rightarrow> 'a word option" where
  "mul_s x y = (if in_range LENGTH('a) (sint x * sint y) then Some (x * y) else None)"

definition mulc_s :: "'a::len word \<Rightarrow> int \<Rightarrow> 'a word option" where
  "mulc_s x c = (if in_range LENGTH('a) (sint x * c) then Some (x * word_of_int c) else None)"

definition shl_s :: "nat \<Rightarrow> 'a::len word \<Rightarrow> 'a word option" where
  "shl_s k x = (if in_range LENGTH('a) (sint x * 2 ^ k) then Some (push_bit k x) else None)"

definition narrow_s :: "'a::len word \<Rightarrow> 'b::len word option" where
  "narrow_s x = (if in_range LENGTH('b) (sint x) then Some (scast x) else None)"

lemmas checked_defs = add_s_def sub_s_def mul_s_def mulc_s_def shl_s_def narrow_s_def

text \<open>The statements of a limb program, one operation after the other.\<close>

primrec checked_op :: "limb_op \<Rightarrow> 'a::len word list \<Rightarrow> 'a word list option" where
  "checked_op (CarryR k i j m) h =
     do { r \<leftarrow> shl_s (k - 1) 1;
          t \<leftarrow> add_s (h ! i) r;
          p \<leftarrow> mulc_s (signed_drop_bit k t) m;
          y \<leftarrow> add_s (h ! j) p;
          q \<leftarrow> shl_s k (signed_drop_bit k t);
          x \<leftarrow> sub_s (h ! i) q;
          Some (h[j := y, i := x]) }"
| "checked_op (CarryF k i j) h =
     do { y \<leftarrow> add_s (h ! j) (signed_drop_bit k (h ! i));
          q \<leftarrow> shl_s k (signed_drop_bit k (h ! i));
          x \<leftarrow> sub_s (h ! i) q;
          Some (h[j := y, i := x]) }"
| "checked_op (CarryTop k i) h =
     do { q \<leftarrow> shl_s k (signed_drop_bit k (h ! i));
          x \<leftarrow> sub_s (h ! i) q;
          Some (h[i := x]) }"
| "checked_op (MulAdd i j c) h =
     do { p \<leftarrow> mulc_s (h ! j) c;
          x \<leftarrow> add_s (h ! i) p;
          Some (h[i := x]) }"
| "checked_op (MulSub i j c) h =
     do { p \<leftarrow> mulc_s (h ! j) c;
          x \<leftarrow> sub_s (h ! i) p;
          Some (h[i := x]) }"
| "checked_op (ClearLimb i) h = Some (h[i := 0])"

definition checked_ops :: "limb_op list \<Rightarrow> 'a::len word list \<Rightarrow> 'a word list option" where
  "checked_ops ops h = opt_fold checked_op ops h"

lemma checked_ops_Nil [simp]: "checked_ops [] h = Some h"
  by (simp add: checked_ops_def)

lemma checked_ops_Cons [simp]: "checked_ops (p # ops) h = checked_op p h \<bind> checked_ops ops"
  by (simp add: checked_ops_def) (metis checked_ops_def)

lemma checked_ops_append: "checked_ops (ps @ qs) h = checked_ops ps h \<bind> checked_ops qs"
proof (induction ps arbitrary: h)
  case (Cons p ps)
  then show ?case by (cases "checked_op p h") simp_all
qed simp

section \<open>Where the program returns, nothing has wrapped\<close>

lemma if_some_eq: "(if b then Some x else None) = Some y \<longleftrightarrow> b \<and> x = y"
  by simp

lemma checked_op_exec: "checked_op p h = Some h' \<Longrightarrow> h' = exec_op p h"
  by (cases p) (auto simp: checked_defs Let_def bind_eq_Some_conv if_some_eq split: if_splits)

lemma checked_ops_exec: "checked_ops ops h = Some h' \<Longrightarrow> h' = exec_ops ops h"
proof (induction ops arbitrary: h)
  case (Cons p ops)
  then obtain g where "checked_op p h = Some g" "checked_ops ops g = Some h'" by (auto simp: bind_eq_Some_conv)
  then show ?case using checked_op_exec [of p h g] Cons.IH [of g] by (simp add: exec_ops_def)
qed (simp add: exec_ops_def)

section \<open>Where the intervals are accepted, the program returns\<close>

lemma in_range_abs: "\<bar>x\<bar> < 2 ^ (w - 1) \<Longrightarrow> in_range w x"
  unfolding in_range_def by linarith

lemma sum_between: "in_range w (a + c) \<Longrightarrow> in_range w (b + d) \<Longrightarrow> a \<le> x \<Longrightarrow> x \<le> b \<Longrightarrow> c \<le> y \<Longrightarrow> y \<le> d \<Longrightarrow> in_range w (x + y)"
  by (rule in_range_between [of w "a + c" "b + d"]) simp_all

lemma diff_between: "in_range w (a - d) \<Longrightarrow> in_range w (b - c) \<Longrightarrow> a \<le> x \<Longrightarrow> x \<le> b \<Longrightarrow> c \<le> y \<Longrightarrow> y \<le> d \<Longrightarrow> in_range w (x - y)"
  by (rule in_range_between [of w "a - d" "b - c"]) simp_all

text \<open>The end of a carry: the shift back and the subtraction.\<close>

lemma carry_rest_checked:
  fixes x c :: "'a::len word"
  assumes "k < LENGTH('a) - 1" and "0 \<le> r" and "r \<le> 2 ^ k" and "sint c = (sint x + r) div 2 ^ k"
    and "lo \<le> sint c" and "sint c \<le> hi" and "in_range LENGTH('a) (lo * 2 ^ k)" and "in_range LENGTH('a) (hi * 2 ^ k)"
  shows "shl_s k c = Some (push_bit k c)" and "sub_s x (push_bit k c) = Some (x - push_bit k c)"
proof -
  have p: "in_range LENGTH('a) (sint c * 2 ^ k)"
    by (rule in_range_between [OF assms(7,8)]) (use assms(5,6) in auto)
  then show "shl_s k c = Some (push_bit k c)" by (simp add: shl_s_def)
  have "sint x - sint (push_bit k c) = (sint x + r) mod 2 ^ k - r"
    unfolding sint_push_exact [OF p] assms(4) by (rule minus_div_mult)
  then show "sub_s x (push_bit k c) = Some (x - push_bit k c)"
    using in_range_rem [OF assms(1-3), of "sint x + r"] by (simp add: sub_s_def)
qed

lemma checked_CarryR:
  fixes h :: "'a::len word list"
  assumes ok: "iv_ok (map sint h) B" and acc: "iv_op LENGTH('a) (CarryR k i j m) B = Some C"
  shows "checked_op (CarryR k i j m) h = Some (exec_op (CarryR k i j m) h)"
proof -
  let ?w = "LENGTH('a)" and ?r = "(2::int) ^ (k - 1)"
  obtain a b c d where ab: "B ! i = (a, b)" and cd: "B ! j = (c, d)" by fastforce
  let ?lo = "(a + ?r) div 2 ^ k" and ?hi = "(b + ?r) div 2 ^ k" and ?c = "signed_drop_bit k (h ! i + push_bit (k - 1) 1)"
  from acc have g: "i < length B" "j < length B" "0 < k" "k < ?w - 1" "0 \<le> m"
      "in_range ?w (a + ?r)" "in_range ?w (b + ?r)" "in_range ?w (?lo * m)" "in_range ?w (?hi * m)"
      "in_range ?w (c + ?lo * m)" "in_range ?w (d + ?hi * m)" "in_range ?w (?lo * 2 ^ k)" "in_range ?w (?hi * 2 ^ k)"
    by (simp_all add: ab cd Let_def split: if_splits)
  have len: "length h = length B" using iv_ok_length [OF ok] by simp
  have x: "a \<le> sint (h ! i)" "sint (h ! i) \<le> b" and y: "c \<le> sint (h ! j)" "sint (h ! j) \<le> d"
    using iv_ok_nth [OF ok g(1) ab] iv_ok_nth [OF ok g(2) cd] g(1,2) len by simp_all
  note rc = sint_round_const [OF g(3,4)]
  have s1: "sint (1 :: 'a word) = 1" using g(4) by simp
  have "in_range ?w ?r" using g(3,4) by (intro in_range_small [of _ k]) simp_all
  then have "shl_s (k - 1) (1 :: 'a word) = Some (push_bit (k - 1) 1)" by (simp only: shl_s_def s1 mult_1 if_True)
  moreover have "add_s (h ! i) (push_bit (k - 1) 1) = Some (h ! i + push_bit (k - 1) 1)"
    using in_range_between [OF g(6,7), of "sint (h ! i) + ?r"] x unfolding add_s_def rc by simp
  moreover note cr = carry_round_exact [OF g(3,4) x g(6,7)]
  have clo: "?lo \<le> sint ?c" and chi: "sint ?c \<le> ?hi" using cr by simp_all
  note mb = mult_between [OF g(5) clo chi]
  have cm: "in_range ?w (sint ?c * m)" by (rule in_range_between [OF g(8,9) mb])
  then have "mulc_s ?c m = Some (?c * word_of_int m)" by (simp add: mulc_s_def)
  moreover have "add_s (h ! j) (?c * word_of_int m) = Some (h ! j + ?c * word_of_int m)"
    using sum_between [OF g(10,11) y mb] unfolding add_s_def sint_mult_const_exact [OF cm] by simp
  moreover have "0 \<le> ?r" "?r \<le> 2 ^ k" using two_pow_half [OF g(3)] by simp_all
  note rest = carry_rest_checked [OF g(4) this cr(1) clo chi g(12,13)]
  ultimately show ?thesis using rest by (simp add: Let_def)
qed

lemma checked_CarryF:
  fixes h :: "'a::len word list"
  assumes ok: "iv_ok (map sint h) B" and acc: "iv_op LENGTH('a) (CarryF k i j) B = Some C"
  shows "checked_op (CarryF k i j) h = Some (exec_op (CarryF k i j) h)"
proof -
  let ?w = "LENGTH('a)" and ?c = "signed_drop_bit k (h ! i)"
  obtain a b c d where ab: "B ! i = (a, b)" and cd: "B ! j = (c, d)" by fastforce
  from acc have g: "i < length B" "j < length B" "k < ?w - 1" "in_range ?w (c + a div 2 ^ k)" "in_range ?w (d + b div 2 ^ k)"
      "in_range ?w (a div 2 ^ k * 2 ^ k)" "in_range ?w (b div 2 ^ k * 2 ^ k)"
    by (simp_all add: ab cd Let_def split: if_splits)
  have len: "length h = length B" using iv_ok_length [OF ok] by simp
  have x: "a \<le> sint (h ! i)" "sint (h ! i) \<le> b" and y: "c \<le> sint (h ! j)" "sint (h ! j) \<le> d"
    using iv_ok_nth [OF ok g(1) ab] iv_ok_nth [OF ok g(2) cd] g(1,2) len by simp_all
  have cb: "a div 2 ^ k \<le> sint ?c" "sint ?c \<le> b div 2 ^ k" using x by (simp_all add: zdiv_mono1)
  have "add_s (h ! j) ?c = Some (h ! j + ?c)" using sum_between [OF g(4,5) y cb] by (simp add: add_s_def)
  then show ?thesis
    using carry_rest_checked [where r = 0, OF g(3) _ _ _ cb g(6,7), of "h ! i"] by (simp add: Let_def)
qed

lemma checked_CarryTop:
  fixes h :: "'a::len word list"
  assumes ok: "iv_ok (map sint h) B" and acc: "iv_op LENGTH('a) (CarryTop k i) B = Some C"
  shows "checked_op (CarryTop k i) h = Some (exec_op (CarryTop k i) h)"
proof -
  let ?w = "LENGTH('a)" and ?c = "signed_drop_bit k (h ! i)"
  obtain a b where ab: "B ! i = (a, b)" by fastforce
  from acc have g: "i < length B" "k < ?w - 1" "in_range ?w (a div 2 ^ k * 2 ^ k)" "in_range ?w (b div 2 ^ k * 2 ^ k)"
    by (simp_all add: ab Let_def split: if_splits)
  have "length h = length B" using iv_ok_length [OF ok] by simp
  then have "a \<le> sint (h ! i)" "sint (h ! i) \<le> b" using iv_ok_nth [OF ok g(1) ab] g(1) by simp_all
  then have cb: "a div 2 ^ k \<le> sint ?c" "sint ?c \<le> b div 2 ^ k" by (simp_all add: zdiv_mono1)
  show ?thesis
    using carry_rest_checked [where r = 0, OF g(2) _ _ _ cb g(3,4), of "h ! i"] by (simp add: Let_def)
qed

lemma checked_Mul:
  fixes h :: "'a::len word list"
  assumes ok: "iv_ok (map sint h) B"
  shows "iv_op LENGTH('a) (MulAdd i j m) B = Some C \<Longrightarrow> checked_op (MulAdd i j m) h = Some (exec_op (MulAdd i j m) h)"
    and "iv_op LENGTH('a) (MulSub i j m) B = Some C \<Longrightarrow> checked_op (MulSub i j m) h = Some (exec_op (MulSub i j m) h)"
proof -
  let ?w = "LENGTH('a)"
  obtain a b c d where ab: "B ! i = (a, b)" and cd: "B ! j = (c, d)" by fastforce
  have len: "length h = length B" using iv_ok_length [OF ok] by simp
  have p: "mulc_s (h ! j) m = Some (h ! j * word_of_int m)" "sint (h ! j * word_of_int m) = sint (h ! j) * m"
    "c * m \<le> sint (h ! j) * m" "sint (h ! j) * m \<le> d * m" "a \<le> sint (h ! i)" "sint (h ! i) \<le> b"
    if g: "i < length B" "j < length B" "0 \<le> m" "in_range ?w (c * m)" "in_range ?w (d * m)"
  proof -
    have x: "a \<le> sint (h ! i)" "sint (h ! i) \<le> b" and y: "c \<le> sint (h ! j)" "sint (h ! j) \<le> d"
      using iv_ok_nth [OF ok g(1) ab] iv_ok_nth [OF ok g(2) cd] g(1,2) len by simp_all
    note mb = mult_between [OF g(3) y]
    have "in_range ?w (sint (h ! j) * m)" by (rule in_range_between [OF g(4,5) mb])
    then show "mulc_s (h ! j) m = Some (h ! j * word_of_int m)" "sint (h ! j * word_of_int m) = sint (h ! j) * m"
      by (simp_all add: mulc_s_def sint_mult_const_exact)
    show "c * m \<le> sint (h ! j) * m" "sint (h ! j) * m \<le> d * m" "a \<le> sint (h ! i)" "sint (h ! i) \<le> b" by fact+
  qed
  show "checked_op (MulAdd i j m) h = Some (exec_op (MulAdd i j m) h)" if "iv_op ?w (MulAdd i j m) B = Some C"
  proof -
    from that have g: "i < length B" "j < length B" "0 \<le> m" "in_range ?w (c * m)" "in_range ?w (d * m)"
      and r: "in_range ?w (a + c * m)" "in_range ?w (b + d * m)"
      by (simp_all add: ab cd Let_def split: if_splits)
    note q = p [OF g]
    show ?thesis using q(1) sum_between [OF r q(5,6,3,4)] by (simp add: add_s_def q(2))
  qed
  show "checked_op (MulSub i j m) h = Some (exec_op (MulSub i j m) h)" if "iv_op ?w (MulSub i j m) B = Some C"
  proof -
    from that have g: "i < length B" "j < length B" "0 \<le> m" "in_range ?w (c * m)" "in_range ?w (d * m)"
      and r: "in_range ?w (a - d * m)" "in_range ?w (b - c * m)"
      by (simp_all add: ab cd Let_def split: if_splits)
    note q = p [OF g]
    show ?thesis using q(1) diff_between [OF r q(5,6,3,4)] by (simp add: sub_s_def q(2))
  qed
qed

lemma iv_op_checked:
  fixes h :: "'a::len word list"
  assumes "iv_ok (map sint h) B" and "iv_op LENGTH('a) p B = Some C"
  shows "checked_op p h = Some (exec_op p h)"
  using assms by (cases p) (simp_all only: checked_CarryR checked_CarryF checked_CarryTop checked_Mul, simp)

theorem iv_ops_checked:
  fixes h :: "'a::len word list"
  assumes "iv_ok (map sint h) B" and "iv_ops LENGTH('a) ops B = Some C"
  shows "checked_ops ops h = Some (exec_ops ops h)"
  using assms
proof (induction ops arbitrary: h B)
  case (Cons p ops)
  then obtain D where D: "iv_op LENGTH('a) p B = Some D" "iv_ops LENGTH('a) ops D = Some C" by (auto split: option.splits)
  have "iv_ok (map sint (exec_op p h)) D" using iv_op_sound [OF Cons.prems(1) D(1)] by (simp add: op_sound_def)
  then show ?case using iv_op_checked [OF Cons.prems(1) D(1)] Cons.IH D(2) by (simp add: exec_ops_def)
qed (simp add: exec_ops_def)

lemma iv_run_checked:
  fixes h :: "'a::len word list"
  assumes "iv_run LENGTH('a) ops B D" and "iv_ok (map sint h) B"
  shows "checked_ops ops h = Some (exec_ops ops h)"
  using assms iv_ops_checked by (auto simp: iv_run_def split: option.splits)

text \<open>A program that only touches the first \<open>n\<close> limbs does not depend on the others.\<close>

lemma checked_op_take: "op_within n p \<Longrightarrow> checked_op p (take n h) = map_option (take n) (checked_op p h)"
  by (cases p) (simp_all add: checked_defs take_update_swap)

lemma checked_ops_take:
  "list_all (op_within n) ops \<Longrightarrow> checked_ops ops (take n h) = map_option (take n) (checked_ops ops h)"
proof (induction ops arbitrary: h)
  case (Cons p ops)
  then show ?case by (cases "checked_op p h") (simp_all add: checked_op_take)
qed simp

lemma checked_ops_prefix:
  assumes "list_all (op_within n) ops" and "checked_ops ops (take n h) = Some g"
  shows "checked_ops ops h = Some (exec_ops ops h)"
  using assms checked_ops_take [OF assms(1), of h] checked_ops_exec [of ops h] by auto

section \<open>Sums and products\<close>

text \<open>A sum of several terms is evaluated from left to right; a product of 32-bit numbers always fits into 64 bits.\<close>

fun sum_s :: "'a::len word list \<Rightarrow> 'a word option" where
  "sum_s [] = Some 0"
| "sum_s (x # xs) = opt_fold (\<lambda>y s. add_s s y) xs x"

definition prod_s :: "i32 \<Rightarrow> i32 \<Rightarrow> i64 option" where
  "prod_s x y = mul_s (scast x) (scast y)"

lemma abs_mult_le: "\<bar>x\<bar> \<le> a \<Longrightarrow> \<bar>y\<bar> \<le> b \<Longrightarrow> \<bar>x * y\<bar> \<le> a * (b :: int)"
  by (simp add: abs_mult mult_mono)

lemma sint_widen: "sint (scast (x :: i32) :: i64) = sint x"
  by (rule sint_scast_exact) (use sint_range_size [of x] in \<open>simp add: in_range_def word_size\<close>)

lemma prod_s_eq: "prod_s x y = Some (scast x * scast y)"
  and sint_prod: "sint (scast x * scast y :: i64) = sint (x :: i32) * sint y"
proof -
  have b: "\<bar>sint z\<bar> \<le> 2 ^ 31" for z :: i32 using sint_range_size [of z] by (simp add: word_size abs_le_iff)
  have "\<bar>sint x * sint y\<bar> \<le> 2 ^ 31 * 2 ^ 31" by (rule abs_mult_le [OF b b])
  then have r: "in_range 64 (sint x * sint y)" by (simp add: in_range_def abs_le_iff)
  then show "prod_s x y = Some (scast x * scast y)" by (simp add: prod_s_def mul_s_def sint_widen)
  show "sint (scast x * scast y :: i64) = sint x * sint y"
    using sint_mult_exact [of "scast x :: i64" "scast y"] r by (simp add: sint_widen)
qed

lemma add_chain:
  fixes x :: i64
  assumes "list_all (\<lambda>y. \<bar>sint y\<bar> \<le> M) ys" and "\<bar>sint x\<bar> + int (length ys) * M < 2 ^ 63"
  shows "opt_fold (\<lambda>y s. add_s s y) ys x = Some (foldl (+) x ys)"
  using assms
proof (induction ys arbitrary: x)
  case (Cons y ys)
  have "0 \<le> M" using Cons.prems(1) by (auto intro: order_trans [OF abs_ge_zero])
  then have m: "0 \<le> int (length ys) * M" by simp
  have b: "\<bar>sint x\<bar> + M + int (length ys) * M < 2 ^ 63" "\<bar>sint y\<bar> \<le> M" using Cons.prems by (simp_all add: algebra_simps)
  then have "\<bar>sint x + sint y\<bar> < 2 ^ 63" using m abs_triangle_ineq [of "sint x" "sint y"] by linarith
  then have "in_range 64 (sint x + sint y)" by (simp add: in_range_def abs_less_iff)
  then have "add_s x y = Some (x + y)" "\<bar>sint (x + y)\<bar> \<le> \<bar>sint x\<bar> + M"
    using sint_add_exact [of x y] b(2) by (simp_all add: add_s_def)
  then show ?case using Cons.IH [of "x + y"] Cons.prems(1) b(1) by simp
qed simp

lemma sum_s_eq:
  fixes x :: i64
  assumes "list_all (\<lambda>y. \<bar>sint y\<bar> \<le> M) (x # ys)" and "(int (length ys) + 1) * M < 2 ^ 63"
  shows "sum_s (x # ys) = Some (foldl (+) x ys)"
  using add_chain [of M ys x] assms by (simp add: algebra_simps)

end
