(* ===== verification/FeChecked.thy ===== *)
theory FeChecked
  imports FeArith Checked
begin

text \<open>
  The multiplication of field elements with operations that refuse to overflow: every product, sum and
  shift at 32 and at 64 bits, and the narrowing stores.  It returns for all arguments within the
  bounds of the precondition, and then it is \<open>fe_mul\<close>.
\<close>

definition fe_mul_h_checked :: "fe \<Rightarrow> fe \<Rightarrow> i64 list option" where
  "fe_mul_h_checked f g =
     (let f0 = f ! 0; f1 = f ! 1; f2 = f ! 2; f3 = f ! 3; f4 = f ! 4; f5 = f ! 5; f6 = f ! 6;
          f7 = f ! 7; f8 = f ! 8; f9 = f ! 9; g0 = g ! 0; g1 = g ! 1; g2 = g ! 2; g3 = g ! 3;
          g4 = g ! 4; g5 = g ! 5; g6 = g ! 6; g7 = g ! 7; g8 = g ! 8; g9 = g ! 9
      in do { g1_19 \<leftarrow> mul_s 19 g1; g2_19 \<leftarrow> mul_s 19 g2;
             g3_19 \<leftarrow> mul_s 19 g3; g4_19 \<leftarrow> mul_s 19 g4;
             g5_19 \<leftarrow> mul_s 19 g5; g6_19 \<leftarrow> mul_s 19 g6;
             g7_19 \<leftarrow> mul_s 19 g7; g8_19 \<leftarrow> mul_s 19 g8;
             g9_19 \<leftarrow> mul_s 19 g9; f1_2 \<leftarrow> mul_s 2 f1;
             f3_2 \<leftarrow> mul_s 2 f3; f5_2 \<leftarrow> mul_s 2 f5;
             f7_2 \<leftarrow> mul_s 2 f7; f9_2 \<leftarrow> mul_s 2 f9;
             f0g0 \<leftarrow> prod_s f0 g0; f0g1 \<leftarrow> prod_s f0 g1;
             f0g2 \<leftarrow> prod_s f0 g2; f0g3 \<leftarrow> prod_s f0 g3;
             f0g4 \<leftarrow> prod_s f0 g4; f0g5 \<leftarrow> prod_s f0 g5;
             f0g6 \<leftarrow> prod_s f0 g6; f0g7 \<leftarrow> prod_s f0 g7;
             f0g8 \<leftarrow> prod_s f0 g8; f0g9 \<leftarrow> prod_s f0 g9;
             f1g0 \<leftarrow> prod_s f1 g0; f1g1_2 \<leftarrow> prod_s f1_2 g1;
             f1g2 \<leftarrow> prod_s f1 g2; f1g3_2 \<leftarrow> prod_s f1_2 g3;
             f1g4 \<leftarrow> prod_s f1 g4; f1g5_2 \<leftarrow> prod_s f1_2 g5;
             f1g6 \<leftarrow> prod_s f1 g6; f1g7_2 \<leftarrow> prod_s f1_2 g7;
             f1g8 \<leftarrow> prod_s f1 g8; f1g9_38 \<leftarrow> prod_s f1_2 g9_19;
             f2g0 \<leftarrow> prod_s f2 g0; f2g1 \<leftarrow> prod_s f2 g1;
             f2g2 \<leftarrow> prod_s f2 g2; f2g3 \<leftarrow> prod_s f2 g3;
             f2g4 \<leftarrow> prod_s f2 g4; f2g5 \<leftarrow> prod_s f2 g5;
             f2g6 \<leftarrow> prod_s f2 g6; f2g7 \<leftarrow> prod_s f2 g7;
             f2g8_19 \<leftarrow> prod_s f2 g8_19; f2g9_19 \<leftarrow> prod_s f2 g9_19;
             f3g0 \<leftarrow> prod_s f3 g0; f3g1_2 \<leftarrow> prod_s f3_2 g1;
             f3g2 \<leftarrow> prod_s f3 g2; f3g3_2 \<leftarrow> prod_s f3_2 g3;
             f3g4 \<leftarrow> prod_s f3 g4; f3g5_2 \<leftarrow> prod_s f3_2 g5;
             f3g6 \<leftarrow> prod_s f3 g6; f3g7_38 \<leftarrow> prod_s f3_2 g7_19;
             f3g8_19 \<leftarrow> prod_s f3 g8_19; f3g9_38 \<leftarrow> prod_s f3_2 g9_19;
             f4g0 \<leftarrow> prod_s f4 g0; f4g1 \<leftarrow> prod_s f4 g1;
             f4g2 \<leftarrow> prod_s f4 g2; f4g3 \<leftarrow> prod_s f4 g3;
             f4g4 \<leftarrow> prod_s f4 g4; f4g5 \<leftarrow> prod_s f4 g5;
             f4g6_19 \<leftarrow> prod_s f4 g6_19; f4g7_19 \<leftarrow> prod_s f4 g7_19;
             f4g8_19 \<leftarrow> prod_s f4 g8_19; f4g9_19 \<leftarrow> prod_s f4 g9_19;
             f5g0 \<leftarrow> prod_s f5 g0; f5g1_2 \<leftarrow> prod_s f5_2 g1;
             f5g2 \<leftarrow> prod_s f5 g2; f5g3_2 \<leftarrow> prod_s f5_2 g3;
             f5g4 \<leftarrow> prod_s f5 g4; f5g5_38 \<leftarrow> prod_s f5_2 g5_19;
             f5g6_19 \<leftarrow> prod_s f5 g6_19; f5g7_38 \<leftarrow> prod_s f5_2 g7_19;
             f5g8_19 \<leftarrow> prod_s f5 g8_19; f5g9_38 \<leftarrow> prod_s f5_2 g9_19;
             f6g0 \<leftarrow> prod_s f6 g0; f6g1 \<leftarrow> prod_s f6 g1;
             f6g2 \<leftarrow> prod_s f6 g2; f6g3 \<leftarrow> prod_s f6 g3;
             f6g4_19 \<leftarrow> prod_s f6 g4_19; f6g5_19 \<leftarrow> prod_s f6 g5_19;
             f6g6_19 \<leftarrow> prod_s f6 g6_19; f6g7_19 \<leftarrow> prod_s f6 g7_19;
             f6g8_19 \<leftarrow> prod_s f6 g8_19; f6g9_19 \<leftarrow> prod_s f6 g9_19;
             f7g0 \<leftarrow> prod_s f7 g0; f7g1_2 \<leftarrow> prod_s f7_2 g1;
             f7g2 \<leftarrow> prod_s f7 g2; f7g3_38 \<leftarrow> prod_s f7_2 g3_19;
             f7g4_19 \<leftarrow> prod_s f7 g4_19; f7g5_38 \<leftarrow> prod_s f7_2 g5_19;
             f7g6_19 \<leftarrow> prod_s f7 g6_19; f7g7_38 \<leftarrow> prod_s f7_2 g7_19;
             f7g8_19 \<leftarrow> prod_s f7 g8_19; f7g9_38 \<leftarrow> prod_s f7_2 g9_19;
             f8g0 \<leftarrow> prod_s f8 g0; f8g1 \<leftarrow> prod_s f8 g1;
             f8g2_19 \<leftarrow> prod_s f8 g2_19; f8g3_19 \<leftarrow> prod_s f8 g3_19;
             f8g4_19 \<leftarrow> prod_s f8 g4_19; f8g5_19 \<leftarrow> prod_s f8 g5_19;
             f8g6_19 \<leftarrow> prod_s f8 g6_19; f8g7_19 \<leftarrow> prod_s f8 g7_19;
             f8g8_19 \<leftarrow> prod_s f8 g8_19; f8g9_19 \<leftarrow> prod_s f8 g9_19;
             f9g0 \<leftarrow> prod_s f9 g0; f9g1_38 \<leftarrow> prod_s f9_2 g1_19;
             f9g2_19 \<leftarrow> prod_s f9 g2_19; f9g3_38 \<leftarrow> prod_s f9_2 g3_19;
             f9g4_19 \<leftarrow> prod_s f9 g4_19; f9g5_38 \<leftarrow> prod_s f9_2 g5_19;
             f9g6_19 \<leftarrow> prod_s f9 g6_19; f9g7_38 \<leftarrow> prod_s f9_2 g7_19;
             f9g8_19 \<leftarrow> prod_s f9 g8_19; f9g9_38 \<leftarrow> prod_s f9_2 g9_19;
             h0 \<leftarrow> sum_s [f0g0, f1g9_38, f2g8_19, f3g7_38, f4g6_19, f5g5_38, f6g4_19, f7g3_38, f8g2_19, f9g1_38];
             h1 \<leftarrow> sum_s [f0g1, f1g0, f2g9_19, f3g8_19, f4g7_19, f5g6_19, f6g5_19, f7g4_19, f8g3_19, f9g2_19];
             h2 \<leftarrow> sum_s [f0g2, f1g1_2, f2g0, f3g9_38, f4g8_19, f5g7_38, f6g6_19, f7g5_38, f8g4_19, f9g3_38];
             h3 \<leftarrow> sum_s [f0g3, f1g2, f2g1, f3g0, f4g9_19, f5g8_19, f6g7_19, f7g6_19, f8g5_19, f9g4_19];
             h4 \<leftarrow> sum_s [f0g4, f1g3_2, f2g2, f3g1_2, f4g0, f5g9_38, f6g8_19, f7g7_38, f8g6_19, f9g5_38];
             h5 \<leftarrow> sum_s [f0g5, f1g4, f2g3, f3g2, f4g1, f5g0, f6g9_19, f7g8_19, f8g7_19, f9g6_19];
             h6 \<leftarrow> sum_s [f0g6, f1g5_2, f2g4, f3g3_2, f4g2, f5g1_2, f6g0, f7g9_38, f8g8_19, f9g7_38];
             h7 \<leftarrow> sum_s [f0g7, f1g6, f2g5, f3g4, f4g3, f5g2, f6g1, f7g0, f8g9_19, f9g8_19];
             h8 \<leftarrow> sum_s [f0g8, f1g7_2, f2g6, f3g5_2, f4g4, f5g3_2, f6g2, f7g1_2, f8g0, f9g9_38];
             h9 \<leftarrow> sum_s [f0g9, f1g8, f2g7, f3g6, f4g5, f5g4, f6g3, f7g2, f8g1, f9g0];
             Some [h0, h1, h2, h3, h4, h5, h6, h7, h8, h9] })"

definition fe_mul_checked :: "fe \<Rightarrow> fe \<Rightarrow> fe option" where
  "fe_mul_checked f g =
     do { h \<leftarrow> fe_mul_h_checked f g;
          h \<leftarrow> checked_ops fe_carries h;
          opt_fold (\<lambda>x r. do { y \<leftarrow> narrow_s x; Some (r @ [y]) }) h [] }"

lemma narrow_all:
  assumes "list_all (\<lambda>x. in_range LENGTH('b::len) (sint x)) h"
  shows "opt_fold (\<lambda>x r. do { y \<leftarrow> narrow_s x; Some (r @ [y]) }) h r = Some (r @ map (scast :: 'a::len word \<Rightarrow> 'b word) h)"
  using assms by (induction h arbitrary: r) (simp_all add: narrow_s_def)

text \<open>The terms of the ten sums are products of a limb of \<open>f\<close>, perhaps doubled, and one of \<open>g\<close>, perhaps times 19.\<close>

lemma sint_times_small:
  fixes x :: i32
  assumes "\<bar>sint x\<bar> \<le> M" and "numeral c * M < 2 ^ 31" and "sint (numeral c :: i32) = numeral c"
  shows "mul_s (numeral c) x = Some (numeral c * x)" and "\<bar>sint (numeral c * x)\<bar> \<le> numeral c * M"
proof -
  have b: "\<bar>numeral c * sint x\<bar> \<le> numeral c * M" using assms(1) by (intro abs_mult_le) simp_all
  then have r: "in_range 32 (numeral c * sint x)" using assms(2) by (intro in_range_abs) simp
  show "mul_s (numeral c) x = Some (numeral c * x)" unfolding mul_s_def assms(3) using r by simp
  show "\<bar>sint (numeral c * x)\<bar> \<le> numeral c * M" using sint_mult_exact [of "numeral c" x, unfolded assms(3)] r b by simp
qed

lemma fe_mul_h_returns:
  assumes "fe_bounded 110729625 55364812 f" and "fe_bounded 110729625 55364812 g"
  shows "fe_mul_h_checked f g = Some (fe_mul_h f g)"
proof -
  have F: "\<bar>sint (f ! i)\<bar> \<le> 110729625" "\<bar>sint (g ! i)\<bar> \<le> 110729625" if "i < 10" for i
    using assms that unfolding fe_bounded_def by (auto intro: order_trans split: if_splits)
  have O: "\<bar>sint (f ! i)\<bar> \<le> 55364812" if "i < 10" "odd i" for i using assms(1) that unfolding fe_bounded_def by auto
  have two: "mul_s 2 (f ! i) = Some (2 * f ! i)" "\<bar>sint (2 * f ! i)\<bar> \<le> 110729625" if "i < 10" "odd i" for i
    using sint_times_small [OF O [OF that], of "num.Bit0 num.One"] by simp_all
  have nt: "mul_s 19 (g ! i) = Some (19 * g ! i)" "\<bar>sint (19 * g ! i)\<bar> \<le> 2103862875" if "i < 10" for i
    using sint_times_small [OF F(2) [OF that], of "num.Bit1 (num.Bit1 (num.Bit0 (num.Bit0 num.One)))"] by simp_all
  have G: "\<bar>sint (g ! i)\<bar> \<le> 2103862875" if "i < 10" for i using F(2) [OF that] by simp
  have P: "\<bar>sint (scast x * scast y :: i64)\<bar> \<le> 232959947200171875" if "\<bar>sint x\<bar> \<le> 110729625" "\<bar>sint y\<bar> \<le> 2103862875" for x y :: i32
    unfolding sint_prod using abs_mult_le [OF that] by simp
  have S: "sum_s [t0, t1, t2, t3, t4, t5, t6, t7, t8, t9] = Some (t0 + t1 + t2 + t3 + t4 + t5 + t6 + t7 + t8 + t9)"
    if "list_all (\<lambda>t. \<bar>sint t\<bar> \<le> 232959947200171875) [t0, t1, t2, t3, t4, t5, t6, t7, t8, t9]" for t0 t1 t2 t3 t4 t5 t6 t7 t8 t9 :: i64
    using sum_s_eq [OF that] by simp
  show ?thesis
    unfolding fe_mul_h_checked_def fe_mul_h_def Let_def
    by (simp add: two nt prod_s_eq S P F(1) G del: One_nat_def sum_s.simps)
qed

lemma fe_mul_returns:
  assumes "fe_bounded 110729625 55364812 f" and "fe_bounded 110729625 55364812 g"
  shows "fe_mul_checked f g = Some (fe_mul f g)"
proof -
  let ?h = "fe_mul_h f g"
  have "map sint ?h = fe_school (map sint f) (map sint g)"
    unfolding fe_mul_h_words [OF assms] by (rule map_sint_of_int [OF fe_school_iv [OF assms]]) simp_all
  then have h: "iv_ok (map sint ?h) (sym_iv 3053001392268886970 1888201660254294000)"
    using iv_ok_sym_iv_mono [OF fe_school_iv [OF assms], of 3053001392268886970 1888201660254294000] by simp
  have run: "iv_run LENGTH(64) fe_carries (sym_iv 3053001392268886970 1888201660254294000) (sym_iv 33889976 16944988)"
    by code_simp
  let ?r = "exec_ops fe_carries ?h"
  have ok: "iv_ok (map sint ?r) (sym_iv 33889976 16944988)" using iv_run_sound [OF run h] by simp
  have len: "length ?r = 10" using ok by (simp add: iv_ok_sym_iv)
  have "in_range LENGTH(32) (sint x)" if "x \<in> set ?r" for x
  proof -
    from that obtain i where i: "i < 10" "x = ?r ! i" using len by (metis in_set_conv_nth)
    have "\<bar>map sint ?r ! i\<bar> \<le> (if even i then 33889976 else 16944988)" using ok i(1) unfolding iv_ok_sym_iv by blast
    then have "\<bar>sint x\<bar> \<le> 33889976" using i len by (simp split: if_splits)
    then show ?thesis by (intro in_range_abs) simp
  qed
  then have n: "list_all (\<lambda>x. in_range LENGTH(32) (sint x)) ?r" unfolding list_all_iff by blast
  show ?thesis
    unfolding fe_mul_checked_def fe_mul_h_returns [OF assms] fe_mul_def fe_reduce_def
    using iv_run_checked [OF run h] narrow_all [OF n, of "[]"] by simp
qed

end
