(* ===== verification/FieldProps.thy ===== *)
theory FieldProps
  imports FePow FeChecked
begin

text \<open>
  The properties of the field arithmetic of \<open>crypto-ops.c\<close>, each over the definitions that
  translate the code, and their evaluations at concrete field elements.
\<close>

section \<open>Bytes and field elements, both ways\<close>

lemma fe_res_tobytes: "fe_res f \<Longrightarrow> fe_bounded 110729625 55364812 f"
  by (erule fe_bounded_mono) simp_all

lemma fe_tobytes_frombytes:
  assumes "length s = 32"
  shows "le_val (fe_tobytes (fe_frombytes (fe_frombytes_h s))) = le_val s mod 2 ^ 255 mod p25519"
proof -
  note c = fe_frombytes_correct [OF fe_frombytes_h_iv, of s]
  have "fe_val (fe_frombytes (fe_frombytes_h s)) mod p25519 = le_val s mod 2 ^ 255 mod p25519"
    using c(2) unfolding fe_frombytes_value [OF assms] by (simp add: fe_gf_def of_int_gf_eq_iff)
  then show ?thesis by (simp add: fe_tobytes_correct [OF fe_res_tobytes [OF c(1)]])
qed

lemma fe_frombytes_tobytes:
  assumes "fe_bounded 110729625 55364812 f"
  shows "fe_gf (fe_frombytes (fe_frombytes_h (fe_tobytes f))) = fe_gf f"
    and "\<not> fe_noncanonical (fe_frombytes_h (fe_tobytes f))"
proof -
  let ?s = "fe_tobytes f"
  have v: "le_val ?s = fe_val f mod p25519" by (rule fe_tobytes_correct [OF assms])
  have lt: "le_val ?s < p25519" unfolding v by (simp add: p25519_def)
  then have m: "le_val ?s mod 2 ^ 255 = le_val ?s" by (intro mod_pos_pos_trivial) (simp_all add: p25519_def)
  show "fe_gf (fe_frombytes (fe_frombytes_h ?s)) = fe_gf f"
    using fe_frombytes_correct(2) [OF fe_frombytes_h_iv, of ?s] m
    by (simp add: fe_frombytes_value fe_gf_def of_int_gf_eq_iff v)
  show "\<not> fe_noncanonical (fe_frombytes_h ?s)"
    using lt by (simp only: fe_noncanonical_iff length_fe_tobytes m not_le)
qed

lemma fe_gf_1: "fe_gf fe_1 = 1"
  by (simp add: fe_gf_def fe_val_def fe_value_expand fe_1_def)

lemma fe_1_arg: "fe_arg fe_1"
  by (simp add: fe_bounded_def all_less_10 fe_1_def)

section \<open>Properties\<close>

text \<open>
  C29: \<open>fe_mul\<close>.  For limbs within the bounds of the precondition in the comment
  (1.65 * 2^26 and 1.65 * 2^25) no 32- or 64-bit signed operation overflows: the program in which an
  operation whose result does not fit has no result returns the same limbs.  They
  stand for the product in the field of 2^255 - 19 elements and satisfy the
  postcondition (1.01 * 2^25 and 1.01 * 2^24).
\<close>

theorem fe_mul_product:
  assumes "fe_bounded 110729625 55364812 f" and "fe_bounded 110729625 55364812 g"
  shows "fe_mul_checked f g = Some (fe_mul f g)
    \<and> fe_gf (fe_mul f g) = fe_gf f * fe_gf g \<and> fe_bounded 33889976 16944988 (fe_mul f g)"
  using fe_mul_returns [OF assms] fe_chain.mul_abs [OF assms] fe_chain.mul_res [OF assms] by simp

theorem fe_mul_product_witness:
  "let f = [1, 2, 3, 4, 5, 6, 7, 8, 9, 10] :: fe; g = [- 1, 0, 0, 0, 0, 0, 0, 0, 0, 33554432]
   in fe_mul_checked f g = Some (fe_mul f g)
    \<and> fe_gf (fe_mul f g) = fe_gf f * fe_gf g \<and> fe_bounded 33889976 16944988 (fe_mul f g)"
  unfolding Let_def by (rule fe_mul_product) (simp_all add: fe_bounded_def all_less_10)

text \<open>
  \<open>fe_sq\<close> and \<open>fe_sq2\<close>.  The optimised squaring, with its doubled cross products, agrees
  in the field with the product of its argument by itself, and \<open>fe_sq2\<close> with twice that
  product; both satisfy the postcondition of \<open>fe_mul\<close> under its precondition.
\<close>

theorem fe_sq_square:
  assumes "fe_bounded 110729625 55364812 f"
  shows "fe_gf (fe_sq f) = fe_gf (fe_mul f f) \<and> fe_gf (fe_sq2 f) = 2 * fe_gf (fe_mul f f)
    \<and> fe_bounded 33889976 16944988 (fe_sq f) \<and> fe_bounded 33889976 16944988 (fe_sq2 f)"
  using fe_sq_correct [OF assms] fe_sq2_correct [OF assms] fe_chain.mul_abs [OF assms assms]
    fe_gf_eqI [of "fe_sq2 f" "2 * (fe_val f)\<^sup>2"] fe_gf_eqI [of "fe_sq f" "(fe_val f)\<^sup>2"]
  by (simp add: fe_gf_def power2_eq_square)

theorem fe_sq_square_witness:
  "let f = [5, - 3, 0, 0, 0, 0, 0, 0, 0, 16777216] :: fe
   in fe_gf (fe_sq f) = fe_gf (fe_mul f f) \<and> fe_gf (fe_sq2 f) = 2 * fe_gf (fe_mul f f)
    \<and> fe_bounded 33889976 16944988 (fe_sq f) \<and> fe_bounded 33889976 16944988 (fe_sq2 f)"
  unfolding Let_def by (rule fe_sq_square) (simp add: fe_bounded_def all_less_10)

text \<open>
  \<open>fe_add\<close>, \<open>fe_sub\<close> and \<open>fe_neg\<close> are the ring operations without a reduction.  As long
  as the sums of the bounds stay below 2^31 no signed addition overflows; the bounds of the
  result are those sums, which is how much a later multiplication may still use up.
\<close>

theorem fe_add_sub_neg:
  assumes "fe_bounded e d f" and "fe_bounded e' d' g" and "e + e' < 2 ^ 31" and "d + d' < 2 ^ 31"
  shows "fe_gf (fe_add f g) = fe_gf f + fe_gf g \<and> fe_bounded (e + e') (d + d') (fe_add f g)
    \<and> fe_gf (fe_sub f g) = fe_gf f - fe_gf g \<and> fe_bounded (e + e') (d + d') (fe_sub f g)
    \<and> fe_gf (fe_neg f) = - fe_gf f \<and> fe_bounded e d (fe_neg f)"
proof -
  have "0 \<le> e'" "0 \<le> d'"
    using fe_bounded_nth [OF assms(2), of 0] fe_bounded_nth [OF assms(2), of 1] by simp_all
  then have "e < 2 ^ 31" "d < 2 ^ 31" using assms(3,4) by linarith+
  then show ?thesis
    using fe_add_correct [OF assms] fe_sub_correct [OF assms] fe_neg_correct [OF assms(1)]
    by (simp add: fe_gf_def)
qed

theorem fe_add_sub_neg_witness:
  "let f = [3, 2, 1, 0, 0, 0, 0, 0, 0, 7] :: fe; g = [10, 20, 30, 0, 0, 0, 0, 0, 0, - 5] :: fe
   in fe_gf (fe_add f g) = fe_gf f + fe_gf g \<and> fe_bounded (3 + 30) (7 + 20) (fe_add f g)
    \<and> fe_gf (fe_sub f g) = fe_gf f - fe_gf g \<and> fe_bounded (3 + 30) (7 + 20) (fe_sub f g)
    \<and> fe_gf (fe_neg f) = - fe_gf f \<and> fe_bounded 3 7 (fe_neg f)"
  unfolding Let_def by (rule fe_add_sub_neg) (simp_all add: fe_bounded_def all_less_10)

text \<open>
  \<open>fe_tobytes\<close>.  For limbs up to 1.65 * 2^26 and 1.65 * 2^25, which is all that the
  multiplications accept and more than the 1.1 * 2^26 and 1.1 * 2^25 of its comment, the 32
  bytes are the little-endian canonical representative, the residue in [0, 2^255 - 19).
\<close>

theorem fe_tobytes_canonical:
  assumes "fe_bounded 110729625 55364812 h"
  shows "length (fe_tobytes h) = 32 \<and> le_val (fe_tobytes h) = fe_val h mod p25519"
  using fe_tobytes_correct [OF assms] by simp

theorem fe_tobytes_canonical_witness:
  "let h = [- 19, 0, 0, 0, 0, 0, 0, 0, 0, 33554432] :: fe
   in le_val (fe_tobytes h) = fe_val h mod p25519 \<and> fe_tobytes h = replicate 32 0"
proof -
  let ?h = "[- 19, 0, 0, 0, 0, 0, 0, 0, 0, 33554432] :: fe"
  have "fe_bounded 110729625 55364812 ?h" by (simp add: fe_bounded_def all_less_10)
  from fe_tobytes_canonical [OF this] have "le_val (fe_tobytes ?h) = fe_val ?h mod p25519" by simp
  moreover have "fe_tobytes ?h = replicate 32 0" by code_simp
  ultimately show ?thesis by simp
qed

text \<open>
  the inlined \<open>fe_frombytes\<close> of \<open>ge_frombytes_vartime\<close> against \<open>fe_tobytes\<close>.  For every
  32-byte string the ten unreduced loads pass the canonicity test exactly when the low 255
  bits are below the prime, the decoded element is within the result bounds of \<open>fe_mul\<close>, and
  encoding it again gives those 255 bits, reduced modulo the prime.
\<close>

theorem fe_frombytes_decodes:
  assumes "length s = 32"
  shows "(fe_noncanonical (fe_frombytes_h s) \<longleftrightarrow> p25519 \<le> le_val s mod 2 ^ 255)
    \<and> fe_bounded 33889976 16944988 (fe_frombytes (fe_frombytes_h s))
    \<and> le_val (fe_tobytes (fe_frombytes (fe_frombytes_h s))) = le_val s mod 2 ^ 255 mod p25519"
  using fe_noncanonical_iff [OF assms] fe_frombytes_correct(1) [OF fe_frombytes_h_iv, of s]
    fe_tobytes_frombytes [OF assms] by blast

theorem fe_frombytes_decodes_witness:
  "let s = 237 # replicate 30 255 @ [127] :: bytes
   in fe_noncanonical (fe_frombytes_h s) \<and> p25519 \<le> le_val s mod 2 ^ 255
    \<and> le_val (fe_tobytes (fe_frombytes (fe_frombytes_h s))) = le_val s mod 2 ^ 255 mod p25519"
proof -
  let ?s = "237 # replicate 30 255 @ [127] :: bytes"
  have "fe_noncanonical (fe_frombytes_h ?s)" by code_simp
  then show ?thesis using fe_frombytes_decodes [of ?s] by (simp add: Let_def)
qed

text \<open>
  decoding undoes encoding.  The 32 bytes that \<open>fe_tobytes\<close> writes for any element within
  its precondition are accepted as canonical by the decoder and stand for the same element of
  the field.
\<close>

theorem fe_tobytes_roundtrip:
  assumes "fe_bounded 110729625 55364812 f"
  shows "\<not> fe_noncanonical (fe_frombytes_h (fe_tobytes f))
    \<and> fe_gf (fe_frombytes (fe_frombytes_h (fe_tobytes f))) = fe_gf f"
  using fe_frombytes_tobytes [OF assms] by simp

theorem fe_tobytes_roundtrip_witness:
  "let f = [- 1, 5, 0, 0, 0, 0, 0, 0, 0, - 55364812] :: fe
   in \<not> fe_noncanonical (fe_frombytes_h (fe_tobytes f))
    \<and> fe_gf (fe_frombytes (fe_frombytes_h (fe_tobytes f))) = fe_gf f"
  unfolding Let_def by (rule fe_tobytes_roundtrip) (simp add: fe_bounded_def all_less_10)

text \<open>
  \<open>fe_isnonzero\<close> returns 1 for a nonzero element of the field and 0 for zero, in whatever
  representation, and \<open>fe_isnegative\<close> the parity of the canonical representative.
\<close>

theorem fe_predicates:
  assumes "fe_bounded 110729625 55364812 f"
  shows "fe_isnonzero f = (if fe_gf f = 0 then 0 else 1)
    \<and> fe_isnegative f = (if odd (fe_val f mod p25519) then 1 else 0)"
  using fe_isnonzero_correct [OF assms] fe_isnegative_correct [OF assms] by simp

theorem fe_predicates_witness:
  "let f = [- 19, 0, 0, 0, 0, 0, 0, 0, 0, 33554432] :: fe
   in fe_isnonzero f = 0 \<and> fe_gf f = 0 \<and> fe_isnegative f = 0 \<and> even (fe_val f mod p25519)"
proof -
  let ?f = "[- 19, 0, 0, 0, 0, 0, 0, 0, 0, 33554432] :: fe"
  have b: "fe_bounded 110729625 55364812 ?f" by (simp add: fe_bounded_def all_less_10)
  have "fe_isnonzero ?f = 0" by code_simp
  moreover have "fe_isnegative ?f = 0" by code_simp
  ultimately show ?thesis using fe_predicates [OF b] by (simp add: Let_def split: if_splits)
qed

text \<open>
  \<open>fe_divpowm1\<close> computes the candidate square root \<open>u v^3 (u v^7)^((p - 5) / 8)\<close> of
  \<open>u / v\<close> used by point decompression, within the bounds of the multiplications.
\<close>

theorem fe_divpowm1_power:
  assumes "fe_bounded 110729625 55364812 u" and "fe_bounded 110729625 55364812 v"
  shows "fe_gf (fe_divpowm1 u v)
      = fe_gf u * fe_gf v ^ 3 * (fe_gf u * fe_gf v ^ 7) ^ ((nat p25519 - 5) div 8)
    \<and> fe_bounded 33889976 16944988 (fe_divpowm1 u v)"
proof -
  have "(nat p25519 - 5) div 8 = 2 ^ 252 - 3" by (simp add: p25519_def)
  then show ?thesis using fe_divpowm1_correct [OF assms] by simp
qed

theorem fe_divpowm1_power_witness:
  "fe_gf fe_1 = 1 \<and> fe_gf (fe_divpowm1 fe_1 fe_1) = 1
    \<and> fe_bounded 33889976 16944988 (fe_divpowm1 fe_1 fe_1)"
  using fe_divpowm1_power [OF fe_1_arg fe_1_arg] by (simp add: fe_gf_1)

text \<open>
  \<open>fe_cmov\<close>.  Its assertion fails exactly for a flag other than 0 and 1; for those two
  it keeps the first element or takes the second, bit by bit and without a branch.
\<close>

theorem fe_cmov_select:
  assumes "length f = 10" and "length g = 10"
  shows "fe_cmov f g b = (if b = 0 then Some f else if b = 1 then Some g else None)"
  using fe_cmov_assert [of f g b] fe_cmov_flag [OF assms, of False] fe_cmov_flag [OF assms, of True]
  by auto

theorem fe_cmov_select_witness:
  "fe_cmov fe_0 fe_1 0 = Some fe_0 \<and> fe_cmov fe_0 fe_1 1 = Some fe_1 \<and> fe_cmov fe_0 fe_1 2 = None"
proof -
  have l: "length fe_0 = 10" "length fe_1 = 10" by (simp_all add: fe_0_def fe_1_def)
  show ?thesis by (simp add: fe_cmov_select [OF l])
qed

end
