(* ===== verification/Ge.thy ===== *)
theory Ge
  imports GeData "HOL-Library.Monad_Syntax"
begin

text \<open>
  The group operations of \<open>crypto-ops.c\<close> on the four point representations: addition,
  doubling, conversions, the conditional moves and the table lookups.  A function that calls
  \<open>fe_cmov\<close> returns \<open>None\<close> where its assertion fails.
\<close>

section \<open>Addition, doubling and conversions\<close>

definition ge_add :: "ge_p3 \<Rightarrow> ge_cached \<Rightarrow> ge_p1p1" where
  "ge_add p q =
     (let rX = fe_add (p3_Y p) (p3_X p);
          rY = fe_sub (p3_Y p) (p3_X p);
          rZ = fe_mul rX (YplusX q);
          rY = fe_mul rY (YminusX q);
          rT = fe_mul (T2d q) (p3_T p);
          rX = fe_mul (p3_Z p) (cached_Z q);
          t0 = fe_add rX rX;
          rX = fe_sub rZ rY;
          rY = fe_add rZ rY;
          rZ = fe_add t0 rT;
          rT = fe_sub t0 rT
      in \<lparr>p1_X = rX, p1_Y = rY, p1_Z = rZ, p1_T = rT\<rparr>)"

definition ge_sub :: "ge_p3 \<Rightarrow> ge_cached \<Rightarrow> ge_p1p1" where
  "ge_sub p q =
     (let rX = fe_add (p3_Y p) (p3_X p);
          rY = fe_sub (p3_Y p) (p3_X p);
          rZ = fe_mul rX (YminusX q);
          rY = fe_mul rY (YplusX q);
          rT = fe_mul (T2d q) (p3_T p);
          rX = fe_mul (p3_Z p) (cached_Z q);
          t0 = fe_add rX rX;
          rX = fe_sub rZ rY;
          rY = fe_add rZ rY;
          rZ = fe_sub t0 rT;
          rT = fe_add t0 rT
      in \<lparr>p1_X = rX, p1_Y = rY, p1_Z = rZ, p1_T = rT\<rparr>)"

text \<open>
  In \<open>ge_sub\<close> and \<open>ge_msub\<close> the statement \<open>r->Z = t0 - r->T\<close> comes before
  \<open>r->T = t0 + r->T\<close>, which still reads the product.
\<close>

definition ge_madd :: "ge_p3 \<Rightarrow> ge_precomp \<Rightarrow> ge_p1p1" where
  "ge_madd p q =
     (let rX = fe_add (p3_Y p) (p3_X p);
          rY = fe_sub (p3_Y p) (p3_X p);
          rZ = fe_mul rX (yplusx q);
          rY = fe_mul rY (yminusx q);
          rT = fe_mul (xy2d q) (p3_T p);
          t0 = fe_add (p3_Z p) (p3_Z p);
          rX = fe_sub rZ rY;
          rY = fe_add rZ rY;
          rZ = fe_add t0 rT;
          rT = fe_sub t0 rT
      in \<lparr>p1_X = rX, p1_Y = rY, p1_Z = rZ, p1_T = rT\<rparr>)"

definition ge_msub :: "ge_p3 \<Rightarrow> ge_precomp \<Rightarrow> ge_p1p1" where
  "ge_msub p q =
     (let rX = fe_add (p3_Y p) (p3_X p);
          rY = fe_sub (p3_Y p) (p3_X p);
          rZ = fe_mul rX (yminusx q);
          rY = fe_mul rY (yplusx q);
          rT = fe_mul (xy2d q) (p3_T p);
          t0 = fe_add (p3_Z p) (p3_Z p);
          rX = fe_sub rZ rY;
          rY = fe_add rZ rY;
          rZ = fe_sub t0 rT;
          rT = fe_add t0 rT
      in \<lparr>p1_X = rX, p1_Y = rY, p1_Z = rZ, p1_T = rT\<rparr>)"

definition ge_p1p1_to_p2 :: "ge_p1p1 \<Rightarrow> ge_p2" where
  "ge_p1p1_to_p2 p =
     \<lparr>p2_X = fe_mul (p1_X p) (p1_T p), p2_Y = fe_mul (p1_Y p) (p1_Z p), p2_Z = fe_mul (p1_Z p) (p1_T p)\<rparr>"

definition ge_p1p1_to_p3 :: "ge_p1p1 \<Rightarrow> ge_p3" where
  "ge_p1p1_to_p3 p =
     \<lparr>p3_X = fe_mul (p1_X p) (p1_T p), p3_Y = fe_mul (p1_Y p) (p1_Z p),
      p3_Z = fe_mul (p1_Z p) (p1_T p), p3_T = fe_mul (p1_X p) (p1_Y p)\<rparr>"

definition ge_p2_0 :: ge_p2 where
  "ge_p2_0 = \<lparr>p2_X = fe_0, p2_Y = fe_1, p2_Z = fe_1\<rparr>"

definition ge_p2_dbl :: "ge_p2 \<Rightarrow> ge_p1p1" where
  "ge_p2_dbl p =
     (let rX = fe_sq (p2_X p);
          rZ = fe_sq (p2_Y p);
          rT = fe_sq2 (p2_Z p);
          rY = fe_add (p2_X p) (p2_Y p);
          t0 = fe_sq rY;
          rY = fe_add rZ rX;
          rZ = fe_sub rZ rX;
          rX = fe_sub t0 rY;
          rT = fe_sub rT rZ
      in \<lparr>p1_X = rX, p1_Y = rY, p1_Z = rZ, p1_T = rT\<rparr>)"

definition ge_p3_0 :: ge_p3 where
  "ge_p3_0 = \<lparr>p3_X = fe_0, p3_Y = fe_1, p3_Z = fe_1, p3_T = fe_0\<rparr>"

definition ge_p3_to_p2 :: "ge_p3 \<Rightarrow> ge_p2" where
  "ge_p3_to_p2 p = \<lparr>p2_X = fe_copy (p3_X p), p2_Y = fe_copy (p3_Y p), p2_Z = fe_copy (p3_Z p)\<rparr>"

definition ge_p3_dbl :: "ge_p3 \<Rightarrow> ge_p1p1" where
  "ge_p3_dbl p = (let q = ge_p3_to_p2 p in ge_p2_dbl q)"

definition ge_p3_to_cached :: "ge_p3 \<Rightarrow> ge_cached" where
  "ge_p3_to_cached p =
     \<lparr>YplusX = fe_add (p3_Y p) (p3_X p), YminusX = fe_sub (p3_Y p) (p3_X p),
      cached_Z = fe_copy (p3_Z p), T2d = fe_mul (p3_T p) fe_d2\<rparr>"

definition ge_mul8 :: "ge_p2 \<Rightarrow> ge_p1p1" where
  "ge_mul8 t =
     (let r = ge_p2_dbl t;
          u = ge_p1p1_to_p2 r;
          r = ge_p2_dbl u;
          u = ge_p1p1_to_p2 r
      in ge_p2_dbl u)"

definition ge_dsm_precomp :: "ge_p3 \<Rightarrow> ge_cached list" where
  "ge_dsm_precomp s =
     (let r0 = ge_p3_to_cached s;
          t = ge_p3_dbl s; s2 = ge_p1p1_to_p3 t;
          t = ge_add s2 r0; u = ge_p1p1_to_p3 t; r1 = ge_p3_to_cached u;
          t = ge_add s2 r1; u = ge_p1p1_to_p3 t; r2 = ge_p3_to_cached u;
          t = ge_add s2 r2; u = ge_p1p1_to_p3 t; r3 = ge_p3_to_cached u;
          t = ge_add s2 r3; u = ge_p1p1_to_p3 t; r4 = ge_p3_to_cached u;
          t = ge_add s2 r4; u = ge_p1p1_to_p3 t; r5 = ge_p3_to_cached u;
          t = ge_add s2 r5; u = ge_p1p1_to_p3 t; r6 = ge_p3_to_cached u;
          t = ge_add s2 r6; u = ge_p1p1_to_p3 t; r7 = ge_p3_to_cached u
      in [r0, r1, r2, r3, r4, r5, r6, r7])"

section \<open>Encoding\<close>

definition ge_p3_tobytes :: "ge_p3 \<Rightarrow> bytes" where
  "ge_p3_tobytes h =
     (let recip = fe_invert (p3_Z h);
          x = fe_mul (p3_X h) recip;
          y = fe_mul (p3_Y h) recip;
          s = fe_tobytes y
      in s[31 := s ! 31 XOR scast (push_bit 7 (fe_isnegative x))])"

definition ge_tobytes :: "ge_p2 \<Rightarrow> bytes" where
  "ge_tobytes h =
     (let recip = fe_invert (p2_Z h);
          x = fe_mul (p2_X h) recip;
          y = fe_mul (p2_Y h) recip;
          s = fe_tobytes y
      in s[31 := s ! 31 XOR scast (push_bit 7 (fe_isnegative x))])"

section \<open>Constant-time selection\<close>

definition ge_precomp_0 :: ge_precomp where
  "ge_precomp_0 = \<lparr>yplusx = fe_1, yminusx = fe_1, xy2d = fe_0\<rparr>"

definition ge_cached_0 :: ge_cached where
  "ge_cached_0 = \<lparr>YplusX = fe_1, YminusX = fe_1, cached_Z = fe_1, T2d = fe_0\<rparr>"

text \<open>The arguments of \<open>equal\<close> and \<open>negative\<close> are signed chars.\<close>

definition equal_schar :: "i8 \<Rightarrow> i8 \<Rightarrow> u8" where
  "equal_schar b c =
     (let ub = b; uc = c;
          x = ub XOR uc;
          y = (ucast x :: u32);
          y = y - 1;
          y = drop_bit 31 y
      in ucast y)"

definition negative :: "i8 \<Rightarrow> u8" where
  "negative b =
     (let x = (scast b :: u64);
          x = drop_bit 63 x
      in ucast x)"

definition ge_precomp_cmov :: "ge_precomp \<Rightarrow> ge_precomp \<Rightarrow> u8 \<Rightarrow> ge_precomp option" where
  "ge_precomp_cmov t u b =
     do { a \<leftarrow> fe_cmov (yplusx t) (yplusx u) (ucast b);
          c \<leftarrow> fe_cmov (yminusx t) (yminusx u) (ucast b);
          d \<leftarrow> fe_cmov (xy2d t) (xy2d u) (ucast b);
          Some \<lparr>yplusx = a, yminusx = c, xy2d = d\<rparr> }"

definition ge_cached_cmov :: "ge_cached \<Rightarrow> ge_cached \<Rightarrow> u8 \<Rightarrow> ge_cached option" where
  "ge_cached_cmov t u b =
     do { a \<leftarrow> fe_cmov (YplusX t) (YplusX u) (ucast b);
          c \<leftarrow> fe_cmov (YminusX t) (YminusX u) (ucast b);
          d \<leftarrow> fe_cmov (cached_Z t) (cached_Z u) (ucast b);
          e \<leftarrow> fe_cmov (T2d t) (T2d u) (ucast b);
          Some \<lparr>YplusX = a, YminusX = c, cached_Z = d, T2d = e\<rparr> }"

text \<open>\<open>unsigned char babs = b - (((-bnegative) & b) << 1)\<close>, computed in \<open>int\<close>.\<close>

definition schar_abs :: "i8 \<Rightarrow> u8" where
  "schar_abs b =
     (let bnegative = negative b
      in ucast ((scast b :: i32) - push_bit 1 (- ucast bnegative AND scast b)))"

definition select :: "nat \<Rightarrow> i8 \<Rightarrow> ge_precomp option" where
  "select pos b =
     (let bnegative = negative b;
          babs = schar_abs b;
          row = ge_base ! pos
      in do { t \<leftarrow> ge_precomp_cmov ge_precomp_0 (row ! 0) (equal_schar babs 1);
              t \<leftarrow> ge_precomp_cmov t (row ! 1) (equal_schar babs 2);
              t \<leftarrow> ge_precomp_cmov t (row ! 2) (equal_schar babs 3);
              t \<leftarrow> ge_precomp_cmov t (row ! 3) (equal_schar babs 4);
              t \<leftarrow> ge_precomp_cmov t (row ! 4) (equal_schar babs 5);
              t \<leftarrow> ge_precomp_cmov t (row ! 5) (equal_schar babs 6);
              t \<leftarrow> ge_precomp_cmov t (row ! 6) (equal_schar babs 7);
              t \<leftarrow> ge_precomp_cmov t (row ! 7) (equal_schar babs 8);
              let minust = \<lparr>yplusx = fe_copy (yminusx t), yminusx = fe_copy (yplusx t),
                            xy2d = fe_neg (xy2d t)\<rparr>;
              ge_precomp_cmov t minust bnegative })"

text \<open>The selection written out in the loop of \<open>ge_scalarmult\<close>, over the table of multiples of \<open>A\<close>.\<close>

definition select_cached :: "ge_cached list \<Rightarrow> i8 \<Rightarrow> ge_cached option" where
  "select_cached Ai b =
     (let bnegative = negative b;
          babs = schar_abs b
      in do { cur \<leftarrow> ge_cached_cmov ge_cached_0 (Ai ! 0) (equal_schar babs 1);
              cur \<leftarrow> ge_cached_cmov cur (Ai ! 1) (equal_schar babs 2);
              cur \<leftarrow> ge_cached_cmov cur (Ai ! 2) (equal_schar babs 3);
              cur \<leftarrow> ge_cached_cmov cur (Ai ! 3) (equal_schar babs 4);
              cur \<leftarrow> ge_cached_cmov cur (Ai ! 4) (equal_schar babs 5);
              cur \<leftarrow> ge_cached_cmov cur (Ai ! 5) (equal_schar babs 6);
              cur \<leftarrow> ge_cached_cmov cur (Ai ! 6) (equal_schar babs 7);
              cur \<leftarrow> ge_cached_cmov cur (Ai ! 7) (equal_schar babs 8);
              let minuscur = \<lparr>YplusX = fe_copy (YminusX cur), YminusX = fe_copy (YplusX cur),
                              cached_Z = fe_copy (cached_Z cur), T2d = fe_neg (T2d cur)\<rparr>;
              ge_cached_cmov cur minuscur bnegative })"

end
