(* ===== verification/Curve.thy ===== *)
theory Curve
  imports GeData
begin

text \<open>
  The abstract side of the group operations: points of the twisted Edwards curve
  \<open>-x^2 + y^2 = 1 + d x^2 y^2\<close> with coordinates in the integers modulo 2^255 - 19, and its
  addition law as a relation, without divisions.
\<close>

section \<open>Ring identities\<close>

text \<open>The numerators and denominators of a sum satisfy the equation of the curve.\<close>

lemma curve_cofactors:
  fixes x1 y1 x2 y2 d :: "'a::comm_ring_1"
  shows "(y1 * y2 + x1 * x2)\<^sup>2 * (1 + d * x1 * x2 * y1 * y2)\<^sup>2
      - (x1 * y2 + y1 * x2)\<^sup>2 * (1 - d * x1 * x2 * y1 * y2)\<^sup>2
      - ((1 + d * x1 * x2 * y1 * y2)\<^sup>2 * (1 - d * x1 * x2 * y1 * y2)\<^sup>2
        + d * (x1 * y2 + y1 * x2)\<^sup>2 * (y1 * y2 + x1 * x2)\<^sup>2)
    = (x1 ^ 2 * y1 ^ 2 * x2 ^ 4 * y2 ^ 4 * d ^ 3 + y1 ^ 2 * x2 ^ 4 * y2 ^ 4 * d ^ 2 - x1 ^ 2 *
      x2 ^ 4 * y2 ^ 4 * d ^ 2 - x2 ^ 4 * y2 ^ 4 * d ^ 2 - y1 ^ 2 * x2 ^ 2 * y2 ^ 4 * d + y1 ^
      2 * x2 ^ 4 * y2 ^ 2 * d + x1 ^ 2 * x2 ^ 2 * y2 ^ 4 * d - 2 * x2 ^ 4 * y2 ^ 4 * d - x1 ^
      2 * x2 ^ 4 * y2 ^ 2 * d - 2 * x2 ^ 2 * y2 ^ 2 * d + 2 * x2 ^ 2 * y2 ^ 4 + y2 ^ 4 - 2 *
      x2 ^ 4 * y2 ^ 2 - 4 * x2 ^ 2 * y2 ^ 2 + x2 ^ 4)
      * (y1\<^sup>2 - x1\<^sup>2 - 1 - d * x1\<^sup>2 * y1\<^sup>2)
    + (y1 ^ 4 * x2 ^ 2 * y2 ^ 2 * d - 2 * y1 ^ 2 * x2 ^ 2 * y2 ^ 2 * d + x1 ^ 4 * x2 ^ 2 * y2 ^
      2 * d + 2 * x1 ^ 2 * x2 ^ 2 * y2 ^ 2 * d + x2 ^ 2 * y2 ^ 2 * d - 2 * y1 ^ 2 * x2 ^ 2 *
      y2 ^ 2 - y1 ^ 2 * y2 ^ 2 + y1 ^ 2 * x2 ^ 2 + 2 * x1 ^ 2 * x2 ^ 2 * y2 ^ 2 + x1 ^ 2 * y2
      ^ 2 + 2 * x2 ^ 2 * y2 ^ 2 + y2 ^ 2 - x1 ^ 2 * x2 ^ 2 - x2 ^ 2 + 1)
      * (y2\<^sup>2 - x2\<^sup>2 - 1 - d * x2\<^sup>2 * y2\<^sup>2)"
  by (simp add: algebra_simps power2_eq_square power3_eq_cube power4_eq_xxxx)

section \<open>Points and addition\<close>

type_synonym point = "gf \<times> gf"

definition ed_d :: gf where
  "ed_d = fe_gf fe_d"

fun on_curve :: "point \<Rightarrow> bool" where
  "on_curve (x, y) \<longleftrightarrow> y\<^sup>2 - x\<^sup>2 = 1 + ed_d * x\<^sup>2 * y\<^sup>2"

fun ed_neg :: "point \<Rightarrow> point" where
  "ed_neg (x, y) = (- x, y)"

definition ed_zero :: point where
  "ed_zero = (0, 1)"

text \<open>
  \<open>ed_sum P Q R\<close>: the denominators of the addition law at \<open>P\<close> and \<open>Q\<close> are invertible and
  \<open>R\<close> is the sum.
\<close>

fun ed_sum :: "point \<Rightarrow> point \<Rightarrow> point \<Rightarrow> bool" where
  "ed_sum (x1, y1) (x2, y2) (x3, y3) \<longleftrightarrow>
     1 + ed_d * x1 * x2 * y1 * y2 dvd 1 \<and> 1 - ed_d * x1 * x2 * y1 * y2 dvd 1 \<and>
     x3 * (1 + ed_d * x1 * x2 * y1 * y2) = x1 * y2 + y1 * x2 \<and>
     y3 * (1 - ed_d * x1 * x2 * y1 * y2) = y1 * y2 + x1 * x2"

lemma unit_cancel:
  fixes a b u :: "'a::comm_ring_1"
  assumes "u dvd 1" and "a * u = b * u"
  shows "a = b"
proof -
  obtain v where "1 = u * v" using assms(1) by (elim dvdE)
  then have "a = a * u * v" "b = b * u * v" by (simp_all add: mult.assoc)
  then show ?thesis using assms(2) by simp
qed

lemma unit_mult: "u dvd 1 \<Longrightarrow> v dvd 1 \<Longrightarrow> u * v dvd (1 :: 'a::comm_ring_1)"
  using mult_dvd_mono [of u 1 v 1] by simp

lemma ed_sum_on_curve:
  assumes "on_curve P" and "on_curve Q" and "ed_sum P Q R"
  shows "on_curve R"
proof -
  obtain x1 y1 x2 y2 x3 y3 where PQR: "P = (x1, y1)" "Q = (x2, y2)" "R = (x3, y3)"
    by (metis surj_pair)
  let ?u = "1 + ed_d * x1 * x2 * y1 * y2" and ?v = "1 - ed_d * x1 * x2 * y1 * y2"
  have E: "y1\<^sup>2 - x1\<^sup>2 - 1 - ed_d * x1\<^sup>2 * y1\<^sup>2 = 0" "y2\<^sup>2 - x2\<^sup>2 - 1 - ed_d * x2\<^sup>2 * y2\<^sup>2 = 0"
    using assms(1,2) by (simp_all add: PQR algebra_simps)
  have R: "x3 * ?u = x1 * y2 + y1 * x2" "y3 * ?v = y1 * y2 + x1 * x2" "?u dvd 1" "?v dvd 1"
    using assms(3) by (simp_all add: PQR)
  have "(y3 * ?v)\<^sup>2 * ?u\<^sup>2 - (x3 * ?u)\<^sup>2 * ?v\<^sup>2 = ?u\<^sup>2 * ?v\<^sup>2 + ed_d * (x3 * ?u)\<^sup>2 * (y3 * ?v)\<^sup>2"
    using curve_cofactors [of y1 y2 x1 x2 ed_d] unfolding E R(1,2) by simp
  then have "(y3\<^sup>2 - x3\<^sup>2) * (?u\<^sup>2 * ?v\<^sup>2) = (1 + ed_d * x3\<^sup>2 * y3\<^sup>2) * (?u\<^sup>2 * ?v\<^sup>2)"
    by (simp only: power_mult_distrib left_diff_distrib distrib_right) (simp add: ac_simps)
  moreover have "?u\<^sup>2 * ?v\<^sup>2 dvd 1"
    unfolding power2_eq_square by (intro unit_mult R)
  ultimately show ?thesis unfolding PQR on_curve.simps by (blast intro: unit_cancel)
qed

lemma ed_neg_on_curve: "on_curve P \<Longrightarrow> on_curve (ed_neg P)"
  by (cases P) simp

lemma ed_zero_on_curve: "on_curve ed_zero"
  by (simp add: ed_zero_def)

lemma ed_sum_commute: "ed_sum P Q R \<longleftrightarrow> ed_sum Q P R"
  by (cases P; cases Q; cases R) (simp add: ac_simps)

lemma ed_sum_zero: "ed_sum P ed_zero P"
  by (cases P) (simp add: ed_zero_def)

lemma ed_sum_neg:
  assumes "on_curve P" and "ed_sum P (ed_neg P) R"
  shows "R = ed_zero"
proof -
  obtain x y x3 y3 where PR: "P = (x, y)" "R = (x3, y3)" by (metis surj_pair)
  let ?e = "ed_d * x * x * y * y"
  have "x3 * (1 - ?e) = 0 * (1 - ?e)" "1 - ?e dvd 1" "y3 * (1 + ?e) = y * y - x * x" "1 + ?e dvd 1"
    using assms(2) by (simp_all add: PR mult.commute)
  moreover have "y * y - x * x = 1 * (1 + ?e)"
    using assms(1) by (simp add: PR power2_eq_square ac_simps)
  ultimately show ?thesis unfolding PR ed_zero_def by (metis unit_cancel)
qed

lemma ed_sum_unique: "ed_sum P Q R \<Longrightarrow> ed_sum P Q S \<Longrightarrow> R = S"
  by (cases P; cases Q; cases R; cases S) (auto intro: unit_cancel)

end
