(* ===== verification/GeCorrect.thy ===== *)
theory GeCorrect
  imports Ge Curve
begin

text \<open>
  The group operations against the abstract curve: each routine, on operands that represent
  points, returns a representation of the sum, difference, double or negative, with every
  limb within the bounds of the next multiplication.
\<close>

section \<open>Field elements with a size\<close>

text \<open>
  \<open>fe_is k x f\<close>: the limbs of \<open>f\<close> stay within \<open>k\<close> units (of 2^18 for the even limbs and
  2^17 for the odd ones) and \<open>f\<close> stands for \<open>x\<close>.  A product has size 130; its factors and
  the argument of \<open>fe_tobytes\<close> may have size 422.
\<close>

definition fe_is :: "nat \<Rightarrow> gf \<Rightarrow> fe \<Rightarrow> bool" where
  "fe_is k x f \<longleftrightarrow> fe_bounded (int k * 2 ^ 18) (int k * 2 ^ 17) f \<and> fe_gf f = x"

named_theorems fe_rules

lemma fe_is_arg: "fe_is k x f \<Longrightarrow> k \<le> 422 \<Longrightarrow> fe_arg f"
  unfolding fe_is_def by (erule conjE, erule fe_bounded_mono) simp_all

lemma fe_is_tobytes: "fe_is k x f \<Longrightarrow> k \<le> 422 \<Longrightarrow> fe_bounded 110729625 55364812 f"
  unfolding fe_is_def by (erule conjE, erule fe_bounded_mono) simp_all

lemma fe_is_res: "fe_res f \<Longrightarrow> fe_gf f = x \<Longrightarrow> fe_is 130 x f"
  unfolding fe_is_def by (auto elim: fe_bounded_mono)

lemma fe_is_gf: "fe_is k x f \<Longrightarrow> fe_gf f = x"
  by (simp add: fe_is_def)

lemma fe_is_mono: "fe_is j x f \<Longrightarrow> j \<le> k \<Longrightarrow> fe_is k x f"
  unfolding fe_is_def by (auto elim: fe_bounded_mono)

lemma fe_is_add [fe_rules]:
  "fe_is j x f \<Longrightarrow> fe_is k y g \<Longrightarrow> j + k \<le> 4096 \<Longrightarrow> fe_is (j + k) (x + y) (fe_add f g)"
  unfolding fe_is_def
  using fe_add_correct [of "int j * 2 ^ 18" "int j * 2 ^ 17" f "int k * 2 ^ 18" "int k * 2 ^ 17" g]
  by (auto simp: fe_gf_def distrib_right)

lemma fe_is_sub [fe_rules]:
  "fe_is j x f \<Longrightarrow> fe_is k y g \<Longrightarrow> j + k \<le> 4096 \<Longrightarrow> fe_is (j + k) (x - y) (fe_sub f g)"
  unfolding fe_is_def
  using fe_sub_correct [of "int j * 2 ^ 18" "int j * 2 ^ 17" f "int k * 2 ^ 18" "int k * 2 ^ 17" g]
  by (auto simp: fe_gf_def distrib_right)

lemma fe_is_neg [fe_rules]: "fe_is k x f \<Longrightarrow> k \<le> 4096 \<Longrightarrow> fe_is k (- x) (fe_neg f)"
  unfolding fe_is_def
  using fe_neg_correct [of "int k * 2 ^ 18" "int k * 2 ^ 17" f] by (auto simp: fe_gf_def)

lemma fe_is_mul [fe_rules]:
  "fe_is j x f \<Longrightarrow> fe_is k y g \<Longrightarrow> j \<le> 422 \<Longrightarrow> k \<le> 422 \<Longrightarrow> fe_is 130 (x * y) (fe_mul f g)"
  by (rule fe_is_res) (simp_all add: fe_is_arg fe_chain.mul_res fe_chain.mul_abs fe_is_gf)

lemma fe_is_sq [fe_rules]: "fe_is k x f \<Longrightarrow> k \<le> 422 \<Longrightarrow> fe_is 130 (x * x) (fe_sq f)"
  by (rule fe_is_res) (simp_all add: fe_is_arg fe_chain.sq_res fe_chain.sq_abs fe_is_gf)

lemma fe_is_sq2 [fe_rules]: "fe_is k x f \<Longrightarrow> k \<le> 422 \<Longrightarrow> fe_is 130 (2 * (x * x)) (fe_sq2 f)"
proof (rule fe_is_res)
  assume f: "fe_is k x f" "k \<le> 422"
  note c = fe_sq2_correct [OF fe_is_arg [OF f]]
  show "fe_res (fe_sq2 f)" by (rule c(1))
  show "fe_gf (fe_sq2 f) = 2 * (x * x)"
    using fe_gf_eqI [OF c(2)] fe_is_gf [OF f(1)] by (simp add: fe_gf_def power2_eq_square)
qed

lemma fe_is_length: "fe_is k x f \<Longrightarrow> length f = 10"
  by (simp add: fe_is_def fe_bounded_def)

lemma fe_is_copy [fe_rules]: "fe_is k x f \<Longrightarrow> fe_is k x (fe_copy f)"
  by (simp add: fe_copy_id fe_is_length)

lemma fe_is_0 [fe_rules]: "fe_is 1 0 fe_0"
  by (simp add: fe_is_def fe_bounded_def all_less_10 fe_0_def fe_gf_def fe_val_def fe_value_expand)

lemma fe_is_1 [fe_rules]: "fe_is 1 1 fe_1"
  by (simp add: fe_is_def fe_bounded_def all_less_10 fe_1_def fe_gf_def fe_val_def fe_value_expand)

lemma fe_is_let: "fe_is k x f \<Longrightarrow> (\<And>t. fe_is k x t \<Longrightarrow> P (F t)) \<Longrightarrow> P (Let f F)"
  by (simp add: Let_def)

lemma fe_is_d2 [fe_rules]: "fe_is 130 (2 * ed_d) fe_d2"
proof -
  have b: "fe_bounded (int 130 * 2 ^ 18) (int 130 * 2 ^ 17) fe_d2"
    by (simp add: fe_bounded_def all_less_10 fe_d2_def)
  have v: "fe_val fe_d2 mod p25519 = 2 * fe_val fe_d mod p25519"
    by (simp add: fe_val_def fe_value_expand fe_d2_def fe_d_def p25519_def)
  show ?thesis using b fe_gf_eqI [OF v] by (simp add: fe_is_def ed_d_def fe_gf_def)
qed

section \<open>Representations of a point\<close>

text \<open>
  The bounds of the last two coordinates of a projective point are those of the sums that
  \<open>ge_fromfe_frombytes_vartime\<close> leaves unreduced.
\<close>

fun rep_p2 :: "point \<Rightarrow> ge_p2 \<Rightarrow> bool" where
  "rep_p2 (x, y) p \<longleftrightarrow> on_curve (x, y) \<and>
     (\<exists>z. z dvd 1 \<and> fe_is 130 (x * z) (p2_X p) \<and> fe_is 261 (y * z) (p2_Y p) \<and> fe_is 261 z (p2_Z p))"

fun rep_p3 :: "point \<Rightarrow> ge_p3 \<Rightarrow> bool" where
  "rep_p3 (x, y) p \<longleftrightarrow> on_curve (x, y) \<and>
     (\<exists>z. z dvd 1 \<and> fe_is 130 (x * z) (p3_X p) \<and> fe_is 130 (y * z) (p3_Y p) \<and> fe_is 130 z (p3_Z p)
        \<and> fe_is 130 (x * y * z) (p3_T p))"

fun rep_p1p1 :: "point \<Rightarrow> ge_p1p1 \<Rightarrow> bool" where
  "rep_p1p1 (x, y) p \<longleftrightarrow> on_curve (x, y) \<and>
     (\<exists>z t. z dvd 1 \<and> t dvd 1 \<and> fe_is 390 (x * z) (p1_X p) \<and> fe_is 390 (y * t) (p1_Y p)
        \<and> fe_is 390 z (p1_Z p) \<and> fe_is 390 t (p1_T p))"

fun rep_cached :: "point \<Rightarrow> ge_cached \<Rightarrow> bool" where
  "rep_cached (x, y) q \<longleftrightarrow> on_curve (x, y) \<and>
     (\<exists>z. z dvd 1 \<and> fe_is 260 ((y + x) * z) (YplusX q) \<and> fe_is 260 ((y - x) * z) (YminusX q)
        \<and> fe_is 130 z (cached_Z q) \<and> fe_is 130 (2 * ed_d * x * y * z) (T2d q))"

fun rep_precomp :: "point \<Rightarrow> ge_precomp \<Rightarrow> bool" where
  "rep_precomp (x, y) q \<longleftrightarrow> on_curve (x, y) \<and>
     fe_is 130 (y + x) (yplusx q) \<and> fe_is 130 (y - x) (yminusx q) \<and> fe_is 130 (2 * ed_d * x * y) (xy2d q)"

lemma two_unit: "(2 :: gf) dvd 1"
proof -
  have "(2 * of_int ((p25519 + 1) div 2) :: gf) = of_int (p25519 + 1)"
    by (simp add: p25519_def)
  also have "\<dots> = of_int 1" by (simp only: of_int_gf_eq_iff) (simp add: p25519_def)
  finally have "1 = 2 * (of_int ((p25519 + 1) div 2) :: gf)" by simp
  then show ?thesis by (rule dvdI)
qed

lemma ge_p1p1_to_p3_rep: "rep_p1p1 P p \<Longrightarrow> rep_p3 P (ge_p1p1_to_p3 p)"
proof (cases P)
  case (Pair x y)
  assume "rep_p1p1 P p"
  then obtain z t where u: "on_curve P" "z dvd 1" "t dvd 1" "fe_is 390 (x * z) (p1_X p)"
    "fe_is 390 (y * t) (p1_Y p)" "fe_is 390 z (p1_Z p)" "fe_is 390 t (p1_T p)"
    by (auto simp: Pair)
  have "fe_is 130 (x * z * t) (fe_mul (p1_X p) (p1_T p))"
    "fe_is 130 (y * t * z) (fe_mul (p1_Y p) (p1_Z p))"
    "fe_is 130 (z * t) (fe_mul (p1_Z p) (p1_T p))"
    "fe_is 130 (x * z * (y * t)) (fe_mul (p1_X p) (p1_Y p))"
    by (rule fe_is_mul [OF u(4,7)] fe_is_mul [OF u(5,6)] fe_is_mul [OF u(6,7)] fe_is_mul [OF u(4,5)]; simp)+
  then have "fe_is 130 (x * (z * t)) (p3_X (ge_p1p1_to_p3 p))"
    "fe_is 130 (y * (z * t)) (p3_Y (ge_p1p1_to_p3 p))"
    "fe_is 130 (z * t) (p3_Z (ge_p1p1_to_p3 p))"
    "fe_is 130 (x * y * (z * t)) (p3_T (ge_p1p1_to_p3 p))"
    by (simp_all add: ge_p1p1_to_p3_def ac_simps)
  then show ?thesis using u(1) unit_mult [OF u(2,3)] by (auto simp: Pair)
qed

lemma ge_p1p1_to_p2_rep: "rep_p1p1 P p \<Longrightarrow> rep_p2 P (ge_p1p1_to_p2 p)"
  using ge_p1p1_to_p3_rep [of P p] fe_is_mono [of 130 _ _ 261]
  by (cases P) (auto simp: ge_p1p1_to_p3_def ge_p1p1_to_p2_def)

lemma ge_p3_to_p2_rep: "rep_p3 P p \<Longrightarrow> rep_p2 P (ge_p3_to_p2 p)"
  using fe_is_mono [of 130 _ _ 261] by (cases P) (auto simp: ge_p3_to_p2_def intro!: fe_is_copy)

lemma ge_p3_0_rep: "rep_p3 ed_zero ge_p3_0"
  using ed_zero_on_curve fe_is_mono [OF fe_is_0, of 130] fe_is_mono [OF fe_is_1, of 130]
  by (auto simp: ed_zero_def ge_p3_0_def intro!: exI [of _ 1])

lemma ge_p2_0_rep: "rep_p2 ed_zero ge_p2_0"
  using ed_zero_on_curve fe_is_mono [OF fe_is_0, of 130] fe_is_mono [OF fe_is_1, of 261]
  by (auto simp: ed_zero_def ge_p2_0_def intro!: exI [of _ 1])

lemma ge_p3_to_cached_rep: "rep_p3 P p \<Longrightarrow> rep_cached P (ge_p3_to_cached p)"
proof (cases P)
  case (Pair x y)
  assume "rep_p3 P p"
  then obtain z where u: "on_curve P" "z dvd 1" "fe_is 130 (x * z) (p3_X p)" "fe_is 130 (y * z) (p3_Y p)"
    "fe_is 130 z (p3_Z p)" "fe_is 130 (x * y * z) (p3_T p)"
    by (auto simp: Pair)
  have "fe_is 260 (y * z + x * z) (fe_add (p3_Y p) (p3_X p))"
    "fe_is 260 (y * z - x * z) (fe_sub (p3_Y p) (p3_X p))"
    "fe_is 130 (x * y * z * (2 * ed_d)) (fe_mul (p3_T p) fe_d2)"
    using fe_is_add [OF u(4,3)] fe_is_sub [OF u(4,3)] fe_is_mul [OF u(6) fe_is_d2] by simp_all
  then have "fe_is 260 ((y + x) * z) (YplusX (ge_p3_to_cached p))"
    "fe_is 260 ((y - x) * z) (YminusX (ge_p3_to_cached p))"
    "fe_is 130 (2 * ed_d * x * y * z) (T2d (ge_p3_to_cached p))"
    "fe_is 130 z (cached_Z (ge_p3_to_cached p))"
    using fe_is_copy [OF u(5)] by (simp_all add: ge_p3_to_cached_def algebra_simps)
  then show ?thesis using u(1,2) by (auto simp: Pair)
qed

section \<open>Addition and subtraction\<close>

text \<open>What the four additions compute in the ring, limb bounds included.\<close>

lemma ge_add_values:
  assumes "fe_is 130 X (p3_X p)" "fe_is 130 Y (p3_Y p)" "fe_is 130 Z (p3_Z p)" "fe_is 130 T (p3_T p)"
    and "fe_is 260 A (YplusX q)" "fe_is 260 B (YminusX q)" "fe_is 130 C (cached_Z q)" "fe_is 130 D (T2d q)"
  shows "fe_is 390 ((Y + X) * A - (Y - X) * B) (p1_X (ge_add p q))"
    and "fe_is 390 ((Y + X) * A + (Y - X) * B) (p1_Y (ge_add p q))"
    and "fe_is 390 (Z * C + Z * C + D * T) (p1_Z (ge_add p q))"
    and "fe_is 390 (Z * C + Z * C - D * T) (p1_T (ge_add p q))"
  unfolding ge_add_def Let_def ge_p1p1.simps
  by (rule fe_is_mono, (rule fe_rules assms | (simp; fail))+)+

lemma ge_sub_values:
  assumes "fe_is 130 X (p3_X p)" "fe_is 130 Y (p3_Y p)" "fe_is 130 Z (p3_Z p)" "fe_is 130 T (p3_T p)"
    and "fe_is 260 A (YplusX q)" "fe_is 260 B (YminusX q)" "fe_is 130 C (cached_Z q)" "fe_is 130 D (T2d q)"
  shows "fe_is 390 ((Y + X) * B - (Y - X) * A) (p1_X (ge_sub p q))"
    and "fe_is 390 ((Y + X) * B + (Y - X) * A) (p1_Y (ge_sub p q))"
    and "fe_is 390 (Z * C + Z * C - D * T) (p1_Z (ge_sub p q))"
    and "fe_is 390 (Z * C + Z * C + D * T) (p1_T (ge_sub p q))"
  unfolding ge_sub_def Let_def ge_p1p1.simps
  by (rule fe_is_mono, (rule fe_rules assms | (simp; fail))+)+

lemma ge_madd_values:
  assumes "fe_is 130 X (p3_X p)" "fe_is 130 Y (p3_Y p)" "fe_is 130 Z (p3_Z p)" "fe_is 130 T (p3_T p)"
    and "fe_is 130 A (yplusx q)" "fe_is 130 B (yminusx q)" "fe_is 130 D (xy2d q)"
  shows "fe_is 390 ((Y + X) * A - (Y - X) * B) (p1_X (ge_madd p q))"
    and "fe_is 390 ((Y + X) * A + (Y - X) * B) (p1_Y (ge_madd p q))"
    and "fe_is 390 (Z + Z + D * T) (p1_Z (ge_madd p q))"
    and "fe_is 390 (Z + Z - D * T) (p1_T (ge_madd p q))"
  unfolding ge_madd_def Let_def ge_p1p1.simps
  by (rule fe_is_mono, (rule fe_rules assms | (simp; fail))+)+

lemma ge_msub_values:
  assumes "fe_is 130 X (p3_X p)" "fe_is 130 Y (p3_Y p)" "fe_is 130 Z (p3_Z p)" "fe_is 130 T (p3_T p)"
    and "fe_is 130 A (yplusx q)" "fe_is 130 B (yminusx q)" "fe_is 130 D (xy2d q)"
  shows "fe_is 390 ((Y + X) * B - (Y - X) * A) (p1_X (ge_msub p q))"
    and "fe_is 390 ((Y + X) * B + (Y - X) * A) (p1_Y (ge_msub p q))"
    and "fe_is 390 (Z + Z - D * T) (p1_Z (ge_msub p q))"
    and "fe_is 390 (Z + Z + D * T) (p1_T (ge_msub p q))"
  unfolding ge_msub_def Let_def ge_p1p1.simps
  by (rule fe_is_mono, (rule fe_rules assms | (simp; fail))+)+

text \<open>From these values to the representation of a sum, for any scaling \<open>w\<close> of the operands.\<close>

lemma rep_p1p1_sum:
  assumes "on_curve P" and "on_curve Q" and "ed_sum P Q R" and "w dvd 1"
    and "P = (x1, y1)" and "Q = (x2, y2)"
    and "fe_is 390 (2 * w * (x1 * y2 + y1 * x2)) (p1_X r)" and "fe_is 390 (2 * w * (y1 * y2 + x1 * x2)) (p1_Y r)"
    and "fe_is 390 (2 * w * (1 + ed_d * x1 * x2 * y1 * y2)) (p1_Z r)"
    and "fe_is 390 (2 * w * (1 - ed_d * x1 * x2 * y1 * y2)) (p1_T r)"
  shows "rep_p1p1 R r"
proof (cases R)
  case (Pair x3 y3)
  let ?z = "2 * w * (1 + ed_d * x1 * x2 * y1 * y2)" and ?t = "2 * w * (1 - ed_d * x1 * x2 * y1 * y2)"
  have s: "x3 * (1 + ed_d * x1 * x2 * y1 * y2) = x1 * y2 + y1 * x2"
    "y3 * (1 - ed_d * x1 * x2 * y1 * y2) = y1 * y2 + x1 * x2"
    "1 + ed_d * x1 * x2 * y1 * y2 dvd 1" "1 - ed_d * x1 * x2 * y1 * y2 dvd 1"
    using assms(3) by (simp_all add: assms(5,6) Pair)
  have "x3 * ?z = 2 * w * (x3 * (1 + ed_d * x1 * x2 * y1 * y2))"
    "y3 * ?t = 2 * w * (y3 * (1 - ed_d * x1 * x2 * y1 * y2))" by (simp_all add: ac_simps)
  then have "x3 * ?z = 2 * w * (x1 * y2 + y1 * x2)" "y3 * ?t = 2 * w * (y1 * y2 + x1 * x2)"
    by (simp_all only: s(1,2))
  then have "fe_is 390 (x3 * ?z) (p1_X r)" "fe_is 390 (y3 * ?t) (p1_Y r)"
    using assms(7,8) by (simp_all only:)
  moreover have "?z dvd 1" "?t dvd 1" by (intro unit_mult two_unit assms(4) s(3,4))+
  moreover have "on_curve (x3, y3)" using ed_sum_on_curve [OF assms(1-3)] by (simp add: Pair)
  ultimately show ?thesis unfolding Pair rep_p1p1.simps using assms(9,10) by blast
qed

lemma ge_add_rep:
  assumes "rep_p3 P p" and "rep_cached Q q" and "ed_sum P Q R"
  shows "rep_p1p1 R (ge_add p q)"
proof -
  obtain x1 y1 x2 y2 where PQ: "P = (x1, y1)" "Q = (x2, y2)" by (metis surj_pair)
  obtain z where z: "on_curve P" "z dvd 1" and u: "fe_is 130 (x1 * z) (p3_X p)" "fe_is 130 (y1 * z) (p3_Y p)"
    "fe_is 130 z (p3_Z p)" "fe_is 130 (x1 * y1 * z) (p3_T p)" using assms(1) by (auto simp: PQ)
  obtain w where w: "on_curve Q" "w dvd 1" and v: "fe_is 260 ((y2 + x2) * w) (YplusX q)"
    "fe_is 260 ((y2 - x2) * w) (YminusX q)" "fe_is 130 w (cached_Z q)" "fe_is 130 (2 * ed_d * x2 * y2 * w) (T2d q)"
    using assms(2) by (auto simp: PQ)
  note r = ge_add_values [OF u v]
  show ?thesis
    by (rule rep_p1p1_sum [OF z(1) w(1) assms(3) unit_mult [OF z(2) w(2)] PQ])
      (use r in \<open>simp_all add: algebra_simps\<close>)
qed

lemma ge_sub_rep:
  assumes "rep_p3 P p" and "rep_cached Q q" and "ed_sum P (ed_neg Q) R"
  shows "rep_p1p1 R (ge_sub p q)"
proof -
  obtain x1 y1 x2 y2 where PQ: "P = (x1, y1)" "Q = (x2, y2)" by (metis surj_pair)
  obtain z where z: "on_curve P" "z dvd 1" and u: "fe_is 130 (x1 * z) (p3_X p)" "fe_is 130 (y1 * z) (p3_Y p)"
    "fe_is 130 z (p3_Z p)" "fe_is 130 (x1 * y1 * z) (p3_T p)" using assms(1) by (auto simp: PQ)
  obtain w where w: "on_curve Q" "w dvd 1" and v: "fe_is 260 ((y2 + x2) * w) (YplusX q)"
    "fe_is 260 ((y2 - x2) * w) (YminusX q)" "fe_is 130 w (cached_Z q)" "fe_is 130 (2 * ed_d * x2 * y2 * w) (T2d q)"
    using assms(2) by (auto simp: PQ)
  note r = ge_sub_values [OF u v]
  have Q: "ed_neg Q = (- x2, y2)" by (simp add: PQ)
  show ?thesis
    by (rule rep_p1p1_sum [OF z(1) ed_neg_on_curve [OF w(1)] assms(3) unit_mult [OF z(2) w(2)] PQ(1) Q])
      (use r in \<open>simp_all add: algebra_simps\<close>)
qed

lemma ge_madd_rep:
  assumes "rep_p3 P p" and "rep_precomp Q q" and "ed_sum P Q R"
  shows "rep_p1p1 R (ge_madd p q)"
proof -
  obtain x1 y1 x2 y2 where PQ: "P = (x1, y1)" "Q = (x2, y2)" by (metis surj_pair)
  obtain z where z: "on_curve P" "z dvd 1" and u: "fe_is 130 (x1 * z) (p3_X p)" "fe_is 130 (y1 * z) (p3_Y p)"
    "fe_is 130 z (p3_Z p)" "fe_is 130 (x1 * y1 * z) (p3_T p)" using assms(1) by (auto simp: PQ)
  have w: "on_curve Q" and v: "fe_is 130 (y2 + x2) (yplusx q)" "fe_is 130 (y2 - x2) (yminusx q)"
    "fe_is 130 (2 * ed_d * x2 * y2) (xy2d q)"
    using assms(2) by (simp_all add: PQ)
  note r = ge_madd_values [OF u v]
  show ?thesis
    by (rule rep_p1p1_sum [OF z(1) w assms(3) z(2) PQ]) (use r in \<open>simp_all add: algebra_simps\<close>)
qed

lemma ge_msub_rep:
  assumes "rep_p3 P p" and "rep_precomp Q q" and "ed_sum P (ed_neg Q) R"
  shows "rep_p1p1 R (ge_msub p q)"
proof -
  obtain x1 y1 x2 y2 where PQ: "P = (x1, y1)" "Q = (x2, y2)" by (metis surj_pair)
  obtain z where z: "on_curve P" "z dvd 1" and u: "fe_is 130 (x1 * z) (p3_X p)" "fe_is 130 (y1 * z) (p3_Y p)"
    "fe_is 130 z (p3_Z p)" "fe_is 130 (x1 * y1 * z) (p3_T p)" using assms(1) by (auto simp: PQ)
  have w: "on_curve Q" and v: "fe_is 130 (y2 + x2) (yplusx q)" "fe_is 130 (y2 - x2) (yminusx q)"
    "fe_is 130 (2 * ed_d * x2 * y2) (xy2d q)"
    using assms(2) by (simp_all add: PQ)
  note r = ge_msub_values [OF u v]
  have Q: "ed_neg Q = (- x2, y2)" by (simp add: PQ)
  show ?thesis
    by (rule rep_p1p1_sum [OF z(1) ed_neg_on_curve [OF w] assms(3) z(2) PQ(1) Q])
      (use r in \<open>simp_all add: algebra_simps\<close>)
qed

section \<open>Doubling\<close>

lemma ge_p2_dbl_values:
  assumes "fe_is 130 X (p2_X p)" "fe_is 261 Y (p2_Y p)" "fe_is 261 Z (p2_Z p)"
  shows "fe_is 390 ((X + Y) * (X + Y) - (Y * Y + X * X)) (p1_X (ge_p2_dbl p))"
    and "fe_is 390 (Y * Y + X * X) (p1_Y (ge_p2_dbl p))"
    and "fe_is 390 (Y * Y - X * X) (p1_Z (ge_p2_dbl p))"
    and "fe_is 390 (2 * (Z * Z) - (Y * Y - X * X)) (p1_T (ge_p2_dbl p))"
  unfolding ge_p2_dbl_def Let_def ge_p1p1.simps
  by (rule fe_is_mono, (rule fe_rules assms | (simp; fail))+)+

text \<open>
  The doubling formula has no division by \<open>1 + d x^2 y^2\<close>: the equation of the curve turns
  \<open>y^2 - x^2\<close> into it.  With the scaling \<open>z^2 / 2\<close> it is an instance of the addition.
\<close>

lemma ge_p2_dbl_rep:
  assumes "rep_p2 P p" and "ed_sum P P R"
  shows "rep_p1p1 R (ge_p2_dbl p)"
proof -
  obtain x y where P: "P = (x, y)" by (metis surj_pair)
  obtain z where z: "on_curve P" "z dvd 1" and u: "fe_is 130 (x * z) (p2_X p)" "fe_is 261 (y * z) (p2_Y p)"
    "fe_is 261 z (p2_Z p)" using assms(1) by (auto simp: P)
  obtain h :: gf where h: "1 = 2 * h" using two_unit by (elim dvdE)
  have hu: "h dvd 1" using h by (metis dvd_triv_right)
  have c: "y * y = x * x + 1 + ed_d * x * x * y * y"
    using z(1) by (simp add: P power2_eq_square algebra_simps)
  note r = ge_p2_dbl_values [OF u]
  have w: "2 * (h * (z * z)) = z * z" using h by (metis mult.assoc mult_1)
  have "z * z * (x * y + y * x) = (x * z + y * z) * (x * z + y * z) - (y * z * (y * z) + x * z * (x * z))"
    "z * z * (y * y + x * x) = y * z * (y * z) + x * z * (x * z)"
    "z * z * (1 + ed_d * x * x * y * y) = y * z * (y * z) - x * z * (x * z)"
    "z * z * (1 - ed_d * x * x * y * y) = 2 * (z * z) - (y * z * (y * z) - x * z * (x * z))"
  proof -
    have "z * z * (y * y) = z * z * (x * x + 1 + ed_d * x * x * y * y)" using c by simp
    then show "z * z * (1 + ed_d * x * x * y * y) = y * z * (y * z) - x * z * (x * z)"
      "z * z * (1 - ed_d * x * x * y * y) = 2 * (z * z) - (y * z * (y * z) - x * z * (x * z))"
      by (simp_all add: algebra_simps)
  qed (simp_all add: algebra_simps)
  then show ?thesis
    by (intro rep_p1p1_sum [OF z(1,1) assms(2) _ P P, where w = "h * (z * z)"] unit_mult hu z(2))
      (use r in \<open>simp_all only: w\<close>)
qed

lemma ge_p3_dbl_rep: "rep_p3 P p \<Longrightarrow> ed_sum P P R \<Longrightarrow> rep_p1p1 R (ge_p3_dbl p)"
  unfolding ge_p3_dbl_def Let_def by (intro ge_p2_dbl_rep ge_p3_to_p2_rep)

lemma ge_mul8_rep:
  assumes "rep_p2 P p" and "ed_sum P P Q" and "ed_sum Q Q R" and "ed_sum R R S"
  shows "rep_p1p1 S (ge_mul8 p)"
  unfolding ge_mul8_def Let_def
  by (rule ge_p2_dbl_rep ge_p1p1_to_p2_rep assms)+

end
