(* ===== verification/HexArith.thy ===== *)
theory HexArith
  imports Main
begin

text \<open>
  Arithmetic on literal natural numbers of a few hundred bits by rewriting: a number is written
  digit by digit in base 16, and addition and multiplication have one rule per pair of digits, so
  that the simplifier needs a few thousand steps for a product of 256 bits.  The certificates about
  points of the curve and about primes are checked with these rules.
\<close>

section \<open>Digits\<close>

text \<open>\<open>hZ\<close> ends a number; \<open>h5 x\<close> is the number with lowest digit 5 and the digits \<open>x\<close> above it.\<close>

definition hZ :: nat where
  "hZ = 0"

definition h0 :: "nat \<Rightarrow> nat" where
  "h0 x = 16 * x + 0"

definition h1 :: "nat \<Rightarrow> nat" where
  "h1 x = 16 * x + 1"

definition h2 :: "nat \<Rightarrow> nat" where
  "h2 x = 16 * x + 2"

definition h3 :: "nat \<Rightarrow> nat" where
  "h3 x = 16 * x + 3"

definition h4 :: "nat \<Rightarrow> nat" where
  "h4 x = 16 * x + 4"

definition h5 :: "nat \<Rightarrow> nat" where
  "h5 x = 16 * x + 5"

definition h6 :: "nat \<Rightarrow> nat" where
  "h6 x = 16 * x + 6"

definition h7 :: "nat \<Rightarrow> nat" where
  "h7 x = 16 * x + 7"

definition h8 :: "nat \<Rightarrow> nat" where
  "h8 x = 16 * x + 8"

definition h9 :: "nat \<Rightarrow> nat" where
  "h9 x = 16 * x + 9"

definition ha :: "nat \<Rightarrow> nat" where
  "ha x = 16 * x + 10"

definition hb :: "nat \<Rightarrow> nat" where
  "hb x = 16 * x + 11"

definition hc :: "nat \<Rightarrow> nat" where
  "hc x = 16 * x + 12"

definition hdd :: "nat \<Rightarrow> nat" where
  "hdd x = 16 * x + 13"

definition he :: "nat \<Rightarrow> nat" where
  "he x = 16 * x + 14"

definition hf :: "nat \<Rightarrow> nat" where
  "hf x = 16 * x + 15"

lemmas hdig = hZ_def h0_def h1_def h2_def h3_def h4_def h5_def h6_def h7_def h8_def h9_def ha_def hb_def hc_def hdd_def he_def hf_def

text \<open>Conversion from the numerals of the logic, four bits at a time.\<close>

definition hn :: "num \<Rightarrow> nat" where
  "hn n = numeral n"

lemma hn_bits: "hn (num.Bit0 n) = 2 * hn n" "hn (num.Bit1 n) = 2 * hn n + 1" "hn num.One = 1"
  unfolding hn_def numeral.simps by simp_all

lemma hn_rules:
  "hn (num.Bit0 (num.Bit0 (num.Bit0 (num.Bit0 n)))) = h0 (hn n)" "hn (num.Bit1 (num.Bit0 (num.Bit0 (num.Bit0 n)))) = h1 (hn n)"
  "hn (num.Bit0 (num.Bit1 (num.Bit0 (num.Bit0 n)))) = h2 (hn n)" "hn (num.Bit1 (num.Bit1 (num.Bit0 (num.Bit0 n)))) = h3 (hn n)"
  "hn (num.Bit0 (num.Bit0 (num.Bit1 (num.Bit0 n)))) = h4 (hn n)" "hn (num.Bit1 (num.Bit0 (num.Bit1 (num.Bit0 n)))) = h5 (hn n)"
  "hn (num.Bit0 (num.Bit1 (num.Bit1 (num.Bit0 n)))) = h6 (hn n)" "hn (num.Bit1 (num.Bit1 (num.Bit1 (num.Bit0 n)))) = h7 (hn n)"
  "hn (num.Bit0 (num.Bit0 (num.Bit0 (num.Bit1 n)))) = h8 (hn n)" "hn (num.Bit1 (num.Bit0 (num.Bit0 (num.Bit1 n)))) = h9 (hn n)"
  "hn (num.Bit0 (num.Bit1 (num.Bit0 (num.Bit1 n)))) = ha (hn n)" "hn (num.Bit1 (num.Bit1 (num.Bit0 (num.Bit1 n)))) = hb (hn n)"
  "hn (num.Bit0 (num.Bit0 (num.Bit1 (num.Bit1 n)))) = hc (hn n)" "hn (num.Bit1 (num.Bit0 (num.Bit1 (num.Bit1 n)))) = hdd (hn n)"
  "hn (num.Bit0 (num.Bit1 (num.Bit1 (num.Bit1 n)))) = he (hn n)" "hn (num.Bit1 (num.Bit1 (num.Bit1 (num.Bit1 n)))) = hf (hn n)"
  "hn num.One = h1 hZ" "hn (num.Bit0 num.One) = h2 hZ"
  "hn (num.Bit1 num.One) = h3 hZ" "hn (num.Bit0 (num.Bit0 num.One)) = h4 hZ"
  "hn (num.Bit1 (num.Bit0 num.One)) = h5 hZ" "hn (num.Bit0 (num.Bit1 num.One)) = h6 hZ"
  "hn (num.Bit1 (num.Bit1 num.One)) = h7 hZ" "hn (num.Bit0 (num.Bit0 (num.Bit0 num.One))) = h8 hZ"
  "hn (num.Bit1 (num.Bit0 (num.Bit0 num.One))) = h9 hZ" "hn (num.Bit0 (num.Bit1 (num.Bit0 num.One))) = ha hZ"
  "hn (num.Bit1 (num.Bit1 (num.Bit0 num.One))) = hb hZ" "hn (num.Bit0 (num.Bit0 (num.Bit1 num.One))) = hc hZ"
  "hn (num.Bit1 (num.Bit0 (num.Bit1 num.One))) = hdd hZ" "hn (num.Bit0 (num.Bit1 (num.Bit1 num.One))) = he hZ"
  "hn (num.Bit1 (num.Bit1 (num.Bit1 num.One))) = hf hZ"
  by (simp_all add: hn_bits hdig)

section \<open>Addition and comparison\<close>

definition hadd :: "nat \<Rightarrow> nat \<Rightarrow> nat" where
  "hadd x y = x + y"

definition haddc :: "nat \<Rightarrow> nat \<Rightarrow> nat" where
  "haddc x y = x + y + 1"

definition heq :: "nat \<Rightarrow> nat \<Rightarrow> bool" where
  "heq x y \<longleftrightarrow> x = y"

lemma hadd_rules:
  "hadd hZ y = y" "haddc hZ hZ = h1 hZ"
  "hadd (h0 x) hZ = h0 x" "haddc (h0 x) hZ = h1 x" "haddc hZ (h0 x) = h1 x"
  "hadd (h0 x) (h0 y) = h0 (hadd x y)" "haddc (h0 x) (h0 y) = h1 (hadd x y)" "hadd (h0 x) (h1 y) = h1 (hadd x y)"
  "haddc (h0 x) (h1 y) = h2 (hadd x y)" "hadd (h0 x) (h2 y) = h2 (hadd x y)" "haddc (h0 x) (h2 y) = h3 (hadd x y)"
  "hadd (h0 x) (h3 y) = h3 (hadd x y)" "haddc (h0 x) (h3 y) = h4 (hadd x y)" "hadd (h0 x) (h4 y) = h4 (hadd x y)"
  "haddc (h0 x) (h4 y) = h5 (hadd x y)" "hadd (h0 x) (h5 y) = h5 (hadd x y)" "haddc (h0 x) (h5 y) = h6 (hadd x y)"
  "hadd (h0 x) (h6 y) = h6 (hadd x y)" "haddc (h0 x) (h6 y) = h7 (hadd x y)" "hadd (h0 x) (h7 y) = h7 (hadd x y)"
  "haddc (h0 x) (h7 y) = h8 (hadd x y)" "hadd (h0 x) (h8 y) = h8 (hadd x y)" "haddc (h0 x) (h8 y) = h9 (hadd x y)"
  "hadd (h0 x) (h9 y) = h9 (hadd x y)" "haddc (h0 x) (h9 y) = ha (hadd x y)" "hadd (h0 x) (ha y) = ha (hadd x y)"
  "haddc (h0 x) (ha y) = hb (hadd x y)" "hadd (h0 x) (hb y) = hb (hadd x y)" "haddc (h0 x) (hb y) = hc (hadd x y)"
  "hadd (h0 x) (hc y) = hc (hadd x y)" "haddc (h0 x) (hc y) = hdd (hadd x y)" "hadd (h0 x) (hdd y) = hdd (hadd x y)"
  "haddc (h0 x) (hdd y) = he (hadd x y)" "hadd (h0 x) (he y) = he (hadd x y)" "haddc (h0 x) (he y) = hf (hadd x y)"
  "hadd (h0 x) (hf y) = hf (hadd x y)" "haddc (h0 x) (hf y) = h0 (haddc x y)" "hadd (h1 x) hZ = h1 x"
  "haddc (h1 x) hZ = h2 x" "haddc hZ (h1 x) = h2 x" "hadd (h1 x) (h0 y) = h1 (hadd x y)"
  "haddc (h1 x) (h0 y) = h2 (hadd x y)" "hadd (h1 x) (h1 y) = h2 (hadd x y)" "haddc (h1 x) (h1 y) = h3 (hadd x y)"
  "hadd (h1 x) (h2 y) = h3 (hadd x y)" "haddc (h1 x) (h2 y) = h4 (hadd x y)" "hadd (h1 x) (h3 y) = h4 (hadd x y)"
  "haddc (h1 x) (h3 y) = h5 (hadd x y)" "hadd (h1 x) (h4 y) = h5 (hadd x y)" "haddc (h1 x) (h4 y) = h6 (hadd x y)"
  "hadd (h1 x) (h5 y) = h6 (hadd x y)" "haddc (h1 x) (h5 y) = h7 (hadd x y)" "hadd (h1 x) (h6 y) = h7 (hadd x y)"
  "haddc (h1 x) (h6 y) = h8 (hadd x y)" "hadd (h1 x) (h7 y) = h8 (hadd x y)" "haddc (h1 x) (h7 y) = h9 (hadd x y)"
  "hadd (h1 x) (h8 y) = h9 (hadd x y)" "haddc (h1 x) (h8 y) = ha (hadd x y)" "hadd (h1 x) (h9 y) = ha (hadd x y)"
  "haddc (h1 x) (h9 y) = hb (hadd x y)" "hadd (h1 x) (ha y) = hb (hadd x y)" "haddc (h1 x) (ha y) = hc (hadd x y)"
  "hadd (h1 x) (hb y) = hc (hadd x y)" "haddc (h1 x) (hb y) = hdd (hadd x y)" "hadd (h1 x) (hc y) = hdd (hadd x y)"
  "haddc (h1 x) (hc y) = he (hadd x y)" "hadd (h1 x) (hdd y) = he (hadd x y)" "haddc (h1 x) (hdd y) = hf (hadd x y)"
  "hadd (h1 x) (he y) = hf (hadd x y)" "haddc (h1 x) (he y) = h0 (haddc x y)" "hadd (h1 x) (hf y) = h0 (haddc x y)"
  "haddc (h1 x) (hf y) = h1 (haddc x y)" "hadd (h2 x) hZ = h2 x" "haddc (h2 x) hZ = h3 x"
  "haddc hZ (h2 x) = h3 x" "hadd (h2 x) (h0 y) = h2 (hadd x y)" "haddc (h2 x) (h0 y) = h3 (hadd x y)"
  "hadd (h2 x) (h1 y) = h3 (hadd x y)" "haddc (h2 x) (h1 y) = h4 (hadd x y)" "hadd (h2 x) (h2 y) = h4 (hadd x y)"
  "haddc (h2 x) (h2 y) = h5 (hadd x y)" "hadd (h2 x) (h3 y) = h5 (hadd x y)" "haddc (h2 x) (h3 y) = h6 (hadd x y)"
  "hadd (h2 x) (h4 y) = h6 (hadd x y)" "haddc (h2 x) (h4 y) = h7 (hadd x y)" "hadd (h2 x) (h5 y) = h7 (hadd x y)"
  "haddc (h2 x) (h5 y) = h8 (hadd x y)" "hadd (h2 x) (h6 y) = h8 (hadd x y)" "haddc (h2 x) (h6 y) = h9 (hadd x y)"
  "hadd (h2 x) (h7 y) = h9 (hadd x y)" "haddc (h2 x) (h7 y) = ha (hadd x y)" "hadd (h2 x) (h8 y) = ha (hadd x y)"
  "haddc (h2 x) (h8 y) = hb (hadd x y)" "hadd (h2 x) (h9 y) = hb (hadd x y)" "haddc (h2 x) (h9 y) = hc (hadd x y)"
  "hadd (h2 x) (ha y) = hc (hadd x y)" "haddc (h2 x) (ha y) = hdd (hadd x y)" "hadd (h2 x) (hb y) = hdd (hadd x y)"
  "haddc (h2 x) (hb y) = he (hadd x y)" "hadd (h2 x) (hc y) = he (hadd x y)" "haddc (h2 x) (hc y) = hf (hadd x y)"
  "hadd (h2 x) (hdd y) = hf (hadd x y)" "haddc (h2 x) (hdd y) = h0 (haddc x y)" "hadd (h2 x) (he y) = h0 (haddc x y)"
  "haddc (h2 x) (he y) = h1 (haddc x y)" "hadd (h2 x) (hf y) = h1 (haddc x y)" "haddc (h2 x) (hf y) = h2 (haddc x y)"
  "hadd (h3 x) hZ = h3 x" "haddc (h3 x) hZ = h4 x" "haddc hZ (h3 x) = h4 x"
  "hadd (h3 x) (h0 y) = h3 (hadd x y)" "haddc (h3 x) (h0 y) = h4 (hadd x y)" "hadd (h3 x) (h1 y) = h4 (hadd x y)"
  "haddc (h3 x) (h1 y) = h5 (hadd x y)" "hadd (h3 x) (h2 y) = h5 (hadd x y)" "haddc (h3 x) (h2 y) = h6 (hadd x y)"
  "hadd (h3 x) (h3 y) = h6 (hadd x y)" "haddc (h3 x) (h3 y) = h7 (hadd x y)" "hadd (h3 x) (h4 y) = h7 (hadd x y)"
  "haddc (h3 x) (h4 y) = h8 (hadd x y)" "hadd (h3 x) (h5 y) = h8 (hadd x y)" "haddc (h3 x) (h5 y) = h9 (hadd x y)"
  "hadd (h3 x) (h6 y) = h9 (hadd x y)" "haddc (h3 x) (h6 y) = ha (hadd x y)" "hadd (h3 x) (h7 y) = ha (hadd x y)"
  "haddc (h3 x) (h7 y) = hb (hadd x y)" "hadd (h3 x) (h8 y) = hb (hadd x y)" "haddc (h3 x) (h8 y) = hc (hadd x y)"
  "hadd (h3 x) (h9 y) = hc (hadd x y)" "haddc (h3 x) (h9 y) = hdd (hadd x y)" "hadd (h3 x) (ha y) = hdd (hadd x y)"
  "haddc (h3 x) (ha y) = he (hadd x y)" "hadd (h3 x) (hb y) = he (hadd x y)" "haddc (h3 x) (hb y) = hf (hadd x y)"
  "hadd (h3 x) (hc y) = hf (hadd x y)" "haddc (h3 x) (hc y) = h0 (haddc x y)" "hadd (h3 x) (hdd y) = h0 (haddc x y)"
  "haddc (h3 x) (hdd y) = h1 (haddc x y)" "hadd (h3 x) (he y) = h1 (haddc x y)" "haddc (h3 x) (he y) = h2 (haddc x y)"
  "hadd (h3 x) (hf y) = h2 (haddc x y)" "haddc (h3 x) (hf y) = h3 (haddc x y)" "hadd (h4 x) hZ = h4 x"
  "haddc (h4 x) hZ = h5 x" "haddc hZ (h4 x) = h5 x" "hadd (h4 x) (h0 y) = h4 (hadd x y)"
  "haddc (h4 x) (h0 y) = h5 (hadd x y)" "hadd (h4 x) (h1 y) = h5 (hadd x y)" "haddc (h4 x) (h1 y) = h6 (hadd x y)"
  "hadd (h4 x) (h2 y) = h6 (hadd x y)" "haddc (h4 x) (h2 y) = h7 (hadd x y)" "hadd (h4 x) (h3 y) = h7 (hadd x y)"
  "haddc (h4 x) (h3 y) = h8 (hadd x y)" "hadd (h4 x) (h4 y) = h8 (hadd x y)" "haddc (h4 x) (h4 y) = h9 (hadd x y)"
  "hadd (h4 x) (h5 y) = h9 (hadd x y)" "haddc (h4 x) (h5 y) = ha (hadd x y)" "hadd (h4 x) (h6 y) = ha (hadd x y)"
  "haddc (h4 x) (h6 y) = hb (hadd x y)" "hadd (h4 x) (h7 y) = hb (hadd x y)" "haddc (h4 x) (h7 y) = hc (hadd x y)"
  "hadd (h4 x) (h8 y) = hc (hadd x y)" "haddc (h4 x) (h8 y) = hdd (hadd x y)" "hadd (h4 x) (h9 y) = hdd (hadd x y)"
  "haddc (h4 x) (h9 y) = he (hadd x y)" "hadd (h4 x) (ha y) = he (hadd x y)" "haddc (h4 x) (ha y) = hf (hadd x y)"
  "hadd (h4 x) (hb y) = hf (hadd x y)" "haddc (h4 x) (hb y) = h0 (haddc x y)" "hadd (h4 x) (hc y) = h0 (haddc x y)"
  "haddc (h4 x) (hc y) = h1 (haddc x y)" "hadd (h4 x) (hdd y) = h1 (haddc x y)" "haddc (h4 x) (hdd y) = h2 (haddc x y)"
  "hadd (h4 x) (he y) = h2 (haddc x y)" "haddc (h4 x) (he y) = h3 (haddc x y)" "hadd (h4 x) (hf y) = h3 (haddc x y)"
  "haddc (h4 x) (hf y) = h4 (haddc x y)" "hadd (h5 x) hZ = h5 x" "haddc (h5 x) hZ = h6 x"
  "haddc hZ (h5 x) = h6 x" "hadd (h5 x) (h0 y) = h5 (hadd x y)" "haddc (h5 x) (h0 y) = h6 (hadd x y)"
  "hadd (h5 x) (h1 y) = h6 (hadd x y)" "haddc (h5 x) (h1 y) = h7 (hadd x y)" "hadd (h5 x) (h2 y) = h7 (hadd x y)"
  "haddc (h5 x) (h2 y) = h8 (hadd x y)" "hadd (h5 x) (h3 y) = h8 (hadd x y)" "haddc (h5 x) (h3 y) = h9 (hadd x y)"
  "hadd (h5 x) (h4 y) = h9 (hadd x y)" "haddc (h5 x) (h4 y) = ha (hadd x y)" "hadd (h5 x) (h5 y) = ha (hadd x y)"
  "haddc (h5 x) (h5 y) = hb (hadd x y)" "hadd (h5 x) (h6 y) = hb (hadd x y)" "haddc (h5 x) (h6 y) = hc (hadd x y)"
  "hadd (h5 x) (h7 y) = hc (hadd x y)" "haddc (h5 x) (h7 y) = hdd (hadd x y)" "hadd (h5 x) (h8 y) = hdd (hadd x y)"
  "haddc (h5 x) (h8 y) = he (hadd x y)" "hadd (h5 x) (h9 y) = he (hadd x y)" "haddc (h5 x) (h9 y) = hf (hadd x y)"
  "hadd (h5 x) (ha y) = hf (hadd x y)" "haddc (h5 x) (ha y) = h0 (haddc x y)" "hadd (h5 x) (hb y) = h0 (haddc x y)"
  "haddc (h5 x) (hb y) = h1 (haddc x y)" "hadd (h5 x) (hc y) = h1 (haddc x y)" "haddc (h5 x) (hc y) = h2 (haddc x y)"
  "hadd (h5 x) (hdd y) = h2 (haddc x y)" "haddc (h5 x) (hdd y) = h3 (haddc x y)" "hadd (h5 x) (he y) = h3 (haddc x y)"
  "haddc (h5 x) (he y) = h4 (haddc x y)" "hadd (h5 x) (hf y) = h4 (haddc x y)" "haddc (h5 x) (hf y) = h5 (haddc x y)"
  "hadd (h6 x) hZ = h6 x" "haddc (h6 x) hZ = h7 x" "haddc hZ (h6 x) = h7 x"
  "hadd (h6 x) (h0 y) = h6 (hadd x y)" "haddc (h6 x) (h0 y) = h7 (hadd x y)" "hadd (h6 x) (h1 y) = h7 (hadd x y)"
  "haddc (h6 x) (h1 y) = h8 (hadd x y)" "hadd (h6 x) (h2 y) = h8 (hadd x y)" "haddc (h6 x) (h2 y) = h9 (hadd x y)"
  "hadd (h6 x) (h3 y) = h9 (hadd x y)" "haddc (h6 x) (h3 y) = ha (hadd x y)" "hadd (h6 x) (h4 y) = ha (hadd x y)"
  "haddc (h6 x) (h4 y) = hb (hadd x y)" "hadd (h6 x) (h5 y) = hb (hadd x y)" "haddc (h6 x) (h5 y) = hc (hadd x y)"
  "hadd (h6 x) (h6 y) = hc (hadd x y)" "haddc (h6 x) (h6 y) = hdd (hadd x y)" "hadd (h6 x) (h7 y) = hdd (hadd x y)"
  "haddc (h6 x) (h7 y) = he (hadd x y)" "hadd (h6 x) (h8 y) = he (hadd x y)" "haddc (h6 x) (h8 y) = hf (hadd x y)"
  "hadd (h6 x) (h9 y) = hf (hadd x y)" "haddc (h6 x) (h9 y) = h0 (haddc x y)" "hadd (h6 x) (ha y) = h0 (haddc x y)"
  "haddc (h6 x) (ha y) = h1 (haddc x y)" "hadd (h6 x) (hb y) = h1 (haddc x y)" "haddc (h6 x) (hb y) = h2 (haddc x y)"
  "hadd (h6 x) (hc y) = h2 (haddc x y)" "haddc (h6 x) (hc y) = h3 (haddc x y)" "hadd (h6 x) (hdd y) = h3 (haddc x y)"
  "haddc (h6 x) (hdd y) = h4 (haddc x y)" "hadd (h6 x) (he y) = h4 (haddc x y)" "haddc (h6 x) (he y) = h5 (haddc x y)"
  "hadd (h6 x) (hf y) = h5 (haddc x y)" "haddc (h6 x) (hf y) = h6 (haddc x y)" "hadd (h7 x) hZ = h7 x"
  "haddc (h7 x) hZ = h8 x" "haddc hZ (h7 x) = h8 x" "hadd (h7 x) (h0 y) = h7 (hadd x y)"
  "haddc (h7 x) (h0 y) = h8 (hadd x y)" "hadd (h7 x) (h1 y) = h8 (hadd x y)" "haddc (h7 x) (h1 y) = h9 (hadd x y)"
  "hadd (h7 x) (h2 y) = h9 (hadd x y)" "haddc (h7 x) (h2 y) = ha (hadd x y)" "hadd (h7 x) (h3 y) = ha (hadd x y)"
  "haddc (h7 x) (h3 y) = hb (hadd x y)" "hadd (h7 x) (h4 y) = hb (hadd x y)" "haddc (h7 x) (h4 y) = hc (hadd x y)"
  "hadd (h7 x) (h5 y) = hc (hadd x y)" "haddc (h7 x) (h5 y) = hdd (hadd x y)" "hadd (h7 x) (h6 y) = hdd (hadd x y)"
  "haddc (h7 x) (h6 y) = he (hadd x y)" "hadd (h7 x) (h7 y) = he (hadd x y)" "haddc (h7 x) (h7 y) = hf (hadd x y)"
  "hadd (h7 x) (h8 y) = hf (hadd x y)" "haddc (h7 x) (h8 y) = h0 (haddc x y)" "hadd (h7 x) (h9 y) = h0 (haddc x y)"
  "haddc (h7 x) (h9 y) = h1 (haddc x y)" "hadd (h7 x) (ha y) = h1 (haddc x y)" "haddc (h7 x) (ha y) = h2 (haddc x y)"
  "hadd (h7 x) (hb y) = h2 (haddc x y)" "haddc (h7 x) (hb y) = h3 (haddc x y)" "hadd (h7 x) (hc y) = h3 (haddc x y)"
  "haddc (h7 x) (hc y) = h4 (haddc x y)" "hadd (h7 x) (hdd y) = h4 (haddc x y)" "haddc (h7 x) (hdd y) = h5 (haddc x y)"
  "hadd (h7 x) (he y) = h5 (haddc x y)" "haddc (h7 x) (he y) = h6 (haddc x y)" "hadd (h7 x) (hf y) = h6 (haddc x y)"
  "haddc (h7 x) (hf y) = h7 (haddc x y)" "hadd (h8 x) hZ = h8 x" "haddc (h8 x) hZ = h9 x"
  "haddc hZ (h8 x) = h9 x" "hadd (h8 x) (h0 y) = h8 (hadd x y)" "haddc (h8 x) (h0 y) = h9 (hadd x y)"
  "hadd (h8 x) (h1 y) = h9 (hadd x y)" "haddc (h8 x) (h1 y) = ha (hadd x y)" "hadd (h8 x) (h2 y) = ha (hadd x y)"
  "haddc (h8 x) (h2 y) = hb (hadd x y)" "hadd (h8 x) (h3 y) = hb (hadd x y)" "haddc (h8 x) (h3 y) = hc (hadd x y)"
  "hadd (h8 x) (h4 y) = hc (hadd x y)" "haddc (h8 x) (h4 y) = hdd (hadd x y)" "hadd (h8 x) (h5 y) = hdd (hadd x y)"
  "haddc (h8 x) (h5 y) = he (hadd x y)" "hadd (h8 x) (h6 y) = he (hadd x y)" "haddc (h8 x) (h6 y) = hf (hadd x y)"
  "hadd (h8 x) (h7 y) = hf (hadd x y)" "haddc (h8 x) (h7 y) = h0 (haddc x y)" "hadd (h8 x) (h8 y) = h0 (haddc x y)"
  "haddc (h8 x) (h8 y) = h1 (haddc x y)" "hadd (h8 x) (h9 y) = h1 (haddc x y)" "haddc (h8 x) (h9 y) = h2 (haddc x y)"
  "hadd (h8 x) (ha y) = h2 (haddc x y)" "haddc (h8 x) (ha y) = h3 (haddc x y)" "hadd (h8 x) (hb y) = h3 (haddc x y)"
  "haddc (h8 x) (hb y) = h4 (haddc x y)" "hadd (h8 x) (hc y) = h4 (haddc x y)" "haddc (h8 x) (hc y) = h5 (haddc x y)"
  "hadd (h8 x) (hdd y) = h5 (haddc x y)" "haddc (h8 x) (hdd y) = h6 (haddc x y)" "hadd (h8 x) (he y) = h6 (haddc x y)"
  "haddc (h8 x) (he y) = h7 (haddc x y)" "hadd (h8 x) (hf y) = h7 (haddc x y)" "haddc (h8 x) (hf y) = h8 (haddc x y)"
  "hadd (h9 x) hZ = h9 x" "haddc (h9 x) hZ = ha x" "haddc hZ (h9 x) = ha x"
  "hadd (h9 x) (h0 y) = h9 (hadd x y)" "haddc (h9 x) (h0 y) = ha (hadd x y)" "hadd (h9 x) (h1 y) = ha (hadd x y)"
  "haddc (h9 x) (h1 y) = hb (hadd x y)" "hadd (h9 x) (h2 y) = hb (hadd x y)" "haddc (h9 x) (h2 y) = hc (hadd x y)"
  "hadd (h9 x) (h3 y) = hc (hadd x y)" "haddc (h9 x) (h3 y) = hdd (hadd x y)" "hadd (h9 x) (h4 y) = hdd (hadd x y)"
  "haddc (h9 x) (h4 y) = he (hadd x y)" "hadd (h9 x) (h5 y) = he (hadd x y)" "haddc (h9 x) (h5 y) = hf (hadd x y)"
  "hadd (h9 x) (h6 y) = hf (hadd x y)" "haddc (h9 x) (h6 y) = h0 (haddc x y)" "hadd (h9 x) (h7 y) = h0 (haddc x y)"
  "haddc (h9 x) (h7 y) = h1 (haddc x y)" "hadd (h9 x) (h8 y) = h1 (haddc x y)" "haddc (h9 x) (h8 y) = h2 (haddc x y)"
  "hadd (h9 x) (h9 y) = h2 (haddc x y)" "haddc (h9 x) (h9 y) = h3 (haddc x y)" "hadd (h9 x) (ha y) = h3 (haddc x y)"
  "haddc (h9 x) (ha y) = h4 (haddc x y)" "hadd (h9 x) (hb y) = h4 (haddc x y)" "haddc (h9 x) (hb y) = h5 (haddc x y)"
  "hadd (h9 x) (hc y) = h5 (haddc x y)" "haddc (h9 x) (hc y) = h6 (haddc x y)" "hadd (h9 x) (hdd y) = h6 (haddc x y)"
  "haddc (h9 x) (hdd y) = h7 (haddc x y)" "hadd (h9 x) (he y) = h7 (haddc x y)" "haddc (h9 x) (he y) = h8 (haddc x y)"
  "hadd (h9 x) (hf y) = h8 (haddc x y)" "haddc (h9 x) (hf y) = h9 (haddc x y)" "hadd (ha x) hZ = ha x"
  "haddc (ha x) hZ = hb x" "haddc hZ (ha x) = hb x" "hadd (ha x) (h0 y) = ha (hadd x y)"
  "haddc (ha x) (h0 y) = hb (hadd x y)" "hadd (ha x) (h1 y) = hb (hadd x y)" "haddc (ha x) (h1 y) = hc (hadd x y)"
  "hadd (ha x) (h2 y) = hc (hadd x y)" "haddc (ha x) (h2 y) = hdd (hadd x y)" "hadd (ha x) (h3 y) = hdd (hadd x y)"
  "haddc (ha x) (h3 y) = he (hadd x y)" "hadd (ha x) (h4 y) = he (hadd x y)" "haddc (ha x) (h4 y) = hf (hadd x y)"
  "hadd (ha x) (h5 y) = hf (hadd x y)" "haddc (ha x) (h5 y) = h0 (haddc x y)" "hadd (ha x) (h6 y) = h0 (haddc x y)"
  "haddc (ha x) (h6 y) = h1 (haddc x y)" "hadd (ha x) (h7 y) = h1 (haddc x y)" "haddc (ha x) (h7 y) = h2 (haddc x y)"
  "hadd (ha x) (h8 y) = h2 (haddc x y)" "haddc (ha x) (h8 y) = h3 (haddc x y)" "hadd (ha x) (h9 y) = h3 (haddc x y)"
  "haddc (ha x) (h9 y) = h4 (haddc x y)" "hadd (ha x) (ha y) = h4 (haddc x y)" "haddc (ha x) (ha y) = h5 (haddc x y)"
  "hadd (ha x) (hb y) = h5 (haddc x y)" "haddc (ha x) (hb y) = h6 (haddc x y)" "hadd (ha x) (hc y) = h6 (haddc x y)"
  "haddc (ha x) (hc y) = h7 (haddc x y)" "hadd (ha x) (hdd y) = h7 (haddc x y)" "haddc (ha x) (hdd y) = h8 (haddc x y)"
  "hadd (ha x) (he y) = h8 (haddc x y)" "haddc (ha x) (he y) = h9 (haddc x y)" "hadd (ha x) (hf y) = h9 (haddc x y)"
  "haddc (ha x) (hf y) = ha (haddc x y)" "hadd (hb x) hZ = hb x" "haddc (hb x) hZ = hc x"
  "haddc hZ (hb x) = hc x" "hadd (hb x) (h0 y) = hb (hadd x y)" "haddc (hb x) (h0 y) = hc (hadd x y)"
  "hadd (hb x) (h1 y) = hc (hadd x y)" "haddc (hb x) (h1 y) = hdd (hadd x y)" "hadd (hb x) (h2 y) = hdd (hadd x y)"
  "haddc (hb x) (h2 y) = he (hadd x y)" "hadd (hb x) (h3 y) = he (hadd x y)" "haddc (hb x) (h3 y) = hf (hadd x y)"
  "hadd (hb x) (h4 y) = hf (hadd x y)" "haddc (hb x) (h4 y) = h0 (haddc x y)" "hadd (hb x) (h5 y) = h0 (haddc x y)"
  "haddc (hb x) (h5 y) = h1 (haddc x y)" "hadd (hb x) (h6 y) = h1 (haddc x y)" "haddc (hb x) (h6 y) = h2 (haddc x y)"
  "hadd (hb x) (h7 y) = h2 (haddc x y)" "haddc (hb x) (h7 y) = h3 (haddc x y)" "hadd (hb x) (h8 y) = h3 (haddc x y)"
  "haddc (hb x) (h8 y) = h4 (haddc x y)" "hadd (hb x) (h9 y) = h4 (haddc x y)" "haddc (hb x) (h9 y) = h5 (haddc x y)"
  "hadd (hb x) (ha y) = h5 (haddc x y)" "haddc (hb x) (ha y) = h6 (haddc x y)" "hadd (hb x) (hb y) = h6 (haddc x y)"
  "haddc (hb x) (hb y) = h7 (haddc x y)" "hadd (hb x) (hc y) = h7 (haddc x y)" "haddc (hb x) (hc y) = h8 (haddc x y)"
  "hadd (hb x) (hdd y) = h8 (haddc x y)" "haddc (hb x) (hdd y) = h9 (haddc x y)" "hadd (hb x) (he y) = h9 (haddc x y)"
  "haddc (hb x) (he y) = ha (haddc x y)" "hadd (hb x) (hf y) = ha (haddc x y)" "haddc (hb x) (hf y) = hb (haddc x y)"
  "hadd (hc x) hZ = hc x" "haddc (hc x) hZ = hdd x" "haddc hZ (hc x) = hdd x"
  "hadd (hc x) (h0 y) = hc (hadd x y)" "haddc (hc x) (h0 y) = hdd (hadd x y)" "hadd (hc x) (h1 y) = hdd (hadd x y)"
  "haddc (hc x) (h1 y) = he (hadd x y)" "hadd (hc x) (h2 y) = he (hadd x y)" "haddc (hc x) (h2 y) = hf (hadd x y)"
  "hadd (hc x) (h3 y) = hf (hadd x y)" "haddc (hc x) (h3 y) = h0 (haddc x y)" "hadd (hc x) (h4 y) = h0 (haddc x y)"
  "haddc (hc x) (h4 y) = h1 (haddc x y)" "hadd (hc x) (h5 y) = h1 (haddc x y)" "haddc (hc x) (h5 y) = h2 (haddc x y)"
  "hadd (hc x) (h6 y) = h2 (haddc x y)" "haddc (hc x) (h6 y) = h3 (haddc x y)" "hadd (hc x) (h7 y) = h3 (haddc x y)"
  "haddc (hc x) (h7 y) = h4 (haddc x y)" "hadd (hc x) (h8 y) = h4 (haddc x y)" "haddc (hc x) (h8 y) = h5 (haddc x y)"
  "hadd (hc x) (h9 y) = h5 (haddc x y)" "haddc (hc x) (h9 y) = h6 (haddc x y)" "hadd (hc x) (ha y) = h6 (haddc x y)"
  "haddc (hc x) (ha y) = h7 (haddc x y)" "hadd (hc x) (hb y) = h7 (haddc x y)" "haddc (hc x) (hb y) = h8 (haddc x y)"
  "hadd (hc x) (hc y) = h8 (haddc x y)" "haddc (hc x) (hc y) = h9 (haddc x y)" "hadd (hc x) (hdd y) = h9 (haddc x y)"
  "haddc (hc x) (hdd y) = ha (haddc x y)" "hadd (hc x) (he y) = ha (haddc x y)" "haddc (hc x) (he y) = hb (haddc x y)"
  "hadd (hc x) (hf y) = hb (haddc x y)" "haddc (hc x) (hf y) = hc (haddc x y)" "hadd (hdd x) hZ = hdd x"
  "haddc (hdd x) hZ = he x" "haddc hZ (hdd x) = he x" "hadd (hdd x) (h0 y) = hdd (hadd x y)"
  "haddc (hdd x) (h0 y) = he (hadd x y)" "hadd (hdd x) (h1 y) = he (hadd x y)" "haddc (hdd x) (h1 y) = hf (hadd x y)"
  "hadd (hdd x) (h2 y) = hf (hadd x y)" "haddc (hdd x) (h2 y) = h0 (haddc x y)" "hadd (hdd x) (h3 y) = h0 (haddc x y)"
  "haddc (hdd x) (h3 y) = h1 (haddc x y)" "hadd (hdd x) (h4 y) = h1 (haddc x y)" "haddc (hdd x) (h4 y) = h2 (haddc x y)"
  "hadd (hdd x) (h5 y) = h2 (haddc x y)" "haddc (hdd x) (h5 y) = h3 (haddc x y)" "hadd (hdd x) (h6 y) = h3 (haddc x y)"
  "haddc (hdd x) (h6 y) = h4 (haddc x y)" "hadd (hdd x) (h7 y) = h4 (haddc x y)" "haddc (hdd x) (h7 y) = h5 (haddc x y)"
  "hadd (hdd x) (h8 y) = h5 (haddc x y)" "haddc (hdd x) (h8 y) = h6 (haddc x y)" "hadd (hdd x) (h9 y) = h6 (haddc x y)"
  "haddc (hdd x) (h9 y) = h7 (haddc x y)" "hadd (hdd x) (ha y) = h7 (haddc x y)" "haddc (hdd x) (ha y) = h8 (haddc x y)"
  "hadd (hdd x) (hb y) = h8 (haddc x y)" "haddc (hdd x) (hb y) = h9 (haddc x y)" "hadd (hdd x) (hc y) = h9 (haddc x y)"
  "haddc (hdd x) (hc y) = ha (haddc x y)" "hadd (hdd x) (hdd y) = ha (haddc x y)" "haddc (hdd x) (hdd y) = hb (haddc x y)"
  "hadd (hdd x) (he y) = hb (haddc x y)" "haddc (hdd x) (he y) = hc (haddc x y)" "hadd (hdd x) (hf y) = hc (haddc x y)"
  "haddc (hdd x) (hf y) = hdd (haddc x y)" "hadd (he x) hZ = he x" "haddc (he x) hZ = hf x"
  "haddc hZ (he x) = hf x" "hadd (he x) (h0 y) = he (hadd x y)" "haddc (he x) (h0 y) = hf (hadd x y)"
  "hadd (he x) (h1 y) = hf (hadd x y)" "haddc (he x) (h1 y) = h0 (haddc x y)" "hadd (he x) (h2 y) = h0 (haddc x y)"
  "haddc (he x) (h2 y) = h1 (haddc x y)" "hadd (he x) (h3 y) = h1 (haddc x y)" "haddc (he x) (h3 y) = h2 (haddc x y)"
  "hadd (he x) (h4 y) = h2 (haddc x y)" "haddc (he x) (h4 y) = h3 (haddc x y)" "hadd (he x) (h5 y) = h3 (haddc x y)"
  "haddc (he x) (h5 y) = h4 (haddc x y)" "hadd (he x) (h6 y) = h4 (haddc x y)" "haddc (he x) (h6 y) = h5 (haddc x y)"
  "hadd (he x) (h7 y) = h5 (haddc x y)" "haddc (he x) (h7 y) = h6 (haddc x y)" "hadd (he x) (h8 y) = h6 (haddc x y)"
  "haddc (he x) (h8 y) = h7 (haddc x y)" "hadd (he x) (h9 y) = h7 (haddc x y)" "haddc (he x) (h9 y) = h8 (haddc x y)"
  "hadd (he x) (ha y) = h8 (haddc x y)" "haddc (he x) (ha y) = h9 (haddc x y)" "hadd (he x) (hb y) = h9 (haddc x y)"
  "haddc (he x) (hb y) = ha (haddc x y)" "hadd (he x) (hc y) = ha (haddc x y)" "haddc (he x) (hc y) = hb (haddc x y)"
  "hadd (he x) (hdd y) = hb (haddc x y)" "haddc (he x) (hdd y) = hc (haddc x y)" "hadd (he x) (he y) = hc (haddc x y)"
  "haddc (he x) (he y) = hdd (haddc x y)" "hadd (he x) (hf y) = hdd (haddc x y)" "haddc (he x) (hf y) = he (haddc x y)"
  "hadd (hf x) hZ = hf x" "haddc (hf x) hZ = h0 (haddc x hZ)" "haddc hZ (hf x) = h0 (haddc x hZ)"
  "hadd (hf x) (h0 y) = hf (hadd x y)" "haddc (hf x) (h0 y) = h0 (haddc x y)" "hadd (hf x) (h1 y) = h0 (haddc x y)"
  "haddc (hf x) (h1 y) = h1 (haddc x y)" "hadd (hf x) (h2 y) = h1 (haddc x y)" "haddc (hf x) (h2 y) = h2 (haddc x y)"
  "hadd (hf x) (h3 y) = h2 (haddc x y)" "haddc (hf x) (h3 y) = h3 (haddc x y)" "hadd (hf x) (h4 y) = h3 (haddc x y)"
  "haddc (hf x) (h4 y) = h4 (haddc x y)" "hadd (hf x) (h5 y) = h4 (haddc x y)" "haddc (hf x) (h5 y) = h5 (haddc x y)"
  "hadd (hf x) (h6 y) = h5 (haddc x y)" "haddc (hf x) (h6 y) = h6 (haddc x y)" "hadd (hf x) (h7 y) = h6 (haddc x y)"
  "haddc (hf x) (h7 y) = h7 (haddc x y)" "hadd (hf x) (h8 y) = h7 (haddc x y)" "haddc (hf x) (h8 y) = h8 (haddc x y)"
  "hadd (hf x) (h9 y) = h8 (haddc x y)" "haddc (hf x) (h9 y) = h9 (haddc x y)" "hadd (hf x) (ha y) = h9 (haddc x y)"
  "haddc (hf x) (ha y) = ha (haddc x y)" "hadd (hf x) (hb y) = ha (haddc x y)" "haddc (hf x) (hb y) = hb (haddc x y)"
  "hadd (hf x) (hc y) = hb (haddc x y)" "haddc (hf x) (hc y) = hc (haddc x y)" "hadd (hf x) (hdd y) = hc (haddc x y)"
  "haddc (hf x) (hdd y) = hdd (haddc x y)" "hadd (hf x) (he y) = hdd (haddc x y)" "haddc (hf x) (he y) = he (haddc x y)"
  "hadd (hf x) (hf y) = he (haddc x y)" "haddc (hf x) (hf y) = hf (haddc x y)"
  by (simp_all add: hdig hadd_def haddc_def)

lemma heq_rules:
  "heq hZ hZ = True" "heq hZ (h0 x) = heq hZ x" "heq (h0 x) hZ = heq x hZ"
  "heq (h0 x) (h0 y) = heq x y" "heq (h1 x) (h1 y) = heq x y" "heq (h2 x) (h2 y) = heq x y"
  "heq (h3 x) (h3 y) = heq x y" "heq (h4 x) (h4 y) = heq x y" "heq (h5 x) (h5 y) = heq x y"
  "heq (h6 x) (h6 y) = heq x y" "heq (h7 x) (h7 y) = heq x y" "heq (h8 x) (h8 y) = heq x y"
  "heq (h9 x) (h9 y) = heq x y" "heq (ha x) (ha y) = heq x y" "heq (hb x) (hb y) = heq x y"
  "heq (hc x) (hc y) = heq x y" "heq (hdd x) (hdd y) = heq x y" "heq (he x) (he y) = heq x y"
  "heq (hf x) (hf y) = heq x y"
  by (auto simp add: heq_def hdig)

section \<open>Multiplication\<close>

text \<open>
  The fifteen multiples of one factor are computed first and stay as arguments; then each digit of the
  other factor costs one addition.
\<close>

definition hmul :: "nat \<Rightarrow> nat \<Rightarrow> nat" where
  "hmul x y = x * y"

function hmulT :: "nat list \<Rightarrow> nat \<Rightarrow> nat" where
  "hmulT ms n = (if n = 0 then 0 else ms ! (n mod 16) + 16 * hmulT ms (n div 16))"
  by auto

termination
  by (relation "measure snd") auto

declare hmulT.simps [simp del]

lemma hmulT_0 [simp]: "hmulT ms 0 = 0"
  by (simp add: hmulT.simps)

lemma hmulT_step:
  assumes "i < 16" and "ms ! 0 = 0"
  shows "hmulT ms (16 * x + i) = ms ! i + 16 * hmulT ms x"
proof (cases "16 * x + i = 0")
  case False
  have "(16 * x + i) mod 16 = i" "(16 * x + i) div 16 = x" using assms(1) by simp_all
  then show ?thesis using False assms(2) hmulT.simps [of ms "16 * x + i"] by simp
qed (use assms in simp)

lemma hmulT_multiples: "hmulT (map (\<lambda>k. k * y) [0..<16]) x = x * y"
proof (induction x rule: less_induct)
  case (less x)
  show ?case
  proof (cases "x = 0")
    case False
    have "hmulT (map (\<lambda>k. k * y) [0..<16]) x = x mod 16 * y + 16 * (x div 16 * y)"
      using False less [of "x div 16"] by (subst hmulT.simps) (simp del: upt_Suc)
    also have "\<dots> = (x mod 16 + 16 * (x div 16)) * y" by (simp only: add_mult_distrib mult.assoc)
    finally show ?thesis by simp
  qed simp
qed

definition hst15 :: "nat \<Rightarrow> nat \<Rightarrow> nat \<Rightarrow> nat \<Rightarrow> nat \<Rightarrow> nat \<Rightarrow> nat \<Rightarrow> nat \<Rightarrow> nat \<Rightarrow> nat \<Rightarrow> nat \<Rightarrow> nat \<Rightarrow> nat \<Rightarrow> nat \<Rightarrow> nat \<Rightarrow> nat \<Rightarrow> nat" where
  "hst15 m1 m2 m3 m4 m5 m6 m7 m8 m9 m10 m11 m12 m13 m14 m15 x = hmulT [0, m1, m2, m3, m4, m5, m6, m7, m8, m9, m10, m11, m12, m13, m14, m15] x"

definition hst14 :: "nat \<Rightarrow> nat \<Rightarrow> nat \<Rightarrow> nat \<Rightarrow> nat \<Rightarrow> nat \<Rightarrow> nat \<Rightarrow> nat \<Rightarrow> nat \<Rightarrow> nat \<Rightarrow> nat \<Rightarrow> nat \<Rightarrow> nat \<Rightarrow> nat \<Rightarrow> nat \<Rightarrow> nat" where
  "hst14 m1 m2 m3 m4 m5 m6 m7 m8 m9 m10 m11 m12 m13 m14 x = hst15 m1 m2 m3 m4 m5 m6 m7 m8 m9 m10 m11 m12 m13 m14 (hadd m14 m1) x"

definition hst13 :: "nat \<Rightarrow> nat \<Rightarrow> nat \<Rightarrow> nat \<Rightarrow> nat \<Rightarrow> nat \<Rightarrow> nat \<Rightarrow> nat \<Rightarrow> nat \<Rightarrow> nat \<Rightarrow> nat \<Rightarrow> nat \<Rightarrow> nat \<Rightarrow> nat \<Rightarrow> nat" where
  "hst13 m1 m2 m3 m4 m5 m6 m7 m8 m9 m10 m11 m12 m13 x = hst14 m1 m2 m3 m4 m5 m6 m7 m8 m9 m10 m11 m12 m13 (hadd m13 m1) x"

definition hst12 :: "nat \<Rightarrow> nat \<Rightarrow> nat \<Rightarrow> nat \<Rightarrow> nat \<Rightarrow> nat \<Rightarrow> nat \<Rightarrow> nat \<Rightarrow> nat \<Rightarrow> nat \<Rightarrow> nat \<Rightarrow> nat \<Rightarrow> nat \<Rightarrow> nat" where
  "hst12 m1 m2 m3 m4 m5 m6 m7 m8 m9 m10 m11 m12 x = hst13 m1 m2 m3 m4 m5 m6 m7 m8 m9 m10 m11 m12 (hadd m12 m1) x"

definition hst11 :: "nat \<Rightarrow> nat \<Rightarrow> nat \<Rightarrow> nat \<Rightarrow> nat \<Rightarrow> nat \<Rightarrow> nat \<Rightarrow> nat \<Rightarrow> nat \<Rightarrow> nat \<Rightarrow> nat \<Rightarrow> nat \<Rightarrow> nat" where
  "hst11 m1 m2 m3 m4 m5 m6 m7 m8 m9 m10 m11 x = hst12 m1 m2 m3 m4 m5 m6 m7 m8 m9 m10 m11 (hadd m11 m1) x"

definition hst10 :: "nat \<Rightarrow> nat \<Rightarrow> nat \<Rightarrow> nat \<Rightarrow> nat \<Rightarrow> nat \<Rightarrow> nat \<Rightarrow> nat \<Rightarrow> nat \<Rightarrow> nat \<Rightarrow> nat \<Rightarrow> nat" where
  "hst10 m1 m2 m3 m4 m5 m6 m7 m8 m9 m10 x = hst11 m1 m2 m3 m4 m5 m6 m7 m8 m9 m10 (hadd m10 m1) x"

definition hst9 :: "nat \<Rightarrow> nat \<Rightarrow> nat \<Rightarrow> nat \<Rightarrow> nat \<Rightarrow> nat \<Rightarrow> nat \<Rightarrow> nat \<Rightarrow> nat \<Rightarrow> nat \<Rightarrow> nat" where
  "hst9 m1 m2 m3 m4 m5 m6 m7 m8 m9 x = hst10 m1 m2 m3 m4 m5 m6 m7 m8 m9 (hadd m9 m1) x"

definition hst8 :: "nat \<Rightarrow> nat \<Rightarrow> nat \<Rightarrow> nat \<Rightarrow> nat \<Rightarrow> nat \<Rightarrow> nat \<Rightarrow> nat \<Rightarrow> nat \<Rightarrow> nat" where
  "hst8 m1 m2 m3 m4 m5 m6 m7 m8 x = hst9 m1 m2 m3 m4 m5 m6 m7 m8 (hadd m8 m1) x"

definition hst7 :: "nat \<Rightarrow> nat \<Rightarrow> nat \<Rightarrow> nat \<Rightarrow> nat \<Rightarrow> nat \<Rightarrow> nat \<Rightarrow> nat \<Rightarrow> nat" where
  "hst7 m1 m2 m3 m4 m5 m6 m7 x = hst8 m1 m2 m3 m4 m5 m6 m7 (hadd m7 m1) x"

definition hst6 :: "nat \<Rightarrow> nat \<Rightarrow> nat \<Rightarrow> nat \<Rightarrow> nat \<Rightarrow> nat \<Rightarrow> nat \<Rightarrow> nat" where
  "hst6 m1 m2 m3 m4 m5 m6 x = hst7 m1 m2 m3 m4 m5 m6 (hadd m6 m1) x"

definition hst5 :: "nat \<Rightarrow> nat \<Rightarrow> nat \<Rightarrow> nat \<Rightarrow> nat \<Rightarrow> nat \<Rightarrow> nat" where
  "hst5 m1 m2 m3 m4 m5 x = hst6 m1 m2 m3 m4 m5 (hadd m5 m1) x"

definition hst4 :: "nat \<Rightarrow> nat \<Rightarrow> nat \<Rightarrow> nat \<Rightarrow> nat \<Rightarrow> nat" where
  "hst4 m1 m2 m3 m4 x = hst5 m1 m2 m3 m4 (hadd m4 m1) x"

definition hst3 :: "nat \<Rightarrow> nat \<Rightarrow> nat \<Rightarrow> nat \<Rightarrow> nat" where
  "hst3 m1 m2 m3 x = hst4 m1 m2 m3 (hadd m3 m1) x"

definition hst2 :: "nat \<Rightarrow> nat \<Rightarrow> nat \<Rightarrow> nat" where
  "hst2 m1 m2 x = hst3 m1 m2 (hadd m2 m1) x"

definition hst1 :: "nat \<Rightarrow> nat \<Rightarrow> nat" where
  "hst1 m1 x = hst2 m1 (hadd m1 m1) x"

lemma hst15_zero: "hst15 m1 m2 m3 m4 m5 m6 m7 m8 m9 m10 m11 m12 m13 m14 m15 0 = 0"
  by (simp add: hst15_def)

lemma hst15_step: "i < 16 \<Longrightarrow> hst15 m1 m2 m3 m4 m5 m6 m7 m8 m9 m10 m11 m12 m13 m14 m15 (16 * x + i) = [0, m1, m2, m3, m4, m5, m6, m7, m8, m9, m10, m11, m12, m13, m14, m15] ! i + 16 * hst15 m1 m2 m3 m4 m5 m6 m7 m8 m9 m10 m11 m12 m13 m14 m15 x"
  by (simp add: hst15_def hmulT_step)

lemma hst15_digit:
  "hst15 m1 m2 m3 m4 m5 m6 m7 m8 m9 m10 m11 m12 m13 m14 m15 (16 * x + 0)
    = 0 + 16 * hst15 m1 m2 m3 m4 m5 m6 m7 m8 m9 m10 m11 m12 m13 m14 m15 x"
  "hst15 m1 m2 m3 m4 m5 m6 m7 m8 m9 m10 m11 m12 m13 m14 m15 (16 * x + 1)
    = m1 + 16 * hst15 m1 m2 m3 m4 m5 m6 m7 m8 m9 m10 m11 m12 m13 m14 m15 x"
  "hst15 m1 m2 m3 m4 m5 m6 m7 m8 m9 m10 m11 m12 m13 m14 m15 (16 * x + 2)
    = m2 + 16 * hst15 m1 m2 m3 m4 m5 m6 m7 m8 m9 m10 m11 m12 m13 m14 m15 x"
  "hst15 m1 m2 m3 m4 m5 m6 m7 m8 m9 m10 m11 m12 m13 m14 m15 (16 * x + 3)
    = m3 + 16 * hst15 m1 m2 m3 m4 m5 m6 m7 m8 m9 m10 m11 m12 m13 m14 m15 x"
  "hst15 m1 m2 m3 m4 m5 m6 m7 m8 m9 m10 m11 m12 m13 m14 m15 (16 * x + 4)
    = m4 + 16 * hst15 m1 m2 m3 m4 m5 m6 m7 m8 m9 m10 m11 m12 m13 m14 m15 x"
  "hst15 m1 m2 m3 m4 m5 m6 m7 m8 m9 m10 m11 m12 m13 m14 m15 (16 * x + 5)
    = m5 + 16 * hst15 m1 m2 m3 m4 m5 m6 m7 m8 m9 m10 m11 m12 m13 m14 m15 x"
  "hst15 m1 m2 m3 m4 m5 m6 m7 m8 m9 m10 m11 m12 m13 m14 m15 (16 * x + 6)
    = m6 + 16 * hst15 m1 m2 m3 m4 m5 m6 m7 m8 m9 m10 m11 m12 m13 m14 m15 x"
  "hst15 m1 m2 m3 m4 m5 m6 m7 m8 m9 m10 m11 m12 m13 m14 m15 (16 * x + 7)
    = m7 + 16 * hst15 m1 m2 m3 m4 m5 m6 m7 m8 m9 m10 m11 m12 m13 m14 m15 x"
  "hst15 m1 m2 m3 m4 m5 m6 m7 m8 m9 m10 m11 m12 m13 m14 m15 (16 * x + 8)
    = m8 + 16 * hst15 m1 m2 m3 m4 m5 m6 m7 m8 m9 m10 m11 m12 m13 m14 m15 x"
  "hst15 m1 m2 m3 m4 m5 m6 m7 m8 m9 m10 m11 m12 m13 m14 m15 (16 * x + 9)
    = m9 + 16 * hst15 m1 m2 m3 m4 m5 m6 m7 m8 m9 m10 m11 m12 m13 m14 m15 x"
  "hst15 m1 m2 m3 m4 m5 m6 m7 m8 m9 m10 m11 m12 m13 m14 m15 (16 * x + 10)
    = m10 + 16 * hst15 m1 m2 m3 m4 m5 m6 m7 m8 m9 m10 m11 m12 m13 m14 m15 x"
  "hst15 m1 m2 m3 m4 m5 m6 m7 m8 m9 m10 m11 m12 m13 m14 m15 (16 * x + 11)
    = m11 + 16 * hst15 m1 m2 m3 m4 m5 m6 m7 m8 m9 m10 m11 m12 m13 m14 m15 x"
  "hst15 m1 m2 m3 m4 m5 m6 m7 m8 m9 m10 m11 m12 m13 m14 m15 (16 * x + 12)
    = m12 + 16 * hst15 m1 m2 m3 m4 m5 m6 m7 m8 m9 m10 m11 m12 m13 m14 m15 x"
  "hst15 m1 m2 m3 m4 m5 m6 m7 m8 m9 m10 m11 m12 m13 m14 m15 (16 * x + 13)
    = m13 + 16 * hst15 m1 m2 m3 m4 m5 m6 m7 m8 m9 m10 m11 m12 m13 m14 m15 x"
  "hst15 m1 m2 m3 m4 m5 m6 m7 m8 m9 m10 m11 m12 m13 m14 m15 (16 * x + 14)
    = m14 + 16 * hst15 m1 m2 m3 m4 m5 m6 m7 m8 m9 m10 m11 m12 m13 m14 m15 x"
  "hst15 m1 m2 m3 m4 m5 m6 m7 m8 m9 m10 m11 m12 m13 m14 m15 (16 * x + 15)
    = m15 + 16 * hst15 m1 m2 m3 m4 m5 m6 m7 m8 m9 m10 m11 m12 m13 m14 m15 x"
  using hst15_step [of 0] hst15_step [of 1] hst15_step [of 2] hst15_step [of 3] hst15_step [of 4] hst15_step [of 5] hst15_step [of 6] hst15_step [of 7] hst15_step [of 8] hst15_step [of 9] hst15_step [of 10] hst15_step [of 11] hst15_step [of 12] hst15_step [of 13] hst15_step [of 14] hst15_step [of 15] by simp_all

lemma hst15_rules:
  "hst15 m1 m2 m3 m4 m5 m6 m7 m8 m9 m10 m11 m12 m13 m14 m15 hZ = hZ"
  "hst15 m1 m2 m3 m4 m5 m6 m7 m8 m9 m10 m11 m12 m13 m14 m15 (h0 x) = h0 (hst15 m1 m2 m3 m4 m5 m6 m7 m8 m9 m10 m11 m12 m13 m14 m15 x)"
  "hst15 m1 m2 m3 m4 m5 m6 m7 m8 m9 m10 m11 m12 m13 m14 m15 (h1 x)
    = hadd m1 (h0 (hst15 m1 m2 m3 m4 m5 m6 m7 m8 m9 m10 m11 m12 m13 m14 m15 x))"
  "hst15 m1 m2 m3 m4 m5 m6 m7 m8 m9 m10 m11 m12 m13 m14 m15 (h2 x)
    = hadd m2 (h0 (hst15 m1 m2 m3 m4 m5 m6 m7 m8 m9 m10 m11 m12 m13 m14 m15 x))"
  "hst15 m1 m2 m3 m4 m5 m6 m7 m8 m9 m10 m11 m12 m13 m14 m15 (h3 x)
    = hadd m3 (h0 (hst15 m1 m2 m3 m4 m5 m6 m7 m8 m9 m10 m11 m12 m13 m14 m15 x))"
  "hst15 m1 m2 m3 m4 m5 m6 m7 m8 m9 m10 m11 m12 m13 m14 m15 (h4 x)
    = hadd m4 (h0 (hst15 m1 m2 m3 m4 m5 m6 m7 m8 m9 m10 m11 m12 m13 m14 m15 x))"
  "hst15 m1 m2 m3 m4 m5 m6 m7 m8 m9 m10 m11 m12 m13 m14 m15 (h5 x)
    = hadd m5 (h0 (hst15 m1 m2 m3 m4 m5 m6 m7 m8 m9 m10 m11 m12 m13 m14 m15 x))"
  "hst15 m1 m2 m3 m4 m5 m6 m7 m8 m9 m10 m11 m12 m13 m14 m15 (h6 x)
    = hadd m6 (h0 (hst15 m1 m2 m3 m4 m5 m6 m7 m8 m9 m10 m11 m12 m13 m14 m15 x))"
  "hst15 m1 m2 m3 m4 m5 m6 m7 m8 m9 m10 m11 m12 m13 m14 m15 (h7 x)
    = hadd m7 (h0 (hst15 m1 m2 m3 m4 m5 m6 m7 m8 m9 m10 m11 m12 m13 m14 m15 x))"
  "hst15 m1 m2 m3 m4 m5 m6 m7 m8 m9 m10 m11 m12 m13 m14 m15 (h8 x)
    = hadd m8 (h0 (hst15 m1 m2 m3 m4 m5 m6 m7 m8 m9 m10 m11 m12 m13 m14 m15 x))"
  "hst15 m1 m2 m3 m4 m5 m6 m7 m8 m9 m10 m11 m12 m13 m14 m15 (h9 x)
    = hadd m9 (h0 (hst15 m1 m2 m3 m4 m5 m6 m7 m8 m9 m10 m11 m12 m13 m14 m15 x))"
  "hst15 m1 m2 m3 m4 m5 m6 m7 m8 m9 m10 m11 m12 m13 m14 m15 (ha x)
    = hadd m10 (h0 (hst15 m1 m2 m3 m4 m5 m6 m7 m8 m9 m10 m11 m12 m13 m14 m15 x))"
  "hst15 m1 m2 m3 m4 m5 m6 m7 m8 m9 m10 m11 m12 m13 m14 m15 (hb x)
    = hadd m11 (h0 (hst15 m1 m2 m3 m4 m5 m6 m7 m8 m9 m10 m11 m12 m13 m14 m15 x))"
  "hst15 m1 m2 m3 m4 m5 m6 m7 m8 m9 m10 m11 m12 m13 m14 m15 (hc x)
    = hadd m12 (h0 (hst15 m1 m2 m3 m4 m5 m6 m7 m8 m9 m10 m11 m12 m13 m14 m15 x))"
  "hst15 m1 m2 m3 m4 m5 m6 m7 m8 m9 m10 m11 m12 m13 m14 m15 (hdd x)
    = hadd m13 (h0 (hst15 m1 m2 m3 m4 m5 m6 m7 m8 m9 m10 m11 m12 m13 m14 m15 x))"
  "hst15 m1 m2 m3 m4 m5 m6 m7 m8 m9 m10 m11 m12 m13 m14 m15 (he x)
    = hadd m14 (h0 (hst15 m1 m2 m3 m4 m5 m6 m7 m8 m9 m10 m11 m12 m13 m14 m15 x))"
  "hst15 m1 m2 m3 m4 m5 m6 m7 m8 m9 m10 m11 m12 m13 m14 m15 (hf x)
    = hadd m15 (h0 (hst15 m1 m2 m3 m4 m5 m6 m7 m8 m9 m10 m11 m12 m13 m14 m15 x))"
  by (simp_all only: hdig hst15_digit hst15_digit(1) [unfolded add_0_right add_0_left] hst15_zero hadd_def add_0_right add_0_left)

lemma hmul_stages: "hmul x y = hst1 y x"
proof -
  have "map (\<lambda>k. k * y) [0..<16] = [0, y, y + y, y + y + y, y + y + y + y, y + y + y + y + y, y + y + y + y + y + y, y + y + y + y + y + y + y, y + y + y + y + y + y + y + y, y + y + y + y + y + y + y + y + y, y + y + y + y + y + y + y + y + y + y, y + y + y + y + y + y + y + y + y + y + y, y + y + y + y + y + y + y + y + y + y + y + y, y + y + y + y + y + y + y + y + y + y + y + y + y, y + y + y + y + y + y + y + y + y + y + y + y + y + y, y + y + y + y + y + y + y + y + y + y + y + y + y + y + y]"
    by (simp add: upt_rec)
  then show ?thesis using hmulT_multiples [of y x] by (simp add: hmul_def hadd_def hst15_def hst1_def hst2_def hst3_def hst4_def hst5_def hst6_def hst7_def hst8_def hst9_def hst10_def hst11_def hst12_def hst13_def hst14_def)
qed

text \<open>Sums, differences and products of literals are converted to digits by \<open>hn_def\<close> read backwards.\<close>

lemmas hex_arith = hn_rules hn_def [symmetric] hadd_rules heq_rules hst15_rules hmul_stages
  hst1_def hst2_def hst3_def hst4_def hst5_def hst6_def hst7_def hst8_def hst9_def hst10_def hst11_def hst12_def hst13_def hst14_def

lemma zero_hZ: "0 = hZ"
  by (simp add: hZ_def)

section \<open>Splitting at a digit\<close>

text \<open>Counters have their own constructors, so that a zero is not taken for a number.\<close>

definition cZ :: nat where
  "cZ = 0"

definition cS :: "nat \<Rightarrow> nat" where
  "cS c = Suc c"

definition hlo :: "nat \<Rightarrow> nat \<Rightarrow> nat" where
  "hlo c x = x mod 16 ^ c"

definition hhi :: "nat \<Rightarrow> nat \<Rightarrow> nat" where
  "hhi c x = x div 16 ^ c"

primrec hcomp :: "nat \<Rightarrow> nat \<Rightarrow> nat" where
  "hcomp 0 x = 0"
| "hcomp (Suc c) x = 16 * hcomp c (x div 16) + (15 - x mod 16)"

lemma digit_split:
  assumes "i < 16"
  shows "(16 * x + i) mod 16 ^ Suc c = 16 * (x mod 16 ^ c) + i" and "(16 * x + i) div 16 ^ Suc c = x div (16 ^ c :: nat)"
proof -
  have d: "(16 * x + i) div 16 = x" "(16 * x + i) mod 16 = i" using assms by simp_all
  then show "(16 * x + i) div 16 ^ Suc c = x div 16 ^ c" by (simp only: power_Suc div_mult2_eq)
  show "(16 * x + i) mod 16 ^ Suc c = 16 * (x mod 16 ^ c) + i" by (simp only: power_Suc mod_mult2_eq d)
qed

lemma hcomp_complement: "x < 16 ^ c \<Longrightarrow> hcomp c x + x + 1 = 16 ^ c"
proof (induction c arbitrary: x)
  case (Suc c)
  have "x div 16 < 16 ^ c" using Suc.prems by (simp add: less_mult_imp_div_less mult.commute)
  moreover have "16 * (x div 16) + x mod 16 = x" "x mod 16 < 16" by simp_all
  ultimately show ?case using Suc.IH [of "x div 16"] unfolding hcomp.simps power_Suc by linarith
qed simp

lemma hlo_rules:
  "hlo cZ x = hZ" "hlo (cS c) hZ = hZ"
  "hlo (cS c) (h0 x) = h0 (hlo c x)" "hlo (cS c) (h1 x) = h1 (hlo c x)"
  "hlo (cS c) (h2 x) = h2 (hlo c x)" "hlo (cS c) (h3 x) = h3 (hlo c x)"
  "hlo (cS c) (h4 x) = h4 (hlo c x)" "hlo (cS c) (h5 x) = h5 (hlo c x)"
  "hlo (cS c) (h6 x) = h6 (hlo c x)" "hlo (cS c) (h7 x) = h7 (hlo c x)"
  "hlo (cS c) (h8 x) = h8 (hlo c x)" "hlo (cS c) (h9 x) = h9 (hlo c x)"
  "hlo (cS c) (ha x) = ha (hlo c x)" "hlo (cS c) (hb x) = hb (hlo c x)"
  "hlo (cS c) (hc x) = hc (hlo c x)" "hlo (cS c) (hdd x) = hdd (hlo c x)"
  "hlo (cS c) (he x) = he (hlo c x)" "hlo (cS c) (hf x) = hf (hlo c x)"
  using digit_split(1) [of _ x c] digit_split(1) [of 0 x c]
  by (simp_all only: hlo_def hdig cZ_def cS_def) simp_all

lemma hhi_rules:
  "hhi cZ x = x" "hhi (cS c) hZ = hZ"
  "hhi (cS c) (h0 x) = hhi c x" "hhi (cS c) (h1 x) = hhi c x"
  "hhi (cS c) (h2 x) = hhi c x" "hhi (cS c) (h3 x) = hhi c x"
  "hhi (cS c) (h4 x) = hhi c x" "hhi (cS c) (h5 x) = hhi c x"
  "hhi (cS c) (h6 x) = hhi c x" "hhi (cS c) (h7 x) = hhi c x"
  "hhi (cS c) (h8 x) = hhi c x" "hhi (cS c) (h9 x) = hhi c x"
  "hhi (cS c) (ha x) = hhi c x" "hhi (cS c) (hb x) = hhi c x"
  "hhi (cS c) (hc x) = hhi c x" "hhi (cS c) (hdd x) = hhi c x"
  "hhi (cS c) (he x) = hhi c x" "hhi (cS c) (hf x) = hhi c x"
  using digit_split(2) [of _ x c] digit_split(2) [of 0 x c]
  by (simp_all only: hhi_def hdig cZ_def cS_def) simp_all

lemma hcomp_rules:
  "hcomp cZ x = hZ" "hcomp (cS c) hZ = hf (hcomp c hZ)"
  "hcomp (cS c) (h0 x) = hf (hcomp c x)" "hcomp (cS c) (h1 x) = he (hcomp c x)"
  "hcomp (cS c) (h2 x) = hdd (hcomp c x)" "hcomp (cS c) (h3 x) = hc (hcomp c x)"
  "hcomp (cS c) (h4 x) = hb (hcomp c x)" "hcomp (cS c) (h5 x) = ha (hcomp c x)"
  "hcomp (cS c) (h6 x) = h9 (hcomp c x)" "hcomp (cS c) (h7 x) = h8 (hcomp c x)"
  "hcomp (cS c) (h8 x) = h7 (hcomp c x)" "hcomp (cS c) (h9 x) = h6 (hcomp c x)"
  "hcomp (cS c) (ha x) = h5 (hcomp c x)" "hcomp (cS c) (hb x) = h4 (hcomp c x)"
  "hcomp (cS c) (hc x) = h3 (hcomp c x)" "hcomp (cS c) (hdd x) = h2 (hcomp c x)"
  "hcomp (cS c) (he x) = h1 (hcomp c x)" "hcomp (cS c) (hf x) = h0 (hcomp c x)"
  by (simp_all add: hdig cZ_def cS_def del: One_nat_def add_2_eq_Suc add_2_eq_Suc')

lemmas hsplit_rules = hlo_rules hhi_rules hcomp_rules

end
