(* ===== verification/Primality.thy ===== *)
theory Primality
  imports Main
begin

text \<open>
  Primality proofs that the kernel can check by integer arithmetic: Fermat's little theorem,
  Pocklington's criterion for an element of known order, trial division for small numbers, and
  the rules for modular powers that the certificates use.
\<close>

section \<open>Prime numbers\<close>

definition is_prime :: "int \<Rightarrow> bool" where
  "is_prime n \<longleftrightarrow> 1 < n \<and> (\<forall>d. 1 < d \<longrightarrow> d < n \<longrightarrow> \<not> d dvd n)"

lemma is_prime_gt1: "is_prime n \<Longrightarrow> 1 < n"
  by (simp add: is_prime_def)

lemma is_prime_coprime:
  assumes "is_prime r" and "\<not> r dvd x"
  shows "coprime x r"
proof (rule ccontr)
  let ?g = "gcd x r"
  assume "\<not> coprime x r"
  then have "?g \<noteq> 1" by (simp add: coprime_iff_gcd_eq_1)
  moreover have "0 < ?g" using is_prime_gt1 [OF assms(1)] by (simp add: gcd_pos_int)
  ultimately have g: "1 < ?g" by linarith
  have "?g \<le> r" using is_prime_gt1 [OF assms(1)] by (intro zdvd_imp_le gcd_dvd2) simp
  moreover have "?g \<noteq> r" using assms(2) by (metis gcd_dvd1)
  ultimately have "?g < r" by linarith
  then show False using assms(1) g gcd_dvd2 [of x r] unfolding is_prime_def by blast
qed

lemma is_prime_dvd_mult: "is_prime r \<Longrightarrow> r dvd x * y \<Longrightarrow> r dvd x \<or> r dvd y"
  by (metis is_prime_coprime coprime_commute coprime_dvd_mult_right_iff)

text \<open>A number above 1 that is not prime has a prime factor up to its square root.\<close>

lemma prime_factor_exists: "1 < n \<Longrightarrow> \<exists>r. is_prime r \<and> r dvd n"
proof (induction "nat n" arbitrary: n rule: less_induct)
  case less
  show ?case
  proof (cases "is_prime n")
    case False
    then obtain d where d: "1 < d" "d < n" "d dvd n" using less.prems by (auto simp: is_prime_def)
    then obtain r where "is_prime r" "r dvd d" using less.hyps [of d] by auto
    then show ?thesis using d(3) dvd_trans by blast
  qed auto
qed

lemma composite_prime_factor:
  assumes "1 < n" and "\<not> is_prime n"
  shows "\<exists>r. is_prime r \<and> r dvd n \<and> r * r \<le> n"
proof -
  obtain d where d: "1 < d" "d < n" "d dvd n" using assms by (auto simp: is_prime_def)
  then obtain e where e: "n = d * e" by (elim dvdE)
  have "0 < d * e" using e assms(1) by linarith
  then have "0 < e" using d(1) by (simp add: zero_less_mult_iff)
  moreover have "e \<noteq> 1" using e d(2) by auto
  ultimately have e1: "1 < e" by linarith
  obtain m where m: "1 < m" "m dvd n" "m * m \<le> n"
  proof (cases "d \<le> e")
    case True
    then have "d * d \<le> n" using e d(1) by (simp add: mult_left_mono)
    then show ?thesis using that d by blast
  next
    case False
    then have "e * e \<le> n" using e e1 by (simp add: mult_right_mono)
    then show ?thesis using that e e1 by (metis dvd_triv_right)
  qed
  obtain r where r: "is_prime r" "r dvd m" using prime_factor_exists [OF m(1)] by blast
  have "r \<le> m" using m(1) r(2) by (intro zdvd_imp_le) simp_all
  then have "r * r \<le> m * m" using is_prime_gt1 [OF r(1)] by (intro mult_mono) simp_all
  then show ?thesis using r m dvd_trans by (meson order_trans)
qed

subsection \<open>Fermat's little theorem\<close>

lemma prime_dvd_binomial:
  assumes "is_prime (int r)" and "0 < k" and "k < r"
  shows "r dvd (r choose k)"
proof -
  have "k * (r choose k) = r * ((r - 1) choose (k - 1))"
    using binomial_absorption [of "k - 1" r] assms(2,3) by simp
  then have "int r dvd int k * int (r choose k)"
    by (metis dvd_triv_left int_dvd_int_iff of_nat_mult)
  moreover have "\<not> int r dvd int k" using assms(2,3) by (auto dest: dvd_imp_le)
  ultimately show ?thesis using is_prime_dvd_mult [OF assms(1)] by (metis int_dvd_int_iff)
qed

lemma fermat_nat:
  assumes "is_prime (int r)"
  shows "int r dvd int a ^ r - int a"
proof (induction a)
  case 0
  then show ?case using is_prime_gt1 [OF assms] by (simp add: zero_power)
next
  case (Suc a)
  have r: "1 < r" using is_prime_gt1 [OF assms] by simp
  have "(int a + 1) ^ r = (\<Sum>k\<le>r. of_nat (r choose k) * int a ^ k)"
    using binomial_ring [of "int a" 1 r] by simp
  also have "{..r} = insert 0 (insert r {0<..<r})" using r by auto
  also have "(\<Sum>k\<in>insert 0 (insert r {0<..<r}). of_nat (r choose k) * int a ^ k)
      = 1 + (int a ^ r + (\<Sum>k\<in>{0<..<r}. of_nat (r choose k) * int a ^ k))" using r by simp
  finally have "int (Suc a) ^ r - int (Suc a)
      = (int a ^ r - int a) + (\<Sum>k\<in>{0<..<r}. of_nat (r choose k) * int a ^ k)"
    by (simp add: add.commute)
  moreover have "int r dvd (\<Sum>k\<in>{0<..<r}. of_nat (r choose k) * int a ^ k)"
    by (rule dvd_sum) (use prime_dvd_binomial [OF assms] in \<open>auto intro!: dvd_mult2\<close>)
  ultimately show ?case using Suc by (simp only: dvd_add)
qed

theorem fermat_little:
  assumes "is_prime r" and "\<not> r dvd x"
  shows "r dvd x ^ nat (r - 1) - 1"
proof -
  have r: "1 < r" by (rule is_prime_gt1 [OF assms(1)])
  let ?a = "nat (x mod r)"
  have a: "int ?a = x mod r" using r by simp
  have "r dvd int ?a ^ nat r - int ?a" using fermat_nat [of "nat r" ?a] assms(1) r by simp
  then have "(x mod r) ^ nat r mod r = x mod r mod r" unfolding a by (simp only: mod_eq_dvd_iff)
  then have "r dvd x ^ nat r - x" by (simp add: power_mod mod_eq_dvd_iff)
  moreover have "x ^ nat r - x = x * (x ^ nat (r - 1) - 1)"
    using r by (simp add: right_diff_distrib nat_diff_distrib flip: power_Suc)
  ultimately show ?thesis using is_prime_dvd_mult [OF assms(1)] assms(2) by metis
qed

section \<open>Pocklington's criterion\<close>

lemma power_one_mod:
  fixes x r :: int
  shows "r dvd x ^ a - 1 \<Longrightarrow> x ^ (a * k) mod r = 1 mod r"
  by (metis mod_eq_dvd_iff power_mod power_mult power_one)

lemma order_dvd:
  assumes "is_prime r" and "is_prime q" and "r dvd h ^ nat q - 1" and "\<not> r dvd h - 1"
  shows "q dvd r - 1"
proof (rule ccontr)
  assume "\<not> q dvd r - 1"
  have q: "1 < q" and r: "1 < r" using assms(1,2) by (auto dest: is_prime_gt1)
  have "\<not> r dvd h"
  proof
    assume "r dvd h"
    then have "r dvd h ^ nat q" using q by (meson dvd_power dvd_trans zero_less_nat_eq less_trans zero_less_one)
    then have "r dvd 1" using assms(3) by (metis dvd_diff diff_diff_eq2 add_diff_cancel_left')
    then show False using r by (simp add: zdvd_not_zless)
  qed
  then have f: "r dvd h ^ nat (r - 1) - 1" by (rule fermat_little [OF assms(1)])
  have "coprime (r - 1) q" using is_prime_coprime [OF assms(2) \<open>\<not> q dvd r - 1\<close>] .
  moreover have "int (gcd (nat q) (nat (r - 1))) = gcd q (r - 1)" using q r by (simp flip: gcd_int_int_eq)
  ultimately have "gcd (nat q) (nat (r - 1)) = 1"
    by (simp only: coprime_iff_gcd_eq_1 gcd.commute [of "r - 1"] of_nat_1_eq_iff)
  moreover have "nat q \<noteq> 0" using q by simp
  ultimately obtain u v where uv: "nat q * u = nat (r - 1) * v + 1" by (metis bezout_nat)
  have "1 mod r = h ^ (nat q * u) mod r" using power_one_mod [OF assms(3)] by simp
  also have "\<dots> = h * h ^ (nat (r - 1) * v) mod r" by (simp add: uv)
  also have "\<dots> = h * 1 mod r" using power_one_mod [OF f, of v] by (metis mod_mult_right_eq)
  finally show False using assms(4) by (metis mod_eq_dvd_iff mult_1_right)
qed

text \<open>
  The two forms of the criterion used here: an element of prime order \<open>q\<close>, or of order
  \<open>q * q'\<close> for two primes, whose order survives in every factor of \<open>n\<close>.
\<close>

lemma coprime_prime_factor:
  assumes "is_prime r" and "r dvd n" and "coprime x n"
  shows "\<not> r dvd x"
  using is_prime_gt1 [OF assms(1)] coprime_common_divisor [OF assms(3) _ assms(2)] by auto

theorem pocklington:
  assumes "1 < n" and "is_prime q" and "n dvd g ^ nat q - 1" and "coprime (g - 1) n" and "n < q * q"
  shows "is_prime n"
proof (rule ccontr)
  assume "\<not> is_prime n"
  then obtain r where r: "is_prime r" "r dvd n" "r * r \<le> n"
    using composite_prime_factor [OF assms(1)] by blast
  have "q dvd r - 1"
    using order_dvd [OF r(1) assms(2)] assms(3) r(2) coprime_prime_factor [OF r(1,2) assms(4)]
    by (meson dvd_trans)
  then have "q \<le> r - 1" using is_prime_gt1 [OF r(1)] by (intro zdvd_imp_le) simp_all
  then have "q * q \<le> r * r" using is_prime_gt1 [OF assms(2)] by (intro mult_mono) simp_all
  then show False using assms(5) r(3) by linarith
qed

theorem pocklington2:
  assumes "1 < n" and "is_prime q" and "is_prime q'" and "q' < q" and "n dvd g ^ (nat q * nat q') - 1"
    and "coprime (g ^ nat q - 1) n" and "coprime (g ^ nat q' - 1) n" and "n < q * q' * (q * q')"
  shows "is_prime n"
proof (rule ccontr)
  assume "\<not> is_prime n"
  then obtain r where r: "is_prime r" "r dvd n" "r * r \<le> n"
    using composite_prime_factor [OF assms(1)] by blast
  have q: "1 < q" "1 < q'" using assms(2,3) by (auto dest: is_prime_gt1)
  have "r dvd (g ^ nat q') ^ nat q - 1" "r dvd (g ^ nat q) ^ nat q' - 1"
    using dvd_trans [OF r(2) assms(5)] by (simp_all add: mult.commute flip: power_mult)
  then have "q dvd r - 1" "q' dvd r - 1"
    by (auto intro!: order_dvd [OF r(1)] assms(2,3) coprime_prime_factor [OF r(1,2)] assms(6,7))
  moreover have "coprime q q'"
    using is_prime_coprime [OF assms(2), of q'] q assms(4) zdvd_not_zless [of q' q] by (simp add: coprime_commute)
  ultimately have "q * q' dvd r - 1" by (simp add: divides_mult)
  then have "q * q' \<le> r - 1" using is_prime_gt1 [OF r(1)] by (intro zdvd_imp_le) simp_all
  moreover have "0 < q * q'" using q by simp
  ultimately have "q * q' * (q * q') \<le> r * r" by (intro mult_mono) simp_all
  then show False using assms(8) r(3) by linarith
qed

text \<open>Small primes by trial division up to the square root.\<close>

lemma trial_division:
  assumes "1 < n" and "n < b * b" and "0 < b" and "\<forall>d\<in>set [2..b]. \<not> d dvd n"
  shows "is_prime n"
proof (rule ccontr)
  assume "\<not> is_prime n"
  then obtain r where r: "is_prime r" "r dvd n" "r * r \<le> n"
    using composite_prime_factor [OF assms(1)] by blast
  have "r \<le> b"
  proof (rule ccontr)
    assume "\<not> r \<le> b"
    then have "b * b \<le> r * r" using assms(3) by (intro mult_mono) simp_all
    then show False using r(3) assms(2) by linarith
  qed
  then show False using r is_prime_gt1 [OF r(1)] assms(4) by auto
qed

section \<open>Modular powers\<close>

text \<open>
  \<open>is_pow n g e x\<close>: \<open>x\<close> is congruent to \<open>g ^ e\<close> modulo \<open>n\<close>.
\<close>

definition is_pow :: "int \<Rightarrow> int \<Rightarrow> nat \<Rightarrow> int \<Rightarrow> bool" where
  "is_pow n g e x \<longleftrightarrow> g ^ e mod n = x mod n"

lemma is_pow_mult:
  assumes "is_pow n g e x" and "is_pow n g f m" and "x * m + q * b = q * a + y" and "n = a - b"
  shows "is_pow n g (e + f) y"
proof -
  have "g ^ (e + f) mod n = x * m mod n"
    using assms(1,2) unfolding is_pow_def power_add by (metis mod_mult_eq)
  also have "x * m = y + q * n" using assms(3) by (simp add: assms(4) algebra_simps)
  finally show ?thesis by (simp add: is_pow_def)
qed

lemma is_pow_comp: "is_pow n g e y \<Longrightarrow> is_pow n y f z \<Longrightarrow> is_pow n g (e * f) z"
  unfolding is_pow_def power_mult by (metis power_mod)

lemma is_pow_base: "is_pow n g e y \<Longrightarrow> is_pow n g (e * f) z \<Longrightarrow> is_pow n y f z"
  unfolding is_pow_def power_mult by (metis power_mod)

lemma is_pow_cong: "is_pow n g e x \<Longrightarrow> x mod n = y mod n \<Longrightarrow> is_pow n g e y"
  by (simp add: is_pow_def)

text \<open>An explicit inverse modulo \<open>n\<close>.\<close>

lemma coprime_inverse:
  assumes "is_pow n g e y" and "(y - 1) * v = k * n + 1"
  shows "coprime (g ^ e - 1) n"
proof -
  have "(g ^ e - 1) mod n = (y - 1) mod n"
    using assms(1) unfolding is_pow_def by (metis mod_diff_left_eq)
  moreover have "coprime (y - 1) n"
    using assms(2) by (intro coprimeI) (metis add_diff_cancel_left' dvd_diff dvd_mult dvd_mult2)
  ultimately show ?thesis by (metis gcd_red_int coprime_iff_gcd_eq_1)
qed

lemma is_pow_dvd: "is_pow n g e 1 \<Longrightarrow> n dvd g ^ e - 1"
  by (simp add: is_pow_def mod_eq_dvd_iff)

end
