(* ===== verification/HexPow.thy ===== *)
theory HexPow
  imports HexArith Primality
begin

text \<open>
  Primality by Pocklington's criterion with digit arithmetic: a chain of squarings and
  multiplications with explicit quotients shows that \<open>g ^ q\<close> is 1 modulo \<open>n\<close>.
\<close>

datatype hstep = Sq nat nat | Mu nat nat

text \<open>A step holds the quotient and the new residue.\<close>

fun hchain :: "nat \<Rightarrow> nat \<Rightarrow> nat \<Rightarrow> hstep list \<Rightarrow> bool" where
  "hchain n g x [] \<longleftrightarrow> True"
| "hchain n g x (Sq q r # ss) \<longleftrightarrow> heq (hmul x x) (hadd r (hmul q n)) \<and> hchain n g r ss"
| "hchain n g x (Mu q r # ss) \<longleftrightarrow> heq (hmul x g) (hadd r (hmul q n)) \<and> hchain n g r ss"

fun hchain_end :: "nat \<Rightarrow> hstep list \<Rightarrow> nat" where
  "hchain_end x [] = x"
| "hchain_end x (Sq q r # ss) = hchain_end r ss"
| "hchain_end x (Mu q r # ss) = hchain_end r ss"

fun hchain_exp :: "nat \<Rightarrow> hstep list \<Rightarrow> nat" where
  "hchain_exp e [] = e"
| "hchain_exp e (Sq q r # ss) = hchain_exp (hadd e e) ss"
| "hchain_exp e (Mu q r # ss) = hchain_exp (hadd e (h1 hZ)) ss"

lemma hstep_mod: "heq (hmul x y) (hadd r (hmul q n)) \<Longrightarrow> r mod n = x * y mod n"
  by (simp add: heq_def hmul_def hadd_def)

lemma hchain_sound:
  "hchain n g x ss \<Longrightarrow> x mod n = g ^ e mod n \<Longrightarrow> hchain_end x ss mod n = g ^ hchain_exp e ss mod n"
proof (induction ss arbitrary: x e)
  case (Cons s ss)
  show ?case
  proof (cases s)
    case (Sq q r)
    then have "r mod n = x * x mod n" using Cons.prems(1) hstep_mod by auto
    also have "\<dots> = (x mod n) * (x mod n) mod n" by (simp only: mod_mult_eq)
    also have "\<dots> = g ^ hadd e e mod n" using Cons.prems(2) by (simp add: hadd_def power_add mod_mult_eq)
    finally show ?thesis using Cons Sq by simp
  next
    case (Mu q r)
    then have "r mod n = x * g mod n" using Cons.prems(1) hstep_mod by auto
    also have "\<dots> = (x mod n) * g mod n" by (simp only: mod_mult_left_eq)
    also have "\<dots> = g ^ hadd e (h1 hZ) mod n" using Cons.prems(2)
      by (simp add: hadd_def h1_def hZ_def mod_mult_right_eq mult.commute)
    finally show ?thesis using Cons Mu by simp
  qed
qed simp

text \<open>\<open>hpow n g e x\<close>: the residue of \<open>g ^ e\<close> is that of \<open>x\<close>; a chain leads from one power to another.\<close>

definition hpow :: "nat \<Rightarrow> nat \<Rightarrow> nat \<Rightarrow> nat \<Rightarrow> bool" where
  "hpow n g e x \<longleftrightarrow> x mod n = g ^ e mod n"

lemma hpow_1: "hpow n g (h1 hZ) g"
  by (simp add: hpow_def h1_def hZ_def)

definition ck_chain :: "nat \<Rightarrow> nat \<Rightarrow> nat \<Rightarrow> nat \<Rightarrow> hstep list \<Rightarrow> nat \<Rightarrow> nat \<Rightarrow> bool" where
  "ck_chain n g e x ss e' x' \<longleftrightarrow> hchain n g x ss \<and> heq (hchain_exp e ss) e' \<and> heq (hchain_end x ss) x'"

lemma hpow_chain: "hpow n g e x \<Longrightarrow> ck_chain n g e x ss e' x' \<Longrightarrow> hpow n g e' x'"
  using hchain_sound [of n g x ss e] by (simp add: hpow_def ck_chain_def heq_def)

lemma hpow_is_pow: "hpow n g e x \<Longrightarrow> is_pow (int n) (int g) e (int x)"
  unfolding hpow_def is_pow_def by (metis of_nat_mod of_nat_power)

text \<open>A number \<open>y\<close> such that \<open>y - 1\<close> has the inverse \<open>v\<close>.\<close>

definition ck_inv :: "nat \<Rightarrow> nat \<Rightarrow> nat \<Rightarrow> nat \<Rightarrow> bool" where
  "ck_inv n y v k \<longleftrightarrow> heq (hmul y v) (hadd (h1 hZ) (hadd v (hmul k n)))"

lemma ck_inv_coprime:
  assumes "hpow n g e y" and "ck_inv n y v k"
  shows "coprime (int g ^ e - 1) (int n)"
proof -
  have "y * v = 1 + (v + k * n)" using assms by (simp add: ck_inv_def heq_def hmul_def hadd_def h1_def hZ_def)
  then have "int (y * v) = int (1 + (v + k * n))" by (simp only:)
  then have "(int y - 1) * int v = int k * int n + 1" by (simp add: algebra_simps)
  then show ?thesis by (rule coprime_inverse [OF hpow_is_pow [OF assms(1)]])
qed

lemma hpow_dvd: "hpow n g e (h1 hZ) \<Longrightarrow> int n dvd int g ^ e - 1"
  by (rule is_pow_dvd) (drule hpow_is_pow, simp add: h1_def hZ_def)

lemma hex_pocklington:
  assumes "is_prime (int q)" and "hpow n g q (h1 hZ)" and "ck_inv n g v k" and "1 < n" and "n < q * q"
  shows "is_prime (int n)"
proof (rule pocklington [of "int n" "int q" "int g"])
  show "int n < int q * int q" using assms(5) by (simp flip: of_nat_mult)
  show "coprime (int g - 1) (int n)" using ck_inv_coprime [OF hpow_1 assms(3)] by (simp add: h1_def hZ_def)
qed (use assms hpow_dvd [OF assms(2)] in simp_all)

lemma hex_pocklington2:
  assumes "is_prime (int q)" and "is_prime (int r)" and "hpow n g q y" and "hpow n y r (h1 hZ)" and "hpow n g r z"
    and "ck_inv n y v k" and "ck_inv n z w m" and "r < q" and "1 < n" and "n < q * r * (q * r)"
  shows "is_prime (int n)"
proof (rule pocklington2 [of "int n" "int q" "int r" "int g"])
  show "int n < int q * int r * (int q * int r)" using assms(10) by (simp flip: of_nat_mult)
  have "is_pow (int n) (int g) (q * r) (int (h1 hZ))" by (rule is_pow_comp [OF hpow_is_pow [OF assms(3)] hpow_is_pow [OF assms(4)]])
  then show "int n dvd int g ^ (nat (int q) * nat (int r)) - 1" by (intro is_pow_dvd) (simp add: h1_def hZ_def)
  show "coprime (int g ^ nat (int q) - 1) (int n)" "coprime (int g ^ nat (int r) - 1) (int n)"
    using ck_inv_coprime [OF assms(3,6)] ck_inv_coprime [OF assms(5,7)] by simp_all
qed (use assms in simp_all)

lemmas hex_pow = hex_arith ck_chain_def ck_inv_def hchain.simps hchain_end.simps hchain_exp.simps simp_thms

end
