(* ===== verification/PrimeCert.thy ===== *)
theory PrimeCert
  imports HexPow Field25519
begin

text \<open>
  The certificate that \<open>2 ^ 255 - 19\<close> is prime.  Its predecessor has the prime factor
  \<open>74058...40907\<close> of 236 bits, whose own certificate descends through primes of 116, 51 and 24
  bits to trial division.  The chain for the last step is that of the powers of 2, which also
  shows that 2 is not a square modulo \<open>2 ^ 255 - 19\<close>.
\<close>

section \<open>The factors\<close>

lemma prime_7: "is_prime 7"
  by (rule trial_division [where b = 3]) (simp_all add: upto.simps)

lemma prime_353: "is_prime 353"
  by (rule trial_division [where b = 19]) (simp_all add: upto.simps)

lemma prime_991: "is_prime 991"
  by (rule trial_division [where b = 32]) (simp_all add: upto.simps)

lemma prime_9463: "is_prime 9463"
  by (rule trial_division [where b = 98]) (simp_all add: upto.simps)

lemma pow_37853_0: "hpow 37853 36607
    9463 (h1 hZ)"
  by (rule hpow_chain [OF hpow_1, where ss = "[
      Sq 35402 543,
      Sq 7 29878,
      Sq 23583 7585,
      Mu 7335 12340,
      Sq 4022 30834,
      Sq 25116 19608,
      Sq 10157 743,
      Mu 718 20547,
      Sq 11153 4700,
      Mu 4545 11015,
      Sq 3205 11360,
      Mu 10986 2462,
      Sq 160 4964,
      Mu 4800 22748,
      Sq 13670 20994,
      Sq 11643 25557,
      Mu 24715 28204,
      Sq 21014 22674,
      Mu 21927 24387,
      Sq 15711 17286,
      Mu 16717 (h1 hZ)]"])
    (simp only: hex_pow)

lemma prime_37853: "is_prime 37853"
proof -
  have inv: "ck_inv 37853 36607
      35546
      34375" by (simp only: hex_pow)
  have "is_prime (int 37853)"
    by (rule hex_pocklington [OF _ pow_37853_0 inv]) (simp_all add: prime_9463)
  then show ?thesis by simp
qed

lemma pow_75707_0: "hpow 75707 46695
    37853 (h1 hZ)"
  by (rule hpow_chain [OF hpow_1, where ss = "[
      Sq 28800 61425,
      Sq 49837 20866,
      Sq 5750 74706,
      Mu 46077 45231,
      Sq 27023 13100,
      Sq 2266 57938,
      Sq 44339 39171,
      Mu 24160 8725,
      Sq 1005 40090,
      Mu 24726 71268,
      Sq 67089 20901,
      Mu 12891 33258,
      Sq 14610 15294,
      Mu 9433 9199,
      Sq 1117 56882,
      Sq 42737 71865,
      Mu 44325 23400,
      Sq 7232 46976,
      Mu 28974 9702,
      Sq 1243 25003,
      Mu 15421 37438,
      Sq 18513 40153,
      Sq 21296 7137,
      Mu 4402 (h1 hZ)]"])
    (simp only: hex_pow)

lemma prime_75707: "is_prime 75707"
proof -
  have inv: "ck_inv 75707 46695
      3935
      2427" by (simp only: hex_pow)
  have "is_prime (int 75707)"
    by (rule hex_pocklington [OF _ pow_75707_0 inv]) (simp_all add: prime_37853)
  then show ?thesis by simp
qed

lemma pow_24bit_0: "hpow 8574133 5018893
    991 3055438"
  by (rule hpow_chain [OF hpow_1, where ss = "[
      Sq 2937823 1812990,
      Mu 1061238 7063416,
      Sq 5818879 3132149,
      Mu 1833412 2359261,
      Sq 649174 8249979,
      Mu 4829148 4624563,
      Sq 2494314 2961207,
      Sq 1022697 6800148,
      Mu 3980485 7401659,
      Sq 6389515 4536786,
      Mu 2655620 4420438,
      Sq 2278979 3061637,
      Mu 1792137 7515620,
      Sq 6587784 7793128,
      Mu 4561729 4411347,
      Sq 2269615 1485614,
      Mu 869608 3055438]"])
    (simp only: hex_pow)

lemma pow_24bit_y_0: "hpow 8574133 3055438
    7 (h1 hZ)"
  by (rule hpow_chain [OF hpow_1, where ss = "[
      Sq 1088821 5304651,
      Mu 1890340 5666918,
      Sq 3745446 7470406,
      Mu 2662119 (h1 hZ)]"])
    (simp only: hex_pow)

lemma pow_24bit_z_0: "hpow 8574133 5018893
    7 2359261"
  by (rule hpow_chain [OF hpow_1, where ss = "[
      Sq 2937823 1812990,
      Mu 1061238 7063416,
      Sq 5818879 3132149,
      Mu 1833412 2359261]"])
    (simp only: hex_pow)

lemma prime_24bit: "is_prime 8574133"
proof -
  have inv: "ck_inv 8574133 3055438
      8366461
      2981432"
    "ck_inv 8574133 2359261
      8325198
      2290763" by (simp_all only: hex_pow)
  have "is_prime (int 8574133)"
    by (rule hex_pocklington2 [OF _ _ pow_24bit_0 pow_24bit_y_0 pow_24bit_z_0 inv]) (simp_all add: prime_991 prime_7)
  then show ?thesis by simp
qed

lemma pow_51bit_0: "hpow 1919519569386763 143894015085968
    8574133 507797632569457"
  by (rule hpow_chain [OF hpow_1, where ss = "[
      Sq 10786807234362 220214068946818,
      Sq 25263736267928 10254487688060,
      Sq 54781685699 1348651029561263,
      Sq 947559810561209 63483264278702,
      Sq 2099548714039 848075851939047,
      Sq 374694096435764 406904301876277,
      Mu 30502993919168 1870170103607952,
      Sq 1822089377055088 157532688634160,
      Sq 12928520440265 1766849495693405,
      Mu 132449323279972 1754525045830404,
      Sq 1603712817280439 454865305374259,
      Mu 34098321349501 1438787133242449,
      Sq 1078451320736141 1489071114416018,
      Sq 1155149871431913 1485251057008705,
      Mu 111339702606907 136807061179399,
      Sq 9750446042351 1361875465201388,
      Sq 966233849499136 1074405178789776,
      Mu 80541234104015 830705533309723,
      Sq 359502291134156 1477765962759701,
      Sq 1137676466298684 1902689595689509,
      Sq 1886007183923463 2169895340812,
      Mu 162663073555 352646726573551,
      Sq 64786895505717 1734074562125530,
      Sq 1566545418430671 543582177172927,
      Mu 40748853645484 812580222860044,
      Sq 343985353998877 1160646531016785,
      Mu 87006192646924 385277767705868,
      Sq 77331307612476 1544102793578236,
      Sq 1242109471120328 559483109453432,
      Mu 41940844092439 557840457657219,
      Sq 162116594778260 1557733938641581,
      Sq 1264136642467796 685212885995213,
      Mu 51365995391229 507797632569457]"])
    (simp only: hex_pow)

lemma pow_51bit_y_0: "hpow 1919519569386763 507797632569457
    7 (h1 hZ)"
  by (rule hpow_chain [OF hpow_1, where ss = "[
      Sq 134334882413063 1124719358789780,
      Mu 297537903133203 1757520297757571,
      Sq 1609193074294458 1687169138360587,
      Mu 446330690172366 (h1 hZ)]"])
    (simp only: hex_pow)

lemma pow_51bit_z_0: "hpow 1919519569386763 143894015085968
    7 1078667085393614"
  by (rule hpow_chain [OF hpow_1, where ss = "[
      Sq 10786807234362 220214068946818,
      Mu 16508029959444 97022649610052,
      Sq 4904036763929 1074710130970877,
      Mu 80564094404294 1078667085393614]"])
    (simp only: hex_pow)

lemma prime_51bit: "is_prime 1919519569386763"
proof -
  have inv: "ck_inv 1919519569386763 507797632569457
      577472567336263
      152766977343629"
    "ck_inv 1919519569386763 1078667085393614
      400201696632812
      224891897202385" by (simp_all only: hex_pow)
  have "is_prime (int 1919519569386763)"
    by (rule hex_pocklington2 [OF _ _ pow_51bit_0 pow_51bit_y_0 pow_51bit_z_0 inv]) (simp_all add: prime_24bit prime_7)
  then show ?thesis by simp
qed

lemma pow_116bit_0: "hpow 75445702479781427272750846543864801 2463467311149389285752673802173079
    1874530829479 40698671537978519028480137454840139"
  by (rule hpow_chain [OF hpow_1, where ss = "[
      Sq 80437599407705633316663024259238 56836113397821997115773826025058603,
      Mu 1855823497512485051488489653904566 74578576995826775519853208063367271,
      Sq 73721417707165024529048826850113162 2906666760567359161770843355376679,
      Sq 111984001464514195639202890717038 36424606788716407205960783357889603,
      Mu 1189343132824826164510969584849119 39494178832934754710423388060637318,
      Sq 20674340756596935203765801163670188 40574555795591339646799549107980536,
      Mu 1324848050737320707047709864196580 60917154184947170269629488028609764,
      Sq 49186362536515643004282749631487992 5386428650675574206156910493166104,
      Sq 384562839965523533523807980390073 33735495807386835001201269180018343,
      Mu 1101537773727884150463270731700446 65911715445346239038741255025386851,
      Sq 57582527435708223205923944564866716 1285221799787201138972498114832685,
      Sq 21893825895396950419722922846710 48084791053603311831454981256654515,
      Sq 30646505429362496748964551335206053 1987255131397776643603007761044772,
      Sq 52344703905767591148712308945927 4317993223831813282032583880916457,
      Mu 140991929388223215020457689663553 25062728490290785499086458644163150,
      Sq 8325727493177862091654922997122262 40487289797676299247757689222622638,
      Mu 1321998624909572014447064004812478 35242897237427783252579702589775524,
      Sq 16462989472737072420425892896484693 19128336346030022528268625551483483,
      Mu 624582047171525391684507349173611 48140955819436840834965388114787746,
      Sq 30718139682376829517189963307086390 58147776022030667625455341244602126,
      Sq 44815857566100035034473186478933747 58281452611519079936738977039380529,
      Sq 45022149795994381426529027531491743 75281246904324432675505636024481698,
      Mu 2458097476672957200486216323876452 5783071633324555147984146948242090,
      Sq 443284592984281905394539262255936 29527779875572312344097973803859364,
      Sq 11556520195618956368083569455828587 22740890613594512116429726331618309,
      Mu 742539850669786714327571323361646 10043822161799578334005686730480965,
      Sq 1337098871137035086555523370798752 34244748695548955385881915759802873,
      Sq 15543666168865915542070603676076663 55567767120861274098437795035815066,
      Mu 1814409215587704662577964281143340 2034313084266210454007334106232874,
      Sq 54853087568847980648933414955818 72633769960309605392372031137937658,
      Mu 2371651560017200408322981293717984 30132527320933335225814040909627798,
      Sq 12034737207067812646537726298264809 30729907490442574913813899902240795,
      Mu 1003398736961026209435435945486852 57188669745087716120756086913461353,
      Sq 43349638743030842945274704776073174 73413747005223350265722369085642235,
      Mu 2397119517640192059532677356700998 50097478309800323844404499048620167,
      Sq 33265742785992346644219402884531710 5732074503276620949765262201768179,
      Mu 187164778108852963419399499180208 57347171364284312156610054905594533,
      Sq 43590263664997002745633648390922524 57850517727563023308082669477810365,
      Sq 44358820865163998864170610998109027 27644185804501490383409295555774598,
      Mu 902643170311517212906281744581161 71640547425027594966118407552033281,
      Sq 68027307940210948935241523238911227 39445145138779586199732105402604134,
      Sq 20623036486887443107889199049442527 38307344176559160654431937606097829,
      Sq 19450446740218520866034885339627545 48504414713175266057336702142969696,
      Sq 31183727758359512856527572510518261 72103361019228941368960627548701355,
      Sq 68909089575546162379089298223000691 43668676026508751386055836545258534,
      Mu 1425877848261887756848656249633601 60267010259250155952891312339027785,
      Sq 48142073122878371455485181354752647 4542543948806947715206858237127978,
      Sq 273504054553305792904047525754786 18593526740766254545037800887680898,
      Sq 4582358243032312141904429489607218 73909755518506933061275987488352786,
      Mu 2413315281194164786748310930236389 10746785141323570877900176397404505,
      Sq 1530814706175265208183431302608018 39154795687737835570542792103720607,
      Sq 20320548088996134450400070831692125 39039767160038638823635560260056324,
      Mu 1274733842652096904744147088543896 25571858602174613006891802758696900,
      Sq 8667424795267228259021353957397145 14252625532178522819723555326216855,
      Sq 2692497092394965360702944170423628 29463159584598356602705641958172997,
      Sq 11505993637479149648879060794863184 1372635129594522447128814791575625,
      Mu 44819541216381395195466087967393 53487983541700421415175474679165582,
      Sq 37920839614740420908186387346572818 10761230833490759188680852079819506,
      Mu 351377739416525921394295801972914 63107279464158439166791526612278860,
      Sq 52786687517883009141049885224344702 58925084633882659144037158694265298,
      Mu 1924032980423004356832263918678003 40698671537978519028480137454840139]"])
    (simp only: hex_pow)

lemma pow_116bit_1: "hpow 75445702479781427272750846543864801 2463467311149389285752673802173079
    1919519569386763 37333980410530812162141983519651672"
  by (rule hpow_chain [OF pow_116bit_0, where ss = "[
      Sq 21954621807652382972414663444343139 24182828984597562650332388177588982,
      Sq 7751392040587256334803411941751529 61693667139775083258270625616765595,
      Mu 2014433258733274088267856892449506 74356998792370947154651961379178699,
      Sq 73284005419531384002206851445685421 8715288223245284433373533974566380,
      Sq 1006767069795570397347053752548533 12023648388562156088145679883417467,
      Sq 1916187613343727715304056428845643 27212779615313636482945722710784046,
      Sq 9815474573784825924669242414900882 67477307058042233979869384424475634,
      Sq 60350514583988631480542477623762782 26607049020607403742650205556065574,
      Mu 868778384374924091695205293856088 28491519794276892960623694798723858,
      Sq 10759614842279665434605185641761170 10578366382225304703668389326826994,
      Sq 1483210198043856435546907620035129 26304974334534522582796292960481707,
      Mu 858914984735088008447916039081862 55277993374506855797533230128026391,
      Sq 40501399696436047394870061347675733 18077072328965090650205044451910748,
      Mu 590255976152157819488541785485420 37333980410530812162141983519651672]"])
    (simp only: hex_pow)

lemma pow_116bit_y_0: "hpow 75445702479781427272750846543864801 37333980410530812162141983519651672
    75707 (h1 hZ)"
  by (rule hpow_chain [OF hpow_1, where ss = "[
      Sq 18474559152887835429226841478967750 53074677634009521660695171173227834,
      Sq 37337069088977371546082276162095494 49164473628215639267374076885024862,
      Sq 32038212750252779461813103649748804 28777758723838969517672839370671040,
      Mu 14240549761501788167803470537982738 20645039752496696960083260954173742,
      Sq 5649329946876566851062592075128035 54211208064846573179914074117486529,
      Sq 38953246947865124512162528738329735 73231629448824581538687084098310106,
      Sq 71082531880025095193984869544948452 17807290347103029885941942539493184,
      Mu 8811860810250155639532633062738708 51002468896747275506700055156786540,
      Sq 34478462630270803755917776916772989 59237439580460840252199589900511411,
      Mu 29313391434848161414349855739476012 43205399823551418757348100270575580,
      Sq 24742384424257864999255210891394364 4218580713076227591713972102954836,
      Mu 2087546467533232867313577048683142 1730179278287006064923268332001050,
      Sq 39677811149229790614545014976582 41990226819963299798123344412012318,
      Mu 20778682602237955966266013964296696 19718211218514962620120392258298200,
      Sq 5153479136365193493519968098839026 56794060032821235941589328916716174,
      Sq 42753465724255354953406471471804591 60229574174281998106091520678096885,
      Mu 29804344958678831968406539303506121 65712148196295972651090173968294799,
      Sq 57234358997839023392116786161337335 38705596284392805842384578176805066,
      Mu 19153297351120662423091551657845328 47538673266689868225954584763470624,
      Sq 29954329824985429000405322662108477 39543713054452887092678266626931299,
      Mu 19568035819273250045659542437887117 2692485213727189659389053006813211,
      Sq 96088662281093158169297091883645 29108938249781455303903938541050876,
      Sq 11230994717779512197845508458260770 33043160392004097249728195938210606,
      Mu 16351265376682095934805158351677984 24852997435864923617023149311792048,
      Sq 8186967066979557346632997006047274 49216274212217129641231284725431830,
      Mu 24354460982196295915208775380296559 (h1 hZ)]"])
    (simp only: hex_pow)

lemma pow_116bit_z_0: "hpow 75445702479781427272750846543864801 2463467311149389285752673802173079
    75707 20309505632765702016779840530964881"
  by (rule hpow_chain [OF hpow_1, where ss = "[
      Sq 80437599407705633316663024259238 56836113397821997115773826025058603,
      Sq 42816803078157775377092821252446629 60570796895304450869089498940105780,
      Sq 48628633784878931617658211639886805 66389799639078925930465806725557595,
      Mu 2167772263084934732834307346003573 31977076531087532286481049598051032,
      Sq 13553236166752587906985878684116746 67056511578776390708835760952207478,
      Sq 59600157428709770085640912872122748 22413086513315850228825456370527336,
      Sq 6658383851459317703661158179392114 7161798316598159754727880341677582,
      Mu 233848389796786263472139364901308 29634319918503809833260879718155270,
      Sq 11640065479774373639510992707864344 30882458947059874127501535244217356,
      Mu 1008379875903242995383420521124717 13707113480764112020392048900372807,
      Sq 2490333495468429625182543544087299 1757522448200233073764835987796750,
      Mu 57386954557322894532584196005364 31454252436176010556159529086900686,
      Sq 13113669351595263792951536708091515 28878317602928836722563440332007081,
      Mu 942940274628234588785955940503842 54511628092352450223709193546506957,
      Sq 39386174422264555936772622318949286 74654440610468577530041788089917763,
      Sq 73871477362883005780301130354134580 55419768466546319482064549224005589,
      Mu 1809576735605207381740482499249279 13628795455586611791218795268610052,
      Sq 2461956870505586919162642836766816 53063247237509197607027444168199088,
      Mu 1732631159847353414015229576727739 5155907765496690749433540303537013,
      Sq 352351214350918360946422625043892 59259601688275657796602732322116677,
      Mu 1934955694393889260163762119355510 35060237408055119957556692891934973,
      Sq 16292780194320602387494129374066859 63439989438780444432018787229780670,
      Sq 53344751625463744197352073720186041 11056403035822054450786739434206059,
      Mu 361015757854991470995507752631526 40487309544693014197803601154169335,
      Sq 21727178358596138519982535416641386 39257006446618621619359178369088039,
      Mu 1281827180822427004059517893177200 20309505632765702016779840530964881]"])
    (simp only: hex_pow)

lemma prime_116bit: "is_prime 75445702479781427272750846543864801"
proof -
  have inv: "ck_inv 75445702479781427272750846543864801 37333980410530812162141983519651672
      51700295848705418296545893631345722
      25583668373311002253608070594968661"
    "ck_inv 75445702479781427272750846543864801 20309505632765702016779840530964881
      48637801394460792346810416410923963
      13092988320320332559188841766132239" by (simp_all only: hex_pow)
  have "is_prime (int 75445702479781427272750846543864801)"
    by (rule hex_pocklington2 [OF _ _ pow_116bit_1 pow_116bit_y_0 pow_116bit_z_0 inv]) (simp_all add: prime_51bit prime_75707)
  then show ?thesis by simp
qed

lemma pow_236bit_0: "hpow 74058212732561358302231226437062788676166966415465897661863160754340907 7460364222190295809178707900795654157719070480504763575970694656353678
    1997031116535 40665268304641303554006183190909802915230234274774648092795295717088864"
  by (rule hpow_chain [OF hpow_1, where ss = "[
      Sq 751530887313273641558212932362528553904569786118992067360877361340016 51684847155752644996563845286049505525442563579857105135745660219293172,
      Mu 5206549960131816214566763890093912602889255953410906020718690815144295 49106313913724703832069853290991121426068896961709377857752011176311051,
      Sq 32561278178578471064848708324842245606620662900681491049410463004481731 19571339672171698446294831751224510354855865260295142024612054677254584,
      Mu 1971548014504095785976452314181484455880081289521480290836277866527403 67699768795493205833703538299435640618896316709768911561200659031385431,
      Sq 61887244180659289145135840896062076506027654090328954762600219766710359 13569041292175421563036275995087181189441197084934388651689042664700148,
      Sq 2486137253320584500614434091137093800227837624737489093297952250970085 56254552348939016184225393984404835907483826734423814330774653202454809,
      Mu 5666886010264654897913468165068114430313284549090697443947377146833313 66434339189917489033734925948917452445027733583904050389310745009702611,
      Sq 59595300247645630915528034678483085167675553157319380218338690667649775 64749423179214144259945814612075008894606426526602955627588163828371396,
      Sq 56610707271330521556776602857411769905008991028526533739978998722345380 19226971300650483731937807134578809171676431311121899205603610594529156,
      Sq 4991700606265114498402283465813064875011972816504382125340910185657003 30232665679302043084486687721591140002339944380295198245807715300150615,
      Sq 12341832733354376894002649108698190337012813251146292070910091220878765 66453381329563348081479372664120244091611346992799929841272016757738370,
      Sq 59629468862279768128996505704372232249682294095006642820187897602347517 63148799758328385859856871469127340043513762779804412227523606067278981,
      Mu 6361388278334144098431777482670247227466579171122363765320410875338746 19304401384327944987399405431594162288911885263492115668951435041559496,
      Sq 5031986312618564848193656654614025290360144911314370845046663458740440 14550500766267419791492715473142872161272659958489860166900291120594936,
      Mu 1465766338753225129756416970083659595152207761993506374600536650957592 32552755079232281352759447733078894270567437171996887469997999423958664,
      Sq 14308769063536556775032092642262434631532184086858817255807447100050390 45280509948461623401102631834893031111361306006466326709728689842361166,
      Mu 4561399525018640993324049919024944439550317816635619950471120396972531 64406785020706255979457715794498782196649547635627552501407776419842931,
      Sq 56013152405980321873848485712462306273116418021359249120315432653941457 5706660936276716245760858473343211918385631341006517001035262912389262,
      Mu 574868978149823411249078581227435748711428712971372831959665345333104 46293041537134905309840504729862411999348672892520675042467829992920308,
      Sq 28937313171435197950895976404998134829498691979595226854862860290891346 3840802377368970970032820496986492033703452626280146814774780258724042,
      Mu 386908940728846693658834407148080602317690422304800293375508363377501 63412999544225195065212343654337684264859009424850638634501034865993069,
      Sq 54297941616782902256208420935292583690755697304599675820429153482829837 22534506803027017434466590759763886115050483844344148758025699386796602,
      Sq 6856822195931869762692034094366474091761862288499354108511547975087507 54039966983628765202075828817069357560062130425151747174317563883997555,
      Sq 39432737083968319191979319503974689845717657400911760188915795002426336 13810345828424124790693461066567271093417449057654012191630497747051273,
      Sq 2575347755007525379395804286034612122102653756294401339935219060077948 14627951306215340074102169694945715987655952279173650040412399705901693,
      Sq 2889307634113715152522059578103917066395209045684552929761225583491310 48609212073915315249694325108786249370412299998025400773658175168248079,
      Mu 4896721285114871134623374495519527674152000385922232105971350770374923 16532717880472877899262089338482457690371802831611617834568273322209401,
      Sq 3690755561471058752104967413606670278748581266004092502029385316334173 38957682748710650157481881404522026080861716073219387559745162116863890,
      Sq 20493352312320872561499948631226658500665773257197609072708775213318551 49739504070371110954095764658424191250852406723194594400902534544666343,
      Mu 5010582930702212848432793255986167224275787753187591471623145521756744 37100142531090445230902766102068438351048803072313937953839841008532746,
      Sq 18585657485385842902097171214925865367984359952868613073811816324024647 11077885687909624786746020534458470678595691757091871921452901645965687,
      Sq 1657068767748380874752111646196016448934557456603682717442931695364086 33872685978510927789424535957523016978661719313281368756195890452915967,
      Mu 3412215408115884063126059132166550988730506575221389714457237852866943 38609794669572382630674946929268101348682175370051118055761316432439325,
      Sq 20128979480099079654625326681929745295106831537780243126719941513635598 20461238559603567620065235246521817606594648030787445294154659943648239,
      Sq 5653151324416631415567319871682358014039952186608367267403987173376077 39067891983306466420853952909563228396431329167083181397058804791519282,
      Sq 20609465550175631961274861536546255716294581778292781418855427989958000 29680975098727324565770498623936211596186623119297698935122125165889524,
      Mu 2989957177415238217539859676739420297648979320039735684722469000081871 8810450507687494685426502945518495825325702137055828789844103574672275,
      Sq 1048148953158326479989805140410283841317627267483518187060343324192312 63900700814729454094212607300805564444041153543618237348008329977168641,
      Sq 55136350364802296377245700337667855338151052710274774658976753698251218 6438859626868152115629221317934501491472921555257804070097022853812155,
      Sq 559815201647235212388337736955232037208442126910890159382340682107608 35035928220869041626940241368035125859012776189276581233954684335423569,
      Sq 16575018772471437234771999818352879298650422721985031585208880389035319 65499472169721214067541584407731205891666164802987661093535907251203428,
      Mu 6598186760352254746654689858153645337744159171556560641251873698261584 29420617410331257182724784161490108895989180421707042995891744296191496,
      Sq 11687734511374701034452663147132888923164367682707384540657623845109633 10494676356895105574766008244039875059611180840841667514942342231060885,
      Mu 1057196833782391249438406324406073274233368420607675178632899968740936 72171308686152315446349947539574715153091621324844729666217658401416078,
      Sq 70332480427005546156259949782965783094110139466090377744397641883559024 65989943427411205643624707146599538221569392210284859880284573124707316,
      Mu 6647595112078170582899043688285238146557697757857086664804994875431153 22505454131479196347042671061663578221196376963184433500972335560032477,
      Sq 6839153241426010120272783646451393819220241409022332309296882611406073 1513181065808689091994105578923239452652981847157691190352699642627318,
      Sq 30917799031831006318860274660823402885341882732422716659910566910474 45024961723921267643876267776174792643080534999411189571512462694913206,
      Mu 4535656494488187829935068882047118480987905704611553619745597553476628 35111914445633548665209993489518710463196655478670243280258018080050072,
      Sq 16646992825624067120307076780688637536216404469582708521113281132663970 69166065667363746301244505904612531362697530009574999503657679571184394,
      Mu 6967546510443834677980898806850979620027656024367865009507288523813541 25213461810512125387944972195989525837724576159747678108428018201279445,
      Sq 8584039946600620346055119571462952483528138238736599880166267464171652 44035367316704684088292122431683228507065291909720012726625281006139661,
      Mu 4435968229842392118908220053481202929104493915042914147417203469945047 9795653556348123274997640249613199849173036614655155716567627084885529,
      Sq 1295667624906196762081237568150163186851490523657631515939475099351972 68237849704095826320339416744818458165554800916664700427844317362891237,
      Mu 6874041294650458730101044711030456623659889045142516152313149601371898 58953169770990080296278480609909311103976836727029035770138156137288200,
      Sq 46928977864991161655004390554537792047052769032398441722506178593455242 59222807471115061464810829923522367348124526819703429533990718345055506,
      Sq 47359243429576861062481691469574405994770067190175860132697155887688869 63544053736225531576439904070460236300494706248885781054844266645651853,
      Mu 6401204775743158408022277129940145389673043911981214383736254205974709 71420214642160381245662959955398503939250862250825006159544331617944271,
      Sq 68876183630739417242955502283802953023007837605448067361311175299023906 41409525033051918706662550908332649315276234881709665980805874594998699,
      Mu 4171450101423334504387578870092904759271479455750221122607088372715378 64002944199526487803154402443810934082920909350408406675183510200497076,
      Sq 55312931747360912224689543486681843903283920170127823452830219912442531 30423989711359277542986781904713363382755501517353187385213278064634159,
      Mu 3064805859662829497190596769253491191137673350210375787196114141805334 40665268304641303554006183190909802915230234274774648092795295717088864]"])
    (simp only: hex_pow)

lemma pow_236bit_1: "hpow 74058212732561358302231226437062788676166966415465897661863160754340907 7460364222190295809178707900795654157719070480504763575970694656353678
    2195758933660732211799792 1611511736082841372864055198243730419527302717138173734587253693655300"
  by (rule hpow_chain [OF pow_236bit_0, where ss = "[
      Sq 22329245944135430381331826565584152737465743421700456270040325166454512 29631305760250275119370951867771882425088520542931285745190056316488112,
      Sq 11855731439646293481656145560825073782986066430756061665143202731770960 22833790608324512813877477680017194631822460143984830093990685354663824,
      Sq 7040164409957079737737972043671292251112541225957585164364239756111788 62757465880542976881046976712507436814847624658931378635824403100991260,
      Sq 53181131145713782725661547176039200670595587699795544559530235779481137 18223018870061096441331653950657870020515168269812093158604221722416341,
      Sq 4484018780439688601379469898823177377256022871321938624135130163286658 64470776086950783219616566685934927301695170291681953898180096047109475,
      Sq 56124510920397281392895544528687977793265284826820064950397044803800630 48067947075980864009904968966354630696795313479702559789029098353404215,
      Sq 31198802277919703491384953526626155167696407222013211278938690029551545 66928756931304209817799735929924196958921026499640806715724709921214910,
      Mu 6742167886890396915849772976502702810386673032702937550973680660346707 25602394405651229507724736576838805454426215167435198635051622514095731,
      Sq 8850910319286218896666880283198902385678250473561387706528848983130880 53608709336941111927397665483753871983512744010206243239964008913516201,
      Sq 38805874605033037277011650806701233349230691980191479361467505844205231 5895925180528551870858938796896857943619291457459240676563530842787884,
      Mu 593934793327610857481725348486359312145275287664828088287017079310867 68471142717068251660574013321336902952693634065245251716710193089500983,
      Sq 63305570199371194475017336125645069933146547649734988998873286682039012 30332902902398554918803155252060591302375455295974131827851615036502405,
      Sq 12423807766046757711750835568100013085824238522530775093071064903533067 59957649997528409622233935877429373052051691626061658458701854305512256,
      Mu 6039923060302276592918595278950936347899084399341316578719795602912603 7814277306722092464976562734801008729675673669593524153307584110926647,
      Sq 824526106873008416052221328414022088552225476778614105790952741665075 43636831817787805948557580231576307770029637144175178073207647648939584,
      Mu 4395821163532148933010337075445066533022136892330321421922735845353408 55555273965616232391137087970096898446619861874168005175506263231928896,
      Sq 41675168107826570040788669266016195145122377479565324511974094315808072 72350859676433686980834236751795667426447964396548853537024583329377512,
      Sq 70682868283931295532615216393219790139549958315997453350259890262935905 43054769304372022620797548302553386370317915290341994903821198350744309,
      Mu 4337186230417485257912839564615397526592200198022964531515356138863863 6900340499675587062341608944199017850223694892307851853953342884774761,
      Sq 642936107348540664665422991168247601227782248454885067830110462918818 6115836393927202992649083447216053245788946474644935175775650665119195,
      Sq 505054786190367030107140743511280335694269629681495604395135109242995 70006346912070515572160093835898170668881862086792699816328938625751560,
      Sq 66176166385100718832569747792007860690114150355107737925295156864659756 17147142439397725201408294775589091731625124938800959941867898254994908,
      Sq 3970180794110902040709553736375851187340062886452991942467931851191837 49506638702959615044900086529260432520812433497592764528282011752352305,
      Sq 33094334648826630232358760503232539805472013557906483762067239121897515 56310470061892131036175096800327066403944829423055296069559245812666920,
      Mu 5672518964257328127497373699142565169267285141067054518945716726256918 30348342847821816761627352910630457395208274766141809372901917691787134,
      Sq 12436458829150080570892969021026448606892432741535844754647104966049402 4516809309753190464984220680402331978165066158426764778796964656446342,
      Sq 275480133639561700526490274702291753297781126865948830419867070368789 51047884684551605878769159897285751585524943266671235018338510806429341,
      Mu 5142384598105237931386675903322507679559246829884668114978353916843276 4365675091571426022398163872894893185131411112640077557464578617774866,
      Sq 257353213126994743192522648862686049289404144994423043366602758150959 37887909936642608532768452223898536599293691792508062390176145006338143,
      Mu 3816694966237281900432990585491648457088542942169035230196130020583825 28376759977858087669575265976866283491918671580694304498148484249710679,
      Sq 10873075073373009485227556495134586603452615483883162125110072247583925 52747160058240204722640339954800783806357392598825577087495708663521066,
      Mu 5313563630568461907577993469366910537393793996369706118768897650091130 26597250092486240370062353345425979051635124420082655491627608462725838,
      Sq 9552130498164573963835065135472143139293435317323787696226341126525198 4376984763880152668692504485087095567031811614199685995006109535127658,
      Mu 440922071012476772683682824321112330120988351958214451905203394454401 50151353331178166650805817956915420874865396662580205854347188907344417,
      Sq 33961908452090277397926888850224978133440054170071388121367654740491215 11459972724497000592584061739721734638777545317665763976628290312437884,
      Sq 1773347884055438334912241983529103989723618004169946143296211077977835 25872308018060044910066496199608993590373616860160809744610303578601111,
      Sq 9038515749747059981268444421337329144920632263952522587898213481751743 7176254741698127537331442272234802118213191983445696951480393886983420,
      Mu 722910696179266816251912066805453441058633398365952721200464389687387 73163885878183300494087089402745644329439488876289621248002859085978751,
      Sq 72280358913418431970231454909086349710533966953421422798317373267218275 70051996904733110820530459687986745636287212872385082804390576693044576,
      Sq 66262499313369742677205224572360513562935964209158248040702856248871736 10984599692374398727927813643848558024434487772753340721032053262115224,
      Sq 1629278184682145649751254081170245947842060122555560219444565158026127 16007604959093155148284152990246532761778348055441162138946787681692987,
      Mu 1612549897079378387334889082863142650429203502713355523552106807474958 66332927098620135494768536023710731896663119436374543524828449086749280,
      Sq 59413494535174887135611700712998335264997539875857659639319641590452322 9452976288475326881292054470726964075012984598151956187544630462782346,
      Mu 952259627847428114178877073340625550004495893344788042782000344541846 16660825109621462662795297147318304609284079178025717100996790299474266,
      Sq 3748174349491793438617014514527407816910765765597756647847694801176214 29730974447669011019456274528575104732506801474894694787842426060652658,
      Sq 11935622113917253456031423095534748937506368621779002345544448534574173 1608494832685583845054412976757744615077457714606315335263178402870053,
      Mu 162034119628023978658292971049966764764249297789272696733981817869856 73578445036069606633550894393048893839063773967653738117802291059605542,
      Sq 73101785395174986585014214537425170447127307446686946160667099076436479 65248600270725433094263400653237365622136932496606232038754668740367311,
      Mu 6572914806431630723461032832144937639103244106804765900545369607648294 3377468660838764888448566154980110832967401111033980359062857412857200,
      Sq 154031458957049962987757274618210780293578031011105274007801552810604 49459442705844163388552928796442755676265036606962370907120068171262172,
      Mu 4982370532551588831657399930654626277941908979159676979617229987811303 44076968183487984789343570496701833379722470797698049925475371244596795,
      Sq 26233135429070725865082603477435743258782742510366807877192345590383275 46437951593486290707851492460592166780137888647918336667143311983141600,
      Mu 4677996130840031072835989061401325390711128555856562769165544585106669 10173154531272709371475551139289155110924555518769707808614519769596017,
      Sq 1397455721634656768506790334280485431260501031925393238797651069165654 3134546472094605118786004592115552203990411567125141796929096210656111,
      Sq 132671060010617636000740692142517636549436556135739381004301743357094 9727497286874373611729992455662801004179387658648929465344597588800063,
      Sq 1277700338352138508291404062660172809392658058951156036007098291547610 2396005220472074030600241957529395002655582607816727778572961627721699,
      Sq 77517952495839023363842792462451713993594216007221597781326915588943 1611511736082841372864055198243730419527302717138173734587253693655300]"])
    (simp only: hex_pow)

lemma pow_236bit_2: "hpow 74058212732561358302231226437062788676166966415465897661863160754340907 7460364222190295809178707900795654157719070480504763575970694656353678
    75445702479781427272750846543864801 41647830747279377346777413594773628791236062627710674319137589227481475"
  by (rule hpow_chain [OF pow_236bit_1, where ss = "[
      Sq 35066604765509242474439853722239598118452001640405410276951266848995 19593970714387414759101935657906936248844297939818275579585605297751535,
      Mu 1973827786205672047692481596478167310595033574325268944604422056419842 74032886348221796756905620750665458109810667616039985603479526340319036,
      Sq 74007568624984360798943032778112459482685747024371046417055498675431150 61473715931755445594284611907800409451299199273275766742334885956916246,
      Mu 6192646217354863846983918374727436556575073759942171447721031900716539 68108724969072326471595218770720951684440928381634258960261563620891915,
      Sq 62637191011675389229427886726455773838913830876712461688150441594089356 8037957747048210180820143251133618289523859580494485140372209468281333,
      Mu 809715630217880511411588212449357544594636991141157933212702417189030 30172048231697104190549924462989405779246260434987900250309713972642564,
      Sq 12292390822113364476728765202183496051057896352287226642992922171070457 69395348847670557576052379984067612397554863375143803681112003610209597,
      Sq 65026068872069258777895743766614499156025677800809114023126037431431311 17805540304024325543876418056447931990245262916051261224596728822963332,
      Sq 4280919749753049461386881060662235144655929949784319730044472748106942 41838001437066689417621558389003995473322243085606370566423544655265830,
      Mu 4214613309346108168042857950218684067467521812211283312595171447749981 38114418492381010587070896155738715546457345047980237231550805811449973,
      Sq 19615770397516485294646001048363363908772137055676356621386901714901763 48534992972933587671555687159942076791749011772755854602917657364381688,
      Mu 4889244713575577670701974201435283340594223349865112872944838843157364 70532940049961867846815150451996438096424552874582338852280782411159316,
      Sq 67175475190804734880408950250569770669135878283717909116290890658055968 35966190271907151696243965948416162297463681536494369531007561375704880,
      Mu 3623107677226613305180568573911822143120932305575247253522934132624720 45782926898290118856464517971667292062314667888487277075320768255127600,
      Sq 28303091825122992324385322758847616347951443116669286321902926689550474 4608786645690033220464335649745900650796466611346696218995840302320082,
      Sq 286813758552287371761136529439389453911375911354825446775871083297571 60007907051230962245793778637470855244094635073289693323241069721449827,
      Sq 48623221865654563515821355856070211660086571961238665937073425682699327 22911132736479102749898249850077574691979667771963584386002154340860340,
      Mu 2307987036823673603000295207299873581662120377459019415522596265860590 30187131742132500177402715376166575484038589324353902941374819247175390,
      Sq 12304684236812621903249542891975954576840379262258787607174628476749338 57641261616377438232003837087662853779095412418305738776977289383082534,
      Sq 44863559599067241929091764917876465555110264763624275748041662846519378 3115688490460040775929136323131168069940942149742734658146770462265310,
      Mu 313863514714531540770308699826434327314404837594775647806548495183405 60995104339203354493048981348847547817398088454151364304298801571261845,
      Sq 50236194151557551245823911634810860870464654852094607665828020355336228 5506329018201543161411955432948308565065873385525813800016513033325229,
      Sq 409403064669931608563052055222242906505426633426463216759981634807914 36218607011050896435331562205041533371714543533475337899370940270364443,
      Mu 3648535252917512710472143447562984999638641464931672428404905906571041 69774902791330044239677049901431032290240416392056875154843442235597167,
      Sq 65739326941642427998632468221040750110138372499142820060956031033349736 43828128672354859952427234497254078793027449799051485192020705995975337,
      Mu 4415091736733574761390383788343287687096234282203857930597587995471352 30717247362532503596553035285891747415420589145237727386680452077043222,
      Sq 12740643484583545599591811588736226928943399585722256691106682420905770 11589015833390325439971330392211662844367929534380241173348131752807894,
      Sq 1813509711226413648044116164342511812934305417536090474108079334782798 54921608094684405897115805047091142875501270192271157241262260777397450,
      Mu 5532609888040022724974617673140978853383244113528676168553476906075019 36277658034038420384068825170246243143250222549974964094438031932818867,
      Sq 17770729590615589549239445629661617582490496625166096477548072240929602 31596559667486428597458371010704135120232085872439632360826114135334675,
      Mu 3182926438406692108269292792802389165608405925953225646271918818222518 29547906946305101927501533268363200798412962973059703056583931341240824,
      Sq 11789088241440055268247967059615679552081049366957069718202420592003621 51953260880202284752683260526911089508059616151884126910173739551774729,
      Sq 36446211925657489087446666541203110838585594090486714763473113025736757 54365716144576380300831221829440317328138313614509646797618913944404842,
      Sq 39909565500669221827367197336851438792656459607240200485003346361761475 66870751961998217502500137068281276861582338412856468705526696423887139,
      Mu 6736324670024195008929860237513135070760446127845053648672188926393403 22217568803626094568802834749678659152938305315680722299367800881710721,
      Sq 6665302136393958101459343659793662085889932033113643718521858908822764 41442471750552792858544188015147100787580401243141196132199761428332893,
      Sq 23190925103708832088596595987397258658515586954007504315958752906648120 43800217011517836780598577941414829659372693543904499396097184055104609,
      Sq 25904743572248846125216343594081970983086396653381206711867546283039250 27248835706855802022834391783540695057691349058274683967636323371443131,
      Sq 10025883963207814976721444740507417355590718374240040557155416554188255 2205421340385215511409081567807582808008527019196519154229642641635876,
      Mu 222166399317260166700437437156920289215973438385102362408839967503887 64689718406939866212409964014674353037775210761413085991473634503746419,
      Sq 56506355111230639609362546421919285727310864778254932069559847257627184 34908885386151257527906463007531296265881746071284099199352354008907673,
      Mu 3516598496804923390677954134525667909145910191409894680936443306030362 67028952064325917588708427913072269718459868139555617669350716095352960,
      Sq 60666876083904004338896891862674884775419900192962215394250670378927615 39945869494827716693197474874586940267359998898124943152369216194314795,
      Mu 4024006583573253355768358014879702217704828634746494341490266145434639 59121412727299192358964021456312702524414423792247857955915608895588437,
      Sq 47197215729388639083034687181548910188550609236928796428451221364344675 24663729565697735793181316085311746059980545578313205493417500887982744,
      Mu 2484537485426089356253725324946871273958710324824260686201048799231881 19969499587775771266195286932649973882773633507711673952132278008076365,
      Sq 5384695350754038705893957063946826582968148652318918742166543252892803 9038905958533060519727602094806874784414323772565299493604800282820904,
      Mu 910547637225574826248187639111435323180819367111969440541399073590894 4050663718010562005778333429598249097571361359648411300385761828784054,
      Sq 221553774402566131057300736506253192467183224026524402990346574329043 27995020436494702545275107983631210956514184209398829390913602951612915,
      Sq 10582501795849785787728174154362185638336568580434026754854213998881124 29621460499052874288586865991855925932713992305601419894626875931457757,
      Sq 11847854406985540495552014553764155179527144138712923501868675566826990 375064079328379732401908330628488974122402807538110849794892326791119,
      Sq 1899493093499879314383541554492799554503818400089799881696707487307 33518305653309424047575570964788574122008763172419960203185722603904712,
      Sq 15170185350350922731775742695650535866191661682265987045685102649296577 27369995329394960697634630589726053619323304773759230219283226369627605,
      Mu 2757157192738421053683145392618223560828859429023453286759964998832745 41647830747279377346777413594773628791236062627710674319137589227481475]"])
    (simp only: hex_pow)

lemma pow_236bit_y_0: "hpow 74058212732561358302231226437062788676166966415465897661863160754340907 41647830747279377346777413594773628791236062627710674319137589227481475
    353 (h1 hZ)"
  by (rule hpow_chain [OF hpow_1, where ss = "[
      Sq 23421329545418521768786008601775258399905072989098929913144624038338040 34554876364925574214673053422007739197753742363197796777215051601973345,
      Sq 16122985372428597132361576360133244183741782132789678271658232207926642 43217810081194213742923201779996762782286471560592487831950382374744731,
      Mu 24304232753084820095597615870051231835622697655154569307984796574790370 30705797671446481408042269960614431338224540489655012635007432115692635,
      Sq 12731147240139441184690851366269466779981104279768648756946740308306117 58031390182472139819087348453514616742144978805012793638900609861815106,
      Mu 32634888517722673624127487217275754281753577892732566161946259650544170 10260811576435899085201663224548723115054588026718267736558488248799160,
      Sq 1421641845278158745430441446324929359295871333719500602619946910672532 8562916886866218785688304546164188478888058893729309188831496247839076,
      Sq 990079869685274089067819496795799193426049271434876125113348038497139 16153155050223087298160014462763671619986142323395781531433756842368703,
      Sq 3523234067486837190167727816620328707138147160225995919857807195680933 60055822405248186172869033486944061572578872641868090995712606312075978,
      Sq 48700902596653436309242236725411619907838310816497280990955941632558310 45272998181857931794802427535726844732041087111865010997146055748869314,
      Sq 27676125155439234227281169309785734715773851876569575983569173404332028 36306353064192292505291270111262552601757794211254212787765209720161200,
      Mu 20417463393680148264342547858421908854912109413675249925041644795446957 (h1 hZ)]"])
    (simp only: hex_pow)

lemma pow_236bit_z_0: "hpow 74058212732561358302231226437062788676166966415465897661863160754340907 7460364222190295809178707900795654157719070480504763575970694656353678
    353 55737749762206747260746256128695766820290314418669542444515841006459102"
  by (rule hpow_chain [OF hpow_1, where ss = "[
      Sq 751530887313273641558212932362528553904569786118992067360877361340016 51684847155752644996563845286049505525442563579857105135745660219293172,
      Sq 36070589971704851486414172901922938887315382388307389168836443259393164 69584764088499850666034680764700500768175271436573086830973619684461836,
      Mu 7009724718716446398710150972689806289135371843123856669350168514131375 16248542492794169017802259992859100153477726649589835568106205774575683,
      Sq 3564967657180005896989552471768993773730637314396478998686407547344959 49838709736442562392788023286151713925219964236376775457147236880978676,
      Mu 5020576561043667306096773368255078689241954427241551527595192692286686 40037054903508474092596415669812847591202009267345682923061675610906126,
      Sq 21644672565015493697019593951404904669325130292035165297330912878513234 737536724712909709842645266532440597048898948587664582873301037264638,
      Sq 7345038453258296517035725138635648375607978591279844275298626589868 28615195496591307601053714760378495265931557643837516542508193901140768,
      Sq 11056564600945638128504796476737794155232730675581562033650850306515261 21755099424874526754586311732506308147350025487730102009456421759548097,
      Sq 6390707168363595397070482465463683030273963744313904947741743490418624 7181156827952545887986785284435443188484778672791320137059415018469441,
      Sq 696330784728430187521731122504877107051422759687512875697612233723429 4541031549751646384962723409632584427409716009213711203918282831842378,
      Mu 457447568009015977546156957956118442308816984968649425194817088274826 55737749762206747260746256128695766820290314418669542444515841006459102]"])
    (simp only: hex_pow)

lemma prime_236bit: "is_prime 74058212732561358302231226437062788676166966415465897661863160754340907"
proof -
  have inv: "ck_inv 74058212732561358302231226437062788676166966415465897661863160754340907 41647830747279377346777413594773628791236062627710674319137589227481475
      9154614390213283175658877650618874542878988799149675776630768073480058
      5148245098177709189309962339349337088676966846102533204198324454689113"
    "ck_inv 74058212732561358302231226437062788676166966415465897661863160754340907 55737749762206747260746256128695766820290314418669542444515841006459102
      60305143737318126709639792011797896113076422581266379872660074093496533
      45386904260608599307263180644853524460083303572854042360323651532879776" by (simp_all only: hex_pow)
  have "is_prime (int 74058212732561358302231226437062788676166966415465897661863160754340907)"
    by (rule hex_pocklington2 [OF _ _ pow_236bit_2 pow_236bit_y_0 pow_236bit_z_0 inv]) (simp_all add: prime_116bit prime_353)
  then show ?thesis by simp
qed

section \<open>The powers of two\<close>

lemma pow_two_0: "hpow 57896044618658097711785492504343953926634992332820282019728792003956564819949 2
    2199023255551 12725503070822417001986919429249837080124537636621394363448261139776490441667"
  by (rule hpow_chain [OF hpow_1, where ss = "[
      Sq hZ 4,
      Mu hZ 8,
      Sq hZ 64,
      Mu hZ 128,
      Sq hZ 16384,
      Mu hZ 32768,
      Sq hZ 1073741824,
      Mu hZ 2147483648,
      Sq hZ 4611686018427387904,
      Mu hZ 9223372036854775808,
      Sq hZ 85070591730234615865843651857942052864,
      Mu hZ 170141183460469231731687303715884105728,
      Sq hZ 28948022309329048855892746252171976963317496166410141009864396001978282409984,
      Mu (h1 hZ) 19,
      Sq hZ 361,
      Mu hZ 722,
      Sq hZ 521284,
      Mu hZ 1042568,
      Sq hZ 1086948034624,
      Mu hZ 2173896069248,
      Sq hZ 4725824119891905211285504,
      Mu hZ 9451648239783810422571008,
      Sq hZ 89333654448608401922020586009840766127216802136064,
      Mu hZ 178667308897216803844041172019681532254433604272128,
      Sq 551367670776701298155427 2612138113568719591179605805016385482059613724164578185228193350058605435161,
      Mu hZ 5224276227137439182359211610032770964119227448329156370456386700117210870322,
      Sq 471414969316188648141848639006813204435988828222960066194344599217544846819 7023211381142039506197897652406793956956853592605314505370881785391179991453,
      Mu hZ 14046422762284079012395795304813587913913707185210629010741763570782359982906,
      Sq 3407866525535113841503589958590043906304684900224015490269592213704318216751 57781723405931716117958919538617471228074675664729114047001284109455541439137,
      Mu (h1 hZ) 57667402193205334524132346572890988529514358996637946074273776214954518058325,
      Sq 57439662719915560291373545344443833537373646235871341729621994764941448309096 32089313935064379543886947174440443059898995052387111529330048162822362849521,
      Mu (h1 hZ) 6282583251470661375988401844536932193162997771953941038931304321688160879093,
      Sq 681753867153464181348223837870738304785322068099057849246025648789500588844 49834812164914730618950277168560344160331091769103713339041562118860226453693,
      Mu (h1 hZ) 41773579711171363526115061832776734394027191205387144658354332233763888087437,
      Sq 30140780313742161155396419962120358507516903967009827777469622225609662425203 6211722669302807601644076006247443179859187002184433310940477642179382454322,
      Mu hZ 12423445338605615203288152012494886359718374004368866621880955284358764908644,
      Sq 2665846952031364783018773992346036109755330739932224151481272086967524792203 44878110967899124259365551510161055467586868810727061309777434593481331861089,
      Mu (h1 hZ) 31860177317140150806945610515978157008538745288633840599826077183006098902229,
      Sq 17532646752736644488336190803563533034752971851389345505774727054966930617267 43930863578430118474969972351936287681437615866749796805382350566215615709058,
      Mu (h1 hZ) 29965682538202139238154452199528621436240239400679311591035909128474666598167,
      Sq 15509559174461008539748278554160429396862810706560140114212042739307338367687 18610209526971026601140712964874909445781115059261378309739038445497533171926,
      Mu hZ 37220419053942053202281425929749818891562230118522756619478076890995066343852,
      Sq 23928397935920379955512007785372125661117788988114052563415782363179742778646 49784559045031634884188678805904138315639287446245544182822243109342746188850,
      Mu (h1 hZ) 41673073471405172056591865107464322704643582559670806345915694214728927557751,
      Sq 29995918788439421885777272135886007940012791219569977310675264767072719019753 7178903437549786540523005203672750450278571194429810945014161697941220725404,
      Mu hZ 14357806875099573081046010407345500900557142388859621890028323395882441450808,
      Sq 3560633884758025642783116627152126157595607415593531725726976969355407985118 27937185989887608324692786595945506720893216680386102148052079196291342333882,
      Mu hZ 55874371979775216649385573191891013441786433360772204296104158392582684667764,
      Sq 53923294150705828565368826338412799648856659163320307707260385703557986631583 33176354509727373462883826331268128745928610401486128162389571353101668910429,
      Mu (h1 hZ) 8456664400796649213982160158192303565222228470151974305050350702246773000909,
      Sq 1235234172882584628249313673354012824984394170021116211577481021113809177623 41313134184059199231887395149572658945930568923602013630381997914144560025054,
      Mu (h1 hZ) 24730223749460300751989297794801363965226145514383745241035203824332555230159,
      Sq 10563484444000787080455850838234529262504645344155767667428917929153249540107 29670518760692445369937974146399889291646215977970401351401388456385953970738,
      Mu (h1 hZ) 1444992902726793028090455788455824656657439623120520683073984908815343121527,
      Sq 36064717420400496868797383468781490120752121379643404363755979831011341627 415774584030008839913762282080452531155929146980420374518186522384107094706,
      Mu hZ 831549168060017679827524564160905062311858293960840749036373044768214189412,
      Sq 11943372357400507443348253884768913886339676427623192579885771269647908609 15740661404821817546366607863509546813951138535898873207515258415743720864803,
      Mu hZ 31481322809643635092733215727019093627902277071797746415030516831487441729606,
      Sq 17118158802952081792840531496358459117685652362575403783107487690461445687328 18911341560778707355047949583730331924271736775521677671595960324137946008964,
      Mu hZ 37822683121557414710095899167460663848543473551043355343191920648275892017928,
      Sq 24709034407036513893469611482550692409285213297551637500997077279735405725131 42369111538653942526373972753959312510584268024940928411429149030985073974865,
      Mu (h1 hZ) 26842178458649787340962453003574671094533543717061574803129506058013583129781,
      Sq 12444762835729318066524959310067099907997868637564430909268825779548056274978 44613448719557135570284135740356118728299422690172500440692509809397285171839,
      Mu (h1 hZ) 31330852820456173428782778976368283529963853047524718861656227614838005523729,
      Sq 16954911944722734197908026556333291998674323778836775915075824716386807986028 29653160636516120316848782300452723977165084010570102792284257934606454392869,
      Mu (h1 hZ) 1410276654374142921912072096561494027695175688319923564839723865256343965789,
      Sq 34352610009419735350854172045681890811915190498087363502535753245138100639 44554095005749618269529032584607013241419830876979137176062928152047125545110,
      Mu (h1 hZ) 31212145392841138827272572664870072556204669421137992332397064300137686270271,
      Sq 16826676613930557735903622366421311519038917592729858495351001711235484241060 30104109294970808236641445896490743750038845855191058690674243051753045507501,
      Mu (h1 hZ) 2312173971283518761497399288637533573442699377561835361619694099549526195053,
      Sq 92340478675085526800504084742116125932466276802044894788384080465255364319 22597373211214652696995798856702387170921218395593644892069556866317167673078,
      Mu hZ 45194746422429305393991597713404774341842436791187289784139113732634335346156,
      Sq 35279873049037812512565726277712980084699254382477131464931400566541688700090 31198249837977317985328152319303405492235036023031716675522934492853633880926,
      Mu (h1 hZ) 4500455057296538258870812134262857057835079713243151331317076981750702941903,
      Sq 349835569185303571319079199780739689596192820108190978432828949262136140056 29524915903815192659046542927788094396754796368950663566647291284025506484265,
      Mu (h1 hZ) 1153787188972287606307593351232234866874600405081045113565790564094448148581,
      Sq 22993364852554380946801808245168976975102678898950562889380534963287142231 49375865939871630695430545464363497376986143918666802952741588911995383147342,
      Mu (h1 hZ) 40855687261085163679075598424383040827337295504513323885754385820034201474735,
      Sq 28830763700179775617594995080857797956077985964875443078573607651524637673933 35310773844740257356886205966796895503379764984720838191588526571866527630808,
      Mu (h1 hZ) 12725503070822417001986919429249837080124537636621394363448261139776490441667]"])
    (simp only: hex_pow)

lemma pow_two_1: "hpow 57896044618658097711785492504343953926634992332820282019728792003956564819949 2
    2417851639229258349412351 43765620297419971205843694015456769443004566965438152645146172353629561008700"
  by (rule hpow_chain [OF pow_two_0, where ss = "[
      Sq 2797055126514170144399362458386044168724273961344527254055236037515789445727 18970130851501733265150925232286015732209969173606490035834901848770467330966,
      Mu hZ 37940261703003466530301850464572031464419938347212980071669803697540934661932,
      Sq 24862898105970042728676350278165755353319436010562400292967723280651932833644 23065523464804254636012790927279305895728504086904802717459558401972900408468,
      Mu hZ 46131046929608509272025581854558611791457008173809605434919116803945800816936,
      Sq 36756802728729600531726087272816562406879448001401373929296461274828077918209 19156475312719964551183958180729295987409949219217410395169694144470150876755,
      Mu hZ 38312950625439929102367916361458591974819898438434820790339388288940301753510,
      Sq 25353755948197279762666397291776098037850158119451351272397113091492710097640 15809336171043205330174485684785270883348802963415370229984998298919987499740,
      Mu hZ 31618672342086410660348971369570541766697605926830740459969996597839974999480,
      Sq 17267853914048470939510667104009318908096613854289526590354665844674996902411 52362961077684222419552963601396260382660220078328376367404907261515061273361,
      Mu (h1 hZ) 46829877536710347127320434698448566838685447823836470715081022519073557726773,
      Sq 37878881788006300030445288744121134904456553040098412894109348162504968556389 50701569554836314373886526326887680188921947785178502187458144414861082389368,
      Mu (h1 hZ) 43507094491014531035987560149431406451208903237536722355187496825765599958787,
      Sq 32694241610420042422251861122951185903324893975318323855256164497065771498028 28608475273685915034413859660121474230498570477600794613347477538726269950797,
      Mu hZ 57216950547371830068827719320242948460997140955201589226694955077452539901594,
      Sq 56545821938332486596338455774468401319511776608686621763375388645032594878943 41552142419960881998015060627008731028457844060538016245539061569336957306929,
      Mu (h1 hZ) 25208240221263666284244628749673508130280695788255750471349331134717349793909,
      Sq 10975799456395812507397241022480449687004406884192803978230173285558504202747 43660874891087236803314301260426065203660554085106170378140685585840927300378,
      Mu (h1 hZ) 29425705163516375894843110016508176480686115837392058736552579167725289780807,
      Sq 14955635226437396430402153010800040069223150184737950401518349924573864831844 51471355895263537778671672335343530102831555448922558147510874725147083915293,
      Mu (h1 hZ) 45046667171868977845557852166343106279028118565024834275292957446337603010637,
      Sq 35049064865463872774667179110117118820951907059508573811110802264654073965184 45725400503804336559214661422116104664022697922996716309863166167604880490153,
      Mu (h1 hZ) 33554756388950575406643830339888255401410403513173150599997540331253196160357,
      Sq 19447298753099445045266624378779526336736888194893200538196059327598470360114 22321013389645616211177086726839767553567240094210760355843837021266057253263,
      Mu hZ 44642026779291232422354173453679535107134480188421520711687674042532114506526,
      Sq 34422222935773790789221719152985076944217531422821043890868592406458989673625 7032481973905634649139262395845640711542454304922980298293341560860097443551,
      Mu hZ 14064963947811269298278524791691281423084908609845960596586683121720194887102,
      Sq 3416869186076979195408381920164290471325947390330921693883783041443971949873 21188576107763591494667664187485586779271045519539692508576787271189827541927,
      Mu hZ 42377152215527182989335328374971173558542091039079385017153574542379655083854,
      Sq 31018060762638393180564791363989257063490167008424270573819926845480746465267 39871748576684349902265925958583529319448123771462821896088625736941734281933,
      Mu (h1 hZ) 21847452534710602092746359412823104712261255210105361772448459469926903743917,
      Sq 8244279646395915221718616788133255170661839671843952439445707160320597026071 54564767961546202152803160156961648429604744584870424021230869060560540612510,
      Mu (h1 hZ) 51233491304434306593820827809579342932574496836920566022732946117164516405071,
      Sq 45337650413438285128982086794934816107775610526918214602437431979162391244879 1772218767454157452562585050287022937060104174055558698805362524510751223870,
      Mu hZ 3544437534908314905125170100574045874120208348111117397610725049021502447740,
      Sq 216993017772033689384262862465403142376815705483762393638856128480548642241 5515551715829324782142475019845810667720909570741001892665212141812850241891,
      Mu hZ 11031103431658649564284950039691621335441819141482003785330424283625700483782,
      Sq 2101788537048623504834225826970024310125226859702642337824896622666847082892 11347185666299626723595725480296165489201164526834110249923567282926986811016,
      Mu hZ 22694371332599253447191450960592330978402329053668220499847134565853973622032,
      Sq 8895849337796095116237439385236547701306024649220891067205138747842128736268 43103414130409017231840388274039595663765416967684739750592767597374869598692,
      Mu (h1 hZ) 28310783642159936751895284043735237400895841602549197481456743190793174377435,
      Sq 13843786319297051527352961814461373358019786972149774702532048394340819540301 20387302546237233243529818166491483617746528880200781959691821307272822914576,
      Mu hZ 40774605092474466487059636332982967235493057760401563919383642614545645829152,
      Sq 28716442226719068658824201779832814513948555602308443333381501604034730554785 43788858189986585597162037565402282310128284485222577409072628091331167633139,
      Mu (h1 hZ) 29681671761315073482538582626460610693621576637624872798416464178705770446329,
      Sq 15216957295603043327804147114381741638021873737356048762723977611561914079952 9439476285948698337221216334087425907034205627650848437362501624342999013793,
      Mu hZ 18878952571897396674442432668174851814068411255301696874725003248685998027586,
      Sq 6156117443938301231651341101675042404686267312950665644128134936757225832879 54428933831351088697038683296614993994716726581325886008898595118250217684225,
      Mu (h1 hZ) 50961823044044079682291874088886034062798460829831489998068398232543870548501,
      Sq 44858114661869234178148964399991575260353105293497282818833096525639392082426 52088564834644435837849629457674392796964126975936904322504285285135736230727,
      Mu (h1 hZ) 46281085050630773963913766411004831667293261619053526625279778566314907641505,
      Sq 36996289600990098088566976532462018208129054144927311919177150382540015711781 50207244954616221050600987741784239035123909404922774085956496367818255545856,
      Mu (h1 hZ) 42518445290574344389416482979224524143612826477025266152184200731679946271763,
      Sq 31225245210360363182548236512687958730695150534851041615263258511598342993015 5388205021077693814378673569639293995229639603014866985737897625264211471934,
      Mu hZ 10776410042155387628757347139278587990459279206029733971475795250528422943868,
      Sq 2005854012335102823452386618730604052206372791465906569940142631229222519647 28570144583693089785957479217530770523699035832423762033648534611734808763421,
      Mu hZ 57140289167386179571914958435061541047398071664847524067297069223469617526842,
      Sq 56394399093030582784116056142707547306765342825094149589393312074902729611212 45081987946774876594984845985993740740098364972271984036107899175559038824776,
      Mu (h1 hZ) 32267931274891655478184199467643527553561737611723686052487006347161512829603,
      Sq 17984292288347075365901105328956134908051212179861599288261440887958096603309 15635071353909865446562866405556894251949515983667393322261477080345650526368,
      Mu hZ 31270142707819730893125732811113788503899031967334786644522954160691301052736,
      Sq 16889268194537246083546811622875068817563320444935747414666215946854964529888 17129083264155658244017212371320516169400761997831305887737725020805703949984,
      Mu hZ 34258166528311316488034424742641032338801523995662611775475450041611407899968,
      Sq 20271194372806737709706397760980942583095928173480030371678826465406616475614 45298591702067696198403875549908546125057792013504747870014736608277035177338,
      Mu (h1 hZ) 32701138785477294685022258595473138323480591694189213720300681212597505534727,
      Sq 18470423755380768524759651161880168284709457176877077409454806328160800159350 32223998635090638374559946840532456900515820852679282538650471478994944091379,
      Mu (h1 hZ) 6551952651523179037334401176720959874396649372538283057572150954033323362809,
      Sq 741468330531982970754361881519117431185994018240333045173871706556405885482 30080764816645804521424213059364112964825358698470859569656226976247001290063,
      Mu (h1 hZ) 2265485014633511331062933614384272003015725064121437119583661948537437760177,
      Sq 88648929047477289487111243874596381586229783180417793915837448436614265660 10920016796639302131454013917847619607099327733918931210121622105847813419989,
      Mu hZ 21840033593278604262908027835695239214198655467837862420243244211695626839978,
      Sq 8238681424565225299266751844842172828830319530783106852319391305803976409971 272367487786709137314880069323541411915196268490796571469480008624995729005,
      Mu hZ 544734975573418274629760138647082823830392536981593142938960017249991458010,
      Sq 5125327568877541968277300888667609251811230513338575116327133334009327585 21792242110894450434209773345127239988779060925475595214159250143333509166935,
      Mu hZ 43584484221788900868419546690254479977558121850951190428318500286667018333870,
      Sq 32810657055960282412915668423116061619604332494211937948208326053481635288382 24795972003392341631096064424270755866149102094419042089843818003498267644382,
      Mu hZ 49591944006784683262192128848541511732298204188838084179687636006996535288764,
      Sq 42478910719567388165630751140420056710130867903138243429110777701021205997733 10378243084691960260567227766281276355843843608950913869389257068642817472079,
      Mu hZ 20756486169383920521134455532562552711687687217901827738778514137285634944158,
      Sq 7441470672782062414033008806004242560997426410117646686610180934616964641086 21882810148709985602921847007728384721502283482719076322573086176814780504350,
      Mu hZ 43765620297419971205843694015456769443004566965438152645146172353629561008700]"])
    (simp only: hex_pow)

lemma pow_two_2: "hpow 57896044618658097711785492504343953926634992332820282019728792003956564819949 2
    2658455991569831745807614120560689151 4043360565791032338078027380609862533945144841446388649871217817879889873478"
  by (rule hpow_chain [OF pow_two_1, where ss = "[
      Sq 33083944380557139164680023649838723823417951100109305745401915458196770814132 17223409971481229538058754446249004277307530361018903212897109445966750970732,
      Mu hZ 34446819942962459076117508892498008554615060722037806425794218891933501941464,
      Sq 20495068566402154533996930702740369191874096542995655459154539015486809862467 8714435763130431892714856678345048105100952683482049927480417488913974509113,
      Mu hZ 17428871526260863785429713356690096210201905366964099854960834977827949018226,
      Sq 5246741201056289111024866886637622140431735845501473962723609422724845124280 24492004957264627798858973925740610386883196921056257053205720269588551925356,
      Mu hZ 48984009914529255597717947851481220773766393842112514106411440539177103850712,
      Sq 41443819575429813992847694542229700650807284257762212720407074675022320139488 46034700126066789873512758800502265592299094718682320631985135223443097860832,
      Mu (h1 hZ) 34173355633475482035240025096660577257963197104544359244241478442929630901715,
      Sq 20170950242698253405313267443962526660499144515278700862905154055998028682597 29367796814097735719560541976235943693011282874495981722420027425107015213672,
      Mu (h1 hZ) 839549009537373727335591448127933459387573416171681425111262846257465607395,
      Sq 12174277950380678928359748829408470593476285554145203729363273671539020385 15462265777532956925250453705990799484770463401052356989990314975970913025660,
      Mu hZ 30924531555065913850500907411981598969540926802104713979980629951941826051320,
      Sq 16517996319079680939035277194410652253408612898022229499751467114015036503646 5103300737574423467519890763818597292390662762170828509273291058224801708346,
      Mu hZ 10206601475148846935039781527637194584781325524341657018546582116449603416692,
      Sq 1799340772909007023266297515174663813619483123011053940376182594260146381225 5039498098970795913760558827025324362378835393682956699255405147244145165339,
      Mu hZ 10078996197941591827521117654050648724757670787365913398510810294488290330678,
      Sq 1754630476524522313018920235930529268257876301723027533041273703982110211587 12414747334416135925936547631847822621893506212826778210881128072837639390621,
      Mu hZ 24829494668832271851873095263695645243787012425653556421762256145675278781242,
      Sq 10648461558475622927153850614471661281652948811336516426337006870186985945601 3869115455775672774599448076059633169402486340771917777259840755866817468215,
      Mu hZ 7738230911551345549198896152119266338804972681543835554519681511733634936430,
      Sq 1034271305318001520074328570813269074977029292833347339148016836995778925998 43141089381852880888347070286098761207899846593813589824323966996364676010798,
      Mu (h1 hZ) 28386134145047664064908648067853568489164700854806897628919141988772787201647,
      Sq 13917576183450801434606887604435169071334650078203462365447956740147877245585 23473287181950975541532731936920120827350364821171472882250733688831459337444,
      Mu hZ 46946574363901951083065463873840241654700729642342945764501467377662918674888,
      Sq 38067900130695651748110003085237792188281905433617146035129549670715134913379 27830116011869970758702855216982785523258961577463098629475252444634995614873,
      Mu hZ 55660232023739941517405710433965571046517923154926197258950504889269991229746,
      Sq 53510761388665855266255731527967176842872209147895899016884270317280663115512 38612056607650084664086875639052005263319696602923050860252253602695686275628,
      Mu (h1 hZ) 19328068596642071616388258773760056600004400873025819700775715201434807731307,
      Sq 6452500134285685584051015625883191233017407451713898791845602875273639794769 25237452912485182947454704695492340000558510983405208828690371922250510881468,
      Mu hZ 50474905824970365894909409390984680001117021966810417657380743844501021762936,
      Sq 44005011651842232519099550985716175337911880197539896439079776174424641785853 44464636531621723066550625961262244983550410336294481638809116791200622958599,
      Mu (h1 hZ) 31033228444585348421315759418180536040465828339768681257889441578444681097249,
      Sq 16634318873373543324650453488739661093720122227926540638555137294578033938741 46394769077524554709452682419601237528065955176724336078540619329378634623792,
      Mu (h1 hZ) 34893493536391011707119872334858521129496918020628390137352446654800704427635,
      Sq 21030035802856571126689419792466193616243153339009076325856992706267799199627 16979924520134220801691779815214805435346133838223060152387578965605388734202,
      Mu hZ 33959849040268441603383559630429610870692267676446120304775157931210777468404,
      Sq 19919691482104424180167033635695001762613040171910525325451729788372670287925 27216058289993283306350032432589238694124504226404821019601473978479604491391,
      Mu hZ 54432116579986566612700064865178477388249008452809642039202947956959208982782,
      Sq 51175435815910854108613489174731959111783900121188198938522937440608348970766 41436670406857499792914072612224526618539736790440472417316261288740917848590,
      Mu (h1 hZ) 24977296195056901874042652720105099310444481248060662814903730573525270877231,
      Sq 10775612208481536965979086827984598251291729169529850033485814369813776459165 51281389484734721749353895019264901141982589506845226753618024377121298344776,
      Mu (h1 hZ) 44666734350811345786922297534185848357330186680870171487507256750286031869603,
      Sq 34460336119800936063555219373758071689644608768054504466596342885380843124636 21956972745834244119233718945821179763429476024073096813854937209337689214045,
      Mu hZ 43913945491668488238467437891642359526858952048146193627709874418675378428090,
      Sq 33308572655475613267824929524615447545158404722743749667789010782257256126453 57752040778980431276131819140189265078701656103205660316988218611028180037203,
      Mu (h1 hZ) 57608036939302764840478145776034576230768319873591038614247645218099795254457,
      Sq 57321461973078596589881473694837401284031183082609763144402973457167757206231 35142515242389525844047935225894468448509739944325430405021259904633602462630,
      Mu (h1 hZ) 12388985866120953976310377947444982970384487555830578790313727805310640105311,
      Sq 2651078701522913340909963445686884778469291602657480224658873678479077475073 28226388784056116787864282109487185903185588996505760007766717411803389775444,
      Mu hZ 56452777568112233575728564218974371806371177993011520015533434823606779550888,
      Sq 55045489137399753797307129082151059155970630100215495574175533899729989412223 42508907968188131921115917328216383203606917327690240608144974536072646751917,
      Mu (h1 hZ) 27121771317718166130446342152088812480578842322560199196561157068188728683885,
      Sq 12705366735425338807878452228648570761259659756644484150720585876974500801978 4346694114098895407859267088517768892526612355787345751870808038722585634103,
      Mu hZ 8693388228197790815718534177035537785053224711574691503741616077445171268206,
      Sq 1305356857864042216093128053004413470165559933737798444605362411755619934485 32530922353143201565845920733753253306571055872733505938315646685619185417171,
      Mu (h1 hZ) 7165800087628305419906348963162552686507119412646729856902501367281806014393,
      Sq 886911899320074462485655455831715172404507549133964813313089228843265065179 24896118812274315685729760251913733740361744615225117666264912058835838702578,
      Mu hZ 49792237624548631371459520503827467480723489230450235332529824117671677405156,
      Sq 42822734160677456268782020039975479586999786062461677495271803848438877882926 15905821391689443414605737455946313566016394004150319163988883510389884093562,
      Mu hZ 31811642783378886829211474911892627132032788008300638327977767020779768187124,
      Sq 17479270358499966951829612130829889493870552014460528968525281941893056375130 39888301441576157260036736749281175744888463008995273239805489531114427923006,
      Mu (h1 hZ) 21880558264494216808287980994218397563141933685170264459882187058272291026063,
      Sq 8269283905651079070705597456746497936400561552214083417079857293040528320240 28793715552962822436455800675997964519155589836091070194918444052230332812209,
      Mu hZ 57587431105925644872911601351995929038311179672182140389836888104460665624418,
      Sq 57280462650310105513029781631875530915670216750908601058308989745216453440192 29874189765062857721174375433796536263388294736852910487692510838823717848516,
      Mu (h1 hZ) 1852334911467617730563258363249118600141597140885538955656229673690870877083,
      Sq 59263886623715842385250429463904328851837976803549306884465521943944998951 1499936820928532424025229497493677681435698033923605794362891274111385715390,
      Mu hZ 2999873641857064848050458994987355362871396067847211588725782548222771430780,
      Sq 155437939264828345724351925613946908598813954555858217016461531934135824660 28370929470276770227345672806084198740600031242465501104175622428964797266060,
      Mu hZ 56741858940553540454691345612168397481200062484931002208351244857929594532120,
      Sq 55610682512706337873978188305924908538426245872387794536059947164666703719215 55439664321651851230071049465202824345305576723378415329980672416176585074365,
      Mu (h1 hZ) 52983284024645604748356606426061694763976161113936548640232552828396605328781,
      Sq 48487395028909860930912657133367596061898400429307182406276295950004693233733 11720831775400233607408627069680843665350508379419790350380946123699388806344,
      Mu hZ 23441663550800467214817254139361687330701016758839580700761892247398777612688,
      Sq 9491349428935541543091274868150239842983114647560533763528427765929777774290 51057782341009283582467397944029819298108362307588753287974448141844727274134,
      Mu (h1 hZ) 44219520063360469453149303383715684669581732282357224556220104279732889728319,
      Sq 33773739942223710330393727030435301779400832448402398536485359657839624976810 27968765204973158274276251058343136611696736398435887357388545187556680183071,
      Mu hZ 55937530409946316548552502116686273223393472796871774714777090375113360366142,
      Sq 54045269050302048059152120362555340436145570186392158687151863763997198656325 2021680282895516169039013690304931266972572420723194324935608908939944936739,
      Mu hZ 4043360565791032338078027380609862533945144841446388649871217817879889873478]"])
    (simp only: hex_pow)

lemma pow_two_3: "hpow 57896044618658097711785492504343953926634992332820282019728792003956564819949 2
    2923003274661805836407369665432566039311865085951 26581867791059424736998914131786935395247100185720215298147869473475247466289"
  by (rule hpow_chain [OF pow_two_2, where ss = "[
      Sq 282381374628920295336720119864987421737720455350748927113257984068709065777 43950184207615090751992614304861250390748645633911180465674925220290845031111,
      Mu (h1 hZ) 30004323796572083792199736105378546854862298935002078911621058436625125242273,
      Sq 15549584646399421811025348070478260725530196510919910901891089640209329113495 10501363506548398584502337923607678122037812537885300727671023977448485094774,
      Mu hZ 21002727013096797169004675847215356244075625075770601455342047954896970189548,
      Sq 7619079073400264538558131946985180192059335542748408178470356216476381908686 37790006377465564838267126982695014024137983365623894846470524770590499267290,
      Mu (h1 hZ) 17683968136273031964748761461046074121640974398427507673212257537224433714631,
      Sq 5401452398078660195667632557630494837342912018018830410169340176934427160557 45783047259838833606328249465709006417155626028122191818693594668407123914568,
      Mu (h1 hZ) 33670049901019569500871006427074058907676259723424101617658397332857683009187,
      Sq 19581169453013039667607667664152337172343815417783051552108111633941763077640 5669039786627068572357147976290455649838915295081695025929813981744818560609,
      Mu hZ 11338079573254137144714295952580911299677830590163390051859627963489637121218,
      Sq 2220394316333216009624907998909708589796079744530080656945614047445369212804 25251953692389924589681848493682910460275133332362925189586197470964300376528,
      Mu hZ 50503907384779849179363696987365820920550266664725850379172394941928600753056,
      Sq 44055594435348127377724776487204696907507211677472191898013562979475015236604 42429739443344111101009180864854643934840995240075133943950727810033399125940,
      Mu (h1 hZ) 26963434268030124490232869225365333943046998147329985868172663616110233431931,
      Sq 12557451762293326913331157669484857331203261036770097494796029737875140579109 2093759536408528164284242743012139884704869420313405833732475281822234543320,
      Mu hZ 4187519072817056328568485486024279769409738840626811667464950563644469086640,
      Sq 302875889030172730835508257261864954711796571589235523116062309692813122094 32501554661065117632587754616020420602429528988018768071327284357444162636394,
      Mu (h1 hZ) 7107064703472137553390016727696887278224065643217254122925776710931760452839,
      Sq 872432115734924987056177336061072530496776948103951588060341170229236816343 14748147137949748740956291482818727201045333151296483950176721544914567533414,
      Mu hZ 29496294275899497481912582965637454402090666302592967900353443089829135066828,
      Sq 15027475222894196806802994833546260369442219777489806240295755017393755663346 53948260359721567542274119696704409003664999297441950644488191044406477092230,
      Mu (h1 hZ) 50000476100785037372762746889064864080695006262063619269247590084856389364511,
      Sq 43181665116713136698188955715367298198737136400026736929180695794292625843473 44515768317232271063261481756239127773765769546792205908053633296379924426244,
      Mu (h1 hZ) 31135492015806444414737471008134301620896546760764129796378474588803284032539,
      Sq 16744129403857983848880883224029527869202234408615216835714324570386937728630 23406031479875976190287622315117405470344002729014063530762463257686238346651,
      Mu hZ 46812062959751952380575244630234810940688005458028127061524926515372476693302,
      Sq 37850068221095201532609376676004733302243943230204913968569519245682065798758 20053397329192558677385429933810575192055056840779311658230993351875033839862,
      Mu hZ 40106794658385117354770859867621150384110113681558623316461986703750067679724,
      Sq 27783503836313571807364827048261448516099795568732763446431612612964542792142 16708663600391325496893814386303215718951336423852258071176804598127078675418,
      Mu hZ 33417327200782650993787628772606431437902672847704516142353609196254157350836,
      Sq 19288325560055351098889800220833346942179413715957681929084313983125243625437 37772332504465727034402813483326823212674834138305147805217061502069688456183,
      Mu (h1 hZ) 17648620390273356357020134462309692498714675943790013590705331000182812092417,
      Sq 5379880503608603015662645011603275270871747347862936585646052422776881928169 35504403091260560821622475559839692814317249243850116634599394408270312658508,
      Mu (h1 hZ) 13112761563863023931459458615335431701999506154879951249469996812584060497067,
      Sq 2969883641676465715992858182867023188013124387053393547243056511855074948390 42860087431152966202864257098387324405417080419795366615025887883570298170379,
      Mu (h1 hZ) 27824130243647834693943021692430694884199168506770451210322983763184031520809,
      Sq 13371936354456643101186921399860507608603025770859856301392683399373286973561 39055149719221314094179074278115515738436764140558281335076103197588311646092,
      Mu (h1 hZ) 20214254819784530476572656051887077550238535948296280650423414391220058472235,
      Sq 7057754991910066312719021241026275583892148745792910899088197018028787708689 4535615602949988782075635683249390052422870227313276769988763444564718058364,
      Mu hZ 9071231205899977564151271366498780104845740454626553539977526889129436116728,
      Sq 1421292872991446808646562041911757268817083506367382179209222248878657864297 44607016022225677250846698931554716566043806341810214604828062696591760965131,
      Mu (h1 hZ) 31317987425793256789907905358765479205452620350800147189927333389226957110313,
      Sq 16940990405518270736016949251736900332249812412177729217956439095135253022257 679512780713853392976142000443752018239283806044610245191411626801956353076,
      Mu hZ 1359025561427706785952284000887504036478567612089220490382823253603912706152,
      Sq 31901151257899211189622793396592987097555832481685917612352131763529641104 36147433801360586240376823018520795558553134298874908354171715264459549063408,
      Mu (h1 hZ) 14398822984063074768968153532697637190471276264929534688614638524962533306867,
      Sq 3581006348395142399199090156170830424737054952053116381839638324209366930550 57716499348526498026673275550557966799034778442298219869504698093486851813739,
      Mu (h1 hZ) 57536954078394898341561058596771979671434564551776157719280604183017138807529,
      Sq 57180090737190906568920278713407716585513430123483498344643325457052638228632 49221752235436248758054482962519265258853669575387840333580077054712730506073,
      Mu (h1 hZ) 40547459852214399804323473420694576591072346817955398647431362105468896192197,
      Sq 28397388997746788010120288781175245795404461247498157395448019787066029913299 22985990460697183937793579327343991051717879600708692867527857540739948085058,
      Mu hZ 45971980921394367875587158654687982103435759201417385735055715081479896170116,
      Sq 36503755027782280052174913481232021732654902378845063409453609783886748585528 13842150614149865221490753515315450547956101122411904501405378177383064355384,
      Mu hZ 27684301228299730442981507030630901095912202244823809002810756354766128710768,
      Sq 13237873840041991748115054468211995668817644001014138344461492588407372645449 46826534842617036482719295729397867861534182909801053164039717601967299887723,
      Mu (h1 hZ) 35757025066575975253653098954451781796433373486781824308350643199978034955497,
      Sq 22083802961553281552094008111795423171972614510877806518147529432230595158987 19063591360122394268790519671664987278686070679221204253057167313508086285346,
      Mu hZ 38127182720244788537581039343329974557372141358442408506114334627016172570692,
      Sq 25108486629058182604762270031537733901708592328946374186925699484189209197230 6950612308544398778555003291467036660183773154504304840056636123777957817594,
      Mu hZ 13901224617088797557110006582934073320367546309008609680113272247555915635188,
      Sq 3337776304540138305622174871086675732482979236034894874141310488944279510669 31675227385368015744444296737258672543663545835663610746185983094855694259463,
      Mu (h1 hZ) 5454410152077933777103100970173391160692099338506939472643174185754823698977,
      Sq 513862221556723360922574698963374218844709337260391032506806727898197464371 56629386819010691173693869662474945874075385493419561687850116206626753309450,
      Mu (h1 hZ) 55362729019363284635602246820605937821515778654018841355971440409296941798951,
      Sq 52940261889387949324894721141935558497499586075030821149194200714525062094852 39830559109949269052894843850538660641459566362867506623286613516107964897853,
      Mu (h1 hZ) 21765073601240440394004195196733367356284140392914731226844435028259364975757,
      Sq 8182224398707002008467721216908575577451536385589501723190639146609883214852 32382256570171450459700464967365664365444678677200534347251043326608535040501,
      Mu (h1 hZ) 6868468521684803207615437430387374804254365021580786674773294649260505261053,
      Sq 814837354505072890783862455537010697418578298349000146755849739960538568166 10770080718933603396132372815218562054324415620745431154826779509511625525275,
      Mu hZ 21540161437867206792264745630437124108648831241490862309653559019023251050550,
      Sq 8013994009874995333984039403712644238391650748239393515630351795945873323694 11655289901587283843696196759397598296252348090030928203184709140765349730894,
      Mu hZ 23310579803174567687392393518795196592504696180061856406369418281530699461788,
      Sq 9385496614479507187584469048759426146413506831694861778511263412886577289468 33595853871511274254656519787544548325559980365123400626283635935242998159812,
      Mu (h1 hZ) 9295663124364450797527547070745142724484968397426519232838479866529431499675,
      Sq 1492491473136353278865038247794101705871711909059171547512691974993202294582 42142560655984106926885371669771951476754705391132330725362208786355036889307,
      Mu (h1 hZ) 26389076693310116141985250835199949026874418449444379430995625568753508958665,
      Sq 12028168302554133967131361106541335711110597152217697072855604135757257361578 49736987960891658183576951784861566295438540653665030686447542646498318062703,
      Mu (h1 hZ) 41577931303125218655368411065379178664242088974509779353166293289040071305457,
      Sq 29859110114238887901715269932784988182246388782121032217376695927874080775770 42238956204858761224392203318065444660941046259270248658938330738715906143119,
      Mu (h1 hZ) 26581867791059424736998914131786935395247100185720215298147869473475247466289]"])
    (simp only: hex_pow)

lemma pow_two_4: "hpow 57896044618658097711785492504343953926634992332820282019728792003956564819949 2
    3213876088517980551083924184682325205044405987565585670602751 11056534755336441226498492808108261289195462485940569264063461083603937863743"
  by (rule hpow_chain [OF pow_two_3, where ss = "[
      Sq 12204559049162550310342150530237665829074927673651941421712830138095960084116 56743202418828190299487690276392169986642710679168985893408557713401756601437,
      Mu (h1 hZ) 55590360218998282887189888048440386046650429025517689767088323422846948382925,
      Sq 53376498681951113637923116555672486227874296169243416286995799017973545913985 32517172349936435601343747151815601536943948357360639414076478028126265468860,
      Mu (h1 hZ) 7138300081214773490902001799287249147252904381900996808424164052295966117771,
      Sq 880117603630724050700458535054791890545038521341248147989132133754900587260 39629733900202487660448380607692748089886885696810955631390731723681178758701,
      Mu (h1 hZ) 21363423181746877609111268711041542253138779060801629243052671443405792697453,
      Sq 7883022977623546853432583830024466241380435645787297700012473398221202950969 42915821162324477378190748392751397320905720483652565849266104089333032606628,
      Mu (h1 hZ) 27935597705990857044596004281158840715176448634484849678803416174709500393307,
      Sq 13479290758655103539274013111791317852558241150374412919600780887088754389195 17789719174896679190786012554221246467332226788374152680480654270789044345194,
      Mu hZ 35579438349793358381572025108442492934664453576748305360961308541578088690388,
      Sq 21864989942314422257480581979992467344513913273228370487913995907076453880776 28933451534031563882330835197767586329536205334943591643589266000616171190120,
      Mu hZ 57866903068063127764661670395535172659072410669887183287178532001232342380240,
      Sq 57837776185654502373325086475270774786881495982195931778083657348047190318992 50628445593976045766030592777364073041482881129606307594123046917670387286192,
      Mu (h1 hZ) 43360846569293993820275693050384192156330769926392333168517301831384209752435,
      Sq 32474809420744721242729531283519825114436460525674695294224115819169719552929 36790143394000854193862063007225503560857305482103784356785697228810327848604,
      Mu (h1 hZ) 15684242169343610675938633510107053195079618631387286693842602453664090877259,
      Sq 4248916381885951387519045188649244076209307491911607757082007758231270047393 29716274491135899779840179902379347518403725944035200381361972147546461510124,
      Mu (h1 hZ) 1536504363613701847894867300414741110172459555250118742995152291136358200299,
      Sq 40777322094351150943021912184370417759920186012382985939752721218442368815 5087377492269227278133947052957849012600308326192227255316325938028676198966,
      Mu hZ 10174754984538454556267894105915698025200616652384454510632651876057352397932,
      Sq 1788129736276094883269277072266192172362686574469800587421772222119860461196 26620720167807061960024667924809352799894308901769700838735365663594636677620,
      Mu hZ 53241440335614123920049335849618705599788617803539401677470731327189273355240,
      Sq 48961047126477420790218079424981091007995122616194173222455379438002112610048 35961987867416404843049185113253215501240037414065949332152106707619667210048,
      Mu (h1 hZ) 14027931116174711974312877722162477075845082495311616644575421411282769600147,
      Sq 3398899746887470391157670614969521676539078835291630453772772893246103953723 3032730500296983843100822073734849753942207006198429521512037793515739201482,
      Mu hZ 6065461000593967686201644147469699507884414012396859043024075587031478402964,
      Sq 635446124032282505865965989614742290174211606865086957036102317609105133100 8220463437389623603698213744757264437259727460551955937326706482350783773396,
      Mu hZ 16440926874779247207396427489514528874519454921103911874653412964701567546792,
      Sq 4668783131598041720440118816469797946176876587635082111330651932063688609895 3097485138968853626887549763648554296025987296245411521381900877732334695909,
      Mu hZ 6194970277937707253775099527297108592051974592490823042763801755464669391818,
      Sq 662871824790663965045266821083179359229307001827533299905971075055140474104 29290329557747257180786699441868119469281295616209422273913521702314748244428,
      Mu (h1 hZ) 684614496836416649787906379392285011927598899598562528098251400672931668907,
      Sq 8095492746796962504169350804592242480315270392527643371529363499693560158 56130539301913119508903879117151061844232304746007563889134711254748200582707,
      Mu (h1 hZ) 54365033985168141306022265729958169761829617159194845758540630505539836345465,
      Sq 51049375474192631807774339902978894389659290942252532444025867333186886931203 49641211180289925884242958722908872950678892224079247312185240211987981097578,
      Mu (h1 hZ) 41386377741921754056700424941473791974722792115338212604641688420019397375207,
      Sq 29584616252783592152710584921613924578248142612472545122836982004889720930990 55699155315082698138731130414271843433329356306131400350714451121615133973339,
      Mu (h1 hZ) 53502266011507298565676768324199732940023720279442518681700110239273703126729,
      Sq 49441934888995795846100201658037444048930550649111897559989518682795523584105 14884857249016038105083403737409506772223754511924347487394784515648550928796,
      Mu hZ 29769714498032076210166807474819013544447509023848694974789569031297101857592,
      Sq 15307365246307946825888782069074061503845253185377170402705130973837581168725 3264124566143182854827098461284786254858232446952632986117814082514433143439,
      Mu hZ 6528249132286365709654196922569572509716464893905265972235628165028866286878,
      Sq 736113097430203663969703056262875552398608309654522277504723814038480845259 6427009398625820654187068193689469676241858160459055860555048178462329715093,
      Mu hZ 12854018797251641308374136387378939352483716320918111721110096356924659430186,
      Sq 2853835703775373041814430622580177504821342000060573621834843227735012260527 12011618886652044177683973015347724421659534607045694931010894608580973141473,
      Mu hZ 24023237773304088355367946030695448843319069214091389862021789217161946282946,
      Sq 9968141293830594758694910010595223938172889029391105051455219086464298847516 18504313191788518440903314830911425131620190924876055577286680485355144542232,
      Mu hZ 37008626383577036881806629661822850263240381849752111154573360970710289084464,
      Sq 23656856626744453021404170365714492677656079249781751917588656858403608676649 20488486428577075469413578627204534102064856440297742096096564371102480496395,
      Mu hZ 40976972857154150938827157254409068204129712880595484192193128742204960992790,
      Sq 29002193769811042582141368991701903873985953348237497178160956160036688512245 15230157137021802409836879265251838255862618607120031646915596240627325208595,
      Mu hZ 30460314274043604819673758530503676511725237214240063293831192481254650417190,
      Sq 16025805420470702356980109020037825944744827483279515371612276817194112396895 53103859302003302720263480703178451439888828185575454486058188751306545837745,
      Mu (h1 hZ) 48311673985348507728741468902012948953142664038330626952387585498656526855541,
      Sq 40313943010096725604978657066519115064450448772752759771083834588728587163151 12116548917903420106438026732672726339142088493327229191928074880864079903382,
      Mu hZ 24233097835806840212876053465345452678284176986654458383856149761728159806764,
      Sq 10143059592201156448079252101130233593246221336884982653971847570617487538313 22271603097239893397664431922431647765904614445605890891565730218459735945659,
      Mu hZ 44543206194479786795328863844863295531809228891211781783131460436919471891318,
      Sq 34269996010133816910242579591446204853061184422688904802319599167086009614733 26910582015851604094540215514104704848011755683284147135245813906945001068507,
      Mu hZ 53821164031703208189080431028209409696023511366568294270491627813890002137014,
      Sq 50033084588199673911362795555644721796856196302409271924337780299531018011640 16029955316588096811069012121859886878628700668959955951741696288394242629836,
      Mu hZ 32059910633176193622138024243719773757257401337919911903483392576788485259672,
      Sq 17753162181929155995660559730414894553899061379696090683567942518943299940293 54504149523136701360843626123134235718457374788829202851167888858745274242527,
      Mu (h1 hZ) 51112254427615305009901759741924517510279757244838123682606985713533983665105,
      Sq 45123333897517496002146365200501894166590825725174564979134498200985678548707 24377278775476436052604775248173837208855479826865057153724238936465712905082,
      Mu hZ 48754557550952872105209550496347674417710959653730114307448477872931425810164,
      Sq 41056464178956021426237172540911978800556768914410975287109404695535889887707 18113719414522907254963721437607857399095054638217074767714140232727482239953,
      Mu hZ 36227438829045814509927442875215714798190109276434149535428280465454964479906,
      Sq 22668687174690027022148091007487442172845448044866169660372733519085068395032 48311016797106467274023592917795543254971684598819939124310216952001591675468,
      Mu (h1 hZ) 38725988975554836836261693331247132583308376864819596228891641900046618530987,
      Sq 25903362345611556602350185493311707386778783350568718685551649468018491919741 22739674942253814150849061898125222798326172538676579741659409798824855480960,
      Mu hZ 45479349884507628301698123796250445596652345077353159483318819597649710961920,
      Sq 35725605773954585153145063544328669121686136131410331139299338493408085414441 21574110699430956327439075325791778447475460365387492307506163350443480602891,
      Mu hZ 43148221398861912654878150651583556894950920730774984615012326700886961205782,
      Sq 32157101960039852532919172217768695617160610907562041658670797021687981852936 25100220240849459792606909872321717072176276511164536909157459343355113211260,
      Mu hZ 50200440481698919585213819744643434144352553022329073818314918686710226422520,
      Sq 43527744272610477221211999656933677195064112105245543227958281890375059869743 45013069288003487123871800120346483630812783639227368527453423075749375247293,
      Mu (h1 hZ) 32130093957348876535958107736349013334990574945634455035178054147542185674637,
      Sq 17830975233416458840558922693887061014927155157904067838837850249921974713727 34476289686997269469141992656226107607915227409380425641896126543780251341846,
      Mu (h1 hZ) 11056534755336441226498492808108261289195462485940569264063461083603937863743]"])
    (simp only: hex_pow)

lemma pow_two_5: "hpow 57896044618658097711785492504343953926634992332820282019728792003956564819949 2
    3533694129556768659166595001485837031654967793751237916243212402585239551 37551472053155023094598280749600284614585691400890565658685849766312449902312"
  by (rule hpow_chain [OF pow_two_4, where ss = "[
      Sq 2111490717563912097146416840835614257594110674041268261542899297758636914347 2754736159085013092228914431695897508755377415468239814796744327455444061746,
      Mu hZ 5509472318170026184457828863391795017510754830936479629593488654910888123492,
      Sq 524289447139529778917793415707730929095413079782405100777026495409155843146 48539233550496297362951891193386915825931546254811205661234097431742266554510,
      Mu (h1 hZ) 39182422482334497014118289882429877725228100176802129302739402859527968289071,
      Sq 26517566816462354567069292143190799371166365182157201151564094938096265070317 44597222304666125452679067287228941556381870791619631332163849474400088689208,
      Mu (h1 hZ) 31298399990674153193572642070113929186128749250418980644598906944843612558467,
      Sq 16919805980330138813471674108096281338321907953621997941436402001618426624384 36956290274027036685882128337970133346824768478367541128809266792688680353673,
      Mu (h1 hZ) 16016535929395975659978764171596312767014544623914800237889741581420795887397,
      Sq 4430862675806366589999777138736540462055490873201406554485523486290739888683 32381700466730085105961582262354863162642401678889496823885714631182505698442,
      Mu (h1 hZ) 6867356314802072500137672020365772398649811024958711628042637258408446576935,
      Sq 814573483647853729916543883522152256717222885559289152403727339608340524824 30259981433483356466306807112299503160776954890676519269322281890969149080249,
      Mu (h1 hZ) 2623918248308615220828121720255052394918917448532756518915771777981733340549,
      Sq 118919125117368502699720766645318730207407478380822292918531151451510408665 42592701283692405661886017355966723554599075718947987002132513027763673163316,
      Mu (h1 hZ) 27289357948726713611986542207589493182563159105075691984536234051570781506683,
      Sq 12862865885897449683777373318762225905272488287763929343080205799553241388142 12389868378259119631067393282416989549088475644325993778788292523928520017731,
      Mu hZ 24779736756518239262134786564833979098176951288651987557576585047857040035462,
      Sq 10605825627066352951803434514399964308762033143118146136327543324251785925598 22036987318269591821598259476448051569342194845555389199813573957363037398942,
      Mu hZ 44073974636539183643196518952896103138684389691110778399627147914726074797884,
      Sq 33551778071489997975838705634357012806679398618112868929646474427764971831086 28539759407358503064779520294695300943051072381360365893652348724455019742842,
      Mu hZ 57079518814717006129559040589390601886102144762720731787304697448910039485684,
      Sq 56274508726450328418800403730263863898771161063705210646891764198179012486912 1535974713606791640781328455263094057382090877370462229787336418399241940368,
      Mu hZ 3071949427213583281562656910526188114764181754740924459574672836798483880736,
      Sq 162996856616292076201891652863387925010437948595685053996819233349703661271 8572157128493406637238070236856222056088511883398883100277167678022472406517,
      Mu hZ 17144314256986813274476140473712444112177023766797766200554335356044944813034,
      Sq 5076815061863441977300191284933751533628984561378253438405334233103365032924 30530968129687845456286127291250201522359279568105831158602421429692699284280,
      Mu (h1 hZ) 3165891640717593200786762078156449118083566803391380297476050855428833748611,
      Sq 173118387392141024491143598253971343710024305382891046658014345443593318610 27432188072417805389045907848812760887283595116118383171832601576008303478431,
      Mu hZ 54864376144835610778091815697625521774567190232236766343665203152016606956862,
      Sq 51991457958631342045856910769726130599711200470649081369015971756292366147018 19083964961668314996470382087214154259821488796047397832019420784760295624962,
      Mu hZ 38167929923336629992940764174428308519642977592094795664038841569520591249924,
      Sq 25162183085703531035957969185654340311238534096717633862515072500407943831926 49302489525694114181553829857804005743228917581678594626202922595833322114002,
      Mu (h1 hZ) 40708934432730130651322167211264057559822842830536907232677053187710079408055,
      Sq 28624016607073208339502447522523985442656821711648186554217440658225591322018 5773816455034816956807685350103943683905302067356959911564177489534149545943,
      Mu hZ 11547632910069633913615370700207887367810604134713919823128354979068299091886,
      Sq 2303228600572644604515441976407479583840467241749730231922181880756343400006 4571321251314473797800527581203025250933306049318333865033202356098395517302,
      Mu hZ 9142642502628947595601055162406050501866612098636667730066404712196791034604,
      Sq 1443758593206892706073693312445564359926385478822933483050614370520783624271 31389520937431343299565455122489829771896306867405193430741153670335944054637,
      Mu (h1 hZ) 4882997256204588887345417740635705617157621401990104841753515336715323289325,
      Sq 411835771530711295269466736941711751549428244444664349807287502835999053759 11915738969480545996329514580941295129774764453274165255871033639225452317334,
      Mu hZ 23831477938961091992659029161882590259549528906548330511742067278450904634668,
      Sq 9809639751662067775868092497712082155571803445972882665476354908580563145197 28356743432471282171757513191226168822580636338689499028359177235689098335271,
      Mu hZ 56713486864942564343515026382452337645161272677378998056718354471378196670542,
      Sq 55555083487403914971962245366740448323310995147541568388744238947045138589601 39606351386494918310989517141964504485052347614668177111178006832621721823415,
      Mu (h1 hZ) 21316658154331738910193541779585055043469702896516072202627221661286878826881,
      Sq 7848548512452245011657322428155540755695092003728040721540142662848135844649 12302704839424394469012983673982757042947008702395787978421982280655048085260,
      Mu hZ 24605409678848788938025967347965514085894017404791575956843964561310096170520,
      Sq 10457125170669700630404733762268851047827608662724064566027709665050957541279 55293077644401784050570231119010675983770185931651788405551628190578546895629,
      Mu (h1 hZ) 52690110670145470389354969733677398040905379530483294791374464377200528971309,
      Sq 47952287254136167527364817374228602055575478964344435742379624018542151779471 35112851597871609608760640703041047300524951658112579158789362510538675706502,
      Mu (h1 hZ) 12329658577085121505735788901738140674414910983404876297849933017120786593055,
      Sq 2625748989050924247962147908193502335475020836248935745885877350463653197723 29032159607690683511766275295027160457496445625790229930302393014154582456898,
      Mu (h1 hZ) 168274596723269311747058085710366988357898918760177840875994024352600093847,
      Sq 489089368520581831981221823733181162067762272436095115864495588177096581 23893025395381925524990953281091323538874431810854741337171395849783358765040,
      Mu hZ 47786050790763851049981906562182647077748863621709482674342791699566717530080,
      Sq 39441496655223303039759417915861689489363618844380879985731524478113090040804 38699612695708250264676427381056690759692395434986943047149314186272381607404,
      Mu (h1 hZ) 19503180772758402817567362257769427592749798537153604074569836368588198394859,
      Sq 6569948996693813866186563993342092115179788708656831190911845142749028474803 8413349532164430114265502027926982345011871103733959639934189635098299384834,
      Mu hZ 16826699064328860228531004055853964690023742207467919279868379270196598769668,
      Sq 4890451554444173848410957734683484733226051917653238714885572708029795535170 16344414401327071588779759382951791303302454775016767375772082817796169723894,
      Mu hZ 32688828802654143177559518765903582606604909550033534751544165635592339447788,
      Sq 18456520398370488039843537567843724983955339456682546302112090673107915846248 47802502582406021777872233158481250094152805456663917817123059708930690891592,
      Mu (h1 hZ) 37708960546153945843958973812618546261670618580507553614517327413904816963235,
      Sq 24560671024029498101409192014039894381796529323936523725532495340502637117851 29976982305166980619419751387826872776240866575103317450087191717981232855626,
      Mu (h1 hZ) 2057919991675863527054010271309791625846740817386352880445591432005900891303,
      Sq 73148946875973043763945049487472204489997368460169253866132612661368775116 10124503956394328438929145214746256260815679062697038169769674885442609448725,
      Mu hZ 20249007912788656877858290429492512521631358125394076339539349770885218897450,
      Sq 7082043758824245724250220596714854179926743030333258907231048198507040482565 21285998265214455947346566370106333380714545720854733589173751893950317813315,
      Mu hZ 42571996530428911894693132740212666761429091441709467178347503787900635626630,
      Sq 31303950045713125514061803103590566770527472272055125651918955958412523154392 2717649599606576487746150750109929469042664984592171893070757351435756590892,
      Mu hZ 5435299199213152975492301500219858938085329969184343786141514702871513181784,
      Sq 510267628463283979229419957349098934725685364919538872042369683079085276097 45889143365462797317660772163688083487263744119732978214622351410927670963603,
      Mu (h1 hZ) 33882242112267496923536051823032213047892495906645674409515910817898777107257,
      Sq 19828752345965033556457973704773249036435263245855922458473013709663383726348 54510011752138966085954606580678793658207466057708718491185275831089574747797,
      Mu (h1 hZ) 51123978885619834460123720657013633389779939782597154962641759658222584675645,
      Sq 45144037633531199567604977608352691465566095671607702490554084595641157793117 50557660694201391888484408575764335486145607348324970681699578714128559674992,
      Mu (h1 hZ) 43219276769744686065183324647184717045656222363829659343670365424300554530035,
      Sq 32263100127185969989696863398217510727881883296173420030945626229160108472455 27270047026305811235222602378011249251150996032307529936059293392333216096430,
      Mu hZ 54540094052611622470445204756022498502301992064615059872118586784666432192860,
      Sq 51378671528608940569087741980960467593970222348428561824640594976783518703756 18775736026577511547299140374800142307292845700445282829342924883156224951156,
      Mu hZ 37551472053155023094598280749600284614585691400890565658685849766312449902312]"])
    (simp only: hex_pow)

lemma pow_two_6: "hpow 57896044618658097711785492504343953926634992332820282019728792003956564819949 2
    28948022309329048855892746252171976963317496166410141009864396001978282409974 57896044618658097711785492504343953926634992332820282019728792003956564819948"
  by (rule hpow_chain [OF pow_two_5, where ss = "[
      Sq 24355948021092395447979661187192218210830508252954296606083603713466683562101 30849979329691074803085864551302323330646990033639430341352432944477317792495,
      Mu (h1 hZ) 3803914040724051894386236598260692734658987734458578662976073884998070765041,
      Sq 249926607672856961756551730160719850325956690093267497362037028807101497174 1914886324698652700557349394995539828489925767344885576511561098711385407555,
      Mu hZ 3829772649397305401114698789991079656979851534689771153023122197422770815110,
      Sq 253336106856337575822702567059325284535630038361273611531628918011000249141 8993969827610175513943640807689168959878173054086903624540599504818997398291,
      Mu hZ 17987939655220351027887281615378337919756346108173807249081199009637994796582,
      Sq 5588740563730558779593242541589981380428579260506075958851115525931187564087 44122393081419376329299851538088279408891657670955485089446865876078505311161,
      Mu (h1 hZ) 30348741544180654946814210571832604891148323009090688159164939748200445802373,
      Sq 15908618963214150858240814599460018417688716622806265845449828260147920293585 7756591235324783186140110168872686231929610269469181173771855202017027703964,
      Mu hZ 15513182470649566372280220337745372463859220538938362347543710404034055407928,
      Sq 4156740446654141806491148504172307452323988466306753580168007149530713070092 45340945411707970719984820204654314082039102375912688959375794619007488387876,
      Mu (h1 hZ) 32785846204757843728184147904964674237443212419005095899022797234058411955803,
      Sq 18566237442335113046999040178649889375261089450630111591423940033251326048036 41790722507458083269547517644522702770943780553442493773630824071681560304645,
      Mu (h1 hZ) 25685400396258068827309542784701451615252568774064705527532856139406555789341,
      Sq 11395248118616388282373711563576680904769273097729715614726816996477730129580 41903486634511879400198519613368158860323366245085131864322201314778430222861,
      Mu (h1 hZ) 25910928650365661088611546722392363794011740157349981708915610625600295625773,
      Sq 11596236460477929545566178131854128722048574112252601996863912492986552378007 28846054790843585272476091472365045374913112337979019851412235804673919385886,
      Mu hZ 57692109581687170544952182944730090749826224675958039702824471609347838771772,
      Sq 57488892892568471791421702514207109143894690784151447750986744052104094219481 22961221025933304929473883566500786080839636259902234537901881337279050793515,
      Sq 9106281343991085101820925239539015584070553017230308605775087286567541147175 48342323808170449773040889204505100948837760878596184055482599271248381061150,
      Mu (h1 hZ) 38788602997682801834296285904666247971040529424372086091236406538540197302351,
      Sq 25987193640288435910976862739541649081626749552148071297187051997361557318925 9840580688353752978403539652494271007723033257961945081372010536561914892376,
      Mu hZ 19681161376707505956807079304988542015446066515923890162744021073123829784752,
      Sq 6690407189080634018507799843845558368979872843924222843531373839242004886244 57896044618658097711785492504343953926634992332820282019728792003956564819948]"])
    (simp only: hex_pow)

lemma pow_cofactor_0: "hpow 57896044618658097711785492504343953926634992332820282019728792003956564819949 2
    781764 427094198651976259540344842774561673889945192655078505504941250475370961481"
  by (rule hpow_chain [OF hpow_1, where ss = "[
      Sq hZ 4,
      Sq hZ 16,
      Mu hZ 32,
      Sq hZ 1024,
      Mu hZ 2048,
      Sq hZ 4194304,
      Mu hZ 8388608,
      Sq hZ 70368744177664,
      Mu hZ 140737488355328,
      Sq hZ 19807040628566084398385987584,
      Mu hZ 39614081257132168796771975168,
      Sq hZ 1569275433846670190958947355801916604025588861116008628224,
      Sq 42535295865117307932921825928971026432 808170621437228850725514692650449502208,
      Mu hZ 1616341242874457701451029385300899004416,
      Sq 45 7237005577332262213973186563042994240829374041602535252466099000494570603351,
      Mu hZ 14474011154664524427946373126085988481658748083205070504932198000989141206702,
      Sq 3618502788666131106986593281521497120414687020801267626233049500247285302104 10855508365998393320959779844564491361244061062403802878699148500741858844108,
      Sq 2035407818624698747679958720855842130233261449200713039756090343889099084589 9724726244540227350026469444089023511114471368403406745501320540560340649703,
      Mu hZ 19449452489080454700052938888178047022228942736806813491002641081120681299406,
      Sq 6533800445550465250799034157747312671530035450646038907133699743997849816392 31870387354472496537023520318400764188496154531842713763358455562164427148828,
      Mu (h1 hZ) 5844730090286895362261548132457574450357316730865145506988119120372289477707,
      Sq 590038059651765437572058142766407967583679313528560775747282836245157005982 33953578551210906404265667738376768070872613184561188540868946294943104042931,
      Mu (h1 hZ) 10011112483763715096745842972409582215110234036302095062009100585929643265913,
      Sq 1731074615247051634489172293683676124410868977223555680707173906843900652117 50082932276091518066455387449031094497791709234718174193352973575247037041536,
      Sq 43324204993500061597826158612414131961250850909546105626879919447147686421064 13343768986571359007854455104042816243275199009921288930213888121862028233560,
      Sq 3075446206036701470872393826992783401752763128678510908850634197157076446817 29021988539057075980713355158958070277907045233294037432382353502841631121267,
      Sq 14548071881403119631352764353181880382398089989767971878400320788394391368918 3407135609265206896868709561839435126386824220907048357607326988661354740107,
      Mu hZ 6814271218530413793737419123678870252773648441814096715214653977322709480214,
      Sq 802028749036987574340757424989663227075669220565584140869463940457761020232 40021463743779041745397667549197261276748984932910244056888199122096431277628,
      Sq 27665405654990747157847101006816744579137975244959593346139654333549227807747 427094198651976259540344842774561673889945192655078505504941250475370961481]"])
    (simp only: hex_pow)

lemma p25519_literal: "p25519
    = 57896044618658097711785492504343953926634992332820282019728792003956564819949"
  by (simp add: p25519_def)

lemma two_half: "is_pow p25519 2
    28948022309329048855892746252171976963317496166410141009864396001978282409974 (- 1)"
  unfolding p25519_literal
  by (rule is_pow_cong [OF hpow_is_pow [OF pow_two_6, unfolded of_nat_numeral]]) simp

theorem prime_p25519: "is_prime p25519"
proof (rule pocklington [OF p25519_gt1 prime_236bit])
  let ?c = "427094198651976259540344842774561673889945192655078505504941250475370961481 :: int"
  have c: "is_pow p25519 2 781764 ?c"
    using hpow_is_pow [OF pow_cofactor_0] by (simp only: of_nat_numeral p25519_literal)
  have e: "781764 * 74058212732561358302231226437062788676166966415465897661863160754340907
    = 28948022309329048855892746252171976963317496166410141009864396001978282409974 + (28948022309329048855892746252171976963317496166410141009864396001978282409974 :: nat)" by simp
  have "is_pow p25519 2 (781764 * 74058212732561358302231226437062788676166966415465897661863160754340907) 1"
    unfolding e by (rule is_pow_mult [OF two_half two_half, where q = 0 and a = p25519 and b = 0]) simp_all
  then have "is_pow p25519 ?c 74058212732561358302231226437062788676166966415465897661863160754340907 1"
    by (rule is_pow_base [OF c])
  then show "p25519 dvd ?c ^ nat 74058212732561358302231226437062788676166966415465897661863160754340907 - 1"
    unfolding nat_numeral by (rule is_pow_dvd)
  have "ck_inv 57896044618658097711785492504343953926634992332820282019728792003956564819949 427094198651976259540344842774561673889945192655078505504941250475370961481
      55540832096118778044507775605005710249233119951144946814680141076505643269084
      409719996120619553712206717513598108624848060785013849502386565616653579131" by (simp only: hex_pow)
  from ck_inv_coprime [OF hpow_1 this] show "coprime (?c - 1) p25519" by (simp add: h1_def hZ_def p25519_def)
qed (simp add: p25519_def)

end
