(* ===== verification/GfField.thy ===== *)
theory GfField
  imports PrimeCert
begin

text \<open>
  The integers modulo \<open>2 ^ 255 - 19\<close> form a field, with the inverse as the power \<open>p - 2\<close>
  that \<open>fe_invert\<close> computes.
\<close>

lemma gf_power_pred:
  fixes x :: gf
  assumes "x \<noteq> 0"
  shows "x ^ (2 ^ 255 - 20) = 1"
proof -
  let ?v = "Rep_gf x"
  have x: "of_int ?v = x" by (rule gf_of_int_Rep)
  have "\<not> p25519 dvd ?v" using assms x of_int_gf_zero_iff [of ?v] by (auto simp: dvd_eq_mod_eq_0)
  then have "p25519 dvd ?v ^ nat (p25519 - 1) - 1" by (rule fermat_little [OF prime_p25519])
  then have "(of_int (?v ^ nat (p25519 - 1)) :: gf) = of_int 1"
    by (simp only: of_int_gf_eq_iff mod_eq_dvd_iff)
  moreover have "nat (p25519 - 1) = 2 ^ 255 - 20" by (simp add: p25519_def)
  ultimately show ?thesis by (simp only: of_int_power of_int_1 x)
qed

instantiation gf :: field
begin

definition inverse_gf :: "gf \<Rightarrow> gf" where
  "inverse_gf x = x ^ (2 ^ 255 - 21)"

definition divide_gf :: "gf \<Rightarrow> gf \<Rightarrow> gf" where
  "divide_gf x y = x * inverse y"

instance
proof
  fix a b :: gf
  show "a div b = a * inverse b" by (rule divide_gf_def)
  show "inverse (0 :: gf) = 0" unfolding inverse_gf_def by (rule power_0_left [THEN trans]) simp
  assume "a \<noteq> 0"
  have "(2 :: nat) ^ 255 - 20 = Suc (2 ^ 255 - 21)" by simp
  then show "inverse a * a = 1"
    using gf_power_pred [OF \<open>a \<noteq> 0\<close>] by (simp only: inverse_gf_def power_Suc mult.commute)
qed

end

lemma gf_dvd_1_iff: "(x :: gf) dvd 1 \<longleftrightarrow> x \<noteq> 0"
  by (simp add: dvd_field_iff)

section \<open>Squares\<close>

text \<open>
  An element whose power \<open>(p - 1) / 2\<close> is -1 is not a square; 2 is one by the certificate.
\<close>

lemma two_not_square: "x * x \<noteq> (2 :: gf)"
proof
  let ?h = "28948022309329048855892746252171976963317496166410141009864396001978282409974 :: nat"
  assume x: "x * x = (2 :: gf)"
  have n0: "(2 :: gf) \<noteq> 0"
    using of_int_gf_zero_iff [of 2] by (simp add: p25519_def)
  then have "x \<noteq> 0" using x by auto
  have "(of_int (2 ^ ?h) :: gf) = of_int (- 1)"
    using two_half unfolding is_pow_def by (simp only: of_int_gf_eq_iff)
  then have "(2 :: gf) ^ ?h = - 1" by (simp only: of_int_power of_int_numeral of_int_minus of_int_1)
  moreover have "(2 :: gf) ^ ?h = x ^ (2 ^ 255 - 20)"
  proof -
    have e: "2 ^ 255 - 20 = ?h + ?h" by simp
    show ?thesis unfolding e power_add by (simp only: x flip: power_mult_distrib)
  qed
  ultimately have "(- 1 :: gf) = 1" using gf_power_pred [OF \<open>x \<noteq> 0\<close>] by (simp only:)
  then have "(2 :: gf) = 0" by (metis add.right_inverse one_add_one)
  then show False using n0 by simp
qed

end
