(* ===== verification/EdGroup.thy ===== *)
theory EdGroup
  imports Curve GfField
begin

text \<open>
  The points of the curve form an abelian group: the addition law has no exceptional cases
  because \<open>d\<close> is not a square and -1 is one, and it is associative.  The group is a type of
  its own with the library's class, and integer multiples of its points are defined here.
\<close>

section \<open>The constants of the curve\<close>

definition ed_i :: gf where
  "ed_i = fe_gf fe_sqrtm1"

lemma ed_i_square: "ed_i * ed_i = - 1"
proof -
  have "(fe_val fe_sqrtm1 * fe_val fe_sqrtm1) mod p25519 = (- 1) mod p25519"
    by (simp add: fe_val_def fe_value_expand fe_sqrtm1_def p25519_def)
  then have "(of_int (fe_val fe_sqrtm1 * fe_val fe_sqrtm1) :: gf) = of_int (- 1)"
    by (simp only: of_int_gf_eq_iff)
  then show ?thesis by (simp add: ed_i_def fe_gf_def)
qed

lemma gf_two_nonzero: "(2 :: gf) \<noteq> 0"
  using of_int_gf_zero_iff [of 2] by (simp add: p25519_def)

lemma ed_d_twice_square: "\<exists>s. s \<noteq> 0 \<and> ed_d = 2 * (s * s)"
proof -
  let ?s = "30152228160694284937144285544751646460505239448795619900082871953631125353365 :: int"
  have "fe_val fe_d mod p25519 = (2 * (?s * ?s)) mod p25519"
    by (simp add: fe_val_def fe_value_expand fe_d_def p25519_def)
  then have "ed_d = of_int (2 * (?s * ?s))"
    by (simp only: ed_d_def fe_gf_def of_int_gf_eq_iff)
  also have "\<dots> = 2 * (of_int ?s * of_int ?s)" by (simp only: of_int_mult of_int_numeral)
  finally have d: "ed_d = 2 * (of_int ?s * of_int ?s)" .
  have "(of_int ?s :: gf) \<noteq> 0" by (simp only: of_int_gf_zero_iff) (simp add: p25519_def)
  with d show ?thesis by blast
qed

lemma ed_d_not_square: "x * x \<noteq> ed_d"
proof
  assume x: "x * x = ed_d"
  obtain s where s: "s \<noteq> 0" "ed_d = 2 * (s * s)" using ed_d_twice_square by blast
  have "(x / s) * (x / s) = 2" using s x by (simp add: field_simps)
  then show False using two_not_square by blast
qed

lemma ed_d_scaled_square:
  assumes "a * a = ed_d * (b * b)"
  shows "b = 0"
proof (rule ccontr)
  assume "b \<noteq> 0"
  then have "(a / b) * (a / b) = ed_d" using assms by (simp add: field_simps)
  then show False using ed_d_not_square by blast
qed

lemma ed_complete_aux:
  assumes "on_curve (x1, y1)" and "on_curve (x2, y2)"
  shows "(ed_d * x1 * x2 * y1 * y2) * (ed_d * x1 * x2 * y1 * y2) \<noteq> 1"
proof
  let ?e = "ed_d * x1 * x2 * y1 * y2"
  assume e: "?e * ?e = 1"
  have c: "y1 * y1 - x1 * x1 = 1 + ed_d * x1 * x1 * y1 * y1" "y2 * y2 - x2 * x2 = 1 + ed_d * x2 * x2 * y2 * y2"
    using assms by (simp_all add: power2_eq_square ac_simps)
  have n: "x1 \<noteq> 0" "y1 \<noteq> 0" "x2 \<noteq> 0" "y2 \<noteq> 0" using e by auto
  have sq: "(ed_i * x1 + f * y1) * (ed_i * x1 + f * y1)
      = ed_d * ((x1 * y1 * (ed_i * x2 + s * y2)) * (x1 * y1 * (ed_i * x2 + s * y2)))"
    if "f = s * ?e" "s * s = 1" for f s
    using c e that ed_i_square by algebra
  have "x1 * y1 * (ed_i * x2 + 1 * y2) = 0"
    by (rule ed_d_scaled_square [OF sq [OF refl]]) simp
  moreover have "x1 * y1 * (ed_i * x2 + (- 1) * y2) = 0"
    by (rule ed_d_scaled_square [OF sq [OF refl]]) simp
  ultimately have "ed_i * x2 + y2 = 0" "ed_i * x2 - y2 = 0" using n by simp_all
  then have "2 * y2 = 0" by (metis add_diff_cancel_left' diff_add_cancel diff_add_eq mult_2 diff_0 diff_self add.commute minus_diff_eq)
  then show False using n gf_two_nonzero by simp
qed

lemma ed_complete:
  assumes "on_curve (x1, y1)" and "on_curve (x2, y2)"
  shows "1 + ed_d * x1 * x2 * y1 * y2 \<noteq> 0" and "1 - ed_d * x1 * x2 * y1 * y2 \<noteq> 0"
  using ed_complete_aux [OF assms]
  by (metis add_eq_0_iff minus_mult_minus mult_1, metis eq_iff_diff_eq_0 mult_1)

section \<open>Associativity\<close>

text \<open>The two coordinates, with denominators cleared; the premises are the curve equations.\<close>

lemma ed_assoc_x:
  fixes x1 y1 x2 y2 x3 y3 d :: "'a::field"
  assumes "y1 * y1 - x1 * x1 = 1 + d * x1 * x1 * y1 * y1"
    and "y2 * y2 - x2 * x2 = 1 + d * x2 * x2 * y2 * y2"
    and "y3 * y3 - x3 * x3 = 1 + d * x3 * x3 * y3 * y3"
  shows "((x1 * y2 + y1 * x2) * (1 - d * x1 * x2 * y1 * y2) * y3
       + (y1 * y2 + x1 * x2) * (1 + d * x1 * x2 * y1 * y2) * x3)
     * ((1 + d * x2 * x3 * y2 * y3) * (1 - d * x2 * x3 * y2 * y3)
       + d * (x2 * y3 + y2 * x3) * (y2 * y3 + x2 * x3) * x1 * y1)
    = (x1 * (y2 * y3 + x2 * x3) * (1 + d * x2 * x3 * y2 * y3)
       + y1 * (x2 * y3 + y2 * x3) * (1 - d * x2 * x3 * y2 * y3))
     * ((1 + d * x1 * x2 * y1 * y2) * (1 - d * x1 * x2 * y1 * y2)
       + d * (x1 * y2 + y1 * x2) * (y1 * y2 + x1 * x2) * x3 * y3)"
  using assms by algebra

lemma ed_assoc_y:
  fixes x1 y1 x2 y2 x3 y3 d :: "'a::field"
  assumes "y1 * y1 - x1 * x1 = 1 + d * x1 * x1 * y1 * y1"
    and "y2 * y2 - x2 * x2 = 1 + d * x2 * x2 * y2 * y2"
    and "y3 * y3 - x3 * x3 = 1 + d * x3 * x3 * y3 * y3"
  shows "((y1 * y2 + x1 * x2) * (1 + d * x1 * x2 * y1 * y2) * y3
       + (x1 * y2 + y1 * x2) * (1 - d * x1 * x2 * y1 * y2) * x3)
     * ((1 + d * x2 * x3 * y2 * y3) * (1 - d * x2 * x3 * y2 * y3)
       - d * (x2 * y3 + y2 * x3) * (y2 * y3 + x2 * x3) * x1 * y1)
    = (y1 * (y2 * y3 + x2 * x3) * (1 + d * x2 * x3 * y2 * y3)
       + x1 * (x2 * y3 + y2 * x3) * (1 - d * x2 * x3 * y2 * y3))
     * ((1 + d * x1 * x2 * y1 * y2) * (1 - d * x1 * x2 * y1 * y2)
       - d * (x1 * y2 + y1 * x2) * (y1 * y2 + x1 * x2) * x3 * y3)"
  using assms by algebra

section \<open>The sum of two points\<close>

fun ed_plus :: "point \<Rightarrow> point \<Rightarrow> point" where
  "ed_plus (x1, y1) (x2, y2) =
     ((x1 * y2 + y1 * x2) / (1 + ed_d * x1 * x2 * y1 * y2),
      (y1 * y2 + x1 * x2) / (1 - ed_d * x1 * x2 * y1 * y2))"

lemma ed_sum_plus: "on_curve P \<Longrightarrow> on_curve Q \<Longrightarrow> ed_sum P Q (ed_plus P Q)"
  using ed_complete by (cases P; cases Q) (auto simp: gf_dvd_1_iff)

lemma ed_plus_on_curve: "on_curve P \<Longrightarrow> on_curve Q \<Longrightarrow> on_curve (ed_plus P Q)"
  by (rule ed_sum_on_curve [OF _ _ ed_sum_plus])

lemma ed_plus_commute: "ed_plus P Q = ed_plus Q P"
  by (cases P; cases Q) (simp add: ac_simps)

lemma ed_plus_zero: "ed_plus ed_zero P = P"
  by (cases P) (simp add: ed_zero_def)

text \<open>Sums of fractions, as they arise when a sum is added to a third point.\<close>

lemma fraction_sum:
  fixes n m u v x y d :: "'a::field"
  assumes "u \<noteq> 0" and "v \<noteq> 0"
  shows "(n / u * y + m / v * x) / (1 + d * (n / u) * x * (m / v) * y)
      = (n * v * y + m * u * x) / (u * v + d * n * m * x * y)"
    and "(m / v * y + n / u * x) / (1 - d * (n / u) * x * (m / v) * y)
      = (m * u * y + n * v * x) / (u * v - d * n * m * x * y)"
proof -
  have "n / u * y + m / v * x = (n * v * y + m * u * x) / (u * v)"
    "m / v * y + n / u * x = (m * u * y + n * v * x) / (u * v)"
    "1 + d * (n / u) * x * (m / v) * y = (u * v + d * n * m * x * y) / (u * v)"
    "1 - d * (n / u) * x * (m / v) * y = (u * v - d * n * m * x * y) / (u * v)"
    using assms by (simp_all add: field_simps)
  then show "(n / u * y + m / v * x) / (1 + d * (n / u) * x * (m / v) * y)
      = (n * v * y + m * u * x) / (u * v + d * n * m * x * y)"
    "(m / v * y + n / u * x) / (1 - d * (n / u) * x * (m / v) * y)
      = (m * u * y + n * v * x) / (u * v - d * n * m * x * y)"
    using assms by simp_all
qed

lemma ed_plus_fraction:
  assumes "on_curve (n / u, m / v)" and "on_curve (x, y)" and "u \<noteq> 0" and "v \<noteq> 0"
  shows "ed_plus (n / u, m / v) (x, y)
      = ((n * v * y + m * u * x) / (u * v + ed_d * n * m * x * y),
         (m * u * y + n * v * x) / (u * v - ed_d * n * m * x * y))"
    and "u * v + ed_d * n * m * x * y \<noteq> 0" and "u * v - ed_d * n * m * x * y \<noteq> 0"
proof -
  show "ed_plus (n / u, m / v) (x, y)
      = ((n * v * y + m * u * x) / (u * v + ed_d * n * m * x * y),
         (m * u * y + n * v * x) / (u * v - ed_d * n * m * x * y))"
    unfolding ed_plus.simps by (simp only: fraction_sum [OF assms(3,4)])
  have "1 + ed_d * (n / u) * x * (m / v) * y = (u * v + ed_d * n * m * x * y) / (u * v)"
    "1 - ed_d * (n / u) * x * (m / v) * y = (u * v - ed_d * n * m * x * y) / (u * v)"
    using assms(3,4) by (simp_all add: field_simps)
  then show "u * v + ed_d * n * m * x * y \<noteq> 0" "u * v - ed_d * n * m * x * y \<noteq> 0"
    using ed_complete [OF assms(1,2)] by auto
qed

lemma ed_plus_assoc:
  assumes "on_curve P" and "on_curve Q" and "on_curve R"
  shows "ed_plus (ed_plus P Q) R = ed_plus P (ed_plus Q R)"
proof -
  obtain x1 y1 x2 y2 x3 y3 where PQR: "P = (x1, y1)" "Q = (x2, y2)" "R = (x3, y3)"
    by (metis surj_pair)
  let ?u = "1 + ed_d * x1 * x2 * y1 * y2" and ?v = "1 - ed_d * x1 * x2 * y1 * y2"
  let ?s = "1 + ed_d * x2 * x3 * y2 * y3" and ?t = "1 - ed_d * x2 * x3 * y2 * y3"
  have c: "y1 * y1 - x1 * x1 = 1 + ed_d * x1 * x1 * y1 * y1" "y2 * y2 - x2 * x2 = 1 + ed_d * x2 * x2 * y2 * y2"
    "y3 * y3 - x3 * x3 = 1 + ed_d * x3 * x3 * y3 * y3"
    using assms by (simp_all add: PQR power2_eq_square ac_simps)
  have nz: "?u \<noteq> 0" "?v \<noteq> 0" "?s \<noteq> 0" "?t \<noteq> 0"
    using ed_complete [of x1 y1 x2 y2] ed_complete [of x2 y2 x3 y3] assms by (simp_all add: PQR)
  note o = ed_plus_on_curve [OF assms(1,2), unfolded PQR ed_plus.simps]
    ed_plus_on_curve [OF assms(2,3), unfolded PQR ed_plus.simps]
  note l = ed_plus_fraction [OF o(1) assms(3) [unfolded PQR] nz(1,2)]
  note r = ed_plus_fraction [OF o(2) assms(1) [unfolded PQR] nz(3,4)]
  have L: "ed_plus (ed_plus P Q) R = ed_plus ((x1 * y2 + y1 * x2) / ?u, (y1 * y2 + x1 * x2) / ?v) (x3, y3)"
    by (simp only: PQR ed_plus.simps)
  have R: "ed_plus P (ed_plus Q R) = ed_plus ((x2 * y3 + y2 * x3) / ?s, (y2 * y3 + x2 * x3) / ?t) (x1, y1)"
    unfolding ed_plus_commute [of P] by (simp only: PQR ed_plus.simps)
  show ?thesis
    unfolding L R l(1) r(1) prod.inject frac_eq_eq [OF l(2) r(2)] frac_eq_eq [OF l(3) r(3)]
    using ed_assoc_x [OF c] ed_assoc_y [OF c] by (simp only: ac_simps)
qed

section \<open>The group of points\<close>

typedef ed = "{P. on_curve P}"
  using ed_zero_on_curve by blast

setup_lifting type_definition_ed

instantiation ed :: ab_group_add
begin

lift_definition zero_ed :: ed is ed_zero by (rule ed_zero_on_curve)

lift_definition plus_ed :: "ed \<Rightarrow> ed \<Rightarrow> ed" is ed_plus by (rule ed_plus_on_curve)

lift_definition uminus_ed :: "ed \<Rightarrow> ed" is ed_neg by (rule ed_neg_on_curve)

definition minus_ed :: "ed \<Rightarrow> ed \<Rightarrow> ed" where
  "minus_ed P Q = P + - Q"

instance
proof
  fix P Q R :: ed
  show "P + Q + R = P + (Q + R)" by transfer (rule ed_plus_assoc)
  show "P + Q = Q + P" by transfer (rule ed_plus_commute)
  show "0 + P = P" by transfer (rule ed_plus_zero)
  show "- P + P = 0"
    by transfer (use ed_sum_neg ed_sum_plus ed_neg_on_curve ed_plus_commute in metis)
  show "P - Q = P + - Q" by (rule minus_ed_def)
qed

end

lemma Rep_ed_on_curve [simp]: "on_curve (Rep_ed P)"
  using Rep_ed [of P] by simp

lemma Rep_ed_sum: "ed_sum (Rep_ed P) (Rep_ed Q) (Rep_ed (P + Q))"
  unfolding plus_ed.rep_eq by (rule ed_sum_plus) simp_all

lemma Rep_ed_diff: "ed_sum (Rep_ed P) (ed_neg (Rep_ed Q)) (Rep_ed (P - Q))"
  using Rep_ed_sum [of P "- Q"] by (simp only: minus_ed_def uminus_ed.rep_eq)

section \<open>Integer multiples\<close>

definition zmul :: "int \<Rightarrow> 'a::ab_group_add \<Rightarrow> 'a" where
  "zmul k P = (if 0 \<le> k then ((+) P ^^ nat k) 0 else - ((+) P ^^ nat (- k)) 0)"

lemma zmul_0 [simp]: "zmul 0 P = 0"
  by (simp add: zmul_def)

lemma zmul_1 [simp]: "zmul 1 P = P"
  by (simp add: zmul_def)

lemma zmul_minus: "zmul (- k) P = - zmul k P"
  by (simp add: zmul_def)

lemma zmul_Suc: "zmul (k + 1) P = zmul k P + P"
proof (cases "0 \<le> k")
  case True
  then have "nat (k + 1) = Suc (nat k)" by simp
  with True show ?thesis by (simp add: zmul_def add.commute)
next
  case False
  then have "nat (- k) = Suc (nat (- (k + 1)))" by simp
  with False show ?thesis by (auto simp: zmul_def)
qed

lemma zmul_add: "zmul (j + k) P = zmul j P + zmul k P"
proof (induction k rule: int_induct [where k = 0])
  case (step1 k)
  then show ?case using zmul_Suc [of "j + k" P] zmul_Suc [of k P] by (simp add: add.assoc)
next
  case (step2 k)
  then show ?case
    using zmul_Suc [of "j + k - 1" P] zmul_Suc [of "k - 1" P] by (simp add: algebra_simps)
qed simp

lemma zmul_diff: "zmul (j - k) P = zmul j P - zmul k P"
  using zmul_add [of j "- k" P] by (simp add: zmul_minus)

lemma zmul_mult: "zmul (j * k) P = zmul j (zmul k P)"
proof (induction j rule: int_induct [where k = 0])
  case (step1 j)
  then show ?case by (simp add: distrib_right zmul_add)
next
  case (step2 j)
  then show ?case by (simp add: left_diff_distrib zmul_diff)
qed simp

lemma zmul_plus: "zmul k (P + Q) = zmul k P + zmul k Q"
proof (induction k rule: int_induct [where k = 0])
  case (step1 k)
  then show ?case by (simp add: zmul_add)
next
  case (step2 k)
  then show ?case by (simp add: zmul_diff)
qed simp

lemma zmul_2: "zmul 2 P = P + P"
  using zmul_add [of 1 1 P] by simp

end
