(* ===== verification/GeGroup.thy ===== *)
theory GeGroup
  imports GeCorrect EdGroup
begin

text \<open>
  The group operations on the type of curve points, without side conditions: every routine
  that adds, subtracts, doubles, negates or selects returns a representation of the group
  element.
\<close>

abbreviation p2_is :: "ed \<Rightarrow> ge_p2 \<Rightarrow> bool" where
  "p2_is P \<equiv> rep_p2 (Rep_ed P)"

abbreviation p3_is :: "ed \<Rightarrow> ge_p3 \<Rightarrow> bool" where
  "p3_is P \<equiv> rep_p3 (Rep_ed P)"

abbreviation p1p1_is :: "ed \<Rightarrow> ge_p1p1 \<Rightarrow> bool" where
  "p1p1_is P \<equiv> rep_p1p1 (Rep_ed P)"

abbreviation cached_is :: "ed \<Rightarrow> ge_cached \<Rightarrow> bool" where
  "cached_is P \<equiv> rep_cached (Rep_ed P)"

abbreviation precomp_is :: "ed \<Rightarrow> ge_precomp \<Rightarrow> bool" where
  "precomp_is P \<equiv> rep_precomp (Rep_ed P)"

named_theorems ge_rules

lemma ge_add_ed [ge_rules]: "p3_is P p \<Longrightarrow> cached_is Q q \<Longrightarrow> p1p1_is (P + Q) (ge_add p q)"
  by (rule ge_add_rep [OF _ _ Rep_ed_sum])

lemma ge_sub_ed [ge_rules]: "p3_is P p \<Longrightarrow> cached_is Q q \<Longrightarrow> p1p1_is (P - Q) (ge_sub p q)"
  by (rule ge_sub_rep [OF _ _ Rep_ed_diff])

lemma ge_madd_ed [ge_rules]: "p3_is P p \<Longrightarrow> precomp_is Q q \<Longrightarrow> p1p1_is (P + Q) (ge_madd p q)"
  by (rule ge_madd_rep [OF _ _ Rep_ed_sum])

lemma ge_msub_ed [ge_rules]: "p3_is P p \<Longrightarrow> precomp_is Q q \<Longrightarrow> p1p1_is (P - Q) (ge_msub p q)"
  by (rule ge_msub_rep [OF _ _ Rep_ed_diff])

lemma ge_p2_dbl_ed [ge_rules]: "p2_is P p \<Longrightarrow> p1p1_is (P + P) (ge_p2_dbl p)"
  by (rule ge_p2_dbl_rep [OF _ Rep_ed_sum])

lemma ge_p3_dbl_ed [ge_rules]: "p3_is P p \<Longrightarrow> p1p1_is (P + P) (ge_p3_dbl p)"
  by (rule ge_p3_dbl_rep [OF _ Rep_ed_sum])

lemmas ge_conv_ed [ge_rules] = ge_p1p1_to_p2_rep ge_p1p1_to_p3_rep ge_p3_to_p2_rep ge_p3_to_cached_rep

lemma ge_p2_0_ed [ge_rules]: "p2_is 0 ge_p2_0"
  using ge_p2_0_rep by (simp add: zero_ed.rep_eq)

lemma ge_p3_0_ed [ge_rules]: "p3_is 0 ge_p3_0"
  using ge_p3_0_rep by (simp add: zero_ed.rep_eq)

lemma ge_cached_0_ed: "cached_is 0 ge_cached_0"
  using ed_zero_on_curve fe_is_mono [OF fe_is_0, of 130] fe_is_mono [OF fe_is_1, of 130] fe_is_mono [OF fe_is_1, of 260]
  by (auto simp: zero_ed.rep_eq ed_zero_def ge_cached_0_def intro!: exI [of _ 1])

lemma ge_precomp_0_ed: "precomp_is 0 ge_precomp_0"
  using ed_zero_on_curve fe_is_mono [OF fe_is_0, of 130] fe_is_mono [OF fe_is_1, of 130]
  by (simp add: zero_ed.rep_eq ed_zero_def ge_precomp_0_def)

lemma ge_cached_neg_ed:
  assumes "cached_is P c"
  shows "cached_is (- P) \<lparr>YplusX = fe_copy (YminusX c), YminusX = fe_copy (YplusX c),
      cached_Z = fe_copy (cached_Z c), T2d = fe_neg (T2d c)\<rparr>"
proof -
  obtain x y where P: "Rep_ed P = (x, y)" by (metis surj_pair)
  obtain z where z: "z dvd 1" "fe_is 260 ((y + x) * z) (YplusX c)" "fe_is 260 ((y - x) * z) (YminusX c)"
    "fe_is 130 z (cached_Z c)" "fe_is 130 (2 * ed_d * x * y * z) (T2d c)" using assms by (auto simp: P)
  have "fe_is 130 (- (2 * ed_d * x * y * z)) (fe_neg (T2d c))" using fe_is_neg [OF z(5)] by simp
  then show ?thesis
    using z fe_is_copy [OF z(2)] fe_is_copy [OF z(3)] fe_is_copy [OF z(4)] Rep_ed_on_curve [of "- P"]
    by (auto simp: uminus_ed.rep_eq P)
qed

lemma ge_precomp_neg_ed:
  assumes "precomp_is P c"
  shows "precomp_is (- P) \<lparr>yplusx = fe_copy (yminusx c), yminusx = fe_copy (yplusx c), xy2d = fe_neg (xy2d c)\<rparr>"
proof -
  obtain x y where P: "Rep_ed P = (x, y)" by (metis surj_pair)
  have z: "fe_is 130 (y + x) (yplusx c)" "fe_is 130 (y - x) (yminusx c)" "fe_is 130 (2 * ed_d * x * y) (xy2d c)"
    using assms by (auto simp: P)
  show ?thesis
    using fe_is_copy [OF z(1)] fe_is_copy [OF z(2)] fe_is_neg [OF z(3)] Rep_ed_on_curve [of "- P"]
    by (simp add: uminus_ed.rep_eq P)
qed

section \<open>Branch-free selection\<close>

lemma drop_bit_small: "uint (w :: 'a::len word) < 2 ^ n \<Longrightarrow> drop_bit n w = 0"
  by (rule word_uint_eqI, simp add: unsigned_drop_bit_eq) (simp add: drop_bit_eq_div take_bit_int_eq_self)

lemma xor_zero_iff: "a XOR b = (0 :: 'a::len word) \<longleftrightarrow> a = b"
  by (metis xor.assoc xor.left_neutral xor_self_eq)

lemma equal_schar_flag: "equal_schar b c = of_bool (b = c)"
proof (cases "b = c")
  case True
  then show ?thesis by (simp add: equal_schar_def Let_def)
next
  case False
  let ?x = "b XOR c"
  have "uint ?x \<noteq> 0" using False by (simp add: uint_0_iff xor_zero_iff)
  moreover have "0 \<le> uint ?x" "uint ?x < 256" using uint_lt2p [of ?x] by simp_all
  ultimately have "1 \<le> uint ?x" "uint ?x < 256" by linarith+
  moreover have "(ucast ?x :: u32) - 1 = word_of_int (uint ?x - 1)" by simp
  ultimately have "uint ((ucast ?x :: u32) - 1) < 2 ^ 31"
    by (simp add: uint_word_of_int_eq take_bit_int_eq_self del: of_int_diff)
  then have "drop_bit 31 ((ucast ?x :: u32) - 1) = 0" by (rule drop_bit_small)
  then show ?thesis using False by (simp add: equal_schar_def Let_def)
qed

lemma negative_flag: "negative b = of_bool (sint b < 0)"
proof -
  have "drop_bit 63 (scast b :: u64) = of_bool (bit b 7)"
    by (rule bit_word_eqI) (auto simp: bit_simps bit_signed_iff min_def)
  moreover have "bit b 7 \<longleftrightarrow> sint b < 0" using bit_last_iff [of b] by simp
  ultimately show ?thesis by (simp add: negative_def Let_def)
qed

lemma schar_abs_val: "schar_abs b = (if sint b < 0 then - b else b)"
proof -
  have n: "(ucast (word_of_int k :: i32) :: u8) = word_of_int k" for k
    by (rule bit_word_eqI) (auto simp: bit_simps)
  have b: "(scast b :: i32) = word_of_int (sint b)" "b = word_of_int (sint b)"
    by (rule scast_of_int, rule word_of_sint [OF refl])
  have "(ucast (scast b :: i32) :: u8) = b" by (metis n b)
  moreover have "(ucast (- (scast b :: i32)) :: u8) = - b" by (metis n b of_int_minus)
  moreover have "(scast b :: i32) - push_bit 1 (- 1 AND scast b) = - scast b"
    unfolding and.left_neutral by (simp add: push_bit_eq_mult)
  ultimately show ?thesis by (cases "sint b < 0") (simp_all add: schar_abs_def Let_def negative_flag del: push_bit_and)
qed

lemma ge_cached_cmov_flag:
  assumes "cached_is P t" and "cached_is Q u"
  shows "ge_cached_cmov t u (of_bool c) = Some (if c then u else t)"
proof -
  have l: "length (YplusX t) = 10 \<and> length (YminusX t) = 10 \<and> length (cached_Z t) = 10 \<and> length (T2d t) = 10"
    if "cached_is P t" for P t using that by (cases "Rep_ed P") (auto dest: fe_is_length)
  have "fe_cmov f g (ucast (of_bool c :: u8)) = Some (if c then g else f)" if "length f = 10" "length g = 10" for f g
    using fe_cmov_flag [OF that, of c] by (cases c) simp_all
  then show ?thesis
    using l [OF assms(1)] l [OF assms(2)] by (cases c) (simp_all add: ge_cached_cmov_def)
qed

lemma ge_precomp_cmov_flag:
  assumes "precomp_is P t" and "precomp_is Q u"
  shows "ge_precomp_cmov t u (of_bool c) = Some (if c then u else t)"
proof -
  have l: "length (yplusx t) = 10 \<and> length (yminusx t) = 10 \<and> length (xy2d t) = 10"
    if "precomp_is P t" for P t using that by (cases "Rep_ed P") (auto dest: fe_is_length)
  have "fe_cmov f g (ucast (of_bool c :: u8)) = Some (if c then g else f)" if "length f = 10" "length g = 10" for f g
    using fe_cmov_flag [OF that, of c] by (cases c) simp_all
  then show ?thesis
    using l [OF assms(1)] l [OF assms(2)] by (cases c) (simp_all add: ge_precomp_cmov_def)
qed

text \<open>
  The contract of a conditional move and a negation on some representation of group elements,
  and what the selection of a signed multiple makes of them.
\<close>

locale signed_selection =
  fixes cmov :: "'e \<Rightarrow> 'e \<Rightarrow> u8 \<Rightarrow> 'e option" and neg :: "'e \<Rightarrow> 'e" and stands :: "'g::ab_group_add \<Rightarrow> 'e \<Rightarrow> bool"
  assumes cmov_flag: "stands P t \<Longrightarrow> stands Q u \<Longrightarrow> cmov t u (of_bool c) = Some (if c then u else t)"
    and neg_stands: "stands P t \<Longrightarrow> stands (- P) (neg t)"
begin

definition sel :: "'e \<Rightarrow> 'e list \<Rightarrow> i8 \<Rightarrow> 'e option" where
  "sel z tab b =
     Option.bind (opt_fold (\<lambda>m t. cmov t (tab ! m) (equal_schar (schar_abs b) (of_nat (Suc m)))) [0..<8] z)
       (\<lambda>t. cmov t (neg t) (negative b))"

lemma sel_multiple:
  assumes z: "stands 0 z" and tab: "\<And>m. m < 8 \<Longrightarrow> stands (zmul (int m + 1) A) (tab ! m)" and b: "\<bar>sint b\<bar> \<le> 8"
  shows "\<exists>t. sel z tab b = Some t \<and> stands (zmul (sint b) A) t"
proof -
  let ?v = "schar_abs b" and ?n = "nat \<bar>sint b\<bar>"
  let ?I = "\<lambda>k t. t = (if 1 \<le> ?n \<and> ?n \<le> k then tab ! (?n - 1) else z)"
  have eq: "equal_schar ?v (of_nat (Suc m)) = of_bool (?n = Suc m)" if "m < 8" for m
  proof -
    have "?v = of_nat ?n" using word_of_sint [of b "sint b"] by (simp add: schar_abs_val)
    moreover have "(of_nat ?n :: u8) = of_nat (Suc m) \<longleftrightarrow> ?n = Suc m"
    proof -
      have "take_bit 8 ?n = ?n" "take_bit 8 (Suc m) = Suc m"
        using that b by (intro take_bit_nat_eq_self; simp)+
      then show ?thesis using word_of_nat_eq_iff [of ?n "Suc m", where 'a = 8] by simp
    qed
    ultimately show ?thesis by (simp only: equal_schar_flag)
  qed
  have st: "stands (zmul (int ?n) A) (if 1 \<le> ?n then tab ! (?n - 1) else z)"
  proof (cases "1 \<le> ?n")
    case True
    then have "int (?n - 1) + 1 = int ?n" "?n - 1 < 8" using b by linarith+
    then show ?thesis using tab [of "?n - 1"] True by (simp only: if_True)
  next
    case False
    then have "int ?n = 0" by linarith
    then show ?thesis using z False by (simp only: if_False zmul_0)
  qed
  have "\<exists>t. opt_fold (\<lambda>m t. cmov t (tab ! m) (equal_schar ?v (of_nat (Suc m)))) [0..<8] z = Some t \<and> ?I (length [0..<8]) t"
  proof (rule opt_fold_invariant)
    fix k t assume k: "k < length [0..<8]" and t: "?I k t"
    have "?n - 1 < 8" using b by linarith
    then have "\<exists>Q. stands Q t" using t z tab [of "?n - 1"] by (auto split: if_splits)
    then have "cmov t (tab ! k) (of_bool (?n = Suc k)) = Some (if ?n = Suc k then tab ! k else t)"
      using cmov_flag tab [of k] k by (metis length_upt diff_zero)
    then show "\<exists>t'. cmov t (tab ! ([0..<8] ! k)) (equal_schar ?v (of_nat (Suc ([0..<8] ! k)))) = Some t' \<and> ?I (Suc k) t'"
      using k t eq [of k] by (auto simp: nth_upt le_Suc_eq)
  qed auto
  then obtain t where t: "opt_fold (\<lambda>m t. cmov t (tab ! m) (equal_schar ?v (of_nat (Suc m)))) [0..<8] z = Some t"
    "t = (if 1 \<le> ?n then tab ! (?n - 1) else z)" using b by auto
  have s: "stands (zmul (int ?n) A) t" using st t(2) by simp
  have "sel z tab b = Some (if sint b < 0 then neg t else t)"
    unfolding sel_def t(1) negative_flag by (simp add: cmov_flag [OF s neg_stands [OF s]])
  moreover have "stands (zmul (sint b) A) (if sint b < 0 then neg t else t)"
    using s neg_stands [OF s] by (cases "sint b < 0") (simp_all add: zmul_minus abs_if)
  ultimately show ?thesis by blast
qed

end

interpretation sel_cached: signed_selection ge_cached_cmov
  "\<lambda>c. \<lparr>YplusX = fe_copy (YminusX c), YminusX = fe_copy (YplusX c), cached_Z = fe_copy (cached_Z c), T2d = fe_neg (T2d c)\<rparr>"
  cached_is
  by unfold_locales (rule ge_cached_cmov_flag, assumption+, rule ge_cached_neg_ed)

interpretation sel_precomp: signed_selection ge_precomp_cmov
  "\<lambda>c. \<lparr>yplusx = fe_copy (yminusx c), yminusx = fe_copy (yplusx c), xy2d = fe_neg (xy2d c)\<rparr>"
  precomp_is
  by unfold_locales (rule ge_precomp_cmov_flag, assumption+, rule ge_precomp_neg_ed)

lemma upt_8: "[0..<8] = [0, 1, 2, 3, 4, 5, 6, 7]"
  by (simp add: upt_rec)

lemma select_cached_sel: "select_cached Ai b = sel_cached.sel ge_cached_0 Ai b"
  by (simp add: select_cached_def sel_cached.sel_def upt_8 Let_def del: One_nat_def)

lemma select_sel: "select pos b = sel_precomp.sel ge_precomp_0 (ge_base ! pos) b"
  by (simp add: select_def sel_precomp.sel_def upt_8 Let_def del: One_nat_def)

lemma select_cached_multiple:
  assumes "\<And>m. m < 8 \<Longrightarrow> cached_is (zmul (int m + 1) A) (Ai ! m)" and "\<bar>sint b\<bar> \<le> 8"
  shows "\<exists>t. select_cached Ai b = Some t \<and> cached_is (zmul (sint b) A) t"
  unfolding select_cached_sel by (rule sel_cached.sel_multiple [OF ge_cached_0_ed assms])

lemma select_multiple:
  assumes "\<And>m. m < 8 \<Longrightarrow> precomp_is (zmul (int m + 1) A) (ge_base ! pos ! m)" and "\<bar>sint b\<bar> \<le> 8"
  shows "\<exists>t. select pos b = Some t \<and> precomp_is (zmul (sint b) A) t"
  unfolding select_sel by (rule sel_precomp.sel_multiple [OF ge_precomp_0_ed assms])

end
