(* ===== verification/BasePoint.thy ===== *)
theory BasePoint
  imports GeGroup
begin

text \<open>
  The base point and the table \<open>ge_Bi\<close> of its odd multiples, checked by integer arithmetic
  with explicit quotients modulo \<open>2 ^ 255 - 19\<close>.
\<close>

section \<open>Congruences with explicit quotients\<close>

definition eqmod :: "int \<Rightarrow> int \<Rightarrow> int \<Rightarrow> int \<Rightarrow> bool" where
  "eqmod q q' x y \<longleftrightarrow>
     x + q * 19 + q' * 57896044618658097711785492504343953926634992332820282019728792003956564819968
     = y + q * 57896044618658097711785492504343953926634992332820282019728792003956564819968 + q' * 19"

lemma eqmod_gf: "eqmod q q' x y \<Longrightarrow> (of_int x :: gf) = of_int y"
proof -
  assume "eqmod q q' x y"
  then have "x = y + (q - q') * p25519" by (simp add: eqmod_def p25519_def algebra_simps)
  then show ?thesis by (simp only: of_int_gf_eq_iff mod_mult_self1)
qed

definition isq :: "int \<Rightarrow> int" where
  "isq x = x * x"

lemma isq_numeral: "isq (numeral k) = numeral (Num.sqr k)"
  by (simp add: isq_def numeral_sqr)

lemmas base_arith = eqmod_def isq_numeral sqr.simps numeral_times_numeral mult_num_simps add_num_simps
  numeral_plus_numeral numeral_eq_iff eq_num_simps simp_thms HOL.refl mult_zero_right mult_zero_left
  add_0_right add_0_left mult_1_right mult_1_left one_add_one one_plus_numeral numeral_plus_one

section \<open>Points by sum and difference of their coordinates\<close>

text \<open>\<open>tri P s m T\<close>: modulo the prime \<open>s = y + x\<close>, \<open>m = y - x\<close> and \<open>T = 2 d x y\<close> for the point \<open>P\<close>.\<close>

definition tri :: "ed \<Rightarrow> int \<Rightarrow> int \<Rightarrow> int \<Rightarrow> bool" where
  "tri P s m T \<longleftrightarrow> (case Rep_ed P of (x, y) \<Rightarrow>
     of_int s = y + x \<and> of_int m = y - x \<and> of_int T = 2 * ed_d * x * y)"

lemma ed_d_ratio: "121666 * ed_d = - 121665"
proof -
  have "(121666 * fe_val fe_d) mod p25519 = (- 121665) mod p25519"
    by (simp add: fe_val_def fe_value_expand fe_d_def p25519_def)
  then have "(of_int (121666 * fe_val fe_d) :: gf) = of_int (- 121665)" by (simp only: of_int_gf_eq_iff)
  then show ?thesis by (simp add: ed_d_def fe_gf_def)
qed

lemma gf_121666: "(121666 :: gf) \<noteq> 0"
  using of_int_gf_zero_iff [of 121666] by (simp add: p25519_def)

lemma gf_four_nonzero: "(4 :: gf) \<noteq> 0"
  using of_int_gf_zero_iff [of 4] by (simp add: p25519_def)

text \<open>The addition law for the sum and difference of the coordinates.\<close>

lemma ed_sum_diff:
  fixes t :: gf
  assumes "Rep_ed P = (x1, y1)" and "Rep_ed Q = (x2, y2)" and t: "t = ed_d * x1 * x2 * y1 * y2"
    and s: "s = (y1 + x1) * (y2 + x2) + t * m" and m: "m = (y1 - x1) * (y2 - x2) + t * s"
  shows "Rep_ed (P + Q) = ((s - m) / 2, (s + m) / 2)"
proof -
  have nz: "1 + t \<noteq> 0" "1 - t \<noteq> 0"
    unfolding t using ed_complete [of x1 y1 x2 y2] Rep_ed_on_curve [of P] Rep_ed_on_curve [of Q] assms(1,2) by simp_all
  have "(s - m) * (1 + t) = 2 * (x1 * y2 + y1 * x2)" "(s + m) * (1 - t) = 2 * (y1 * y2 + x1 * x2)"
    using s m by algebra+
  then have "(s - m) / 2 = (x1 * y2 + y1 * x2) / (1 + t)" "(s + m) / 2 = (y1 * y2 + x1 * x2) / (1 - t)"
    using nz gf_two_nonzero by (simp_all add: divide_eq_eq eq_divide_eq mult.commute)
  then show ?thesis by (simp add: plus_ed.rep_eq assms(1,2) flip: t)
qed

lemma product_check:
  fixes s m T :: gf
  assumes "243332 * T + 121665 * (s * s) = 121665 * (m * m)"
  shows "T = 2 * ed_d * ((s - m) / 2) * ((s + m) / 2)"
proof -
  have "121666 * (2 * T) = 121666 * ed_d * (s * s - m * m)" unfolding ed_d_ratio using assms by algebra
  then have "2 * T = ed_d * (s * s - m * m)" using gf_121666 by (simp only: mult.assoc mult_cancel_left) simp
  also have "\<dots> = 2 * (2 * ed_d * ((s - m) / 2) * ((s + m) / 2))"
    using gf_two_nonzero gf_four_nonzero by (simp add: field_simps)
  finally show ?thesis using gf_two_nonzero by (simp only: mult_cancel_left simp_thms)
qed

lemma half_sum:
  fixes s m :: gf
  shows "s = (s + m) / 2 + (s - m) / 2" and "m = (s + m) / 2 - (s - m) / 2"
  using gf_two_nonzero gf_four_nonzero by (simp_all add: field_simps)

lemma tri_add:
  assumes P: "tri P s1 m1 T1" and Q: "tri Q s2 m2 T2"
    and t: "eqmod qt qt' (121666 * (T1 * T2) + 486660 * t) 0"
    and s: "eqmod qs qs' (s1 * s2 + t * m3) s3" and m: "eqmod qm qm' (m1 * m2 + t * s3) m3"
    and T: "eqmod qT qT' (243332 * T3 + 121665 * isq s3) (121665 * isq m3)"
  shows "tri (P + Q) s3 m3 T3"
proof -
  obtain x1 y1 x2 y2 where xy: "Rep_ed P = (x1, y1)" "Rep_ed Q = (x2, y2)" by (metis surj_pair)
  let ?t = "of_int t :: gf" and ?s = "of_int s3 :: gf" and ?m = "of_int m3 :: gf" and ?T = "of_int T3 :: gf"
  have p: "of_int s1 = y1 + x1" "of_int m1 = y1 - x1" "of_int T1 = 2 * ed_d * x1 * y1"
    and q: "of_int s2 = y2 + x2" "of_int m2 = y2 - x2" "of_int T2 = 2 * ed_d * x2 * y2"
    using P Q by (simp_all add: tri_def xy)
  have "121666 * (2 * ed_d * x1 * y1 * (2 * ed_d * x2 * y2)) + 486660 * ?t = 0"
    using eqmod_gf [OF t] by (simp add: p q)
  then have "4 * (121665 * (?t - ed_d * x1 * x2 * y1 * y2)) = 0" using ed_d_ratio by algebra
  then have "121665 * (?t - ed_d * x1 * x2 * y1 * y2) = 0" using gf_four_nonzero by (simp only: mult_eq_0_iff) simp
  moreover have "(121665 :: gf) \<noteq> 0" using of_int_gf_zero_iff [of 121665] by (simp add: p25519_def)
  ultimately have t': "?t = ed_d * x1 * x2 * y1 * y2" by simp
  have R: "Rep_ed (P + Q) = ((?s - ?m) / 2, (?s + ?m) / 2)"
    by (rule ed_sum_diff [OF xy t']) (use eqmod_gf [OF s] eqmod_gf [OF m] in \<open>simp_all add: p q\<close>)
  have "243332 * ?T + 121665 * (?s * ?s) = 121665 * (?m * ?m)" using eqmod_gf [OF T] by (simp add: isq_def)
  from product_check [OF this] show ?thesis
    unfolding tri_def R prod.case using half_sum(1) [of ?s ?m] half_sum(2) [of ?m ?s] by blast
qed

lemma tri_point:
  assumes "Rep_ed P = (of_int x, of_int y)" and s: "eqmod qs qs' (y + x) s" and m: "eqmod qm qm' y (x + m)"
    and T: "eqmod qT qT' (243332 * T + 121665 * isq s) (121665 * isq m)"
  shows "tri P s m T"
proof -
  have c: "of_int s = (of_int y + of_int x :: gf)" "of_int m = (of_int y - of_int x :: gf)"
    using eqmod_gf [OF s] eqmod_gf [OF m] by simp_all
  have "243332 * of_int T + 121665 * (of_int s * of_int s) = 121665 * (of_int m * of_int m :: gf)"
    using eqmod_gf [OF T] by (simp add: isq_def)
  from product_check [OF this] show ?thesis
    using gf_two_nonzero by (simp add: tri_def assms(1) c field_simps)
qed

lemma on_curve_check:
  assumes "eqmod qa qa' (isq x) xx" and "eqmod qb qb' (isq y) yy" and "eqmod qc qc' (xx * yy) f"
    and "eqmod qd qd' (121666 * g + 121665 * f) 0" and "eqmod qe qe' yy (xx + (1 + g))"
  shows "on_curve (of_int x, of_int y)"
proof -
  note c = assms [THEN eqmod_gf]
  let ?x = "of_int x :: gf" and ?y = "of_int y :: gf" and ?g = "of_int g :: gf"
  have x: "of_int xx = ?x * ?x" and y: "of_int yy = ?y * ?y" using c(1,2) by (simp_all add: isq_def)
  have f: "of_int f = ?x * ?x * (?y * ?y)" using c(3) by (simp add: x y)
  have "121666 * ?g + 121665 * (?x * ?x * (?y * ?y)) = 0" using c(4) by (simp add: f)
  then have "121666 * ?g = 121666 * ed_d * (?x * ?x * (?y * ?y))" unfolding ed_d_ratio by algebra
  then have "?g = ed_d * (?x * ?x * (?y * ?y))" using gf_121666 by (simp only: mult.assoc mult_cancel_left) simp
  moreover have "?y * ?y = ?x * ?x + (1 + ?g)" using c(5) by (simp add: x y)
  ultimately show ?thesis unfolding on_curve.simps by algebra
qed

lemma tri_precomp:
  assumes "tri P s m T" and "fe_is 130 (of_int s) (yplusx q)" and "fe_is 130 (of_int m) (yminusx q)"
    and "fe_is 130 (of_int T) (xy2d q)"
  shows "precomp_is P q"
  using assms Rep_ed_on_curve [of P] by (cases "Rep_ed P") (simp add: tri_def)

section \<open>The base point\<close>

text \<open>\<open>B = (x, 4/5)\<close> with \<open>x\<close> positive, that is even.\<close>

definition ed_Bx :: int where
  "ed_Bx = 15112221349535400772501151409588531511454012693041857206046113283949847762202"

definition ed_By :: int where
  "ed_By = 46316835694926478169428394003475163141307993866256225615783033603165251855960"

definition ed_B :: ed where
  "ed_B = Abs_ed (of_int ed_Bx, of_int ed_By)"

lemma ed_By_value: "5 * (of_int ed_By :: gf) = 4" and ed_Bx_even: "even ed_Bx"
proof -
  have "(of_int (5 * ed_By) :: gf) = of_int 4" by (simp only: of_int_gf_eq_iff) (simp add: ed_By_def p25519_def)
  then show "5 * (of_int ed_By :: gf) = 4" by simp
qed (simp add: ed_Bx_def)

lemma ed_B_on_curve: "on_curve (of_int ed_Bx, of_int ed_By)"
  by (rule on_curve_check [where xx = 26187595835145689230469591415084376402084551887632582719101735842039498021991
      and yy = 37053468555941182535542715202780130513046395093004980492626426882532201484768
      and f = 30655112042971184558329056706696549839726511367961720624960021019854854290862
      and g = 10865872720795493305073123787695754110961843205372397773524691040492703462776
      and qa = 3944643120641682540557488748386534817562863454810087094083181913524639656337 and qa' = 0
      and qb = 37053468555941182535542715202780130513046395093004980492626426882532201484768 and qb' = 0
      and qc = 16760061334493241107500538505654000897334113208084852940225110938905278734074 and qc' = 0
      and qd = 87254 and qd' = 0 and qe = 0 and qe' = 0])
    (simp_all only: base_arith ed_Bx_def ed_By_def)

lemma Rep_ed_B: "Rep_ed ed_B = (of_int ed_Bx, of_int ed_By)"
  unfolding ed_B_def by (rule Abs_ed_inverse [OF CollectI]) (rule ed_B_on_curve)

lemma tri_B: "tri ed_B 3533012425803781230144052908719740726127014226477800802100354883158534798213
    31204614345391077396927242593886631629853981173214368409736920319215404093758
    50237614328228664512531835696112167678046477356841409204013502641986506238568"
  by (rule tri_point [OF Rep_ed_B, where qs = 1 and qs' = 0 and qm = 0 and qm' = 0
      and qT = 0 and qT' = 2019999268527953032879006063827497869081164860144822698789861640266715401705371351])
    (simp_all only: base_arith ed_Bx_def ed_By_def)

section \<open>The odd multiples\<close>

lemma tri_2B: "tri (ed_B + ed_B)
    40277088815386731178907243282125131086172340233842699037233503275583876657623
    48718306963831746885583586643117907343561796231867704143509447914497974261160
    50706672771372854810760959653406682044345679494001682866047262582014706678367"
    by (rule tri_add [OF tri_B tri_B, where t =
    10865872720795493305073123787695754110961843205372397773524691040492703462776
            and qt =
        5303692676070232275634269598002231250267466694389147528446003731383400855641919456 and qt' =
        0 and qs = 9359000308423544165758840414895215239443578800698234674940152373296307944394 and
        qs' = 0
            and qm = 24377721938916577607890161889254160344353515319881700879111856209572586429748
        and qm' = 0 and qT = 0 and qT' =
        1578662995033195726962819940455199225656438216273918464635321146237661081359315679])
    (simp_all only: base_arith)

lemma tri_3B: "tri (ed_B + ed_B + ed_B)
    55221577242988382633613921715755988927347615506430221002982523990194636363568
    19324154932736603031152325029326367275890211278985171650228672434569381466725
    40779097241408971452228116607583414735230162954196233009433085899742953658505"
    by (rule tri_add [OF tri_2B tri_B, where t =
    12965896712281167460188844285041720407456251414812089957574419241826119111093
            and qt =
        5353212181779620191872139762010269220657883022335134827096233191559347269366616724 and qt' =
        0 and qs = 6785514533117871289131446011895836855446262882064637831564189502247677673244 and
        qs' = 0
            and qm = 38624974502453751588149232151012145471884160886306074508945152735675976784071
        and qm' = 0 and qT =
        5623449702790185406967778736799974294653505278870708961968683800951530336353895255 and qT' =
        0])
    (simp_all only: base_arith)

lemma tri_5B: "tri (ed_B + ed_B + (ed_B + ed_B + ed_B))
    18668153700450365046820768141064729913722721519882092422277400263756282706739
    9630189248235390748103966146409333440210333639383242876188677650069613696698
    30606639029984443449548711300126286734648431208933888345371544935567354135173"
    by (rule tri_add [OF tri_2B tri_3B, where t =
    38992872074211770242716245714054993943552099849601362769832305884147734512537
            and qt =
        4345332934968276659984507318581190599238327054312823114086947080075307533707210970 and qt' =
        0 and qs = 44902430307141916669778870827176188368448610578257553858059541128837131700099 and
        qs' = 0
            and qm = 28833835746960594349558055640066305685686897800457243128657527413269396078605
        and qm' = 0 and qT =
        537462787838494620713584688369875264505809420226711163689012520283585033083681309 and qT' =
        0])
    (simp_all only: base_arith)

lemma tri_7B: "tri (ed_B + ed_B + (ed_B + ed_B + (ed_B + ed_B + ed_B)))
    31711222115254622247534096269438047277815809670749515453120456498656435938239
    13312953584136576304523025463821328163824699951717010248032899908581467496881
    55464387603073125013932436385527479500842401496857817399907801729203523072930"
    by (rule tri_add [OF tri_2B tri_5B, where t =
    26708851835273599236554348871529033123123434212128029177396509941486770170587
            and qt =
        3261377656752700635042066857471444473621642297175851210699038600284067386245496874 and qt' =
        0 and qs = 19128639904080843201734883828856429601946490394829529212921660388637937305445 and
        qs' = 0
            and qm = 22732759337465360674284625418651427083137188485230591914547583480160925255508
        and qm' = 0 and qT =
        1740762369859752137124994457854836197844946090188779647553625576444361395683776840 and qT' =
        0])
    (simp_all only: base_arith)

lemma tri_9B: "tri (ed_B + ed_B + (ed_B + ed_B + (ed_B + ed_B + (ed_B + ed_B + ed_B))))
    23848771936779537706600755363852330642691035199144679981329841599443567665967
    33358695950361614583925271808519256405884421684945271723330695989338484605028
    52357765926424945578408752779084598596693712112103136963171288052321514532635"
    by (rule tri_add [OF tri_2B tri_7B, where t =
    7248842797640218075432952744241253730385792372876792704258571421819384289417
            and qt =
        5910165905407683975278659642900897877899680441401444369238126191946248984911860320 and qt' =
        0 and qs = 26237503139713159388519802383019978940221486139258545615949578877206211976694 and
        qs' = 0
            and qm = 14188543680391027113046755955505765580518995965942447077443575624189568877879
        and qm' = 0 and qT = 0 and qT' =
        1143264026753783727678814983627547897834830712359522294778911519254784192001062895])
    (simp_all only: base_arith)

lemma tri_11B: "tri (ed_B + ed_B + (ed_B + ed_B + (ed_B + ed_B + (ed_B + ed_B + (ed_B + ed_B +
    ed_B))))) 30060548511792857161490863918616842674472112613249574336675186204794201058014
    11158256924779282454740543163093780811298074430862908234953982287139410690888
    27941507066570052986778351271715755022397500567158991111890716087464763623913"
    by (rule tri_add [OF tri_2B tri_9B, where t =
    7877478122048862755598430610344988161480765250477852441251648244542214503244
            and qt =
        5579130978172514918086990528489494626474830990504534511759400092243086679207763490 and qt' =
        0 and qs = 18109320544202351556833744913892033892972698995545285246334780485106879753351 and
        qs' = 0
            and qm = 32160754931110205171891353756302385434215742653867115105553865505398621251392
        and qm' = 0 and qT =
        1637293832090663636935498415278590357043921254061301509088615190662747429561476104 and qT' =
        0])
    (simp_all only: base_arith)

lemma tri_13B: "tri (ed_B + ed_B + (ed_B + ed_B + (ed_B + ed_B + (ed_B + ed_B + (ed_B + ed_B + (ed_B
    + ed_B + ed_B))))))
    15972020931028765202356936322618908365444234765594279114894468132403870203757
    1087550798001203620797136749953957393762725578137024723030949917728262045587
    33237312664213247073394209876351444910698636488186827598268510754927446762360"
    by (rule tri_add [OF tri_2B tri_11B, where t =
    39401460070013387312891163651564801670953213707982218393283189671500785029234
            and qt =
        2977386924243265509337914828822465739790472014255386332416156622968137397063954574 and qt' =
        0 and qs = 21652644491473270648262452373189756839364509061294307947661039153461337496327 and
        qs' = 0
            and qm = 20259282628368822847556892947276895782168183896887011030399936574642157562419
        and qm' = 0 and qT =
        533603008313243376345429216159083562461317117060698348733125883350245514097853280 and qT' =
        0])
    (simp_all only: base_arith)

lemma tri_15B: "tri (ed_B + ed_B + (ed_B + ed_B + (ed_B + ed_B + (ed_B + ed_B + (ed_B + ed_B + (ed_B
    + ed_B + (ed_B + ed_B + ed_B)))))))
    44273937366294891980395583359278962421509549251851624370413480066653195594400
    30626176813774521173184229023175236149481611499753231178919926386272687148811
    36689249660344293493892821654230283378144754582372867911177117475716794987798"
    by (rule tri_add [OF tri_2B tri_13B, where t =
    45816845794232749498991608072953932466942116014606495453164585144074912777403
            and qt =
        3541696583782781906955730316761908413600548099201893256971209311092377602315445100 and qt' =
        0 and qs = 35347860798151162854607300402429831624591436212839607209751531313449238649156 and
        qs' = 0
            and qm = 35951951611562080382064077804162220982475416068019631442425634683625375292641
        and qm' = 0 and qT =
        2148130394795225109420709400444500281505554245840915037796054473223639309300203579 and qT' =
        0])
    (simp_all only: base_arith)

text \<open>The entries of the table.\<close>

lemma fe_isI:
  assumes "fe_bounded 34078720 17039360 f" and "fe_val f mod p25519 = v mod p25519"
  shows "fe_is 130 (of_int v) f"
  using assms fe_gf_eqI [OF assms(2)] by (simp add: fe_is_def)

lemmas entry_eval = fe_bounded_def all_less_10 fe_val_def fe_value_expand p25519_def ge_precomp.make_def

lemma zmul_odd: "zmul (2 * int m + 1) P = ((+) (P + P) ^^ m) P"
proof (induction m)
  case (Suc m)
  have "2 * int (Suc m) + 1 = 1 + 1 + (2 * int m + 1)" by simp
  then show ?case using Suc by (simp only: zmul_add zmul_1 funpow.simps comp_apply)
qed simp

lemma ge_Bi_0: "precomp_is (zmul (2 * int 0 + 1) ed_B) (ge_Bi ! 0)"
  unfolding zmul_odd
  by (rule tri_precomp, simp add: numeral_eq_Suc, rule tri_B)
    (rule fe_isI; simp add: ge_Bi_def entry_eval)+

lemma ge_Bi_1: "precomp_is (zmul (2 * int 1 + 1) ed_B) (ge_Bi ! 1)"
  unfolding zmul_odd
  by (rule tri_precomp, simp add: numeral_eq_Suc, rule tri_3B)
    (rule fe_isI; simp add: ge_Bi_def entry_eval)+

lemma ge_Bi_2: "precomp_is (zmul (2 * int 2 + 1) ed_B) (ge_Bi ! 2)"
  unfolding zmul_odd
  by (rule tri_precomp, simp add: numeral_eq_Suc, rule tri_5B)
    (rule fe_isI; simp add: ge_Bi_def entry_eval)+

lemma ge_Bi_3: "precomp_is (zmul (2 * int 3 + 1) ed_B) (ge_Bi ! 3)"
  unfolding zmul_odd
  by (rule tri_precomp, simp add: numeral_eq_Suc, rule tri_7B)
    (rule fe_isI; simp add: ge_Bi_def entry_eval)+

lemma ge_Bi_4: "precomp_is (zmul (2 * int 4 + 1) ed_B) (ge_Bi ! 4)"
  unfolding zmul_odd
  by (rule tri_precomp, simp add: numeral_eq_Suc, rule tri_9B)
    (rule fe_isI; simp add: ge_Bi_def entry_eval)+

lemma ge_Bi_5: "precomp_is (zmul (2 * int 5 + 1) ed_B) (ge_Bi ! 5)"
  unfolding zmul_odd
  by (rule tri_precomp, simp add: numeral_eq_Suc, rule tri_11B)
    (rule fe_isI; simp add: ge_Bi_def entry_eval)+

lemma ge_Bi_6: "precomp_is (zmul (2 * int 6 + 1) ed_B) (ge_Bi ! 6)"
  unfolding zmul_odd
  by (rule tri_precomp, simp add: numeral_eq_Suc, rule tri_13B)
    (rule fe_isI; simp add: ge_Bi_def entry_eval)+

lemma ge_Bi_7: "precomp_is (zmul (2 * int 7 + 1) ed_B) (ge_Bi ! 7)"
  unfolding zmul_odd
  by (rule tri_precomp, simp add: numeral_eq_Suc, rule tri_15B)
    (rule fe_isI; simp add: ge_Bi_def entry_eval)+

lemma ge_Bi_multiples: "m < 8 \<Longrightarrow> precomp_is (zmul (2 * int m + 1) ed_B) (ge_Bi ! m)"
  using ge_Bi_0 ge_Bi_1 ge_Bi_2 ge_Bi_3 ge_Bi_4 ge_Bi_5 ge_Bi_6 ge_Bi_7
  by (auto simp: numeral_eq_Suc less_Suc_eq)

end
