(* ===== verification/PointCert.thy ===== *)
theory PointCert
  imports BasePoint HexArith
begin

text \<open>
  Certificates for points of the curve.  A point is held by literals for its two coordinates and
  their product modulo \<open>2 ^ 255 - 19\<close>; one check by digit arithmetic shows a sum or a double.
\<close>

section \<open>Digit arithmetic modulo the prime\<close>

text \<open>\<open>16 ^ 64\<close> is 38 modulo the prime.\<close>

definition h64 :: nat where
  "h64 = 64"

lemma h64_digits: "h64 = cS (cS (cS (cS (cS (cS (cS (cS (cS (cS (cS (cS (cS (cS (cS (cS
    (cS (cS (cS (cS (cS (cS (cS (cS (cS (cS (cS (cS (cS (cS (cS (cS
    (cS (cS (cS (cS (cS (cS (cS (cS (cS (cS (cS (cS (cS (cS (cS (cS
    (cS (cS (cS (cS (cS (cS (cS (cS (cS (cS (cS (cS (cS (cS (cS (cS cZ)))))))))))))))))))))))))))))))))))))))))))))))))))))))))))))))"
  by (simp add: h64_def cS_def cZ_def)

definition h38a :: "nat \<Rightarrow> nat" where
  "h38a y = hadd (hadd y (hadd y y)) (h0 y)"

definition h38 :: "nat \<Rightarrow> nat" where
  "h38 z = h38a (hadd z z)"

definition hred :: "nat \<Rightarrow> nat" where
  "hred x = hadd (hlo h64 x) (h38 (hhi h64 x))"

definition hmm :: "nat \<Rightarrow> nat \<Rightarrow> nat" where
  "hmm x y = hred (hred (hmul x y))"

lemma of_nat_gf_cong: "int x mod p25519 = int y mod p25519 \<Longrightarrow> (of_nat x :: gf) = of_nat y"
  using of_int_gf_eq_iff [of "int x" "int y"] by simp

lemma of_nat_16_64: "(of_nat (16 ^ 64) :: gf) = 38"
proof -
  have "(of_int (int (16 ^ 64)) :: gf) = of_int 38" by (simp only: of_int_gf_eq_iff) (simp add: p25519_def)
  then show ?thesis by (simp only: of_int_of_nat_eq) simp
qed

lemma hred_gf: "(of_nat (hred x) :: gf) = of_nat x"
proof -
  have "x = x mod 16 ^ 64 + 16 ^ 64 * (x div 16 ^ 64)" by simp
  then have "(of_nat x :: gf) = of_nat (x mod 16 ^ 64) + of_nat (16 ^ 64) * of_nat (x div 16 ^ 64)"
    by (metis of_nat_add of_nat_mult)
  also have "\<dots> = of_nat (x mod 16 ^ 64) + 38 * of_nat (x div 16 ^ 64)" by (simp only: of_nat_16_64)
  also have "\<dots> = of_nat (hred x)"
    by (simp add: hred_def h38_def h38a_def hadd_def hlo_def hhi_def h0_def h64_def)
  finally show ?thesis by simp
qed

lemma hmm_gf: "(of_nat (hmm x y) :: gf) = of_nat x * of_nat y"
  by (simp add: hmm_def hred_gf hmul_def)

lemma hadd_gf: "(of_nat (hadd x y) :: gf) = of_nat x + of_nat y"
  by (simp add: hadd_def)

text \<open>The negative of a number of at most 64 digits, by the complement of its digits.\<close>

definition hnegb :: "nat \<Rightarrow> nat \<Rightarrow> nat" where
  "hnegb hi x =
     (if hi = 0 then hadd (hcomp h64 x) 57896044618658097711785492504343953926634992332820282019728792003956564819912
      else (nat p25519 - 1) * x)"

lemma hnegb_rule:
  "hnegb hZ x = hadd (hcomp h64 x) 57896044618658097711785492504343953926634992332820282019728792003956564819912"
  by (simp add: hnegb_def hZ_def)

definition hneg :: "nat \<Rightarrow> nat" where
  "hneg x = hnegb (hhi h64 x) x"

lemma p25519_gf: "(of_nat (nat p25519) :: gf) = 0"
  using of_nat_gf_cong [of "nat p25519" 0] by (simp add: p25519_def)

lemma hneg_gf: "(of_nat (hneg x) :: gf) = - of_nat x"
proof (cases "x < 16 ^ 64")
  case True
  have "hneg x + x + 38 = 16 ^ 64 + nat p25519"
    using hcomp_complement [OF True] True by (simp add: hneg_def hnegb_def hadd_def h64_def hhi_def p25519_def)
  then have "(of_nat (hneg x) + of_nat x + 38 :: gf) = of_nat (16 ^ 64) + of_nat (nat p25519)"
    by (metis of_nat_add of_nat_numeral)
  then show ?thesis by (simp only: of_nat_16_64 p25519_gf) (simp add: eq_neg_iff_add_eq_0)
next
  case False
  then have "x div 16 ^ 64 \<noteq> 0" by (simp add: div_eq_0_iff)
  moreover have "(of_nat (nat p25519 - 1) :: gf) = - 1" using p25519_gf by (simp add: of_nat_diff p25519_def)
  ultimately show ?thesis by (simp add: hneg_def hnegb_def hhi_def h64_def)
qed

text \<open>Congruence of two numbers: after two reductions they differ by a small multiple of the prime.\<close>

definition hcongb :: "nat \<Rightarrow> nat \<Rightarrow> bool" where
  "hcongb a b \<longleftrightarrow> heq a b
     \<or> heq a (hadd b 57896044618658097711785492504343953926634992332820282019728792003956564819949)
     \<or> heq (hadd a 57896044618658097711785492504343953926634992332820282019728792003956564819949) b
     \<or> heq a (hadd b 115792089237316195423570985008687907853269984665640564039457584007913129639898)
     \<or> heq (hadd a 115792089237316195423570985008687907853269984665640564039457584007913129639898) b"

definition hcong :: "nat \<Rightarrow> nat \<Rightarrow> bool" where
  "hcong a b \<longleftrightarrow> hcongb (hred a) (hred b)"

lemma hcong_gf: "hcong a b \<Longrightarrow> (of_nat a :: gf) = of_nat b"
proof -
  have z: "(of_nat 57896044618658097711785492504343953926634992332820282019728792003956564819949 :: gf) = 0"
    "(of_nat 115792089237316195423570985008687907853269984665640564039457584007913129639898 :: gf) = 0"
    by (rule of_nat_gf_cong [of _ 0, simplified], simp add: p25519_def)+
  assume "hcong a b"
  then have "hcongb (hred a) (hred b)" by (simp add: hcong_def)
  then have "(of_nat (hred a) :: gf) = of_nat (hred b)"
    unfolding hcongb_def heq_def hadd_def 
    by (elim disjE) (drule arg_cong [where f = "of_nat :: nat \<Rightarrow> gf"], simp only: of_nat_add z add_0_right)+
  then show ?thesis by (simp only: hred_gf)
qed

lemmas hex_check = hex_arith hsplit_rules h64_digits h38a_def h38_def hred_def hmm_def hnegb_rule hneg_def
  hcongb_def hcong_def simp_thms

section \<open>Points\<close>

definition pt :: "ed \<Rightarrow> nat \<Rightarrow> nat \<Rightarrow> nat \<Rightarrow> bool" where
  "pt P x y u \<longleftrightarrow> Rep_ed P = (of_nat x, of_nat y) \<and> (of_nat u :: gf) = of_nat x * of_nat y"

text \<open>The double: \<open>x3 (y^2 - x^2) = 2 x y\<close> and \<open>y3 (2 - (y^2 - x^2)) = x^2 + y^2\<close>.\<close>

definition ck_dbl2 :: "nat \<Rightarrow> nat \<Rightarrow> nat \<Rightarrow> nat \<Rightarrow> nat \<Rightarrow> nat \<Rightarrow> bool" where
  "ck_dbl2 n s2 u2 x3 y3 u3 \<longleftrightarrow>
     hcong (hmm x3 n) u2 \<and> hcong (hmm y3 (hadd 2 (hneg n))) (hadd s2 (hneg u2)) \<and> hcong (hmm x3 y3) u3"

definition ck_dbl1 :: "nat \<Rightarrow> nat \<Rightarrow> nat \<Rightarrow> nat \<Rightarrow> nat \<Rightarrow> nat \<Rightarrow> bool" where
  "ck_dbl1 s m u x3 y3 u3 \<longleftrightarrow> ck_dbl2 (hmm s m) (hmm s s) (hadd u u) x3 y3 u3"

definition ck_dbl :: "nat \<Rightarrow> nat \<Rightarrow> nat \<Rightarrow> nat \<Rightarrow> nat \<Rightarrow> nat \<Rightarrow> bool" where
  "ck_dbl x y u x3 y3 u3 \<longleftrightarrow> ck_dbl1 (hadd x y) (hadd y (hneg x)) u x3 y3 u3"

lemma on_curve_Rep: "Rep_ed P = (x, y) \<Longrightarrow> y * y - x * x = 1 + ed_d * (x * x) * (y * y)"
  using Rep_ed_on_curve [of P] by (simp add: algebra_simps power2_eq_square)

lemma pt_dbl:
  assumes "pt P x y u" and "ck_dbl x y u x3 y3 u3"
  shows "pt (P + P) x3 y3 u3"
proof -
  let ?x = "of_nat x :: gf" and ?y = "of_nat y :: gf" and ?x3 = "of_nat x3 :: gf" and ?y3 = "of_nat y3 :: gf"
  have P: "Rep_ed P = (?x, ?y)" and u: "of_nat u = ?x * ?y" using assms(1) by (simp_all add: pt_def)
  note gf = hmm_gf hadd_gf hneg_gf
  have c: "?x3 * ((?x + ?y) * (?y - ?x)) = 2 * (?x * ?y)"
    "?y3 * (2 - (?x + ?y) * (?y - ?x)) = (?x + ?y) * (?x + ?y) - 2 * (?x * ?y)" "of_nat u3 = ?x3 * ?y3"
    using assms(2) unfolding ck_dbl_def ck_dbl1_def ck_dbl2_def by (auto dest!: hcong_gf simp: gf u)
  let ?t = "ed_d * ?x * ?x * ?y * ?y"
  have n: "(?x + ?y) * (?y - ?x) = 1 + ?t" using on_curve_Rep [OF P] by (simp add: algebra_simps)
  have nz: "1 + ?t \<noteq> 0" "1 - ?t \<noteq> 0"
    using ed_complete [of ?x ?y ?x ?y] Rep_ed_on_curve [of P] unfolding P by (simp_all add: ac_simps)
  have "?x3 * (1 + ?t) = ?x * ?y + ?y * ?x" "?y3 * (1 - ?t) = ?y * ?y + ?x * ?x"
    using c(1,2) unfolding n by (simp_all add: algebra_simps)
  then have "?x3 = (?x * ?y + ?y * ?x) / (1 + ?t)" "?y3 = (?y * ?y + ?x * ?x) / (1 - ?t)"
    using nz by (simp_all add: eq_divide_eq)
  then show ?thesis by (simp add: pt_def plus_ed.rep_eq P c(3))
qed

text \<open>The sum, with \<open>d = - 121665 / 121666\<close> cleared: \<open>w\<close> is the product of all coordinates.\<close>

definition ck_add2 :: "nat \<Rightarrow> nat \<Rightarrow> nat \<Rightarrow> nat \<Rightarrow> nat \<Rightarrow> nat \<Rightarrow> bool" where
  "ck_add2 w a b x3 y3 u3 \<longleftrightarrow>
     hcong (hmm x3 (hadd 243332 (hneg w))) (hmul (hadd a (hneg b)) 121666)
     \<and> hcong (hmm y3 (hadd 243332 w)) (hmul (hadd a b) 121666) \<and> hcong (hmm x3 y3) u3"

definition ck_add1 :: "nat \<Rightarrow> nat \<Rightarrow> nat \<Rightarrow> nat \<Rightarrow> nat \<Rightarrow> nat \<Rightarrow> nat \<Rightarrow> nat \<Rightarrow> nat \<Rightarrow> bool" where
  "ck_add1 s1 m1 u1 s2 m2 u2 x3 y3 u3 \<longleftrightarrow> ck_add2 (hred (hred (hmul (hmm u1 u2) 243330))) (hmm s1 s2) (hmm m1 m2) x3 y3 u3"

definition ck_add :: "nat \<Rightarrow> nat \<Rightarrow> nat \<Rightarrow> nat \<Rightarrow> nat \<Rightarrow> nat \<Rightarrow> nat \<Rightarrow> nat \<Rightarrow> nat \<Rightarrow> bool" where
  "ck_add x1 y1 u1 x2 y2 u2 x3 y3 u3 \<longleftrightarrow>
     ck_add1 (hadd x1 y1) (hadd y1 (hneg x1)) u1 (hadd x2 y2) (hadd y2 (hneg x2)) u2 x3 y3 u3"

lemma pt_add:
  assumes "pt P x1 y1 u1" and "pt Q x2 y2 u2" and "ck_add x1 y1 u1 x2 y2 u2 x3 y3 u3"
  shows "pt (P + Q) x3 y3 u3"
proof -
  let ?x1 = "of_nat x1 :: gf" and ?y1 = "of_nat y1 :: gf" and ?x2 = "of_nat x2 :: gf" and ?y2 = "of_nat y2 :: gf"
    and ?x3 = "of_nat x3 :: gf" and ?y3 = "of_nat y3 :: gf"
  have P: "Rep_ed P = (?x1, ?y1)" "of_nat u1 = ?x1 * ?y1" and Q: "Rep_ed Q = (?x2, ?y2)" "of_nat u2 = ?x2 * ?y2"
    using assms(1,2) by (simp_all add: pt_def)
  let ?w = "?x1 * ?y1 * (?x2 * ?y2) * 243330" and ?t = "ed_d * ?x1 * ?x2 * ?y1 * ?y2"
  note gf = hmm_gf hadd_gf hneg_gf hred_gf hmul_def
  have c: "?x3 * (243332 - ?w) = ((?x1 + ?y1) * (?x2 + ?y2) - (?y1 - ?x1) * (?y2 - ?x2)) * 121666"
    "?y3 * (243332 + ?w) = ((?x1 + ?y1) * (?x2 + ?y2) + (?y1 - ?x1) * (?y2 - ?x2)) * 121666" "of_nat u3 = ?x3 * ?y3"
    using assms(3) unfolding ck_add_def ck_add1_def ck_add2_def by (auto dest!: hcong_gf simp: gf P Q)
  have w: "?w = - (243332 * ?t)" using ed_d_ratio by algebra
  have nz: "1 + ?t \<noteq> 0" "1 - ?t \<noteq> 0"
    using ed_complete [of ?x1 ?y1 ?x2 ?y2] Rep_ed_on_curve [of P] Rep_ed_on_curve [of Q] unfolding P(1) Q(1) by simp_all
  have "243332 * (?x3 * (1 + ?t)) = 243332 * (?x1 * ?y2 + ?y1 * ?x2)" "243332 * (?y3 * (1 - ?t)) = 243332 * (?y1 * ?y2 + ?x1 * ?x2)"
    using c(1,2) unfolding w by algebra+
  moreover have "(243332 :: gf) \<noteq> 0" using of_int_gf_zero_iff [of 243332] by (simp add: p25519_def)
  ultimately have "?x3 * (1 + ?t) = ?x1 * ?y2 + ?y1 * ?x2" "?y3 * (1 - ?t) = ?y1 * ?y2 + ?x1 * ?x2"
    by (simp_all only: mult_cancel_left simp_thms)
  then have "?x3 = (?x1 * ?y2 + ?y1 * ?x2) / (1 + ?t)" "?y3 = (?y1 * ?y2 + ?x1 * ?x2) / (1 - ?t)"
    using nz by (simp_all add: eq_divide_eq)
  then show ?thesis by (simp add: pt_def plus_ed.rep_eq P Q c(3))
qed


section \<open>Limbs\<close>

text \<open>
  A limb is shifted by \<open>2 ^ 28\<close> to make it positive; the ten shifts together are a constant.
\<close>

definition wv :: "u32 \<Rightarrow> nat" where
  "wv w = nat (sint w + 2 ^ 28)"

definition wb_even :: "u32 \<Rightarrow> bool" where
  "wb_even w \<longleftrightarrow> \<bar>sint w\<bar> \<le> 34078720"

definition wb_odd :: "u32 \<Rightarrow> bool" where
  "wb_odd w \<longleftrightarrow> \<bar>sint w\<bar> \<le> 17039360"

definition h7 :: nat where
  "h7 = 7"

definition h26a :: "nat \<Rightarrow> nat" where
  "h26a y = h0 (h0 (h0 (h0 (h0 (h0 (hadd y y))))))"

definition h26 :: "nat \<Rightarrow> nat" where
  "h26 x = h26a (hadd x x)"

definition h25 :: "nat \<Rightarrow> nat" where
  "h25 x = h26a x"

fun ck_fe :: "nat \<Rightarrow> fe \<Rightarrow> bool" where
  "ck_fe s [l0, l1, l2, l3, l4, l5, l6, l7, l8, l9] \<longleftrightarrow>
     wb_even l0 \<and> wb_odd l1 \<and> wb_even l2 \<and> wb_odd l3 \<and> wb_even l4 \<and> wb_odd l5 \<and> wb_even l6 \<and> wb_odd l7 \<and> wb_even l8 \<and> wb_odd l9
     \<and> hcong (hadd (wv l0) (h26 (hadd (wv l1) (h25 (hadd (wv l2) (h26 (hadd (wv l3) (h25 (hadd (wv l4) (h26
         (hadd (wv l5) (h25 (hadd (wv l6) (h26 (hadd (wv l7) (h25 (hadd (wv l8) (h26 (wv l9)))))))))))))))))))
         (hadd s 463168363851011334172920457611435838692664238417174955756231867657967464611840)"
| "ck_fe s f \<longleftrightarrow> False"

lemma sint_small:
  assumes "k < 2 ^ 28"
  shows "sint (of_nat k :: u32) = int k" and "sint (- of_nat k :: u32) = - int k"
proof -
  have "int k < 2 ^ 28" using assms by simp
  then have "sint (word_of_int (int k) :: u32) = int k" "sint (word_of_int (- int k) :: u32) = - int k"
    by (intro sint_of_int_exact; simp add: in_range_def)+
  then show "sint (of_nat k :: u32) = int k" "sint (- of_nat k :: u32) = - int k"
    by (simp_all only: of_int_of_nat_eq of_int_minus)
qed

lemma hhi_h7: "hhi h7 x = hZ \<longleftrightarrow> x < 2 ^ 28"
  by (simp add: hhi_def h7_def hZ_def div_eq_0_iff)

lemma wv_small:
  assumes "hhi h7 k = hZ"
  shows "wv (of_nat k) = hadd k 268435456" and "wv (- of_nat k) = hadd (hcomp h7 k) (h1 hZ)"
proof -
  have k: "k < 2 ^ 28" using assms by (simp only: hhi_h7)
  then show "wv (of_nat k) = hadd k 268435456" by (simp add: wv_def sint_small hadd_def nat_add_distrib)
  have "hcomp 7 k + k + 1 = 16 ^ 7" by (rule hcomp_complement) (use k in simp)
  then show "wv (- of_nat k) = hadd (hcomp h7 k) (h1 hZ)"
    using k by (simp add: wv_def sint_small hadd_def h1_def hZ_def h7_def)
qed

lemma wb_small:
  "hhi h7 (hadd k 234356735) = hZ \<Longrightarrow> wb_even (of_nat k) \<and> wb_even (- of_nat k)"
  "hhi h7 (hadd k 251396095) = hZ \<Longrightarrow> wb_odd (of_nat k) \<and> wb_odd (- of_nat k)"
  by (simp_all add: hhi_h7 hadd_def wb_even_def wb_odd_def sint_small)

lemma wv_rules:
  "hhi h7 (hn n) = hZ \<Longrightarrow> wv (numeral n) = hadd (hn n) 268435456"
  "hhi h7 (hn n) = hZ \<Longrightarrow> wv (- numeral n) = hadd (hcomp h7 (hn n)) (h1 hZ)"
  using wv_small [of "hn n"] by (simp_all only: hn_def of_nat_numeral)

lemma wb_rules:
  "hhi h7 (hadd (hn n) 234356735) = hZ \<Longrightarrow> wb_even (numeral n) = True"
  "hhi h7 (hadd (hn n) 234356735) = hZ \<Longrightarrow> wb_even (- numeral n) = True"
  "hhi h7 (hadd (hn n) 251396095) = hZ \<Longrightarrow> wb_odd (numeral n) = True"
  "hhi h7 (hadd (hn n) 251396095) = hZ \<Longrightarrow> wb_odd (- numeral n) = True"
  using wb_small [of "hn n"] by (simp_all only: hn_def of_nat_numeral simp_thms)

lemma wv_int: "wb_even w \<or> wb_odd w \<Longrightarrow> int (wv w) = sint w + 2 ^ 28"
  by (auto simp: wv_def wb_even_def wb_odd_def)

lemma ck_fe_is:
  assumes "ck_fe s f"
  shows "fe_is 130 (of_nat s) f"
proof -
  obtain l0 l1 l2 l3 l4 l5 l6 l7 l8 l9 where f: "f = [l0, l1, l2, l3, l4, l5, l6, l7, l8, l9]"
    using assms by (cases "(s, f)" rule: ck_fe.cases) auto
  note c = assms [unfolded f ck_fe.simps(1)]
  have b: "fe_bounded 34078720 17039360 f"
    using c by (simp add: fe_bounded_def all_less_10 f wb_even_def wb_odd_def)
  let ?h = "hadd (wv l0) (h26 (hadd (wv l1) (h25 (hadd (wv l2) (h26 (hadd (wv l3) (h25 (hadd (wv l4) (h26
         (hadd (wv l5) (h25 (hadd (wv l6) (h26 (hadd (wv l7) (h25 (hadd (wv l8) (h26 (wv l9))))))))))))))))))"
  have hc: "hcong ?h (hadd s 463168363851011334172920457611435838692664238417174955756231867657967464611840)" using c by (simp only: simp_thms)
  have "int ?h = fe_val f + 463168363851011334172920457611435838692664238417174955756231867657967464611840"
    using c by (simp add: hadd_def h26_def h25_def h26a_def h0_def wv_int fe_val_def fe_value_expand f)
  then have "(of_int (int ?h) :: gf) = of_int (fe_val f) + 463168363851011334172920457611435838692664238417174955756231867657967464611840" by simp
  moreover have "(of_nat ?h :: gf) = of_nat s + 463168363851011334172920457611435838692664238417174955756231867657967464611840" using hcong_gf [OF hc] by (simp only: hadd_gf of_nat_numeral)
  ultimately have "fe_gf f = of_nat s" by (simp add: fe_gf_def)
  then show ?thesis using b by (simp add: fe_is_def)
qed

text \<open>An entry of the table: the sum, the difference, and \<open>121666 T = - 243330 x y\<close>.\<close>

definition ck_entry :: "nat \<Rightarrow> nat \<Rightarrow> nat \<Rightarrow> nat \<Rightarrow> fe \<Rightarrow> fe \<Rightarrow> fe \<Rightarrow> bool" where
  "ck_entry x y u t a b c \<longleftrightarrow> ck_fe (hadd x y) a \<and> ck_fe (hadd y (hneg x)) b \<and> ck_fe t c
     \<and> hcong (hadd (hmul t 121666) (hmul u 243330)) hZ"

lemma ck_entry_precomp:
  assumes "pt P x y u" and "ck_entry x y u t a b c"
  shows "precomp_is P (ge_precomp.make a b c)"
proof -
  let ?x = "of_nat x :: gf" and ?y = "of_nat y :: gf" and ?t = "of_nat t :: gf"
  have P: "Rep_ed P = (?x, ?y)" and u: "of_nat u = ?x * ?y" using assms(1) by (simp_all add: pt_def)
  have c: "ck_fe (hadd x y) a" "ck_fe (hadd y (hneg x)) b" "ck_fe t c" "hcong (hadd (hmul t 121666) (hmul u 243330)) hZ"
    using assms(2) by (simp_all add: ck_entry_def)
  have "?t * 121666 + ?x * ?y * 243330 = 0" using hcong_gf [OF c(4)] by (simp add: hadd_gf hmul_def u hZ_def)
  then have "121666 * ?t = - (243330 * (?x * ?y))" by (simp add: eq_neg_iff_add_eq_0 ac_simps)
  also have "\<dots> = 2 * (121666 * ed_d) * (?x * ?y)" unfolding ed_d_ratio by simp
  also have "\<dots> = 121666 * (2 * ed_d * ?x * ?y)" by (simp only: ac_simps)
  finally have "121666 * ?t = 121666 * (2 * ed_d * ?x * ?y)" .
  then have "?t = 2 * ed_d * ?x * ?y" using gf_121666 by (simp only: mult_cancel_left simp_thms)
  then show ?thesis
    using ck_fe_is [OF c(1)] ck_fe_is [OF c(2)] ck_fe_is [OF c(3)] Rep_ed_on_curve [of P]
    by (simp add: P ge_precomp.make_def hadd_gf hneg_gf add.commute)
qed

lemma h7_digits: "h7 = cS (cS (cS (cS (cS (cS (cS cZ))))))"
  by (simp add: h7_def cS_def cZ_def)

lemmas hex_entry = hex_check ck_entry_def ck_fe.simps(1) wv_rules wb_rules h7_digits h26_def h25_def h26a_def HOL.refl


section \<open>Multiples\<close>

lemma pt_zmul_dbl:
  "pt (zmul k P) x y u \<Longrightarrow> k2 = k + k \<Longrightarrow> ck_dbl x y u x3 y3 u3 \<Longrightarrow> pt (zmul k2 P) x3 y3 u3"
  by (simp only: zmul_add pt_dbl)

lemma pt_zmul_add:
  "pt (zmul j P) x1 y1 u1 \<Longrightarrow> pt (zmul k P) x2 y2 u2 \<Longrightarrow> n = j + k \<Longrightarrow> ck_add x1 y1 u1 x2 y2 u2 x3 y3 u3
    \<Longrightarrow> pt (zmul n P) x3 y3 u3"
  by (simp add: zmul_add pt_add)

definition ck_neg :: "nat \<Rightarrow> nat \<Rightarrow> nat \<Rightarrow> nat \<Rightarrow> bool" where
  "ck_neg x u x' u' \<longleftrightarrow> hcong (hadd x x') hZ \<and> hcong (hadd u u') hZ"

lemma pt_zmul_neg:
  assumes "pt (zmul k P) x y u" and "ck_neg x u x' u'"
  shows "pt (zmul (- k) P) x' y u'"
proof -
  have "(of_nat x + of_nat x' :: gf) = 0" "(of_nat u + of_nat u' :: gf) = 0"
    using assms(2) by (auto simp: ck_neg_def hadd_gf hZ_def dest!: hcong_gf)
  then have "(of_nat x' :: gf) = - of_nat x" "(of_nat u' :: gf) = - of_nat u" by (simp_all add: eq_neg_iff_add_eq_0 add.commute)
  then show ?thesis using assms(1) by (simp add: pt_def zmul_minus uminus_ed.rep_eq)
qed

lemma pt_zero: "pt P hZ (h1 hZ) hZ \<Longrightarrow> P = 0"
  by (simp add: pt_def hZ_def h1_def zero_ed.rep_eq ed_zero_def flip: Rep_ed_inject)

text \<open>The points \<open>256 ^ i B\<close> at the head of the rows of the table.\<close>

definition row_base :: "nat \<Rightarrow> ed" where
  "row_base i = zmul (256 ^ i) ed_B"

lemma pt_row_0: "Rep_ed ed_B = (of_nat x, of_nat y) \<Longrightarrow> hcong (hmm x y) u \<Longrightarrow> pt (zmul 1 (row_base 0)) x y u"
  using hcong_gf [of "hmm x y" u] by (simp add: pt_def row_base_def hmm_gf)

lemma pt_row_Suc: "pt (zmul 256 (row_base i)) x y u \<Longrightarrow> j = Suc i \<Longrightarrow> pt (zmul 1 (row_base j)) x y u"
  by (simp add: row_base_def flip: zmul_mult)

lemma pt_row_zmul: "pt (zmul j (row_base i)) x y u \<Longrightarrow> n = j * 256 ^ i \<Longrightarrow> pt (zmul n ed_B) x y u"
  by (simp add: row_base_def flip: zmul_mult)

lemma row_entries:
  assumes "precomp_is (zmul 1 P) e0" and "precomp_is (zmul 2 P) e1" and "precomp_is (zmul 3 P) e2" and "precomp_is (zmul 4 P) e3"
    and "precomp_is (zmul 5 P) e4" and "precomp_is (zmul 6 P) e5" and "precomp_is (zmul 7 P) e6" and "precomp_is (zmul 8 P) e7"
  shows "\<forall>m<8. precomp_is (zmul (int m + 1) P) ([e0, e1, e2, e3, e4, e5, e6, e7] ! m)"
  using assms by (auto simp: all_less_8)

lemmas int_literals = one_add_one numeral_plus_numeral one_plus_numeral numeral_plus_one add_num_simps add_neg_numeral_simps
  diff_numeral_simps sub_num_simps minus_zero add_0_right add_0_left

lemmas hex_dbl = hex_check ck_dbl_def ck_dbl1_def ck_dbl2_def int_literals HOL.refl

lemmas hex_add = hex_check ck_add_def ck_add1_def ck_add2_def int_literals HOL.refl

lemmas hex_neg = hex_check ck_neg_def

end
