(* ===== verification/BaseRowsA.thy ===== *)
theory BaseRowsA
  imports PointCert
begin

text \<open>
  Rows 0 to 7 of the table \<open>ge_base\<close>: the multiples of \<open>256 ^ i B\<close> by one to eight, each point
  certified from the ones before it, and the five doublings that lead to the next row.
\<close>

section \<open>Row 0\<close>

lemma pt_0_1: "pt (zmul 1 (row_base 0))
    15112221349535400772501151409588531511454012693041857206046113283949847762202
    46316835694926478169428394003475163141307993866256225615783033603165251855960
    46827403850823179245072216630277197565144205554125654976674165829533817101731"
  by (rule pt_row_0, simp add: Rep_ed_B ed_Bx_def ed_By_def) (simp only: hex_check)

lemma pt_0_2: "pt (zmul 2 (row_base 0))
    24727413235106541002554574571675588834622768167397638456726423682521233608206
    15549675580280190176352668710449542251549572066445060580507079593062643049417
    16552979481334663544878610556091376071931149008662153799327195285289362371585"
  by (rule pt_zmul_dbl [OF pt_0_1]) (simp_all only: hex_dbl)

lemma pt_0_3: "pt (zmul 3 (row_base 0))
    46896733464454938657123544595386787789046198280132665686241321779790909858396
    8324843778533443976490377120369201138301417226297555316741202210403726505172
    19133203167024340156157901305709655404499344800967978305064989153409356768282"
  by (rule pt_zmul_add [OF pt_0_2 pt_0_1]) (simp_all only: hex_add)

lemma pt_0_4: "pt (zmul 4 (row_base 0))
    14582954232372986451776170844943001818709880559417862259286374126315108956272
    32483318716863467900234833297694612235682047836132991208333042722294373421359
    15591078450528575260807955779595146919206594628260116491306850071973737403224"
  by (rule pt_zmul_dbl [OF pt_0_2]) (simp_all only: hex_dbl)

lemma pt_0_5: "pt (zmul 5 (row_base 0))
    33467004535436536005251147249499675200073690106659565782908757308821616914995
    43097193783671926753355113395909008640284023746042808659097434958891230611693
    52631435118507418230927645098360784166288333741771923328027903523704223039952"
  by (rule pt_zmul_add [OF pt_0_4 pt_0_1]) (simp_all only: hex_add)

lemma pt_0_6: "pt (zmul 6 (row_base 0))
    34643617590234865996699167120328052565261792237873803846102513686264813449789
    2399184961499513294557607325187831088545696902880432827228757905043131825908
    27228768421258538231954343865440844652488997325483373020760696800100167381458"
  by (rule pt_zmul_dbl [OF pt_0_3]) (simp_all only: hex_dbl)

lemma pt_0_7: "pt (zmul 7 (row_base 0))
    9199134265559022971505535402808359556995554859516252602543778295037484220679
    22512087849695599276028560866629687720820254811233262850576678203618951717560
    7969306344939599448108779620249142998159244560978835759187616138611789393179"
  by (rule pt_zmul_add [OF pt_0_6 pt_0_1]) (simp_all only: hex_add)

lemma pt_0_8: "pt (zmul 8 (row_base 0))
    46706390780465557264338673484185971070529246228527338942042475661633188627656
    15299170165656271974649334809062094114079726227711063015095704409550798436788
    20041966898814491726444579060880528788025287386839181497696933332457633763775"
  by (rule pt_zmul_dbl [OF pt_0_4]) (simp_all only: hex_dbl)

lemma pt_0_16: "pt (zmul 16 (row_base 0))
    16121637619009607773439840283436156467545443443832420589584197780484295031288
    50925107901044861941301590032293890690813323578124472818968980802518735333355
    8124413159588571830372899760804653409298702349860309863812709235480468626390"
  by (rule pt_zmul_dbl [OF pt_0_8]) (simp_all only: hex_dbl)

lemma pt_0_32: "pt (zmul 32 (row_base 0))
    26148317933504540005443173402042326458672162458767831815669826413036406984486
    30850316547316149219369061290562558254923949145644564178378051444253659681385
    49740399161426032932139373005095262712528898173735334836839451249756894054047"
  by (rule pt_zmul_dbl [OF pt_0_16]) (simp_all only: hex_dbl)

lemma pt_0_64: "pt (zmul 64 (row_base 0))
    2703967047724422927942795606844806438471095130334849099131707700624039388171
    27636351750987415494008535949645960827550590090960186204735008729987540453670
    22645945933674281140587610878838865629536203181607753132167188847366227300200"
  by (rule pt_zmul_dbl [OF pt_0_32]) (simp_all only: hex_dbl)

lemma pt_0_128: "pt (zmul 128 (row_base 0))
    25155917782814837260398069725241853231864729763246304429004555936282046356871
    18508826420441071939750277538143617204571229748311242415842946762595677996796
    28255934015990876396835182447625188220584650644680008791509700496723788466886"
  by (rule pt_zmul_dbl [OF pt_0_64]) (simp_all only: hex_dbl)

lemma pt_0_256: "pt (zmul 256 (row_base 0))
    42740085206947573681423002599456489563927820004573071834350074001818321593686
    6935684722522267618220753829624209639984359598320562595061366101608187623111
    45190082622104628312424241671176328100266152815574825809524629283795790963326"
  by (rule pt_zmul_dbl [OF pt_0_128]) (simp_all only: hex_dbl)

lemma ge_base_row_0: "\<forall>m<8. precomp_is (zmul (int m + 1) (row_base 0)) (ge_base_0 ! m)"
  unfolding ge_base_0_def
  by (rule row_entries [OF
      ck_entry_precomp [where t = 50237614328228664512531835696112167678046477356841409204013502641986506238568, OF pt_0_1]
      ck_entry_precomp [where t = 50706672771372854810760959653406682044345679494001682866047262582014706678367, OF pt_0_2]
      ck_entry_precomp [where t = 40779097241408971452228116607583414735230162954196233009433085899742953658505, OF pt_0_3]
      ck_entry_precomp [where t = 57721214740011996325100163914057143626378515005646177755397197794928900898569, OF pt_0_4]
      ck_entry_precomp [where t = 30606639029984443449548711300126286734648431208933888345371544935567354135173, OF pt_0_5]
      ck_entry_precomp [where t = 7563714261859060042956946782859995083128379099304074101372873478829756795761, OF pt_0_6]
      ck_entry_precomp [where t = 55464387603073125013932436385527479500842401496857817399907801729203523072930, OF pt_0_7]
      ck_entry_precomp [where t = 17443172525282717937484496621620514525016940174535744246793836220237314429210, OF pt_0_8]])
    (simp_all only: hex_entry)

section \<open>Row 1\<close>

lemma pt_1_1: "pt (zmul 1 (row_base 1))
    42740085206947573681423002599456489563927820004573071834350074001818321593686
    6935684722522267618220753829624209639984359598320562595061366101608187623111
    45190082622104628312424241671176328100266152815574825809524629283795790963326"
  by (rule pt_row_Suc [OF pt_0_256]) simp

lemma pt_1_2: "pt (zmul 2 (row_base 1))
    21224688672439988911666787158810613738323773477623112347883957939967013762058
    38366836778969845606589656703794235990595431744668605526092433715493688021992
    52993498652388747170776059107235367940069893473374626431275307784703556584762"
  by (rule pt_zmul_dbl [OF pt_1_1]) (simp_all only: hex_dbl)

lemma pt_1_3: "pt (zmul 3 (row_base 1))
    50973793734927410147071993054404429506997514707423231857784709000255352116155
    16413131815607581661646167769888544224046642958087183058350580913769959758850
    3329320675061347691959732467350769932430821675809868000428433791138140933108"
  by (rule pt_zmul_add [OF pt_1_2 pt_1_1]) (simp_all only: hex_add)

lemma pt_1_4: "pt (zmul 4 (row_base 1))
    48427913736837608266186835246980452511660467837864105011084951035203551898472
    12175353081024358281744367214419414005476983323671937693306148471852937756989
    46495268282186673125544095118715147387064133624640828383339661155530964615084"
  by (rule pt_zmul_dbl [OF pt_1_2]) (simp_all only: hex_dbl)

lemma pt_1_5: "pt (zmul 5 (row_base 1))
    46184426097803860368008501464774728662594474599483318436229483844883085614034
    2646922433580073539121703714989814566149550331044196012537188063422514399678
    36912823649249826150028370670168005703535389046714062531767855488954887151475"
  by (rule pt_zmul_add [OF pt_1_4 pt_1_1]) (simp_all only: hex_add)

lemma pt_1_6: "pt (zmul 6 (row_base 1))
    43527414011853740718207284924384303730723195143425434015992280287685303141909
    14409846810646113153797114215459321616862846885033782422816123565643250686140
    44608717471329958427908846288986583936129271086101734427600419412807864114971"
  by (rule pt_zmul_dbl [OF pt_1_3]) (simp_all only: hex_dbl)

lemma pt_1_7: "pt (zmul 7 (row_base 1))
    27791720233873433091652461716557178838005662466315479765353152387942540975513
    22638648476773057485090840023493979065120026957594809032291226155287617863929
    6478560377468730739434360964771161097425184720728554650786697043660884715094"
  by (rule pt_zmul_add [OF pt_1_6 pt_1_1]) (simp_all only: hex_add)

lemma pt_1_8: "pt (zmul 8 (row_base 1))
    27186305465236551749842573802124445331552679641832078930108365447931276498935
    2312041997451586708872587523550236508157965803316305389071105927566014363214
    6180570604009350440728393675017435254415269018264322255408180225748186833284"
  by (rule pt_zmul_dbl [OF pt_1_4]) (simp_all only: hex_dbl)

lemma pt_1_16: "pt (zmul 16 (row_base 1))
    56574002287690562566387008107654176112985293065528815433473093068153251878634
    40555259698712479228142211631679471073561232444601298047972603499607234388181
    47694195569265988180568496077563044120930293615753979484739072568851707629476"
  by (rule pt_zmul_dbl [OF pt_1_8]) (simp_all only: hex_dbl)

lemma pt_1_32: "pt (zmul 32 (row_base 1))
    10780707225527799223727042055056551995903319194379151477081117380874163309022
    52019749602470059668344983068026172384793681144736228079710257376320252456841
    22151050159598718000824632839360862287443212695418183222754214503199414033276"
  by (rule pt_zmul_dbl [OF pt_1_16]) (simp_all only: hex_dbl)

lemma pt_1_64: "pt (zmul 64 (row_base 1))
    3464320599267112696879288753247079893959896359625474425290602150960671705994
    51694133746787581571724731688211103718833232899104586370422228323317173487873
    12410639268434563117656183499710036181521524381704979281979669106169505996035"
  by (rule pt_zmul_dbl [OF pt_1_32]) (simp_all only: hex_dbl)

lemma pt_1_128: "pt (zmul 128 (row_base 1))
    41301554414245700419639718923570458390119154231634759147665520927567584100098
    29364674778601018936997556626806786174514088488710242926018946766714482756934
    28561246049927828101795769315452798103178873090017356901246811231297454880799"
  by (rule pt_zmul_dbl [OF pt_1_64]) (simp_all only: hex_dbl)

lemma pt_1_256: "pt (zmul 256 (row_base 1))
    42474966419402231471674152001358115696747244471432888578155981280875302200677
    20182938281251249849712136486927848134532420155649429100890386875073412000822
    13664361721323129802210938873361597552783530985243995323016058555419267517089"
  by (rule pt_zmul_dbl [OF pt_1_128]) (simp_all only: hex_dbl)

lemma ge_base_row_1: "\<forall>m<8. precomp_is (zmul (int m + 1) (row_base 1)) (ge_base_1 ! m)"
  unfolding ge_base_1_def
  by (rule row_entries [OF
      ck_entry_precomp [where t = 7587883923075452476895235793006848700987041958420761562786787445930038060231, OF pt_1_1]
      ck_entry_precomp [where t = 39092322194140124183530118111804326734499060901029609352856299605036289779204, OF pt_1_2]
      ck_entry_precomp [where t = 9277030085043846615222912495726065469701977420698226486713025760942692366292, OF pt_1_3]
      ck_entry_precomp [where t = 24975096064402724959459136945448199799538455233488645156483227287997262061277, OF pt_1_4]
      ck_entry_precomp [where t = 1049707050411921534957972386833815089663860789892059070086747575552388979594, OF pt_1_5]
      ck_entry_precomp [where t = 8463184920793228453595486650893248346637756996834647739892156222228284693300, OF pt_1_6]
      ck_entry_precomp [where t = 7149995665734987670238366895605861944828997155623666375862553101944484179461, OF pt_1_7]
      ck_entry_precomp [where t = 29731677524652946989719868262474777407636952571611570462813419781785179060464, OF pt_1_8]])
    (simp_all only: hex_entry)

section \<open>Row 2\<close>

lemma pt_2_1: "pt (zmul 1 (row_base 2))
    42474966419402231471674152001358115696747244471432888578155981280875302200677
    20182938281251249849712136486927848134532420155649429100890386875073412000822
    13664361721323129802210938873361597552783530985243995323016058555419267517089"
  by (rule pt_row_Suc [OF pt_1_256]) simp

lemma pt_2_2: "pt (zmul 2 (row_base 2))
    52869748631960986034856376238747990075784338722812323924650009680084842073895
    3796174517710171698598804855217198428321733657889201949428151222167600506353
    36198129113847880432536743064857659430185746807428019971436497145765773382095"
  by (rule pt_zmul_dbl [OF pt_2_1]) (simp_all only: hex_dbl)

lemma pt_2_3: "pt (zmul 3 (row_base 2))
    52380781664662764370959756758949417615035468195895491498816628478206304305808
    23409749761754498726665092104140238868249051171056219215692925822640774230730
    6766893663060143851455511081795303356058790645631321371761589970744935732551"
  by (rule pt_zmul_add [OF pt_2_2 pt_2_1]) (simp_all only: hex_add)

lemma pt_2_4: "pt (zmul 4 (row_base 2))
    48142588613070057936665739918694510016346910601601381787709232357287830656052
    10385474060292222039643213821294435966838835008701008210657350549376377214577
    45794896526220341663685371134854690546978524840329220096458378881627849243074"
  by (rule pt_zmul_dbl [OF pt_2_2]) (simp_all only: hex_dbl)

lemma pt_2_5: "pt (zmul 5 (row_base 2))
    31374899750659937037450856398453504892756756066837901729106739148519770295464
    1466035504784894870586237109876124842922035912425023310961311159915853031605
    539400702300530018753633071525969080808928232035046898873334994808619630973"
  by (rule pt_zmul_add [OF pt_2_4 pt_2_1]) (simp_all only: hex_add)

lemma pt_2_6: "pt (zmul 6 (row_base 2))
    39942222410405710613846605548715319798860856380616468084424872017053836395418
    20953312611669500112098251487133626495970751623193757362820187947140145484673
    69674151141597923353344493756058970072375098855219609870826513892159385832"
  by (rule pt_zmul_dbl [OF pt_2_3]) (simp_all only: hex_dbl)

lemma pt_2_7: "pt (zmul 7 (row_base 2))
    54058163620432619261007889609050901122465193999705378521149522613477127917518
    55874352053014901353166275201545700558737580012181932521564922101459562814541
    3090213329014903574090778135126786378751030067555283752769325671324837280500"
  by (rule pt_zmul_add [OF pt_2_6 pt_2_1]) (simp_all only: hex_add)

lemma pt_2_8: "pt (zmul 8 (row_base 2))
    16394032366096881154453202042718985456910765089875944486157716261812202804788
    25091281840661552205135748393579341584120703124592003105179293019326456324854
    32554118880109915173843239536039952849279409455579901328664719854407113195416"
  by (rule pt_zmul_dbl [OF pt_2_4]) (simp_all only: hex_dbl)

lemma pt_2_16: "pt (zmul 16 (row_base 2))
    3030652980257820293954590240644581873411659236202283991563565950415750739437
    3449896845806921515373747351251070124616437120332303971385432452490848855288
    837913252601431597421498049501486032401634533130800224872491665313403819718"
  by (rule pt_zmul_dbl [OF pt_2_8]) (simp_all only: hex_dbl)

lemma pt_2_32: "pt (zmul 32 (row_base 2))
    32641263228758150355667687431806095122956256108730064648049172982697192869757
    52273704419139405159775014317290835933664475552332708366394330415164319248459
    45174265861687882592505930389536747545671242673507557512974873697321577903496"
  by (rule pt_zmul_dbl [OF pt_2_16]) (simp_all only: hex_dbl)

lemma pt_2_64: "pt (zmul 64 (row_base 2))
    26993053454492735757774095526931594398941435313067218024451801426996192317244
    20756573878643363325793821026438350840612369149764266371668034898098235986297
    44832789822879965820268175176131575587436969155863233790824184831194930567603"
  by (rule pt_zmul_dbl [OF pt_2_32]) (simp_all only: hex_dbl)

lemma pt_2_128: "pt (zmul 128 (row_base 2))
    31520167665919384194696730538735098277674977480128774019718915946563876798036
    48871947419602552330465379555019735272161840172752412330071639916632071437120
    16085320380054124039335502096414875440049960562708450724055842092618710006417"
  by (rule pt_zmul_dbl [OF pt_2_64]) (simp_all only: hex_dbl)

lemma pt_2_256: "pt (zmul 256 (row_base 2))
    4953187230743962930662113245944254306680232166954327932822645132912059759223
    14955570584878506545981286824704959560776362796341363640094685063311756888261
    35904166375489452817137140598001589045575754508954150922190349373018797885359"
  by (rule pt_zmul_dbl [OF pt_2_128]) (simp_all only: hex_dbl)

lemma ge_base_row_2: "\<forall>m<8. precomp_is (zmul (int m + 1) (row_base 2)) (ge_base_2 ! m)"
  unfolding ge_base_2_def
  by (rule row_entries [OF
      ck_entry_precomp [where t = 28451869976407090222441007966926838613592435081401312415984017477467971029385, OF pt_2_1]
      ck_entry_precomp [where t = 9295310295501051144387501917124852476766979789947871341847343323854140397280, OF pt_2_2]
      ck_entry_precomp [where t = 29408927912847625880133125959953938854056264283340444007640737432312093030758, OF pt_2_3]
      ck_entry_precomp [where t = 40304265145061330935147042133380017187556779260482162648340312732284521572982, OF pt_2_4]
      ck_entry_precomp [where t = 33453452838064807467045255739161458354140118167006511792159110793946859279087, OF pt_2_5]
      ck_entry_precomp [where t = 14743666104711798212682538654186047653590362035382494310482546340722686518454, OF pt_2_6]
      ck_entry_precomp [where t = 41540819367681292918688765034481516167517428244261518965899447353585286694226, OF pt_2_7]
      ck_entry_precomp [where t = 52492656548263831674072434840291686214571040573112328389160731373998577443518, OF pt_2_8]])
    (simp_all only: hex_entry)

section \<open>Row 3\<close>

lemma pt_3_1: "pt (zmul 1 (row_base 3))
    4953187230743962930662113245944254306680232166954327932822645132912059759223
    14955570584878506545981286824704959560776362796341363640094685063311756888261
    35904166375489452817137140598001589045575754508954150922190349373018797885359"
  by (rule pt_row_Suc [OF pt_2_256]) simp

lemma pt_3_2: "pt (zmul 2 (row_base 3))
    19657949635683093185289569710211585343964433529222332533539288290160154185011
    56892661656082980073316383795158683496393820909924608301927348333889896713218
    4523399798257254590754249182144745153245192064643050249694357589298209563360"
  by (rule pt_zmul_dbl [OF pt_3_1]) (simp_all only: hex_dbl)

lemma pt_3_3: "pt (zmul 3 (row_base 3))
    31304613760938504760582672467914663278822692157180368478417398855134746884568
    47883697631619232113968705988495834546462535128285694215750466493264011081313
    53023978573388825142059175055893055470420977203361894524980325079488712172504"
  by (rule pt_zmul_add [OF pt_3_2 pt_3_1]) (simp_all only: hex_add)

lemma pt_3_4: "pt (zmul 4 (row_base 3))
    46976510156322507137269201780554059652401452413839958562844701649608332008299
    25448670393978825583576233442397517457541692536451699283561630611656102572950
    13069972696881662464176143830263831955044910506444508678823835549512677542230"
  by (rule pt_zmul_dbl [OF pt_3_2]) (simp_all only: hex_dbl)

lemma pt_3_5: "pt (zmul 5 (row_base 3))
    47918151996430953205299676746389129711498278894412353323055730831339548381201
    5955224504549288857581420600034742627137016040572359429290189842300485921238
    27701212326325485493352893753817271532670347528308337298566744828273273602560"
  by (rule pt_zmul_add [OF pt_3_4 pt_3_1]) (simp_all only: hex_add)

lemma pt_3_6: "pt (zmul 6 (row_base 3))
    23904464896333608991295732748996988828164620261932216985968862997657500711147
    46107523827474150565775982788770309404087932091461514986676419581157816039857
    14466642860843793828326513800482303337136844283713173435212251464585920991184"
  by (rule pt_zmul_dbl [OF pt_3_3]) (simp_all only: hex_dbl)

lemma pt_3_7: "pt (zmul 7 (row_base 3))
    17688596151635222349324213639813592960789359150627334255763281722003281628748
    49767265718117026158193301732615241365293700217962571068230880168170334574553
    32598543363116244584709467096520402073575975382641049445967070640669939004509"
  by (rule pt_zmul_add [OF pt_3_6 pt_3_1]) (simp_all only: hex_add)

lemma pt_3_8: "pt (zmul 8 (row_base 3))
    18958742773298937073755619970621164217249748928981220693078384958060703810681
    49060669014889618634034845030820105181036997350936347239322049348217814945797
    48321362862264909384234854733589287260112973829205462179581146607917067621158"
  by (rule pt_zmul_dbl [OF pt_3_4]) (simp_all only: hex_dbl)

lemma pt_3_16: "pt (zmul 16 (row_base 3))
    13692443628628542482398138298848103782249043847728748207160598387591474036267
    6535661448952062909216951562535374120699607245381865810845630213621355776630
    15342522473192866230837583424334099165560129800655123186506064852181609174139"
  by (rule pt_zmul_dbl [OF pt_3_8]) (simp_all only: hex_dbl)

lemma pt_3_32: "pt (zmul 32 (row_base 3))
    44073126145632928819502260833325828264688543470827754699842109261297194996573
    25708642289863751966302024225237904726630733908921048717331198880892436709901
    56265645933686757449185279007399024171811643902724938752351785624581006846526"
  by (rule pt_zmul_dbl [OF pt_3_16]) (simp_all only: hex_dbl)

lemma pt_3_64: "pt (zmul 64 (row_base 3))
    32998196372564612992359818786763423324015994136376432300157753889179321890705
    22310901527710631603180993315816672899331474004376446475717230095796374000992
    6953761957982900449656063395150076493896967611378394665603189079177799255493"
  by (rule pt_zmul_dbl [OF pt_3_32]) (simp_all only: hex_dbl)

lemma pt_3_128: "pt (zmul 128 (row_base 3))
    54882909907635354958311263340029521311980981711637644057731212095996500430552
    42932185445836734984879765196158360688663229692937278561535355964359997581186
    18298544064093672336254536850579619801270833642081686504947619866293205546361"
  by (rule pt_zmul_dbl [OF pt_3_64]) (simp_all only: hex_dbl)

lemma pt_3_256: "pt (zmul 256 (row_base 3))
    34881215023217925273427507880129132732978197777830040111026122875038460546235
    49417579777138232809020590461442191010157021293872759678974198530760482863386
    55450006886699097850473134521998543461614749775831529049808198832293454998897"
  by (rule pt_zmul_dbl [OF pt_3_128]) (simp_all only: hex_dbl)

lemma ge_base_row_3: "\<forall>m<8. precomp_is (zmul (int m + 1) (row_base 3)) (ge_base_3 ! m)"
  unfolding ge_base_3_def
  by (rule row_entries [OF
      ck_entry_precomp [where t = 47755065363846189113461404853942085918256976385442763263791031601346691441789, OF pt_3_1]
      ck_entry_precomp [where t = 41330723346612204007591697729633555703795534604710918079352327372371347444449, OF pt_3_2]
      ck_entry_precomp [where t = 42687874999959497303917400677323895350315592036002314149581384504830236608320, OF pt_3_3]
      ck_entry_precomp [where t = 26002208807001360045232049031388277562638901388582737044133601423393690983761, OF pt_3_4]
      ck_entry_precomp [where t = 23114062882190327792083433786886944815661275959326460784697164400942659547047, OF pt_3_5]
      ck_entry_precomp [where t = 43938326906397071482133813695476606919629706461319022696422921304556740218984, OF pt_3_6]
      ck_entry_precomp [where t = 31659145308018313228544054581829354608158326727101474528992418324816259533112, OF pt_3_7]
      ck_entry_precomp [where t = 13345611359081422550671188517537801669123357355329491823438875338533662558461, OF pt_3_8]])
    (simp_all only: hex_entry)

section \<open>Row 4\<close>

lemma pt_4_1: "pt (zmul 1 (row_base 4))
    34881215023217925273427507880129132732978197777830040111026122875038460546235
    49417579777138232809020590461442191010157021293872759678974198530760482863386
    55450006886699097850473134521998543461614749775831529049808198832293454998897"
  by (rule pt_row_Suc [OF pt_3_256]) simp

lemma pt_4_2: "pt (zmul 2 (row_base 4))
    34085450069500794510152409520807677869950508039913904939590977699961040436501
    52278291416665193925925829527972181593462278765769350530558236265859287513035
    6446406076878883164533341186824663052309953784530127776470524942864456901624"
  by (rule pt_zmul_dbl [OF pt_4_1]) (simp_all only: hex_dbl)

lemma pt_4_3: "pt (zmul 3 (row_base 4))
    18488499022746055163872245557291569739875705170513690095816469389715453036793
    23809914591520344032642961017103405458690975015723957426748186626882854873281
    20388726441963995616501265826050431659074517628317917957144267293557041912803"
  by (rule pt_zmul_add [OF pt_4_2 pt_4_1]) (simp_all only: hex_add)

lemma pt_4_4: "pt (zmul 4 (row_base 4))
    23406589806172960174851795884335653806454241620752476244917220156478142938335
    37854925133430588252830311134599570623631025784885083249593544768206604501465
    32048662158370501651638383871353832204187101492090984920718339102748595281067"
  by (rule pt_zmul_dbl [OF pt_4_2]) (simp_all only: hex_dbl)

lemma pt_4_5: "pt (zmul 5 (row_base 4))
    46746611402572912007602391311307157768156089528706237955186680096634201754777
    57183095455544506669910536860380505601454569015188813853076475494278909964085
    45797212378547381513255280383124068027390952090419031573331626895515316284233"
  by (rule pt_zmul_add [OF pt_4_4 pt_4_1]) (simp_all only: hex_add)

lemma pt_4_6: "pt (zmul 6 (row_base 4))
    39235979450616431568584470375617041099138895518046533127971242992408759632487
    48261191633292948936869172744987459320920074650430094271633034405690439301938
    50069445886905036354525267026321278054845586200822544695567232631580109398028"
  by (rule pt_zmul_dbl [OF pt_4_3]) (simp_all only: hex_dbl)

lemma pt_4_7: "pt (zmul 7 (row_base 4))
    34260902860247632416664697601557078362215868007837830785086314189737776939708
    50080153573165491190568719303241486458388572988015542395393854372187567522055
    13820209338983038210678301954766448978366795549716924828973113476529949610212"
  by (rule pt_zmul_add [OF pt_4_6 pt_4_1]) (simp_all only: hex_add)

lemma pt_4_8: "pt (zmul 8 (row_base 4))
    30886537925985998524254955874096819652783119677955825045199375216769416949702
    54037904725904619508111005987774813902206702994070596763696498304265167397445
    53658060534139097763126570635651550403869388326333160534303832606993035880617"
  by (rule pt_zmul_dbl [OF pt_4_4]) (simp_all only: hex_dbl)

lemma pt_4_16: "pt (zmul 16 (row_base 4))
    19639451821147740670698624700272734820894813909735291580470206199768700605392
    57494903421850047051437277431621495081848935660098712752929417894600320224466
    3122081717808172628843919130257368056159335319061369468836479314842844397144"
  by (rule pt_zmul_dbl [OF pt_4_8]) (simp_all only: hex_dbl)

lemma pt_4_32: "pt (zmul 32 (row_base 4))
    12469452200683121609960440379957844757586634886744101850068664139886892025012
    10489147278187110362134995111963226564141046001348941075622680658741593532648
    33414890102189295534900649545035040709255132555922976260275621925201284984871"
  by (rule pt_zmul_dbl [OF pt_4_16]) (simp_all only: hex_dbl)

lemma pt_4_64: "pt (zmul 64 (row_base 4))
    549689331659327561605194692422602825769416452111816234011461274565005995655
    51469744701391552480837245041655791053255331145812797331218148961728035441779
    22883699087480553743483052509154260312160700959548774219655654004825535055944"
  by (rule pt_zmul_dbl [OF pt_4_32]) (simp_all only: hex_dbl)

lemma pt_4_128: "pt (zmul 128 (row_base 4))
    45113617814944202352153583642261178502360614596484279216729123193977391993714
    1980278042691965713981149139930452264163076071667628639090250557504770174587
    42514426125661769260058301094397044005663115628621717523018535198570031467450"
  by (rule pt_zmul_dbl [OF pt_4_64]) (simp_all only: hex_dbl)

lemma pt_4_256: "pt (zmul 256 (row_base 4))
    6975916580616431138430993573433071747917420592434172169347774209021880766693
    27729946105412964655112236315850267932468036882545041507320998583854342562650
    18408639415301046201686838874843235575286973466641218752632030265278046338872"
  by (rule pt_zmul_dbl [OF pt_4_128]) (simp_all only: hex_dbl)

lemma ge_base_row_4: "\<forall>m<8. precomp_is (zmul (int m + 1) (row_base 4)) (ge_base_4 ! m)"
  unfolding ge_base_4_def
  by (rule row_entries [OF
      ck_entry_precomp [where t = 56465797158513866373978332035777509370095804007883348063296109133608378741330, OF pt_4_1]
      ck_entry_precomp [where t = 15316304754879040914707034707046046785892042896946314716362418059666109386800, OF pt_4_2]
      ck_entry_precomp [where t = 26351572478274632803272096092169886056251892261664660360718579306239291810187, OF pt_4_3]
      ck_entry_precomp [where t = 26210106361301965910432131228838378923743978587960502357418323750851062380029, OF pt_4_4]
      ck_entry_precomp [where t = 15819465482797544953188739125351003427668507530220952327539962469509556704221, OF pt_4_5]
      ck_entry_precomp [where t = 36414862789189463146872024259298279138802959820984977952829873894210279132300, OF pt_4_6]
      ck_entry_precomp [where t = 42347468642669403870055823984642967943449901954771723239850115155671124955254, OF pt_4_7]
      ck_entry_precomp [where t = 31233451458326180876133059785286504050284765638907405835319358891229712925196, OF pt_4_8]])
    (simp_all only: hex_entry)

section \<open>Row 5\<close>

lemma pt_5_1: "pt (zmul 1 (row_base 5))
    6975916580616431138430993573433071747917420592434172169347774209021880766693
    27729946105412964655112236315850267932468036882545041507320998583854342562650
    18408639415301046201686838874843235575286973466641218752632030265278046338872"
  by (rule pt_row_Suc [OF pt_4_256]) simp

lemma pt_5_2: "pt (zmul 2 (row_base 5))
    26721402367527682574942110461580517411213448744716771766358148163877301105728
    9288387344892172799170744310978976179910527092723579902952158489343272868948
    36702443156538073551760730366593961591875231585749729043684442456472330641546"
  by (rule pt_zmul_dbl [OF pt_5_1]) (simp_all only: hex_dbl)

lemma pt_5_3: "pt (zmul 3 (row_base 5))
    54963056372161567893377544435736002562363728332386822033880374829153683072043
    27166693465051931478180628457191481819179375994284390853808326061634135222357
    33825002540684133839576157126471860058530179080646483925646992326648569471192"
  by (rule pt_zmul_add [OF pt_5_2 pt_5_1]) (simp_all only: hex_add)

lemma pt_5_4: "pt (zmul 4 (row_base 5))
    10988524301762373242246727351929902921498129982664316002800509126742121162784
    28440719635374571293396157229875541269413226941353902928329788578666889313331
    29766490078062356793263506445277479941437805547176997042076394190676944428167"
  by (rule pt_zmul_dbl [OF pt_5_2]) (simp_all only: hex_dbl)

lemma pt_5_5: "pt (zmul 5 (row_base 5))
    42107033242403816929914858786264525642792695777389598268193718900875626922259
    37928303814505886406947356577381229247850253777866238309537883231964352586301
    53437016769927872568841524673212535293417319903808271186954020113016457973341"
  by (rule pt_zmul_add [OF pt_5_4 pt_5_1]) (simp_all only: hex_add)

lemma pt_5_6: "pt (zmul 6 (row_base 5))
    20592390056300107960862250191507484939525127135573939248487287843879429306062
    5041203799155760369501752367479807223657485176117900324814217473160265307378
    23603707594390156937820040200570745020678187759173725370682006724400553413413"
  by (rule pt_zmul_dbl [OF pt_5_3]) (simp_all only: hex_dbl)

lemma pt_5_7: "pt (zmul 7 (row_base 5))
    37259659877656971759273699805462046629839486429658383653663015355645536201169
    27833687810669843820165956907821830134714057233603747676885043209498540668605
    37162078503997817175097659746691572479081974315996173503193074241865557205368"
  by (rule pt_zmul_add [OF pt_5_6 pt_5_1]) (simp_all only: hex_add)

lemma pt_5_8: "pt (zmul 8 (row_base 5))
    40716425138725944745186331899970009610267626729218118393270956274853491203124
    46769152930682528968583401401235025295039214644177585564512426226384755878073
    27338874750841438619526070675517457437000999557721496913758955756474694858417"
  by (rule pt_zmul_dbl [OF pt_5_4]) (simp_all only: hex_dbl)

lemma pt_5_16: "pt (zmul 16 (row_base 5))
    37510741031459341378829814964903502667912927266993467424549080808057139144766
    57303500313920857781889356400330248464357243021787478340933447880777082073539
    7363129277722595474935336375675466497624125840692059452026432607525958374839"
  by (rule pt_zmul_dbl [OF pt_5_8]) (simp_all only: hex_dbl)

lemma pt_5_32: "pt (zmul 32 (row_base 5))
    36241354563762173459705108462830400635564419268406145900966660417613821977637
    21485101354679558701669270959816344644464678765615788190638683578533731429966
    52318607035994564412860375864151544591522289396313469574124980886928171577603"
  by (rule pt_zmul_dbl [OF pt_5_16]) (simp_all only: hex_dbl)

lemma pt_5_64: "pt (zmul 64 (row_base 5))
    20584796599643323532861987265526248228488799407283500188808238372131189701480
    26478740800733269288198131365468684670960535144929794027484143547518195267108
    52591812484226085270612738911347323365355109191762834691951864078521228047910"
  by (rule pt_zmul_dbl [OF pt_5_32]) (simp_all only: hex_dbl)

lemma pt_5_128: "pt (zmul 128 (row_base 5))
    39134758420864184254969116302644788663556954029588642642423917089530226989597
    5124259569483350729196958378822907526496602783247669422492733697864938451662
    17807642223273942485539909790431828387941587582238528723782056953754717812931"
  by (rule pt_zmul_dbl [OF pt_5_64]) (simp_all only: hex_dbl)

lemma pt_5_256: "pt (zmul 256 (row_base 5))
    37386868568128681599499830859763869162133292900805977973436494315455022169426
    36563616321823734465666870349235432940379598201907262626645125270466793116054
    56583979703411916882932154846613088400979015318514747688785230390140028694546"
  by (rule pt_zmul_dbl [OF pt_5_128]) (simp_all only: hex_dbl)

lemma ge_base_row_5: "\<forall>m<8. precomp_is (zmul (int m + 1) (row_base 5)) (ge_base_5 ! m)"
  unfolding ge_base_5_def
  by (rule row_entries [OF
      ck_entry_precomp [where t = 56764799645676364864036401965246402271543447376834639606446113568819416342477, OF pt_5_1]
      ck_entry_precomp [where t = 56450436000505374538761312252002094662147708858587019138230370804286086657896, OF pt_5_2]
      ck_entry_precomp [where t = 17741815744867511998462949175201843146621031006703264623514952140274138389159, OF pt_5_3]
      ck_entry_precomp [where t = 57712876388783890193736716361562969424636529491556222079006864269963846037694, OF pt_5_4]
      ck_entry_precomp [where t = 21291307338170676612483373074212677214844075606903206886197239112893781314693, OF pt_5_5]
      ck_entry_precomp [where t = 15774062831240277979636735997978495259286662484126110593157434148071545090363, OF pt_5_6]
      ck_entry_precomp [where t = 34461021269008303324543592731622586425273307636688676317707078966871175369019, OF pt_5_7]
      ck_entry_precomp [where t = 11354055777719228834625119042412118559188857887219405007123106963572677228208, OF pt_5_8]])
    (simp_all only: hex_entry)

section \<open>Row 6\<close>

lemma pt_6_1: "pt (zmul 1 (row_base 6))
    37386868568128681599499830859763869162133292900805977973436494315455022169426
    36563616321823734465666870349235432940379598201907262626645125270466793116054
    56583979703411916882932154846613088400979015318514747688785230390140028694546"
  by (rule pt_row_Suc [OF pt_5_256]) simp

lemma pt_6_2: "pt (zmul 2 (row_base 6))
    28582163575878071020286779611073458927627633926762077980797377317166201949523
    29517287490576008752010229265386725675942288741512148107897703457428460766064
    47329309199468658306920108621065283293181324725226367159337271290951929759119"
  by (rule pt_zmul_dbl [OF pt_6_1]) (simp_all only: hex_dbl)

lemma pt_6_3: "pt (zmul 3 (row_base 6))
    36071698920086746112166822845254747156717446428879055439355086173224584150218
    47492361386564160898139850383313216797154638341741029980735629781389703257235
    29074486594251431032138575677643543950788372212628932109102461042232615467320"
  by (rule pt_zmul_add [OF pt_6_2 pt_6_1]) (simp_all only: hex_add)

lemma pt_6_4: "pt (zmul 4 (row_base 6))
    6664938945656958224937745274414537263586471401885907820916253978327430063844
    2126634075982654318590492885153132310981526013601685661016577258450272533730
    48358897633759715225596321528238085678630066885614054890096897164929744758091"
  by (rule pt_zmul_dbl [OF pt_6_2]) (simp_all only: hex_dbl)

lemma pt_6_5: "pt (zmul 5 (row_base 6))
    9386069204832276100165517633266276430172753285224673965338492703661950609068
    57343798412003913792252502758642451420734231748095989676290104032076116186048
    33011805266832834867446826164368075395194966130656619557373218252942211163011"
  by (rule pt_zmul_add [OF pt_6_4 pt_6_1]) (simp_all only: hex_add)

lemma pt_6_6: "pt (zmul 6 (row_base 6))
    45727292177295306413966080005773449597648964923842018071723442171471990488459
    3266123485712394335270968155860154518072166567062921842076065006531464153670
    56950275950433157182236810161485870920009772885816813930959635507433226138309"
  by (rule pt_zmul_dbl [OF pt_6_3]) (simp_all only: hex_dbl)

lemma pt_6_7: "pt (zmul 7 (row_base 6))
    54583541070021138202884579640233149354539529514564220786273283478616282463571
    43469789974487156316309407643596188851097040399013701578627023379031945452077
    1727044658732512573462744313340027854716863896147124131278350608921210315700"
  by (rule pt_zmul_add [OF pt_6_6 pt_6_1]) (simp_all only: hex_add)

lemma pt_6_8: "pt (zmul 8 (row_base 6))
    26893906638378427820269402226975745300041457754729633179574373243303786072539
    23888113636819035429926907107258444263090323522691660954731306854220582218409
    6566018336193216325911265768803656355213526754227263191813385605921770051483"
  by (rule pt_zmul_dbl [OF pt_6_4]) (simp_all only: hex_dbl)

lemma pt_6_16: "pt (zmul 16 (row_base 6))
    189355175404241672738129259114556965478340615081311091777345303360588540836
    51767299105794865359908754261640899704919154549996018629901376258684159289317
    37728407000571974825017289759833298152414496648295915347572432767815991083458"
  by (rule pt_zmul_dbl [OF pt_6_8]) (simp_all only: hex_dbl)

lemma pt_6_32: "pt (zmul 32 (row_base 6))
    14160459449409432346176007562822108240728702992215244509282193488000767962072
    40953833938605278231697173707354259912669188943485919940833211413684494670284
    35614076081522917773686585240962543335655700012194476801702610469593652438631"
  by (rule pt_zmul_dbl [OF pt_6_16]) (simp_all only: hex_dbl)

lemma pt_6_64: "pt (zmul 64 (row_base 6))
    4068261697406638961935849621742963533803537470089883744480903389537982658853
    17740693327176817854801454122587194558819032432129012706849247534385017891832
    46943375834394013388880581448517761862447528101739945178489527961850145860933"
  by (rule pt_zmul_dbl [OF pt_6_32]) (simp_all only: hex_dbl)

lemma pt_6_128: "pt (zmul 128 (row_base 6))
    11823766772564295466429875255239566661981081448176083546584427805840615152756
    54040755356101629851791062456974045253014690287858169301317937866514626344693
    7228852966000589522146185134820697748285535055060775300750398357656912208389"
  by (rule pt_zmul_dbl [OF pt_6_64]) (simp_all only: hex_dbl)

lemma pt_6_256: "pt (zmul 256 (row_base 6))
    51502639449004291622700088031154688719483163480862436225495097465744471100900
    25964330211653062987717188781243886463821901684982951650673786718455132103697
    38317642312210954027635398252908819991782675198528889188269792595252970193743"
  by (rule pt_zmul_dbl [OF pt_6_128]) (simp_all only: hex_dbl)

lemma ge_base_row_6: "\<forall>m<8. precomp_is (zmul (int m + 1) (row_base 6)) (ge_base_6 ! m)"
  unfolding ge_base_6_def
  by (rule row_entries [OF
      ck_entry_precomp [where t = 51421699959658133488712029380485152858798520627392651264474919470745381876784, OF pt_6_1]
      ck_entry_precomp [where t = 34512591192687828692078762904758383885716226253722505484241805032454922705024, OF pt_6_2]
      ck_entry_precomp [where t = 48142563076882481058310445803135535508945942883909531533138588507465518188399, OF pt_6_3]
      ck_entry_precomp [where t = 963837964085558230313141714904071164065260392108041312663279840660637990353, OF pt_6_4]
      ck_entry_precomp [where t = 22364214685946432667192352326584016112375237431246441783348183444104943209208, OF pt_6_5]
      ck_entry_precomp [where t = 32952840616749654374222602142062733932317057662550465854026400305469768164161, OF pt_6_6]
      ck_entry_precomp [where t = 12805140924505840564460055678031621322941577155313100465094046911399978635352, OF pt_6_7]
      ck_entry_precomp [where t = 43367941149677131893312238394479744848216580183077423210284613718909362908083, OF pt_6_8]])
    (simp_all only: hex_entry)

section \<open>Row 7\<close>

lemma pt_7_1: "pt (zmul 1 (row_base 7))
    51502639449004291622700088031154688719483163480862436225495097465744471100900
    25964330211653062987717188781243886463821901684982951650673786718455132103697
    38317642312210954027635398252908819991782675198528889188269792595252970193743"
  by (rule pt_row_Suc [OF pt_6_256]) simp

lemma pt_7_2: "pt (zmul 2 (row_base 7))
    21734724549841690193090842476809076716419456331211857741265759957945129922704
    29304975373538996048835671269729647815982116853415896625128567603603329907841
    11657061758660818173365302068352874721741763806348322850356254281234951842294"
  by (rule pt_zmul_dbl [OF pt_7_1]) (simp_all only: hex_dbl)

lemma pt_7_3: "pt (zmul 3 (row_base 7))
    5843582063935592337632194040932789533937605372922915451040035846805699711538
    11972345020499489872406592055102180129353682342366829225291971826785066244741
    23985166657496267613086509872757854479091306825316675897360152637625440347177"
  by (rule pt_zmul_add [OF pt_7_2 pt_7_1]) (simp_all only: hex_add)

lemma pt_7_4: "pt (zmul 4 (row_base 7))
    30001687184291412988809724842551122044758922095287536204847335704949115767033
    50835770704986724242436677611718431048705647431520755367710246538243619075335
    4603211022261203990029032018990026602136132108028843195363461212556367609914"
  by (rule pt_zmul_dbl [OF pt_7_2]) (simp_all only: hex_dbl)

lemma pt_7_5: "pt (zmul 5 (row_base 7))
    43866618986390434686016995101934850089516357370165420144464451421111130222578
    36635387664828665286675424539055281868611750712637062002479245016847391939887
    26538627210016019766764368541006200602102793929170223190191965926082757269582"
  by (rule pt_zmul_add [OF pt_7_4 pt_7_1]) (simp_all only: hex_add)

lemma pt_7_6: "pt (zmul 6 (row_base 7))
    57259028782949987200788258198366520887519292550906864302209040218244084726337
    6568618045493889384521725646700637332106487979654862646506422022261952963095
    1005716063392904791883588418592187279850541718168339086822847286010445058131"
  by (rule pt_zmul_dbl [OF pt_7_3]) (simp_all only: hex_dbl)

lemma pt_7_7: "pt (zmul 7 (row_base 7))
    919437982141481641041847648116570885474652493761564118577518432517059136696
    9170717050754847961382685742720225207844203235850815184444956538795231111669
    6960581351514884677117876723520552174148773258690276781406344604162825298297"
  by (rule pt_zmul_add [OF pt_7_6 pt_7_1]) (simp_all only: hex_add)

lemma pt_7_8: "pt (zmul 8 (row_base 7))
    48882273411393669122044540803817352985557027118982854238955416614908556491266
    11407218847596422755991434262659321162615585973279975075808294900032260014207
    46793189066854832926531855970043131821266249646052524465103067372779906799881"
  by (rule pt_zmul_dbl [OF pt_7_4]) (simp_all only: hex_dbl)

lemma pt_7_16: "pt (zmul 16 (row_base 7))
    39468567782001629845469931291703114351231301360810771182933666088696363117813
    48520602033621835552297087477366344329736087438136796734023135166735240273716
    9872084444207351340321441493399001403586287205237122265895727186172937118616"
  by (rule pt_zmul_dbl [OF pt_7_8]) (simp_all only: hex_dbl)

lemma pt_7_32: "pt (zmul 32 (row_base 7))
    14634154268926673608900308779686697918188551795673908169701089186353020356853
    22635139240448021868201029866848773426210620100937671088354264929878430660010
    15911884511005566676282293104640197816655072772833195630405302604986741114287"
  by (rule pt_zmul_dbl [OF pt_7_16]) (simp_all only: hex_dbl)

lemma pt_7_64: "pt (zmul 64 (row_base 7))
    40334547811194980222132355507048888492367411465942395326465999366654848330295
    30141215867806221944935945054462736214036523470954538064480540475644488758752
    11192042339478110700095491043882329867236060505358123159591631576744348535575"
  by (rule pt_zmul_dbl [OF pt_7_32]) (simp_all only: hex_dbl)

lemma pt_7_128: "pt (zmul 128 (row_base 7))
    1858744241653336215343795677286102722518125133862047495966642301222759149346
    51688159461706094879304629140765766764511202268320054417312410136779795003785
    5495084401660452631061616883313056335601062133206433446046602487240929848558"
  by (rule pt_zmul_dbl [OF pt_7_64]) (simp_all only: hex_dbl)

lemma pt_7_256: "pt (zmul 256 (row_base 7))
    44388040078108422381599858079345000847427885062711346041771517276226329616898
    1423604317745427322790381226394774763053130405907994130724317794966956167955
    44572319132873595455842987266297020623526171197071652062676750099116673206361"
  by (rule pt_zmul_dbl [OF pt_7_128]) (simp_all only: hex_dbl)

lemma ge_base_row_7: "\<forall>m<8. precomp_is (zmul (int m + 1) (row_base 7)) (ge_base_7 ! m)"
  unfolding ge_base_7_def
  by (rule row_entries [OF
      ck_entry_precomp [where t = 43770426264118918909783461028749446169351069435554305000100345974965960357774, OF pt_7_1]
      ck_entry_precomp [where t = 44986326881635460017158390896850251516845273638740138404439088669595325866075, OF pt_7_2]
      ck_entry_precomp [where t = 51003336391242365398603558657762411510986397970791495328314451449094402742697, OF pt_7_3]
      ck_entry_precomp [where t = 29614353902843101971246659850110438316679250149300710078753997294490125651300, OF pt_7_4]
      ck_entry_precomp [where t = 16613905014371456579813876934913138822299369177430058796080334504049853735668, OF pt_7_5]
      ck_entry_precomp [where t = 10256268312951935922943110046076555499668089573571950425525658998874612834015, OF pt_7_6]
      ck_entry_precomp [where t = 54662823356110993230037175131481438882634210937508843203161327271639600064154, OF pt_7_7]
      ck_entry_precomp [where t = 8717738338969336533237875646016915266408314034239149575065217019907544612024, OF pt_7_8]])
    (simp_all only: hex_entry)

end
