(* ===== verification/BaseRowsB.thy ===== *)
theory BaseRowsB
  imports BaseRowsA
begin

text \<open>
  Rows 8 to 15 of the table \<open>ge_base\<close>: the multiples of \<open>256 ^ i B\<close> by one to eight, each point
  certified from the ones before it, and the five doublings that lead to the next row.
\<close>

section \<open>Row 8\<close>

lemma pt_8_1: "pt (zmul 1 (row_base 8))
    44388040078108422381599858079345000847427885062711346041771517276226329616898
    1423604317745427322790381226394774763053130405907994130724317794966956167955
    44572319132873595455842987266297020623526171197071652062676750099116673206361"
  by (rule pt_row_Suc [OF pt_7_256]) simp

lemma pt_8_2: "pt (zmul 2 (row_base 8))
    1010247752756362260881243234901448331704228065985397871388404881884689704343
    34905110436806704375115117043721051740842418404017689336019589974414716422638
    19849296478328768495495805247695997168837367132856874395156421056346847466394"
  by (rule pt_zmul_dbl [OF pt_8_1]) (simp_all only: hex_dbl)

lemma pt_8_3: "pt (zmul 3 (row_base 8))
    8668195667617162713602608175515147103660941879429511114053709036044027311207
    37681485510013466138918998841666858165213744209089186872109760116369856650799
    8987285660766590138219011762984157073474138416691091583362974629489246270471"
  by (rule pt_zmul_add [OF pt_8_2 pt_8_1]) (simp_all only: hex_add)

lemma pt_8_4: "pt (zmul 4 (row_base 8))
    49444157831517844751255683186086055092391671187830014667142777982061391761769
    38325651754372413483217343763106935496036760575967773049932675282070249514007
    43678687874783753989238000938645889054046194408155765536265092054211996908656"
  by (rule pt_zmul_dbl [OF pt_8_2]) (simp_all only: hex_dbl)

lemma pt_8_5: "pt (zmul 5 (row_base 8))
    24424117292259436307685934938063848544019468200375892548716527440009604940493
    36583979248234726752743779762394860626104356418177578515410668973021968894858
    23089229879023823317650486648615261113639661965809164793311284521221055636439"
  by (rule pt_zmul_add [OF pt_8_4 pt_8_1]) (simp_all only: hex_add)

lemma pt_8_6: "pt (zmul 6 (row_base 8))
    49025407799462363586681626888639698365893077756861158880615624267162821984787
    12818500738744348816718749150692681836882431285482295854460275860287501158274
    26006868771002328881253046589605913386852383210104504704200133552093254321232"
  by (rule pt_zmul_dbl [OF pt_8_3]) (simp_all only: hex_dbl)

lemma pt_8_7: "pt (zmul 7 (row_base 8))
    47365806204061385358548986132911778319470339734863904634944103996966447908817
    13815220452364022765430582649306621386616680709785487953250526715757190547494
    53574871283165553125314121006188091071578967551114640432034301183164885326658"
  by (rule pt_zmul_add [OF pt_8_6 pt_8_1]) (simp_all only: hex_add)

lemma pt_8_8: "pt (zmul 8 (row_base 8))
    48577842308630573365019333121847151099247213871386595032531930153824808034985
    11698818496297094926714371527533498792080572905846263409223249541482347665093
    46361589381050185680625026890177279253421462440776560773133113149222398787011"
  by (rule pt_zmul_dbl [OF pt_8_4]) (simp_all only: hex_dbl)

lemma pt_8_16: "pt (zmul 16 (row_base 8))
    51416308261230323791972553180748498853602467457543596950952167188234310296102
    26500516396956780220658887122604521806411632574870530108424521362596479422245
    30410546602291582670659393086327772426064406181506692647141451638117341897861"
  by (rule pt_zmul_dbl [OF pt_8_8]) (simp_all only: hex_dbl)

lemma pt_8_32: "pt (zmul 32 (row_base 8))
    15426476579153824640063748107939638128818377676814173710932605230473017653035
    54874201845107823946446372651255629171375058352614330916365376676602781150596
    16908203726395530045473969451787185160558465998629937285254021128267989368067"
  by (rule pt_zmul_dbl [OF pt_8_16]) (simp_all only: hex_dbl)

lemma pt_8_64: "pt (zmul 64 (row_base 8))
    12712558393922043510311116546282894497829799292545297912541506421626765270056
    39685799954857566999031473139583267673043941812564928655249869908845569230293
    38598111718616256682482540060487720632277835735957868974528671049269819805741"
  by (rule pt_zmul_dbl [OF pt_8_32]) (simp_all only: hex_dbl)

lemma pt_8_128: "pt (zmul 128 (row_base 8))
    35966709613487039836771455641568151899303686490727459701589928757130906345287
    4590715909301946484670322652103488894781039724476604802293138388114824244525
    26829535402774552580800680567331033539880934571920642580760763613951512763619"
  by (rule pt_zmul_dbl [OF pt_8_64]) (simp_all only: hex_dbl)

lemma pt_8_256: "pt (zmul 256 (row_base 8))
    14209203893922473311723595664823042609383238336090280855951284872268697714335
    54096248485646036580969450637608332943982160324686939405543494070853926149657
    4975509444067247565308788967192026903932001450383679535544650631823633154885"
  by (rule pt_zmul_dbl [OF pt_8_128]) (simp_all only: hex_dbl)

lemma ge_base_row_8: "\<forall>m<8. precomp_is (zmul (int m + 1) (row_base 8)) (ge_base_8 ! m)"
  unfolding ge_base_8_def
  by (rule row_entries [OF
      ck_entry_precomp [where t = 4903261878018343802674235243046271348789391508768465806716633528478782514849, OF pt_8_1]
      ck_entry_precomp [where t = 5337171852761355920589028320888701925957450149919026217461911623736877192990, OF pt_8_2]
      ck_entry_precomp [where t = 20472250333581509774243954343111719567176413045587415962736141605494126568386, OF pt_8_3]
      ck_entry_precomp [where t = 52632938351182299433261527357784499124852258059911510012562841219046775139143, OF pt_8_4]
      ck_entry_precomp [where t = 40197264120199883452839239970295209559427326057889604337880895971409041463626, OF pt_8_5]
      ck_entry_precomp [where t = 8152589214379190206072417138974119756096456562044745843320328181919358371194, OF pt_8_6]
      ck_entry_precomp [where t = 20593036446323379910244930263182484567868539341959810712747763005363902322676, OF pt_8_7]
      ck_entry_precomp [where t = 33959264462625075688969793363384944666529816572912100876478553330634808107969, OF pt_8_8]])
    (simp_all only: hex_entry)

section \<open>Row 9\<close>

lemma pt_9_1: "pt (zmul 1 (row_base 9))
    14209203893922473311723595664823042609383238336090280855951284872268697714335
    54096248485646036580969450637608332943982160324686939405543494070853926149657
    4975509444067247565308788967192026903932001450383679535544650631823633154885"
  by (rule pt_row_Suc [OF pt_8_256]) simp

lemma pt_9_2: "pt (zmul 2 (row_base 9))
    50225331128728478106780859889537807505048902429356838599409066831481056211564
    48567226733225781276449566422287543329128010889111409895804967816670485558982
    17863636513371094960873524169772018094962086971645575055616983034505209094344"
  by (rule pt_zmul_dbl [OF pt_9_1]) (simp_all only: hex_dbl)

lemma pt_9_3: "pt (zmul 3 (row_base 9))
    26030160992208868185340226704082261302292967804008066484719132829234957719028
    57793405576878186415495485207823547976675071452793778494338480564258198542794
    47948549452286031650217447373749723845110606932701493431572164432520885650240"
  by (rule pt_zmul_add [OF pt_9_2 pt_9_1]) (simp_all only: hex_add)

lemma pt_9_4: "pt (zmul 4 (row_base 9))
    14277504181738407774235093378032955288190316525985673811547794837958257411428
    44871378086723879356737413210653521226866440740474535279860816276104559603579
    41317564216361070356463726464854876757564603485380021172701403133098881785732"
  by (rule pt_zmul_dbl [OF pt_9_2]) (simp_all only: hex_dbl)

lemma pt_9_5: "pt (zmul 5 (row_base 9))
    27652409565030648065768547406545117516544566866761272819218126627187357400840
    51678122657466451333620545630326085433338414845793810299706114545084352106162
    10771845863539314073924378919352593782548871602866660796016071710736615657525"
  by (rule pt_zmul_add [OF pt_9_4 pt_9_1]) (simp_all only: hex_add)

lemma pt_9_6: "pt (zmul 6 (row_base 9))
    49945300859731238352375040412286346199708651712656809104373477970543641626120
    39013242103148759311269299813493822536582186757521061743729628217118423084807
    57583174853699164468247015411111948341358479535590722202375415625380714902500"
  by (rule pt_zmul_dbl [OF pt_9_3]) (simp_all only: hex_dbl)

lemma pt_9_7: "pt (zmul 7 (row_base 9))
    4761935105956298490968961254561111282712008121274176741512969844118675478342
    57421793354958567450448159224024314626289017282178307086364822156642197213384
    53795285216341330528093463669815884608873994022526855437336538447415169983805"
  by (rule pt_zmul_add [OF pt_9_6 pt_9_1]) (simp_all only: hex_add)

lemma pt_9_8: "pt (zmul 8 (row_base 9))
    32418571708367977452352489589045334204504079160877254915429124079150328663559
    18387148233383658620287056230463085911877635595024572348568551271925735393572
    53092499256046470663145105538237891968373502621583067653845152344714486068263"
  by (rule pt_zmul_dbl [OF pt_9_4]) (simp_all only: hex_dbl)

lemma pt_9_16: "pt (zmul 16 (row_base 9))
    15779270961168218795229828090701533240215204226023372799860239005869904877004
    44830166261951740603279398495576682241725607809926503424472229723689170610363
    20216654933011384493649573336196555461020639325992896191228242800226933546445"
  by (rule pt_zmul_dbl [OF pt_9_8]) (simp_all only: hex_dbl)

lemma pt_9_32: "pt (zmul 32 (row_base 9))
    11934888751358376585367388605542262864084187912753477682625882954803615290685
    14214449243666306908341928066213895894989764915988732118960193112150360243653
    46036577408480392807501074665151652824439678219063424016545300819209019298090"
  by (rule pt_zmul_dbl [OF pt_9_16]) (simp_all only: hex_dbl)

lemma pt_9_64: "pt (zmul 64 (row_base 9))
    24745401508182352002952447462187517145313719592095512250459315231990663674346
    12605203304109359736839575646170095420028150170075032505021828813425976392506
    11990104883221028882767868200242142529707802647264116283082279345616689071600"
  by (rule pt_zmul_dbl [OF pt_9_32]) (simp_all only: hex_dbl)

lemma pt_9_128: "pt (zmul 128 (row_base 9))
    7139742008745815782467698207918707217570867389629573492211592981809669859250
    10391024330052931068916219853641704524060189883573610974407450960946334497572
    31038492518089319930323066720964000847883616643340762019458468071793308006601"
  by (rule pt_zmul_dbl [OF pt_9_64]) (simp_all only: hex_dbl)

lemma pt_9_256: "pt (zmul 256 (row_base 9))
    43672721813094808158322153823698981319419680095264823938511427045013292716276
    26774469600843634339468622105851699981555180542412972644232493480876266571002
    29692651458458722651386678943218269027918203595633553304967606314881341146280"
  by (rule pt_zmul_dbl [OF pt_9_128]) (simp_all only: hex_dbl)

lemma ge_base_row_9: "\<forall>m<8. precomp_is (zmul (int m + 1) (row_base 9)) (ge_base_9 ! m)"
  unfolding ge_base_9_def
  by (rule row_entries [OF
      ck_entry_precomp [where t = 5502157052269489545361353740562109819339592228676418201671732063968905284836, OF pt_9_1]
      ck_entry_precomp [where t = 1817463017805287068162815834967074727997328771097404636540050217332800636477, OF pt_9_2]
      ck_entry_precomp [where t = 53527695826203145207658075886850196286259404332434506926721875858605410720412, OF pt_9_3]
      ck_entry_precomp [where t = 7859943651990459060147687512188717939358419984506045072069369840509830411845, OF pt_9_4]
      ck_entry_precomp [where t = 57486446864386749446598818911531311419131633566687342608271230985316832017342, OF pt_9_5]
      ck_entry_precomp [where t = 38639375242256182530522002156010358970794170815715846655767526627348049450871, OF pt_9_6]
      ck_entry_precomp [where t = 39573982994301037469386478770832470053802833111648899801836066420775450914212, OF pt_9_7]
      ck_entry_precomp [where t = 15028014674436903151893920167278240259694525373488402876886035842326107614918, OF pt_9_8]])
    (simp_all only: hex_entry)

section \<open>Row 10\<close>

lemma pt_10_1: "pt (zmul 1 (row_base 10))
    43672721813094808158322153823698981319419680095264823938511427045013292716276
    26774469600843634339468622105851699981555180542412972644232493480876266571002
    29692651458458722651386678943218269027918203595633553304967606314881341146280"
  by (rule pt_row_Suc [OF pt_9_256]) simp

lemma pt_10_2: "pt (zmul 2 (row_base 10))
    3989370560455708984633793475698444523747174347184717690382157232120584787329
    32505703979076959151485506556792486289027941138272760644562679672175933443866
    21782269476313215386108743319959492452395071861148320412476336753633142945529"
  by (rule pt_zmul_dbl [OF pt_10_1]) (simp_all only: hex_dbl)

lemma pt_10_3: "pt (zmul 3 (row_base 10))
    34075187035283134114836009330449308303610313265125377516809623267476194043966
    21567450682332207607186056702833894684140379027303949368985042891530277624141
    23748369273256038991987040832099624275155268440944903996112088194870942655638"
  by (rule pt_zmul_add [OF pt_10_2 pt_10_1]) (simp_all only: hex_add)

lemma pt_10_4: "pt (zmul 4 (row_base 10))
    5059886806144239654386250234132239322534981646959530787642810205204823263599
    44781990901350621119000479168942884261150661419375333506507720470732519651804
    19658369665235245082149304414353253972531841028835533060650594893938220700934"
  by (rule pt_zmul_dbl [OF pt_10_2]) (simp_all only: hex_dbl)

lemma pt_10_5: "pt (zmul 5 (row_base 10))
    49345374921905927761664789785766219513360581344901877176015389372358677415790
    24437438019619276828966675151826923400165154932389666147813117480889988474693
    10261837381412579092179354721715303227927960257384200732452150161606997876691"
  by (rule pt_zmul_add [OF pt_10_4 pt_10_1]) (simp_all only: hex_add)

lemma pt_10_6: "pt (zmul 6 (row_base 10))
    35146574295675499465483816771658053945736855145317641068156504280625396750879
    36751699384410893173943820952358790705087283855480951256817808017229242083347
    7189536056891143517768014257910693538933229609483873152546800721146089122412"
  by (rule pt_zmul_dbl [OF pt_10_3]) (simp_all only: hex_dbl)

lemma pt_10_7: "pt (zmul 7 (row_base 10))
    49801426059315568425576011618943032879828983416441546780393496425243330630662
    22586508639915485928751563958265688671554685878213793609795289205355659035624
    9017751177950633037538977382336813248714740586233748311925942639418298370557"
  by (rule pt_zmul_add [OF pt_10_6 pt_10_1]) (simp_all only: hex_add)

lemma pt_10_8: "pt (zmul 8 (row_base 10))
    5034499113101539419171195675489016129397586213000300161297322761474792468007
    38984291250628169793609367006953049629309747617110716218706415095166866209475
    47700193514050909956560050415656228829951284728850258366301701015505362367010"
  by (rule pt_zmul_dbl [OF pt_10_4]) (simp_all only: hex_dbl)

lemma pt_10_16: "pt (zmul 16 (row_base 10))
    28701589195663402661877848408121388944364705228705833837290335451947214372354
    7204387230095814289155112784314167486479491389461677700039482462117900149790
    15828852265494758598689257559483382727910318521573488710566707110690670763182"
  by (rule pt_zmul_dbl [OF pt_10_8]) (simp_all only: hex_dbl)

lemma pt_10_32: "pt (zmul 32 (row_base 10))
    4043104448796842162745666493312998641829351915822871392692138036596732345587
    25583947464430871653586840964872231498494354583644780039898113211018348195426
    22010513831528394592904587434045697391277219438079571537769825521642273135796"
  by (rule pt_zmul_dbl [OF pt_10_16]) (simp_all only: hex_dbl)

lemma pt_10_64: "pt (zmul 64 (row_base 10))
    16967413801548701797242886843680090165318588349974756792262810250234279035069
    44697289841450513164033704384247986028022748316827147885385602092788632953231
    11164741149164088860478908496572165269971705595013781226447418203528424620879"
  by (rule pt_zmul_dbl [OF pt_10_32]) (simp_all only: hex_dbl)

lemma pt_10_128: "pt (zmul 128 (row_base 10))
    2579649274306548849837733000395332723289589758529702916422942026934274000925
    15903853772550703579537912563242422228297542773675645660330868481778530607407
    50771815812744765018267903330992310186815714784545059138135622637712880793642"
  by (rule pt_zmul_dbl [OF pt_10_64]) (simp_all only: hex_dbl)

lemma pt_10_256: "pt (zmul 256 (row_base 10))
    47877216812782924174466763867175181383956969618415943364604849026510454529253
    28112003636980376946454994616205437214785284325558286572284790568403397987982
    39953339698486268802200929093615089845653556727898565227043544080495690841023"
  by (rule pt_zmul_dbl [OF pt_10_128]) (simp_all only: hex_dbl)

lemma ge_base_row_10: "\<forall>m<8. precomp_is (zmul (int m + 1) (row_base 10)) (ge_base_10 ! m)"
  unfolding ge_base_10_def
  by (rule row_entries [OF
      ck_entry_precomp [where t = 33485073730374884379083389779227338234729520923942262865850302142554981360993, OF pt_10_1]
      ck_entry_precomp [where t = 11367252765177793858233439092973430268388408749841543810608927814731949300709, OF pt_10_2]
      ck_entry_precomp [where t = 43683283860073365892155668576944614247275322696205766183044395438496958137475, OF pt_10_3]
      ck_entry_precomp [where t = 24535498564751768623308160965868057934407013164367537539847940370628709232753, OF pt_10_4]
      ck_entry_precomp [where t = 3441780851394278158737351347696032360737436214194577604671804153004370359238, OF pt_10_5]
      ck_entry_precomp [where t = 39518910697847951169999680384286526545770905682021645886881699719392915782636, OF pt_10_6]
      ck_entry_precomp [where t = 2287696475949916164339876772734410735036653014826086398481396827834583431877, OF pt_10_7]
      ck_entry_precomp [where t = 14444229970904592008261237635174111186370575486154208825027892819311738248598, OF pt_10_8]])
    (simp_all only: hex_entry)

section \<open>Row 11\<close>

lemma pt_11_1: "pt (zmul 1 (row_base 11))
    47877216812782924174466763867175181383956969618415943364604849026510454529253
    28112003636980376946454994616205437214785284325558286572284790568403397987982
    39953339698486268802200929093615089845653556727898565227043544080495690841023"
  by (rule pt_row_Suc [OF pt_10_256]) simp

lemma pt_11_2: "pt (zmul 2 (row_base 11))
    44624650523877827989751820302168351134993681066479444271153806569668535957209
    27714478525736819310693039843449131161995095049081766735341612278922679271227
    9205726195042407234123636793485231167026848696830507373100660342512761027099"
  by (rule pt_zmul_dbl [OF pt_11_1]) (simp_all only: hex_dbl)

lemma pt_11_3: "pt (zmul 3 (row_base 11))
    43394106677292198658640763566648866668194264840025293127326676403460605096775
    46941248820420750469614221571869555546358520316711509967413888274235364828153
    53339238954999528463949887567909179086803728789600452032752821993754350531161"
  by (rule pt_zmul_add [OF pt_11_2 pt_11_1]) (simp_all only: hex_add)

lemma pt_11_4: "pt (zmul 4 (row_base 11))
    35329897255136253373431638007078284535646557446689786639069168126562061520510
    48102472413184753722918898271017592259334671993463580839736558443832467501512
    30459864909311829520625569308862054915393657933846545777330876678332923810594"
  by (rule pt_zmul_dbl [OF pt_11_2]) (simp_all only: hex_dbl)

lemma pt_11_5: "pt (zmul 5 (row_base 11))
    21151376809488097879774921986589111501461796438722076977004503690589855889075
    21165221968339758323072110317819190432914474753213444234005370525898000480832
    51007823890645418694472146731104084895336525285386712615692629454005008376432"
  by (rule pt_zmul_add [OF pt_11_4 pt_11_1]) (simp_all only: hex_add)

lemma pt_11_6: "pt (zmul 6 (row_base 11))
    8181962060732452580383784291236328618656955708837443016356976112720051787507
    24992401954777505154913816552357157186653105246435342350109972049636955771348
    13066484124969664125743727416800878602310431292699035172433219709650781612026"
  by (rule pt_zmul_dbl [OF pt_11_3]) (simp_all only: hex_dbl)

lemma pt_11_7: "pt (zmul 7 (row_base 11))
    27475117007495083772892576123881014218318747799049685248436746752982076207138
    19298189428216548021834147742252253067920836501695919566058512132099579322420
    50297058287687978656944260940978088004704195676391089353919360616645466378304"
  by (rule pt_zmul_add [OF pt_11_6 pt_11_1]) (simp_all only: hex_add)

lemma pt_11_8: "pt (zmul 8 (row_base 11))
    57854637032597121065424460477283781507211162156907553379809587845807142677871
    8595708305423838218427337239184970131694134488607489845436010670114592093907
    13371892329241515192460153153499438082522657928415455731861483465714883751134"
  by (rule pt_zmul_dbl [OF pt_11_4]) (simp_all only: hex_dbl)

lemma pt_11_16: "pt (zmul 16 (row_base 11))
    13661732206155304631473207485375887840040863051006406460921523783662717752866
    18702667302471406267943646186561629076477578914690077859029294500205891615865
    18636631121321414363834053672757474783051163001957490629455523040235890188756"
  by (rule pt_zmul_dbl [OF pt_11_8]) (simp_all only: hex_dbl)

lemma pt_11_32: "pt (zmul 32 (row_base 11))
    34678801872141263131717568048919688293891458498596049038512335591958388269398
    14051700864432503195603174423174243178139259455397278969489826247036072519711
    630640242978021335747709937409030970097222652370547565037949077903315607406"
  by (rule pt_zmul_dbl [OF pt_11_16]) (simp_all only: hex_dbl)

lemma pt_11_64: "pt (zmul 64 (row_base 11))
    56271287709999114249430521279143619599708294450613804315340758418615759138947
    26709183970593361440546052460951843372876673094798344582055628577437062451
    26000283315058385718310755894910762223788456016448721626994851947418634496846"
  by (rule pt_zmul_dbl [OF pt_11_32]) (simp_all only: hex_dbl)

lemma pt_11_128: "pt (zmul 128 (row_base 11))
    4941794609987678981879188000114348043986995390085707309908914207158224370220
    11393072468401385903230649060352828887982933982104030268046685519118680025095
    23890735769612542958424550405637298557479604195731865387875257069971051011896"
  by (rule pt_zmul_dbl [OF pt_11_64]) (simp_all only: hex_dbl)

lemma pt_11_256: "pt (zmul 256 (row_base 11))
    37070215148198071430799085968753265750032279687669442199535644547659159008720
    24277510719184982406390712670096807578634110983235809048632298767886642985665
    35111111540984543632653740550983724599536402332749403350774988695760688040209"
  by (rule pt_zmul_dbl [OF pt_11_128]) (simp_all only: hex_dbl)

lemma ge_base_row_11: "\<forall>m<8. precomp_is (zmul (int m + 1) (row_base 11)) (ge_base_11 ! m)"
  unfolding ge_base_11_def
  by (rule row_entries [OF
      ck_entry_precomp [where t = 51967296633057552634562772832257678922046988695490898018368777076434258790024, OF pt_11_1]
      ck_entry_precomp [where t = 440388839717671713303548485964269219707467680841327350262128638116755142629, OF pt_11_2]
      ck_entry_precomp [where t = 12758627915086882806602622111074157520212429102962903284417876229454507334930, OF pt_11_3]
      ck_entry_precomp [where t = 2773748226581802518971979195469775636656926904151111434408438923009122821402, OF pt_11_4]
      ck_entry_precomp [where t = 9731513902723286330878632820307511737128355923783456725103354275196697749835, OF pt_11_5]
      ck_entry_precomp [where t = 3441977141688987893661722805178266288364600850133351133578559918930315896845, OF pt_11_6]
      ck_entry_precomp [where t = 36758135662363521121267190264335410215601720965794361523525726559512712036787, OF pt_11_7]
      ck_entry_precomp [where t = 54141300935566969612522165659077718047880846769369646518760922344386421832494, OF pt_11_8]])
    (simp_all only: hex_entry)

section \<open>Row 12\<close>

lemma pt_12_1: "pt (zmul 1 (row_base 12))
    37070215148198071430799085968753265750032279687669442199535644547659159008720
    24277510719184982406390712670096807578634110983235809048632298767886642985665
    35111111540984543632653740550983724599536402332749403350774988695760688040209"
  by (rule pt_row_Suc [OF pt_11_256]) simp

lemma pt_12_2: "pt (zmul 2 (row_base 12))
    39149621700212626749621435400351405351231184907008598760301451381081013983041
    34503224398479003962600496102980592214075457369331528461237883842917276072424
    29204152477896905209316732339779447644267582339747410024832728986567083464943"
  by (rule pt_zmul_dbl [OF pt_12_1]) (simp_all only: hex_dbl)

lemma pt_12_3: "pt (zmul 3 (row_base 12))
    35816276408674208138357107412040618786223352444998783214907265818651302778757
    8624639834949446674839517769377972254305260457187895767811683357457571768628
    43500519738862848843244028744353439854531403129461380356176689200345497511590"
  by (rule pt_zmul_add [OF pt_12_2 pt_12_1]) (simp_all only: hex_add)

lemma pt_12_4: "pt (zmul 4 (row_base 12))
    23185922985978961765525879604265755828711139395011139482900477285540574790618
    36367764535089816925445391884049081669258296710246889978535540710889807755205
    20460535063640303919461705600906350403143575321385940858419501908914198329531"
  by (rule pt_zmul_dbl [OF pt_12_2]) (simp_all only: hex_dbl)

lemma pt_12_5: "pt (zmul 5 (row_base 12))
    18167163486642972927408931089990469852835533790385927556330226959460416146635
    40953015472773089915540302582596485562298169788316949519905298671571281921670
    56532369315625212057936747712945934487532625898184360859639470587390583019658"
  by (rule pt_zmul_add [OF pt_12_4 pt_12_1]) (simp_all only: hex_add)

lemma pt_12_6: "pt (zmul 6 (row_base 12))
    55491869311172224115196347105470389093095921906312072667150161200839285791699
    17819939247552900161739522344021332822595259425340299652709900145194143419758
    28281420304406665649221284139616245361456609667166720531787349293039989997704"
  by (rule pt_zmul_dbl [OF pt_12_3]) (simp_all only: hex_dbl)

lemma pt_12_7: "pt (zmul 7 (row_base 12))
    1452855989925341535426825031444710964900017279977137605352878065742774479284
    45774098314052482743588310333755976420956376268744534942713230606805180468184
    20802941062437324633526155132028889415439398331234502463650350278935924260683"
  by (rule pt_zmul_add [OF pt_12_6 pt_12_1]) (simp_all only: hex_add)

lemma pt_12_8: "pt (zmul 8 (row_base 12))
    23334028275166191184164139591657077754376896079733520656064186218287653342618
    41978652946500496924928875394389872458253357230394695728294241695963720135571
    41802751677285081218783943983177505492091302797970003777181117942423767156297"
  by (rule pt_zmul_dbl [OF pt_12_4]) (simp_all only: hex_dbl)

lemma pt_12_16: "pt (zmul 16 (row_base 12))
    28796363583862847668812044605178507244825877227342242014774155208318462834757
    55234959353662462202983325031925176159492936554011128458548182362800408727260
    34867848311525552149541212307538424713480122205090125394046458567857534578731"
  by (rule pt_zmul_dbl [OF pt_12_8]) (simp_all only: hex_dbl)

lemma pt_12_32: "pt (zmul 32 (row_base 12))
    22152377815713073885123024134220181662013025517934765653685593051807730951109
    20210740406512502967027943336656788111164148198915921899551468572151061000341
    37801792846738321984046147415129542773653191509808566433653081782568292178475"
  by (rule pt_zmul_dbl [OF pt_12_16]) (simp_all only: hex_dbl)

lemma pt_12_64: "pt (zmul 64 (row_base 12))
    43620949520144324161844112921540314179791160756548604822571317354672290688656
    55960850383955117084497078728968100220583635988916106362750056582565381170825
    18261108715503907787639698127932644618456631627581130301761081739018297355761"
  by (rule pt_zmul_dbl [OF pt_12_32]) (simp_all only: hex_dbl)

lemma pt_12_128: "pt (zmul 128 (row_base 12))
    13910242112313529748247338058346265735204793031963188360415155111564876935229
    28026033346964984143781324810989054090462624756509060308165423548333335784666
    56760693409997494309001354461445261382907859295936477196810239989673061250724"
  by (rule pt_zmul_dbl [OF pt_12_64]) (simp_all only: hex_dbl)

lemma pt_12_256: "pt (zmul 256 (row_base 12))
    11371879162373812903597632893053130771100210169456679508604354695621139343631
    5678923034335803499854193512949185707312411812586470592763075824256665264606
    38107070727229784885304399761175946507407664445189676240769926092787827351429"
  by (rule pt_zmul_dbl [OF pt_12_128]) (simp_all only: hex_dbl)

lemma ge_base_row_12: "\<forall>m<8. precomp_is (zmul (int m + 1) (row_base 12)) (ge_base_12 ! m)"
  unfolding ge_base_12_def
  by (rule row_entries [OF
      ck_entry_precomp [where t = 28297658592470300655303560295180875926238688072306165652922367172486111322056, OF pt_12_1]
      ck_entry_precomp [where t = 4079321919088451155970934217257812130278932260953966036494325850329458790806, OF pt_12_2]
      ck_entry_precomp [where t = 39234047837535946933120500347005935939694720814273465479239074552640111285664, OF pt_12_3]
      ck_entry_precomp [where t = 30620135049508188460763188723509672297382823174620355808252175549280309005855, OF pt_12_4]
      ck_entry_precomp [where t = 17934878317772159459703251849692635162692781134517689976419273380857793056242, OF pt_12_5]
      ck_entry_precomp [where t = 55687407906356314834157785956404136077810055735313337975029750174690426216912, OF pt_12_6]
      ck_entry_precomp [where t = 32028163196612385717047854050109193046872393665088466084927211248292476754042, OF pt_12_7]
      ck_entry_precomp [where t = 47778366753236297181352475211256767642049858902999256697989242090595700182359, OF pt_12_8]])
    (simp_all only: hex_entry)

section \<open>Row 13\<close>

lemma pt_13_1: "pt (zmul 1 (row_base 13))
    11371879162373812903597632893053130771100210169456679508604354695621139343631
    5678923034335803499854193512949185707312411812586470592763075824256665264606
    38107070727229784885304399761175946507407664445189676240769926092787827351429"
  by (rule pt_row_Suc [OF pt_12_256]) simp

lemma pt_13_2: "pt (zmul 2 (row_base 13))
    18362839244894279592215249911553963787851060777743113998886545263569847927955
    4210807820446419651105742493190316853815492326276504789502512130186582234685
    24070922479069042283203599593216734819774254774190342166260409047548396587218"
  by (rule pt_zmul_dbl [OF pt_13_1]) (simp_all only: hex_dbl)

lemma pt_13_3: "pt (zmul 3 (row_base 13))
    40648602147481366404230964208084607936291524021905498943010659929710864738154
    29161262313833698781875629035490362447412735883096315966554673246769944192213
    39045760305415020427837233741365710174568921198950248051471421116892114448063"
  by (rule pt_zmul_add [OF pt_13_2 pt_13_1]) (simp_all only: hex_add)

lemma pt_13_4: "pt (zmul 4 (row_base 13))
    23921107455925441612550629086478938150848187330668405596858230151041390475098
    12599238266398634998434556842240768274292438963378237556139324609460374067494
    12657216457906541513922650052004728109288984374048301564551828589787977539556"
  by (rule pt_zmul_dbl [OF pt_13_2]) (simp_all only: hex_dbl)

lemma pt_13_5: "pt (zmul 5 (row_base 13))
    38861732135373215919235043953716315256663931604522272456239697908052033035013
    45371411466261587678854225972591575580762496581823951857057733237243655384450
    10739990554885214358839877955042443343207816373235567228811927766571842965735"
  by (rule pt_zmul_add [OF pt_13_4 pt_13_1]) (simp_all only: hex_add)

lemma pt_13_6: "pt (zmul 6 (row_base 13))
    39419922494774704705190034809932711274512553486715856263729810133043890809526
    54933698333180584196379405897957482182243833429209440878928059808247314311375
    36908702325102356442341817404455782440253987584448694989938647075700669565925"
  by (rule pt_zmul_dbl [OF pt_13_3]) (simp_all only: hex_dbl)

lemma pt_13_7: "pt (zmul 7 (row_base 13))
    21561645820845874778416685935901963963878576887828212860069360398226320857443
    17963549877915917711103784496563065564462906379179450896555302543558827309441
    54179234391491440105999874418077014594410918841259335120667102949119793375502"
  by (rule pt_zmul_add [OF pt_13_6 pt_13_1]) (simp_all only: hex_add)

lemma pt_13_8: "pt (zmul 8 (row_base 13))
    34696320127735655402512265767697602636168153659137920083789137692959599647944
    42120638134327975966011272240411516459099234670144041314385743337890494036069
    21409430351423200412433706044042466754506685405211356749617643379932063468249"
  by (rule pt_zmul_dbl [OF pt_13_4]) (simp_all only: hex_dbl)

lemma pt_13_16: "pt (zmul 16 (row_base 13))
    33227521516354605999830589514515865710822327852925376114255137871690735587244
    22681039011760707337500602565057111277108423406256855863837270100715275112616
    46635464134983549894892899180883113134775851619075429002109487723353433689505"
  by (rule pt_zmul_dbl [OF pt_13_8]) (simp_all only: hex_dbl)

lemma pt_13_32: "pt (zmul 32 (row_base 13))
    45816511225176877996140255040609219587091107439457578341038316968132283752617
    36549853415134963004198791385929027950142848447981419764990803009399724054934
    21403777906207674038378970158233840688647711021143883915663938863505409298474"
  by (rule pt_zmul_dbl [OF pt_13_16]) (simp_all only: hex_dbl)

lemma pt_13_64: "pt (zmul 64 (row_base 13))
    4109725613230504426324669336546893204699348150375590650961079986402263006479
    13548220015390787328262599706228652778399536104956932282542935971617933593799
    6577738565729885577593684652033379609115650711075518554768067393577964993222"
  by (rule pt_zmul_dbl [OF pt_13_32]) (simp_all only: hex_dbl)

lemma pt_13_128: "pt (zmul 128 (row_base 13))
    31674252996734707212481088088643240141425643801543286253248344469973004656554
    6786196619175573608309283443380719738877074976577908471831120085453336700494
    21213080602158267475608640737103086799270286332650616126688766641074121115203"
  by (rule pt_zmul_dbl [OF pt_13_64]) (simp_all only: hex_dbl)

lemma pt_13_256: "pt (zmul 256 (row_base 13))
    30407400204072033917609480172618297228059702465168718418817308450301417256315
    49315877793598952090227901245738270288685983126601288875006392048674637302542
    35187445115013480584449630665796615226086542422399353313325934559210743563421"
  by (rule pt_zmul_dbl [OF pt_13_128]) (simp_all only: hex_dbl)

lemma ge_base_row_13: "\<forall>m<8. precomp_is (zmul (int m + 1) (row_base 13)) (ge_base_13 ! m)"
  unfolding ge_base_13_def
  by (rule row_entries [OF
      ck_entry_precomp [where t = 9103515523008784562695423184923351107613308450210777404127932226187352893540, OF pt_13_1]
      ck_entry_precomp [where t = 38812541435861490770655985701028575093438945430707955995503236971241199250255, OF pt_13_2]
      ck_entry_precomp [where t = 8941153069618605051482433710346069178571866358541160236645708615375484996076, OF pt_13_3]
      ck_entry_precomp [where t = 13494103053668598903589791877311297549845491731244982658545242321910518243601, OF pt_13_4]
      ck_entry_precomp [where t = 22411665294546784562718747915031242875366554293809289025569168673557207139879, OF pt_13_5]
      ck_entry_precomp [where t = 2600689399289121054568854415049079709889840627776391901455100499738077242857, OF pt_13_6]
      ck_entry_precomp [where t = 43401000024929860870443748577085362889392788972970373030492181978042218786911, OF pt_13_7]
      ck_entry_precomp [where t = 33788371045053549569082616380973010795613804317075653702296435700278488159184, OF pt_13_8]])
    (simp_all only: hex_entry)

section \<open>Row 14\<close>

lemma pt_14_1: "pt (zmul 1 (row_base 14))
    30407400204072033917609480172618297228059702465168718418817308450301417256315
    49315877793598952090227901245738270288685983126601288875006392048674637302542
    35187445115013480584449630665796615226086542422399353313325934559210743563421"
  by (rule pt_row_Suc [OF pt_13_256]) simp

lemma pt_14_2: "pt (zmul 2 (row_base 14))
    44417092014879103586055534704850737242542372632022894149816268053224964424171
    28092835439062208164608941398448814112137896638247692330991965419364853280613
    48531848830497127190917458902887691738919709381063364246753534833961462272744"
  by (rule pt_zmul_dbl [OF pt_14_1]) (simp_all only: hex_dbl)

lemma pt_14_3: "pt (zmul 3 (row_base 14))
    23139490686232335519119394259782877347546240069053257024253368814698863069033
    51089947797712314887792047436925648818761031234432217926951058567353150676190
    47006031227559349367710535015113392373305202428627702414247985341017868448435"
  by (rule pt_zmul_add [OF pt_14_2 pt_14_1]) (simp_all only: hex_add)

lemma pt_14_4: "pt (zmul 4 (row_base 14))
    55913645708648454082380885333952414587415523972517829512720425474171989429039
    4170341877731070479064719941590894238873155105706772330803492495594024043916
    26913872202255953080627590844716150946083053989678329639231180162424071261973"
  by (rule pt_zmul_dbl [OF pt_14_2]) (simp_all only: hex_dbl)

lemma pt_14_5: "pt (zmul 5 (row_base 14))
    12863657592835512097589454641611578433821798207501845828448188839964413453659
    20872860230748892301469647034667974184263944980291474764336387981047917462768
    8257628182104221604620656802275335452596494926535541966733773019213458016573"
  by (rule pt_zmul_add [OF pt_14_4 pt_14_1]) (simp_all only: hex_add)

lemma pt_14_6: "pt (zmul 6 (row_base 14))
    13631176154466254296410030774656329407863122029983719092958768165132584121068
    8197880427633189119291962646948905586579271345240818508197811312188473776259
    48009198844522127675462193605215805252882981884638489607679373468897733121328"
  by (rule pt_zmul_dbl [OF pt_14_3]) (simp_all only: hex_dbl)

lemma pt_14_7: "pt (zmul 7 (row_base 14))
    44425445320030589302245504069429846683804417928809104435227952492529793431834
    30552738281900096527731459075323140707277691299552065462069213503981815706363
    1113512099100843766320540552223127657206063115761367940011394972475470743586"
  by (rule pt_zmul_add [OF pt_14_6 pt_14_1]) (simp_all only: hex_add)

lemma pt_14_8: "pt (zmul 8 (row_base 14))
    57358306754892087581061482960601343272150180511706384027111409727530014615872
    7501227636099754662821696917164574092234190941956901631865902241653090361542
    35936091494439235029460010819927767650367147721502905873935455995229631522494"
  by (rule pt_zmul_dbl [OF pt_14_4]) (simp_all only: hex_dbl)

lemma pt_14_16: "pt (zmul 16 (row_base 14))
    48782782515836871628938299209492917508321674529612667649282153140637733656059
    20014236295691833912353873433172840618145541540180033958100959161035845143094
    16324921186737112315829435542998497945699870423325273797190452355162889059432"
  by (rule pt_zmul_dbl [OF pt_14_8]) (simp_all only: hex_dbl)

lemma pt_14_32: "pt (zmul 32 (row_base 14))
    11618050754323719385443732951567856244563825728122233676622712000620990083402
    42578444816027188744577909552774348432010679314070739170427174452067063733643
    42177520358070340801541137415099698134788673131271229592327392462671930891682"
  by (rule pt_zmul_dbl [OF pt_14_16]) (simp_all only: hex_dbl)

lemma pt_14_64: "pt (zmul 64 (row_base 14))
    31547400550276104307900899036819671847265416450370273588479799778844560833009
    37367989165521616201930780541222369146292023138676617257266389707008216833638
    4309272136459255695269943094171929475470987126508740885122848156311858047458"
  by (rule pt_zmul_dbl [OF pt_14_32]) (simp_all only: hex_dbl)

lemma pt_14_128: "pt (zmul 128 (row_base 14))
    25956985989161136316235961527236916457717926829394295299028523314216733689351
    50364565591067077996626372578228644798066456462962263809084137884269951378152
    47467396108486334865062028498099573165349563943959313779579115075957003165133"
  by (rule pt_zmul_dbl [OF pt_14_64]) (simp_all only: hex_dbl)

lemma pt_14_256: "pt (zmul 256 (row_base 14))
    35118750000941396177384144572236461584765045922296921590426241445782749078564
    22276559719444846469370701617737789620267379936674566170770241509797286014565
    7409144969870103820524925611972696916688721049115307139576546451753046568819"
  by (rule pt_zmul_dbl [OF pt_14_128]) (simp_all only: hex_dbl)

lemma ge_base_row_14: "\<forall>m<8. precomp_is (zmul (int m + 1) (row_base 14)) (ge_base_14 ! m)"
  unfolding ge_base_14_def
  by (rule row_entries [OF
      ck_entry_precomp [where t = 7370826343192777418029371923679714313465827837761390972725748555304402346312, OF pt_14_1]
      ck_entry_precomp [where t = 16935195247728249836970155018542437983834424979377508745645712351059457585273, OF pt_14_2]
      ck_entry_precomp [where t = 3735217287627959901146199678544127446235915277288932826044489771200171371690, OF pt_14_3]
      ck_entry_precomp [where t = 33687252402094524114131595312117657102470687313102135967075104063098932016597, OF pt_14_4]
      ck_entry_precomp [where t = 35866652425338433390311007382469353678561155750483270407528619149526737158102, OF pt_14_5]
      ck_entry_precomp [where t = 25609482299276120685120622040653318657146024758977721683247077386224490228801, OF pt_14_6]
      ck_entry_precomp [where t = 45785415964771744884105106760687734638714290339569160766521324440507169365614, OF pt_14_7]
      ck_entry_precomp [where t = 34679285908232973181684355241560006158309275789071333826186434730086434201798, OF pt_14_8]])
    (simp_all only: hex_entry)

section \<open>Row 15\<close>

lemma pt_15_1: "pt (zmul 1 (row_base 15))
    35118750000941396177384144572236461584765045922296921590426241445782749078564
    22276559719444846469370701617737789620267379936674566170770241509797286014565
    7409144969870103820524925611972696916688721049115307139576546451753046568819"
  by (rule pt_row_Suc [OF pt_14_256]) simp

lemma pt_15_2: "pt (zmul 2 (row_base 15))
    15495667847963519095070902975254013254054297059438951355864834066532640060236
    44548947909159043917403409442457288878516759169055680620236387754235369409972
    46552917671790097484562517718904298076643821420777021296917491467931252782207"
  by (rule pt_zmul_dbl [OF pt_15_1]) (simp_all only: hex_dbl)

lemma pt_15_3: "pt (zmul 3 (row_base 15))
    22952591816260144837422944844625020742547573303797955280470639547237686598546
    30012037515872591342985336843132823276280335055363382674475119351580142344070
    39168734791267938831781098504808128365210662535365384902047421454877020263035"
  by (rule pt_zmul_add [OF pt_15_2 pt_15_1]) (simp_all only: hex_add)

lemma pt_15_4: "pt (zmul 4 (row_base 15))
    1871107102280547590065037923261765627391729441701934941391723968422325914548
    2197280331012323570322413448915527766660864684378650497684553118254920260348
    42414000632193492548731604098584829473083930098332983081973783367648035050346"
  by (rule pt_zmul_dbl [OF pt_15_2]) (simp_all only: hex_dbl)

lemma pt_15_5: "pt (zmul 5 (row_base 15))
    46120129725777000860262416690141761445267907089239430850845714903932363317071
    2910837747736631106217498194311086782962436957583270370920944855478653510522
    31136917600987456766602987477434005872652995368688897319538880761489406355531"
  by (rule pt_zmul_add [OF pt_15_4 pt_15_1]) (simp_all only: hex_add)

lemma pt_15_6: "pt (zmul 6 (row_base 15))
    7850332680771880085254092004185975551221521630139196096777609722516256446106
    6075351610890980967056720781534807816926537950005787620912557772501047287578
    15622045853132710072267953221147506897380190986468511659058245812938370310950"
  by (rule pt_zmul_dbl [OF pt_15_3]) (simp_all only: hex_dbl)

lemma pt_15_7: "pt (zmul 7 (row_base 15))
    13824609298834947356217226884073400702534029107730269023491857080920049822122
    30378489235789906581978806498183118776022304319967645704523487571879791134364
    45325641133525270366054447843300724505787092572741202718392210534585687936008"
  by (rule pt_zmul_add [OF pt_15_6 pt_15_1]) (simp_all only: hex_add)

lemma pt_15_8: "pt (zmul 8 (row_base 15))
    45090698995977474290632961691477301097024747374015152515190560720018468165568
    12254579022675596810231884862276069575540423112673550018377525848277481401878
    46789133672297026358009295838471323197393040457180671883701612162379181008258"
  by (rule pt_zmul_dbl [OF pt_15_4]) (simp_all only: hex_dbl)

lemma pt_15_16: "pt (zmul 16 (row_base 15))
    5054797618327281071443738716493596768237980643463800357794684862056619267462
    32528688704343641313631911710448027152095479374942741660511292005602282822378
    47985808947650724724281455063829068565248703916884836757988464658757678515212"
  by (rule pt_zmul_dbl [OF pt_15_8]) (simp_all only: hex_dbl)

lemma pt_15_32: "pt (zmul 32 (row_base 15))
    3116396207800974126741352651042756943303008617071878591507809562704911510205
    51997965663228500457050430249387147003714475761347555819390336249670266088570
    1998577488736166631470066964698425100045433387161778713947904619954702085702"
  by (rule pt_zmul_dbl [OF pt_15_16]) (simp_all only: hex_dbl)

lemma pt_15_64: "pt (zmul 64 (row_base 15))
    14055490458127722535889980752338964994832593866234835702288268286656839412260
    46226773486422651493508693434203867574287052738705572908570241545752789081928
    40231690909147444828271641806114879703273907829180457913286581643205576710989"
  by (rule pt_zmul_dbl [OF pt_15_32]) (simp_all only: hex_dbl)

lemma pt_15_128: "pt (zmul 128 (row_base 15))
    13255665929656146281080449887007641909509999304849491744738638209813853897619
    55705207129829464869897097349416518624188726193119147708421062336186161442401
    17747523903147214068710475614443526042617638164588231123624066064919149405459"
  by (rule pt_zmul_dbl [OF pt_15_64]) (simp_all only: hex_dbl)

lemma pt_15_256: "pt (zmul 256 (row_base 15))
    34445898214599204196824587830670445739267303633182408050117152659121903233060
    43048524062920118298805915568484795959327268000798232147099016825120495085163
    2546723617105803217066704043024384113612712956060210350476893017486688072586"
  by (rule pt_zmul_dbl [OF pt_15_128]) (simp_all only: hex_dbl)

lemma ge_base_row_15: "\<forall>m<8. precomp_is (zmul (int m + 1) (row_base 15)) (ge_base_15 ! m)"
  unfolding ge_base_15_def
  by (rule row_entries [OF
      ck_entry_precomp [where t = 6726892234772834393753964209108218542932778426015019828481907341953122542019, OF pt_15_1]
      ck_entry_precomp [where t = 24134586818014776065004532849968392597200767138630279372624465358367029091576, OF pt_15_2]
      ck_entry_precomp [where t = 32459679910422073271814382510984648903123479773226854138102136133628108696626, OF pt_15_3]
      ck_entry_precomp [where t = 32213443167318959601836596658801760362746564063779367375501241589888255453904, OF pt_15_4]
      ck_entry_precomp [where t = 52499472668829983167754656142543533925438827919795624378010220503189606138380, OF pt_15_5]
      ck_entry_precomp [where t = 26625561526081476508188587494874865481552443121799776062503702282797693685915, OF pt_15_6]
      ck_entry_precomp [where t = 38955782613106806920629358372575433443796841730857271497304067351609179738153, OF pt_15_7]
      ck_entry_precomp [where t = 49604170177600969842065448714158641061295302784479819895904220888323481284295, OF pt_15_8]])
    (simp_all only: hex_entry)

end
