(* ===== verification/BaseRowsC.thy ===== *)
theory BaseRowsC
  imports BaseRowsB
begin

text \<open>
  Rows 16 to 23 of the table \<open>ge_base\<close>: the multiples of \<open>256 ^ i B\<close> by one to eight, each point
  certified from the ones before it, and the five doublings that lead to the next row.
\<close>

section \<open>Row 16\<close>

lemma pt_16_1: "pt (zmul 1 (row_base 16))
    34445898214599204196824587830670445739267303633182408050117152659121903233060
    43048524062920118298805915568484795959327268000798232147099016825120495085163
    2546723617105803217066704043024384113612712956060210350476893017486688072586"
  by (rule pt_row_Suc [OF pt_15_256]) simp

lemma pt_16_2: "pt (zmul 2 (row_base 16))
    54468161356533199495368251232949756902362822455729558615345521844455465083013
    45786733715774964106052639328220628713810319567465451448853998335128869152566
    8493667445341245648361292062270796651158721786810104163590154947632220300488"
  by (rule pt_zmul_dbl [OF pt_16_1]) (simp_all only: hex_dbl)

lemma pt_16_3: "pt (zmul 3 (row_base 16))
    4412746692151443821523268063185684387212441150931176163599595845239453239239
    43972740745976811175176257864391345069695511571436714679879334460061323560495
    39429793009095178565915118939096967879375587605173578703268984407783849784162"
  by (rule pt_zmul_add [OF pt_16_2 pt_16_1]) (simp_all only: hex_add)

lemma pt_16_4: "pt (zmul 4 (row_base 16))
    15376680214472594388297076775801069075796453668683777673974256464718742858259
    36205286238381305703459570197756276983310200040700818089343846617668540962560
    11543757158601053623050530508501701193774440978633598706901758191197578559992"
  by (rule pt_zmul_dbl [OF pt_16_2]) (simp_all only: hex_dbl)

lemma pt_16_5: "pt (zmul 5 (row_base 16))
    33552643783428748950402828607752795289608997377287090122096841711038568943383
    48961350984589746204023233509239121202812045655202442846113442238752062992324
    20747607484505391756240397195583583804917874632534122868199174546614822467192"
  by (rule pt_zmul_add [OF pt_16_4 pt_16_1]) (simp_all only: hex_add)

lemma pt_16_6: "pt (zmul 6 (row_base 16))
    42399442938455531623261734790075802706903319205440937767137281092036923765860
    39333490461136029727899638725695807748678920801781508139753544244281903045495
    39925368598239139555428165036531959804003303529316568234937157052373320803689"
  by (rule pt_zmul_dbl [OF pt_16_3]) (simp_all only: hex_dbl)

lemma pt_16_7: "pt (zmul 7 (row_base 16))
    34020654150955289924352052102572547756238841423233570276978675036237125736069
    38084804761088375484846448810418007531017181516754376621904739824085009807392
    13168179154942715776557344185809233775662045677124711417245584554272960624104"
  by (rule pt_zmul_add [OF pt_16_6 pt_16_1]) (simp_all only: hex_add)

lemma pt_16_8: "pt (zmul 8 (row_base 16))
    54274963091825622044577791478482498515145581213046587691569496957317047301087
    27285522798141530128504086038099622016723351071236115824010547114802360418886
    17023168053045613828573237880834348116297780257693827116166718009290689522988"
  by (rule pt_zmul_dbl [OF pt_16_4]) (simp_all only: hex_dbl)

lemma pt_16_16: "pt (zmul 16 (row_base 16))
    37942412147879734959686621287259586646044807806439978247498433186416958076212
    40770361754437038489696745253329122740022398239053503446707608099886984844633
    30185590615929735332341640850424242237403133428599950940067263857475226852114"
  by (rule pt_zmul_dbl [OF pt_16_8]) (simp_all only: hex_dbl)

lemma pt_16_32: "pt (zmul 32 (row_base 16))
    17231006463279304495808406004880729304960913826842545830265243222417068568757
    19280465835015707631588249295317898303942493984599822014052743382308408738123
    29835164281394492533023882194781356042274058281343281052673502917275177105569"
  by (rule pt_zmul_dbl [OF pt_16_16]) (simp_all only: hex_dbl)

lemma pt_16_64: "pt (zmul 64 (row_base 16))
    39092909358370372654020524663752406591495431486669946290258989674569902550026
    37050683729065266636842675039950838965254845010575540488076761681884382474469
    13176772582110361055908940303795760263479665763119049045997213565346602028278"
  by (rule pt_zmul_dbl [OF pt_16_32]) (simp_all only: hex_dbl)

lemma pt_16_128: "pt (zmul 128 (row_base 16))
    15070675337805841565478348519275854649061840390095812435576448332196826360456
    18999462048279945575457515766054075398079717893385245098240709885855065273590
    9587254107041142409535886029366759553692122259430104953404489560234322627382"
  by (rule pt_zmul_dbl [OF pt_16_64]) (simp_all only: hex_dbl)

lemma pt_16_256: "pt (zmul 256 (row_base 16))
    55883912999791610874099966987147290610183948615152237875979579790630856352726
    12787813360355090873089222731288484058890848842071756283908784376987452902533
    37215819195597225906733077543471374188317177722219007369409545129793948129206"
  by (rule pt_zmul_dbl [OF pt_16_128]) (simp_all only: hex_dbl)

lemma ge_base_row_16: "\<forall>m<8. precomp_is (zmul (int m + 1) (row_base 16)) (ge_base_16 ! m)"
  unfolding ge_base_16_def
  by (rule row_entries [OF
      ck_entry_precomp [where t = 30942559212363234812595554070815474796498884287982536881367675299020161195262, OF pt_16_1]
      ck_entry_precomp [where t = 40232175707683650301975749701477663824140238404181442186427403402071285441226, OF pt_16_2]
      ck_entry_precomp [where t = 50714071707794461408227191109614507820614087751067786611292803711762503739528, OF pt_16_3]
      ck_entry_precomp [where t = 6607322891285225414774486829700593932970115465468887489066060016494261066293, OF pt_16_4]
      ck_entry_precomp [where t = 29583458512608500016175427767720597889820895734504066602041203471957649820692, OF pt_16_5]
      ck_entry_precomp [where t = 7899548590076608964101170338851544497815511386649722160626389275225603823308, OF pt_16_6]
      ck_entry_precomp [where t = 35816950881593546499613928182437259839509838771386966334082232436584874456298, OF pt_16_7]
      ck_entry_precomp [where t = 7563186585470672587344019619584875020188260150552878434634475363908228644220, OF pt_16_8]])
    (simp_all only: hex_entry)

section \<open>Row 17\<close>

lemma pt_17_1: "pt (zmul 1 (row_base 17))
    55883912999791610874099966987147290610183948615152237875979579790630856352726
    12787813360355090873089222731288484058890848842071756283908784376987452902533
    37215819195597225906733077543471374188317177722219007369409545129793948129206"
  by (rule pt_row_Suc [OF pt_16_256]) simp

lemma pt_17_2: "pt (zmul 2 (row_base 17))
    43257177485963219795473619209211102129326623172848454308219645778053046059400
    28725362628639569638299750482386987410574500918275340685442582601975227050030
    40698236467754804752927967690878316375864949857139230782390631914444160458649"
  by (rule pt_zmul_dbl [OF pt_17_1]) (simp_all only: hex_dbl)

lemma pt_17_3: "pt (zmul 3 (row_base 17))
    25104480012283384794122617066267477351136663399061616348811184563607033648424
    26532494424347655020757306391851298890881886080628047709429741376429963617790
    2915004386611009774464281449902065130175623322621212791459082467699161762655"
  by (rule pt_zmul_add [OF pt_17_2 pt_17_1]) (simp_all only: hex_add)

lemma pt_17_4: "pt (zmul 4 (row_base 17))
    14261193102427984812343991013294505465111572298989384813880738230123360681467
    40382347136863815895035877978461159372599765612083907993477560360597463517013
    2872680352197906790747745629649296068697748075273924431175921359386404703684"
  by (rule pt_zmul_dbl [OF pt_17_2]) (simp_all only: hex_dbl)

lemma pt_17_5: "pt (zmul 5 (row_base 17))
    39926347492462236539229475660998485629917803489723337994035379335677049849855
    17013676445343910141824914826515680784673059355588886017582549155364570513454
    8237875912050092674154714788721716001429763260327213398444076588796217224044"
  by (rule pt_zmul_add [OF pt_17_4 pt_17_1]) (simp_all only: hex_add)

lemma pt_17_6: "pt (zmul 6 (row_base 17))
    23180253138777485114772102616698097681353112686034004355368373435907497680048
    8637258431326896641072663274969855823140890140948098081048707512796911008602
    5434410436915788244326221688949147116591822635290168132983935486130426286820"
  by (rule pt_zmul_dbl [OF pt_17_3]) (simp_all only: hex_dbl)

lemma pt_17_7: "pt (zmul 7 (row_base 17))
    55664308494835775856185723610105448595645239271756121800441185356283518381113
    24605501900736357215531973953896516549194826234386747871225908472723599889737
    39736252257435610188216262517453177836697307541656116561220929529680062535844"
  by (rule pt_zmul_add [OF pt_17_6 pt_17_1]) (simp_all only: hex_add)

lemma pt_17_8: "pt (zmul 8 (row_base 17))
    4024908508817066770060371964586666357271338932233580630221226449897808710343
    12289168685784047824301370807824389053540767440464242302468222694281755949638
    5907312027531315753173820853566290383433239327337944104534623466390607639496"
  by (rule pt_zmul_dbl [OF pt_17_4]) (simp_all only: hex_dbl)

lemma pt_17_16: "pt (zmul 16 (row_base 17))
    54516917620078961420673783705678923776679613142755615251754788107435261001726
    1473028836296644744766105767035670826571860886865560306098170332602170407925
    29419344104440801531536861285932825966849008763859114075171152513791234780728"
  by (rule pt_zmul_dbl [OF pt_17_8]) (simp_all only: hex_dbl)

lemma pt_17_32: "pt (zmul 32 (row_base 17))
    10643053031046901577316915265991009723287046285403078869509160086835661246719
    5266756857958965790207505951030385887811027434194432324856656452622884706038
    37531998771771892061249853899464171894697015152106330328559159220200524230103"
  by (rule pt_zmul_dbl [OF pt_17_16]) (simp_all only: hex_dbl)

lemma pt_17_64: "pt (zmul 64 (row_base 17))
    885653457851086759173454333350358470114919007890473533171075804016312509788
    5173873731015455898843145409981988213048728441860738710127269478567836908624
    46390114412740183143230293367457454096142235475039873308805186915968997158082"
  by (rule pt_zmul_dbl [OF pt_17_32]) (simp_all only: hex_dbl)

lemma pt_17_128: "pt (zmul 128 (row_base 17))
    21621513170862521099530913770180462793295136851291509893158492413150529922623
    11869068989273831198675046236996322457470416332996814632944901924274302665087
    23552698518294729278142406980452638691125392732142181431469752290991082186292"
  by (rule pt_zmul_dbl [OF pt_17_64]) (simp_all only: hex_dbl)

lemma pt_17_256: "pt (zmul 256 (row_base 17))
    19600378045657556875289925355351315605889147312093060723319760395067636662161
    55917308400816340940408390548223513438205960913829150880571547126642528177519
    39899686957124757334732424715163183046072775688984097252014070424513489767468"
  by (rule pt_zmul_dbl [OF pt_17_128]) (simp_all only: hex_dbl)

lemma ge_base_row_17: "\<forall>m<8. precomp_is (zmul (int m + 1) (row_base 17)) (ge_base_17 ! m)"
  unfolding ge_base_17_def
  by (rule row_entries [OF
      ck_entry_precomp [where t = 51622518620151747173210018113341496704968389474850906273730158550846718033514, OF pt_17_1]
      ck_entry_precomp [where t = 329431519066973326052485291368324852702715668186114841888035544867183855018, OF pt_17_2]
      ck_entry_precomp [where t = 2659390615314084910803836577785302631183188730821216467100283665817468188985, OF pt_17_3]
      ck_entry_precomp [where t = 189618779146081364298486992681723579116339694068437570989598979943882595688, OF pt_17_4]
      ck_entry_precomp [where t = 48472680947372479360615849788833640795315036817203558722250314377888910368459, OF pt_17_5]
      ck_entry_precomp [where t = 2578134706650352371638213828150473280773292550882571281331803318985484690137, OF pt_17_6]
      ck_entry_precomp [where t = 36072790460307752326002300129805223955998717096029913656506326020479442080898, OF pt_17_7]
      ck_entry_precomp [where t = 28732595254281591632880446608024050985319680939406314429508991673896605610932, OF pt_17_8]])
    (simp_all only: hex_entry)

section \<open>Row 18\<close>

lemma pt_18_1: "pt (zmul 1 (row_base 18))
    19600378045657556875289925355351315605889147312093060723319760395067636662161
    55917308400816340940408390548223513438205960913829150880571547126642528177519
    39899686957124757334732424715163183046072775688984097252014070424513489767468"
  by (rule pt_row_Suc [OF pt_17_256]) simp

lemma pt_18_2: "pt (zmul 2 (row_base 18))
    28658754282729672882100872941658788065524989174348966960536451895469243658010
    37762667404419404728133635288193148665768828242655041491126540255911857634224
    42888383545415961445003706756040338185852554011979040257760224530638009208792"
  by (rule pt_zmul_dbl [OF pt_18_1]) (simp_all only: hex_dbl)

lemma pt_18_3: "pt (zmul 3 (row_base 18))
    13645562336188220894142267268813765882905214067731667310383708058132943056560
    29750974929275675451459270101115647797441628033861298062386645364229017090049
    48949607464471832142357253350026807543294449539853226846014425376920568515166"
  by (rule pt_zmul_add [OF pt_18_2 pt_18_1]) (simp_all only: hex_add)

lemma pt_18_4: "pt (zmul 4 (row_base 18))
    43989363110060799496526592551177644111553271892145685238033036627888703862877
    45195762653922475880384045212304509155155597033569070505522741599100348519449
    39797265132532711068835781655528511620644340839990088011558649518147696208275"
  by (rule pt_zmul_dbl [OF pt_18_2]) (simp_all only: hex_dbl)

lemma pt_18_5: "pt (zmul 5 (row_base 18))
    15923635207242447283651154733203122851582241821046171908856292618991427861642
    25288602186993390659352637898119140901542996921902325321249844823428407931528
    56120550098121966777374350460004623856300026819604569410710096518549984953865"
  by (rule pt_zmul_add [OF pt_18_4 pt_18_1]) (simp_all only: hex_add)

lemma pt_18_6: "pt (zmul 6 (row_base 18))
    22408481768422265362339970600335405760652849018111726963546637612611151234124
    48831474560618903999831625155328489652709331475404229119141303167554858132130
    51359741164709013137537325328865544176086905513427271527806499812047889663896"
  by (rule pt_zmul_dbl [OF pt_18_3]) (simp_all only: hex_dbl)

lemma pt_18_7: "pt (zmul 7 (row_base 18))
    12422256006737380527558731321173705463447924358937633009394026486929508609174
    36268785219956563235629337438422198510127143007390415188287146863381543926088
    45243886705483705792259106615965371325206280358480067714185388577605358557770"
  by (rule pt_zmul_add [OF pt_18_6 pt_18_1]) (simp_all only: hex_add)

lemma pt_18_8: "pt (zmul 8 (row_base 18))
    8902490268397843803802527325209899535197727256334443541236481446389959573425
    3852752280237905117009160546534950954901072829321467116969506308368943816516
    15549426061611026436610324367399796195411910373693257691366502967077204787838"
  by (rule pt_zmul_dbl [OF pt_18_4]) (simp_all only: hex_dbl)

lemma pt_18_16: "pt (zmul 16 (row_base 18))
    6986702789447486299255325584840115837692128257688346505060373904960228934887
    10292962987431499209806177702562716293400171669371976579676428374942177156958
    44124560566436098779313679324018753026591024286740166105182254362326390511885"
  by (rule pt_zmul_dbl [OF pt_18_8]) (simp_all only: hex_dbl)

lemma pt_18_32: "pt (zmul 32 (row_base 18))
    17044116135596505028737179346678509469911041975350358568755082202036985870107
    42455180672755106883951150046299420740744375609364441069727100382315725009513
    18680111376296432019424544880807389746292974508742006997681513032200570651085"
  by (rule pt_zmul_dbl [OF pt_18_16]) (simp_all only: hex_dbl)

lemma pt_18_64: "pt (zmul 64 (row_base 18))
    35699121746649840704418034923098908337241927255079104052577773022334802256857
    42797427239513741210424919482406830061459306844682386746523008648281197056610
    27823505130739788650972985832868778896145917283360389832860610845145518470459"
  by (rule pt_zmul_dbl [OF pt_18_32]) (simp_all only: hex_dbl)

lemma pt_18_128: "pt (zmul 128 (row_base 18))
    18325906839195889578789899993068057797851367534956078601965911799634346506748
    22616100759195716946399271549482498388221224000801885013458519667084159593279
    12794313812139362977904417380073499483484912570889217804507829492790392644731"
  by (rule pt_zmul_dbl [OF pt_18_64]) (simp_all only: hex_dbl)

lemma pt_18_256: "pt (zmul 256 (row_base 18))
    13048931295659041501322229995873503013594860839855087692129062737859493222938
    55356056475575935623708835593923975823491973524220303008437518991732678646755
    49963983796323580263993243533601747270429038215005018188137038993379644188496"
  by (rule pt_zmul_dbl [OF pt_18_128]) (simp_all only: hex_dbl)

lemma ge_base_row_18: "\<forall>m<8. precomp_is (zmul (int m + 1) (row_base 18)) (ge_base_18 ! m)"
  unfolding ge_base_18_def
  by (rule row_entries [OF
      ck_entry_precomp [where t = 29063890488166339086225619435816982634387574898318310237213124376146794246065, OF pt_18_1]
      ck_entry_precomp [where t = 12353036812962496203749458240950541846231538319541546286518482396591917848911, OF pt_18_2]
      ck_entry_precomp [where t = 926396675279109900818416679023818455098468439648703830885427985202124001384, OF pt_18_3]
      ck_entry_precomp [where t = 34820121145040469786555372294105914336404776683208038497550224771196732864479, OF pt_18_4]
      ck_entry_precomp [where t = 21528969863190699717435594993368761735923570830509177616243428191717177335590, OF pt_18_5]
      ck_entry_precomp [where t = 18791391051538340766952513995087921711005254579083189981692107748760441879642, OF pt_18_6]
      ck_entry_precomp [where t = 51489759902423377004771156771392168733093212917385619860515775336805359498037, OF pt_18_7]
      ck_entry_precomp [where t = 33887769679449071304122000731747932895922067066338617528858276279596896340609, OF pt_18_8]])
    (simp_all only: hex_entry)

section \<open>Row 19\<close>

lemma pt_19_1: "pt (zmul 1 (row_base 19))
    13048931295659041501322229995873503013594860839855087692129062737859493222938
    55356056475575935623708835593923975823491973524220303008437518991732678646755
    49963983796323580263993243533601747270429038215005018188137038993379644188496"
  by (rule pt_row_Suc [OF pt_18_256]) simp

lemma pt_19_2: "pt (zmul 2 (row_base 19))
    17804552021948501003473808784482696744755975256217624996860777200020497779224
    39742389178857970929201271717901335006610649140129837785033274071125207857467
    35273753037474837238260826834011462794680916311289143853807927770956436229867"
  by (rule pt_zmul_dbl [OF pt_19_1]) (simp_all only: hex_dbl)

lemma pt_19_3: "pt (zmul 3 (row_base 19))
    42406938888586312473675833907047050136884689249372563307486214715428954114501
    47188165948159537758280531396210243679756058217979616039328425235565490027896
    43297802167190775361431300060327755513534902958440202744466964753235697703905"
  by (rule pt_zmul_add [OF pt_19_2 pt_19_1]) (simp_all only: hex_add)

lemma pt_19_4: "pt (zmul 4 (row_base 19))
    27243750438325626901394393635433659784763126423439206380432702465090275200900
    8334724468222977727927796857102326960164746806583065065856770832763465282107
    22064033465043547123973209411922987515510029466669558679095202723401857606984"
  by (rule pt_zmul_dbl [OF pt_19_2]) (simp_all only: hex_dbl)

lemma pt_19_5: "pt (zmul 5 (row_base 19))
    33192226700597567129190270688857890962967838402886539717180919662914653529398
    5072660758771087497504482738866921197967216200981954427535927106382746936911
    18213381764469942747889979415053147912041961373362345660054506358121514795121"
  by (rule pt_zmul_add [OF pt_19_4 pt_19_1]) (simp_all only: hex_add)

lemma pt_19_6: "pt (zmul 6 (row_base 19))
    15381728401920917507382068687991809230545606058129028849690567983221372885245
    19429967153894018201925109237895058574269096609454797625528866734728059964324
    2581529753133646717926548316500774069740278939966992820344367378591548905283"
  by (rule pt_zmul_dbl [OF pt_19_3]) (simp_all only: hex_dbl)

lemma pt_19_7: "pt (zmul 7 (row_base 19))
    8998064247025388548715156834976237360380561803307427515066653227914324130739
    55095913371587289695109490714598414350709591539874218004648399969336475386840
    7395556553591026128055411533334483534876977154959967569790706935405583914819"
  by (rule pt_zmul_add [OF pt_19_6 pt_19_1]) (simp_all only: hex_add)

lemma pt_19_8: "pt (zmul 8 (row_base 19))
    27531835895280592308108478914989633679052609083143703025386917874092532392021
    55158672890636899211646078797224456321544010509658114982139571230287299483895
    17751709787339100870783805411827834855736359370306813476521514323182264045514"
  by (rule pt_zmul_dbl [OF pt_19_4]) (simp_all only: hex_dbl)

lemma pt_19_16: "pt (zmul 16 (row_base 19))
    22459022010406441880071998423128997707946874444377105141084471424789185546822
    53825991541922386254752026760877422413415158982488042561091950744726508263312
    20775923157482545670930163487462150293664412633066592104203073556330705639461"
  by (rule pt_zmul_dbl [OF pt_19_8]) (simp_all only: hex_dbl)

lemma pt_19_32: "pt (zmul 32 (row_base 19))
    36410947714736514685678444986951589358749307344893388745013989729585202274689
    43412077953637696023084925327019822207496974679371988611880127736118415232905
    9378227662060820975838162174489715997365259247581915392737563755536090938058"
  by (rule pt_zmul_dbl [OF pt_19_16]) (simp_all only: hex_dbl)

lemma pt_19_64: "pt (zmul 64 (row_base 19))
    16500068492966065029940089035493110962818486883169745913799238267083281214115
    23428262921037128435634015506312194949743083014841069563773867982356615469356
    18519894626590327857986424604974319116328724597675481136875622759505328103875"
  by (rule pt_zmul_dbl [OF pt_19_32]) (simp_all only: hex_dbl)

lemma pt_19_128: "pt (zmul 128 (row_base 19))
    52017698461574473160794941667109584858545935730947521527680867047974376073376
    7882353656296193450631397862206626290365575517687412797407255073835670659135
    40756426704631440540698760455484116663263303155886645725211194603041773180768"
  by (rule pt_zmul_dbl [OF pt_19_64]) (simp_all only: hex_dbl)

lemma pt_19_256: "pt (zmul 256 (row_base 19))
    38102973455857383083217578484408556833622354043481013391311736024976869900337
    1514172559578212496981391342935391411386520649276975744812625577312668741408
    1968866686843775686290887716911932262809511996620402674886445561697688625696"
  by (rule pt_zmul_dbl [OF pt_19_128]) (simp_all only: hex_dbl)

lemma ge_base_row_19: "\<forall>m<8. precomp_is (zmul (int m + 1) (row_base 19)) (ge_base_19 ! m)"
  unfolding ge_base_19_def
  by (rule row_entries [OF
      ck_entry_precomp [where t = 3112833070020348694674632887612813409140462914353524165671334222590222299871, OF pt_19_1]
      ck_entry_precomp [where t = 22080273457681553520362818646421761855388088385762219204684675724091559084043, OF pt_19_2]
      ck_entry_precomp [where t = 27043451990373105990692289376759402892308023952083784575741845461279314649134, OF pt_19_3]
      ck_entry_precomp [where t = 16647296463001095504758888386908190189083714518877676795879265537553158820354, OF pt_19_4]
      ck_entry_precomp [where t = 33067252800873868663304958355534823714930634271860246709319697323427256736302, OF pt_19_5]
      ck_entry_precomp [where t = 37565449703027449360245063872371237293824956496362421713059464249556871050173, OF pt_19_6]
      ck_entry_precomp [where t = 1196018105494822407126248235083421807058786771135907204787169608376078918499, OF pt_19_7]
      ck_entry_precomp [where t = 21239430982072275512147208968347070657977425329783169869598084393962556441943, OF pt_19_8]])
    (simp_all only: hex_entry)

section \<open>Row 20\<close>

lemma pt_20_1: "pt (zmul 1 (row_base 20))
    38102973455857383083217578484408556833622354043481013391311736024976869900337
    1514172559578212496981391342935391411386520649276975744812625577312668741408
    1968866686843775686290887716911932262809511996620402674886445561697688625696"
  by (rule pt_row_Suc [OF pt_19_256]) simp

lemma pt_20_2: "pt (zmul 2 (row_base 20))
    1209048020089982719844495683819082001893607537849579268870283236895088467617
    741055009305076071530405773629080554579552753436343301823658144874985568375
    15968905772686977983881806756779650653743482463472703992587842753827928007808"
  by (rule pt_zmul_dbl [OF pt_20_1]) (simp_all only: hex_dbl)

lemma pt_20_3: "pt (zmul 3 (row_base 20))
    20435066071842063146581378892165353039114165203708236392170133643699333118441
    25096032457057142297061087371320999442435016091559114550411900694249942109649
    34590594255374857373180179778123599895271102493005008359346757988854788405633"
  by (rule pt_zmul_add [OF pt_20_2 pt_20_1]) (simp_all only: hex_add)

lemma pt_20_4: "pt (zmul 4 (row_base 20))
    18133098019564239788358310742451132832366151394479185274106963769960092714259
    38140518344246930107172351602243012658971871703492240663739840305739181883166
    31793063369366392018526176788109382310630045962242405242932126548956172998482"
  by (rule pt_zmul_dbl [OF pt_20_2]) (simp_all only: hex_dbl)

lemma pt_20_5: "pt (zmul 5 (row_base 20))
    12973477867676315183581683991993526073084267881552928053738313760486206455539
    46130362034173035494937117665738112752894228577694162115209680882119673218488
    15134820430718574935150748969692766622996082019695631978330478718742822426441"
  by (rule pt_zmul_add [OF pt_20_4 pt_20_1]) (simp_all only: hex_add)

lemma pt_20_6: "pt (zmul 6 (row_base 20))
    2735364458744813899678337886244712115058663555408219053594731632399008245191
    7659925863515501254832282438154604046097133744009920864278620849342968397659
    49620106764677144254357764836450285624785258286568784811493042268215721231542"
  by (rule pt_zmul_dbl [OF pt_20_3]) (simp_all only: hex_dbl)

lemma pt_20_7: "pt (zmul 7 (row_base 20))
    42180668358120156446046343742696650872071216840898338570664304803599232207872
    20612874968357379263464684071580356302840841783277039462674117483350640344081
    1521814470643207344027360424501558815970488162307687589747651538275277540198"
  by (rule pt_zmul_add [OF pt_20_6 pt_20_1]) (simp_all only: hex_add)

lemma pt_20_8: "pt (zmul 8 (row_base 20))
    5775091426336568960469984583760878007322866689994151809052428061204174118889
    29887201476225371519323678298160551248870109346391839268198088354406816094603
    27610138471527652095047805863266559236671781287830322277167007153613044179337"
  by (rule pt_zmul_dbl [OF pt_20_4]) (simp_all only: hex_dbl)

lemma pt_20_16: "pt (zmul 16 (row_base 20))
    4593974641413661360409473136007336083343073546391870079652410347676384305242
    11075416245848335612131624437244363233020121445069123431277843426699655125974
    46180378140173358074037150748107686689013038996030663289342867383737442333936"
  by (rule pt_zmul_dbl [OF pt_20_8]) (simp_all only: hex_dbl)

lemma pt_20_32: "pt (zmul 32 (row_base 20))
    25600645950501492469870665030046909514665779049338234751618227042770293855482
    35018367549547244218384047246739589026720743680585178228367900785248202044204
    30251804630334814367060998104949534113929971576325398015737632751726147821373"
  by (rule pt_zmul_dbl [OF pt_20_16]) (simp_all only: hex_dbl)

lemma pt_20_64: "pt (zmul 64 (row_base 20))
    47381093868014146716290594308379387603422995808043370349152197064808697732503
    33942614215534729019562244640587123042155197238234388559054699708318491129837
    29733664533670832881235137105144312207277965270958385188580806264761644448759"
  by (rule pt_zmul_dbl [OF pt_20_32]) (simp_all only: hex_dbl)

lemma pt_20_128: "pt (zmul 128 (row_base 20))
    24906052884562782063951679699354048255575956337820807662059523674932368870434
    56568276242266121408027385930302597564871675885758994270648969197209785960531
    22678436875596921488721360362008534576005046720530484807479651869530626801395"
  by (rule pt_zmul_dbl [OF pt_20_64]) (simp_all only: hex_dbl)

lemma pt_20_256: "pt (zmul 256 (row_base 20))
    57435379460912946376016399473592937666208110907957819293947071147026428093578
    7182409611272236782881027545209618023531837096266053376665803045542815763674
    30529205466975385714812549513861014452090337118143516453664072507857742619136"
  by (rule pt_zmul_dbl [OF pt_20_128]) (simp_all only: hex_dbl)

lemma ge_base_row_20: "\<forall>m<8. precomp_is (zmul (int m + 1) (row_base 20)) (ge_base_20 ! m)"
  unfolding ge_base_20_def
  by (rule row_entries [OF
      ck_entry_precomp [where t = 56885837457941781562472970038992446743422097347317904955514079018245209252097, OF pt_20_1]
      ck_entry_precomp [where t = 57658419206863557613075436535890848220861111884760370824405969118734898947033, OF pt_20_2]
      ck_entry_precomp [where t = 3212990973364207555713325006657889930223047391660007398496983246904512817433, OF pt_20_3]
      ck_entry_precomp [where t = 50366808401555536113478294266225348686978827198878052918429968543898518694239, OF pt_20_4]
      ck_entry_precomp [where t = 48562611479044161426853652725159758626243728420323964218969603293670881430938, OF pt_20_5]
      ck_entry_precomp [where t = 28725203191061569053464282894766765877404304894815192989896166063181466569058, OF pt_20_6]
      ck_entry_precomp [where t = 8360869020015027425398003561102879137274467326237743146577714236995543114909, OF pt_20_7]
      ck_entry_precomp [where t = 21791538167017312289353922741146715340453011345869436335884971414065166801269, OF pt_20_8]])
    (simp_all only: hex_entry)

section \<open>Row 21\<close>

lemma pt_21_1: "pt (zmul 1 (row_base 21))
    57435379460912946376016399473592937666208110907957819293947071147026428093578
    7182409611272236782881027545209618023531837096266053376665803045542815763674
    30529205466975385714812549513861014452090337118143516453664072507857742619136"
  by (rule pt_row_Suc [OF pt_20_256]) simp

lemma pt_21_2: "pt (zmul 2 (row_base 21))
    42210236214376757400012817433438249353764277058741656671329805883396582814232
    57348137657919450798024470676996840870809450785193425110629834980129468035513
    4851318572244298332421739462250673223859712373362991207024807491237296616580"
  by (rule pt_zmul_dbl [OF pt_21_1]) (simp_all only: hex_dbl)

lemma pt_21_3: "pt (zmul 3 (row_base 21))
    49619696907153841524267758309928571919377314316806237937566172168272548178977
    3485284761037338677898612804143106287484112216833241606337681061595457802082
    39657588354742943037800960858739478142403178474532469244792314825230389197796"
  by (rule pt_zmul_add [OF pt_21_2 pt_21_1]) (simp_all only: hex_add)

lemma pt_21_4: "pt (zmul 4 (row_base 21))
    50600021921010654639393042398421493487175029585569794013338947997757371996000
    47754901932658832944755602250322713204028621750591692777499867217041679199371
    27376756698200843765690827290800801238834946608456425462872448105829514681330"
  by (rule pt_zmul_dbl [OF pt_21_2]) (simp_all only: hex_dbl)

lemma pt_21_5: "pt (zmul 5 (row_base 21))
    52392053468481918215988186546895350820660735166831544383784348841508738741461
    16930072187796827281556450701960887458435200744669793811845050302764268774678
    469617881708073732594024425199495498357221244994835643021454510345727285193"
  by (rule pt_zmul_add [OF pt_21_4 pt_21_1]) (simp_all only: hex_add)

lemma pt_21_6: "pt (zmul 6 (row_base 21))
    41703669482801241018094405308949407506910002556815944269038866994818236655785
    18619606186702279657002950819798663206966455524659784662986350503823852359806
    21664555491139198432529490151795796280300901133492805662338079789727852429844"
  by (rule pt_zmul_dbl [OF pt_21_3]) (simp_all only: hex_dbl)

lemma pt_21_7: "pt (zmul 7 (row_base 21))
    7063805793738720620216139553284159940750985676931005421484535425679681428633
    30244448808638391943961946594484801763161736956115445952965983675607097796400
    48389714891945979347089061882935091667679011235008385717661215760332699879825"
  by (rule pt_zmul_add [OF pt_21_6 pt_21_1]) (simp_all only: hex_add)

lemma pt_21_8: "pt (zmul 8 (row_base 21))
    50821319870416465254009388267125334163559310625584087921444311551619938114722
    9088620056811087677562838423666372834336956655193749318058251486947572448962
    34039429566064901143807674786183064757872182003111052392416094123251993040947"
  by (rule pt_zmul_dbl [OF pt_21_4]) (simp_all only: hex_dbl)

lemma pt_21_16: "pt (zmul 16 (row_base 21))
    32196522848847565735856334276318051124252886737458105769209166262725053033083
    7393130115855485575153821803620022305971326776213307269593337761874989725644
    7273124513803697534918587863455434012473808284279326211506590763110823892064"
  by (rule pt_zmul_dbl [OF pt_21_8]) (simp_all only: hex_dbl)

lemma pt_21_32: "pt (zmul 32 (row_base 21))
    24970461910561685087054410555168591907166478298815460063350897541212489434507
    29592115857405817829899349542395762534440192398798334180602563381251866001145
    11901603101207129367230651712253093025653990235841865284177250832639181756525"
  by (rule pt_zmul_dbl [OF pt_21_16]) (simp_all only: hex_dbl)

lemma pt_21_64: "pt (zmul 64 (row_base 21))
    27245346486052156612556260664476378420790036658297676001899098524885355077359
    48888870642372071672067603659241911365933576620840101126375508459414510565522
    15545211093823478259519848426341509837631865449937378866429812749573278421228"
  by (rule pt_zmul_dbl [OF pt_21_32]) (simp_all only: hex_dbl)

lemma pt_21_128: "pt (zmul 128 (row_base 21))
    19136258585028565136045765318475835467303635827791206963510287604802635715111
    33344540989183453160057876432486571991820248849096960063935237253623116441578
    39130647447448359575415152102740760021714474026370544200484542053081677870612"
  by (rule pt_zmul_dbl [OF pt_21_64]) (simp_all only: hex_dbl)

lemma pt_21_256: "pt (zmul 256 (row_base 21))
    2051620019948060320139165007224790046062957563684725660075865905766801927018
    26634626972702021852271593881089056221016381869788669620902290400855180194096
    19894888738178213129913547526001517380443060205018269077878681434722593234648"
  by (rule pt_zmul_dbl [OF pt_21_128]) (simp_all only: hex_dbl)

lemma ge_base_row_21: "\<forall>m<8. precomp_is (zmul (int m + 1) (row_base 21)) (ge_base_21 ! m)"
  unfolding ge_base_21_def
  by (rule row_entries [OF
      ck_entry_precomp [where t = 31528366601965305289940644562921318141983152131817016527053354114582450966119, OF pt_21_1]
      ck_entry_precomp [where t = 33877699686697522655569814995013986429629494320631321959507634199066121460623, OF pt_21_2]
      ck_entry_precomp [where t = 8744414005657438958897482888866077175551864801711842971574132884231088632498, OF pt_21_3]
      ck_entry_precomp [where t = 35956418472906420762665207596966237239305212222240936591027805564304838588433, OF pt_21_4]
      ck_entry_precomp [where t = 19015506516880501439135903862158418328409326541021257781129458007097206851986, OF pt_21_5]
      ck_entry_precomp [where t = 8187903791996321927987248531913643443623411611611455374871484778934619167670, OF pt_21_6]
      ck_entry_precomp [where t = 48639578438992922634239205911494361817961086114213991466230647161304972478510, OF pt_21_7]
      ck_entry_precomp [where t = 7320846262937598597095870749481084807870918895448980543581439781302930284037, OF pt_21_8]])
    (simp_all only: hex_entry)

section \<open>Row 22\<close>

lemma pt_22_1: "pt (zmul 1 (row_base 22))
    2051620019948060320139165007224790046062957563684725660075865905766801927018
    26634626972702021852271593881089056221016381869788669620902290400855180194096
    19894888738178213129913547526001517380443060205018269077878681434722593234648"
  by (rule pt_row_Suc [OF pt_21_256]) simp

lemma pt_22_2: "pt (zmul 2 (row_base 22))
    43769380888977812413478673890986529989191732720426156771316652232317703571636
    15820824354793376257897629437049119155765096347400266612126312061920858649044
    47097512067599334136795665118823558962609348753765723891269855090758647957253"
  by (rule pt_zmul_dbl [OF pt_22_1]) (simp_all only: hex_dbl)

lemma pt_22_3: "pt (zmul 3 (row_base 22))
    56740787906884532324729202644277150772078760477547278731127799193177820198296
    45175078560717607846973195839567157523136381418487876530644813390761522101070
    20877307374675550266318185091602014000598259768455838839363930559517315145119"
  by (rule pt_zmul_add [OF pt_22_2 pt_22_1]) (simp_all only: hex_add)

lemma pt_22_4: "pt (zmul 4 (row_base 22))
    32590387035373356349237944783725042971516324481435734036565592641529718964239
    38526204566884529523403748198692080481503772366256898154955286496417003279230
    56040147580430708190219150539956449488737479705341009427285075043759093999455"
  by (rule pt_zmul_dbl [OF pt_22_2]) (simp_all only: hex_dbl)

lemma pt_22_5: "pt (zmul 5 (row_base 22))
    9290948270196782016552239358188180363623132037413100207517341412817700527528
    35872372579788343653904692179861836918259031561521881134036057085120243861940
    51510984697108363572598805139382051883273712808290483711615433340539773786205"
  by (rule pt_zmul_add [OF pt_22_4 pt_22_1]) (simp_all only: hex_add)

lemma pt_22_6: "pt (zmul 6 (row_base 22))
    8596047903275685753246580194150885726628605523950828844807866672216201451753
    18887850357107750516795583682807763951579049355018802523141562814641819842303
    38708482813016214219269074556300147374142141486407643464431610187079396054582"
  by (rule pt_zmul_dbl [OF pt_22_3]) (simp_all only: hex_dbl)

lemma pt_22_7: "pt (zmul 7 (row_base 22))
    24769235594246884116675095451177409445249489830013577302337358622842509625243
    5590804631373720641191779014802984499595292929546842536890222240310670100045
    36099570246896386339788989997104890979736554754851266526938263520258930775685"
  by (rule pt_zmul_add [OF pt_22_6 pt_22_1]) (simp_all only: hex_add)

lemma pt_22_8: "pt (zmul 8 (row_base 22))
    25129151533353404139717554541472678604163033293344388344698639707261640377912
    7806071603720859404100562229036778757080037506060353939615952230465254896782
    30642278562147956672060589358391948767090293007080571760426525253641881649321"
  by (rule pt_zmul_dbl [OF pt_22_4]) (simp_all only: hex_dbl)

lemma pt_22_16: "pt (zmul 16 (row_base 22))
    16286486140097290168902811228338717466195910788306539796964448105895915202654
    45772195081924706455685187292739912601741495890583239795556426093338080240461
    52449296600063965434967230777518109382068697854831487065407736998035490950442"
  by (rule pt_zmul_dbl [OF pt_22_8]) (simp_all only: hex_dbl)

lemma pt_22_32: "pt (zmul 32 (row_base 22))
    51829224299071390883335050099115760084249950153969816694506997046362162191848
    6651605539112656999127431679750059531742481947979094622174982403235321153992
    39815535776128225377794898250677858051366557585490520073268791694458887920481"
  by (rule pt_zmul_dbl [OF pt_22_16]) (simp_all only: hex_dbl)

lemma pt_22_64: "pt (zmul 64 (row_base 22))
    40991587245288082732481961079973618053627134133348505841086323543061099679442
    54786666320687642240803361615502782680841653229296149388899422992008505743553
    30217736807719556409899840403442055930176532697763444559650439096076094821165"
  by (rule pt_zmul_dbl [OF pt_22_32]) (simp_all only: hex_dbl)

lemma pt_22_128: "pt (zmul 128 (row_base 22))
    6663732281608296555434424168258273947999213868485016269558252248117664606672
    6501082717027354683185036463519938070371383290746362451621479643683527360462
    9852424021057370485040104570745127241315118416218558617766698835402355346132"
  by (rule pt_zmul_dbl [OF pt_22_64]) (simp_all only: hex_dbl)

lemma pt_22_256: "pt (zmul 256 (row_base 22))
    6619991358524042425167715374215849263046545656201214435076171013124526605093
    26917309066133303918329708278348164207184189035529132635850906972016457089819
    27530807659849847188101740647952712239550753242740479481937681435443989417878"
  by (rule pt_zmul_dbl [OF pt_22_128]) (simp_all only: hex_dbl)

lemma ge_base_row_22: "\<forall>m<8. precomp_is (zmul (int m + 1) (row_base 22)) (ge_base_22 ! m)"
  unfolding ge_base_22_def
  by (rule row_entries [OF
      ck_entry_precomp [where t = 55858511759155171035186662451886192650949514401803143616501468276134835673260, OF pt_22_1]
      ck_entry_precomp [where t = 6553033477511152167753424438103890545918508083454418108807777757757847467509, OF pt_22_2]
      ck_entry_precomp [where t = 57464547890856002161613913096396805210605492840267624623634432174523788872461, OF pt_22_3]
      ck_entry_precomp [where t = 1955044669933773787732732485213535922569554500554643807834443986037146076, OF pt_22_4]
      ck_entry_precomp [where t = 23511138278919726050323991693030356486143254431314050170651964038289377010478, OF pt_22_5]
      ck_entry_precomp [where t = 44833187017994075685716409543886176837492606910711490533363654731629378572593, OF pt_22_6]
      ck_entry_precomp [where t = 55642330237818598280585711671966521363396907038111516127466110228513581660953, OF pt_22_7]
      ck_entry_precomp [where t = 10013174844219775179169969937068145870035890337718686305026375966992628442737, OF pt_22_8]])
    (simp_all only: hex_entry)

section \<open>Row 23\<close>

lemma pt_23_1: "pt (zmul 1 (row_base 23))
    6619991358524042425167715374215849263046545656201214435076171013124526605093
    26917309066133303918329708278348164207184189035529132635850906972016457089819
    27530807659849847188101740647952712239550753242740479481937681435443989417878"
  by (rule pt_row_Suc [OF pt_22_256]) simp

lemma pt_23_2: "pt (zmul 2 (row_base 23))
    38950448012588243946414608881956854172002510487947106773277630064696561000253
    20658041943100844923121417719401408660730666510617263285533032361124278074110
    16663161996360062858153625760761480812968218641057109849249994123350900429631"
  by (rule pt_zmul_dbl [OF pt_23_1]) (simp_all only: hex_dbl)

lemma pt_23_3: "pt (zmul 3 (row_base 23))
    50721058380576106208981643267156252211388192842352961453479960149623609043702
    13556771741525759122947963534399359201451763071267182316832615510147359680194
    38122708291960296893500115743801102180528291713107907160238709328494235889927"
  by (rule pt_zmul_add [OF pt_23_2 pt_23_1]) (simp_all only: hex_add)

lemma pt_23_4: "pt (zmul 4 (row_base 23))
    9066459199990487057566783512866495384906433960448006028148553394308414641443
    30896325601573386383760025638744259970194842073224766324073607004825531174417
    21993803679950533918846258614949582093606395416468318806731025448221971467453"
  by (rule pt_zmul_dbl [OF pt_23_2]) (simp_all only: hex_dbl)

lemma pt_23_5: "pt (zmul 5 (row_base 23))
    23854712464910574150049315770105149577566630877026350519326442228166350308197
    52465934102188362604703087828435337649739245938337825227285648259408611986469
    24501382619800186014420541803187142017511387025337194278442755416145372919720"
  by (rule pt_zmul_add [OF pt_23_4 pt_23_1]) (simp_all only: hex_add)

lemma pt_23_6: "pt (zmul 6 (row_base 23))
    51043438948474549865877490448917873070288494066668412870775693334625845006005
    39211893249910416225972901205891555908370517133388663166785626120585646715577
    19876115781360168646155648167334448488231235604753579583561638809805982419185"
  by (rule pt_zmul_dbl [OF pt_23_3]) (simp_all only: hex_dbl)

lemma pt_23_7: "pt (zmul 7 (row_base 23))
    55776321050703236087338173385855949456324499034250698007870378306295564587428
    16411827752557687192422762742173580550124257748881908451470588647754523358156
    47225443130201151415498128908885275127878519103362002930859607131315207879677"
  by (rule pt_zmul_add [OF pt_23_6 pt_23_1]) (simp_all only: hex_add)

lemma pt_23_8: "pt (zmul 8 (row_base 23))
    4805487609028089188035435787062236463493697705595053320910102397573543327239
    52100268478417557073660763168300267474345490988905135106510962443805890640349
    28179676587093604580207413415238535558171770568800705719686416741727396174884"
  by (rule pt_zmul_dbl [OF pt_23_4]) (simp_all only: hex_dbl)

lemma pt_23_16: "pt (zmul 16 (row_base 23))
    7102673334150108259178726547037373000787009374705025015842615748792126914856
    7330345983442420568594491295455459520320216451616073053526714012768731256311
    11042889267454344061935913348048614884084565385590035041670758909591184205364"
  by (rule pt_zmul_dbl [OF pt_23_8]) (simp_all only: hex_dbl)

lemma pt_23_32: "pt (zmul 32 (row_base 23))
    55822355548589742572968034672029242082573405721138445160588022548204366508385
    5752280606398123629287002606708976491085254470747366295725973811408999723219
    11405095286806212746082561279791123755827929300331566159837382933251892050835"
  by (rule pt_zmul_dbl [OF pt_23_16]) (simp_all only: hex_dbl)

lemma pt_23_64: "pt (zmul 64 (row_base 23))
    41079804648115120583834599536083991825194843599993026258504495042904843482206
    46036014188062896365567660815856558088088452193850523146248322723406346107437
    16347427166443794545613954972616070713155454097069521999735829517309680712945"
  by (rule pt_zmul_dbl [OF pt_23_32]) (simp_all only: hex_dbl)

lemma pt_23_128: "pt (zmul 128 (row_base 23))
    28538487777225734781750022687361610666923096120871073386362359575201285846736
    42058869948826943166496536455005522405465933040272726585026373998316642906109
    37932739139279857566417323688571887708278509777266873494282911390213117486916"
  by (rule pt_zmul_dbl [OF pt_23_64]) (simp_all only: hex_dbl)

lemma pt_23_256: "pt (zmul 256 (row_base 23))
    12565258097955692523285632157940150666933275725759344066053586092157591802509
    44257820073692905562487031197842487206011716534849741297988353661581996935219
    11852089489538718050497412370591090809284399797098271593925664457585805673159"
  by (rule pt_zmul_dbl [OF pt_23_128]) (simp_all only: hex_dbl)

lemma ge_base_row_23: "\<forall>m<8. precomp_is (zmul (int m + 1) (row_base 23)) (ge_base_23 ! m)"
  unfolding ge_base_23_def
  by (rule row_entries [OF
      ck_entry_precomp [where t = 39410472261615336299743179721829130701240338067283415880137602906932938993002, OF pt_23_1]
      ck_entry_precomp [where t = 28387347541056969743161731260477599087813211938671199800737975337186595900477, OF pt_23_2]
      ck_entry_precomp [where t = 52025313583540724832798345327181036305559642798567317494165088512254906501246, OF pt_23_3]
      ck_entry_precomp [where t = 53525137850540139796087645227339376160151111749935319116901387220348487108962, OF pt_23_4]
      ck_entry_precomp [where t = 13784576449363378278195014104381103922006818860539015066145184823692661845116, OF pt_23_5]
      ck_entry_precomp [where t = 10333365403026583134908625158299923462963191469344860545036750155428358443353, OF pt_23_6]
      ck_entry_precomp [where t = 31450208209894312051557338832913412698032699423359994755491733207238461421526, OF pt_23_7]
      ck_entry_precomp [where t = 46689654877469149747511236224341221486288066733110499146557079054758722351808, OF pt_23_8]])
    (simp_all only: hex_entry)

end
