(* ===== verification/BaseRowsD.thy ===== *)
theory BaseRowsD
  imports BaseRowsC
begin

text \<open>
  Rows 24 to 31 of the table \<open>ge_base\<close>: the multiples of \<open>256 ^ i B\<close> by one to eight, each point
  certified from the ones before it, and the five doublings that lead to the next row.
\<close>

section \<open>Row 24\<close>

lemma pt_24_1: "pt (zmul 1 (row_base 24))
    12565258097955692523285632157940150666933275725759344066053586092157591802509
    44257820073692905562487031197842487206011716534849741297988353661581996935219
    11852089489538718050497412370591090809284399797098271593925664457585805673159"
  by (rule pt_row_Suc [OF pt_23_256]) simp

lemma pt_24_2: "pt (zmul 2 (row_base 24))
    3047606020786028284132832726733152544116871735530526064566846233255159694164
    27659277246517583802849237030891922618695698372984029484026220602549726330981
    55463775194011380630519341519966098496461783503061503682191147761899681696535"
  by (rule pt_zmul_dbl [OF pt_24_1]) (simp_all only: hex_dbl)

lemma pt_24_3: "pt (zmul 3 (row_base 24))
    53552365276772365554195944740419579336567243280359406876316960824458060850735
    35650629018577479097518351282106281449357234554211723107920870271722340764833
    48725770576057524395922610931165644107855277515890288558662755606729480475579"
  by (rule pt_zmul_add [OF pt_24_2 pt_24_1]) (simp_all only: hex_add)

lemma pt_24_4: "pt (zmul 4 (row_base 24))
    4540268506733343188936218306036274493398883371137067909932234450545784837367
    26524790429314500794899586613374338447541369717354753326410262160257197201702
    27064340452433824408075231212490175399137716169065836278056371689335065722963"
  by (rule pt_zmul_dbl [OF pt_24_2]) (simp_all only: hex_dbl)

lemma pt_24_5: "pt (zmul 5 (row_base 24))
    12865836731680429964870836876539877689269983855221154391518173579833909670750
    54505106968788366538694296953949362645181563690709832428447247381558104164043
    54735226163646743872339795177233226952890802639235013584865684982131766866604"
  by (rule pt_zmul_add [OF pt_24_4 pt_24_1]) (simp_all only: hex_add)

lemma pt_24_6: "pt (zmul 6 (row_base 24))
    27309233825399062195904921979329113981086661526986937618719936163677276457174
    23664340815210348297365347644997035152878505257530141761514215389790732085864
    3235134023935946813960854593986148891597252708842439093051900113464250020957"
  by (rule pt_zmul_dbl [OF pt_24_3]) (simp_all only: hex_dbl)

lemma pt_24_7: "pt (zmul 7 (row_base 24))
    3893115083351436905873278555138652971300169012092045419646561460555609943456
    46558973982744083198660515712826007542465058910371209402946353543638590221192
    5958418225845540917624462516639059268261615213494792378291789379969028156712"
  by (rule pt_zmul_add [OF pt_24_6 pt_24_1]) (simp_all only: hex_add)

lemma pt_24_8: "pt (zmul 8 (row_base 24))
    3446437814019273288244656713869208063996426786897354522951255709425681080283
    10094282458565215422345041182173095708589654183994461384883702800600720181143
    11143155699431656097381813171938507259196561272355038274301729945349223173674"
  by (rule pt_zmul_dbl [OF pt_24_4]) (simp_all only: hex_dbl)

lemma pt_24_16: "pt (zmul 16 (row_base 24))
    31939359117020197840802147548248613491855705164334866520018875597215644469837
    5143524954389019660933003987155034079136925677085092596769778612924203694283
    6403637347758110792358721281939148440987037544781784329037235937049249763991"
  by (rule pt_zmul_dbl [OF pt_24_8]) (simp_all only: hex_dbl)

lemma pt_24_32: "pt (zmul 32 (row_base 24))
    40287080223966726636379405601042607244208169249453644315622817057698743805842
    2817805398738675861775100282932373014831073238757293947729155265595857783030
    16896535972696290694442346550388194834063463093896298117354450319073060928398"
  by (rule pt_zmul_dbl [OF pt_24_16]) (simp_all only: hex_dbl)

lemma pt_24_64: "pt (zmul 64 (row_base 24))
    7553305694582539809762883705165465231023504042559318555394633901329085602098
    8919006912349259804699804156249013133995630522635765796307871162848027888569
    30974554232594491015269751802783605471908262383138421327618871240366020596795"
  by (rule pt_zmul_dbl [OF pt_24_32]) (simp_all only: hex_dbl)

lemma pt_24_128: "pt (zmul 128 (row_base 24))
    12426881472312458653075942369925395774623352107372521499260018286178672901380
    49090010569142864728247038097738436662825265898590795834497971162336534071909
    28836061512090055403991563689066859126217994443761002338397414708575998024826"
  by (rule pt_zmul_dbl [OF pt_24_64]) (simp_all only: hex_dbl)

lemma pt_24_256: "pt (zmul 256 (row_base 24))
    42790859572217979019765045101599520864945215556069219979855244263031107341291
    36352885112432934246239472487536406048567025584781430504388550720719917751211
    34411454693318473194917641548200099393007202594856093974381551392238794648136"
  by (rule pt_zmul_dbl [OF pt_24_128]) (simp_all only: hex_dbl)

lemma ge_base_row_24: "\<forall>m<8. precomp_is (zmul (int m + 1) (row_base 24)) (ge_base_24 ! m)"
  unfolding ge_base_24_def
  by (rule row_entries [OF
      ck_entry_precomp [where t = 40876948891942767984726390097468522319926424365298845421691691561821767326326, OF pt_24_1]
      ck_entry_precomp [where t = 48005060839820422219350859718306492667671510853106247104512417593365407129907, OF pt_24_2]
      ck_entry_precomp [where t = 6642794321915277456296779679283407466170718400195511780384211460029968578827, OF pt_24_3]
      ck_entry_precomp [where t = 44703232986687963938518426900629275320554970839714089648200942647377553343470, OF pt_24_4]
      ck_entry_precomp [where t = 42719203519880930642343549399816822632959339270567464200189499732211610605557, OF pt_24_5]
      ck_entry_precomp [where t = 6424653190144027037568988275508875558591517109070186392733318684874648923212, OF pt_24_6]
      ck_entry_precomp [where t = 54302106406547357303566004724086474124806603021109030750806623627592886366874, OF pt_24_7]
      ck_entry_precomp [where t = 31882976893936029924115801905312023736329528897244197394078603400921910187431, OF pt_24_8]])
    (simp_all only: hex_entry)

section \<open>Row 25\<close>

lemma pt_25_1: "pt (zmul 1 (row_base 25))
    42790859572217979019765045101599520864945215556069219979855244263031107341291
    36352885112432934246239472487536406048567025584781430504388550720719917751211
    34411454693318473194917641548200099393007202594856093974381551392238794648136"
  by (rule pt_row_Suc [OF pt_24_256]) simp

lemma pt_25_2: "pt (zmul 2 (row_base 25))
    20969485815323462495657636443776094956110890594908637836836433528529217248246
    41653759202517735770752925280112261648826021528062044528162964546940673720459
    55253831749873871087481078525167879909605366566753564031377413485203641221260"
  by (rule pt_zmul_dbl [OF pt_25_1]) (simp_all only: hex_dbl)

lemma pt_25_3: "pt (zmul 3 (row_base 25))
    6399565792759237000123633535459959547067053156100958725118445163227673694027
    20739723084628151488684997175307858419571991337085139498565670527187153275331
    46553433300454746278268638775651181960396885583457483355647779084204979704669"
  by (rule pt_zmul_add [OF pt_25_2 pt_25_1]) (simp_all only: hex_add)

lemma pt_25_4: "pt (zmul 4 (row_base 25))
    34567659236266541664425571443203715175544625629026504005119274300287719777486
    17565007401280625947634034803255215739402290558920251353754636626495256586789
    53018687486913924840789528401932501241008537824354152536303007521217706974773"
  by (rule pt_zmul_dbl [OF pt_25_2]) (simp_all only: hex_dbl)

lemma pt_25_5: "pt (zmul 5 (row_base 25))
    48149577081810524199352047876138340815927476283216311620256455397191098115573
    50047356294632028239400779273397109875314202551709469799442323127172933025741
    52403596253181550773191245393206506603726209191343379133974353536431939205802"
  by (rule pt_zmul_add [OF pt_25_4 pt_25_1]) (simp_all only: hex_add)

lemma pt_25_6: "pt (zmul 6 (row_base 25))
    51808273444697822950273932111070989007894234935185660766491578197924777258318
    34788096125360300977988185011840369022780177980234696526522130816395781948556
    42897240846153953168100308322442399119284454659355470240505303327560168074834"
  by (rule pt_zmul_dbl [OF pt_25_3]) (simp_all only: hex_dbl)

lemma pt_25_7: "pt (zmul 7 (row_base 25))
    41896298508700746337849055730280699770748690623146940262252985195830235034380
    22300281782611806144358762417114932045846655672745709826474787549535869334051
    27993347850580799998720137559523996852221500058853296559269918406257374348403"
  by (rule pt_zmul_add [OF pt_25_6 pt_25_1]) (simp_all only: hex_add)

lemma pt_25_8: "pt (zmul 8 (row_base 25))
    40530823640519828920562877479558932586217792589610141719579413046844059582098
    3600138672136364760753859297858104696578083065811637771482436480282220931554
    46057629397020633494619431862152748444775811169721530969241373426501460542600"
  by (rule pt_zmul_dbl [OF pt_25_4]) (simp_all only: hex_dbl)

lemma pt_25_16: "pt (zmul 16 (row_base 25))
    8052411590443323046063857505346512836591875031559018663112205767688612960753
    30730945373776092329581923858915795181500895931833186559825761766308659256288
    1833063080836121857918467005019449316710477034792765225840694380847829945464"
  by (rule pt_zmul_dbl [OF pt_25_8]) (simp_all only: hex_dbl)

lemma pt_25_32: "pt (zmul 32 (row_base 25))
    2961593518592235479541660903798251731409879313709294688882094570300481008622
    7326515770117864061036274403879279795380606332813631628549954406506753392075
    12528471409274219318603716564910802970762399327129097306235540442154724940626"
  by (rule pt_zmul_dbl [OF pt_25_16]) (simp_all only: hex_dbl)

lemma pt_25_64: "pt (zmul 64 (row_base 25))
    13873447291406652252520850563050388950183115206281801793080997331555935436935
    1854536341069985929930670263463272452350782516792606069220708092094686818171
    29530352486196961875957082058341315079224681773414139790348678087260553391957"
  by (rule pt_zmul_dbl [OF pt_25_32]) (simp_all only: hex_dbl)

lemma pt_25_128: "pt (zmul 128 (row_base 25))
    35683870257730746803867720629304493664502060430583742471203159589065530443926
    50775043548393519406558354306624403249930347495645611593884363718324007436892
    31325412607724229065847913080797065203441899641941716066397851724347086488217"
  by (rule pt_zmul_dbl [OF pt_25_64]) (simp_all only: hex_dbl)

lemma pt_25_256: "pt (zmul 256 (row_base 25))
    23139927176256150527684160377093795868379875726157297905712336211350061316827
    19787356133392787962174279663620312865334398103860028544644614368198408192057
    37492465648051618533825547835386104286162333036525561762972543216307660676529"
  by (rule pt_zmul_dbl [OF pt_25_128]) (simp_all only: hex_dbl)

lemma ge_base_row_25: "\<forall>m<8. precomp_is (zmul (int m + 1) (row_base 25)) (ge_base_25 ! m)"
  unfolding ge_base_25_def
  by (rule row_entries [OF
      ck_entry_precomp [where t = 40915848133279304249301717065599502159361308619214504379065587951925414753485, OF pt_25_1]
      ck_entry_precomp [where t = 17457845830353404567873436480192010256891779227682532036347401016005833515468, OF pt_25_2]
      ck_entry_precomp [where t = 48517599742137450041093183501501060981753535984596613915587181928311436916779, OF pt_25_3]
      ck_entry_precomp [where t = 27911567646974733787502960539801807308682540257723225617237091100946961079814, OF pt_25_4]
      ck_entry_precomp [where t = 31624780136283633034036806514856161250450087610830648591343055057965078108846, OF pt_25_5]
      ck_entry_precomp [where t = 17197665032225666821982391872834330532391780023309656801997159866397444967878, OF pt_25_6]
      ck_entry_precomp [where t = 44744868611485192051498410007278637425795956451887053792621446445078548271658, OF pt_25_7]
      ck_entry_precomp [where t = 27979366555347843172891210028180954920071574253202867548349508488418504618458, OF pt_25_8]])
    (simp_all only: hex_entry)

section \<open>Row 26\<close>

lemma pt_26_1: "pt (zmul 1 (row_base 26))
    23139927176256150527684160377093795868379875726157297905712336211350061316827
    19787356133392787962174279663620312865334398103860028544644614368198408192057
    37492465648051618533825547835386104286162333036525561762972543216307660676529"
  by (rule pt_row_Suc [OF pt_25_256]) simp

lemma pt_26_2: "pt (zmul 2 (row_base 26))
    24549719963007680681928692870584034485287122306592054951194445691864392705843
    16673777245026167737749145194769093277297849195567740502938961632043379444908
    29906173079972555615963327355241415527690010128450560076087468576980258229034"
  by (rule pt_zmul_dbl [OF pt_26_1]) (simp_all only: hex_dbl)

lemma pt_26_3: "pt (zmul 3 (row_base 26))
    45968170259573972443056393329245574100803882139466088305791856455770116138566
    24437270795736588119463404104079898413744832968735996990301879504171103178011
    16384512872641725553594613026479952045523630828675127898264729357765149905606"
  by (rule pt_zmul_add [OF pt_26_2 pt_26_1]) (simp_all only: hex_add)

lemma pt_26_4: "pt (zmul 4 (row_base 26))
    27160183473041357485053081342659997600272991901793366107032838553396221948572
    52878466045321014791225548726791844262209165286675200816611206489504571768111
    26362326195737526034043432830019985151828598431779097743765684224714008811854"
  by (rule pt_zmul_dbl [OF pt_26_2]) (simp_all only: hex_dbl)

lemma pt_26_5: "pt (zmul 5 (row_base 26))
    39624669900284178680504629988549412083219852843936168093588993478012457606263
    44665405429268282736127369280543410322579913392564751538574027607183085676573
    1932470510121889203243780379128748110820960190302652482768407415690595414821"
  by (rule pt_zmul_add [OF pt_26_4 pt_26_1]) (simp_all only: hex_add)

lemma pt_26_6: "pt (zmul 6 (row_base 26))
    44296425817054195200470761881275608649673426089175381586828046789438305214804
    14097227924324443588978266249559516576527822995669141253291039701891586165041
    20401445776773797312303886407915439408038615702336319596271103780895141341233"
  by (rule pt_zmul_dbl [OF pt_26_3]) (simp_all only: hex_dbl)

lemma pt_26_7: "pt (zmul 7 (row_base 26))
    27623060321618881159481905517379337114817128186373270157861800370908080476268
    31876388640096688570178119227525021180390303082820175562572942044843127733891
    8984689746945486426798316813537077949789006717365780559044744836716087365430"
  by (rule pt_zmul_add [OF pt_26_6 pt_26_1]) (simp_all only: hex_add)

lemma pt_26_8: "pt (zmul 8 (row_base 26))
    37856120072487993103046293427528509747584933905590469886836303938310252816138
    41907619650366185306472763840058597947456791674841048099205789966501368167173
    34782882161546596556289583216458658636674919096893127205009667759303057339251"
  by (rule pt_zmul_dbl [OF pt_26_4]) (simp_all only: hex_dbl)

lemma pt_26_16: "pt (zmul 16 (row_base 26))
    5271310448468760027556241606065118981650618947678734090383451681402688537496
    38322921322667682108538724210518522316510401542007702908860411594861215552289
    39468282198834463778524801479840999744700590752146487267361981086911527661152"
  by (rule pt_zmul_dbl [OF pt_26_8]) (simp_all only: hex_dbl)

lemma pt_26_32: "pt (zmul 32 (row_base 26))
    49943610039541093206875981236688209328479426280387528019284490530711483831624
    22141598509810852937354851269361079994039513123706616639082971256963153447234
    44022579299365371581288998112177665716309785449622732210733770316457329829799"
  by (rule pt_zmul_dbl [OF pt_26_16]) (simp_all only: hex_dbl)

lemma pt_26_64: "pt (zmul 64 (row_base 26))
    33196521229313941830249722482067475324360707345569650493452339927499268845388
    57620529990923425496822897524864886162747522913277226656932336939082540812362
    14478468093514577001522460650505858573448310389825605161919372108792630751672"
  by (rule pt_zmul_dbl [OF pt_26_32]) (simp_all only: hex_dbl)

lemma pt_26_128: "pt (zmul 128 (row_base 26))
    3328635754068009989813757321380006922150153942181725940627502310721359276000
    30633975421496655725188080288034459541252284555977590204375606926334249901953
    5751469805163719055592430925753910362722848919677858903558189916493158353842"
  by (rule pt_zmul_dbl [OF pt_26_64]) (simp_all only: hex_dbl)

lemma pt_26_256: "pt (zmul 256 (row_base 26))
    7443719846974079666748089904485291504428968724490373092275150647989319087692
    18820240084665614733582602265075526958985974540311071192454258305129583587362
    51927089703120089390827029690929960398159411892872994731820667504885558299135"
  by (rule pt_zmul_dbl [OF pt_26_128]) (simp_all only: hex_dbl)

lemma ge_base_row_26: "\<forall>m<8. precomp_is (zmul (int m + 1) (row_base 26)) (ge_base_26 ! m)"
  unfolding ge_base_26_def
  by (rule row_entries [OF
      ck_entry_precomp [where t = 44242535408942400044811899726948176979324682583551334935470385282389280844430, OF pt_26_1]
      ck_entry_precomp [where t = 55058017023051886977515417061814399863670353053712165884931273224783298318971, OF pt_26_2]
      ck_entry_precomp [where t = 26011437033971789840994312202038497473381188691810149464272867595480551561556, OF pt_26_3]
      ck_entry_precomp [where t = 44859543706953188004016231867177707468255155518402690474177173378492800538432, OF pt_26_4]
      ck_entry_precomp [where t = 23967220163629243331264287524375510820237068601381225865384421368890396502727, OF pt_26_5]
      ck_entry_precomp [where t = 39239084774500670421566109690156712270623476497133184862540184170008838018941, OF pt_26_6]
      ck_entry_precomp [where t = 49920835217155723637763863481759620939975030670870979663655495672598340136952, OF pt_26_7]
      ck_entry_precomp [where t = 17337405223969274738051270922586557854518333026131383461377122593619769189328, OF pt_26_8]])
    (simp_all only: hex_entry)

section \<open>Row 27\<close>

lemma pt_27_1: "pt (zmul 1 (row_base 27))
    7443719846974079666748089904485291504428968724490373092275150647989319087692
    18820240084665614733582602265075526958985974540311071192454258305129583587362
    51927089703120089390827029690929960398159411892872994731820667504885558299135"
  by (rule pt_row_Suc [OF pt_26_256]) simp

lemma pt_27_2: "pt (zmul 2 (row_base 27))
    28219671911848323914904753671285805609149653412232530035840302836498670222899
    24243187521602053364399249404394453944851707379755522787610621440283236931192
    51651609555056648992582366421136863805563130455066406645526471459425853146088"
  by (rule pt_zmul_dbl [OF pt_27_1]) (simp_all only: hex_dbl)

lemma pt_27_3: "pt (zmul 3 (row_base 27))
    13876616536180315252062934415541468416695999842035678090587833763672189568159
    49204648731726712861137082635255199757643959791036415487203817378523762991264
    13258715493420286938152671904577221353757151891103545134563416862271808934372"
  by (rule pt_zmul_add [OF pt_27_2 pt_27_1]) (simp_all only: hex_add)

lemma pt_27_4: "pt (zmul 4 (row_base 27))
    22555568212557064866549123416795664464742575236779214520260833312041161149073
    15429182496115485427702486987740166287248088253738720601278823588595062442038
    36393382297814492117996974463848881225624462840981505770714647589211345724374"
  by (rule pt_zmul_dbl [OF pt_27_2]) (simp_all only: hex_dbl)

lemma pt_27_5: "pt (zmul 5 (row_base 27))
    33905799299846950070222013096571373626917211039665183906850005617828568419702
    13863758498454719775193589483526047359797630222321450260444849995280139228796
    27724501848724237181100996762634437491534401682436181199862094797783916615946"
  by (rule pt_zmul_add [OF pt_27_4 pt_27_1]) (simp_all only: hex_add)

lemma pt_27_6: "pt (zmul 6 (row_base 27))
    13945280774007342484990530848827714487332555517410796055357734790096565811797
    52400114697821094889502833785615240477661738660352387539121179338446990252639
    45208987568069523015076900633721355870035632981284094394142224894259208544311"
  by (rule pt_zmul_dbl [OF pt_27_3]) (simp_all only: hex_dbl)

lemma pt_27_7: "pt (zmul 7 (row_base 27))
    26367808423375471355298989699198640321197978197778781662228453712633667194929
    30551608623224770765827459328595482656870175534843999483687175516101859392349
    45551306784946747714141235726641237436378490552351256679588278572620715447566"
  by (rule pt_zmul_add [OF pt_27_6 pt_27_1]) (simp_all only: hex_add)

lemma pt_27_8: "pt (zmul 8 (row_base 27))
    48465201835125509424074824076110166267881717002834000111922161141573805234110
    28720162598540223712866654973517910055504279124955858949566202107396512574256
    57307181711103484913978958344670838160397302590097390606583589617596574352203"
  by (rule pt_zmul_dbl [OF pt_27_4]) (simp_all only: hex_dbl)

lemma pt_27_16: "pt (zmul 16 (row_base 27))
    17155138369190359334006416480269544641767801292657570816851467463390508879157
    10677716440341152328856367122445213787758363208297061562948094669842407700807
    6441667969767514079238979234215651644011477894250249685984006135606543021195"
  by (rule pt_zmul_dbl [OF pt_27_8]) (simp_all only: hex_dbl)

lemma pt_27_32: "pt (zmul 32 (row_base 27))
    51351673373636391428746479467253849059137450672094236128227382652557641038124
    56040144155464555707113464745187811884759736467448172523777282885726278023285
    43767312352174798773614192352706049483361140439934948031009451284349750086966"
  by (rule pt_zmul_dbl [OF pt_27_16]) (simp_all only: hex_dbl)

lemma pt_27_64: "pt (zmul 64 (row_base 27))
    53760055897067400489665773195509833263050845969793673012618552403684336417767
    16610320088175688937118739009887493209383246425369877012257924127314641028782
    14686755876198801630145820114422228812889972456288368912160996886908933530328"
  by (rule pt_zmul_dbl [OF pt_27_32]) (simp_all only: hex_dbl)

lemma pt_27_128: "pt (zmul 128 (row_base 27))
    27608649448189701505561374337332403029512581159506899308878650418609239647941
    31641816612049524070661261539855825285184703523398187758179159823646441236948
    31524968597041956859897486050007122329756134802291268628123721527311368476728"
  by (rule pt_zmul_dbl [OF pt_27_64]) (simp_all only: hex_dbl)

lemma pt_27_256: "pt (zmul 256 (row_base 27))
    53304469795825273299854714085922658079948122322668647297293394441464881470527
    47685002571541626611705376599527786833846649618814369018069081206399572486957
    47247652363584691408596820277011469711095476638227716151186967762488710644228"
  by (rule pt_zmul_dbl [OF pt_27_128]) (simp_all only: hex_dbl)

lemma ge_base_row_27: "\<forall>m<8. precomp_is (zmul (int m + 1) (row_base 27)) (ge_base_27 ! m)"
  unfolding ge_base_27_def
  by (rule row_entries [OF
      ck_entry_precomp [where t = 14307597042713501646668046200743510395990706115675853732554150860048425275040, OF pt_27_1]
      ck_entry_precomp [where t = 14139051721628448372660963275129009512747902488156684964156544217533077757107, OF pt_27_2]
      ck_entry_precomp [where t = 55828544507638541219181551800551744769933680022052117146883043052455644533659, OF pt_27_3]
      ck_entry_precomp [where t = 26031978556643413278587240051852825700538155562951815672356494067716793586773, OF pt_27_4]
      ck_entry_precomp [where t = 36995921301985786439891494054066489952858323024716310029476019905971047821772, OF pt_27_5]
      ck_entry_precomp [where t = 43339543180942380796285331513221429336531977804338085104357998028373036433871, OF pt_27_6]
      ck_entry_precomp [where t = 21417255883148042304838985051358086699444153427917870866542304007921250703401, OF pt_27_7]
      ck_entry_precomp [where t = 9005621498793332890447087179406878680089447084408584212394265654645192344655, OF pt_27_8]])
    (simp_all only: hex_entry)

section \<open>Row 28\<close>

lemma pt_28_1: "pt (zmul 1 (row_base 28))
    53304469795825273299854714085922658079948122322668647297293394441464881470527
    47685002571541626611705376599527786833846649618814369018069081206399572486957
    47247652363584691408596820277011469711095476638227716151186967762488710644228"
  by (rule pt_row_Suc [OF pt_27_256]) simp

lemma pt_28_2: "pt (zmul 2 (row_base 28))
    49335455695109847646258506237776437624191255190322055555664492783643150757396
    6043709471781543356542662397172180212912657197599678519394549586025696509326
    22647078095078935588419817698139052215153319286150950538833928865994727336004"
  by (rule pt_zmul_dbl [OF pt_28_1]) (simp_all only: hex_dbl)

lemma pt_28_3: "pt (zmul 3 (row_base 28))
    56546437836186952717791372901541241647000180716160705650835168368896232849431
    49206596967405222725367763000751887956400255631520536387550598809321034807398
    25076428398177164968098960792105697671644588032273029437191647425112338921268"
  by (rule pt_zmul_add [OF pt_28_2 pt_28_1]) (simp_all only: hex_add)

lemma pt_28_4: "pt (zmul 4 (row_base 28))
    10292473728683899298769518133712229514364978943006840381772620088710283646356
    16232995973344971991076543188339090011424146332261920080126280100176095956790
    18871375051439474680426824153702851465431971811652007466699300552969132877864"
  by (rule pt_zmul_dbl [OF pt_28_2]) (simp_all only: hex_dbl)

lemma pt_28_5: "pt (zmul 5 (row_base 28))
    10466337542607393470198615694953823134210037061702965039179768857731061324021
    42198757666437456370839114650810564743511244225634498886851751128647742960618
    14832503386861478135682109857377779430538656604745982077047847480065169302494"
  by (rule pt_zmul_add [OF pt_28_4 pt_28_1]) (simp_all only: hex_add)

lemma pt_28_6: "pt (zmul 6 (row_base 28))
    31400180338798950554664784079488503332129750459432537561989523979552996948275
    39618914229157278897666052301497804384081657378119818313800643876971415873943
    2648165970395407789818262206110404468320277084873351910165771535925231814893"
  by (rule pt_zmul_dbl [OF pt_28_3]) (simp_all only: hex_dbl)

lemma pt_28_7: "pt (zmul 7 (row_base 28))
    15565290615196916499638284899261455146334461273890978200392185358194915221907
    32843833576030979192871475495412739874843729960808535979499898373782215872846
    46435728312859535366674171722952030119881240901973328722047467651863143007812"
  by (rule pt_zmul_add [OF pt_28_6 pt_28_1]) (simp_all only: hex_add)

lemma pt_28_8: "pt (zmul 8 (row_base 28))
    46542636374233588321296274916805689752925781691802685838494319614443447893538
    37680198816660712630720534333916497698396966988731367964888839919405670002820
    55319867700761482854448149533255381014457101214407430190199094302983764106133"
  by (rule pt_zmul_dbl [OF pt_28_4]) (simp_all only: hex_dbl)

lemma pt_28_16: "pt (zmul 16 (row_base 28))
    42325076515927651040298914234932319328284059328172947575825849578929982230570
    7506189132626467707386906487041504130293433834887253170743372147700421840746
    11746662992052972613286156295817649923095282227520298962771484086065424689287"
  by (rule pt_zmul_dbl [OF pt_28_8]) (simp_all only: hex_dbl)

lemma pt_28_32: "pt (zmul 32 (row_base 28))
    27154124536272927234749177907867679325227932018272859810851002835563686910883
    21998530783282445218036708920959790427168667723986204987927738276000765743914
    2640076058282066989706906596988804045554362654027709026376573680517659927466"
  by (rule pt_zmul_dbl [OF pt_28_16]) (simp_all only: hex_dbl)

lemma pt_28_64: "pt (zmul 64 (row_base 28))
    18022249884322496132170074528403534115797990185385762405600535577406879558578
    19280785440095214674058131166453244763616334119623032868274931819902898716320
    40598806439794029480022376201081030925278401301418068774763392173810995537752"
  by (rule pt_zmul_dbl [OF pt_28_32]) (simp_all only: hex_dbl)

lemma pt_28_128: "pt (zmul 128 (row_base 28))
    31871847105500275871397921958755873819092277626548542473063580591271100812184
    56782728861375183290724614156105625406297254819725485821455581178794943457780
    5770097259276330113459187573288978543530187315335048613960058762796367389827"
  by (rule pt_zmul_dbl [OF pt_28_64]) (simp_all only: hex_dbl)

lemma pt_28_256: "pt (zmul 256 (row_base 28))
    52950684007977523901779353208387991814777872260199194074012000906152749035015
    43559760554699348651880759040523650653531354814484772470659734117943798594773
    27049330572775041533432068825505239039963816317940535506022702151290148666415"
  by (rule pt_zmul_dbl [OF pt_28_128]) (simp_all only: hex_dbl)

lemma ge_base_row_28: "\<forall>m<8. precomp_is (zmul (int m + 1) (row_base 28)) (ge_base_28 ! m)"
  unfolding ge_base_28_def
  by (rule row_entries [OF
      ck_entry_precomp [where t = 20341081566195539391034753703812821369014739445374269939807889454181350372493, OF pt_28_1]
      ck_entry_precomp [where t = 43453249193817011410931373930160958229055904017451105169076984039841816309577, OF pt_28_2]
      ck_entry_precomp [where t = 9656559283712887062251995474149678453978663229249368870348243419334073416139, OF pt_28_3]
      ck_entry_precomp [where t = 23062064159388218856774016897897086266943964208355884298365728972166281758197, OF pt_28_4]
      ck_entry_precomp [where t = 55763618964994105656921826679221055314485961993690829734697770358144762681116, OF pt_28_5]
      ck_entry_precomp [where t = 1256310792025770782262986283530086682338457920542325408175071737854414873940, OF pt_28_6]
      ck_entry_precomp [where t = 13010173273238132530783398967999520288505334155348856316324403139089744962496, OF pt_28_7]
      ck_entry_precomp [where t = 2517947712778360957896628299203839345276370787967929860587532663552743205576, OF pt_28_8]])
    (simp_all only: hex_entry)

section \<open>Row 29\<close>

lemma pt_29_1: "pt (zmul 1 (row_base 29))
    52950684007977523901779353208387991814777872260199194074012000906152749035015
    43559760554699348651880759040523650653531354814484772470659734117943798594773
    27049330572775041533432068825505239039963816317940535506022702151290148666415"
  by (rule pt_row_Suc [OF pt_28_256]) simp

lemma pt_29_2: "pt (zmul 2 (row_base 29))
    46385652855500771636753260999836277747743406474930236011679867457017085007879
    55364093025069781998473502036475343928137913399732237121888294231795325016835
    43080019235192271044704688664225623620248662551896075136028667800902996657496"
  by (rule pt_zmul_dbl [OF pt_29_1]) (simp_all only: hex_dbl)

lemma pt_29_3: "pt (zmul 3 (row_base 29))
    9744069879110347498190102434476242384816607592825364300954739398771656315492
    44550143509806449494340271820076568443922443972739499968683831296412892927814
    54930065225990695888775982827011877599302319795322323066332975587447037500893"
  by (rule pt_zmul_add [OF pt_29_2 pt_29_1]) (simp_all only: hex_add)

lemma pt_29_4: "pt (zmul 4 (row_base 29))
    36428449043541116458066247112177091498600998149203217850480907211937250140943
    36543210237652193395623530047650568117985219229087354680478677640723853203595
    26125719043673408447946722554842580910799881352484915861538736212504399478291"
  by (rule pt_zmul_dbl [OF pt_29_2]) (simp_all only: hex_dbl)

lemma pt_29_5: "pt (zmul 5 (row_base 29))
    56707649843498128599552748243243782818141792924697422402448944338399101539830
    27269125809391980934759494163099375710748820940969851754374455991618236261696
    42578461346099663752189215090869618477024414115659379259699218822919082365942"
  by (rule pt_zmul_add [OF pt_29_4 pt_29_1]) (simp_all only: hex_add)

lemma pt_29_6: "pt (zmul 6 (row_base 29))
    42457772014670806036768479425138714616698491959249925312862244962750139230369
    53184134648037187457471299927016605032981421274314118577561600721597256673224
    29473280646023580354453717783115197888936028111409068183159845084515374141672"
  by (rule pt_zmul_dbl [OF pt_29_3]) (simp_all only: hex_dbl)

lemma pt_29_7: "pt (zmul 7 (row_base 29))
    27751158401656517462323329129539877383289712763405283113685107729413884773812
    50839946408498450211151488410397847752849744084501760082438748263843156558368
    54733537868128189133514278063082114317154490998681466439755335485655127166433"
  by (rule pt_zmul_add [OF pt_29_6 pt_29_1]) (simp_all only: hex_add)

lemma pt_29_8: "pt (zmul 8 (row_base 29))
    3338788681088490089496706800856581168564865192186593791861246044426154499010
    26426849265173531444151938502017026159660565627967432257550190620362096502448
    42256988968718436995342278459872412649336245264038301781693186965948181616405"
  by (rule pt_zmul_dbl [OF pt_29_4]) (simp_all only: hex_dbl)

lemma pt_29_16: "pt (zmul 16 (row_base 29))
    17002187804875921720304192466701158229705267117861257819695638400388686076966
    47324389027998325546431648061001491781246524303560821215242721294216395326206
    2400397453782408342436441500400808141949271153985413673262277849983910889265"
  by (rule pt_zmul_dbl [OF pt_29_8]) (simp_all only: hex_dbl)

lemma pt_29_32: "pt (zmul 32 (row_base 29))
    16548854152124491271698308270104353564016661601189986921257073523187955141925
    1158824557306950469098004232124593577743050445804659965063922149468212665445
    50737320501208248501906479480824562276296949466070850984879318872981630352858"
  by (rule pt_zmul_dbl [OF pt_29_16]) (simp_all only: hex_dbl)

lemma pt_29_64: "pt (zmul 64 (row_base 29))
    2412212813161792837133309851809793086149586158888041717660011275378501704125
    39898564843279879327893182619708313073007005584244547895676433526578881074013
    16181089697288971035300518288765293572588092771924136171646404803604543224422"
  by (rule pt_zmul_dbl [OF pt_29_32]) (simp_all only: hex_dbl)

lemma pt_29_128: "pt (zmul 128 (row_base 29))
    6297418815011565153558491920390814990122628554969454185062332121561120551959
    33009215285320020910422854434933968797698327064144614056402032867881452207213
    41883922197976815245754166625263878359727918277549086540078457790349703554729"
  by (rule pt_zmul_dbl [OF pt_29_64]) (simp_all only: hex_dbl)

lemma pt_29_256: "pt (zmul 256 (row_base 29))
    18426840258637972718670195488655680988537170743174575101534676457073619584903
    38527585858109498490175714924437073855189699226237652996406428558470468189180
    49192919210657974925942560458328182177623017430917591554969689234155051080676"
  by (rule pt_zmul_dbl [OF pt_29_128]) (simp_all only: hex_dbl)

lemma ge_base_row_29: "\<forall>m<8. precomp_is (zmul (int m + 1) (row_base 29)) (ge_base_29 ! m)"
  unfolding ge_base_29_def
  by (rule row_entries [OF
      ck_entry_precomp [where t = 46756611381111269285595117329783805397765013400277199111870658363298952756488, OF pt_29_1]
      ck_entry_precomp [where t = 12676897299130008230975415485725003164787046905247978996990238548386996666570, OF pt_29_2]
      ck_entry_precomp [where t = 24984413065766868326215800130473076784347895316446967958474063278842702355687, OF pt_29_3]
      ck_entry_precomp [where t = 44929224410478738818256187266510586835043997540055590037321792616337466033875, OF pt_29_4]
      ck_entry_precomp [where t = 47159646763591840255519415413727402799550151573416398846145168520961043146574, OF pt_29_5]
      ck_entry_precomp [where t = 12984045936171181153887267830011690080445551351201482982344119452591031472727, OF pt_29_6]
      ck_entry_precomp [where t = 27226658486646893447990404737174290799799498568727467513598775619976632562766, OF pt_29_7]
      ck_entry_precomp [where t = 17506451104136342892451918534064949224666607319505040764636402391005514268810, OF pt_29_8]])
    (simp_all only: hex_entry)

section \<open>Row 30\<close>

lemma pt_30_1: "pt (zmul 1 (row_base 30))
    18426840258637972718670195488655680988537170743174575101534676457073619584903
    38527585858109498490175714924437073855189699226237652996406428558470468189180
    49192919210657974925942560458328182177623017430917591554969689234155051080676"
  by (rule pt_row_Suc [OF pt_29_256]) simp

lemma pt_30_2: "pt (zmul 2 (row_base 30))
    6687503405520459644456484323979662585006247359499822807198278786053106819366
    28001418022695693931926419495778063831494905019695761058838216407163187565011
    9354073337922751354146120774298764868374270373372321156112087655033660064041"
  by (rule pt_zmul_dbl [OF pt_30_1]) (simp_all only: hex_dbl)

lemma pt_30_3: "pt (zmul 3 (row_base 30))
    11328500669821647295802526198507115790133333986771312659769831684997148204029
    40877989946789152260495651852036403295445939269827175327417418414058149274048
    32538674834394384287504857569134820071377500110098732361496102420609748981466"
  by (rule pt_zmul_add [OF pt_30_2 pt_30_1]) (simp_all only: hex_add)

lemma pt_30_4: "pt (zmul 4 (row_base 30))
    25894384773347189353760429139709265821823299352385748702971207827242963601893
    35338761534202014958694551669959368924781518118460059914713476833904461177038
    36813107083849184890312781224675222219385683033687294761574647040397577560033"
  by (rule pt_zmul_dbl [OF pt_30_2]) (simp_all only: hex_dbl)

lemma pt_30_5: "pt (zmul 5 (row_base 30))
    22084726119119111168333998559108245406089710656945934253118241303523130906887
    36591876414229103330895627243931869540059183079142514172982493756902599907769
    56115070112497356787964208620292969483000584311450673666490211381428210836113"
  by (rule pt_zmul_add [OF pt_30_4 pt_30_1]) (simp_all only: hex_add)

lemma pt_30_6: "pt (zmul 6 (row_base 30))
    11177200119308816248323748566679325485099878518079746649622512054782731387788
    34117262184317765979709356612561079005470563689016324233376419599473710573759
    52784872415327204616170712203113392355296120029896669370010374333789602628760"
  by (rule pt_zmul_dbl [OF pt_30_3]) (simp_all only: hex_dbl)

lemma pt_30_7: "pt (zmul 7 (row_base 30))
    49988485739376471760092520637750369749962838895106092796955980119556878631108
    24507289128744354404645095660690695805141892917013727275732585682955931230536
    18059418119769692798332062211330292281642060219789425924983283455872741741935"
  by (rule pt_zmul_add [OF pt_30_6 pt_30_1]) (simp_all only: hex_add)

lemma pt_30_8: "pt (zmul 8 (row_base 30))
    13965057334485654557519631244966956429368157253782516918853568135695248094185
    20924624872955149049223491465944811425899329735169397671855552630631338061304
    672288438331029722902303542201606842867113017487774371147933080931643437440"
  by (rule pt_zmul_dbl [OF pt_30_4]) (simp_all only: hex_dbl)

lemma pt_30_16: "pt (zmul 16 (row_base 30))
    40318084854896432497838617212393601390110345789501606463225148147119291643003
    27503331955131306839664085179093282365638126517858679041313254401675605642016
    36764916078428687052046044834401081261994820607941704398868625778847083287986"
  by (rule pt_zmul_dbl [OF pt_30_8]) (simp_all only: hex_dbl)

lemma pt_30_32: "pt (zmul 32 (row_base 30))
    34154780189500812416297672002800597523847747906621078471233781199647323187738
    9144038063479072042481831443200573268429989309329561475007795234649748547628
    35745209904913325972406654944369591248197957933407159777160854773203326661292"
  by (rule pt_zmul_dbl [OF pt_30_16]) (simp_all only: hex_dbl)

lemma pt_30_64: "pt (zmul 64 (row_base 30))
    11839377252169370173458082485821503161688071731673988644807436218313351417281
    29069456758134827294702768545306374262760185847646054083907829281116245110837
    5285368154404118527992854959105493924238150079175788482025026064393295807181"
  by (rule pt_zmul_dbl [OF pt_30_32]) (simp_all only: hex_dbl)

lemma pt_30_128: "pt (zmul 128 (row_base 30))
    16413100402534548574789275325187919332620685948991744534619801776946161276609
    26914327229360814349254992450749418391547764873949295145255805215324042208053
    34223699416879628282459034423412723406648225692915470869042408965219245120556"
  by (rule pt_zmul_dbl [OF pt_30_64]) (simp_all only: hex_dbl)

lemma pt_30_256: "pt (zmul 256 (row_base 30))
    39889996776461429953017745748202868941628445010936749699607514235758480168479
    46963357182225939507199438676569248839185976608832841466490839922106986386462
    56449159845156832713850161799398571731738147939289379270626210887147816372235"
  by (rule pt_zmul_dbl [OF pt_30_128]) (simp_all only: hex_dbl)

lemma ge_base_row_30: "\<forall>m<8. precomp_is (zmul (int m + 1) (row_base 30)) (ge_base_30 ! m)"
  unfolding ge_base_30_def
  by (rule row_entries [OF
      ck_entry_precomp [where t = 4025861974103212779405718742457830808754797054770773929931930887910769225338, OF pt_30_1]
      ck_entry_precomp [where t = 11593852546398889246681086118401984471575886704721475280978545593087679641162, OF pt_30_2]
      ck_entry_precomp [where t = 29461440705261793989499475881145339459901973887416494688513085396372631630772, OF pt_30_3]
      ck_entry_precomp [where t = 48490666376935677934953130718931602271117705438215088670071204751527945601418, OF pt_30_4]
      ck_entry_precomp [where t = 3928332327358997782712572425611681892994505021420433134554723527714159500585, OF pt_30_5]
      ck_entry_precomp [where t = 32584849120097026784998207596597014104040345101827618227698103193296908890986, OF pt_30_6]
      ck_entry_precomp [where t = 38155672227040185217136966072403314679474410517273189621103401178867080493251, OF pt_30_7]
      ck_entry_precomp [where t = 12692367452386756397255033756096370061093685937634446281512775549040931331897, OF pt_30_8]])
    (simp_all only: hex_entry)

section \<open>Row 31\<close>

lemma pt_31_1: "pt (zmul 1 (row_base 31))
    39889996776461429953017745748202868941628445010936749699607514235758480168479
    46963357182225939507199438676569248839185976608832841466490839922106986386462
    56449159845156832713850161799398571731738147939289379270626210887147816372235"
  by (rule pt_row_Suc [OF pt_30_256]) simp

lemma pt_31_2: "pt (zmul 2 (row_base 31))
    11566782627862055775429313600993990688467921633183155960530716761312189810219
    37430295727060303617524367747744652011782083356822721578098901730297238387561
    45534431982461101841937319876160014070997449792881885204530477877817643628528"
  by (rule pt_zmul_dbl [OF pt_31_1]) (simp_all only: hex_dbl)

lemma pt_31_3: "pt (zmul 3 (row_base 31))
    44866601048224592046794066870472516915443827796304152862320989703342331925903
    3860408401002346751992716079215654164143528242335818078794905799010983545880
    29035360957139537116264487051260555781559488967968080899178393387855759279092"
  by (rule pt_zmul_add [OF pt_31_2 pt_31_1]) (simp_all only: hex_add)

lemma pt_31_4: "pt (zmul 4 (row_base 31))
    3748876099198768087790678572316503350064730796356389551858545938907270449428
    4503449783293907748412604001874743213137248331311866541393166470749118979561
    56748446604653410529142252932481766033560892649818574580874258847577200107255"
  by (rule pt_zmul_dbl [OF pt_31_2]) (simp_all only: hex_dbl)

lemma pt_31_5: "pt (zmul 5 (row_base 31))
    13532453479860272658220548462024641080152611403697338325761433523410853315007
    33813627764053267874466388900523168099232179562658686769197843195543683399007
    43028060104063401330693342281627204397223033380146264439538834983737522094957"
  by (rule pt_zmul_add [OF pt_31_4 pt_31_1]) (simp_all only: hex_add)

lemma pt_31_6: "pt (zmul 6 (row_base 31))
    13586286546522582890257626111677695835213228611742416577339749204642899943923
    6631343233649813988777117093801178215546557728438157109357685872766146200989
    1848384348823464643739135398947431785242734988738817972451887958728420022721"
  by (rule pt_zmul_dbl [OF pt_31_3]) (simp_all only: hex_dbl)

lemma pt_31_7: "pt (zmul 7 (row_base 31))
    12989224986218314291053474156250775697928421871462185457454734172022407018819
    18186167798008435381469021887535930575400156129302388434781609156387257907062
    538945848420953187732499655896177281603047213041890627686000570370127480948"
  by (rule pt_zmul_add [OF pt_31_6 pt_31_1]) (simp_all only: hex_add)

lemma pt_31_8: "pt (zmul 8 (row_base 31))
    1750506308444799747800933775664982980357785786584986040908968665256412979431
    9761163806862067634610823247705647930479910055583866855164649084372695602453
    51038068892714026516888079640670590898767584339582049932201606041728640155721"
  by (rule pt_zmul_dbl [OF pt_31_4]) (simp_all only: hex_dbl)

lemma ge_base_row_31: "\<forall>m<8. precomp_is (zmul (int m + 1) (row_base 31)) (ge_base_31 ! m)"
  unfolding ge_base_31_def
  by (rule row_entries [OF
      ck_entry_precomp [where t = 14350563363428362668753403070446508344335420098325379940543138259171264070384, OF pt_31_1]
      ck_entry_precomp [where t = 17133998678245817752721391441789166306530241550798022778685672262047609009583, OF pt_31_2]
      ck_entry_precomp [where t = 38724541401710256678559740569471936530254576790913652461952847290597726107905, OF pt_31_3]
      ck_entry_precomp [where t = 33572536661375569004921805075754488383867189288021443687547939389622802656662, OF pt_31_4]
      ck_entry_precomp [where t = 40410227547729570449278558361013843123584963095392248155229714989912163861008, OF pt_31_5]
      ck_entry_precomp [where t = 51083371696377535553271074166070954184597606090113825130360340447734661982922, OF pt_31_6]
      ck_entry_precomp [where t = 17700524546259557417286094421919059490082690226425383612740643000279213921603, OF pt_31_7]
      ck_entry_precomp [where t = 7207970404132647572436087950850948594268869132304907179953143858948358029926, OF pt_31_8]])
    (simp_all only: hex_entry)

end
