(* ===== verification/Scalarmult.thy ===== *)
theory Scalarmult
  imports Ge
begin

text \<open>
  The scalar multiplications of \<open>crypto-ops.c\<close> with the two recodings of the scalar: signed
  radix 16 for the constant-time ones and sliding windows for the variable-time ones, and the
  two decoders of points.
\<close>

section \<open>Signed radix-16 digits\<close>

text \<open>
  The digit array \<open>e\<close> is filled from index 0 upwards, so it is a list that grows.  The loop of
  \<open>ge_scalarmult\<close> runs over the first 31 bytes with an \<open>int\<close> carry.
\<close>

definition ge_scalarmult_digit :: "u8 \<Rightarrow> i32 \<times> i8 list \<Rightarrow> i32 \<times> i8 list" where
  "ge_scalarmult_digit ai s =
     (let (carry, e) = s;
          carry = carry + ucast ai;
          carry2 = signed_drop_bit 4 (carry + 8);
          e0 = scast (carry - push_bit 4 carry2);
          carry = signed_drop_bit 4 (carry2 + 8);
          e1 = scast (carry2 - push_bit 4 carry)
      in (carry, e @ [e0, e1]))"

definition ge_scalarmult_digits :: "bytes \<Rightarrow> i8 list" where
  "ge_scalarmult_digits a =
     (let (carry, e) = fold ge_scalarmult_digit (take 31 a) (0, []);
          carry = carry + ucast (a ! 31);
          carry2 = signed_drop_bit 4 (carry + 8)
      in e @ [scast (carry - push_bit 4 carry2), scast carry2])"

text \<open>In \<open>ge_scalarmult_base\<close> the nibbles come first and the carry is a signed char.\<close>

definition ge_base_nibbles :: "bytes \<Rightarrow> i8 list" where
  "ge_base_nibbles a = concat (map (\<lambda>ai. [drop_bit 0 ai AND 15, drop_bit 4 ai AND 15]) a)"

fun ge_base_carries :: "i8 \<Rightarrow> i8 list \<Rightarrow> i8 list" where
  "ge_base_carries carry [] = []"
| "ge_base_carries carry [e] = [e + carry]"
| "ge_base_carries carry (e # e' # es) =
     (let e = e + carry;
          carry = e + 8;
          carry = signed_drop_bit 4 carry;
          e = e - push_bit 4 carry
      in e # ge_base_carries carry (e' # es))"

section \<open>Constant-time multiplication\<close>

text \<open>The table of \<open>ge_scalarmult\<close>: \<open>Ai[i + 1] = A + Ai[i]\<close>, eight entries.\<close>

fun ge_scalarmult_table :: "nat \<Rightarrow> ge_p3 \<Rightarrow> ge_cached \<Rightarrow> ge_cached list" where
  "ge_scalarmult_table 0 A Ai = [Ai]"
| "ge_scalarmult_table (Suc n) A Ai =
     (let t = ge_add A Ai;
          u = ge_p1p1_to_p3 t
      in Ai # ge_scalarmult_table n A (ge_p3_to_cached u))"

definition ge_scalarmult_step :: "ge_cached list \<Rightarrow> i8 \<Rightarrow> ge_p2 \<Rightarrow> ge_p2 option" where
  "ge_scalarmult_step Ai b r =
     (let t = ge_p2_dbl r; r = ge_p1p1_to_p2 t;
          t = ge_p2_dbl r; r = ge_p1p1_to_p2 t;
          t = ge_p2_dbl r; r = ge_p1p1_to_p2 t;
          t = ge_p2_dbl r; u = ge_p1p1_to_p3 t
      in do { cur \<leftarrow> select_cached Ai b;
              let t = ge_add u cur;
              Some (ge_p1p1_to_p2 t) })"

definition ge_scalarmult :: "bytes \<Rightarrow> ge_p3 \<Rightarrow> ge_p2 option" where
  "ge_scalarmult a A =
     (let e = ge_scalarmult_digits a;
          Ai = ge_scalarmult_table 7 A (ge_p3_to_cached A)
      in opt_fold (\<lambda>i. ge_scalarmult_step Ai (e ! i)) (rev [0..<64]) ge_p2_0)"

definition ge_scalarmult_base_add :: "i8 list \<Rightarrow> nat \<Rightarrow> ge_p3 \<Rightarrow> ge_p3 option" where
  "ge_scalarmult_base_add e i h =
     do { t \<leftarrow> select (i div 2) (e ! i);
          let r = ge_madd h t;
          Some (ge_p1p1_to_p3 r) }"

definition ge_scalarmult_base :: "bytes \<Rightarrow> ge_p3 option" where
  "ge_scalarmult_base a =
     (let e = ge_base_carries 0 (ge_base_nibbles a)
      in do { h \<leftarrow> opt_fold (ge_scalarmult_base_add e) (map (\<lambda>i. 2 * i + 1) [0..<32]) ge_p3_0;
              let r = ge_p3_dbl h; let s = ge_p1p1_to_p2 r;
              let r = ge_p2_dbl s; let s = ge_p1p1_to_p2 r;
              let r = ge_p2_dbl s; let s = ge_p1p1_to_p2 r;
              let r = ge_p2_dbl s; let h = ge_p1p1_to_p3 r;
              opt_fold (ge_scalarmult_base_add e) (map (\<lambda>i. 2 * i) [0..<32]) h })"

section \<open>Sliding windows\<close>

text \<open>The innermost loop of \<open>slide\<close> adds 1 at position \<open>k\<close>; a carry past the end is lost.\<close>

function slide_carry :: "nat \<Rightarrow> i8 list \<Rightarrow> i8 list" where
  "slide_carry k r =
     (if k < 256
      then if r ! k = 0 then r[k := 1] else slide_carry (k + 1) (r[k := 0])
      else r)"
  by auto

termination
  by (relation "measure (\<lambda>(k, r). 256 - k)") auto

function slide_window :: "nat \<Rightarrow> nat \<Rightarrow> i8 list \<Rightarrow> i8 list" where
  "slide_window i b r =
     (if b \<le> 6 \<and> i + b < 256
      then if r ! (i + b) \<noteq> 0
           then let x = (scast (r ! i) :: i32); y = push_bit b (scast (r ! (i + b)))
                in if sint (x + y) \<le> 15
                   then slide_window i (b + 1) (r[i := scast (x + y), i + b := 0])
                   else if sint (x - y) \<ge> - 15
                   then slide_window i (b + 1) (slide_carry (i + b) (r[i := scast (x - y)]))
                   else r
           else slide_window i (b + 1) r
      else r)"
  by pat_completeness auto

termination
  by (relation "measure (\<lambda>(i, b, r). 7 - b)") auto

definition slide_bits :: "bytes \<Rightarrow> i8 list" where
  "slide_bits a = map (\<lambda>i. 1 AND drop_bit (i mod 8) (a ! (i div 8))) [0..<256]"

definition slide :: "bytes \<Rightarrow> i8 list" where
  "slide a = fold (\<lambda>i r. if r ! i \<noteq> 0 then slide_window i 1 r else r) [0..<256] (slide_bits a)"

declare slide_carry.simps [simp del] slide_window.simps [simp del]

section \<open>Variable-time double multiplication\<close>

text \<open>
  Both loops over \<open>i\<close> run downwards from the highest position where a digit is not zero.  The
  table index is \<open>digit / 2\<close> or \<open>(- digit) / 2\<close>.
\<close>

definition dsm_start :: "i8 list \<Rightarrow> i8 list \<Rightarrow> nat list" where
  "dsm_start aslide bslide = dropWhile (\<lambda>i. aslide ! i = 0 \<and> bslide ! i = 0) (rev [0..<256])"

definition dsm_cached :: "ge_cached list \<Rightarrow> i8 \<Rightarrow> ge_p1p1 \<Rightarrow> ge_p1p1" where
  "dsm_cached Ai d t =
     (if 0 < sint d then ge_add (ge_p1p1_to_p3 t) (Ai ! nat (sint d div 2))
      else if sint d < 0 then ge_sub (ge_p1p1_to_p3 t) (Ai ! nat ((- sint d) div 2))
      else t)"

definition dsm_precomp :: "ge_precomp list \<Rightarrow> i8 \<Rightarrow> ge_p1p1 \<Rightarrow> ge_p1p1" where
  "dsm_precomp Bi d t =
     (if 0 < sint d then ge_madd (ge_p1p1_to_p3 t) (Bi ! nat (sint d div 2))
      else if sint d < 0 then ge_msub (ge_p1p1_to_p3 t) (Bi ! nat ((- sint d) div 2))
      else t)"

definition ge_double_scalarmult_base_vartime :: "bytes \<Rightarrow> ge_p3 \<Rightarrow> bytes \<Rightarrow> ge_p2" where
  "ge_double_scalarmult_base_vartime a A b =
     (let aslide = slide a;
          bslide = slide b;
          Ai = ge_dsm_precomp A
      in fold (\<lambda>i r.
           let t = ge_p2_dbl r;
               t = dsm_cached Ai (aslide ! i) t;
               t = dsm_precomp ge_Bi (bslide ! i) t
           in ge_p1p1_to_p2 t)
         (dsm_start aslide bslide) ge_p2_0)"

definition ge_double_scalarmult_precomp_vartime ::
    "bytes \<Rightarrow> ge_p3 \<Rightarrow> bytes \<Rightarrow> ge_cached list \<Rightarrow> ge_p2" where
  "ge_double_scalarmult_precomp_vartime a A b Bi =
     (let aslide = slide a;
          bslide = slide b;
          Ai = ge_dsm_precomp A
      in fold (\<lambda>i r.
           let t = ge_p2_dbl r;
               t = dsm_cached Ai (aslide ! i) t;
               t = dsm_cached Bi (bslide ! i) t
           in ge_p1p1_to_p2 t)
         (dsm_start aslide bslide) ge_p2_0)"

section \<open>Decoding points\<close>

text \<open>\<open>None\<close> is the return value -1: the 32 bytes are no point in canonical encoding.\<close>

definition ge_frombytes_vartime :: "bytes \<Rightarrow> ge_p3 option" where
  "ge_frombytes_vartime s =
     (let h = fe_frombytes_h s
      in if fe_noncanonical h then None
      else let hY = fe_frombytes h;
               hZ = fe_1;
               u = fe_sq hY;
               v = fe_mul u fe_d;
               u = fe_sub u hZ;
               v = fe_add v hZ;
               hX = fe_divpowm1 u v;
               vxx = fe_sq hX;
               vxx = fe_mul vxx v;
               check = fe_sub vxx u
      in do { hX \<leftarrow> (if fe_isnonzero check \<noteq> 0
                then let check = fe_add vxx u
                     in if fe_isnonzero check \<noteq> 0 then None else Some (fe_mul hX fe_sqrtm1)
                else Some hX);
              hX \<leftarrow> (if fe_isnegative hX \<noteq> drop_bit 7 (ucast (s ! 31))
                then if fe_isnonzero hX = 0 then None else Some (fe_neg hX)
                else Some hX);
              Some \<lparr>p3_X = hX, p3_Y = hY, p3_Z = hZ, p3_T = fe_mul hX hY\<rparr> })"

text \<open>
  The map from 32 bytes to a point.  \<open>None\<close> is a failed assertion; the last block is the one
  that is compiled when \<open>NDEBUG\<close> is not defined.
\<close>

definition ge_fromfe_check :: "fe \<Rightarrow> fe \<Rightarrow> fe \<Rightarrow> bool" where
  "ge_fromfe_check rX rY rZ =
     (let check_iz = fe_invert rZ;
          check_x = fe_mul rX check_iz;
          check_y = fe_mul rY check_iz;
          check_x = fe_sq check_x;
          check_y = fe_sq check_y;
          check_v = fe_mul check_x check_y;
          check_v = fe_mul fe_d check_v;
          check_v = fe_add check_v check_x;
          check_v = fe_sub check_v check_y;
          check_x = fe_1;
          check_v = fe_add check_v check_x
      in fe_isnonzero check_v = 0)"

definition ge_fromfe_frombytes_vartime :: "bytes \<Rightarrow> ge_p2 option" where
  "ge_fromfe_frombytes_vartime s =
     (let u = fe_frombytes (fe_fromfe_h s);
          v = fe_sq2 u;
          w = fe_1;
          w = fe_add v w;
          x = fe_sq w;
          y = fe_mul fe_ma2 v;
          x = fe_add x y;
          rX = fe_divpowm1 w x;
          y = fe_sq rX;
          x = fe_mul y x;
          y = fe_sub w x;
          z = fe_copy fe_ma
      in do { (rX, z, sign) \<leftarrow>
                (if fe_isnonzero y \<noteq> 0 \<and> fe_isnonzero (fe_add w x) \<noteq> 0
                 then let x = fe_mul x fe_sqrtm1;
                          y = fe_sub w x
                      in if fe_isnonzero y \<noteq> 0
                         then if fe_isnonzero (fe_add w x) \<noteq> 0 then None
                              else Some (fe_mul rX fe_fffb3, z, 1)
                         else Some (fe_mul rX fe_fffb4, z, 1)
                 else let rX = (if fe_isnonzero y \<noteq> 0 then fe_mul rX fe_fffb1 else fe_mul rX fe_fffb2)
                      in Some (fe_mul rX u, fe_mul z v, 0));
              rX \<leftarrow> (if fe_isnegative rX \<noteq> sign
                then if fe_isnonzero rX = 0 then None else Some (fe_neg rX)
                else Some rX);
              let rZ = fe_add z w;
              let rY = fe_sub z w;
              let rX = fe_mul rX rZ;
              if ge_fromfe_check rX rY rZ then Some \<lparr>p2_X = rX, p2_Y = rY, p2_Z = rZ\<rparr> else None })"

end
