(* ===== verification/Recode.thy ===== *)
theory Recode
  imports Scalarmult
begin

text \<open>
  The recodings of the scalar: the signed radix-16 digits of the constant-time multiplications
  and the sliding windows of the variable-time ones have the value of the scalar, their digits
  are in the range of the tables, and no carry is lost for scalars below \<open>2 ^ 255\<close>.
\<close>

section \<open>Values of digit lists\<close>

definition digits_val :: "int \<Rightarrow> i8 list \<Rightarrow> int" where
  "digits_val b e = horner_sum sint b e"

lemma digits_val_simps [simp]:
  "digits_val b [] = 0" "digits_val b (d # e) = sint d + b * digits_val b e"
  by (simp_all add: digits_val_def)

lemma digits_val_append: "digits_val b (e @ f) = digits_val b e + b ^ length e * digits_val b f"
  by (induction e) (simp_all add: algebra_simps)

lemma sint_ucast_byte: "sint (ucast (x :: u8) :: i32) = uint x"
  using sint_of_int_exact [of "uint x", where 'a = 32] uint_lt2p [of x] uint_ge_0 [of x]
  by (simp add: in_range_def del: uint_ge_0)

lemma byte_range: "0 \<le> uint (x :: u8)" "uint (x :: u8) \<le> 255"
  using uint_lt2p [of x] by simp_all

lemma le_val_snoc: "le_val (a @ [x]) = le_val a + 256 ^ length a * uint x"
  by (induction a) (simp_all add: algebra_simps)

section \<open>The digits of ge_scalarmult\<close>

text \<open>One digit: the rounded quotient by 16 and the remainder between -8 and 7.\<close>

lemma signed_nibble:
  fixes c :: i32
  assumes "0 \<le> sint c" and "sint c \<le> 300"
  defines "c2 \<equiv> signed_drop_bit 4 (c + 8)"
  shows "sint c2 = (sint c + 8) div 16"
    and "sint (scast (c - push_bit 4 c2) :: i8) = sint c - 16 * sint c2"
    and "- 8 \<le> sint c - 16 * sint c2" and "sint c - 16 * sint c2 \<le> 7"
proof -
  show c2: "sint c2 = (sint c + 8) div 16"
    using sint_add_exact [of c 8] assms(1,2) by (simp add: in_range_def c2_def)
  show r: "- 8 \<le> sint c - 16 * sint c2" "sint c - 16 * sint c2 \<le> 7"
    unfolding c2 by linarith+
  have "0 \<le> sint c2" "sint c2 \<le> 20" unfolding c2 using assms(1,2) by linarith+
  then have "sint (push_bit 4 c2) = 16 * sint c2"
    using sint_push_exact [of c2 4] by (simp add: in_range_def)
  then have "sint (c - push_bit 4 c2) = sint c - 16 * sint c2"
    using sint_sub_exact [of c "push_bit 4 c2"] r by (simp add: in_range_def)
  then show "sint (scast (c - push_bit 4 c2) :: i8) = sint c - 16 * sint c2"
    using sint_scast_exact [of "c - push_bit 4 c2", where 'b = 8] r by (simp add: in_range_def)
qed

lemma sint_add_byte:
  assumes "0 \<le> sint c" and "sint c \<le> 1"
  shows "sint (c + ucast (x :: u8) :: i32) = sint c + uint x"
proof -
  have "0 \<le> sint c + uint x" "sint c + uint x \<le> 256" using assms byte_range [of x] by linarith+
  then have "in_range 32 (sint c + uint x)" by (simp add: in_range_def)
  then show ?thesis using sint_add_exact [of c "ucast x"] by (simp add: sint_ucast_byte)
qed

lemma ge_scalarmult_digit_step:
  assumes "0 \<le> sint c" and "sint c \<le> 1"
    and "ge_scalarmult_digit x (c, e) = (c', e')"
  shows "0 \<le> sint c' \<and> sint c' \<le> 1 \<and> (\<exists>d0 d1. e' = e @ [d0, d1] \<and> \<bar>sint d0\<bar> \<le> 8
    \<and> \<bar>sint d1\<bar> \<le> 8 \<and> sint c + uint x = sint d0 + 16 * sint d1 + 256 * sint c')"
proof -
  let ?c1 = "c + ucast x" 
  let ?c2 = "signed_drop_bit 4 (?c1 + 8)"
  let ?c3 = "signed_drop_bit 4 (?c2 + 8)"
  have c1: "sint ?c1 = sint c + uint x" by (rule sint_add_byte [OF assms(1,2)])
  have r1: "0 \<le> sint ?c1" "sint ?c1 \<le> 300" unfolding c1 using assms(1,2) byte_range [of x] by linarith+
  note n1 = signed_nibble [OF r1]
  have r2: "0 \<le> sint ?c2" "sint ?c2 \<le> 16" "sint ?c2 \<le> 300"
    using n1(1) r1 assms(1,2) byte_range [of x] c1 by linarith+
  note n2 = signed_nibble [OF r2(1,3)]
  have r3: "0 \<le> sint ?c3" "sint ?c3 \<le> 1" using n2(1) r2 by linarith+
  have "c' = ?c3" "e' = e @ [scast (?c1 - push_bit 4 ?c2), scast (?c2 - push_bit 4 ?c3)]"
    using assms(3) by (auto simp: ge_scalarmult_digit_def Let_def)
  moreover have "\<bar>sint (scast (?c1 - push_bit 4 ?c2) :: i8)\<bar> \<le> 8" "\<bar>sint (scast (?c2 - push_bit 4 ?c3) :: i8)\<bar> \<le> 8"
    unfolding n1(2) n2(2) using n1(3,4) n2(3,4) by linarith+
  moreover have "sint c + uint x = sint (scast (?c1 - push_bit 4 ?c2) :: i8)
      + 16 * sint (scast (?c2 - push_bit 4 ?c3) :: i8) + 256 * sint ?c3"
    unfolding n1(2) n2(2) c1 by algebra
  ultimately show ?thesis using r3 by blast
qed

lemma ge_scalarmult_digit_fold:
  assumes "fold ge_scalarmult_digit a (0, []) = (c, e)"
  shows "0 \<le> sint c \<and> sint c \<le> 1 \<and> length e = 2 * length a \<and> (\<forall>d\<in>set e. \<bar>sint d\<bar> \<le> 8)
    \<and> le_val a = digits_val 16 e + 256 ^ length a * sint c"
  using assms
proof (induction a arbitrary: c e rule: rev_induct)
  case (snoc x a)
  obtain c0 e0 where f: "fold ge_scalarmult_digit a (0, []) = (c0, e0)" by fastforce
  note IH = snoc.IH [OF f]
  have s: "ge_scalarmult_digit x (c0, e0) = (c, e)" using snoc.prems f by simp
  from ge_scalarmult_digit_step [OF _ _ s] IH obtain d0 d1 where d: "0 \<le> sint c" "sint c \<le> 1"
    "e = e0 @ [d0, d1]" "\<bar>sint d0\<bar> \<le> 8" "\<bar>sint d1\<bar> \<le> 8" "sint c0 + uint x = sint d0 + 16 * sint d1 + 256 * sint c"
    by auto
  note l = le_val_snoc [of a x]
  have "(16 :: int) ^ (2 * length a) = 256 ^ length a" by (simp add: power_mult)
  moreover have "256 ^ length a * (sint c0 + uint x) = 256 ^ length a * (sint d0 + 16 * sint d1 + 256 * sint c)"
    using d(6) by simp
  ultimately have "le_val (a @ [x]) = digits_val 16 e + 256 ^ length (a @ [x]) * sint c"
    using IH by (simp add: l d(3) digits_val_append algebra_simps)
  then show ?case using d IH by auto
qed simp

lemma ge_scalarmult_digits_correct:
  assumes "length a = 32" and "a ! 31 \<le> 127"
  shows "length (ge_scalarmult_digits a) = 64" and "\<forall>d\<in>set (ge_scalarmult_digits a). \<bar>sint d\<bar> \<le> 8"
    and "digits_val 16 (ge_scalarmult_digits a) = le_val a"
proof -
  obtain c e where f: "fold ge_scalarmult_digit (take 31 a) (0, []) = (c, e)" by fastforce
  have F: "0 \<le> sint c" "sint c \<le> 1" "length e = 62" "\<forall>d\<in>set e. \<bar>sint d\<bar> \<le> 8"
    "le_val (take 31 a) = digits_val 16 e + 256 ^ 31 * sint c"
    using ge_scalarmult_digit_fold [OF f] assms(1) by simp_all
  let ?x = "a ! 31"
  let ?c1 = "c + ucast ?x" 
  let ?c2 = "signed_drop_bit 4 (?c1 + 8)"
  have x: "uint ?x \<le> 127" using assms(2) by (simp add: word_le_def)
  have c1: "sint ?c1 = sint c + uint ?x" by (rule sint_add_byte [OF F(1,2)])
  have r1: "0 \<le> sint ?c1" "sint ?c1 \<le> 300" "sint ?c1 \<le> 128"
    unfolding c1 using F(1,2) x byte_range [of ?x] by linarith+
  note n = signed_nibble [OF r1(1,2)]
  have r2: "0 \<le> sint ?c2" "sint ?c2 \<le> 8" using n(1) r1 by linarith+
  have d1: "sint (scast ?c2 :: i8) = sint ?c2"
    using r2 by (subst sint_scast_exact) (simp_all add: in_range_def)
  have g: "ge_scalarmult_digits a = e @ [scast (?c1 - push_bit 4 ?c2), scast ?c2]"
    unfolding ge_scalarmult_digits_def f by (simp add: Let_def)
  show "length (ge_scalarmult_digits a) = 64" by (simp add: g F(3))
  show "\<forall>d\<in>set (ge_scalarmult_digits a). \<bar>sint d\<bar> \<le> 8" 
  proof -
    have "\<bar>sint (scast (?c1 - push_bit 4 ?c2) :: i8)\<bar> \<le> 8" "\<bar>sint (scast ?c2 :: i8)\<bar> \<le> 8"
      unfolding n(2) d1 using n(3,4) r2 by linarith+
    then show ?thesis using F(4) unfolding g by (simp only: set_append ball_Un list.set ball_simps simp_thms)
  qed
  have "a = take 31 a @ [?x]" using assms(1) take_Suc_conv_app_nth [of 31 a] by simp
  then have "le_val a = le_val (take 31 a @ [?x])" by simp
  also have "\<dots> = digits_val 16 e + 256 ^ 31 * sint ?c1"
    by (simp add: le_val_snoc assms(1) F(5) c1 distrib_left)
  also have "\<dots> = digits_val 16 e + 16 ^ 62 * ((sint ?c1 - 16 * sint ?c2) + 16 * sint ?c2)" by simp
  finally show "digits_val 16 (ge_scalarmult_digits a) = le_val a"
    unfolding g digits_val_append F(3) digits_val_simps n(2) d1 by simp
qed

section \<open>The digits of ge_scalarmult_base\<close>

lemma low_nibble:
  fixes x :: u8
  shows "sint (drop_bit 0 x AND 15) = uint x mod 16"
    and "sint (drop_bit 4 x AND 15) = uint x div 16"
proof -
  have m: "(15 :: u8) = mask 4" by (simp add: mask_eq_exp_minus_1)
  have r: "0 \<le> uint x" "uint x < 256" using byte_range [of x] by simp_all
  have l: "uint (drop_bit 0 x AND 15) = uint x mod 16" 
    unfolding m take_bit_eq_mask [symmetric] by (simp add: unsigned_take_bit_eq) (simp add: take_bit_eq_mod)
  have q: "uint x div 16 mod 16 = uint x div 16" using r by (intro mod_pos_pos_trivial) linarith+
  have h: "uint (drop_bit 4 x AND 15) = uint x div 16"
    unfolding m take_bit_eq_mask [symmetric]
    by (simp add: unsigned_take_bit_eq unsigned_drop_bit_eq)
      (use q in \<open>simp add: take_bit_eq_mod drop_bit_eq_div\<close>)
  have s: "sint y = uint y" if "uint y < 128" for y :: u8
    using that sint_of_int_exact [of "uint y", where 'a = 8] order_trans [OF _ uint_ge_0 [of y], of "- 128"]
    by (simp add: in_range_def)
  show "sint (drop_bit 0 x AND 15) = uint x mod 16" "sint (drop_bit 4 x AND 15) = uint x div 16"
    using s [of "drop_bit 0 x AND 15"] s [of "drop_bit 4 x AND 15"] l h r by simp_all
qed

lemma ge_base_nibbles_val: "digits_val 16 (ge_base_nibbles a) = le_val a"
proof (induction a)
  case (Cons x a)
  have "ge_base_nibbles (x # a) = [drop_bit 0 x AND 15, drop_bit 4 x AND 15] @ ge_base_nibbles a"
    by (simp add: ge_base_nibbles_def)
  then have "digits_val 16 (ge_base_nibbles (x # a)) = uint x mod 16 + 16 * (uint x div 16 + 16 * le_val a)"
    by (simp only: append_Cons append_Nil digits_val_simps low_nibble Cons)
  also have "\<dots> = le_val (x # a)" by simp
  finally show ?case .
qed (simp add: ge_base_nibbles_def)

lemma length_ge_base_nibbles: "length (ge_base_nibbles a) = 2 * length a"
  by (induction a) (simp_all add: ge_base_nibbles_def)

lemma ge_base_nibbles_range:
  assumes "a \<noteq> []" and "last a \<le> 127"
  shows "(\<forall>d\<in>set (butlast (ge_base_nibbles a)). 0 \<le> sint d \<and> sint d \<le> 15)
    \<and> 0 \<le> sint (last (ge_base_nibbles a)) \<and> sint (last (ge_base_nibbles a)) \<le> 7 \<and> ge_base_nibbles a \<noteq> []"
  using assms
proof (induction a)
  case (Cons x a)
  let ?l = "drop_bit 0 x AND 15" and ?h = "drop_bit 4 x AND 15"
  have r: "0 \<le> sint ?l" "sint ?l \<le> 15" "0 \<le> sint ?h" "sint ?h \<le> 15"
    unfolding low_nibble using byte_range [of x] by linarith+
  have g: "ge_base_nibbles (x # a) = ?l # ?h # ge_base_nibbles a"
    by (simp add: ge_base_nibbles_def)
  show ?case
  proof (cases "a = []")
    case True
    then have "uint x \<le> 127" using Cons.prems by (simp add: word_le_def)
    then have "sint ?h \<le> 7" unfolding low_nibble by linarith
    then show ?thesis using True r unfolding g by (simp add: ge_base_nibbles_def)
  next
    case False
    then show ?thesis using Cons r unfolding g by (auto simp del: drop_bit_0)
  qed
qed simp

lemma ge_base_carries_correct:
  assumes "0 \<le> sint c" and "sint c \<le> 1" and "e \<noteq> []"
    and "\<forall>d\<in>set (butlast e). 0 \<le> sint d \<and> sint d \<le> 15" and "0 \<le> sint (last e)" and "sint (last e) \<le> 7"
  shows "digits_val 16 (ge_base_carries c e) = digits_val 16 e + sint c
    \<and> (\<forall>d\<in>set (ge_base_carries c e). \<bar>sint d\<bar> \<le> 8) \<and> length (ge_base_carries c e) = length e"
  using assms
proof (induction c e rule: ge_base_carries.induct)
  case (2 c e)
  then have "sint (e + c) = sint e + sint c"
    using sint_add_exact [of e c] by (simp add: in_range_def)
  then show ?case using "2.prems" by simp
next
  case (3 c e e' es)
  let ?e = "e + c"
  let ?c = "signed_drop_bit 4 (?e + 8)"
  have r: "0 \<le> sint e" "sint e \<le> 15" using "3.prems"(4) by simp_all
  have e: "sint ?e = sint e + sint c"
    using sint_add_exact [of e c] r "3.prems"(1,2) by (simp add: in_range_def)
  have c: "sint ?c = (sint e + sint c + 8) div 16"
    using sint_add_exact [of ?e 8] r "3.prems"(1,2) e by (simp add: in_range_def)
  have rc: "0 \<le> sint ?c" "sint ?c \<le> 1" unfolding c using r "3.prems"(1,2) by linarith+
  have d: "- 8 \<le> sint e + sint c - 16 * sint ?c" "sint e + sint c - 16 * sint ?c \<le> 7"
    unfolding c by linarith+
  have "sint (push_bit 4 ?c) = 16 * sint ?c"
    using sint_push_exact [of ?c 4] rc by (simp add: in_range_def)
  then have s: "sint (?e - push_bit 4 ?c) = sint e + sint c - 16 * sint ?c"
    using sint_sub_exact [of ?e "push_bit 4 ?c"] d e by (simp add: in_range_def)
  have g: "ge_base_carries c (e # e' # es) = (?e - push_bit 4 ?c) # ge_base_carries ?c (e' # es)"
    by (simp add: Let_def)
  have IH: "digits_val 16 (ge_base_carries ?c (e' # es)) = digits_val 16 (e' # es) + sint ?c"
    "\<forall>d\<in>set (ge_base_carries ?c (e' # es)). \<bar>sint d\<bar> \<le> 8" "length (ge_base_carries ?c (e' # es)) = length (e' # es)"
    using "3.IH" [OF refl refl refl refl rc] "3.prems" by auto
  have v: "digits_val 16 (ge_base_carries c (e # e' # es)) = digits_val 16 (e # e' # es) + sint c"
    unfolding g digits_val_simps(2) [of _ "?e - push_bit 4 ?c"] IH(1) s digits_val_simps(2) [of _ e]
    by (simp only: distrib_left)
  have "\<bar>sint (?e - push_bit 4 ?c)\<bar> \<le> 8" unfolding s using d by linarith
  then have b: "\<forall>d\<in>set (ge_base_carries c (e # e' # es)). \<bar>sint d\<bar> \<le> 8"
    unfolding g using IH(2) by (simp only: list.set ball_simps simp_thms)
  have "length (ge_base_carries c (e # e' # es)) = length (e # e' # es)" unfolding g using IH(3) by simp
  with v b show ?case by blast
qed simp

lemma ge_base_digits_correct:
  assumes "length a = 32" and "a ! 31 \<le> 127"
  shows "length (ge_base_carries 0 (ge_base_nibbles a)) = 64"
    and "\<forall>d\<in>set (ge_base_carries 0 (ge_base_nibbles a)). \<bar>sint d\<bar> \<le> 8"
    and "digits_val 16 (ge_base_carries 0 (ge_base_nibbles a)) = le_val a"
proof -
  have "a \<noteq> []" using assms(1) by auto
  moreover from this have "last a \<le> 127" using assms by (simp add: last_conv_nth)
  ultimately have "a \<noteq> []" "last a \<le> 127" .
  note n = ge_base_nibbles_range [OF this]
  show "length (ge_base_carries 0 (ge_base_nibbles a)) = 64"
    "\<forall>d\<in>set (ge_base_carries 0 (ge_base_nibbles a)). \<bar>sint d\<bar> \<le> 8"
    "digits_val 16 (ge_base_carries 0 (ge_base_nibbles a)) = le_val a"
    using ge_base_carries_correct [of 0 "ge_base_nibbles a"] n
    by (simp_all add: ge_base_nibbles_val length_ge_base_nibbles assms(1))
qed

section \<open>Sliding windows\<close>

definition slide_val :: "nat \<Rightarrow> i8 list \<Rightarrow> int" where
  "slide_val n r = (\<Sum>j<n. sint (r ! j) * 2 ^ j)"

lemma slide_val_Suc: "slide_val (Suc n) r = slide_val n r + sint (r ! n) * 2 ^ n"
  by (simp add: slide_val_def)

lemma slide_val_cong: "(\<And>j. j < n \<Longrightarrow> r ! j = s ! j) \<Longrightarrow> slide_val n r = slide_val n s"
  by (simp add: slide_val_def)

lemma slide_val_update:
  assumes "k < length r"
  shows "slide_val n (r[k := v]) = slide_val n r + (if k < n then (sint v - sint (r ! k)) * 2 ^ k else 0)"
proof (induction n)
  case (Suc n)
  then show ?case
    using assms by (auto simp: slide_val_Suc nth_list_update less_Suc_eq algebra_simps)
qed (simp add: slide_val_def)

lemma slide_val_zeros: "m \<le> n \<Longrightarrow> (\<And>j. m \<le> j \<Longrightarrow> j < n \<Longrightarrow> r ! j = 0) \<Longrightarrow> slide_val n r = slide_val m r"
  by (induction n rule: dec_induct) (simp_all add: slide_val_Suc)

lemma slide_val_ones:
  "m \<le> n \<Longrightarrow> (\<And>j. m \<le> j \<Longrightarrow> j < n \<Longrightarrow> r ! j = 1) \<Longrightarrow> slide_val n r = slide_val m r + (2 ^ n - 2 ^ m)"
  by (induction n rule: dec_induct) (simp_all add: slide_val_Suc)

text \<open>The carry loop adds 1 at position \<open>k\<close>, provided a zero bit stops it.\<close>

definition bits_from :: "nat \<Rightarrow> i8 list \<Rightarrow> bool" where
  "bits_from k r \<longleftrightarrow> length r = 256 \<and> (\<forall>j. k \<le> j \<longrightarrow> j < 256 \<longrightarrow> r ! j = 0 \<or> r ! j = 1)"

lemma slide_carry_correct:
  assumes "bits_from k r"
  shows "bits_from k (slide_carry k r) \<and> (\<forall>j<k. slide_carry k r ! j = r ! j)
    \<and> (k < 256 \<longrightarrow> r ! k \<noteq> 0 \<longrightarrow> slide_carry k r ! k = 0)
    \<and> ((\<exists>j. k \<le> j \<and> j < 256 \<and> r ! j = 0) \<longrightarrow> slide_val 256 (slide_carry k r) = slide_val 256 r + 2 ^ k)"
  using assms
proof (induction k r rule: slide_carry.induct)
  case (1 k r)
  have len: "length r = 256" using "1.prems" by (simp add: bits_from_def)
  consider "256 \<le> k" | "k < 256" "r ! k = 0" | "k < 256" "r ! k \<noteq> 0" by linarith
  then show ?case
  proof cases
    case 1
    then show ?thesis using \<open>bits_from k r\<close> by (auto simp: slide_carry.simps [of k])
  next
    case 2
    then have "slide_carry k r = r[k := 1]" by (simp add: slide_carry.simps [of k])
    then show ?thesis
      using 2 "1.prems" len by (auto simp: slide_val_update bits_from_def nth_list_update)
  next
    case 3
    then have r1: "r ! k = 1" using "1.prems" by (auto simp: bits_from_def)
    let ?r = "r[k := 0]"
    have s: "slide_carry k r = slide_carry (k + 1) ?r" using 3 by (subst slide_carry.simps) simp
    have b: "bits_from (k + 1) ?r" using "1.prems" by (simp add: bits_from_def)
    note IH = "1.IH" [OF 3 b]
    have v: "slide_val 256 ?r = slide_val 256 r - 2 ^ k" using 3 len r1 by (simp add: slide_val_update)
    have low: "\<And>j. j < k + 1 \<Longrightarrow> slide_carry (k + 1) ?r ! j = ?r ! j" and b': "bits_from (k + 1) (slide_carry (k + 1) ?r)"
      using IH by blast+
    have k: "slide_carry (k + 1) ?r ! k = 0" using low [of k] 3 len by simp
    have "bits_from k (slide_carry k r)"
      unfolding s bits_from_def
    proof (intro conjI allI impI)
      show "length (slide_carry (k + 1) ?r) = 256" using b' by (simp add: bits_from_def)
      fix j assume "k \<le> j" "j < 256"
      then show "slide_carry (k + 1) ?r ! j = 0 \<or> slide_carry (k + 1) ?r ! j = 1"
        using b' k by (cases "j = k") (auto simp: bits_from_def)
    qed
    moreover have "slide_val 256 (slide_carry k r) = slide_val 256 r + 2 ^ k"
      if z: "\<exists>j. k \<le> j \<and> j < 256 \<and> r ! j = 0"
    proof -
      obtain j where j: "k \<le> j" "j < 256" "r ! j = 0" using z by blast
      moreover have "j \<noteq> k" using j(3) 3(2) by blast
      ultimately have "k + 1 \<le> j \<and> j < 256 \<and> ?r ! j = 0" by simp
      then have "slide_val 256 (slide_carry (k + 1) ?r) = slide_val 256 ?r + 2 ^ (k + 1)"
        by (intro IH [THEN conjunct2, THEN conjunct2, THEN conjunct2, THEN mp] exI)
      then show ?thesis by (simp add: s v)
    qed
    moreover have "\<forall>j<k. slide_carry k r ! j = r ! j" using low unfolding s by simp
    moreover have "slide_carry k r ! k = 0" unfolding s by (rule k)
    ultimately show ?thesis by blast
  qed
qed

text \<open>The state of the window at position \<open>i\<close> before offset \<open>b\<close>.\<close>

definition window_ok :: "nat \<Rightarrow> nat \<Rightarrow> i8 list \<Rightarrow> bool" where
  "window_ok i b r \<longleftrightarrow> bits_from (i + 1) r \<and> i < 256 \<and> odd (sint (r ! i)) \<and> \<bar>sint (r ! i)\<bar> \<le> 15
     \<and> (\<forall>j. i < j \<longrightarrow> j < i + b \<longrightarrow> j \<le> i + 4 \<longrightarrow> j < 256 \<longrightarrow> r ! j = 0)
     \<and> \<bar>slide_val i r\<bar> < 2 ^ i \<and> slide_val 256 r < 2 ^ 255"

lemma window_int:
  fixes d :: i8
  assumes "\<bar>sint d\<bar> \<le> 15" and "b \<le> 6"
  shows "sint ((scast d :: i32) + push_bit b (scast (1 :: i8))) = sint d + 2 ^ b"
    and "sint ((scast d :: i32) - push_bit b (scast (1 :: i8))) = sint d - 2 ^ b"
proof -
  have p: "(2 :: int) ^ b \<le> 64" "0 < (2 :: int) ^ b"
    using power_increasing [of b 6 "2 :: int"] assms(2) by simp_all
  have d: "sint (scast d :: i32) = sint d" using assms(1) by (subst sint_scast_exact) (auto simp: in_range_def)
  have "- 2147483648 \<le> (2 :: int) ^ b" using p(2) by linarith
  then have y: "sint (push_bit b (scast (1 :: i8)) :: i32) = 2 ^ b"
    using sint_push_exact [of "1 :: i32" b] p by (simp add: in_range_def)
  have "- 2147483648 \<le> sint d + 2 ^ b" "sint d + 2 ^ b < 2147483648"
    "- 2147483648 \<le> sint d - 2 ^ b" "sint d - 2 ^ b < 2147483648" using assms(1) p by linarith+
  then have "in_range 32 (sint d + 2 ^ b)" "in_range 32 (sint d - 2 ^ b)" by (simp_all add: in_range_def)
  then show "sint ((scast d :: i32) + push_bit b (scast (1 :: i8))) = sint d + 2 ^ b"
    "sint ((scast d :: i32) - push_bit b (scast (1 :: i8))) = sint d - 2 ^ b"
    by (subst sint_add_exact sint_sub_exact; simp add: d y del: push_bit_of_1 signed_1)+
qed

lemma window_step:
  assumes w: "window_ok i b r" and b: "1 \<le> b" "i + b < 256" and one: "r ! (i + b) = 1"
    and P: "sint d = sint (r ! i) + 2 ^ b" "sint d \<le> 15" and b4: "b \<le> 4"
  shows "window_ok i (b + 1) (r[i := d, i + b := 0]) \<and> slide_val 256 (r[i := d, i + b := 0]) = slide_val 256 r
    \<and> (\<forall>j<i. r[i := d, i + b := 0] ! j = r ! j)"
proof -
  have len: "length r = 256" and i: "i < 256" and o: "odd (sint (r ! i))" "\<bar>sint (r ! i)\<bar> \<le> 15"
    using w by (simp_all add: window_ok_def bits_from_def)
  have v: "slide_val 256 (r[i := d, i + b := 0]) = slide_val 256 r"
    using b i len one by (simp add: slide_val_update P(1) power_add algebra_simps)
  have l: "slide_val i (r[i := d, i + b := 0]) = slide_val i r"
    by (rule slide_val_cong) simp
  have "0 < (2 :: int) ^ b" "even ((2 :: int) ^ b)" using b(1) by simp_all
  then have d: "odd (sint d)" "\<bar>sint d\<bar> \<le> 15" unfolding P(1) using o P by (simp, linarith)
  have "bits_from (i + 1) (r[i := d, i + b := 0])"
    using w b by (auto simp: window_ok_def bits_from_def nth_list_update)
  moreover have "r[i := d, i + b := 0] ! j = 0" if "i < j" "j < i + (b + 1)" "j \<le> i + 4" "j < 256" for j
    using w that len by (cases "j = i + b") (auto simp: window_ok_def nth_list_update)
  ultimately show ?thesis
    using w d v l len b unfolding window_ok_def by (auto simp: nth_list_update)
qed

lemma window_step_carry:
  assumes w: "window_ok i b r" and b: "1 \<le> b" "i + b < 256" and one: "r ! (i + b) = 1"
    and P: "sint d = sint (r ! i) - 2 ^ b" "- 15 \<le> sint d" "0 < sint (r ! i)" and b4: "b \<le> 4"
  defines "r' \<equiv> slide_carry (i + b) (r[i := d])"
  shows "window_ok i (b + 1) r' \<and> slide_val 256 r' = slide_val 256 r \<and> (\<forall>j<i. r' ! j = r ! j)"
proof -
  have len: "length r = 256" and i: "i < 256" and o: "odd (sint (r ! i))" "\<bar>sint (r ! i)\<bar> \<le> 15"
    using w by (simp_all add: window_ok_def bits_from_def)
  let ?s = "r[i := d]"
  have bs: "bits_from (i + b) ?s" using w b by (auto simp: window_ok_def bits_from_def nth_list_update)
  note c = slide_carry_correct [OF bs, folded r'_def]
  have z: "\<exists>j. i + b \<le> j \<and> j < 256 \<and> ?s ! j = 0"
  proof (rule ccontr)
    assume "\<not> ?thesis"
    then have ones: "\<And>j. i + b \<le> j \<Longrightarrow> j < 256 \<Longrightarrow> r ! j = 1"
      using bs b by (auto simp: bits_from_def nth_list_update split: if_splits)
    have "slide_val 256 r = slide_val (i + b) r + (2 ^ 256 - 2 ^ (i + b))"
      by (rule slide_val_ones) (use b ones in auto)
    moreover have "slide_val (i + b) r = slide_val (Suc i) r"
      by (rule slide_val_zeros) (use b b4 w in \<open>auto simp: window_ok_def\<close>)
    moreover have "slide_val (Suc i) r > 0"
    proof -
      have "2 ^ i \<le> sint (r ! i) * 2 ^ i" using P(3) by (simp add: mult_le_cancel_right1)
      moreover have "- (2 ^ i) < slide_val i r" using w by (auto simp: window_ok_def)
      ultimately show ?thesis unfolding slide_val_Suc by linarith
    qed
    moreover have "(2 :: int) ^ (i + b) \<le> 2 ^ 255" using b(2) by (intro power_increasing) simp_all
    ultimately show False using w by (simp add: window_ok_def)
  qed
  have v: "slide_val 256 r' = slide_val 256 r"
    using c z len i P(1) by (simp add: slide_val_update power_add algebra_simps)
  have low: "\<forall>j<i. r' ! j = r ! j" and di: "r' ! i = d" and mid: "\<And>j. i < j \<Longrightarrow> j < i + b \<Longrightarrow> r' ! j = r ! j"
    using c len i b by auto
  have k: "r' ! (i + b) = 0" using c one b len by simp
  have "0 < (2 :: int) ^ b" "even ((2 :: int) ^ b)" using b(1) by simp_all
  then have d: "odd (sint d)" "\<bar>sint d\<bar> \<le> 15" unfolding P(1) using o P by (simp, linarith)
  have "bits_from (i + 1) r'"
    unfolding bits_from_def
  proof (intro conjI allI impI)
    show "length r' = 256" using c by (simp add: bits_from_def)
    fix j assume "i + 1 \<le> j" "j < 256"
    then show "r' ! j = 0 \<or> r' ! j = 1"
      using c mid w by (cases "j < i + b") (auto simp: bits_from_def window_ok_def)
  qed
  moreover have "r' ! j = 0" if "i < j" "j < i + (b + 1)" "j \<le> i + 4" "j < 256" for j
    using w that mid k by (cases "j = i + b") (auto simp: window_ok_def)
  moreover have "slide_val i r' = slide_val i r" using low by (intro slide_val_cong) simp
  ultimately show ?thesis
    using w d v low di unfolding window_ok_def by auto
qed

lemma window_parity:
  assumes "odd (x :: int)" and "15 < x + 2 ^ b" and "b \<le> 4"
  shows "0 < x"
proof -
  have "(2 :: int) ^ b \<le> 2 ^ 4" using assms(3) by (intro power_increasing) simp_all
  then have "- 1 < x" using assms(2) by simp
  moreover have "x \<noteq> 0" using assms(1) by auto
  ultimately show ?thesis by linarith
qed

lemma window_fits:
  assumes "odd (x :: int)" and "15 < x + 2 ^ b" and "b \<le> 4" 
  shows "- 15 \<le> x - 2 ^ b"
proof -
  have "(2 :: int) ^ b \<le> 2 ^ 4" using assms(3) by (intro power_increasing) simp_all
  then show ?thesis using window_parity [OF assms] by simp
qed

text \<open>One round of the window, by what the bit at offset \<open>b\<close> leads to.\<close>

lemma slide_window_stop: "\<not> (b \<le> 6 \<and> i + b < 256) \<Longrightarrow> slide_window i b r = r"
  by (subst slide_window.simps) (simp only: if_False)

lemma slide_window_zero:
  "b \<le> 6 \<Longrightarrow> i + b < 256 \<Longrightarrow> r ! (i + b) = 0 \<Longrightarrow> slide_window i b r = slide_window i (b + 1) r"
  by (subst slide_window.simps) simp

lemma slide_window_break:
  assumes "4 < b" and "b \<le> 6" and "i + b < 256" and "r ! (i + b) = 1" and "\<bar>sint (r ! i)\<bar> \<le> 15"
  shows "slide_window i b r = r"
proof -
  have "(2 :: int) ^ 5 \<le> 2 ^ b" using assms(1) by (intro power_increasing) simp_all
  then show ?thesis
    using assms window_int [OF assms(5,2)] by (subst slide_window.simps) (simp add: Let_def abs_le_iff)
qed

lemma scast_window: "\<bar>sint (z :: i32)\<bar> \<le> 15 \<Longrightarrow> sint (scast z :: i8) = sint z"
  by (subst sint_scast_exact) (auto simp: in_range_def)

lemma slide_window_one:
  assumes w: "window_ok i b r" and b: "1 \<le> b" "b \<le> 4" and one: "i + b < 256" "r ! (i + b) = 1"
  shows "\<exists>r'. slide_window i b r = slide_window i (b + 1) r' \<and> window_ok i (b + 1) r'
    \<and> slide_val 256 r' = slide_val 256 r \<and> (\<forall>j<i. r' ! j = r ! j)"
proof -
  let ?x = "scast (r ! i) :: i32" and ?y = "push_bit b (scast (1 :: i8)) :: i32"
  have ri: "odd (sint (r ! i))" "\<bar>sint (r ! i)\<bar> \<le> 15" using w by (simp_all add: window_ok_def)
  have b6: "b \<le> 6" using b(2) by simp
  note xy = window_int [OF ri(2) b6]
  have p: "0 < (2 :: int) ^ b" by simp
  show ?thesis
  proof (cases "sint (?x + ?y) \<le> 15")
    case True
    have d: "sint (scast (?x + ?y) :: i8) = sint (r ! i) + 2 ^ b"
      using scast_window [of "?x + ?y"] True ri(2) p unfolding xy by linarith
    have "slide_window i b r = slide_window i (b + 1) (r[i := scast (?x + ?y), i + b := 0])"
      using one True b6 by (subst slide_window.simps) (simp add: Let_def)
    then show ?thesis using window_step [OF w b(1) one d _ b(2)] True unfolding d xy by blast
  next
    case False
    have f: "- 15 \<le> sint (r ! i) - 2 ^ b" "0 < sint (r ! i)"
      using window_fits [OF ri(1) _ b(2)] window_parity [OF ri(1) _ b(2)] False unfolding xy by linarith+
    have d: "sint (scast (?x - ?y) :: i8) = sint (r ! i) - 2 ^ b"
      using scast_window [of "?x - ?y"] f ri(2) p unfolding xy by linarith
    have "slide_window i b r = slide_window i (b + 1) (slide_carry (i + b) (r[i := scast (?x - ?y)]))"
      using one False f(1) xy b6 by (subst slide_window.simps) (simp add: Let_def)
    then show ?thesis using window_step_carry [OF w b(1) one d _ f(2) b(2)] f(1) unfolding d by blast
  qed
qed

lemma window_ok_more: "window_ok i b r \<Longrightarrow> 4 < b \<or> 256 \<le> i + b \<Longrightarrow> window_ok i 5 r"
  unfolding window_ok_def by fastforce

lemma slide_window_correct:
  assumes "window_ok i b r" and "1 \<le> b"
  shows "window_ok i 5 (slide_window i b r) \<and> slide_val 256 (slide_window i b r) = slide_val 256 r
    \<and> (\<forall>j<i. slide_window i b r ! j = r ! j)"
  using assms
proof (induction "7 - b" arbitrary: b r rule: less_induct)
  case less
  note w = less.prems(1)
  have bit: "r ! (i + b) = 0 \<or> r ! (i + b) = 1" if "i + b < 256"
    using w less.prems(2) that by (simp add: window_ok_def bits_from_def)
  consider (stop) "\<not> (b \<le> 6 \<and> i + b < 256)" | (zero) "b \<le> 6" "i + b < 256" "r ! (i + b) = 0"
    | (break) "4 < b" "b \<le> 6" "i + b < 256" "r ! (i + b) = 1" | (one) "b \<le> 4" "i + b < 256" "r ! (i + b) = 1"
    using bit by (meson not_le_imp_less)
  then show ?case
  proof cases
    case stop
    then show ?thesis using slide_window_stop window_ok_more [OF w] by auto
  next
    case zero
    have "window_ok i (b + 1) r" using w zero unfolding window_ok_def by (auto simp: less_Suc_eq)
    then show ?thesis unfolding slide_window_zero [OF zero] using less.hyps [of "b + 1" r] zero by simp
  next
    case break
    have "slide_window i b r = r" using slide_window_break [OF break] w by (simp add: window_ok_def)
    then show ?thesis using window_ok_more [OF w] break by simp
  next
    case one
    then obtain r' where r': "slide_window i b r = slide_window i (b + 1) r'" "window_ok i (b + 1) r'"
      "slide_val 256 r' = slide_val 256 r" "\<forall>j<i. r' ! j = r ! j"
      using slide_window_one [OF w less.prems(2)] by blast
    then show ?thesis using less.hyps [of "b + 1" r'] one by simp
  qed
qed

section \<open>The whole of slide\<close>

text \<open>
  After position \<open>i\<close>: the digits below are odd and at most 15 in absolute value or zero, and a
  digit that is not zero is followed by four zeros.
\<close>

definition slide_ok :: "int \<Rightarrow> nat \<Rightarrow> i8 list \<Rightarrow> bool" where
  "slide_ok v i r \<longleftrightarrow> bits_from i r \<and> slide_val 256 r = v
     \<and> (\<forall>j<i. r ! j \<noteq> 0 \<longrightarrow> odd (sint (r ! j)) \<and> \<bar>sint (r ! j)\<bar> \<le> 15 \<and> (\<forall>m. j < m \<longrightarrow> m \<le> j + 4 \<longrightarrow> m < 256 \<longrightarrow> r ! m = 0))"

definition sparse :: "nat \<Rightarrow> i8 list \<Rightarrow> bool" where
  "sparse n r \<longleftrightarrow> (\<forall>j<n. r ! j \<noteq> 0 \<longrightarrow> \<bar>sint (r ! j)\<bar> \<le> 15 \<and> (\<forall>m. j < m \<longrightarrow> m \<le> j + 4 \<longrightarrow> m < n \<longrightarrow> r ! m = 0))"

lemma sparse_mono: "sparse n r \<Longrightarrow> m \<le> n \<Longrightarrow> sparse m r"
  unfolding sparse_def by (meson less_le_trans)

lemma sparse_zero: "sparse n r \<Longrightarrow> k < n \<Longrightarrow> r ! k \<noteq> 0 \<Longrightarrow> k - 4 \<le> j \<Longrightarrow> j < k \<Longrightarrow> r ! j = 0"
  unfolding sparse_def by (metis le_diff_conv less_trans)

lemma sparse_bound:
  assumes "sparse n r"
  shows "\<bar>slide_val n r\<bar> < 2 ^ (n + 3)"
  using assms
proof (induction n rule: less_induct)
  case (less n)
  show ?case
  proof (cases n)
    case 0
    then show ?thesis by (simp add: slide_val_def)
  next
    case (Suc k)
    show ?thesis
    proof (cases "r ! k = 0")
      case True
      have "\<bar>slide_val k r\<bar> < 2 ^ (k + 3)" using less.IH [of k] sparse_mono [OF less.prems, of k] Suc by simp
      also have "(2 :: int) ^ (k + 3) \<le> 2 ^ (n + 3)" using Suc by (intro power_increasing) simp_all
      finally show ?thesis using True Suc by (simp add: slide_val_Suc)
    next
      case False
      have "slide_val k r = slide_val (k - 4) r"
        by (rule slide_val_zeros) (use sparse_zero [OF less.prems _ False] Suc in simp_all)
      moreover have "\<bar>slide_val (k - 4) r\<bar> < 2 ^ k"
      proof (cases "k < 4")
        case True
        then show ?thesis by (simp add: slide_val_def)
      next
        case False
        have "\<bar>slide_val (k - 4) r\<bar> < 2 ^ (k - 4 + 3)" using less.IH [of "k - 4"] sparse_mono [OF less.prems, of "k - 4"] Suc by simp
        also have "(2 :: int) ^ (k - 4 + 3) \<le> 2 ^ k" using False by (intro power_increasing) simp_all
        finally show ?thesis .
      qed
      moreover have "\<bar>sint (r ! k) * 2 ^ k\<bar> \<le> 15 * 2 ^ k"
        using less.prems False Suc by (simp add: sparse_def abs_mult)
      ultimately have "\<bar>slide_val n r\<bar> < 16 * 2 ^ k" unfolding Suc slide_val_Suc by linarith
      then show ?thesis by (simp add: Suc power_add)
    qed
  qed
qed

lemma slide_ok_low:
  assumes "slide_ok v i r" and "i < 256" and "r ! i \<noteq> 0"
  shows "\<bar>slide_val i r\<bar> < 2 ^ i"
proof -
  have r1: "r ! i = 1" using assms by (auto simp: slide_ok_def bits_from_def)
  have p: "sparse (Suc i) r" unfolding sparse_def
  proof (intro allI impI)
    fix j assume "j < Suc i" "r ! j \<noteq> 0"
    then consider "j = i" | "j < i" "\<bar>sint (r ! j)\<bar> \<le> 15" "\<And>m. j < m \<Longrightarrow> m \<le> j + 4 \<Longrightarrow> m < 256 \<Longrightarrow> r ! m = 0"
      using assms(1) by (auto simp: slide_ok_def less_Suc_eq)
    then show "\<bar>sint (r ! j)\<bar> \<le> 15 \<and> (\<forall>m. j < m \<longrightarrow> m \<le> j + 4 \<longrightarrow> m < Suc i \<longrightarrow> r ! m = 0)"
      using assms(2) r1 by cases simp_all
  qed
  have e: "slide_val i r = slide_val (i - 4) r"
    by (rule slide_val_zeros) (use sparse_zero [OF p _ assms(3)] in simp_all)
  have "\<bar>slide_val (i - 4) r\<bar> < 2 ^ (i - 4 + 3)" if "4 \<le> i"
    by (rule sparse_bound [OF sparse_mono [OF p]]) simp
  moreover have "(2 :: int) ^ (i - 4 + 3) \<le> 2 ^ i" if "4 \<le> i" using that by (intro power_increasing) simp_all
  moreover have "slide_val (i - 4) r = 0" if "i < 4" using that by (simp add: slide_val_def)
  ultimately show ?thesis unfolding e by (cases "4 \<le> i") (meson less_le_trans order_refl, simp)
qed

lemma slide_step:
  assumes "slide_ok v i r" and "i < 256" and "v < 2 ^ 255"
  shows "slide_ok v (Suc i) (if r ! i \<noteq> 0 then slide_window i 1 r else r)"
proof (cases "r ! i = 0")
  case True
  then show ?thesis using assms(1) by (auto simp: slide_ok_def bits_from_def less_Suc_eq)
next
  case False
  then have r1: "r ! i = 1" using assms(1,2) by (auto simp: slide_ok_def bits_from_def)
  have "window_ok i 1 r"
    using assms r1 slide_ok_low [OF assms(1,2)] by (auto simp: window_ok_def slide_ok_def bits_from_def)
  note c = slide_window_correct [OF this order_refl]
  let ?s = "slide_window i 1 r"
  have "r ! j \<noteq> 0 \<Longrightarrow> j < i \<Longrightarrow> i \<le> j + 4 \<Longrightarrow> False" for j
    using assms(1,2) False by (auto simp: slide_ok_def)
  have *: "odd (sint (?s ! j)) \<and> \<bar>sint (?s ! j)\<bar> \<le> 15 \<and> (\<forall>m. j < m \<longrightarrow> m \<le> j + 4 \<longrightarrow> m < 256 \<longrightarrow> ?s ! m = 0)"
    if "j < Suc i" "?s ! j \<noteq> 0" for j
  proof (cases "j = i")
    case True
    then show ?thesis using c by (simp add: window_ok_def)
  next
    case False
    then have j: "j < i" "?s ! j = r ! j" using that c by auto
    have rj: "odd (sint (r ! j))" "\<bar>sint (r ! j)\<bar> \<le> 15" "\<And>m. j < m \<Longrightarrow> m \<le> j + 4 \<Longrightarrow> m < 256 \<Longrightarrow> r ! m = 0"
      using assms(1) j that by (auto simp: slide_ok_def)
    have "?s ! m = 0" if "j < m" "m \<le> j + 4" "m < 256" for m
      using rj(3) [OF that] rj(3) [of i] r1 c that j assms(2) by (cases "m < i") auto
    then show ?thesis using rj(1,2) j(2) by simp
  qed
  show ?thesis
    using c assms(1) * False by (simp add: slide_ok_def window_ok_def)
qed

lemma slide_bits_val:
  assumes "length a = 32"
  shows "bits_from 0 (slide_bits a)" and "slide_val 256 (slide_bits a) = le_val a"
proof -
  have b: "slide_bits a ! j = of_bool (bit (le_val a) j)" if "j < 256" for j
  proof -
    have "slide_bits a ! j = 1 AND drop_bit (j mod 8) (a ! (j div 8))"
      unfolding slide_bits_def using that by (subst nth_map) simp_all
    also have "\<dots> = of_bool (bit (a ! (j div 8)) (j mod 8))"
      by (simp add: and.commute [of 1] and_one_eq mod_2_eq_odd bit_iff_odd_drop_bit)
    finally show ?thesis using that assms by (simp add: bit_le_val) 
  qed
  then show "bits_from 0 (slide_bits a)" by (simp add: bits_from_def slide_bits_def)
  have "slide_val n (slide_bits a) = take_bit n (le_val a)" if "n \<le> 256" for n
    using that
  proof (induction n)
    case (Suc n)
    then show ?case by (simp add: slide_val_Suc b take_bit_Suc_from_most)
  qed (simp add: slide_val_def)
  then have "slide_val 256 (slide_bits a) = take_bit 256 (le_val a)" by simp
  also have "\<dots> = le_val a" using le_val_less [OF assms] by (simp add: take_bit_int_eq_self)
  finally show "slide_val 256 (slide_bits a) = le_val a" .
qed

lemma slide_correct:
  assumes "length a = 32" and "le_val a < 2 ^ 255"
  shows "slide_ok (le_val a) 256 (slide a)"
proof -
  have "slide_ok (le_val a) (length [0..<256]) (slide a)"
    unfolding slide_def
  proof (rule fold_invariant)
    show "slide_ok (le_val a) 0 (slide_bits a)" using slide_bits_val [OF assms(1)] by (simp add: slide_ok_def)
    show "slide_ok (le_val a) (Suc k) (if s ! ([0..<256] ! k) \<noteq> 0 then slide_window ([0..<256] ! k) 1 s else s)"
      if "k < length [0..<256]" "slide_ok (le_val a) k s" for k s
    proof -
      have k: "k < 256" "[0..<256] ! k = k" using that(1) by simp_all
      show ?thesis unfolding k(2) by (rule slide_step [OF that(2) k(1) assms(2)])
    qed
  qed
  then show ?thesis by simp
qed

end
