(* ===== verification/ScalarmultCorrect.thy ===== *)
theory ScalarmultCorrect
  imports BasePoint Recode
begin

text \<open>
  The scalar multiplications compute the multiple of the point: \<open>ge_scalarmult\<close> and the two
  variable-time double multiplications, for every representation of every point of the curve.
\<close>

section \<open>Constant-time multiplication\<close>

lemma ge_scalarmult_table_multiples:
  assumes "p3_is A p" and "cached_is Q c" and "m \<le> n"
  shows "cached_is (Q + zmul (int m) A) (ge_scalarmult_table n p c ! m)"
  using assms(2,3)
proof (induction n arbitrary: m Q c)
  case (Suc n)
  show ?case
  proof (cases m)
    case (Suc k)
    have "cached_is (A + Q) (ge_p3_to_cached (ge_p1p1_to_p3 (ge_add p c)))"
      by (intro ge_rules assms(1) Suc.prems(1))
    from Suc.IH [OF this, of k] show ?thesis
      using Suc Suc.prems(2) zmul_add [of "int k" 1 A] by (simp add: Let_def ac_simps)
  qed (use Suc.prems in \<open>simp add: Let_def\<close>)
qed simp

lemma zmul_16: "zmul 16 P = P + P + (P + P) + (P + P + (P + P)) + (P + P + (P + P) + (P + P + (P + P)))"
  using zmul_2 [of P] zmul_add [of 2 2 P] zmul_add [of 4 4 P] zmul_add [of 8 8 P] by simp

lemma ge_scalarmult_step_multiple:
  assumes "p2_is R r" and "\<And>m. m < 8 \<Longrightarrow> cached_is (zmul (int m + 1) A) (Ai ! m)" and "\<bar>sint b\<bar> \<le> 8"
  shows "\<exists>r'. ge_scalarmult_step Ai b r = Some r' \<and> p2_is (zmul 16 R + zmul (sint b) A) r'"
proof -
  obtain cur where cur: "select_cached Ai b = Some cur" "cached_is (zmul (sint b) A) cur"
    using select_cached_multiple [OF assms(2,3)] by blast
  have "p2_is (zmul 16 R + zmul (sint b) A)
      (ge_p1p1_to_p2 (ge_add (ge_p1p1_to_p3 (ge_p2_dbl (ge_p1p1_to_p2 (ge_p2_dbl (ge_p1p1_to_p2
        (ge_p2_dbl (ge_p1p1_to_p2 (ge_p2_dbl r)))))))) cur))"
    unfolding zmul_16 by (intro ge_rules assms(1) cur(2))
  then show ?thesis by (simp add: ge_scalarmult_step_def Let_def cur(1))
qed

lemma nth_rev_upt: "k < n \<Longrightarrow> rev [0..<n] ! k = n - Suc k"
  by (simp add: rev_nth)

theorem ge_scalarmult_multiple:
  assumes "length a = 32" and "a ! 31 \<le> 127" and "p3_is A p"
  shows "\<exists>r. ge_scalarmult a p = Some r \<and> p2_is (zmul (le_val a) A) r"
proof -
  let ?e = "ge_scalarmult_digits a" and ?Ai = "ge_scalarmult_table 7 p (ge_p3_to_cached p)"
  note d = ge_scalarmult_digits_correct [OF assms(1,2)]
  have tab: "cached_is (zmul (int m + 1) A) (?Ai ! m)" if "m < 8" for m
    using ge_scalarmult_table_multiples [OF assms(3) ge_p3_to_cached_rep [OF assms(3)], of m 7] that
      zmul_add [of 1 "int m" A] by (simp add: add.commute)
  let ?I = "\<lambda>k r. p2_is (zmul (digits_val 16 (drop (64 - k) ?e)) A) r"
  have "\<exists>r. opt_fold (\<lambda>i. ge_scalarmult_step ?Ai (?e ! i)) (rev [0..<64]) ge_p2_0 = Some r \<and> ?I (length (rev [0..<64])) r"
  proof (rule opt_fold_invariant)
    show "?I 0 ge_p2_0" using d(1) ge_p2_0_ed by simp
    fix k r assume k: "k < length (rev [0..<64])" and r: "?I k r"
    let ?b = "?e ! (63 - k)"
    have k: "k < 64" "rev [0..<64] ! k = 63 - k" using k nth_rev_upt [of k 64] by simp_all
    have "?b \<in> set ?e" using d(1) by (intro nth_mem) simp
    then have b: "\<bar>sint ?b\<bar> \<le> 8" using d(2) by blast
    have "64 - k = Suc (63 - k)" "64 - Suc k = 63 - k" using k(1) by simp_all
    then have v: "digits_val 16 (drop (64 - Suc k) ?e) = 16 * digits_val 16 (drop (64 - k) ?e) + sint ?b"
      using Cons_nth_drop_Suc [of "63 - k" ?e, symmetric] d(1) by simp
    show "\<exists>s'. ge_scalarmult_step ?Ai (?e ! (rev [0..<64] ! k)) r = Some s' \<and> ?I (Suc k) s'"
      using ge_scalarmult_step_multiple [OF r tab b] unfolding k(2) v zmul_add zmul_mult by blast
  qed
  then show ?thesis by (simp add: ge_scalarmult_def Let_def d(3))
qed

section \<open>Variable-time double multiplication\<close>

lemma ge_dsm_precomp_multiples:
  assumes "p3_is A p" and "m < 8"
  shows "cached_is (zmul (2 * int m + 1) A) (ge_dsm_precomp p ! m)"
proof -
  define s2 where "s2 = ge_p1p1_to_p3 (ge_p3_dbl p)"
  have s2: "p3_is (A + A) s2" unfolding s2_def by (intro ge_rules assms(1))
  define nxt where "nxt c = ge_p3_to_cached (ge_p1p1_to_p3 (ge_add s2 c))" for c
  have nxt: "cached_is (zmul (2 * int (Suc k) + 1) A) (nxt c)" if "cached_is (zmul (2 * int k + 1) A) c" for k c
  proof -
    have "2 * int (Suc k) + 1 = 1 + 1 + (2 * int k + 1)" by simp
    then have "zmul (2 * int (Suc k) + 1) A = A + A + zmul (2 * int k + 1) A" by (simp only: zmul_add zmul_1)
    then show ?thesis unfolding nxt_def using s2 that by (simp only:) (intro ge_rules)
  qed
  have tab: "ge_dsm_precomp p = map (\<lambda>k. (nxt ^^ k) (ge_p3_to_cached p)) [0..<8]"
    by (simp add: ge_dsm_precomp_def Let_def s2_def nxt_def upt_8 numeral_eq_Suc)
  have "cached_is (zmul (2 * int k + 1) A) ((nxt ^^ k) (ge_p3_to_cached p))" for k
  proof (induction k)
    case 0
    then show ?case using ge_p3_to_cached_rep [OF assms(1)] by simp
  next
    case (Suc k)
    then show ?case using nxt by simp
  qed
  then show ?thesis unfolding tab using assms(2) by (subst nth_map) simp_all
qed

text \<open>Adding a digit of a sliding window from a table of odd multiples.\<close>

locale odd_multiples =
  fixes add :: "ge_p3 \<Rightarrow> 'e \<Rightarrow> ge_p1p1" and sub :: "ge_p3 \<Rightarrow> 'e \<Rightarrow> ge_p1p1" and stands :: "ed \<Rightarrow> 'e \<Rightarrow> bool"
  assumes add_stands: "p3_is P p \<Longrightarrow> stands Q q \<Longrightarrow> p1p1_is (P + Q) (add p q)"
    and sub_stands: "p3_is P p \<Longrightarrow> stands Q q \<Longrightarrow> p1p1_is (P - Q) (sub p q)"
begin

definition window_digit :: "'e list \<Rightarrow> i8 \<Rightarrow> ge_p1p1 \<Rightarrow> ge_p1p1" where
  "window_digit tab d t =
     (if 0 < sint d then add (ge_p1p1_to_p3 t) (tab ! nat (sint d div 2))
      else if sint d < 0 then sub (ge_p1p1_to_p3 t) (tab ! nat ((- sint d) div 2))
      else t)"

lemma window_digit_multiple:
  assumes "p1p1_is R t" and "\<And>m. m < 8 \<Longrightarrow> stands (zmul (2 * int m + 1) A) (tab ! m)"
    and "d \<noteq> 0 \<Longrightarrow> odd (sint d) \<and> \<bar>sint d\<bar> \<le> 15"
  shows "p1p1_is (R + zmul (sint d) A) (window_digit tab d t)"
proof -
  have t: "p3_is R (ge_p1p1_to_p3 t)" by (rule ge_p1p1_to_p3_rep [OF assms(1)])
  consider "0 < sint d" | "sint d < 0" | "sint d = 0" by linarith
  then show ?thesis
  proof cases
    case 1
    then have "d \<noteq> 0" by auto
    from assms(3) [OF this] have o: "odd (sint d)" "sint d \<le> 15" by auto
    have m: "nat (sint d div 2) < 8" "2 * int (nat (sint d div 2)) + 1 = sint d" using 1 o by auto
    show ?thesis using add_stands [OF t assms(2) [OF m(1)]] 1 unfolding m(2) by (simp add: window_digit_def)
  next
    case 2
    then have "d \<noteq> 0" by auto
    from assms(3) [OF this] have o: "odd (- sint d)" "- sint d \<le> 15" by auto
    have m: "nat ((- sint d) div 2) < 8" "2 * int (nat ((- sint d) div 2)) + 1 = - sint d" using 2 o by auto
    show ?thesis using sub_stands [OF t assms(2) [OF m(1)]] 2 unfolding m(2) by (simp add: window_digit_def zmul_minus)
  next
    case 3
    then show ?thesis using assms(1) by (simp add: window_digit_def)
  qed
qed

end

interpretation dsm_c: odd_multiples ge_add ge_sub cached_is
  by unfold_locales (rule ge_add_ed, assumption+, rule ge_sub_ed)

interpretation dsm_p: odd_multiples ge_madd ge_msub precomp_is
  by unfold_locales (rule ge_madd_ed, assumption+, rule ge_msub_ed)

lemma dsm_cached_window: "dsm_cached = dsm_c.window_digit"
  by (intro ext) (simp add: dsm_cached_def dsm_c.window_digit_def)

lemma dsm_precomp_window: "dsm_precomp = dsm_p.window_digit"
  by (intro ext) (simp add: dsm_precomp_def dsm_p.window_digit_def)

lemma digits_val_take: "n \<le> length r \<Longrightarrow> digits_val 2 (take n r) = slide_val n r"
proof (induction n)
  case (Suc n)
  then show ?case by (simp add: take_Suc_conv_app_nth digits_val_append slide_val_Suc mult.commute)
qed (simp add: slide_val_def)

text \<open>The downward loops start below the positions where both digits are zero.\<close>

lemma dropWhile_rev_upt:
  "\<exists>n\<le>N. dropWhile P (rev [0..<N]) = rev [0..<n] \<and> (\<forall>j. n \<le> j \<longrightarrow> j < N \<longrightarrow> P j)"
proof (induction N)
  case (Suc N)
  show ?case
  proof (cases "P N")
    case True
    obtain n where "n \<le> N" "dropWhile P (rev [0..<N]) = rev [0..<n]" "\<forall>j. n \<le> j \<longrightarrow> j < N \<longrightarrow> P j"
      using Suc by blast
    then show ?thesis using True by (intro exI [of _ n]) (auto simp: less_Suc_eq)
  qed (intro exI [of _ "Suc N"], simp)
qed simp

text \<open>
  Horner's rule for the value of the digits at positions \<open>n - k\<close> to \<open>n - 1\<close>, for two digit
  strings at once.
\<close>

lemma digits_val_drop_take:
  assumes "k < n" and "n \<le> length r"
  shows "digits_val 2 (drop (n - Suc k) (take n r)) = 2 * digits_val 2 (drop (n - k) (take n r)) + sint (r ! (n - Suc k))"
proof -
  have "Suc (n - Suc k) = n - k" using assms(1) by simp
  then have "drop (n - Suc k) (take n r) = r ! (n - Suc k) # drop (n - k) (take n r)"
    using Cons_nth_drop_Suc [of "n - Suc k" "take n r"] assms by simp
  then show ?thesis by simp
qed

lemma double_loop:
  assumes step: "\<And>i R r. i < n \<Longrightarrow> p2_is R r \<Longrightarrow>
      p2_is (R + R + zmul (sint (ra ! i)) A + zmul (sint (rb ! i)) B) (body i r)"
    and n: "n \<le> length ra" "n \<le> length rb"
  shows "p2_is (zmul (slide_val n ra) A + zmul (slide_val n rb) B) (fold body (rev [0..<n]) ge_p2_0)"
proof -
  let ?V = "\<lambda>k x. digits_val 2 (drop (n - k) (take n x))"
  let ?I = "\<lambda>k r. p2_is (zmul (?V k ra) A + zmul (?V k rb) B) r"
  have "?I (length (rev [0..<n])) (fold body (rev [0..<n]) ge_p2_0)"
  proof (rule fold_invariant)
    show "?I 0 ge_p2_0" using n ge_p2_0_ed by simp
    fix k r assume "k < length (rev [0..<n])" and r: "?I k r"
    then have k: "k < n" "rev [0..<n] ! k = n - Suc k" using nth_rev_upt by simp_all
    have "zmul (?V (Suc k) ra) A + zmul (?V (Suc k) rb) B
      = (zmul (?V k ra) A + zmul (?V k rb) B) + (zmul (?V k ra) A + zmul (?V k rb) B)
        + zmul (sint (ra ! (n - Suc k))) A + zmul (sint (rb ! (n - Suc k))) B"
      unfolding digits_val_drop_take [OF k(1) n(1)] digits_val_drop_take [OF k(1) n(2)] zmul_add zmul_mult zmul_2
      by (simp add: ac_simps)
    then show "?I (Suc k) (body (rev [0..<n] ! k) r)" unfolding k(2) using step [OF _ r, of "n - Suc k"] k(1) by simp
  qed
  then show ?thesis using n by (simp add: digits_val_take)
qed

lemma dsm_loop:
  assumes a: "length a = 32" "le_val a < 2 ^ 255" and b: "length b = 32" "le_val b < 2 ^ 255"
    and add_a: "\<And>R t d. p1p1_is R t \<Longrightarrow> (d \<noteq> 0 \<Longrightarrow> odd (sint d) \<and> \<bar>sint d\<bar> \<le> 15) \<Longrightarrow> p1p1_is (R + zmul (sint d) A) (fa d t)"
    and add_b: "\<And>R t d. p1p1_is R t \<Longrightarrow> (d \<noteq> 0 \<Longrightarrow> odd (sint d) \<and> \<bar>sint d\<bar> \<le> 15) \<Longrightarrow> p1p1_is (R + zmul (sint d) B) (fb d t)"
  shows "p2_is (zmul (le_val a) A + zmul (le_val b) B)
    (fold (\<lambda>i r. ge_p1p1_to_p2 (fb (slide b ! i) (fa (slide a ! i) (ge_p2_dbl r)))) (dsm_start (slide a) (slide b)) ge_p2_0)"
proof -
  let ?a = "slide a" and ?b = "slide b"
  have ok: "slide_ok (le_val a) 256 ?a" "slide_ok (le_val b) 256 ?b"
    by (rule slide_correct [OF a], rule slide_correct [OF b])
  have len: "length ?a = 256" "length ?b = 256" using ok by (simp_all add: slide_ok_def bits_from_def)
  obtain n where n: "n \<le> 256" "dsm_start ?a ?b = rev [0..<n]" "\<And>j. n \<le> j \<Longrightarrow> j < 256 \<Longrightarrow> ?a ! j = 0 \<and> ?b ! j = 0"
    unfolding dsm_start_def using dropWhile_rev_upt [of 256 "\<lambda>i. ?a ! i = 0 \<and> ?b ! i = 0"] by blast
  have v: "slide_val n ?a = le_val a" "slide_val n ?b = le_val b"
    using slide_val_zeros [OF n(1), of ?a] slide_val_zeros [OF n(1), of ?b] n(3) ok by (simp_all add: slide_ok_def)
  have "p2_is (zmul (slide_val n ?a) A + zmul (slide_val n ?b) B)
    (fold (\<lambda>i r. ge_p1p1_to_p2 (fb (?b ! i) (fa (?a ! i) (ge_p2_dbl r)))) (rev [0..<n]) ge_p2_0)"
  proof (rule double_loop)
    fix i R r assume i: "i < n" and r: "p2_is R r"
    have "?a ! i \<noteq> 0 \<Longrightarrow> odd (sint (?a ! i)) \<and> \<bar>sint (?a ! i)\<bar> \<le> 15" "?b ! i \<noteq> 0 \<Longrightarrow> odd (sint (?b ! i)) \<and> \<bar>sint (?b ! i)\<bar> \<le> 15"
      using ok i n(1) by (simp_all add: slide_ok_def)
    then show "p2_is (R + R + zmul (sint (?a ! i)) A + zmul (sint (?b ! i)) B)
        (ge_p1p1_to_p2 (fb (?b ! i) (fa (?a ! i) (ge_p2_dbl r))))"
      by (intro ge_p1p1_to_p2_rep add_b add_a ge_p2_dbl_ed r)
  qed (use n(1) len in simp_all)
  then show ?thesis by (simp only: v n(2))
qed

theorem ge_double_scalarmult_precomp_multiple:
  assumes a: "length a = 32" "le_val a < 2 ^ 255" and b: "length b = 32" "le_val b < 2 ^ 255"
    and p: "p3_is A p" and q: "p3_is B q"
  shows "p2_is (zmul (le_val a) A + zmul (le_val b) B)
    (ge_double_scalarmult_precomp_vartime a p b (ge_dsm_precomp q))"
  unfolding ge_double_scalarmult_precomp_vartime_def Let_def dsm_cached_window
  by (rule dsm_loop [OF a b]) (auto intro!: dsm_c.window_digit_multiple ge_dsm_precomp_multiples p q)

theorem ge_double_scalarmult_base_multiple:
  assumes a: "length a = 32" "le_val a < 2 ^ 255" and b: "length b = 32" "le_val b < 2 ^ 255"
    and p: "p3_is A p"
  shows "p2_is (zmul (le_val a) A + zmul (le_val b) ed_B) (ge_double_scalarmult_base_vartime a p b)"
  unfolding ge_double_scalarmult_base_vartime_def Let_def dsm_cached_window dsm_precomp_window
  by (rule dsm_loop [OF a b])
    (auto intro!: dsm_c.window_digit_multiple dsm_p.window_digit_multiple ge_dsm_precomp_multiples p ge_Bi_multiples)

end
