(* ===== verification/BaseTable.thy ===== *)
theory BaseTable
  imports BaseRowsD ScalarmultCorrect
begin

text \<open>
  The table \<open>ge_base\<close> and the multiplication of the base point that uses it, \<open>ge_scalarmult_base\<close>.
\<close>

section \<open>The rows of the table\<close>

fun rows_from :: "nat \<Rightarrow> ge_precomp list list \<Rightarrow> bool" where
  "rows_from i [] \<longleftrightarrow> True"
| "rows_from i (r # rs) \<longleftrightarrow> (\<forall>m<8. precomp_is (zmul (int m + 1) (row_base i)) (r ! m)) \<and> rows_from (i + 1) rs"

lemma rows_from_nth:
  "rows_from i rs \<Longrightarrow> j < length rs \<Longrightarrow> m < 8 \<Longrightarrow> precomp_is (zmul (int m + 1) (row_base (i + j))) (rs ! j ! m)"
proof (induction i rs arbitrary: j rule: rows_from.induct)
  case (2 i r rs)
  then show ?case by (cases j) auto
qed simp

lemma rows_from_ge_base: "rows_from 0 ge_base"
  unfolding ge_base_def rows_from.simps add_0 one_add_one numeral_plus_one add_num_simps
  by (intro conjI TrueI
    ge_base_row_0 ge_base_row_1 ge_base_row_2 ge_base_row_3 ge_base_row_4 ge_base_row_5 ge_base_row_6 ge_base_row_7
    ge_base_row_8 ge_base_row_9 ge_base_row_10 ge_base_row_11 ge_base_row_12 ge_base_row_13 ge_base_row_14 ge_base_row_15
    ge_base_row_16 ge_base_row_17 ge_base_row_18 ge_base_row_19 ge_base_row_20 ge_base_row_21 ge_base_row_22 ge_base_row_23
    ge_base_row_24 ge_base_row_25 ge_base_row_26 ge_base_row_27 ge_base_row_28 ge_base_row_29 ge_base_row_30 ge_base_row_31)

lemma ge_base_multiples:
  assumes "i < 32" and "m < 8"
  shows "precomp_is (zmul (int m + 1) (row_base i)) (ge_base ! i ! m)"
  using rows_from_nth [OF rows_from_ge_base, of i m] assms by (simp add: ge_base_def)

section \<open>The multiplication\<close>

lemma digits_val_pairs:
  "length e = 2 * n \<Longrightarrow> digits_val 16 e = 16 * (\<Sum>i<n. sint (e ! (2 * i + 1)) * 256 ^ i) + (\<Sum>i<n. sint (e ! (2 * i)) * 256 ^ i)"
proof (induction n arbitrary: e)
  case (Suc n)
  obtain x y f where e: "e = x # y # f" "length f = 2 * n"
    using Suc.prems by (auto simp: length_Suc_conv numeral_2_eq_2)
  show ?case using Suc.IH [OF e(2)] unfolding e(1) by (simp add: sum.lessThan_Suc_shift sum_distrib_left algebra_simps del: sum.lessThan_Suc)
qed simp

lemma ge_scalarmult_base_add_multiple:
  assumes "p3_is P h" and "i < 64" and "\<bar>sint (e ! i)\<bar> \<le> 8"
  shows "\<exists>h'. ge_scalarmult_base_add e i h = Some h' \<and> p3_is (P + zmul (sint (e ! i) * 256 ^ (i div 2)) ed_B) h'"
proof -
  have "i div 2 < 32" using assms(2) by simp
  then obtain t where t: "select (i div 2) (e ! i) = Some t" "precomp_is (zmul (sint (e ! i)) (row_base (i div 2))) t"
    using select_multiple [of "row_base (i div 2)" "i div 2" "e ! i", OF ge_base_multiples assms(3)] by blast
  have "p3_is (P + zmul (sint (e ! i)) (row_base (i div 2))) (ge_p1p1_to_p3 (ge_madd h t))"
    by (intro ge_rules assms(1) t(2))
  then show ?thesis by (simp add: ge_scalarmult_base_add_def t(1) row_base_def zmul_mult)
qed

lemma ge_scalarmult_base_pass:
  assumes "p3_is P h" and "length e = 64" and "\<forall>d\<in>set e. \<bar>sint d\<bar> \<le> 8" and "c \<le> 1"
  shows "\<exists>h'. opt_fold (ge_scalarmult_base_add e) (map (\<lambda>i. 2 * i + c) [0..<32]) h = Some h'
    \<and> p3_is (P + zmul (\<Sum>i<32. sint (e ! (2 * i + c)) * 256 ^ i) ed_B) h'"
proof -
  let ?xs = "map (\<lambda>i. 2 * i + c) [0..<32]"
  let ?I = "\<lambda>k h. p3_is (P + zmul (\<Sum>i<k. sint (e ! (2 * i + c)) * 256 ^ i) ed_B) h"
  have "\<exists>h'. opt_fold (ge_scalarmult_base_add e) ?xs h = Some h' \<and> ?I (length ?xs) h'"
  proof (rule opt_fold_invariant)
    show "?I 0 h" using assms(1) by simp
    fix k h assume "k < length ?xs" and h: "?I k h"
    then have k: "k < 32" "?xs ! k = 2 * k + c" "(2 * k + c) div 2 = k" "2 * k + c < 64" using assms(4) by auto
    then have "\<bar>sint (e ! (2 * k + c))\<bar> \<le> 8" using assms(2,3) by simp
    from ge_scalarmult_base_add_multiple [OF h k(4) this]
    show "\<exists>s'. ge_scalarmult_base_add e (?xs ! k) h = Some s' \<and> ?I (Suc k) s'"
      unfolding k(2,3) by (simp add: zmul_add add.assoc)
  qed
  then show ?thesis by simp
qed

theorem ge_scalarmult_base_multiple:
  assumes "length a = 32" and "a ! 31 \<le> 127"
  shows "\<exists>r. ge_scalarmult_base a = Some r \<and> p3_is (zmul (le_val a) ed_B) r"
proof -
  define e where "e = ge_base_carries 0 (ge_base_nibbles a)"
  note d = ge_base_digits_correct [OF assms, folded e_def]
  let ?o = "\<Sum>i<32. sint (e ! (2 * i + 1)) * 256 ^ i" and ?e = "\<Sum>i<32. sint (e ! (2 * i)) * 256 ^ i"
  have v: "le_val a = 16 * ?o + ?e" using digits_val_pairs [of e 32] d(1,3) by simp
  obtain h where h: "opt_fold (ge_scalarmult_base_add e) (map (\<lambda>i. 2 * i + 1) [0..<32]) ge_p3_0 = Some h"
    "p3_is (zmul ?o ed_B) h"
    using ge_scalarmult_base_pass [OF ge_p3_0_ed d(1,2), of 1] by auto
  let ?h = "ge_p1p1_to_p3 (ge_p2_dbl (ge_p1p1_to_p2 (ge_p2_dbl (ge_p1p1_to_p2 (ge_p2_dbl (ge_p1p1_to_p2 (ge_p3_dbl h)))))))"
  have "p3_is (zmul 16 (zmul ?o ed_B)) ?h" unfolding zmul_16 by (intro ge_rules h(2))
  from ge_scalarmult_base_pass [OF this d(1,2), of 0]
  obtain r where "opt_fold (ge_scalarmult_base_add e) (map (\<lambda>i. 2 * i) [0..<32]) ?h = Some r"
    "p3_is (zmul 16 (zmul ?o ed_B) + zmul ?e ed_B) r" by auto
  then show ?thesis
    unfolding v zmul_add zmul_mult by (simp add: ge_scalarmult_base_def Let_def h(1) [simplified] flip: e_def)
qed

end
