(* ===== verification/Sc.thy ===== *)
theory Sc
  imports FeBytes
begin

text \<open>
  Scalars modulo the group order: \<open>sc_0\<close>, \<open>sc_reduce\<close>, \<open>sc_reduce32\<close>, \<open>sc_add\<close>,
  \<open>sc_sub\<close>, \<open>sc_mulsub\<close>, \<open>sc_check\<close> and \<open>sc_isnonzero\<close> of \<open>crypto-ops.c\<close>.  The local
  variables \<open>s0, s1, ...\<close> (21 bits each) are a list of 64-bit words and the statements are
  programs of \<^typ>\<open>limb_op\<close>.
\<close>

section \<open>Definitions\<close>

text \<open>The group order, from the comment before \<open>sc_reduce\<close>.\<close>

definition sc_order :: int where
  "sc_order = 2 ^ 252 + 27742317777372353535851937790883648493"

text \<open>Unpacking a 32-byte scalar into 12 limbs and a 64-byte number into 24.\<close>

definition sc_load :: "bytes \<Rightarrow> i64 list" where
  "sc_load a =
     [2097151 AND load_3 a, 2097151 AND drop_bit 5 (load_4 (drop 2 a)),
      2097151 AND drop_bit 2 (load_3 (drop 5 a)), 2097151 AND drop_bit 7 (load_4 (drop 7 a)),
      2097151 AND drop_bit 4 (load_4 (drop 10 a)), 2097151 AND drop_bit 1 (load_3 (drop 13 a)),
      2097151 AND drop_bit 6 (load_4 (drop 15 a)), 2097151 AND drop_bit 3 (load_3 (drop 18 a)),
      2097151 AND load_3 (drop 21 a), 2097151 AND drop_bit 5 (load_4 (drop 23 a)),
      2097151 AND drop_bit 2 (load_3 (drop 26 a)), drop_bit 7 (load_4 (drop 28 a))]"

definition sc_load64 :: "bytes \<Rightarrow> i64 list" where
  "sc_load64 s =
     [2097151 AND load_3 s, 2097151 AND drop_bit 5 (load_4 (drop 2 s)),
      2097151 AND drop_bit 2 (load_3 (drop 5 s)), 2097151 AND drop_bit 7 (load_4 (drop 7 s)),
      2097151 AND drop_bit 4 (load_4 (drop 10 s)), 2097151 AND drop_bit 1 (load_3 (drop 13 s)),
      2097151 AND drop_bit 6 (load_4 (drop 15 s)), 2097151 AND drop_bit 3 (load_3 (drop 18 s)),
      2097151 AND load_3 (drop 21 s), 2097151 AND drop_bit 5 (load_4 (drop 23 s)),
      2097151 AND drop_bit 2 (load_3 (drop 26 s)), 2097151 AND drop_bit 7 (load_4 (drop 28 s)),
      2097151 AND drop_bit 4 (load_4 (drop 31 s)), 2097151 AND drop_bit 1 (load_3 (drop 34 s)),
      2097151 AND drop_bit 6 (load_4 (drop 36 s)), 2097151 AND drop_bit 3 (load_3 (drop 39 s)),
      2097151 AND load_3 (drop 42 s), 2097151 AND drop_bit 5 (load_4 (drop 44 s)),
      2097151 AND drop_bit 2 (load_3 (drop 47 s)), 2097151 AND drop_bit 7 (load_4 (drop 49 s)),
      2097151 AND drop_bit 4 (load_4 (drop 52 s)), 2097151 AND drop_bit 1 (load_3 (drop 55 s)),
      2097151 AND drop_bit 6 (load_4 (drop 57 s)), drop_bit 3 (load_4 (drop 60 s))]"

text \<open>
  Eliminating limb \<open>j\<close>: the six statements \<open>s(j-12) += s(j) * 666643\<close> up to
  \<open>s(j-7) -= s(j) * 683901\<close>.
\<close>

definition sc_fold :: "nat \<Rightarrow> limb_op list" where
  "sc_fold j =
     [MulAdd (j - 12) j 666643, MulAdd (j - 11) j 470296, MulAdd (j - 10) j 654183,
      MulSub (j - 9) j 997805, MulAdd (j - 8) j 136657, MulSub (j - 7) j 683901]"

text \<open>\<open>carry(i) = (s(i) + (1<<20)) >> 21; s(i+1) += carry(i); s(i) -= carry(i) << 21\<close>, for each index in turn.\<close>

definition sc_round_carries :: "nat list \<Rightarrow> limb_op list" where
  "sc_round_carries is = map (\<lambda>i. CarryR 21 i (i + 1) 1) is"

text \<open>\<open>carry(i) = s(i) >> 21; s(i+1) += carry(i); s(i) -= carry(i) << 21\<close>, for each index in turn.\<close>

definition sc_floor_carries :: "nat list \<Rightarrow> limb_op list" where
  "sc_floor_carries is = map (\<lambda>i. CarryF 21 i (i + 1)) is"

text \<open>From 24 limbs to 12, the first half of \<open>sc_reduce\<close> and the middle of \<open>sc_mulsub\<close>.\<close>

definition sc_fold_upper :: "limb_op list" where
  "sc_fold_upper =
     sc_fold 23 @ sc_fold 22 @ sc_fold 21 @ sc_fold 20 @ sc_fold 19 @ sc_fold 18
     @ sc_round_carries [6, 8, 10, 12, 14, 16, 7, 9, 11, 13, 15]
     @ sc_fold 17 @ sc_fold 16 @ sc_fold 15 @ sc_fold 14 @ sc_fold 13 @ sc_fold 12
     @ [ClearLimb 12]"

text \<open>The common end of all five reductions: rounding carries, a fold, floor carries, a fold, floor carries.\<close>

definition sc_round :: "limb_op list" where
  "sc_round = sc_round_carries [0, 2, 4, 6, 8, 10, 1, 3, 5, 7, 9, 11] @ sc_fold 12 @ [ClearLimb 12]"

definition sc_finish :: "limb_op list" where
  "sc_finish = sc_floor_carries [0, 1, 2, 3, 4, 5, 6, 7, 8, 9, 10, 11] @ sc_fold 12
     @ sc_floor_carries [0, 1, 2, 3, 4, 5, 6, 7, 8, 9, 10]"

text \<open>The 32 stores.\<close>

definition sc_store :: "i64 list \<Rightarrow> bytes" where
  "sc_store s =
     (let s0 = s ! 0; s1 = s ! 1; s2 = s ! 2; s3 = s ! 3; s4 = s ! 4; s5 = s ! 5; s6 = s ! 6;
          s7 = s ! 7; s8 = s ! 8; s9 = s ! 9; s10 = s ! 10; s11 = s ! 11
      in [scast (signed_drop_bit 0 s0), scast (signed_drop_bit 8 s0),
          scast (signed_drop_bit 16 s0 OR push_bit 5 s1), scast (signed_drop_bit 3 s1),
          scast (signed_drop_bit 11 s1), scast (signed_drop_bit 19 s1 OR push_bit 2 s2),
          scast (signed_drop_bit 6 s2), scast (signed_drop_bit 14 s2 OR push_bit 7 s3),
          scast (signed_drop_bit 1 s3), scast (signed_drop_bit 9 s3),
          scast (signed_drop_bit 17 s3 OR push_bit 4 s4), scast (signed_drop_bit 4 s4),
          scast (signed_drop_bit 12 s4), scast (signed_drop_bit 20 s4 OR push_bit 1 s5),
          scast (signed_drop_bit 7 s5), scast (signed_drop_bit 15 s5 OR push_bit 6 s6),
          scast (signed_drop_bit 2 s6), scast (signed_drop_bit 10 s6),
          scast (signed_drop_bit 18 s6 OR push_bit 3 s7), scast (signed_drop_bit 5 s7),
          scast (signed_drop_bit 13 s7), scast (signed_drop_bit 0 s8),
          scast (signed_drop_bit 8 s8), scast (signed_drop_bit 16 s8 OR push_bit 5 s9),
          scast (signed_drop_bit 3 s9), scast (signed_drop_bit 11 s9),
          scast (signed_drop_bit 19 s9 OR push_bit 2 s10), scast (signed_drop_bit 6 s10),
          scast (signed_drop_bit 14 s10 OR push_bit 7 s11), scast (signed_drop_bit 1 s11),
          scast (signed_drop_bit 9 s11), scast (signed_drop_bit 17 s11)])"

definition sc_0 :: bytes where
  "sc_0 = map (\<lambda>i. 0) [0..<32]"

text \<open>The in-place operations leave the bytes after the first 32 as they were.\<close>

definition sc_reduce :: "bytes \<Rightarrow> bytes" where
  "sc_reduce s = sc_store (exec_ops (sc_fold_upper @ sc_round @ sc_finish) (sc_load64 s)) @ drop 32 s"

definition sc_reduce32 :: "bytes \<Rightarrow> bytes" where
  "sc_reduce32 s = sc_store (exec_ops (sc_round @ sc_finish) (sc_load s @ [0])) @ drop 32 s"

definition sc_add :: "bytes \<Rightarrow> bytes \<Rightarrow> bytes" where
  "sc_add a b = sc_store (exec_ops (sc_round @ sc_finish) (map2 (+) (sc_load a) (sc_load b) @ [0]))"

definition sc_sub :: "bytes \<Rightarrow> bytes \<Rightarrow> bytes" where
  "sc_sub a b = sc_store (exec_ops (sc_round @ sc_finish) (map2 (-) (sc_load a) (sc_load b) @ [0]))"

definition sc_mulsub_s :: "i64 list \<Rightarrow> i64 list \<Rightarrow> i64 list \<Rightarrow> i64 list" where
  "sc_mulsub_s a b c =
     (let a0 = a ! 0; a1 = a ! 1; a2 = a ! 2; a3 = a ! 3; a4 = a ! 4; a5 = a ! 5; a6 = a ! 6;
          a7 = a ! 7; a8 = a ! 8; a9 = a ! 9; a10 = a ! 10; a11 = a ! 11;
          b0 = b ! 0; b1 = b ! 1; b2 = b ! 2; b3 = b ! 3; b4 = b ! 4; b5 = b ! 5; b6 = b ! 6;
          b7 = b ! 7; b8 = b ! 8; b9 = b ! 9; b10 = b ! 10; b11 = b ! 11;
          c0 = c ! 0; c1 = c ! 1; c2 = c ! 2; c3 = c ! 3; c4 = c ! 4; c5 = c ! 5; c6 = c ! 6;
          c7 = c ! 7; c8 = c ! 8; c9 = c ! 9; c10 = c ! 10; c11 = c ! 11;
          s0 = c0 - a0 * b0;
          s1 = c1 - (a0 * b1 + a1 * b0);
          s2 = c2 - (a0 * b2 + a1 * b1 + a2 * b0);
          s3 = c3 - (a0 * b3 + a1 * b2 + a2 * b1 + a3 * b0);
          s4 = c4 - (a0 * b4 + a1 * b3 + a2 * b2 + a3 * b1 + a4 * b0);
          s5 = c5 - (a0 * b5 + a1 * b4 + a2 * b3 + a3 * b2 + a4 * b1 + a5 * b0);
          s6 = c6 - (a0 * b6 + a1 * b5 + a2 * b4 + a3 * b3 + a4 * b2 + a5 * b1 + a6 * b0);
          s7 = c7 - (a0 * b7 + a1 * b6 + a2 * b5 + a3 * b4 + a4 * b3 + a5 * b2 + a6 * b1 + a7
              * b0);
          s8 = c8 - (a0 * b8 + a1 * b7 + a2 * b6 + a3 * b5 + a4 * b4 + a5 * b3 + a6 * b2 + a7
              * b1 + a8 * b0);
          s9 = c9 - (a0 * b9 + a1 * b8 + a2 * b7 + a3 * b6 + a4 * b5 + a5 * b4 + a6 * b3 + a7
              * b2 + a8 * b1 + a9 * b0);
          s10 = c10 - (a0 * b10 + a1 * b9 + a2 * b8 + a3 * b7 + a4 * b6 + a5 * b5 + a6 * b4 +
              a7 * b3 + a8 * b2 + a9 * b1 + a10 * b0);
          s11 = c11 - (a0 * b11 + a1 * b10 + a2 * b9 + a3 * b8 + a4 * b7 + a5 * b6 + a6 * b5 +
              a7 * b4 + a8 * b3 + a9 * b2 + a10 * b1 + a11 * b0);
          s12 = - (a1 * b11 + a2 * b10 + a3 * b9 + a4 * b8 + a5 * b7 + a6 * b6 + a7 * b5 + a8
              * b4 + a9 * b3 + a10 * b2 + a11 * b1);
          s13 = - (a2 * b11 + a3 * b10 + a4 * b9 + a5 * b8 + a6 * b7 + a7 * b6 + a8 * b5 + a9
              * b4 + a10 * b3 + a11 * b2);
          s14 = - (a3 * b11 + a4 * b10 + a5 * b9 + a6 * b8 + a7 * b7 + a8 * b6 + a9 * b5 + a10
              * b4 + a11 * b3);
          s15 = - (a4 * b11 + a5 * b10 + a6 * b9 + a7 * b8 + a8 * b7 + a9 * b6 + a10 * b5 +
              a11 * b4);
          s16 = - (a5 * b11 + a6 * b10 + a7 * b9 + a8 * b8 + a9 * b7 + a10 * b6 + a11 * b5);
          s17 = - (a6 * b11 + a7 * b10 + a8 * b9 + a9 * b8 + a10 * b7 + a11 * b6);
          s18 = - (a7 * b11 + a8 * b10 + a9 * b9 + a10 * b8 + a11 * b7);
          s19 = - (a8 * b11 + a9 * b10 + a10 * b9 + a11 * b8);
          s20 = - (a9 * b11 + a10 * b10 + a11 * b9);
          s21 = - (a10 * b11 + a11 * b10);
          s22 = - a11 * b11;
          s23 = 0
      in [s0, s1, s2, s3, s4, s5, s6, s7, s8, s9, s10, s11, s12, s13, s14, s15, s16, s17, s18,
          s19, s20, s21, s22, s23])"

definition sc_product_carries :: "limb_op list" where
  "sc_product_carries = sc_round_carries [0, 2, 4, 6, 8, 10, 12, 14, 16, 18, 20, 22,
     1, 3, 5, 7, 9, 11, 13, 15, 17, 19, 21]"

definition sc_mulsub :: "bytes \<Rightarrow> bytes \<Rightarrow> bytes \<Rightarrow> bytes" where
  "sc_mulsub a b c =
     (let s = sc_mulsub_s (sc_load a) (sc_load b) (sc_load c);
          s = exec_ops sc_product_carries s
      in sc_store (exec_ops (sc_fold_upper @ sc_round @ sc_finish) s))"

definition signum :: "i64 \<Rightarrow> i64" where
  "signum a = signed_drop_bit 63 a - signed_drop_bit 63 (- a)"

definition sc_check :: "bytes \<Rightarrow> i32" where
  "sc_check s =
     (let s0 = load_4 s; s1 = load_4 (drop 4 s); s2 = load_4 (drop 8 s); s3 = load_4 (drop 12 s);
          s4 = load_4 (drop 16 s); s5 = load_4 (drop 20 s); s6 = load_4 (drop 24 s);
          s7 = load_4 (drop 28 s)
      in scast (signed_drop_bit 8 (signum (1559614444 - s0) + push_bit 1 (signum (1477600026 - s1))
           + push_bit 2 (signum (2734136534 - s2)) + push_bit 3 (signum (350157278 - s3))
           + push_bit 4 (signum (- s4)) + push_bit 5 (signum (- s5))
           + push_bit 6 (signum (- s6)) + push_bit 7 (signum (268435456 - s7)))))"

definition sc_isnonzero :: "bytes \<Rightarrow> i32" where
  "sc_isnonzero s =
     (let s = (\<lambda>i. ucast (s ! i) :: i32)
      in signed_drop_bit 8 ((s 0 OR s 1 OR s 2 OR s 3 OR s 4 OR s 5 OR s 6 OR s 7 OR s 8 OR
           s 9 OR s 10 OR s 11 OR s 12 OR s 13 OR s 14 OR s 15 OR s 16 OR s 17 OR
           s 18 OR s 19 OR s 20 OR s 21 OR s 22 OR s 23 OR s 24 OR s 25 OR s 26 OR
           s 27 OR s 28 OR s 29 OR s 30 OR s 31) - 1) + 1)"

section \<open>The radix and the fold\<close>

definition sc_wt :: "nat \<Rightarrow> int" where
  "sc_wt i = 2 ^ (21 * i)"

interpretation sc_radix: limb_radix sc_wt "\<lambda>_. 21"
  by unfold_locales (simp_all add: sc_wt_def power_add)

lemma sc_wt_add: "sc_wt (i + k) = sc_wt i * 2 ^ (21 * k)"
  by (simp add: sc_wt_def power_add distrib_left)

lemma sc_wt_ge_12: "12 \<le> j \<Longrightarrow> sc_wt j = sc_wt (j - 12) * 2 ^ 252"
  using sc_wt_add [of "j - 12" 12] by simp

text \<open>Eliminating limb \<open>j\<close> subtracts a multiple of the order.\<close>

lemma sc_fold_value:
  assumes "12 \<le> j" and "j < length h"
  shows "limb_value sc_wt j (int_ops (sc_fold j) h)
    = limb_value sc_wt (Suc j) h - h ! j * sc_wt (j - 12) * sc_order"
proof -
  obtain i where j: "j = i + 12" using assms(1) by (metis add.commute le_Suc_ex)
  have "limb_value sc_wt j (int_ops (sc_fold j) h) = limb_value sc_wt j h
      + h ! j * (sc_wt i * 666643 + sc_wt (i + 1) * 470296 + sc_wt (i + 2) * 654183
        - sc_wt (i + 3) * 997805 + sc_wt (i + 4) * 136657 - sc_wt (i + 5) * 683901)"
    using assms unfolding j sc_fold_def
    by (simp add: limb_value_update nth_list_update algebra_simps)
  also have "\<dots> = limb_value sc_wt (Suc j) h - h ! j * sc_wt (j - 12) * sc_order"
    unfolding limb_value_Suc sc_wt_ge_12 [OF assms(1)] sc_wt_add
    by (simp add: j sc_order_def algebra_simps)
  finally show ?thesis .
qed

text \<open>
  The value of the limbs still in use, modulo the order, through a stretch of the program:
  \<open>n\<close> limbs before, \<open>m\<close> after, \<open>w\<close> the number of limbs the list must have.
\<close>

definition sc_keeps :: "nat \<Rightarrow> nat \<Rightarrow> limb_op list \<Rightarrow> nat \<Rightarrow> bool" where
  "sc_keeps w n ops m \<longleftrightarrow>
     (\<forall>h. w \<le> length h \<longrightarrow>
        limb_value sc_wt m (int_ops ops h) mod sc_order = limb_value sc_wt n h mod sc_order)"

lemma sc_keeps_append:
  "sc_keeps w n xs k \<Longrightarrow> sc_keeps w k ys m \<Longrightarrow> sc_keeps w n (xs @ ys) m"
  by (simp add: sc_keeps_def int_ops_append)

lemma sc_keeps_fold: "12 \<le> j \<Longrightarrow> j < w \<Longrightarrow> sc_keeps w (Suc j) (sc_fold j) j"
  unfolding sc_keeps_def by (simp add: sc_fold_value mod_diff_eq [symmetric])

lemma sc_keeps_carries: "list_all (\<lambda>i. i + 1 < n) is \<Longrightarrow> n \<le> w \<Longrightarrow> sc_keeps w n (sc_round_carries is) n"
  unfolding sc_keeps_def sc_round_carries_def
  by (intro allI impI arg_cong [where f = "\<lambda>x. x mod sc_order"] sc_radix.value_carry_chain)
    (auto simp: list_all_iff sc_radix.carry_stmt_def)

lemma sc_keeps_clear: "n < w \<Longrightarrow> sc_keeps w n [ClearLimb n] (Suc n)"
  unfolding sc_keeps_def
  by (auto simp: limb_value_Suc limb_value_update_ge)

lemma sc_fold_upper_keeps: "sc_keeps 24 24 sc_fold_upper 13"
  unfolding sc_fold_upper_def
  using sc_keeps_fold [of 23 24] sc_keeps_fold [of 22 24] sc_keeps_fold [of 21 24]
    sc_keeps_fold [of 20 24] sc_keeps_fold [of 19 24] sc_keeps_fold [of 18 24]
    sc_keeps_carries [of 18 "[6, 8, 10, 12, 14, 16, 7, 9, 11, 13, 15]" 24]
    sc_keeps_fold [of 17 24] sc_keeps_fold [of 16 24] sc_keeps_fold [of 15 24]
    sc_keeps_fold [of 14 24] sc_keeps_fold [of 13 24] sc_keeps_fold [of 12 24] sc_keeps_clear [of 12 24]
  by (auto intro!: sc_keeps_append)

lemma sc_round_keeps: "sc_keeps 13 13 sc_round 13"
  unfolding sc_round_def
  using sc_keeps_carries [of 13 "[0, 2, 4, 6, 8, 10, 1, 3, 5, 7, 9, 11]" 13]
    sc_keeps_fold [of 12 13] sc_keeps_clear [of 12 13]
  by (auto intro!: sc_keeps_append)

section \<open>Ranges\<close>

text \<open>
  The ranges of the limbs at the seams of the reductions: \<open>sc_iv_product\<close> after the products
  of \<open>sc_mulsub\<close>, \<open>sc_iv_24\<close> before \<^const>\<open>sc_fold_upper\<close>, \<open>sc_iv_13\<close> before
  \<^const>\<open>sc_round\<close>, \<open>sc_iv_mid\<close> before \<^const>\<open>sc_finish\<close>.
\<close>

definition sc_iv_product :: "iv list" where
  "sc_iv_product = replicate 23 (- (2 ^ 54), 2 ^ 54) @ [(0, 0)]"

definition sc_iv_24 :: "iv list" where
  "sc_iv_24 = map (\<lambda>i. if even i \<or> i = 23 then (- (2 ^ 33 + 2 ^ 21), 2 ^ 33 + 2 ^ 21) else (- (2 ^ 21), 2 ^ 21)) [0..<24]"

definition sc_iv_13 :: "iv list" where
  "sc_iv_13 = replicate 12 (- (2 ^ 58), 2 ^ 58) @ [(0, 0)]"

definition sc_iv_upper :: "iv list" where
  "sc_iv_upper = sc_iv_13 @ replicate 11 (- (2 ^ 40), 2 ^ 40)"

definition sc_iv_mid :: "iv list" where
  "sc_iv_mid = replicate 6 (- (2 ^ 61), 2 ^ 61) @ replicate 5 (- (2 ^ 40), 2 ^ 40)
     @ [(- (2 ^ 20), 2 ^ 20 - 1), (0, 0)]"

definition sc_iv_digits :: "iv list" where
  "sc_iv_digits = map (\<lambda>i. if i = 12 then (- 1, 0) else (0, 2 ^ 21 - 1)) [0..<13]"

definition sc_iv_end :: "iv list" where
  "sc_iv_end = map (\<lambda>i. if i = 11 then (- 1, 2 ^ 21) else if i = 12 then (- 1, 0) else (0, 2 ^ 21 - 1))
     [0..<13]"

lemma sc_run_product: "iv_run LENGTH(64) sc_product_carries sc_iv_product sc_iv_24"
  by code_simp

lemma sc_run_upper: "iv_run LENGTH(64) sc_fold_upper sc_iv_24 sc_iv_upper"
  by code_simp

lemma sc_run_round: "iv_run LENGTH(64) sc_round sc_iv_13 sc_iv_mid"
  by code_simp

abbreviation sc_floor_11 :: "limb_op list" where
  "sc_floor_11 \<equiv> sc_floor_carries [0, 1, 2, 3, 4, 5, 6, 7, 8, 9, 10, 11]"

abbreviation sc_last :: "limb_op list" where
  "sc_last \<equiv> sc_fold 12 @ sc_floor_carries [0, 1, 2, 3, 4, 5, 6, 7, 8, 9, 10]"

lemma sc_run_floor: "iv_run LENGTH(64) sc_floor_11 sc_iv_mid sc_iv_digits"
  by code_simp

lemma sc_run_last: "iv_run LENGTH(64) sc_last sc_iv_digits sc_iv_end"
  by code_simp

section \<open>The end of the reductions\<close>

lemma sc_floor_value:
  assumes "list_all (\<lambda>i. i + 1 < n) is" and "n \<le> length h"
  shows "limb_value sc_wt n (int_ops (sc_floor_carries is) h) = limb_value sc_wt n h"
  using assms unfolding sc_floor_carries_def
  by (intro sc_radix.value_carry_chain) (auto simp: list_all_iff sc_radix.carry_stmt_def)

text \<open>
  With limb 12 at 0 the floor carries leave the digits of the value in limbs 0 to 11 and
  \<open>-1\<close> or \<open>0\<close> in limb 12, and the last fold turns this into the residue.
\<close>

lemma sc_finish_residue:
  fixes h :: "i64 list"
  assumes "iv_ok (map sint h) sc_iv_mid"
  shows "iv_ok (map sint (exec_ops sc_finish h)) sc_iv_end"
    and "limb_value sc_wt 12 (map sint (exec_ops sc_finish h))
      = limb_value sc_wt 13 (map sint h) mod sc_order"
proof -
  let ?g = "exec_ops sc_floor_11 h"
  note f = iv_run_sound [OF sc_run_floor assms]
  have g: "iv_ok (map sint ?g) sc_iv_digits" using f by simp
  note l = iv_run_sound [OF sc_run_last g]
  have fin: "exec_ops sc_finish h = exec_ops sc_last ?g"
    by (simp add: sc_finish_def exec_ops_append)
  show "iv_ok (map sint (exec_ops sc_finish h)) sc_iv_end" using l by (simp add: fin)
  have len: "length h = 13" using assms by (simp add: iv_ok_def sc_iv_mid_def)
  let ?G = "map sint ?g"
  have d: "0 \<le> ?G ! i \<and> ?G ! i < 2 ^ 21" if "i < 12" for i
    using iv_ok_nth [OF g, of i 0 "2 ^ 21 - 1"] that by (simp add: sc_iv_digits_def len del: upt_Suc)
  have t: "?G ! 12 = - 1 \<or> ?G ! 12 = 0"
    using iv_ok_nth [OF g, of 12 "- 1" 0] by (simp add: sc_iv_digits_def len del: upt_Suc) linarith
  have b: "0 \<le> limb_value sc_wt 12 ?G" "limb_value sc_wt 12 ?G < 2 ^ 252"
    using sc_radix.value_digits_bounds [of 12 ?G] d by (simp_all add: sc_wt_def)
  have v: "limb_value sc_wt 13 (map sint h) = limb_value sc_wt 12 ?G + 2 ^ 252 * ?G ! 12"
  proof -
    have "limb_value sc_wt 13 ?G = limb_value sc_wt 13 (map sint h)"
      unfolding f(1) by (rule sc_floor_value) (simp_all add: len)
    then show ?thesis using limb_value_Suc [of sc_wt 12 ?G] by (simp add: sc_wt_def)
  qed
  have "limb_value sc_wt 12 (map sint (exec_ops sc_finish h))
      = limb_value sc_wt 13 ?G - ?G ! 12 * sc_order"
    unfolding fin l(1) int_ops_append
    by (subst sc_floor_value) (simp_all add: len sc_fold_value sc_wt_def)
  also have "\<dots> = limb_value sc_wt 12 ?G + 2 ^ 252 * ?G ! 12 - ?G ! 12 * sc_order"
    using limb_value_Suc [of sc_wt 12 ?G] by (simp add: sc_wt_def)
  finally have e: "limb_value sc_wt 12 (map sint (exec_ops sc_finish h))
      = limb_value sc_wt 13 (map sint h) - ?G ! 12 * sc_order" by (simp add: v)
  have r: "0 \<le> limb_value sc_wt 13 (map sint h) - ?G ! 12 * sc_order"
    "limb_value sc_wt 13 (map sint h) - ?G ! 12 * sc_order < sc_order"
    using t b unfolding v by (auto simp: sc_order_def)
  from residue_unique [OF r] show "limb_value sc_wt 12 (map sint (exec_ops sc_finish h))
      = limb_value sc_wt 13 (map sint h) mod sc_order"
    by (simp only: e)
qed

section \<open>Unpacking and packing\<close>

lemma uint_load_4_bits:
  assumes "k + 4 \<le> length a"
  shows "uint (load_4 (drop k a)) = take_bit 32 (drop_bit (8 * k) (le_val a))"
proof -
  have "take 4 (drop k a) = [a ! k, a ! (k + 1), a ! (k + 2), a ! (k + 3)]"
    using assms by (simp add: list_eq_iff_nth_eq less_Suc_eq numeral_eq_Suc) 
  then have "le_val (take 4 (drop k a)) = uint (load_4 (drop k a))"
    using assms by (simp add: uint_load_4)
  then show ?thesis using le_val_take_drop [OF assms] by simp
qed

lemma uint_load_3_bits:
  assumes "k + 3 \<le> length a"
  shows "uint (load_3 (drop k a)) = take_bit 24 (drop_bit (8 * k) (le_val a))"
proof -
  have "take 3 (drop k a) = [a ! k, a ! (k + 1), a ! (k + 2)]"
    using assms by (simp add: list_eq_iff_nth_eq less_Suc_eq numeral_eq_Suc)
  then have "le_val (take 3 (drop k a)) = uint (load_3 (drop k a))"
    using assms by (simp add: uint_load_3)
  then show ?thesis using le_val_take_drop [OF assms] by simp
qed

lemma sint_eq_uint: "uint (x :: u64) < 2 ^ 32 \<Longrightarrow> sint x = uint x"
  using sint_push_load [of x 0] by simp

lemma sc_group:
  fixes x :: u64
  assumes "uint x = take_bit m (drop_bit e v)" and "m \<le> 32"
  shows "21 + j \<le> m \<Longrightarrow> sint (2097151 AND drop_bit j x) = take_bit 21 (drop_bit (e + j) v)"
    and "sint (drop_bit j x) = take_bit (m - j) (drop_bit (e + j) v)"
proof -
  have d: "uint (drop_bit j x) = take_bit (m - j) (drop_bit (e + j) v)"
    by (simp add: unsigned_drop_bit_eq assms(1)) (rule bit_eqI, use assms(2) in \<open>auto simp: bit_simps ac_simps\<close>)
  then show "sint (drop_bit j x) = take_bit (m - j) (drop_bit (e + j) v)"
    using take_bit_lt_32 [of "m - j" "drop_bit (e + j) v"] assms(2) by (simp add: sint_eq_uint)
  assume j: "21 + j \<le> m"
  have u: "uint (2097151 AND drop_bit j x) = take_bit 21 (drop_bit (e + j) v)"
    unfolding and_mask_21 unsigned_take_bit_eq d using j by (simp add: min_absorb1)
  then show "sint (2097151 AND drop_bit j x) = take_bit 21 (drop_bit (e + j) v)"
    using take_bit_lt_32 [of 21 "drop_bit (e + j) v"] by (simp add: sint_eq_uint)
qed

lemmas sc_group_4 = sc_group [OF uint_load_4_bits]
lemmas sc_group_3 = sc_group [OF uint_load_3_bits]

lemma sc_load_limbs:
  assumes "length a = 32"
  shows "map sint (sc_load a)
    = map (\<lambda>i. take_bit (if i = 11 then 25 else 21) (drop_bit (21 * i) (le_val a))) [0..<12]"
  unfolding sc_load_def
  using sc_group_3(1) [of 0 a 0] sc_group_4(1) [of 2 a 5] sc_group_3(1) [of 5 a 2]
    sc_group_4(1) [of 7 a 7] sc_group_4(1) [of 10 a 4] sc_group_3(1) [of 13 a 1]
    sc_group_4(1) [of 15 a 6] sc_group_3(1) [of 18 a 3] sc_group_3(1) [of 21 a 0]
    sc_group_4(1) [of 23 a 5] sc_group_3(1) [of 26 a 2] sc_group_4(2) [of 28 a 7] assms
  by (simp add: upt_rec)

lemma sc_load64_limbs:
  assumes "length a = 64"
  shows "map sint (sc_load64 a)
    = map (\<lambda>i. take_bit (if i = 23 then 29 else 21) (drop_bit (21 * i) (le_val a))) [0..<24]"
  unfolding sc_load64_def
  using sc_group_3(1) [of 0 a 0] sc_group_4(1) [of 2 a 5] sc_group_3(1) [of 5 a 2]
    sc_group_4(1) [of 7 a 7] sc_group_4(1) [of 10 a 4] sc_group_3(1) [of 13 a 1]
    sc_group_4(1) [of 15 a 6] sc_group_3(1) [of 18 a 3] sc_group_3(1) [of 21 a 0]
    sc_group_4(1) [of 23 a 5] sc_group_3(1) [of 26 a 2] sc_group_4(1) [of 28 a 7]
    sc_group_4(1) [of 31 a 4] sc_group_3(1) [of 34 a 1] sc_group_4(1) [of 36 a 6]
    sc_group_3(1) [of 39 a 3] sc_group_3(1) [of 42 a 0] sc_group_4(1) [of 44 a 5]
    sc_group_3(1) [of 47 a 2] sc_group_4(1) [of 49 a 7] sc_group_4(1) [of 52 a 4]
    sc_group_3(1) [of 55 a 1] sc_group_4(1) [of 57 a 6] sc_group_4(2) [of 60 a 3] assms
  by (simp add: upt_rec)

text \<open>Limbs that are the 21-bit groups of a number, the last one with all the rest of it.\<close>

lemma sc_groups_value:
  assumes "0 \<le> v" and "v < 2 ^ (r + 21 * n)" and "m = Suc n"
    and "h = map (\<lambda>i. take_bit (if i = n then r else 21) (drop_bit (21 * i) v)) [0..<m]"
  shows "limb_value sc_wt m h = v"
proof -
  have "h ! n = take_bit r (drop_bit (21 * n) v)"
    using assms(3,4) by (simp del: upt_Suc)
  also have "\<dots> = drop_bit (21 * n) v"
    using assms(1,2) by (simp add: take_bit_drop_bit take_bit_int_eq_self)
  finally have top: "h ! n = drop_bit (21 * n) v" .
  have "limb_value sc_wt n h = (\<Sum>i<n. take_bit 21 (drop_bit (21 * i) v) * 2 ^ (21 * i))"
    unfolding limb_value_def assms(3,4) sc_wt_def by (rule sum.cong) (simp_all del: upt_Suc)
  also have "\<dots> = take_bit (21 * n) v" by (rule digits_sum)
  finally show ?thesis
    by (simp add: assms(3) limb_value_Suc top sc_wt_def take_bit_eq_mod drop_bit_eq_div)
qed

lemma sc_load_value:
  assumes "length a = 32"
  shows "limb_value sc_wt 12 (map sint (sc_load a)) = le_val a"
  by (rule sc_groups_value [OF _ _ _ sc_load_limbs [OF assms]])
    (use le_val_less [OF assms] in simp_all)

lemma sc_load64_value:
  assumes "length a = 64"
  shows "limb_value sc_wt 24 (map sint (sc_load64 a)) = le_val a"
  by (rule sc_groups_value [OF _ _ _ sc_load64_limbs [OF assms]])
    (use le_val_less [OF assms] in simp_all)

lemma length_sc_store [simp]: "length (sc_store s) = 32"
  by (simp add: sc_store_def Let_def)

lemma sc_store_cong: "\<forall>i<12. s ! i = t ! i \<Longrightarrow> sc_store s = sc_store t"
  unfolding all_less_12 sc_store_def by (simp only:)

lemma sc_store_take: "12 \<le> n \<Longrightarrow> sc_store (take n s) = sc_store s"
  by (rule sc_store_cong) simp

lemma sc_store_value:
  assumes "iv_ok (map sint s) sc_iv_end" and "0 \<le> limb_value sc_wt 12 (map sint s)"
  shows "le_val (sc_store s) = limb_value sc_wt 12 (map sint s)"
proof -
  let ?S = "map sint s"
  let ?v = "limb_value sc_wt 12 ?S"
  have len: "length s = 13" using assms(1) by (simp add: iv_ok_def sc_iv_end_def)
  have d: "0 \<le> ?S ! i \<and> ?S ! i < 2 ^ 21" if "i < 11" for i
    using iv_ok_nth [OF assms(1), of i 0 "2 ^ 21 - 1"] that by (simp add: sc_iv_end_def len del: upt_Suc)
  have top: "?S ! 11 = ?v div sc_wt 11"
    using sc_radix.nth_top [of 11 ?S] d by (simp add: numeral_eq_Suc)
  have t: "?S ! 11 \<le> 2 ^ 21"
    using iv_ok_nth [OF assms(1), of 11 "- 1" "2 ^ 21"] by (simp add: sc_iv_end_def len del: upt_Suc)
  moreover have "0 \<le> ?S ! 11" unfolding top using assms(2) by (simp add: sc_wt_def)
  ultimately have top_bits: "sint (s ! 11) = take_bit 25 (drop_bit 231 ?v)"
    using top len by (simp add: take_bit_int_eq_self drop_bit_eq_div sc_wt_def)
  have "?v < 2 ^ 256"
  proof -
    have "limb_value sc_wt 11 ?S < sc_wt 11" using sc_radix.value_digits_bounds [of 11 ?S] d by simp
    then show ?thesis using t limb_value_Suc [of sc_wt 11 ?S] by (simp add: sc_wt_def)
  qed
  moreover have "sint (s ! i) = take_bit 21 (drop_bit (21 * i) ?v)" if "i < 11" for i
    using sc_radix.nth_digit [of 11 ?S i 12] d that len
    by (simp add: sc_wt_def take_bit_eq_mod drop_bit_eq_div)
  then have b': "bit (s ! i) n \<longleftrightarrow> n < 21 \<and> bit ?v (21 * i + n)" if "i < 11" for i n
    using that by (intro bit_limb) auto
  have b: "bit (s ! 0) n \<longleftrightarrow> n < 21 \<and> bit ?v n" 
     "bit (s ! 1) n \<longleftrightarrow> n < 21 \<and> bit ?v (21 + n)"
     "bit (s ! 2) n \<longleftrightarrow> n < 21 \<and> bit ?v (42 + n)"
     "bit (s ! 3) n \<longleftrightarrow> n < 21 \<and> bit ?v (63 + n)"
     "bit (s ! 4) n \<longleftrightarrow> n < 21 \<and> bit ?v (84 + n)"
     "bit (s ! 5) n \<longleftrightarrow> n < 21 \<and> bit ?v (105 + n)"
     "bit (s ! 6) n \<longleftrightarrow> n < 21 \<and> bit ?v (126 + n)"
     "bit (s ! 7) n \<longleftrightarrow> n < 21 \<and> bit ?v (147 + n)"
     "bit (s ! 8) n \<longleftrightarrow> n < 21 \<and> bit ?v (168 + n)"
     "bit (s ! 9) n \<longleftrightarrow> n < 21 \<and> bit ?v (189 + n)"
     "bit (s ! 10) n \<longleftrightarrow> n < 21 \<and> bit ?v (210 + n)"
     "bit (s ! 11) n \<longleftrightarrow> n < 25 \<and> bit ?v (231 + n)" for n
    using b' [of 0] b' [of 1] b' [of 2] b' [of 3] b' [of 4] b' [of 5] b' [of 6] b' [of 7] b' [of 8]
      b' [of 9] b' [of 10] bit_limb [OF top_bits] by simp_all
  have "octets_ok ?v 0 (sc_store s)"
    unfolding sc_store_def Let_def octets_ok.simps all_less_8
    by (simp add: bit_simps b b(2) [unfolded One_nat_def] numeral_2_eq_2 [symmetric] del: push_bit_Suc)
  ultimately show ?thesis
    using assms(2) by (intro le_val_octets_ok) simp_all
qed

section \<open>Reductions\<close>

lemma sc_tail_within: "list_all (op_within 13) (sc_round @ sc_finish)"
  by code_simp

lemma sc_tail_correct:
  fixes h :: "i64 list"
  assumes "iv_ok (map sint (take 13 h)) sc_iv_13"
  shows "le_val (sc_store (exec_ops (sc_round @ sc_finish) h))
    = limb_value sc_wt 13 (map sint h) mod sc_order"
proof -
  let ?h = "take 13 h"
  let ?g = "exec_ops sc_round ?h"
  have len: "13 \<le> length h" using iv_ok_length [OF assms] by (simp add: sc_iv_13_def)
  note r = iv_run_sound [OF sc_run_round assms]
  have g: "iv_ok (map sint ?g) sc_iv_mid" using r by simp
  have "limb_value sc_wt 13 (map sint ?g) mod sc_order = limb_value sc_wt 13 (map sint h) mod sc_order"
    using sc_round_keeps len limb_value_take [of 13 h 13 sc_wt] unfolding sc_keeps_def r(1) by simp
  then have v: "limb_value sc_wt 12 (map sint (exec_ops sc_finish ?g))
      = limb_value sc_wt 13 (map sint h) mod sc_order"
    using sc_finish_residue(2) [OF g] by simp
  have "sc_store (exec_ops (sc_round @ sc_finish) h) = sc_store (exec_ops sc_finish ?g)"
    using exec_ops_take [OF sc_tail_within, of h] sc_store_take [of 13 "exec_ops (sc_round @ sc_finish) h"]
    by (simp add: exec_ops_append)
  then show ?thesis
    using sc_store_value [OF sc_finish_residue(1) [OF g]] v by (simp add: sc_order_def)
qed

lemma sc_upper_correct:
  fixes h :: "i64 list"
  assumes "iv_ok (map sint h) sc_iv_24"
  shows "le_val (sc_store (exec_ops (sc_fold_upper @ sc_round @ sc_finish) h))
    = limb_value sc_wt 24 (map sint h) mod sc_order"
proof -
  note u = iv_run_sound [OF sc_run_upper assms]
  let ?g = "exec_ops sc_fold_upper h"
  have len: "length h = 24" using iv_ok_length [OF assms] by (simp add: sc_iv_24_def)
  have "iv_ok (map sint (take 13 ?g)) sc_iv_13"
    unfolding take_map [symmetric] u(1) using iv_ok_take [OF u(2), of 13]
    by (simp add: sc_iv_upper_def sc_iv_13_def)
  from sc_tail_correct [OF this] show ?thesis
    using sc_fold_upper_keeps len unfolding sc_keeps_def by (simp add: exec_ops_append u(1))
qed

lemma sc_load_bounds:
  assumes "length a = 32" and "i < 12"
  shows "0 \<le> sint (sc_load a ! i)" and "sint (sc_load a ! i) < 2 ^ 25"
proof -
  have "length (sc_load a) = 12" by (simp add: sc_load_def)
  then have e: "sint (sc_load a ! i) = take_bit (if i = 11 then 25 else 21) (drop_bit (21 * i) (le_val a))"
    using arg_cong [OF sc_load_limbs [OF assms(1)], of "\<lambda>x. x ! i"] assms(2) by (simp del: upt_Suc)
  show "0 \<le> sint (sc_load a ! i)" unfolding e by simp
  have "take_bit (if i = 11 then 25 else 21) (drop_bit (21 * i) (le_val a)) < 2 ^ (if i = 11 then 25 else 21)"
    by (rule take_bit_int_less_exp)
  also have "\<dots> \<le> (2 :: int) ^ 25" by simp
  finally show "sint (sc_load a ! i) < 2 ^ 25" unfolding e .
qed

lemma length_sc_load [simp]: "length (sc_load a) = 12"
  by (simp add: sc_load_def)

lemma sc_iv_13_snoc: "iv_ok (map sint (take 13 (h @ [0]))) sc_iv_13"
  if "length h = 12" and "\<And>i. i < 12 \<Longrightarrow> \<bar>sint (h ! i)\<bar> \<le> 2 ^ 58" for h :: "i64 list"
  using that by (auto simp: iv_ok_def sc_iv_13_def nth_append less_Suc_eq abs_le_iff2)

lemma sc_reduce32_residue:
  assumes "length s = 32"
  shows "le_val (sc_store (exec_ops (sc_round @ sc_finish) (sc_load s @ [0]))) = le_val s mod sc_order"
proof -
  have "\<bar>sint (sc_load s ! i)\<bar> \<le> 2 ^ 58" if "i < 12" for i
    using sc_load_bounds [OF assms that] by simp
  then show ?thesis
    using sc_tail_correct [OF sc_iv_13_snoc, of "sc_load s"] sc_load_value [OF assms]
      limb_value_snoc_0 [of "map sint (sc_load s)" 12 sc_wt] by simp
qed

lemma sc_load64_iv:
  assumes "length s = 64"
  shows "iv_ok (map sint (sc_load64 s)) sc_iv_24"
  unfolding sc_load64_limbs [OF assms] sc_iv_24_def iv_ok_map
proof (intro allI impI)
  fix i :: nat
  let ?t = "\<lambda>r. take_bit r (drop_bit (21 * i) (le_val s))"
  let ?b = "if even i \<or> i = 23 then (- (2 ^ 33 + 2 ^ 21), 2 ^ 33 + 2 ^ 21) else (- (2 ^ 21), 2 ^ 21) :: iv"
  have "?t 29 < 536870912" "?t 21 < 2097152" "0 \<le> ?t 29" "0 \<le> ?t 21"
    using take_bit_int_less_exp [of 29 "drop_bit (21 * i) (le_val s)"]
      take_bit_int_less_exp [of 21 "drop_bit (21 * i) (le_val s)"] by simp_all
  moreover have "fst ?b \<le> 0" "i = 23 \<longrightarrow> 536870912 \<le> snd ?b" "2097152 \<le> snd ?b" by simp_all
  ultimately show "fst ?b \<le> ?t (if i = 23 then 29 else 21) \<and> ?t (if i = 23 then 29 else 21) \<le> snd ?b"
    by (cases "i = 23") (simp_all only: if_True if_False simp_thms, linarith+)
qed

lemma sc_reduce_residue:
  assumes "length s = 64"
  shows "le_val (sc_store (exec_ops (sc_fold_upper @ sc_round @ sc_finish) (sc_load64 s)))
    = le_val s mod sc_order"
  using sc_upper_correct [OF sc_load64_iv [OF assms]] by (simp add: sc_load64_value [OF assms])

text \<open>Limb-wise sums and differences of two unpacked scalars.\<close>

lemma sc_combine_residue:
  assumes "length a = 32" and "length b = 32" and "length h = 12" and "e = 1 \<or> e = - 1"
    and "\<And>i. i < 12 \<Longrightarrow> sint (h ! i) = sint (sc_load a ! i) + e * sint (sc_load b ! i)"
  shows "le_val (sc_store (exec_ops (sc_round @ sc_finish) (h @ [0])))
    = (le_val a + e * le_val b) mod sc_order"
proof -
  have "\<bar>sint (h ! i)\<bar> \<le> 2 ^ 58" if "i < 12" for i
    using assms(4) assms(5) [OF that] sc_load_bounds [OF assms(1) that] sc_load_bounds [OF assms(2) that]
    by auto
  moreover have "limb_value sc_wt 12 (map sint h) = le_val a + e * le_val b"
    using limb_value_linear [of 12 "map sint h" "map sint (sc_load a)" e "map sint (sc_load b)" sc_wt]
      assms by (simp add: sc_load_value)
  ultimately show ?thesis
    using sc_tail_correct [OF sc_iv_13_snoc, of h] limb_value_snoc_0 [of "map sint h" 12 sc_wt] assms(3)
    by simp
qed

lemma sc_add_residue:
  assumes "length a = 32" and "length b = 32"
  shows "le_val (sc_add a b) = (le_val a + le_val b) mod sc_order"
proof -
  have "sint (map2 (+) (sc_load a) (sc_load b) ! i) = sint (sc_load a ! i) + 1 * sint (sc_load b ! i)"
    if "i < 12" for i
    using that sc_load_bounds [OF assms(1) that] sc_load_bounds [OF assms(2) that]
    by (auto intro!: sint_add_exact simp: in_range_def)
  from sc_combine_residue [OF assms _ _ this] show ?thesis by (simp add: sc_add_def)
qed

lemma sc_sub_residue:
  assumes "length a = 32" and "length b = 32"
  shows "le_val (sc_sub a b) = (le_val a - le_val b) mod sc_order"
proof -
  have "sint (map2 (-) (sc_load a) (sc_load b) ! i) = sint (sc_load a ! i) + (- 1) * sint (sc_load b ! i)"
    if "i < 12" for i
    using that sc_load_bounds [OF assms(1) that] sc_load_bounds [OF assms(2) that]
    by (simp add: sint_sub_exact in_range_def)
  from sc_combine_residue [OF assms _ _ this] show ?thesis by (simp add: sc_sub_def)
qed

section \<open>sc_mulsub\<close>

text \<open>Column \<open>k\<close> of the schoolbook product of two 12-limb numbers.\<close>

definition sc_column :: "int list \<Rightarrow> int list \<Rightarrow> nat \<Rightarrow> int" where
  "sc_column A B k = sum_list (map (\<lambda>i. A ! i * B ! (k - i)) [k - 11..<Suc (min k 11)])"

definition sc_mulsub_ints :: "int list \<Rightarrow> int list \<Rightarrow> int list \<Rightarrow> int list" where
  "sc_mulsub_ints A B C =
     map (\<lambda>k. (if k < 12 then C ! k else 0) - sc_column A B k) [0..<23] @ [0]"

lemma sc_upts:
  "[0..<1] = [0 :: nat]" "[0..<2] = [0, 1 :: nat]" "[0..<3] = [0, 1, 2 :: nat]" "[0..<4] = [0,
  1, 2, 3 :: nat]" "[0..<5] = [0, 1, 2, 3, 4 :: nat]" "[0..<6] = [0, 1, 2, 3, 4, 5 :: nat]"
  "[0..<7] = [0, 1, 2, 3, 4, 5, 6 :: nat]" "[0..<8] = [0, 1, 2, 3, 4, 5, 6, 7 :: nat]" "[0..<9]
  = [0, 1, 2, 3, 4, 5, 6, 7, 8 :: nat]" "[0..<10] = [0, 1, 2, 3, 4, 5, 6, 7, 8, 9 :: nat]"
  "[0..<11] = [0, 1, 2, 3, 4, 5, 6, 7, 8, 9, 10 :: nat]" "[0..<12] = [0, 1, 2, 3, 4, 5, 6, 7, 8,
  9, 10, 11 :: nat]" "[1..<12] = [1, 2, 3, 4, 5, 6, 7, 8, 9, 10, 11 :: nat]" "[2..<12] = [2, 3,
  4, 5, 6, 7, 8, 9, 10, 11 :: nat]" "[3..<12] = [3, 4, 5, 6, 7, 8, 9, 10, 11 :: nat]" "[4..<12]
  = [4, 5, 6, 7, 8, 9, 10, 11 :: nat]" "[5..<12] = [5, 6, 7, 8, 9, 10, 11 :: nat]" "[6..<12] =
  [6, 7, 8, 9, 10, 11 :: nat]" "[7..<12] = [7, 8, 9, 10, 11 :: nat]" "[8..<12] = [8, 9, 10, 11
  :: nat]" "[9..<12] = [9, 10, 11 :: nat]" "[10..<12] = [10, 11 :: nat]" "[11..<12] = [11 ::
  nat]" "[0..<23] = [0, 1, 2, 3, 4, 5, 6, 7, 8, 9, 10, 11, 12, 13, 14, 15, 16, 17, 18, 19, 20,
  21, 22 :: nat]"
  by (simp_all add: upt_rec)

lemma sc_column_expand:
  "sc_column A B 0 = A ! 0 * B ! 0" "sc_column A B 1 = A ! 0 * B ! 1 + A ! 1 * B ! 0" "sc_column
  A B 2 = A ! 0 * B ! 2 + A ! 1 * B ! 1 + A ! 2 * B ! 0" "sc_column A B 3 = A ! 0 * B ! 3 + A !
  1 * B ! 2 + A ! 2 * B ! 1 + A ! 3 * B ! 0" "sc_column A B 4 = A ! 0 * B ! 4 + A ! 1 * B ! 3 +
  A ! 2 * B ! 2 + A ! 3 * B ! 1 + A ! 4 * B ! 0" "sc_column A B 5 = A ! 0 * B ! 5 + A ! 1 * B !
  4 + A ! 2 * B ! 3 + A ! 3 * B ! 2 + A ! 4 * B ! 1 + A ! 5 * B ! 0" "sc_column A B 6 = A ! 0 *
  B ! 6 + A ! 1 * B ! 5 + A ! 2 * B ! 4 + A ! 3 * B ! 3 + A ! 4 * B ! 2 + A ! 5 * B ! 1 + A ! 6
  * B ! 0" "sc_column A B 7 = A ! 0 * B ! 7 + A ! 1 * B ! 6 + A ! 2 * B ! 5 + A ! 3 * B ! 4 + A
  ! 4 * B ! 3 + A ! 5 * B ! 2 + A ! 6 * B ! 1 + A ! 7 * B ! 0" "sc_column A B 8 = A ! 0 * B ! 8
  + A ! 1 * B ! 7 + A ! 2 * B ! 6 + A ! 3 * B ! 5 + A ! 4 * B ! 4 + A ! 5 * B ! 3 + A ! 6 * B !
  2 + A ! 7 * B ! 1 + A ! 8 * B ! 0" "sc_column A B 9 = A ! 0 * B ! 9 + A ! 1 * B ! 8 + A ! 2 *
  B ! 7 + A ! 3 * B ! 6 + A ! 4 * B ! 5 + A ! 5 * B ! 4 + A ! 6 * B ! 3 + A ! 7 * B ! 2 + A ! 8
  * B ! 1 + A ! 9 * B ! 0" "sc_column A B 10 = A ! 0 * B ! 10 + A ! 1 * B ! 9 + A ! 2 * B ! 8 +
  A ! 3 * B ! 7 + A ! 4 * B ! 6 + A ! 5 * B ! 5 + A ! 6 * B ! 4 + A ! 7 * B ! 3 + A ! 8 * B ! 2
  + A ! 9 * B ! 1 + A ! 10 * B ! 0" "sc_column A B 11 = A ! 0 * B ! 11 + A ! 1 * B ! 10 + A ! 2
  * B ! 9 + A ! 3 * B ! 8 + A ! 4 * B ! 7 + A ! 5 * B ! 6 + A ! 6 * B ! 5 + A ! 7 * B ! 4 + A !
  8 * B ! 3 + A ! 9 * B ! 2 + A ! 10 * B ! 1 + A ! 11 * B ! 0" "sc_column A B 12 = A ! 1 * B !
  11 + A ! 2 * B ! 10 + A ! 3 * B ! 9 + A ! 4 * B ! 8 + A ! 5 * B ! 7 + A ! 6 * B ! 6 + A ! 7 *
  B ! 5 + A ! 8 * B ! 4 + A ! 9 * B ! 3 + A ! 10 * B ! 2 + A ! 11 * B ! 1" "sc_column A B 13 = A
  ! 2 * B ! 11 + A ! 3 * B ! 10 + A ! 4 * B ! 9 + A ! 5 * B ! 8 + A ! 6 * B ! 7 + A ! 7 * B ! 6
  + A ! 8 * B ! 5 + A ! 9 * B ! 4 + A ! 10 * B ! 3 + A ! 11 * B ! 2" "sc_column A B 14 = A ! 3 *
  B ! 11 + A ! 4 * B ! 10 + A ! 5 * B ! 9 + A ! 6 * B ! 8 + A ! 7 * B ! 7 + A ! 8 * B ! 6 + A !
  9 * B ! 5 + A ! 10 * B ! 4 + A ! 11 * B ! 3" "sc_column A B 15 = A ! 4 * B ! 11 + A ! 5 * B !
  10 + A ! 6 * B ! 9 + A ! 7 * B ! 8 + A ! 8 * B ! 7 + A ! 9 * B ! 6 + A ! 10 * B ! 5 + A ! 11 *
  B ! 4" "sc_column A B 16 = A ! 5 * B ! 11 + A ! 6 * B ! 10 + A ! 7 * B ! 9 + A ! 8 * B ! 8 + A
  ! 9 * B ! 7 + A ! 10 * B ! 6 + A ! 11 * B ! 5" "sc_column A B 17 = A ! 6 * B ! 11 + A ! 7 * B
  ! 10 + A ! 8 * B ! 9 + A ! 9 * B ! 8 + A ! 10 * B ! 7 + A ! 11 * B ! 6" "sc_column A B 18 = A
  ! 7 * B ! 11 + A ! 8 * B ! 10 + A ! 9 * B ! 9 + A ! 10 * B ! 8 + A ! 11 * B ! 7" "sc_column A
  B 19 = A ! 8 * B ! 11 + A ! 9 * B ! 10 + A ! 10 * B ! 9 + A ! 11 * B ! 8" "sc_column A B 20 =
  A ! 9 * B ! 11 + A ! 10 * B ! 10 + A ! 11 * B ! 9" "sc_column A B 21 = A ! 10 * B ! 11 + A !
  11 * B ! 10" "sc_column A B 22 = A ! 11 * B ! 11"
  unfolding sc_column_def by (simp_all add: sc_upts sc_upts [unfolded One_nat_def] del: upt_rec_numeral)

lemma sc_mulsub_words:
  assumes "length a = 12" and "length b = 12" and "length c = 12"
  shows "sc_mulsub_s a b c
    = map word_of_int (sc_mulsub_ints (map sint a) (map sint b) (map sint c))"
  unfolding sc_mulsub_s_def Let_def sc_mulsub_ints_def sc_upts(24)
  using assms by (simp add: sc_column_expand del: One_nat_def)

lemma sc_column_bounds:
  assumes "\<And>i. i < 12 \<Longrightarrow> 0 \<le> A ! i \<and> A ! i \<le> 2 ^ 25" and "\<And>i. i < 12 \<Longrightarrow> 0 \<le> B ! i \<and> B ! i \<le> 2 ^ 25"
    and "k < 23"
  shows "0 \<le> sc_column A B k \<and> sc_column A B k \<le> 12 * 2 ^ 50"
proof -
  let ?xs = "[k - 11..<Suc (min k 11)]"
  have p: "0 \<le> A ! i * B ! (k - i) \<and> A ! i * B ! (k - i) \<le> 2 ^ 50" if "i \<in> set ?xs" for i
  proof -
    have i: "i < 12" "k - i < 12" using that assms(3) by auto
    have "A ! i * B ! (k - i) \<le> 2 ^ 25 * 2 ^ 25"
      using assms(1) [OF i(1)] assms(2) [OF i(2)] by (intro mult_mono) simp_all
    then show ?thesis using assms(1) [OF i(1)] assms(2) [OF i(2)] by simp
  qed
  have "sc_column A B k \<le> sum_list (map (\<lambda>i. 2 ^ 50) ?xs)"
    unfolding sc_column_def using p by (intro sum_list_mono) blast
  also have "\<dots> = int (length ?xs) * 2 ^ 50" by (simp add: sum_list_triv)
  also have "\<dots> \<le> 12 * 2 ^ 50" by (intro mult_right_mono) auto
  moreover have "0 \<le> sc_column A B k"
    unfolding sc_column_def using p by (intro sum_list_nonneg) auto
  ultimately show ?thesis by simp
qed

lemma sc_column_product:
  fixes x :: int
  shows "(\<Sum>k<23. x ^ k * sc_column A B k) = (\<Sum>i<12. x ^ i * A ! i) * (\<Sum>j<12. x ^ j * B ! j)"
proof -
  let ?T = "Sigma {..<23} (\<lambda>k. {k - 11..<Suc (min k 11)})"
  have "(\<Sum>k<23. x ^ k * sc_column A B k)
      = (\<Sum>k<23. \<Sum>i\<in>{k - 11..<Suc (min k 11)}. x ^ k * (A ! i * B ! (k - i)))"
    unfolding sc_column_def interv_sum_list_conv_sum_set_nat by (simp only: sum_distrib_left set_upt)
  also have "\<dots> = (\<Sum>(k, i)\<in>?T. x ^ k * (A ! i * B ! (k - i)))"
    by (rule sum.Sigma) simp_all
  also have "\<dots> = (\<Sum>(i, j)\<in>{..<12} \<times> {..<12}. (x ^ i * A ! i) * (x ^ j * B ! j))"
    by (rule sum.reindex_bij_witness [where i = "\<lambda>(i, j). (i + j, i)" and j = "\<lambda>(k, i). (i, k - i)"])
      (auto simp: min_def power_add [symmetric] mult_ac split: if_splits)
  also have "\<dots> = (\<Sum>i<12. x ^ i * A ! i) * (\<Sum>j<12. x ^ j * B ! j)"
    by (simp only: sum_product sum.cartesian_product)
  finally show ?thesis .
qed

lemma sc_mulsub_value:
  assumes "length C = 12"
  shows "limb_value sc_wt 24 (sc_mulsub_ints A B C)
    = limb_value sc_wt 12 C - limb_value sc_wt 12 A * limb_value sc_wt 12 B"
proof -
  have w: "sc_wt i = (2 ^ 21) ^ i" for i by (simp add: sc_wt_def power_mult)
  have "limb_value sc_wt 24 (sc_mulsub_ints A B C) = limb_value sc_wt 23 (sc_mulsub_ints A B C)"
    using limb_value_Suc [of sc_wt 23 "sc_mulsub_ints A B C"]
    by (simp add: sc_mulsub_ints_def nth_append del: upt_rec_numeral)
  also have "\<dots> = (\<Sum>k<23. sc_wt k * (if k < 12 then C ! k else 0)) - (\<Sum>k<23. sc_wt k * sc_column A B k)"
    unfolding limb_value_def sc_mulsub_ints_def sum_subtractf [symmetric]
    by (rule sum.cong) (simp_all add: nth_append algebra_simps del: upt_rec_numeral)
  also have "(\<Sum>k<23. sc_wt k * (if k < 12 then C ! k else 0)) = limb_value sc_wt 12 C"
    unfolding limb_value_def by (rule sum.mono_neutral_cong_right) auto
  also have "(\<Sum>k<23. sc_wt k * sc_column A B k) = limb_value sc_wt 12 A * limb_value sc_wt 12 B"
    unfolding limb_value_def w by (rule sc_column_product)
  finally show ?thesis .
qed

lemma sc_mulsub_iv:
  assumes "\<And>i. i < 12 \<Longrightarrow> 0 \<le> A ! i \<and> A ! i \<le> 2 ^ 25" and "\<And>i. i < 12 \<Longrightarrow> 0 \<le> B ! i \<and> B ! i \<le> 2 ^ 25"
    and "\<And>i. i < 12 \<Longrightarrow> 0 \<le> C ! i \<and> C ! i \<le> 2 ^ 25"
  shows "iv_ok (sc_mulsub_ints A B C) sc_iv_product"
proof -
  define F where "F k = (if k < 12 then C ! k else 0) - sc_column A B k" for k
  have "\<bar>F k\<bar> \<le> 2 ^ 54" if "k < 23" for k
    using sc_column_bounds [OF assms(1,2) that] assms(3) [of k] by (auto simp: F_def abs_le_iff2)
  then have "iv_ok (map F [0..<23]) (replicate 23 (- (2 ^ 54), 2 ^ 54))"
    unfolding iv_ok_def abs_le_iff2 by (simp del: upt_rec_numeral)
  then show ?thesis
    unfolding sc_mulsub_ints_def sc_iv_product_def F_def by (rule iv_ok_append) simp
qed

lemma sc_product_keeps: "sc_keeps 24 24 sc_product_carries 24"
  unfolding sc_product_carries_def by (rule sc_keeps_carries) simp_all

lemma sc_mulsub_residue:
  assumes "length a = 32" and "length b = 32" and "length c = 32"
  shows "le_val (sc_mulsub a b c) = (le_val c - le_val a * le_val b) mod sc_order"
proof -
  let ?i = "sc_mulsub_ints (map sint (sc_load a)) (map sint (sc_load b)) (map sint (sc_load c))"
  let ?s = "sc_mulsub_s (sc_load a) (sc_load b) (sc_load c)"
  let ?g = "exec_ops sc_product_carries ?s"
  have b: "0 \<le> map sint (sc_load x) ! i \<and> map sint (sc_load x) ! i \<le> 2 ^ 25"
    if "length x = 32" "i < 12" for x i
    using sc_load_bounds [OF that] that(2) by simp
  have iv: "iv_ok ?i sc_iv_product"
    using b assms by (intro sc_mulsub_iv) blast+
  have s: "map sint ?s = ?i"
    unfolding sc_mulsub_words [OF length_sc_load length_sc_load length_sc_load]
    by (rule map_sint_of_iv [OF iv]) (simp add: sc_iv_product_def in_range_def)
  note r = iv_run_sound [OF sc_run_product, of ?s]
  have "limb_value sc_wt 24 (map sint ?g) mod sc_order = limb_value sc_wt 24 ?i mod sc_order"
    using r(1) iv sc_product_keeps iv_ok_length [OF iv]
    unfolding s sc_keeps_def by (simp add: sc_iv_product_def)
  also have "limb_value sc_wt 24 ?i = le_val c - le_val a * le_val b"
    using sc_mulsub_value [of "map sint (sc_load c)"] assms by (simp add: sc_load_value)
  finally have v: "limb_value sc_wt 24 (map sint ?g) mod sc_order
      = (le_val c - le_val a * le_val b) mod sc_order" .
  have "sc_mulsub a b c = sc_store (exec_ops (sc_fold_upper @ sc_round @ sc_finish) ?g)"
    by (simp only: sc_mulsub_def Let_def)
  then show ?thesis using sc_upper_correct [of ?g] r iv v by (simp add: s)
qed

section \<open>sc_check and sc_isnonzero\<close>

lemma signum_sgn:
  assumes "\<bar>sint x\<bar> < 2 ^ 62"
  shows "signum x = word_of_int (sgn (sint x))"
proof -
  have n: "sint (- x) = - sint x"
    using sint_sub_exact [of 0 x] assms by (simp add: in_range_def abs_less_iff)
  have d: "y div 2 ^ 63 = (if y < 0 then - 1 else 0)" if "\<bar>y\<bar> < 2 ^ 62" for y :: int
    using that by (intro div_sign) (simp_all add: abs_less_iff)
  have s: "sint (signed_drop_bit 63 x) = (if sint x < 0 then - 1 else 0)"
    "sint (signed_drop_bit 63 (- x)) = (if 0 < sint x then - 1 else 0)"
    using d [of "sint x"] d [of "- sint x"] assms by (simp_all add: n)
  show ?thesis
    unfolding signum_def word_of_sint [OF s(1)] word_of_sint [OF s(2)] by (simp add: sgn_if)
qed

lemma sign_shift:
  assumes "\<bar>v\<bar> \<le> 255"
  shows "scast (signed_drop_bit 8 (word_of_int v :: i64)) = (if v < 0 then - 1 else 0 :: i32)"
proof -
  have "sint (signed_drop_bit 8 (word_of_int v :: i64)) = (if v < 0 then - 1 else 0)"
    using assms div_sign [of 256 v] by (simp add: sint_of_int_exact in_range_def abs_le_iff2)
  then show ?thesis by (simp only: scast_of_int) simp
qed

lemma le_val_words:
  assumes "length s = 32"
  shows "le_val s = uint (load_4 s) + 2 ^ 32 * uint (load_4 (drop 4 s))
    + 2 ^ 64 * uint (load_4 (drop 8 s)) + 2 ^ 96 * uint (load_4 (drop 12 s))
    + 2 ^ 128 * uint (load_4 (drop 16 s)) + 2 ^ 160 * uint (load_4 (drop 20 s))
    + 2 ^ 192 * uint (load_4 (drop 24 s)) + 2 ^ 224 * uint (load_4 (drop 28 s))"
  by (subst (1) length_32 [OF assms]) (simp add: uint_load_4 assms)

lemma sc_check_residue:
  assumes "length s = 32"
  shows "sc_check s = (if le_val s < sc_order then 0 else - 1)"
proof -
  let ?w = "\<lambda>k. load_4 (drop k s)"
  let ?ds = "[1559614444 - uint (?w 0), 1477600026 - uint (?w 4), 2734136534 - uint (?w 8),
    350157278 - uint (?w 12), - uint (?w 16), - uint (?w 20), - uint (?w 24), 268435456 - uint (?w 28)]"
  let ?S = "horner_sum sgn 2 ?ds"
  have b: "0 \<le> uint (?w k)" "uint (?w k) < 2 ^ 32" for k using load_4_bound by simp_all
  have sg: "signum (word_of_int c - ?w k) = word_of_int (sgn (c - uint (?w k)))"
    if "0 \<le> c" "c < 2 ^ 32" for c k
  proof -
    define u where "u = uint (?w k)"
    have u: "0 \<le> u" "u < 2 ^ 32" "sint (?w k) = u" using b [of k] by (simp_all add: u_def)
    have "sint (word_of_int c - ?w k) = c - u"
      using sint_sub_exact [of "word_of_int c" "?w k"] sint_of_int_exact [of c, where 'a = 64] u that
      by (simp add: in_range_def)
    then show ?thesis
      using signum_sgn [of "word_of_int c - ?w k"] u that by (simp add: abs_less_iff flip: u_def)
  qed
  have db: "\<bar>c - uint (?w k)\<bar> < 2 ^ 32" if "0 \<le> c" "c < 2 ^ 32" for c k
    using b [of k] that by linarith
  have sum: "signum (1559614444 - ?w 0) + push_bit 1 (signum (1477600026 - ?w 4))
           + push_bit 2 (signum (2734136534 - ?w 8)) + push_bit 3 (signum (350157278 - ?w 12))
           + push_bit 4 (signum (- ?w 16)) + push_bit 5 (signum (- ?w 20))
           + push_bit 6 (signum (- ?w 24)) + push_bit 7 (signum (268435456 - ?w 28)) = word_of_int ?S"
    using sg [of 1559614444 0] sg [of 1477600026 4] sg [of 2734136534 8] sg [of 350157278 12]
      sg [of 0 16] sg [of 0 20] sg [of 0 24] sg [of 268435456 28]
    by (simp add: push_bit_eq_mult algebra_simps)
  have S: "\<bar>?S\<bar> \<le> 255" using sgn_horner_bound [of ?ds] by simp
  have "sgn ?S = sgn (horner_sum (\<lambda>d. d) (2 ^ 32) ?ds)"
    by (rule sgn_horner [symmetric]) (use db [of 1559614444 0] db [of 1477600026 4]
      db [of 2734136534 8] db [of 350157278 12] db [of 0 16] db [of 0 20] db [of 0 24]
      db [of 268435456 28] in \<open>simp_all \<close>)
  also have "horner_sum (\<lambda>d. d) (2 ^ 32) ?ds = sc_order - 1 - le_val s"
    unfolding le_val_words [OF assms] by (simp add: sc_order_def)
  finally have "?S < 0 \<longleftrightarrow> sc_order - 1 - le_val s < 0" by (rule sgn_neg_iff)
  then have neg: "?S < 0 \<longleftrightarrow> sc_order \<le> le_val s" by linarith
  have "sc_check s = scast (signed_drop_bit 8 (word_of_int ?S :: i64))"
    unfolding sc_check_def Let_def sum [symmetric] by (simp only: drop_0)
  also have "\<dots> = (if le_val s < sc_order then 0 else - 1)"
    unfolding sign_shift [OF S] neg by simp
  finally show ?thesis .
qed

lemma sc_isnonzero_flag: "length s = 32 \<Longrightarrow> sc_isnonzero s = of_bool (le_val s \<noteq> 0)"
  unfolding sc_isnonzero_def by (rule nonzero_bytes)

end
