(* ===== verification/BaseOrder.thy ===== *)
theory BaseOrder
  imports BaseRowsD Sc
begin

text \<open>
  The base point times \<open>2 ^ 252 + 27742317777372353535851937790883648493\<close> is zero: the sum of the entries
  of the table that the signed radix-256 digits of the number select.
\<close>

lemma pt_0_neg1: "pt (zmul (- 1) (row_base 0))
    42783823269122696939284341094755422415180979639778424813682678720006717057747
    46316835694926478169428394003475163141307993866256225615783033603165251855960
    11068640767834918466713275874066756361490786778694627043054626174422747718218"
  by (rule pt_zmul_neg [OF pt_0_1]) (simp only: hex_neg)

lemma pt_digit_1: "pt (zmul (- 1) ed_B)
    42783823269122696939284341094755422415180979639778424813682678720006717057747
    46316835694926478169428394003475163141307993866256225615783033603165251855960
    11068640767834918466713275874066756361490786778694627043054626174422747718218"
  by (rule pt_row_zmul [OF pt_0_neg1]) simp

lemma pt_1_neg1: "pt (zmul (- 3) (row_base 1))
    6922250883730687564713499449939524419637477625397050161944083003701212703794
    16413131815607581661646167769888544224046642958087183058350580913769959758850
    54566723943596750019825760036993183994204170657010414019300358212818423886841"
  by (rule pt_zmul_neg [OF pt_1_3]) (simp only: hex_neg)

lemma pt_digit_3: "pt (zmul (- 768) ed_B)
    6922250883730687564713499449939524419637477625397050161944083003701212703794
    16413131815607581661646167769888544224046642958087183058350580913769959758850
    54566723943596750019825760036993183994204170657010414019300358212818423886841"
  by (rule pt_row_zmul [OF pt_1_neg1]) simp

lemma pt_sum_0: "pt (zmul (- 769) ed_B)
    39577285346617949178634634122635118840985816743322056428644316682179724416149
    42088693769332429948219124632231613673899850728281051197151111017518498539118
    56112221272138654585365040800521656342989889713497096361402169310256871908897"
  by (rule pt_zmul_add [OF pt_digit_1 pt_digit_3]) (simp, simp only: hex_add)

lemma pt_2_neg1: "pt (zmul (- 1) (row_base 2))
    15421078199255866240111340502985838229887747861387393441572810723081262619272
    20182938281251249849712136486927848134532420155649429100890386875073412000822
    44231682897334967909574553630982356373851461347576286696712733448537297302860"
  by (rule pt_zmul_neg [OF pt_2_1]) (simp only: hex_neg)

lemma pt_digit_5: "pt (zmul (- 65536) ed_B)
    15421078199255866240111340502985838229887747861387393441572810723081262619272
    20182938281251249849712136486927848134532420155649429100890386875073412000822
    44231682897334967909574553630982356373851461347576286696712733448537297302860"
  by (rule pt_row_zmul [OF pt_2_neg1]) simp

lemma pt_sum_1: "pt (zmul (- 66305) ed_B)
    24205455867848000914559265243737143737434749881050269715087363182641928441988
    56945200316409159683365737848555000199484200705987008741241077336845402436394
    49775783162543199906902521006291605985443451155034972068569634073136543132927"
  by (rule pt_zmul_add [OF pt_sum_0 pt_digit_5]) (simp, simp only: hex_add)

lemma pt_digit_7: "pt (zmul (100663296) ed_B)
    23904464896333608991295732748996988828164620261932216985968862997657500711147
    46107523827474150565775982788770309404087932091461514986676419581157816039857
    14466642860843793828326513800482303337136844283713173435212251464585920991184"
  by (rule pt_row_zmul [OF pt_3_6]) simp

lemma pt_sum_2: "pt (zmul (100596991) ed_B)
    16907330074470838240008202891723081630149031407819261993468851273567637866355
    40421082647506523110256892386970697943601977256744611296044881155560165695061
    38858864253506280616268631805383054135450388736360699368008453798015397796809"
  by (rule pt_zmul_add [OF pt_sum_1 pt_digit_7]) (simp, simp only: hex_add)

lemma pt_digit_9: "pt (zmul (8589934592) ed_B)
    34085450069500794510152409520807677869950508039913904939590977699961040436501
    52278291416665193925925829527972181593462278765769350530558236265859287513035
    6446406076878883164533341186824663052309953784530127776470524942864456901624"
  by (rule pt_row_zmul [OF pt_4_2]) simp

lemma pt_sum_3: "pt (zmul (8690531583) ed_B)
    11727847739219337432504017182941052636056323882507346971849912494008492905984
    30545559950637601268772339088353583184064092696854860502769822404927703049658
    2160481426539515478395994710314225746134794786638582979788463246599907160630"
  by (rule pt_zmul_add [OF pt_sum_2 pt_digit_9]) (simp, simp only: hex_add)

lemma pt_digit_11: "pt (zmul (6597069766656) ed_B)
    20592390056300107960862250191507484939525127135573939248487287843879429306062
    5041203799155760369501752367479807223657485176117900324814217473160265307378
    23603707594390156937820040200570745020678187759173725370682006724400553413413"
  by (rule pt_row_zmul [OF pt_5_6]) simp

lemma pt_sum_4: "pt (zmul (6605760298239) ed_B)
    57868209884247596222487283660579136431879744159572386874361960156596003252628
    46760404157590670189658433927282507387398052727924813018394834401805519119161
    20552505369331371452987544392984677290856559485518210640616774871491896149834"
  by (rule pt_zmul_add [OF pt_sum_3 pt_digit_11]) (simp, simp only: hex_add)

lemma pt_digit_13: "pt (zmul (281474976710656) ed_B)
    37386868568128681599499830859763869162133292900805977973436494315455022169426
    36563616321823734465666870349235432940379598201907262626645125270466793116054
    56583979703411916882932154846613088400979015318514747688785230390140028694546"
  by (rule pt_row_zmul [OF pt_6_1]) simp

lemma pt_sum_5: "pt (zmul (288080737008895) ed_B)
    25915298102226412310643804587405461839041108600505410097871452884048753778110
    19629855173399958941032795139174264247421151130092748434733474790365931557514
    57418282110580943763728441164136554850284429813777911456454167179170642495364"
  by (rule pt_zmul_add [OF pt_sum_4 pt_digit_13]) (simp, simp only: hex_add)

lemma pt_digit_15: "pt (zmul (360287970189639680) ed_B)
    43866618986390434686016995101934850089516357370165420144464451421111130222578
    36635387664828665286675424539055281868611750712637062002479245016847391939887
    26538627210016019766764368541006200602102793929170223190191965926082757269582"
  by (rule pt_row_zmul [OF pt_7_5]) simp

lemma pt_sum_6: "pt (zmul (360576050926648575) ed_B)
    7255824625987164181323238086037264401347981919025669074747507125139846120564
    29285333452613013248292237381136056351082067567928032429807290926946442541910
    26042084563102597714081885900520066571132035008783481584699109812463377202223"
  by (rule pt_zmul_add [OF pt_sum_5 pt_digit_15]) (simp, simp only: hex_add)

lemma pt_8_neg1: "pt (zmul (- 3) (row_base 8))
    49227848951040934998182884328828806822974050453390770905675082967912537508742
    37681485510013466138918998841666858165213744209089186872109760116369856650799
    48908758957891507573566480741359796853160853916129190436365817374467318549478"
  by (rule pt_zmul_neg [OF pt_8_3]) (simp only: hex_neg)

lemma pt_digit_17: "pt (zmul (- 55340232221128654848) ed_B)
    49227848951040934998182884328828806822974050453390770905675082967912537508742
    37681485510013466138918998841666858165213744209089186872109760116369856650799
    48908758957891507573566480741359796853160853916129190436365817374467318549478"
  by (rule pt_row_zmul [OF pt_8_neg1]) simp

lemma pt_sum_7: "pt (zmul (- 54979656170202006273) ed_B)
    55008036160214400272785332657702580380831497691868780976378073805314168508763
    51213182952819729826393971714225002357985091051251369809349861216005613426096
    53254156173523553569168093944035787731778077733801152447570051264004926228856"
  by (rule pt_zmul_add [OF pt_sum_6 pt_digit_17]) (simp, simp only: hex_add)

lemma pt_9_neg1: "pt (zmul (- 6) (row_base 9))
    7950743758926859359410452092057607726926340620163472915355314033412923193829
    39013242103148759311269299813493822536582186757521061743729628217118423084807
    312869764958933243538477093232005585276512797229559817353376378575849917449"
  by (rule pt_zmul_neg [OF pt_9_6]) (simp only: hex_neg)

lemma pt_digit_19: "pt (zmul (- 28334198897217871282176) ed_B)
    7950743758926859359410452092057607726926340620163472915355314033412923193829
    39013242103148759311269299813493822536582186757521061743729628217118423084807
    312869764958933243538477093232005585276512797229559817353376378575849917449"
  by (rule pt_row_zmul [OF pt_9_neg1]) simp

lemma pt_sum_8: "pt (zmul (- 28389178553388073288449) ed_B)
    43738222577965878429002541084173484223888904202575378190473756040650900765556
    47392445035702505918647224971213713440984247699009284436650920900440747901619
    17194203765539508745020214527680823885855691826524526719009075202528843706043"
  by (rule pt_zmul_add [OF pt_sum_7 pt_digit_19]) (simp, simp only: hex_add)

lemma pt_10_neg1: "pt (zmul (- 1) (row_base 10))
    14223322805563289553463338680644972607215312237555458081217364958943272103673
    26774469600843634339468622105851699981555180542412972644232493480876266571002
    28203393160199375060398813561125684898716788737186728714761185689075223673669"
  by (rule pt_zmul_neg [OF pt_10_1]) (simp only: hex_neg)

lemma pt_digit_21: "pt (zmul (- 1208925819614629174706176) ed_B)
    14223322805563289553463338680644972607215312237555458081217364958943272103673
    26774469600843634339468622105851699981555180542412972644232493480876266571002
    28203393160199375060398813561125684898716788737186728714761185689075223673669"
  by (rule pt_row_zmul [OF pt_10_neg1]) simp

lemma pt_sum_9: "pt (zmul (- 1237314998168017247994625) ed_B)
    32535528694736049271380285664109443992525922181197859278221838489753757246598
    32239039842660144606569955110896947263386870180057859093620557498420618736443
    40773147763830312435415186625430217995827016419876247524716752109576246218967"
  by (rule pt_zmul_add [OF pt_sum_8 pt_digit_21]) (simp, simp only: hex_add)

lemma pt_11_neg1: "pt (zmul (- 6) (row_base 11))
    49714082557925645131401708213107625307978036623982839003371815891236513032442
    24992401954777505154913816552357157186653105246435342350109972049636955771348
    44829560493688433586041765087543075324324561040121246847295572294305783207923"
  by (rule pt_zmul_neg [OF pt_11_6]) (simp only: hex_neg)

lemma pt_digit_23: "pt (zmul (- 1856910058928070412348686336) ed_B)
    49714082557925645131401708213107625307978036623982839003371815891236513032442
    24992401954777505154913816552357157186653105246435342350109972049636955771348
    44829560493688433586041765087543075324324561040121246847295572294305783207923"
  by (rule pt_row_zmul [OF pt_11_neg1]) simp

lemma pt_sum_10: "pt (zmul (- 1858147373926238429596680961) ed_B)
    39720962347535128876195340474564167583554703183832800767456986664148237369922
    8662167390662948581612517262447400323184539921018368872601600837690088702531
    10966643799616959038492062206292442237998577603943955618190065818206728936708"
  by (rule pt_zmul_add [OF pt_sum_9 pt_digit_23]) (simp, simp only: hex_add)

lemma pt_12_neg1: "pt (zmul (- 2) (row_base 12))
    18746422918445470962164057103992548575403807425811683259427340622875550836908
    34503224398479003962600496102980592214075457369331528461237883842917276072424
    28691892140761192502468760164564506282367409993072871994896063017389481355006"
  by (rule pt_zmul_neg [OF pt_12_2]) (simp only: hex_neg)

lemma pt_digit_25: "pt (zmul (- 158456325028528675187087900672) ed_B)
    18746422918445470962164057103992548575403807425811683259427340622875550836908
    34503224398479003962600496102980592214075457369331528461237883842917276072424
    28691892140761192502468760164564506282367409993072871994896063017389481355006"
  by (rule pt_row_zmul [OF pt_12_neg1]) simp

lemma pt_sum_11: "pt (zmul (- 160314472402454913616684581633) ed_B)
    51621481516582045624849383503046911207409253604754368269722958191264994589512
    13250910588301476400531705697360980307212392009172484992159665149849387557410
    13019185008448305887500722684083380768938582736037052234933783711723104154616"
  by (rule pt_zmul_add [OF pt_sum_10 pt_digit_25]) (simp, simp only: hex_add)

lemma pt_14_neg1: "pt (zmul (- 2) (row_base 14))
    13478952603778994125729957799493216684092619700797387869912523950731600395778
    28092835439062208164608941398448814112137896638247692330991965419364853280613
    9364195788160970520868033601456262187715282951756917772975257169995102547205"
  by (rule pt_zmul_neg [OF pt_14_2]) (simp only: hex_neg)

lemma pt_digit_29: "pt (zmul (- 10384593717069655257060992658440192) ed_B)
    13478952603778994125729957799493216684092619700797387869912523950731600395778
    28092835439062208164608941398448814112137896638247692330991965419364853280613
    9364195788160970520868033601456262187715282951756917772975257169995102547205"
  by (rule pt_row_zmul [OF pt_14_neg1]) simp

lemma pt_sum_12: "pt (zmul (- 10384754031542057711974609343021825) ed_B)
    19588579474205312464864262395704650218647230068201327909447298940255513166523
    15949445281599465157886351533727370163504471834036671155743970982816869225066
    8466191624620516264755929136314467262087121158038868860088794986368467395786"
  by (rule pt_zmul_add [OF pt_sum_11 pt_digit_29]) (simp, simp only: hex_add)

lemma pt_digit_31: "pt (zmul (1329227995784915872903807060280344576) ed_B)
    35118750000941396177384144572236461584765045922296921590426241445782749078564
    22276559719444846469370701617737789620267379936674566170770241509797286014565
    7409144969870103820524925611972696916688721049115307139576546451753046568819"
  by (rule pt_row_zmul [OF pt_15_1]) simp

lemma pt_sum_13: "pt (zmul (1318843241753373815191832450937322751) ed_B)
    24285294861505474603648944667964806148166126608871140071394262657542994926926
    23614085271085203350545061587953310158883378185475229103756584061432541166203
    5847887847401858458969810089132979619381223970012494135105619064026756677436"
  by (rule pt_zmul_add [OF pt_sum_12 pt_digit_31]) (simp, simp only: hex_add)

lemma pt_digit_63: "pt (zmul (452312848583266388373324160190187140051835877600158453279131187530910662656) ed_B)
    39889996776461429953017745748202868941628445010936749699607514235758480168479
    46963357182225939507199438676569248839185976608832841466490839922106986386462
    56449159845156832713850161799398571731738147939289379270626210887147816372235"
  by (rule pt_row_zmul [OF pt_31_1]) simp

lemma pt_sum_14: "pt (zmul (452312848583266388373324160190187140053154720841911827094323019981847985407) ed_B)
    12243298258962086146349119773022580276915148465626420645377339913858693805845
    57300917852899738430258726748012755015082789308649981895803470287195627804664
    25456663054259580524985310600857186611487413994353426454638507863065386747749"
  by (rule pt_zmul_add [OF pt_sum_13 pt_digit_63]) (simp, simp only: hex_add)

lemma pt_sum_15: "pt (zmul (904625697166532776746648320380374280106309441683823654188646039963695970814) ed_B)
    51296495860848847137819873507862906686041780601801134963553447747928702600794
    28986054408549069030275866365117427220480138276489477302038730815745867943624
    47101285976068545327417341625000407137711936151298644283835613829032109478048"
  by (rule pt_zmul_dbl [OF pt_sum_14]) (simp, simp only: hex_dbl)

lemma pt_sum_16: "pt (zmul (1809251394333065553493296640760748560212618883367647308377292079927391941628) ed_B)
    53007438329051045580717981614765490363446217126033056639264943972547589607023
    10308239383488329625318758073757449311363423156331641266842619969207610776948
    19001132856438424365959683558990730101324098488157507385547549502041911986020"
  by (rule pt_zmul_dbl [OF pt_sum_15]) (simp, simp only: hex_dbl)

lemma pt_sum_17: "pt (zmul (3618502788666131106986593281521497120425237766735294616754584159854783883256) ed_B)
    44879221558714568502762634314328814998813622705103154031046828898828029413446
    18738101859343754188373274193261828483484652703005374688286258269121494209089
    38449779484882574764602104085062684605890104806791049118904928516736096183946"
  by (rule pt_zmul_dbl [OF pt_sum_16]) (simp, simp only: hex_dbl)

lemma pt_sum_18: "pt (zmul (7237005577332262213973186563042994240850475533470589233509168319709567766512) ed_B)
    13922066564944335986076787451376192302835496994453672674551342030656415933914
    34241350927124543218208118496435462998033634669997809171073652134893585409604
    39717047213337801162258955561902801389537617976214509376973238602823668956628"
  by (rule pt_zmul_dbl [OF pt_sum_17]) (simp, simp only: hex_dbl)

lemma pt_0_neg0: "pt (zmul (- 3) (row_base 0))
    10999311154203159054661947908957166137588794052687616333487470224165654961553
    8324843778533443976490377120369201138301417226297555316741202210403726505172
    38762841451633757555627591198634298522135647531852303714663802850547208051667"
  by (rule pt_zmul_neg [OF pt_0_3]) (simp only: hex_neg)

lemma pt_digit_0: "pt (zmul (- 3) ed_B)
    10999311154203159054661947908957166137588794052687616333487470224165654961553
    8324843778533443976490377120369201138301417226297555316741202210403726505172
    38762841451633757555627591198634298522135647531852303714663802850547208051667"
  by (rule pt_row_zmul [OF pt_0_neg0]) simp

lemma pt_sum_19: "pt (zmul (7237005577332262213973186563042994240850475533470589233509168319709567766509) ed_B)
    12948818906642725142778367509672315144851255728928195369142906550536274709708
    39221314449719488305347246548669928796203752715621758313285811399184933309420
    9042156459831874234443645888613042399319676915819371779086015402052668795255"
  by (rule pt_zmul_add [OF pt_sum_18 pt_digit_0]) (simp, simp only: hex_add)

lemma pt_digit_2: "pt (zmul (1024) ed_B)
    48427913736837608266186835246980452511660467837864105011084951035203551898472
    12175353081024358281744367214419414005476983323671937693306148471852937756989
    46495268282186673125544095118715147387064133624640828383339661155530964615084"
  by (rule pt_row_zmul [OF pt_1_4]) simp

lemma pt_sum_20: "pt (zmul (7237005577332262213973186563042994240850475533470589233509168319709567767533) ed_B)
    11695146766624158005227526959308424202099485624603228981854395463013478883882
    29118209078885207184939987277718486498596087313356671259837946639337904526993
    38664692174092106358681903706697895534250092769725694035610151843127741456652"
  by (rule pt_zmul_add [OF pt_sum_19 pt_digit_2]) (simp, simp only: hex_add)

lemma pt_digit_4: "pt (zmul (393216) ed_B)
    39942222410405710613846605548715319798860856380616468084424872017053836395418
    20953312611669500112098251487133626495970751623193757362820187947140145484673
    69674151141597923353344493756058970072375098855219609870826513892159385832"
  by (rule pt_row_zmul [OF pt_2_6]) simp

lemma pt_sum_21: "pt (zmul (7237005577332262213973186563042994240850475533470589233509168319709568160749) ed_B)
    17595925612495836866185401453293169075607923893432792558287597878609044489789
    52975247626856107234002561010712077478600972130040782145906171372115737808398
    47930568758182903522888527386529209168323264562596545339264102456280266651226"
  by (rule pt_zmul_add [OF pt_sum_20 pt_digit_4]) (simp, simp only: hex_add)

lemma pt_3_neg0: "pt (zmul (- 3) (row_base 3))
    26591430857719592951202820036429290647812300175639913541311393148821817935381
    47883697631619232113968705988495834546462535128285694215750466493264011081313
    4872066045269272569726317448450898456214015129458387494748466924467852647445"
  by (rule pt_zmul_neg [OF pt_3_3]) (simp only: hex_neg)

lemma pt_digit_6: "pt (zmul (- 50331648) ed_B)
    26591430857719592951202820036429290647812300175639913541311393148821817935381
    47883697631619232113968705988495834546462535128285694215750466493264011081313
    4872066045269272569726317448450898456214015129458387494748466924467852647445"
  by (rule pt_row_zmul [OF pt_3_neg0]) simp

lemma pt_sum_22: "pt (zmul (7237005577332262213973186563042994240850475533470589233509168319709517829101) ed_B)
    51488607101329965894881557227834357856847947796348719672973810038612875914556
    20555851524641964638589585432851714872235659270298549269944476352695623579792
    40434642980074202402885554212824730095092453412046186174972664621018372013465"
  by (rule pt_zmul_add [OF pt_sum_21 pt_digit_6]) (simp, simp only: hex_add)

lemma pt_4_neg0: "pt (zmul (- 6) (row_base 4))
    18660065168041666143201022128726912827496096814773748891757549011547805187462
    48261191633292948936869172744987459320920074650430094271633034405690439301938
    7826598731753061357260225478022675871789406131997737324161559372376455421921"
  by (rule pt_zmul_neg [OF pt_4_6]) (simp only: hex_neg)

lemma pt_digit_8: "pt (zmul (- 25769803776) ed_B)
    18660065168041666143201022128726912827496096814773748891757549011547805187462
    48261191633292948936869172744987459320920074650430094271633034405690439301938
    7826598731753061357260225478022675871789406131997737324161559372376455421921"
  by (rule pt_row_zmul [OF pt_4_neg0]) simp

lemma pt_sum_23: "pt (zmul (7237005577332262213973186563042994240850475533470589233509168319683748025325) ed_B)
    7229021195864272365836986848198949683558115547795950166884641762972456492025
    14707718345119480958235635711399537303050776073197876584131196610949025316815
    26059048650983599039963306771690719826814711833439081770360217825906576016430"
  by (rule pt_zmul_add [OF pt_sum_22 pt_digit_8]) (simp, simp only: hex_add)

lemma pt_digit_10: "pt (zmul (3298534883328) ed_B)
    54963056372161567893377544435736002562363728332386822033880374829153683072043
    27166693465051931478180628457191481819179375994284390853808326061634135222357
    33825002540684133839576157126471860058530179080646483925646992326648569471192"
  by (rule pt_row_zmul [OF pt_5_3]) simp

lemma pt_sum_24: "pt (zmul (7237005577332262213973186563042994240850475533470589233509168322982282908653) ed_B)
    22400140560069804791971688370387788739979328347815261629830461062659168968807
    3370103819554538333358065302718738641442000593178386955902421398881108657499
    18774415812538121120327318526771299827440739261498644219345459145112425785571"
  by (rule pt_zmul_add [OF pt_sum_23 pt_digit_10]) (simp, simp only: hex_add)

lemma pt_digit_12: "pt (zmul (562949953421312) ed_B)
    28582163575878071020286779611073458927627633926762077980797377317166201949523
    29517287490576008752010229265386725675942288741512148107897703457428460766064
    47329309199468658306920108621065283293181324725226367159337271290951929759119"
  by (rule pt_row_zmul [OF pt_6_2]) simp

lemma pt_sum_25: "pt (zmul (7237005577332262213973186563042994240850475533470589233509168885932236329965) ed_B)
    48206947349429616204605849646823371022413638451631423899488645505383949216072
    30872895833906138731803317645300119355113331263410902038444651536547671709661
    20897897759024541038291947624974386671121382211402526358771091464154594677135"
  by (rule pt_zmul_add [OF pt_sum_24 pt_digit_12]) (simp, simp only: hex_add)

lemma pt_digit_14: "pt (zmul (576460752303423488) ed_B)
    48882273411393669122044540803817352985557027118982854238955416614908556491266
    11407218847596422755991434262659321162615585973279975075808294900032260014207
    46793189066854832926531855970043131821266249646052524465103067372779906799881"
  by (rule pt_row_zmul [OF pt_7_8]) simp

lemma pt_sum_26: "pt (zmul (7237005577332262213973186563042994240850475533470589233509745346684539753453) ed_B)
    20557788574199520045287735646442057699029912822525739369979467507986441256943
    2407004736703272817351661001845662648654205281409924943016215389376399596015
    23322237185524246636357568678233177223433139631411943308499269137700886361190"
  by (rule pt_zmul_add [OF pt_sum_25 pt_digit_14]) (simp, simp only: hex_add)

lemma pt_digit_16: "pt (zmul (110680464442257309696) ed_B)
    49025407799462363586681626888639698365893077756861158880615624267162821984787
    12818500738744348816718749150692681836882431285482295854460275860287501158274
    26006868771002328881253046589605913386852383210104504704200133552093254321232"
  by (rule pt_row_zmul [OF pt_8_6]) simp

lemma pt_sum_27: "pt (zmul (7237005577332262213973186563042994240850475533470589233620425811126797063149) ed_B)
    26505879922623479226016029817623127804328071873309162834919906567792548918940
    38663979838404799942781496820742134981574355224040823410294530642047906080968
    12068949717482696785591499886400430593775849716788327301152068348392722304028"
  by (rule pt_zmul_add [OF pt_sum_26 pt_digit_16]) (simp, simp only: hex_add)

lemma pt_9_neg0: "pt (zmul (- 3) (row_base 9))
    31865883626449229526445265800261692624342024528812215535009659174721607100921
    57793405576878186415495485207823547976675071452793778494338480564258198542794
    9947495166372066061568045130594230081524385400118788588156627571435679169709"
  by (rule pt_zmul_neg [OF pt_9_3]) (simp only: hex_neg)

lemma pt_digit_18: "pt (zmul (- 14167099448608935641088) ed_B)
    31865883626449229526445265800261692624342024528812215535009659174721607100921
    57793405576878186415495485207823547976675071452793778494338480564258198542794
    9947495166372066061568045130594230081524385400118788588156627571435679169709"
  by (rule pt_row_zmul [OF pt_9_neg0]) simp

lemma pt_sum_28: "pt (zmul (7237005577332262213973186563042994240850475533470589219453326362517861422061) ed_B)
    18006504013966682598019221243872312586128577271935542233238677396097394467754
    51439189238937488018000077257741889597083685831354085535041935078302240105185
    26632046667062723729873625278908536026177844229089600101277740880364873187325"
  by (rule pt_zmul_add [OF pt_sum_27 pt_digit_18]) (simp, simp only: hex_add)

lemma pt_digit_20: "pt (zmul (9671406556917033397649408) ed_B)
    5034499113101539419171195675489016129397586213000300161297322761474792468007
    38984291250628169793609367006953049629309747617110716218706415095166866209475
    47700193514050909956560050415656228829951284728850258366301701015505362367010"
  by (rule pt_row_zmul [OF pt_10_8]) simp

lemma pt_sum_29: "pt (zmul (7237005577332262213973186563042994240850475533470598890859883279551259071469) ed_B)
    14675116119849155346918858021903617917804555101011884222926668019479009365663
    13818873661315986466374448689598084787629171637328536697384113463274804684197
    49340815304850188918948611982723267758669086714174213158754555984722244892457"
  by (rule pt_zmul_add [OF pt_sum_28 pt_digit_20]) (simp, simp only: hex_add)

lemma pt_digit_22: "pt (zmul (928455029464035206174343168) ed_B)
    43394106677292198658640763566648866668194264840025293127326676403460605096775
    46941248820420750469614221571869555546358520316711509967413888274235364828153
    53339238954999528463949887567909179086803728789600452032752821993754350531161"
  by (rule pt_row_zmul [OF pt_11_3]) simp

lemma pt_sum_30: "pt (zmul (7237005577332262213973186563042994240850475533471527345889347314757433414637) ed_B)
    54265242725058622241374845889899445087642094096198664545509255957205504414226
    34020208988381315449090183214606261407323397944790014730143060678765026308474
    13760746033055580102005321807438048741730183322053808659387092074517097549805"
  by (rule pt_zmul_add [OF pt_sum_29 pt_digit_22]) (simp, simp only: hex_add)

lemma pt_12_neg0: "pt (zmul (- 1) (row_base 12))
    20825829470460026280986406535590688176602712645150839820193147456297405811229
    24277510719184982406390712670096807578634110983235809048632298767886642985665
    22784933077673554079131751953360229327098590000070878668953803308195876779740"
  by (rule pt_zmul_neg [OF pt_12_1]) (simp only: hex_neg)

lemma pt_digit_24: "pt (zmul (- 79228162514264337593543950336) ed_B)
    20825829470460026280986406535590688176602712645150839820193147456297405811229
    24277510719184982406390712670096807578634110983235809048632298767886642985665
    22784933077673554079131751953360229327098590000070878668953803308195876779740"
  by (rule pt_row_zmul [OF pt_12_neg0]) simp

lemma pt_sum_31: "pt (zmul (7237005577332262213973186563042994240850475533392299183375082977163889464301) ed_B)
    49431215078550222764326648121042531711361754350505710084316493882280707789240
    12250812921711220273014183127530893690021170799231148180938759612280074648731
    55328850247412596957389780488243320784545605035710154034547538462948532144313"
  by (rule pt_zmul_add [OF pt_sum_30 pt_digit_24]) (simp, simp only: hex_add)

lemma pt_13_neg0: "pt (zmul (- 6) (row_base 13))
    18476122123883393006595457694411242652122438846104425755998981870912674010423
    54933698333180584196379405897957482182243833429209440878928059808247314311375
    20987342293555741269443675099888171486381004748371587029790144928255895254024"
  by (rule pt_zmul_neg [OF pt_13_6]) (simp only: hex_neg)

lemma pt_digit_26: "pt (zmul (- 121694457621910022543683507716096) ed_B)
    18476122123883393006595457694411242652122438846104425755998981870912674010423
    54933698333180584196379405897957482182243833429209440878928059808247314311375
    20987342293555741269443675099888171486381004748371587029790144928255895254024"
  by (rule pt_row_zmul [OF pt_13_neg0]) simp

lemma pt_sum_32: "pt (zmul (7237005577332262213973186563042994240850475411697841561465060433480381748205) ed_B)
    5870122980700527658615347922399693369538199534197089114685306634343377918530
    1882224690147174368030811393408770404217078018273194093816779919838684973839
    56501332876593360110343580919435706957523321519996877835021323614130342574709"
  by (rule pt_zmul_add [OF pt_sum_31 pt_digit_26]) (simp, simp only: hex_add)

lemma pt_14_neg0: "pt (zmul (- 1) (row_base 14))
    27488644414586063794176012331725656698575289867651563600911483553655147563634
    49315877793598952090227901245738270288685983126601288875006392048674637302542
    22708599503644617127335861838547338700548449910420928706402857444745821256528"
  by (rule pt_zmul_neg [OF pt_14_1]) (simp only: hex_neg)

lemma pt_digit_28: "pt (zmul (- 5192296858534827628530496329220096) ed_B)
    27488644414586063794176012331725656698575289867651563600911483553655147563634
    49315877793598952090227901245738270288685983126601288875006392048674637302542
    22708599503644617127335861838547338700548449910420928706402857444745821256528"
  by (rule pt_row_zmul [OF pt_14_neg0]) simp

lemma pt_sum_33: "pt (zmul (7237005577332262213973186563042994240850470219400983026637431902984052528109) ed_B)
    11775914892881096851523075814202192481367085243580851168883077100024201502878
    2910837747736631106217498194311086782962436957583270370920944855478653510522
    26759127017670640945182505026909948053981996964131384700189911242467158464418"
  by (rule pt_zmul_add [OF pt_sum_32 pt_digit_28]) (simp, simp only: hex_add)

lemma pt_digit_30: "pt (zmul (6646139978924579364519035301401722880) ed_B)
    46120129725777000860262416690141761445267907089239430850845714903932363317071
    2910837747736631106217498194311086782962436957583270370920944855478653510522
    31136917600987456766602987477434005872652995368688897319538880761489406355531"
  by (rule pt_row_zmul [OF pt_15_5]) simp

lemma pt_sum_34: "pt (zmul (7237005577332262213973186563042994240857116359379907606001950938285454250989) ed_B)
    hZ
    (h1 hZ)
    hZ"
  by (rule pt_zmul_add [OF pt_sum_33 pt_digit_30]) (simp, simp only: hex_add)

theorem sc_order_base: "zmul sc_order ed_B = 0"
  using pt_zero [OF pt_sum_34] by (simp add: sc_order_def)

section \<open>A point of order eight\<close>

definition ed_T :: ed where
  "ed_T = Abs_ed (of_int 14399317868200118260347934320527232580618823971194345261214217575416788799818,
     of_int 2707385501144840649318225287225658788936804267575313519463743609750303402022)"

lemma Rep_ed_T: "Rep_ed ed_T = (of_int 14399317868200118260347934320527232580618823971194345261214217575416788799818,
     of_int 2707385501144840649318225287225658788936804267575313519463743609750303402022)"
  unfolding ed_T_def
proof (rule Abs_ed_inverse [OF CollectI], rule on_curve_check [where xx = 4196135079332955596441868296480342555537925119160685767609494648585856920924
      and yy = 53699909539325142115343624207863611371097067213659596252119297355370707899025
      and f = 37574248808768634654756308212349840507303815106345119498473694100031447970254
      and g = 49503774459992186518901755911383268815559142094498910484509802706784850978100
      and qa = 3581252509306099281585672196831315661640949340827431102682809119245066197800 and qa' = 0
      and qb = 126605129937444622316634316459935399931596535544872276249844836469001780991 and qb' = 0
      and qc = 3892011546888146353423901825772513412294271658838731164041487788285828128454 and qc' = 0
      and qd = 182990 and qd' = 0 and qe = 0 and qe' = 0])
qed (simp_all only: base_arith)

lemma pt_T: "pt (zmul 1 ed_T)
    14399317868200118260347934320527232580618823971194345261214217575416788799818
    2707385501144840649318225287225658788936804267575313519463743609750303402022
    8646474948907434702843920070347827283394575680151124875353015136841552197740"
proof -
  have "hcong (hmm 14399317868200118260347934320527232580618823971194345261214217575416788799818
      2707385501144840649318225287225658788936804267575313519463743609750303402022)
      8646474948907434702843920070347827283394575680151124875353015136841552197740" by (simp only: hex_check)
  from hcong_gf [OF this] show ?thesis by (simp add: pt_def Rep_ed_T hmm_gf)
qed

lemma pt_T_2: "pt (zmul 2 ed_T)
    19681161376707505956807079304988542015446066515923890162744021073123829784752
    hZ
    hZ"
  by (rule pt_zmul_dbl [OF pt_T]) (simp_all only: hex_dbl)

lemma pt_T_4: "pt (zmul 4 ed_T)
    hZ
    57896044618658097711785492504343953926634992332820282019728792003956564819948
    hZ"
  by (rule pt_zmul_dbl [OF pt_T_2]) (simp_all only: hex_dbl)

lemma pt_T_8: "pt (zmul 8 ed_T) hZ (h1 hZ) hZ"
  by (rule pt_zmul_dbl [OF pt_T_4]) (simp_all only: hex_dbl)

theorem ed_T_order: "zmul 8 ed_T = 0" "zmul 4 ed_T \<noteq> 0"
proof -
  show "zmul 8 ed_T = 0" by (rule pt_zero [OF pt_T_8])
  show "zmul 4 ed_T \<noteq> 0"
  proof
    assume "zmul 4 ed_T = 0"
    then have "Rep_ed (zmul 4 ed_T) = (0, 1)" by (simp add: zero_ed.rep_eq ed_zero_def)
    then have "(of_nat 57896044618658097711785492504343953926634992332820282019728792003956564819948 :: gf) = 1" using pt_T_4 by (simp add: pt_def)
    then have "(of_int 57896044618658097711785492504343953926634992332820282019728792003956564819948 :: gf) = of_int 1" by simp
    then show False unfolding of_int_gf_eq_iff by (simp add: p25519_def)
  qed
qed

end
