(* ===== verification/OrderCert.thy ===== *)
theory OrderCert
  imports HexPow Sc
begin

text \<open>
  The certificate that the order \<open>2 ^ 252 + 27742317777372353535851937790883648493\<close> of the base point is
  prime.  Its predecessor has a prime factor of 138 bits, whose own certificate descends through
  primes of 134, 88, 62 and 51 bits to trial division.
\<close>

lemma prime_2551: "is_prime 2551"
  by (rule trial_division [where b = 51]) (simp_all add: upto.simps)

lemma prime_3797: "is_prime 3797"
  by (rule trial_division [where b = 62]) (simp_all add: upto.simps)

lemma pow_l_21bit_0: "hpow 1224481 244495
    2551 (h1 hZ)"
  by (rule hpow_chain [OF hpow_1, where ss = "[
      Sq 48818 1091567,
      Sq 973080 544009,
      Sq 241690 979191,
      Mu 195517 451868,
      Sq 166752 33712,
      Mu 6731 433829,
      Sq 153703 1198098,
      Mu 239227 54323,
      Sq 2409 1213600,
      Mu 242322 447118,
      Sq 163264 839940,
      Mu 167712 972828,
      Sq 772894 299570,
      Sq 73289 1196891,
      Mu 238986 48779,
      Sq 1943 224258,
      Mu 44778 149492,
      Sq 18250 1079814,
      Mu 215609 (h1 hZ)]"])
    (simp only: hex_pow)

lemma prime_l_21bit: "is_prime 1224481"
proof -
  have inv: "ck_inv 1224481 244495
      50538
      10091" by (simp only: hex_pow)
  have "is_prime (int 1224481)"
    by (rule hex_pocklington [OF _ pow_l_21bit_0 inv]) (simp_all add: prime_2551)
  then show ?thesis by simp
qed

lemma pow_l_20bit_0: "hpow 531581 121859
    3797 (h1 hZ)"
  by (rule hpow_chain [OF hpow_1, where ss = "[
      Sq 27934 432227,
      Mu 99083 109770,
      Sq 22667 106373,
      Mu 24384 436303,
      Sq 358102 88547,
      Sq 14749 283040,
      Mu 64883 401337,
      Sq 303004 218245,
      Mu 50030 120025,
      Sq 27100 155525,
      Sq 45502 26963,
      Mu 6180 513637,
      Sq 496298 380631,
      Sq 272545 214516,
      Mu 49175 209569,
      Sq 82619 475122,
      Sq 424659 259005,
      Mu 59374 (h1 hZ)]"])
    (simp only: hex_pow)

lemma prime_l_20bit: "is_prime 531581"
proof -
  have inv: "ck_inv 531581 121859
      330274
      75711" by (simp only: hex_pow)
  have "is_prime (int 531581)"
    by (rule hex_pocklington [OF _ pow_l_20bit_0 inv]) (simp_all add: prime_3797)
  then show ?thesis by simp
qed

lemma pow_l_51bit_0: "hpow 1257559732178653 805263164887301
    1224481 212437475679330"
  by (rule hpow_chain [OF hpow_1, where ss = "[
      Sq 515640528343660 317338731174621,
      Sq 80078796836993 692065199183212,
      Sq 380860032064430 1114670776024154,
      Mu 713765949990737 1032234084731093,
      Sq 847281587042155 771009818857434,
      Sq 472706087483185 145555663614551,
      Mu 93204808765992 1231645603948075,
      Sq 1206265479808728 78322131522241,
      Sq 4877984026698 1133098619984287,
      Mu 725565996994213 270622822704298,
      Sq 58237163845540 293246170415184,
      Sq 68381098935310 718457927816426,
      Mu 460055844655207 1145601595910055,
      Sq 1043610878250688 900575913939761,
      Mu 576672894435030 596457006460471,
      Sq 282897862783384 635258757640089,
      Mu 406780262288933 168049743862540,
      Sq 22456759460117 133741942969199,
      Mu 85640035632322 946880624019633,
      Sq 712954536633046 613645593887651,
      Sq 299437796282930 390737916004511,
      Sq 121406653773054 53500126932859,
      Mu 34258159221741 106580675028686,
      Sq 9032923048427 131543988257765,
      Sq 13759840112549 809207587578728,
      Sq 520704427025943 902024856303205,
      Sq 647006118730611 695533061425042,
      Sq 384686490157563 288228549599125,
      Mu 184563665742515 212437475679330]"])
    (simp only: hex_pow)

lemma pow_l_51bit_y_0: "hpow 1257559732178653 212437475679330
    531581 (h1 hZ)"
  by (rule hpow_chain [OF hpow_1, where ss = "[
      Sq 35886709726957 818796615199979,
      Sq 533118133403860 898329641799861,
      Sq 641715955661358 841736755028547,
      Sq 563409233483100 730972128666909,
      Sq 424886579313534 343202482824579,
      Sq 93663896197514 582536464058599,
      Sq 269847008674484 652592295252749,
      Mu 110241331925519 346029427232263,
      Sq 95213262198886 1050870378520611,
      Mu 177521786652902 1194644466769624,
      Sq 1134876829676135 133945938555221,
      Mu 22627264801865 980506865694085,
      Sq 764491490203552 263501404811769,
      Sq 55212479026731 426894666336018,
      Sq 144914831067643 265606480471445,
      Sq 56098172248414 640117716481683,
      Mu 108134022064621 449722443976877,
      Sq 160827570604656 666571885064761,
      Mu 112602880800459 309018886688403,
      Sq 75934899859352 516353777877553,
      Mu 87226785593520 1031360953950930,
      Sq 845848821424777 500203083179519,
      Mu 84498475578239 260541440510203,
      Sq 53979020229544 203861670376977,
      Mu 34438013188946 789057550015672,
      Sq 495095223952578 502413549694150,
      Sq 200721578830274 374409211281578,
      Mu 63248325849263 (h1 hZ)]"])
    (simp only: hex_pow)

lemma pow_l_51bit_z_0: "hpow 1257559732178653 805263164887301
    531581 842138079367511"
  by (rule hpow_chain [OF hpow_1, where ss = "[
      Sq 515640528343660 317338731174621,
      Sq 80078796836993 692065199183212,
      Sq 380860032064430 1114670776024154,
      Sq 988017433390414 532111045783374,
      Sq 225152060613572 490177834345360,
      Sq 191063933692632 976379139744904,
      Sq 758068344695985 1071809202161011,
      Mu 686320059558726 87763694145233,
      Sq 6124930540415 865377879863294,
      Mu 554134259018386 843073832915436,
      Sq 565200578198658 321642946222422,
      Mu 205960170488305 948016802109857,
      Sq 714666535581247 1005519696040158,
      Sq 803993506831734 305794250890662,
      Sq 74358395458305 733982206235079,
      Sq 428393073732087 766741667597430,
      Mu 490973753454089 1237349405874313,
      Sq 1217463881071544 1046220670671737,
      Mu 669934752901225 1002421808361912,
      Sq 799047119725056 324759539866176,
      Mu 207955843534300 310701128533076,
      Sq 76763901388990 219878098791306,
      Mu 140796281235360 73632747835026,
      Sq 4311351115182 113228107810830,
      Mu 72504249394172 288205856259514,
      Sq 66050632392926 962210590107518,
      Sq 736226833624097 871873350318983,
      Mu 558293554964924 842138079367511]"])
    (simp only: hex_pow)

lemma prime_l_51bit: "is_prime 1257559732178653"
proof -
  have inv: "ck_inv 1257559732178653 212437475679330
      597586104329933
      100949227505052"
    "ck_inv 1257559732178653 842138079367511
      1204828441136788
      806826016628643" by (simp_all only: hex_pow)
  have "is_prime (int 1257559732178653)"
    by (rule hex_pocklington2 [OF _ _ pow_l_51bit_0 pow_l_51bit_y_0 pow_l_51bit_z_0 inv]) (simp_all add: prime_l_21bit prime_l_20bit)
  then show ?thesis by simp
qed

lemma pow_l_62bit_0: "hpow 4434155615661930479 2965746192537990202
    1228085675955 1255252227659307975"
  by (rule hpow_chain [OF hpow_1, where ss = "[
      Sq 1983613395859714653 3949090893384392017,
      Sq 3517088761866438741 4214510139879041350,
      Sq 4005744781803678787 2919710406568773527,
      Sq 1922510077931359382 2156285274167615751,
      Mu 1442212541955115459 4252221714462696841,
      Sq 4077752581592445574 1701927223092129335,
      Mu 1138319134320401852 50608128179928562,
      Sq 577603237204778 2964474780100759182,
      Mu 1982763022773676613 959648292643347137,
      Sq 207688887219131938 3875706695001558467,
      Sq 3387590262421936696 2168039261528432705,
      Mu 1450074093574854619 3842591674396323909,
      Sq 3329948710863127801 1524324669090893602,
      Mu 1019531219784037901 3887389989937403025,
      Sq 3408044787713124423 3741870972376162008,
      Mu 2502717665139139345 1301177071385049361,
      Sq 381822813145774921 3544024567122791162,
      Mu 2370389827790580034 1877971016454738438,
      Sq 795365666957443191 731550753960761355,
      Sq 120691863797087051 4280113055788308596,
      Mu 2862716173965716711 4320099385709841823,
      Sq 4208976932719692688 738293049979325777,
      Mu 493800847723875765 4357123134729095519,
      Sq 4281428902525670961 4378995663814759042,
      Mu 2928852941296759959 81751385778016123,
      Sq 1507229257588501 2767448311796129150,
      Mu 1850983593080288483 4137396818216214943,
      Sq 3860498799573653965 3838774409743794014,
      Mu 2567530681489265008 1491783657734871996,
      Sq 501881006075747159 1626706582265264855,
      Sq 596770734756930301 2620289725587626846,
      Sq 1548416167842394711 263007017580611147,
      Mu 175909942863840967 3732808178191848501,
      Sq 3142392397316868114 4307015267856100395,
      Mu 2880709483160615768 1828847249191136918,
      Sq 754299702306387028 543224095219112312,
      Mu 363330683839898869 1054472118324838773,
      Sq 250760583231918600 1667220409457136129,
      Sq 626866563702112778 2416714967983543979,
      Sq 1317164245622406023 2749644127690277424,
      Sq 1705069348995544733 556595729103458669,
      Mu 372274184185362547 2700942795709591125,
      Sq 1645204322538538425 2055096704058610050,
      Sq 952475020974673215 1204332824887582515,
      Sq 327101184265763809 910105604541490714,
      Sq 186798182836031313 1448178424875140869,
      Mu 968601470484920289 3415979324717177107,
      Sq 2631597931673691708 575297894830121317,
      Mu 384782964120859759 2691649287850641473,
      Sq 1633902036093818020 747911866670178149,
      Mu 500234309119965670 1500694823349840168,
      Sq 507894884174654046 4395742108818200190,
      Mu 2940053654535618253 980283073725105193,
      Sq 216716549423240919 1361810498669497048,
      Sq 418236975656890747 257374668468336491,
      Mu 172142795433161609 1849599440067280471,
      Sq 771515117018848259 3531747576669795780,
      Mu 2362178470127986823 2071497024926869343,
      Sq 967737782842854876 2992659593195086045,
      Sq 2019778333694232573 517525333370449558,
      Sq 60402136031081294 1717295893197035538,
      Mu 1148598334871461873 3585578814864671509,
      Sq 2899396537233874987 3711015260305308308,
      Mu 2482080092053305679 1255252227659307975]"])
    (simp only: hex_pow)

lemma pow_l_62bit_1: "hpow 4434155615661930479 2965746192537990202
    1257559732178653 (h1 hZ)"
  by (rule hpow_chain [OF pow_l_62bit_0, where ss = "[
      Sq 355345705387121598 1792944606103215183,
      Mu 1199195314706688093 4043166316248550419,
      Sq 3686653170923178148 1983200915077102669,
      Sq 886997708350731072 2201158093077780073,
      Mu 1472225334325597068 396267290002609174,
      Sq 35413228297936238 2810378069058164274,
      Mu 1879696785665762204 3363042585924627632,
      Sq 2550667232966347313 1956222335083474497,
      Sq 863029211415751415 305683154373525224,
      Mu 204453503617272375 2490112065854637623,
      Sq 1398385315710039029 4036838262072425238,
      Mu 2700003956411835965 1023591511839640841,
      Sq 236288410674949912 2979224055324019433,
      Mu 1992627946476754433 3737541807010532059,
      Sq 3150367278453358734 3024742614311325895,
      Sq 2063316824180772939 2727662573795043244,
      Mu 1824373250272908153 (h1 hZ)]"])
    (simp only: hex_pow)

lemma prime_l_62bit: "is_prime 4434155615661930479"
proof -
  have inv: "ck_inv 4434155615661930479 2965746192537990202
      4267469479524713914
      2854259628590679847" by (simp only: hex_pow)
  have "is_prime (int 4434155615661930479)"
    by (rule hex_pocklington [OF _ pow_l_62bit_1 inv]) (simp_all add: prime_l_51bit)
  then show ?thesis by simp
qed

lemma pow_l_88bit_0: "hpow 172054593956031949258510691 78758381780757326350458059
    2114370162802 168102752845106529205964201"
  by (rule hpow_chain [OF hpow_1, where ss = "[
      Sq 36051828423184423576143933 83233079233180242882759778,
      Mu 38100131361270262423776445 75427940258911095734677407,
      Sq 33067261041316712921949925 49065489690556493177095474,
      Mu 22459839522193614326264098 74164757380697113653253248,
      Sq 31968987929164396957303392 125960657621584048659985632,
      Mu 57658777567143139785174769 119968394763010245468652909,
      Sq 83650284546842172935645903 82056383839250691198313308,
      Sq 39134381558536614712021671 6700558511947556952718203,
      Mu 3067195901570216232521433 130791428366695304880207774,
      Sq 99424242857310043239562077 102253574255055173347369869,
      Mu 46806806226195028508616924 143047751776005934567289787,
      Sq 118931199787661479322099573 69804647500113869247470426,
      Sq 28320596972030603844597429 4004280240844740757008037,
      Sq 93192863256630762114643 168247271634036608099445056,
      Sq 164524199914889269540338210 95179058704280042122040026,
      Mu 43568430639407514197099454 26309089439118528583006820,
      Sq 4022956732514911276648936 63353597209832399556737624,
      Sq 23327934390704891059958272 26233775821095070651279424,
      Sq 3999957095056367195088492 33483504500061282252703804,
      Mu 15327150354656832736673974 12027606600977490591300402,
      Sq 840798941903554142336279 18544007347069090566702815,
      Sq 1998669146701366176945617 77986542297565007808832878,
      Mu 35698517143938619424602043 125810060383455937943322089,
      Sq 91995051859723503664098483 138406469918860851862942168,
      Sq 111338793547679892731429489 165111820007647345693373325,
      Sq 158449201962049539247283491 28192381517609983690253344,
      Mu 12905126772959674594918645 160938198056649319148765601,
      Sq 150540029174345872613145831 96849071162305718585311980,
      Sq 54516083350836438992671026 12492027703808989064581434,
      Sq 906983955293920256439562 153929839854433787245139014,
      Mu 70461734359760228646325963 20578924292995333725243393,
      Sq 2461382258500204162261691 81763264305754612226913968,
      Sq 38855291429423138077229739 50535792485266398678865375,
      Sq 14843348633669967090973029 9394583687258478784737586,
      Sq 512966266273931877357102 6478289264366985189329914,
      Sq 243923924539541173841126 57700727953017201728769330,
      Mu 26412639480656106347751889 167765722678659035728585171,
      Sq 163583761751140395817595548 156124009654193134329095573,
      Sq 141668442731215164704700358 48175052463866817673670951,
      Mu 22052239856070513984865845 142475471449223904758895214,
      Sq 117981505160309946953310535 159311418156556491691676111,
      Sq 147512062139642811482614374 136439463891600542218811887,
      Sq 108196630377591446998146855 32066412085312935686973964,
      Sq 5976328561664973700507030 62986775105865537838215566,
      Sq 23058575461523121267343558 143376259936670898171721778,
      Sq 119478076352213173621884402 121231685251265849556339502,
      Mu 55494079706954930071748609 118132068879179051525067799,
      Sq 81109056008358084649545696 80002251797021636837668465,
      Mu 36621212752739821029659979 121990409826793974663073946,
      Sq 86493825869666211086577304 18627322328441410182053852,
      Mu 8526699170098977068208406 29990328356486178438324722,
      Sq 5227525602482332297901591 150034857237960576776967903,
      Sq 130833230713779682047091861 100786254584842277764631458,
      Sq 59038639304431795318035093 2088262928538924909526501,
      Mu 955907106011365057180427 113924271872388544454076502,
      Sq 75433845869704466218729033 168102752845106529205964201]"])
    (simp only: hex_pow)

lemma pow_l_88bit_1: "hpow 172054593956031949258510691 78758381780757326350458059
    4434155615661930479 (h1 hZ)"
  by (rule hpow_chain [OF pow_l_88bit_0, where ss = "[
      Sq 164241679715476576040651778 20957617434919652872409803,
      Mu 9593397056147544941604745 89873012142279489933123582,
      Sq 46945321980710442008853731 34204446973862890165772603,
      Sq 6799842805050436828520472 108392880161333292181029457,
      Mu 49617087470757862026777513 126653394055407689733152480,
      Sq 93232513337328451671843647 108894375340023589500220323,
      Sq 68919897504882730384839806 21955301995905337368858383,
      Mu 10050089433515612655709342 121494886469110808856483275,
      Sq 85792579545503197650958073 133009832266102975091467182,
      Sq 102825591997723053768170971 109345303871906634863670163,
      Sq 69491870015949833812401411 85045907272189742329461568,
      Mu 38929957520028090369757991 31632800852989364880194731,
      Sq 5815794084873977964116998 156987460005033172122336743,
      Mu 71861366939306359118018938 160470076797492875282695679,
      Sq 149665550656402489163723948 114442751519242154994542973,
      Sq 76122020773487393466596934 91365458307000184316857335,
      Mu 41822746382206168044174781 91533081724774362442929094,
      Sq 48695619555356213535454977 118222764451108046208001729,
      Mu 54116739365856865201893118 45712454889093023771659473,
      Sq 12145148141300796548285152 12868423718903242762077697,
      Mu 5890550230986163636864082 33298420645401145586909461,
      Sq 6444377868581782699355814 97812835887404602679303047,
      Mu 44774048136415355753535512 83057818065096888424246981,
      Sq 40095419617203900238100918 106785882160300042047700023,
      Mu 48881480480114916591117163 118618721723656084205745724,
      Sq 81778700700951989055162164 117053466693048890811588852,
      Mu 53581490657135141590589047 77287029770433499140956791,
      Sq 34717381462434705839223050 101859216929648499370390131,
      Sq 60302371677286159559763122 39214112177800188677659859,
      Mu 17950349055381074212919154 38170762923028327219678267,
      Sq 8468283866331217996018175 88042023699101790324314364,
      Mu 40301436630144957365381204 76959499153738025988807512,
      Sq 34423751053736752715673989 95356440348928325360513745,
      Mu 43649627490760859567181352 51407639856930932087686723,
      Sq 15359923701515692445962235 141546241427525440860724344,
      Mu 64793114009086700090459245 (h1 hZ)]"])
    (simp only: hex_pow)

lemma prime_l_88bit: "is_prime 172054593956031949258510691"
proof -
  have inv: "ck_inv 172054593956031949258510691 78758381780757326350458059
      62331730907286058593387488
      28532491617782578289580533" by (simp only: hex_pow)
  have "is_prime (int 172054593956031949258510691)"
    by (rule hex_pocklington [OF _ pow_l_88bit_1 inv]) (simp_all add: prime_l_62bit)
  then show ?thesis by simp
qed

lemma pow_l_134bit_0: "hpow 19757330305831588566944191468367130476339 1624075003403641757020581561069632059935
    1222521418896 1449172933548186280295003550518998315075"
  by (rule hpow_chain [OF hpow_1, where ss = "[
      Sq 133500810881418385875612002099987824780 11720108459516409097795365383209564323805,
      Sq 6952404002796093167331215241445105961916 7645541814870037518018111235297016572501,
      Sq 2958613777169722610110078328709495215386 904120205136940537137617585338207643147,
      Sq 41373674108975603507105487938976610187 7145216997627384558963503094915666198216,
      Mu 587344957041908611375420771404097001678 18044773760153623470056112274424279779118,
      Sq 16480660849154316448269728994141644298721 12981173466504269134197995378274530395505,
      Mu 1067067210774599846282367875327608649613 1620849392814983571852949594586176585368,
      Sq 132971039787357734418260193447349171496 5647060306485946044127286441504710462280,
      Mu 464194774522230877784431912241952257246 10357502705758017299607934824282272449406,
      Sq 5429775209463417962660809511099841209117 13700108214072594844547140135276910170173,
      Sq 9499915331268202091827782864085318285578 9849214276081544382295982830561844910987,
      Sq 4909925599995452542037066639147759491581 5678880559542781196329612365248963112210,
      Mu 466810435484093262262359047733353509952 16891800205405075742308868533455513280622,
      Sq 14441875990457267403579045792981905708820 1892434196661433566083910027946887096904,
      Sq 181264732292122689961375317114402566119 7515566738465521074294221350612673826875,
      Mu 617788126604888603879223308249474501859 19163927270546841310150663632636402738924,
      Sq 18588346843723583249502342994761972537287 8810451390355532044863643192556155925483,
      Sq 3928873612995484175072483078186735228475 19092195135157663583675200800553502230264,
      Sq 18449451896410738412868960967354190211145 16367615677449662467469149701947240911541,
      Sq 13559465718180697114579344114297700677333 12679537772813213714170038013317356870794,
      Mu 1042272413973871783331786921180450695794 11713770547459123957170953523356655220224,
      Sq 6944886698483807942081741568038764358415 16331148412509286133764904275155265567491,
      Mu 1342438958253527090845845987140826958678 8704733644658277848065187559548289853243,
      Sq 3835153163485896171816039686299300063413 19240868127296971027376846156122881532042,
      Mu 1581621225419584454954843272756514499379 3539661101706733207786763531680777243789,
      Sq 634154540162624903030895409337291170245 15858239287595388094468008270961945743466,
      Mu 1303565290770858292817147219508946552036 6231208369817413221715586370174316358506,
      Sq 1965243134930132487632444521371893758556 18179309072515740102959097729626981745552,
      Mu 1494359864759023853464755689950309001434 16390488840212107573280722723929588994,
      Sq 13597389944016032140117306885528463 14140567735655478465457221563854833395079,
      Mu 1162370737236479267648000644706651095740 14851716215592456418878664904077968364005,
      Sq 11164133571395892578484811405176718066313 10046082459117652661758575183417500171918,
      Sq 5108168523436723948721503891245479681880 3452613109832448476917808110408968761404,
      Mu 283808721183728766125786430421547916622 247091954327120679444133504478126941882,
      Sq 3090216792861686325287275533956080493 1378788756462721600310731484932889746797,
      Sq 96220410628398532620593602466416244928 660173850922690651468117620306439000617,
      Sq 22059129786044788210669935814704591151 10221329348741946326760451921308852104500,
      Sq 5287939819714223800668600340364334314684 16838424464935723232589609585498877988124,
      Mu 1384137626232362384711775764808636945127 483824925605524590591269226513271361887,
      Sq 11848086508332466294874655802383008306 806328730921446139506392558634142729035,
      Mu 66281137995105414162771990693846450840 4641116867093825464502396147495838037965,
      Sq 1090226535700780027944834331188268498246 200751766432498188531138825298615339831,
      Mu 16502023335405471251842463249135786447 3482916027391679093496376702244094393452,
      Sq 613984980059847849156000099108378821069 12884583589718419403531618465578561289913,
      Sq 8402577256677275733560872655444915622673 13441563175239660444905604784193157113422,
      Mu 1104911768020309221943139111102563495396 3419189742672598667653807603945983512326,
      Sq 591722581716763061452677428186811217166 15326679142199595273681027825013440295002,
      Sq 11889617164450642710489262556698762307884 6685250299221800043605967692548891023328,
      Sq 2262075435872713722223826792411907699054 5390694741535055352541377920662560512278,
      Mu 443121233748996848163122996160602737167 2337236368230126537887152262038069990317,
      Sq 276488460557101923115580393294341273854 8730602553555302947739867295489407419983,
      Sq 3857981810712969345708017114458045187773 17390769940758290779151000322528359117242,
      Sq 15307679451161174144181501903879671197935 17286658071949586796173563004170198526599,
      Mu 1420982938102347186722878050200976967899 12327550230623581421147445144062477669304,
      Sq 7691752495715090594501632080332442224510 1226228935291211255873270674106902975526,
      Sq 76105292489927285763683709089151587445 13313497567969525652359849848251693012821,
      Sq 8971314178009842813969018436698165542894 14676866115114408750573712596761313792975,
      Sq 10902809014506014542741807885152466297450 1449172933548186280295003550518998315075]"])
    (simp only: hex_pow)

lemma pow_l_134bit_1: "hpow 19757330305831588566944191468367130476339 1624075003403641757020581561069632059935
    1344176515281499603582114 11561423350837648083680834101720100550078"
  by (rule hpow_chain [OF pow_l_134bit_0, where ss = "[
      Sq 106294836337720596607082768451141125278 9476189632484572349573272875264358458383,
      Sq 4545055863357368609933983556714263445255 929393925806511575108872056632943653244,
      Sq 43719118724815145163346639346092156995 15619345728718372109367195774094590882231,
      Sq 12348022592972708832128273743716721593366 6948655339214293571207810449332269170287,
      Mu 571187365347344402599300555605555774521 16519353593644163689150090679250295592726,
      Sq 13812040337823284183029326892281592277211 17202452381732871423352934644201499700547,
      Mu 1414061134675041377456496436216272790909 3112178394189355951504616270787137482294,
      Sq 490230927323223075700225360971482225059 15196292538792548040891977099354891123435,
      Mu 1249152515781836160680237782417580172008 17157627793063696376585935276406808958013,
      Sq 14899998477953326898621219925949047589941 15538075132387350625525689769203522002170,
      Mu 1277247433377658634467600876197268633586 12223835760486293331143504011020806337296,
      Sq 7562872027059240851793561524195026680214 10450152868603515179376459389895274135070,
      Mu 859014441370978739502786527608196461507 17014253362300693694617942666690337637577,
      Sq 14652020945922835668865193561408120735145 18485309747612195876516418482786694196774,
      Sq 17295184682128235896343331919820840793572 14999997402036238820124233594317902714168,
      Sq 11388174342293744348979377284743620484415 16206497735119974327761058104664232175539,
      Sq 13293828911739392081461445403571155906895 4953382020018308175635487494078025483116,
      Mu 407173631077388155038458176857274351466 15548823422040899473719321323870759594486,
      Sq 12236770154034822131168055888111023957259 11167453293408374111129942787885714809395,
      Sq 6312189507893556312452683917155913365642 15839200622576178251615260796857043721387,
      Sq 12698085848580847001905247541893125720559 2254106258359357267167534242439405850268,
      Mu 185290096007384546987291577699502616751 12188815546764221296483931160479421257991,
      Sq 7519600175393634460021261532926244667440 6067454395435545950077602501967137653921,
      Mu 498751646370456793409797176815577443693 14374778096849178514792269816867318475208,
      Sq 10458611671469832662327258454473964919356 13701873203152190930891839767986109525580,
      Mu 1126309548131484565301551281349335307444 13834724985583750979032137237714243069784,
      Sq 9687524198056336760196213096392814952820 7239463317521763942544240304583482480676,
      Mu 595092111638907310589995742102636893903 5075640661882544728907422650889916454943,
      Sq 1303927591925286965869664259121187652612 346019056587908589553151831467731585781,
      Mu 28443159668179650141157163285785961930 14478460824549636324043073109234966009965,
      Sq 10610028004954961801588095238830801948485 6755054793687721921281273456205089904810,
      Mu 555273180497065882182727709720203238279 13320886396711463021013087460533776206769,
      Sq 8981274881137023105739395431967695717194 18616794846483766758102574887058788946595,
      Sq 17542099311553556955445494836135414652851 6179977381781257459062853095281807701536,
      Sq 1933060785447065732230079038861775482456 4525636123850729356681477823660439150712,
      Mu 372012432321237951925415286593269760173 15181802683591137109532149894960700877073,
      Sq 11665904712615160149204704433048576142539 2307108370725297704649785344777226162608,
      Mu 189646929875556890914208145233030410255 17496145054084688225218071452379571454035,
      Sq 15493747738945222558131712396535613734500 11149149391939512832013536633548439785725,
      Mu 916472749930054199575249768386734304653 3746426860047676951292618170453923322508,
      Sq 710405403990432046886792844636259612728 9636763896585753449179305920603472167272,
      Sq 4700393067332982519746484136384931758068 6541910485901332184825555526451201568932,
      Mu 537752476179465126249422642575619301749 5264076613054393321747674741606112122509,
      Sq 1402542861771519812951530904584581292991 12222852389246249953198305591710672415132,
      Mu 1004732356466608671914964473829391929048 1290063588973234707069641047508294141148,
      Sq 84235270546814597751079313915868684087 17264874164688671642752986761549527440411,
      Mu 1419192276170230123795340671418208801799 15376567630640578261805178757996582899424,
      Sq 11967144773090934365388306602523286759665 15232187979895155864509601724643237465341,
      Mu 1252103161832111792787953074063717573810 10895276825085411025884222590031306131245,
      Sq 6008253911724377526245506492909493478090 16731211774770199001245120207133605337515,
      Sq 14168586702707682325239882134736160052337 15090670991934648216882238604271086220982,
      Sq 11526271386959673752519737667321037570041 2645142999337677574020270149434331284425,
      Mu 217433760490630337850783039220922016350 4228058937968921775558528651379285869725,
      Sq 904802526769644107447807741008720927831 8068532532518427680692548427336599484916,
      Sq 3295041193348521773098142374242270017073 10142888183411178446325338789048358991309,
      Mu 833756935072049687952432884905007336376 4226177852299204601991762107213950097451,
      Sq 903997603056348941125374901424351624876 9386587262756018293759683130337874888437,
      Sq 4459510423598449939171874159820915964970 16155510446663431212522206741589258458139,
      Sq 13210313020641971466545778575287901172684 4528762823050675031634368783318000219445,
      Sq 1038080165182654424965098610876256413781 65991739803744917834266552545742080266,
      Mu 5424596004994928722891791163210769126 16454514150867029027103017058250758032996,
      Sq 13703826972066576454255133324707967402342 11561423350837648083680834101720100550078]"])
    (simp only: hex_pow)

lemma pow_l_134bit_2: "hpow 19757330305831588566944191468367130476339 1624075003403641757020581561069632059935
    172054593956031949258510691 (h1 hZ)"
  by (rule hpow_chain [OF pow_l_134bit_1, where ss = "[
      Sq 6765413536556653228486497755956387063463 13094126474976489091003931176009572904127,
      Mu 1076352076431010251394601680287997451051 4252415723877484526346493064151806669456,
      Sq 915257234088102839516678261457816077459 13337173388787209097905250375148052593335,
      Mu 1096330808945184090552299850207636740130 14147230318383749496655693313230844749155,
      Sq 10130119939449596311637759114046671716260 1654249488251373329379016494342421641885,
      Sq 138507648909033571458545441653663419626 3339512655334915744245549131546165124011,
      Sq 564466180526947268420069707644163386196 5979307143164194937874562352670311511677,
      Sq 1809561988329047947154383978644703987791 15960605292607891581364145429342236975180,
      Mu 1311979892711790986196608992506601909246 9633606192708764093074454990976039082906,
      Sq 4697313191590659962418343097034457460827 672149547308769574212603314136598532483,
      Mu 55251456620687383542184806748015603636 (h1 hZ)]"])
    (simp only: hex_pow)

lemma prime_l_134bit: "is_prime 19757330305831588566944191468367130476339"
proof -
  have inv: "ck_inv 19757330305831588566944191468367130476339 1624075003403641757020581561069632059935
      12249073148214688741159163546875739371973
      1006887732651130121534509553353679741079" by (simp only: hex_pow)
  have "is_prime (int 19757330305831588566944191468367130476339)"
    by (rule hex_pocklington [OF _ pow_l_134bit_2 inv]) (simp_all add: prime_l_88bit)
  then show ?thesis by simp
qed

lemma pow_l_138bit_0: "hpow 276602624281642239937218680557139826668747 221269865492318237431241965541596355882682
    1994980540135 252853741825052636495767799505547227664369"
  by (rule hpow_chain [OF hpow_1, where ss = "[
      Sq 177006105788556109259548195016964987221091 89797210378130291011024319585848038570147,
      Mu 71833796637167337197557254074549717703890 154352233956009958699947334251206896168424,
      Sq 86132993817701976658717973053167222386034 146900830100157962112976240648473097564378,
      Mu 117514166763200675044810053251852999607801 232822836895796624568743506778035166206449,
      Sq 195972375609179395177063207808295901839368 158050838007688742409860571693076349357705,
      Sq 90310305116619109657072722644271880202222 132160649622914746791948405855003075511191,
      Mu 105722674328873229341266061542285805324655 105840316416340384122683404466343697036977,
      Sq 40499155090100587969877549015930521876697 162135485916855988759667343142021107809870,
      Sq 95038562492914503389214239163129871973563 37458108151973686852173143938595327081339,
      Sq 5072655655270585836702536958222347508917 50702701754594933174162689868554334315922,
      Sq 9294069323788488762200012338209592674133 74988395789156232016057912415918796288733,
      Sq 20329740246084688367895012243147742364816 128795997208294464428728385841509043139737,
      Sq 59971986672072752335629342211435238423982 188250463643733186726310009220205453738615,
      Mu 150592044733828360153539144908658366384143 213613338563339466940560763160341818686609,
      Sq 164968277255800209303406035676457809407102 57672344879011916645229765292989932677687,
      Mu 46135325097320475919281168044568629719258 72824798764826823004580645640398718486808,
      Sq 19173539401193257592032672600759046794394 260929705854610897415319251621259215424546,
      Mu 208732223952481754754997782512790023734403 123433781432434647156608498270283010309331,
      Sq 55082262644032460165693904013145578808591 184571812128030648031854503184191630862084,
      Mu 147649286225348671076217310530573005186926 256392899835540738777097888684601808827566,
      Sq 237659780910619969949368078403422241859813 177674720913262689461341991679173959120045,
      Mu 142131918306864889337543568786716195653855 180397078127891683032893336181395815991005,
      Sq 117652917724831940034153791147257855091601 264769430396742242647506499501249872016078,
      Mu 211803833757961622237272925436789903616128 15559357304858270200096793323339283009580,
      Sq 875239706669384099413822695968073430156 142752695661171225906958056371467319241868,
      Sq 73673675987185700078722652630472457214972 249391089022399834020475783367062271249340,
      Sq 224856562533728722195674178412531802013551 197076764746763539905924342395581168245003,
      Sq 140415338805695096553260538407208145995979 54474871615479468423224225807097007501696,
      Sq 10728429078465256617217978950245716800835 165320817621797606896406890268371324872671,
      Mu 132249342077854728321433981194032268096571 253517908466106492319038386575166040417085,
      Sq 232359798031369420068198643787262142163407 15878024916059758602317819820428225956196,
      Mu 12701717659348308083304201984981473115326 22686939019360885557317640559834316081150,
      Sq 1860782063817748276805592763645453532082 67726123699353665167891824108482434081246,
      Sq 16582734322396579092376559960295254486676 146896793544455791178124819927161551797544,
      Mu 117510937697172862627668612050055910814201 42295714401393404449767986137557589256861,
      Sq 6467499942815857967477565889829000746485 135788242020494563036924475283028415969026,
      Mu 108624587801162417574370499270767354461775 160973962261555778629533970859619203161807,
      Sq 93681745043026227738346085765135633791517 95086231571308098568980377356438605886050,
      Sq 32687294482160466259175677241570486982319 34390532151741653881616437866511125718207,
      Sq 4275840494107963110819973763717475171021 154613573893821023253633565606071030514162,
      Mu 123684020669079913378419335446976546390619 207603415156493203755994962282274430258091,
      Sq 155816229497355889792115082058003807208531 214930789638355256709056991500777981483624,
      Mu 171935125478102550954013831640681596553874 247459551820090043940628879505205910623690,
      Sq 221387016649010150087147123701864515504604 196961387673536437298835351684495727804912,
      Mu 157560398679833533197254700848715064608253 145182077926357787723005930060410501964993,
      Sq 76202587758361821203704311366820228076200 158616833332213015816991361113307722968649,
      Mu 126886451158538718895643536324533246627736 21289955497334673355666377208303313469826,
      Sq 1638676445155380645121896492800418150843 234948297910673672609400913881877372666555,
      Mu 187948246736118137148099461213333686530858 116524472203204085307631627068849925405584,
      Sq 49088300074875438459047692021995835133560 218209091425256495352282220527208275531736,
      Sq 172143007335148077231463187431342696882232 125843469262969705283070741250430009170392,
      Mu 100669209445212238933764355664100770728100 183615363158620954498762773017042995260644,
      Sq 121888220241697294721692742317869161969088 197588153988886796607998166779687465602000,
      Mu 158061784010695320799236867407257467324948 120524295640640583595709395748542299563844,
      Sq 52516153371277373401093113055577356323504 71193345591868288535902172360813053726848,
      Mu 56951527643573142340687366737655907919822 207297801507740639225509998403844132443302,
      Sq 155357812029242770544737772593639778413784 15152568974007482701229742252347777854556,
      Sq 830072914558722993175425485699828172564 115466622488723101537478138835649508299828,
      Sq 48201064409923456643970557637463422038665 171061837759620940058235705170988763726829,
      Mu 136841904266966136519376531204653529040312 234821960862201058621969646697801386346314,
      Sq 199352242034490149159474070667619359745426 64700717451880515826739289284594790985374,
      Mu 51757712295805736407412843795765529440876 97411550180880510909390825773563748390696,
      Sq 34305567900108948033566259531927340903676 173652305460812626384966069485482172750444,
      Mu 138914163853416203723916334895250184832437 252853741825052636495767799505547227664369]"])
    (simp only: hex_pow)

lemma pow_l_138bit_1: "hpow 276602624281642239937218680557139826668747 221269865492318237431241965541596355882682
    2193504301065861535551725 3059107813968232223129224042469507580121"
  by (rule hpow_chain [OF pow_l_138bit_0, where ss = "[
      Sq 231143919624676018002944533902363290578477 55104847369724529675841147482141425409842,
      Mu 44081440648438958466483474220968516524370 52212890326868981685743520706909777291854,
      Sq 9855965478873375702209583977248204251598 36675609610784016421220758046407703349610,
      Sq 4862934123694449309422379184669082303587 185204496985277144391738975368074748256611,
      Sq 124007159341495895354785363204775026775142 163653355960976119630405305922547817318247,
      Sq 96826344243283713572647939703806506263653 110321073036943763602630790607146202000218,
      Sq 44000808696703448350429891698196572647900 34158454147857450453073388291110106866224,
      Mu 27325252514690506751509565874452163567202 246091438366976168333557784319746484696874,
      Sq 218945847657117060210674697525502283851555 22782284540427806482829295240719359520291,
      Mu 18224819988458615737138244270893082303758 247438616953630091638907421452461895249236,
      Sq 221349559928917706666734996921194988229117 183880779261597881103867581932479659277297,
      Mu 147096490496083793151113169346296241325161 177043454749866940579195494218603174627287,
      Sq 113319188316350581468536654300116334588959 22965157919121954922706673837622868415996,
      Mu 18371110603057334745227089340340621957956 104173641598233688785115676530965574980140,
      Sq 39233711654114221222212951102267641458310 48559572495358971327554169274285013982030,
      Mu 38845510241696113980253000770854958211208 242345204351511847246175129291103657488084,
      Sq 212330588781308069407854924520319410639449 158793661304139057133905016514381828390653,
      Mu 127027905715106898847124720879039499076860 204093052694407331841453401793001820476926,
      Sq 150591391771139636628727513264033128878442 207170251244643616497239457658368934957302,
      Mu 165727038006104865202603823408677862554137 264676948854158039956955634353770537787625,
      Sq 253265446908473085253598312874621499865412 102032859529424160966378046238760796461861,
      Mu 81621774784335182989634213100965921030524 197593664395089357871115800132618979557774,
      Sq 141152877021602627155376131560665826878168 53813085118054975759335256045650541619580,
      Sq 10469344379662935889554945800681311998417 271322077562461918078757943020758992002901,
      Sq 266142340348346356004151420978380415547307 52890645322068743392434639223166995501472,
      Sq 10113498994631676878119974770196733854625 241294401015345143233010191186914425261909,
      Sq 210493259464054839199319051317355695813214 108579742264826624692205897119374482901423,
      Mu 86858991408793026950994999015195940606753 118290271565745063525258731287891636607995,
      Sq 50587330411045507772502476479880226766259 264593435593041926586539515302889108512552,
      Sq 253105646921281502091357012855054448411913 213349427897226533330020730218070681969693,
      Mu 170670106027679810628693633479109818381548 247331546816599164121371360506927534476270,
      Sq 221158039297574192744588665268937542901017 237219279176193128015077683587857724697201,
      Sq 203443429211916628499784910909297898185718 47227819101191431628411279278824064879055,
      Sq 8063795138775534246396286977604482711139 219586880418583143804879933416210337620192,
      Mu 175659792166774398781287341659060821007767 174111460372156340347413666336936403156995,
      Sq 109596937887537323557293163920706934663729 92640518724853018744633968726195898652462,
      Sq 31027419685184225897067636285391712240052 116186135992414559653244517367531108606600,
      Mu 92943769965598275607534697269404823105193 88859816786625412447750000107996544398029,
      Sq 28546609273354921110515677013237567653107 67894750012787844177068668602987284737912,
      Mu 54312797074793333798710137103107387142035 208136841869715700445939582518962805159839,
      Sq 156617982407096757312985839658966060678694 20074689859906175400329197423354399929503,
      Sq 1456939080090159354931084957909821234587 186443940896031286741254015344148341474520,
      Mu 149146906436854718363408580567247487223441 177252151138514264507888608706524531764213,
      Sq 113586503977778411345292641877164234619503 2870945485111824846212847396366660736628,
      Sq 29798444609446187369698012189070291083 236770947902930579210895264004426071927383,
      Sq 202675162307102262896523948026966587654395 136541434606414950156617557164835041535624,
      Sq 67401975714426507892348000405841423096661 172534677018552380906716635564395452315609,
      Sq 107620868931401043054303123962834746288955 12350241650662545591571614490021815251496,
      Mu 9879647078319842301930926529472733945983 93235552555600273716312960513399768698971,
      Sq 31427280500046344665574821990673451531940 165791339317522493123898155539231946179661,
      Mu 132625738623602081384725493430591651060514 155278778313681531479646350545151080974844,
      Sq 87170174387205562832699642316005142928892 240401276481529698209777871409242301086012,
      Mu 192310388411524814293002816108761987788947 12732280673741990512418435144142346304775,
      Sq 586078933907290814874963868041282636597 10383139243936085338389704205645689466666,
      Sq 389763404591533388919775801588176336996 156432231755201005794128632466459992091544,
      Mu 125138866520268764858550513840327139028791 270541052131914851817960193215487015346131,
      Sq 264612315514828465008854444820569022058116 235080166059552570032521599715175621768509,
      Mu 188053735422788891792820961241173334723275 194866213707688031326006942640632230074713,
      Sq 137283011480417654830343534579487565594287 119208211155295258376660838794803017383980,
      Sq 51375498131123841067774946383818831762521 145853187251344826335287845298536724009213,
      Mu 116676098820631784910289019928666481529035 3059107813968232223129224042469507580121]"])
    (simp only: hex_pow)

lemma pow_l_138bit_2: "hpow 276602624281642239937218680557139826668747 221269865492318237431241965541596355882682
    2411783484598582588738304622603409481 173478170111800876600913742643116261675693"
  by (rule hpow_chain [OF pow_l_138bit_1, where ss = "[
      Sq 33832436123067485414924384477796627515 143998681541802303741054842488103583600936,
      Mu 115192576276437166004326646137331715240872 158879552577600253285250085812827861962968,
      Sq 91259843585416660848449543185664836945844 175979868400090932886114820060934037031556,
      Sq 111961750769870371875230421197695189696115 222600521878329015285887577468944441963231,
      Sq 179141439706843266428880268116506679090151 122713425016311887164211866069050328748564,
      Sq 54441221294780820930151948500557545855938 45004971700876672626794226088513023092410,
      Sq 7322589520099272915564545599060528177462 79322888641559832627108123299080694427986,
      Mu 63454802519547065332291015733667901676350 124066221462589883813876845217552659505002,
      Sq 55648160779311790183708027334431640981052 187987717992415625597742822399867555438160,
      Sq 127762280664455050945420230830115419080935 248994988198899275474547713559008156147155,
      Mu 199184977691798420080002304429555705900445 197777005929515667300408204238627933177295,
      Sq 141414942016657276513539002289364486355230 186152029177501513229109889719247322520215,
      Mu 148913389973074004748980284800689284169875 158793754449856941833473022254290612020005,
      Sq 91161305926752838465307537918446583247238 92455609589542260635324880619879091529239,
      Sq 30903682735381701932839938519633139139100 20960083456296912002970773595067136211421,
      Sq 1588289697669686736369864647589861725567 77204635657911276989449539638574481084692,
      Sq 21549165639880806618673909796281839519077 139089371264560684145177047086103410548345,
      Mu 111265345189868607048488019557802293358210 57135356513308247042238017448564226398420,
      Sq 11801945019071507064541038191117630663425 27319897299714879530731144782787255017925,
      Mu 21854709500574550878936310316753252911191 179235000522075015240444796124679740827173,
      Sq 116142012374538191184417184899950931698329 103592050106041497012025194640563038748166,
      Sq 38796858392224717406226334945854745664180 111737216215157926055079641393105004981096,
      Mu 89384830916280572228905461085413615118867 25157090659111610701862403520944764829823,
      Sq 2288044851614822635543496790690295322935 86713361465975617490862745207846513398884,
      Mu 69366853903839177401610847992533261806245 267909603273303208828487900185361262801873,
      Sq 259489785075124352822631722016201055400401 64888648342433597735340260846464374340582,
      Sq 15222330932843063375687352965700183340792 156648608067015377087147462880876535471100,
      Mu 125311957999553285216465618582886418855974 96863714620994650890954343812552001445622,
      Sq 33920788837577932578990995765323834250362 266605168436443636341070845553477384130470,
      Mu 213272342996363731928416124437570616162589 227265443826714079837205072260799504614557,
      Sq 186728459615635140302796860647570440700615 238831351166296769632163041589236932126844,
      Mu 191054517595993906153607395167713272289810 120835848468084795099667353829100153347538,
      Sq 52788010644955475775882263143234438135540 215611865221212119223677247906251542693064,
      Mu 172479955820910119458168892353401435515588 262369199613399222025673031201984688189412,
      Sq 248868198863087898614856711032669051729271 46928267314487558849847242617099148112307,
      Mu 37540538248441255785469718277361800844445 171331018287769166215079280299499162306959,
      Sq 106124509497186649643158439960527556792116 183248611550934246470607082622197066629029,
      Sq 121401789742794776032643003160160870471356 115916417163946720382017676431384341571909,
      Sq 48577325696102922793809106616478704382436 110190334307092501440461131340865240976589,
      Sq 43896581987398915720433634545063788487392 181603119024153720996469911933253076137097,
      Sq 119231308542179159981316287159170130875564 54997714724928989106451325667815034789101,
      Mu 43995739271001525185514985893900420616750 187436290781833316562557227473592878536632,
      Sq 127013845921720211347640165572454620842440 37469057844775984265845205765561806680744,
      Mu 29973589046630464185489318639512378405708 213339406808173280142335562928684202467532,
      Sq 164545447157147371839859126200966573984509 58980935460328406561299540704469661730801,
      Sq 12576709121289074741513301891386959628399 100935585732633479915582874588381805155548,
      Sq 36832595112388336266572540403688772459822 227228825277909203011409280774445314597270,
      Sq 186668290553183302102446458684801210489306 118104574788978847606034098426930443533318,
      Sq 50428627068565577024248725359790851764359 140792303667249490079857192810277782300951,
      Mu 112627615792557428471932914403417592959417 153138353075318360704139704470590299790083,
      Sq 84783559966308333664593235550827652869205 187874699383759805453847537577202212910754,
      Sq 127608704943443036633640142290315144207264 260816371205276177024358326036965929670308,
      Sq 245931070485520190035983991478851700333740 36966035081014292881908754473749249191084,
      Mu 29571193083952279596510682253709777400979 201092536627200385992853813902876077903975,
      Sq 146196039868323695489882324677417475481120 127208670348376776600543055365668628243985,
      Sq 58502864366626960049701748019302377180216 201980022414663981592649071384750134770873,
      Sq 147489307307109803645842227711803172644146 5346305219279218954968098238033358477067,
      Mu 4276807712230025821963968778734178576083 173478170111800876600913742643116261675693]"])
    (simp only: hex_pow)

lemma pow_l_138bit_3: "hpow 276602624281642239937218680557139826668747 221269865492318237431241965541596355882682
    19757330305831588566944191468367130476339 (h1 hZ)"
  by (rule hpow_chain [OF pow_l_138bit_2, where ss = "[
      Sq 108801120681689309029380295199447245097042 30125588961879674435330280353132703483875,
      Mu 24099138736603768276273772886748364767731 218421867761047414475510948893804046949693,
      Sq 172478885332798376716473207654560021565541 141526029673510198111594751197539915947122,
      Mu 113214564145398120490549512828049999187384 253864277989327868744340345360066598053356,
      Sq 232995156160996724790760395073458444914681 250815356142994573045346090958961758688029,
      Mu 200641191533523808231517434894426100193385 127192240010816782258989905515139526175183,
      Sq 58487752822245821560216574433961515566130 55422999494011150716398623629853522344379,
      Mu 44335948276231078954977561061914853473247 3467412511112915149080875386197830632969,
      Sq 43466505617749916637793280852361151655 202252355707560146202239049008640073928676,
      Mu 161792939091382627433387275232919546076909 116492154108733060926908488578753362926009,
      Sq 49061074543801659814902308144910676032436 12459493040823038275427230345581209190389,
      Sq 561234613147597426090101050037286831355 56965623148643754558133388901136011809136,
      Sq 11731928535172141236057209314744334798171 142844829362524075602328985230726174604759,
      Mu 114269545567057679523630613759218597310549 239339740205287468511905374384185811171535,
      Sq 207096774263454924175289808184592701694711 178672608990374005048705147340068675359108,
      Mu 142930184632689706433977115982991750939597 151622011425943395513923657513798943492697,
      Sq 83112856967838520495752885698447228818310 152939643503059777253783074736936673976239,
      Sq 84563675473397937675108645155168287725575 180994084870668822446521805453217171480596,
      Sq 118432928260344896556839751351400147089442 224256611947631140372137091043776089446042,
      Mu 179395370851181930021761753200796769222081 81876625762590299556922757081836456242137,
      Sq 24236146940678852130640903456768368604450 14557689907732622289997098591926754202619,
      Mu 11645508050144199117213106182151962279031 (h1 hZ)]"])
    (simp only: hex_pow)

lemma prime_l_138bit: "is_prime 276602624281642239937218680557139826668747"
proof -
  have inv: "ck_inv 276602624281642239937218680557139826668747 221269865492318237431241965541596355882682
      12585156755722009873775527055480549228882
      10067568772243088606185410455647262071203" by (simp only: hex_pow)
  have "is_prime (int 276602624281642239937218680557139826668747)"
    by (rule hex_pocklington [OF _ pow_l_138bit_3 inv]) (simp_all add: prime_l_134bit)
  then show ?thesis by simp
qed

lemma pow_l_253bit_0: "hpow 7237005577332262213973186563042994240857116359379907606001950938285454250989 7081136943262759288481753054493815101385520774732791966375992986456317800946
    1745607972618 7055045559697100215321149435828455946463926241888615701661301981303924399387"
  by (rule hpow_chain [OF hpow_1, where ss = "[
      Sq 6928625364929511350450608776561998355748565108591900400048433933129127256649 5755011989703140623394063076589685471633104521957367695847644144188613419055,
      Mu 5631062125591068666132196744669827306436856724002718690614640569724457199618 2559124736848845512131341988919462727535899412893934634805467350539326503828,
      Sq 904948787004505648661859908547885681649680034129042222520858265356747720047 2218880423452319162077503711433548287739818742647834108787827942283853777101,
      Sq 680313187680980120741674007219473205832860102204292905821499117634867394171 6084519303569694173970083401184711979278909135359914073553423467083162379082,
      Sq 5115565375750231666362639954496688665631083948532115759349274167965785162583 5395722970682983189754839457515660135631354542472184360974681664158417618137,
      Mu 5279511374564824713141540564316260604163848439176840405534025717322354910880 2655544075517499605885005140245161439121702024109187374256551174502758497282,
      Sq 974424333608928938273094995484982496281226544288010618626344462655840169554 5361483458454933438930566061094134672553889557519498737872045786718969198618,
      Sq 3972016404868126718900030215899317722760609296667010624111440657354233618086 6680148077860088792541203770025529342037269483827574832988539490546519322870,
      Mu 6536272887333858909548908245078116275905390529796873010175365586348742540637 7228444202209809256519456462135443032266516870965004991883870160999635495027,
      Sq 7219892955191197608459542504763510560968490274373036931275307196140297280466 2766895059624484220912833966663914104696008939942862458790462494659650849855,
      Mu 2707302435444650203853395411560530336352204018250957895646968766942432334995 5650048865102897591605956107446409032363887384847134285200860374181564902775,
      Sq 4411085750443508874592039603132389982239914434621788503577569065665276083589 1061578549744077387891557768468432422488130380656661509423191710901852781104,
      Sq 155720346659199293024844055153713015555163306487500722012200484368024967719 512223285472157371016188236673422328734894450722043099203993861541290634725,
      Sq 36254316979068604749139743976495711350288748650187861153713524737276077477 5909026280251011183429734451324207624948416724904574266583308560688407950872,
      Mu 5781759298743027346964936689101183373035741527940103971726079619745883842383 3373539094335042288264405599395475445665123137910399147185071850416445258125,
      Sq 1572579418296113416432551719608148566927969926490973785483060562301371883336 3039634785190231930678736351138807472933583055469545778874165301975707896321,
      Mu 2974167967875383778598679729123880843691408465153400536571080562374456706889 1560610895926446350923275071491277831771755338313862892560214374039472356445,
      Sq 336535096243788298447013217112944559276013807139179707763413799932891403342 441442942209456474229709378839485049567494769076627575676098981253431632787,
      Sq 26927141224945149284955879269210912958915009698645833802694321408375701543 1460557142075005483384665510158972925453086746919766614972961782020336811342,
      Mu 1429100064381332175582588180601221156135489022282812939638083142332647106076 4199647743321243019232550096411238077701776945107350344111784779252100220368,
      Sq 2437063365437484589775791825810419886369473230751104816816889209750497996175 5763099752895407402937151057002601175704337720973204442944695235714150088349,
      Mu 5638975696765934662612692550983854418357382095487210661956955274061610987458 1968477072935740522155217743943578147518781201165231480868690417291232682192,
      Sq 535428907062144981569026472939482692622145679692856906121888380539563861249 2784506971856961685592401191959508031143952897367185740089576049180456899603,
      Mu 2724535027159312044580184789776274660340613136397189299258374935430030899021 5840566683331669110174959629987749621953484387675650116906081909208212042669,
      Sq 4713581994366583643335206200697674230807515316907103315608067704492706510653 620943919716651443812878449447012749141348772610452203939735228541612357744,
      Sq 53277746895866056830982577820544597115320837673058690479389701030846165439 2696594784040264682086708066732064149506645204662710901784692202742113400365,
      Sq 1004783449675557731829791978838638564405582035086610664705345602322113275513 2191544669843248966835618620541067930351141261606560610224521094125972400868,
      Mu 2144343783987819439418795672700048677217143067787261540639799880408885805073 3622883928767930315294876099514265574902929312799063843754134694826270153931,
      Sq 1813635186690467785490256643220861375032814890680355166858868954826144793733 2896422833372986820975129591650269670920480200671453899699221141643018500824,
      Sq 1159217737231161557062677825317379297366679270113395098637486034589455051757 3564747204333326770404447118601285133346166508039970182560896786967825241303,
      Mu 3487970660277195951257525796846115873838636388038197001308625484572013819272 4370005894597818493379424803975799067749591345545171808356288977770798412630,
      Sq 2638791875279897837348730849111751878312625699594034313454367235382464006612 3740118535730108079963679364799364915102187348537826649287827924247339977632,
      Sq 1932910858204482285867950089187588413484300306780645391331680897019621282452 1450346001316395914181589570145902615065544834180951422587080876218990982396,
      Mu 1419108848361667274014065158625286167813555252128863763686508884073851400535 5690106129758286751668461631908100509280546418266007918593832335739859267501,
      Sq 4473854195901821968136899520157548450058270213470203411086830456428146114883 2909007946747928870592683687487078804587527989480523161601565601339164415714,
      Mu 2846354534323163011324916842553378633515806745130561500284711287302088294475 1720889553952473401893426250504552834720420920527974619119732662841854479669,
      Sq 409210802072424266764719913642516519932385487840315480640462533056112225785 4762395536768783771519841654564479011518672187257234101908757844979906798196,
      Mu 4659824372592829040130799894818326350131917738646043537254868434617596330535 1153772872038786027468203269762855595595782246650881793664317962411225244301,
      Sq 183942353785408976326431365652128497512796137880518950537393132137621626199 6523824835957890205105451677776731846414684282410727563940160237893448917790,
      Mu 6383316492386280749930410689986803135186562015263313030681191414132137466687 2432965730055449547141266328530090710352648885206093570527038132794813925897,
      Sq 817924234045741053739988682699102270198256069851594030195158216363183220893 5338110701359139571811181444902041006444729624293576545507568058017956541432,
      Mu 5223139942439349271376779155368178918485134565748127646119954125211145332445 5944990598091629455487708174948397757084215122524793596658272560935102756567,
      Sq 4883637691547300825732189016339382722883180349214172558311596347382179447349 2797866079303270541125525349931665085080938597910268879708519947803304947328,
      Sq 1081670383429698545920377074318462653317352605560616859155722961605103580650 6335613781792728509144823575412506055984105998883211293443744119433150576734,
      Mu 6199159076098833530700925339984451480819658389769456855978467057523858683637 3976097659280426256207486800415069382973768760674570265871983911067165423371,
      Sq 2184515740274308290257832364694040936072589557845025141498431365325533968201 1472446045873176675166643798190076415514817877179614842262914471312274202852,
      Sq 299584867641730764170956052955245313141312136906763582057880928551328750359 2890718415915599225037786059296641424580880549008071097340460334422335078853,
      Mu 2828458918371531598201225335871109468884798973077134078153352653768817380546 2935465270098175048929317280615439926827242633034683283903749990473058134944,
      Sq 1190679799797663453786342062247263664804255031944738452484732354196544772904 3164447608163164195631425692883620776255582278542505362432177163581291481080,
      Mu 3096292606623049631903568548404754470372550851591894524719777518223537253226 2138937334674358961635510759485457416175106321941381487171000955302711161166,
      Sq 632174850879461034302684571015099038235762893370249590057947221303918602583 6576164126233150487846666459977501985682111301146492259833892669514200774969,
      Mu 6434528513434483272579412018953106920351997564319370345420253423431451154132 4305694822376593192357411488790701602357171867760280169890071982493428884126,
      Sq 2561695953573457862729634487000854555149803747290930401949740767266006821189 6682045258960405389022123174781331421678060746292740279273407408358685377955,
      Sq 6169641347610266242895659435508715752532911258439696846757004261908693361825 4590363836285478644077696858430323358077333586954313334449992681289458887100,
      Sq 2911624141271559766285085723047585309542216158939425596818237199055305908482 4031098914685644578907899671616382951686078889391229452445374913175054421302,
      Sq 2245370448639317094568888867779507946836994134289686017175817516379720535743 1335586234453773791009099409279509964154548799163478611450502495718243775377,
      Sq 246481859189054236265793132417523949969507992412926606579056812757661625672 588612067908934673440773091703676036712376772682563672509052834497577702521,
      Mu 575934703211419678644474232902531468840559702605837220912336098458513782310 4135311765451183368876425482757611680112928550151566102019345684711232180276,
      Sq 2362966729090563813341246926695621029665430406494622441482160816077247666131 3501507449882301950378430057892122281261346593983306278510269250079614882617,
      Sq 1694147433018947931635840542145017908391240472959830672140048818273019640853 3781435560745152605140164516594368003927987801997870501861915833139788715072,
      Mu 3699992042514168770010162380281490784441091521650823188172082855216109558095 4886882058460430752861482200550923449015009726728565071098513326149999352157,
      Sq 3299930613305649340512810979884900570037545056316643476913845831402910773158 7055045559697100215321149435828455946463926241888615701661301981303924399387]"])
    (simp only: hex_pow)

lemma pow_l_253bit_1: "hpow 7237005577332262213973186563042994240857116359379907606001950938285454250989 7081136943262759288481753054493815101385520774732791966375992986456317800946
    1919316263432628843607759 2004664744198872096453058687236291331801653830915235395984366361816598404556"
  by (rule hpow_chain [OF pow_l_253bit_0, where ss = "[
      Sq 6877660562443502358048719969466160787697458800132330008350526227492196131456 6623131946637949240178928689000703484542907192872922338991439561292823965785,
      Mu 6480484753851745751704964514462892492820113988814078306872250116133791643910 3060306252927999186472816076753331686411023821404383833646151042381891305620,
      Sq 1294109042978319013881537914870075524397463472473321027821497584271260989058 4515306888553104173950929897145578952258122610775573350151331954061528906038,
      Sq 2817186760457165529547144784934975272816614767515216790808444348959985226170 4587630774209520356490965197358034578662843654469143674375711453369921675314,
      Sq 2908158062831346649097433372222154499162344493401660875288235434204682600292 2147455258095134706428391150495050530839587763114535296441051872282704309808,
      Mu 2101203957853903325086418820932832715131251765517058985995093941894601625887 617646145478851067818269425987691791499914032409893765918959863428081726125,
      Sq 52713343515966645929935766305178015677789063682120811773574597272279554676 844668987143577909494922436425462833312920232715997705204637131503454941061,
      Sq 98585760397487318495957960863120899358438650727423300594832711962440593862 1311384373740915291157780388502421157045286231149376460159147083449422976203,
      Mu 1283140138070388807813970336120624835065079909161043974838575430336199411819 4601571876299925046097015956134822677926596286116537031689669095824449849047,
      Sq 2925859805756822347314062327486616902198464784247367197441733417587444880427 312966443572385503963849421444942804643550427788175134614030245009135315906,
      Mu 306225858457733705444237983301490714679365962045029520132959738665262191207 16119886910011192677619704314451343814914488131136159277850800877848793353,
      Sq 35905838570230528934825351351782846603943071609132512999134732821423169 6158437518184900155674052951649207223110517371620962162112852283918191218468,
      Sq 5240613988771855609849595063765903529613445656669186780716603394429483172527 141135815924637143382749089942690093585942616822037907719704241676256887821,
      Mu 138096071570237014336944364218403343205052956898830291943073090286271720302 2641957773844849137732367065106468121233507038134369752091082632924614799988,
      Sq 964479134939703674335928992384670043567805496252878535967356542715519500106 1612548333640224877706018861644261203441170204238255071368742752067308695310,
      Mu 1577817711499650665402894548901575117726589094132010228789782524054427995966 1509065341651612704201232002434096379806573609163618315748959715096700252886,
      Sq 314671334855259181232826810065916755473114273524417162848937049048551917820 4505174968655821675176846230306206825835232642171441480789655931828769605016,
      Mu 4408143750273459666754488448625503991375503701036800094962937483576882156979 2579165120360500080303666187253600687174013338179335662831371135426967142905,
      Sq 919177503319863050810992382502210004648887460278173203838325262202956055069 3542448622198009897779496525444264036193258178618874743108977947055060125784,
      Mu 3466152338866011292230623954660567573527473504940268634440924205669738268742 4007114562298336176770619637083939679673871864253471087918499800147832905826,
      Sq 2218730791872952831301753178292610025859849582508323249580615100242583060958 501212569366837993954410624513881645142139871306791741625259172574165954814,
      Mu 490417591011373855354249312357604230690292679863507374265140779387153653286 1573416067191851654551826300964199752429454302071702207781738379374753854190,
      Sq 342080449440534268784564017296851654779453470240621221115594472196871950777 3911579930866954242141510738907454576062815026575674917094520366467968987647,
      Sq 2114197286718307396582605700552147230965509103109183597205776843276973157449 343269171096407479454383384508805185058033511321206141726360910695377629548,
      Sq 16282110406864032468931359874727561901510182186300149097984305990776053794 1898715230533558489575497821288514939014720943028740750695662285192080982038,
      Mu 1857821224537874069895507138374236450969290609379166369215419004042179821261 5089571618097764003334875458167702066503862998484139607411381346219632930819,
      Sq 3579344934717467144587927986486835425718559736249593866724024923267553210417 4325197077348585168715799443101943112588734096373882656796707775856592658348,
      Sq 2584954448079992179728683947134826524604660878265103766811782973714110808792 2633891431501437549971254811394322952702277455175954971023870495824098193816,
      Mu 2577163402853595564278443529704528236001658769370404811600489011521181294485 5501515878970349980530343904997669362200422657732915241823963555994504654271,
      Sq 4182209982173309604342352690141826595396246115319708003314656311269303618233 1832770232090609150693286701320770156529336574406455925708737412352619859004,
      Sq 464148699036334355712565644391611386025128774745239110760431716892432852751 1860302476925006753435845495593335608734163187867254870251431157987606751277,
      Sq 478198513000044353520387909712917927992636850629455810184370611662710736491 6212971517182694295306894893065243576846487435680457173150610401503185991130,
      Mu 6079158246825512602724601619038023691349290661790285587477418779126959235889 5939900393959317910010638553378806940677843182611064891350388565444799064759,
      Sq 4875278361076519221438994239469595530404949027002885661396951247239365413283 654933064705781434310331424420729389462280113578396496820452182109879241194,
      Sq 59269999817110008247692175614507679591531733206657114039530094721903742673 3469645185009223464294192781265813986403300503380911240028385870492214792039,
      Sq 1663455635237378382048560785886760192837114972802992092484247783676673793018 1402840528707327780218855360156235133080795210256762265156410341157209982719,
      Sq 271930362351509177730379868222855713700257875840389701807634843304233544085 6772595743263039596594893460852835702186592625475863257022303114995692282896,
      Sq 6337987806079974490085158542600787269303771242794998828328906505455703464851 6024233344986405511890201206314054434841020853673081559525843591513800659177,
      Mu 5894485065429998426036801419932396261919224200856590759888001052793407039414 5742862196174649051196920463246063748898405229602355289607033602930502700996,
      Sq 4557197842648246537158982290290062205385340489955757639074950951844564442039 3831865653602201265967574986370118261237355443232450778371578409665930465445,
      Mu 3749335985912628242769955214117217294359384562268144317882048939809793394434 3108591086950957768490123597227276036135718628319849135408272631811329715744,
      Sq 1335267527793322596807349078467544307495820162140569402283440915447002742477 4431414066821627626655961085285997720099547586815182353862671172438951913783,
      Mu 4335971490439576000693048670809835785516332621052013709620881131961549468473 770410383167721919927328141678292603531937715582944723324477223665463268921,
      Sq 82013500217782976983810062874540954086801227312133919569758655190306773842 6479333205301905738526504307132806125055933976117249203223233872822036674503,
      Sq 5800984721750535656806685191203926900121031882528258913119272486115006509952 4550566727147092854997327711462761314037172141098699817293204672744035954481,
      Mu 4452557873564861997766624699411154441596446894127230659968464464602105780422 2692117093281418137489459074168776497854761401348767355819395253018764401668,
      Sq 1001449337919343713573502326027638736126350244961110652185034707948688297609 4151702091165639295989521213691815079128958369561737688219176896951426596923,
      Mu 4062283874321866811052347295947642913165242258167472775842501951349990010722 5846894419431750338103210811428670239617046165098189940019945024159100985100,
      Sq 4723801023321030426687345797481551294288149873914215292891505579379660746060 2474461564514166461758840146151022990932480498640599818867062452308189156660,
      Sq 846062638591328771757041277799605877509277432437187733021913223272988041180 4956688907786325298334982782599811562777419623971659065614865711810834628580,
      Mu 4849933106466505485092326885523559345853719004972282449333582654656840364132 6928981068204341119610854623793095425097800912474338705302602345850201510132,
      Sq 6634066829230235701683874745893381389134253652402393251369522704325830494518 6226872222696408879931205190180081971422470109582452192737915008722138079122,
      Mu 6092759562770175094240401522330119446756148632980966729970489130375958981366 51315814264745057789770389884229308145288276420126977895935797900656378438,
      Sq 363867730308495361042398082554453708822819326502386511974462999025176379 5202520084171721626566291830565473147102131147070956672711482330632811131013,
      Sq 3739974349472231354701286970402689053638252351217279984129193191923516459224 3932303347511392309941566840414718279490515634821724651247860959151970233633,
      Sq 2136658518722510983544137819323407333512551092402158926673504746006632308870 912277148161893758129448289903651026255180007321007818291685389655053406259,
      Mu 892628774057802956582702651158098983781732148970746985097436850407165868442 3337920609572868458587018548420776251526924694251780272512335963896810131876,
      Sq 1539547520967700959645379523406700974222206384807671046811788274225424298747 5287162639718444336317904248637085479870605736760886646743023785903055068593,
      Mu 5173289186126329536637259855581987671968347775607629787348180881616231149367 6671396960560643027501401153559740536766223634651938469035793607849383815015,
      Sq 6149993520080214733824821752788935020499044667953608253529696888678293436625 5215052625154311139628748104318238810350258042823331708539812034891624378100,
      Mu 5102732257206906680076203877035658578176260178760184541146718452036220782101 6381461362655586461672631320271647627073549334794049778687980257560108934711,
      Sq 5627057860867036843331048061056179929576522756633079946054023780794630682483 5093716196244710710721170113501046220303470085519449961914776442028612927834,
      Mu 4984009138904147374064379352879220094925105485229258907131597485485800576872 2004664744198872096453058687236291331801653830915235395984366361816598404556]"])
    (simp only: hex_pow)

lemma pow_l_253bit_2: "hpow 7237005577332262213973186563042994240857116359379907606001950938285454250989 7081136943262759288481753054493815101385520774732791966375992986456317800946
    2110310549023759765146016544777983296 766968477254319109204655635990943924191161617444612470399579493194847491346"
  by (rule hpow_chain [OF pow_l_253bit_1, where ss = "[
      Sq 555296067370907512558065425415356726011224717461242186324350647596356948882 1916030618765665916002655542287193532309672588715609642670918391207970612838,
      Mu 1874763678704464771940799238867365027603876739599572772762918445367542399113 6316997179863805950780778684866366933691508126808602644333994521126603171991,
      Sq 5513945366491901745168373449714328157160794585441952519392062580067443890088 2449366558493526919505286093748433452501196934754111395450146487328245607049,
      Mu 2396612775768291195736000106610801231935229552432427794683359789212168007389 63665573299122938733262985452292355604372603833776727367826758728903910633,
      Sq 560080433847080633293755836246776638168200175782470901335453814726249364 4642246184886391926787248486136859158930590072210708924622358841802592839693,
      Sq 2977813048616757502295215641004327730593573191946585677589921440527677422273 852615249314543932974187008759751647729261194825059446589308379728115456252,
      Mu 834251856765318432792265778895187352941450439341384009415994013171124337229 2330118734864817010239659089817532973114909017504604720629449669012864444911,
      Sq 750234784338724397308340873484121854038392826340403083281636887169937321193 5590946201203253048688710442346261324789968695572679121859271847643222888044,
      Sq 4319283589148732169582564613865782098835345969982987903665294772869097528745 2171897521341108848792879701138603737781998628791873138440051817369285967131,
      Mu 2125119790362052668987518250522810702701860698019104168571851033881372733642 7231986329526156647238587075541721279264688246321561851607351132530244633988,
      Sq 7226970562835032946007373407996801564071314217377427789116223513241976404278 7142395174607588354893398762672191168287221671942122565226510343880139453202,
      Sq 7049021627127542423853698463692081251159982464339222414195862682322104978564 4446791581993155460528283144946053982582748613815451548257772728901027253008,
      Sq 2732339385728973732053904007257073866362906246034943573077202163399214712718 6473434276509555965646336253146439059918663125642003914232986817436942669962,
      Mu 6334011230936860756611690429664905673728517425742282079848307080613256315753 7189811648428142965471322173903085962774257438021630503792882998987392854335,
      Sq 7142925480365383754649214469914141732663751061440639494409215117154245481032 247027653247287736687713377814891098938106331815225993854204466390961551577,
      Mu 241707239648374494355302844448339581313569563692822625161372944638755044582 5680285294128762580551888972180805938866337800851447262492276879452685800244,
      Sq 4458424230562689383400884244483690936898503704159508420297198706688721293220 6430013826839773114221086737773441048297762934500037429311469204260126464956,
      Sq 5713008974713471709213188306055419918756527244303498523913861930187670895406 5380285169461472961713869661530642234052939067325163920599213339950405025402,
      Mu 5264406068456620769546915092756347735409881692038596407970762655474891017131 6508460759702499625841948373807496729915366396560185099123385995933936937733,
      Sq 5853258092444664988372770088262959092975185391545115776715919019741738879293 5003065657770449996298720738156601653593737215451242528269399489089922308512,
      Mu 4895311006775116594854868498145762869070556899859552969123070666323526279049 2863894970683315629397234872697287481643927363160324182034725204993119222891,
      Sq 1133327080580834478942894193283963849653599022437138807446185978213436212068 1093888454464287249905373157968617126467643236562984172298454327823435662629,
      Mu 1070328586035306481534216253217664535438114546947026963431018314611368589380 656464862106531067222461071965624283161830457796218392015850581708233150214,
      Sq 59547572621797558189322998754514673714473923425876923216520758689196188237 3987175261531513005615927844697290013777479011829035609017316064379600829403,
      Sq 2196705031700296430182907091401680565371948376275663187523236041888442571715 139340829822725105738558437489175648403826679136590476196727192799267160274,
      Sq 2682859180943564096839548554287499883317386198721901512768470625470585916 3721805932533865726223845495845730197779859661920792451749391052161251284152,
      Sq 1914029117627183821853209557373565477045830449032331121038776668012006477658 2297033468940742124720983280452443678459832044342348030312824505788493455342,
      Sq 729080930096358452947010508017719879048308256575067824640502878379932611374 1634106173150611158293334567936656288193853892674680914712446377106556188078,
      Sq 368978986763925413643570982006110921118094192527599582085209293897808344431 632653136705208525769968354061557982494171161633269514789632483488874941825,
      Sq 55306022236130600376861726013903283819746239050790959464864164644130151647 4240784001523846596656063248731787153575034300073726265598068634571764601742,
      Sq 2485040083969376166381984693466551377175523626716610199584810970921350659324 6534522934110937557422665475082161260795139529985421411594423063634140363128,
      Mu 6393784177846061719066248098445452735417886285811612598523011385368992061238 887385989928222796171905882854854759694984993754586805543770329086351854706,
      Sq 108809353082074969539886177527707611727692614035228866758003135790638483403 1836377382520102468080128917716644576712131948094256825977030747283861510869,
      Mu 1796825991935842314893586451886492144514565265088019197002188805562957637861 6097862603083500697663298601170534077463383834435940143677619291802694387545,
      Sq 5138026761033835669399162244990478429156761633772663502104732488068868972500 1153102019374492970636875338614627596190947008707547560777964392873112324525,
      Sq 183728512141850947203072942688424976289640783289751668440631170038384385517 1921000095802521175676000895191530896267698044923752039896280744020661949312,
      Sq 509912743418612788780617151425015281985946655142204676150306715249211068850 2655054881814373576534457367217374664996295271021991111805680973626797680694,
      Mu 2597871040599133912932238086450856036407889615676751529383689110961915965132 1662271357437910831657761339431529252111281356728762776972427087223058620976,
      Sq 381807922659780253512690518950456681051618959075296153083249219034420341661 2112416942897405468031215288678739553830719149776101553203613759088600039847,
      Sq 616595537057045575296222233901303060659869513034037968579333889338071401413 7017648642008756129455434430579952857065778621151462684171616520740516535952,
      Mu 6866504457232154092139511873589215268538928795622221319660143789214518712084 477377782296471232317128286616976113149304478652286583898467447703025359516,
      Sq 31489480641564291854321184656745477008562744478790340104685562289450687854 3003204641341575988073037945996615038954860683525098128682050256986641966650,
      Sq 1246266569978283267619089873763105249332364906794014673770983841892069524810 3382867832615063018663511243730838157728550313621899337898216591228009685410,
      Mu 3310008556402961607561076059140042164892340974260488693463159214803006678368 6504925836297925614752620301037817999704225592046227620276565843978191491908,
      Sq 5846901689321934655893673926358176480176941960645845450010540444966394369058 1178259086912502572831145480182944604153487872941989508231835429760201982102,
      Sq 191832721566541018422902893464668334409186145184960974153745623858315704465 53877326991206257839257476250838864953397247199317803292461260657070372519,
      Mu 52716931952719786068968657211292176619212928639324677857288145762742935025 1649966997238577891793678629044647767264696535314639282856169078926241613249,
      Sq 376176453491145358989155267027272935258105044062094316547038638191329786349 203775876236300618673732665444178492139586459118465039512595759970900386840,
      Sq 5737816185458723418895873968286332546772524388417997173911873874972710548 1885866759069186171141616986639706039272166159434244547889518139767205453628,
      Mu 1845249479915236608041448512807642180281308320028846284237673098667149980494 142119519646863210906954661776235838450420114885278086313122902066607323522,
      Sq 2790927497405715824680405128847404403769880073417933874678195485439118063 3958677629527815759460797875403204467701001185126184973937799438329968970177,
      Sq 2165416125090334521902641823836991458083807219528800387252359210412845728129 7026605967825755853560805919480665449649099445375366405019380542597892041748,
      Sq 6822323252275936014146171462517326589516233790209066777358020415456826570183 6978885421672600820382777916692057699436735116379295691421919905130069234517,
      Sq 6729971561910576113593537490074138225723976339983328252795964440406146649292 6912152247467699627689094742076537118981273188823279390897172916498417073501,
      Sq 6601880872086443539184873673100217785996618491394560941441813882653813630345 6335627399763618387746798580575645371258190919330101937732253944770339735796,
      Sq 5546517011726853107412556574967384210815061247100467517326813381115061333430 766968477254319109204655635990943924191161617444612470399579493194847491346]"])
    (simp only: hex_pow)

lemma pow_l_253bit_3: "hpow 7237005577332262213973186563042994240857116359379907606001950938285454250989 7081136943262759288481753054493815101385520774732791966375992986456317800946
    276602624281642239937218680557139826668747 (h1 hZ)"
  by (rule hpow_chain [OF pow_l_253bit_2, where ss = "[
      Sq 81282325792907422441968331101411295183094059072343881348497625276852903634 5198407964066195615700542225506240365084032632372051928719531981856278697690,
      Mu 5086446084247704651516018123926907949260126462831447207416277114441734866902 4412697036847843333752936969529170150083605409358288912036953303569513148662,
      Sq 2690601096121243427264917094778271051448061557696250926447074924066685803535 6217853911423384417759680423587082106543699887580962224730275905222278944129,
      Sq 5342224328926762350311174980307947246322426272157101721411544423134723064105 6788520716299159737622939571085814590519922724818454915046416301067296918796,
      Mu 6642311425716835540721087810228234425660114307560222285486337741062642472156 4803671699037279515210897839419161627695738154627928820722049451041986018732,
      Sq 3188509604636481606629023405398489089229392628245077522023592527262095907133 2494884290580489472399233574815008279031641102065908112586067218030837483287,
      Mu 2441150159470756337436946183596348002720101933775259913763013013391632698024 4134540115754069506697249266371434056744296760319447907990020923990727443766,
      Sq 2362084951588651083312147752209253780808836856477777042320536738153323464154 5510971650594722575547615851801666781088009757890629204308854913993831714450,
      Mu 5392277860131927705454313682800075900413140061362060563781923118489858944794 5776040199006083696628369755420127471352046707443506226041799195783840968434,
      Sq 4610006172308703209988787997240809654443785165415849099283138698377138844629 5223881335698340270438056755028370489203297038010308100020514319122943824275,
      Sq 3770749644705517408590446801520739109416911213990510743569906912740422635312 249967322993329178676889610773923676837405729670050211568723975073616952057,
      Mu 244583595596597940641291073098546497943371443804539628028552532125387594171 2771429432902386712499046642218546569266055075554817131102219903601843860803,
      Sq 1061325850793248094800234472283980941748121893278495142349799353616148040633 254437864621209436054414421116345943545195866382040748042005696027887368772,
      Sq 8945499110263936868469444236064714487135092451754590997368691948030302314 3057686965879998636171938416119651742600987886905086526691220168107417299438,
      Sq 1291894759705141530358093382163272203776072411672744816560288567761426418937 243490109903784304535418174893097840584064894459123285874143616655094537151,
      Mu 238245886939660761921697926120629123468345612468663570594467738609158527505 4026109176312249947297195906483691763516552552110085133592848451980089992401,
      Sq 2239815200689805655329125594139917762531023975080482402427981235111415801936 488461617575453140598519627440511742829104409238839275771913233612581630097,
      Mu 477941265709850278293964178835866803586166845574429646729536663203198922609 340021894338779945612479866118386475347477867093690192767257201655175961461,
      Sq 15975514650957463779252858533192342047400022417772522028430270076753626596 781224144963042138630356220169236534370731804304374708418368729695187551077,
      Sq 84332001426785129614313595069804015345816053374351173852675923226389723746 3560945824049182655370498897577924423550250529738641347891152819915426575135,
      Sq 1752152188680168893710277701168457793814863500470017696424765545587980895807 3534260172706158308349500034902987394056582906585157245491988413967364565102,
      Mu 3458140249945366075468627732816552957375487228377958168179053677709316450619 5023312026186915059335196081476568445123934048655276696914021029805643774301,
      Sq 3486754769330416552695940212007370628756144987048499498014738130971762173961 1786981130926026510375367646741409510348636665047123051484163032481053741172,
      Sq 441246248626326192649090068541627510237855163025850741008801853538375220572 6751944819888220817952897733544195027216852224280730870786134411159643787876,
      Mu 6606523290894929722947159359638595596205549632004946133640706012234618233935 5573824048100270450664114279756174489118610498401701882536393625988609018981,
      Sq 4292868671607841149148305537231072961386473879310491376464571705070148975823 5242169971453159348535093635573208794896867894238726253096423090375283439414,
      Mu 5129265557565479513041971352374035010138180557560786922662616138141118486487 (h1 hZ)]"])
    (simp only: hex_pow)

lemma prime_l_253bit: "is_prime 7237005577332262213973186563042994240857116359379907606001950938285454250989"
proof -
  have inv: "ck_inv 7237005577332262213973186563042994240857116359379907606001950938285454250989 7081136943262759288481753054493815101385520774732791966375992986456317800946
      2463841149847537089296401672145903064208307962289859762232283842852294761619
      2410775617357988558591586391758317922541720159121535136467096777437230614186" by (simp only: hex_pow)
  have "is_prime (int 7237005577332262213973186563042994240857116359379907606001950938285454250989)"
    by (rule hex_pocklington [OF _ pow_l_253bit_3 inv]) (simp_all add: prime_l_138bit)
  then show ?thesis by simp
qed

theorem prime_sc_order: "is_prime sc_order"
  using prime_l_253bit by (simp add: sc_order_def)

end
