(* ===== verification/GroupOrder.thy ===== *)
theory GroupOrder
  imports BaseOrder OrderCert
begin

text \<open>
  The number of points of the curve is 8 times the order of the base point, and so every multiple
  of 8 of a point has an order that divides it.
\<close>

section \<open>Finite abelian groups\<close>

lemma sum_constant_zmul:
  fixes P :: "'a::ab_group_add"
  shows "finite A \<Longrightarrow> (\<Sum>Q\<in>A. P) = zmul (int (card A)) P"
  by (induction A rule: finite_induct) (simp_all add: zmul_add)

lemma zmul_card:
  fixes P :: "'a::ab_group_add"
  assumes "finite (UNIV :: 'a set)"
  shows "zmul (int (card (UNIV :: 'a set))) P = 0"
proof -
  have "bij ((+) P)" by (rule bijI') (auto intro: exI [of _ "_ - P"])
  then have "(\<Sum>Q\<in>UNIV. Q) = (\<Sum>Q\<in>UNIV. P + Q)" using sum.reindex_bij_betw [of "(+) P" UNIV UNIV id] by simp
  also have "\<dots> = zmul (int (card (UNIV :: 'a set))) P + (\<Sum>Q\<in>UNIV. Q)"
    by (simp add: sum.distrib sum_constant_zmul [OF assms])
  finally show ?thesis by simp
qed

lemma zmul_zero [simp]: "zmul k 0 = 0"
  using zmul_mult [of k 0 "0 :: 'a::ab_group_add"] by simp

lemma zmul_uminus: "zmul k (- P) = - zmul k P"
  using zmul_plus [of k P "- P"] by (simp add: eq_neg_iff_add_eq_0 add.commute)

lemma zmul_gcd: "zmul j P = 0 \<Longrightarrow> zmul k P = 0 \<Longrightarrow> zmul (gcd j k) P = 0"
proof -
  assume z: "zmul j P = 0" "zmul k P = 0"
  obtain u v where "u * j + v * k = gcd j k" using bezout_int by blast
  then show ?thesis using z zmul_add [of "u * j" "v * k" P] by (simp add: zmul_mult)
qed

lemma zmul_dvd: "zmul j P = 0 \<Longrightarrow> j dvd k \<Longrightarrow> zmul k P = 0"
  by (auto simp: dvd_def mult.commute zmul_mult)

section \<open>The number of points\<close>

lemma card_gf: "card (UNIV :: gf set) = nat p25519"
  by (simp add: type_definition.card [OF type_definition_gf])

lemma finite_gf: "finite (UNIV :: gf set)"
  using type_definition.Abs_image [OF type_definition_gf] by (metis finite_atLeastLessThan_int finite_imageI)

text \<open>A second coordinate determines the first one up to its sign.\<close>

lemma square_roots: "\<exists>r. {x. x * x = c} \<subseteq> {r, - r :: gf}"
proof (cases "\<exists>r. r * r = c")
  case True
  then obtain r where r: "r * r = c" by blast
  have "x = r \<or> x = - r" if "x * x = c" for x
    using that r square_eq_iff [of x r] by simp
  then show ?thesis by blast
qed blast

lemma card_column: "card {P. snd (Rep_ed P) = y} \<le> 2" (is "card ?C \<le> _")
proof -
  let ?c = "(y * y - 1) / (1 + ed_d * (y * y))"
  obtain r where r: "{x. x * x = ?c} \<subseteq> {r, - r}" using square_roots by blast
  have "P = Abs_ed (r, y) \<or> P = Abs_ed (- r, y)" if "snd (Rep_ed P) = y" for P
  proof -
    obtain x where P: "Rep_ed P = (x, y)" using \<open>snd (Rep_ed P) = y\<close> by (cases "Rep_ed P") simp
    have c: "x * x * (1 + ed_d * (y * y)) = y * y - 1" using on_curve_Rep [OF P] by algebra
    have "1 + ed_d * (y * y) \<noteq> 0"
    proof
      assume z: "1 + ed_d * (y * y) = 0"
      then have "y * y = 1" using c by simp
      then show False using z ed_d_scaled_square [of ed_i 1] ed_i_square by (metis add_eq_0_iff mult_1 mult_1_right one_neq_zero)
    qed
    then have "x * x = ?c" using c by (simp add: field_simps)
    then have "x = r \<or> x = - r" using r by blast
    then show ?thesis using P Rep_ed_inverse [of P] by auto
  qed
  then have "?C \<subseteq> {Abs_ed (r, y), Abs_ed (- r, y)}" by blast
  then have "card ?C \<le> card {Abs_ed (r, y), Abs_ed (- r, y)}" by (intro card_mono) simp_all
  also have "\<dots> \<le> 2" by (simp add: card_insert_if)
  finally show ?thesis .
qed

lemma finite_ed: "finite (UNIV :: ed set)"
proof -
  have "finite (Rep_ed ` UNIV)" using finite_gf finite_Prod_UNIV [OF finite_gf finite_gf] by (rule_tac finite_subset [OF subset_UNIV])
  then show ?thesis by (rule finite_imageD) (simp add: inj_on_def Rep_ed_inject)
qed

lemma card_ed_le: "card (UNIV :: ed set) \<le> 2 * nat p25519"
proof -
  have "(UNIV :: ed set) = (\<Union>y\<in>UNIV. {P. snd (Rep_ed P) = y})" by auto
  then have "card (UNIV :: ed set) \<le> (\<Sum>y\<in>UNIV. card {P. snd (Rep_ed P) = y})"
    using card_UN_le [OF finite_gf] by metis
  also have "\<dots> \<le> (\<Sum>y\<in>(UNIV :: gf set). 2)" by (rule sum_mono) (rule card_column)
  also have "\<dots> \<le> 2 * nat p25519" using card_gf by simp
  finally show ?thesis .
qed

lemma ed_B_nonzero: "ed_B \<noteq> 0"
proof
  assume "ed_B = 0"
  then have "(of_int ed_By :: gf) = of_int 1" using Rep_ed_B by (simp add: zero_ed.rep_eq ed_zero_def)
  then show False unfolding of_int_gf_eq_iff by (simp add: ed_By_def p25519_def)
qed

text \<open>A number that annihilates every point is divided by the orders of the two points known.\<close>

lemma coprime_8_order: "coprime 8 sc_order"
proof -
  have "coprime (2 ^ 3) sc_order"
    by (simp only: coprime_power_left_iff coprime_left_2_iff_odd) (simp add: sc_order_def)
  then show ?thesis by simp
qed

lemma annihilator_dvd:
  assumes "zmul n ed_B = 0" and "zmul n ed_T = 0"
  shows "8 * sc_order dvd n"
proof -
  have "sc_order dvd n"
  proof (rule ccontr)
    assume "\<not> sc_order dvd n"
    then have "gcd n sc_order = 1" using is_prime_coprime [OF prime_sc_order] by (simp add: coprime_iff_gcd_eq_1)
    then show False using zmul_gcd [OF assms(1) sc_order_base] ed_B_nonzero by simp
  qed
  moreover have "8 dvd n"
  proof (rule ccontr)
    assume "\<not> 8 dvd n"
    then have "n mod 8 \<in> {1, 2, 3, 4, 5, 6, 7}" using pos_mod_bound [of 8 n] pos_mod_sign [of 8 n] by (auto simp: dvd_eq_mod_eq_0)
    then have "4 * n mod 8 = 4 \<or> 2 * n mod 8 = 4 \<or> 1 * n mod 8 = 4"
      using mod_mult_right_eq [of 4 n 8] mod_mult_right_eq [of 2 n 8] by auto
    then obtain c where "c * n mod 8 = 4" by blast
    then have "c * n = c * n div 8 * 8 + 4" by (metis div_mult_mod_eq)
    moreover have "zmul (c * n) ed_T = 0" by (simp add: zmul_mult assms(2))
    ultimately have "zmul (c * n div 8 * 8) ed_T + zmul 4 ed_T = 0" by (metis zmul_add)
    then show False using ed_T_order by (simp add: zmul_mult)
  qed
  ultimately show ?thesis using coprime_8_order by (simp add: divides_mult)
qed

theorem card_ed: "int (card (UNIV :: ed set)) = 8 * sc_order"
proof -
  let ?n = "int (card (UNIV :: ed set))"
  have "8 * sc_order dvd ?n" by (rule annihilator_dvd) (rule zmul_card [OF finite_ed])+
  then obtain k where k: "?n = 8 * sc_order * k" by (elim dvdE)
  have "0 < ?n" using finite_ed by (simp add: card_gt_0_iff)
  then have "0 < k" using k by (simp add: zero_less_mult_iff sc_order_def)
  moreover have "k < 2"
  proof (rule ccontr)
    assume "\<not> k < 2"
    then have "8 * sc_order * 2 \<le> ?n" unfolding k by (intro mult_left_mono) (simp_all add: sc_order_def)
    then show False using card_ed_le by (simp add: sc_order_def p25519_def)
  qed
  ultimately have "k = 1" by linarith
  then show ?thesis using k by simp
qed

theorem sc_order_cofactor: "zmul sc_order (zmul 8 P) = (0 :: ed)"
  using zmul_card [OF finite_ed, of P] unfolding card_ed mult.commute [of 8] zmul_mult .

end
