(* ===== verification/PointCodec.thy ===== *)
theory PointCodec
  imports ScalarmultCorrect
begin

text \<open>
  Encoding and decoding of points: \<open>ge_p3_tobytes\<close> and \<open>ge_tobytes\<close> write the canonical
  encoding of the point, and \<open>ge_frombytes_vartime\<close> accepts exactly the canonical encodings.
\<close>

section \<open>The canonical encoding\<close>

text \<open>The ordinate in 255 bits, little endian, and the parity of the abscissa in the top bit.\<close>

definition ed_encode :: "ed \<Rightarrow> bytes" where
  "ed_encode P = (case Rep_ed P of (x, y) \<Rightarrow> le_bytes 32 (Rep_gf y + 2 ^ 255 * (Rep_gf x mod 2)))"

lemma Rep_gf_range: "0 \<le> Rep_gf x" "Rep_gf x < p25519" "Rep_gf x < 2 ^ 255"
  using Rep_gf [of x] by (auto simp: p25519_def)

lemma le_val_ed_encode:
  "Rep_ed P = (x, y) \<Longrightarrow> le_val (ed_encode P) = Rep_gf y + 2 ^ 255 * (Rep_gf x mod 2)"
proof -
  assume P: "Rep_ed P = (x, y)"
  have "Rep_gf x mod 2 = 0 \<or> Rep_gf x mod 2 = 1" by linarith
  then have "0 \<le> Rep_gf y + 2 ^ 255 * (Rep_gf x mod 2)" "Rep_gf y + 2 ^ 255 * (Rep_gf x mod 2) < 2 ^ (8 * 32)"
    using Rep_gf_range [of y] by auto
  then show ?thesis by (simp only: ed_encode_def P prod.case le_val_le_bytes)
qed

lemma length_ed_encode [simp]: "length (ed_encode P) = 32"
  by (simp add: ed_encode_def split: prod.splits)

lemma Rep_gf_minus: "x \<noteq> 0 \<Longrightarrow> Rep_gf (- x) = p25519 - Rep_gf x"
proof -
  assume "x \<noteq> 0"
  then have "Rep_gf x \<noteq> 0" by (metis Rep_gf_inject zero_gf.rep_eq)
  then have "0 < Rep_gf x" "Rep_gf x < p25519" using Rep_gf_range [of x] by linarith+
  then show ?thesis by (simp add: uminus_gf.rep_eq zmod_zminus1_eq_if mod_pos_pos_trivial)
qed

lemma parity_minus: "x \<noteq> 0 \<Longrightarrow> odd (Rep_gf (- x)) \<longleftrightarrow> even (Rep_gf x)"
  by (simp add: Rep_gf_minus p25519_def)

lemma gf_square_eq: "(x :: gf) * x = y * y \<Longrightarrow> x = y \<or> x = - y"
  by (metis square_eq_iff power2_eq_square)

lemma gf_odd_0: "even (Rep_gf 0)"
  by (simp add: zero_gf.rep_eq)

lemma same_abscissa:
  assumes "x * x = x' * (x' :: gf)" and "odd (Rep_gf x) \<longleftrightarrow> odd (Rep_gf x')"
  shows "x = x'"
  using gf_square_eq [OF assms(1)] assms(2) parity_minus [of x'] by auto

lemma ed_curve_abscissa:
  assumes "on_curve (x, y)"
  shows "x * x * (ed_d * (y * y) + 1) = y * y - 1"
  using assms by (simp add: power2_eq_square algebra_simps)

lemma ed_v_nonzero: "ed_d * (y * y) + 1 \<noteq> 0"
proof
  assume "ed_d * (y * y) + 1 = 0"
  then have "ed_i * ed_i = ed_d * (y * y)" by (simp add: ed_i_square add_eq_0_iff2)
  from ed_d_scaled_square [OF this] have "y = 0" .
  then show False using \<open>ed_d * (y * y) + 1 = 0\<close> by simp
qed

lemma ed_encode_inject: "ed_encode P = ed_encode Q \<Longrightarrow> P = Q"
proof -
  assume eq: "ed_encode P = ed_encode Q"
  obtain x1 y1 x2 y2 where PQ: "Rep_ed P = (x1, y1)" "Rep_ed Q = (x2, y2)" by (metis surj_pair)
  have v: "Rep_gf y1 + 2 ^ 255 * (Rep_gf x1 mod 2) = Rep_gf y2 + 2 ^ 255 * (Rep_gf x2 mod 2)"
    using le_val_ed_encode [OF PQ(1)] le_val_ed_encode [OF PQ(2)] eq by simp
  have "(Rep_gf y1 + 2 ^ 255 * (Rep_gf x1 mod 2)) mod 2 ^ 255 = Rep_gf y1"
    "(Rep_gf y2 + 2 ^ 255 * (Rep_gf x2 mod 2)) mod 2 ^ 255 = Rep_gf y2"
    using Rep_gf_range [of y1] Rep_gf_range [of y2] by (simp_all add: mod_pos_pos_trivial)
  then have "Rep_gf y1 = Rep_gf y2" by (simp only: v)
  then have y: "y1 = y2" by (simp add: Rep_gf_inject)
  then have "Rep_gf x1 mod 2 = Rep_gf x2 mod 2" using v by simp
  then have p: "odd (Rep_gf x1) \<longleftrightarrow> odd (Rep_gf x2)" by presburger
  have "x1 * x1 * (ed_d * (y1 * y1) + 1) = x2 * x2 * (ed_d * (y1 * y1) + 1)"
    using ed_curve_abscissa [of x1 y1] ed_curve_abscissa [of x2 y2] Rep_ed_on_curve [of P] Rep_ed_on_curve [of Q] PQ y by simp
  then have "x1 * x1 = x2 * x2" using ed_v_nonzero [of y1] by simp
  then have "x1 = x2" using same_abscissa p by blast
  then show ?thesis using y PQ by (simp add: Rep_ed_inject [symmetric])
qed

section \<open>Encoding\<close>

lemma fe_invert_is: "fe_is k x f \<Longrightarrow> k \<le> 422 \<Longrightarrow> fe_is 130 (inverse x) (fe_invert f)"
proof (rule fe_is_res)
  assume f: "fe_is k x f" "k \<le> 422"
  show "fe_res (fe_invert f)" by (rule fe_invert_correct(1) [OF fe_is_arg [OF f]])
  show "fe_gf (fe_invert f) = inverse x"
    unfolding inverse_gf_def fe_is_gf [OF f(1), symmetric] by (rule fe_invert_correct(2) [OF fe_is_arg [OF f]])
qed

lemma fe_val_is: "fe_is k x f \<Longrightarrow> fe_val f mod p25519 = Rep_gf x"
  unfolding fe_is_def fe_gf_def by (auto simp: Rep_gf_of_int)

lemma le_val_update:
  "i < length t \<Longrightarrow> le_val (t[i := b]) = le_val t + (uint b - uint (t ! i)) * 256 ^ i"
proof (induction t arbitrary: i)
  case (Cons x t)
  show ?case
  proof (cases i)
    case (Suc n)
    then have "le_val (t[n := b]) = le_val t + (uint b - uint (t ! n)) * 256 ^ n" using Cons by simp
    then show ?thesis by (simp add: Suc distrib_left mult.left_commute)
  qed simp
qed simp

lemma uint_xor_top:
  fixes w :: u8
  assumes "uint w < 128"
  shows "uint (w XOR push_bit 7 (of_bool c)) = uint w + 128 * of_bool c"
proof (cases c)
  case True
  have "\<not> bit w 7" using drop_bit_small [of w 7] assms by (simp add: bit_iff_odd_drop_bit)
  then have "w AND push_bit 7 1 = 0"
    by (intro bit_word_eqI) (simp only: bit_and_iff bit_push_bit_iff bit_1_iff bit_0_eq bot_apply bot_bool_def
        diff_is_0_eq, metis le_antisym)
  then have "w XOR push_bit 7 1 = w + push_bit 7 1" by (rule disjunctive_add_eq_xor [symmetric])
  moreover have "uint (w + push_bit 7 1) = uint w + 128"
    using assms by (simp add: uint_word_ariths)
  ultimately show ?thesis using True by simp
qed simp

lemma byte_top:
  assumes "length s = 32" and "le_val s < 2 ^ 255"
  shows "uint (s ! 31) < 128"
proof (rule ccontr)
  assume "\<not> ?thesis"
  then have "128 * 256 ^ 31 \<le> uint (s ! 31) * 256 ^ 31" by (intro mult_right_mono) simp_all
  moreover have "le_val (s[31 := 0]) = le_val s - uint (s ! 31) * 256 ^ 31" using assms(1) by (simp add: le_val_update)
  moreover have "0 \<le> le_val (s[31 := 0])" by simp
  ultimately show False using assms(2) by simp
qed

lemma encode_bytes:
  assumes "Rep_ed P = (x, y)" and "length s = 32" and "le_val s = Rep_gf y" and "n = of_bool (odd (Rep_gf x))"
  shows "s[31 := s ! 31 XOR scast (push_bit 7 (n :: i32))] = ed_encode P"
proof (rule le_val_inject)
  have l: "le_val s < 2 ^ 255" using Rep_gf_range [of y] assms(3) by simp
  have n: "scast (push_bit 7 n) = (push_bit 7 (of_bool (odd (Rep_gf x))) :: u8)"
    by (cases "odd (Rep_gf x)") (simp_all add: assms(4))
  have "le_val (s[31 := s ! 31 XOR scast (push_bit 7 n)]) = le_val s + 128 * of_bool (odd (Rep_gf x)) * 256 ^ 31"
    unfolding n using assms(2) byte_top [OF assms(2) l] by (simp only: le_val_update uint_xor_top) simp
  also have "\<dots> = le_val (ed_encode P)"
    unfolding le_val_ed_encode [OF assms(1)] assms(3) by (simp add: of_bool_odd_eq_mod_2)
  finally show "le_val (s[31 := s ! 31 XOR scast (push_bit 7 n)]) = le_val (ed_encode P)" .
qed (simp add: assms(2))

lemma ge_tobytes_encode:
  assumes "p2_is P p"
  shows "ge_tobytes p = ed_encode P"
proof -
  obtain x y where P: "Rep_ed P = (x, y)" by (metis surj_pair)
  obtain z where z: "z dvd 1" and u: "fe_is 130 (x * z) (p2_X p)" "fe_is 261 (y * z) (p2_Y p)" "fe_is 261 z (p2_Z p)"
    using assms by (auto simp: P)
  let ?r = "fe_invert (p2_Z p)"
  have r: "fe_is 130 (inverse z) ?r" by (rule fe_invert_is [OF u(3)]) simp
  have z0: "z \<noteq> 0" using z by (simp add: gf_dvd_1_iff)
  have f: "fe_is 130 x (fe_mul (p2_X p) ?r)" "fe_is 130 y (fe_mul (p2_Y p) ?r)"
    using fe_is_mul [OF u(1) r] fe_is_mul [OF u(2) r] z0 by (simp_all add: mult.assoc)
  have "le_val (fe_tobytes (fe_mul (p2_Y p) ?r)) = Rep_gf y"
    using fe_tobytes_correct [OF fe_is_tobytes [OF f(2)]] fe_val_is [OF f(2)] by simp
  moreover have "fe_isnegative (fe_mul (p2_X p) ?r) = of_bool (odd (Rep_gf x))"
    using fe_isnegative_correct [OF fe_is_tobytes [OF f(1)]] fe_val_is [OF f(1)] by simp
  ultimately show ?thesis
    unfolding ge_tobytes_def Let_def by (intro encode_bytes [OF P]) simp_all
qed

lemma ge_p3_tobytes_p2: "ge_p3_tobytes p = ge_tobytes \<lparr>p2_X = p3_X p, p2_Y = p3_Y p, p2_Z = p3_Z p\<rparr>"
  by (simp add: ge_p3_tobytes_def ge_tobytes_def)

lemma ge_p3_tobytes_encode:
  assumes "p3_is P p"
  shows "ge_p3_tobytes p = ed_encode P"
  unfolding ge_p3_tobytes_p2 by (rule ge_tobytes_encode)
    (use assms fe_is_mono [of 130 _ _ 261] in \<open>cases "Rep_ed P"; fastforce\<close>)

section \<open>Square roots\<close>

text \<open>
  The candidate \<open>u v^3 (u v^7)^((p - 5) / 8)\<close>: its square times \<open>v\<close> is \<open>u\<close> times a fourth root of
  unity, which is 1 or -1 when \<open>u / v\<close> is a square.
\<close>

definition gf_root :: "gf \<Rightarrow> gf \<Rightarrow> gf" where
  "gf_root u v = u * v ^ 3 * (u * v ^ 7) ^ (2 ^ 252 - 3)"

lemma gf_root_square: "v * (gf_root u v * gf_root u v) = u * (u * v ^ 7) ^ (2 ^ 253 - 5)"
proof -
  have e: "2 ^ 253 - 5 = Suc (2 * (2 ^ 252 - 3) :: nat)" by simp
  have "v * (u * v ^ 3 * w * (u * v ^ 3 * w)) = u * (u * v ^ 7 * (w * w))" for w
    by (simp add: power3_eq_cube numeral_eq_Suc ac_simps)
  then show ?thesis
    unfolding gf_root_def e power_Suc power_mult power2_eq_square by (simp only: power_mult_distrib)
qed

lemma gf_fourth_root:
  fixes w :: gf
  assumes "w \<noteq> 0"
  shows "(w ^ (2 ^ 253 - 5)) ^ 4 = 1"
proof -
  have "(2 ^ 253 - 5) * 4 = (2 ^ 255 - 20 :: nat)" by simp
  then show ?thesis using gf_power_pred [OF assms] by (simp only: flip: power_mult)
qed

lemma gf_sign_root:
  fixes r :: gf
  assumes "r \<noteq> 0"
  shows "(r * r) ^ (2 ^ 253 - 5) = 1 \<or> (r * r) ^ (2 ^ 253 - 5) = - 1"
proof -
  have "(r * r) ^ (2 ^ 253 - 5) * (r * r) ^ (2 ^ 253 - 5) = 1 * 1"
  proof -
    have "(2 ^ 253 - 5) + (2 ^ 253 - 5) + ((2 ^ 253 - 5) + (2 ^ 253 - 5)) = (2 ^ 255 - 20 :: nat)" by simp
    then have "r ^ ((2 ^ 253 - 5) + (2 ^ 253 - 5) + ((2 ^ 253 - 5) + (2 ^ 253 - 5))) = 1"
      using gf_power_pred [OF assms] by (simp only:)
    then show ?thesis by (simp only: power_add power_mult_distrib mult_1)
  qed
  then show ?thesis by (rule gf_square_eq)
qed

lemma gf_root_complete:
  assumes "v * (r * r) = u"
  shows "v * (gf_root u v * gf_root u v) = u \<or> v * (gf_root u v * gf_root u v) = - u"
proof (cases "r = 0 \<or> v = 0")
  case True
  then show ?thesis using assms by (auto simp: gf_root_def)
next
  case False
  have "u * v ^ 7 = (r * v ^ 4) * (r * v ^ 4)"
    unfolding assms [symmetric] by (simp add: numeral_eq_Suc ac_simps)
  moreover have "r * v ^ 4 \<noteq> 0" using False by simp
  ultimately show ?thesis using gf_sign_root [of "r * v ^ 4"] unfolding gf_root_square by auto
qed

section \<open>Decoding\<close>

lemma fe_divpowm1_is: "fe_is j u f \<Longrightarrow> fe_is k v g \<Longrightarrow> j \<le> 422 \<Longrightarrow> k \<le> 422 \<Longrightarrow> fe_is 130 (gf_root u v) (fe_divpowm1 f g)"
proof (rule fe_is_res)
  assume f: "fe_is j u f" "fe_is k v g" "j \<le> 422" "k \<le> 422"
  note c = fe_divpowm1_correct [OF fe_is_arg [OF f(1,3)] fe_is_arg [OF f(2,4)]]
  show "fe_res (fe_divpowm1 f g)" by (rule c(1))
  show "fe_gf (fe_divpowm1 f g) = gf_root u v" using c(2) by (simp only: gf_root_def fe_is_gf [OF f(1)] fe_is_gf [OF f(2)])
qed

lemma fe_d_is: "fe_is 130 ed_d fe_d" and fe_sqrtm1_is: "fe_is 130 ed_i fe_sqrtm1"
  by (simp_all add: fe_is_def ed_d_def ed_i_def fe_bounded_def all_less_10 fe_d_def fe_sqrtm1_def)

lemma fe_isnonzero_is: "fe_is k x f \<Longrightarrow> k \<le> 422 \<Longrightarrow> fe_isnonzero f = of_bool (x \<noteq> 0)"
  using fe_isnonzero_correct [OF fe_is_tobytes] fe_is_gf by auto

lemma fe_isnegative_is: "fe_is k x f \<Longrightarrow> k \<le> 422 \<Longrightarrow> fe_isnegative f = of_bool (odd (Rep_gf x))"
  using fe_isnegative_correct [OF fe_is_tobytes] fe_val_is by auto

text \<open>The choice of the square root and of its sign, on field elements.\<close>

definition gf_decode :: "gf \<Rightarrow> bool \<Rightarrow> gf option" where
  "gf_decode y sg =
     (let u = y * y - 1; v = ed_d * (y * y) + 1; x = gf_root u v
      in do { x \<leftarrow> (if v * (x * x) = u then Some x else if v * (x * x) = - u then Some (x * ed_i) else None);
              if odd (Rep_gf x) \<noteq> sg then if x = 0 then None else Some (- x) else Some x })"

lemma gf_decode_sound:
  assumes "gf_decode y sg = Some x"
  shows "on_curve (x, y) \<and> (odd (Rep_gf x) \<longleftrightarrow> sg)"
proof -
  let ?u = "y * y - 1" and ?v = "ed_d * (y * y) + 1"
  obtain r where r: "?v * (r * r) = ?u" "x = r \<or> x = - r" "odd (Rep_gf x) \<longleftrightarrow> sg"
  proof -
    let ?x = "gf_root ?u ?v"
    have i: "?v * (?x * ed_i * (?x * ed_i)) = - (?v * (?x * ?x))" using ed_i_square by algebra
    then show ?thesis
      using that [of ?x] that [of "?x * ed_i"] assms parity_minus [of ?x] parity_minus [of "?x * ed_i"]
      by (auto simp: gf_decode_def Let_def split: if_splits)
  qed
  have "?v * (x * x) = ?u" using r(1,2) by auto
  then have "on_curve (x, y)" unfolding on_curve.simps by algebra
  then show ?thesis using r(3) by simp
qed

lemma gf_decode_complete:
  assumes "on_curve (x, y)"
  shows "gf_decode y (odd (Rep_gf x)) = Some x"
proof -
  let ?u = "y * y - 1" and ?v = "ed_d * (y * y) + 1" and ?s = "odd (Rep_gf x)"
  let ?r = "gf_root ?u ?v"
  have v: "?v * (x * x) = ?u" using ed_curve_abscissa [OF assms] by (simp add: mult.commute)
  have "gf_decode y ?s \<noteq> None"
  proof -
    obtain z where z: "z * z = x * x" "(if ?v * (?r * ?r) = ?u then Some ?r
        else if ?v * (?r * ?r) = - ?u then Some (?r * ed_i) else None) = Some z"
    proof (cases "?v * (?r * ?r) = ?u")
      case True
      then have "?v * (?r * ?r) = ?v * (x * x)" using v by simp
      then show ?thesis using that [of ?r] True ed_v_nonzero [of y] by simp
    next
      case False
      then have m: "?v * (?r * ?r) = - ?u" using gf_root_complete [OF v] by blast
      then have "?v * (?r * ed_i * (?r * ed_i)) = ?v * (x * x)" using v ed_i_square by algebra
      then show ?thesis using that [of "?r * ed_i"] False m ed_v_nonzero [of y] by simp
    qed
    have "z = 0 \<Longrightarrow> x = 0" using z(1) by simp
    then show ?thesis using z(2) by (auto simp: gf_decode_def Let_def gf_odd_0)
  qed
  then obtain x' where x': "gf_decode y ?s = Some x'" by auto
  have "?v * (x' * x') = ?v * (x * x)"
    using gf_decode_sound [OF x'] ed_curve_abscissa [of x' y] v by (simp add: mult.commute)
  then have "x' * x' = x * x" using ed_v_nonzero [of y] by simp
  then show ?thesis using x' same_abscissa gf_decode_sound [OF x'] by blast
qed

lemma sign_bit: "drop_bit 7 (ucast (b :: u8) :: i32) = of_bool (bit b 7)"
proof (rule bit_word_eqI)
  fix n
  show "bit (drop_bit 7 (ucast b :: i32)) n = bit (of_bool (bit b 7) :: i32) n"
    using bit_imp_le_length [of b "7 + n"] by (cases "n = 0") (auto simp: bit_simps)
qed

lemma rel_option_bindI:
  "rel_option A a b \<Longrightarrow> (\<And>x y. A x y \<Longrightarrow> rel_option B (f x) (g y))
    \<Longrightarrow> rel_option B (Option.bind a f) (Option.bind b g)"
  by (cases a; cases b) auto

lemma fe_root_select:
  assumes X: "fe_is 130 x X" and uv: "fe_is 131 u U" "fe_is 131 v V"
  defines "w \<equiv> fe_mul (fe_sq X) V"
  shows "rel_option (fe_is 130)
    (if v * (x * x) = u then Some x else if v * (x * x) = - u then Some (x * ed_i) else None)
    (if fe_isnonzero (fe_sub w U) \<noteq> 0
     then if fe_isnonzero (fe_add w U) \<noteq> 0 then None else Some (fe_mul X fe_sqrtm1) else Some X)"
proof -
  have w: "fe_is 130 (x * x * v) w" unfolding w_def by (rule fe_is_mul [OF fe_is_sq [OF X] uv(2)]) simp_all
  have "fe_is 261 (x * x * v - u) (fe_sub w U)" "fe_is 261 (x * x * v + u) (fe_add w U)"
    using fe_is_sub [OF w uv(1)] fe_is_add [OF w uv(1)] by simp_all
  then have "fe_isnonzero (fe_sub w U) \<noteq> 0 \<longleftrightarrow> v * (x * x) \<noteq> u" "fe_isnonzero (fe_add w U) \<noteq> 0 \<longleftrightarrow> v * (x * x) \<noteq> - u"
    by (simp_all add: fe_isnonzero_is mult.commute add_eq_0_iff2)
  moreover have "fe_is 130 (x * ed_i) (fe_mul X fe_sqrtm1)" by (rule fe_is_mul [OF X fe_sqrtm1_is]) simp_all
  ultimately show ?thesis using X by auto
qed

lemma fe_sign_select:
  assumes "fe_is 130 z Z"
  shows "rel_option (fe_is 130)
    (if odd (Rep_gf z) \<noteq> sg then if z = 0 then None else Some (- z) else Some z)
    (if fe_isnegative Z \<noteq> of_bool sg then if fe_isnonzero Z = 0 then None else Some (fe_neg Z) else Some Z)"
  using assms fe_is_neg [OF assms]
  by (simp add: fe_isnegative_is [OF assms] fe_isnonzero_is [OF assms])

lemma ge_frombytes_decode:
  assumes "length s = 32" and "\<not> fe_noncanonical (fe_frombytes_h s)"
  defines "y \<equiv> of_int (le_val s mod 2 ^ 255) :: gf"
  shows "rel_option (\<lambda>x. rep_p3 (x, y)) (gf_decode y (bit (s ! 31) 7)) (ge_frombytes_vartime s)"
proof -
  let ?Y = "fe_frombytes (fe_frombytes_h s)"
  let ?u = "y * y - 1" and ?v = "ed_d * (y * y) + 1"
  have Y: "fe_is 130 y ?Y"
    using fe_frombytes_correct [OF fe_frombytes_h_iv, of s] fe_frombytes_value [OF assms(1)]
    by (intro fe_is_res) (simp_all add: y_def)
  have "fe_is 130 (y * y * ed_d) (fe_mul (fe_sq ?Y) fe_d)"
    by (rule fe_is_mul [OF fe_is_sq [OF Y] fe_d_is]) simp_all
  then have uv: "fe_is 131 ?u (fe_sub (fe_sq ?Y) fe_1)" "fe_is 131 ?v (fe_add (fe_mul (fe_sq ?Y) fe_d) fe_1)"
    using fe_is_sub [OF fe_is_sq [OF Y] fe_is_1] fe_is_add [OF _ fe_is_1, of 130] by (simp_all add: mult.commute)
  note X = fe_divpowm1_is [OF uv, simplified]
  have one: "fe_is 130 1 fe_1" by (rule fe_is_mono [OF fe_is_1]) simp
  have "rel_option (\<lambda>x p. fe_is 130 x (p3_X p) \<and> fe_is 130 y (p3_Y p) \<and> fe_is 130 1 (p3_Z p) \<and> fe_is 130 (x * y) (p3_T p))
      (gf_decode y (bit (s ! 31) 7)) (ge_frombytes_vartime s)" (is "rel_option ?R _ _")
  proof -
    have "rel_option ?R (gf_decode y (bit (s ! 31) 7) \<bind> Some) (ge_frombytes_vartime s)"
      unfolding gf_decode_def ge_frombytes_vartime_def Let_def sign_bit if_not_P [OF assms(2)] Option.bind_assoc
      by (rule rel_option_bindI [OF fe_root_select [OF X uv]], rule rel_option_bindI [OF fe_sign_select], assumption)
        (use Y one fe_is_mul [OF _ Y] in simp)
    then show ?thesis by simp
  qed
  then show ?thesis
    using gf_decode_sound by (cases "gf_decode y (bit (s ! 31) 7)"; cases "ge_frombytes_vartime s") (auto intro!: exI [of _ 1])
qed

text \<open>The decoder accepts exactly the canonical encodings of points.\<close>

theorem ge_frombytes_canonical:
  assumes "length s = 32"
  shows "case ge_frombytes_vartime s of
      Some p \<Rightarrow> \<exists>P. p3_is P p \<and> ed_encode P = s
    | None \<Rightarrow> \<nexists>P. ed_encode P = s"
proof -
  let ?y = "le_val s mod 2 ^ 255"
  have top: "le_val s = ?y + 2 ^ 255 * of_bool (bit (s ! 31) 7)"
  proof -
    have "le_val s div 2 ^ 255 = of_bool (bit (s ! 31) 7)"
    proof -
      have "le_val s div 2 ^ 255 < 2" "0 \<le> le_val s div 2 ^ 255" using le_val_less [OF assms] by (simp_all add: pos_imp_zdiv_nonneg_iff)
      then have "le_val s div 2 ^ 255 = of_bool (odd (le_val s div 2 ^ 255))" by (cases "le_val s div 2 ^ 255 = 0") auto
      also have "odd (le_val s div 2 ^ 255) \<longleftrightarrow> bit (le_val s) 255" by (simp add: bit_iff_odd)
      also have "\<dots> \<longleftrightarrow> bit (s ! 31) 7" using assms by (simp add: bit_le_val)
      finally show ?thesis .
    qed
    then show ?thesis using mult_div_mod_eq [of "2 ^ 255" "le_val s"] by simp
  qed
  have ran: "0 \<le> ?y" by simp
  have encoded: "ed_encode P = s \<longleftrightarrow> Rep_gf y = ?y \<and> (odd (Rep_gf x) \<longleftrightarrow> bit (s ! 31) 7)" if "Rep_ed P = (x, y)" for P x y
  proof -
    have "ed_encode P = s \<longleftrightarrow> Rep_gf y + 2 ^ 255 * of_bool (odd (Rep_gf x)) = ?y + 2 ^ 255 * of_bool (bit (s ! 31) 7)"
      using le_val_inject [of "ed_encode P" s] top le_val_ed_encode [OF that] assms by (auto simp: of_bool_odd_eq_mod_2)
    also have "\<dots> \<longleftrightarrow> Rep_gf y = ?y \<and> (odd (Rep_gf x) \<longleftrightarrow> bit (s ! 31) 7)"
      using Rep_gf_range [of y] ran pos_mod_bound [of "2 ^ 255" "le_val s"] by (auto simp: of_bool_def split: if_splits)
    finally show ?thesis .
  qed
  show ?thesis
  proof (cases "fe_noncanonical (fe_frombytes_h s)")
    case True
    then have "ge_frombytes_vartime s = None" by (simp add: ge_frombytes_vartime_def Let_def)
    moreover have "p25519 \<le> ?y" using True by (simp only: fe_noncanonical_iff [OF assms])
    moreover have "ed_encode P \<noteq> s" for P
    proof -
      obtain x y where P: "Rep_ed P = (x, y)" by (metis surj_pair)
      show ?thesis using encoded [OF P] Rep_gf_range(2) [of y] \<open>p25519 \<le> ?y\<close> by auto
    qed
    ultimately show ?thesis by simp
  next
    case False
    note d = ge_frombytes_decode [OF assms False]
    let ?Y = "of_int ?y :: gf"
    have "?y < p25519" using False by (simp only: fe_noncanonical_iff [OF assms] not_le)
    then have Y: "Rep_gf ?Y = ?y" by (simp only: Rep_gf_of_int mod_pos_pos_trivial ran)
    show ?thesis
    proof (cases "gf_decode ?Y (bit (s ! 31) 7)")
      case None
      have "ed_encode P \<noteq> s" for P
      proof
        assume e: "ed_encode P = s"
        obtain x y where P: "Rep_ed P = (x, y)" by (metis surj_pair)
        have "y = ?Y" using encoded [OF P] e Y by (metis Rep_gf_inject)
        moreover have "on_curve (x, y)" using Rep_ed_on_curve [of P] by (simp only: P)
        ultimately show False using gf_decode_complete [of x y] encoded [OF P] e None by simp
      qed
      moreover have "ge_frombytes_vartime s = None" using d None by simp
      ultimately show ?thesis by simp
    next
      case (Some x)
      note o = gf_decode_sound [OF Some]
      have P: "Rep_ed (Abs_ed (x, ?Y)) = (x, ?Y)" by (rule Abs_ed_inverse [OF CollectI]) (use o in blast)
      obtain p where p: "ge_frombytes_vartime s = Some p" "rep_p3 (x, ?Y) p"
        using d unfolding Some by (auto simp: option_rel_Some1)
      have "ed_encode (Abs_ed (x, ?Y)) = s" using encoded [OF P] o Y by blast
      with p(2) have "p3_is (Abs_ed (x, ?Y)) p \<and> ed_encode (Abs_ed (x, ?Y)) = s" by (simp only: P simp_thms)
      then show ?thesis unfolding p(1) option.case(2) by (rule exI)
    qed
  qed
qed

end
