(* ===== verification/HashToPoint.thy ===== *)
theory HashToPoint
  imports PointCodec
begin

text \<open>
  The map from bytes to points, \<open>ge_fromfe_frombytes_vartime\<close>: none of its assertions can fail
  and it returns a point of the curve for every input.
\<close>

section \<open>The map on field elements\<close>

text \<open>\<open>A = 486662\<close>, the coefficient of the Montgomery form of the curve.\<close>

definition mont_A :: gf where
  "mont_A = 486662"

lemma ed_d_mont: "ed_d * (mont_A + 2) = 2 - mont_A"
  unfolding mont_A_def using ed_d_ratio by algebra

lemma mont_A_nonzero: "mont_A \<noteq> 0" "mont_A + 2 \<noteq> 0"
  using of_int_gf_zero_iff [of 486662] of_int_gf_zero_iff [of 486664] by (simp_all add: mont_A_def p25519_def)

lemma minus_two_not_square: "2 * (u * u) + 1 \<noteq> (0 :: gf)"
proof
  assume 0: "2 * (u * u) + 1 = 0"
  then have "u \<noteq> 0" by auto
  moreover have "ed_i * ed_i = 2 * (u * u)" using 0 by (simp add: ed_i_square add_eq_0_iff2)
  ultimately have "(ed_i / u) * (ed_i / u) = 2" by (simp add: field_simps)
  then show False using two_not_square by blast
qed

lemma fromfe_x_nonzero:
  fixes u :: gf
  defines "v \<equiv> 2 * (u * u)" and "w \<equiv> 2 * (u * u) + 1"
  shows "w * w - mont_A * mont_A * v \<noteq> 0"
proof
  assume 0: "w * w - mont_A * mont_A * v = 0"
  show False
  proof (cases "u = 0")
    case False
    have "w * w = 2 * ((mont_A * u) * (mont_A * u))" using 0 unfolding v_def by algebra
    then have "(w / (mont_A * u)) * (w / (mont_A * u)) = 2" using False mont_A_nonzero by (simp add: field_simps)
    then show False using two_not_square by blast
  qed (use 0 in \<open>simp add: v_def w_def\<close>)
qed

text \<open>
  A solution \<open>r\<close> of \<open>- z w (A + 2) = r\<^sup>2 (z\<^sup>2 + w\<^sup>2 + A z w)\<close> gives the point with abscissa \<open>r\<close> and
  ordinate \<open>(z - w) / (z + w)\<close>, and the denominator does not vanish.
\<close>

lemma fromfe_point:
  fixes z w r :: gf
  assumes "w \<noteq> 0" and eq: "- (z * w * (mont_A + 2)) = r * r * (z * z + w * w + mont_A * z * w)"
  shows "z + w \<noteq> 0" and "on_curve (r, (z - w) / (z + w))"
proof -
  note A2 = mont_A_nonzero(2)
  show nz: "z + w \<noteq> 0"
  proof
    assume "z + w = 0"
    then have "z = - w" by (simp add: add_eq_0_iff2)
    then have "w * w * (mont_A + 2) = w * w * (r * r * (2 - mont_A))" using eq by algebra
    then have "mont_A + 2 = r * r * (2 - mont_A)" using assms(1) by simp
    then have "(mont_A + 2) * 1 = (mont_A + 2) * (ed_d * (r * r))" using ed_d_mont by algebra
    then have "1 * 1 = ed_d * (r * r)" using A2 by (simp only: mult_cancel_left) simp
    from ed_d_scaled_square [OF this] show False using \<open>1 * 1 = ed_d * (r * r)\<close> by simp
  qed
  have "(mont_A + 2) * ((z - w) * (z - w) - r * r * ((z + w) * (z + w)))
      = (mont_A + 2) * ((z + w) * (z + w) + ed_d * (r * r) * ((z - w) * (z - w)))"
    using eq ed_d_mont by algebra
  then have "(z - w) * (z - w) - r * r * ((z + w) * (z + w)) = (z + w) * (z + w) + ed_d * (r * r) * ((z - w) * (z - w))"
    using A2 by (simp only: mult_cancel_left) simp
  moreover define y where "y = (z - w) / (z + w)"
  then have "z - w = y * (z + w)" using nz by simp
  ultimately have "(z + w) * (z + w) * (y * y - r * r) = (z + w) * (z + w) * (1 + ed_d * (r * r) * (y * y))"
    by algebra
  then have "y * y - r * r = 1 + ed_d * (r * r) * (y * y)" using nz by (simp only: mult_cancel_left mult_eq_0_iff) simp
  then show "on_curve (r, (z - w) / (z + w))" by (simp only: on_curve.simps power2_eq_square flip: y_def)
qed

text \<open>The four cases of the candidate root.\<close>

lemma fromfe_root_cases:
  fixes w x :: gf
  assumes "w \<noteq> 0" and "x \<noteq> 0"
  defines "x' \<equiv> gf_root w x * gf_root w x * x"
  shows "x' = w \<or> x' = - w \<or> x' * ed_i = w \<or> x' * ed_i = - w"
proof -
  define e where "e = (w * x ^ 7) ^ (2 ^ 253 - 5)"
  have x': "x' = w * e" unfolding x'_def e_def using gf_root_square [of x w] by (simp only: mult.commute)
  have "w * x ^ 7 \<noteq> 0" using assms(1,2) by simp
  then have "e ^ 4 = 1" unfolding e_def by (rule gf_fourth_root)
  then have "(e * e) * (e * e) = 1 * 1" by (simp add: numeral_eq_Suc mult.assoc)
  then consider "e * e = 1 * 1" | "e * e = ed_i * ed_i" using gf_square_eq [of "e * e" 1] ed_i_square by fastforce
  then consider "e = 1" | "e = - 1" | "e = ed_i" | "e = - ed_i" by cases (use gf_square_eq in blast)+
  then show ?thesis
    by cases (simp_all add: x' mult.assoc ed_i_square)
qed

text \<open>The multipliers \<open>fffb1\<close> to \<open>fffb4\<close> are the square roots they are meant to be.\<close>

lemma fe_const_is:
  "fe_is 130 (- mont_A) fe_ma" "fe_is 130 (- (mont_A * mont_A)) fe_ma2"
proof -
  show "fe_is 130 (- mont_A) fe_ma"
    using fe_isI [of fe_ma "- 486662"] by (simp add: fe_ma_def fe_bounded_def all_less_10 fe_val_def fe_value_expand mont_A_def)
  show "fe_is 130 (- (mont_A * mont_A)) fe_ma2"
    using fe_isI [of fe_ma2 "- 236839902244"] by (simp add: fe_ma2_def fe_bounded_def all_less_10 fe_val_def fe_value_expand mont_A_def)
qed

lemma fe_fffb_is: "fe_is 130 (fe_gf fe_fffb1) fe_fffb1" "fe_is 130 (fe_gf fe_fffb2) fe_fffb2"
  "fe_is 130 (fe_gf fe_fffb3) fe_fffb3" "fe_is 130 (fe_gf fe_fffb4) fe_fffb4"
  by (simp_all add: fe_is_def fe_bounded_def all_less_10 fe_fffb1_def fe_fffb2_def fe_fffb3_def fe_fffb4_def)

lemma fffb_squares:
  "fe_gf fe_fffb1 * fe_gf fe_fffb1 = - (2 * (mont_A * (mont_A + 2)))"
  "fe_gf fe_fffb2 * fe_gf fe_fffb2 = 2 * (mont_A * (mont_A + 2))"
  "fe_gf fe_fffb3 * fe_gf fe_fffb3 = - (ed_i * (mont_A * (mont_A + 2)))"
  "fe_gf fe_fffb4 * fe_gf fe_fffb4 = ed_i * (mont_A * (mont_A + 2))"
proof -
  have k: "mont_A * (mont_A + 2) = of_int 236840875568" by (simp add: mont_A_def)
  have "fe_val fe_fffb1 * fe_val fe_fffb1 mod p25519 = - (2 * 236840875568) mod p25519"
    "fe_val fe_fffb2 * fe_val fe_fffb2 mod p25519 = 2 * 236840875568 mod p25519"
    "fe_val fe_fffb3 * fe_val fe_fffb3 mod p25519 = - (fe_val fe_sqrtm1 * 236840875568) mod p25519"
    "fe_val fe_fffb4 * fe_val fe_fffb4 mod p25519 = fe_val fe_sqrtm1 * 236840875568 mod p25519"
    by (simp_all add: fe_val_def fe_value_expand fe_fffb1_def fe_fffb2_def fe_fffb3_def fe_fffb4_def fe_sqrtm1_def p25519_def)
  note c = this [folded of_int_gf_eq_iff]
  show "fe_gf fe_fffb1 * fe_gf fe_fffb1 = - (2 * (mont_A * (mont_A + 2)))"
    "fe_gf fe_fffb2 * fe_gf fe_fffb2 = 2 * (mont_A * (mont_A + 2))"
    "fe_gf fe_fffb3 * fe_gf fe_fffb3 = - (ed_i * (mont_A * (mont_A + 2)))"
    "fe_gf fe_fffb4 * fe_gf fe_fffb4 = ed_i * (mont_A * (mont_A + 2))"
    unfolding k fe_gf_def ed_i_def using c by simp_all
qed

text \<open>
  The abscissa before its sign is chosen satisfies the equation of the point, whichever of the
  four multipliers is taken.
\<close>

lemma fromfe_equation_1:
  fixes u :: gf
  defines "v \<equiv> 2 * (u * u)" and "w \<equiv> 2 * (u * u) + 1"
  defines "x \<equiv> w * w + - (mont_A * mont_A) * v"
  assumes r: "r0 * r0 * x = e * w" and f: "e * (f * f) = 2 * (mont_A * (mont_A + 2))"
    and z: "z = - mont_A * v"
  shows "- (z * w * (mont_A + 2)) = (r0 * f * u) * (r0 * f * u) * (z * z + w * w + mont_A * z * w)"
proof -
  have "z * z + w * w + mont_A * z * w = x" unfolding z x_def v_def w_def by algebra
  moreover have "(r0 * f * u) * (r0 * f * u) * x = u * u * (f * f) * (r0 * r0 * x)" by algebra
  moreover have "\<dots> = u * u * w * (e * (f * f))" unfolding r by algebra
  moreover have "\<dots> = - (z * w * (mont_A + 2))" unfolding f z v_def by algebra
  ultimately show ?thesis by simp
qed

lemma fromfe_equation_2:
  fixes u :: gf
  defines "v \<equiv> 2 * (u * u)" and "w \<equiv> 2 * (u * u) + 1"
  defines "x \<equiv> w * w + - (mont_A * mont_A) * v"
  assumes r: "r0 * r0 * x = e * w" and f: "e * (f * f) = mont_A * (mont_A + 2)"
    and z: "z = - mont_A"
  shows "- (z * w * (mont_A + 2)) = (r0 * f) * (r0 * f) * (z * z + w * w + mont_A * z * w)"
proof -
  have "z * z + w * w + mont_A * z * w = x" unfolding z x_def v_def w_def by algebra
  moreover have "(r0 * f) * (r0 * f) * x = f * f * (r0 * r0 * x)" by algebra
  moreover have "\<dots> = w * (e * (f * f))" unfolding r by algebra
  moreover have "\<dots> = - (z * w * (mont_A + 2))" unfolding f z by algebra
  ultimately show ?thesis by simp
qed

section \<open>The code\<close>

text \<open>The sign choice and the debug check at the end, given the equation of the point.\<close>

lemma fe_isnonzero_0: "fe_is k x f \<Longrightarrow> k \<le> 422 \<Longrightarrow> fe_isnonzero f = 0 \<longleftrightarrow> x = 0"
  by (simp add: fe_isnonzero_is)

lemma ge_fromfe_check_ok:
  assumes "on_curve (r, (z - w) / (z + w))" and "z + w \<noteq> 0"
    and X: "fe_is 130 (r * (z + w)) X" and Y: "fe_is 261 (z - w) Y" and Z: "fe_is 261 (z + w) Z"
  shows "ge_fromfe_check X Y Z"
proof -
  let ?y = "(z - w) / (z + w)"
  have i: "fe_is 130 (inverse (z + w)) (fe_invert Z)" by (rule fe_invert_is [OF Z]) simp
  have "fe_is 130 (r * (z + w) * inverse (z + w)) (fe_mul X (fe_invert Z))"
    "fe_is 130 ((z - w) * inverse (z + w)) (fe_mul Y (fe_invert Z))"
    by (rule fe_is_mul [OF X i] fe_is_mul [OF Y i]; simp)+
  then have x: "fe_is 130 r (fe_mul X (fe_invert Z))" and y: "fe_is 130 ?y (fe_mul Y (fe_invert Z))"
    using assms(2) by (simp_all add: mult.assoc divide_inverse)
  let ?xx = "fe_sq (fe_mul X (fe_invert Z))" and ?yy = "fe_sq (fe_mul Y (fe_invert Z))"
  have xx: "fe_is 130 (r * r) ?xx" and yy: "fe_is 130 (?y * ?y) ?yy" by (rule fe_is_sq [OF x] fe_is_sq [OF y]; simp)+
  have "fe_is (130 + 130 + 130 + 1) (ed_d * (r * r * (?y * ?y)) + r * r - ?y * ?y + 1)
      (fe_add (fe_sub (fe_add (fe_mul fe_d (fe_mul ?xx ?yy)) ?xx) ?yy) fe_1)"
    by (intro fe_is_add fe_is_sub fe_is_mul [OF fe_d_is fe_is_mul [OF xx yy]] xx yy fe_is_1) simp_all
  moreover have "ed_d * (r * r * (?y * ?y)) + r * r - ?y * ?y + 1 = 0"
    using assms(1) unfolding on_curve.simps by algebra
  ultimately show ?thesis
    by (simp add: ge_fromfe_check_def Let_def fe_isnonzero_0)
qed

definition fromfe_finish :: "fe \<Rightarrow> fe \<Rightarrow> fe \<Rightarrow> i32 \<Rightarrow> ge_p2 option" where
  "fromfe_finish rX z w sign =
     do { rX \<leftarrow> (if fe_isnegative rX \<noteq> sign
            then if fe_isnonzero rX = 0 then None else Some (fe_neg rX)
            else Some rX);
          let rZ = fe_add z w;
          let rY = fe_sub z w;
          let rX = fe_mul rX rZ;
          if ge_fromfe_check rX rY rZ then Some \<lparr>p2_X = rX, p2_Y = rY, p2_Z = rZ\<rparr> else None }"

lemma fromfe_finish_point:
  assumes R: "fe_is 130 r R" and Zf: "fe_is 130 z Zf" and W: "fe_is 131 w W" and w: "w \<noteq> 0"
    and eq: "- (z * w * (mont_A + 2)) = r * r * (z * z + w * w + mont_A * z * w)"
    and sg: "sg \<Longrightarrow> r \<noteq> 0"
  shows "\<exists>p P. fromfe_finish R Zf W (of_bool sg) = Some p \<and> p2_is P p"
proof -
  have "(if odd (Rep_gf r) \<noteq> sg then if r = 0 then None else Some (- r) else Some r) \<noteq> None"
    using sg by (auto simp: gf_odd_0)
  then obtain r' where r': "(if odd (Rep_gf r) \<noteq> sg then if r = 0 then None else Some (- r) else Some r) = Some r'"
    by blast
  then have rr: "r' * r' = r * r" by (auto split: if_splits)
  obtain R' where R': "(if fe_isnegative R \<noteq> of_bool sg then if fe_isnonzero R = 0 then None else Some (fe_neg R) else Some R) = Some R'"
    "fe_is 130 r' R'"
    using fe_sign_select [OF R, of sg] unfolding r' by (auto simp: option_rel_Some1)
  note pt = fromfe_point [OF w eq [folded rr]]
  let ?y = "(z - w) / (z + w)"
  have Z: "fe_is 261 (z + w) (fe_add Zf W)" and Y: "fe_is 261 (z - w) (fe_sub Zf W)"
    using fe_is_add [OF Zf W] fe_is_sub [OF Zf W] by simp_all
  have X: "fe_is 130 (r' * (z + w)) (fe_mul R' (fe_add Zf W))" by (rule fe_is_mul [OF R'(2) Z]) simp_all
  have P: "Rep_ed (Abs_ed (r', ?y)) = (r', ?y)" by (rule Abs_ed_inverse [OF CollectI]) (rule pt(2))
  have "z - w = ?y * (z + w)" using pt(1) by simp
  then have "p2_is (Abs_ed (r', ?y)) \<lparr>p2_X = fe_mul R' (fe_add Zf W), p2_Y = fe_sub Zf W, p2_Z = fe_add Zf W\<rparr>"
    unfolding P rep_p2.simps using pt X Y Z by (intro conjI exI [of _ "z + w"]) (simp_all add: gf_dvd_1_iff)
  then show ?thesis
    using ge_fromfe_check_ok [OF pt(2,1) X Y Z] R'(1) by (auto simp: fromfe_finish_def Let_def)
qed

text \<open>
  The four ends of the map: the multiplier \<open>f\<close> makes \<open>r0 f\<close> the root for the fourth root of unity
  \<open>e\<close> that the candidate left over.
\<close>

lemma fe_ma_copy: "fe_is 130 (- mont_A) (fe_copy fe_ma)"
  by (rule fe_is_copy [OF fe_const_is(1)])

lemma fromfe_square_end:
  fixes u :: gf
  defines "v \<equiv> 2 * (u * u)" and "w \<equiv> 2 * (u * u) + 1"
  defines "x \<equiv> w * w + - (mont_A * mont_A) * v"
  assumes R: "fe_is 130 r0 R" and U: "fe_is 130 u U" and V: "fe_is 130 v V" and W: "fe_is 131 w W" and F: "fe_is 130 f F"
    and r: "r0 * r0 * x = e * w" and f: "e * (f * f) = 2 * (mont_A * (mont_A + 2))"
  shows "\<exists>p P. fromfe_finish (fe_mul (fe_mul R F) U) (fe_mul (fe_copy fe_ma) V) W 0 = Some p \<and> p2_is P p"
proof -
  have "fe_is 130 (r0 * f * u) (fe_mul (fe_mul R F) U)" by (rule fe_is_mul [OF fe_is_mul [OF R F] U]) simp_all
  moreover have "fe_is 130 (- mont_A * v) (fe_mul (fe_copy fe_ma) V)" by (rule fe_is_mul [OF fe_ma_copy V]) simp_all
  moreover have "w \<noteq> 0" unfolding w_def by (rule minus_two_not_square)
  moreover note fromfe_equation_1 [OF r [unfolded v_def w_def x_def] f refl, folded v_def w_def x_def]
  ultimately show ?thesis using fromfe_finish_point [of _ _ _ _ w W False] W by simp
qed

lemma fromfe_nonsquare_end:
  fixes u :: gf
  defines "v \<equiv> 2 * (u * u)" and "w \<equiv> 2 * (u * u) + 1"
  defines "x \<equiv> w * w + - (mont_A * mont_A) * v"
  assumes R: "fe_is 130 r0 R" and W: "fe_is 131 w W" and F: "fe_is 130 f F"
    and r: "r0 * r0 * x = e * w" and f: "e * (f * f) = mont_A * (mont_A + 2)"
  shows "\<exists>p P. fromfe_finish (fe_mul R F) (fe_copy fe_ma) W 1 = Some p \<and> p2_is P p"
proof -
  have "fe_is 130 (r0 * f) (fe_mul R F)" by (rule fe_is_mul [OF R F]) simp_all
  moreover have w: "w \<noteq> 0" unfolding w_def by (rule minus_two_not_square)
  moreover note eq = fromfe_equation_2 [OF r [unfolded v_def w_def x_def] f refl, folded v_def w_def x_def]
  moreover have "r0 * f \<noteq> 0" using eq w mont_A_nonzero by auto
  ultimately show ?thesis using fromfe_finish_point [of _ _ _ _ w W True] W fe_ma_copy by simp
qed

text \<open>Division by \<open>ed_i\<close>.\<close>

lemma ed_i_cancel:
  fixes a w :: gf
  shows "a * ed_i = w \<Longrightarrow> a = - ed_i * w" and "a * ed_i = - w \<Longrightarrow> a = ed_i * w"
proof -
  have "a = - (a * ed_i * ed_i)" by (simp add: mult.assoc ed_i_square)
  then show "a * ed_i = w \<Longrightarrow> a = - ed_i * w" and "a * ed_i = - w \<Longrightarrow> a = ed_i * w" by (simp_all add: mult.commute)
qed

lemma ge_fromfe_total:
  assumes "length s = 32"
  shows "\<exists>p P. ge_fromfe_frombytes_vartime s = Some p \<and> p2_is P p"
proof -
  let ?U = "fe_frombytes (fe_fromfe_h s)"
  let ?V = "fe_sq2 ?U"
  let ?W = "fe_add ?V fe_1"
  let ?Q = "fe_add (fe_sq ?W) (fe_mul fe_ma2 ?V)"
  let ?R = "fe_divpowm1 ?W ?Q"
  let ?X = "fe_mul (fe_sq ?R) ?Q"
  define u where "u = fe_gf ?U"
  define v w where "v = 2 * (u * u)" and "w = 2 * (u * u) + 1"
  define x where "x = w * w + - (mont_A * mont_A) * v"
  define r0 where "r0 = gf_root w x"
  have U: "fe_is 130 u ?U" using fe_frombytes_correct(1) [OF fe_fromfe_h_iv] by (intro fe_is_res) (simp_all add: u_def)
  have V: "fe_is 130 v ?V" unfolding v_def by (rule fe_is_sq2 [OF U]) simp
  have W: "fe_is 131 w ?W" using fe_is_add [OF V fe_is_1] by (simp add: v_def w_def)
  have "fe_is (130 + 130) x ?Q" unfolding x_def
    by (intro fe_is_add fe_is_sq [OF W] fe_is_mul [OF fe_const_is(2) V]) simp_all
  then have X0: "fe_is 260 x ?Q" by simp
  have R: "fe_is 130 r0 ?R" unfolding r0_def by (rule fe_divpowm1_is [OF W X0]) simp_all
  have X: "fe_is 130 (r0 * r0 * x) ?X" by (rule fe_is_mul [OF fe_is_sq [OF R] X0]) simp_all
  have w0: "w \<noteq> 0" unfolding w_def by (rule minus_two_not_square)
  have x0: "x \<noteq> 0" unfolding x_def v_def w_def using fromfe_x_nonzero [of u] by simp
  note c = fromfe_root_cases [OF w0 x0, folded r0_def]
  have "fe_is 261 (w - r0 * r0 * x) (fe_sub ?W ?X)" "fe_is 261 (w + r0 * r0 * x) (fe_add ?W ?X)"
    using fe_is_sub [OF W X] fe_is_add [OF W X] by simp_all
  then have t1: "fe_isnonzero (fe_sub ?W ?X) \<noteq> 0 \<longleftrightarrow> r0 * r0 * x \<noteq> w" "fe_isnonzero (fe_add ?W ?X) \<noteq> 0 \<longleftrightarrow> r0 * r0 * x \<noteq> - w"
    by (auto simp: fe_isnonzero_is eq_neg_iff_add_eq_0 add.commute)
  have Xi: "fe_is 130 (r0 * r0 * x * ed_i) (fe_mul ?X fe_sqrtm1)" by (rule fe_is_mul [OF X fe_sqrtm1_is]) simp_all
  have "fe_is 261 (w - r0 * r0 * x * ed_i) (fe_sub ?W (fe_mul ?X fe_sqrtm1))" "fe_is 261 (w + r0 * r0 * x * ed_i) (fe_add ?W (fe_mul ?X fe_sqrtm1))"
    using fe_is_sub [OF W Xi] fe_is_add [OF W Xi] by simp_all
  then have t2: "fe_isnonzero (fe_sub ?W (fe_mul ?X fe_sqrtm1)) \<noteq> 0 \<longleftrightarrow> r0 * r0 * x * ed_i \<noteq> w"
    "fe_isnonzero (fe_add ?W (fe_mul ?X fe_sqrtm1)) \<noteq> 0 \<longleftrightarrow> r0 * r0 * x * ed_i \<noteq> - w"
    by (auto simp: fe_isnonzero_is eq_neg_iff_add_eq_0 add.commute)
  have code: "ge_fromfe_frombytes_vartime s =
     (if r0 * r0 * x = w then fromfe_finish (fe_mul (fe_mul ?R fe_fffb2) ?U) (fe_mul (fe_copy fe_ma) ?V) ?W 0
      else if r0 * r0 * x = - w then fromfe_finish (fe_mul (fe_mul ?R fe_fffb1) ?U) (fe_mul (fe_copy fe_ma) ?V) ?W 0
      else if r0 * r0 * x * ed_i = w then fromfe_finish (fe_mul ?R fe_fffb4) (fe_copy fe_ma) ?W 1
      else if r0 * r0 * x * ed_i = - w then fromfe_finish (fe_mul ?R fe_fffb3) (fe_copy fe_ma) ?W 1
      else None)"
    unfolding ge_fromfe_frombytes_vartime_def Let_def t1 t2 fromfe_finish_def by simp
  show ?thesis
  proof (cases "r0 * r0 * x = w \<or> r0 * r0 * x = - w")
    case True
    then show ?thesis
      using fromfe_square_end [OF R U V [unfolded v_def] W [unfolded w_def] fe_fffb_is(2), of 1]
        fromfe_square_end [OF R U V [unfolded v_def] W [unfolded w_def] fe_fffb_is(1), of "- 1"] code
      by (auto simp: fffb_squares x_def v_def w_def)
  next
    case False
    have i: "r0 * r0 * x = - ed_i * w" if "r0 * r0 * x * ed_i = w" by (rule ed_i_cancel(1) [OF that])
    have i': "r0 * r0 * x = ed_i * w" if "r0 * r0 * x * ed_i = - w" by (rule ed_i_cancel(2) [OF that])
    have f: "- ed_i * (fe_gf fe_fffb4 * fe_gf fe_fffb4) = mont_A * (mont_A + 2)" "ed_i * (fe_gf fe_fffb3 * fe_gf fe_fffb3) = mont_A * (mont_A + 2)"
      unfolding fffb_squares using ed_i_square by (algebra, algebra)
    show ?thesis
      using c False code i i'
        fromfe_nonsquare_end [OF R W [unfolded w_def] fe_fffb_is(4) _ f(1)]
        fromfe_nonsquare_end [OF R W [unfolded w_def] fe_fffb_is(3) _ f(2)]
      by (auto simp: x_def v_def w_def)
  qed
qed

end
