(* ===== verification/ScChecked.thy ===== *)
theory ScChecked
  imports Sc Checked
begin

text \<open>
  The reduction of a scalar with operations that refuse to overflow.  It returns for every 64-byte
  input, and then it is \<open>sc_reduce\<close>.  The loads work on unsigned numbers; of the stores, ten shift a limb
  to the left.
\<close>

definition sc_store_shifts :: "(nat \<times> nat) list" where
  "sc_store_shifts = [(1, 5), (2, 2), (3, 7), (4, 4), (5, 1), (6, 6), (7, 3), (9, 5), (10, 2), (11, 7)]"

definition sc_store_checked :: "i64 list \<Rightarrow> bytes option" where
  "sc_store_checked s =
     do { opt_fold (\<lambda>(i, k) _. map_option (\<lambda>_. ()) (shl_s k (s ! i))) sc_store_shifts ();
          Some (sc_store s) }"

definition sc_reduce_checked :: "bytes \<Rightarrow> bytes option" where
  "sc_reduce_checked s =
     do { h \<leftarrow> checked_ops (sc_fold_upper @ sc_round @ sc_finish) (sc_load64 s);
          r \<leftarrow> sc_store_checked h;
          Some (r @ drop 32 s) }"

lemma sc_tail_checked:
  fixes h :: "i64 list"
  assumes "iv_ok (map sint (take 13 h)) sc_iv_13"
  shows "checked_ops (sc_round @ sc_finish) h = Some (exec_ops (sc_round @ sc_finish) h)"
    and "iv_ok (map sint (take 13 (exec_ops (sc_round @ sc_finish) h))) sc_iv_end"
proof -
  let ?g = "exec_ops sc_round (take 13 h)" and ?f = "exec_ops sc_floor_11 (exec_ops sc_round (take 13 h))"
  have g: "iv_ok (map sint ?g) sc_iv_mid" using iv_run_sound [OF sc_run_round assms] by simp
  have f: "iv_ok (map sint ?f) sc_iv_digits" using iv_run_sound [OF sc_run_floor g] by simp
  have "checked_ops (sc_round @ sc_finish) (take 13 h) = Some (exec_ops sc_last ?f)"
    using iv_run_checked [OF sc_run_round assms] iv_run_checked [OF sc_run_floor g] iv_run_checked [OF sc_run_last f]
    unfolding sc_finish_def by (simp only: checked_ops_append Option.bind.bind_lunit)
  then show "checked_ops (sc_round @ sc_finish) h = Some (exec_ops (sc_round @ sc_finish) h)"
    by (rule checked_ops_prefix [OF sc_tail_within])
  show "iv_ok (map sint (take 13 (exec_ops (sc_round @ sc_finish) h))) sc_iv_end"
    using sc_finish_residue(1) [OF g] exec_ops_take [OF sc_tail_within, of h] by (simp add: exec_ops_append)
qed

lemma sc_store_returns:
  fixes s :: "i64 list"
  assumes "iv_ok (map sint (take 13 s)) sc_iv_end"
  shows "sc_store_checked s = Some (sc_store s)"
proof -
  have len: "13 \<le> length s" using iv_ok_length [OF assms] by (simp add: sc_iv_end_def)
  have e: "fst (sc_iv_end ! i) = - 1 \<or> fst (sc_iv_end ! i) = 0" "snd (sc_iv_end ! i) \<le> 2 ^ 21" if "i < 12" for i
    using that by (simp_all add: sc_iv_end_def del: upt_rec_numeral)
  have b: "\<bar>sint (s ! i)\<bar> \<le> 2 ^ 21" if "i < 12" for i
  proof -
    have i: "i < length sc_iv_end" using that by (simp add: sc_iv_end_def del: upt_rec_numeral)
    then have "fst (sc_iv_end ! i) \<le> map sint (take 13 s) ! i" "map sint (take 13 s) ! i \<le> snd (sc_iv_end ! i)"
      using assms unfolding iv_ok_def by blast+
    moreover have "map sint (take 13 s) ! i = sint (s ! i)" using that len by simp
    ultimately show ?thesis using e [OF that] by (simp add: abs_le_iff) linarith
  qed
  have "shl_s k (s ! i) = Some (push_bit k (s ! i))" if "i < 12" "k \<le> 7" for i k
  proof -
    have "(2 :: int) ^ k \<le> 2 ^ 7" using that(2) by (intro power_increasing) simp_all
    then have "\<bar>sint (s ! i) * 2 ^ k\<bar> \<le> 2 ^ 21 * 2 ^ 7" using b [OF that(1)] by (intro abs_mult_le) simp_all
    then have "in_range 64 (sint (s ! i) * 2 ^ k)" by (intro in_range_abs) simp
    then show ?thesis by (simp add: shl_s_def)
  qed
  then show ?thesis by (simp add: sc_store_checked_def sc_store_shifts_def)
qed

lemma sc_reduce_returns:
  assumes "length s = 64"
  shows "sc_reduce_checked s = Some (sc_reduce s)"
proof -
  note iv = sc_load64_iv [OF assms]
  let ?g = "exec_ops sc_fold_upper (sc_load64 s)"
  note u = iv_run_sound [OF sc_run_upper iv]
  have g: "iv_ok (map sint (take 13 ?g)) sc_iv_13"
    unfolding take_map [symmetric] u(1) using iv_ok_take [OF u(2), of 13] by (simp add: sc_iv_upper_def sc_iv_13_def)
  show ?thesis
    using iv_run_checked [OF sc_run_upper iv] sc_tail_checked(1) [OF g] sc_store_returns [OF sc_tail_checked(2) [OF g]]
    by (simp add: sc_reduce_checked_def sc_reduce_def checked_ops_append exec_ops_append)
qed

end
