(* ===== verification/ScalarProps.thy ===== *)
theory ScalarProps
  imports ScChecked
begin

text \<open>
  The properties of the scalar arithmetic of \<open>crypto-ops.c\<close>: every operation returns the
  canonical residue modulo the group order, whatever the bytes of its arguments.
\<close>

lemma sc_order_pos: "0 < sc_order"
  by (simp add: sc_order_def)

lemma length_sc_ops [simp]:
  "length (sc_add a b) = 32" "length (sc_sub a b) = 32" "length (sc_mulsub a b c) = 32"
  by (simp_all add: sc_add_def sc_sub_def sc_mulsub_def)

lemma length_sc_reduce [simp]: "length s = 64 \<Longrightarrow> length (sc_reduce s) = 64"
  by (simp add: sc_reduce_def)

lemma length_sc_reduce32 [simp]: "length s = 32 \<Longrightarrow> length (sc_reduce32 s) = 32"
  by (simp add: sc_reduce32_def)

lemma le_val_sc_reduce: "length s = 64 \<Longrightarrow> le_val (take 32 (sc_reduce s)) = le_val s mod sc_order"
  by (simp add: sc_reduce_def sc_reduce_residue)

lemma le_val_sc_reduce32: "length s = 32 \<Longrightarrow> le_val (sc_reduce32 s) = le_val s mod sc_order"
  by (simp add: sc_reduce32_def sc_reduce32_residue)

lemmas le_val_sc = le_val_sc_reduce le_val_sc_reduce32 sc_add_residue sc_sub_residue sc_mulsub_residue

lemma le_val_pad: "le_val (s @ replicate n 0) = le_val s"
proof -
  have "le_val (replicate n 0) = 0" by (simp add: le_val_zero_iff)
  then show ?thesis by (induction s) simp_all
qed

text \<open>
  C30: \<open>sc_reduce\<close>.  For every 64-byte input no signed 64-bit operation overflows: the program in which an
  operation whose result does not fit has no result returns the same bytes.  The
  first 32 bytes become the input modulo the group order and the other 32 stay as they were.
\<close>

theorem sc_reduce_mod:
  assumes "length s = 64"
  shows "sc_reduce_checked s = Some (sc_reduce s)
    \<and> le_val (take 32 (sc_reduce s)) = le_val s mod sc_order \<and> drop 32 (sc_reduce s) = drop 32 s"
  using sc_reduce_returns [OF assms] le_val_sc_reduce [OF assms] by (simp add: sc_reduce_def)

theorem sc_reduce_mod_witness:
  "let s = replicate 64 255 :: bytes
   in sc_reduce_checked s = Some (sc_reduce s)
    \<and> le_val (take 32 (sc_reduce s)) = (2 ^ 512 - 1) mod sc_order \<and> drop 32 (sc_reduce s) = replicate 32 255"
proof -
  have "le_val (replicate 64 255) = 2 ^ 512 - 1" by code_simp
  then show ?thesis using sc_reduce_mod [of "replicate 64 255"] by (simp add: Let_def)
qed

text \<open>
  \<open>sc_reduce32\<close> is \<open>sc_reduce\<close> on the input extended by zero bytes: the short reduction,
  which skips the folding of the upper limbs, computes the same bytes.
\<close>

theorem sc_reduce32_agrees:
  assumes "length s = 32"
  shows "sc_reduce32 s = take 32 (sc_reduce (s @ replicate 32 0))"
  by (rule le_val_inject) (simp_all add: assms le_val_sc_reduce32 le_val_sc_reduce le_val_pad)

theorem sc_reduce32_agrees_witness:
  "sc_reduce32 (replicate 32 255) = take 32 (sc_reduce (replicate 32 255 @ replicate 32 0))"
  by (rule sc_reduce32_agrees) simp

text \<open>
  \<open>sc_add\<close> and \<open>sc_sub\<close> return the sum and the difference modulo the group order, for
  arbitrary 32-byte arguments, reduced or not.
\<close>

theorem sc_add_sub_mod:
  assumes "length a = 32" and "length b = 32"
  shows "le_val (sc_add a b) = (le_val a + le_val b) mod sc_order
    \<and> le_val (sc_sub a b) = (le_val a - le_val b) mod sc_order"
  using assms by (simp add: le_val_sc)

theorem sc_add_sub_mod_witness:
  "let a = 5 # replicate 31 0; b = 7 # replicate 31 0
   in le_val (sc_add a b) = 12 mod sc_order \<and> le_val (sc_sub a b) = - 2 mod sc_order"
  using sc_add_sub_mod [of "5 # replicate 31 0" "7 # replicate 31 0"]
    le_val_pad [of "[5]" 31] le_val_pad [of "[7]" 31] by (simp add: Let_def)

text \<open>
  C31: \<open>sc_mulsub\<close>, the step of every signature, returns \<open>c - a * b\<close> modulo the group order for
  arbitrary 32-byte arguments.
\<close>

theorem sc_mulsub_mod:
  assumes "length a = 32" and "length b = 32" and "length c = 32"
  shows "length (sc_mulsub a b c) = 32
    \<and> le_val (sc_mulsub a b c) = (le_val c - le_val a * le_val b) mod sc_order"
  using assms by (simp add: le_val_sc)

theorem sc_mulsub_mod_witness:
  "let a = 2 # replicate 31 0; b = 3 # replicate 31 0; c = 10 # replicate 31 0
   in le_val (sc_mulsub a b c) = 4 mod sc_order"
  using sc_mulsub_mod [of "2 # replicate 31 0" "3 # replicate 31 0" "10 # replicate 31 0"]
    le_val_pad [of "[2]" 31] le_val_pad [of "[3]" 31] le_val_pad [of "[10]" 31]
  by (simp add: Let_def)

text \<open>
  \<open>sc_check\<close>, the branch-free comparison by weighted signs, returns 0 exactly for the
  canonical scalars, those below the group order, and -1 for every other 32-byte string.
\<close>

theorem sc_check_canonical:
  assumes "length s = 32"
  shows "sc_check s = (if le_val s < sc_order then 0 else - 1)"
  using assms by (rule sc_check_residue)

theorem sc_check_canonical_witness:
  "let one = 1 # replicate 31 0; top = replicate 32 255
   in sc_check one = 0 \<and> le_val one < sc_order \<and> sc_check top = - 1 \<and> \<not> le_val top < sc_order"
proof -
  have "sc_check (1 # replicate 31 0) = 0" "sc_check (replicate 32 255) = - 1" by code_simp+
  then show ?thesis
    using sc_check_canonical [of "1 # replicate 31 0"] sc_check_canonical [of "replicate 32 255"]
    by (simp add: Let_def split: if_splits)
qed

text \<open>
  what the scalar operations return is canonical: the results of \<open>sc_reduce32\<close>,
  \<open>sc_add\<close>, \<open>sc_sub\<close>, \<open>sc_mulsub\<close> and the first half of the result of \<open>sc_reduce\<close> pass
  \<open>sc_check\<close>.
\<close>

theorem sc_results_canonical:
  assumes "length a = 32" and "length b = 32" and "length c = 32" and "length s = 64"
  shows "sc_check (sc_reduce32 a) = 0 \<and> sc_check (sc_add a b) = 0 \<and> sc_check (sc_sub a b) = 0
    \<and> sc_check (sc_mulsub a b c) = 0 \<and> sc_check (take 32 (sc_reduce s)) = 0"
  using assms sc_order_pos by (simp add: sc_check_residue le_val_sc)

theorem sc_results_canonical_witness:
  "let a = replicate 32 255; s = replicate 64 255
   in sc_check (sc_reduce32 a) = 0 \<and> sc_check (sc_add a a) = 0 \<and> sc_check (sc_sub a a) = 0
    \<and> sc_check (sc_mulsub a a a) = 0 \<and> sc_check (take 32 (sc_reduce s)) = 0"
  unfolding Let_def by (rule sc_results_canonical) simp_all

text \<open>
  subtraction undoes addition on the bytes: for a canonical scalar \<open>a\<close> and any \<open>b\<close>,
  subtracting \<open>b\<close> from \<open>sc_add a b\<close> gives back the bytes of \<open>a\<close>.
\<close>

theorem sc_sub_add_inverse:
  assumes "length a = 32" and "length b = 32" and "sc_check a = 0"
  shows "sc_sub (sc_add a b) b = a"
proof (rule le_val_inject)
  have "le_val a < sc_order" using assms by (simp add: sc_check_residue split: if_splits)
  then show "le_val (sc_sub (sc_add a b) b) = le_val a"
    using assms by (simp add: le_val_sc mod_diff_left_eq)
qed (simp add: assms)

theorem sc_sub_add_inverse_witness:
  "sc_sub (sc_add (9 # replicate 31 0) (replicate 32 255)) (replicate 32 255) = 9 # replicate 31 0"
  by (rule sc_sub_add_inverse) (simp, simp, code_simp)

text \<open>
  \<open>sc_isnonzero\<close> returns 0 for the scalar that \<open>sc_0\<close> writes and 1 for every other 32-byte
  string.
\<close>

theorem sc_isnonzero_zero:
  assumes "length s = 32"
  shows "sc_isnonzero s = (if s = sc_0 then 0 else 1)"
proof -
  have z: "sc_0 = replicate 32 0" by (simp add: sc_0_def map_replicate_const)
  have "le_val s = 0 \<longleftrightarrow> s = sc_0"
    unfolding le_val_zero_iff z using assms replicate_eqI [of s 32 0] by auto
  then show ?thesis by (simp add: sc_isnonzero_flag [OF assms])
qed

theorem sc_isnonzero_zero_witness: "sc_isnonzero sc_0 = 0 \<and> sc_isnonzero (replicate 31 0 @ [128]) = 1"
proof -
  have l: "length sc_0 = 32" "length (replicate 31 0 @ [128 :: u8]) = 32" by (simp_all add: sc_0_def)
  have "replicate 31 0 @ [128] \<noteq> sc_0" by code_simp
  then show ?thesis using sc_isnonzero_zero [OF l(1)] sc_isnonzero_zero [OF l(2)] by simp
qed

end
