(* ===== verification/Keccak.thy ===== *)
theory Keccak
  imports Prelude
begin

text \<open>
  The Keccak permutation of \<open>keccak.c\<close> on 25 lanes of 64 bits, with the permutation of the
  standard on lane coordinates as its reference.
\<close>

section \<open>The permutation\<close>

definition rotl64 :: "u64 \<Rightarrow> nat \<Rightarrow> u64" where
  "rotl64 x y = push_bit y x OR drop_bit (64 - y) x"

definition keccakf_rndc :: "u64 list" where
  "keccakf_rndc =
    [0x0000000000000001, 0x0000000000008082, 0x800000000000808a,
     0x8000000080008000, 0x000000000000808b, 0x0000000080000001,
     0x8000000080008081, 0x8000000000008009, 0x000000000000008a,
     0x0000000000000088, 0x0000000080008009, 0x000000008000000a,
     0x000000008000808b, 0x800000000000008b, 0x8000000000008089,
     0x8000000000008003, 0x8000000000008002, 0x8000000000000080,
     0x000000000000800a, 0x800000008000000a, 0x8000000080008081,
     0x8000000000008080, 0x0000000080000001, 0x8000000080008008]"

definition keccakf_rotc :: "nat list" where
  "keccakf_rotc =
    [1, 3, 6, 10, 15, 21, 28, 36, 45, 55, 2, 14,
     27, 41, 56, 8, 25, 43, 62, 18, 39, 61, 20, 44]"

definition keccakf_piln :: "nat list" where
  "keccakf_piln =
    [10, 7, 11, 17, 18, 3, 5, 16, 8, 21, 24, 4,
     15, 23, 19, 13, 12, 2, 20, 14, 22, 9, 6, 1]"

type_synonym lanes = "u64 list"

definition keccakf_theta :: "lanes \<Rightarrow> lanes" where
  "keccakf_theta st =
     (let bc = map (\<lambda>i. st ! i XOR st ! (i + 5) XOR st ! (i + 10) XOR st ! (i + 15) XOR st ! (i + 20)) [0..<5]
      in fold (\<lambda>i st.
           let t = bc ! ((i + 4) mod 5) XOR rotl64 (bc ! ((i + 1) mod 5)) 1
           in fold (\<lambda>j st. st[j + i := st ! (j + i) XOR t]) [0, 5, 10, 15, 20] st) [0..<5] st)"

definition keccakf_rho_pi :: "lanes \<Rightarrow> lanes" where
  "keccakf_rho_pi st =
     snd (fold (\<lambda>i (t, st).
       let j = keccakf_piln ! i;
           bc0 = st ! j
       in (bc0, st[j := rotl64 t (keccakf_rotc ! i)])) [0..<24] (st ! 1, st))"

definition keccakf_chi :: "lanes \<Rightarrow> lanes" where
  "keccakf_chi st =
     fold (\<lambda>j st.
       let bc = map (\<lambda>i. st ! (j + i)) [0..<5]
       in fold (\<lambda>i st. st[j + i := st ! (j + i) XOR (NOT (bc ! ((i + 1) mod 5)) AND bc ! ((i + 2) mod 5))])
            [0..<5] st) [0, 5, 10, 15, 20] st"

definition keccakf_iota :: "nat \<Rightarrow> lanes \<Rightarrow> lanes" where
  "keccakf_iota round st = st[0 := st ! 0 XOR keccakf_rndc ! round]"

definition keccakf :: "lanes \<Rightarrow> nat \<Rightarrow> lanes" where
  "keccakf st rounds =
     fold (\<lambda>round st. keccakf_iota round (keccakf_chi (keccakf_rho_pi (keccakf_theta st)))) [0..<rounds] st"

section \<open>The reference on lane coordinates\<close>

text \<open>
  The step mappings of the standard, on a function from the coordinates \<open>x\<close> and \<open>y\<close> to lanes.
\<close>

type_synonym plane = "nat \<Rightarrow> nat \<Rightarrow> u64"

definition ref_theta :: "plane \<Rightarrow> plane" where
  "ref_theta A x y =
     (let C = (\<lambda>x. A x 0 XOR A x 1 XOR A x 2 XOR A x 3 XOR A x 4)
      in A x y XOR (C ((x + 4) mod 5) XOR word_rotl 1 (C ((x + 1) mod 5))))"

text \<open>The offsets: the triangular numbers along the orbit of \<open>(1, 0)\<close> under \<open>(x, y) \<mapsto> (y, 2 x + 3 y)\<close>.\<close>

fun rho_from :: "nat \<Rightarrow> nat \<Rightarrow> nat \<times> nat \<Rightarrow> nat \<times> nat \<Rightarrow> nat" where
  "rho_from 0 t p q = 0"
| "rho_from (Suc n) t (x, y) q =
     (if (x, y) = q then (t + 1) * (t + 2) div 2 mod 64 else rho_from n (t + 1) (y, (2 * x + 3 * y) mod 5) q)"

definition rho_offset :: "nat \<Rightarrow> nat \<Rightarrow> nat" where
  "rho_offset x y = rho_from 24 0 (1, 0) (x, y)"

text \<open>\<open>B[y, 2 x + 3 y] = rot (A[x, y])\<close>, written with the inverse of the map on coordinates.\<close>

definition ref_rho_pi :: "plane \<Rightarrow> plane" where
  "ref_rho_pi A x y = word_rotl (rho_offset ((x + 3 * y) mod 5) x) (A ((x + 3 * y) mod 5) x)"

definition ref_chi :: "plane \<Rightarrow> plane" where
  "ref_chi A x y = A x y XOR (NOT (A ((x + 1) mod 5) y) AND A ((x + 2) mod 5) y)"

text \<open>The round constants come from the shift register of \<open>x^8 + x^6 + x^5 + x^4 + 1\<close>.\<close>

definition lfsr_step :: "u8 \<Rightarrow> u8" where
  "lfsr_step r = (if bit r 7 then push_bit 1 r XOR 0x71 else push_bit 1 r)"

definition ref_rc :: "nat \<Rightarrow> u64" where
  "ref_rc ir = fold (\<lambda>j w. if bit ((lfsr_step ^^ (j + 7 * ir)) 1) 0 then w OR push_bit (2 ^ j - 1) 1 else w) [0..<7] 0"

definition ref_iota :: "nat \<Rightarrow> plane \<Rightarrow> plane" where
  "ref_iota ir A x y = (if x = 0 \<and> y = 0 then A 0 0 XOR ref_rc ir else A x y)"

definition ref_keccakf :: "plane \<Rightarrow> nat \<Rightarrow> plane" where
  "ref_keccakf A rounds = fold (\<lambda>ir A. ref_iota ir (ref_chi (ref_rho_pi (ref_theta A)))) [0..<rounds] A"

definition plane_of :: "lanes \<Rightarrow> plane" where
  "plane_of st x y = st ! (x + 5 * y)"

section \<open>The code computes the reference\<close>

lemma word_rotl_0: "word_rotl 0 x = x"
  by (rule bit_word_eqI) (simp add: bit_word_rotl_iff)

lemma rotl64_rotl: "y < 64 \<Longrightarrow> rotl64 x y = word_rotl y x"
  using shifts_rotl [of y x] by (cases "y = 0") (simp_all add: rotl64_def word_rotl_0)

lemma length_25:
  assumes "length (st :: lanes) = 25"
  obtains a0 a1 a2 a3 a4 a5 a6 a7 a8 a9 a10 a11 a12 a13 a14 a15 a16 a17 a18 a19 a20 a21 a22 a23 a24
    where "st = [a0, a1, a2, a3, a4, a5, a6, a7, a8, a9, a10, a11, a12, a13, a14, a15, a16, a17, a18, a19, a20, a21, a22, a23, a24]"
  using assms by (auto simp: numeral_eq_Suc length_Suc_conv)

lemma upt_small: "[0..<5] = [0, 1, 2, 3, 4]"
  "[0..<24] = [0, 1, 2, 3, 4, 5, 6, 7, 8, 9, 10, 11, 12, 13, 14, 15, 16, 17, 18, 19, 20, 21, 22, 23]"
  by (simp_all add: upt_rec)

lemma all_less_5: "(\<forall>x<5. P (x :: nat)) \<longleftrightarrow> P 0 \<and> P 1 \<and> P 2 \<and> P 3 \<and> P 4"
  by (auto simp: numeral_eq_Suc less_Suc_eq)

lemma theta_fold:
  assumes "length st = 25"
  shows "\<forall>x<5. \<forall>y<5. plane_of (fold (\<lambda>i. fold (\<lambda>j st. st[j + i := st ! (j + i) XOR d i]) [0, 5, 10, 15, 20]) [0..<5] st) x y
    = plane_of st x y XOR d x"
  by (rule length_25 [OF assms]) (simp add: all_less_5 plane_of_def upt_small)

lemma keccakf_theta_ref:
  assumes "length st = 25"
  shows "\<forall>x<5. \<forall>y<5. plane_of (keccakf_theta st) x y = ref_theta (plane_of st) x y"
proof (intro allI impI)
  fix x y :: nat
  assume "x < 5" "y < 5"
  then show "plane_of (keccakf_theta st) x y = ref_theta (plane_of st) x y"
    unfolding keccakf_theta_def ref_theta_def Let_def
    by (simp only: theta_fold [OF assms, rule_format]) (simp add: plane_of_def rotl64_rotl add.commute)
qed

lemma keccakf_chi_ref:
  assumes "length st = 25"
  shows "\<forall>x<5. \<forall>y<5. plane_of (keccakf_chi st) x y = ref_chi (plane_of st) x y"
  by (rule length_25 [OF assms])
    (simp add: all_less_5 plane_of_def keccakf_chi_def ref_chi_def upt_small)

lemma rho_offsets:
  "\<forall>x<5. \<forall>y<5. rho_offset x y = [0, 1, 62, 28, 27, 36, 44, 6, 55, 20, 3, 10, 43, 25, 39, 41, 45, 15, 21, 8, 18, 2, 61, 56, 14] ! (x + 5 * y)"
  by code_simp

lemma keccakf_rho_pi_ref:
  assumes "length st = 25"
  shows "\<forall>x<5. \<forall>y<5. plane_of (keccakf_rho_pi st) x y = ref_rho_pi (plane_of st) x y"
  by (rule length_25 [OF assms])
    (use rho_offsets in \<open>simp add: all_less_5 plane_of_def keccakf_rho_pi_def ref_rho_pi_def upt_small keccakf_piln_def keccakf_rotc_def rotl64_rotl word_rotl_0\<close>)

text \<open>The register is run once for all 168 constants bits.\<close>

fun lfsr_states :: "nat \<Rightarrow> u8 \<Rightarrow> u8 list" where
  "lfsr_states 0 r = []"
| "lfsr_states (Suc n) r = r # lfsr_states n (lfsr_step r)"

lemma lfsr_states_nth: "k < n \<Longrightarrow> lfsr_states n r ! k = (lfsr_step ^^ k) r"
  by (induction n arbitrary: k r) (simp_all add: nth_Cons funpow_swap1 split: nat.split)

definition rc_of :: "bool list \<Rightarrow> nat \<Rightarrow> u64" where
  "rc_of bs ir = fold (\<lambda>j w. if bs ! (j + 7 * ir) then w OR push_bit (2 ^ j - 1) 1 else w) [0..<7] 0"

lemma rc_of_ref: "ir < 24 \<Longrightarrow> ref_rc ir = rc_of (map (\<lambda>r. bit r 0) (lfsr_states 168 1)) ir"
proof -
  have l: "length (lfsr_states n r) = n" for n r by (induction n arbitrary: r) simp_all
  assume "ir < 24"
  then show ?thesis unfolding ref_rc_def rc_of_def
    by (intro fold_cong refl) (simp_all add: l lfsr_states_nth)
qed

lemma rndc_of:
  assumes "map f [0..<24] = keccakf_rndc"
  shows "\<forall>ir<24. keccakf_rndc ! ir = f ir"
  unfolding assms [symmetric] by simp

lemma keccakf_rndc_ref: "\<forall>ir<24. keccakf_rndc ! ir = ref_rc ir"
proof -
  let ?bs = "[True, False, False, False, False, False, False, False, True, False, True, True, False, False,
      False, True, True, True, True, False, True, False, False, False, False, True, True, True, True,
      True, True, True, True, False, False, True, False, False, False, False, True, False, True, False,
      False, True, True, True, True, True, False, True, False, True, False, True, False, True, True, True,
      False, False, False, False, False, True, True, False, False, False, True, False, True, False, True,
      True, False, False, True, True, False, False, True, False, True, True, True, True, True, True,
      False, True, True, True, True, False, False, True, True, False, True, True, True, False, True, True,
      True, False, False, True, False, True, False, True, False, False, True, False, True, False, False,
      False, True, False, False, True, False, True, True, False, True, False, False, False, True, True,
      False, False, True, True, True, False, False, True, True, True, True, False, False, False, True,
      True, False, True, True, False, False, False, False, True, False, False, False, True, False, True,
      True, True]"
  have "map (\<lambda>r. bit r 0) (lfsr_states 168 1) = ?bs" by code_simp
  moreover have "map (rc_of ?bs) [0..<24] = keccakf_rndc"
    by (simp add: rc_of_def upt_rec keccakf_rndc_def)
  then have "\<forall>ir<24. keccakf_rndc ! ir = rc_of ?bs ir" by (rule rndc_of)
  ultimately show ?thesis using rc_of_ref by simp
qed

lemma length_keccakf_steps [simp]:
  "length (keccakf_theta st) = length st" "length (keccakf_rho_pi st) = length st"
  "length (keccakf_chi st) = length st" "length (keccakf_iota r st) = length st"
proof -
  have upd: "length (fold (\<lambda>i st. st[f i := g i st]) xs st) = length st" for f :: "'b \<Rightarrow> nat" and g :: "'b \<Rightarrow> lanes \<Rightarrow> u64" and xs st
    by (induction xs arbitrary: st) simp_all
  have outer: "(\<And>i st. length (h i st) = length (st :: lanes)) \<Longrightarrow> length (fold h xs st) = length st" for h :: "'b \<Rightarrow> lanes \<Rightarrow> lanes" and xs st
    by (induction xs arbitrary: st) simp_all
  show "length (keccakf_theta st) = length st" "length (keccakf_chi st) = length st"
    unfolding keccakf_theta_def keccakf_chi_def Let_def by (intro outer upd)+
  have "length (snd (fold (\<lambda>i (t, st). let j = keccakf_piln ! i; bc0 = st ! j in (bc0, st[j := rotl64 t (keccakf_rotc ! i)])) xs (t, st))) = length st" for xs t st
    by (induction xs arbitrary: t st) (simp_all add: Let_def)
  then show "length (keccakf_rho_pi st) = length st" by (simp only: keccakf_rho_pi_def)
  show "length (keccakf_iota r st) = length st" by (simp add: keccakf_iota_def)
qed

lemma length_keccakf [simp]: "length (keccakf st rounds) = length st"
  unfolding keccakf_def by (induction rounds) simp_all

text \<open>Agreement on the 25 coordinates, and that every step of the reference respects it.\<close>

definition plane_eq :: "plane \<Rightarrow> plane \<Rightarrow> bool" where
  "plane_eq A B \<longleftrightarrow> (\<forall>x<5. \<forall>y<5. A x y = B x y)"

lemma plane_eqI: "(\<And>x y. x < 5 \<Longrightarrow> y < 5 \<Longrightarrow> A x y = B x y) \<Longrightarrow> plane_eq A B"
  by (simp add: plane_eq_def)

lemma plane_eqD: "plane_eq A B \<Longrightarrow> x < 5 \<Longrightarrow> y < 5 \<Longrightarrow> A x y = B x y"
  by (simp add: plane_eq_def)

lemma plane_eq_trans: "plane_eq A B \<Longrightarrow> plane_eq B C \<Longrightarrow> plane_eq A C"
  by (simp add: plane_eq_def)

lemma plane_eq_steps:
  assumes "plane_eq A B"
  shows "plane_eq (ref_theta A) (ref_theta B)" "plane_eq (ref_rho_pi A) (ref_rho_pi B)"
    "plane_eq (ref_chi A) (ref_chi B)" "plane_eq (ref_iota r A) (ref_iota r B)"
  using plane_eqD [OF assms]
  by (intro plane_eqI; simp add: ref_theta_def ref_rho_pi_def ref_chi_def ref_iota_def Let_def)+

lemma keccakf_iota_ref:
  assumes "length st = 25" and "r < 24"
  shows "plane_eq (plane_of (keccakf_iota r st)) (ref_iota r (plane_of st))"
  using keccakf_rndc_ref assms by (auto simp: plane_eq_def plane_of_def keccakf_iota_def ref_iota_def)

lemma keccakf_round_ref:
  assumes "length st = 25" and "r < 24" and "plane_eq (plane_of st) A"
  shows "plane_eq (plane_of (keccakf_iota r (keccakf_chi (keccakf_rho_pi (keccakf_theta st)))))
    (ref_iota r (ref_chi (ref_rho_pi (ref_theta A))))"
proof -
  have "plane_eq (plane_of (keccakf_theta st)) (ref_theta A)"
    using keccakf_theta_ref [OF assms(1), folded plane_eq_def] plane_eq_steps(1) [OF assms(3)] by (rule plane_eq_trans)
  then have "plane_eq (plane_of (keccakf_rho_pi (keccakf_theta st))) (ref_rho_pi (ref_theta A))"
    using keccakf_rho_pi_ref [of "keccakf_theta st", folded plane_eq_def] plane_eq_steps(2) assms(1) plane_eq_trans by fastforce
  then have "plane_eq (plane_of (keccakf_chi (keccakf_rho_pi (keccakf_theta st)))) (ref_chi (ref_rho_pi (ref_theta A)))"
    using keccakf_chi_ref [of "keccakf_rho_pi (keccakf_theta st)", folded plane_eq_def] plane_eq_steps(3) assms(1) plane_eq_trans by fastforce
  then show ?thesis
    using keccakf_iota_ref [of "keccakf_chi (keccakf_rho_pi (keccakf_theta st))" r] plane_eq_steps(4) assms(1,2) plane_eq_trans by fastforce
qed

lemma keccakf_ref:
  assumes "length st = 25" and "rounds \<le> 24"
  shows "plane_eq (plane_of (keccakf st rounds)) (ref_keccakf (plane_of st) rounds)"
  using assms(2)
proof (induction rounds)
  case 0
  then show ?case by (simp add: keccakf_def ref_keccakf_def plane_eq_def)
next
  case (Suc n)
  have "length (keccakf st n) = 25" using assms(1) by simp
  from keccakf_round_ref [OF this _ Suc.IH, of n] Suc.prems show ?case
    by (simp add: keccakf_def ref_keccakf_def)
qed

section \<open>The permutation is injective\<close>

text \<open>
  The kernel of theta on the parities of the columns: squaring the relation six times removes
  the rotation, and what is left has the periods 3 and 5 along a row.
\<close>

lemma theta_kernel:
  fixes e :: "int \<Rightarrow> int \<Rightarrow> bool"
  assumes rec: "\<And>x z. e x z \<longleftrightarrow> e (x - 1) z \<noteq> e (x + 1) (z - 1)"
    and per5: "\<And>x z. e (x + 5) z = e x z" and per64: "\<And>x z. e x (z + 64) = e x z"
  shows "\<not> e x z"
proof -
  have double: "e x z \<longleftrightarrow> e (x - 2 ^ k) z \<noteq> e (x + 2 ^ k) (z - 2 ^ k)" for k x z
  proof (induction k arbitrary: x z)
    case 0
    then show ?case using rec [of x z] by simp
  next
    case (Suc k)
    show ?case
      using Suc.IH [of x z] Suc.IH [of "x - 2 ^ k" z] Suc.IH [of "x + 2 ^ k" "z - 2 ^ k"]
      by (auto simp: algebra_simps)
  qed
  have p5: "e (x + 5 * of_nat n) z = e x z" for n x z
  proof (induction n)
    case (Suc n)
    then show ?case using per5 [of "x + 5 * int n" z] by (simp add: algebra_simps)
  qed simp
  have r: "e x z \<longleftrightarrow> e (x + 1) z \<noteq> e (x - 1) z" for x z
    using double [of x z 6] p5 [of "x - 64" 13 z] p5 [of "x - 1" 13 z] per64 [of "x + 64" "z - 64"] by (simp add: algebra_simps)
  have p3: "e (x + 3) z = e x z" for x
    using r [of "x + 1" z] r [of "x + 2" z] by (auto simp: algebra_simps)
  have p1: "e (x + 1) z = e x z" for x
    using p3 [of "x + 3"] p3 [of x] per5 [of "x + 1" z] by (simp add: algebra_simps)
  show ?thesis using r [of x z] p1 [of x] p1 [of "x - 1"] by simp
qed


lemma bit_rotl_1: "bit (word_rotl 1 (w :: u64)) n \<longleftrightarrow> n < 64 \<and> bit w ((n + 63) mod 64)"
  by (simp add: bit_word_rotl_iff)

lemma xor_cancel: "a XOR c = b XOR c \<Longrightarrow> a = (b :: u64)"
proof -
  assume "a XOR c = b XOR c"
  then have "(a XOR c) XOR c = (b XOR c) XOR c" by (simp only:)
  then show "a = b" by (simp add: xor.assoc)
qed

definition parity :: "plane \<Rightarrow> nat \<Rightarrow> u64" where
  "parity A x = A x 0 XOR A x 1 XOR A x 2 XOR A x 3 XOR A x 4"

lemma ref_theta_parity:
  "ref_theta A x y = A x y XOR (parity A ((x + 4) mod 5) XOR word_rotl 1 (parity A ((x + 1) mod 5)))"
  by (simp add: ref_theta_def parity_def Let_def)

lemma xor_five: "(a XOR d) XOR (b XOR d) XOR (c XOR d) XOR (e XOR d) XOR (f XOR d) = (a XOR b XOR c XOR e XOR f) XOR (d :: u64)"
  by (rule bit_word_eqI) (auto simp: bit_simps)

lemma parity_theta: "parity (ref_theta A) x = parity A x XOR (parity A ((x + 4) mod 5) XOR word_rotl 1 (parity A ((x + 1) mod 5)))"
  unfolding parity_def [of "ref_theta A"] ref_theta_parity xor_five by (simp only: parity_def)

lemma nat_mod_shift: "0 < m \<Longrightarrow> nat ((x + int k) mod int m) = (nat (x mod int m) + k) mod m"
proof -
  assume "0 < m"
  then have "int ((nat (x mod int m) + k) mod m) = (x + int k) mod int m"
    by (simp add: zmod_int mod_add_left_eq)
  then show ?thesis by (metis nat_int)
qed

lemma nat_mod_add:
  "nat ((x + 1) mod 5) = (nat (x mod 5) + 1) mod 5" "nat ((x - 1) mod 5) = (nat (x mod 5) + 4) mod 5"
  "nat ((z - 1) mod 64) = (nat (z mod 64) + 63) mod 64"
proof -
  have m: "(x - 1) mod 5 = (x + 4) mod 5" "(z - 1) mod 64 = (z + 63) mod 64"
    using mod_add_self2 [of "x - 1" 5] mod_add_self2 [of "z - 1" 64] by (simp_all add: add.commute)
  show "nat ((x + 1) mod 5) = (nat (x mod 5) + 1) mod 5" using nat_mod_shift [of 5 x 1] by simp
  show "nat ((x - 1) mod 5) = (nat (x mod 5) + 4) mod 5" unfolding m(1) using nat_mod_shift [of 5 x 4] by simp
  show "nat ((z - 1) mod 64) = (nat (z mod 64) + 63) mod 64" unfolding m(2) using nat_mod_shift [of 64 z 63] by simp
qed

lemma theta_inj:
  assumes "plane_eq (ref_theta A) (ref_theta B)"
  shows "plane_eq A B"
proof -
  define E where "E x = parity A x XOR parity B x" for x
  define e where "e x z = bit (E (nat (x mod 5))) (nat (z mod 64))" for x z :: int
  have E: "E x = E ((x + 4) mod 5) XOR word_rotl 1 (E ((x + 1) mod 5))" if "x < 5" for x
  proof (rule bit_word_eqI)
    fix n assume "n < LENGTH(64)"
    have "parity (ref_theta A) x = parity (ref_theta B) x"
      using that plane_eqD [OF assms] by (simp add: parity_def [of "ref_theta A"] parity_def [of "ref_theta B"])
    then have "bit (parity (ref_theta A) x) n = bit (parity (ref_theta B) x) n" by simp
    then show "bit (E x) n = bit (E ((x + 4) mod 5) XOR word_rotl 1 (E ((x + 1) mod 5))) n"
      unfolding parity_theta E_def bit_xor_iff bit_rotl_1 by blast
  qed
  have "e x z \<longleftrightarrow> e (x - 1) z \<noteq> e (x + 1) (z - 1)" for x z
  proof -
    have "nat (z mod 64) < 64" by (simp add: nat_less_iff)
    then show ?thesis
      unfolding e_def nat_mod_add by (subst E) (simp_all add: nat_less_iff bit_xor_iff bit_rotl_1 [unfolded One_nat_def])
  qed
  then have ne: "\<not> e x z" for x z by (rule theta_kernel) (simp_all add: e_def)
  have 0: "E x = 0" if "x < 5" for x
  proof (rule bit_word_eqI)
    fix n assume "n < LENGTH(64)"
    then show "bit (E x) n = bit 0 n" using ne [of "int x" "int n"] that by (simp add: e_def flip: zmod_int)
  qed
  show ?thesis
  proof (rule plane_eqI)
    fix x y :: nat assume xy: "x < 5" "y < 5"
    have "parity A x = parity B x" if "x < 5" for x using 0 [OF that] xor_cancel [of "parity A x" "parity B x" "parity B x"] by (simp add: E_def)
    then have "parity A ((x + 4) mod 5) = parity B ((x + 4) mod 5)" "parity A ((x + 1) mod 5) = parity B ((x + 1) mod 5)"
      by simp_all
    then show "A x y = B x y" using plane_eqD [OF assms xy] xor_cancel unfolding ref_theta_parity by metis
  qed
qed


lemma rho_pi_inj:
  assumes "plane_eq (ref_rho_pi A) (ref_rho_pi B)"
  shows "plane_eq A B"
proof (rule plane_eqI)
  fix x y :: nat
  assume xy: "x < 5" "y < 5"
  let ?y = "(2 * x + 3 * y) mod 5"
  have "(y + 3 * ?y) mod 5 = (y + 3 * (2 * x + 3 * y)) mod 5"
    by (metis mod_add_right_eq mod_mult_right_eq)
  also have "y + 3 * (2 * x + 3 * y) = x + 5 * (x + 2 * y)" by simp
  finally have "(y + 3 * ?y) mod 5 = (x + 5 * (x + 2 * y)) mod 5" .
  then have "(y + 3 * ?y) mod 5 = x" using xy(1) by (simp only: mod_mult_self2 mod_less)
  moreover have "ref_rho_pi A y ?y = ref_rho_pi B y ?y" using xy by (intro plane_eqD [OF assms]) simp_all
  ultimately show "A x y = B x y" unfolding ref_rho_pi_def by (metis word_rot_lr)
qed

lemma bit_word_eq_iff: "(a :: u64) = b \<longleftrightarrow> (\<forall>n<64. bit a n = bit b n)"
  by (auto intro: bit_word_eqI)

lemma chi_bits:
  fixes a b c d e a' b' c' d' e' :: bool
  assumes "(a \<noteq> (\<not> b \<and> c)) = (a' \<noteq> (\<not> b' \<and> c'))" "(b \<noteq> (\<not> c \<and> d)) = (b' \<noteq> (\<not> c' \<and> d'))"
    "(c \<noteq> (\<not> d \<and> e)) = (c' \<noteq> (\<not> d' \<and> e'))" "(d \<noteq> (\<not> e \<and> a)) = (d' \<noteq> (\<not> e' \<and> a'))"
    "(e \<noteq> (\<not> a \<and> b)) = (e' \<noteq> (\<not> a' \<and> b'))"
  shows "a = a' \<and> b = b' \<and> c = c' \<and> d = d' \<and> e = e'"
  using assms by argo

lemma chi_inj:
  assumes "plane_eq (ref_chi A) (ref_chi B)"
  shows "plane_eq A B"
proof -
  have "\<forall>x<5. A x y = B x y" if "y < 5" for y
  proof -
    have c: "ref_chi A x y = ref_chi B x y" if "x < 5" for x using plane_eqD [OF assms that \<open>y < 5\<close>] .
    have "bit (A 0 y) n = bit (B 0 y) n \<and> bit (A 1 y) n = bit (B 1 y) n \<and> bit (A 2 y) n = bit (B 2 y) n
        \<and> bit (A 3 y) n = bit (B 3 y) n \<and> bit (A 4 y) n = bit (B 4 y) n" if "n < 64" for n
    proof -
      have b: "bit (ref_chi A x y) n = (bit (A x y) n \<noteq> (\<not> bit (A i y) n \<and> bit (A j y) n))"
        if "(x + 1) mod 5 = i" "(x + 2) mod 5 = j" for A x i j
        using that \<open>n < 64\<close> by (auto simp: ref_chi_def bit_simps)
      have e: "(bit (A x y) n \<noteq> (\<not> bit (A i y) n \<and> bit (A j y) n)) = (bit (B x y) n \<noteq> (\<not> bit (B i y) n \<and> bit (B j y) n))"
        if "x < 5" "(x + 1) mod 5 = i" "(x + 2) mod 5 = j" for x i j
        using c [OF that(1)] b [OF that(2,3)] by metis
      show ?thesis by (rule chi_bits) (rule e; simp)+
    qed
    then show ?thesis by (simp add: all_less_5 bit_word_eq_iff)
  qed
  then show ?thesis by (simp add: plane_eq_def)
qed

lemma iota_inj: "plane_eq (ref_iota r A) (ref_iota r B) \<Longrightarrow> plane_eq A B"
  unfolding plane_eq_def ref_iota_def by (metis xor_cancel)

lemma ref_keccakf_inj: "plane_eq (ref_keccakf A n) (ref_keccakf B n) \<Longrightarrow> plane_eq A B"
proof (induction n)
  case (Suc n)
  then show ?case by (auto simp: ref_keccakf_def dest: iota_inj chi_inj rho_pi_inj theta_inj)
qed (simp add: ref_keccakf_def)

lemma lanes_eqI:
  assumes "length st = 25" and "length st' = 25" and "plane_eq (plane_of st) (plane_of st')"
  shows "st = st'"
proof (rule nth_equalityI)
  fix k assume "k < length st"
  then have "k mod 5 < 5" "k div 5 < 5" "k = k mod 5 + 5 * (k div 5)" using assms(1) by (simp_all add: div_less_iff_less_mult)
  then show "st ! k = st' ! k" using plane_eqD [OF assms(3), of "k mod 5" "k div 5"] by (simp add: plane_of_def)
qed (simp add: assms)

lemma plane_eq_sym: "plane_eq A B \<Longrightarrow> plane_eq B A"
  by (simp add: plane_eq_def)

lemma keccakf_inj:
  assumes "length st = 25" and "length st' = 25" and "n \<le> 24" and "keccakf st n = keccakf st' n"
  shows "st = st'"
proof (rule lanes_eqI [OF assms(1,2)])
  have "plane_eq (ref_keccakf (plane_of st) n) (ref_keccakf (plane_of st') n)"
    using keccakf_ref [OF assms(1,3)] keccakf_ref [OF assms(2,3)] assms(4) plane_eq_sym plane_eq_trans by metis
  then show "plane_eq (plane_of st) (plane_of st')" by (rule ref_keccakf_inj)
qed

end
