(* ===== verification/Hash.thy ===== *)
theory Hash
  imports Keccak
begin

text \<open>
  The hash of \<open>keccak.c\<close> and \<open>hash.c\<close> on byte strings.  Memory is read as little-endian words, as
  on every platform the program supports.
\<close>

section \<open>Words in memory\<close>

definition load64 :: "bytes \<Rightarrow> u64" where
  "load64 bs = word_of_int (le_val (take 8 bs))"

definition store64 :: "u64 \<Rightarrow> bytes" where
  "store64 w = le_bytes 8 (uint w)"

text \<open>The bytes of an array of words, and the words of an array of bytes.\<close>

definition bytes_of_lanes :: "lanes \<Rightarrow> bytes" where
  "bytes_of_lanes st = concat (map store64 st)"

definition lane_at :: "bytes \<Rightarrow> nat \<Rightarrow> u64" where
  "lane_at bs i = load64 (drop (8 * i) bs)"

section \<open>The sponge\<close>

definition HASH_SIZE :: nat where
  "HASH_SIZE = 32"

definition HASH_DATA_AREA :: nat where
  "HASH_DATA_AREA = 136"

definition KECCAK_ROUNDS :: nat where
  "KECCAK_ROUNDS = 24"

text \<open>\<open>for (i = 0; i < rsizw; i++) st[i] ^= ((uint64_t *) in)[i]\<close>\<close>

definition keccak_xor_block :: "nat \<Rightarrow> bytes \<Rightarrow> lanes \<Rightarrow> lanes" where
  "keccak_xor_block rsizw block st = fold (\<lambda>i st. st[i := st ! i XOR lane_at block i]) [0..<rsizw] st"

text \<open>The loop over the full blocks returns the state and the rest of the input.\<close>

function keccak_absorb :: "nat \<Rightarrow> bytes \<Rightarrow> lanes \<Rightarrow> lanes \<times> bytes" where
  "keccak_absorb rsiz input st =
     (if 0 < rsiz \<and> rsiz \<le> length input
      then keccak_absorb rsiz (drop rsiz input) (keccakf (keccak_xor_block (rsiz div 8) input st) KECCAK_ROUNDS)
      else (st, input))"
  by auto

termination
  by (relation "measure (\<lambda>(rsiz, input, st). length input)") auto

declare keccak_absorb.simps [simp del]

text \<open>The last block in \<open>temp\<close>: the rest of the input, the byte 1, zeros, and the top bit of the last byte.\<close>

definition keccak_last_block :: "nat \<Rightarrow> bytes \<Rightarrow> bytes" where
  "keccak_last_block rsiz input =
     (let temp = input @ [1] @ replicate (rsiz - (length input + 1)) 0
      in temp[rsiz - 1 := temp ! (rsiz - 1) OR 0x80])"

text \<open>
  \<open>keccak\<close> takes the length as an \<open>int\<close>.  \<open>None\<close> stands for undefined behaviour: a negative length,
  for which \<open>memcpy\<close> is called with a huge size, or a rate that does not fit \<open>temp[144]\<close>.
\<close>

definition keccak :: "bytes \<Rightarrow> i32 \<Rightarrow> nat \<Rightarrow> bytes option" where
  "keccak input inlen mdlen =
     (let rsiz = (if mdlen = 200 then HASH_DATA_AREA else 200 - 2 * mdlen);
          rsizw = rsiz div 8;
          st = replicate 25 0
      in if sint inlen < 0 \<or> rsiz = 0 \<or> 144 < rsiz then None
         else let (st, rest) = keccak_absorb rsiz (take (nat (sint inlen)) input) st;
                  temp = keccak_last_block rsiz rest;
                  st = keccak_xor_block rsizw temp st;
                  st = keccakf st KECCAK_ROUNDS
              in Some (take mdlen (bytes_of_lanes st)))"

definition keccak1600 :: "bytes \<Rightarrow> i32 \<Rightarrow> bytes option" where
  "keccak1600 input inlen = keccak input inlen 200"

section \<open>hash.c\<close>

definition hash_permutation :: "lanes \<Rightarrow> lanes" where
  "hash_permutation state = keccakf state 24"

text \<open>The length is a \<open>size_t\<close> that is cast to \<open>int\<close>.\<close>

definition hash_process :: "bytes \<Rightarrow> u64 \<Rightarrow> bytes option" where
  "hash_process buf count = keccak1600 buf (ucast count)"

definition cn_fast_hash_n :: "bytes \<Rightarrow> u64 \<Rightarrow> bytes option" where
  "cn_fast_hash_n data len = map_option (take HASH_SIZE) (hash_process data len)"

text \<open>The hash of a whole buffer, as the callers use it.\<close>

definition cn_fast_hash :: "bytes \<Rightarrow> bytes option" where
  "cn_fast_hash data = cn_fast_hash_n data (of_nat (length data))"

section \<open>The reference: absorbing the padded message\<close>

text \<open>The padding: a one bit, zeros and a one bit up to the end of the last block.\<close>

definition pad10_1 :: "nat \<Rightarrow> nat \<Rightarrow> bytes" where
  "pad10_1 rsiz n =
     (let k = rsiz - n mod rsiz in if k = 1 then [0x81] else [1] @ replicate (k - 2) 0 @ [0x80])"

function chunks :: "nat \<Rightarrow> 'a list \<Rightarrow> 'a list list" where
  "chunks n xs = (if 0 < n \<and> n \<le> length xs then take n xs # chunks n (drop n xs) else [])"
  by auto

termination
  by (relation "measure (\<lambda>(n, xs). length xs)") auto

declare chunks.simps [simp del]

definition absorb_block :: "bytes \<Rightarrow> lanes \<Rightarrow> lanes" where
  "absorb_block block st =
     keccakf (map (\<lambda>i. if i < length block div 8 then st ! i XOR lane_at block i else st ! i) [0..<25]) 24"

definition ref_sponge :: "nat \<Rightarrow> bytes \<Rightarrow> lanes" where
  "ref_sponge rsiz msg = fold absorb_block (chunks rsiz (msg @ pad10_1 rsiz (length msg))) (replicate 25 0)"

section \<open>The code computes the reference\<close>

lemma keccak_xor_block_nth:
  assumes "rsizw \<le> length st"
  shows "length (keccak_xor_block rsizw block st) = length st
    \<and> (\<forall>i<length st. keccak_xor_block rsizw block st ! i = (if i < rsizw then st ! i XOR lane_at block i else st ! i))"
  using assms unfolding keccak_xor_block_def
  by (induction rsizw) (auto simp: nth_list_update less_Suc_eq)

lemma lane_at_take: "8 * i + 8 \<le> n \<Longrightarrow> lane_at (take n bs) i = lane_at bs i"
  by (simp add: lane_at_def load64_def drop_take min_def)

lemma absorb_block_code:
  assumes "length st = 25" and "rsiz \<le> length block" and "rsiz div 8 \<le> 25"
  shows "keccakf (keccak_xor_block (rsiz div 8) block st) KECCAK_ROUNDS = absorb_block (take rsiz block) st"
proof -
  have "8 * i + 8 \<le> rsiz" if "i < rsiz div 8" for i using that by linarith
  then have "keccak_xor_block (rsiz div 8) block st
      = map (\<lambda>i. if i < length (take rsiz block) div 8 then st ! i XOR lane_at (take rsiz block) i else st ! i) [0..<25]"
    using keccak_xor_block_nth [of "rsiz div 8" st block] assms
    by (intro nth_equalityI) (simp_all add: lane_at_take min_absorb2)
  then show ?thesis by (simp add: absorb_block_def KECCAK_ROUNDS_def)
qed

lemma length_absorb_block [simp]: "length (absorb_block block st) = 25"
  by (simp add: absorb_block_def)

lemma length_keccak_last_block: "length rest < rsiz \<Longrightarrow> length (keccak_last_block rsiz rest) = rsiz"
  by (simp add: keccak_last_block_def Let_def)

lemma keccak_last_block_pad:
  assumes "length rest < rsiz"
  shows "keccak_last_block rsiz rest = rest @ pad10_1 rsiz (length rest)"
proof (cases "rsiz - length rest = 1")
  case True
  then have "rsiz = Suc (length rest)" using assms by simp
  then show ?thesis by (simp add: keccak_last_block_def pad10_1_def Let_def)
next
  case False
  define k where "k = rsiz - length rest - 2"
  have r: "rsiz = length rest + 2 + k" using False assms by (simp add: k_def)
  have "replicate (Suc k) (0 :: u8) = replicate k 0 @ [0]" by (simp add: replicate_append_same)
  then have "rest @ [1] @ replicate (rsiz - (length rest + 1)) 0 = (rest @ [1] @ replicate k 0) @ [0 :: u8]"
    using r by (simp del: replicate_Suc)
  moreover have "rsiz - 1 = length (rest @ [1] @ replicate k (0 :: u8))" using r by simp
  ultimately have "keccak_last_block rsiz rest = (rest @ [1] @ replicate k 0) @ [0x80]"
    unfolding keccak_last_block_def Let_def by (simp only: list_update_length nth_append_length or.left_neutral)
  then show ?thesis using r by (simp add: pad10_1_def Let_def)
qed

lemma pad10_1_mod: "pad10_1 rsiz (rsiz + n) = pad10_1 rsiz n"
  by (simp add: pad10_1_def)

lemma keccak_absorb_sponge:
  assumes "length st = 25" and "0 < rsiz" and "rsiz div 8 \<le> 25"
    and "keccak_absorb rsiz input st = (st', rest)"
  shows "length rest < rsiz \<and> length st' = 25
    \<and> fold absorb_block (chunks rsiz (input @ pad10_1 rsiz (length input))) st
      = absorb_block (rest @ pad10_1 rsiz (length rest)) st'"
  using assms
proof (induction rsiz input st rule: keccak_absorb.induct)
  case (1 rsiz input st)
  show ?case
  proof (cases "rsiz \<le> length input")
    case True
    let ?st = "absorb_block (take rsiz input) st"
    have "keccak_absorb rsiz (drop rsiz input) ?st = (st', rest)"
      using 1(5) True 1(3) absorb_block_code [OF 1(2) True 1(4)] by (simp add: keccak_absorb.simps [of rsiz input st])
    then have ih: "length rest < rsiz \<and> length st' = 25
        \<and> fold absorb_block (chunks rsiz (drop rsiz input @ pad10_1 rsiz (length (drop rsiz input)))) ?st
          = absorb_block (rest @ pad10_1 rsiz (length rest)) st'"
      using 1(1) True 1(3,4) absorb_block_code [OF 1(2) True 1(4)] by simp
    have "pad10_1 rsiz (length input) = pad10_1 rsiz (length input - rsiz)"
      using pad10_1_mod [of rsiz "length input - rsiz"] True by simp
    then have "chunks rsiz (input @ pad10_1 rsiz (length input))
        = take rsiz input # chunks rsiz (drop rsiz input @ pad10_1 rsiz (length (drop rsiz input)))"
      using True 1(3) by (subst chunks.simps) simp
    then show ?thesis using ih by simp
  next
    case False
    then have e: "st' = st" "rest = input" using 1(5) by (simp_all add: keccak_absorb.simps [of rsiz input st])
    have "length (input @ pad10_1 rsiz (length input)) = rsiz"
      using length_keccak_last_block [of input rsiz] keccak_last_block_pad [of input rsiz] False by simp
    then have "chunks rsiz (input @ pad10_1 rsiz (length input)) = [input @ pad10_1 rsiz (length input)]"
      using 1(3) by (subst chunks.simps) (simp add: chunks.simps [of rsiz "[]"])
    then show ?thesis using False 1(2) e by simp
  qed
qed

lemma length_store64 [simp]: "length (store64 w) = 8"
  by (simp add: store64_def)

lemma length_bytes_of_lanes [simp]: "length (bytes_of_lanes st) = 8 * length st"
  by (induction st) (simp_all add: bytes_of_lanes_def)

lemma keccak_reference:
  assumes "0 \<le> sint inlen" and "nat (sint inlen) \<le> length input"
    and "rsiz = (if mdlen = 200 then 136 else 200 - 2 * mdlen)" and "0 < rsiz" and "rsiz \<le> 144"
  shows "keccak input inlen mdlen = Some (take mdlen (bytes_of_lanes (ref_sponge rsiz (take (nat (sint inlen)) input))))"
proof -
  let ?in = "take (nat (sint inlen)) input"
  obtain st rest where a: "keccak_absorb rsiz ?in (replicate 25 0) = (st, rest)" by fastforce
  have d: "rsiz div 8 \<le> 25" using assms(5) by simp
  note A = keccak_absorb_sponge [OF _ assms(4) d a]
  then have r: "length rest < rsiz" "length st = 25" by simp_all
  have "keccakf (keccak_xor_block (rsiz div 8) (keccak_last_block rsiz rest) st) KECCAK_ROUNDS = ref_sponge rsiz ?in"
    using absorb_block_code [OF r(2), of rsiz "keccak_last_block rsiz rest"] length_keccak_last_block [OF r(1)] d A
    by (simp add: keccak_last_block_pad [OF r(1)] ref_sponge_def)
  moreover have "(if mdlen = 200 then HASH_DATA_AREA else 200 - 2 * mdlen) = rsiz" by (simp add: assms(3) HASH_DATA_AREA_def)
  ultimately show ?thesis using assms(1,4,5) a by (simp add: keccak_def Let_def)
qed

lemma length_ref_sponge [simp]: "0 < rsiz \<Longrightarrow> length (ref_sponge rsiz msg) = 25"
proof -
  have "length (fold absorb_block bs st) = 25" if "length st = 25" for bs st
    using that by (induction bs arbitrary: st) simp_all
  then show ?thesis by (simp add: ref_sponge_def)
qed

lemma sint_of_length: "n < 2 ^ 31 \<Longrightarrow> sint (ucast (of_nat n :: u64) :: i32) = int n"
proof -
  assume n: "n < 2 ^ 31"
  have "(ucast (of_nat n :: u64) :: i32) = word_of_int (int n)"
    using n by (intro word_uint_eqI) (simp add: uint_word_of_int_eq unsigned_ucast_eq unsigned_of_nat take_bit_nat_eq_self_iff take_bit_int_eq_self)
  then show ?thesis using n sint_of_int_exact [of "int n", where 'a = 32] by (simp add: in_range_def)
qed

lemma cn_fast_hash_reference:
  assumes "length data < 2 ^ 31"
  shows "cn_fast_hash data = Some (take 32 (bytes_of_lanes (ref_sponge 136 data)))"
  using keccak_reference [of "ucast (of_nat (length data) :: u64)" data 136 200] sint_of_length [OF assms]
  by (simp add: cn_fast_hash_def cn_fast_hash_n_def hash_process_def keccak1600_def HASH_SIZE_def)

lemma length_keccak_xor_block [simp]: "length (keccak_xor_block n block st) = length st"
  unfolding keccak_xor_block_def by (induction n) simp_all

lemma length_keccak_absorb: "keccak_absorb rsiz input st = (st', rest) \<Longrightarrow> length st' = length st"
proof (induction rsiz input st rule: keccak_absorb.induct)
  case (1 rsiz input st)
  then show ?case by (subst (asm) (2) keccak_absorb.simps) (auto split: if_splits)
qed

lemma length_cn_fast_hash: "cn_fast_hash data = Some h \<Longrightarrow> length h = 32"
  using length_keccak_absorb
  by (fastforce simp: cn_fast_hash_def cn_fast_hash_n_def hash_process_def keccak1600_def keccak_def Let_def
      HASH_SIZE_def HASH_DATA_AREA_def split: if_splits prod.splits)

end
