(* ===== verification/RandomGen.thy ===== *)
theory RandomGen
  imports Hash "HOL-Library.Monad_Syntax"
begin

text \<open>
  The generator of \<open>random.c\<close>: a global state of 200 bytes that the permutation advances, and the
  variable \<open>curstate\<close> by which a build with assertions detects overlapping calls.  What the
  operating system answers to \<open>open\<close>, \<open>read\<close> and \<open>close\<close> on \<open>/dev/urandom\<close> is a parameter.
\<close>

section \<open>The random device\<close>

text \<open>
  The answers of the device: whether it opens, one entry per call of \<open>read\<close>, whether it closes.  A
  call that asks for \<open>n\<close> bytes gets at most \<open>n\<close> of those available; the empty answer is the end of
  the file.
\<close>

datatype read_answer = Read_some bytes | Read_eintr | Read_error

record urandom =
  opens :: bool
  reads :: "read_answer list"
  closes :: bool

text \<open>The loop around \<open>read\<close>; \<open>None\<close> is the exit of the process, or a call that gets no answer.\<close>

fun urandom_loop :: "nat \<Rightarrow> read_answer list \<Rightarrow> bytes option" where
  "urandom_loop n (Read_some bs # rs) =
     (let res = take n bs
      in if length res = n then Some res
         else if res = [] then None
         else do { rest \<leftarrow> urandom_loop (n - length res) rs; Some (res @ rest) })"
| "urandom_loop n (Read_eintr # rs) = urandom_loop n rs"
| "urandom_loop n (Read_error # rs) = None"
| "urandom_loop n [] = None"

definition generate_system_random_bytes :: "urandom \<Rightarrow> nat \<Rightarrow> bytes option" where
  "generate_system_random_bytes os n =
     (if \<not> opens os then None
      else do { result \<leftarrow> urandom_loop n (reads os);
                if \<not> closes os then None else Some result })"

section \<open>State and operations\<close>

record prng =
  rnd_state :: lanes
  curstate :: int
  initalized :: bool

definition prng_0 :: prng where
  "prng_0 = \<lparr>rnd_state = replicate 25 0, curstate = 0, initalized = False\<rparr>"

text \<open>The union \<open>hash_state\<close> read and written as bytes.\<close>

definition lanes_of_bytes :: "bytes \<Rightarrow> lanes" where
  "lanes_of_bytes bs = map (lane_at bs) [0..<25]"

definition poke :: "bytes \<Rightarrow> lanes \<Rightarrow> lanes" where
  "poke bs st = lanes_of_bytes (bs @ drop (length bs) (bytes_of_lanes st))"

text \<open>An assertion of a build without \<open>NDEBUG\<close>; \<open>None\<close> is the abort.\<close>

definition assert_cur :: "int \<Rightarrow> int \<Rightarrow> prng \<Rightarrow> prng option" where
  "assert_cur c c' p = (if curstate p = c then Some (p\<lparr>curstate := c'\<rparr>) else None)"

definition init_random :: "urandom \<Rightarrow> prng \<Rightarrow> prng option" where
  "init_random os p =
     do { sys \<leftarrow> generate_system_random_bytes os 32;
          let p = p\<lparr>rnd_state := poke sys (rnd_state p)\<rparr>;
          assert_cur 0 1 p }"

definition grant_random_initialize :: "urandom \<Rightarrow> prng \<Rightarrow> prng option" where
  "grant_random_initialize os p =
     (if \<not> initalized p
      then do { p \<leftarrow> init_random os p;
                Some (p\<lparr>initalized := True\<rparr>) }
      else Some p)"

definition random_prng_initialize_with_seed :: "urandom \<Rightarrow> u64 \<Rightarrow> prng \<Rightarrow> prng option" where
  "random_prng_initialize_with_seed os seed p =
     do { p \<leftarrow> grant_random_initialize os p;
          p \<leftarrow> assert_cur 1 3 p;
          let p = p\<lparr>rnd_state := replicate 25 0\<rparr>;
          let p = p\<lparr>rnd_state := poke (store64 seed) (rnd_state p)\<rparr>;
          let p = p\<lparr>rnd_state := (hash_permutation ^^ unat (seed AND 31)) (rnd_state p)\<rparr>;
          assert_cur 3 1 p }"

definition random_prng_get_state :: "urandom \<Rightarrow> nat \<Rightarrow> prng \<Rightarrow> (bytes \<times> prng) option" where
  "random_prng_get_state os buffer_size p =
     do { p \<leftarrow> grant_random_initialize os p;
          p \<leftarrow> assert_cur 1 4 p;
          if buffer_size \<noteq> 200 then None
          else do { let buffer = take buffer_size (bytes_of_lanes (rnd_state p));
                    p \<leftarrow> assert_cur 4 1 p;
                    Some (buffer, p) } }"

definition random_prng_set_state :: "urandom \<Rightarrow> bytes \<Rightarrow> nat \<Rightarrow> prng \<Rightarrow> prng option" where
  "random_prng_set_state os buffer buffer_size p =
     do { p \<leftarrow> grant_random_initialize os p;
          p \<leftarrow> assert_cur 1 5 p;
          if buffer_size \<noteq> 200 then None
          else do { let p = p\<lparr>rnd_state := poke (take buffer_size buffer) (rnd_state p)\<rparr>;
                    assert_cur 5 1 p } }"

text \<open>The loop of \<open>generate_random_bytes\<close>: a permutation for every 136 bytes of output.\<close>

function generate_random_loop :: "nat \<Rightarrow> lanes \<Rightarrow> bytes \<times> lanes" where
  "generate_random_loop n st =
     (let st = hash_permutation st
      in if n \<le> HASH_DATA_AREA then (take n (bytes_of_lanes st), st)
         else let (result, st') = generate_random_loop (n - HASH_DATA_AREA) st
              in (take HASH_DATA_AREA (bytes_of_lanes st) @ result, st'))"
  by auto

termination
  by (relation "measure fst") (auto simp: HASH_DATA_AREA_def)

declare generate_random_loop.simps [simp del]

definition generate_random_bytes :: "urandom \<Rightarrow> nat \<Rightarrow> prng \<Rightarrow> (bytes \<times> prng) option" where
  "generate_random_bytes os n p =
     do { p \<leftarrow> grant_random_initialize os p;
          p \<leftarrow> assert_cur 1 2 p;
          if n = 0 then do { p \<leftarrow> assert_cur 2 1 p; Some ([], p) }
          else do { let (result, st) = generate_random_loop n (rnd_state p);
                    p \<leftarrow> assert_cur 2 1 (p\<lparr>rnd_state := st\<rparr>);
                    Some (result, p) } }"

section \<open>The state as bytes\<close>

lemma take_concat_blocks:
  assumes "\<And>x. x \<in> set xs \<Longrightarrow> length (f x) = n" and "i < length xs"
  shows "take n (drop (n * i) (concat (map f xs) @ ys)) = f (xs ! i)"
  using assms
proof (induction xs arbitrary: i)
  case (Cons x xs)
  then show ?case by (cases i) simp_all
qed simp

lemma load_store64: "load64 (store64 w @ bs) = w"
  using uint_lt2p [of w] by (simp add: load64_def store64_def le_val_le_bytes)

lemma lanes_of_bytes_of_lanes: "length st = 25 \<Longrightarrow> lanes_of_bytes (bytes_of_lanes st) = st"
proof (rule nth_equalityI)
  fix i assume l: "length st = 25" and "i < length (lanes_of_bytes (bytes_of_lanes st))"
  then have i: "i < 25" by (simp add: lanes_of_bytes_def)
  have "take 8 (drop (8 * i) (bytes_of_lanes st)) = store64 (st ! i)"
    using take_concat_blocks [of st store64 8 i "[]"] i l by (simp add: bytes_of_lanes_def)
  then have "lane_at (bytes_of_lanes st) i = st ! i"
    using load_store64 [of "st ! i" "[]"] by (simp add: lane_at_def load64_def)
  then show "lanes_of_bytes (bytes_of_lanes st) ! i = st ! i" using i by (simp add: lanes_of_bytes_def)
qed (simp add: lanes_of_bytes_def)

lemma length_lanes_of_bytes [simp]: "length (lanes_of_bytes bs) = 25"
  by (simp add: lanes_of_bytes_def)

lemma length_poke [simp]: "length (poke bs st) = 25"
  by (simp add: poke_def)

lemma length_hash_permutation [simp]: "length (hash_permutation st) = length st"
  by (simp add: hash_permutation_def)

section \<open>The reference output\<close>

text \<open>Block \<open>k\<close> of the output is the rate part of the state after \<open>k + 1\<close> permutations.\<close>

definition ref_stream :: "lanes \<Rightarrow> nat \<Rightarrow> bytes" where
  "ref_stream st k = concat (map (\<lambda>j. take 136 (bytes_of_lanes ((hash_permutation ^^ Suc j) st))) [0..<k])"

lemma ref_stream_Suc: "ref_stream st (Suc k) = take 136 (bytes_of_lanes (hash_permutation st)) @ ref_stream (hash_permutation st) k"
proof -
  have "[0..<Suc k] = 0 # map Suc [0..<k]" by (simp add: upt_conv_Cons map_Suc_upt del: upt_Suc)
  then show ?thesis unfolding ref_stream_def by (simp add: funpow_swap1 comp_def del: upt_Suc)
qed

lemma generate_random_loop_stream:
  assumes "0 < n" and "length st = 25"
  shows "generate_random_loop n st = (take n (ref_stream st ((n + 135) div 136)), (hash_permutation ^^ ((n + 135) div 136)) st)"
  using assms
proof (induction n st rule: generate_random_loop.induct)
  case (1 n st)
  have l: "length (bytes_of_lanes (hash_permutation st)) = 200" using 1(3) by simp
  show ?case
  proof (cases "n \<le> 136")
    case True
    then have "(n + 135) div 136 = Suc 0" using 1(2) by (intro div_nat_eqI) simp_all
    moreover have "ref_stream (hash_permutation st) 0 = []" by (simp add: ref_stream_def)
    ultimately show ?thesis using True
      by (subst generate_random_loop.simps) (simp add: HASH_DATA_AREA_def ref_stream_Suc min_def Let_def)
  next
    case False
    define k where "k = (n - 136 + 135) div 136"
    have k: "(n + 135) div 136 = Suc k"
    proof -
      have "n + 135 = 136 + (n - 136 + 135)" using False by simp
      then show ?thesis unfolding k_def by (metis div_add_self1 Suc_eq_plus1 zero_neq_numeral)
    qed
    have "generate_random_loop (n - 136) (hash_permutation st) = (take (n - 136) (ref_stream (hash_permutation st) k), (hash_permutation ^^ k) (hash_permutation st))"
      using 1(1) [OF refl] 1(3) False unfolding HASH_DATA_AREA_def k_def by simp
    then show ?thesis using False l
      by (subst generate_random_loop.simps) (simp add: HASH_DATA_AREA_def ref_stream_Suc k funpow_swap1 Let_def)
  qed
qed

lemma length_ref_stream: "length st = 25 \<Longrightarrow> length (ref_stream st k) = 136 * k"
proof (induction k arbitrary: st)
  case (Suc k)
  then show ?case by (simp add: ref_stream_Suc)
qed (simp add: ref_stream_def)

section \<open>The invariant\<close>

text \<open>Between calls \<open>curstate\<close> is 1 once the generator is initialised and 0 before.\<close>

definition prng_ok :: "prng \<Rightarrow> bool" where
  "prng_ok p \<longleftrightarrow> length (rnd_state p) = 25 \<and> curstate p = (if initalized p then 1 else 0)"

text \<open>The state a call starts from: \<open>None\<close> when the device cannot supply the first 32 bytes.\<close>

definition granted :: "urandom \<Rightarrow> prng \<Rightarrow> lanes option" where
  "granted os p = (if initalized p then Some (rnd_state p)
     else map_option (\<lambda>sys. poke sys (rnd_state p)) (generate_system_random_bytes os 32))"

lemma length_granted: "granted os p = Some st \<Longrightarrow> prng_ok p \<Longrightarrow> length st = 25"
  by (auto simp: granted_def prng_ok_def split: if_splits)

definition ready :: "lanes \<Rightarrow> prng" where
  "ready st = \<lparr>rnd_state = st, curstate = 1, initalized = True\<rparr>"

lemma grant_ready: "prng_ok p \<Longrightarrow> grant_random_initialize os p = map_option ready (granted os p)"
  by (cases p; cases "generate_system_random_bytes os 32")
    (auto simp: prng_ok_def grant_random_initialize_def init_random_def assert_cur_def granted_def ready_def)

lemma ready_simps [simp]: "rnd_state (ready st) = st" "initalized (ready st)"
  by (simp_all add: ready_def)

lemma ready_ok: "prng_ok (ready st) \<longleftrightarrow> length st = 25"
  by (simp add: prng_ok_def ready_def)

lemma granted_ready [simp]: "granted os (ready st) = Some st"
  by (simp add: granted_def)

lemmas prng_defs = grant_ready assert_cur_def ready_def Let_def

lemma generate_random_bytes_ok:
  assumes "prng_ok p" and "granted os p = Some st"
  shows "generate_random_bytes os n p
    = Some (take n (ref_stream st ((n + 135) div 136)), ready ((hash_permutation ^^ ((n + 135) div 136)) st))"
proof (cases "n = 0")
  case False
  then show ?thesis
    using assms generate_random_loop_stream [of n st] length_granted [OF assms(2,1)] by (simp add: generate_random_bytes_def prng_defs)
qed (simp add: generate_random_bytes_def prng_defs assms)

lemma get_state_ok:
  "prng_ok p \<Longrightarrow> granted os p = Some st \<Longrightarrow> random_prng_get_state os 200 p = Some (bytes_of_lanes st, ready st)"
  using length_granted [of os p st] by (simp add: random_prng_get_state_def prng_defs)

lemma set_state_ok:
  "prng_ok p \<Longrightarrow> granted os p = Some st \<Longrightarrow> length buffer = 200
    \<Longrightarrow> random_prng_set_state os buffer 200 p = Some (ready (lanes_of_bytes buffer))"
  using length_granted [of os p st] by (simp add: random_prng_set_state_def prng_defs poke_def)

lemma seed_ok:
  "prng_ok p \<Longrightarrow> granted os p = Some st \<Longrightarrow> random_prng_initialize_with_seed os seed p
    = Some (ready ((hash_permutation ^^ unat (seed AND 31)) (poke (store64 seed) (replicate 25 0))))"
  by (simp add: random_prng_initialize_with_seed_def prng_defs)

lemma not_granted:
  assumes "prng_ok p" and "granted os p = None"
  shows "generate_random_bytes os n p = None" "random_prng_get_state os n p = None"
    "random_prng_set_state os buffer n p = None" "random_prng_initialize_with_seed os seed p = None"
  using assms
  by (simp_all add: generate_random_bytes_def random_prng_get_state_def random_prng_set_state_def
      random_prng_initialize_with_seed_def grant_ready)

text \<open>Short reads and interrupted calls: the loop collects exactly the bytes asked for.\<close>

fun available :: "read_answer list \<Rightarrow> bytes" where
  "available (Read_some bs # rs) = bs @ available rs"
| "available (_ # rs) = available rs"
| "available [] = []"

lemma urandom_loop_value: "urandom_loop n rs = Some bs \<Longrightarrow> bs = take n (available rs) \<and> length bs = n"
proof (induction n rs arbitrary: bs rule: urandom_loop.induct)
  case (1 n cs rs)
  then show ?case by (cases "n \<le> length cs") (auto simp: Let_def min_def split: bind_splits if_splits)
qed auto

lemma urandom_loop_total:
  assumes "\<And>r. r \<in> set rs \<Longrightarrow> r \<noteq> Read_error \<and> r \<noteq> Read_some []" and "n \<le> length (available rs)" and "0 < n"
  shows "urandom_loop n rs = Some (take n (available rs))"
  using assms
proof (induction n rs rule: urandom_loop.induct)
  case (1 n cs rs)
  show ?case
  proof (cases "n \<le> length cs")
    case False
    moreover have "cs \<noteq> []" using 1(2) by force
    ultimately show ?thesis using 1 by (auto simp: Let_def min_def)
  qed (simp add: Let_def min_def)
qed auto

text \<open>The reachable states: any sequence of complete calls.\<close>

inductive prng_step :: "urandom \<Rightarrow> prng \<Rightarrow> prng \<Rightarrow> bool" for os where
  step_seed: "random_prng_initialize_with_seed os seed p = Some q \<Longrightarrow> prng_step os p q"
| step_get: "random_prng_get_state os 200 p = Some (buffer, q) \<Longrightarrow> prng_step os p q"
| step_set: "length buffer = 200 \<Longrightarrow> random_prng_set_state os buffer 200 p = Some q \<Longrightarrow> prng_step os p q"
| step_generate: "generate_random_bytes os n p = Some (result, q) \<Longrightarrow> prng_step os p q"

definition prng_reachable :: "urandom \<Rightarrow> prng \<Rightarrow> bool" where
  "prng_reachable os = (prng_step os)\<^sup>*\<^sup>* prng_0"

lemma length_funpow_permutation [simp]: "length ((hash_permutation ^^ k) st) = length st"
  by (induction k) simp_all

lemma prng_step_ok:
  assumes "prng_step os p q" and "prng_ok p"
  shows "prng_ok q"
proof (cases "granted os p")
  case None
  then show ?thesis using assms by (auto simp: not_granted elim: prng_step.cases)
next
  case (Some st)
  note len = length_granted [OF this assms(2)] and ops = seed_ok get_state_ok set_state_ok generate_random_bytes_ok
  show ?thesis using assms(1) by cases (simp_all add: ops [OF assms(2) Some] ready_ok len, auto simp: ready_ok len)
qed

lemma prng_reachable_ok: "prng_reachable os p \<Longrightarrow> prng_ok p"
  unfolding prng_reachable_def
  by (induction rule: rtranclp_induct) (auto simp: prng_ok_def prng_0_def dest: prng_step_ok)

end
