(* ===== verification/IntUtil.thy ===== *)
theory IntUtil
  imports Prelude "HOL-Library.Monad_Syntax"
begin

text \<open>
  The integer helpers of \<open>int-util.h\<close>: rotations, the 128-bit product and quotient written out for
  compilers without a 128-bit type, and the byte swaps.
\<close>

section \<open>Definitions\<close>

definition rol32 :: "u32 \<Rightarrow> i32 \<Rightarrow> u32" where
  "rol32 x r = push_bit (unat (r AND 31)) x OR drop_bit (unat (- r AND 31)) x"

definition rol64 :: "u64 \<Rightarrow> i32 \<Rightarrow> u64" where
  "rol64 x r = push_bit (unat (r AND 63)) x OR drop_bit (unat (- r AND 63)) x"

definition hi_dword :: "u64 \<Rightarrow> u64" where
  "hi_dword val = drop_bit 32 val"

definition lo_dword :: "u64 \<Rightarrow> u64" where
  "lo_dword val = val AND 0xFFFFFFFF"

text \<open>The result is the low half and the high half of the product; \<open>None\<close> is the failed assertion.\<close>

definition mul128_manually :: "u64 \<Rightarrow> u64 \<Rightarrow> (u64 \<times> u64) option" where
  "mul128_manually multiplier multiplicand =
     (let a = hi_dword multiplier;
          b = lo_dword multiplier;
          c = hi_dword multiplicand;
          d = lo_dword multiplicand;
          ac = a * c;
          ad = a * d;
          bc = b * c;
          bd = b * d;
          adbc = ad + bc;
          adbc_carry = (if adbc < ad then 1 else 0);
          product_lo = bd + push_bit 32 adbc;
          product_lo_carry = (if product_lo < bd then 1 else 0);
          product_hi = ac + drop_bit 32 adbc + push_bit 32 adbc_carry + product_lo_carry
      in if ac \<le> product_hi then Some (product_lo, product_hi) else None)"

text \<open>Returns the quotient and the new remainder; the division by zero is \<open>None\<close>.\<close>

definition div_with_reminder :: "u64 \<Rightarrow> u32 \<Rightarrow> u32 \<Rightarrow> (u64 \<times> u32) option" where
  "div_with_reminder dividend divisor remainder =
     (let dividend = dividend OR push_bit 32 (ucast remainder)
      in if divisor = 0 then None
         else Some (dividend div ucast divisor, ucast (dividend mod ucast divisor)))"

definition div128_32_manually :: "u64 \<Rightarrow> u64 \<Rightarrow> u32 \<Rightarrow> (u32 \<times> u64 \<times> u64) option" where
  "div128_32_manually dividend_hi dividend_lo divisor =
     do { (q3, remainder) \<leftarrow> div_with_reminder (hi_dword dividend_hi) divisor 0;
          (q2, remainder) \<leftarrow> div_with_reminder (lo_dword dividend_hi) divisor remainder;
          (q1, remainder) \<leftarrow> div_with_reminder (hi_dword dividend_lo) divisor remainder;
          (q0, remainder) \<leftarrow> div_with_reminder (lo_dword dividend_lo) divisor remainder;
          Some (remainder, push_bit 32 q3 OR q2, push_bit 32 q1 OR q0) }"

text \<open>The variants for compilers with a 128-bit type.\<close>

definition mul128 :: "u64 \<Rightarrow> u64 \<Rightarrow> u64 \<times> u64" where
  "mul128 multiplier multiplicand =
     (let product = (ucast multiplier :: 128 word) * ucast multiplicand
      in (ucast product, ucast (drop_bit 64 product)))"

definition div128_32 :: "u64 \<Rightarrow> u64 \<Rightarrow> u32 \<Rightarrow> (u32 \<times> u64 \<times> u64) option" where
  "div128_32 dividend_hi dividend_lo divisor =
     (let dividend = push_bit 64 (ucast dividend_hi :: 128 word) OR ucast dividend_lo
      in if divisor = 0 then None
         else Some (ucast (dividend mod ucast divisor),
                    ucast (drop_bit 64 (dividend div ucast divisor)), ucast (dividend div ucast divisor)))"

definition swap32 :: "u32 \<Rightarrow> u32" where
  "swap32 x =
     (let x = push_bit 8 (x AND 0x00ff00ff) OR drop_bit 8 (x AND 0xff00ff00)
      in push_bit 16 x OR drop_bit 16 x)"

definition swap64 :: "u64 \<Rightarrow> u64" where
  "swap64 x =
     (let x = push_bit 8 (x AND 0x00ff00ff00ff00ff) OR drop_bit 8 (x AND 0xff00ff00ff00ff00);
          x = push_bit 16 (x AND 0x0000ffff0000ffff) OR drop_bit 16 (x AND 0xffff0000ffff0000)
      in push_bit 32 x OR drop_bit 32 x)"

section \<open>The product\<close>

lemma uint_drop: "uint (drop_bit n (v :: 'a::len word)) = uint v div 2 ^ n"
  by (simp only: unsigned_drop_bit_eq) (simp add: drop_bit_eq_div take_bit_int_eq_self)

lemma uint_hi_dword: "uint (hi_dword v) = uint v div 2 ^ 32"
  unfolding hi_dword_def by (rule uint_drop)

lemma uint_lo_dword: "uint (lo_dword v) = uint v mod 2 ^ 32"
proof -
  have "(0xFFFFFFFF :: u64) = mask 32" by (simp add: mask_eq_exp_minus_1)
  then have "lo_dword v = take_bit 32 v" by (simp only: lo_dword_def take_bit_eq_mask)
  then show ?thesis by (simp only: unsigned_take_bit_eq) (simp only: take_bit_eq_mod)
qed

lemma dword_bounds:
  "0 \<le> uint (hi_dword v)" "uint (hi_dword v) < 2 ^ 32" "0 \<le> uint (lo_dword v)" "uint (lo_dword v) < 2 ^ 32"
  "uint v = uint (hi_dword v) * 2 ^ 32 + uint (lo_dword v)"
  using uint_lt2p [of v] by (simp_all add: uint_hi_dword uint_lo_dword pos_imp_zdiv_nonneg_iff)

lemma uint_mult_small:
  fixes x y :: u64
  assumes "uint x < 2 ^ 32" and "uint y < 2 ^ 32"
  shows "uint (x * y) = uint x * uint y" and "uint x * uint y \<le> (2 ^ 32 - 1) * (2 ^ 32 - 1)"
proof -
  show l: "uint x * uint y \<le> (2 ^ 32 - 1) * (2 ^ 32 - 1)" using assms by (intro mult_mono) simp_all
  then show "uint (x * y) = uint x * uint y" by (simp add: uint_word_ariths)
qed

lemma uint_add_carry:
  fixes x y :: u64
  shows "uint (x + y) + 2 ^ 64 * of_bool (x + y < x) = uint x + uint y"
proof -
  have b: "uint x < 2 ^ 64" "uint y < 2 ^ 64" "0 \<le> uint x" "0 \<le> uint y" using uint_lt2p [of x] uint_lt2p [of y] by simp_all
  show ?thesis
  proof (cases "uint x + uint y < 2 ^ 64")
    case True
    then have "uint (x + y) = uint x + uint y" using b by (simp add: uint_word_ariths)
    then show ?thesis using b by (simp add: word_less_def)
  next
    case False
    then have "uint (x + y) = uint x + uint y - 2 ^ 64" using b
      mod_pos_pos_trivial [of "uint x + uint y - 2 ^ 64" "2 ^ 64"] by (simp add: uint_word_ariths)
    then show ?thesis using b by (simp add: word_less_def)
  qed
qed


lemma len64: "LENGTH(64) = 64"
  by simp

lemma of_bool_if: "(if P then 1 else 0) = of_bool P"
  by simp

lemma uint_shift32: "uint (push_bit 32 (x :: u64)) = uint x mod 2 ^ 32 * 2 ^ 32"
proof -
  have "take_bit 64 (push_bit 32 (uint x)) = push_bit 32 (take_bit 32 (uint x))"
    using push_bit_take_bit [of 32 32 "uint x"] by simp
  then show ?thesis
    by (simp only: unsigned_push_bit_eq len64) (simp only: push_bit_eq_mult take_bit_eq_mod)
qed

lemma mul128_manually_value:
  "\<exists>lo hi. mul128_manually x y = Some (lo, hi) \<and> uint lo + 2 ^ 64 * uint hi = uint x * uint y"
proof -
  let ?a = "hi_dword x" and ?b = "lo_dword x" and ?c = "hi_dword y" and ?d = "lo_dword y"
  let ?adbc = "?a * ?d + ?b * ?c" and ?k = "of_bool (?a * ?d + ?b * ?c < ?a * ?d) :: u64"
  let ?lo = "?b * ?d + push_bit 32 ?adbc" and ?m = "of_bool (?b * ?d + push_bit 32 ?adbc < ?b * ?d) :: u64"
  let ?hi = "?a * ?c + drop_bit 32 ?adbc + push_bit 32 ?k + ?m"
  note x = dword_bounds [of x] and y = dword_bounds [of y]
  have ac: "uint (?a * ?c) = uint ?a * uint ?c" and ad: "uint (?a * ?d) = uint ?a * uint ?d"
    and bc: "uint (?b * ?c) = uint ?b * uint ?c" and bd: "uint (?b * ?d) = uint ?b * uint ?d"
    by (rule uint_mult_small; rule x y)+
  define s k l m where "s = uint ?adbc" and "k = (of_bool (?a * ?d + ?b * ?c < ?a * ?d) :: int)"
    and "l = uint ?lo" and "m = (of_bool (?b * ?d + push_bit 32 ?adbc < ?b * ?d) :: int)"
  have mid: "s + 2 ^ 64 * k = uint ?a * uint ?d + uint ?b * uint ?c"
    unfolding s_def k_def using uint_add_carry [of "?a * ?d" "?b * ?c"] by (simp only: ad bc)
  have low: "l + 2 ^ 64 * m = uint ?b * uint ?d + s mod 2 ^ 32 * 2 ^ 32"
    unfolding s_def l_def m_def using uint_add_carry [of "?b * ?d" "push_bit 32 ?adbc"] by (simp only: bd uint_shift32)
  have km: "0 \<le> k" "k \<le> 1" "0 \<le> m" "m \<le> 1" by (simp_all add: k_def m_def)
  have s: "0 \<le> s" "0 \<le> l" "l < 2 ^ 64" using uint_lt2p [of ?lo] by (simp_all add: s_def l_def)
  define t where "t = uint ?a * uint ?c + s div 2 ^ 32 + 2 ^ 32 * k + m"
  have prod: "l + 2 ^ 64 * t = uint x * uint y"
  proof -
    have "2 ^ 64 * (s div 2 ^ 32) = 2 ^ 32 * (s - s mod 2 ^ 32)" using minus_mod_eq_mult_div [of s "2 ^ 32"] by simp
    then have "l + 2 ^ 64 * t = 2 ^ 64 * (uint ?a * uint ?c) + 2 ^ 32 * (s + 2 ^ 64 * k) + (l + 2 ^ 64 * m - s mod 2 ^ 32 * 2 ^ 32)"
      unfolding t_def by (simp add: algebra_simps)
    also have "\<dots> = (uint ?a * 2 ^ 32 + uint ?b) * (uint ?c * 2 ^ 32 + uint ?d)"
      unfolding mid low by (simp add: algebra_simps)
    finally show ?thesis using x(5) y(5) by simp
  qed
  have "uint x * uint y < 2 ^ 64 * 2 ^ 64"
    using uint_lt2p [of x] uint_lt2p [of y] by (intro mult_strict_mono) simp_all
  then have t: "t < 2 ^ 64" "0 \<le> t" using prod s km x(1) y(1) unfolding t_def by (simp_all add: pos_imp_zdiv_nonneg_iff)
  have hi: "?hi = word_of_int t"
  proof -
    have "drop_bit 32 ?adbc = word_of_int (s div 2 ^ 32)"
      unfolding s_def by (metis uint_drop word_of_int_uint)
    moreover have "?a * ?c = word_of_int (uint ?a * uint ?c)" by (metis ac word_of_int_uint)
    moreover have "push_bit 32 ?k = word_of_int (2 ^ 32 * k)" "?m = word_of_int m"
      by (simp_all add: k_def m_def push_bit_eq_mult)
    ultimately show ?thesis unfolding t_def by (simp only: of_int_add)
  qed
  have uhi: "uint ?hi = t" unfolding hi using t by (simp add: uint_word_of_int_eq take_bit_int_eq_self)
  have "?a * ?c \<le> ?hi"
    unfolding word_le_def uhi ac t_def using s km by (simp add: pos_imp_zdiv_nonneg_iff)
  then have "mul128_manually x y = Some (?lo, ?hi)"
    unfolding mul128_manually_def Let_def of_bool_if by simp
  moreover have "uint ?lo + 2 ^ 64 * uint ?hi = uint x * uint y" using prod by (simp only: uhi l_def)
  ultimately show ?thesis by blast
qed


lemma dword_pair_unique:
  fixes lo lo' hi hi' :: u64
  assumes "uint lo + 2 ^ 64 * uint hi = uint lo' + 2 ^ 64 * uint hi'"
  shows "lo = lo' \<and> hi = hi'"
proof -
  have "(uint lo + 2 ^ 64 * uint hi) mod 2 ^ 64 = (uint lo' + 2 ^ 64 * uint hi') mod 2 ^ 64" using assms by simp
  then have "uint lo = uint lo'" using uint_lt2p [of lo] uint_lt2p [of lo'] by simp
  moreover from this have "uint hi = uint hi'" using assms by simp
  ultimately show ?thesis by (simp add: word_uint_eq_iff)
qed

lemma uint_ucast_up: "LENGTH('a) \<le> LENGTH('b) \<Longrightarrow> uint (ucast (x :: 'a::len word) :: 'b::len word) = uint x"
  by (simp add: unsigned_ucast_eq take_bit_int_eq_self_iff) (meson less_le_trans one_le_numeral power_increasing uint_lt2p)

lemma uint_ucast_64: "uint (ucast (x :: 128 word) :: u64) = uint x mod 2 ^ 64"
  by (simp add: unsigned_ucast_eq take_bit_eq_mod)

lemma mul128_value: "mul128 x y = (lo, hi) \<Longrightarrow> uint lo + 2 ^ 64 * uint hi = uint x * uint y"
proof -
  let ?p = "(ucast x :: 128 word) * ucast y"
  have "uint x * uint y < 2 ^ 64 * 2 ^ 64"
    using uint_lt2p [of x] uint_lt2p [of y] by (intro mult_strict_mono) simp_all
  then have p: "uint ?p = uint x * uint y" by (simp add: uint_word_ariths uint_ucast_up)
  have "uint ?p div 2 ^ 64 < 2 ^ 64" using uint_lt2p [of ?p] by simp
  then have "uint (ucast (drop_bit 64 ?p) :: u64) = uint ?p div 2 ^ 64"
    by (simp only: uint_ucast_64 uint_drop) (simp add: pos_imp_zdiv_nonneg_iff)
  moreover assume "mul128 x y = (lo, hi)"
  then have "lo = ucast ?p" "hi = ucast (drop_bit 64 ?p)" by (simp_all add: mul128_def Let_def)
  ultimately show ?thesis by (simp add: uint_ucast_64 p)
qed

lemma mul128_manually_mul128: "mul128_manually x y = Some (mul128 x y)"
proof -
  obtain lo hi where m: "mul128_manually x y = Some (lo, hi)" "uint lo + 2 ^ 64 * uint hi = uint x * uint y"
    using mul128_manually_value by blast
  obtain lo' hi' where g: "mul128 x y = (lo', hi')" by fastforce
  then show ?thesis using dword_pair_unique [of lo hi lo' hi'] mul128_value [OF g] m by simp
qed

section \<open>The quotient\<close>

lemma uint_or_shift:
  fixes lo hi :: "'a::len word"
  assumes "uint lo < 2 ^ n" and "uint hi * 2 ^ n < 2 ^ LENGTH('a)" and "n \<le> LENGTH('a)"
  shows "uint (lo OR push_bit n hi) = uint lo + 2 ^ n * uint hi"
proof -
  have "lo AND push_bit n hi = 0"
  proof (rule bit_word_eqI)
    fix k
    have "take_bit n (uint lo) = uint lo" using assms(1) by (simp add: take_bit_int_eq_self)
    then have "\<not> bit (uint lo) k" if "n \<le> k" using that by (metis bit_take_bit_iff not_le)
    then show "bit (lo AND push_bit n hi) k = bit 0 k" by (auto simp: bit_simps bit_uint_iff)
  qed
  then have "lo OR push_bit n hi = lo + push_bit n hi" by (simp add: disjunctive_add_eq_or)
  also have "\<dots> = word_of_int (uint lo + 2 ^ n * uint hi)" by (simp add: push_bit_eq_mult mult.commute)
  finally have "uint (lo OR push_bit n hi) = take_bit LENGTH('a) (uint lo + 2 ^ n * uint hi)"
    by (simp only: uint_word_of_int_eq)
  moreover have "uint lo + 2 ^ n * uint hi < 2 ^ LENGTH('a)"
  proof -
    have "uint lo + 2 ^ n * uint hi < 2 ^ n * (uint hi + 1)" using assms(1) by (simp add: algebra_simps)
    also have "\<dots> \<le> 2 ^ LENGTH('a)"
    proof -
      have "(2 :: int) ^ LENGTH('a) = 2 ^ (LENGTH('a) - n) * 2 ^ n" using assms(3) by (simp flip: power_add)
      moreover from this have "uint hi < 2 ^ (LENGTH('a) - n)" using assms(2) by simp
      ultimately show ?thesis using mult_left_mono [of "uint hi + 1" "2 ^ (LENGTH('a) - n)" "2 ^ n"] by (simp add: mult.commute)
    qed
    finally show ?thesis .
  qed
  ultimately show ?thesis by (simp add: take_bit_int_eq_self)
qed


lemma int_div_less: "0 < b \<Longrightarrow> a < c * b \<Longrightarrow> a div b < (c :: int)"
proof -
  assume "0 < b" "a < c * b"
  moreover have "b * (a div b) \<le> a" using mult_div_mod_eq [of b a] pos_mod_sign [OF \<open>0 < b\<close>, of a] by linarith
  ultimately have "b * (a div b) < b * c" by (metis le_less_trans mult.commute)
  then show ?thesis using \<open>0 < b\<close> by simp
qed

text \<open>One step of the long division with digits in base \<open>2 ^ 32\<close>.\<close>

lemma div_with_reminder_value:
  assumes "uint dividend < 2 ^ 32" and "uint remainder < uint divisor"
  shows "\<exists>q r. div_with_reminder dividend divisor remainder = Some (q, r)
    \<and> uint dividend + 2 ^ 32 * uint remainder = uint q * uint divisor + uint r \<and> uint q < 2 ^ 32 \<and> uint r < uint divisor"
proof -
  let ?d = "dividend OR push_bit 32 (ucast remainder)" and ?v = "ucast divisor :: u64"
  have r: "uint (ucast remainder :: u64) = uint remainder" and v: "uint ?v = uint divisor" by (simp_all add: uint_ucast_up)
  have "uint remainder < 2 ^ 32" using uint_lt2p [of remainder] by simp
  then have d: "uint ?d = uint dividend + 2 ^ 32 * uint remainder"
    using uint_or_shift [of dividend 32 "ucast remainder"] assms(1) r by simp
  have pos: "0 < uint divisor" using assms(2) by (meson le_less_trans uint_ge_0)
  then have "divisor \<noteq> 0" by auto
  moreover have q: "uint (?d div ?v) = uint ?d div uint divisor" and m: "uint (?d mod ?v) = uint ?d mod uint divisor"
    by (simp_all only: uint_div_distrib uint_mod_distrib v)
  have mb: "uint ?d mod uint divisor < uint divisor" "0 \<le> uint ?d mod uint divisor" using pos by simp_all
  moreover have mr: "uint (ucast (?d mod ?v) :: u32) = uint ?d mod uint divisor"
    using mb uint_lt2p [of divisor] by (simp add: unsigned_ucast_eq m take_bit_int_eq_self)
  moreover have "uint ?d div uint divisor < 2 ^ 32"
  proof -
    have "uint ?d < 2 ^ 32 * (uint remainder + 1)" unfolding d using assms(1) by (simp add: algebra_simps)
    also have "\<dots> \<le> 2 ^ 32 * uint divisor" using assms(2) by (intro mult_left_mono) simp_all
    finally show ?thesis by (rule int_div_less [OF pos])
  qed
  ultimately show ?thesis
    using q mb d by (intro exI [of _ "?d div ?v"] exI [of _ "ucast (?d mod ?v)"]) (simp add: div_with_reminder_def Let_def)
qed

lemma div128_32_manually_value:
  assumes "divisor \<noteq> 0"
  shows "\<exists>r qh ql. div128_32_manually hi lo divisor = Some (r, qh, ql)
    \<and> uint lo + 2 ^ 64 * uint hi = (uint ql + 2 ^ 64 * uint qh) * uint divisor + uint r \<and> uint r < uint divisor"
proof -
  note h = dword_bounds [of hi] and l = dword_bounds [of lo]
  have z: "uint (0 :: u32) < uint divisor" using assms by (simp add: uint_0_iff less_le)
  obtain q3 r3 where s3: "div_with_reminder (hi_dword hi) divisor 0 = Some (q3, r3)"
    "uint (hi_dword hi) = uint q3 * uint divisor + uint r3" "uint q3 < 2 ^ 32" "uint r3 < uint divisor"
    using div_with_reminder_value [OF h(2) z] by auto
  obtain q2 r2 where s2: "div_with_reminder (lo_dword hi) divisor r3 = Some (q2, r2)"
    "uint (lo_dword hi) + 2 ^ 32 * uint r3 = uint q2 * uint divisor + uint r2" "uint q2 < 2 ^ 32" "uint r2 < uint divisor"
    using div_with_reminder_value [OF h(4) s3(4)] by auto
  obtain q1 r1 where s1: "div_with_reminder (hi_dword lo) divisor r2 = Some (q1, r1)"
    "uint (hi_dword lo) + 2 ^ 32 * uint r2 = uint q1 * uint divisor + uint r1" "uint q1 < 2 ^ 32" "uint r1 < uint divisor"
    using div_with_reminder_value [OF l(2) s2(4)] by auto
  obtain q0 r0 where s0: "div_with_reminder (lo_dword lo) divisor r1 = Some (q0, r0)"
    "uint (lo_dword lo) + 2 ^ 32 * uint r1 = uint q0 * uint divisor + uint r0" "uint q0 < 2 ^ 32" "uint r0 < uint divisor"
    using div_with_reminder_value [OF l(4) s1(4)] by auto
  have q: "uint (push_bit 32 a OR b) = uint b + 2 ^ 32 * uint a" if "uint a < 2 ^ 32" "uint b < 2 ^ 32" for a b :: u64
    using uint_or_shift [of b 32 a] that by (simp add: or.commute)
  have "uint lo + 2 ^ 64 * uint hi = ((uint q0 + 2 ^ 32 * uint q1) + 2 ^ 64 * (uint q2 + 2 ^ 32 * uint q3)) * uint divisor + uint r0"
    unfolding h(5) l(5) using s3(2) s2(2) s1(2) s0(2) by algebra
  then have "uint lo + 2 ^ 64 * uint hi = (uint (push_bit 32 q1 OR q0) + 2 ^ 64 * uint (push_bit 32 q3 OR q2)) * uint divisor + uint r0"
    by (simp only: q s0(3) s1(3) s2(3) s3(3))
  then show ?thesis
    using s0(1,4) s1(1) s2(1) s3(1) by (intro exI [of _ r0] exI) (auto simp: div128_32_manually_def)
qed

lemma div128_32_value:
  assumes "divisor \<noteq> 0"
  shows "\<exists>r qh ql. div128_32 hi lo divisor = Some (r, qh, ql)
    \<and> uint r = (uint lo + 2 ^ 64 * uint hi) mod uint divisor \<and> uint ql + 2 ^ 64 * uint qh = (uint lo + 2 ^ 64 * uint hi) div uint divisor"
proof -
  let ?D = "push_bit 64 (ucast hi :: 128 word) OR ucast lo" and ?v = "ucast divisor :: 128 word"
  let ?n = "uint lo + 2 ^ 64 * uint hi"
  have v: "uint ?v = uint divisor" by (simp add: uint_ucast_up)
  have D: "uint ?D = ?n"
    using uint_or_shift [of "ucast lo :: 128 word" 64 "ucast hi"] uint_lt2p [of lo] uint_lt2p [of hi] by (simp add: uint_ucast_up or.commute)
  have pos: "0 < uint divisor" using assms by (simp add: uint_0_iff less_le)
  have q: "uint (?D div ?v) = ?n div uint divisor" and m: "uint (?D mod ?v) = ?n mod uint divisor"
    by (simp_all only: uint_div_distrib uint_mod_distrib v D)
  have "?n mod uint divisor < uint divisor" "0 \<le> ?n mod uint divisor" using pos by simp_all
  then have "uint (ucast (?D mod ?v) :: u32) = ?n mod uint divisor"
    using uint_lt2p [of divisor] by (simp add: unsigned_ucast_eq m take_bit_int_eq_self)
  moreover have "uint (ucast (?D div ?v) :: u64) + 2 ^ 64 * uint (ucast (drop_bit 64 (?D div ?v)) :: u64) = ?n div uint divisor"
  proof -
    have "uint (?D div ?v) div 2 ^ 64 < 2 ^ 64" using uint_lt2p [of "?D div ?v"] by simp
    then have "uint (ucast (drop_bit 64 (?D div ?v)) :: u64) = uint (?D div ?v) div 2 ^ 64"
      by (simp only: uint_ucast_64 uint_drop) (simp add: pos_imp_zdiv_nonneg_iff)
    then show ?thesis by (simp only: uint_ucast_64 q) simp
  qed
  ultimately show ?thesis using assms unfolding div128_32_def Let_def by auto
qed

lemma div128_32_manually_div128: "div128_32_manually hi lo divisor = div128_32 hi lo divisor"
proof (cases "divisor = 0")
  case True
  then show ?thesis by (simp add: div128_32_manually_def div_with_reminder_def div128_32_def)
next
  case False
  obtain r qh ql where m: "div128_32_manually hi lo divisor = Some (r, qh, ql)"
    "uint lo + 2 ^ 64 * uint hi = (uint ql + 2 ^ 64 * uint qh) * uint divisor + uint r" "uint r < uint divisor"
    using div128_32_manually_value [OF False] by blast
  obtain r' qh' ql' where g: "div128_32 hi lo divisor = Some (r', qh', ql')"
    "uint r' = (uint lo + 2 ^ 64 * uint hi) mod uint divisor" "uint ql' + 2 ^ 64 * uint qh' = (uint lo + 2 ^ 64 * uint hi) div uint divisor"
    using div128_32_value [OF False] by blast
  have e: "uint lo + 2 ^ 64 * uint hi = uint divisor * (uint ql + 2 ^ 64 * uint qh) + uint r"
    by (rule m(2) [THEN trans]) (rule arg_cong2 [OF mult.commute refl])
  have d: "(uint lo + 2 ^ 64 * uint hi) mod uint divisor = uint r" "(uint lo + 2 ^ 64 * uint hi) div uint divisor = uint ql + 2 ^ 64 * uint qh"
    by (rule int_mod_pos_eq [OF e _ m(3)] int_div_pos_eq [OF e _ m(3)], rule uint_ge_0)+
  have "r = r'" by (rule word_uint_eqI) (simp only: g(2) d(1))
  moreover have "ql = ql' \<and> qh = qh'" by (rule dword_pair_unique) (simp only: g(3) d(2))
  ultimately show ?thesis by (simp only: g(1) m(1))
qed

section \<open>Byte order\<close>

lemma all_below: "(\<forall>k<n. P k) \<longleftrightarrow> (\<forall>k\<in>set [0..<n]. P (k :: nat))"
  by auto

lemma bit_swap32: "\<forall>k<32. bit (swap32 x) k = bit x (8 * (3 - k div 8) + k mod 8)"
  unfolding all_below by (simp add: upt_rec swap32_def Let_def bit_simps) (simp add: eval_nat_numeral)

lemma bit_swap64: "\<forall>k<64. bit (swap64 x) k = bit x (8 * (7 - k div 8) + k mod 8)"
  unfolding all_below by (simp add: upt_rec swap64_def Let_def bit_simps) (simp add: eval_nat_numeral)

lemma bytes_reversed:
  fixes x y :: "'a::len word"
  assumes "LENGTH('a) = 8 * n" and "\<forall>k<8 * n. bit y k = bit x (8 * (n - 1 - k div 8) + k mod 8)"
  shows "le_bytes n (uint y) = rev (le_bytes n (uint x))"
proof (rule nth_equalityI)
  fix i assume "i < length (le_bytes n (uint y))"
  then have i: "i < n" by simp
  show "le_bytes n (uint y) ! i = rev (le_bytes n (uint x)) ! i"
  proof (rule bit_word_eqI)
    fix k assume "k < LENGTH(8)"
    then have k: "k < 8" "8 * i + k < 8 * n" "(8 * i + k) div 8 = i" "(8 * i + k) mod 8 = k" using i by simp_all
    have "bit y (8 * i + k) = bit x (8 * (n - 1 - i) + k)" using assms(2) k by simp
    then show "bit (le_bytes n (uint y) ! i) k = bit (rev (le_bytes n (uint x)) ! i) k"
      using i k by (simp add: nth_le_bytes rev_nth bit_simps bit_uint_iff)
  qed
qed simp

lemma swap32_bytes: "le_bytes 4 (uint (swap32 x)) = rev (le_bytes 4 (uint x))"
  by (rule bytes_reversed) (use bit_swap32 in simp_all)

lemma swap64_bytes: "le_bytes 8 (uint (swap64 x)) = rev (le_bytes 8 (uint x))"
  by (rule bytes_reversed) (use bit_swap64 in simp_all)

end
