(* ===== verification/Varint.thy ===== *)
theory Varint
  imports IntUtil
begin

text \<open>
  The variable-length integers of \<open>varint.h\<close>, at the type \<open>uint64_t\<close>: seven bits per byte, the
  lowest first, the top bit set on every byte but the last.
\<close>

section \<open>Definitions\<close>

function write_varint :: "u64 \<Rightarrow> bytes" where
  "write_varint i =
     (if i \<ge> 0x80 then (ucast i AND 0x7f OR 0x80) # write_varint (drop_bit 7 i) else [ucast i])"
  by auto

termination
  by (relation "measure unat") (simp_all add: word_le_nat_alt drop_bit_eq_div unat_div_distrib)

declare write_varint.simps [simp del]

text \<open>
  \<open>read_varint\<close> returns the number of bytes read, or -1 for an overflow and -2 for a
  representation that is not canonical, with the value and the rest of the input.  The loop runs
  with the shift as its counter; at the end of the input it returns what it has.
\<close>

record varint_result =
  vr_ret :: int
  vr_value :: u64
  vr_rest :: bytes

fun read_varint_loop :: "nat \<Rightarrow> nat \<Rightarrow> int \<Rightarrow> u64 \<Rightarrow> bytes \<Rightarrow> varint_result" where
  "read_varint_loop bits shift n i [] = \<lparr>vr_ret = n, vr_value = i, vr_rest = []\<rparr>"
| "read_varint_loop bits shift n i (byte # rest) =
     (let n = n + 1
      in if shift + 7 \<ge> bits \<and> uint byte \<ge> 2 ^ (bits - shift)
         then \<lparr>vr_ret = - 1, vr_value = i, vr_rest = rest\<rparr>
         else if byte = 0 \<and> shift \<noteq> 0
         then \<lparr>vr_ret = - 2, vr_value = i, vr_rest = rest\<rparr>
         else let i = i OR push_bit shift (ucast (byte AND 0x7f))
              in if byte AND 0x80 = 0 then \<lparr>vr_ret = n, vr_value = i, vr_rest = rest\<rparr>
                 else read_varint_loop bits (shift + 7) n i rest)"

definition read_varint :: "nat \<Rightarrow> bytes \<Rightarrow> varint_result" where
  "read_varint bits input = read_varint_loop bits 0 0 0 input"

definition get_varint_packed_size :: "u64 \<Rightarrow> nat" where
  "get_varint_packed_size v =
     (if v \<le> 127 then 1
      else if v \<le> 16383 then 2
      else if v \<le> 2097151 then 3
      else if v \<le> 268435455 then 4
      else if v \<le> 34359738367 then 5
      else if v \<le> 4398046511103 then 6
      else if v \<le> 4398046511103 then 6
      else if v \<le> 562949953421311 then 7
      else 8)"

section \<open>Writing\<close>

text \<open>On numbers: the groups of seven bits.\<close>

function vbytes :: "int \<Rightarrow> bytes" where
  "vbytes v = (if 128 \<le> v then word_of_int (v mod 128 + 128) # vbytes (v div 128) else [word_of_int v])"
  by auto

termination
  by (relation "measure nat") auto

declare vbytes.simps [simp del]

lemma uint_low_bits: "uint (b AND 0x7f :: u8) = uint b mod 128"
proof -
  have "b AND 0x7f = take_bit 7 b" by (simp add: take_bit_eq_mask mask_eq_exp_minus_1)
  then show ?thesis by (simp only: unsigned_take_bit_eq) (simp add: take_bit_eq_mod)
qed

lemma top_bit_clear: "(b AND 0x80 = (0 :: u8)) \<longleftrightarrow> uint b < 128"
proof -
  have "b AND 0x80 = 0 \<longleftrightarrow> \<not> bit b 7"
  proof
    assume "b AND 0x80 = 0"
    then have "\<not> bit (b AND 0x80) 7" by simp
    then show "\<not> bit b 7" by (simp add: bit_simps)
  next
    assume "\<not> bit b 7"
    then show "b AND 0x80 = 0" by (intro bit_word_eqI) (auto simp: bit_simps less_Suc_eq numeral_eq_Suc)
  qed
  also have "bit b 7 \<longleftrightarrow> bit (uint b) 7" by (simp add: bit_uint_iff)
  also have "\<dots> \<longleftrightarrow> odd (uint b div 128)" by (simp add: bit_iff_odd)
  also have "\<dots> \<longleftrightarrow> 128 \<le> uint b"
  proof -
    have "uint b div 128 < 2" using uint_lt2p [of b] by (intro int_div_less) simp_all
    moreover have "0 \<le> uint b div 128" by (simp add: pos_imp_zdiv_nonneg_iff)
    ultimately have "uint b div 128 = 0 \<or> uint b div 128 = 1" by linarith
    then show ?thesis using uint_ge_0 [of b] by auto
  qed
  finally show ?thesis by auto
qed

lemma low_bits_byte: "(ucast (i :: u64) AND 0x7f OR 0x80 :: u8) = word_of_int (uint i mod 128 + 128)"
proof -
  let ?c = "ucast i :: u8"
  have "(?c AND 0x7f) AND 0x80 = 0" by (simp add: and.assoc)
  then have o: "(?c AND 0x7f) OR 0x80 = (?c AND 0x7f) + 0x80" by (rule disjunctive_add_eq_or [symmetric])
  have e: "?c AND 0x7f = word_of_int (uint i mod 128)"
  proof (rule word_uint_eqI)
    have "uint ?c mod 128 = uint i mod 128" by (simp add: unsigned_ucast_eq take_bit_eq_mod mod_mod_cancel)
    then show "uint (?c AND 0x7f) = uint (word_of_int (uint i mod 128) :: u8)"
      by (simp add: uint_low_bits uint_word_of_int_eq take_bit_int_eq_self)
  qed
  show ?thesis by (rule trans [OF o]) (simp add: e)
qed

lemma write_varint_vbytes: "write_varint i = vbytes (uint i)"
proof (induction i rule: write_varint.induct)
  case (1 i)
  show ?case
  proof (cases "0x80 \<le> i")
    case True
    then have "write_varint i = word_of_int (uint i mod 128 + 128) # vbytes (uint (drop_bit 7 i))"
      using 1 low_bits_byte [of i] by (subst write_varint.simps) simp
    moreover have "uint (drop_bit 7 i) = uint i div 128" using uint_drop [of 7 i] by simp
    moreover have "128 \<le> uint i" using True by (simp add: word_le_def)
    ultimately show ?thesis by (simp only: vbytes.simps [of "uint i"] if_True)
  next
    case False
    then have "\<not> 128 \<le> uint i" by (simp add: word_le_def)
    moreover have "(ucast i :: u8) = word_of_int (uint i)" by simp
    ultimately show ?thesis using False by (simp only: write_varint.simps [of i] vbytes.simps [of "uint i"] if_False)
  qed
qed

section \<open>Reading\<close>

lemma uint_byte: "0 \<le> v \<Longrightarrow> v < 256 \<Longrightarrow> uint (word_of_int v :: u8) = v"
  by (simp add: uint_word_of_int_eq take_bit_int_eq_self)

text \<open>One byte of the loop: what is added to the accumulator.\<close>

lemma read_step:
  fixes i :: u64 and b :: u8
  assumes "uint i < 2 ^ shift" and "uint b mod 128 * 2 ^ shift < 2 ^ 64" and "shift \<le> 64"
  shows "uint (i OR push_bit shift (ucast (b AND 0x7f))) = uint i + 2 ^ shift * (uint b mod 128)"
proof -
  have "uint (ucast (b AND 0x7f) :: u64) = uint b mod 128" by (simp add: uint_ucast_up uint_low_bits)
  then show ?thesis using uint_or_shift [of i shift "ucast (b AND 0x7f)"] assms by simp
qed

lemma read_bound:
  fixes i m :: int
  assumes "i < 2 ^ shift" and "m < 128"
  shows "i + 2 ^ shift * m < 2 ^ (shift + 7)"
proof -
  have "2 ^ shift * m \<le> 2 ^ shift * 127" using assms(2) by (intro mult_left_mono) simp_all
  moreover have "(2 :: int) ^ (shift + 7) = 2 ^ shift * 127 + 2 ^ shift" by (simp add: power_add)
  ultimately show ?thesis using assms(1) by linarith
qed

lemma read_vbytes:
  assumes "0 \<le> v" and "v \<noteq> 0 \<or> shift = 0" and "uint i < 2 ^ shift" and "bits \<le> 64"
    and "uint i + 2 ^ shift * v < 2 ^ bits" and "shift < bits"
  shows "read_varint_loop bits shift n i (vbytes v @ rest)
    = \<lparr>vr_ret = n + int (length (vbytes v)), vr_value = word_of_int (uint i + 2 ^ shift * v), vr_rest = rest\<rparr>"
  using assms
proof (induction v arbitrary: shift n i rule: vbytes.induct)
  case (1 v)
  have lt: "2 ^ shift * v < 2 ^ bits" using 1(6) uint_ge_0 [of i] by linarith
  have p: "(2 :: int) ^ bits = 2 ^ shift * 2 ^ (bits - shift)" using 1(7) by (simp flip: power_add)
  then have vlt: "v < 2 ^ (bits - shift)" using lt by simp
  have le64: "(2 :: int) ^ bits \<le> 2 ^ 64" using 1(5) by (intro power_increasing) simp_all
  show ?case
  proof (cases "128 \<le> v")
    case True
    let ?b = "word_of_int (v mod 128 + 128) :: u8"
    have "v mod 128 < 128" "0 \<le> v mod 128" by simp_all
    then have b: "uint ?b = v mod 128 + 128" by (intro uint_byte) simp_all
    then have bm: "uint ?b mod 128 = v mod 128" "\<not> uint ?b < 128" by simp_all
    have "bits - shift > 7"
    proof (rule ccontr)
      assume "\<not> 7 < bits - shift"
      then have "(2 :: int) ^ (bits - shift) \<le> 2 ^ 7" by (intro power_increasing) simp_all
      then show False using vlt True by simp
    qed
    then have sh: "\<not> shift + 7 \<ge> bits" "shift + 7 < bits" "shift \<le> 64" using 1(5) by simp_all
    have "?b \<noteq> 0" using b by auto
    let ?i = "i OR push_bit shift (ucast (?b AND 0x7f))"
    have vm: "v mod 128 \<le> v" using 1(2) by (simp add: zmod_le_nonneg_dividend)
    then have "2 ^ shift * (v mod 128) \<le> 2 ^ shift * v" by (intro mult_left_mono) simp_all
    then have "v mod 128 * 2 ^ shift < 2 ^ 64" using lt le64 unfolding mult.commute [of "v mod 128"] by linarith
    then have i: "uint ?i = uint i + 2 ^ shift * (v mod 128)"
      using read_step [of i shift ?b] 1(4) sh(3) by (simp only: bm)
    have sum: "uint ?i + 2 ^ (shift + 7) * (v div 128) = uint i + 2 ^ shift * v"
    proof -
      have "2 ^ (shift + 7) * (v div 128) = 2 ^ shift * (128 * (v div 128))" by (simp add: power_add)
      then have "2 ^ shift * (v mod 128) + 2 ^ (shift + 7) * (v div 128) = 2 ^ shift * (128 * (v div 128) + v mod 128)"
        by (simp only: distrib_left add.commute)
      then show ?thesis unfolding i by (simp only: mult_div_mod_eq add.assoc)
    qed
    have il: "uint ?i < 2 ^ (shift + 7)"
      unfolding i using 1(4) by (rule read_bound) simp
    have "read_varint_loop bits (shift + 7) (n + 1) ?i (vbytes (v div 128) @ rest)
        = \<lparr>vr_ret = n + 1 + int (length (vbytes (v div 128))), vr_value = word_of_int (uint i + 2 ^ shift * v), vr_rest = rest\<rparr>"
      using 1(1) [OF True, of "shift + 7" ?i "n + 1"] True 1(5) 1(6) il sh(2) by (simp only: sum) (simp add: pos_imp_zdiv_nonneg_iff)
    moreover have "vbytes v = ?b # vbytes (v div 128)" using True by (subst vbytes.simps) simp
    moreover have "?b AND 0x80 \<noteq> 0" using bm(2) by (simp only: top_bit_clear not_False_eq_True)
    ultimately show ?thesis using sh(1) \<open>?b \<noteq> 0\<close> by (simp add: Let_def)
  next
    case False
    let ?b = "word_of_int v :: u8"
    have b: "uint ?b = v" using False 1(2) by (intro uint_byte) simp_all
    have "\<not> (bits \<le> shift + 7 \<and> 2 ^ (bits - shift) \<le> uint ?b)" using vlt by (simp only: b) simp
    moreover have "\<not> (?b = 0 \<and> shift \<noteq> 0)" using b 1(3) by (auto simp: uint_0_iff)
    moreover have "?b AND 0x80 = 0" using False by (simp only: top_bit_clear b not_le)
    moreover have "i OR push_bit shift (ucast (?b AND 0x7f)) = word_of_int (uint i + 2 ^ shift * v)"
    proof (rule word_uint_eqI)
      have m: "uint ?b mod 128 = v" using False 1(2) by (simp only: b) simp
      have "uint (i OR push_bit shift (ucast (?b AND 0x7f))) = uint i + 2 ^ shift * v"
        using read_step [of i shift ?b] 1(4,5,7) lt le64 by (simp only: m) (simp add: mult.commute)
      then show "uint (i OR push_bit shift (ucast (?b AND 0x7f))) = uint (word_of_int (uint i + 2 ^ shift * v) :: u64)"
        using 1(2,6) le64 by (simp only: uint_word_of_int_eq) (simp add: take_bit_int_eq_self)
    qed
    moreover have "vbytes v = [?b]" using False by (subst vbytes.simps) simp
    ultimately show ?thesis by (auto simp: Let_def)
  qed
qed

lemma read_write_varint:
  "read_varint 64 (write_varint v @ rest) = \<lparr>vr_ret = int (length (write_varint v)), vr_value = v, vr_rest = rest\<rparr>"
  using read_vbytes [of "uint v" 0 0 64 0 rest] uint_lt2p [of v]
  by (simp add: read_varint_def write_varint_vbytes)


text \<open>
  What is read is canonical: a value that ends with a clear top bit is the only encoding of the
  value, so two encodings that are read without an error are equal.
\<close>

lemma vbytes_last: "0 \<le> v \<Longrightarrow> uint (last (vbytes v)) < 128"
proof (induction v rule: vbytes.induct)
  case (1 v)
  show ?case
  proof (cases "128 \<le> v")
    case True
    then have "vbytes (v div 128) \<noteq> []" by (subst vbytes.simps) simp
    then show ?thesis using 1 True by (simp add: vbytes.simps [of v] pos_imp_zdiv_nonneg_iff)
  next
    case False
    then show ?thesis using 1 by (simp add: vbytes.simps [of v] uint_byte)
  qed
qed

lemma read_canonical:
  assumes "shift < bits" and "bits \<le> 64" and "uint i < 2 ^ shift" and "input = consumed @ rest"
    and "read_varint_loop bits shift n i input = \<lparr>vr_ret = n + int (length consumed), vr_value = v, vr_rest = rest\<rparr>"
    and "0 \<le> n" and "consumed \<noteq> []" and "uint (last consumed) < 128"
  shows "\<exists>w\<ge>0. uint v = uint i + 2 ^ shift * w \<and> consumed = vbytes w \<and> (shift = 0 \<or> w \<noteq> 0)"
  using assms
proof (induction bits shift n i input arbitrary: consumed rule: read_varint_loop.induct)
  case (1 bits shift n i)
  then show ?case by simp
next
  case (2 bits shift n i byte tail)
  obtain cs where c: "consumed = byte # cs" "tail = cs @ rest" using 2(5,8) by (cases consumed) auto
  have ok: "\<not> (bits \<le> shift + 7 \<and> 2 ^ (bits - shift) \<le> uint byte)" "\<not> (byte = 0 \<and> shift \<noteq> 0)"
    using 2(6,7) by (auto simp: Let_def split: if_splits)
  have p: "(2 :: int) ^ bits = 2 ^ shift * 2 ^ (bits - shift)" using 2(2) by (simp flip: power_add)
  have le64: "(2 :: int) ^ bits \<le> 2 ^ 64" using 2(3) by (intro power_increasing) simp_all
  have small: "uint byte mod 128 < 2 ^ (bits - shift)"
  proof (cases "bits \<le> shift + 7")
    case True
    then have "uint byte < 2 ^ (bits - shift)" using ok by simp
    then show ?thesis using zmod_le_nonneg_dividend [of "uint byte" 128] by simp
  next
    case False
    then have "(2 :: int) ^ 7 \<le> 2 ^ (bits - shift)" by (intro power_increasing) simp_all
    moreover have "uint byte mod 128 < 128" by simp
    ultimately show ?thesis by (simp del: pos_mod_bound)
  qed
  let ?i = "i OR push_bit shift (ucast (byte AND 0x7f))"
  have "uint byte mod 128 * 2 ^ shift < 2 ^ 64"
  proof -
    have "2 ^ shift * (uint byte mod 128) < 2 ^ shift * 2 ^ (bits - shift)" using small by simp
    then show ?thesis using p le64 by (simp only: mult.commute [of "uint byte mod 128"])
  qed
  then have i: "uint ?i = uint i + 2 ^ shift * (uint byte mod 128)"
    using read_step [of i shift byte] 2(2,3,4) by simp
  show ?case
  proof (cases "byte AND 0x80 = 0")
    case True
    then have "cs = []" "v = ?i" using 2(6) ok c by (auto simp: Let_def)
    moreover have b: "uint byte < 128" using True by (simp only: top_bit_clear)
    moreover have "uint byte \<noteq> 0 \<or> shift = 0" using ok(2) by (auto simp: uint_0_iff)
    moreover have "vbytes (uint byte) = [byte]" using b by (subst vbytes.simps) simp
    ultimately show ?thesis using i c by (intro exI [of _ "uint byte"]) auto
  next
    case False
    then have r: "read_varint_loop bits (shift + 7) (n + 1) ?i (cs @ rest)
        = \<lparr>vr_ret = n + 1 + int (length cs), vr_value = v, vr_rest = rest\<rparr>"
      using 2(6) ok c by (simp only: read_varint_loop.simps Let_def if_not_P list.size of_nat_Suc) (simp add: if_not_P ac_simps)
    have b: "128 \<le> uint byte" using False by (simp only: top_bit_clear not_less)
    have ne: "cs \<noteq> []" using 2(9) c b by auto
    have sh: "shift + 7 < bits"
    proof (rule ccontr)
      assume "\<not> ?thesis"
      then have "bits \<le> shift + 7" by simp
      then have "(2 :: int) ^ (bits - shift) \<le> 2 ^ 7" using power_increasing [of "bits - shift" 7 "2 :: int"] by simp
      moreover have "uint byte < 2 ^ (bits - shift)" using ok(1) \<open>bits \<le> shift + 7\<close> by simp
      ultimately show False using b by simp
    qed
    have il: "uint ?i < 2 ^ (shift + 7)"
      unfolding i using 2(4) by (rule read_bound) simp
    have "last cs = last consumed" using ne c by simp
    then obtain w where w: "0 \<le> w" "uint v = uint ?i + 2 ^ (shift + 7) * w" "cs = vbytes w" "w \<noteq> 0"
      using 2(1) [OF refl ok refl False, of cs] sh 2(3,7,9) il r ne c by auto
    have bb: "uint byte = uint byte mod 128 + 128"
    proof -
      have "uint byte - 128 < 128" "0 \<le> uint byte - 128" using uint_lt2p [of byte] b by simp_all
      then have "(uint byte - 128) mod 128 = uint byte - 128" by (rule mod_pos_pos_trivial [rotated])
      then show ?thesis by simp
    qed
    let ?w = "uint byte mod 128 + 128 * w"
    have vb: "vbytes ?w = consumed"
    proof -
      have "128 \<le> ?w" using w(1,4) pos_mod_sign [of 128 "uint byte"] by linarith
      moreover have "?w mod 128 = uint byte mod 128" "?w div 128 = w" by simp_all
      moreover have "word_of_int (uint byte mod 128 + 128) = byte" by (simp only: bb [symmetric] word_of_int_uint)
      ultimately show ?thesis using w(3) by (simp only: vbytes.simps [of ?w] if_True c(1))
    qed
    have vv: "uint v = uint i + 2 ^ shift * ?w"
      unfolding w(2) i by (simp add: power_add distrib_left)
    have "0 \<le> ?w" "?w \<noteq> 0" using w(1,4) pos_mod_sign [of 128 "uint byte"] by linarith+
    then show ?thesis by (intro exI [of _ ?w] conjI disjI2 vv vb [symmetric])
  qed
qed

section \<open>The size of an encoding\<close>

lemma length_vbytes: "0 \<le> v \<Longrightarrow> length (vbytes v) \<le> Suc n \<longleftrightarrow> v < 128 ^ Suc n"
proof (induction n arbitrary: v)
  case 0
  have "vbytes (v div 128) \<noteq> []" by (subst vbytes.simps) simp
  then show ?case by (auto simp: vbytes.simps [of v])
next
  case (Suc n)
  show ?case
  proof (cases "128 \<le> v")
    case True
    have "length (vbytes v) \<le> Suc (Suc n) \<longleftrightarrow> v div 128 < 128 ^ Suc n"
      using Suc.IH [of "v div 128"] Suc.prems True by (simp add: vbytes.simps [of v] pos_imp_zdiv_nonneg_iff)
    also have "\<dots> \<longleftrightarrow> v < 128 ^ Suc n * 128"
    proof
      assume "v < 128 ^ Suc n * 128"
      then show "v div 128 < 128 ^ Suc n" by (intro int_div_less) simp_all
    next
      assume "v div 128 < 128 ^ Suc n"
      then have "v div 128 + 1 \<le> 128 ^ Suc n" by simp
      then have "(v div 128 + 1) * 128 \<le> 128 ^ Suc n * 128" by (intro mult_right_mono) simp_all
      moreover have "v < (v div 128 + 1) * 128" using mult_div_mod_eq [of 128 v] pos_mod_bound [of 128 v] by (simp del: mult_div_mod_eq pos_mod_bound)
      ultimately show "v < 128 ^ Suc n * 128" by simp
    qed
    finally show ?thesis by (simp add: mult.commute)
  next
    case False
    then have "length (vbytes v) = 1" by (subst vbytes.simps) simp
    moreover have "(128 :: int) \<le> 128 ^ Suc (Suc n)" using self_le_power [of "128 :: int" "Suc (Suc n)"] by simp
    ultimately show ?thesis using False by simp
  qed
qed

lemma length_write_varint: "length (write_varint v) \<le> Suc n \<longleftrightarrow> uint v < 128 ^ Suc n"
  by (simp only: write_varint_vbytes length_vbytes uint_ge_0)

lemma length_write_varint_pos: "write_varint v \<noteq> []"
  by (subst write_varint.simps) simp

lemma packed_size_steps:
  "get_varint_packed_size v =
    (if uint v < 128 ^ 1 then 1 else if uint v < 128 ^ 2 then 2 else if uint v < 128 ^ 3 then 3 else if uint v < 128 ^ 4 then 4
     else if uint v < 128 ^ 5 then 5 else if uint v < 128 ^ 6 then 6 else if uint v < 128 ^ 7 then 7 else 8)"
  unfolding get_varint_packed_size_def word_le_def by simp

lemma packed_size_correct: "uint v < 2 ^ 56 \<Longrightarrow> get_varint_packed_size v = length (write_varint v)"
  using length_write_varint [of v 0] length_write_varint [of v 1] length_write_varint [of v 2] length_write_varint [of v 3]
    length_write_varint [of v 4] length_write_varint [of v 5] length_write_varint [of v 6] length_write_varint [of v 7]
    length_write_varint_pos [of v]
  unfolding packed_size_steps
  by (cases "length (write_varint v)") (auto simp: le_Suc_eq)

lemma packed_size_wrong: "2 ^ 56 \<le> uint v \<Longrightarrow> get_varint_packed_size v = 8 \<and> 9 \<le> length (write_varint v)"
  using length_write_varint [of v 7] unfolding packed_size_steps by simp

lemma length_write_varint_max: "length (write_varint v) \<le> 10"
  using length_write_varint [of v 9] uint_lt2p [of v] by simp

section \<open>What is accepted\<close>

text \<open>
  What is accepted: either the input starts with a complete number, or it ends inside one, after
  bytes whose top bits are all set.
\<close>

lemma read_accepts:
  assumes "shift < bits" and "0 \<le> vr_ret (read_varint_loop bits shift n i input)" and "0 \<le> n"
  shows "list_all (\<lambda>b. 128 \<le> uint b) input \<and> shift + 7 * length input < bits
    \<or> (\<exists>consumed rest v. input = consumed @ rest \<and> consumed \<noteq> [] \<and> uint (last consumed) < 128
        \<and> read_varint_loop bits shift n i input = \<lparr>vr_ret = n + int (length consumed), vr_value = v, vr_rest = rest\<rparr>)"
  using assms
proof (induction bits shift n i input rule: read_varint_loop.induct)
  case (1 bits shift n i)
  then show ?case by simp
next
  case (2 bits shift n i byte tail)
  have ok: "\<not> (bits \<le> shift + 7 \<and> 2 ^ (bits - shift) \<le> uint byte)" "\<not> (byte = 0 \<and> shift \<noteq> 0)"
    using 2(3) by (auto simp: Let_def split: if_splits)
  let ?i = "i OR push_bit shift (ucast (byte AND 0x7f))"
  show ?case
  proof (cases "byte AND 0x80 = 0")
    case True
    then have "uint byte < 128" by (simp only: top_bit_clear)
    then show ?thesis using True ok by (intro disjI2 exI [of _ "[byte]"] exI [of _ tail] exI [of _ ?i]) (auto simp: Let_def)
  next
    case False
    then have b: "128 \<le> uint byte" by (simp only: top_bit_clear not_less)
    have r: "read_varint_loop bits shift n i (byte # tail) = read_varint_loop bits (shift + 7) (n + 1) ?i tail"
      using False ok by (simp only: read_varint_loop.simps Let_def if_not_P if_False)
    have sh: "shift + 7 < bits"
    proof (rule ccontr)
      assume "\<not> ?thesis"
      then have "bits \<le> shift + 7" by simp
      then have "(2 :: int) ^ (bits - shift) \<le> 2 ^ 7" using power_increasing [of "bits - shift" 7 "2 :: int"] by simp
      moreover have "uint byte < 2 ^ (bits - shift)" using ok(1) \<open>bits \<le> shift + 7\<close> by simp
      ultimately show False using b by simp
    qed
    consider "list_all (\<lambda>b. 128 \<le> uint b) tail" "shift + 7 + 7 * length tail < bits"
      | consumed rest v where "tail = consumed @ rest" "consumed \<noteq> []" "uint (last consumed) < 128"
        "read_varint_loop bits (shift + 7) (n + 1) ?i tail = \<lparr>vr_ret = n + 1 + int (length consumed), vr_value = v, vr_rest = rest\<rparr>"
      using 2(1) [OF refl ok refl False sh] 2(3,4) unfolding r by auto
    then show ?thesis
    proof cases
      case 1
      then show ?thesis using b by simp
    next
      case c: 2
      then show ?thesis unfolding r by (intro disjI2 exI [of _ "byte # consumed"] exI [of _ rest] exI [of _ v]) simp
    qed
  qed
qed

lemma read_truncated:
  assumes "list_all (\<lambda>b. 128 \<le> uint b) input" and "shift + 7 * length input < bits"
  shows "vr_ret (read_varint_loop bits shift n i input) = n + int (length input) \<and> vr_rest (read_varint_loop bits shift n i input) = []"
  using assms
proof (induction bits shift n i input rule: read_varint_loop.induct)
  case (2 bits shift n i byte tail)
  then have "128 \<le> uint byte" by simp
  then have "byte AND 0x80 \<noteq> 0" "byte \<noteq> 0" by (auto simp: top_bit_clear)
  moreover have "\<not> bits \<le> shift + 7" using 2(3) by simp
  ultimately show ?case using 2 by (simp add: Let_def)
qed simp

lemma read_varint_accepts:
  "0 < vr_ret (read_varint 64 input)
    \<longleftrightarrow> (\<exists>v rest. input = write_varint v @ rest) \<or> input \<noteq> [] \<and> length input \<le> 9 \<and> list_all (\<lambda>b. 128 \<le> uint b) input"
proof
  assume p: "0 < vr_ret (read_varint 64 input)"
  then consider "list_all (\<lambda>b. 128 \<le> uint b) input" "7 * length input < 64"
    | consumed rest v where "input = consumed @ rest" "consumed \<noteq> []" "uint (last consumed) < 128"
      "read_varint_loop 64 0 0 0 input = \<lparr>vr_ret = int (length consumed), vr_value = v, vr_rest = rest\<rparr>"
    using read_accepts [of 0 64 0 0 input] by (auto simp: read_varint_def)
  then show "(\<exists>v rest. input = write_varint v @ rest) \<or> input \<noteq> [] \<and> length input \<le> 9 \<and> list_all (\<lambda>b. 128 \<le> uint b) input"
  proof cases
    case 1
    moreover have "input \<noteq> []" using p by (auto simp: read_varint_def)
    ultimately show ?thesis by simp
  next
    case 2
    then have "consumed = write_varint v"
      using read_canonical [of 0 64 0 input consumed rest 0 v] by (auto simp: write_varint_vbytes)
    then show ?thesis using 2(1) by (intro disjI1 exI [of _ v] exI [of _ rest]) simp
  qed
next
  assume "(\<exists>v rest. input = write_varint v @ rest) \<or> input \<noteq> [] \<and> length input \<le> 9 \<and> list_all (\<lambda>b. 128 \<le> uint b) input"
  then consider v rest where "input = write_varint v @ rest" | "input \<noteq> []" "length input \<le> 9" "list_all (\<lambda>b. 128 \<le> uint b) input" by blast
  then show "0 < vr_ret (read_varint 64 input)"
  proof cases
    case 1
    then show ?thesis using read_write_varint [of v rest] length_write_varint_pos [of v] by simp
  next
    case 2
    then show ?thesis using read_truncated [of input 0 64 0 0] by (simp add: read_varint_def)
  qed
qed

end
