(* ===== verification/Crypto.thy ===== *)
theory Crypto
  imports BaseTable GroupOrder HashToPoint ScalarProps RandomGen Varint
begin

text \<open>
  The operations on keys and signatures of \<open>crypto.cpp\<close>.  Keys, points and scalars are strings of
  32 bytes.  A function that fills an output argument and returns a \<open>bool\<close> is a function to an
  option, with \<open>None\<close> for \<open>false\<close>.  Around that, the result \<open>None\<close> means that the process does not
  get past the call: a failed \<open>assert\<close>, \<open>abort\<close>, the exit of the random generator, or behaviour
  that C++ leaves undefined.  The first argument \<open>ndebug\<close> tells whether \<open>NDEBUG\<close> is defined, so
  that the assertions are not compiled.  The generator and the random device are explicit.
\<close>

section \<open>Data\<close>

type_synonym ec_point = bytes
type_synonym ec_scalar = bytes
type_synonym public_key = ec_point
type_synonym secret_key = ec_scalar
type_synonym key_derivation = ec_point
type_synonym key_image = ec_point

record signature =
  sig_c :: ec_scalar
  sig_r :: ec_scalar

definition I_bytes :: key_image where
  "I_bytes = [0x01, 0x00, 0x00, 0x00, 0x00, 0x00, 0x00, 0x00, 0x00, 0x00, 0x00, 0x00, 0x00, 0x00, 0x00, 0x00,
         0x00, 0x00, 0x00, 0x00, 0x00, 0x00, 0x00, 0x00, 0x00, 0x00, 0x00, 0x00, 0x00, 0x00, 0x00, 0x00]"

definition L_bytes :: key_image where
  "L_bytes = [0xed, 0xd3, 0xf5, 0x5c, 0x1a, 0x63, 0x12, 0x58, 0xd6, 0x9c, 0xf7, 0xa2, 0xde, 0xf9, 0xde, 0x14,
         0x00, 0x00, 0x00, 0x00, 0x00, 0x00, 0x00, 0x00, 0x00, 0x00, 0x00, 0x00, 0x00, 0x00, 0x00, 0x10]"

definition assertion :: "bool \<Rightarrow> bool \<Rightarrow> unit option" where
  "assertion ndebug c = (if ndebug \<or> c then Some () else None)"

section \<open>Scalars\<close>

definition random_scalar :: "urandom \<Rightarrow> prng \<Rightarrow> (ec_scalar \<times> prng) option" where
  "random_scalar os p =
     do { (tmp, p) \<leftarrow> generate_random_bytes os 64 p;
          let tmp = sc_reduce tmp;
          Some (take 32 tmp, p) }"

definition hash_to_scalar :: "bytes \<Rightarrow> ec_scalar option" where
  "hash_to_scalar data =
     do { res \<leftarrow> cn_fast_hash data;
          Some (sc_reduce32 res) }"

text \<open>The template \<open>rand\<close> of \<open>crypto.h\<close>, for a type of the given size.\<close>

definition rand :: "urandom \<Rightarrow> nat \<Rightarrow> prng \<Rightarrow> (bytes \<times> prng) option" where
  "rand os n p = generate_random_bytes os n p"

section \<open>Keys\<close>

text \<open>The results are the two keys, the returned vector, and the generator.\<close>

definition generate_keys :: "urandom \<Rightarrow> prng \<Rightarrow> (public_key \<times> secret_key \<times> bytes \<times> prng) option" where
  "generate_keys os p =
     do { (sec, p) \<leftarrow> random_scalar os p;
          point \<leftarrow> ge_scalarmult_base sec;
          let pub = ge_p3_tobytes point;
          Some (pub, sec, sec, p) }"

definition dependent_key :: "secret_key \<Rightarrow> (exception + secret_key) option" where
  "dependent_key first =
     do { second \<leftarrow> hash_to_scalar first;
          if sc_check second \<noteq> 0 then Some (Inl (Runtime_error ''Failed to derive key''))
          else Some (Inr second) }"

definition restore_keys :: "bytes \<Rightarrow> (exception + public_key \<times> secret_key) option" where
  "restore_keys seed =
     (if length seed \<noteq> 32 then Some (Inl (Runtime_error ''Invalid restore seed size''))
      else do { let sec = seed;
                point \<leftarrow> ge_scalarmult_base sec;
                let pub = ge_p3_tobytes point;
                Some (Inr (pub, sec)) })"

definition check_key :: "public_key \<Rightarrow> bool" where
  "check_key key = (ge_frombytes_vartime key \<noteq> None)"

text \<open>
  What a failing call of \<open>ge_frombytes_vartime\<close> leaves in its output: nothing when the bytes are not
  canonical, otherwise the coordinates computed so far.
\<close>

definition ge_frombytes_left :: "ge_p3 \<Rightarrow> bytes \<Rightarrow> ge_p3" where
  "ge_frombytes_left A s =
     (let h = fe_frombytes_h s
      in if fe_noncanonical h then A
      else let hY = fe_frombytes h;
               hZ = fe_1;
               u = fe_sq hY;
               v = fe_mul u fe_d;
               u = fe_sub u hZ;
               v = fe_add v hZ;
               hX = fe_divpowm1 u v;
               vxx = fe_sq hX;
               vxx = fe_mul vxx v;
               check = fe_sub vxx u;
               hX = (if fe_isnonzero check \<noteq> 0 \<and> fe_isnonzero (fe_add vxx u) = 0 then fe_mul hX fe_sqrtm1 else hX)
      in A\<lparr>p3_X := hX, p3_Y := hY, p3_Z := hZ\<rparr>)"

text \<open>\<open>ge_p3()\<close>\<close>

definition ge_p3_init :: ge_p3 where
  "ge_p3_init = \<lparr>p3_X = fe_0, p3_Y = fe_0, p3_Z = fe_0, p3_T = fe_0\<rparr>"

definition scalarmult_key :: "key_image \<Rightarrow> key_image \<Rightarrow> key_image option" where
  "scalarmult_key P a =
     do { let A = (case ge_frombytes_vartime P of Some A \<Rightarrow> A | None \<Rightarrow> ge_frombytes_left ge_p3_init P);
          R \<leftarrow> ge_scalarmult a A;
          Some (ge_tobytes R) }"

definition validate_key_image :: "key_image \<Rightarrow> bool option" where
  "validate_key_image ki =
     do { a_p \<leftarrow> scalarmult_key ki L_bytes;
          if \<not> a_p = I_bytes then Some False else Some True }"

definition secret_key_to_public_key :: "secret_key \<Rightarrow> public_key option option" where
  "secret_key_to_public_key sec =
     (if sc_check sec \<noteq> 0 then Some None
      else do { point \<leftarrow> ge_scalarmult_base sec;
                Some (Some (ge_p3_tobytes point)) })"

section \<open>One-time keys\<close>

definition generate_key_derivation :: "bool \<Rightarrow> public_key \<Rightarrow> secret_key \<Rightarrow> key_derivation option option" where
  "generate_key_derivation ndebug key1 key2 =
     do { assertion ndebug (sc_check key2 = 0);
          (case ge_frombytes_vartime key1 of
            None \<Rightarrow> Some None
          | Some point \<Rightarrow>
              do { point2 \<leftarrow> ge_scalarmult key2 point;
                   let point3 = ge_mul8 point2;
                   let point2 = ge_p1p1_to_p2 point3;
                   Some (Some (ge_tobytes point2)) }) }"

text \<open>The buffer for the index has \<open>(sizeof(size_t) * 8 + 6) / 7\<close> bytes.\<close>

definition derivation_to_scalar :: "bool \<Rightarrow> key_derivation \<Rightarrow> u64 \<Rightarrow> ec_scalar option" where
  "derivation_to_scalar ndebug derivation output_index =
     do { let index_bytes = write_varint output_index;
          assertion ndebug (length index_bytes \<le> (8 * 8 + 6) div 7);
          hash_to_scalar (derivation @ index_bytes) }"

definition derive_public_key :: "bool \<Rightarrow> key_derivation \<Rightarrow> u64 \<Rightarrow> public_key \<Rightarrow> public_key option option" where
  "derive_public_key ndebug derivation output_index base =
     (case ge_frombytes_vartime base of
        None \<Rightarrow> Some None
      | Some point1 \<Rightarrow>
          do { scalar \<leftarrow> derivation_to_scalar ndebug derivation output_index;
               point2 \<leftarrow> ge_scalarmult_base scalar;
               let point3 = ge_p3_to_cached point2;
               let point4 = ge_add point1 point3;
               let point5 = ge_p1p1_to_p2 point4;
               Some (Some (ge_tobytes point5)) })"

definition derive_secret_key :: "bool \<Rightarrow> key_derivation \<Rightarrow> u64 \<Rightarrow> secret_key \<Rightarrow> secret_key option" where
  "derive_secret_key ndebug derivation output_index base =
     do { assertion ndebug (sc_check base = 0);
          scalar \<leftarrow> derivation_to_scalar ndebug derivation output_index;
          Some (sc_add base scalar) }"

section \<open>Signatures\<close>

record s_comm =
  comm_h :: bytes
  comm_key :: ec_point
  comm_comm :: ec_point

definition s_comm_bytes :: "s_comm \<Rightarrow> bytes" where
  "s_comm_bytes buf = comm_h buf @ comm_key buf @ comm_comm buf"

text \<open>The block of \<open>generate_signature\<close> and \<open>generate_ring_signature\<close> that is compiled with assertions.\<close>

definition assert_key_pair :: "bool \<Rightarrow> public_key \<Rightarrow> secret_key \<Rightarrow> unit option" where
  "assert_key_pair ndebug pub sec =
     (if ndebug then Some ()
      else do { assertion ndebug (sc_check sec = 0);
                t \<leftarrow> ge_scalarmult_base sec;
                let t2 = ge_p3_tobytes t;
                assertion ndebug (pub = t2) })"

definition generate_signature ::
    "bool \<Rightarrow> urandom \<Rightarrow> bytes \<Rightarrow> public_key \<Rightarrow> secret_key \<Rightarrow> prng \<Rightarrow> (signature \<times> prng) option" where
  "generate_signature ndebug os prefix_hash pub sec p =
     do { assert_key_pair ndebug pub sec;
          (k, p) \<leftarrow> random_scalar os p;
          tmp3 \<leftarrow> ge_scalarmult_base k;
          let buf = \<lparr>comm_h = prefix_hash, comm_key = pub, comm_comm = ge_p3_tobytes tmp3\<rparr>;
          c \<leftarrow> hash_to_scalar (s_comm_bytes buf);
          let r = sc_mulsub c sec k;
          Some (\<lparr>sig_c = c, sig_r = r\<rparr>, p) }"

definition check_signature :: "bool \<Rightarrow> bytes \<Rightarrow> public_key \<Rightarrow> signature \<Rightarrow> bool option" where
  "check_signature ndebug prefix_hash pub sig =
     do { assertion ndebug (check_key pub);
          (case ge_frombytes_vartime pub of
             None \<Rightarrow> Some False
           | Some tmp3 \<Rightarrow>
               if sc_check (sig_c sig) \<noteq> 0 \<or> sc_check (sig_r sig) \<noteq> 0 then Some False
               else do { let tmp2 = ge_double_scalarmult_base_vartime (sig_c sig) tmp3 (sig_r sig);
                         let buf = \<lparr>comm_h = prefix_hash, comm_key = pub, comm_comm = ge_tobytes tmp2\<rparr>;
                         c \<leftarrow> hash_to_scalar (s_comm_bytes buf);
                         let c = sc_sub c (sig_c sig);
                         Some (sc_isnonzero c = 0) }) }"

section \<open>Key images\<close>

definition hash_to_ec :: "public_key \<Rightarrow> ge_p3 option" where
  "hash_to_ec key =
     do { h \<leftarrow> cn_fast_hash key;
          point \<leftarrow> ge_fromfe_frombytes_vartime h;
          let point2 = ge_mul8 point;
          Some (ge_p1p1_to_p3 point2) }"

definition generate_key_image :: "bool \<Rightarrow> public_key \<Rightarrow> secret_key \<Rightarrow> key_image option" where
  "generate_key_image ndebug pub sec =
     do { assertion ndebug (sc_check sec = 0);
          point \<leftarrow> hash_to_ec pub;
          point2 \<leftarrow> ge_scalarmult sec point;
          Some (ge_tobytes point2) }"

section \<open>Ring signatures\<close>

record rs_comm =
  rs_h :: bytes
  rs_ab :: "(ec_point \<times> ec_point) list"

definition rs_comm_size :: "nat \<Rightarrow> nat" where
  "rs_comm_size pubs_count = 32 + pubs_count * 64"

definition rs_comm_bytes :: "rs_comm \<Rightarrow> bytes" where
  "rs_comm_bytes buf = rs_h buf @ concat (map (\<lambda>(a, b). a @ b) (rs_ab buf))"

text \<open>
  The variables of the loop of \<open>generate_ring_signature\<close>: the random generator, \<open>sum\<close>, \<open>k\<close> (\<open>None\<close>
  as long as it is not initialised), the array \<open>sig\<close> and the part of \<open>buf->ab\<close> filled so far.
\<close>

record rs_state =
  rs_prng :: prng
  rs_sum :: ec_scalar
  rs_k :: "ec_scalar option"
  rs_sig :: "signature list"
  rs_points :: "(ec_point \<times> ec_point) list"

definition rs_generate_own :: "urandom \<Rightarrow> public_key list \<Rightarrow> nat \<Rightarrow> rs_state \<Rightarrow> rs_state option" where
  "rs_generate_own os pubs i s =
     do { (k, p) \<leftarrow> random_scalar os (rs_prng s);
          tmp3 \<leftarrow> ge_scalarmult_base k;
          let a = ge_p3_tobytes tmp3;
          tmp3 \<leftarrow> hash_to_ec (pubs ! i);
          tmp2 \<leftarrow> ge_scalarmult k tmp3;
          let b = ge_tobytes tmp2;
          Some (s\<lparr>rs_prng := p, rs_k := Some k, rs_points := rs_points s @ [(a, b)]\<rparr>) }"

definition rs_generate_other ::
    "urandom \<Rightarrow> ge_cached list \<Rightarrow> public_key list \<Rightarrow> nat \<Rightarrow> rs_state \<Rightarrow> rs_state option" where
  "rs_generate_other os image_pre pubs i s =
     do { (c, p) \<leftarrow> random_scalar os (rs_prng s);
          (r, p) \<leftarrow> random_scalar os p;
          tmp3 \<leftarrow> ge_frombytes_vartime (pubs ! i);
          let tmp2 = ge_double_scalarmult_base_vartime c tmp3 r;
          let a = ge_tobytes tmp2;
          tmp3 \<leftarrow> hash_to_ec (pubs ! i);
          let tmp2 = ge_double_scalarmult_precomp_vartime r tmp3 c image_pre;
          let b = ge_tobytes tmp2;
          Some (s\<lparr>rs_prng := p, rs_sum := sc_add (rs_sum s) c, rs_sig := (rs_sig s)[i := \<lparr>sig_c = c, sig_r = r\<rparr>],
                  rs_points := rs_points s @ [(a, b)]\<rparr>) }"

definition rs_generate_step ::
    "urandom \<Rightarrow> ge_cached list \<Rightarrow> public_key list \<Rightarrow> nat \<Rightarrow> nat \<Rightarrow> rs_state \<Rightarrow> rs_state option" where
  "rs_generate_step os image_pre pubs sec_index i s =
     (if i = sec_index then rs_generate_own os pubs i s else rs_generate_other os image_pre pubs i s)"

definition assert_ring :: "bool \<Rightarrow> key_image \<Rightarrow> public_key list \<Rightarrow> secret_key \<Rightarrow> nat \<Rightarrow> unit option" where
  "assert_ring ndebug ki pubs sec sec_index =
     (if ndebug then Some ()
      else do { assert_key_pair ndebug (pubs ! sec_index) sec;
                t3 \<leftarrow> generate_key_image ndebug (pubs ! sec_index) sec;
                assertion ndebug (ki = t3);
                assertion ndebug (list_all check_key pubs) })"

definition generate_ring_signature ::
    "bool \<Rightarrow> urandom \<Rightarrow> bytes \<Rightarrow> key_image \<Rightarrow> public_key list \<Rightarrow> secret_key \<Rightarrow> nat \<Rightarrow> signature list \<Rightarrow> prng
      \<Rightarrow> (signature list \<times> prng) option" where
  "generate_ring_signature ndebug os prefix_hash ki pubs sec sec_index sig p =
     do { assertion ndebug (sec_index < length pubs);
          assert_ring ndebug ki pubs sec sec_index;
          image_unp \<leftarrow> ge_frombytes_vartime ki;
          let image_pre = ge_dsm_precomp image_unp;
          s \<leftarrow> opt_fold (rs_generate_step os image_pre pubs sec_index) [0..<length pubs]
                 \<lparr>rs_prng = p, rs_sum = sc_0, rs_k = None, rs_sig = sig, rs_points = []\<rparr>;
          h \<leftarrow> hash_to_scalar (rs_comm_bytes \<lparr>rs_h = prefix_hash, rs_ab = rs_points s\<rparr>);
          k \<leftarrow> rs_k s;
          let c = sc_sub h (rs_sum s);
          let r = sc_mulsub c sec k;
          Some ((rs_sig s)[sec_index := \<lparr>sig_c = c, sig_r = r\<rparr>], rs_prng s) }"

text \<open>The loop of \<open>check_ring_signature\<close>; the inner \<open>None\<close> is \<open>return false\<close>.\<close>

fun rs_check_loop ::
    "ge_cached list \<Rightarrow> public_key list \<Rightarrow> signature list \<Rightarrow> nat list \<Rightarrow> ec_scalar \<Rightarrow> (ec_point \<times> ec_point) list
      \<Rightarrow> (ec_scalar \<times> (ec_point \<times> ec_point) list) option option" where
  "rs_check_loop image_pre pubs sig [] sm ab = Some (Some (sm, ab))"
| "rs_check_loop image_pre pubs sig (i # is) sm ab =
     (if sc_check (sig_c (sig ! i)) \<noteq> 0 \<or> sc_check (sig_r (sig ! i)) \<noteq> 0 then Some None
      else case ge_frombytes_vartime (pubs ! i) of
          None \<Rightarrow> Some None
        | Some tmp3 \<Rightarrow>
            do { let tmp2 = ge_double_scalarmult_base_vartime (sig_c (sig ! i)) tmp3 (sig_r (sig ! i));
                 let a = ge_tobytes tmp2;
                 tmp3 \<leftarrow> hash_to_ec (pubs ! i);
                 let tmp2 = ge_double_scalarmult_precomp_vartime (sig_r (sig ! i)) tmp3 (sig_c (sig ! i)) image_pre;
                 let b = ge_tobytes tmp2;
                 rs_check_loop image_pre pubs sig is (sc_add sm (sig_c (sig ! i))) (ab @ [(a, b)]) })"

definition check_ring_signature ::
    "bool \<Rightarrow> bytes \<Rightarrow> key_image \<Rightarrow> public_key list \<Rightarrow> signature list \<Rightarrow> bool option" where
  "check_ring_signature ndebug prefix_hash ki pubs sig =
     do { assertion ndebug (list_all check_key pubs);
          (case ge_frombytes_vartime ki of
             None \<Rightarrow> Some False
           | Some image_unp \<Rightarrow>
               do { let image_pre = ge_dsm_precomp image_unp;
                    res \<leftarrow> rs_check_loop image_pre pubs sig [0..<length pubs] sc_0 [];
                    (case res of
                       None \<Rightarrow> Some False
                     | Some (sm, ab) \<Rightarrow>
                         do { h \<leftarrow> hash_to_scalar (rs_comm_bytes \<lparr>rs_h = prefix_hash, rs_ab = ab\<rparr>);
                              let h = sc_sub h sm;
                              Some (sc_isnonzero h = 0) }) }) }"

end
