(* ===== verification/CryptoCorrect.thy ===== *)
theory CryptoCorrect
  imports Crypto
begin

text \<open>
  What the operations of \<open>crypto.cpp\<close> compute in the group of points and in the scalars modulo its
  order: every one of them returns, and its result is the encoding of a point or a scalar.
\<close>

section \<open>Elements whose order divides a number\<close>

text \<open>Coefficients count modulo a number that annihilates the element, as in Schnorr's identity.\<close>

locale annihilated =
  fixes n :: int and Q :: "'a::ab_group_add"
  assumes annihilates: "zmul n Q = 0"
begin

lemma zmul_mod: "zmul (k mod n) Q = zmul k Q"
proof -
  have "zmul k Q = zmul (k div n) (zmul n Q) + zmul (k mod n) Q"
    by (simp only: zmul_add zmul_mult [symmetric] div_mult_mod_eq flip: zmul_add)
  then show ?thesis by (simp add: annihilates)
qed

lemma zmul_cong: "j mod n = k mod n \<Longrightarrow> zmul j Q = zmul k Q"
  using zmul_mod [of j] zmul_mod [of k] by simp

lemma response: "zmul c (zmul x Q) + zmul ((k - c * x) mod n) Q = zmul k Q"
  by (simp add: zmul_mod zmul_diff zmul_mult)

lemma response_flip: "zmul ((k - c * x) mod n) Q + zmul c (zmul x Q) = zmul k Q"
  using response by (simp add: add.commute)

end

interpretation base: annihilated sc_order ed_B
  by unfold_locales (rule sc_order_base)

interpretation cofactor: annihilated sc_order "zmul 8 P" for P :: ed
  by unfold_locales (rule sc_order_cofactor)

section \<open>Scalars\<close>

definition is_scalar :: "bytes \<Rightarrow> bool" where
  "is_scalar s \<longleftrightarrow> length s = 32 \<and> le_val s < sc_order"

lemma is_scalar_length [simp]: "is_scalar s \<Longrightarrow> length s = 32"
  by (simp add: is_scalar_def)

lemma is_scalar_check: "length s = 32 \<Longrightarrow> sc_check s = 0 \<longleftrightarrow> is_scalar s"
  by (simp add: sc_check_residue is_scalar_def)

lemma is_scalar_sc_check [simp]: "is_scalar s \<Longrightarrow> sc_check s = 0"
  by (simp add: is_scalar_check)

lemma is_scalar_less: "is_scalar s \<Longrightarrow> le_val s < 2 ^ 255"
  by (simp add: is_scalar_def sc_order_def)

lemma top_byte:
  assumes "length s = 32" and "le_val s < 2 ^ 255"
  shows "s ! 31 \<le> 127"
proof -
  have "s = take 31 s @ [s ! 31]" using assms(1) take_Suc_conv_app_nth [of 31 s] by simp
  then have "le_val s = le_val (take 31 s) + 256 ^ 31 * uint (s ! 31)"
    using le_val_snoc [of "take 31 s" "s ! 31"] assms(1) by simp
  then have "256 ^ 31 * uint (s ! 31) < 2 ^ 255" using assms(2) le_val_nonneg [of "take 31 s"] by linarith
  then show ?thesis by (simp add: word_le_def)
qed

lemma is_scalar_top: "is_scalar s \<Longrightarrow> s ! 31 \<le> 127"
  by (rule top_byte [OF is_scalar_length is_scalar_less])

lemma is_scalar_ops:
  "length a = 32 \<Longrightarrow> length b = 32 \<Longrightarrow> is_scalar (sc_add a b)"
  "length a = 32 \<Longrightarrow> length b = 32 \<Longrightarrow> is_scalar (sc_sub a b)"
  "length a = 32 \<Longrightarrow> length b = 32 \<Longrightarrow> length c = 32 \<Longrightarrow> is_scalar (sc_mulsub a b c)"
  "length a = 32 \<Longrightarrow> is_scalar (sc_reduce32 a)"
  "length s = 64 \<Longrightarrow> is_scalar (take 32 (sc_reduce s))"
  using sc_order_pos by (simp_all add: is_scalar_def le_val_sc)

lemma is_scalar_0: "is_scalar sc_0" and le_val_sc_0: "le_val sc_0 = 0"
proof -
  show "le_val sc_0 = 0" by (simp add: sc_0_def le_val_zero_iff)
  then show "is_scalar sc_0" using sc_order_pos by (simp add: is_scalar_def sc_0_def)
qed

text \<open>The generator is ready: it is between calls, and initialised or able to initialise itself.\<close>

definition prng_live :: "urandom \<Rightarrow> prng \<Rightarrow> bool" where
  "prng_live os p \<longleftrightarrow> prng_ok p \<and> granted os p \<noteq> None"

lemma random_scalar_ok:
  assumes "prng_live os p"
  shows "\<exists>k q. random_scalar os p = Some (k, q) \<and> is_scalar k \<and> prng_live os q"
proof -
  obtain st where st: "prng_ok p" "granted os p = Some st" using assms by (auto simp: prng_live_def)
  have l: "length st = 25" by (rule length_granted [OF st(2,1)])
  then have "length (take 64 (ref_stream st ((64 + 135) div 136))) = 64" by (simp add: length_ref_stream)
  then show ?thesis
    unfolding random_scalar_def generate_random_bytes_ok [OF st]
    by (simp add: is_scalar_ops prng_live_def ready_ok l)
qed

lemma hash_to_scalar_ok:
  assumes "length data < 2 ^ 31"
  shows "\<exists>h. hash_to_scalar data = Some h \<and> is_scalar h"
  using cn_fast_hash_reference [OF assms] length_cn_fast_hash by (auto simp: hash_to_scalar_def intro!: is_scalar_ops)

section \<open>Points\<close>

definition p3_point :: "ge_p3 \<Rightarrow> ed" where
  "p3_point p = Abs_ed (fe_gf (p3_X p) / fe_gf (p3_Z p), fe_gf (p3_Y p) / fe_gf (p3_Z p))"

lemma p3_point_is: "p3_is P p \<Longrightarrow> p3_point p = P"
proof -
  assume p: "p3_is P p"
  obtain x y where P: "Rep_ed P = (x, y)" by (metis surj_pair)
  obtain z where "z dvd 1" "fe_gf (p3_X p) = x * z" "fe_gf (p3_Y p) = y * z" "fe_gf (p3_Z p) = z"
    using p by (auto simp: P dest!: fe_is_gf)
  then have "p3_point p = Abs_ed (Rep_ed P)" by (simp add: p3_point_def P gf_dvd_1_iff)
  then show ?thesis by (simp add: Rep_ed_inverse)
qed

lemma decode_encode: "\<exists>p. ge_frombytes_vartime (ed_encode P) = Some p \<and> p3_is P p"
  using ge_frombytes_canonical [of "ed_encode P"] by (auto dest: ed_encode_inject split: option.splits)

lemma decode_cases:
  assumes "length s = 32"
  obtains (point) P p where "s = ed_encode P" "ge_frombytes_vartime s = Some p" "p3_is P p"
    | (invalid) "ge_frombytes_vartime s = None" "\<nexists>P. s = ed_encode P"
  using ge_frombytes_canonical [OF assms] by (cases "ge_frombytes_vartime s") fastforce+

lemma check_key_encode [simp]: "check_key (ed_encode P)"
  using decode_encode [of P] by (auto simp: check_key_def)

lemma check_key_iff: "length s = 32 \<Longrightarrow> check_key s \<longleftrightarrow> (\<exists>P. s = ed_encode P)"
  by (rule decode_cases [of s]) (auto simp: check_key_def)

lemma ge_mul8_ed: "p2_is P p \<Longrightarrow> p1p1_is (zmul 8 P) (ge_mul8 p)"
proof -
  assume "p2_is P p"
  moreover have "zmul 8 P = P + P + (P + P) + (P + P + (P + P))"
    using zmul_mult [of 4 2 P] zmul_mult [of 2 2 P] zmul_mult [of 2 4 P] by (simp add: zmul_2)
  ultimately show ?thesis unfolding ge_mul8_def Let_def by (simp only:) (intro ge_rules)
qed

lemma base_mult_ok:
  assumes "is_scalar k"
  shows "\<exists>r. ge_scalarmult_base k = Some r \<and> p3_is (zmul (le_val k) ed_B) r \<and> ge_p3_tobytes r = ed_encode (zmul (le_val k) ed_B)"
  using ge_scalarmult_base_multiple [OF is_scalar_length is_scalar_top, OF assms assms] ge_p3_tobytes_encode by blast

lemma mult_ok:
  assumes "is_scalar k" and "p3_is A p"
  shows "\<exists>r. ge_scalarmult k p = Some r \<and> p2_is (zmul (le_val k) A) r \<and> ge_tobytes r = ed_encode (zmul (le_val k) A)"
  using ge_scalarmult_multiple [OF is_scalar_length is_scalar_top, OF assms(1,1,2)] ge_tobytes_encode by blast

lemma double_base_ok:
  assumes "is_scalar a" and "p3_is A p" and "is_scalar b"
  shows "ge_tobytes (ge_double_scalarmult_base_vartime a p b) = ed_encode (zmul (le_val a) A + zmul (le_val b) ed_B)"
  using assms by (intro ge_tobytes_encode ge_double_scalarmult_base_multiple is_scalar_less is_scalar_length)

lemma double_precomp_ok:
  assumes "is_scalar a" and "p3_is A p" and "is_scalar b" and "p3_is Q q"
  shows "ge_tobytes (ge_double_scalarmult_precomp_vartime a p b (ge_dsm_precomp q))
    = ed_encode (zmul (le_val a) A + zmul (le_val b) Q)"
  using assms by (intro ge_tobytes_encode ge_double_scalarmult_precomp_multiple is_scalar_less is_scalar_length)

text \<open>The point a key is hashed to, and that its order divides the group order.\<close>

definition ec_hash :: "bytes \<Rightarrow> ed" where
  "ec_hash key = p3_point (the (hash_to_ec key))"

lemma hash_to_ec_ok:
  assumes "length key < 2 ^ 31"
  shows "\<exists>q. hash_to_ec key = Some q \<and> p3_is (ec_hash key) q" and "\<exists>P. ec_hash key = zmul 8 P"
proof -
  obtain h where h: "cn_fast_hash key = Some h" "length h = 32"
    using cn_fast_hash_reference [OF assms] length_cn_fast_hash by blast
  obtain p P where p: "ge_fromfe_frombytes_vartime h = Some p" "p2_is P p" using ge_fromfe_total [OF h(2)] by blast
  let ?q = "ge_p1p1_to_p3 (ge_mul8 p)"
  have q: "p3_is (zmul 8 P) ?q" by (intro ge_rules ge_mul8_ed p(2))
  moreover have "hash_to_ec key = Some ?q" by (simp add: hash_to_ec_def h(1) p(1) Let_def)
  ultimately show "\<exists>q. hash_to_ec key = Some q \<and> p3_is (ec_hash key) q" "\<exists>P. ec_hash key = zmul 8 P"
    by (auto simp: ec_hash_def p3_point_is [OF q])
qed

lemma ec_hash_order: "length key < 2 ^ 31 \<Longrightarrow> annihilated sc_order (ec_hash key)"
  using hash_to_ec_ok(2) [of key] by (metis annihilated.intro sc_order_cofactor)

section \<open>Keys\<close>

text \<open>The public key of a secret key.\<close>

definition public_of :: "secret_key \<Rightarrow> public_key" where
  "public_of sec = ed_encode (zmul (le_val sec) ed_B)"

lemma length_public_of [simp]: "length (public_of sec) = 32"
  by (simp add: public_of_def)

lemma base_mult_public:
  "is_scalar k \<Longrightarrow> \<exists>r. ge_scalarmult_base k = Some r \<and> p3_is (zmul (le_val k) ed_B) r \<and> ge_p3_tobytes r = public_of k"
  unfolding public_of_def by (rule base_mult_ok)

lemma secret_key_to_public_key_eq:
  "length sec = 32 \<Longrightarrow> secret_key_to_public_key sec = Some (if is_scalar sec then Some (public_of sec) else None)"
  using base_mult_public [of sec] by (auto simp: secret_key_to_public_key_def is_scalar_check)

lemma generate_keys_eq:
  assumes "prng_live os p"
  shows "\<exists>sec q. generate_keys os p = Some (public_of sec, sec, sec, q) \<and> is_scalar sec \<and> prng_live os q"
proof -
  obtain sec q where "random_scalar os p = Some (sec, q)" "is_scalar sec" "prng_live os q"
    using random_scalar_ok [OF assms] by blast
  then show ?thesis using base_mult_public [of sec] by (auto simp: generate_keys_def Let_def)
qed

lemma assertion_ok [simp]: "c \<Longrightarrow> assertion ndebug c = Some ()"
  by (simp add: assertion_def)

lemma assert_key_pair_ok: "is_scalar sec \<Longrightarrow> assert_key_pair ndebug (public_of sec) sec = Some ()"
  using base_mult_public [of sec] by (auto simp: assert_key_pair_def Let_def)

lemma generate_key_derivation_eq:
  assumes "is_scalar sec"
  shows "generate_key_derivation ndebug (ed_encode P) sec = Some (Some (ed_encode (zmul 8 (zmul (le_val sec) P))))"
proof -
  obtain p where p: "ge_frombytes_vartime (ed_encode P) = Some p" "p3_is P p" using decode_encode by blast
  obtain r where r: "ge_scalarmult sec p = Some r" "p2_is (zmul (le_val sec) P) r" using mult_ok [OF assms p(2)] by blast
  have "ge_tobytes (ge_p1p1_to_p2 (ge_mul8 r)) = ed_encode (zmul 8 (zmul (le_val sec) P))"
    by (intro ge_tobytes_encode ge_rules ge_mul8_ed r(2))
  then show ?thesis by (simp add: generate_key_derivation_def assms p(1) r(1) Let_def)
qed

lemma length_write_varint_10: "length (write_varint v) \<le> 10"
  using length_write_varint [of v 9] uint_lt2p [of v] by simp

text \<open>The scalar of a derivation and an index.\<close>

definition derivation_scalar :: "key_derivation \<Rightarrow> u64 \<Rightarrow> ec_scalar" where
  "derivation_scalar d i = the (hash_to_scalar (d @ write_varint i))"

lemma derivation_to_scalar_eq:
  assumes "length d = 32"
  shows "derivation_to_scalar ndebug d i = Some (derivation_scalar d i)" and "is_scalar (derivation_scalar d i)"
proof -
  have "length (d @ write_varint i) < 2 ^ 31" using assms length_write_varint_10 [of i] by simp
  from hash_to_scalar_ok [OF this]
  show "derivation_to_scalar ndebug d i = Some (derivation_scalar d i)" "is_scalar (derivation_scalar d i)"
    using length_write_varint_10 [of i] by (auto simp: derivation_to_scalar_def derivation_scalar_def)
qed

lemma derive_public_key_eq:
  assumes "length d = 32"
  shows "derive_public_key ndebug d i (ed_encode P) = Some (Some (ed_encode (P + zmul (le_val (derivation_scalar d i)) ed_B)))"
proof -
  obtain p where p: "ge_frombytes_vartime (ed_encode P) = Some p" "p3_is P p" using decode_encode by blast
  obtain r where r: "ge_scalarmult_base (derivation_scalar d i) = Some r" "p3_is (zmul (le_val (derivation_scalar d i)) ed_B) r"
    using base_mult_ok [OF derivation_to_scalar_eq(2) [OF assms]] by blast
  have "ge_tobytes (ge_p1p1_to_p2 (ge_add p (ge_p3_to_cached r))) = ed_encode (P + zmul (le_val (derivation_scalar d i)) ed_B)"
    by (intro ge_tobytes_encode ge_rules p(2) r(2))
  then show ?thesis by (simp add: derive_public_key_def derivation_to_scalar_eq(1) [OF assms] p(1) r(1) Let_def)
qed

lemma derive_secret_key_eq:
  "length d = 32 \<Longrightarrow> is_scalar sec \<Longrightarrow> derive_secret_key ndebug d i sec = Some (sc_add sec (derivation_scalar d i))"
  by (simp add: derive_secret_key_def derivation_to_scalar_eq(1))

section \<open>Key images\<close>

lemma generate_key_image_eq:
  assumes "is_scalar sec" and "length pub = 32"
  shows "generate_key_image ndebug pub sec = Some (ed_encode (zmul (le_val sec) (ec_hash pub)))"
proof -
  obtain q where q: "hash_to_ec pub = Some q" "p3_is (ec_hash pub) q" using hash_to_ec_ok(1) [of pub] assms(2) by auto
  obtain r where "ge_scalarmult sec q = Some r" "ge_tobytes r = ed_encode (zmul (le_val sec) (ec_hash pub))"
    using mult_ok [OF assms(1) q(2)] by blast
  then show ?thesis by (simp add: generate_key_image_def assms(1) q(1))
qed

lemma L_bytes_scalar: "length L_bytes = 32" "le_val L_bytes = sc_order" "L_bytes ! 31 \<le> 127"
  by (simp_all add: L_bytes_def sc_order_def)

lemma I_bytes_encode: "ed_encode 0 = I_bytes"
proof (rule le_val_inject)
  have "le_val (ed_encode 0) = 1" using le_val_ed_encode [of 0 0 1] by (simp add: zero_ed.rep_eq ed_zero_def zero_gf.rep_eq one_gf.rep_eq)
  then show "le_val (ed_encode 0) = le_val I_bytes" by (simp add: I_bytes_def)
qed (simp add: I_bytes_def)

lemma scalarmult_key_eq:
  assumes "length a = 32" and "le_val a < 2 ^ 255"
  shows "scalarmult_key (ed_encode P) a = Some (ed_encode (zmul (le_val a) P))"
proof -
  obtain p where p: "ge_frombytes_vartime (ed_encode P) = Some p" "p3_is P p" using decode_encode by blast
  obtain r where "ge_scalarmult a p = Some r" "p2_is (zmul (le_val a) P) r"
    using ge_scalarmult_multiple [OF assms(1) top_byte [OF assms] p(2)] by blast
  then show ?thesis by (simp add: scalarmult_key_def p(1) ge_tobytes_encode)
qed

lemma validate_key_image_eq: "validate_key_image (ed_encode P) = Some (zmul sc_order P = 0)"
proof -
  have "scalarmult_key (ed_encode P) L_bytes = Some (ed_encode (zmul sc_order P))"
    using scalarmult_key_eq [of L_bytes P] by (simp add: L_bytes_scalar) (simp add: sc_order_def)
  moreover have "ed_encode (zmul sc_order P) = I_bytes \<longleftrightarrow> zmul sc_order P = 0"
    using ed_encode_inject I_bytes_encode by metis
  ultimately show ?thesis by (simp add: validate_key_image_def)
qed

section \<open>Signatures\<close>

lemma sc_sub_zero: "is_scalar a \<Longrightarrow> is_scalar b \<Longrightarrow> sc_isnonzero (sc_sub a b) = 0 \<longleftrightarrow> a = b"
proof -
  assume a: "is_scalar a" and b: "is_scalar b"
  have "sc_isnonzero (sc_sub a b) = 0 \<longleftrightarrow> le_val a mod sc_order = le_val b mod sc_order"
    using a b by (simp add: sc_isnonzero_flag le_val_sc mod_eq_dvd_iff dvd_eq_mod_eq_0)
  also have "\<dots> \<longleftrightarrow> le_val a = le_val b" using a b by (simp add: is_scalar_def)
  also have "\<dots> \<longleftrightarrow> a = b" using a b le_val_inject [of a b] by auto
  finally show ?thesis .
qed

text \<open>The point of a public key that decodes.\<close>

definition key_point :: "public_key \<Rightarrow> ed" where
  "key_point pub = p3_point (the (ge_frombytes_vartime pub))"

lemma key_point_encode [simp]: "key_point (ed_encode P) = P"
  using decode_encode [of P] by (auto simp: key_point_def p3_point_is)

lemma check_key_decode:
  assumes "length s = 32" and "check_key s"
  shows "ed_encode (key_point s) = s" and "\<exists>p. ge_frombytes_vartime s = Some p \<and> p3_is (key_point s) p"
  using assms decode_encode by (auto simp: check_key_iff)

lemma check_signature_eq:
  assumes "length h = 32" and "length pub = 32" and "length (sig_c sig) = 32" and "length (sig_r sig) = 32" and "check_key pub"
  shows "check_signature ndebug h pub sig
    = Some (is_scalar (sig_c sig) \<and> is_scalar (sig_r sig)
        \<and> hash_to_scalar (h @ pub @ ed_encode (zmul (le_val (sig_c sig)) (key_point pub) + zmul (le_val (sig_r sig)) ed_B)) = Some (sig_c sig))"
proof (cases "is_scalar (sig_c sig) \<and> is_scalar (sig_r sig)")
  case True
  obtain p where p: "ge_frombytes_vartime pub = Some p" "p3_is (key_point pub) p" using check_key_decode(2) [OF assms(2,5)] by blast
  let ?comm = "ed_encode (zmul (le_val (sig_c sig)) (key_point pub) + zmul (le_val (sig_r sig)) ed_B)"
  obtain c where c: "hash_to_scalar (h @ pub @ ?comm) = Some c" "is_scalar c"
    using hash_to_scalar_ok [of "h @ pub @ ?comm"] assms by auto
  show ?thesis
    using True c sc_sub_zero [OF c(2), of "sig_c sig"] double_base_ok [OF _ p(2), of "sig_c sig" "sig_r sig"]
    by (simp add: check_signature_def assms(5) p(1) s_comm_bytes_def Let_def)
next
  case False
  then show ?thesis
    using assms check_key_decode(2) [OF assms(2,5)] by (auto simp: check_signature_def is_scalar_check)
qed

lemma generate_signature_eq:
  assumes "prng_live os p" and "is_scalar sec" and "length h = 32"
  shows "\<exists>k q c. generate_signature ndebug os h (public_of sec) sec p = Some (\<lparr>sig_c = c, sig_r = sc_mulsub c sec k\<rparr>, q)
    \<and> is_scalar k \<and> prng_live os q \<and> is_scalar c
    \<and> hash_to_scalar (h @ public_of sec @ ed_encode (zmul (le_val k) ed_B)) = Some c"
proof -
  obtain k q where k: "random_scalar os p = Some (k, q)" "is_scalar k" "prng_live os q"
    using random_scalar_ok [OF assms(1)] by blast
  obtain c where c: "hash_to_scalar (h @ public_of sec @ ed_encode (zmul (le_val k) ed_B)) = Some c" "is_scalar c"
    using hash_to_scalar_ok [of "h @ public_of sec @ ed_encode (zmul (le_val k) ed_B)"] assms by auto
  show ?thesis
    using base_mult_ok [OF k(2)] k c
    by (auto simp: generate_signature_def assert_key_pair_ok [OF assms(2)] s_comm_bytes_def Let_def)
qed

lemma response_scalar: "is_scalar c \<Longrightarrow> is_scalar x \<Longrightarrow> is_scalar k \<Longrightarrow>
    is_scalar (sc_mulsub c x k) \<and> le_val (sc_mulsub c x k) = (le_val k - le_val c * le_val x) mod sc_order"
  by (simp add: is_scalar_ops le_val_sc)

section \<open>Ring signatures\<close>

text \<open>The two commitments that a member of the ring contributes to the hash.\<close>

definition ring_point :: "ed \<Rightarrow> public_key list \<Rightarrow> signature list \<Rightarrow> nat \<Rightarrow> ec_point \<times> ec_point" where
  "ring_point J pubs sig i =
     (ed_encode (zmul (le_val (sig_c (sig ! i))) (key_point (pubs ! i)) + zmul (le_val (sig_r (sig ! i))) ed_B),
      ed_encode (zmul (le_val (sig_r (sig ! i))) (ec_hash (pubs ! i)) + zmul (le_val (sig_c (sig ! i))) J))"

definition sig_scalars :: "signature \<Rightarrow> bool" where
  "sig_scalars sg \<longleftrightarrow> is_scalar (sig_c sg) \<and> is_scalar (sig_r sg)"

definition ring_sum :: "signature list \<Rightarrow> nat set \<Rightarrow> int" where
  "ring_sum sig A = (\<Sum>i\<in>A. le_val (sig_c (sig ! i)))"

lemma rs_check_loop_ok:
  assumes "p3_is J q" and "\<And>i. i \<in> set is \<Longrightarrow> sig_scalars (sig ! i) \<and> length (pubs ! i) = 32 \<and> check_key (pubs ! i)"
    and "is_scalar sm" and "distinct is"
  shows "\<exists>s. rs_check_loop (ge_dsm_precomp q) pubs sig is sm ab = Some (Some (s, ab @ map (ring_point J pubs sig) is))
    \<and> is_scalar s \<and> le_val s = (le_val sm + ring_sum sig (set is)) mod sc_order"
  using assms(2-4)
proof (induction "is" arbitrary: sm ab)
  case Nil
  then show ?case by (simp add: ring_sum_def is_scalar_def)
next
  case (Cons i "is")
  let ?c = "sig_c (sig ! i)" and ?r = "sig_r (sig ! i)"
  have sc: "is_scalar ?c" "is_scalar ?r" and key: "length (pubs ! i) = 32" "check_key (pubs ! i)"
    using Cons.prems(1) [of i] by (simp_all add: sig_scalars_def)
  obtain p where p: "ge_frombytes_vartime (pubs ! i) = Some p" "p3_is (key_point (pubs ! i)) p"
    using check_key_decode(2) [OF key] by blast
  obtain t where t: "hash_to_ec (pubs ! i) = Some t" "p3_is (ec_hash (pubs ! i)) t"
    using hash_to_ec_ok(1) [of "pubs ! i"] key(1) by auto
  have sm: "is_scalar (sc_add sm ?c)" "le_val (sc_add sm ?c) = (le_val sm + le_val ?c) mod sc_order"
    using Cons.prems(2) sc(1) by (simp_all add: is_scalar_ops le_val_sc)
  obtain s where "rs_check_loop (ge_dsm_precomp q) pubs sig is (sc_add sm ?c) (ab @ [ring_point J pubs sig i])
      = Some (Some (s, (ab @ [ring_point J pubs sig i]) @ map (ring_point J pubs sig) is))"
    "is_scalar s" "le_val s = (le_val (sc_add sm ?c) + ring_sum sig (set is)) mod sc_order"
    using Cons.IH [OF _ sm(1), of "ab @ [ring_point J pubs sig i]"] Cons.prems(1,3) by auto
  moreover have "(ge_tobytes (ge_double_scalarmult_base_vartime ?c p ?r),
      ge_tobytes (ge_double_scalarmult_precomp_vartime ?r t ?c (ge_dsm_precomp q))) = ring_point J pubs sig i"
    by (simp add: ring_point_def double_base_ok [OF sc(1) p(2) sc(2)] double_precomp_ok [OF sc(2) t(2) sc(1) assms(1)])
  ultimately show ?case
    using Cons.prems(3) sc p(1) t(1) sm(2) by (simp add: ring_sum_def mod_simps add.assoc Let_def)
qed

lemma rs_check_loop_reject:
  assumes "\<And>i. i \<in> set is \<Longrightarrow> length (pubs ! i) = 32 \<and> length (sig_c (sig ! i)) = 32 \<and> length (sig_r (sig ! i)) = 32"
    and "\<exists>i\<in>set is. \<not> sig_scalars (sig ! i) \<or> \<not> check_key (pubs ! i)"
  shows "rs_check_loop pre pubs sig is sm ab = Some None"
  using assms
proof (induction "is" arbitrary: sm ab)
  case (Cons i "is")
  have l: "length (pubs ! i) = 32" "length (sig_c (sig ! i)) = 32" "length (sig_r (sig ! i)) = 32" using Cons.prems(1) by simp_all
  show ?case
  proof (cases "sig_scalars (sig ! i) \<and> check_key (pubs ! i)")
    case True
    then have "\<exists>i\<in>set is. \<not> sig_scalars (sig ! i) \<or> \<not> check_key (pubs ! i)" using Cons.prems(2) by auto
    moreover obtain t where "hash_to_ec (pubs ! i) = Some t" using hash_to_ec_ok(1) [of "pubs ! i"] l by auto
    ultimately show ?thesis using Cons True by (auto simp: Let_def split: option.splits)
  next
    case False
    then show ?thesis using l by (auto simp: sig_scalars_def is_scalar_check check_key_def)
  qed
qed simp

lemma length_rs_bytes:
  "\<forall>ab\<in>set pts. length (fst ab) + length (snd ab) = 64 \<Longrightarrow> length (rs_comm_bytes \<lparr>rs_h = h, rs_ab = pts\<rparr>) = length h + 64 * length pts"
  by (induction pts) (auto simp: rs_comm_bytes_def)

lemma length_ring_bytes: "length (rs_comm_bytes \<lparr>rs_h = h, rs_ab = map (ring_point J pubs sig) is\<rparr>) = length h + 64 * length is"
  by (subst length_rs_bytes) (auto simp: ring_point_def)

text \<open>What the verification of a ring signature asks of the image, the keys and the scalars.\<close>

definition ring_accepts :: "bytes \<Rightarrow> ed \<Rightarrow> public_key list \<Rightarrow> signature list \<Rightarrow> bool" where
  "ring_accepts h J pubs sig \<longleftrightarrow> (\<forall>i<length pubs. sig_scalars (sig ! i) \<and> check_key (pubs ! i))
     \<and> (\<exists>c. hash_to_scalar (rs_comm_bytes \<lparr>rs_h = h, rs_ab = map (ring_point J pubs sig) [0..<length pubs]\<rparr>) = Some c
         \<and> le_val c = ring_sum sig {..<length pubs} mod sc_order)"

lemma check_ring_signature_eq:
  assumes "length h = 32" and "32 + 64 * length pubs < 2 ^ 31"
    and "\<And>i. i < length pubs \<Longrightarrow> length (pubs ! i) = 32 \<and> length (sig_c (sig ! i)) = 32 \<and> length (sig_r (sig ! i)) = 32"
    and "ndebug \<or> list_all check_key pubs"
  shows "check_ring_signature ndebug h (ed_encode J) pubs sig = Some (ring_accepts h J pubs sig)"
proof -
  have a: "assertion ndebug (list_all check_key pubs) = Some ()" using assms(4) by (auto simp: assertion_def)
  obtain q where q: "ge_frombytes_vartime (ed_encode J) = Some q" "p3_is J q" using decode_encode by blast
  let ?is = "[0..<length pubs]"
  show ?thesis
  proof (cases "\<forall>i<length pubs. sig_scalars (sig ! i) \<and> check_key (pubs ! i)")
    case True
    let ?buf = "rs_comm_bytes \<lparr>rs_h = h, rs_ab = map (ring_point J pubs sig) ?is\<rparr>"
    obtain s where s: "rs_check_loop (ge_dsm_precomp q) pubs sig ?is sc_0 [] = Some (Some (s, map (ring_point J pubs sig) ?is))"
      "is_scalar s" "le_val s = ring_sum sig {..<length pubs} mod sc_order"
      using rs_check_loop_ok [OF q(2), of ?is sig pubs sc_0 "[]"] True assms(3)
      by (auto simp: is_scalar_0 le_val_sc_0 atLeast0LessThan)
    obtain c where c: "hash_to_scalar ?buf = Some c" "is_scalar c"
      using hash_to_scalar_ok [of ?buf] assms(1,2) unfolding length_ring_bytes by auto
    have "c = s \<longleftrightarrow> le_val c = le_val s" using c(2) s(2) le_val_inject [of c s] by auto
    then show ?thesis
      using True sc_sub_zero [OF c(2) s(2)] by (simp add: check_ring_signature_def a q(1) s(1,3) c(1) ring_accepts_def Let_def)
  next
    case False
    then have "rs_check_loop (ge_dsm_precomp q) pubs sig ?is sc_0 [] = Some None"
      using assms(3) by (intro rs_check_loop_reject) auto
    then show ?thesis using False by (auto simp: check_ring_signature_def a q(1) ring_accepts_def Let_def)
  qed
qed

end
