(* ===== verification/RingSign.thy ===== *)
theory RingSign
  imports CryptoCorrect
begin

text \<open>
  The loop of \<open>generate_ring_signature\<close> and what it leaves for the closing step: random scalars for
  the other members of the ring, the commitments of every member, and the sum of the challenges.
\<close>

section \<open>The loop\<close>

text \<open>The commitments before the ring is closed: those of the signer are made with \<open>k\<close>.\<close>

definition open_point :: "ed \<Rightarrow> public_key list \<Rightarrow> nat \<Rightarrow> ec_scalar \<Rightarrow> signature list \<Rightarrow> nat \<Rightarrow> ec_point \<times> ec_point" where
  "open_point J pubs own k sig i =
     (if i = own then (ed_encode (zmul (le_val k) ed_B), ed_encode (zmul (le_val k) (ec_hash (pubs ! i))))
      else ring_point J pubs sig i)"

definition rs_inv :: "urandom \<Rightarrow> ed \<Rightarrow> public_key list \<Rightarrow> nat \<Rightarrow> nat \<Rightarrow> rs_state \<Rightarrow> bool" where
  "rs_inv os J pubs own m s \<longleftrightarrow>
     prng_live os (rs_prng s) \<and> length (rs_sig s) = length pubs \<and> is_scalar (rs_sum s)
     \<and> le_val (rs_sum s) = ring_sum (rs_sig s) ({..<m} - {own}) mod sc_order
     \<and> (\<forall>i<m. i \<noteq> own \<longrightarrow> sig_scalars (rs_sig s ! i))
     \<and> (own < m \<longrightarrow> (\<exists>k. rs_k s = Some k \<and> is_scalar k))
     \<and> rs_points s = map (open_point J pubs own (the (rs_k s)) (rs_sig s)) [0..<m]"

lemma rs_inv_start:
  "prng_live os p \<Longrightarrow> length sig = length pubs
    \<Longrightarrow> rs_inv os J pubs own 0 \<lparr>rs_prng = p, rs_sum = sc_0, rs_k = None, rs_sig = sig, rs_points = []\<rparr>"
  by (simp add: rs_inv_def is_scalar_0 le_val_sc_0 ring_sum_def)

lemma rs_generate_own_inv:
  assumes "rs_inv os J pubs own own s" and "own < length pubs" and "length (pubs ! own) = 32"
  shows "\<exists>s'. rs_generate_own os pubs own s = Some s' \<and> rs_inv os J pubs own (Suc own) s'"
proof -
  obtain k q where k: "random_scalar os (rs_prng s) = Some (k, q)" "is_scalar k" "prng_live os q"
    using random_scalar_ok [of os "rs_prng s"] assms(1) by (auto simp: rs_inv_def)
  obtain r where r: "ge_scalarmult_base k = Some r" "ge_p3_tobytes r = ed_encode (zmul (le_val k) ed_B)"
    using base_mult_ok [OF k(2)] by blast
  obtain t where t: "hash_to_ec (pubs ! own) = Some t" "p3_is (ec_hash (pubs ! own)) t"
    using hash_to_ec_ok(1) [of "pubs ! own"] assms(3) by auto
  obtain u where u: "ge_scalarmult k t = Some u" "ge_tobytes u = ed_encode (zmul (le_val k) (ec_hash (pubs ! own)))"
    using mult_ok [OF k(2) t(2)] by blast
  have o: "{..<Suc own} - {own} = {..<own} - {own}" by auto
  show ?thesis
    using assms(1) k(2,3)
    by (auto simp: rs_generate_own_def k(1) r t(1) u rs_inv_def o open_point_def less_Suc_eq Let_def)
qed

lemma ring_sum_update:
  assumes "m < length sig" and "m \<notin> A" and "finite A"
  shows "ring_sum (sig[m := x]) A = ring_sum sig A" and "ring_sum (sig[m := x]) (insert m A) = le_val (sig_c x) + ring_sum sig A"
proof -
  show "ring_sum (sig[m := x]) A = ring_sum sig A"
    unfolding ring_sum_def by (rule sum.cong [OF refl]) (metis assms(2) nth_list_update_neq)
  then show "ring_sum (sig[m := x]) (insert m A) = le_val (sig_c x) + ring_sum sig A"
    using assms by (simp add: ring_sum_def)
qed

lemma open_point_update: "i \<noteq> m \<Longrightarrow> open_point J pubs own k (sig[m := x]) i = open_point J pubs own k sig i"
  by (simp add: open_point_def ring_point_def)

lemma length_open_point: "length (fst (open_point J pubs own k sig i)) + length (snd (open_point J pubs own k sig i)) = 64"
  by (simp add: open_point_def ring_point_def)

lemma rs_generate_other_inv:
  assumes "rs_inv os J pubs own m s" and "m < length pubs" and "m \<noteq> own" and "length (pubs ! m) = 32" and "check_key (pubs ! m)"
    and "p3_is J q"
  shows "\<exists>s'. rs_generate_other os (ge_dsm_precomp q) pubs m s = Some s' \<and> rs_inv os J pubs own (Suc m) s'"
proof -
  have live: "prng_live os (rs_prng s)" and len: "length (rs_sig s) = length pubs" and sm: "is_scalar (rs_sum s)"
    "le_val (rs_sum s) = ring_sum (rs_sig s) ({..<m} - {own}) mod sc_order"
    using assms(1) by (simp_all add: rs_inv_def)
  obtain c p1 where c: "random_scalar os (rs_prng s) = Some (c, p1)" "is_scalar c" "prng_live os p1"
    using random_scalar_ok [OF live] by blast
  obtain r p2 where r: "random_scalar os p1 = Some (r, p2)" "is_scalar r" "prng_live os p2"
    using random_scalar_ok [OF c(3)] by blast
  obtain p where p: "ge_frombytes_vartime (pubs ! m) = Some p" "p3_is (key_point (pubs ! m)) p"
    using check_key_decode(2) [OF assms(4,5)] by blast
  obtain t where t: "hash_to_ec (pubs ! m) = Some t" "p3_is (ec_hash (pubs ! m)) t"
    using hash_to_ec_ok(1) [of "pubs ! m"] assms(4) by auto
  let ?x = "\<lparr>sig_c = c, sig_r = r\<rparr>"
  let ?sig = "(rs_sig s)[m := ?x]"
  have pt: "(ge_tobytes (ge_double_scalarmult_base_vartime c p r),
      ge_tobytes (ge_double_scalarmult_precomp_vartime r t c (ge_dsm_precomp q))) = open_point J pubs own k ?sig m" for k
    using assms(2,3) len
    by (simp add: open_point_def ring_point_def double_base_ok [OF c(2) p(2) r(2)] double_precomp_ok [OF r(2) t(2) c(2) assms(6)])
  have A: "{..<Suc m} - {own} = insert m ({..<m} - {own})" using assms(3) by auto
  have sum: "le_val (sc_add (rs_sum s) c) = ring_sum ?sig ({..<Suc m} - {own}) mod sc_order"
    unfolding A using sm c(2) ring_sum_update(2) [of m "rs_sig s" "{..<m} - {own}" ?x] assms(2) len
    by (simp add: le_val_sc mod_simps add.commute)
  show ?thesis
    using assms(1-3) c(2) r(2,3) sum is_scalar_ops(1) [of "rs_sum s" c] sm(1) len
    by (auto simp: rs_generate_other_def c(1) r(1) p(1) t(1) pt [of "the (rs_k s)"] rs_inv_def open_point_update
        nth_list_update sig_scalars_def less_Suc_eq Let_def)
qed

lemma rs_generate_loop:
  assumes "prng_live os p" and "length sig = length pubs" and "own < length pubs" and "p3_is J q"
    and "\<And>i. i < length pubs \<Longrightarrow> length (pubs ! i) = 32 \<and> check_key (pubs ! i)"
  shows "\<exists>s. opt_fold (rs_generate_step os (ge_dsm_precomp q) pubs own) [0..<length pubs]
      \<lparr>rs_prng = p, rs_sum = sc_0, rs_k = None, rs_sig = sig, rs_points = []\<rparr> = Some s
    \<and> rs_inv os J pubs own (length pubs) s"
proof -
  let ?s = "\<lparr>rs_prng = p, rs_sum = sc_0, rs_k = None, rs_sig = sig, rs_points = []\<rparr>" and ?is = "[0..<length pubs]"
  have "\<exists>s. opt_fold (rs_generate_step os (ge_dsm_precomp q) pubs own) ?is ?s = Some s \<and> rs_inv os J pubs own (length ?is) s"
  proof (rule opt_fold_invariant)
    show "rs_inv os J pubs own 0 ?s" by (rule rs_inv_start [OF assms(1,2)])
    fix m s assume m: "m < length ?is" and s: "rs_inv os J pubs own m s"
    then have "m < length pubs" "?is ! m = m" "length (pubs ! m) = 32" "check_key (pubs ! m)" using assms(5) by simp_all
    then show "\<exists>s'. rs_generate_step os (ge_dsm_precomp q) pubs own (?is ! m) s = Some s' \<and> rs_inv os J pubs own (Suc m) s'"
      using rs_generate_own_inv [of os J pubs own s] rs_generate_other_inv [OF s _ _ _ _ assms(4)] s
      by (cases "m = own") (simp_all add: rs_generate_step_def)
  qed
  then show ?thesis by simp
qed

section \<open>Closing the ring\<close>

lemma ring_close:
  assumes "is_scalar k" and "is_scalar x" and "is_scalar c" and "i < length sig" and "length (pubs ! i) = 32"
    and "pubs ! i = public_of x" and "J = zmul (le_val x) (ec_hash (pubs ! i))"
  shows "ring_point J pubs (sig[i := \<lparr>sig_c = c, sig_r = sc_mulsub c x k\<rparr>]) i = open_point J pubs i k sig i"
proof -
  note r = response_scalar [OF assms(3,2,1), THEN conjunct2]
  have "length (pubs ! i) < 2 ^ 31" using assms(5) by simp
  note h = annihilated.response_flip [OF ec_hash_order [OF this]]
  show ?thesis
    using assms(4) base.response h
    by (simp add: ring_point_def open_point_def r assms(6) public_of_def) (simp add: assms(7) assms(6) public_of_def)
qed

lemma assert_ring_ok:
  assumes "is_scalar x" and "pubs ! own = public_of x" and "J = zmul (le_val x) (ec_hash (pubs ! own))" and "list_all check_key pubs"
  shows "assert_ring ndebug (ed_encode J) pubs x own = Some ()"
  using assms generate_key_image_eq [OF assms(1), of "pubs ! own" False]
  by (simp add: assert_ring_def assert_key_pair_ok)

lemma generate_ring_signature_eq:
  assumes "prng_live os p" and "length h = 32" and "32 + 64 * length pubs < 2 ^ 31" and "length sig = length pubs"
    and "own < length pubs" and "\<And>i. i < length pubs \<Longrightarrow> length (pubs ! i) = 32 \<and> check_key (pubs ! i)"
    and "is_scalar x" and "pubs ! own = public_of x" and "J = zmul (le_val x) (ec_hash (pubs ! own))"
  shows "\<exists>sg q. generate_ring_signature ndebug os h (ed_encode J) pubs x own sig p = Some (sg, q)
    \<and> length sg = length pubs \<and> ring_accepts h J pubs sg \<and> prng_live os q"
proof -
  let ?n = "length pubs"
  obtain j where j: "ge_frombytes_vartime (ed_encode J) = Some j" "p3_is J j" using decode_encode by blast
  obtain s where s: "opt_fold (rs_generate_step os (ge_dsm_precomp j) pubs own) [0..<?n]
      \<lparr>rs_prng = p, rs_sum = sc_0, rs_k = None, rs_sig = sig, rs_points = []\<rparr> = Some s" "rs_inv os J pubs own ?n s"
    using rs_generate_loop [OF assms(1,4,5) j(2) assms(6)] by blast
  obtain k where k: "rs_k s = Some k" "is_scalar k" using s(2) assms(5) by (auto simp: rs_inv_def)
  have sm: "is_scalar (rs_sum s)" "le_val (rs_sum s) = ring_sum (rs_sig s) ({..<?n} - {own}) mod sc_order" and len: "length (rs_sig s) = ?n"
    and pts: "rs_points s = map (open_point J pubs own k (rs_sig s)) [0..<?n]"
    and sc: "\<And>i. i < ?n \<Longrightarrow> i \<noteq> own \<Longrightarrow> sig_scalars (rs_sig s ! i)" and live: "prng_live os (rs_prng s)"
    using s(2) k(1) by (simp_all add: rs_inv_def)
  let ?buf = "\<lambda>ab. rs_comm_bytes \<lparr>rs_h = h, rs_ab = ab\<rparr>"
  have "length (?buf (rs_points s)) < 2 ^ 31"
    using assms(2,3) length_rs_bytes [of "rs_points s" h] length_open_point by (auto simp: pts)
  then obtain hh where hh: "hash_to_scalar (?buf (rs_points s)) = Some hh" "is_scalar hh" using hash_to_scalar_ok by blast
  let ?c = "sc_sub hh (rs_sum s)"
  let ?x = "\<lparr>sig_c = ?c, sig_r = sc_mulsub ?c x k\<rparr>"
  let ?sg = "(rs_sig s)[own := ?x]"
  have c: "is_scalar ?c" "le_val ?c = (le_val hh - le_val (rs_sum s)) mod sc_order"
    using hh(2) sm(1) by (simp_all add: is_scalar_ops le_val_sc)
  have gen: "generate_ring_signature ndebug os h (ed_encode J) pubs x own sig p = Some (?sg, rs_prng s)"
    using assms(5) assert_ring_ok [OF assms(7,8,9), of ndebug] assms(6)
    by (simp add: generate_ring_signature_def j(1) s(1) hh(1) k(1) Let_def list_all_length)
  have own: "ring_point J pubs ?sg own = open_point J pubs own k (rs_sig s) own"
    using assms(5,6) len by (intro ring_close k(2) assms(7-9) c(1)) simp_all
  have "map (ring_point J pubs ?sg) [0..<?n] = rs_points s"
    unfolding pts using own by (auto simp: open_point_def ring_point_def)
  moreover have "le_val hh = ring_sum ?sg {..<?n} mod sc_order"
  proof -
    have A: "{..<?n} = insert own ({..<?n} - {own})" using assms(5) by auto
    have "ring_sum ?sg {..<?n} = le_val ?c + ring_sum (rs_sig s) ({..<?n} - {own})"
      by (subst A) (use ring_sum_update(2) [of own "rs_sig s" "{..<?n} - {own}" ?x] assms(5) len in simp)
    then have "ring_sum ?sg {..<?n} mod sc_order = le_val hh mod sc_order" by (simp add: c(2) sm(2) mod_simps)
    then show ?thesis using hh(2) by (simp add: is_scalar_def)
  qed
  moreover have "sig_scalars (?sg ! i) \<and> check_key (pubs ! i)" if "i < ?n" for i
    using that sc [of i] assms(6) [of i] len response_scalar [OF c(1) assms(7) k(2)] c(1)
    by (cases "i = own") (simp_all add: sig_scalars_def)
  ultimately have "ring_accepts h J pubs ?sg" using hh(1) by (simp add: ring_accepts_def)
  then show ?thesis using gen live len by auto
qed

end
