(* ===== verification/TreeHash.thy ===== *)
theory TreeHash
  imports Hash "HOL-Library.Monad_Syntax"
begin

text \<open>
  The Merkle root of \<open>tree-hash.c\<close>, with the recursive definition of a binary hash tree as its
  reference.
\<close>

section \<open>The code\<close>

text \<open>The largest power of two below \<open>count\<close>, by smearing the top bit of \<open>count - 1\<close>.\<close>

definition tree_cnt :: "u64 \<Rightarrow> u64" where
  "tree_cnt count =
     (let cnt = count - 1;
          cnt = fold (\<lambda>i cnt. cnt OR drop_bit i cnt) [1, 2, 4, 8, 16, 32] cnt
      in cnt AND NOT (drop_bit 1 cnt))"

text \<open>
  One pass: \<open>cn_fast_hash(src[i], 64, ints[j])\<close> with \<open>i\<close> advancing by two.  In the first pass the
  source is the array of leaves, in the later ones it is \<open>ints\<close> itself.
\<close>

definition tree_first_step :: "bytes list \<Rightarrow> nat \<Rightarrow> nat \<times> bytes list \<Rightarrow> (nat \<times> bytes list) option" where
  "tree_first_step hashes j s =
     (let (i, ints) = s
      in do { h \<leftarrow> cn_fast_hash (hashes ! i @ hashes ! (i + 1));
              Some (i + 2, ints[j := h]) })"

definition tree_level_step :: "nat \<Rightarrow> nat \<times> bytes list \<Rightarrow> (nat \<times> bytes list) option" where
  "tree_level_step j s =
     (let (i, ints) = s
      in do { h \<leftarrow> cn_fast_hash (ints ! i @ ints ! (i + 1));
              Some (i + 2, ints[j := h]) })"

function tree_levels :: "nat \<Rightarrow> bytes list \<Rightarrow> (bytes list) option" where
  "tree_levels cnt ints =
     (if cnt > 2
      then let cnt = cnt div 2
           in do { (i, ints) \<leftarrow> opt_fold tree_level_step [0..<cnt] (0, ints);
                   tree_levels cnt ints }
      else Some ints)"
  by auto

termination
  by (relation "measure fst") auto

declare tree_levels.simps [simp del]

text \<open>\<open>None\<close> is a failed assertion; the array \<open>ints\<close> is not initialised beyond the copied leaves.\<close>

definition tree_hash :: "bytes list \<Rightarrow> bytes option" where
  "tree_hash hashes =
     (let count = length hashes
      in if count = 0 then None
         else if count = 1 then Some (hashes ! 0)
         else if count = 2 then cn_fast_hash (hashes ! 0 @ hashes ! 1)
         else let cnt = unat (tree_cnt (of_nat count));
                  ints = take (2 * cnt - count) hashes @ replicate (cnt - (2 * cnt - count)) []
              in do { (i, ints) \<leftarrow> opt_fold (tree_first_step hashes) [2 * cnt - count..<cnt] (2 * cnt - count, ints);
                      if i \<noteq> count then None
                      else do { ints \<leftarrow> tree_levels cnt ints;
                                cn_fast_hash (ints ! 0 @ ints ! 1) } })"

section \<open>The reference\<close>

definition node :: "bytes \<Rightarrow> bytes \<Rightarrow> bytes" where
  "node a b = take 32 (bytes_of_lanes (ref_sponge 136 (a @ b)))"

text \<open>The root of a complete tree over \<open>2 ^ k\<close> leaves.\<close>

fun merkle :: "nat \<Rightarrow> bytes list \<Rightarrow> bytes" where
  "merkle 0 xs = hd xs"
| "merkle (Suc k) xs = node (merkle k (take (2 ^ k) xs)) (merkle k (drop (2 ^ k) xs))"

fun pairs :: "bytes list \<Rightarrow> bytes list" where
  "pairs (a # b # xs) = node a b # pairs xs"
| "pairs _ = []"

text \<open>
  For \<open>n\<close> leaves with \<open>2 ^ k < n \<le> 2 ^ (k + 1)\<close> the last \<open>2 n - 2 ^ (k + 1)\<close> leaves are joined in
  pairs first, which leaves a complete tree of depth \<open>k\<close>.
\<close>

definition ref_tree :: "nat \<Rightarrow> bytes list \<Rightarrow> bytes" where
  "ref_tree k hashes = (let m = 2 * 2 ^ k - length hashes in merkle k (take m hashes @ pairs (drop m hashes)))"

text \<open>The depth \<open>k\<close> of the complete part of the tree over \<open>n\<close> leaves: \<open>2 ^ k < n \<le> 2 ^ (k + 1)\<close>.\<close>

function tree_depth :: "nat \<Rightarrow> nat" where
  "tree_depth n = (if n \<le> 2 then 0 else Suc (tree_depth ((n + 1) div 2)))"
  by auto

termination
  by (relation "measure id") auto

declare tree_depth.simps [simp del]

section \<open>The power of two\<close>

lemma smear_step:
  fixes n c :: "'a::len word"
  assumes "\<And>m. bit c m \<longleftrightarrow> (\<exists>j<i. bit n (m + j))"
  shows "bit (c OR drop_bit i c) m \<longleftrightarrow> (\<exists>j<2 * i. bit n (m + j))"
proof -
  have "bit (c OR drop_bit i c) m \<longleftrightarrow> (\<exists>j<i. bit n (m + j)) \<or> (\<exists>j<i. bit n (m + i + j))"
    by (simp add: bit_simps assms add.commute)
  also have "\<dots> \<longleftrightarrow> (\<exists>j<2 * i. bit n (m + j))"
  proof
    assume "\<exists>j<2 * i. bit n (m + j)"
    then obtain j where "j < 2 * i" "bit n (m + j)" by blast
    then show "(\<exists>j<i. bit n (m + j)) \<or> (\<exists>j<i. bit n (m + i + j))"
      by (cases "j < i") (auto intro: exI [of _ "j - i"])
  next
    assume "(\<exists>j<i. bit n (m + j)) \<or> (\<exists>j<i. bit n (m + i + j))"
    then show "\<exists>j<2 * i. bit n (m + j)"
    proof (elim disjE exE conjE)
      fix j assume "j < i" "bit n (m + j)"
      then show ?thesis by (intro exI [of _ j]) simp
    next
      fix j assume "j < i" "bit n (m + i + j)"
      then show ?thesis by (intro exI [of _ "i + j"]) (simp add: add.assoc)
    qed
  qed
  finally show ?thesis .
qed

lemma smear: "bit (fold (\<lambda>i cnt. cnt OR drop_bit i cnt) [1, 2, 4, 8, 16, 32] n) m \<longleftrightarrow> (\<exists>j\<ge>m. bit (n :: u64) j)"
proof -
  define s where "s i c = (c OR drop_bit i c)" for i and c :: u64
  have step: "\<And>m. bit (s i c) m \<longleftrightarrow> (\<exists>j<i'. bit n (m + j))" if "\<And>m. bit c m \<longleftrightarrow> (\<exists>j<i. bit n (m + j))" "i' = 2 * i" for i i' c
    unfolding s_def using smear_step [of c i n] that by simp
  have "bit n m \<longleftrightarrow> (\<exists>j<1. bit n (m + j))" for m by simp
  then have "bit (s 32 (s 16 (s 8 (s 4 (s 2 (s 1 n)))))) m \<longleftrightarrow> (\<exists>j<64. bit n (m + j))"
    by (intro step) simp_all
  also have "\<dots> \<longleftrightarrow> (\<exists>j\<ge>m. bit n j)"
  proof
    assume "\<exists>j\<ge>m. bit n j"
    then obtain j where j: "m \<le> j" "bit n j" by blast
    then have "j < 64" using bit_imp_le_length by fastforce
    then show "\<exists>j<64. bit n (m + j)" using j by (intro exI [of _ "j - m"]) simp
  next
    assume "\<exists>j<64. bit n (m + j)"
    then show "\<exists>j\<ge>m. bit n j" using le_add1 by blast
  qed
  finally show ?thesis by (simp add: s_def)
qed

lemma bit_of_nat_u64: "c < 2 ^ 64 \<Longrightarrow> bit (of_nat c :: u64) j \<longleftrightarrow> bit c j"
proof -
  assume "c < 2 ^ 64"
  then have "unat (of_nat c :: u64) = c" by (simp add: unat_of_nat take_bit_nat_eq_self)
  moreover have "bit (of_nat c :: u64) j \<longleftrightarrow> bit (unat (of_nat c :: u64)) j" by (simp add: bit_unsigned_iff)
  ultimately show ?thesis by simp
qed

lemma top_bit:
  assumes "2 ^ k \<le> (c :: nat)" and "c < 2 ^ Suc k"
  shows "(\<exists>j\<ge>m. bit c j) \<longleftrightarrow> m \<le> k"
proof -
  have "c div 2 ^ k = 1" using assms by (intro div_nat_eqI) simp_all
  then have "bit c k" by (simp add: bit_iff_odd)
  moreover have "\<not> bit c j" if "k < j" for j
  proof -
    have "(2 :: nat) ^ Suc k \<le> 2 ^ j" using that by (intro power_increasing) simp_all
    then show ?thesis using assms(2) by (simp add: bit_iff_odd)
  qed
  ultimately show ?thesis by (meson le_trans not_le)
qed

lemma unat_exp: "k < 64 \<Longrightarrow> unat (2 ^ k :: u64) = 2 ^ k"
proof -
  assume "k < 64"
  then have "(2 :: nat) ^ k < 2 ^ 64" by (intro power_strict_increasing) simp_all
  then have "unat (of_nat (2 ^ k) :: u64) = 2 ^ k" by (simp only: unat_of_nat) (simp add: take_bit_nat_eq_self)
  then show ?thesis by simp
qed

lemma tree_cnt_power:
  assumes "2 ^ k < count" and "count \<le> 2 ^ Suc k" and "k < 63"
  shows "unat (tree_cnt (of_nat count)) = 2 ^ k"
proof -
  obtain c where c: "count = Suc c" "2 ^ k \<le> c" "c < 2 ^ Suc k" using assms by (cases count) auto
  have "(2 :: nat) ^ Suc k \<le> 2 ^ 63" using assms(3) by (intro power_increasing) simp_all
  then have small: "c < 2 ^ 64" using c(3) by simp
  define w where "w = fold (\<lambda>i cnt. cnt OR drop_bit i cnt) [1, 2, 4, 8, 16, 32] (of_nat c :: u64)"
  have w: "bit w m \<longleftrightarrow> m \<le> k" for m
    unfolding w_def smear bit_of_nat_u64 [OF small] by (rule top_bit [OF c(2,3)])
  have "tree_cnt (of_nat count) = w AND NOT (drop_bit 1 w)"
    unfolding tree_cnt_def Let_def c(1) w_def by simp
  also have "\<dots> = push_bit k 1"
  proof (rule bit_word_eqI)
    fix m assume "m < LENGTH(64)"
    then show "bit (w AND NOT (drop_bit 1 w)) m = bit (push_bit k 1 :: u64) m"
      using assms(3) by (auto simp: bit_and_iff bit_not_iff bit_drop_bit_eq bit_exp_iff w push_bit_eq_mult)
  qed
  finally show ?thesis using assms(3) by (simp add: push_bit_eq_mult unat_exp)
qed


section \<open>The levels\<close>

lemma cn_fast_hash_node: "length a = 32 \<Longrightarrow> length b = 32 \<Longrightarrow> cn_fast_hash (a @ b) = Some (node a b)"
  by (simp add: cn_fast_hash_reference node_def)

lemma length_node [simp]: "length (node a b) = 32"
  by (simp add: node_def)

definition hashes_ok :: "bytes list \<Rightarrow> bool" where
  "hashes_ok hs \<longleftrightarrow> (\<forall>h\<in>set hs. length h = 32)"

lemma hashes_ok_nth: "hashes_ok hs \<Longrightarrow> i < length hs \<Longrightarrow> length (hs ! i) = 32"
  by (simp add: hashes_ok_def)

lemma pairs_nth: "2 * j + 1 < length xs \<Longrightarrow> pairs xs ! j = node (xs ! (2 * j)) (xs ! (2 * j + 1))"
  by (induction xs arbitrary: j rule: pairs.induct) (auto simp: nth_Cons split: nat.split)

lemma length_pairs [simp]: "length (pairs xs) = length xs div 2"
  by (induction xs rule: pairs.induct) simp_all

lemma hashes_ok_pairs [simp]: "hashes_ok (pairs xs)"
  by (induction xs rule: pairs.induct) (simp_all add: hashes_ok_def)

lemma pairs_append: "even (length xs) \<Longrightarrow> pairs (xs @ ys) = pairs xs @ pairs ys"
  by (induction xs rule: pairs.induct) simp_all

lemma merkle_pairs: "length xs = 2 ^ Suc k \<Longrightarrow> merkle (Suc k) xs = merkle k (pairs xs)"
proof (induction k arbitrary: xs)
  case 0
  then show ?case by (cases xs rule: pairs.cases) auto
next
  case (Suc k)
  let ?l = "take (2 ^ Suc k) xs" and ?r = "drop (2 ^ Suc k) xs"
  have l: "length ?l = 2 ^ Suc k" "length ?r = 2 ^ Suc k" using Suc.prems by simp_all
  have "pairs xs = pairs ?l @ pairs ?r" using pairs_append [of ?l ?r] l(1) by simp
  moreover have "length (pairs ?l) = 2 ^ k" using l by simp
  ultimately have "take (2 ^ k) (pairs xs) = pairs ?l" "drop (2 ^ k) (pairs xs) = pairs ?r" by simp_all
  then show ?case using Suc.IH [OF l(1)] Suc.IH [OF l(2)] by simp
qed

text \<open>A pass in place: the entries below \<open>j\<close> are new, those from \<open>j\<close> on are still the old ones.\<close>

lemma tree_level_pass:
  assumes "hashes_ok ints" and "2 * cnt \<le> length ints"
  shows "\<exists>ints'. opt_fold tree_level_step [0..<cnt] (0, ints) = Some (2 * cnt, ints')
    \<and> length ints' = length ints \<and> take cnt ints' = pairs (take (2 * cnt) ints) \<and> hashes_ok ints'"
proof -
  let ?I = "\<lambda>k (i, xs). i = 2 * k \<and> length xs = length ints
     \<and> (\<forall>j<length ints. xs ! j = (if j < k then node (ints ! (2 * j)) (ints ! (2 * j + 1)) else ints ! j))"
  have "\<exists>s. opt_fold tree_level_step [0..<cnt] (0, ints) = Some s \<and> ?I (length [0..<cnt]) s"
  proof (rule opt_fold_invariant)
    show "?I 0 (0, ints)" by simp
    fix k s assume k: "k < length [0..<cnt]" and "?I k s"
    then obtain xs where s: "s = (2 * k, xs)" "length xs = length ints"
      "\<forall>j<length ints. xs ! j = (if j < k then node (ints ! (2 * j)) (ints ! (2 * j + 1)) else ints ! j)" by (cases s) auto
    have i: "2 * k < length ints" "2 * k + 1 < length ints" using k assms(2) by simp_all
    then have x: "xs ! (2 * k) = ints ! (2 * k)" "xs ! (2 * k + 1) = ints ! (2 * k + 1)" using s(3) by simp_all
    have "cn_fast_hash (xs ! (2 * k) @ xs ! (2 * k + 1)) = Some (node (ints ! (2 * k)) (ints ! (2 * k + 1)))"
      unfolding x by (intro cn_fast_hash_node hashes_ok_nth assms(1) i)
    then have "tree_level_step ([0..<cnt] ! k) s = Some (2 * Suc k, xs[k := node (ints ! (2 * k)) (ints ! (2 * k + 1))])"
      using k by (simp add: tree_level_step_def s)
    then show "\<exists>s'. tree_level_step ([0..<cnt] ! k) s = Some s' \<and> ?I (Suc k) s'"
      using s(2,3) i by (auto simp: nth_list_update less_Suc_eq)
  qed
  then obtain ints' where f: "opt_fold tree_level_step [0..<cnt] (0, ints) = Some (2 * cnt, ints')" "length ints' = length ints"
    "\<forall>j<length ints. ints' ! j = (if j < cnt then node (ints ! (2 * j)) (ints ! (2 * j + 1)) else ints ! j)" by auto
  have "take cnt ints' = pairs (take (2 * cnt) ints)"
  proof (rule nth_equalityI)
    show "length (take cnt ints') = length (pairs (take (2 * cnt) ints))" using f(2) assms(2) by simp
    fix j assume "j < length (take cnt ints')"
    then have "j < cnt" by simp
    then show "take cnt ints' ! j = pairs (take (2 * cnt) ints) ! j" using f(3) assms(2) by (simp add: pairs_nth)
  qed
  moreover have "hashes_ok ints'"
    unfolding hashes_ok_def set_conv_nth using f(2,3) hashes_ok_nth [OF assms(1)] by auto
  ultimately show ?thesis using f by blast
qed

lemma tree_levels_merkle:
  assumes "hashes_ok ints" and "2 ^ Suc k \<le> length ints"
  shows "\<exists>ints'. tree_levels (2 ^ Suc k) ints = Some ints' \<and> cn_fast_hash (ints' ! 0 @ ints' ! 1) = Some (merkle (Suc k) (take (2 ^ Suc k) ints))"
  using assms
proof (induction k arbitrary: ints)
  case 0
  then obtain a b xs where "ints = a # b # xs" by (cases ints rule: pairs.cases) auto
  then show ?case using 0 by (subst tree_levels.simps) (simp add: hashes_ok_def cn_fast_hash_node)
next
  case (Suc k)
  let ?t = "take (2 ^ Suc (Suc k)) ints"
  have l: "2 * 2 ^ Suc k \<le> length ints" using Suc.prems(2) by simp
  obtain ints1 where p: "opt_fold tree_level_step [0..<2 ^ Suc k] (0, ints) = Some (2 * 2 ^ Suc k, ints1)"
    "length ints1 = length ints" "take (2 ^ Suc k) ints1 = pairs ?t" "hashes_ok ints1"
    using tree_level_pass [OF Suc.prems(1) l] by auto
  have "(1 :: nat) \<le> 2 ^ k" by simp
  then have "(2 :: nat) < 2 ^ Suc (Suc k)" unfolding power_Suc by linarith
  then have "tree_levels (2 ^ Suc (Suc k)) ints = tree_levels (2 ^ Suc k) ints1"
    using p(1) by (subst tree_levels.simps) (simp del: power_Suc add: power_Suc [of 2 "Suc k"])
  moreover have "merkle (Suc (Suc k)) ?t = merkle (Suc k) (pairs ?t)" by (rule merkle_pairs) (use Suc.prems(2) in simp)
  moreover have "2 ^ Suc k \<le> length ints1" using l p(2) by simp
  ultimately show ?case using Suc.IH [OF p(4)] by (simp only: p(3))
qed

section \<open>The whole function\<close>

lemma tree_first_pass:
  assumes "hashes_ok hashes" and "length hashes = count" and "m + 2 * (cnt - m) = count" and "m \<le> cnt"
  shows "opt_fold (tree_first_step hashes) [m..<cnt] (m, take m hashes @ replicate (cnt - m) [])
    = Some (count, take m hashes @ pairs (drop m hashes))"
proof -
  let ?I = "\<lambda>k (i, xs). i = m + 2 * k \<and> xs = take m hashes @ take k (pairs (drop m hashes)) @ replicate (cnt - m - k) []"
  have lp: "length (pairs (drop m hashes)) = cnt - m" using assms by simp
  have "\<exists>s. opt_fold (tree_first_step hashes) [m..<cnt] (m, take m hashes @ replicate (cnt - m) []) = Some s \<and> ?I (length [m..<cnt]) s"
  proof (rule opt_fold_invariant)
    show "?I 0 (m, take m hashes @ replicate (cnt - m) [])" by simp
    fix k s assume k: "k < length [m..<cnt]" and "?I k s"
    then have s: "s = (m + 2 * k, take m hashes @ take k (pairs (drop m hashes)) @ replicate (cnt - m - k) [])" by (cases s) auto
    let ?h = "node (hashes ! (m + 2 * k)) (hashes ! (m + 2 * k + 1))"
    have i: "m + 2 * k < length hashes" "m + 2 * k + 1 < length hashes" using k assms by simp_all
    have "cn_fast_hash (hashes ! (m + 2 * k) @ hashes ! (m + 2 * k + 1)) = Some ?h"
      by (intro cn_fast_hash_node hashes_ok_nth assms(1) i)
    moreover have "pairs (drop m hashes) ! k = ?h" using i by (simp add: pairs_nth add.assoc)
    then have "take (Suc k) (pairs (drop m hashes)) = take k (pairs (drop m hashes)) @ [?h]"
      using k lp by (simp add: take_Suc_conv_app_nth)
    moreover have "(replicate (cnt - m - k) [])[0 := h] = h # replicate (cnt - m - Suc k) []" for h :: bytes
      using k by (cases "cnt - m - k") (simp_all add: Suc_diff_Suc)
    ultimately show "\<exists>s'. tree_first_step hashes ([m..<cnt] ! k) s = Some s' \<and> ?I (Suc k) s'"
      using k lp i by (simp add: tree_first_step_def s list_update_append min_absorb2)
  qed
  then show ?thesis using assms lp by auto
qed

lemma tree_hash_reference:
  assumes "hashes_ok hashes" and "2 ^ k < length hashes" and "length hashes \<le> 2 ^ Suc k" and "k < 63"
  shows "tree_hash hashes = Some (ref_tree k hashes)"
proof (cases k)
  case 0
  then obtain a b where "hashes = [a, b]" using assms(2,3) by (cases hashes rule: pairs.cases) auto
  then show ?thesis using assms(1) 0 by (simp add: tree_hash_def ref_tree_def hashes_ok_def cn_fast_hash_node Let_def)
next
  case (Suc k')
  let ?cnt = "2 ^ k :: nat" and ?n = "length hashes"
  let ?m = "2 * ?cnt - ?n"
  let ?ints = "take ?m hashes @ pairs (drop ?m hashes)"
  have "(1 :: nat) \<le> 2 ^ k'" by simp
  then have n: "2 < ?n" using assms(2) unfolding Suc power_Suc by linarith
  then have ne: "hashes \<noteq> []" by auto
  have m: "?m + 2 * (?cnt - ?m) = ?n" "?m \<le> ?cnt" using assms(2,3) by simp_all
  have ok: "hashes_ok ?ints" using assms(1) hashes_ok_pairs [of "drop ?m hashes"] by (auto simp: hashes_ok_def dest: in_set_takeD)
  have len: "length ?ints = 2 ^ Suc k'" using m assms(2,3) Suc by simp
  have t: "take (2 ^ k) ?ints = ?ints" by (rule take_all) (unfold len, simp add: Suc)
  obtain ints where l: "tree_levels ?cnt ?ints = Some ints" "cn_fast_hash (ints ! 0 @ ints ! 1) = Some (merkle k ?ints)"
    using tree_levels_merkle [OF ok, of k', unfolded len Suc [symmetric], OF order_refl] unfolding t by (elim exE conjE)
  show ?thesis
    using n ne tree_first_pass [OF assms(1) refl m] tree_cnt_power [OF assms(2-4)] l by (simp add: tree_hash_def ref_tree_def Let_def)
qed

lemma tree_depth_bounds: "2 \<le> n \<Longrightarrow> 2 ^ tree_depth n < n \<and> n \<le> 2 ^ Suc (tree_depth n)"
proof (induction n rule: tree_depth.induct)
  case (1 n)
  show ?case
  proof (cases "n \<le> 2")
    case True
    then have "n = 2" using 1(2) by simp
    then show ?thesis by (simp add: tree_depth.simps [of 2])
  next
    case False
    define m where "m = (n + 1) div 2"
    have "2 ^ tree_depth m < m" "m \<le> 2 ^ Suc (tree_depth m)" using 1(1) False by (simp_all add: m_def)
    moreover have "2 * m \<le> n + 1" "n \<le> 2 * m" by (simp_all add: m_def)
    moreover have "tree_depth n = Suc (tree_depth m)" using False by (simp add: tree_depth.simps [of n] m_def)
    ultimately show ?thesis by simp
  qed
qed

lemma tree_hash_total:
  assumes "hashes_ok hashes" and "length hashes \<le> 2 ^ 63"
  shows "tree_hash hashes = (if hashes = [] then None else Some (ref_tree (tree_depth (length hashes)) hashes))"
proof (cases "length hashes \<le> 1")
  case True
  then consider "hashes = []" | a where "hashes = [a]" by (cases hashes) auto
  then show ?thesis by cases (simp_all add: tree_hash_def ref_tree_def tree_depth.simps [of "Suc 0"] Let_def)
next
  case False
  then have n: "2 \<le> length hashes" by simp
  note b = conjunct1 [OF tree_depth_bounds [OF n]] conjunct2 [OF tree_depth_bounds [OF n]]
  have "(2 :: nat) ^ tree_depth (length hashes) < 2 ^ 63" by (rule less_le_trans [OF b(1) assms(2)])
  then have "tree_depth (length hashes) < 63" by (rule power_less_imp_less_exp [rotated]) simp
  from tree_hash_reference [OF assms(1) b this] show ?thesis using n by auto
qed

end
