(* ===== verification/Chacha8.thy ===== *)
theory Chacha8
  imports Hash IntUtil
begin

text \<open>
  The stream cipher of \<open>chacha8.c\<close> and its use for the wallet files in \<open>chacha8.h\<close>.  The sixteen
  local variables \<open>x0\<close> to \<open>x15\<close> (and \<open>j0\<close> to \<open>j15\<close>) are a list of sixteen words.
\<close>

section \<open>The code\<close>

type_synonym block = "u32 list"

definition U8TO32_LITTLE :: "bytes \<Rightarrow> u32" where
  "U8TO32_LITTLE p = word_of_int (le_val (take 4 p))"

definition U32TO8_LITTLE :: "u32 \<Rightarrow> bytes" where
  "U32TO8_LITTLE v = le_bytes 4 (uint v)"

definition QUARTERROUND :: "nat \<Rightarrow> nat \<Rightarrow> nat \<Rightarrow> nat \<Rightarrow> block \<Rightarrow> block" where
  "QUARTERROUND a b c d x =
     (let x = x[a := x ! a + x ! b]; x = x[d := rol32 (x ! d XOR x ! a) 16];
          x = x[c := x ! c + x ! d]; x = x[b := rol32 (x ! b XOR x ! c) 12];
          x = x[a := x ! a + x ! b]; x = x[d := rol32 (x ! d XOR x ! a) 8];
          x = x[c := x ! c + x ! d]; x = x[b := rol32 (x ! b XOR x ! c) 7]
      in x)"

definition sigma :: bytes where
  "sigma = [0x65, 0x78, 0x70, 0x61, 0x6e, 0x64, 0x20, 0x33, 0x32, 0x2d, 0x62, 0x79, 0x74, 0x65, 0x20, 0x6b]"

definition chacha8_init :: "bytes \<Rightarrow> bytes \<Rightarrow> block" where
  "chacha8_init key iv =
     [U8TO32_LITTLE (drop 0 sigma), U8TO32_LITTLE (drop 4 sigma),
      U8TO32_LITTLE (drop 8 sigma), U8TO32_LITTLE (drop 12 sigma),
      U8TO32_LITTLE (drop 0 key), U8TO32_LITTLE (drop 4 key),
      U8TO32_LITTLE (drop 8 key), U8TO32_LITTLE (drop 12 key),
      U8TO32_LITTLE (drop 16 key), U8TO32_LITTLE (drop 20 key),
      U8TO32_LITTLE (drop 24 key), U8TO32_LITTLE (drop 28 key),
      0, 0, U8TO32_LITTLE (drop 0 iv), U8TO32_LITTLE (drop 4 iv)]"

text \<open>The body of the loop over \<open>i = 8, 6, 4, 2\<close>.\<close>

definition chacha8_rounds :: "block \<Rightarrow> block" where
  "chacha8_rounds x =
     (let x = QUARTERROUND 0 4 8 12 x;
          x = QUARTERROUND 1 5 9 13 x;
          x = QUARTERROUND 2 6 10 14 x;
          x = QUARTERROUND 3 7 11 15 x;
          x = QUARTERROUND 0 5 10 15 x;
          x = QUARTERROUND 1 6 11 12 x;
          x = QUARTERROUND 2 7 8 13 x
      in QUARTERROUND 3 4 9 14 x)"

text \<open>One block: the words that are stored to \<open>cipher\<close> for the 64 bytes at \<open>data\<close>.\<close>

definition chacha8_block :: "block \<Rightarrow> bytes \<Rightarrow> bytes" where
  "chacha8_block j data =
     (let x = fold (\<lambda>i. chacha8_rounds) [8::nat, 6, 4, 2] j;
          x = map (\<lambda>k. x ! k + j ! k) [0..<16];
          x = map (\<lambda>k. x ! k XOR U8TO32_LITTLE (drop (4 * k) data)) [0..<16]
      in concat (map U32TO8_LITTLE x))"

definition chacha8_next :: "block \<Rightarrow> block" where
  "chacha8_next j =
     (let j = j[12 := j ! 12 + 1]
      in if j ! 12 = 0 then j[13 := j ! 13 + 1] else j)"

text \<open>
  The loop.  A last block of less than 64 bytes goes through the buffer \<open>tmp\<close>, of which the code
  sets only the first bytes: its other contents are the parameter \<open>tmp\<close>.
\<close>

function chacha8_loop :: "bytes \<Rightarrow> block \<Rightarrow> bytes \<Rightarrow> bytes" where
  "chacha8_loop tmp j data =
     (if length data < 64
      then let buf = data @ drop (length data) tmp
           in take (length data) (chacha8_block j buf)
      else if length data \<le> 64 then chacha8_block j data
      else chacha8_block j (take 64 data) @ chacha8_loop tmp (chacha8_next j) (drop 64 data))"
  by auto

termination
  by (relation "measure (\<lambda>(tmp, j, data). length data)") auto

declare chacha8_loop.simps [simp del]

definition chacha8 :: "bytes \<Rightarrow> bytes \<Rightarrow> nat \<Rightarrow> bytes \<Rightarrow> bytes \<Rightarrow> bytes" where
  "chacha8 tmp data length' key iv =
     (if length' = 0 then []
      else chacha8_loop tmp (chacha8_init key iv) (take length' data))"

definition generate_chacha8_key :: "bytes \<Rightarrow> bytes option" where
  "generate_chacha8_key ppassword = map_option (take 32) (cn_fast_hash ppassword)"

definition do_chacha_crypt :: "bytes \<Rightarrow> bytes \<Rightarrow> bytes \<Rightarrow> bytes option" where
  "do_chacha_crypt tmp src_buff key_buff =
     do { key \<leftarrow> generate_chacha8_key key_buff;
          let iv = replicate 8 0;
          Some (chacha8 tmp src_buff (length src_buff) key iv) }"

section \<open>The reference\<close>

text \<open>
  The cipher as its specification gives it: a four by four matrix of words, held as four rows; a
  round works on all columns at once, and between two rounds row \<open>i\<close> is rotated by \<open>i\<close> places, so that
  the next round works on the diagonals.
\<close>

type_synonym rows = "u32 list \<times> u32 list \<times> u32 list \<times> u32 list"

definition ref_column_round :: "rows \<Rightarrow> rows" where
  "ref_column_round = (\<lambda>(a, b, c, d).
     let a = map2 (+) a b; d = map (\<lambda>x. word_rotl 16 x) (map2 (XOR) d a);
         c = map2 (+) c d; b = map (\<lambda>x. word_rotl 12 x) (map2 (XOR) b c);
         a = map2 (+) a b; d = map (\<lambda>x. word_rotl 8 x) (map2 (XOR) d a);
         c = map2 (+) c d; b = map (\<lambda>x. word_rotl 7 x) (map2 (XOR) b c)
     in (a, b, c, d))"

definition ref_shift_rows :: "rows \<Rightarrow> rows" where
  "ref_shift_rows = (\<lambda>(a, b, c, d). (a, rotate 1 b, rotate 2 c, rotate 3 d))"

definition ref_unshift_rows :: "rows \<Rightarrow> rows" where
  "ref_unshift_rows = (\<lambda>(a, b, c, d). (a, rotate 3 b, rotate 2 c, rotate 1 d))"

definition ref_double_round :: "rows \<Rightarrow> rows" where
  "ref_double_round = ref_unshift_rows \<circ> ref_column_round \<circ> ref_shift_rows \<circ> ref_column_round"

definition rows_of :: "block \<Rightarrow> rows" where
  "rows_of x = (take 4 x, take 4 (drop 4 x), take 4 (drop 8 x), drop 12 x)"

definition block_of :: "rows \<Rightarrow> block" where
  "block_of = (\<lambda>(a, b, c, d). a @ b @ c @ d)"

text \<open>The input block of counter value \<open>n\<close>, and its 64 bytes of key stream.\<close>

definition words_of :: "bytes \<Rightarrow> block" where
  "words_of bs = map (\<lambda>k. word_of_int (le_val (take 4 (drop (4 * k) bs)))) [0..<length bs div 4]"

definition ref_input :: "bytes \<Rightarrow> bytes \<Rightarrow> nat \<Rightarrow> block" where
  "ref_input key iv n = words_of (sigma @ key) @ words_of (le_bytes 8 (int n)) @ words_of iv"

definition ref_stream_block :: "block \<Rightarrow> bytes" where
  "ref_stream_block j =
     concat (map (\<lambda>w. le_bytes 4 (uint w)) (map2 (+) (block_of ((ref_double_round ^^ 4) (rows_of j))) j))"

definition ref_keystream :: "bytes \<Rightarrow> bytes \<Rightarrow> nat \<Rightarrow> bytes" where
  "ref_keystream key iv n = concat (map (\<lambda>k. ref_stream_block (ref_input key iv k)) [0..<n])"

section \<open>A block\<close>

lemma rol32_consts:
  "rol32 x 16 = word_rotl 16 x" "rol32 x 12 = word_rotl 12 x" "rol32 x 8 = word_rotl 8 x" "rol32 x 7 = word_rotl 7 x"
  using shifts_rotl [of 16 x] shifts_rotl [of 12 x] shifts_rotl [of 8 x] shifts_rotl [of 7 x]
  by (simp_all add: rol32_def)

lemma list_16:
  assumes "length x = 16"
  shows "x = [x ! 0, x ! 1, x ! 2, x ! 3, x ! 4, x ! 5, x ! 6, x ! 7, x ! 8, x ! 9, x ! 10, x ! 11,
    x ! 12, x ! 13, x ! 14, x ! 15]"
  by (rule nth_equalityI) (auto simp: assms numeral_eq_Suc less_Suc_eq)

lemma length_QUARTERROUND [simp]: "length (QUARTERROUND a b c d x) = length x"
  by (simp add: QUARTERROUND_def Let_def)

definition qr :: "u32 \<Rightarrow> u32 \<Rightarrow> u32 \<Rightarrow> u32 \<Rightarrow> u32 \<times> u32 \<times> u32 \<times> u32" where
  "qr a b c d =
     (let a = a + b; d = word_rotl 16 (d XOR a); c = c + d; b = word_rotl 12 (b XOR c);
          a = a + b; d = word_rotl 8 (d XOR a); c = c + d; b = word_rotl 7 (b XOR c)
      in (a, b, c, d))"

lemma QUARTERROUND_qr:
  assumes "distinct [a, b, c, d]" and "\<forall>i\<in>{a, b, c, d}. i < length x"
  shows "QUARTERROUND a b c d x
    = (case qr (x ! a) (x ! b) (x ! c) (x ! d) of (a', b', c', d') \<Rightarrow> x[a := a', b := b', c := c', d := d'])"
proof (rule nth_equalityI)
  fix i
  have n: "a \<noteq> b" "a \<noteq> c" "a \<noteq> d" "b \<noteq> c" "b \<noteq> d" "c \<noteq> d" "b \<noteq> a" "c \<noteq> a" "d \<noteq> a" "c \<noteq> b" "d \<noteq> b" "d \<noteq> c"
    and l: "a < length x" "b < length x" "c < length x" "d < length x" using assms by auto
  have s: "QUARTERROUND a b c d x ! i = (if i = a then fst (qr (x ! a) (x ! b) (x ! c) (x ! d))
      else if i = b then fst (snd (qr (x ! a) (x ! b) (x ! c) (x ! d)))
      else if i = c then fst (snd (snd (qr (x ! a) (x ! b) (x ! c) (x ! d))))
      else if i = d then snd (snd (snd (qr (x ! a) (x ! b) (x ! c) (x ! d)))) else x ! i)"
    by (simp add: QUARTERROUND_def qr_def Let_def rol32_consts n l)
  show "QUARTERROUND a b c d x ! i
    = (case qr (x ! a) (x ! b) (x ! c) (x ! d) of (a', b', c', d') \<Rightarrow> x[a := a', b := b', c := c', d := d']) ! i"
    unfolding s by (cases "qr (x ! a) (x ! b) (x ! c) (x ! d)") (simp add: n l)
qed (simp split: prod.split)

lemma column_round_qr:
  "ref_column_round ([a0, a1, a2, a3], [b0, b1, b2, b3], [c0, c1, c2, c3], [d0, d1, d2, d3]) =
    (case (qr a0 b0 c0 d0, qr a1 b1 c1 d1, qr a2 b2 c2 d2, qr a3 b3 c3 d3) of
      ((a0, b0, c0, d0), (a1, b1, c1, d1), (a2, b2, c2, d2), (a3, b3, c3, d3)) \<Rightarrow>
        ([a0, a1, a2, a3], [b0, b1, b2, b3], [c0, c1, c2, c3], [d0, d1, d2, d3]))"
  by (simp add: ref_column_round_def qr_def Let_def)

lemma column_round_code:
  "rows_of (QUARTERROUND 3 7 11 15 (QUARTERROUND 2 6 10 14 (QUARTERROUND 1 5 9 13 (QUARTERROUND 0 4 8 12
      [x0, x1, x2, x3, x4, x5, x6, x7, x8, x9, x10, x11, x12, x13, x14, x15]))))
    = ref_column_round ([x0, x1, x2, x3], [x4, x5, x6, x7], [x8, x9, x10, x11], [x12, x13, x14, x15])"
proof -
  obtain y0 y4 y8 y12 where q0: "qr x0 x4 x8 x12 = (y0, y4, y8, y12)" by (cases "qr x0 x4 x8 x12")
  obtain y1 y5 y9 y13 where q1: "qr x1 x5 x9 x13 = (y1, y5, y9, y13)" by (cases "qr x1 x5 x9 x13")
  obtain y2 y6 y10 y14 where q2: "qr x2 x6 x10 x14 = (y2, y6, y10, y14)" by (cases "qr x2 x6 x10 x14")
  obtain y3 y7 y11 y15 where q3: "qr x3 x7 x11 x15 = (y3, y7, y11, y15)" by (cases "qr x3 x7 x11 x15")
  show ?thesis by (simp add: QUARTERROUND_qr q0 q1 q2 q3 rows_of_def column_round_qr)
qed

lemma diagonal_round_code:
  "rows_of (QUARTERROUND 3 4 9 14 (QUARTERROUND 2 7 8 13 (QUARTERROUND 1 6 11 12 (QUARTERROUND 0 5 10 15
      [x0, x1, x2, x3, x4, x5, x6, x7, x8, x9, x10, x11, x12, x13, x14, x15]))))
    = ref_unshift_rows (ref_column_round (ref_shift_rows
        ([x0, x1, x2, x3], [x4, x5, x6, x7], [x8, x9, x10, x11], [x12, x13, x14, x15])))"
proof -
  obtain y0 y5 y10 y15 where q0: "qr x0 x5 x10 x15 = (y0, y5, y10, y15)" by (cases "qr x0 x5 x10 x15")
  obtain y1 y6 y11 y12 where q1: "qr x1 x6 x11 x12 = (y1, y6, y11, y12)" by (cases "qr x1 x6 x11 x12")
  obtain y2 y7 y8 y13 where q2: "qr x2 x7 x8 x13 = (y2, y7, y8, y13)" by (cases "qr x2 x7 x8 x13")
  obtain y3 y4 y9 y14 where q3: "qr x3 x4 x9 x14 = (y3, y4, y9, y14)" by (cases "qr x3 x4 x9 x14")
  show ?thesis
    by (simp add: QUARTERROUND_qr q0 q1 q2 q3 rows_of_def column_round_qr ref_shift_rows_def ref_unshift_rows_def
        rotate_def eval_nat_numeral)
qed

lemma rows_of_16:
  "rows_of [x0, x1, x2, x3, x4, x5, x6, x7, x8, x9, x10, x11, x12, x13, x14, x15]
    = ([x0, x1, x2, x3], [x4, x5, x6, x7], [x8, x9, x10, x11], [x12, x13, x14, x15])"
  by (simp add: rows_of_def)

lemma length_chacha8_rounds [simp]: "length (chacha8_rounds x) = length x"
  by (simp add: chacha8_rounds_def Let_def)

lemma chacha8_rounds_ref:
  assumes "length x = 16"
  shows "rows_of (chacha8_rounds x) = ref_double_round (rows_of x)"
proof -
  define y where "y = QUARTERROUND 3 7 11 15 (QUARTERROUND 2 6 10 14 (QUARTERROUND 1 5 9 13 (QUARTERROUND 0 4 8 12 x)))"
  have "length y = 16" using assms by (simp add: y_def)
  note y = list_16 [OF this] and x = list_16 [OF assms]
  have "rows_of y = ref_column_round (rows_of x)"
    unfolding y_def by (subst (1 2) x) (simp only: column_round_code rows_of_16)
  moreover have "rows_of (QUARTERROUND 3 4 9 14 (QUARTERROUND 2 7 8 13 (QUARTERROUND 1 6 11 12 (QUARTERROUND 0 5 10 15 y))))
      = ref_unshift_rows (ref_column_round (ref_shift_rows (rows_of y)))"
    by (subst (1 2) y) (simp only: diagonal_round_code rows_of_16)
  ultimately show ?thesis by (simp add: chacha8_rounds_def Let_def ref_double_round_def y_def)
qed

lemma block_of_rows_of: "length x = 16 \<Longrightarrow> block_of (rows_of x) = x"
  by (subst (1 2) list_16, simp, simp add: rows_of_16 block_of_def)

lemma funpow_rounds_ref:
  "length x = 16 \<Longrightarrow> length ((chacha8_rounds ^^ n) x) = 16 \<and> rows_of ((chacha8_rounds ^^ n) x) = (ref_double_round ^^ n) (rows_of x)"
  by (induction n) (simp_all add: chacha8_rounds_ref)

text \<open>The exclusive or of two byte strings.\<close>

abbreviation xor_bytes :: "bytes \<Rightarrow> bytes \<Rightarrow> bytes" where
  "xor_bytes \<equiv> map2 (XOR)"

lemma uint_xor_le_bytes:
  "le_bytes n (v XOR w) = xor_bytes (le_bytes n v) (le_bytes n w)"
  by (rule nth_equalityI) (simp_all add: nth_le_bytes drop_bit_xor flip: of_int_xor_eq)

lemma store_xor_load:
  "length bs = 4 \<Longrightarrow> U32TO8_LITTLE (w XOR U8TO32_LITTLE bs) = xor_bytes (le_bytes 4 (uint w)) bs"
  using le_val_less [of bs 4]
  by (simp add: U32TO8_LITTLE_def U8TO32_LITTLE_def uint_xor uint_xor_le_bytes le_bytes_le_val uint_word_of_int_eq take_bit_int_eq_self)

lemma map2_append: "length a = length b \<Longrightarrow> map2 f (a @ c) (b @ d) = map2 f a b @ map2 f c d"
  by simp

lemma concat_xor_blocks:
  assumes "length bs = 4 * length ws"
  shows "concat (map (\<lambda>k. U32TO8_LITTLE (ws ! k XOR U8TO32_LITTLE (drop (4 * k) bs))) [0..<length ws])
    = xor_bytes (concat (map (\<lambda>w. le_bytes 4 (uint w)) ws)) bs"
  using assms
proof (induction ws arbitrary: bs)
  case (Cons w ws)
  have "[0..<length (w # ws)] = 0 # map Suc [0..<length ws]" by (simp add: upt_conv_Cons map_Suc_upt del: upt_Suc)
  moreover have "U8TO32_LITTLE bs = U8TO32_LITTLE (take 4 bs)" by (simp add: U8TO32_LITTLE_def)
  moreover have "xor_bytes (le_bytes 4 (uint w) @ xs) bs = xor_bytes (le_bytes 4 (uint w)) (take 4 bs) @ xor_bytes xs (drop 4 bs)" for xs
    using Cons.prems by (subst append_take_drop_id [of 4 bs, symmetric], subst map2_append) simp_all
  ultimately show ?case
    using Cons.IH [of "drop 4 bs"] Cons.prems by (simp add: store_xor_load comp_def add.commute del: upt_Suc)
qed simp

lemma chacha8_block_ref:
  assumes "length j = 16" and "length bs = 64"
  shows "chacha8_block j bs = xor_bytes (ref_stream_block j) bs"
proof -
  let ?x = "(chacha8_rounds ^^ 4) j"
  have f: "fold (\<lambda>i. chacha8_rounds) [8::nat, 6, 4, 2] j = ?x" by (simp add: eval_nat_numeral)
  have x: "length ?x = 16" "block_of ((ref_double_round ^^ 4) (rows_of j)) = ?x"
    using funpow_rounds_ref [OF assms(1), of 4] block_of_rows_of by metis+
  have m: "map (\<lambda>k. ?x ! k + j ! k) [0..<16] = map2 (+) ?x j"
    by (rule nth_equalityI) (simp_all add: x assms)
  have l: "length (map2 (+) ?x j) = 16" by (simp add: x assms)
  have "chacha8_block j bs = concat (map (\<lambda>k. U32TO8_LITTLE (map2 (+) ?x j ! k XOR U8TO32_LITTLE (drop (4 * k) bs))) [0..<16])"
    unfolding chacha8_block_def f Let_def m by (simp add: comp_def)
  then show ?thesis
    using concat_xor_blocks [of bs "map2 (+) ?x j"] assms(2) unfolding l ref_stream_block_def x(2) by simp
qed

section \<open>The stream\<close>

lemma length_ref_stream_block [simp]:
  assumes "length j = 16"
  shows "length (ref_stream_block j) = 64"
proof -
  have "block_of ((ref_double_round ^^ 4) (rows_of j)) = (chacha8_rounds ^^ 4) j" "length ((chacha8_rounds ^^ 4) j) = 16"
    using funpow_rounds_ref [OF assms, of 4] block_of_rows_of by metis+
  then show ?thesis using assms by (simp add: ref_stream_block_def length_concat comp_def sum_list_triv)
qed

lemma words_of_counter: "words_of (le_bytes 8 v) = [word_of_int v, word_of_int (drop_bit 32 v)]"
proof -
  have "take 4 (le_bytes 8 v) = le_bytes 4 v" "drop 4 (le_bytes 8 v) = le_bytes 4 (drop_bit 32 v)"
    by (rule nth_equalityI; simp add: nth_le_bytes distrib_left add.commute)+
  moreover have "le_val (le_bytes 4 w) = take_bit 32 w" for w
    by (rule le_val_octets [where n = 4]) (simp_all add: nth_le_bytes uint_word_of_int_eq take_bit_drop_bit take_bit_lt_32 [of 32, simplified])
  moreover have "(word_of_int (take_bit 32 w) :: u32) = word_of_int w" for w
    by (rule word_uint_eqI) (simp add: uint_word_of_int_eq)
  ultimately show ?thesis by (simp add: words_of_def upt_rec)
qed

lemma length_sigma [simp]: "length sigma = 16"
  by (simp add: sigma_def)

lemma length_ref_input: "length key = 32 \<Longrightarrow> length iv = 8 \<Longrightarrow> length (ref_input key iv n) = 16"
  by (simp add: ref_input_def words_of_def)

lemma chacha8_init_ref:
  assumes "length key = 32" and "length iv = 8"
  shows "chacha8_init key iv = ref_input key iv 0"
proof -
  have "words_of (sigma @ key) = map (\<lambda>k. U8TO32_LITTLE (drop (4 * k) sigma)) [0..<4] @ map (\<lambda>k. U8TO32_LITTLE (drop (4 * k) key)) [0..<8]"
    by (rule nth_equalityI) (auto simp: words_of_def assms U8TO32_LITTLE_def nth_append right_diff_distrib')
  moreover have "words_of iv = [U8TO32_LITTLE iv, U8TO32_LITTLE (drop 4 iv)]"
    by (simp add: words_of_def assms upt_rec U8TO32_LITTLE_def)
  ultimately show ?thesis by (simp add: ref_input_def words_of_counter chacha8_init_def upt_rec)
qed

lemma chacha8_next_ref:
  assumes "length key = 32" and "length iv = 8"
  shows "chacha8_next (ref_input key iv n) = ref_input key iv (Suc n)"
proof -
  let ?lo = "\<lambda>n. word_of_int (int n) :: u32" and ?hi = "\<lambda>n. word_of_int (drop_bit 32 (int n)) :: u32"
  define w where "w = words_of (sigma @ key)"
  have w: "length w = 12" by (simp add: w_def words_of_def assms)
  have i: "ref_input key iv n = w @ [?lo n, ?hi n] @ words_of iv" for n
    by (simp add: ref_input_def words_of_counter w_def)
  have lo: "?lo (Suc n) = ?lo n + 1" by simp
  have hi: "?hi (Suc n) = (if ?lo n + 1 = 0 then ?hi n + 1 else ?hi n)"
  proof -
    have "?lo n + 1 = word_of_nat (Suc n)" by simp
    also have "\<dots> = 0 \<longleftrightarrow> Suc n mod 2 ^ 32 = 0" by (simp add: word_of_nat_eq_0_iff dvd_eq_mod_eq_0 del: of_nat_Suc)
    finally have z: "?lo n + 1 = 0 \<longleftrightarrow> Suc n mod 2 ^ 32 = 0" .
    have h: "?hi k = word_of_nat (k div 2 ^ 32)" for k
      unfolding drop_bit_eq_div using zdiv_int [of k "2 ^ 32"] of_int_of_nat_eq [of "k div 2 ^ 32", where 'a = u32]
      by (simp only: of_nat_power of_nat_numeral)
    show ?thesis unfolding z h div_Suc by simp
  qed
  show ?thesis unfolding i lo hi by (simp add: chacha8_next_def Let_def nth_append list_update_append w)
qed

lemma take_xor_left: "xor_bytes (take (length bs) ks) bs = xor_bytes ks bs"
  by (simp add: list_eq_iff_nth_eq)

lemma chacha8_loop_stream:
  assumes "length key = 32" and "length iv = 8" and "length tmp = 64"
  shows "chacha8_loop tmp (ref_input key iv n) data
    = xor_bytes (concat (map (\<lambda>k. ref_stream_block (ref_input key iv k)) [n..<n + (length data + 63) div 64])) data"
proof (induction "length data" arbitrary: n data rule: less_induct)
  case less
  note l = length_ref_input [OF assms(1,2)]
  let ?S = "\<lambda>k. ref_stream_block (ref_input key iv k)" and ?l = "length data"
  consider "?l = 0" | "0 < ?l" "?l < 64" | "?l = 64" | "64 < ?l" by linarith
  then show ?case
  proof cases
    case 2
    then have m: "(?l + 63) div 64 = 1" by (cases data) (auto intro: div_nat_eqI)
    let ?buf = "data @ drop ?l tmp"
    have "take ?l (chacha8_block (ref_input key iv n) ?buf) = take ?l (xor_bytes (?S n) ?buf)"
      using 2 assms(3) by (simp add: chacha8_block_ref l)
    also have "\<dots> = xor_bytes (?S n) data" by (simp add: take_map take_zip take_xor_left)
    finally show ?thesis using 2 m by (subst chacha8_loop.simps) simp
  next
    case 3
    then show ?thesis by (subst chacha8_loop.simps) (simp add: chacha8_block_ref l)
  next
    case 4
    have d: "(?l + 63) div 64 = Suc ((length (drop 64 data) + 63) div 64)"
      using 4 div_add_self1 [of 64 "length (drop 64 data) + 63"] by simp
    have u: "[n..<n + Suc k] = n # [Suc n..<Suc n + k]" for k by (simp add: upt_rec)
    have t: "xor_bytes (?S n @ xs) data = xor_bytes (?S n) (take 64 data) @ xor_bytes xs (drop 64 data)" for xs
      using 4 by (subst append_take_drop_id [of 64 data, symmetric], subst map2_append) (simp_all add: l)
    have b: "chacha8_block (ref_input key iv n) (take 64 data) = xor_bytes (?S n) (take 64 data)"
      using 4 by (simp add: chacha8_block_ref l)
    have IH: "chacha8_loop tmp (ref_input key iv (Suc n)) (drop 64 data)
        = xor_bytes (concat (map ?S [Suc n..<Suc n + (length (drop 64 data) + 63) div 64])) (drop 64 data)"
      using 4 by (intro less) simp
    show ?thesis unfolding d u list.map concat.simps t
      using 4 by (subst chacha8_loop.simps) (simp add: b IH chacha8_next_ref [OF assms(1,2)])
  qed (simp add: chacha8_loop.simps)
qed

lemma chacha8_keystream:
  assumes "length key = 32" and "length iv = 8" and "length tmp = 64"
  shows "chacha8 tmp data (length data) key iv = xor_bytes (ref_keystream key iv ((length data + 63) div 64)) data"
  using chacha8_loop_stream [OF assms, of 0 data]
  by (simp add: chacha8_def chacha8_init_ref assms ref_keystream_def)

lemma length_ref_keystream: "length key = 32 \<Longrightarrow> length iv = 8 \<Longrightarrow> length (ref_keystream key iv n) = 64 * n"
  by (induction n) (simp_all add: ref_keystream_def length_ref_input)

lemma xor_bytes_twice: "length data \<le> length ks \<Longrightarrow> xor_bytes ks (xor_bytes ks data) = data"
proof (induction data arbitrary: ks)
  case (Cons b data)
  then show ?case by (cases ks) (simp_all flip: xor.assoc)
qed simp

lemma chacha8_involution:
  assumes "length key = 32" and "length iv = 8" and "length tmp = 64" and "length tmp' = 64"
  shows "chacha8 tmp' (chacha8 tmp data (length data) key iv) (length data) key iv = data"
proof -
  let ?ks = "ref_keystream key iv ((length data + 63) div 64)"
  have k: "length data \<le> length ?ks" by (simp add: length_ref_keystream assms)
  then have "length (xor_bytes ?ks data) = length data" by simp
  then show ?thesis
    using chacha8_keystream [OF assms(1,2,3), of data] chacha8_keystream [OF assms(1,2,4), of "xor_bytes ?ks data"] xor_bytes_twice [OF k]
    by simp
qed

lemma generate_chacha8_key_length: "generate_chacha8_key pw = Some key \<Longrightarrow> length key = 32"
  by (auto simp: generate_chacha8_key_def dest: length_cn_fast_hash)

lemma do_chacha_crypt_key:
  assumes "do_chacha_crypt tmp buff pass = Some c"
  obtains key where "length key = 32" "generate_chacha8_key pass = Some key" "c = chacha8 tmp buff (length buff) key (replicate 8 0)"
  using assms by (auto simp: do_chacha_crypt_def generate_chacha8_key_length split: bind_splits)

lemma do_chacha_crypt_length: "do_chacha_crypt tmp buff pass = Some c \<Longrightarrow> length tmp = 64 \<Longrightarrow> length c = length buff"
  by (erule do_chacha_crypt_key) (simp add: chacha8_keystream length_ref_keystream)

lemma do_chacha_crypt_twice:
  assumes "do_chacha_crypt tmp buff pass = Some c" and "length tmp = 64" and "length tmp' = 64"
  shows "do_chacha_crypt tmp' c pass = Some buff"
proof -
  obtain key where key: "length key = 32" "generate_chacha8_key pass = Some key" "c = chacha8 tmp buff (length buff) key (replicate 8 0)"
    using do_chacha_crypt_key [OF assms(1)] .
  show ?thesis
    using chacha8_involution [OF key(1) _ assms(2,3), of "replicate 8 0" buff] do_chacha_crypt_length [OF assms(1,2)]
    by (simp add: do_chacha_crypt_def key)
qed

end
