(* ===== verification/HashProps.thy ===== *)
theory HashProps
  imports TreeHash RandomGen Varint Chacha8
begin

text \<open>
  The properties of the hash functions, the random generator, the variable-length integers, the
  wide arithmetic and the stream cipher.
\<close>

section \<open>Hash functions\<close>

text \<open>
  C33: the permutation.  \<open>keccakf\<close>, with its tables of rotations and lane positions and its unrolled
  columns, computes the permutation of the specification, whose offsets and round constants come
  from their recurrences.
\<close>

theorem keccakf_reference:
  assumes "length st = 25" and "rounds \<le> 24"
  shows "plane_eq (plane_of (keccakf st rounds)) (ref_keccakf (plane_of st) rounds)"
  by (rule keccakf_ref [OF assms])

theorem keccakf_reference_witness:
  "plane_eq (plane_of (keccakf (replicate 25 7) 24)) (ref_keccakf (plane_of (replicate 25 7)) 24)"
  by (rule keccakf_reference) simp_all

text \<open>
  \<open>keccakf\<close> loses nothing: two different states are never mapped to the same state, so that the
  generator cannot fall into a shorter cycle than the one it starts on.
\<close>

theorem keccakf_injective:
  assumes "length st = 25" and "length st' = 25" and "rounds \<le> 24" and "keccakf st rounds = keccakf st' rounds"
  shows "st = st'"
  by (rule keccakf_inj [OF assms])

theorem keccakf_injective_witness: "keccakf (replicate 25 0) 24 \<noteq> keccakf (replicate 25 1) 24"
  using keccakf_injective [of "replicate 25 0" "replicate 25 1" 24] by auto

text \<open>
  C32: \<open>cn_fast_hash\<close> returns 32 bytes for every input below 2^31 bytes: the first bytes of the
  sponge that absorbs the padded input, whatever the position of its end in the last block.
\<close>

theorem cn_fast_hash_sponge:
  assumes "length data < 2 ^ 31"
  shows "\<exists>h. cn_fast_hash data = Some h \<and> length h = 32 \<and> h = take 32 (bytes_of_lanes (ref_sponge 136 data))"
  using cn_fast_hash_reference [OF assms] length_cn_fast_hash by blast

theorem cn_fast_hash_sponge_witness:
  "\<exists>h. cn_fast_hash (replicate 135 9) = Some h \<and> length h = 32 \<and> h = take 32 (bytes_of_lanes (ref_sponge 136 (replicate 135 9)))"
  by (rule cn_fast_hash_sponge) simp

text \<open>
  C34: \<open>tree_hash\<close> on up to \<open>2 ^ 63\<close> leaves: no leaf fails its first assertion, one leaf is its own root, and for
  \<open>2 ^ k < n \<le> 2 ^ (k + 1)\<close> leaves the result is the root of the binary hash tree in which the last leaves
  are joined in pairs and the rest is a complete tree of depth \<open>k\<close>: the second assertion holds, and the search for
  the power of two by shifts finds \<open>2 ^ k\<close>.
\<close>

theorem tree_hash_root:
  assumes "\<forall>h\<in>set hashes. length h = 32" and "length hashes \<le> 2 ^ 63"
  shows "tree_hash hashes =
      (if hashes = [] then None
       else if length hashes = 1 then Some (hd hashes)
       else Some (ref_tree (tree_depth (length hashes)) hashes))
    \<and> (2 \<le> length hashes \<longrightarrow> 2 ^ tree_depth (length hashes) < length hashes \<and> length hashes \<le> 2 ^ Suc (tree_depth (length hashes)))"
proof -
  have "ref_tree (tree_depth 1) hashes = hd hashes" if "length hashes = 1"
    using that by (cases hashes) (simp_all add: ref_tree_def tree_depth.simps [of "Suc 0"])
  then show ?thesis using tree_hash_total [of hashes] tree_depth_bounds [of "length hashes"] assms by (auto simp: hashes_ok_def)
qed

theorem tree_hash_root_witness:
  "let a = replicate 32 1; b = replicate 32 2; c = replicate 32 3
   in tree_hash [] = None \<and> tree_hash [a] = Some a \<and> tree_hash [a, b, c] = Some (node a (node b c))"
proof -
  have "tree_depth (Suc (Suc (Suc 0))) = 1" by (simp add: tree_depth.simps)
  then show ?thesis
    using tree_hash_root [of "[]"] tree_hash_root [of "[replicate 32 1]"] tree_hash_root [of "[replicate 32 1, replicate 32 2, replicate 32 3]"]
    by (simp add: Let_def ref_tree_def)
qed

section \<open>The random generator\<close>

text \<open>
  C35: in every state that sequences of calls can reach, and once the device has supplied the first
  32 bytes, no assertion of a further call fails: seeding, saving, restoring and generating return.
\<close>

theorem prng_calls_return:
  assumes "prng_reachable os p" and "generate_system_random_bytes os 32 = Some sys" and "length buffer = 200"
  shows "prng_ok p \<and> random_prng_initialize_with_seed os seed p \<noteq> None \<and> random_prng_get_state os 200 p \<noteq> None
    \<and> random_prng_set_state os buffer 200 p \<noteq> None \<and> generate_random_bytes os n p \<noteq> None"
proof -
  have ok: "prng_ok p" by (rule prng_reachable_ok [OF assms(1)])
  obtain st where st: "granted os p = Some st" using assms(2) by (cases "initalized p") (auto simp: granted_def)
  show ?thesis
    using seed_ok [OF ok st] get_state_ok [OF ok st] set_state_ok [OF ok st assms(3)] generate_random_bytes_ok [OF ok st] ok by simp
qed

text \<open>A device that interrupts, then answers short, then long.\<close>

definition urandom_example :: urandom where
  "urandom_example = \<lparr>opens = True, reads = [Read_eintr, Read_some (replicate 10 1), Read_some (replicate 100 2)], closes = True\<rparr>"

lemma urandom_example_delivers: "generate_system_random_bytes urandom_example 32 = Some (replicate 10 1 @ replicate 22 2)"
  by code_simp

theorem prng_calls_return_witness:
  "random_prng_set_state urandom_example (replicate 200 0) 200 prng_0 \<noteq> None
    \<and> generate_random_bytes urandom_example 1000 prng_0 \<noteq> None"
  using prng_calls_return [OF _ urandom_example_delivers, of prng_0 "replicate 200 0" 0 1000] by (simp add: prng_reachable_def)

text \<open>
  C36: \<open>generate_random_bytes\<close> ends for every \<open>n\<close> and returns exactly \<open>n\<close> bytes, the first 136 bytes of
  successive permutations of the state, which it leaves advanced by the number of blocks used.
\<close>

theorem generate_random_bytes_stream:
  assumes "prng_ok p" and "granted os p = Some st"
  shows "\<exists>result q. generate_random_bytes os n p = Some (result, q) \<and> length result = n
    \<and> result = take n (ref_stream st ((n + 135) div 136)) \<and> rnd_state q = (hash_permutation ^^ ((n + 135) div 136)) st \<and> prng_ok q"
proof -
  have l: "length st = 25" by (rule length_granted [OF assms(2,1)])
  have "n \<le> 136 * ((n + 135) div 136)"
    using div_mult_mod_eq [of "n + 135" 136] mod_less_divisor [of 136 "n + 135"] by linarith
  then show ?thesis
    using generate_random_bytes_ok [OF assms, of n] length_ref_stream [OF l] l by (simp add: ready_ok)
qed

theorem generate_random_bytes_stream_witness:
  "\<exists>result q. generate_random_bytes urandom_example 137 prng_0 = Some (result, q) \<and> length result = 137"
proof -
  obtain st where "granted urandom_example prng_0 = Some st"
    using urandom_example_delivers by (simp add: prng_0_def granted_def)
  moreover have "prng_ok prng_0" by (simp add: prng_ok_def prng_0_def)
  ultimately show ?thesis using generate_random_bytes_stream [of prng_0 urandom_example st 137] by blast
qed

text \<open>
  C37: \<open>generate_system_random_bytes\<close> finishes when the device opens, closes, reports no error and no
  end of file and supplies enough bytes in total: short reads and interrupted calls only delay it.
\<close>

theorem urandom_reads_enough:
  assumes "opens os" and "closes os" and "\<forall>r\<in>set (reads os). r \<noteq> Read_error \<and> r \<noteq> Read_some []"
    and "n \<le> length (available (reads os))" and "0 < n"
  shows "generate_system_random_bytes os n = Some (take n (available (reads os)))"
  using urandom_loop_total [of "reads os" n] assms by (simp add: generate_system_random_bytes_def)

theorem urandom_reads_enough_witness:
  "generate_system_random_bytes urandom_example 32 = Some (take 32 (replicate 10 1 @ replicate 100 2))"
  using urandom_reads_enough [of urandom_example 32] by (simp add: urandom_example_def)

text \<open>
  the state saved by \<open>random_prng_get_state\<close> and restored by \<open>random_prng_set_state\<close>, even into another
  generator, makes the same bytes come out as without the interruption.
\<close>

theorem prng_save_restore:
  assumes "prng_ok p" and "prng_ok p'" and "generate_system_random_bytes os 32 = Some sys"
  shows "\<exists>buffer q q'. random_prng_get_state os 200 p = Some (buffer, q) \<and> random_prng_set_state os buffer 200 p' = Some q'
    \<and> generate_random_bytes os n q = generate_random_bytes os n q'"
proof -
  obtain st st' where st: "granted os p = Some st" "granted os p' = Some st'"
    using assms(3) by (cases "initalized p"; cases "initalized p'") (auto simp: granted_def)
  have l: "length st = 25" by (rule length_granted [OF st(1) assms(1)])
  show ?thesis
    using get_state_ok [OF assms(1) st(1)] set_state_ok [OF assms(2) st(2), of "bytes_of_lanes st"] l
    by (simp add: lanes_of_bytes_of_lanes)
qed

theorem prng_save_restore_witness:
  "\<exists>buffer q q'. random_prng_get_state urandom_example 200 prng_0 = Some (buffer, q)
    \<and> random_prng_set_state urandom_example buffer 200 prng_0 = Some q'
    \<and> generate_random_bytes urandom_example 500 q = generate_random_bytes urandom_example 500 q'"
  by (rule prng_save_restore [OF _ _ urandom_example_delivers]) (simp_all add: prng_ok_def prng_0_def)

section \<open>Integers\<close>

text \<open>
  C38: \<open>read_varint\<close> returns every value that \<open>write_varint\<close> has written, with the number of bytes and
  the bytes after them, and at most ten bytes are written.
\<close>

theorem varint_roundtrip:
  "read_varint 64 (write_varint v @ rest) = \<lparr>vr_ret = int (length (write_varint v)), vr_value = v, vr_rest = rest\<rparr>
    \<and> length (write_varint v) \<le> 10"
  using read_write_varint length_write_varint_max by blast

text \<open>
  C39: \<open>read_varint\<close> returns a positive count exactly on the inputs that start with what \<open>write_varint\<close> writes
  for some value, so longer forms of a number are refused, and on the truncated numbers: up to nine bytes
  with their top bits set and nothing after them, because the end of the input is not an error.
\<close>

theorem varint_canonical:
  "0 < vr_ret (read_varint 64 input) \<longleftrightarrow>
    (\<exists>v rest. input = write_varint v @ rest) \<or> input \<noteq> [] \<and> length input \<le> 9 \<and> list_all (\<lambda>b. 128 \<le> uint b) input"
  by (rule read_varint_accepts)

theorem varint_canonical_witness:
  "0 < vr_ret (read_varint 64 (write_varint 300 @ [7])) \<and> 0 < vr_ret (read_varint 64 [0x80])"
  using varint_canonical [of "write_varint 300 @ [7]"] varint_canonical [of "[0x80]"] by auto

text \<open>A truncated number is read as the value of its groups.\<close>

lemma varint_truncated: "read_varint 64 [0xac] = \<lparr>vr_ret = 1, vr_value = 44, vr_rest = []\<rparr> \<and> write_varint 300 = [0xac, 0x02]"
  by code_simp

text \<open>
  C40: \<open>get_varint_packed_size\<close> is the number of bytes \<open>write_varint\<close> writes only below 2^56: from there on
  it returns 8, and at least 9 bytes are written.
\<close>

theorem varint_packed_size:
  "(uint v < 2 ^ 56 \<longrightarrow> get_varint_packed_size v = length (write_varint v))
    \<and> (2 ^ 56 \<le> uint v \<longrightarrow> get_varint_packed_size v = 8 \<and> 9 \<le> length (write_varint v))"
  using packed_size_correct packed_size_wrong by blast

theorem varint_packed_size_witness:
  "get_varint_packed_size 300 = length (write_varint 300)
    \<and> get_varint_packed_size 0x100000000000000 = 8 \<and> 9 \<le> length (write_varint 0x100000000000000)"
  using varint_packed_size [of 300] varint_packed_size [of "0x100000000000000"] by simp

text \<open>
  The product and the quotient written out for compilers without a 128-bit type agree with the
  ones that use it; the assertion of the product holds, and the two halves are the exact product.
\<close>

theorem wide_arithmetic_agrees:
  "mul128_manually x y = Some (mul128 x y) \<and> uint (fst (mul128 x y)) + 2 ^ 64 * uint (snd (mul128 x y)) = uint x * uint y
    \<and> div128_32_manually hi lo divisor = div128_32 hi lo divisor"
  using mul128_manually_mul128 mul128_value [of x y "fst (mul128 x y)" "snd (mul128 x y)"] div128_32_manually_div128 by simp

section \<open>The stream cipher\<close>

text \<open>
  \<open>chacha8\<close> combines the data with the key stream of the specification, block by block under a
  64-bit counter; the last block, which goes through a buffer that is only partly set, does not depend on
  what the buffer held.
\<close>

theorem chacha8_is_keystream:
  assumes "length key = 32" and "length iv = 8" and "length tmp = 64"
  shows "chacha8 tmp data (length data) key iv = xor_bytes (ref_keystream key iv ((length data + 63) div 64)) data"
  by (rule chacha8_keystream [OF assms])

theorem chacha8_is_keystream_witness:
  "chacha8 (replicate 64 5) (replicate 100 1) 100 (replicate 32 2) (replicate 8 3)
    = xor_bytes (ref_keystream (replicate 32 2) (replicate 8 3) 2) (replicate 100 1)"
  using chacha8_is_keystream [of "replicate 32 2" "replicate 8 3" "replicate 64 5" "replicate 100 1"] by simp

text \<open>
  \<open>do_chacha_crypt\<close> with the same password undoes itself, whatever the unset parts of its buffer.
\<close>

theorem chacha_crypt_roundtrip:
  assumes "length pass < 2 ^ 31" and "length tmp = 64" and "length tmp' = 64"
  shows "\<exists>c. do_chacha_crypt tmp buff pass = Some c \<and> length c = length buff \<and> do_chacha_crypt tmp' c pass = Some buff"
proof -
  obtain c where c: "do_chacha_crypt tmp buff pass = Some c"
    using cn_fast_hash_reference [OF assms(1)] by (simp add: do_chacha_crypt_def generate_chacha8_key_def)
  have b: "do_chacha_crypt tmp' c pass = Some buff" by (rule do_chacha_crypt_twice [OF c assms(2,3)])
  show ?thesis using c b do_chacha_crypt_length [OF c assms(2)] by blast
qed

theorem chacha_crypt_roundtrip_witness:
  "\<exists>c. do_chacha_crypt (replicate 64 0) [1, 2, 3] [0x70, 0x77] = Some c \<and> length c = 3
    \<and> do_chacha_crypt (replicate 64 9) c [0x70, 0x77] = Some [1, 2, 3]"
  using chacha_crypt_roundtrip [of "[0x70, 0x77]" "replicate 64 0" "replicate 64 9" "[1, 2, 3]"] by (simp add: numeral_3_eq_3)

end
