(* ===== verification/GroupProps.thy ===== *)
theory GroupProps
  imports HashToPoint
begin

text \<open>
  The properties of the group operations of \<open>crypto-ops.c\<close>: each refines an operation of the group
  of points, whatever the redundant coordinates and the limbs that stand for the arguments.
\<close>

text \<open>The base point in the coordinates of \<open>ge_p3\<close>, for concrete instances.\<close>

definition ge_p3_B :: ge_p3 where
  "ge_p3_B = ge_p1p1_to_p3 (ge_madd ge_p3_0 (ge_Bi ! 0))"

lemma ge_p3_B_ed: "p3_is ed_B ge_p3_B"
proof -
  have "precomp_is ed_B (ge_Bi ! 0)" using ge_Bi_multiples [of 0] by simp
  from ge_p1p1_to_p3_rep [OF ge_madd_ed [OF ge_p3_0_ed this]] show ?thesis by (simp add: ge_p3_B_def)
qed

lemma zmul_8: "zmul 8 P = P + P + (P + P) + (P + P + (P + P))"
  using zmul_mult [of 4 2 P] zmul_mult [of 2 2 P] zmul_mult [of 2 4 P] by (simp add: zmul_2)

text \<open>
  C24: the addition formulas.  For points in any of their representations within the bounds,
  \<open>ge_add\<close>, \<open>ge_sub\<close>, \<open>ge_madd\<close> and \<open>ge_msub\<close> compute the sum and the difference in the group of
  the curve, with no exceptional case and no overflow of a limb.
\<close>

theorem ge_add_refines:
  assumes "p3_is P p" and "cached_is Q q" and "precomp_is R r"
  shows "p1p1_is (P + Q) (ge_add p q) \<and> p1p1_is (P - Q) (ge_sub p q)
    \<and> p1p1_is (P + R) (ge_madd p r) \<and> p1p1_is (P - R) (ge_msub p r)"
  by (intro conjI ge_rules assms)

theorem ge_add_refines_witness:
  "let c = ge_p3_to_cached ge_p3_B
   in p1p1_is (ed_B + ed_B) (ge_add ge_p3_B c) \<and> p1p1_is (ed_B - ed_B) (ge_sub ge_p3_B c)
    \<and> p1p1_is (ed_B + zmul 3 ed_B) (ge_madd ge_p3_B (ge_Bi ! 1))
    \<and> p1p1_is (ed_B - zmul 3 ed_B) (ge_msub ge_p3_B (ge_Bi ! 1))"
  using ge_add_refines [OF ge_p3_B_ed ge_p3_to_cached_rep [OF ge_p3_B_ed] ge_Bi_multiples [of 1]]
  by (simp add: Let_def)

text \<open>
  The doublings.  \<open>ge_p2_dbl\<close> and \<open>ge_p3_dbl\<close> double, \<open>ge_mul8\<close> multiplies by the
  cofactor 8, and the conversions between the five representations keep the point.
\<close>

theorem ge_dbl_refines:
  assumes "p2_is P p" and "p3_is Q q" and "p1p1_is R r"
  shows "p1p1_is (P + P) (ge_p2_dbl p) \<and> p1p1_is (Q + Q) (ge_p3_dbl q) \<and> p1p1_is (zmul 8 P) (ge_mul8 p)
    \<and> p2_is R (ge_p1p1_to_p2 r) \<and> p3_is R (ge_p1p1_to_p3 r) \<and> p2_is Q (ge_p3_to_p2 q) \<and> cached_is Q (ge_p3_to_cached q)"
proof -
  have "p1p1_is (zmul 8 P) (ge_mul8 p)"
    unfolding zmul_8 ge_mul8_def Let_def by (intro ge_rules assms)
  then show ?thesis using assms by (blast intro: ge_rules)
qed

theorem ge_dbl_refines_witness:
  "p1p1_is (0 + 0) (ge_p2_dbl ge_p2_0) \<and> p1p1_is (ed_B + ed_B) (ge_p3_dbl ge_p3_B)
    \<and> p3_is (ed_B + ed_B) (ge_p1p1_to_p3 (ge_p3_dbl ge_p3_B)) \<and> cached_is ed_B (ge_p3_to_cached ge_p3_B)"
  using ge_dbl_refines [OF ge_p2_0_ed ge_p3_B_ed ge_p3_dbl_ed [OF ge_p3_B_ed]] by blast

text \<open>
  C25: \<open>ge_scalarmult\<close>.  For a scalar whose top byte is at most 127 the multiplication returns, no
  assertion of its selections fails, and the result is the multiple of the point by the scalar.
\<close>

theorem ge_scalarmult_refines:
  assumes "length a = 32" and "a ! 31 \<le> 127" and "p3_is A p"
  shows "\<exists>r. ge_scalarmult a p = Some r \<and> p2_is (zmul (le_val a) A) r"
  by (rule ge_scalarmult_multiple [OF assms])

theorem ge_scalarmult_refines_witness:
  "let a = replicate 31 255 @ [127]
   in \<exists>r. ge_scalarmult a ge_p3_B = Some r \<and> p2_is (zmul (2 ^ 255 - 1) ed_B) r"
proof -
  let ?a = "replicate 31 255 @ [127] :: bytes"
  have "le_val ?a = 2 ^ 255 - 1" by code_simp
  moreover have "length ?a = 32" by simp
  moreover have "?a ! 31 \<le> 127" by (simp add: nth_append)
  ultimately show ?thesis using ge_scalarmult_refines [of ?a, OF _ _ ge_p3_B_ed] by (simp add: Let_def)
qed

text \<open>
  C26: for scalars below \<open>2 ^ 255\<close> the double multiplications compute \<open>a A + b B\<close>, with \<open>B\<close> the base point of
  the table \<open>ge_Bi\<close> or the point whose odd multiples \<open>ge_dsm_precomp\<close> has put into a table.  The comment in
  the source states no bound, but one is needed: \<open>slide_loses_carry\<close> below.
\<close>

theorem ge_double_scalarmult_refines:
  assumes "length a = 32" and "le_val a < 2 ^ 255" and "length b = 32" and "le_val b < 2 ^ 255"
    and "p3_is A p" and "p3_is Q q"
  shows "p2_is (zmul (le_val a) A + zmul (le_val b) ed_B) (ge_double_scalarmult_base_vartime a p b)
    \<and> p2_is (zmul (le_val a) A + zmul (le_val b) Q) (ge_double_scalarmult_precomp_vartime a p b (ge_dsm_precomp q))"
  using ge_double_scalarmult_base_multiple [OF assms(1-5)] ge_double_scalarmult_precomp_multiple [OF assms] by simp

theorem ge_double_scalarmult_refines_witness:
  "let a = replicate 31 255 @ [127]; b = 7 # replicate 31 0
   in p2_is (zmul (2 ^ 255 - 1) ed_B + zmul 7 ed_B) (ge_double_scalarmult_base_vartime a ge_p3_B b)
    \<and> p2_is (zmul (2 ^ 255 - 1) ed_B + zmul 7 0) (ge_double_scalarmult_precomp_vartime a ge_p3_B b (ge_dsm_precomp ge_p3_0))"
proof -
  let ?a = "replicate 31 255 @ [127] :: bytes" and ?b = "7 # replicate 31 0 :: bytes"
  have "le_val ?a = 2 ^ 255 - 1" "le_val ?b = 7" by code_simp+
  then show ?thesis
    using ge_double_scalarmult_refines [of ?a ?b, OF _ _ _ _ ge_p3_B_ed ge_p3_0_ed] by (simp add: Let_def)
qed

text \<open>
  \<open>slide\<close> rewrites a scalar below \<open>2 ^ 255\<close> to signed digits of the same value: no carry is lost
  past the end, each digit is zero or odd and at most 15 in absolute value, so that the halved
  digit is an index into a table of eight, and four zeros follow a digit that is not zero.
\<close>

theorem slide_recodes:
  assumes "length a = 32" and "le_val a < 2 ^ 255"
  shows "length (slide a) = 256 \<and> (\<Sum>j<256. sint (slide a ! j) * 2 ^ j) = le_val a
    \<and> (\<forall>j<256. slide a ! j \<noteq> 0 \<longrightarrow> odd (sint (slide a ! j)) \<and> \<bar>sint (slide a ! j)\<bar> div 2 < 8
        \<and> (\<forall>m. j < m \<longrightarrow> m \<le> j + 4 \<longrightarrow> m < 256 \<longrightarrow> slide a ! m = 0))"
proof -
  have "slide_ok (le_val a) 256 (slide a)" by (rule slide_correct [OF assms])
  moreover have "\<bar>sint d\<bar> div 2 < 8" if "\<bar>sint d\<bar> \<le> 15" for d :: i8 using that by linarith
  ultimately show ?thesis unfolding slide_ok_def bits_from_def slide_val_def by blast
qed

theorem slide_recodes_witness:
  "let r = slide (255 # replicate 31 0)
   in (\<Sum>j<256. sint (r ! j) * 2 ^ j) = 255 \<and> r ! 0 = - 1 \<and> r ! 8 = 1"
proof -
  let ?a = "255 # replicate 31 0 :: bytes"
  have v: "le_val ?a = 255" by code_simp
  have "slide ?a ! 0 = - 1" "slide ?a ! 8 = 1" by code_simp+
  then show ?thesis using slide_recodes [of ?a] unfolding v by (simp add: Let_def)
qed

text \<open>
  On \<open>2 ^ 256 - 1\<close> the last carry runs past the end of the array and is lost: the digits stand for -1.
\<close>

lemma slide_loses_carry: "slide (replicate 32 255) = - 1 # replicate 255 0"
  by code_simp

text \<open>
  the signed radix-16 digits of both constant-time multiplications have the value of the
  scalar and stay between -8 and 8, the range of the branch-free table lookups.
\<close>

theorem radix16_recodes:
  assumes "length a = 32" and "a ! 31 \<le> 127"
  shows "\<forall>e\<in>{ge_scalarmult_digits a, ge_base_carries 0 (ge_base_nibbles a)}.
    length e = 64 \<and> digits_val 16 e = le_val a \<and> (\<forall>d\<in>set e. \<bar>sint d\<bar> \<le> 8)"
  using ge_scalarmult_digits_correct [OF assms] ge_base_digits_correct [OF assms] by simp

theorem radix16_recodes_witness:
  "let a = replicate 31 255 @ [127]; e = ge_base_carries 0 (ge_base_nibbles a)
   in digits_val 16 e = 2 ^ 255 - 1 \<and> digits_val 16 (ge_scalarmult_digits a) = 2 ^ 255 - 1 \<and> hd e = - 1 \<and> last e = 8"
proof -
  let ?a = "replicate 31 255 @ [127] :: bytes"
  let ?e = "ge_base_carries 0 (ge_base_nibbles ?a)"
  have v: "le_val ?a = 2 ^ 255 - 1" by code_simp
  have "hd ?e = - 1" "last ?e = 8" by code_simp+
  moreover have "?a ! 31 \<le> 127" by (simp add: nth_append)
  ultimately show ?thesis using radix16_recodes [of ?a] unfolding v by (simp add: Let_def)
qed

text \<open>
  C27: \<open>ge_frombytes_vartime\<close> accepts exactly the canonical encodings of the points of the curve: it
  returns -1 when the 32 bytes encode no point, and otherwise the point they encode.
\<close>

theorem ge_frombytes_accepts:
  assumes "length s = 32"
  shows "case ge_frombytes_vartime s of
      Some p \<Rightarrow> \<exists>P. p3_is P p \<and> ed_encode P = s
    | None \<Rightarrow> \<nexists>P. ed_encode P = s"
  by (rule ge_frombytes_canonical [OF assms])

theorem ge_frombytes_accepts_witness:
  "ge_frombytes_vartime (replicate 32 255) = None \<and> (\<nexists>P. ed_encode P = replicate 32 255)
    \<and> (\<exists>p. ge_frombytes_vartime (ed_encode ed_B) = Some p \<and> p3_is ed_B p)"
proof (intro conjI)
  have "fe_noncanonical (fe_frombytes_h (replicate 32 255))" by code_simp
  then show n: "ge_frombytes_vartime (replicate 32 255) = None" by (simp add: ge_frombytes_vartime_def)
  show "\<nexists>P. ed_encode P = replicate 32 255" using ge_frombytes_accepts [of "replicate 32 255"] n by simp
  show "\<exists>p. ge_frombytes_vartime (ed_encode ed_B) = Some p \<and> p3_is ed_B p"
    using ge_frombytes_accepts [of "ed_encode ed_B"] by (auto dest: ed_encode_inject split: option.splits)
qed

text \<open>
  Encoding and decoding points.  Two representations are written to the same bytes exactly
  when they stand for the same point, and what \<open>ge_p3_tobytes\<close> writes is decoded to that point.
\<close>

theorem ge_tobytes_roundtrip:
  assumes "p3_is P p" and "p2_is Q q"
  shows "(ge_p3_tobytes p = ge_tobytes q \<longleftrightarrow> P = Q)
    \<and> (\<exists>p'. ge_frombytes_vartime (ge_p3_tobytes p) = Some p' \<and> p3_is P p')
    \<and> (\<exists>q'. ge_frombytes_vartime (ge_tobytes q) = Some q' \<and> p3_is Q q')"
proof -
  have d: "\<exists>p'. ge_frombytes_vartime (ed_encode P) = Some p' \<and> p3_is P p'" for P
    using ge_frombytes_canonical [of "ed_encode P"] by (auto dest: ed_encode_inject split: option.splits)
  show ?thesis
    unfolding ge_p3_tobytes_encode [OF assms(1)] ge_tobytes_encode [OF assms(2)]
    using d ed_encode_inject by blast
qed

theorem ge_tobytes_roundtrip_witness:
  "(ge_p3_tobytes ge_p3_B = ge_tobytes (ge_p3_to_p2 ge_p3_B))
    \<and> (\<exists>p. ge_frombytes_vartime (ge_p3_tobytes ge_p3_B) = Some p \<and> p3_is ed_B p)"
  using ge_tobytes_roundtrip [OF ge_p3_B_ed ge_p3_to_p2_rep [OF ge_p3_B_ed]] by blast

text \<open>
  C28: \<open>ge_fromfe_frombytes_vartime\<close>.  For every 32 bytes the map returns a point of the curve: none
  of its assertions fails, neither the one on the candidate root nor the check of the curve
  equation at the end.
\<close>

theorem ge_fromfe_safe:
  assumes "length s = 32"
  shows "\<exists>p P. ge_fromfe_frombytes_vartime s = Some p \<and> p2_is P p"
  by (rule ge_fromfe_total [OF assms])

theorem ge_fromfe_safe_witness:
  "\<exists>p P. ge_fromfe_frombytes_vartime (replicate 32 0) = Some p \<and> p2_is P p"
  by (rule ge_fromfe_safe) simp

text \<open>
  \<open>fe_invert\<close> returns the inverse in the field: \<open>2 ^ 255 - 19\<close> is prime, so the power is the
  inverse of every element but zero.
\<close>

theorem fe_invert_inverse:
  assumes "fe_bounded 110729625 55364812 z" and "fe_gf z \<noteq> 0"
  shows "fe_gf z * fe_gf (fe_invert z) = 1 \<and> fe_gf (fe_mul z (fe_invert z)) = 1"
proof -
  have i: "fe_gf (fe_invert z) = inverse (fe_gf z)" "fe_bounded 33889976 16944988 (fe_invert z)"
    using fe_invert_correct [OF assms(1)] by (simp_all add: inverse_gf_def)
  have "fe_bounded 110729625 55364812 (fe_invert z)" by (rule fe_bounded_mono [OF i(2)]) simp_all
  then show ?thesis using fe_chain.mul_abs [OF assms(1)] assms(2) by (simp add: i(1))
qed

theorem fe_invert_inverse_witness:
  "fe_gf fe_sqrtm1 * fe_gf (fe_invert fe_sqrtm1) = 1 \<and> fe_gf (fe_mul fe_sqrtm1 (fe_invert fe_sqrtm1)) = 1"
proof (rule fe_invert_inverse)
  show "fe_bounded 110729625 55364812 fe_sqrtm1" by (simp add: fe_bounded_def all_less_10 fe_sqrtm1_def)
  show "fe_gf fe_sqrtm1 \<noteq> 0" using ed_i_square by (auto simp: ed_i_def)
qed

text \<open>
  The constants of \<open>crypto-ops-data.c\<close> are what their comments say: \<open>d = -121665/121666\<close>, its
  double, a root of -1, \<open>-A\<close>, \<open>-A^2\<close> and the four roots the map to points multiplies by.
\<close>

theorem ge_constants:
  "121666 * fe_gf fe_d = - 121665 \<and> fe_gf fe_d2 = 2 * fe_gf fe_d \<and> fe_gf fe_sqrtm1 ^ 2 = - 1
    \<and> fe_gf fe_ma = - 486662 \<and> fe_gf fe_ma2 = - (486662 ^ 2)
    \<and> fe_gf fe_fffb1 ^ 2 = - 2 * 486662 * (486662 + 2) \<and> fe_gf fe_fffb2 ^ 2 = 2 * 486662 * (486662 + 2)
    \<and> fe_gf fe_fffb3 ^ 2 = - (fe_gf fe_sqrtm1 * 486662 * (486662 + 2)) \<and> fe_gf fe_fffb4 ^ 2 = fe_gf fe_sqrtm1 * 486662 * (486662 + 2)"
  using ed_d_ratio ed_i_square fffb_squares fe_const_is [THEN fe_is_gf] fe_is_d2 [THEN fe_is_gf]
  by (simp add: ed_d_def ed_i_def mont_A_def power2_eq_square)

end
