(* ===== verification/CryptoProps.thy ===== *)
theory CryptoProps
  imports RingSign HashProps GroupProps
begin

text \<open>
  The properties of \<open>crypto.cpp\<close>: signatures and ring signatures that are made are accepted, the
  two sides of a one-time key agree, key images are valid and unique, and no call stops the
  process.
\<close>

section \<open>Concrete inputs\<close>

text \<open>The secret key 1 and the random device of the examples.\<close>

definition key_one :: bytes where
  "key_one = 1 # replicate 31 0"

lemma le_val_key_one: "le_val key_one = 1"
  unfolding key_one_def using le_val_zero_iff [of "replicate 31 0"] by (simp only: le_val_Cons) simp

lemma is_scalar_key_one: "is_scalar key_one"
  using le_val_key_one by (simp add: is_scalar_def sc_order_def) (simp add: key_one_def)

lemma prng_live_0: "prng_live urandom_example prng_0"
  using urandom_example_delivers by (simp add: prng_live_def prng_ok_def prng_0_def granted_def)

lemma public_of_key_one: "public_of key_one = ed_encode ed_B"
  by (simp add: public_of_def le_val_key_one)

lemma secret_key_to_public_key_one: "secret_key_to_public_key key_one = Some (Some (ed_encode ed_B))"
  using secret_key_to_public_key_eq [of key_one] is_scalar_key_one by (simp add: public_of_key_one)

lemma key_pairD:
  assumes "length sec = 32" and "secret_key_to_public_key sec = Some (Some pub)"
  shows "is_scalar sec" and "pub = public_of sec"
  using assms secret_key_to_public_key_eq [OF assms(1)] by (auto split: if_splits)

section \<open>Scalar multiplication of the base point\<close>

text \<open>
  C21: \<open>ge_scalarmult_base\<close>.  For a scalar whose top byte is at most 127 the multiplication with the
  table of 256 points returns, no assertion of its selections fails, and the result is the
  multiple of the base point: every entry of the table is the point it should be.
\<close>

theorem ge_scalarmult_base_refines:
  assumes "length a = 32" and "a ! 31 \<le> 127"
  shows "\<exists>r. ge_scalarmult_base a = Some r \<and> p3_is (zmul (le_val a) ed_B) r"
  by (rule ge_scalarmult_base_multiple [OF assms])

theorem ge_scalarmult_base_refines_witness:
  "\<exists>r. ge_scalarmult_base (replicate 31 255 @ [127]) = Some r \<and> p3_is (zmul (2 ^ 255 - 1) ed_B) r"
proof -
  let ?a = "replicate 31 255 @ [127] :: bytes"
  have "le_val ?a = 2 ^ 255 - 1" by code_simp
  moreover have "length ?a = 32" by simp
  moreover have "?a ! 31 \<le> 127" by (simp add: nth_append)
  ultimately show ?thesis using ge_scalarmult_base_refines [of ?a] by simp
qed

section \<open>Keys\<close>

text \<open>
  \<open>generate_keys\<close> returns a well-formed pair: a secret key of 32 bytes that passes \<open>sc_check\<close> and
  a public key of 32 bytes that passes \<open>check_key\<close> and is the one of the secret key.
\<close>

theorem generate_keys_type:
  assumes "prng_live os p"
  shows "\<exists>pub sec v q. generate_keys os p = Some (pub, sec, v, q) \<and> length sec = 32 \<and> sc_check sec = 0
    \<and> length pub = 32 \<and> check_key pub \<and> secret_key_to_public_key sec = Some (Some pub) \<and> prng_live os q"
  using generate_keys_eq [OF assms] secret_key_to_public_key_eq by (auto simp: public_of_def)

theorem generate_keys_type_witness:
  "\<exists>pub sec v q. generate_keys urandom_example prng_0 = Some (pub, sec, v, q) \<and> length sec = 32 \<and> sc_check sec = 0
    \<and> length pub = 32 \<and> check_key pub \<and> secret_key_to_public_key sec = Some (Some pub) \<and> prng_live urandom_example q"
  by (rule generate_keys_type [OF prng_live_0])

text \<open>
  The vector that \<open>generate_keys\<close> returns restores the pair, and \<open>restore_keys\<close> throws for every
  seed that has not 32 bytes.
\<close>

theorem restore_keys_roundtrip:
  assumes "prng_live os p" and "length other \<noteq> 32"
  shows "\<exists>pub sec v q. generate_keys os p = Some (pub, sec, v, q) \<and> restore_keys v = Some (Inr (pub, sec))
    \<and> restore_keys other = Some (Inl (Runtime_error ''Invalid restore seed size''))"
proof -
  obtain sec q where k: "generate_keys os p = Some (public_of sec, sec, sec, q)" "is_scalar sec"
    using generate_keys_eq [OF assms(1)] by blast
  obtain r where "ge_scalarmult_base sec = Some r" "ge_p3_tobytes r = public_of sec" using base_mult_public [OF k(2)] by blast
  then show ?thesis using k assms(2) by (simp add: restore_keys_def)
qed

theorem restore_keys_roundtrip_witness:
  "\<exists>pub sec v q. generate_keys urandom_example prng_0 = Some (pub, sec, v, q) \<and> restore_keys v = Some (Inr (pub, sec))
    \<and> restore_keys [] = Some (Inl (Runtime_error ''Invalid restore seed size''))"
  by (rule restore_keys_roundtrip [OF prng_live_0]) simp

text \<open>
  \<open>dependent_key\<close> never throws: the hash is reduced modulo the group order, so the check of the
  result cannot fail, and the result is a secret key.
\<close>

theorem dependent_key_total:
  assumes "length first = 32"
  shows "\<exists>second. dependent_key first = Some (Inr second) \<and> length second = 32 \<and> sc_check second = 0"
  using hash_to_scalar_ok [of first] assms by (auto simp: dependent_key_def)

theorem dependent_key_total_witness:
  "\<exists>second. dependent_key key_one = Some (Inr second) \<and> length second = 32 \<and> sc_check second = 0"
  by (rule dependent_key_total) (simp add: key_one_def)

text \<open>
  C22: \<open>secret_key_to_public_key\<close> accepts every scalar below the group order and no other, and different secret
  keys have different public keys.
\<close>

theorem secret_key_to_public_key_injective:
  assumes "length a = 32" and "length b = 32" and "le_val a < sc_order" and "le_val b < sc_order" and "a \<noteq> b"
    and "length c = 32" and "sc_order \<le> le_val c"
  shows "\<exists>A B. secret_key_to_public_key a = Some (Some A) \<and> secret_key_to_public_key b = Some (Some B) \<and> A \<noteq> B
    \<and> secret_key_to_public_key c = Some None"
proof -
  have s: "is_scalar a" "is_scalar b" "\<not> is_scalar c" using assms by (simp_all add: is_scalar_def)
  have "public_of a \<noteq> public_of b"
  proof
    assume "public_of a = public_of b"
    then have "zmul (le_val a) ed_B = zmul (le_val b) ed_B" unfolding public_of_def by (blast dest: ed_encode_inject)
    then have z: "zmul (le_val a - le_val b) ed_B = 0" by (simp add: zmul_diff)
    have "sc_order dvd le_val a - le_val b"
    proof (rule ccontr)
      assume "\<not> sc_order dvd le_val a - le_val b"
      then have "gcd (le_val a - le_val b) sc_order = 1"
        using is_prime_coprime [OF prime_sc_order] by (simp add: coprime_iff_gcd_eq_1)
      then show False using zmul_gcd [OF z sc_order_base] ed_B_nonzero by simp
    qed
    then have "le_val a = le_val b" using s by (simp add: is_scalar_def mod_eq_dvd_iff [symmetric])
    then show False using le_val_inject [of a b] assms(1,2,5) by simp
  qed
  then show ?thesis using secret_key_to_public_key_eq assms(1,2,6) s by simp
qed

theorem secret_key_to_public_key_injective_witness:
  "\<exists>A B. secret_key_to_public_key key_one = Some (Some A) \<and> secret_key_to_public_key (2 # replicate 31 0) = Some (Some B) \<and> A \<noteq> B
    \<and> secret_key_to_public_key L_bytes = Some None"
proof (rule secret_key_to_public_key_injective)
  have "le_val (replicate 31 0) = 0" using le_val_zero_iff [of "replicate 31 0"] by simp
  then show "le_val (2 # replicate 31 0) < sc_order" by (simp only: le_val_Cons) (simp add: sc_order_def)
  show "le_val key_one < sc_order" using is_scalar_key_one by (simp add: is_scalar_def)
qed (simp_all add: key_one_def L_bytes_scalar)

text \<open>
  C23: \<open>check_key\<close> accepts exactly as many of the strings of 32 bytes as the curve has points, eight
  times the group order, which is a prime number.
\<close>

theorem check_key_count: "int (card {s. length s = 32 \<and> check_key s}) = 8 * sc_order \<and> is_prime sc_order"
proof -
  have "{s. length s = 32 \<and> check_key s} = range ed_encode" by (auto simp: check_key_iff)
  moreover have "inj ed_encode" using ed_encode_inject by (blast intro: injI)
  ultimately have "card {s. length s = 32 \<and> check_key s} = card (UNIV :: ed set)" by (simp add: card_image)
  then show ?thesis using card_ed prime_sc_order by simp
qed

section \<open>One-time keys\<close>

text \<open>
  C6: \<open>generate_key_derivation\<close> is a Diffie-Hellman exchange: the sender with the secret key \<open>a\<close> and
  the receiver with the secret key \<open>b\<close> compute the same derivation, and a key that is not a point
  is refused.
\<close>

theorem key_derivation_symmetric:
  assumes "length a = 32" and "length b = 32" and "secret_key_to_public_key a = Some (Some A)"
    and "secret_key_to_public_key b = Some (Some B)" and "length bad = 32" and "\<not> check_key bad"
  shows "(\<exists>d. generate_key_derivation ndebug A b = Some (Some d) \<and> generate_key_derivation ndebug B a = Some (Some d) \<and> length d = 32)
    \<and> generate_key_derivation ndebug bad a = Some None"
proof -
  note a = key_pairD [OF assms(1,3)] and b = key_pairD [OF assms(2,4)]
  have "zmul (le_val b) (zmul (le_val a) ed_B) = zmul (le_val a) (zmul (le_val b) ed_B)"
    by (simp add: mult.commute flip: zmul_mult)
  then show ?thesis
    using a b assms(6) by (simp add: public_of_def generate_key_derivation_eq) (simp add: generate_key_derivation_def check_key_def)
qed

lemma not_check_key_255: "\<not> check_key (replicate 32 255)"
proof -
  have "fe_noncanonical (fe_frombytes_h (replicate 32 255))" by code_simp
  then show ?thesis by (simp add: check_key_def ge_frombytes_vartime_def)
qed

theorem key_derivation_symmetric_witness:
  "(\<exists>d. generate_key_derivation False (ed_encode ed_B) key_one = Some (Some d) \<and> length d = 32)
    \<and> generate_key_derivation False (replicate 32 255) key_one = Some None"
  using key_derivation_symmetric [OF _ _ secret_key_to_public_key_one secret_key_to_public_key_one _ not_check_key_255, of False]
  by (auto simp: key_one_def)

text \<open>
  C5: the one-time keys match.  The public key that the sender derives from the public key of the
  receiver belongs to the secret key that the receiver derives from his own, for every derivation
  and every index.
\<close>

theorem derived_keys_match:
  assumes "length d = 32" and "length sec = 32" and "secret_key_to_public_key sec = Some (Some pub)"
  shows "\<exists>K k. derive_public_key ndebug d i pub = Some (Some K) \<and> derive_secret_key ndebug d i sec = Some k
    \<and> secret_key_to_public_key k = Some (Some K)"
proof -
  note k = key_pairD [OF assms(2,3)]
  let ?s = "derivation_scalar d i"
  have s: "is_scalar ?s" by (rule derivation_to_scalar_eq(2) [OF assms(1)])
  have "le_val (sc_add sec ?s) = (le_val sec + le_val ?s) mod sc_order" using k(1) s by (simp add: le_val_sc)
  then have "zmul (le_val (sc_add sec ?s)) ed_B = zmul (le_val sec) ed_B + zmul (le_val ?s) ed_B"
    by (simp add: base.zmul_mod zmul_add)
  then show ?thesis
    using derive_public_key_eq [OF assms(1), of ndebug i "zmul (le_val sec) ed_B"] derive_secret_key_eq [OF assms(1) k(1), of ndebug i]
      secret_key_to_public_key_eq [of "sc_add sec ?s"] is_scalar_ops(1) [of sec ?s] k s by (simp add: public_of_def)
qed

theorem derived_keys_match_witness:
  "\<exists>K k. derive_public_key False (replicate 32 7) 300 (ed_encode ed_B) = Some (Some K)
    \<and> derive_secret_key False (replicate 32 7) 300 key_one = Some k \<and> secret_key_to_public_key k = Some (Some K)"
  by (rule derived_keys_match [OF _ _ secret_key_to_public_key_one]) (simp_all add: key_one_def)

section \<open>Signatures\<close>

text \<open>
  C2: a signature that \<open>generate_signature\<close> makes with a key pair is accepted by \<open>check_signature\<close>,
  whatever the random generator returns, with and without assertions.
\<close>

theorem signature_complete:
  assumes "prng_live os p" and "length sec = 32" and "secret_key_to_public_key sec = Some (Some pub)" and "length h = 32"
  shows "\<exists>sig q. generate_signature ndebug os h pub sec p = Some (sig, q) \<and> check_signature ndebug' h pub sig = Some True
    \<and> prng_live os q"
proof -
  note k = key_pairD [OF assms(2,3)]
  obtain kk q c where g: "generate_signature ndebug os h (public_of sec) sec p = Some (\<lparr>sig_c = c, sig_r = sc_mulsub c sec kk\<rparr>, q)"
    "is_scalar kk" "prng_live os q" "is_scalar c" "hash_to_scalar (h @ public_of sec @ ed_encode (zmul (le_val kk) ed_B)) = Some c"
    using generate_signature_eq [OF assms(1) k(1) assms(4)] by blast
  note r = response_scalar [OF g(4) k(1) g(2)]
  have "check_signature ndebug' h (public_of sec) \<lparr>sig_c = c, sig_r = sc_mulsub c sec kk\<rparr> = Some True"
    using check_signature_eq [of h "public_of sec" "\<lparr>sig_c = c, sig_r = sc_mulsub c sec kk\<rparr>" ndebug'] assms(4) g(4,5) r
      base.response [of "le_val c" "le_val sec" "le_val kk"] by (simp add: public_of_def)
  then show ?thesis using g k(2) by blast
qed

theorem signature_complete_witness:
  "\<exists>sig q. generate_signature False urandom_example (replicate 32 5) (ed_encode ed_B) key_one prng_0 = Some (sig, q)
    \<and> check_signature True (replicate 32 5) (ed_encode ed_B) sig = Some True \<and> prng_live urandom_example q"
  by (rule signature_complete [OF prng_live_0 _ secret_key_to_public_key_one]) (simp_all add: key_one_def)

text \<open>
  C8: what \<open>check_signature\<close> decides.  It always returns for a key that is a point, and it accepts
  exactly when both scalars are canonical and \<open>c\<close> is the hash of the message, the key and the
  commitment \<open>c P + r B\<close>.  A key that is no point fails the assertion, or is rejected without it.
\<close>

theorem check_signature_decides:
  assumes "length h = 32" and "length pub = 32" and "length (sig_c sig) = 32" and "length (sig_r sig) = 32"
  shows "check_signature ndebug h pub sig =
    (if check_key pub then
       Some (le_val (sig_c sig) < sc_order \<and> le_val (sig_r sig) < sc_order
         \<and> hash_to_scalar (h @ pub @ ed_encode (zmul (le_val (sig_c sig)) (key_point pub) + zmul (le_val (sig_r sig)) ed_B))
           = Some (sig_c sig))
     else if ndebug then Some False else None)"
  using check_signature_eq [OF assms, of ndebug] assms
  by (auto simp: is_scalar_def check_signature_def check_key_def assertion_def)

theorem check_signature_decides_witness:
  "check_signature True key_one (replicate 32 255) \<lparr>sig_c = key_one, sig_r = key_one\<rparr> = Some False
    \<and> check_signature False key_one (replicate 32 255) \<lparr>sig_c = key_one, sig_r = key_one\<rparr> = None
    \<and> check_signature False key_one (ed_encode ed_B) \<lparr>sig_c = L_bytes, sig_r = key_one\<rparr> = Some False"
proof -
  have l: "length key_one = 32" by (simp add: key_one_def)
  then show ?thesis
    using check_signature_decides [of key_one "replicate 32 255" "\<lparr>sig_c = key_one, sig_r = key_one\<rparr>"]
      check_signature_decides [of key_one "ed_encode ed_B" "\<lparr>sig_c = L_bytes, sig_r = key_one\<rparr>" False] not_check_key_255
      L_bytes_scalar by simp
qed

section \<open>Key images\<close>

text \<open>
  C7: \<open>generate_key_image\<close> returns for every secret key and any 32 bytes of a public key, and
  \<open>validate_key_image\<close> accepts the image: the point is multiplied by 8, so its order divides the
  group order.
\<close>

theorem key_image_valid:
  assumes "length sec = 32" and "sc_check sec = 0" and "length pub = 32"
  shows "\<exists>ki. generate_key_image ndebug pub sec = Some ki \<and> length ki = 32 \<and> check_key ki \<and> validate_key_image ki = Some True"
proof -
  have s: "is_scalar sec" using assms(1,2) is_scalar_check by blast
  obtain P where P: "ec_hash pub = zmul 8 P" using hash_to_ec_ok(2) [of pub] assms(3) by auto
  have "zmul sc_order (zmul (le_val sec) (ec_hash pub)) = zmul (le_val sec) (zmul sc_order (zmul 8 P))"
    unfolding P by (simp add: ac_simps flip: zmul_mult)
  then show ?thesis using generate_key_image_eq [OF s assms(3)] by (simp add: validate_key_image_eq sc_order_cofactor)
qed

theorem key_image_valid_witness:
  "\<exists>ki. generate_key_image False (replicate 32 9) key_one = Some ki \<and> length ki = 32 \<and> check_key ki \<and> validate_key_image ki = Some True"
  by (rule key_image_valid) (use is_scalar_key_one in simp_all)

text \<open>
  C4: \<open>validate_key_image\<close> leaves no room for a second image of the same output.  On images that
  decode it returns and decides whether the group order annihilates the point, and two accepted
  images whose points differ by a point of small order are the same bytes.
\<close>

theorem validate_key_image_unique:
  assumes "length ki = 32" and "check_key ki" and "length kj = 32" and "check_key kj"
    and "zmul 8 (key_point ki) = zmul 8 (key_point kj)" and "validate_key_image kj = Some True"
  shows "validate_key_image ki = Some (zmul sc_order (key_point ki) = 0) \<and> (validate_key_image ki = Some True \<longleftrightarrow> ki = kj)"
proof -
  let ?P = "key_point ki" and ?Q = "key_point kj"
  have e: "ed_encode ?P = ki" "ed_encode ?Q = kj" using check_key_decode(1) assms(1-4) by auto
  have v: "validate_key_image ki = Some (zmul sc_order ?P = 0)" "validate_key_image kj = Some (zmul sc_order ?Q = 0)"
    using validate_key_image_eq [of ?P] validate_key_image_eq [of ?Q] by (simp_all add: e)
  have "?P = ?Q" if "zmul sc_order ?P = 0"
  proof -
    have "zmul 8 (?P - ?Q) = 0" "zmul sc_order (?P - ?Q) = 0"
      using assms(5,6) v(2) that zmul_plus [of 8 ?P "- ?Q"] zmul_plus [of sc_order ?P "- ?Q"]
      by (simp_all add: zmul_uminus)
    moreover have "gcd 8 sc_order = 1" using coprime_8_order by (simp add: coprime_iff_gcd_eq_1)
    ultimately show ?thesis using zmul_gcd [of 8 "?P - ?Q" sc_order] by simp
  qed
  then have "zmul sc_order ?P = 0 \<longleftrightarrow> ki = kj" using v(2) assms(6) by (metis e option.inject)
  then show ?thesis by (simp add: v(1))
qed

theorem validate_key_image_unique_witness:
  "validate_key_image (ed_encode ed_T) = Some False \<and> zmul 8 ed_T = zmul 8 (0 :: ed) \<and> validate_key_image (ed_encode 0) = Some True"
proof -
  have "ed_T \<noteq> 0" using ed_T_order(2) by auto
  then have "ed_encode ed_T \<noteq> ed_encode 0" by (blast dest: ed_encode_inject)
  moreover have z: "validate_key_image (ed_encode 0) = Some True" by (simp add: validate_key_image_eq)
  ultimately show ?thesis
    using validate_key_image_unique [of "ed_encode ed_T" "ed_encode 0"] ed_T_order(1) by auto
qed

section \<open>Ring signatures\<close>

text \<open>
  C1: a ring signature that \<open>generate_ring_signature\<close> makes for a ring that holds the signer's key,
  with the signer's key image, is accepted by \<open>check_ring_signature\<close>: none of the calls aborts or
  fails an assertion, whatever the random generator returns and whatever the array held before.
\<close>

theorem ring_signature_complete:
  assumes "prng_live os p" and "length h = 32" and "32 + 64 * length pubs < 2 ^ 31" and "length sig = length pubs"
    and "own < length pubs" and "\<And>i. i < length pubs \<Longrightarrow> length (pubs ! i) = 32 \<and> check_key (pubs ! i)"
    and "length sec = 32" and "secret_key_to_public_key sec = Some (Some (pubs ! own))"
    and "generate_key_image ndebug (pubs ! own) sec = Some ki"
  shows "\<exists>sg q. generate_ring_signature ndebug os h ki pubs sec own sig p = Some (sg, q) \<and> length sg = length pubs
    \<and> check_ring_signature ndebug' h ki pubs sg = Some True \<and> prng_live os q"
proof -
  note k = key_pairD [OF assms(7,8)]
  let ?J = "zmul (le_val sec) (ec_hash (pubs ! own))"
  have J: "ki = ed_encode ?J" using generate_key_image_eq [OF k(1), of "pubs ! own"] assms(5,6,9) by simp
  obtain sg q where g: "generate_ring_signature ndebug os h ki pubs sec own sig p = Some (sg, q)" "length sg = length pubs"
    "ring_accepts h ?J pubs sg" "prng_live os q"
    using generate_ring_signature_eq [OF assms(1-6) k refl, of ndebug] unfolding J by blast
  have "check_ring_signature ndebug' h ki pubs sg = Some (ring_accepts h ?J pubs sg)"
    unfolding J by (rule check_ring_signature_eq [OF assms(2,3)])
      (use g(3) assms(6) in \<open>auto simp: ring_accepts_def sig_scalars_def list_all_length\<close>)
  then show ?thesis using g by simp
qed

theorem ring_signature_complete_witness:
  "\<exists>ki sg q. generate_key_image False (ed_encode ed_B) key_one = Some ki
    \<and> generate_ring_signature False urandom_example (replicate 32 5) ki [ed_encode 0, ed_encode ed_B, ed_encode 0] key_one 1
        (replicate 3 \<lparr>sig_c = [], sig_r = []\<rparr>) prng_0 = Some (sg, q)
    \<and> check_ring_signature False (replicate 32 5) ki [ed_encode 0, ed_encode ed_B, ed_encode 0] sg = Some True"
proof -
  let ?pubs = "[ed_encode 0, ed_encode ed_B, ed_encode 0]"
  obtain ki where ki: "generate_key_image False (?pubs ! 1) key_one = Some ki"
    using generate_key_image_eq [OF is_scalar_key_one, of "ed_encode ed_B" False] by simp
  have "\<exists>sg q. generate_ring_signature False urandom_example (replicate 32 5) ki ?pubs key_one 1
      (replicate 3 \<lparr>sig_c = [], sig_r = []\<rparr>) prng_0 = Some (sg, q) \<and> length sg = length ?pubs
    \<and> check_ring_signature False (replicate 32 5) ki ?pubs sg = Some True \<and> prng_live urandom_example q"
    by (rule ring_signature_complete [OF prng_live_0 _ _ _ _ _ _ _ ki])
      (auto simp: secret_key_to_public_key_one less_Suc_eq is_scalar_key_one)
  then show ?thesis using ki by auto
qed

text \<open>
  C3: what \<open>check_ring_signature\<close> decides, for an image and keys that decode or for a build without
  assertions.  It rejects an image that is no point; otherwise it accepts exactly when every scalar is
  canonical, every key is a point, and the challenges sum up to the hash of the message and of
  the commitments \<open>c P + r B\<close> and \<open>r H + c I\<close> of every member.
\<close>

theorem check_ring_signature_decides:
  assumes "length h = 32" and "32 + 64 * length pubs < 2 ^ 31" and "length ki = 32"
    and "\<And>i. i < length pubs \<Longrightarrow> length (pubs ! i) = 32 \<and> length (sig_c (sig ! i)) = 32 \<and> length (sig_r (sig ! i)) = 32"
    and "ndebug \<or> list_all check_key pubs"
  shows "check_ring_signature ndebug h ki pubs sig = Some (check_key ki
    \<and> (\<forall>i<length pubs. le_val (sig_c (sig ! i)) < sc_order \<and> le_val (sig_r (sig ! i)) < sc_order \<and> check_key (pubs ! i))
    \<and> (\<exists>c. hash_to_scalar (h @ concat (map (\<lambda>i.
            ed_encode (zmul (le_val (sig_c (sig ! i))) (key_point (pubs ! i)) + zmul (le_val (sig_r (sig ! i))) ed_B)
            @ ed_encode (zmul (le_val (sig_r (sig ! i))) (ec_hash (pubs ! i)) + zmul (le_val (sig_c (sig ! i))) (key_point ki)))
          [0..<length pubs])) = Some c
        \<and> le_val c = (\<Sum>i<length pubs. le_val (sig_c (sig ! i))) mod sc_order))"
proof (cases "check_key ki")
  case True
  then have J: "ki = ed_encode (key_point ki)" using check_key_decode(1) [OF assms(3)] by simp
  show ?thesis
    by (subst J, subst check_ring_signature_eq [OF assms(1,2,4,5)])
      (use assms(4) True in \<open>auto simp: ring_accepts_def sig_scalars_def is_scalar_def ring_sum_def rs_comm_bytes_def ring_point_def comp_def\<close>)
next
  case False
  then show ?thesis using assms(5) by (auto simp: check_ring_signature_def check_key_def assertion_def)
qed

theorem check_ring_signature_decides_witness:
  "check_ring_signature True key_one (replicate 32 255) [] [] = Some False
    \<and> check_ring_signature False key_one (ed_encode ed_B) [ed_encode ed_B] [\<lparr>sig_c = key_one, sig_r = L_bytes\<rparr>] = Some False"
proof
  have l: "length key_one = 32" by (simp add: key_one_def)
  show "check_ring_signature True key_one (replicate 32 255) [] [] = Some False"
    by (subst check_ring_signature_decides) (use l not_check_key_255 in auto)
  show "check_ring_signature False key_one (ed_encode ed_B) [ed_encode ed_B] [\<lparr>sig_c = key_one, sig_r = L_bytes\<rparr>] = Some False"
    by (subst check_ring_signature_decides) (use l L_bytes_scalar in auto)
qed

end
