(* ===== verification/Base58.thy ===== *)
theory Base58
  imports IntUtil Hash Varint "HOL-Library.Monad_Syntax"
begin

text \<open>
  The encoding of addresses of \<open>base58.cpp\<close>: blocks of eight bytes as eleven letters, a shorter last
  block, and the tag and checksum around an address.  Strings are lists of bytes.  The outer
  \<open>None\<close> of a result is a failed assertion or a write outside the buffer; for the functions that
  return a \<open>bool\<close> the inner \<open>None\<close> is \<open>false\<close>.
\<close>

section \<open>The model\<close>

definition alphabet :: bytes where
  "alphabet = map of_char ''123456789ABCDEFGHJKLMNPQRSTUVWXYZabcdefghijkmnopqrstuvwxyz''"

definition alphabet_size :: nat where
  "alphabet_size = 58"

definition encoded_block_sizes :: "nat list" where
  "encoded_block_sizes = [0, 2, 3, 5, 6, 7, 9, 10, 11]"

definition full_block_size :: nat where
  "full_block_size = 8"

definition full_encoded_block_size :: nat where
  "full_encoded_block_size = 11"

definition addr_checksum_size :: nat where
  "addr_checksum_size = 4"

text \<open>The table of \<open>reverse_alphabet\<close> and its lookup; an index below zero is a huge \<open>size_t\<close>.\<close>

definition reverse_data :: "int list" where
  "reverse_data =
     fold (\<lambda>i m. m[nat (sint (alphabet ! i) - sint (alphabet ! 0)) := int i]) [0..<alphabet_size]
       (replicate (nat (sint (alphabet ! (alphabet_size - 1)) - sint (alphabet ! 0) + 1)) (- 1))"

definition reverse_alphabet :: "u8 \<Rightarrow> int" where
  "reverse_alphabet letter =
     (let idx = sint letter - sint (alphabet ! 0)
      in if 0 \<le> idx \<and> idx < int (length reverse_data) then reverse_data ! nat idx else - 1)"

definition decoded_data :: "int list" where
  "decoded_data =
     fold (\<lambda>i m. m[encoded_block_sizes ! i := int i]) [0..<full_block_size + 1]
       (replicate (encoded_block_sizes ! full_block_size + 1) (- 1))"

definition decoded_block_sizes :: "nat \<Rightarrow> int option" where
  "decoded_block_sizes encoded_block_size =
     (if encoded_block_size \<le> full_encoded_block_size then Some (decoded_data ! encoded_block_size) else None)"

definition uint_8be_to_64 :: "bytes \<Rightarrow> nat \<Rightarrow> u64 option" where
  "uint_8be_to_64 data sz =
     (if 1 \<le> sz \<and> sz \<le> 8
      then Some (fold (\<lambda>b res. push_bit 8 res OR ucast b) (take sz data) 0)
      else None)"

definition uint_64_to_8be :: "u64 \<Rightarrow> nat \<Rightarrow> bytes option" where
  "uint_64_to_8be num sz =
     (if 1 \<le> sz \<and> sz \<le> 8
      then let num_be = swap64 num in Some (take sz (drop (8 - sz) (store64 num_be)))
      else None)"

text \<open>The loop of \<open>encode_block\<close> writes the letters from the end of the block backwards.\<close>

function encode_block_loop :: "u64 \<Rightarrow> int \<Rightarrow> bytes \<Rightarrow> bytes option" where
  "encode_block_loop num i res =
     (if 0 < num
      then if i < 0 \<or> int (length res) \<le> i then None
           else let remainder = num mod of_nat alphabet_size;
                    num = num div of_nat alphabet_size
                in encode_block_loop num (i - 1) (res[nat i := alphabet ! unat remainder])
      else Some res)"
  by auto

termination
proof (relation "measure (\<lambda>(num, i, res). unat num)")
  fix num :: u64 and i :: int and res :: bytes and x xa
  assume "0 < num" "xa = num div of_nat alphabet_size"
  then show "((xa, i - 1, res[nat i := alphabet ! unat x]), num, i, res) \<in> measure (\<lambda>(num, i, res). unat num)"
    by (simp add: alphabet_size_def unat_div word_less_nat_alt)
qed simp

declare encode_block_loop.simps [simp del]

definition encode_block :: "bytes \<Rightarrow> nat \<Rightarrow> bytes \<Rightarrow> bytes option" where
  "encode_block block sz res =
     (if 1 \<le> sz \<and> sz \<le> 8
      then do { num \<leftarrow> uint_8be_to_64 block sz;
                let i = int (encoded_block_sizes ! sz) - 1;
                encode_block_loop num i res }
      else None)"

text \<open>
  The loop of \<open>decode_block\<close> over the letters from the last to the first; \<open>None\<close> is \<open>return false\<close>.
\<close>

fun decode_block_loop :: "bytes \<Rightarrow> u64 \<Rightarrow> u64 \<Rightarrow> u64 option" where
  "decode_block_loop [] res_num order = Some res_num"
| "decode_block_loop (letter # letters) res_num order =
     (let digit = reverse_alphabet letter
      in if digit < 0 then None
         else let (lo, product_hi) = mul128 order (word_of_int digit);
                  tmp = res_num + lo
              in if tmp < res_num \<or> 0 \<noteq> product_hi then None
                 else decode_block_loop letters tmp (order * of_nat alphabet_size))"

definition decode_block :: "bytes \<Rightarrow> nat \<Rightarrow> bytes \<Rightarrow> bytes option option" where
  "decode_block block sz res =
     (if \<not> (1 \<le> sz \<and> sz \<le> full_encoded_block_size) then None
      else do { res_size \<leftarrow> decoded_block_sizes sz;
                if res_size \<le> 0 then Some None
                else case decode_block_loop (rev (take sz block)) 0 1 of
                    None \<Rightarrow> Some None
                  | Some res_num \<Rightarrow>
                      if nat res_size < full_block_size \<and> push_bit (8 * nat res_size) 1 \<le> res_num then Some None
                      else do { out \<leftarrow> uint_64_to_8be res_num (nat res_size);
                                Some (Some (out @ drop (nat res_size) res)) } })"

text \<open>A call that writes through a pointer into the middle of a string.\<close>

definition at_offset :: "nat \<Rightarrow> (bytes \<Rightarrow> bytes option) \<Rightarrow> bytes \<Rightarrow> bytes option" where
  "at_offset off f res = map_option (\<lambda>r. take off res @ r) (f (drop off res))"

definition encode :: "bytes \<Rightarrow> bytes option" where
  "encode data =
     (if data = [] then Some []
      else let full_block_count = length data div full_block_size;
               last_block_size = length data mod full_block_size;
               res_size = full_block_count * full_encoded_block_size + encoded_block_sizes ! last_block_size;
               res = replicate res_size (alphabet ! 0)
           in do { res \<leftarrow> opt_fold (\<lambda>i. at_offset (i * full_encoded_block_size)
                       (encode_block (drop (i * full_block_size) data) full_block_size)) [0..<full_block_count] res;
                   if 0 < last_block_size
                   then at_offset (full_block_count * full_encoded_block_size)
                          (encode_block (drop (full_block_count * full_block_size) data) last_block_size) res
                   else Some res })"

text \<open>\<open>std::string::resize\<close>\<close>

definition resize :: "nat \<Rightarrow> bytes \<Rightarrow> bytes" where
  "resize n s = take n s @ replicate (n - length s) 0"

text \<open>The same with a result \<open>bool\<close>: \<open>None\<close> is a failed assertion, \<open>Some None\<close> is \<open>false\<close>.\<close>

fun decode_blocks :: "bytes \<Rightarrow> nat list \<Rightarrow> bytes \<Rightarrow> bytes option option" where
  "decode_blocks enc [] data = Some (Some data)"
| "decode_blocks enc (i # is) data =
     do { r \<leftarrow> decode_block (drop (i * full_encoded_block_size) enc) full_encoded_block_size (drop (i * full_block_size) data);
          (case r of
             None \<Rightarrow> Some None
           | Some d \<Rightarrow> decode_blocks enc is (take (i * full_block_size) data @ d)) }"

definition decode :: "bytes \<Rightarrow> bytes \<Rightarrow> bytes option option" where
  "decode enc data =
     (if enc = [] then Some (Some [])
      else let full_block_count = length enc div full_encoded_block_size;
               last_block_size = length enc mod full_encoded_block_size
           in do { last_block_decoded_size \<leftarrow> decoded_block_sizes last_block_size;
                   if last_block_decoded_size < 0 then Some None
                   else let data_size = full_block_count * full_block_size + nat last_block_decoded_size;
                            data = resize data_size data
                        in do { r \<leftarrow> decode_blocks enc [0..<full_block_count] data;
                                (case r of
                                   None \<Rightarrow> Some None
                                 | Some data \<Rightarrow>
                                     if 0 < last_block_size
                                     then do { r \<leftarrow> decode_block (drop (full_block_count * full_encoded_block_size) enc)
                                                 last_block_size (drop (full_block_count * full_block_size) data);
                                               Some (map_option (\<lambda>d. take (full_block_count * full_block_size) data @ d) r) }
                                     else Some (Some data)) } })"

definition encode_addr :: "u64 \<Rightarrow> bytes \<Rightarrow> bytes option" where
  "encode_addr tag data =
     do { let buf = write_varint tag @ data;
          hash \<leftarrow> cn_fast_hash buf;
          encode (buf @ take addr_checksum_size hash) }"

definition decode_addr :: "bytes \<Rightarrow> (u64 \<times> bytes) option option" where
  "decode_addr addr =
     do { r \<leftarrow> decode addr [];
          (case r of
             None \<Rightarrow> Some None
           | Some addr_data \<Rightarrow>
               if length addr_data \<le> addr_checksum_size then Some None
               else do { let checksum = drop (length addr_data - addr_checksum_size) addr_data;
                         let addr_data = resize (length addr_data - addr_checksum_size) addr_data;
                         hash \<leftarrow> cn_fast_hash addr_data;
                         if take addr_checksum_size hash \<noteq> checksum then Some None
                         else let v = read_varint 64 addr_data
                              in if vr_ret v \<le> 0 then Some None
                                 else Some (Some (vr_value v, drop (nat (vr_ret v)) addr_data)) }) }"

end
