(* ===== verification/Base58Correct.thy ===== *)
theory Base58Correct
  imports Base58 RandomGen
begin

text \<open>
  The encoding of \<open>base58.cpp\<close> is a bijection between byte strings and the strings it accepts:
  digits to the base 58 of fixed length for every block.
\<close>

section \<open>Digits\<close>

primrec digits58 :: "nat \<Rightarrow> int \<Rightarrow> int list" where
  "digits58 0 n = []"
| "digits58 (Suc e) n = n mod 58 # digits58 e (n div 58)"

primrec val58 :: "int list \<Rightarrow> int" where
  "val58 [] = 0"
| "val58 (d # ds) = d + 58 * val58 ds"

lemma length_digits58 [simp]: "length (digits58 e n) = e"
  by (induction e arbitrary: n) simp_all

lemma digits58_range: "d \<in> set (digits58 e n) \<Longrightarrow> 0 \<le> d \<and> d < 58"
  by (induction e arbitrary: n) auto

lemma val58_digits58: "0 \<le> n \<Longrightarrow> n < 58 ^ e \<Longrightarrow> val58 (digits58 e n) = n"
proof (induction e arbitrary: n)
  case (Suc e)
  then have "val58 (digits58 e (n div 58)) = n div 58" by simp
  then show ?case by simp
qed simp

lemma val58_nonneg: "(\<forall>d\<in>set ds. 0 \<le> d) \<Longrightarrow> 0 \<le> val58 ds"
  by (induction ds) auto

lemma digits58_val58: "(\<forall>d\<in>set ds. 0 \<le> d \<and> d < 58) \<Longrightarrow> digits58 (length ds) (val58 ds) = ds"
proof (induction ds)
  case (Cons d ds)
  then show ?case by (simp add: mult.commute [of 58])
qed simp

lemma digits58_zero: "digits58 e 0 = replicate e 0"
  by (induction e) simp_all

lemma val58_less: "(\<forall>d\<in>set ds. 0 \<le> d \<and> d < 58) \<Longrightarrow> val58 ds < 58 ^ length ds"
proof (induction ds)
  case (Cons d ds)
  then show ?case by simp
qed simp

section \<open>Letters\<close>

lemma length_alphabet [simp]: "length alphabet = 58"
  by (simp add: alphabet_def)

lemma alphabet_eq: "alphabet =
    [49, 50, 51, 52, 53, 54, 55, 56, 57, 65, 66, 67, 68, 69, 70, 71, 72, 74, 75, 76,
     77, 78, 80, 81, 82, 83, 84, 85, 86, 87, 88, 89, 90, 97, 98, 99, 100, 101, 102, 103,
     104, 105, 106, 107, 109, 110, 111, 112, 113, 114, 115, 116, 117, 118, 119, 120, 121, 122]"
  by code_simp

lemma reverse_data_eq: "reverse_data =
    [0, 1, 2, 3, 4, 5, 6, 7, 8, - 1, - 1, - 1, - 1, - 1, - 1, - 1, 9, 10, 11, 12, 13, 14, 15, 16, - 1, 17, 18, 19, 20, 21,
     - 1, 22, 23, 24, 25, 26, 27, 28, 29, 30, 31, 32, - 1, - 1, - 1, - 1, - 1, - 1, 33, 34, 35, 36, 37, 38, 39, 40, 41, 42,
     43, - 1, 44, 45, 46, 47, 48, 49, 50, 51, 52, 53, 54, 55, 56, 57]"
  by code_simp

lemma alphabet_0: "sint (alphabet ! 0) = 49"
  unfolding alphabet_eq by code_simp

lemma reverse_of_letter: "\<forall>d\<in>set [0..<58]. reverse_alphabet (alphabet ! d) = int d"
  unfolding reverse_alphabet_def alphabet_0 unfolding alphabet_eq reverse_data_eq by code_simp

lemma letter_of_reverse:
  assumes "0 \<le> reverse_alphabet c"
  shows "reverse_alphabet c < 58" and "alphabet ! nat (reverse_alphabet c) = c"
proof -
  let ?i = "sint c - 49"
  have i: "0 \<le> ?i" "?i < 74" and r: "reverse_alphabet c = reverse_data ! nat ?i"
    using assms by (auto simp: reverse_alphabet_def alphabet_0 reverse_data_eq Let_def split: if_splits)
  have "\<forall>k\<in>set [0..<74]. 0 \<le> reverse_data ! k \<longrightarrow> reverse_data ! k < 58 \<and> sint (alphabet ! nat (reverse_data ! k)) = 49 + int k"
    unfolding alphabet_eq reverse_data_eq by code_simp
  moreover have "nat ?i \<in> set [0..<74]" using i by simp
  ultimately have "reverse_data ! nat ?i < 58 \<and> sint (alphabet ! nat (reverse_data ! nat ?i)) = 49 + int (nat ?i)"
    using assms r by simp
  then have "reverse_alphabet c < 58" "sint (alphabet ! nat (reverse_alphabet c)) = sint c" using r i by simp_all
  then show "reverse_alphabet c < 58" "alphabet ! nat (reverse_alphabet c) = c" by (simp_all add: signed_word_eqI)
qed

section \<open>Numbers as bytes, most significant first\<close>

definition be_val :: "bytes \<Rightarrow> int" where
  "be_val bs = le_val (rev bs)"

lemma be_val_Cons: "be_val (b # bs) = uint b * 256 ^ length bs + be_val bs"
  by (simp add: be_val_def le_val_append)

lemma be_val_bounds: "0 \<le> be_val bs" "be_val bs < 256 ^ length bs"
  using le_val_bounds [of "rev bs"] by (simp_all add: be_val_def)

lemma uint_shift_byte:
  fixes r :: u64 and b :: u8
  assumes "uint r < 2 ^ 56"
  shows "uint (push_bit 8 r OR ucast b) = 256 * uint r + uint b"
proof -
  have u: "uint (ucast b :: u64) = uint b" by (simp add: unsigned_ucast_eq take_bit_int_eq_self less_le_trans [OF uint_lt2p [of b]])
  show ?thesis
    using uint_or_shift [of "ucast b :: u64" 8 r] assms uint_lt2p [of b] by (simp add: or.commute u)
qed

lemma fold_be:
  "uint r * 256 ^ length bs + be_val bs < 2 ^ 64
    \<Longrightarrow> uint (fold (\<lambda>b res. push_bit 8 res OR ucast b) bs r) = uint (r :: u64) * 256 ^ length bs + be_val bs"
proof (induction bs arbitrary: r)
  case (Cons b bs)
  have "uint r * 256 ^ length (b # bs) < 2 ^ 64" using Cons.prems be_val_bounds(1) [of "b # bs"] by linarith
  moreover have "uint r * 256 \<le> uint r * 256 ^ length (b # bs)" by (intro mult_left_mono self_le_power) simp_all
  ultimately have "uint r * 256 < 2 ^ 64" by (rule le_less_trans [rotated])
  then have "uint r < 2 ^ 56" by simp
  note s = uint_shift_byte [OF this, of b]
  have e: "uint r * 256 ^ length (b # bs) + be_val (b # bs) = uint (push_bit 8 r OR ucast b) * 256 ^ length bs + be_val bs"
    by (simp add: s be_val_Cons algebra_simps)
  show ?case using Cons.IH [of "push_bit 8 r OR ucast b"] Cons.prems unfolding e by simp
qed (simp add: be_val_def)

lemma uint_8be_to_64_eq:
  assumes "length b = n" and "1 \<le> n" and "n \<le> 8"
  shows "\<exists>num. uint_8be_to_64 (b @ rest) n = Some num \<and> uint num = be_val b"
proof -
  have "be_val b < 256 ^ 8" using be_val_bounds(2) [of b] assms power_increasing [of n 8 "256 :: int"] by simp
  then show ?thesis using fold_be [of 0 b] assms by (auto simp: uint_8be_to_64_def)
qed

definition be_bytes :: "nat \<Rightarrow> int \<Rightarrow> bytes" where
  "be_bytes n v = rev (le_bytes n v)"

lemma length_be_bytes [simp]: "length (be_bytes n v) = n"
  by (simp add: be_bytes_def)

lemma be_val_be_bytes: "0 \<le> v \<Longrightarrow> v < 256 ^ n \<Longrightarrow> be_val (be_bytes n v) = v"
  using le_val_le_bytes [of v n] by (simp add: be_val_def be_bytes_def power_mult)

lemma be_bytes_be_val: "be_bytes (length b) (be_val b) = b"
proof -
  have "le_val (le_bytes (length b) (be_val b)) = be_val b"
    using be_val_bounds [of b] by (intro le_val_le_bytes) (simp_all add: power_mult)
  then have "le_bytes (length b) (be_val b) = rev b" by (intro le_val_inject) (simp_all add: be_val_def)
  then show ?thesis by (simp add: be_bytes_def)
qed

lemma take_le_bytes: "n \<le> m \<Longrightarrow> take n (le_bytes m v) = le_bytes n v"
  by (simp add: le_bytes_def take_map take_upt)

lemma uint_64_to_8be_eq:
  assumes "1 \<le> n" and "n \<le> 8" and "uint num < 256 ^ n"
  shows "uint_64_to_8be num n = Some (be_bytes n (uint num))"
proof -
  have s: "store64 (swap64 num) = rev (le_bytes 8 (uint num))" by (simp add: store64_def swap64_bytes)
  have "take n (drop (8 - n) (rev (le_bytes 8 (uint num)))) = rev (take n (le_bytes 8 (uint num)))"
    using assms(2) by (simp add: rev_take)
  also have "take n (le_bytes 8 (uint num)) = le_bytes n (uint num)"
    using assms(2) by (simp add: take_le_bytes)
  finally show ?thesis using assms(1,2) by (simp add: uint_64_to_8be_def s be_bytes_def Let_def)
qed

section \<open>Blocks\<close>

lemma uint_less_1: "uint x < 1 \<Longrightarrow> x = 0"
proof -
  assume "uint x < 1"
  then have "uint x = 0" using uint_ge_0 [of x] by linarith
  then show "x = 0" by (simp add: uint_0_iff)
qed

lemma encode_block_loop_eq:
  "uint num < 58 ^ e \<Longrightarrow> e \<le> length res \<Longrightarrow> (\<forall>k<e. res ! k = alphabet ! 0)
    \<Longrightarrow> encode_block_loop num (int e - 1) res = Some (map (\<lambda>d. alphabet ! nat d) (rev (digits58 e (uint num))) @ drop e res)"
proof (induction e arbitrary: num res)
  case 0
  then have "num = 0" by (intro uint_less_1) simp
  then show ?case by (simp add: encode_block_loop.simps)
next
  case (Suc e)
  show ?case
  proof (cases "num = 0")
    case True
    have "take (Suc e) res = replicate (Suc e) (alphabet ! 0)"
      using Suc.prems(2,3) by (intro nth_equalityI) (simp_all add: min_absorb2 del: replicate_Suc)
    then have "res = replicate (Suc e) (alphabet ! 0) @ drop (Suc e) res" by (metis append_take_drop_id)
    then show ?thesis using True digits58_zero [of "Suc e"]
      by (simp add: encode_block_loop.simps replicate_append_same del: digits58.simps replicate_Suc)
  next
    case False
    let ?r = "num mod 58" and ?q = "num div 58" and ?res = "res[e := alphabet ! unat (num mod 58)]"
    have u: "uint ?q = uint num div 58" "unat ?r = nat (uint num mod 58)" by (simp_all add: uint_div uint_mod unat_eq_nat_uint)
    have "uint ?q < 58 ^ e" using Suc.prems(1) by (simp add: u)
    moreover have "\<forall>k<e. ?res ! k = alphabet ! 0" using Suc.prems(3) by simp
    ultimately have "encode_block_loop ?q (int e - 1) ?res
        = Some (map (\<lambda>d. alphabet ! nat d) (rev (digits58 e (uint ?q))) @ drop e ?res)"
      using Suc.IH [of ?q ?res] Suc.prems(2) by simp
    moreover have "drop e ?res = alphabet ! nat (uint num mod 58) # drop (Suc e) res"
      using Suc.prems(2) u(2) by (simp add: drop_update_swap flip: Cons_nth_drop_Suc) 
    moreover have "0 < num" using False by (simp add: word_gt_0)
    ultimately show ?thesis using Suc.prems(2)
      by (subst encode_block_loop.simps) (simp add: alphabet_size_def u(1))
  qed
qed

definition enc58 :: "bytes \<Rightarrow> bytes" where
  "enc58 b = map (\<lambda>d. alphabet ! nat d) (rev (digits58 (encoded_block_sizes ! length b) (be_val b)))"

lemma length_enc58 [simp]: "length (enc58 b) = encoded_block_sizes ! length b"
  by (simp add: enc58_def)

lemma block_cases:
  assumes "1 \<le> (n :: nat)" and "n \<le> 8"
  shows "n = 1 \<or> n = 2 \<or> n = 3 \<or> n = 4 \<or> n = 5 \<or> n = 6 \<or> n = 7 \<or> n = 8"
  using assms by linarith

lemma block_fits: "1 \<le> n \<Longrightarrow> n \<le> 8 \<Longrightarrow> (256 :: int) ^ n < 58 ^ (encoded_block_sizes ! n)"
  by (drule block_cases, assumption) (elim disjE, simp_all add: encoded_block_sizes_def)

lemma block_sizes: "1 \<le> n \<Longrightarrow> n \<le> 8 \<Longrightarrow> 1 \<le> encoded_block_sizes ! n \<and> encoded_block_sizes ! n \<le> 11"
  by (drule block_cases, assumption) (elim disjE, simp_all add: encoded_block_sizes_def)

lemma encode_block_eq:
  assumes "length b = n" and "1 \<le> n" and "n \<le> 8" and "encoded_block_sizes ! n \<le> m"
  shows "encode_block (b @ rest) n (replicate m (alphabet ! 0))
    = Some (enc58 b @ replicate (m - encoded_block_sizes ! n) (alphabet ! 0))"
proof -
  obtain num where num: "uint_8be_to_64 (b @ rest) n = Some num" "uint num = be_val b"
    using uint_8be_to_64_eq [OF assms(1-3)] by blast
  have "uint num < 58 ^ (encoded_block_sizes ! n)"
    using num(2) be_val_bounds(2) [of b] block_fits [OF assms(2,3)] assms(1) by simp
  from encode_block_loop_eq [OF this, of "replicate m (alphabet ! 0)"] show ?thesis
    using assms num by (simp add: encode_block_def enc58_def)
qed

lemma add_overflow: "r + lo < r \<longleftrightarrow> 2 ^ 64 \<le> uint r + uint (lo :: u64)"
proof (cases "uint r + uint lo < 2 ^ 64")
  case True
  then have "uint (r + lo) = uint r + uint lo" by (simp add: uint_word_ariths)
  then show ?thesis using True by (simp add: word_less_def)
next
  case False
  then have "uint (r + lo) = uint r + uint lo - 2 ^ 64" using uint_lt2p [of r] uint_lt2p [of lo] by (simp add: uint_plus_if')
  then show ?thesis using False uint_lt2p [of lo] by (simp add: word_less_def)
qed

lemma uint_digit: "0 \<le> d \<Longrightarrow> d < 58 \<Longrightarrow> uint (word_of_int d :: u64) = d"
  by (simp add: uint_word_of_int)

lemma decode_block_loop_eq:
  assumes "k + length ls \<le> 11" and "k \<le> 10 \<Longrightarrow> uint ord = 58 ^ k"
  shows "decode_block_loop ls r ord =
    (let v = uint r + 58 ^ k * val58 (map reverse_alphabet ls)
     in if (\<forall>c\<in>set ls. 0 \<le> reverse_alphabet c) \<and> v < 2 ^ 64 then Some (word_of_int v) else None)"
  using assms
proof (induction ls arbitrary: k r ord)
  case Nil
  then show ?case using uint_lt2p [of r] by simp
next
  case (Cons c ls)
  let ?d = "reverse_alphabet c" and ?v = "val58 (map reverse_alphabet ls)"
  show ?case
  proof (cases "0 \<le> ?d")
    case True
    have k: "k \<le> 10" "uint ord = 58 ^ k" using Cons.prems by simp_all
    have d: "uint (word_of_int ?d :: u64) = ?d" using uint_digit letter_of_reverse(1) True by simp
    obtain lo hi where m: "mul128 ord (word_of_int ?d) = (lo, hi)" by fastforce
    have p: "uint lo + 2 ^ 64 * uint hi = 58 ^ k * ?d" using mul128_value [OF m] k(2) d by simp
    have e: "58 ^ k * val58 (map reverse_alphabet (c # ls)) = 58 ^ k * ?d + 58 ^ Suc k * ?v" by (simp add: algebra_simps)
    show ?thesis
    proof (cases "uint r + 58 ^ k * ?d < 2 ^ 64")
      case fit: True
      then have "uint lo + 2 ^ 64 * uint hi < 2 ^ 64" using p uint_ge_0 [of r] by linarith
      then have "2 ^ 64 * uint hi < 2 ^ 64 * 1"
        by (intro le_less_trans [of "2 ^ 64 * uint hi" "uint lo + 2 ^ 64 * uint hi"]) simp_all
      then have "uint hi < 1" by (simp only: mult_less_cancel_left_pos zero_less_power zero_less_numeral)
      then have "hi = 0" by (rule uint_less_1)
      then have lo: "uint lo = 58 ^ k * ?d" using p by simp
      then have sum: "uint (r + lo) = uint r + 58 ^ k * ?d" using fit by (simp add: uint_plus_if')
      have "uint (ord * of_nat alphabet_size) = 58 ^ Suc k" if "Suc k \<le> 10"
      proof -
        have "(58 :: int) ^ Suc k \<le> 58 ^ 10" using that by (intro power_increasing) simp_all
        then show ?thesis using k(2) by (simp add: alphabet_size_def uint_word_ariths)
      qed
      from Cons.IH [OF _ this, of "r + lo"] show ?thesis
        using Cons.prems(1) True fit \<open>hi = 0\<close> add_overflow [of r lo] lo sum by (simp add: m e Let_def algebra_simps)
    next
      case False
      have "r + lo < r \<or> 0 \<noteq> hi"
      proof (rule ccontr)
        assume "\<not> (r + lo < r \<or> 0 \<noteq> hi)"
        then show False using add_overflow [of r lo] p False by simp
      qed
      moreover have "\<not> ((\<forall>c\<in>set ls. 0 \<le> reverse_alphabet c) \<and> uint r + (58 ^ k * ?d + 58 ^ Suc k * ?v) < 2 ^ 64)"
      proof
        assume a: "(\<forall>c\<in>set ls. 0 \<le> reverse_alphabet c) \<and> uint r + (58 ^ k * ?d + 58 ^ Suc k * ?v) < 2 ^ 64"
        then have "0 \<le> 58 ^ Suc k * ?v" by (intro mult_nonneg_nonneg val58_nonneg) auto
        then show False using a False by linarith
      qed
      ultimately show ?thesis using True unfolding Let_def e by (auto simp: m)
    qed
  qed simp
qed

definition dec58 :: "nat \<Rightarrow> bytes \<Rightarrow> bytes option" where
  "dec58 n blk =
     (let v = val58 (map reverse_alphabet (rev blk))
      in if (\<forall>c\<in>set blk. 0 \<le> reverse_alphabet c) \<and> v < 256 ^ n then Some (be_bytes n v) else None)"

lemma decoded_data_eq: "decoded_data = [0, - 1, 1, 2, - 1, 3, 4, 5, - 1, 6, 7, 8]"
  by code_simp

lemma decoded_block_sizes_eq: "n \<le> 8 \<Longrightarrow> decoded_block_sizes (encoded_block_sizes ! n) = Some (int n)"
proof -
  assume "n \<le> 8"
  then consider "n = 0" | "1 \<le> n \<and> n \<le> 8" by linarith
  then show ?thesis
    by cases (use block_cases [of n] in \<open>auto simp: decoded_block_sizes_def decoded_data_eq encoded_block_sizes_def full_encoded_block_size_def\<close>)
qed

lemma decode_block_eq:
  assumes "length blk = encoded_block_sizes ! n" and "1 \<le> n" and "n \<le> 8"
  shows "decode_block (blk @ rest) (length blk) res = Some (map_option (\<lambda>d. d @ drop n res) (dec58 n blk))"
proof -
  let ?v = "val58 (map reverse_alphabet (rev blk))" and ?ok = "\<forall>c\<in>set blk. 0 \<le> reverse_alphabet c"
  have sz: "1 \<le> length blk" "length blk \<le> 11" using block_sizes [OF assms(2,3)] assms(1) by simp_all
  have loop: "decode_block_loop (rev blk) 0 1 = (if ?ok \<and> ?v < 2 ^ 64 then Some (word_of_int ?v) else None)"
    using decode_block_loop_eq [of 0 "rev blk" 1 0] sz(2) by (simp add: Let_def)
  have step: "decode_block (blk @ rest) (length blk) res =
      (case decode_block_loop (rev blk) 0 1 of None \<Rightarrow> Some None
       | Some res_num \<Rightarrow> if n < 8 \<and> push_bit (8 * n) 1 \<le> res_num then Some None
           else do { out \<leftarrow> uint_64_to_8be res_num n; Some (Some (out @ drop n res)) })"
    using sz assms decoded_block_sizes_eq [OF assms(3)] by (simp add: decode_block_def full_encoded_block_size_def full_block_size_def cong: option.case_cong if_cong)
  show ?thesis
  proof (cases "?ok \<and> ?v < 2 ^ 64")
    case True
    have "0 \<le> ?v" using True by (intro val58_nonneg) auto
    then have u: "uint (word_of_int ?v :: u64) = ?v" using True by (simp add: uint_word_of_int)
    have "n < 8 \<and> push_bit (8 * n) 1 \<le> (word_of_int ?v :: u64) \<longleftrightarrow> \<not> ?v < 256 ^ n"
    proof (cases "n = 8")
      case False
      then have "n < 8" using assms(3) by simp
      moreover have "uint (push_bit (8 * n) 1 :: u64) = 256 ^ n"
        using block_cases [OF assms(2,3)] False by (elim disjE) simp_all
      ultimately show ?thesis by (simp add: word_le_def u not_less)
    qed (use True in simp)
    then show ?thesis
      using True u assms(2,3) uint_64_to_8be_eq [of n "word_of_int ?v"] unfolding step loop by (simp add: dec58_def Let_def)
  next
    case False
    have "(256 :: int) ^ n \<le> 2 ^ 64" using power_increasing [of n 8 "256 :: int"] assms(3) by simp
    then have "\<not> (?ok \<and> ?v < 256 ^ n)" using False by linarith
    then show ?thesis unfolding step loop using False by (auto simp: dec58_def Let_def)
  qed
qed

lemma reverse_letters: "(\<forall>d\<in>set ds. 0 \<le> d \<and> d < 58) \<Longrightarrow> map (\<lambda>d. reverse_alphabet (alphabet ! nat d)) ds = ds"
  using reverse_of_letter by (induction ds) auto

lemma dec58_enc58:
  assumes "1 \<le> length b" and "length b \<le> 8"
  shows "dec58 (length b) (enc58 b) = Some b"
proof -
  let ?ds = "digits58 (encoded_block_sizes ! length b) (be_val b)"
  have r: "\<forall>d\<in>set ?ds. 0 \<le> d \<and> d < 58" using digits58_range by blast
  have m: "map reverse_alphabet (rev (enc58 b)) = ?ds"
    using reverse_letters [OF r] by (simp add: enc58_def rev_map comp_def)
  have "val58 ?ds = be_val b"
    using be_val_bounds [of b] block_fits [OF assms] by (intro val58_digits58) linarith+
  moreover have "0 \<le> reverse_alphabet c" if "c \<in> set (enc58 b)" for c
  proof -
    have "reverse_alphabet c \<in> set (map reverse_alphabet (rev (enc58 b)))" using that by simp
    then show ?thesis unfolding m using r by blast
  qed
  ultimately show ?thesis unfolding dec58_def m using be_val_bounds(2) [of b] be_bytes_be_val [of b] by (simp add: Let_def)
qed

lemma enc58_dec58:
  assumes "dec58 n blk = Some d" and "length blk = encoded_block_sizes ! n"
  shows "length d = n \<and> enc58 d = blk"
proof -
  let ?rs = "map reverse_alphabet (rev blk)"
  have ok: "\<forall>c\<in>set blk. 0 \<le> reverse_alphabet c" "val58 ?rs < 256 ^ n" and d: "d = be_bytes n (val58 ?rs)"
    using assms(1) by (auto simp: dec58_def Let_def split: if_splits)
  have "0 \<le> val58 ?rs" using ok(1) by (intro val58_nonneg) auto
  then have v: "be_val d = val58 ?rs" unfolding d by (intro be_val_be_bytes ok(2))
  have "digits58 (length ?rs) (val58 ?rs) = ?rs" using ok(1) letter_of_reverse(1) by (intro digits58_val58) auto
  moreover have l: "length d = n" by (simp add: d)
  ultimately have "enc58 d = map (\<lambda>d. alphabet ! nat d) (rev ?rs)" using assms(2) by (simp add: enc58_def v)
  also have "\<dots> = blk" using ok(1) letter_of_reverse(2) by (simp add: rev_map comp_def map_idI)
  finally show ?thesis using l by simp
qed

section \<open>Strings\<close>

definition block8 :: "bytes \<Rightarrow> nat \<Rightarrow> bytes" where
  "block8 data i = take 8 (drop (8 * i) data)"

definition block11 :: "bytes \<Rightarrow> nat \<Rightarrow> bytes" where
  "block11 enc i = take 11 (drop (11 * i) enc)"

lemma block_end: "i < n div m \<Longrightarrow> m * Suc i \<le> (n :: nat)"
  by (metis Suc_leI mult_le_mono2 times_div_less_eq_dividend order_trans)

lemma length_block8: "i < length data div 8 \<Longrightarrow> length (block8 data i) = 8"
proof -
  assume "i < length data div 8"
  then have "8 * Suc i \<le> length data" by (rule block_end)
  then show ?thesis by (simp add: block8_def)
qed

lemma length_block11: "i < length enc div 11 \<Longrightarrow> length (block11 enc i) = 11"
proof -
  assume "i < length enc div 11"
  then have "11 * Suc i \<le> length enc" by (rule block_end)
  then show ?thesis by (simp add: block11_def)
qed

lemma concat_blocks: "k * n \<le> length xs \<Longrightarrow> concat (map (\<lambda>i. take n (drop (n * i) xs)) [0..<k]) = take (n * k) xs"
proof (induction k)
  case (Suc k)
  then show ?case using take_add [of "n * k" n xs] by (simp add: add.commute)
qed simp

lemma ebs_8: "encoded_block_sizes ! 8 = 11"
  by (simp add: encoded_block_sizes_def)

definition encode_ref :: "bytes \<Rightarrow> bytes" where
  "encode_ref data =
     (let n = length data div 8
      in concat (map (\<lambda>i. enc58 (block8 data i)) [0..<n]) @ (if 0 < length data mod 8 then enc58 (drop (8 * n) data) else []))"

lemma length_concat_enc: "k \<le> length data div 8 \<Longrightarrow> length (concat (map (\<lambda>i. enc58 (block8 data i)) [0..<k])) = 11 * k"
  by (induction k) (simp_all add: length_block8 ebs_8)

lemma encode_eq: "encode data = Some (encode_ref data)"
proof (cases "data = []")
  case False
  define n r e where "n = length data div 8" and "r = length data mod 8" and "e = encoded_block_sizes ! r"
  define f where "f i = enc58 (block8 data i)" for i
  let ?one = "alphabet ! 0"
  let ?I = "\<lambda>k res. res = concat (map f [0..<k]) @ replicate (11 * n + e - 11 * k) ?one"
  have len: "length (concat (map f [0..<k])) = 11 * k" if "k \<le> n" for k
    unfolding f_def using length_concat_enc [of k data] that by (simp add: n_def)
  have "\<exists>res. opt_fold (\<lambda>i. at_offset (i * 11) (encode_block (drop (i * 8) data) 8)) [0..<n] (replicate (11 * n + e) ?one) = Some res
      \<and> ?I (length [0..<n]) res"
  proof (rule opt_fold_invariant)
    fix k res assume "k < length [0..<n]" and res: "?I k res"
    then have k: "k < n" by simp
    have b: "drop (k * 8) data = block8 data k @ drop 8 (drop (8 * k) data)" by (simp only: block8_def mult.commute [of k] append_take_drop_id)
    have l: "length (block8 data k) = 8" using k by (intro length_block8) (simp add: n_def)
    have "encode_block (block8 data k @ drop 8 (drop (8 * k) data)) 8 (replicate (11 * n + e - 11 * k) ?one)
        = Some (f k @ replicate (11 * n + e - 11 * Suc k) ?one)"
      using encode_block_eq [OF l, of "11 * n + e - 11 * k" "drop 8 (drop (8 * k) data)"] k by (simp add: ebs_8 f_def)
    then show "\<exists>s'. at_offset ([0..<n] ! k * 11) (encode_block (drop ([0..<n] ! k * 8) data) 8) res = Some s' \<and> ?I (Suc k) s'"
      using k res len [of k] by (simp add: at_offset_def b)
  qed simp
  then have loop: "opt_fold (\<lambda>i. at_offset (i * 11) (encode_block (drop (i * 8) data) 8)) [0..<n] (replicate (11 * n + e) ?one)
      = Some (concat (map f [0..<n]) @ replicate e ?one)" by auto
  have last: "encode_block (drop (8 * n) data) r (replicate e ?one) = Some (enc58 (drop (8 * n) data))" if "0 < r"
  proof -
    have "length (drop (8 * n) data) = r" unfolding n_def r_def by (simp add: minus_mult_div_eq_mod)
    then show ?thesis using encode_block_eq [of "drop (8 * n) data" r e "[]"] that by (simp add: e_def r_def)
  qed
  show ?thesis
    using False last len [of n] loop
    by (simp add: encode_def full_block_size_def full_encoded_block_size_def at_offset_def encode_ref_def Let_def mult.commute [of _ 11]
        mult.commute [of _ 8] flip: n_def r_def f_def e_def) (simp add: e_def r_def encoded_block_sizes_def)
qed (simp add: encode_def encode_ref_def)

definition decode_all :: "bytes \<Rightarrow> nat list \<Rightarrow> bytes option" where
  "decode_all enc is =
     (if \<forall>i\<in>set is. dec58 8 (block11 enc i) \<noteq> None then Some (concat (map (\<lambda>i. the (dec58 8 (block11 enc i))) is)) else None)"

lemma decode_all_Cons:
  "decode_all enc (i # is) = (case dec58 8 (block11 enc i) of None \<Rightarrow> None | Some x \<Rightarrow> map_option (\<lambda>d. x @ d) (decode_all enc is))"
  by (simp add: decode_all_def split: option.split)

lemma length_dec58: "dec58 n blk = Some d \<Longrightarrow> length d = n"
  by (auto simp: dec58_def Let_def split: if_splits)

lemma decode_blocks_eq:
  assumes "k \<le> n" and "n = length enc div 11" and "8 * n \<le> length data"
  shows "decode_blocks enc [k..<n] data = Some (map_option (\<lambda>d. take (8 * k) data @ d @ drop (8 * n) data) (decode_all enc [k..<n]))"
  using assms
proof (induction arbitrary: data rule: inc_induct)
  case base
  then show ?case by (simp add: decode_all_def)
next
  case (step k)
  have u: "[k..<n] = k # [Suc k..<n]" using step.hyps by (simp add: upt_conv_Cons)
  have b: "drop (k * 11) enc = block11 enc k @ drop 11 (drop (11 * k) enc)" by (simp only: block11_def mult.commute [of k] append_take_drop_id)
  have l: "length (block11 enc k) = 11" using step by (intro length_block11) simp
  have d: "decode_block (drop (k * 11) enc) 11 res = Some (map_option (\<lambda>d. d @ drop 8 res) (dec58 8 (block11 enc k)))" for res
    using decode_block_eq [of "block11 enc k" 8 "drop 11 (drop (11 * k) enc)" res] unfolding b l by (simp add: ebs_8)
  show ?case
  proof (cases "dec58 8 (block11 enc k)")
    case None
    then show ?thesis by (simp add: u d decode_all_def full_encoded_block_size_def full_block_size_def)
  next
    case (Some x)
    define D where "D = take (8 * k) data @ x @ drop 8 (drop (8 * k) data)"
    have x: "length x = 8" by (rule length_dec58 [OF Some])
    have k: "8 * k + 8 \<le> 8 * n" using step.hyps by simp
    have D: "length D = length data" "drop (8 * n) D = drop (8 * n) data" "take (8 * Suc k) D = take (8 * k) data @ x"
      using k step.prems(2) x unfolding D_def by (simp_all add: drop_append)
    have "decode_blocks enc [k..<n] data = decode_blocks enc [Suc k..<n] D"
      unfolding u using Some by (simp add: d D_def full_encoded_block_size_def full_block_size_def mult.commute [of k 8])
    then show ?thesis
      using step.IH [of D] step.prems D Some unfolding u decode_all_Cons by (simp add: option.map_comp comp_def)
  qed
qed

definition decode_ref :: "bytes \<Rightarrow> bytes option" where
  "decode_ref enc =
     (let n = length enc div 11; r = length enc mod 11; b = decoded_data ! r
      in if b < 0 then None
         else case decode_all enc [0..<n] of
             None \<Rightarrow> None
           | Some d \<Rightarrow> if 0 < r then map_option (\<lambda>x. d @ x) (dec58 (nat b) (drop (11 * n) enc)) else Some d)"

lemma decoded_cases:
  assumes "r < 11" and "0 \<le> decoded_data ! r"
  shows "encoded_block_sizes ! nat (decoded_data ! r) = r" and "nat (decoded_data ! r) \<le> 7" and "0 < r \<Longrightarrow> 1 \<le> nat (decoded_data ! r)"
proof -
  have "r \<in> set [0..<11]" using assms(1) by simp
  moreover have "\<forall>r\<in>set [0..<11]. 0 \<le> decoded_data ! r \<longrightarrow> encoded_block_sizes ! nat (decoded_data ! r) = r
      \<and> nat (decoded_data ! r) \<le> 7 \<and> (0 < r \<longrightarrow> 1 \<le> nat (decoded_data ! r))"
    unfolding decoded_data_eq encoded_block_sizes_def by code_simp
  ultimately show "encoded_block_sizes ! nat (decoded_data ! r) = r" "nat (decoded_data ! r) \<le> 7" "0 < r \<Longrightarrow> 1 \<le> nat (decoded_data ! r)"
    using assms(2) by blast+
qed

lemma length_resize [simp]: "length (resize n s) = n"
  by (simp add: resize_def)

lemma length_decode_all: "decode_all enc is = Some d \<Longrightarrow> length d = 8 * length is"
proof -
  assume d: "decode_all enc is = Some d"
  have "length (concat (map (\<lambda>i. the (dec58 8 (block11 enc i))) is)) = 8 * length is" if "\<forall>i\<in>set is. dec58 8 (block11 enc i) \<noteq> None" for "is"
    using that by (induction "is") (auto dest: length_dec58)
  then show ?thesis using d by (auto simp: decode_all_def split: if_splits)
qed

lemma decode_eq: "decode enc data = Some (decode_ref enc)"
proof (cases "enc = []")
  case False
  define n r where "n = length enc div 11" and "r = length enc mod 11"
  have r: "r < 11" by (simp add: r_def)
  have sz: "decoded_block_sizes r = Some (decoded_data ! r)" using r by (simp add: decoded_block_sizes_def full_encoded_block_size_def)
  show ?thesis
  proof (cases "decoded_data ! r < 0")
    case True
    then show ?thesis using False sz
      by (simp add: decode_def decode_ref_def full_encoded_block_size_def full_block_size_def Let_def flip: n_def r_def)
  next
    case b: False
    note c = decoded_cases [OF r]
    define m where "m = nat (decoded_data ! r)"
    let ?data = "resize (n * 8 + m) data"
    have bl: "decode_blocks enc [0..<n] ?data = Some (map_option (\<lambda>d. d @ drop (8 * n) ?data) (decode_all enc [0..<n]))"
      using decode_blocks_eq [of 0 n enc ?data] by (simp add: n_def)
    have l: "length (drop (11 * n) enc) = r" by (simp add: n_def r_def minus_mult_div_eq_mod)
    have la: "decode_block (drop (11 * n) enc) r res = Some (map_option (\<lambda>d. d @ drop m res) (dec58 m (drop (11 * n) enc)))" if "0 < r" for res
    proof -
      have "decode_block (drop (11 * n) enc @ []) (length (drop (11 * n) enc)) res
          = Some (map_option (\<lambda>d. d @ drop m res) (dec58 m (drop (11 * n) enc)))"
        by (rule decode_block_eq) (unfold l m_def, use c b that in simp_all)
      then show ?thesis by (simp only: l append_Nil2)
    qed
    have z: "decoded_data ! 0 = 0" "r = 0 \<Longrightarrow> m = 0" by (simp_all add: m_def decoded_data_eq)
    show ?thesis
    proof (cases "decode_all enc [0..<n]")
      case None
      then show ?thesis using False sz b bl
        by (simp add: decode_def decode_ref_def full_encoded_block_size_def full_block_size_def Let_def flip: n_def r_def m_def)
    next
      case (Some d)
      have d: "length d = 8 * n" using length_decode_all [OF Some] by simp
      show ?thesis
        using False sz b bl Some la d z
        by (cases "r = 0")
          (simp_all add: decode_def decode_ref_def full_encoded_block_size_def full_block_size_def mult.commute [of _ 11] mult.commute [of _ 8]
            option.map_comp comp_def Let_def flip: n_def r_def m_def)
    qed
  qed
qed (simp add: decode_def decode_ref_def decode_all_def decoded_data_eq)

lemma encoded_sizes_small: "r < 8 \<Longrightarrow> encoded_block_sizes ! r < 11 \<and> decoded_data ! (encoded_block_sizes ! r) = int r"
proof -
  assume "r < 8"
  then have "r \<in> set [0..<8]" by simp
  moreover have "\<forall>r\<in>set [0..<8]. encoded_block_sizes ! r < 11 \<and> decoded_data ! (encoded_block_sizes ! r) = int r"
    unfolding decoded_data_eq encoded_block_sizes_def by code_simp
  ultimately show ?thesis by blast
qed

theorem decode_encode_ref: "decode_ref (encode_ref data) = Some data"
proof -
  define n r where "n = length data div 8" and "r = length data mod 8"
  let ?f = "\<lambda>i. enc58 (block8 data i)" and ?E = "encode_ref data" and ?e = "encoded_block_sizes ! r"
  have e: "?e < 11" "decoded_data ! ?e = int r" using encoded_sizes_small [of r] by (simp_all add: r_def)
  have l8: "length (drop (8 * n) data) = r" by (simp add: n_def r_def minus_mult_div_eq_mod)
  have E: "?E = concat (map ?f [0..<n]) @ (if 0 < r then enc58 (drop (8 * n) data) else [])"
    by (simp only: encode_ref_def Let_def n_def r_def)
  have lc: "length (concat (map ?f [0..<n])) = 11 * n" using length_concat_enc [of n data] by (simp add: n_def)
  have lE: "length ?E = 11 * n + ?e"
    unfolding E using lc l8 by (simp add: encoded_block_sizes_def)
  then have q: "length ?E div 11 = n" "length ?E mod 11 = ?e" using e(1) by simp_all
  have b: "block11 ?E i = ?f i" if "i < n" for i
    using take_concat_blocks [of "[0..<n]" ?f 11 i] that length_block8 [of _ data] unfolding E block11_def
    by (simp add: n_def ebs_8)
  have d: "dec58 8 (block11 ?E i) = Some (block8 data i)" if "i < n" for i
    using dec58_enc58 [of "block8 data i"] b [OF that] length_block8 [of i data] that by (simp add: n_def)
  have "map (\<lambda>i. the (dec58 8 (block11 ?E i))) [0..<n] = map (\<lambda>i. take 8 (drop (8 * i) data)) [0..<n]"
    by (rule map_cong [OF refl]) (simp add: d, simp add: block8_def)
  moreover have "concat (map (\<lambda>i. take 8 (drop (8 * i) data)) [0..<n]) = take (8 * n) data"
    by (rule concat_blocks) (simp add: n_def)
  ultimately have "concat (map (\<lambda>i. the (dec58 8 (block11 ?E i))) [0..<n]) = take (8 * n) data" by (simp only:)
  then have all: "decode_all ?E [0..<n] = Some (take (8 * n) data)"
    unfolding decode_all_def using d by simp
  have dr: "drop (11 * n) ?E = enc58 (drop (8 * n) data)" if "0 < r" using that lc unfolding E by simp
  have last: "dec58 r (enc58 (drop (8 * n) data)) = Some (drop (8 * n) data)" if "0 < r"
    using dec58_enc58 [of "drop (8 * n) data"] that l8 by (simp add: r_def)
  show ?thesis
  proof (cases "r = 0")
    case True
    then have "length data = 8 * n" using l8 by (simp add: n_def r_def mult.commute)
    then show ?thesis using all e q True by (simp add: decode_ref_def Let_def encoded_block_sizes_def decoded_data_eq)
  next
    case False
    then have "0 < ?e" using block_sizes [of r] by (simp add: r_def)
    then show ?thesis using all e q False dr last by (simp add: decode_ref_def Let_def)
  qed
qed

theorem encode_decode_ref:
  assumes "decode_ref enc = Some d"
  shows "encode_ref d = enc"
proof -
  define n r m where "n = length enc div 11" and "r = length enc mod 11" and "m = nat (decoded_data ! r)"
  let ?x = "\<lambda>i. the (dec58 8 (block11 enc i))"
  have ok: "0 \<le> decoded_data ! r" "\<forall>i<n. dec58 8 (block11 enc i) \<noteq> None"
    and d: "\<exists>y. d = concat (map ?x [0..<n]) @ y \<and> (if 0 < r then dec58 m (drop (11 * n) enc) = Some y else y = [])"
    using assms by (auto simp: decode_ref_def decode_all_def m_def Let_def simp flip: n_def r_def split: if_splits)
  note c = decoded_cases [OF _ ok(1), folded m_def]
  have r: "r < 11" by (simp add: r_def)
  have l: "length (drop (11 * n) enc) = r" by (simp add: n_def r_def minus_mult_div_eq_mod)
  obtain y where y: "d = concat (map ?x [0..<n]) @ y" "if 0 < r then dec58 m (drop (11 * n) enc) = Some y else y = []" using d by blast
  have x: "length (?x i) = 8 \<and> enc58 (?x i) = block11 enc i" if "i < n" for i
    using ok(2) that enc58_dec58 [of 8 "block11 enc i"] length_block11 [of i enc] by (auto simp: n_def ebs_8)
  have m0: "m = 0" if "r = 0" using that by (simp add: m_def decoded_data_eq)
  have yl: "length y = m" "0 < r \<Longrightarrow> enc58 y = drop (11 * n) enc"
  proof -
    show "length y = m" using y(2) m0 length_dec58 by (cases "r = 0") auto
    show "enc58 y = drop (11 * n) enc" if "0 < r" using y(2) that enc58_dec58 [of m "drop (11 * n) enc" y] c(1) r l by simp
  qed
  have lc: "length (concat (map ?x [0..<k])) = 8 * k" if "k \<le> n" for k using that by (induction k) (simp_all add: x)
  have "length d = 8 * n + m" "m < 8" using y(1) lc [of n] yl(1) c(2) r by simp_all
  then have q: "length d div 8 = n" "length d mod 8 = m" by simp_all
  have b: "block8 d i = ?x i" if "i < n" for i
    using take_concat_blocks [of "[0..<n]" ?x 8 i y] that x unfolding y(1) block8_def by simp
  have "map (\<lambda>i. enc58 (block8 d i)) [0..<n] = map (\<lambda>i. take 11 (drop (11 * i) enc)) [0..<n]"
    by (rule map_cong [OF refl]) (simp add: b x, simp add: block11_def)
  then have "concat (map (\<lambda>i. enc58 (block8 d i)) [0..<n]) = concat (map (\<lambda>i. take 11 (drop (11 * i) enc)) [0..<n])" by (simp only:)
  also have "\<dots> = take (11 * n) enc" by (rule concat_blocks) (simp add: n_def)
  finally have full: "concat (map (\<lambda>i. enc58 (block8 d i)) [0..<n]) = take (11 * n) enc" .
  have "drop (8 * n) d = y" using y(1) lc [of n] by simp
  moreover have "0 < m \<longleftrightarrow> 0 < r" using m0 c(3) r by auto
  moreover have "drop (11 * n) enc = []" if "r = 0" using l that by simp
  ultimately have "encode_ref d = take (11 * n) enc @ drop (11 * n) enc"
    using full yl(2) q by (cases "r = 0") (simp_all add: encode_ref_def Let_def)
  then show ?thesis by simp
qed

section \<open>Addresses\<close>

lemma encode_addr_eq:
  assumes "length (write_varint tag @ data) < 2 ^ 31"
  shows "\<exists>h. cn_fast_hash (write_varint tag @ data) = Some h \<and> length h = 32
    \<and> encode_addr tag data = Some (encode_ref (write_varint tag @ data @ take 4 h))"
  using cn_fast_hash_reference [OF assms] length_cn_fast_hash [of "write_varint tag @ data"]
  by (simp add: encode_addr_def encode_eq addr_checksum_size_def)

lemma decode_addr_eq:
  assumes "length (write_varint tag @ data) < 2 ^ 31" and "cn_fast_hash (write_varint tag @ data) = Some h"
  shows "decode_addr (encode_ref (write_varint tag @ data @ take 4 h)) = Some (Some (tag, data))"
proof -
  have h: "length h = 32" by (rule length_cn_fast_hash [OF assms(2)])
  have v: "0 < length (write_varint tag)" using length_write_varint_pos [of tag] by simp
  let ?buf = "write_varint tag @ data @ take 4 h"
  have "\<not> length ?buf \<le> 4" "drop (length ?buf - 4) ?buf = take 4 h" "resize (length ?buf - 4) ?buf = write_varint tag @ data"
    using h v by (simp_all add: resize_def)
  then show ?thesis
    using assms(2) v by (simp add: decode_addr_def decode_eq decode_encode_ref addr_checksum_size_def read_write_varint Let_def)
qed

end
