(* ===== verification/Account.thy ===== *)
theory Account
  imports Base58Correct CryptoCorrect
begin

text \<open>
  Accounts and their addresses: \<open>account.cpp\<close>, the address functions of \<open>currency_basic_impl.cpp\<close>
  and the checksum of \<open>swap_address.h\<close>.  The results follow the conventions of \<open>Crypto\<close> and
  \<open>Base58\<close>: the outer \<open>None\<close> does not return, \<open>Inl\<close> is a thrown exception, and an inner \<open>None\<close> is
  \<open>return false\<close>.  The address types are written to a blob as their fields, 32 bytes each.
\<close>

section \<open>The model\<close>

subsection \<open>Addresses\<close>

type_synonym payment_id_t = bytes

record account_public_address_base =
  m_spend_public_key :: public_key
  m_view_public_key :: public_key

record account_public_address = account_public_address_base +
  is_swap_address :: bool

definition CURRENCY_PUBLIC_ADDRESS_BASE58_PREFIX :: u64 where
  "CURRENCY_PUBLIC_ADDRESS_BASE58_PREFIX = 1"

definition CURRENCY_PUBLIC_INTEG_ADDRESS_BASE58_PREFIX :: u64 where
  "CURRENCY_PUBLIC_INTEG_ADDRESS_BASE58_PREFIX = 0xE94E"

definition SWAP_CURRENCY_PUBLIC_ADDRESS_BASE58_PREFIX :: u64 where
  "SWAP_CURRENCY_PUBLIC_ADDRESS_BASE58_PREFIX = 197"

text \<open>The fields in the order of the serialization map, and the parser, which fails at the end of the stream.\<close>

definition address_to_blob :: "account_public_address \<Rightarrow> bytes" where
  "address_to_blob addr = m_spend_public_key addr @ m_view_public_key addr"

definition parse_address :: "bytes \<Rightarrow> account_public_address \<Rightarrow> account_public_address option" where
  "parse_address blob addr =
     (if length blob < 32 then None
      else let addr = addr\<lparr>m_spend_public_key := take 32 blob\<rparr>; blob = drop 32 blob
           in if length blob < 32 then None
              else Some (addr\<lparr>m_view_public_key := take 32 blob\<rparr>))"

definition get_account_address_and_payment_as_str :: "account_public_address \<Rightarrow> payment_id_t \<Rightarrow> bytes option" where
  "get_account_address_and_payment_as_str addr payment_id =
     encode_addr CURRENCY_PUBLIC_INTEG_ADDRESS_BASE58_PREFIX (address_to_blob addr @ payment_id)"

definition get_account_address_as_str :: "account_public_address \<Rightarrow> bytes option" where
  "get_account_address_as_str addr = encode_addr CURRENCY_PUBLIC_ADDRESS_BASE58_PREFIX (address_to_blob addr)"

definition get_account_swap_address_as_str :: "account_public_address \<Rightarrow> bytes option" where
  "get_account_swap_address_as_str addr = encode_addr SWAP_CURRENCY_PUBLIC_ADDRESS_BASE58_PREFIX (address_to_blob addr)"

definition ADDRESS_KEYS_DATA_SIZE :: nat where
  "ADDRESS_KEYS_DATA_SIZE = 32 * 2"

definition get_account_address_and_payment_id_from_str ::
    "account_public_address \<Rightarrow> bytes \<Rightarrow> (account_public_address \<times> payment_id_t) option option" where
  "get_account_address_and_payment_id_from_str addr str =
     do { r \<leftarrow> decode_addr str;
          (case r of
             None \<Rightarrow> Some None
           | Some (prefix, data) \<Rightarrow>
               let addr = addr\<lparr>is_swap_address := False\<rparr>
               in if CURRENCY_PUBLIC_ADDRESS_BASE58_PREFIX \<noteq> prefix \<and> CURRENCY_PUBLIC_INTEG_ADDRESS_BASE58_PREFIX \<noteq> prefix
                  then Some None
                  else if length data < ADDRESS_KEYS_DATA_SIZE then Some None
                  else case parse_address (take ADDRESS_KEYS_DATA_SIZE data) addr of
                      None \<Rightarrow> Some None
                    | Some addr \<Rightarrow>
                        if \<not> check_key (m_spend_public_key addr) \<or> \<not> check_key (m_view_public_key addr) then Some None
                        else Some (Some (addr, drop ADDRESS_KEYS_DATA_SIZE data))) }"

definition get_account_address_from_str :: "account_public_address \<Rightarrow> bytes \<Rightarrow> account_public_address option option" where
  "get_account_address_from_str addr str = map_option (map_option fst) (get_account_address_and_payment_id_from_str addr str)"

subsection \<open>The checksum of a swap address\<close>

definition cn_fast_hash_64 :: "bytes \<Rightarrow> u64 option" where
  "cn_fast_hash_64 data =
     (if data = [] then Some 0
      else do { h \<leftarrow> cn_fast_hash data;
                let idx = (h ! 5) mod 4;
                Some (lane_at h (unat idx)) })"

record swap_address_extra_entry =
  addr_base :: account_public_address_base
  checksum :: u32

definition addr_base_bytes :: "account_public_address_base \<Rightarrow> bytes" where
  "addr_base_bytes a = m_spend_public_key a @ m_view_public_key a"

definition calc_and_set_checksum :: "swap_address_extra_entry \<Rightarrow> swap_address_extra_entry option" where
  "calc_and_set_checksum e =
     do { h \<leftarrow> cn_fast_hash_64 (addr_base_bytes (addr_base e));
          Some (e\<lparr>checksum := ucast h\<rparr>) }"

definition is_checksum_valid :: "swap_address_extra_entry \<Rightarrow> bool option" where
  "is_checksum_valid e =
     do { h \<leftarrow> cn_fast_hash_64 (addr_base_bytes (addr_base e));
          Some (checksum e = ucast h) }"

subsection \<open>Accounts\<close>

record account_keys =
  m_account_address :: account_public_address
  m_spend_secret_key :: secret_key
  m_view_secret_key :: secret_key

record account_base =
  m_keys :: account_keys
  m_creation_timestamp :: u64

definition null_skey :: secret_key where
  "null_skey = replicate 32 0"

definition null_address :: account_public_address where
  "null_address = \<lparr>m_spend_public_key = replicate 32 0, m_view_public_key = replicate 32 0, is_swap_address = False\<rparr>"

definition set_null :: "account_base \<Rightarrow> account_base" where
  "set_null acc =
     acc\<lparr>m_keys := \<lparr>m_account_address = null_address, m_spend_secret_key = null_skey, m_view_secret_key = null_skey\<rparr>\<rparr>"

text \<open>The end of \<open>generate\<close> and \<open>restore\<close>: the view keys from the spend secret key.\<close>

definition set_view_keys :: "account_keys \<Rightarrow> (exception + account_keys) option" where
  "set_view_keys keys =
     do { r \<leftarrow> dependent_key (m_spend_secret_key keys);
          (case r of
             Inl e \<Rightarrow> Some (Inl e)
           | Inr view \<Rightarrow>
               do { pub \<leftarrow> secret_key_to_public_key view;
                    (case pub of
                       None \<Rightarrow> Some (Inl (Runtime_error ''Failed to create public view key''))
                     | Some vpub \<Rightarrow>
                         Some (Inr (keys\<lparr>m_view_secret_key := view,
                           m_account_address := m_account_address keys\<lparr>m_view_public_key := vpub\<rparr>\<rparr>))) }) }"

definition set_spend_keys :: "public_key \<Rightarrow> secret_key \<Rightarrow> account_keys \<Rightarrow> account_keys" where
  "set_spend_keys pub sec keys =
     keys\<lparr>m_account_address := m_account_address keys\<lparr>m_spend_public_key := pub\<rparr>, m_spend_secret_key := sec\<rparr>"

text \<open>The results are the account, the seed and the generator; \<open>now\<close> is \<open>time(NULL)\<close>.\<close>

definition generate :: "urandom \<Rightarrow> u64 \<Rightarrow> account_base \<Rightarrow> prng \<Rightarrow> (exception + account_base \<times> bytes \<times> prng) option" where
  "generate os now acc p =
     do { (pub, sec, seed, p) \<leftarrow> generate_keys os p;
          r \<leftarrow> set_view_keys (set_spend_keys pub sec (m_keys acc));
          (case r of
             Inl e \<Rightarrow> Some (Inl e)
           | Inr keys \<Rightarrow> Some (Inr (acc\<lparr>m_keys := keys, m_creation_timestamp := now\<rparr>, seed, p))) }"

definition restore :: "bool \<Rightarrow> bytes \<Rightarrow> account_base \<Rightarrow> (exception + account_base) option" where
  "restore ndebug restore_seed acc =
     do { assertion ndebug (length restore_seed = 32);
          k \<leftarrow> restore_keys restore_seed;
          (case k of
             Inl e \<Rightarrow> Some (Inl e)
           | Inr (pub, sec) \<Rightarrow>
               do { r \<leftarrow> set_view_keys (set_spend_keys pub sec (m_keys acc));
                    (case r of
                       Inl e \<Rightarrow> Some (Inl e)
                     | Inr keys \<Rightarrow> Some (Inr (acc\<lparr>m_keys := keys, m_creation_timestamp := 0\<rparr>))) }) }"

definition make_account_view_only :: "account_base \<Rightarrow> account_base" where
  "make_account_view_only acc = acc\<lparr>m_keys := m_keys acc\<lparr>m_spend_secret_key := null_skey\<rparr>\<rparr>"

definition get_public_address_str :: "account_base \<Rightarrow> bytes option" where
  "get_public_address_str acc = get_account_address_as_str (m_account_address (m_keys acc))"

section \<open>Addresses round trip\<close>

text \<open>The addresses that can be read back: two valid keys of 32 bytes, and no swap address.\<close>

definition wf_address :: "account_public_address \<Rightarrow> bool" where
  "wf_address a \<longleftrightarrow> length (m_spend_public_key a) = 32 \<and> length (m_view_public_key a) = 32
     \<and> check_key (m_spend_public_key a) \<and> check_key (m_view_public_key a) \<and> \<not> is_swap_address a"

lemma length_address_to_blob: "wf_address a \<Longrightarrow> length (address_to_blob a) = 64"
  by (simp add: wf_address_def address_to_blob_def)

lemma parse_address_blob:
  assumes "wf_address a"
  shows "parse_address (address_to_blob a) (a0\<lparr>is_swap_address := False\<rparr>) = Some a"
  using assms by (cases a) (auto simp: wf_address_def parse_address_def address_to_blob_def Let_def)

lemma encode_addr_decodes:
  assumes "length (write_varint tag @ data) < 2 ^ 31"
  shows "\<exists>str. encode_addr tag data = Some str \<and> decode_addr str = Some (Some (tag, data))"
  using encode_addr_eq [OF assms] decode_addr_eq [OF assms] by auto

lemma from_str_eq:
  assumes "wf_address a" and "decode_addr str = Some (Some (prefix, address_to_blob a @ pid))"
    and "prefix = CURRENCY_PUBLIC_ADDRESS_BASE58_PREFIX \<or> prefix = CURRENCY_PUBLIC_INTEG_ADDRESS_BASE58_PREFIX"
  shows "get_account_address_and_payment_id_from_str a0 str = Some (Some (a, pid))"
  using assms(2,3) parse_address_blob [OF assms(1)] length_address_to_blob [OF assms(1)] assms(1)
  by (auto simp: get_account_address_and_payment_id_from_str_def ADDRESS_KEYS_DATA_SIZE_def wf_address_def Let_def)

lemma address_as_str:
  assumes "wf_address a"
  shows "\<exists>str. get_account_address_as_str a = Some str \<and> get_account_address_and_payment_id_from_str a0 str = Some (Some (a, []))"
proof -
  obtain str where "encode_addr CURRENCY_PUBLIC_ADDRESS_BASE58_PREFIX (address_to_blob a) = Some str"
    "decode_addr str = Some (Some (CURRENCY_PUBLIC_ADDRESS_BASE58_PREFIX, address_to_blob a @ []))"
    using encode_addr_decodes [of CURRENCY_PUBLIC_ADDRESS_BASE58_PREFIX "address_to_blob a"] 
      length_write_varint_max [of CURRENCY_PUBLIC_ADDRESS_BASE58_PREFIX] length_address_to_blob [OF assms] by auto
  then show ?thesis using from_str_eq [OF assms] by (simp add: get_account_address_as_str_def)
qed

lemma address_and_payment_as_str:
  assumes "wf_address a" and "length pid < 2 ^ 30"
  shows "\<exists>str. get_account_address_and_payment_as_str a pid = Some str
    \<and> get_account_address_and_payment_id_from_str a0 str = Some (Some (a, pid))"
proof -
  obtain str where "encode_addr CURRENCY_PUBLIC_INTEG_ADDRESS_BASE58_PREFIX (address_to_blob a @ pid) = Some str"
    "decode_addr str = Some (Some (CURRENCY_PUBLIC_INTEG_ADDRESS_BASE58_PREFIX, address_to_blob a @ pid))"
    using encode_addr_decodes [of CURRENCY_PUBLIC_INTEG_ADDRESS_BASE58_PREFIX "address_to_blob a @ pid"] 
      length_write_varint_max [of CURRENCY_PUBLIC_INTEG_ADDRESS_BASE58_PREFIX] length_address_to_blob [OF assms(1)] assms(2) by auto
  then show ?thesis using from_str_eq [OF assms(1)] by (simp add: get_account_address_and_payment_as_str_def)
qed

lemma swap_address_refused:
  assumes "wf_address a"
  shows "\<exists>str. get_account_swap_address_as_str a = Some str \<and> get_account_address_and_payment_id_from_str a0 str = Some None"
proof -
  obtain str where "encode_addr SWAP_CURRENCY_PUBLIC_ADDRESS_BASE58_PREFIX (address_to_blob a) = Some str"
    "decode_addr str = Some (Some (SWAP_CURRENCY_PUBLIC_ADDRESS_BASE58_PREFIX, address_to_blob a))"
    using encode_addr_decodes [of SWAP_CURRENCY_PUBLIC_ADDRESS_BASE58_PREFIX "address_to_blob a"] 
      length_write_varint_max [of SWAP_CURRENCY_PUBLIC_ADDRESS_BASE58_PREFIX] length_address_to_blob [OF assms] by auto
  then show ?thesis
    by (simp add: get_account_swap_address_as_str_def get_account_address_and_payment_id_from_str_def Let_def
        CURRENCY_PUBLIC_ADDRESS_BASE58_PREFIX_def CURRENCY_PUBLIC_INTEG_ADDRESS_BASE58_PREFIX_def SWAP_CURRENCY_PUBLIC_ADDRESS_BASE58_PREFIX_def)
qed

text \<open>What the parser accepts is always a pair of valid keys.\<close>

lemma from_str_wf:
  assumes "get_account_address_and_payment_id_from_str a0 str = Some (Some (a, pid))"
  shows "wf_address a"
  using assms
  by (auto simp: get_account_address_and_payment_id_from_str_def parse_address_def wf_address_def Let_def ADDRESS_KEYS_DATA_SIZE_def
      split: bind_splits option.splits if_splits)

lemma checksum_set:
  assumes "length (addr_base_bytes (addr_base e)) < 2 ^ 31" and "addr_base_bytes (addr_base e) \<noteq> []"
  shows "\<exists>e'. calc_and_set_checksum e = Some e' \<and> addr_base e' = addr_base e \<and> is_checksum_valid e' = Some True"
  using cn_fast_hash_reference [OF assms(1)] by (auto simp: calc_and_set_checksum_def is_checksum_valid_def cn_fast_hash_64_def assms(2) Let_def)

section \<open>Accounts\<close>

text \<open>The keys of an account belong together.\<close>

definition wf_keys :: "account_keys \<Rightarrow> bool" where
  "wf_keys k \<longleftrightarrow> is_scalar (m_spend_secret_key k) \<and> is_scalar (m_view_secret_key k)
     \<and> m_spend_public_key (m_account_address k) = public_of (m_spend_secret_key k)
     \<and> m_view_public_key (m_account_address k) = public_of (m_view_secret_key k)"

lemma set_view_keys_eq:
  assumes "is_scalar sec"
  shows "\<exists>view. dependent_key sec = Some (Inr view) \<and> is_scalar view
    \<and> set_view_keys (set_spend_keys pub sec keys) = Some (Inr \<lparr>m_account_address = m_account_address keys
         \<lparr>m_spend_public_key := pub, m_view_public_key := public_of view\<rparr>, m_spend_secret_key = sec, m_view_secret_key = view\<rparr>)"
proof -
  obtain view where v: "hash_to_scalar sec = Some view" "is_scalar view" using hash_to_scalar_ok [of sec] assms by auto
  then have d: "dependent_key sec = Some (Inr view)" by (simp add: dependent_key_def)
  moreover have "secret_key_to_public_key view = Some (Some (public_of view))" using secret_key_to_public_key_eq [of view] v(2) by simp
  ultimately show ?thesis using v(2) by (cases keys) (simp add: set_view_keys_def set_spend_keys_def)
qed

lemma generate_restore:
  assumes "prng_live os p"
  shows "\<exists>acc' seed q. generate os now acc p = Some (Inr (acc', seed, q)) \<and> prng_live os q \<and> length seed = 32 \<and> wf_keys (m_keys acc')
    \<and> is_swap_address (m_account_address (m_keys acc')) = is_swap_address (m_account_address (m_keys acc))
    \<and> m_creation_timestamp acc' = now
    \<and> (is_swap_address (m_account_address (m_keys acc2)) = is_swap_address (m_account_address (m_keys acc))
        \<longrightarrow> restore ndebug seed acc2 = Some (Inr (acc'\<lparr>m_creation_timestamp := 0\<rparr>)))"
proof -
  obtain sec q where k: "generate_keys os p = Some (public_of sec, sec, sec, q)" "is_scalar sec" "prng_live os q"
    using generate_keys_eq [OF assms] by blast
  obtain r where "ge_scalarmult_base sec = Some r" "ge_p3_tobytes r = public_of sec" using base_mult_public [OF k(2)] by blast
  then have rk: "restore_keys sec = Some (Inr (public_of sec, sec))" using k(2) by (simp add: restore_keys_def)
  obtain view where d: "dependent_key sec = Some (Inr view)" "is_scalar view" using set_view_keys_eq [OF k(2)] by blast
  have sv: "set_view_keys (set_spend_keys (public_of sec) sec keys) = Some (Inr \<lparr>m_account_address = m_account_address keys
         \<lparr>m_spend_public_key := public_of sec, m_view_public_key := public_of view\<rparr>, m_spend_secret_key = sec, m_view_secret_key = view\<rparr>)" for keys
    using set_view_keys_eq [OF k(2), of "public_of sec" keys] d(1) by auto
  show ?thesis
    using k rk d(2) sv
    by (cases acc; cases acc2; cases "m_account_address (m_keys acc)"; cases "m_account_address (m_keys acc2)")
      (simp add: generate_def restore_def wf_keys_def assertion_def)
qed

lemma wf_keys_address:
  assumes "wf_keys k" and "\<not> is_swap_address (m_account_address k)"
  shows "wf_address (m_account_address k)"
  using assms by (simp add: wf_keys_def wf_address_def public_of_def)

end
