(* ===== verification/Difficulty.thy ===== *)
theory Difficulty
  imports IntUtil Hash "HOL-Library.Monad_Syntax"
begin

text \<open>
  The difficulty of \<open>difficulty.cpp\<close>: the check of a hash against a difficulty in its two widths,
  and the difficulty of the next block from a window of past blocks.  The fixed-width unsigned
  integers of boost, of 128, 256 and 512 bits, are words of that width.  \<open>None\<close> is a failed
  assertion.
\<close>

section \<open>The model\<close>

subsection \<open>The check of a hash\<close>

definition mul :: "u64 \<Rightarrow> u64 \<Rightarrow> u64 \<times> u64" where
  "mul a b = (let res = (ucast a :: 128 word) * ucast b in (ucast res, ucast (drop_bit 64 res)))"

definition cadd :: "u64 \<Rightarrow> u64 \<Rightarrow> bool" where
  "cadd a b = (a + b < a)"

definition cadc :: "u64 \<Rightarrow> u64 \<Rightarrow> bool \<Rightarrow> bool" where
  "cadc a b c = (a + b < a \<or> c \<and> a + b = - 1)"

definition check_hash_old :: "bytes \<Rightarrow> u64 \<Rightarrow> bool" where
  "check_hash_old hash difficulty =
     (let (top, high) = mul (lane_at hash 3) difficulty
      in if high \<noteq> 0 then False
         else let (low, cur) = mul (lane_at hash 0) difficulty;
                  (low, high) = mul (lane_at hash 1) difficulty;
                  carry = cadd cur low;
                  cur = high;
                  (low, high) = mul (lane_at hash 2) difficulty;
                  carry = cadc cur low carry;
                  carry = cadc high top carry
              in \<not> carry)"

definition max64bit :: "128 word" where
  "max64bit = 2 ^ 64 - 1"

definition max128bit :: "256 word" where
  "max128bit = 2 ^ 128 - 1"

definition max256bit :: "512 word" where
  "max256bit = 2 ^ 256 - 1"

definition check_hash :: "bytes \<Rightarrow> 128 word \<Rightarrow> bool" where
  "check_hash hash difficulty =
     (if difficulty < max64bit
      then let dl = ucast difficulty;
               (top, high) = mul (lane_at hash 3) dl
           in if high \<noteq> 0 then False
              else let (low, cur) = mul (lane_at hash 0) dl;
                       (low, high) = mul (lane_at hash 1) dl;
                       carry = cadd cur low;
                       cur = high;
                       (low, high) = mul (lane_at hash 2) dl;
                       carry = cadc cur low carry;
                       carry = cadc high top carry
                   in \<not> carry
      else if lane_at hash 3 > 0 then False
      else let hashVal = fold (\<lambda>i v. push_bit 64 v OR ucast (lane_at hash (3 - i))) [0..<4] (0 :: 512 word)
           in hashVal * ucast difficulty \<le> max256bit)"

subsection \<open>The next difficulty\<close>

definition DIFFICULTY_TARGET :: u64 where
  "DIFFICULTY_TARGET = 120"

definition DIFFICULTY_WINDOW :: nat where
  "DIFFICULTY_WINDOW = 720"

definition DIFFICULTY_CUT :: nat where
  "DIFFICULTY_CUT = 60"

text \<open>\<open>std::vector::resize\<close>\<close>

definition vector_resize :: "nat \<Rightarrow> 'a::zero list \<Rightarrow> 'a list" where
  "vector_resize n v = take n v @ replicate (n - length v) 0"

definition cutoff :: "'a::zero list \<Rightarrow> 'b::zero list \<Rightarrow> 'a list \<times> 'b list" where
  "cutoff timestamps cumulative_difficulties =
     (if length timestamps > DIFFICULTY_WINDOW
      then (vector_resize DIFFICULTY_WINDOW timestamps, vector_resize DIFFICULTY_WINDOW cumulative_difficulties)
      else (timestamps, cumulative_difficulties))"

text \<open>The part of the sorted window that counts: 60 entries are cut off at both ends.\<close>

definition cut :: "nat \<Rightarrow> nat \<times> nat" where
  "cut len =
     (if len \<le> DIFFICULTY_WINDOW - 2 * DIFFICULTY_CUT then (0, len)
      else let cut_begin = (len - (DIFFICULTY_WINDOW - 2 * DIFFICULTY_CUT) + 1) div 2
           in (cut_begin, cut_begin + (DIFFICULTY_WINDOW - 2 * DIFFICULTY_CUT)))"

definition next_difficulty_old :: "u64 list \<Rightarrow> u64 list \<Rightarrow> u64 \<Rightarrow> u64 option" where
  "next_difficulty_old timestamps cumulative_difficulties target_seconds =
     (let (timestamps, cumulative_difficulties) = cutoff timestamps cumulative_difficulties;
          len = length timestamps
      in if len \<noteq> length cumulative_difficulties then None
         else if len \<le> 1 then Some 1
         else if \<not> len \<le> DIFFICULTY_WINDOW then None
         else let timestamps = sort timestamps;
                  (cut_begin, cut_end) = cut len
              in if \<not> (cut_begin + 2 \<le> cut_end \<and> cut_end \<le> len) then None
                 else let time_span = timestamps ! (cut_end - 1) - timestamps ! cut_begin;
                          time_span = (if time_span = 0 then 1 else time_span);
                          total_work = cumulative_difficulties ! (cut_end - 1) - cumulative_difficulties ! cut_begin
                      in if \<not> total_work > 0 then None
                         else let (low, high) = mul total_work target_seconds
                              in if high \<noteq> 0 \<or> low + time_span - 1 < low then Some 0
                                 else Some ((low + time_span - 1) div time_span))"

definition next_difficulty :: "u64 list \<Rightarrow> 128 word list \<Rightarrow> u64 \<Rightarrow> 128 word option" where
  "next_difficulty timestamps cumulative_difficulties target_seconds =
     (let (timestamps, cumulative_difficulties) = cutoff timestamps cumulative_difficulties;
          len = length timestamps
      in if len \<noteq> length cumulative_difficulties then None
         else if len \<le> 1 then Some 1
         else if \<not> len \<le> DIFFICULTY_WINDOW then None
         else let timestamps = sort timestamps;
                  (cut_begin, cut_end) = cut len
              in if \<not> (cut_begin + 2 \<le> cut_end \<and> cut_end \<le> len) then None
                 else let time_span = timestamps ! (cut_end - 1) - timestamps ! cut_begin;
                          time_span = (if time_span = 0 then 1 else time_span);
                          total_work = cumulative_difficulties ! (cut_end - 1) - cumulative_difficulties ! cut_begin
                      in if \<not> total_work > 0 then None
                         else let res = ((ucast total_work :: 256 word) * ucast target_seconds + ucast time_span - 1)
                                          div ucast time_span
                              in if res > max128bit then Some 0 else Some (ucast res))"

definition next_difficulty_default :: "u64 list \<Rightarrow> 128 word list \<Rightarrow> 128 word option" where
  "next_difficulty_default timestamps cumulative_difficulties =
     next_difficulty timestamps cumulative_difficulties DIFFICULTY_TARGET"

definition next_difficulty_old_default :: "u64 list \<Rightarrow> u64 list \<Rightarrow> u64 option" where
  "next_difficulty_old_default timestamps cumulative_difficulties =
     next_difficulty_old timestamps cumulative_difficulties DIFFICULTY_TARGET"

section \<open>The check compares with the target\<close>

lemma mul_mul128: "mul a b = mul128 a b"
  by (simp add: mul_def mul128_def)

lemma mul_value: "mul x y = (lo, hi) \<Longrightarrow> uint lo + 2 ^ 64 * uint hi = uint x * uint y"
  unfolding mul_mul128 by (rule mul128_value)

lemma cadc_value: "cadc a b c \<longleftrightarrow> 2 ^ 64 \<le> uint a + uint b + of_bool c"
proof (cases "uint a + uint b < 2 ^ 64")
  case True
  then have s: "uint (a + b) = uint a + uint b" by (simp add: uint_plus_if')
  have "a + b = - 1 \<longleftrightarrow> uint (a + b) = 2 ^ 64 - 1"
    using word_uint_eq_iff [of "a + b" "- 1"] by (simp add: unsigned_minus_1_eq_mask mask_eq_exp_minus_1)
  then show ?thesis using True s by (auto simp: cadc_def word_less_def)
next
  case False
  then have "uint (a + b) = uint a + uint b - 2 ^ 64" using uint_lt2p [of a] uint_lt2p [of b] by (simp add: uint_plus_if')
  then have "a + b < a" using uint_lt2p [of b] by (simp add: word_less_def)
  then show ?thesis using False by (simp add: cadc_def)
qed

lemma cadd_value: "cadd a b \<longleftrightarrow> 2 ^ 64 \<le> uint a + uint b"
  using cadc_value [of a b False] by (simp add: cadd_def cadc_def)

text \<open>The carries of a sum of four columns.\<close>

lemma four_columns:
  fixes l0 :: int
  assumes "0 \<le> l0" and "l0 < 2 ^ 64" and "0 \<le> a1" "a1 < 2 ^ 64" "0 \<le> b1" "b1 < 2 ^ 64"
    and "0 \<le> a2" "a2 < 2 ^ 64" "0 \<le> b2" "b2 < 2 ^ 64" and "0 \<le> a3" "a3 < 2 ^ 64" "0 \<le> b3" "b3 < 2 ^ 64"
  shows "l0 + 2 ^ 64 * (a1 + b1) + 2 ^ 128 * (a2 + b2) + 2 ^ 192 * (a3 + b3) < 2 ^ 256
    \<longleftrightarrow> \<not> 2 ^ 64 \<le> a3 + b3 + of_bool (2 ^ 64 \<le> a2 + b2 + of_bool (2 ^ 64 \<le> a1 + b1))"
  using assms by (cases "2 ^ 64 \<le> a1 + b1"; cases "2 ^ 64 \<le> a2 + b2 + of_bool (2 ^ 64 \<le> a1 + b1)") (simp_all, linarith+)

lemma uint_lane: "length hash = 32 \<Longrightarrow> i < 4 \<Longrightarrow> uint (lane_at hash i) = le_val (take 8 (drop (8 * i) hash))"
proof -
  assume "length hash = 32" "i < 4"
  then have "le_val (take 8 (drop (8 * i) hash)) < 2 ^ 64" using le_val_less [of "take 8 (drop (8 * i) hash)" 8] by simp
  then show ?thesis by (simp add: lane_at_def load64_def uint_word_of_int)
qed

lemma le_val_lanes:
  assumes "length hash = 32"
  shows "le_val hash = uint (lane_at hash 0) + 2 ^ 64 * uint (lane_at hash 1) + 2 ^ 128 * uint (lane_at hash 2)
    + 2 ^ 192 * uint (lane_at hash 3)"
proof -
  have s: "le_val xs = le_val (take 8 xs) + 2 ^ 64 * le_val (drop 8 xs)" if "8 \<le> length xs" for xs :: bytes
    using le_val_append [of "take 8 xs" "drop 8 xs"] that by simp
  have "le_val hash = le_val (take 8 hash) + 2 ^ 64 * (le_val (take 8 (drop 8 hash))
      + 2 ^ 64 * (le_val (take 8 (drop 16 hash)) + 2 ^ 64 * le_val (drop 24 hash)))"
    using s [of hash] s [of "drop 8 hash"] s [of "drop 16 hash"] assms by simp
  then show ?thesis using uint_lane [OF assms, of 0] uint_lane [OF assms, of 1] uint_lane [OF assms, of 2] uint_lane [OF assms, of 3] assms
    by simp
qed

lemma uint_below: "uint (x :: u64) < 2 ^ 64"
  using uint_lt2p [of x] by simp

lemma check_hash_old_eq:
  assumes "length hash = 32"
  shows "check_hash_old hash d \<longleftrightarrow> le_val hash * uint d < 2 ^ 256"
proof -
  obtain l0 u0 l1 u1 l2 u2 l3 u3 where m: "mul (lane_at hash 0) d = (l0, u0)" "mul (lane_at hash 1) d = (l1, u1)"
    "mul (lane_at hash 2) d = (l2, u2)" "mul (lane_at hash 3) d = (l3, u3)" by fastforce
  note v = m [THEN mul_value]
  define L where "L = uint l0 + 2 ^ 64 * (uint u0 + uint l1) + 2 ^ 128 * (uint u1 + uint l2) + 2 ^ 192 * (uint u2 + uint l3)"
  have prod: "le_val hash * uint d = L + 2 ^ 256 * uint u3"
    unfolding le_val_lanes [OF assms] L_def using v by (simp add: algebra_simps)
  have "0 \<le> L" by (simp add: L_def)
  have c: "check_hash_old hash d \<longleftrightarrow> u3 = 0 \<and> \<not> cadc u2 l3 (cadc u1 l2 (cadd u0 l1))"
    by (simp add: check_hash_old_def m del: One_nat_def)
  have f: "L < 2 ^ 256 \<longleftrightarrow> \<not> cadc u2 l3 (cadc u1 l2 (cadd u0 l1))"
    unfolding L_def cadc_value cadd_value by (rule four_columns) (simp_all only: uint_ge_0 uint_below)
  show ?thesis
  proof (cases "u3 = 0")
    case True
    then show ?thesis unfolding c f [symmetric] prod by simp
  next
    case False
    then have "0 < uint u3" using uint_ge_0 [of u3] uint_0_iff [of u3] by linarith
    then have "2 ^ 256 * 1 \<le> 2 ^ 256 * uint u3" by (intro mult_left_mono) simp_all
    then show ?thesis unfolding c prod using False \<open>0 \<le> L\<close> by simp
  qed
qed

lemma shift_in:
  fixes v :: "512 word" and l :: u64
  assumes "uint v < 2 ^ 192"
  shows "uint (push_bit 64 v OR ucast l) = 2 ^ 64 * uint v + uint l"
proof -
  have l: "uint (ucast l :: 512 word) = uint l" by (rule uint_ucast_up) simp
  have "uint v * 2 ^ 64 < 2 ^ 192 * 2 ^ 64" using assms by (intro mult_strict_right_mono) simp_all
  then have "uint v * 2 ^ 64 < 2 ^ LENGTH(512)" by simp
  then show ?thesis using uint_or_shift [of "ucast l :: 512 word" 64 v] uint_below [of l] by (simp add: or.commute l)
qed

lemma hashVal_value:
  assumes "length hash = 32"
  shows "uint (fold (\<lambda>i v. push_bit 64 v OR ucast (lane_at hash (3 - i))) [0..<4] (0 :: 512 word)) = le_val hash"
proof -
  define l where "l i = lane_at hash i" for i
  define v1 where "v1 = (push_bit 64 0 OR ucast (l 3) :: 512 word)"
  define v2 where "v2 = push_bit 64 v1 OR ucast (l 2)"
  define v3 where "v3 = push_bit 64 v2 OR ucast (l 1)"
  have "[0..<4] = [0, 1, 2, 3 :: nat]" by (simp add: upt_rec)
  then have f: "fold (\<lambda>i v. push_bit 64 v OR ucast (lane_at hash (3 - i))) [0..<4] (0 :: 512 word) = push_bit 64 v3 OR ucast (l 0)"
    by (simp add: v1_def v2_def v3_def l_def)
  have b: "0 \<le> uint (l i)" "uint (l i) < 2 ^ 64" for i by (simp_all only: uint_ge_0 uint_below)
  have v1: "uint v1 = uint (l 3)" unfolding v1_def by (simp add: uint_ucast_up)
  have v2: "uint v2 = 2 ^ 64 * uint (l 3) + uint (l 2)" unfolding v2_def v1 [symmetric] using v1 b [of 3] by (intro shift_in) simp
  have "uint v2 < 2 ^ 128" using v2 b [of 3] b [of 2] by simp
  then have v3: "uint v3 = 2 ^ 64 * uint v2 + uint (l 1)" unfolding v3_def by (intro shift_in) simp
  then have "uint v3 < 2 ^ 192" using \<open>uint v2 < 2 ^ 128\<close> b [of 1] by simp
  then have "uint (push_bit 64 v3 OR ucast (l 0)) = 2 ^ 64 * uint v3 + uint (l 0)" by (rule shift_in)
  then show ?thesis unfolding f le_val_lanes [OF assms] v3 v2 by (simp add: l_def)
qed

lemma lane_3_zero:
  assumes "length hash = 32"
  shows "\<not> lane_at hash 3 > 0 \<longleftrightarrow> le_val hash < 2 ^ 192"
proof -
  define L where "L = uint (lane_at hash 0) + 2 ^ 64 * uint (lane_at hash 1) + 2 ^ 128 * uint (lane_at hash 2)"
  have b: "0 \<le> uint (lane_at hash i)" "uint (lane_at hash i) < 2 ^ 64" for i by (simp_all only: uint_ge_0 uint_below)
  have L: "0 \<le> L" "L < 2 ^ 192" unfolding L_def using b [of 0] b [of 1] b [of 2] by simp_all
  have "le_val hash = L + 2 ^ 192 * uint (lane_at hash 3)" unfolding le_val_lanes [OF assms] L_def by simp
  moreover have "\<not> lane_at hash 3 > 0 \<longleftrightarrow> uint (lane_at hash 3) = 0" by (simp add: word_gt_0 uint_0_iff)
  moreover have "L + 2 ^ 192 * u < 2 ^ 192 \<longleftrightarrow> u = 0" if "0 \<le> u" for u :: int
  proof (cases "u = 0")
    case False
    then have "2 ^ 192 * 1 \<le> 2 ^ 192 * u" using that by (intro mult_left_mono) simp_all
    then show ?thesis using L False by simp
  qed (use L in simp)
  ultimately show ?thesis using b(1) [of 3] by simp
qed

lemma check_hash_eq:
  assumes "length hash = 32"
  shows "check_hash hash d \<longleftrightarrow> le_val hash * uint d < 2 ^ 256 \<and> (2 ^ 64 - 1 \<le> uint d \<longrightarrow> le_val hash < 2 ^ 192)"
proof (cases "d < max64bit")
  case True
  then have d: "uint d < 2 ^ 64 - 1" by (simp add: max64bit_def word_less_def)
  then have "uint (ucast d :: u64) = uint d" by (simp add: unsigned_ucast_eq take_bit_int_eq_self)
  moreover have "check_hash hash d = check_hash_old hash (ucast d)" using True by (simp add: check_hash_def check_hash_old_def Let_def)
  ultimately show ?thesis using check_hash_old_eq [OF assms, of "ucast d"] d by simp
next
  case False
  then have d: "2 ^ 64 - 1 \<le> uint d" by (simp add: max64bit_def word_less_def)
  show ?thesis
  proof (cases "lane_at hash 3 > 0")
    case True
    then show ?thesis using False d lane_3_zero [OF assms] by (simp add: check_hash_def)
  next
    case l: False
    let ?v = "fold (\<lambda>i v. push_bit 64 v OR ucast (lane_at hash (3 - i))) [0..<4] (0 :: 512 word)"
    have "uint d < 2 ^ 128" using uint_lt2p [of d] by simp
    moreover have h: "le_val hash < 2 ^ 192" using l lane_3_zero [OF assms] by simp
    ultimately have "le_val hash * uint d < 2 ^ 192 * 2 ^ 128" by (intro mult_strict_mono) simp_all
    then have "uint (?v * ucast d) = le_val hash * uint d"
      using hashVal_value [OF assms] by (simp add: uint_word_ariths uint_ucast_up)
    then have "?v * ucast d \<le> max256bit \<longleftrightarrow> le_val hash * uint d < 2 ^ 256" by (auto simp: max256bit_def word_le_def)
    then show ?thesis using False l h by (simp add: check_hash_def Let_def)
  qed
qed

section \<open>The next difficulty\<close>

lemma cut_bounds: "cut n = (b, e) \<Longrightarrow> 2 \<le> n \<Longrightarrow> n \<le> 720 \<Longrightarrow> b + 2 \<le> e \<and> e \<le> n"
  by (auto simp: cut_def DIFFICULTY_WINDOW_def DIFFICULTY_CUT_def Let_def split: if_splits)

text \<open>The work in the counted part of the window and its duration, at least one second.\<close>

definition work :: "'a::len word list \<Rightarrow> int" where
  "work cs = (let n = min (length cs) 720; (b, e) = cut n in uint (cs ! (e - 1)) - uint (cs ! b))"

definition span :: "u64 list \<Rightarrow> int" where
  "span ts = (let n = min (length ts) 720; (b, e) = cut n; t = sort (take n ts) in max 1 (uint (t ! (e - 1)) - uint (t ! b)))"

lemma span_pos: "1 \<le> span ts"
  by (simp add: span_def Let_def split: prod.split)

lemma cutoff_eq: "length ts = length cs \<Longrightarrow> cutoff ts cs = (take 720 ts, take 720 cs)"
  by (auto simp: cutoff_def vector_resize_def DIFFICULTY_WINDOW_def)

lemma uint_gt_0_iff: "0 < uint x \<longleftrightarrow> x \<noteq> 0"
  using uint_ge_0 [of x] uint_0_iff [of x] by linarith

text \<open>The work that the code computes is reduced modulo the width of the difficulties; it is exact when it is positive.\<close>

lemma work_mod: "0 < work cs \<Longrightarrow> work cs mod 2 ^ LENGTH('a) = work (cs :: 'a::len word list)"
proof -
  assume w: "0 < work cs"
  obtain b e where "cut (min (length cs) 720) = (b, e)" by fastforce
  then have "work cs \<le> uint (cs ! (e - 1))" by (simp add: work_def)
  also have "\<dots> < 2 ^ LENGTH('a)" by (rule uint_lt2p)
  finally show ?thesis using w by simp
qed

text \<open>The common part of the two functions: the clock is sorted, so its difference does not wrap.\<close>

lemma window_values:
  assumes "length ts = length (cs :: 'a::len word list)" and "2 \<le> length ts" and "cut (length (take 720 ts)) = (b, e)"
  shows "b + 2 \<le> e" and "e \<le> length (take 720 ts)"
    and "uint (take 720 cs ! (e - 1) - take 720 cs ! b) = work cs mod 2 ^ LENGTH('a)"
    and "uint (let s = sort (take 720 ts) ! (e - 1) - sort (take 720 ts) ! b in if s = 0 then 1 else s) = span ts"
proof -
  let ?n = "length (take 720 ts)" and ?t = "sort (take 720 ts)"
  have n: "2 \<le> ?n" "?n \<le> 720" "min (length ts) 720 = ?n" "min (length cs) 720 = ?n" using assms(1,2) by auto
  show be: "b + 2 \<le> e" "e \<le> ?n" using cut_bounds [OF assms(3) n(1,2)] by simp_all
  have "e - 1 < 720" "b < 720" using be n(2) by linarith+
  then have "take 720 cs ! (e - 1) = cs ! (e - 1)" "take 720 cs ! b = cs ! b" by (simp_all only: nth_take)
  moreover have "work cs = uint (cs ! (e - 1)) - uint (cs ! b)" unfolding work_def n(4) using assms(3) by simp
  ultimately show "uint (take 720 cs ! (e - 1) - take 720 cs ! b) = work cs mod 2 ^ LENGTH('a)" by (simp add: uint_word_ariths)
  have "b \<le> e - 1" "e - 1 < length ?t" using be unfolding length_sort by linarith+
  then have le: "?t ! b \<le> ?t ! (e - 1)" by (intro sorted_nth_mono) simp_all
  then have u: "uint (?t ! (e - 1) - ?t ! b) = uint (?t ! (e - 1)) - uint (?t ! b)" by (simp add: uint_sub_if' word_le_def)
  have "take ?n ts = take 720 ts" by (cases "length ts \<le> 720") (simp_all add: min_def)
  then have sp: "span ts = max 1 (uint (?t ! (e - 1)) - uint (?t ! b))" unfolding span_def n(3) using assms(3) by (simp add: Let_def)
  show "uint (let s = ?t ! (e - 1) - ?t ! b in if s = 0 then 1 else s) = span ts"
  proof (cases "?t ! (e - 1) - ?t ! b = 0")
    case True
    then have "uint (?t ! (e - 1)) - uint (?t ! b) = 0" using u by simp
    then show ?thesis using True sp by simp
  next
    case False
    then have "0 < uint (?t ! (e - 1) - ?t ! b)" by (simp add: uint_gt_0_iff)
    then show ?thesis using False u sp by (simp add: Let_def)
  qed
qed

lemma window:
  assumes "length ts = length (cs :: 'a::len word list)" and "2 \<le> length ts"
  obtains t c b e where "cutoff ts cs = (t, c)" "length c = length t" "\<not> length t \<le> 1" "length t \<le> 720" "cut (length t) = (b, e)"
    "b + 2 \<le> e" "e \<le> length t" "uint (c ! (e - 1) - c ! b) = work cs mod 2 ^ LENGTH('a)"
    "uint (let s = sort t ! (e - 1) - sort t ! b in if s = 0 then 1 else s) = span ts"
proof -
  obtain b e where be: "cut (length (take 720 ts)) = (b, e)" by fastforce
  show ?thesis
    by (rule that [OF cutoff_eq [OF assms(1)] _ _ _ be window_values [OF assms be]]) (use assms(1,2) in auto)
qed

lemma next_difficulty_eq:
  assumes "length ts = length cs" and "2 \<le> length ts"
  shows "next_difficulty ts cs T = (if work cs mod 2 ^ 128 = 0 then None
    else Some (let v = (work cs mod 2 ^ 128 * uint T + span ts - 1) div span ts in if v < 2 ^ 128 then word_of_int v else 0))"
proof -
  obtain t c b e where w: "cutoff ts cs = (t, c)" "length c = length t" "\<not> length t \<le> 1" "length t \<le> 720" "cut (length t) = (b, e)"
    "b + 2 \<le> e" "e \<le> length t" "uint (c ! (e - 1) - c ! b) = work cs mod 2 ^ LENGTH(128)"
    "uint (let s = sort t ! (e - 1) - sort t ! b in if s = 0 then 1 else s) = span ts"
    using window [OF assms] by blast
  define tw where "tw = c ! (e - 1) - c ! b"
  define ti where "ti = (let s = sort t ! (e - 1) - sort t ! b in if s = 0 then 1 else s)"
  define w where "w = work cs mod 2 ^ 128"
  have u: "uint tw = w" "uint ti = span ts" using w(8,9) by (simp_all add: tw_def ti_def w_def)
  let ?v = "w * uint T + span ts - 1"
  have b: "w < 2 ^ 128" "uint T < 2 ^ 64" "span ts < 2 ^ 64" using uint_lt2p [of tw] uint_lt2p [of T] uint_lt2p [of ti] u by simp_all
  have "0 \<le> w" using u(1) uint_ge_0 [of tw] by simp
  then have "w * uint T < 2 ^ 128 * 2 ^ 64" using b by (intro mult_strict_mono) simp_all
  moreover have "0 \<le> w * uint T" using \<open>0 \<le> w\<close> by simp
  ultimately have v: "0 \<le> ?v" "?v < 2 ^ 193" using b(3) span_pos [of ts] by simp_all
  have "uint ((ucast tw :: 256 word) * ucast T + ucast ti - 1) = ?v"
    using v by (simp add: uint_word_ariths uint_ucast_up u mod_simps)
  then have res: "uint (((ucast tw :: 256 word) * ucast T + ucast ti - 1) div ucast ti) = ?v div span ts"
    by (simp add: uint_div uint_ucast_up u)
  have "next_difficulty ts cs T =
      (if \<not> 0 < tw then None
       else let res = ((ucast tw :: 256 word) * ucast T + ucast ti - 1) div ucast ti in if res > max128bit then Some 0 else Some (ucast res))"
    using w(2-7) by (simp add: next_difficulty_def w(1) DIFFICULTY_WINDOW_def Let_def tw_def ti_def)
  moreover have "0 < tw \<longleftrightarrow> w \<noteq> 0" using u(1) by (metis uint_0_iff word_gt_0)
  moreover have "\<not> ((ucast tw :: 256 word) * ucast T + ucast ti - 1) div ucast ti > max128bit \<longleftrightarrow> ?v div span ts < 2 ^ 128"
    by (auto simp: max128bit_def word_less_def res)
  moreover have "(ucast (((ucast tw :: 256 word) * ucast T + ucast ti - 1) div ucast ti) :: 128 word) = word_of_int (?v div span ts)"
    by (metis res ucast_eq)
  ultimately show ?thesis unfolding w_def [symmetric] by (auto simp: Let_def)
qed

lemma next_difficulty_old_eq:
  assumes "length ts = length cs" and "2 \<le> length ts"
  shows "next_difficulty_old ts cs T
    = (if work cs mod 2 ^ 64 = 0 then None
       else Some (let x = work cs mod 2 ^ 64 * uint T + span ts - 1 in if x < 2 ^ 64 then word_of_int (x div span ts) else 0))"
proof -
  obtain t c b e where w: "cutoff ts cs = (t, c)" "length c = length t" "\<not> length t \<le> 1" "length t \<le> 720" "cut (length t) = (b, e)"
    "b + 2 \<le> e" "e \<le> length t" "uint (c ! (e - 1) - c ! b) = work cs mod 2 ^ LENGTH(64)"
    "uint (let s = sort t ! (e - 1) - sort t ! b in if s = 0 then 1 else s) = span ts"
    using window [OF assms] by blast
  define tw where "tw = c ! (e - 1) - c ! b"
  define ti where "ti = (let s = sort t ! (e - 1) - sort t ! b in if s = 0 then 1 else s)"
  define w where "w = work cs mod 2 ^ 64"
  have u: "uint tw = w" "uint ti = span ts" using w(8,9) by (simp_all add: tw_def ti_def w_def)
  obtain lo hi where m: "mul tw T = (lo, hi)" by fastforce
  have p: "uint lo + 2 ^ 64 * uint hi = w * uint T" using mul_value [OF m] u(1) by simp
  have "next_difficulty_old ts cs T =
      (if \<not> 0 < tw then None else if hi \<noteq> 0 \<or> lo + ti - 1 < lo then Some 0 else Some ((lo + ti - 1) div ti))"
    using w(2-7) by (simp add: next_difficulty_old_def w(1) DIFFICULTY_WINDOW_def Let_def m [unfolded tw_def] tw_def ti_def del: One_nat_def)
  moreover have "0 < tw \<longleftrightarrow> w \<noteq> 0" using u(1) by (metis uint_0_iff word_gt_0)
  moreover have "\<not> (hi \<noteq> 0 \<or> lo + ti - 1 < lo) \<longleftrightarrow> w * uint T + span ts - 1 < 2 ^ 64"
  proof (cases "hi = 0")
    case True
    have ti1: "uint (ti - 1) = span ts - 1" using u(2) span_pos [of ts] by (simp add: uint_sub_if')
    have "lo + ti - 1 < lo \<longleftrightarrow> 2 ^ 64 \<le> uint lo + uint (ti - 1)" using cadd_value [of lo "ti - 1"] by (simp add: cadd_def add_diff_eq)
    then show ?thesis using True p ti1 by auto
  next
    case False
    then have "0 < uint hi" by (simp add: uint_gt_0_iff)
    moreover have "uint lo + 18446744073709551616 * uint hi = w * uint T" using p by simp
    ultimately have "18446744073709551616 \<le> w * uint T + span ts - 1" using span_pos [of ts] uint_ge_0 [of lo] by linarith
    then show ?thesis using False by simp
  qed
  moreover have "(lo + ti - 1) div ti = word_of_int ((w * uint T + span ts - 1) div span ts)"
    if x: "w * uint T + span ts - 1 < 2 ^ 64" and "hi = 0"
  proof -
    have "uint (lo + ti - 1) = w * uint T + span ts - 1"
      using x p that(2) span_pos [of ts] uint_ge_0 [of lo] by (simp add: uint_word_ariths u mod_simps)
    then have "uint ((lo + ti - 1) div ti) = (w * uint T + span ts - 1) div span ts" by (simp add: uint_div u)
    then show ?thesis by (metis word_of_int_uint)
  qed
  ultimately show ?thesis unfolding w_def [symmetric] by (auto simp: Let_def)
qed

text \<open>The whole behaviour, with the resizing of both vectors.\<close>

lemma next_difficulty_cases:
  "next_difficulty ts cs T =
    (let cs = (if 720 < length ts then vector_resize 720 cs else cs); w = work cs mod 2 ^ 128
     in if length cs \<noteq> min 720 (length ts) then None
        else if length ts \<le> 1 then Some 1
        else if w = 0 then None
        else Some (let v = (w * uint T + span ts - 1) div span ts in if v < 2 ^ 128 then word_of_int v else 0))"
proof -
  define c where "c = (if 720 < length ts then vector_resize 720 cs else cs)"
  define t where "t = take 720 ts"
  have t: "length t = min 720 (length ts)" by (simp add: t_def)
  have c: "cutoff ts cs = (t, c)" by (auto simp: cutoff_def c_def t_def vector_resize_def DIFFICULTY_WINDOW_def)
  have "cutoff t c = (t, c)" by (simp add: cutoff_def t DIFFICULTY_WINDOW_def)
  then have n: "next_difficulty ts cs T = next_difficulty t c T" unfolding next_difficulty_def by (simp only: c)
  have m: "min (length t) 720 = length t" "min (length ts) 720 = length t" using t by linarith+
  have "take (length t) t = t" "take (length t) ts = t" unfolding t by (simp_all add: t_def min_def)
  then have sp: "span t = span ts" unfolding span_def m by (simp only: Let_def)
  have "next_difficulty t c T = None" if "length c \<noteq> length t"
    using that by (simp add: next_difficulty_def \<open>cutoff t c = (t, c)\<close> Let_def)
  moreover have "next_difficulty t c T = Some 1" if "length c = length t" "length ts \<le> 1"
    using that t by (simp add: next_difficulty_def \<open>cutoff t c = (t, c)\<close> Let_def)
  moreover have "next_difficulty t c T = (if work c mod 2 ^ 128 = 0 then None
      else Some (let v = (work c mod 2 ^ 128 * uint T + span ts - 1) div span ts in if v < 2 ^ 128 then word_of_int v else 0))"
    if "length c = length t" "\<not> length ts \<le> 1"
    using next_difficulty_eq [of t c T] that t sp by simp
  ultimately show ?thesis unfolding n c_def [symmetric] Let_def [of c] t [symmetric] by (simp add: Let_def)
qed

text \<open>A chain that keeps its pace: blocks every \<open>T\<close> seconds with the same difficulty.\<close>

definition steady :: "int \<Rightarrow> int \<Rightarrow> nat \<Rightarrow> 'a::len word list" where
  "steady x0 d n = map (\<lambda>i. word_of_int (x0 + int i * d)) [0..<n]"

lemma length_steady [simp]: "length (steady x0 d n) = n"
  by (simp add: steady_def)

lemma uint_steady:
  assumes "i < n" and "0 \<le> x0" and "0 < d" and "x0 + int n * d < 2 ^ LENGTH('a)"
  shows "uint (steady x0 d n ! i :: 'a::len word) = x0 + int i * d"
proof -
  have "int i * d \<le> int n * d" using assms(1,3) by (intro mult_right_mono) simp_all
  moreover have "0 \<le> int i * d" using assms(3) by simp
  ultimately have "0 \<le> x0 + int i * d" "x0 + int i * d < 2 ^ LENGTH('a)" using assms(2,4) by linarith+
  then have "uint (word_of_int (x0 + int i * d) :: 'a word) = x0 + int i * d" by (simp only: uint_word_of_int mod_pos_pos_trivial)
  moreover have "(steady x0 d n ! i :: 'a word) = word_of_int (x0 + int i * d)"
    unfolding steady_def using assms(1) by (subst nth_map) (simp_all only: length_upt minus_nat.diff_0 nth_upt add_0)
  ultimately show ?thesis by (simp only:)
qed

lemma steady_diff:
  assumes "i < n" and "j < n" and "0 \<le> x0" and "0 < d" and "x0 + int n * d < 2 ^ LENGTH('a)"
  shows "uint (steady x0 d n ! j :: 'a::len word) - uint (steady x0 d n ! i :: 'a word) = (int j - int i) * d"
  using uint_steady [OF assms(1,3-5)] uint_steady [OF assms(2,3-5)] by (simp add: algebra_simps)

lemma sorted_steady:
  assumes "0 \<le> x0" and "0 < d" and "x0 + int n * d < 2 ^ LENGTH('a)"
  shows "sorted (steady x0 d n :: 'a::len word list)"
  unfolding sorted_iff_nth_mono_less
proof (intro allI impI)
  fix i j assume "i < j" and "j < length (steady x0 d n :: 'a word list)"
  then have "i < n" "j < n" "0 \<le> (int j - int i) * d" using assms(2) by simp_all
  then show "(steady x0 d n :: 'a word list) ! i \<le> steady x0 d n ! j"
    using steady_diff [of i n j x0 d, where 'a = 'a] assms by (simp add: word_le_def)
qed

lemma steady_window:
  assumes "2 \<le> n" and "0 \<le> t0" and "0 < T" and "t0 + int n * T < 2 ^ 64"
    and "0 \<le> c0" and "0 < D" and "c0 + int n * D < 2 ^ LENGTH('a)"
  shows "\<exists>m>0. work (steady c0 D n :: 'a::len word list) = m * D \<and> span (steady t0 T n) = m * T"
proof -
  obtain b e where be: "cut (min n 720) = (b, e)" by fastforce
  have "b + 2 \<le> e \<and> e \<le> min n 720" by (rule cut_bounds [OF be]) (use assms(1) in simp_all)
  then have i: "b < n" "e - 1 < n" "b < 720" "e - 1 < 720" "b + 2 \<le> e" by linarith+
  let ?m = "int (e - 1) - int b"
  have m: "0 < ?m" using i(5) by linarith
  have "work (steady c0 D n :: 'a word list) = ?m * D"
    unfolding work_def using be steady_diff [OF i(1,2) assms(5-7)] by simp
  moreover have "span (steady t0 T n) = ?m * T"
  proof -
    have "sorted (take (min n 720) (steady t0 T n :: u64 list))" using assms(2-4) by (intro sorted_wrt_take sorted_steady) simp_all
    then have "span (steady t0 T n) = max 1 (uint (take (min n 720) (steady t0 T n :: u64 list) ! (e - 1)) - uint (take (min n 720) (steady t0 T n :: u64 list) ! b))"
      unfolding span_def using be by (simp add: sorted_sort_id Let_def)
    also have "\<dots> = max 1 (?m * T)" using steady_diff [OF i(1,2) assms(2,3), where 'a = 64] assms(4) i by simp
    also have "\<dots> = ?m * T" using mult_mono [of 1 ?m 1 T] m assms(3) by simp
    finally show ?thesis .
  qed
  ultimately show ?thesis using m by blast
qed

lemma next_difficulty_steady_eq:
  assumes "2 \<le> n" and "0 \<le> t0" and "T \<noteq> 0" and "t0 + int n * uint T < 2 ^ 64"
    and "0 \<le> c0" and "0 < D" and "c0 + int n * D < 2 ^ 128"
  shows "next_difficulty (steady t0 (uint T) n) (steady c0 D n) T = Some (word_of_int D)"
proof -
  have T: "0 < uint T" using assms(3) by (simp add: uint_gt_0_iff)
  obtain m where m: "0 < m" "work (steady c0 D n :: 128 word list) = m * D" "span (steady t0 (uint T) n) = m * uint T"
    using steady_window [OF assms(1,2) T assms(4,5,6), where 'a = 128] assms(7) by auto
  have mT: "1 \<le> m * uint T" using mult_mono [of 1 m 1 "uint T"] m(1) T by simp
  have "m * D * uint T + m * uint T - 1 = (m * uint T - 1) + D * (m * uint T)" by (simp add: algebra_simps)
  moreover have "((m * uint T - 1) + D * (m * uint T)) div (m * uint T) = D + (m * uint T - 1) div (m * uint T)"
    using mT by (intro div_mult_self1) linarith
  ultimately have "(m * D * uint T + m * uint T - 1) div (m * uint T) = D + (m * uint T - 1) div (m * uint T)" by (simp only:)
  also have "(m * uint T - 1) div (m * uint T) = 0" using mT by (intro div_pos_pos_trivial) simp_all
  finally have v: "(m * D * uint T + m * uint T - 1) div (m * uint T) = D" by simp
  have "1 * D \<le> int n * D" using assms(1,6) by (intro mult_right_mono) simp_all
  then have "D < 2 ^ 128" using assms(5,7) by linarith
  moreover have "0 < work (steady c0 D n :: 128 word list)" using m(1,2) assms(6) by simp
  moreover from this have "work (steady c0 D n :: 128 word list) mod 2 ^ 128 = m * D" "m * D \<noteq> 0"
    using work_mod [of "steady c0 D n :: 128 word list"] m(1,2) assms(6) by simp_all
  ultimately show ?thesis
    using next_difficulty_eq [of "steady t0 (uint T) n" "steady c0 D n" T] assms(1) m(3) v by (simp add: Let_def)
qed

end
