(* ===== verification/Emission.thy ===== *)
theory Emission
  imports IntUtil "HOL-Library.Monad_Syntax"
begin

text \<open>
  The money supply and the block limits of \<open>currency_basic_impl.cpp\<close>: the reward of a block with its
  penalty for large blocks, and the donations of a day.  Amounts and sizes are 64-bit words; the
  differences and the doubled median wrap as in the source.
\<close>

section \<open>The model\<close>

definition TOTAL_MONEY_SUPPLY :: u64 where
  "TOTAL_MONEY_SUPPLY = - 1"

definition DONATIONS_SUPPLY :: u64 where
  "DONATIONS_SUPPLY = TOTAL_MONEY_SUPPLY div 100"

definition EMISSION_SUPPLY :: u64 where
  "EMISSION_SUPPLY = TOTAL_MONEY_SUPPLY - DONATIONS_SUPPLY"

definition EMISSION_CURVE_CHARACTER :: nat where
  "EMISSION_CURVE_CHARACTER = 20"

definition CURRENCY_BLOCK_GRANTED_FULL_REWARD_ZONE :: u64 where
  "CURRENCY_BLOCK_GRANTED_FULL_REWARD_ZONE = 30000"

definition DEFAULT_DUST_THRESHOLD :: u64 where
  "DEFAULT_DUST_THRESHOLD = 1000000"

definition CURRENCY_DONATIONS_INTERVAL :: nat where
  "CURRENCY_DONATIONS_INTERVAL = 720"

definition get_max_block_size :: u64 where
  "get_max_block_size = 500000000"

definition get_max_tx_size :: u64 where
  "get_max_tx_size = 1000000000"

text \<open>
  One round of the loop of \<open>get_donations_anount_for_day\<close> on \<open>amount\<close> and \<open>already_donated_coins\<close>.
  \<open>amount\<close> is signed, but every operation on it has an unsigned operand.
\<close>

definition donation_round :: "u64 \<times> u64 \<Rightarrow> u64 \<times> u64" where
  "donation_round = (\<lambda>(amount, already_donated_coins).
     let amount = amount + drop_bit EMISSION_CURVE_CHARACTER (DONATIONS_SUPPLY - already_donated_coins)
     in (amount, already_donated_coins - amount))"

text \<open>\<open>None\<close> is the exception for a vector of votes of the wrong size.\<close>

definition get_donations_anount_for_day :: "u64 \<Rightarrow> bool list \<Rightarrow> u64 option" where
  "get_donations_anount_for_day already_donated_coins votes =
     (if length votes \<noteq> CURRENCY_DONATIONS_INTERVAL then None
      else let votes_count = fold (\<lambda>v n. if v then n + 1 else n) votes 0;
               (amount, already_donated_coins) = (donation_round ^^ CURRENCY_DONATIONS_INTERVAL) (0, already_donated_coins);
               amount = (amount * votes_count) div of_nat CURRENCY_DONATIONS_INTERVAL
           in Some (amount - amount mod DEFAULT_DUST_THRESHOLD))"

definition get_donation_parts :: "u64 \<Rightarrow> u64 \<times> u64" where
  "get_donation_parts total_donations =
     (let royalty = total_donations div 10 in (royalty, total_donations - royalty))"

definition get_base_block_reward :: "u64 \<Rightarrow> u64" where
  "get_base_block_reward already_generated_coins =
     (let base_reward = drop_bit EMISSION_CURVE_CHARACTER (EMISSION_SUPPLY - already_generated_coins)
      in base_reward - base_reward mod DEFAULT_DUST_THRESHOLD)"

text \<open>
  The outer \<open>None\<close> is a division by zero, the inner one is \<open>return false\<close>; a returned value is the
  one left in \<open>reward\<close>.
\<close>

definition get_block_reward :: "u64 \<Rightarrow> u64 \<Rightarrow> u64 \<Rightarrow> u64 \<Rightarrow> u64 option option" where
  "get_block_reward median_size current_block_size already_generated_coins already_donated_coins =
     (let base_reward = get_base_block_reward already_generated_coins;
          median_size = (if median_size < CURRENCY_BLOCK_GRANTED_FULL_REWARD_ZONE
                         then CURRENCY_BLOCK_GRANTED_FULL_REWARD_ZONE else median_size)
      in if current_block_size \<le> median_size then Some (Some base_reward)
         else if current_block_size > 2 * median_size then Some None
         else if \<not> median_size < ucast (- 1 :: u32) then Some None
         else if \<not> current_block_size < ucast (- 1 :: u32) then Some None
         else do { let (product_lo, product_hi) = mul128 base_reward (current_block_size * (2 * median_size - current_block_size));
                   (_, reward_hi, reward_lo) \<leftarrow> div128_32 product_hi product_lo (ucast median_size);
                   (_, reward_hi, reward_lo) \<leftarrow> div128_32 reward_hi reward_lo (ucast median_size);
                   if 0 \<noteq> reward_hi then Some None
                   else if \<not> reward_lo < base_reward then Some None
                   else Some (Some reward_lo) })"

text \<open>
  The step of the coin counter when \<open>handle_block_to_main_chain\<close> adds a block: the reward accepted by
  \<open>validate_miner_transaction\<close> is the one of \<open>get_block_reward\<close>, and
  \<open>bei.already_generated_coins = already_generated_coins + base_reward\<close>.  The other checks of the miner
  transaction only refuse more blocks.  Only steps forward are modelled, not the removal of blocks by a
  reorganisation.
\<close>

inductive mined :: "u64 \<Rightarrow> u64 \<Rightarrow> bool" where
  mined_step: "get_block_reward median_size current_block_size already_generated_coins already_donated_coins = Some (Some base_reward)
    \<Longrightarrow> mined already_generated_coins (already_generated_coins + base_reward)"

inductive_cases minedE: "mined c c'"

section \<open>The reward\<close>

lemma supply_values:
  "uint DONATIONS_SUPPLY = 184467440737095516" "uint EMISSION_SUPPLY = 18262276632972456099"
  by (simp_all add: DONATIONS_SUPPLY_def EMISSION_SUPPLY_def TOTAL_MONEY_SUPPLY_def)

lemma uint_crop: "uint (x - x mod d) = uint x - uint x mod uint (d :: u64)"
  by (simp add: uint_sub_if' uint_mod_distrib zmod_le_nonneg_dividend)

lemma int_div_le: "0 \<le> x \<Longrightarrow> 0 < d \<Longrightarrow> x div d \<le> (x :: int)"
  using zdiv_mono2 [of x 1 d] by simp

lemma uint_base_reward:
  assumes "uint c \<le> uint EMISSION_SUPPLY"
  shows "uint (get_base_block_reward c) = (uint EMISSION_SUPPLY - uint c) div 2 ^ 20 - (uint EMISSION_SUPPLY - uint c) div 2 ^ 20 mod 10 ^ 6"
proof -
  have "uint (drop_bit 20 (EMISSION_SUPPLY - c)) = (uint EMISSION_SUPPLY - uint c) div 2 ^ 20"
    using assms by (simp add: uint_drop uint_sub_if' del: drop_bit_of_nat)
  then show ?thesis
    unfolding get_base_block_reward_def Let_def EMISSION_CURVE_CHARACTER_def uint_crop by (simp add: DEFAULT_DUST_THRESHOLD_def)
qed

lemma base_reward_fits: "uint c \<le> uint EMISSION_SUPPLY \<Longrightarrow> uint c + uint (get_base_block_reward c) \<le> uint EMISSION_SUPPLY"
proof -
  assume c: "uint c \<le> uint EMISSION_SUPPLY"
  let ?r = "uint EMISSION_SUPPLY - uint c"
  have "?r div 2 ^ 20 \<le> ?r" using c int_div_le [of ?r "2 ^ 20"] by simp
  moreover have "0 \<le> ?r div 2 ^ 20 mod 10 ^ 6" by simp
  ultimately show ?thesis unfolding uint_base_reward [OF c] by linarith
qed

text \<open>The size that is punished: above the median, but at most twice the median, and the share that is left.\<close>

definition punished :: "int \<Rightarrow> int \<Rightarrow> int \<Rightarrow> int" where
  "punished base M S = base * (S * (2 * M - S)) div M div M"

lemma punished_bound:
  assumes "0 < base" and "0 < M" and "M < S" and "S \<le> 2 * M"
  shows "0 \<le> punished base M S" and "punished base M S < base"
proof -
  have "S * (2 * M - S) = M * M - (S - M) * (S - M)" by (simp add: algebra_simps)
  moreover have "0 < (S - M) * (S - M)" using assms(3) by simp
  ultimately have l: "S * (2 * M - S) < M * M" by linarith
  have "base * (S * (2 * M - S)) < base * (M * M)" using l assms(1) by simp
  then have "base * (S * (2 * M - S)) div M < base * M" by (intro int_div_less assms(2)) (simp only: mult.assoc)
  then show "punished base M S < base" unfolding punished_def by (rule int_div_less [OF assms(2)])
  show "0 \<le> punished base M S" unfolding punished_def using assms by (simp add: pos_imp_zdiv_nonneg_iff)
qed

lemma punished_value:
  fixes base m s :: u64
  assumes "uint m < uint s" and "uint s \<le> 2 * uint m" and "uint s < 2 ^ 32 - 1"
  shows "\<exists>r r' rh rl qh ql. div128_32 (snd (mul128 base (s * (2 * m - s)))) (fst (mul128 base (s * (2 * m - s)))) (ucast m) = Some (r, rh, rl)
    \<and> div128_32 rh rl (ucast m) = Some (r', qh, ql) \<and> uint ql + 2 ^ 64 * uint qh = punished (uint base) (uint m) (uint s)"
proof -
  have M: "uint (ucast m :: u32) = uint m" using assms by (simp add: unsigned_ucast_eq take_bit_int_eq_self)
  have z: "(ucast m :: u32) \<noteq> 0" using M assms(1,2) by auto
  have "uint s * (2 * uint m - uint s) < 2 ^ 32 * 2 ^ 32" using assms by (intro mult_strict_mono) simp_all
  then have p: "uint (s * (2 * m - s)) = uint s * (2 * uint m - uint s)"
    using assms by (simp add: uint_word_ariths mod_simps)
  obtain lo hi where m: "mul128 base (s * (2 * m - s)) = (lo, hi)" by fastforce
  have v: "uint lo + 2 ^ 64 * uint hi = uint base * (uint s * (2 * uint m - uint s))" using mul128_value [OF m] p by simp
  obtain r rh rl where d1: "div128_32 hi lo (ucast m) = Some (r, rh, rl)" "uint rl + 2 ^ 64 * uint rh = (uint lo + 2 ^ 64 * uint hi) div uint m"
    using div128_32_value [OF z, of hi lo] M by auto
  obtain r' qh ql where "div128_32 rh rl (ucast m) = Some (r', qh, ql)" "uint ql + 2 ^ 64 * uint qh = (uint rl + 2 ^ 64 * uint rh) div uint m"
    using div128_32_value [OF z, of rh rl] M by auto
  then show ?thesis using m d1 v by (auto simp: punished_def)
qed

lemma fits_64:
  fixes lo hi b :: u64
  assumes "uint lo + 2 ^ 64 * uint hi = v" and "v < uint b"
  shows "hi = 0 \<and> uint lo = v"
proof -
  have "uint lo + 18446744073709551616 * uint hi < 18446744073709551616" using assms uint_lt2p [of b] by simp
  then have "uint hi = 0" using uint_ge_0 [of lo] uint_ge_0 [of hi] by linarith
  then show ?thesis using assms(1) uint_0_iff [of hi] by simp
qed

text \<open>
  The whole function: the limits of 32 bits on the median and on the doubled median never matter
  beyond the one on the size, and no division is by zero.
\<close>

lemma get_block_reward_eq:
  fixes m s c d :: u64
  defines "M \<equiv> max 30000 (uint m)" and "b \<equiv> get_base_block_reward c"
  shows "get_block_reward m s c d = Some (if uint s \<le> M then Some b
    else if uint s \<le> 2 * M \<and> uint s < 2 ^ 32 - 1 \<and> b \<noteq> 0 then Some (word_of_int (punished (uint b) M (uint s))) else None)"
proof -
  define k where "k = (if m < CURRENCY_BLOCK_GRANTED_FULL_REWARD_ZONE then CURRENCY_BLOCK_GRANTED_FULL_REWARD_ZONE else m)"
  have k: "uint k = M" by (simp add: k_def M_def CURRENCY_BLOCK_GRANTED_FULL_REWARD_ZONE_def word_less_def max_def)
  have M: "30000 \<le> M" "M < 2 ^ 64" using uint_lt2p [of k] k by (simp_all add: M_def)
  let ?c = "ucast (- 1 :: u32) :: u64"
  have c32: "uint ?c = 2 ^ 32 - 1" by (simp add: unsigned_ucast_eq unsigned_minus_1_eq_mask mask_eq_exp_minus_1)
  have c: "x < ?c \<longleftrightarrow> uint x < 2 ^ 32 - 1" for x by (simp only: word_less_def c32)
  let ?x = "mul128 b (s * (2 * k - s))"
  have f: "get_block_reward m s c d = (if s \<le> k then Some (Some b) else if s > 2 * k then Some None
      else if \<not> k < ?c then Some None else if \<not> s < ?c then Some None
      else do { (_, rh, rl) \<leftarrow> div128_32 (snd ?x) (fst ?x) (ucast k);
                (_, rh, rl) \<leftarrow> div128_32 rh rl (ucast k);
                if 0 \<noteq> rh then Some None else if \<not> rl < b then Some None else Some (Some rl) })"
    by (simp only: get_block_reward_def Let_def case_prod_beta flip: k_def b_def)
  show ?thesis
  proof (cases "uint s \<le> M")
    case True
    then show ?thesis unfolding f using k by (simp add: word_le_def)
  next
    case nle: False
    show ?thesis
    proof (cases "uint s \<le> 2 * M \<and> uint s < 2 ^ 32 - 1")
      case True
      have dbl: "uint (2 * k) = 2 * M" using nle True k by (simp add: uint_word_ariths)
      obtain r r' rh rl qh ql where d: "div128_32 (snd ?x) (fst ?x) (ucast k) = Some (r, rh, rl)" "div128_32 rh rl (ucast k) = Some (r', qh, ql)"
        "uint ql + 2 ^ 64 * uint qh = punished (uint b) M (uint s)"
        using punished_value [of k s b] nle True k by auto
      have g: "get_block_reward m s c d = (if 0 \<noteq> qh then Some None else if \<not> ql < b then Some None else Some (Some ql))"
      proof -
        have "\<not> s \<le> k" "\<not> s > 2 * k" "k < ?c" "s < ?c"
          using nle True k dbl by (simp_all only: c) (simp_all add: word_le_def word_less_def)
        then show ?thesis unfolding f d(1) by (simp add: d(2))
      qed
      show ?thesis
      proof (cases "b = 0")
        case True
        then show ?thesis unfolding g using nle by simp
      next
        case False
        then have "0 < uint b" using uint_ge_0 [of b] uint_0_iff [of b] by linarith
        then have "punished (uint b) M (uint s) < uint b" using punished_bound(2) [of "uint b" M "uint s"] nle True M(1) by simp
        then have q: "qh = 0" "uint ql = punished (uint b) M (uint s)" "ql < b" using fits_64 [OF d(3)] by (simp_all add: word_less_def)
        from q(2) have "ql = word_of_int (punished (uint b) M (uint s))" by (metis word_of_int_uint)
        then show ?thesis unfolding g using q True False nle by simp
      qed
    next
      case False
      have "get_block_reward m s c d = Some None" if "\<not> s > 2 * k"
      proof -
        have "\<not> k < ?c \<or> \<not> s < ?c"
        proof (rule ccontr)
          assume "\<not> ?thesis"
          then have a: "M < 2 ^ 32 - 1" "uint s < 2 ^ 32 - 1" using c k by auto
          then have "uint (2 * k) = 2 * M" using k M(1) by (simp add: uint_word_ariths)
          then show False using that False a by (simp add: word_less_def)
        qed
        then show ?thesis unfolding f using nle k that by (auto simp: word_le_def)
      qed
      then have "get_block_reward m s c d = Some None" using f nle k by (cases "s > 2 * k") (auto simp: word_le_def)
      then show ?thesis using nle False by auto
    qed
  qed
qed

lemma block_reward_bound:
  assumes "get_block_reward m s c d = Some (Some r)"
  shows "uint r \<le> uint (get_base_block_reward c)"
proof -
  let ?b = "get_base_block_reward c" and ?M = "max 30000 (uint m)"
  have "r = ?b \<or> (\<not> uint s \<le> ?M \<and> uint s \<le> 2 * ?M \<and> ?b \<noteq> 0 \<and> r = word_of_int (punished (uint ?b) ?M (uint s)))"
    using assms unfolding get_block_reward_eq by (auto split: if_splits)
  then show ?thesis
  proof
    assume p: "\<not> uint s \<le> ?M \<and> uint s \<le> 2 * ?M \<and> ?b \<noteq> 0 \<and> r = word_of_int (punished (uint ?b) ?M (uint s))"
    then have "0 < uint ?b" using uint_ge_0 [of ?b] uint_0_iff [of ?b] by linarith
    moreover have "0 < ?M" "?M < uint s" "uint s \<le> 2 * ?M" using p by linarith+
    ultimately have "0 \<le> punished (uint ?b) ?M (uint s)" "punished (uint ?b) ?M (uint s) < uint ?b" by (rule punished_bound)+
    moreover from this have "uint r = punished (uint ?b) ?M (uint s)"
      using p uint_lt2p [of ?b] by (simp only: uint_word_of_int) simp
    ultimately show ?thesis by linarith
  qed simp
qed

lemma mined_supply:
  assumes "mined c c'" and "uint c \<le> uint EMISSION_SUPPLY"
  shows "uint c \<le> uint c' \<and> uint c' \<le> uint EMISSION_SUPPLY"
proof (rule minedE [OF assms(1)])
  fix m s d r assume r: "get_block_reward m s c d = Some (Some r)" and c: "c' = c + r"
  have "uint c + uint r \<le> uint EMISSION_SUPPLY" using block_reward_bound [OF r] base_reward_fits [OF assms(2)] by linarith
  moreover from this have "uint c' = uint c + uint r" using uint_lt2p [of EMISSION_SUPPLY] unfolding c by (simp add: uint_word_ariths)
  ultimately show ?thesis by simp
qed

lemma mined_supply_star:
  assumes "mined\<^sup>*\<^sup>* c c'" and "uint c \<le> uint EMISSION_SUPPLY"
  shows "uint c \<le> uint c' \<and> uint c' \<le> uint EMISSION_SUPPLY"
  using assms by (induction rule: rtranclp_induct) (use mined_supply in fastforce)+

section \<open>The donations\<close>

text \<open>
  The loop on the remaining supply: the remainder of the code grows from round to round, but in
  720 rounds it does not double, and so the amount stays far below it.
\<close>

lemma donation_rounds:
  assumes "uint d \<le> uint DONATIONS_SUPPLY" and "(donation_round ^^ n) (0, d) = (a, d')" and "n \<le> 720"
  defines "R \<equiv> uint DONATIONS_SUPPLY - uint d"
  shows "2 ^ 20 * uint a \<le> int n * (2 * R) \<and> 2 ^ 20 * uint (DONATIONS_SUPPLY - d') \<le> 2 ^ 20 * R + int n * (int n + 1) * R"
  using assms(2,3)
proof (induction n arbitrary: a d')
  case 0
  then show ?case using assms(1) by (simp add: R_def uint_sub_if')
next
  case (Suc n)
  obtain a0 d0 where p: "(donation_round ^^ n) (0, d) = (a0, d0)" by fastforce
  let ?r = "DONATIONS_SUPPLY - d0"
  have R: "0 \<le> R" "R < 2 ^ 58"
    using assms(1) le_less_trans [of R "uint DONATIONS_SUPPLY" "2 ^ 58"] by (simp_all add: R_def supply_values)
  have ih: "2 ^ 20 * uint a0 \<le> int n * (2 * R)" "2 ^ 20 * uint ?r \<le> 2 ^ 20 * R + int n * (int n + 1) * R"
    using Suc.IH [OF p] Suc.prems(2) by simp_all
  have "int n * (int n + 1) \<le> 719 * 720" using Suc.prems(2) by (intro mult_mono) simp_all
  then have "int n * (int n + 1) * R \<le> 517680 * R" using R(1) by (intro mult_right_mono) simp_all
  then have "2 ^ 20 * uint ?r \<le> 2 ^ 20 * R + 517680 * R" by (intro order_trans [OF ih(2)] add_left_mono)
  then have r2: "uint ?r \<le> 2 * R" using R(1) by simp
  have "donation_round (a0, d0) = (a, d')" using Suc.prems(1) p by simp
  then have e: "a = a0 + drop_bit 20 ?r" "DONATIONS_SUPPLY - d' = ?r + a"
    by (auto simp: donation_round_def EMISSION_CURVE_CHARACTER_def Let_def)
  have q: "2 ^ 20 * (uint ?r div 2 ^ 20) \<le> uint ?r" "0 \<le> uint ?r div 2 ^ 20"
    by (simp_all add: pos_imp_zdiv_nonneg_iff)
  have "int n * (2 * R) \<le> 719 * (2 * R)" using Suc.prems(2) R(1) by (intro mult_right_mono) simp_all
  then have "2 ^ 20 * uint a0 \<le> 719 * (2 * R)" by (rule order_trans [OF ih(1)])
  then have "uint a0 \<le> R" using R(1) by simp
  moreover have "uint ?r div 2 ^ 20 \<le> 2 * R" by (rule order_trans [OF int_div_le r2]) simp_all
  ultimately have small: "uint a0 + uint ?r div 2 ^ 20 < 2 ^ 60" using R(2) by simp
  then have a: "uint a = uint a0 + uint ?r div 2 ^ 20"
    using q(2) unfolding e(1) by (simp add: uint_word_ariths uint_drop)
  have "2 ^ 20 * uint a \<le> int n * (2 * R) + 2 * R" 
    unfolding a distrib_left by (intro add_mono ih(1) order_trans [OF q(1) r2])
  then have c1: "2 ^ 20 * uint a \<le> int (Suc n) * (2 * R)" by (simp add: algebra_simps)
  have "uint (?r + a) = uint ?r + uint a" using small r2 R unfolding a [symmetric] by (simp add: uint_word_ariths)
  moreover have "int (Suc n) * (int (Suc n) + 1) * R = int n * (int n + 1) * R + int (Suc n) * (2 * R)" by (simp add: algebra_simps)
  ultimately have "2 ^ 20 * uint (?r + a) \<le> 2 ^ 20 * R + int (Suc n) * (int (Suc n) + 1) * R"
    using add_mono [OF ih(2) c1] by (simp only: distrib_left add.assoc)
  then show ?case using c1 unfolding e(2) by blast
qed

lemma votes_count: "uint (fold (\<lambda>v n. if v then n + 1 else n) votes (0 :: u64)) \<le> int (length votes)"
proof -
  have "uint (fold (\<lambda>v n. if v then n + 1 else n) votes (k :: u64)) \<le> uint k + int (length votes)" for k
  proof (induction votes arbitrary: k)
    case (Cons v vs)
    have "uint (k + 1) \<le> uint k + 1" by (simp add: uint_word_ariths zmod_le_nonneg_dividend)
    then show ?case using Cons [of "k + 1"] Cons [of k] by auto
  qed simp
  from this [of 0] show ?thesis by simp
qed

lemma donations_eq:
  assumes "uint d \<le> uint DONATIONS_SUPPLY" and "length votes = 720"
  shows "\<exists>r. get_donations_anount_for_day d votes = Some r \<and> 2 ^ 20 * uint r \<le> 1440 * (uint DONATIONS_SUPPLY - uint d) \<and> uint r mod 10 ^ 6 = 0"
proof -
  obtain a d' where p: "(donation_round ^^ 720) (0, d) = (a, d')" by fastforce
  define k where "k = fold (\<lambda>v n. if v then n + 1 else n) votes (0 :: u64)"
  define x where "x = a * k div 720"
  have k: "uint k \<le> 720" using votes_count [of votes] assms(2) by (simp add: k_def)
  have a: "2 ^ 20 * uint a \<le> 1440 * (uint DONATIONS_SUPPLY - uint d)" using donation_rounds [OF assms(1) p] by simp
  have "uint a * uint k \<le> uint a * 720" using k by (intro mult_left_mono) simp_all
  moreover have "uint a < 2 ^ 50"
  proof -
    have "1048576 * uint a \<le> 1440 * (184467440737095516 - uint d)" using a supply_values(1) by simp
    also have "\<dots> \<le> 1440 * 184467440737095516" by (intro mult_left_mono) simp_all
    finally show ?thesis by simp
  qed
  ultimately have "uint (a * k) = uint a * uint k" "uint a * uint k div 720 \<le> uint a" by (simp_all add: uint_word_ariths)
  then have x: "uint x \<le> uint a" by (simp add: x_def uint_div_distrib)
  have "get_donations_anount_for_day d votes = Some (x - x mod DEFAULT_DUST_THRESHOLD)"
    using assms(2) p by (simp add: get_donations_anount_for_day_def CURRENCY_DONATIONS_INTERVAL_def Let_def flip: k_def x_def)
  moreover have r: "uint (x - x mod DEFAULT_DUST_THRESHOLD) = uint x - uint x mod 10 ^ 6"
    unfolding uint_crop by (simp add: DEFAULT_DUST_THRESHOLD_def)
  moreover have "2 ^ 20 * uint (x - x mod DEFAULT_DUST_THRESHOLD) \<le> 1440 * (uint DONATIONS_SUPPLY - uint d)"
  proof -
    have "0 \<le> uint x mod 10 ^ 6" by simp
    then have "uint (x - x mod DEFAULT_DUST_THRESHOLD) \<le> uint a" using r x by linarith
    then have "2 ^ 20 * uint (x - x mod DEFAULT_DUST_THRESHOLD) \<le> 2 ^ 20 * uint a" by (intro mult_left_mono) simp_all
    then show ?thesis using a by (rule order_trans)
  qed
  moreover have "(uint x - uint x mod 10 ^ 6) mod 10 ^ 6 = 0" by (simp only: minus_mod_eq_mult_div) simp
  ultimately show ?thesis using \<open>get_donations_anount_for_day d votes = _\<close> r by simp
qed

lemma donation_parts_eq:
  assumes "get_donation_parts t = (royalty, donation)"
  shows "uint royalty + uint donation = uint t \<and> uint royalty = uint t div 10"
proof -
  have "uint t div 10 \<le> uint t" by (rule int_div_le) simp_all
  then show ?thesis using assms by (auto simp: get_donation_parts_def Let_def uint_sub_if' uint_div_distrib)
qed

end
