(* ===== verification/WordIndex.thy ===== *)
theory WordIndex
  imports Words
begin

text \<open>
  The words of the list are distinct and the map of the source is the inverse of its array.  A decision
  tree on the bits of the first four and the last three letters finds the number of every word, so
  that two equal words would have equal numbers.
\<close>

section \<open>Decisions\<close>

primrec letter_bits :: "char \<Rightarrow> bool list" where
  "letter_bits (Char b0 b1 b2 b3 b4 b5 b6 b7) = [b0, b1, b2, b3, b4]"

definition word_bits :: "string \<Rightarrow> bool list" where
  "word_bits w = concat (map letter_bits (take 4 (w @ replicate 4 (CHR 0x00)) @ take 3 (rev w)))"

definition sub_0 :: "bool list \<Rightarrow> int" where
  "sub_0 bs =
     (if bs ! 6 then (if bs ! 28 then (if bs ! 21 then (if bs ! 10 then (if bs ! 24 then 492 else 67) else 250)
     else (if bs ! 8 then (if bs ! 25 then 51 else 120) else 816)) else (if bs ! 22 then (if bs ! 2 then 954
     else (if bs ! 8 then 527 else 194)) else (if bs ! 21 then 208 else (if bs ! 25 then 887 else 1108)))) else
     (if bs ! 9 then (if bs ! 1 then (if bs ! 10 then 558 else (if bs ! 22 then 219 else 744)) else (if bs ! 12
     then 583 else (if bs ! 20 then 1345 else 345))) else (if bs ! 16 then (if bs ! 2 then 635 else (if bs ! 8
     then 660 else 233)) else (if bs ! 10 then 78 else (if bs ! 21 then 796 else 1543)))))"

definition sub_1 :: "bool list \<Rightarrow> int" where
  "sub_1 bs =
     (if bs ! 11 then (if bs ! 3 then (if bs ! 8 then (if bs ! 12 then (if bs ! 13 then 615 else 1128) else 20)
     else (if bs ! 2 then (if bs ! 9 then 1482 else 1193) else (if bs ! 25 then 1477 else 470))) else (if bs ! 2
     then (if bs ! 6 then (if bs ! 13 then 116 else 1262) else 1587) else (if bs ! 1 then (if bs ! 12 then 323
     else 963) else (if bs ! 9 then 1143 else 933)))) else (if bs ! 10 then (if bs ! 6 then (if bs ! 1 then (if
     bs ! 21 then 1566 else 1218) else 157) else (if bs ! 23 then (if bs ! 2 then 186 else 1042) else (if bs !
     25 then 598 else 599))) else (if bs ! 3 then (if bs ! 2 then 1387 else (if bs ! 20 then 1593 else 600))
     else (if bs ! 1 then (if bs ! 6 then 254 else 938) else 1249))))"

definition sub_2 :: "bool list \<Rightarrow> int" where
  "sub_2 bs =
     (if bs ! 2 then (if bs ! 4 then (if bs ! 26 then (if bs ! 8 then 1063 else (if bs ! 12 then 401 else 266))
     else (if bs ! 8 then 984 else (if bs ! 11 then 603 else 128))) else (if bs ! 1 then (if bs ! 8 then (if bs
     ! 20 then 62 else 461) else 464) else (if bs ! 3 then (if bs ! 9 then 61 else 1048) else (if bs ! 10 then
     1467 else 966)))) else (if bs ! 4 then (if bs ! 6 then (if bs ! 20 then (if bs ! 21 then 1273 else 160)
     else 1003) else (if bs ! 8 then (if bs ! 11 then 1056 else 1350) else (if bs ! 9 then 1615 else 249))) else
     (if bs ! 23 then (if bs ! 1 then (if bs ! 20 then 1149 else 1366) else 663) else (if bs ! 1 then (if bs !
     10 then 419 else 867) else 225))))"

definition sub_3 :: "bool list \<Rightarrow> int" where
  "sub_3 bs =
     (if bs ! 11 then (if bs ! 2 then (if bs ! 3 then (if bs ! 8 then (if bs ! 19 then 383 else 171) else 9)
     else (if bs ! 1 then (if bs ! 4 then 715 else 1475) else 1465)) else (if bs ! 4 then (if bs ! 8 then 501
     else (if bs ! 13 then 1439 else 439)) else (if bs ! 3 then (if bs ! 21 then 423 else 1596) else (if bs ! 1
     then 755 else 560)))) else (if bs ! 25 then (if bs ! 4 then (if bs ! 6 then 191 else 289) else (if bs ! 1
     then (if bs ! 2 then 262 else 138) else 891)) else (if bs ! 1 then (if bs ! 4 then (if bs ! 20 then 905
     else 443) else 548) else (if bs ! 2 then (if bs ! 3 then 83 else 514) else 570))))"

definition sub_4 :: "bool list \<Rightarrow> int" where
  "sub_4 bs =
     (if bs ! 6 then (if bs ! 10 then (if bs ! 2 then (if bs ! 3 then 554 else (if bs ! 4 then 404 else 1228))
     else (if bs ! 11 then (if bs ! 13 then 1289 else 1568) else (if bs ! 4 then 671 else 1118))) else (if bs !
     1 then (if bs ! 19 then (if bs ! 20 then 684 else 987) else (if bs ! 20 then 1412 else 1368)) else (if bs !
     2 then (if bs ! 11 then 711 else 999) else 956))) else (if bs ! 4 then (if bs ! 9 then (if bs ! 1 then (if
     bs ! 7 then 1617 else 1353) else 270) else (if bs ! 8 then (if bs ! 7 then 369 else 290) else (if bs ! 2
     then 862 else 361))) else (if bs ! 2 then (if bs ! 1 then 351 else (if bs ! 7 then 710 else 1535)) else (if
     bs ! 3 then 1189 else (if bs ! 8 then 821 else 154)))))"

definition sub_5 :: "bool list \<Rightarrow> int" where
  "sub_5 bs =
     (if bs ! 4 then (if bs ! 2 then (if bs ! 14 then (if bs ! 1 then (if bs ! 8 then 1507 else 77) else 1553)
     else (if bs ! 1 then (if bs ! 7 then 407 else 69) else 799)) else (if bs ! 11 then (if bs ! 16 then (if bs
     ! 8 then 949 else 1312) else (if bs ! 13 then 1027 else 1441)) else (if bs ! 6 then 833 else (if bs ! 7
     then 546 else 1440)))) else (if bs ! 1 then (if bs ! 6 then (if bs ! 10 then 1290 else (if bs ! 20 then
     1092 else 894)) else (if bs ! 2 then 248 else (if bs ! 8 then 587 else 385))) else (if bs ! 8 then (if bs !
     6 then (if bs ! 18 then 1388 else 790) else 1047) else (if bs ! 10 then (if bs ! 11 then 920 else 1428)
     else (if bs ! 11 then 105 else 970)))))"

definition sub_6 :: "bool list \<Rightarrow> int" where
  "sub_6 bs =
     (if bs ! 8 then (if bs ! 14 then (if bs ! 22 then (if bs ! 2 then (if bs ! 20 then 520 else 636) else 652)
     else (if bs ! 2 then (if bs ! 18 then 134 else 1403) else 167)) else (if bs ! 7 then (if bs ! 11 then (if
     bs ! 20 then 1058 else 1444) else 1352) else (if bs ! 2 then 260 else (if bs ! 3 then 654 else 392)))) else
     (if bs ! 10 then (if bs ! 2 then (if bs ! 7 then (if bs ! 23 then 504 else 1402) else 1506) else (if bs ! 9
     then (if bs ! 6 then 766 else 750) else (if bs ! 4 then 1004 else 1288))) else (if bs ! 22 then (if bs ! 4
     then (if bs ! 6 then 1613 else 1349) else 512) else (if bs ! 2 then 1051 else (if bs ! 6 then 1394 else
     1313)))))"

definition sub_7 :: "bool list \<Rightarrow> int" where
  "sub_7 bs =
     (if bs ! 18 then (if bs ! 2 then (if bs ! 16 then (if bs ! 6 then 1300 else (if bs ! 10 then 655 else 676))
     else (if bs ! 3 then 339 else (if bs ! 19 then 333 else 878))) else (if bs ! 9 then (if bs ! 16 then (if bs
     ! 20 then 1015 else 1454) else (if bs ! 19 then 21 else 1014)) else (if bs ! 7 then (if bs ! 21 then 42
     else 200) else 1175))) else (if bs ! 14 then (if bs ! 10 then (if bs ! 21 then (if bs ! 7 then 526 else
     1232) else (if bs ! 9 then 900 else 1025)) else (if bs ! 6 then 1536 else (if bs ! 7 then 1429 else 1166)))
     else (if bs ! 2 then (if bs ! 3 then 1480 else (if bs ! 6 then 378 else 1580)) else (if bs ! 4 then (if bs
     ! 21 then 658 else 463) else 1559))))"

definition sub_8 :: "bool list \<Rightarrow> int" where
  "sub_8 bs =
     (if bs ! 20 then (if bs ! 6 then (if bs ! 3 then (if bs ! 2 then 13 else (if bs ! 21 then 3 else 843)) else
     (if bs ! 1 then 450 else (if bs ! 22 then 1361 else 507))) else (if bs ! 2 then (if bs ! 1 then (if bs ! 4
     then 1360 else 581) else 1223) else (if bs ! 4 then (if bs ! 7 then 234 else 135) else (if bs ! 1 then 94
     else 1231)))) else (if bs ! 4 then (if bs ! 16 then (if bs ! 2 then 282 else (if bs ! 22 then 1395 else
     1203)) else (if bs ! 21 then 398 else (if bs ! 24 then 575 else 108))) else (if bs ! 1 then (if bs ! 17
     then (if bs ! 3 then 395 else 347) else (if bs ! 2 then 827 else 803)) else (if bs ! 2 then (if bs ! 6 then
     155 else 563) else 1162))))"

definition sub_9 :: "bool list \<Rightarrow> int" where
  "sub_9 bs =
     (if bs ! 11 then (if bs ! 7 then (if bs ! 3 then (if bs ! 18 then (if bs ! 20 then 881 else 687) else (if
     bs ! 1 then 722 else 1265)) else (if bs ! 1 then 852 else (if bs ! 2 then 543 else 1033))) else (if bs ! 4
     then (if bs ! 18 then (if bs ! 20 then 1315 else 779) else (if bs ! 16 then 926 else 555)) else (if bs ! 29
     then (if bs ! 17 then 510 else 962) else (if bs ! 16 then 620 else 578)))) else (if bs ! 1 then (if bs ! 16
     then (if bs ! 17 then (if bs ! 20 then 978 else 1544) else (if bs ! 4 then 1494 else 1513)) else (if bs ! 4
     then (if bs ! 18 then 1275 else 1274) else 706)) else (if bs ! 10 then (if bs ! 14 then (if bs ! 16 then
     357 else 258) else (if bs ! 6 then 681 else 256)) else (if bs ! 2 then (if bs ! 17 then 661 else 1008) else
     (if bs ! 3 then 1594 else 541)))))"

definition sub_10 :: "bool list \<Rightarrow> int" where
  "sub_10 bs =
     (if bs ! 7 then (if bs ! 12 then (if bs ! 17 then (if bs ! 3 then 415 else (if bs ! 4 then 187 else 1460))
     else (if bs ! 20 then (if bs ! 4 then 1276 else 1037) else (if bs ! 22 then 420 else 346))) else (if bs !
     16 then (if bs ! 22 then (if bs ! 4 then 1057 else 1216) else (if bs ! 2 then 287 else 448)) else (if bs !
     17 then (if bs ! 2 then 72 else 1106) else (if bs ! 19 then 692 else 822)))) else (if bs ! 17 then (if bs !
     4 then (if bs ! 24 then (if bs ! 22 then 860 else 1442) else (if bs ! 2 then 818 else 797)) else (if bs !
     20 then (if bs ! 21 then 496 else 1459) else 1215)) else (if bs ! 12 then (if bs ! 16 then (if bs ! 19 then
     426 else 1067) else (if bs ! 22 then 1565 else 1328)) else (if bs ! 16 then 705 else (if bs ! 22 then 756
     else 665)))))"

definition sub_11 :: "bool list \<Rightarrow> int" where
  "sub_11 bs =
     (if bs ! 11 then (if bs ! 17 then (if bs ! 6 then (if bs ! 12 then (if bs ! 21 then 447 else 295) else (if
     bs ! 2 then 1623 else (if bs ! 3 then 1297 else 296))) else (if bs ! 2 then (if bs ! 19 then 787 else 544)
     else (if bs ! 10 then 436 else 264))) else (if bs ! 3 then (if bs ! 10 then (if bs ! 18 then 107 else 899)
     else (if bs ! 28 then 1076 else 1533)) else (if bs ! 2 then 1581 else (if bs ! 6 then 957 else 29)))) else
     (if bs ! 24 then (if bs ! 6 then (if bs ! 14 then (if bs ! 2 then 707 else 761) else (if bs ! 4 then 205
     else 759)) else (if bs ! 2 then (if bs ! 10 then 939 else 629) else (if bs ! 10 then 1451 else 1452))) else
     (if bs ! 20 then (if bs ! 6 then (if bs ! 2 then 1157 else 18) else (if bs ! 10 then 1582 else 773)) else
     (if bs ! 2 then (if bs ! 22 then 182 else 1358) else (if bs ! 3 then 1385 else 864)))))"

definition sub_12 :: "bool list \<Rightarrow> int" where
  "sub_12 bs =
     (if bs ! 12 then (if bs ! 16 then (if bs ! 2 then (if bs ! 1 then (if bs ! 20 then 203 else 842) else 1156)
     else (if bs ! 11 then (if bs ! 17 then 735 else 440) else (if bs ! 1 then 645 else 1087))) else (if bs ! 1
     then (if bs ! 21 then (if bs ! 22 then 1257 else 1515) else (if bs ! 2 then 215 else 497)) else (if bs ! 7
     then (if bs ! 11 then 1323 else 1405) else 53))) else (if bs ! 2 then (if bs ! 19 then (if bs ! 20 then (if
     bs ! 1 then 564 else 1466) else (if bs ! 4 then 731 else 879)) else (if bs ! 3 then (if bs ! 10 then 1602
     else 1390) else 739)) else (if bs ! 17 then (if bs ! 1 then (if bs ! 13 then 1219 else 734) else 1453) else
     (if bs ! 1 then (if bs ! 19 then 717 else 410) else 1285))))"

definition sub_13 :: "bool list \<Rightarrow> int" where
  "sub_13 bs =
     (if bs ! 2 then (if bs ! 21 then (if bs ! 3 then (if bs ! 7 then (if bs ! 11 then 533 else 537) else 791)
     else (if bs ! 12 then (if bs ! 16 then 516 else 285) else 1022)) else (if bs ! 11 then (if bs ! 3 then 1391
     else 1187) else (if bs ! 17 then 1161 else (if bs ! 18 then 411 else 147)))) else (if bs ! 17 then (if bs !
     20 then (if bs ! 13 then (if bs ! 1 then 1119 else 381) else (if bs ! 14 then 1329 else 804)) else (if bs !
     1 then (if bs ! 14 then 770 else 1094) else (if bs ! 7 then 93 else 19))) else (if bs ! 1 then (if bs ! 12
     then (if bs ! 21 then 1569 else (if bs ! 23 then 640 else 437)) else 1220) else (if bs ! 7 then (if bs ! 9
     then 959 else 318) else 1284))))"

definition sub_14 :: "bool list \<Rightarrow> int" where
  "sub_14 bs =
     (if bs ! 17 then (if bs ! 26 then (if bs ! 10 then (if bs ! 1 then (if bs ! 16 then 472 else 528) else 456)
     else (if bs ! 16 then (if bs ! 21 then 204 else 1059) else (if bs ! 20 then 909 else 712))) else (if bs !
     25 then (if bs ! 7 then (if bs ! 20 then 690 else 277) else (if bs ! 1 then 594 else 1141)) else (if bs ! 1
     then (if bs ! 19 then 699 else 547) else 648))) else (if bs ! 18 then (if bs ! 21 then (if bs ! 7 then 1031
     else (if bs ! 10 then 1137 else 950)) else (if bs ! 28 then (if bs ! 20 then 1006 else 1498) else (if bs !
     1 then 1497 else 1247))) else (if bs ! 20 then (if bs ! 10 then 1496 else (if bs ! 22 then 782 else 1354))
     else (if bs ! 21 then (if bs ! 22 then 1616 else 584) else 557))))"

definition sub_15 :: "bool list \<Rightarrow> int" where
  "sub_15 bs =
     (if bs ! 20 then (if bs ! 23 then (if bs ! 26 then (if bs ! 1 then (if bs ! 12 then 539 else 643) else
     1013) else (if bs ! 7 then (if bs ! 12 then 1206 else 131) else 209)) else (if bs ! 4 then (if bs ! 7 then
     (if bs ! 12 then 951 else 1397) else 502) else (if bs ! 1 then 1484 else (if bs ! 3 then 531 else 1088))))
     else (if bs ! 33 then (if bs ! 1 then (if bs ! 2 then 39 else (if bs ! 10 then 503 else 1030)) else (if bs
     ! 9 then (if bs ! 21 then 612 else 958) else (if bs ! 3 then 1592 else 932))) else (if bs ! 12 then (if bs
     ! 23 then (if bs ! 17 then 1138 else 727) else (if bs ! 1 then 749 else 1447)) else (if bs ! 1 then (if bs
     ! 22 then 577 else 1205) else 618))))"

definition sub_16 :: "bool list \<Rightarrow> int" where
  "sub_16 bs =
     (if bs ! 11 then (if bs ! 2 then (if bs ! 1 then (if bs ! 4 then 730 else (if bs ! 20 then 389 else 71))
     else (if bs ! 3 then (if bs ! 21 then 284 else 1267) else 344)) else (if bs ! 4 then (if bs ! 8 then (if bs
     ! 16 then 158 else 1204) else (if bs ! 7 then 888 else 1347)) else (if bs ! 1 then 328 else (if bs ! 6 then
     1558 else 800)))) else (if bs ! 6 then (if bs ! 32 then (if bs ! 19 then (if bs ! 22 then 693 else 621)
     else (if bs ! 1 then 460 else 342)) else (if bs ! 20 then (if bs ! 22 then 1367 else 1567) else (if bs ! 26
     then 1514 else 1150))) else (if bs ! 1 then (if bs ! 9 then 1619 else (if bs ! 22 then 356 else 538)) else
     (if bs ! 2 then 1600 else 1450))))"

definition sub_17 :: "bool list \<Rightarrow> int" where
  "sub_17 bs =
     (if bs ! 9 then (if bs ! 7 then (if bs ! 16 then (if bs ! 17 then 467 else (if bs ! 22 then 529 else 286))
     else (if bs ! 17 then (if bs ! 20 then 1173 else 1317) else 75)) else (if bs ! 1 then (if bs ! 2 then (if
     bs ! 16 then 179 else 985) else (if bs ! 16 then 1445 else 908)) else (if bs ! 2 then 144 else (if bs ! 3
     then 1043 else 1324)))) else (if bs ! 1 then (if bs ! 2 then (if bs ! 17 then (if bs ! 4 then 274 else
     1588) else (if bs ! 21 then 1476 else 1261)) else (if bs ! 4 then (if bs ! 17 then 904 else 1202) else
     674)) else (if bs ! 6 then (if bs ! 7 then 115 else 251) else (if bs ! 8 then (if bs ! 21 then 252 else 86)
     else 1111))))"

definition sub_18 :: "bool list \<Rightarrow> int" where
  "sub_18 bs =
     (if bs ! 33 then (if bs ! 11 then (if bs ! 16 then (if bs ! 18 then 1462 else (if bs ! 19 then 757 else (if
     bs ! 20 then 1461 else 1256))) else (if bs ! 1 then 453 else (if bs ! 6 then 458 else 54))) else (if bs ! 2
     then (if bs ! 1 then (if bs ! 6 then 1449 else 836) else (if bs ! 6 then 1194 else 762)) else (if bs ! 4
     then (if bs ! 6 then 907 else 1134) else (if bs ! 3 then 197 else 122)))) else (if bs ! 4 then (if bs ! 6
     then (if bs ! 17 then (if bs ! 21 then 119 else 955) else (if bs ! 2 then 819 else 424)) else (if bs ! 19
     then (if bs ! 2 then 768 else 698) else (if bs ! 17 then 322 else 540))) else (if bs ! 11 then (if bs ! 16
     then (if bs ! 18 then 1039 else 542) else (if bs ! 23 then 454 else 868)) else (if bs ! 20 then (if bs ! 27
     then 823 else 1255) else 1180))))"

definition sub_19 :: "bool list \<Rightarrow> int" where
  "sub_19 bs =
     (if bs ! 4 then (if bs ! 7 then (if bs ! 11 then (if bs ! 9 then 1207 else (if bs ! 20 then 1348 else 566))
     else (if bs ! 1 then (if bs ! 21 then 372 else 947) else (if bs ! 20 then 611 else 506))) else (if bs ! 2
     then (if bs ! 11 then (if bs ! 19 then 5 else 662) else 185) else (if bs ! 20 then 1438 else 1393))) else
     (if bs ! 19 then (if bs ! 1 then (if bs ! 2 then (if bs ! 22 then 625 else 747) else (if bs ! 7 then 893
     else 1214)) else (if bs ! 2 then (if bs ! 11 then 1597 else 709) else 1508)) else (if bs ! 3 then (if bs !
     1 then 97 else (if bs ! 17 then 1167 else 368)) else (if bs ! 2 then 550 else (if bs ! 7 then 1066 else
     1116)))))"

definition sub_20 :: "bool list \<Rightarrow> int" where
  "sub_20 bs =
     (if bs ! 21 then (if bs ! 5 then (if bs ! 3 then (if bs ! 10 then (if bs ! 17 then 582 else 1234) else 181)
     else (if bs ! 1 then (if bs ! 4 then 1283 else 1160) else (if bs ! 4 then 1401 else 990))) else (if bs ! 17
     then (if bs ! 8 then 646 else (if bs ! 20 then 1377 else 26)) else (if bs ! 1 then (if bs ! 9 then 37 else
     65) else (if bs ! 20 then 79 else 47)))) else (if bs ! 8 then (if bs ! 1 then (if bs ! 17 then (if bs ! 4
     then 637 else 1099) else (if bs ! 14 then 81 else 102)) else (if bs ! 3 then 238 else (if bs ! 10 then 915
     else 50))) else (if bs ! 22 then (if bs ! 25 then (if bs ! 4 then 118 else 1468) else (if bs ! 27 then 165
     else 840)) else (if bs ! 17 then 1183 else (if bs ! 25 then 562 else 1524)))))"

definition sub_21 :: "bool list \<Rightarrow> int" where
  "sub_21 bs =
     (if bs ! 3 then (if bs ! 7 then (if bs ! 1 then (if bs ! 5 then 7 else (if bs ! 10 then 1603 else 1341))
     else (if bs ! 9 then (if bs ! 14 then 1601 else 1079) else 367)) else (if bs ! 8 then (if bs ! 10 then (if
     bs ! 20 then 1481 else 192) else (if bs ! 16 then 1078 else 631)) else (if bs ! 1 then 123 else (if bs ! 17
     then 149 else 1233)))) else (if bs ! 8 then (if bs ! 4 then (if bs ! 5 then 278 else (if bs ! 16 then 875
     else 913)) else (if bs ! 1 then 668 else (if bs ! 9 then 11 else 588))) else (if bs ! 1 then (if bs ! 4
     then (if bs ! 10 then 953 else 703) else 826) else (if bs ! 5 then 236 else (if bs ! 20 then 807 else
     991)))))"

definition sub_22 :: "bool list \<Rightarrow> int" where
  "sub_22 bs =
     (if bs ! 6 then (if bs ! 1 then (if bs ! 17 then (if bs ! 4 then (if bs ! 16 then 163 else 103) else (if bs
     ! 20 then 511 else 694)) else (if bs ! 16 then (if bs ! 27 then 1291 else 388) else 1093)) else (if bs ! 16
     then (if bs ! 17 then 222 else (if bs ! 20 then 474 else 292)) else (if bs ! 3 then 1086 else (if bs ! 5
     then 310 else 651)))) else (if bs ! 9 then (if bs ! 16 then (if bs ! 17 then (if bs ! 18 then 1398 else
     728) else 1545) else (if bs ! 17 then (if bs ! 20 then 929 else 1239) else 473)) else (if bs ! 4 then (if
     bs ! 7 then (if bs ! 1 then 1133 else 82) else (if bs ! 5 then 429 else 567)) else (if bs ! 1 then (if bs !
     7 then 1217 else 769) else 483))))"

definition sub_23 :: "bool list \<Rightarrow> int" where
  "sub_23 bs =
     (if bs ! 25 then (if bs ! 7 then (if bs ! 4 then (if bs ! 5 then (if bs ! 11 then 519 else 1084) else 239)
     else (if bs ! 1 then (if bs ! 3 then 76 else 1117) else (if bs ! 9 then 1560 else 373))) else (if bs ! 8
     then (if bs ! 11 then (if bs ! 16 then 576 else 556) else (if bs ! 3 then 288 else 1201)) else (if bs ! 1
     then (if bs ! 16 then 679 else 327) else 382))) else (if bs ! 6 then (if bs ! 8 then (if bs ! 1 then (if bs
     ! 20 then 780 else 291) else 495) else (if bs ! 7 then 1546 else (if bs ! 20 then 795 else 946))) else (if
     bs ! 5 then (if bs ! 8 then 237 else (if bs ! 11 then 1499 else 459)) else (if bs ! 7 then (if bs ! 1 then
     1443 else 863) else (if bs ! 16 then 849 else 1495)))))"

definition sub_24 :: "bool list \<Rightarrow> int" where
  "sub_24 bs =
     (if bs ! 22 then (if bs ! 11 then (if bs ! 9 then (if bs ! 14 then (if bs ! 16 then 700 else 413) else
     1278) else (if bs ! 1 then (if bs ! 6 then 425 else 276) else 850)) else (if bs ! 13 then (if bs ! 1 then
     1500 else (if bs ! 2 then 952 else 1435)) else (if bs ! 2 then 1624 else (if bs ! 6 then 815 else 399))))
     else (if bs ! 21 then (if bs ! 6 then (if bs ! 2 then 1404 else (if bs ! 10 then 1107 else 1316)) else (if
     bs ! 2 then 1110 else (if bs ! 13 then 1238 else 1277))) else (if bs ! 19 then (if bs ! 5 then (if bs ! 1
     then 417 else 1246) else (if bs ! 6 then 927 else 1135)) else (if bs ! 1 then (if bs ! 9 then 146 else 320)
     else 521))))"

definition sub_25 :: "bool list \<Rightarrow> int" where
  "sub_25 bs =
     (if bs ! 17 then (if bs ! 5 then (if bs ! 19 then (if bs ! 2 then 80 else (if bs ! 6 then 1028 else 406))
     else (if bs ! 6 then 193 else (if bs ! 18 then 1055 else 49))) else (if bs ! 8 then (if bs ! 31 then (if bs
     ! 2 then 505 else 1083) else (if bs ! 19 then 602 else 275)) else (if bs ! 2 then 754 else (if bs ! 16 then
     593 else 928)))) else (if bs ! 13 then (if bs ! 5 then (if bs ! 6 then (if bs ! 14 then 136 else 1237) else
     627) else (if bs ! 8 then 1105 else (if bs ! 23 then 1614 else 471))) else (if bs ! 19 then (if bs ! 2 then
     (if bs ! 5 then 1321 else 494) else 449) else (if bs ! 8 then 70 else (if bs ! 10 then 493 else 306)))))"

definition sub_26 :: "bool list \<Rightarrow> int" where
  "sub_26 bs =
     (if bs ! 14 then (if bs ! 16 then (if bs ! 17 then (if bs ! 2 then 1011 else (if bs ! 9 then 745 else
     1029)) else (if bs ! 2 then 301 else (if bs ! 6 then 257 else 568))) else (if bs ! 2 then (if bs ! 6 then
     (if bs ! 18 then 30 else 430) else 362) else (if bs ! 9 then (if bs ! 10 then 1618 else 1241) else (if bs !
     1 then 1136 else 1244)))) else (if bs ! 13 then (if bs ! 6 then (if bs ! 7 then (if bs ! 17 then 713 else
     834) else 1351) else (if bs ! 1 then (if bs ! 2 then 1012 else 41) else 317)) else (if bs ! 17 then (if bs
     ! 2 then 1556 else (if bs ! 6 then 1541 else 217)) else (if bs ! 20 then (if bs ! 2 then 1625 else 1542)
     else (if bs ! 1 then 906 else 1245)))))"

definition sub_27 :: "bool list \<Rightarrow> int" where
  "sub_27 bs =
     (if bs ! 16 then (if bs ! 8 then (if bs ! 17 then (if bs ! 18 then (if bs ! 22 then 271 else 1314) else
     977) else (if bs ! 1 then (if bs ! 13 then 609 else 948) else 983)) else (if bs ! 13 then (if bs ! 2 then
     1322 else (if bs ! 7 then 1005 else 1172)) else (if bs ! 17 then 96 else (if bs ! 20 then 162 else 85))))
     else (if bs ! 28 then (if bs ! 7 then (if bs ! 1 then (if bs ! 14 then 1240 else 22) else 1211) else (if bs
     ! 8 then (if bs ! 13 then 1396 else 294) else 650)) else (if bs ! 13 then (if bs ! 2 then (if bs ! 6 then
     235 else 148) else 798) else (if bs ! 7 then 781 else (if bs ! 17 then 886 else 592)))))"

definition sub_28 :: "bool list \<Rightarrow> int" where
  "sub_28 bs =
     (if bs ! 18 then (if bs ! 5 then (if bs ! 7 then (if bs ! 6 then 1186 else (if bs ! 20 then 1589 else
     1293)) else (if bs ! 10 then (if bs ! 8 then 1159 else 808) else (if bs ! 23 then 56 else 1260))) else (if
     bs ! 20 then (if bs ! 3 then 831 else (if bs ! 6 then 1380 else 580)) else (if bs ! 13 then (if bs ! 3 then
     1342 else 549) else (if bs ! 24 then 1021 else 1123)))) else (if bs ! 7 then (if bs ! 5 then (if bs ! 17
     then (if bs ! 19 then 1381 else 719) else (if bs ! 13 then 228 else 1229)) else (if bs ! 13 then 1422 else
     (if bs ! 16 then 1185 else 997))) else (if bs ! 5 then (if bs ! 20 then (if bs ! 11 then 1530 else 1227)
     else (if bs ! 10 then 996 else 1421)) else (if bs ! 13 then 748 else (if bs ! 16 then 630 else 809)))))"

definition sub_29 :: "bool list \<Rightarrow> int" where
  "sub_29 bs =
     (if bs ! 20 then (if bs ! 3 then (if bs ! 8 then (if bs ! 6 then (if bs ! 10 then 1301 else 281) else (if
     bs ! 9 then 901 else 565)) else (if bs ! 10 then (if bs ! 11 then 1192 else 89) else 872)) else (if bs ! 5
     then (if bs ! 11 then (if bs ! 7 then 421 else 854) else (if bs ! 21 then 1098 else 293)) else (if bs ! 16
     then 1224 else (if bs ! 26 then 1583 else 940)))) else (if bs ! 11 then (if bs ! 10 then (if bs ! 14 then
     (if bs ! 8 then 1598 else 656) else (if bs ! 3 then 43 else 98)) else (if bs ! 3 then (if bs ! 7 then 1195
     else 457) else 247)) else (if bs ! 3 then (if bs ! 8 then (if bs ! 6 then 1599 else 921) else (if bs ! 21
     then 112 else 358)) else (if bs ! 6 then 442 else (if bs ! 16 then 1469 else 916)))))"

definition sub_30 :: "bool list \<Rightarrow> int" where
  "sub_30 bs =
     (if bs ! 19 then (if bs ! 20 then (if bs ! 7 then (if bs ! 1 then (if bs ! 9 then 1095 else 1512) else 617)
     else (if bs ! 11 then (if bs ! 17 then 1254 else 377) else 1253)) else (if bs ! 10 then (if bs ! 6 then (if
     bs ! 11 then 1068 else 986) else 820) else (if bs ! 3 then 479 else (if bs ! 9 then 1369 else 1410)))) else
     (if bs ! 13 then (if bs ! 9 then (if bs ! 10 then (if bs ! 11 then 74 else 1142) else 595) else (if bs ! 1
     then (if bs ! 3 then 811 else 1458) else 1557)) else (if bs ! 7 then (if bs ! 6 then 393 else (if bs ! 11
     then 785 else 771)) else (if bs ! 1 then (if bs ! 11 then 1148 else 1511) else 180))))"

definition sub_31 :: "bool list \<Rightarrow> int" where
  "sub_31 bs =
     (if bs ! 13 then (if bs ! 7 then (if bs ! 16 then (if bs ! 1 then (if bs ! 3 then 525 else 1038) else 376)
     else (if bs ! 3 then 898 else (if bs ! 17 then 161 else 125))) else (if bs ! 25 then (if bs ! 16 then 1411
     else (if bs ! 21 then 315 else 1179)) else (if bs ! 6 then 44 else (if bs ! 23 then 673 else 283)))) else
     (if bs ! 1 then (if bs ! 6 then (if bs ! 16 then (if bs ! 17 then 1018 else 561) else 1151) else (if bs !
     17 then (if bs ! 27 then 117 else 311) else (if bs ! 20 then 1017 else 1564))) else (if bs ! 10 then (if bs
     ! 3 then (if bs ! 14 then 380 else 919) else 265) else (if bs ! 16 then (if bs ! 20 then 1248 else 1112)
     else 1176))))"

definition sub_32 :: "bool list \<Rightarrow> int" where
  "sub_32 bs =
     (if bs ! 15 then (if bs ! 3 then (if bs ! 16 then (if bs ! 10 then (if bs ! 18 then 10 else 740) else 28)
     else (if bs ! 13 then 438 else (if bs ! 22 then 2 else 789))) else (if bs ! 10 then (if bs ! 14 then (if bs
     ! 17 then 1281 else 400) else (if bs ! 4 then 143 else 1415)) else (if bs ! 4 then (if bs ! 16 then 559
     else 452) else 1258))) else (if bs ! 17 then (if bs ! 1 then (if bs ! 22 then (if bs ! 23 then 1226 else
     523) else 1071) else (if bs ! 4 then (if bs ! 13 then 1502 else 468) else 12)) else (if bs ! 13 then (if bs
     ! 4 then (if bs ! 8 then 31 else 106) else 140) else (if bs ! 1 then (if bs ! 3 then 923 else 1225) else
     455))))"

definition sub_33 :: "bool list \<Rightarrow> int" where
  "sub_33 bs =
     (if bs ! 10 then (if bs ! 26 then (if bs ! 14 then (if bs ! 4 then (if bs ! 17 then 1243 else 156) else
     579) else (if bs ! 1 then 1584 else (if bs ! 13 then 586 else 889))) else (if bs ! 16 then (if bs ! 1 then
     1020 else (if bs ! 4 then 982 else 1373)) else (if bs ! 1 then 1473 else (if bs ! 3 then 462 else 1376))))
     else (if bs ! 14 then (if bs ! 1 then (if bs ! 15 then (if bs ! 17 then 669 else 269) else 63) else (if bs
     ! 3 then 326 else (if bs ! 4 then 1622 else 1334))) else (if bs ! 20 then (if bs ! 1 then (if bs ! 4 then
     1010 else 304) else 226) else (if bs ! 1 then (if bs ! 3 then 1080 else 942) else 1222))))"

definition sub_34 :: "bool list \<Rightarrow> int" where
  "sub_34 bs =
     (if bs ! 21 then (if bs ! 22 then (if bs ! 1 then (if bs ! 3 then 104 else (if bs ! 5 then 348 else 308))
     else (if bs ! 3 then 386 else (if bs ! 11 then 1577 else 772))) else (if bs ! 5 then (if bs ! 1 then (if bs
     ! 24 then 670 else 844) else 1097) else (if bs ! 11 then (if bs ! 18 then 242 else 545) else 1121))) else
     (if bs ! 1 then (if bs ! 5 then (if bs ! 3 then (if bs ! 20 then 1304 else 40) else (if bs ! 19 then 220
     else 605)) else (if bs ! 11 then (if bs ! 16 then 993 else 490) else 606)) else (if bs ! 19 then (if bs ! 4
     then 861 else (if bs ! 20 then 1152 else 139)) else (if bs ! 4 then 1140 else (if bs ! 9 then 1417 else
     1181)))))"

definition sub_35 :: "bool list \<Rightarrow> int" where
  "sub_35 bs =
     (if bs ! 11 then (if bs ! 13 then (if bs ! 16 then (if bs ! 1 then 607 else (if bs ! 17 then 830 else
     1299)) else (if bs ! 4 then (if bs ! 9 then 981 else 1501) else 805)) else (if bs ! 3 then (if bs ! 1 then
     4 else (if bs ! 14 then 1127 else 59)) else (if bs ! 17 then (if bs ! 20 then 1572 else 1371) else (if bs !
     14 then 853 else 1573)))) else (if bs ! 15 then (if bs ! 13 then (if bs ! 1 then 1418 else (if bs ! 20 then
     1517 else 1221)) else (if bs ! 1 then 422 else (if bs ! 9 then 1523 else 1518))) else (if bs ! 18 then (if
     bs ! 1 then 1529 else (if bs ! 4 then 33 else 877)) else (if bs ! 1 then 1504 else (if bs ! 14 then 708
     else 1298)))))"

definition sub_36 :: "bool list \<Rightarrow> int" where
  "sub_36 bs =
     (if bs ! 31 then (if bs ! 1 then (if bs ! 3 then (if bs ! 6 then 1483 else (if bs ! 21 then 1168 else
     1196)) else (if bs ! 4 then 1505 else (if bs ! 10 then 967 else 1041))) else (if bs ! 4 then (if bs ! 6
     then 1061 else (if bs ! 20 then 1549 else 1174)) else (if bs ! 3 then (if bs ! 6 then 829 else 1046) else
     (if bs ! 9 then 1579 else 572)))) else (if bs ! 17 then (if bs ! 34 then (if bs ! 6 then (if bs ! 4 then
     1060 else 839) else (if bs ! 3 then 608 else 477)) else (if bs ! 1 then (if bs ! 6 then 524 else 943) else
     (if bs ! 4 then 644 else 1576))) else (if bs ! 27 then (if bs ! 22 then (if bs ! 33 then 870 else 1575)
     else 1332) else (if bs ! 1 then 174 else (if bs ! 3 then 416 else 1019)))))"

definition sub_37 :: "bool list \<Rightarrow> int" where
  "sub_37 bs =
     (if bs ! 1 then (if bs ! 8 then (if bs ! 13 then (if bs ! 3 then 922 else (if bs ! 16 then 1472 else 1335))
     else (if bs ! 15 then 841 else (if bs ! 16 then 1378 else 895))) else (if bs ! 3 then (if bs ! 13 then (if
     bs ! 10 then 1269 else 176) else (if bs ! 20 then 1303 else 316)) else (if bs ! 15 then 1525 else (if bs !
     16 then 111 else 1259)))) else (if bs ! 22 then (if bs ! 3 then (if bs ! 15 then 313 else (if bs ! 17 then
     57 else 240)) else (if bs ! 6 then (if bs ! 15 then 482 else 1282) else (if bs ! 4 then 1209 else 1182)))
     else (if bs ! 10 then (if bs ! 3 then 1164 else (if bs ! 16 then 261 else 169)) else (if bs ! 16 then 964
     else 869))))"

definition sub_38 :: "bool list \<Rightarrow> int" where
  "sub_38 bs =
     (if bs ! 16 then (if bs ! 6 then (if bs ! 20 then (if bs ! 14 then (if bs ! 17 then 737 else 329) else (if
     bs ! 3 then 601 else 159)) else (if bs ! 21 then 498 else (if bs ! 26 then 718 else 177))) else (if bs ! 5
     then (if bs ! 3 then (if bs ! 11 then 518 else 1268) else 753) else (if bs ! 13 then (if bs ! 17 then 992
     else 1379) else 1471))) else (if bs ! 31 then (if bs ! 10 then (if bs ! 3 then 487 else (if bs ! 4 then
     1320 else 201)) else (if bs ! 6 then (if bs ! 18 then 375 else 132) else 1474)) else (if bs ! 6 then (if bs
     ! 18 then (if bs ! 3 then 882 else 1527) else (if bs ! 24 then 686 else 1526)) else (if bs ! 3 then 1305
     else (if bs ! 4 then 1359 else 590)))))"

definition sub_39 :: "bool list \<Rightarrow> int" where
  "sub_39 bs =
     (if bs ! 20 then (if bs ! 22 then (if bs ! 14 then (if bs ! 18 then (if bs ! 9 then 1070 else 394) else (if
     bs ! 16 then 1372 else 628)) else (if bs ! 4 then (if bs ! 6 then 835 else 1007) else 371)) else (if bs ! 9
     then (if bs ! 3 then 741 else (if bs ! 4 then 1446 else 1578)) else (if bs ! 11 then (if bs ! 14 then 1413
     else 1370) else (if bs ! 4 then 1548 else 1571)))) else (if bs ! 11 then (if bs ! 6 then (if bs ! 3 then
     (if bs ! 10 then 1266 else 788) else 1551) else (if bs ! 16 then (if bs ! 4 then 60 else 1331) else (if bs
     ! 14 then 1120 else 1330))) else (if bs ! 15 then (if bs ! 4 then (if bs ! 21 then 746 else 702) else 1574)
     else (if bs ! 3 then (if bs ! 16 then 364 else 390) else 666))))"

definition sub_40 :: "bool list \<Rightarrow> int" where
  "sub_40 bs =
     (if bs ! 12 then (if bs ! 10 then (if bs ! 1 then (if bs ! 3 then 632 else (if bs ! 4 then 1555 else 515))
     else (if bs ! 3 then 1427 else (if bs ! 11 then 52 else 8))) else (if bs ! 3 then (if bs ! 1 then 1169 else
     (if bs ! 13 then 229 else 1479)) else (if bs ! 1 then 536 else (if bs ! 4 then 451 else 1096)))) else (if
     bs ! 4 then (if bs ! 13 then (if bs ! 15 then 691 else (if bs ! 22 then 25 else 14)) else (if bs ! 10 then
     365 else (if bs ! 21 then 384 else 1621))) else (if bs ! 3 then (if bs ! 1 then 324 else (if bs ! 13 then 0
     else 1340)) else (if bs ! 1 then 230 else (if bs ! 15 then 1464 else 596)))))"

definition sub_41 :: "bool list \<Rightarrow> int" where
  "sub_41 bs =
     (if bs ! 5 then (if bs ! 13 then (if bs ! 1 then (if bs ! 10 then 1158 else (if bs ! 11 then 856 else 855))
     else (if bs ! 3 then (if bs ! 12 then 1126 else 1339) else (if bs ! 4 then 24 else 199))) else (if bs ! 3
     then (if bs ! 1 then 574 else (if bs ! 10 then 1386 else 553)) else (if bs ! 23 then (if bs ! 4 then 1356
     else 129) else (if bs ! 15 then 245 else 1069)))) else (if bs ! 12 then (if bs ! 16 then (if bs ! 14 then
     (if bs ! 4 then 980 else 965) else (if bs ! 11 then 989 else 441)) else (if bs ! 1 then (if bs ! 23 then
     774 else 1419) else 1210)) else (if bs ! 4 then (if bs ! 13 then (if bs ! 14 then 34 else 1032) else 1062)
     else (if bs ! 14 then 414 else (if bs ! 18 then 402 else 337)))))"

definition sub_42 :: "bool list \<Rightarrow> int" where
  "sub_42 bs =
     (if bs ! 8 then (if bs ! 33 then (if bs ! 25 then (if bs ! 1 then 912 else (if bs ! 5 then 6 else 23)) else
     (if bs ! 9 then 911 else (if bs ! 10 then 1400 else 1357))) else (if bs ! 5 then (if bs ! 1 then 1009 else
     (if bs ! 11 then 1109 else 680)) else (if bs ! 10 then 767 else (if bs ! 21 then 874 else 241)))) else (if
     bs ! 5 then (if bs ! 11 then (if bs ! 10 then 321 else (if bs ! 12 then 1208 else 569)) else (if bs ! 1
     then (if bs ! 15 then 1085 else 1448) else 95)) else (if bs ! 28 then (if bs ! 13 then (if bs ! 11 then 610
     else 1552) else (if bs ! 14 then 370 else 817)) else (if bs ! 12 then (if bs ! 14 then 109 else 178) else
     1503))))"

definition sub_43 :: "bool list \<Rightarrow> int" where
  "sub_43 bs =
     (if bs ! 1 then (if bs ! 5 then (if bs ! 13 then (if bs ! 3 then 133 else (if bs ! 8 then 223 else 213))
     else (if bs ! 11 then 667 else (if bs ! 14 then 445 else 263))) else (if bs ! 25 then (if bs ! 12 then (if
     bs ! 17 then 188 else 995) else 994) else (if bs ! 12 then (if bs ! 14 then 1586 else 1585) else 1072)))
     else (if bs ! 15 then (if bs ! 30 then (if bs ! 5 then (if bs ! 3 then 675 else 758) else (if bs ! 12 then
     58 else 1521)) else (if bs ! 12 then (if bs ! 16 then 806 else 1522) else (if bs ! 19 then 695 else 1154)))
     else (if bs ! 8 then (if bs ! 10 then (if bs ! 11 then 1333 else 1292) else (if bs ! 3 then 48 else 825))
     else (if bs ! 3 then 1478 else (if bs ! 10 then 1463 else 432)))))"

definition sub_44 :: "bool list \<Rightarrow> int" where
  "sub_44 bs =
     (if bs ! 1 then (if bs ! 8 then (if bs ! 15 then (if bs ! 16 then 279 else (if bs ! 18 then 597 else 433))
     else (if bs ! 11 then 68 else 150)) else (if bs ! 15 then (if bs ! 5 then 941 else (if bs ! 17 then 738
     else 1420)) else (if bs ! 5 then 1470 else (if bs ! 17 then 354 else 1122)))) else (if bs ! 15 then (if bs
     ! 4 then (if bs ! 5 then 1547 else (if bs ! 24 then 36 else 634)) else (if bs ! 3 then (if bs ! 10 then
     1024 else 812) else 1570)) else (if bs ! 8 then (if bs ! 3 then 1191 else (if bs ! 4 then 1242 else 988))
     else (if bs ! 3 then 224 else (if bs ! 5 then 379 else 303)))))"

definition sub_45 :: "bool list \<Rightarrow> int" where
  "sub_45 bs =
     (if bs ! 15 then (if bs ! 5 then (if bs ! 21 then (if bs ! 1 then 1389 else (if bs ! 3 then 517 else 622))
     else (if bs ! 1 then 1302 else (if bs ! 3 then 130 else 701))) else (if bs ! 4 then (if bs ! 6 then (if bs
     ! 14 then 325 else 752) else 979) else (if bs ! 1 then (if bs ! 14 then 968 else 623) else (if bs ! 21 then
     1374 else 1155)))) else (if bs ! 8 then (if bs ! 4 then (if bs ! 5 then 435 else (if bs ! 14 then 930 else
     17)) else (if bs ! 1 then (if bs ! 3 then 46 else 535) else (if bs ! 3 then 532 else 227))) else (if bs ! 1
     then (if bs ! 10 then 647 else 218) else (if bs ! 4 then 168 else (if bs ! 10 then 685 else 299)))))"

definition sub_46 :: "bool list \<Rightarrow> int" where
  "sub_46 bs =
     (if bs ! 10 then (if bs ! 15 then (if bs ! 4 then (if bs ! 1 then (if bs ! 21 then 714 else 890) else 1620)
     else (if bs ! 11 then (if bs ! 16 then 1153 else 522) else (if bs ! 3 then 1165 else 1414))) else (if bs !
     17 then (if bs ! 1 then 1040 else (if bs ! 3 then 206 else 871)) else (if bs ! 1 then 589 else (if bs ! 4
     then 1399 else 1519)))) else (if bs ! 5 then (if bs ! 15 then (if bs ! 1 then 110 else (if bs ! 4 then 314
     else 824)) else (if bs ! 1 then 736 else (if bs ! 3 then 183 else 786))) else (if bs ! 23 then (if bs ! 16
     then (if bs ! 21 then 1280 else 27) else 1139) else (if bs ! 16 then (if bs ! 27 then 1279 else 585) else
     1550))))"

definition sub_47 :: "bool list \<Rightarrow> int" where
  "sub_47 bs =
     (if bs ! 1 then (if bs ! 15 then (if bs ! 16 then (if bs ! 21 then 1336 else 1528) else (if bs ! 3 then
     1050 else (if bs ! 22 then 32 else 624))) else (if bs ! 18 then (if bs ! 16 then (if bs ! 4 then 1319 else
     1184) else (if bs ! 3 then 1049 else 489)) else (if bs ! 4 then 1554 else (if bs ! 11 then 312 else 696))))
     else (if bs ! 4 then (if bs ! 5 then (if bs ! 10 then (if bs ! 11 then 488 else 1355) else 1318) else (if
     bs ! 15 then (if bs ! 21 then 910 else 931) else (if bs ! 13 then 729 else 751))) else (if bs ! 13 then (if
     bs ! 3 then 1190 else (if bs ! 19 then 1375 else 513)) else (if bs ! 5 then 1516 else (if bs ! 19 then 1416
     else 1520)))))"

definition sub_48 :: "bool list \<Rightarrow> int" where
  "sub_48 bs =
     (if bs ! 10 then (if bs ! 16 then (if bs ! 23 then (if bs ! 6 then 475 else (if bs ! 22 then 1064 else
     1364)) else (if bs ! 5 then 212 else (if bs ! 18 then 172 else 431))) else (if bs ! 4 then (if bs ! 6 then
     336 else (if bs ! 7 then 883 else 319)) else (if bs ! 3 then 721 else (if bs ! 6 then 1178 else 1212))))
     else (if bs ! 4 then (if bs ! 7 then (if bs ! 14 then (if bs ! 20 then 1611 else 726) else (if bs ! 12 then
     859 else 1539)) else (if bs ! 8 then (if bs ! 13 then 387 else 633) else 1610)) else (if bs ! 7 then (if bs
     ! 6 then 444 else (if bs ! 13 then 340 else 66)) else (if bs ! 12 then 935 else (if bs ! 22 then 613 else
     638)))))"

definition sub_49 :: "bool list \<Rightarrow> int" where
  "sub_49 bs =
     (if bs ! 4 then (if bs ! 14 then (if bs ! 8 then (if bs ! 5 then (if bs ! 10 then 1236 else 1171) else 885)
     else (if bs ! 7 then (if bs ! 12 then 331 else 847) else 1609)) else (if bs ! 10 then (if bs ! 6 then 1311
     else (if bs ! 16 then 1310 else 84)) else (if bs ! 9 then (if bs ! 13 then 649 else 1612) else 743))) else
     (if bs ! 25 then (if bs ! 5 then (if bs ! 10 then (if bs ! 18 then 1251 else 170) else (if bs ! 3 then 1045
     else 202)) else (if bs ! 12 then (if bs ! 14 then 196 else 418) else 508)) else (if bs ! 6 then (if bs ! 5
     then 892 else (if bs ! 12 then 534 else 298)) else (if bs ! 10 then (if bs ! 13 then 485 else 267) else (if
     bs ! 7 then 682 else 614)))))"

definition sub_50 :: "bool list \<Rightarrow> int" where
  "sub_50 bs =
     (if bs ! 11 then (if bs ! 21 then (if bs ! 6 then (if bs ! 3 then 1044 else (if bs ! 4 then 355 else 374))
     else (if bs ! 5 then (if bs ! 10 then 16 else 1250) else 865)) else (if bs ! 9 then (if bs ! 5 then (if bs
     ! 10 then 1409 else 866) else 664) else (if bs ! 18 then (if bs ! 7 then 716 else 297) else (if bs ! 5 then
     604 else 1325)))) else (if bs ! 5 then (if bs ! 7 then (if bs ! 3 then 1534 else (if bs ! 6 then 91 else
     90)) else (if bs ! 4 then (if bs ! 10 then 659 else 846) else 1177)) else (if bs ! 6 then (if bs ! 14 then
     1091 else (if bs ! 21 then 137 else 244)) else (if bs ! 12 then 704 else (if bs ! 13 then 1213 else
     142)))))"

definition sub_51 :: "bool list \<Rightarrow> int" where
  "sub_51 bs =
     (if bs ! 13 then (if bs ! 4 then (if bs ! 10 then (if bs ! 6 then 1540 else (if bs ! 18 then 397 else 428))
     else (if bs ! 23 then 1082 else 642)) else (if bs ! 11 then (if bs ! 5 then 1509 else 173) else (if bs ! 12
     then 1456 else 126))) else (if bs ! 5 then (if bs ! 4 then (if bs ! 11 then 1103 else (if bs ! 19 then 231
     else 232)) else (if bs ! 9 then 1115 else (if bs ! 18 then 214 else 272))) else (if bs ! 22 then (if bs !
     12 then (if bs ! 24 then 1090 else 1114) else 571) else (if bs ! 6 then (if bs ! 14 then 683 else 198) else
     1563))))"

definition sub_52 :: "bool list \<Rightarrow> int" where
  "sub_52 bs =
     (if bs ! 8 then (if bs ! 13 then (if bs ! 4 then (if bs ! 10 then 1002 else 335) else (if bs ! 10 then 876
     else (if bs ! 11 then 1113 else 1510))) else (if bs ! 6 then (if bs ! 10 then 936 else (if bs ! 23 then 733
     else 639)) else (if bs ! 5 then (if bs ! 14 then 363 else 1363) else 1562))) else (if bs ! 13 then (if bs !
     7 then (if bs ! 3 then 403 else (if bs ! 9 then 1287 else 1561)) else (if bs ! 4 then (if bs ! 19 then 1436
     else 1131) else 484)) else (if bs ! 30 then (if bs ! 4 then 903 else (if bs ! 7 then 1362 else 1286)) else
     (if bs ! 7 then (if bs ! 20 then 937 else 1147) else 469))))"

definition sub_53 :: "bool list \<Rightarrow> int" where
  "sub_53 bs =
     (if bs ! 14 then (if bs ! 10 then (if bs ! 6 then (if bs ! 3 then 1077 else (if bs ! 11 then 1252 else
     1326)) else (if bs ! 3 then 1595 else (if bs ! 4 then 1538 else 1034))) else (if bs ! 8 then (if bs ! 6
     then (if bs ! 21 then 732 else 253) else 837) else (if bs ! 4 then (if bs ! 7 then 1346 else 591) else
     113))) else (if bs ! 17 then (if bs ! 5 then (if bs ! 4 then 945 else (if bs ! 9 then 1065 else 45)) else
     (if bs ! 6 then 259 else 802)) else (if bs ! 4 then (if bs ! 9 then 87 else (if bs ! 10 then 641 else 164))
     else (if bs ! 7 then (if bs ! 11 then 530 else 1144) else 934))))"

definition sub_54 :: "bool list \<Rightarrow> int" where
  "sub_54 bs =
     (if bs ! 16 then (if bs ! 5 then (if bs ! 6 then (if bs ! 10 then (if bs ! 13 then 1407 else 1146) else
     619) else (if bs ! 20 then (if bs ! 3 then 1163 else 1392) else (if bs ! 9 then 153 else 1406))) else (if
     bs ! 6 then (if bs ! 20 then (if bs ! 13 then 207 else 1036) else (if bs ! 22 then 1457 else 961)) else (if
     bs ! 13 then (if bs ! 20 then 1089 else 332) else 1145))) else (if bs ! 4 then (if bs ! 17 then (if bs ! 10
     then (if bs ! 11 then 221 else 190) else 1170) else (if bs ! 18 then (if bs ! 7 then 466 else 1235) else
     (if bs ! 24 then 778 else 1437))) else (if bs ! 3 then (if bs ! 6 then (if bs ! 10 then 409 else 509) else
     1) else (if bs ! 6 then (if bs ! 5 then 672 else 1327) else (if bs ! 7 then 124 else 350)))))"

definition sub_55 :: "bool list \<Rightarrow> int" where
  "sub_55 bs =
     (if bs ! 4 then (if bs ! 20 then (if bs ! 14 then (if bs ! 5 then (if bs ! 7 then 884 else 1026) else 1132)
     else (if bs ! 18 then (if bs ! 28 then 64 else 359) else 334)) else (if bs ! 8 then (if bs ! 6 then (if bs
     ! 16 then 976 else 360) else 500) else (if bs ! 9 then (if bs ! 10 then 848 else 1104) else (if bs ! 7 then
     216 else 1200)))) else (if bs ! 24 then (if bs ! 14 then (if bs ! 7 then (if bs ! 11 then 914 else 851)
     else (if bs ! 8 then 960 else 783)) else (if bs ! 8 then (if bs ! 5 then 1035 else 838) else (if bs ! 3
     then 1426 else 1016))) else (if bs ! 8 then (if bs ! 3 then 653 else (if bs ! 5 then 784 else 801)) else
     (if bs ! 10 then (if bs ! 9 then 476 else 1455) else (if bs ! 14 then 1365 else 1408)))))"

definition sub_56 :: "bool list \<Rightarrow> int" where
  "sub_56 bs =
     (if bs ! 26 then (if bs ! 14 then (if bs ! 7 then (if bs ! 16 then 896 else 38) else (if bs ! 8 then 897
     else (if bs ! 22 then 1382 else 1423))) else (if bs ! 9 then (if bs ! 10 then 1338 else 1384) else (if bs !
     6 then 998 else (if bs ! 7 then 551 else 341)))) else (if bs ! 7 then (if bs ! 12 then (if bs ! 6 then (if
     bs ! 10 then 101 else 1188) else 1125) else (if bs ! 22 then 88 else 1424)) else (if bs ! 11 then (if bs !
     12 then 810 else 1074) else (if bs ! 8 then 166 else (if bs ! 13 then 1073 else 92)))))"

definition sub_57 :: "bool list \<Rightarrow> int" where
  "sub_57 bs =
     (if bs ! 11 then (if bs ! 9 then (if bs ! 12 then (if bs ! 15 then 918 else (if bs ! 19 then 1425 else
     828)) else (if bs ! 18 then 1532 else 99)) else (if bs ! 10 then (if bs ! 15 then 760 else 1294) else (if
     bs ! 6 then (if bs ! 16 then 1100 else 969) else 35))) else (if bs ! 18 then (if bs ! 7 then (if bs ! 12
     then 1124 else (if bs ! 22 then 573 else 1590)) else (if bs ! 8 then 552 else 720)) else (if bs ! 7 then
     (if bs ! 10 then (if bs ! 16 then 309 else 499) else 338) else (if bs ! 8 then 486 else 307))))"

definition sub_58 :: "bool list \<Rightarrow> int" where
  "sub_58 bs =
     (if bs ! 7 then (if bs ! 6 then (if bs ! 15 then (if bs ! 11 then (if bs ! 21 then 305 else 1130) else 391)
     else (if bs ! 10 then (if bs ! 11 then 794 else 1052) else 1491)) else (if bs ! 5 then (if bs ! 10 then
     1430 else (if bs ! 21 then 1307 else 195)) else (if bs ! 21 then 465 else 1102))) else (if bs ! 5 then (if
     bs ! 10 then (if bs ! 11 then (if bs ! 12 then 763 else 151) else 1197) else (if bs ! 8 then 973 else 352))
     else (if bs ! 11 then (if bs ! 15 then (if bs ! 18 then 243 else 765) else 616) else (if bs ! 12 then 1607
     else (if bs ! 21 then 1054 else 1199)))))"

definition sub_59 :: "bool list \<Rightarrow> int" where
  "sub_59 bs =
     (if bs ! 10 then (if bs ! 12 then (if bs ! 8 then (if bs ! 5 then (if bs ! 14 then 857 else 1198) else 481)
     else (if bs ! 11 then 725 else (if bs ! 20 then 349 else 405))) else (if bs ! 5 then (if bs ! 6 then 280
     else (if bs ! 8 then 353 else 343)) else (if bs ! 6 then 689 else (if bs ! 16 then 723 else 1490)))) else
     (if bs ! 11 then (if bs ! 7 then (if bs ! 9 then (if bs ! 12 then 1608 else 491) else 972) else (if bs ! 12
     then 793 else (if bs ! 15 then 434 else 742))) else (if bs ! 15 then (if bs ! 8 then 1308 else (if bs ! 18
     then 971 else 813)) else (if bs ! 7 then 210 else 1605))))"

definition sub_60 :: "bool list \<Rightarrow> int" where
  "sub_60 bs =
     (if bs ! 7 then (if bs ! 11 then (if bs ! 10 then (if bs ! 21 then 1537 else (if bs ! 22 then 1053 else
     1492)) else (if bs ! 3 then 1023 else 211)) else (if bs ! 6 then (if bs ! 3 then (if bs ! 10 then 255 else
     917) else 975) else (if bs ! 5 then 1433 else (if bs ! 16 then 1001 else 114)))) else (if bs ! 6 then (if
     bs ! 22 then (if bs ! 20 then (if bs ! 25 then 925 else 845) else 832) else (if bs ! 12 then 697 else (if
     bs ! 20 then 412 else 924))) else (if bs ! 11 then (if bs ! 3 then 1263 else (if bs ! 20 then 175 else
     657)) else (if bs ! 5 then (if bs ! 8 then 974 else 1081) else 1431))))"

definition sub_61 :: "bool list \<Rightarrow> int" where
  "sub_61 bs =
     (if bs ! 14 then (if bs ! 11 then (if bs ! 3 then (if bs ! 6 then (if bs ! 10 then 880 else 1383) else
     1591) else (if bs ! 13 then 1344 else (if bs ! 25 then 777 else 873))) else (if bs ! 12 then (if bs ! 3
     then (if bs ! 6 then 302 else 1230) else 724) else (if bs ! 20 then (if bs ! 21 then 366 else 145) else
     127))) else (if bs ! 3 then (if bs ! 13 then (if bs ! 7 then 100 else 121) else (if bs ! 24 then (if bs !
     25 then 1337 else 15) else 268)) else (if bs ! 7 then (if bs ! 6 then 678 else (if bs ! 11 then 55 else
     1000)) else (if bs ! 5 then (if bs ! 8 then 944 else 775) else 814))))"

definition sub_62 :: "bool list \<Rightarrow> int" where
  "sub_62 bs =
     (if bs ! 26 then (if bs ! 11 then (if bs ! 3 then (if bs ! 6 then (if bs ! 10 then 1531 else 1075) else
     1296) else (if bs ! 6 then 1432 else (if bs ! 10 then 246 else 1434))) else (if bs ! 5 then (if bs ! 6 then
     (if bs ! 3 then 1264 else 776) else (if bs ! 20 then 330 else 1270)) else (if bs ! 12 then (if bs ! 25 then
     152 else 1129) else 73))) else (if bs ! 15 then (if bs ! 12 then (if bs ! 3 then 408 else (if bs ! 11 then
     1488 else 1489)) else (if bs ! 5 then (if bs ! 6 then 902 else 1306) else 1101)) else (if bs ! 3 then (if
     bs ! 9 then (if bs ! 11 then 427 else 1295) else 478) else (if bs ! 9 then 141 else (if bs ! 12 then 688
     else 446)))))"

definition sub_63 :: "bool list \<Rightarrow> int" where
  "sub_63 bs =
     (if bs ! 16 then (if bs ! 13 then (if bs ! 15 then (if bs ! 5 then 764 else (if bs ! 11 then 1343 else
     1309)) else (if bs ! 22 then 396 else 626)) else (if bs ! 5 then (if bs ! 8 then 273 else (if bs ! 10 then
     792 else 677)) else (if bs ! 12 then 858 else 1493))) else (if bs ! 10 then (if bs ! 8 then (if bs ! 3 then
     189 else (if bs ! 11 then 1271 else 1606)) else (if bs ! 5 then 480 else 1272)) else (if bs ! 15 then (if
     bs ! 11 then 1485 else (if bs ! 20 then 1486 else 1487)) else (if bs ! 3 then 184 else (if bs ! 20 then
     1604 else 300)))))"

definition word_tree :: "bool list \<Rightarrow> int" where
  "word_tree bs =
     (if bs ! 0 then (if bs ! 15 then (if bs ! 5 then (if bs ! 17 then (if bs ! 7 then (if bs ! 4 then sub_0 bs
     else sub_1 bs) else (if bs ! 14 then sub_2 bs else sub_3 bs)) else (if bs ! 12 then (if bs ! 22 then sub_4
     bs else sub_5 bs) else (if bs ! 1 then sub_6 bs else sub_7 bs))) else (if bs ! 8 then (if bs ! 13 then (if
     bs ! 19 then sub_8 bs else sub_9 bs) else (if bs ! 1 then sub_10 bs else sub_11 bs)) else (if bs ! 6 then
     (if bs ! 26 then sub_12 bs else sub_13 bs) else (if bs ! 11 then sub_14 bs else sub_15 bs)))) else (if bs !
     12 then (if bs ! 13 then (if bs ! 10 then (if bs ! 5 then sub_16 bs else sub_17 bs) else (if bs ! 8 then
     sub_18 bs else sub_19 bs)) else (if bs ! 2 then (if bs ! 6 then sub_20 bs else sub_21 bs) else (if bs ! 14
     then sub_22 bs else sub_23 bs))) else (if bs ! 4 then (if bs ! 25 then (if bs ! 7 then sub_24 bs else
     sub_25 bs) else (if bs ! 5 then sub_26 bs else sub_27 bs)) else (if bs ! 2 then (if bs ! 1 then sub_28 bs
     else sub_29 bs) else (if bs ! 5 then sub_30 bs else sub_31 bs))))) else (if bs ! 2 then (if bs ! 7 then (if
     bs ! 12 then (if bs ! 6 then (if bs ! 11 then sub_32 bs else sub_33 bs) else (if bs ! 10 then sub_34 bs
     else sub_35 bs)) else (if bs ! 19 then (if bs ! 11 then sub_36 bs else sub_37 bs) else (if bs ! 1 then
     sub_38 bs else sub_39 bs))) else (if bs ! 20 then (if bs ! 26 then (if bs ! 8 then sub_40 bs else sub_41
     bs) else (if bs ! 4 then sub_42 bs else sub_43 bs)) else (if bs ! 12 then (if bs ! 13 then sub_44 bs else
     sub_45 bs) else (if bs ! 8 then sub_46 bs else sub_47 bs)))) else (if bs ! 1 then (if bs ! 15 then (if bs !
     17 then (if bs ! 11 then sub_48 bs else sub_49 bs) else (if bs ! 20 then sub_50 bs else sub_51 bs)) else
     (if bs ! 12 then (if bs ! 28 then sub_52 bs else sub_53 bs) else (if bs ! 26 then sub_54 bs else sub_55
     bs))) else (if bs ! 17 then (if bs ! 3 then (if bs ! 20 then sub_56 bs else sub_57 bs) else (if bs ! 25
     then sub_58 bs else sub_59 bs)) else (if bs ! 19 then (if bs ! 15 then sub_60 bs else sub_61 bs) else (if
     bs ! 7 then sub_62 bs else sub_63 bs))))))"

lemmas sub_defs =
  sub_0_def sub_1_def sub_2_def sub_3_def sub_4_def sub_5_def sub_6_def sub_7_def sub_8_def sub_9_def sub_10_def
  sub_11_def sub_12_def sub_13_def sub_14_def sub_15_def sub_16_def sub_17_def sub_18_def sub_19_def sub_20_def
  sub_21_def sub_22_def sub_23_def sub_24_def sub_25_def sub_26_def sub_27_def sub_28_def sub_29_def sub_30_def
  sub_31_def sub_32_def sub_33_def sub_34_def sub_35_def sub_36_def sub_37_def sub_38_def sub_39_def sub_40_def
  sub_41_def sub_42_def sub_43_def sub_44_def sub_45_def sub_46_def sub_47_def sub_48_def sub_49_def sub_50_def
  sub_51_def sub_52_def sub_53_def sub_54_def sub_55_def sub_56_def sub_57_def sub_58_def sub_59_def sub_60_def
  sub_61_def sub_62_def sub_63_def

definition number_of :: "string \<Rightarrow> int" where
  "number_of w = word_tree (word_bits w)"

section \<open>Every word is found\<close>

lemma find_0: "map number_of wordsArray_0 = [0..149]"
  by code_simp

lemma find_1: "map number_of wordsArray_1 = [150..299]"
  by code_simp

lemma find_2: "map number_of wordsArray_2 = [300..449]"
  by code_simp

lemma find_3: "map number_of wordsArray_3 = [450..599]"
  by code_simp

lemma find_4: "map number_of wordsArray_4 = [600..749]"
  by code_simp

lemma find_5: "map number_of wordsArray_5 = [750..899]"
  by code_simp

lemma find_6: "map number_of wordsArray_6 = [900..1049]"
  by code_simp

lemma find_7: "map number_of wordsArray_7 = [1050..1199]"
  by code_simp

lemma find_8: "map number_of wordsArray_8 = [1200..1349]"
  by code_simp

lemma find_9: "map number_of wordsArray_9 = [1350..1499]"
  by code_simp

lemma find_10: "map number_of wordsArray_10 = [1500..1625]"
  by code_simp

lemma upto_join: "i \<le> j \<Longrightarrow> j \<le> k \<Longrightarrow> l = j - 1 \<Longrightarrow> [i..l] @ [j..k] = [i..k]"
  using upto_split1 [of i j k] by simp

lemma upt_join: "i \<le> j \<Longrightarrow> j \<le> k \<Longrightarrow> [i..<j] @ [j..<k] = [i..<k]"
  using upt_add_eq_append [of i j "k - j"] by simp

lemma find_words: "map number_of wordsArray = [0..1625]"
  unfolding wordsArray_def map_append find_0 find_1 find_2 find_3 find_4 find_5 find_6 find_7 find_8 find_9 find_10
  by (simp add: upto_join del: upto_rec_numeral)

lemma length_wordsArray: "length wordsArray = 1626"
  using arg_cong [OF find_words, of length] by (simp del: upto_rec_numeral)

lemma distinct_wordsArray: "distinct wordsArray"
  using arg_cong [OF find_words, of distinct] by (simp add: distinct_map del: upto_rec_numeral)

section \<open>The map inverts the array\<close>

lemma words_map_0: "wordsMap_0 = zip wordsArray_0 (map of_nat [0..<150])"
  by (simp add: wordsMap_0_def wordsArray_0_def upt_conv_Cons)

lemma words_map_1: "wordsMap_1 = zip wordsArray_1 (map of_nat [150..<300])"
  by (simp add: wordsMap_1_def wordsArray_1_def upt_conv_Cons)

lemma words_map_2: "wordsMap_2 = zip wordsArray_2 (map of_nat [300..<450])"
  by (simp add: wordsMap_2_def wordsArray_2_def upt_conv_Cons)

lemma words_map_3: "wordsMap_3 = zip wordsArray_3 (map of_nat [450..<600])"
  by (simp add: wordsMap_3_def wordsArray_3_def upt_conv_Cons)

lemma words_map_4: "wordsMap_4 = zip wordsArray_4 (map of_nat [600..<750])"
  by (simp add: wordsMap_4_def wordsArray_4_def upt_conv_Cons)

lemma words_map_5: "wordsMap_5 = zip wordsArray_5 (map of_nat [750..<900])"
  by (simp add: wordsMap_5_def wordsArray_5_def upt_conv_Cons)

lemma words_map_6: "wordsMap_6 = zip wordsArray_6 (map of_nat [900..<1050])"
  by (simp add: wordsMap_6_def wordsArray_6_def upt_conv_Cons)

lemma words_map_7: "wordsMap_7 = zip wordsArray_7 (map of_nat [1050..<1200])"
  by (simp add: wordsMap_7_def wordsArray_7_def upt_conv_Cons)

lemma words_map_8: "wordsMap_8 = zip wordsArray_8 (map of_nat [1200..<1350])"
  by (simp add: wordsMap_8_def wordsArray_8_def upt_conv_Cons)

lemma words_map_9: "wordsMap_9 = zip wordsArray_9 (map of_nat [1350..<1500])"
  by (simp add: wordsMap_9_def wordsArray_9_def upt_conv_Cons)

lemma words_map_10: "wordsMap_10 = zip wordsArray_10 (map of_nat [1500..<1626])"
  by (simp add: wordsMap_10_def wordsArray_10_def upt_conv_Cons)

lemma length_parts:
  "length wordsArray_0 = 150"
  "length wordsArray_1 = 150"
  "length wordsArray_2 = 150"
  "length wordsArray_3 = 150"
  "length wordsArray_4 = 150"
  "length wordsArray_5 = 150"
  "length wordsArray_6 = 150"
  "length wordsArray_7 = 150"
  "length wordsArray_8 = 150"
  "length wordsArray_9 = 150"
  "length wordsArray_10 = 126"
  by (simp_all add: wordsArray_0_def wordsArray_1_def wordsArray_2_def wordsArray_3_def wordsArray_4_def wordsArray_5_def wordsArray_6_def wordsArray_7_def wordsArray_8_def wordsArray_9_def wordsArray_10_def)

lemma wordsMap_eq: "wordsMap = zip wordsArray (map of_nat [0..<1626])"
proof -
  have "[0..<1626] = [0..<150] @ [150..<300] @ [300..<450] @ [450..<600] @ [600..<750] @ [750..<900] @ [900..<1050] @ [1050..<1200] @ [1200..<1350] @ [1350..<1500] @ [1500..<1626]" by (simp add: upt_join del: upt_rec_numeral)
  then show ?thesis
    unfolding wordsMap_def wordsArray_def words_map_0 words_map_1 words_map_2 words_map_3 words_map_4 words_map_5 words_map_6 words_map_7 words_map_8 words_map_9 words_map_10
    by (simp add: zip_append length_parts del: upt_rec_numeral)
qed

theorem wordsMap_at: "i < 1626 \<Longrightarrow> map_of wordsMap (wordsArray ! i) = Some (of_nat i)"
  unfolding wordsMap_eq by (simp add: map_of_zip_nth length_wordsArray distinct_wordsArray del: upt_rec_numeral)

end
