(* ===== verification/Mnemonic.thy ===== *)
theory Mnemonic
  imports WordIndex
begin

text \<open>
  The conversion of \<open>mnemonic-encoding.cpp\<close> between binary data and words: four bytes as three words.
  The functions \<open>trim_copy\<close> and \<open>split\<close> of boost are arguments, with their documented behaviour as the
  hypotheses \<open>trims\<close> and \<open>splits\<close>.  \<open>Inl\<close> is a thrown exception.
\<close>

section \<open>The model\<close>

definition NUMWORDS :: u32 where
  "NUMWORDS = 1626"

definition load32 :: "bytes \<Rightarrow> u32" where
  "load32 p = word_of_int (le_val (take 4 p))"

definition store32 :: "u32 \<Rightarrow> bytes" where
  "store32 v = le_bytes 4 (uint v)"

definition words_value :: "u32 \<Rightarrow> u32 \<Rightarrow> u32 \<Rightarrow> u32" where
  "words_value w1 w2 w3 =
     (let n = NUMWORDS in w1 + n * (((n - w1) + w2) mod n) + n * n * (((n - w2) + w3) mod n))"

fun text2binary_loop :: "string list \<Rightarrow> nat list \<Rightarrow> bytes \<Rightarrow> exception + bytes" where
  "text2binary_loop tokens [] res = Inr res"
| "text2binary_loop tokens (i # is) res =
     (case (map_of wordsMap (tokens ! (i * 3)), map_of wordsMap (tokens ! (i * 3 + 1)), map_of wordsMap (tokens ! (i * 3 + 2))) of
        (Some w1, Some w2, Some w3) \<Rightarrow>
          text2binary_loop tokens is (take (i * 4) res @ store32 (words_value w1 w2 w3) @ drop (i * 4 + 4) res)
      | _ \<Rightarrow> Inl (Runtime_error ''Invalid word in mnemonic text''))"

definition text2binary :: "(string \<Rightarrow> string) \<Rightarrow> (string \<Rightarrow> string list) \<Rightarrow> string \<Rightarrow> exception + bytes" where
  "text2binary trim_copy split text =
     (let tokens = split (trim_copy text)
      in if length tokens mod 3 \<noteq> 0 then Inl (Runtime_error ''Invalid word count in mnemonic text'')
         else text2binary_loop tokens [0..<length tokens div 3] (replicate (length tokens div 3 * 4) 0))"

definition value_words :: "u32 \<Rightarrow> u32 \<times> u32 \<times> u32" where
  "value_words val =
     (let n = NUMWORDS;
          w1 = val mod n;
          w2 = (val div n + w1) mod n;
          w3 = (val div n div n + w2) mod n
      in (w1, w2, w3))"

definition binary2text :: "bytes \<Rightarrow> exception + string" where
  "binary2text binary =
     (if length binary mod 4 \<noteq> 0 then Inl (Runtime_error ''Invalid binary data size for mnemonic encoding'')
      else Inr (fold (\<lambda>i res.
             let (w1, w2, w3) = value_words (load32 (drop (i * 4) binary))
             in res @ wordsArray ! unat w1 @ '' '' @ wordsArray ! unat w2 @ '' '' @ wordsArray ! unat w3 @ '' '')
           [0..<length binary div 4] []))"

section \<open>What the library functions do\<close>

definition is_space :: "char \<Rightarrow> bool" where
  "is_space c \<longleftrightarrow> c \<in> {CHR '' '', CHR 0x09, CHR 0x0A, CHR 0x0B, CHR 0x0C, CHR 0x0D}"

text \<open>\<open>boost::trim_copy\<close> removes the leading and the trailing spaces.\<close>

definition trims :: "(string \<Rightarrow> string) \<Rightarrow> bool" where
  "trims f \<longleftrightarrow> (\<forall>a s b. list_all is_space a \<and> list_all is_space b \<and> s \<noteq> [] \<and> \<not> is_space (hd s) \<and> \<not> is_space (last s)
     \<longrightarrow> f (a @ s @ b) = s)"

fun join :: "string list \<Rightarrow> string" where
  "join [] = []"
| "join [w] = w"
| "join (w # ws) = w @ '' '' @ join ws"

text \<open>\<open>boost::split\<close> with \<open>is_any_of(" ")\<close> cuts at every space.\<close>

definition splits :: "(string \<Rightarrow> string list) \<Rightarrow> bool" where
  "splits f \<longleftrightarrow> (\<forall>ws. ws \<noteq> [] \<and> list_all (\<lambda>w. CHR '' '' \<notin> set w) ws \<longrightarrow> f (join ws) = ws)"

section \<open>Numbers\<close>

lemma uint_value_words:
  assumes "value_words v = (w1, w2, w3)"
  shows "uint w1 = uint v mod 1626" and "uint w2 = (uint v div 1626 + uint w1) mod 1626"
    and "uint w3 = (uint v div 1626 div 1626 + uint w2) mod 1626"
proof -
  have u: "uint (NUMWORDS) = 1626" by (simp add: NUMWORDS_def)
  have lt: "uint v < 4294967296" using uint_lt2p [of v] by simp
  show 1: "uint w1 = uint v mod 1626" using assms by (auto simp: value_words_def Let_def uint_mod_distrib u)
  have q: "uint (v div NUMWORDS) = uint v div 1626" "uint (v div NUMWORDS div NUMWORDS) = uint v div 1626 div 1626"
    by (simp_all add: uint_div_distrib u)
  have a: "uint (x + y) = uint x + uint y" if "uint x \<le> 2641431" "uint y < 1626" for x y :: u32
    using that by (simp add: uint_word_ariths)
  have b: "uint v div 1626 \<le> 2641431" "uint v div 1626 div 1626 \<le> 2641431" using lt by linarith+
  have "w2 = (v div NUMWORDS + w1) mod NUMWORDS" using assms by (auto simp: value_words_def Let_def)
  moreover have "uint w1 < 1626" using 1 by simp
  ultimately show 2: "uint w2 = (uint v div 1626 + uint w1) mod 1626"
    using a [of "v div NUMWORDS" w1] b(1) by (simp add: uint_mod_distrib u q)
  have "w3 = (v div NUMWORDS div NUMWORDS + w2) mod NUMWORDS" using assms by (auto simp: value_words_def Let_def)
  moreover have "uint w2 < 1626" using 2 by simp
  ultimately show "uint w3 = (uint v div 1626 div 1626 + uint w2) mod 1626"
    using a [of "v div NUMWORDS div NUMWORDS" w2] b(2) by (simp add: uint_mod_distrib u q)
qed

lemma value_words_bound:
  assumes "value_words v = (w1, w2, w3)"
  shows "uint w1 < 1626" and "uint w2 < 1626" and "uint w3 < 1626"
  by (subst uint_value_words [OF assms], rule pos_mod_bound, simp only: zero_less_numeral)+

lemma unat_less_numeral: "uint w < numeral n \<Longrightarrow> unat w < numeral n"
  by (simp only: unat_eq_nat_uint) (rule nat_less_iff [THEN iffD2, OF uint_ge_0], simp only: of_nat_numeral)

lemma value_words_less:
  assumes "value_words v = (w1, w2, w3)"
  shows "unat w1 < 1626" and "unat w2 < 1626" and "unat w3 < 1626"
  by (rule unat_less_numeral, rule value_words_bound [OF assms])+

lemma back_mod: "0 \<le> w \<Longrightarrow> w < n \<Longrightarrow> ((n - w) + (q + w) mod n) mod n = q mod (n :: int)"
proof -
  have "((n - w) + (q + w) mod n) mod n = ((n - w) + (q + w)) mod n" by (rule mod_add_right_eq)
  also have "\<dots> = q mod n" by simp
  finally show "((n - w) + (q + w) mod n) mod n = q mod n" .
qed

text \<open>The three words determine the value: the differences are the digits to the base 1626.\<close>

lemma words_value_words:
  assumes "value_words v = (w1, w2, w3)"
  shows "words_value w1 w2 w3 = v"
proof -
  note w = uint_value_words [OF assms]
  have u: "uint NUMWORDS = 1626" by (simp add: NUMWORDS_def)
  note l = value_words_bound [OF assms]
  have d: "uint ((NUMWORDS - x) + y) = (1626 - uint x) + uint y" if "uint x < 1626" "uint y < 1626" for x y
  proof -
    have "0 \<le> 1626 - uint x + uint y" "1626 - uint x + uint y < 4294967296" using that uint_ge_0 [of x] uint_ge_0 [of y] by linarith+
    then show ?thesis by (simp add: uint_word_ariths u mod_simps)
  qed
  define a b where "a = uint v div 1626 mod 1626" and "b = uint v div 1626 div 1626"
  have "uint v < 4294967296" using uint_lt2p [of v] by simp
  then have b: "b < 1626" "0 \<le> b" unfolding b_def by (simp_all add: zdiv_zmult2_eq [symmetric] pos_imp_zdiv_nonneg_iff)
  have m1: "uint (((NUMWORDS - w1) + w2) mod NUMWORDS) = a"
    unfolding uint_mod_distrib d [OF l(1,2)] u a_def w(2) by (rule back_mod [OF uint_ge_0 l(1)])
  have m2: "uint (((NUMWORDS - w2) + w3) mod NUMWORDS) = b"
    unfolding uint_mod_distrib d [OF l(2,3)] u w(3) b_def [symmetric] using back_mod [OF uint_ge_0 l(2), of b] b
    by (simp only: mod_pos_pos_trivial)
  have v: "uint v = uint w1 + 1626 * a + 2643876 * b"
  proof -
    have "uint v = 1626 * (uint v div 1626) + uint w1" unfolding w(1) by simp
    moreover have "uint v div 1626 = 1626 * b + a" unfolding a_def b_def by simp
    ultimately show ?thesis by simp
  qed
  have "words_value w1 w2 w3 = word_of_int (uint w1 + 1626 * a + 2643876 * b)"
    unfolding words_value_def Let_def m1 [symmetric] m2 [symmetric] by (simp add: NUMWORDS_def)
  then show ?thesis unfolding v [symmetric] by simp
qed

lemma store_load32: "length p = 4 \<Longrightarrow> store32 (load32 p) = p"
  using le_val_bounds [of p] by (simp add: store32_def load32_def uint_word_of_int le_bytes_le_val)

section \<open>Words\<close>

primrec lower :: "char \<Rightarrow> bool" where
  "lower (Char b0 b1 b2 b3 b4 b5 b6 b7) = (b5 \<and> b6)"

lemma lower_not_space: "lower c \<Longrightarrow> \<not> is_space c"
  by (auto simp: is_space_def)

lemma words_plain_parts:
  "list_all (\<lambda>w. w \<noteq> [] \<and> list_all lower w) wordsArray_0"
  "list_all (\<lambda>w. w \<noteq> [] \<and> list_all lower w) wordsArray_1"
  "list_all (\<lambda>w. w \<noteq> [] \<and> list_all lower w) wordsArray_2"
  "list_all (\<lambda>w. w \<noteq> [] \<and> list_all lower w) wordsArray_3"
  "list_all (\<lambda>w. w \<noteq> [] \<and> list_all lower w) wordsArray_4"
  "list_all (\<lambda>w. w \<noteq> [] \<and> list_all lower w) wordsArray_5"
  "list_all (\<lambda>w. w \<noteq> [] \<and> list_all lower w) wordsArray_6"
  "list_all (\<lambda>w. w \<noteq> [] \<and> list_all lower w) wordsArray_7"
  "list_all (\<lambda>w. w \<noteq> [] \<and> list_all lower w) wordsArray_8"
  "list_all (\<lambda>w. w \<noteq> [] \<and> list_all lower w) wordsArray_9"
  "list_all (\<lambda>w. w \<noteq> [] \<and> list_all lower w) wordsArray_10"
  by code_simp+

lemma words_plain: "w \<in> set wordsArray \<Longrightarrow> w \<noteq> [] \<and> (\<forall>c\<in>set w. \<not> is_space c)"
proof -
  assume w: "w \<in> set wordsArray"
  have "list_all (\<lambda>w. w \<noteq> [] \<and> list_all lower w) wordsArray"
    unfolding wordsArray_def list_all_append by (intro conjI words_plain_parts)
  with w show ?thesis using lower_not_space unfolding list_all_iff by blast
qed

lemma join_Cons: "ws \<noteq> [] \<Longrightarrow> join (w # ws) = w @ '' '' @ join ws"
  by (cases ws) simp_all

lemma join_space: "ws \<noteq> [] \<Longrightarrow> concat (map (\<lambda>w. w @ '' '') ws) = join ws @ '' ''"
  by (induction ws rule: join.induct) simp_all

lemma join_ends:
  "ws \<noteq> [] \<Longrightarrow> \<forall>w\<in>set ws. w \<noteq> [] \<Longrightarrow> join ws \<noteq> [] \<and> hd (join ws) = hd (hd ws) \<and> last (join ws) = last (last ws)"
  by (induction ws rule: join.induct) simp_all

lemma split_trim_words:
  assumes "trims trim" and "splits split" and "ws \<noteq> []" and "set ws \<subseteq> set wordsArray"
  shows "split (trim (concat (map (\<lambda>w. w @ '' '') ws))) = ws"
proof -
  have p: "w \<noteq> [] \<and> (\<forall>c\<in>set w. \<not> is_space c)" if "w \<in> set ws" for w using words_plain that assms(4) by blast
  have j: "join ws \<noteq> []" "\<not> is_space (hd (join ws))" "\<not> is_space (last (join ws))"
    using join_ends [OF assms(3)] p hd_in_set [OF assms(3)] last_in_set [OF assms(3)] by (auto dest!: p)
  have "list_all is_space '' ''" by (simp add: is_space_def)
  then have "trim ([] @ join ws @ '' '') = join ws" using assms(1) j unfolding trims_def by (metis list.pred_inject(1))
  moreover have "split (join ws) = ws"
    using assms(2,3) p unfolding splits_def list_all_iff by (auto simp: is_space_def)
  ultimately show ?thesis by (simp add: join_space [OF assms(3)])
qed

section \<open>Round trip\<close>

definition triple :: "u32 \<Rightarrow> string list" where
  "triple v = (case value_words v of (w1, w2, w3) \<Rightarrow> [wordsArray ! unat w1, wordsArray ! unat w2, wordsArray ! unat w3])"

definition words_of :: "bytes \<Rightarrow> string list" where
  "words_of b = concat (map (\<lambda>i. triple (load32 (drop (i * 4) b))) [0..<length b div 4])"

lemma length_triple [simp]: "length (triple v) = 3"
  by (simp add: triple_def split: prod.split)

lemma binary2text_eq:
  assumes "length b mod 4 = 0"
  shows "binary2text b = Inr (concat (map (\<lambda>w. w @ '' '') (words_of b)))"
proof -
  have "fold (\<lambda>i res. let (w1, w2, w3) = value_words (load32 (drop (i * 4) b))
             in res @ wordsArray ! unat w1 @ '' '' @ wordsArray ! unat w2 @ '' '' @ wordsArray ! unat w3 @ '' '') is res
      = res @ concat (map (\<lambda>w. w @ '' '') (concat (map (\<lambda>i. triple (load32 (drop (i * 4) b))) is)))" for "is" res
    by (induction "is" arbitrary: res) (simp_all add: triple_def split: prod.split)
  then show ?thesis using assms by (simp add: binary2text_def words_of_def)
qed

lemma length_words_of: "length (words_of b) = 3 * (length b div 4)"
  by (simp add: words_of_def length_concat comp_def sum_list_triv)

lemma words_of_nth:
  assumes "i < length b div 4" and "j < 3"
  shows "words_of b ! (i * 3 + j) = triple (load32 (drop (i * 4) b)) ! j"
proof -
  let ?f = "\<lambda>i. triple (load32 (drop (i * 4) b))"
  have l: "length (concat (map ?f [0..<i])) = i * 3" by (simp add: length_concat comp_def sum_list_triv)
  have "[0..<length b div 4] = [0..<i] @ i # [Suc i..<length b div 4]" 
    using assms(1) upt_join [of 0 i "length b div 4"] by (simp add: upt_conv_Cons)
  then have "words_of b = concat (map ?f [0..<i]) @ ?f i @ concat (map ?f [Suc i..<length b div 4])" by (simp add: words_of_def)
  then show ?thesis using l assms(2) by (simp add: nth_append)
qed

lemma words_of_known: "set (words_of b) \<subseteq> set wordsArray"
proof -
  have "set (triple v) \<subseteq> set wordsArray" for v
  proof -
    obtain w1 w2 w3 where w: "value_words v = (w1, w2, w3)" using prod_cases3 by blast
    then show ?thesis using value_words_less [OF w] by (simp add: triple_def length_wordsArray)
  qed
  then show ?thesis by (auto simp: words_of_def)
qed

lemma loop_step:
  assumes "i < length b div 4"
  shows "text2binary_loop (words_of b) (i # is) res
    = text2binary_loop (words_of b) is (take (i * 4) res @ take 4 (drop (i * 4) b) @ drop (i * 4 + 4) res)"
proof -
  let ?v = "load32 (drop (i * 4) b)"
  obtain w1 w2 w3 where w: "value_words ?v = (w1, w2, w3)" using prod_cases3 by blast
  have t: "triple ?v ! 0 = wordsArray ! unat w1" "triple ?v ! 1 = wordsArray ! unat w2" "triple ?v ! 2 = wordsArray ! unat w3"
    by (simp_all add: triple_def w)
  have n: "words_of b ! (i * 3) = wordsArray ! unat w1" "words_of b ! (i * 3 + 1) = wordsArray ! unat w2"
    "words_of b ! (i * 3 + 2) = wordsArray ! unat w3"
    using words_of_nth [OF assms, of 0] words_of_nth [OF assms, of 1] words_of_nth [OF assms, of 2] t by simp_all
  have m: "map_of wordsMap (wordsArray ! unat w) = Some w" if "unat w < 1626" for w :: u32
    using wordsMap_at [OF that] by simp
  have "i * 4 + 4 \<le> length b" using assms by linarith
  then have "store32 (load32 (take 4 (drop (i * 4) b))) = take 4 (drop (i * 4) b)" by (intro store_load32) simp
  then have s: "store32 ?v = take 4 (drop (i * 4) b)" by (simp add: load32_def)
  show ?thesis
    unfolding text2binary_loop.simps(2) n m [OF value_words_less(1) [OF w]] m [OF value_words_less(2) [OF w]] m [OF value_words_less(3) [OF w]]
    by (simp add: words_value_words [OF w] s)
qed

lemma loop_copies:
  assumes "m \<le> length b div 4" and "length b mod 4 = 0" and "length res = length b"
  shows "text2binary_loop (words_of b) [m..<length b div 4] (take (m * 4) b @ drop (m * 4) res) = Inr b"
  using assms(1)
proof (induction m rule: inc_induct)
  case base
  have "length b div 4 * 4 = length b" using assms(2) by auto
  then show ?case using assms(3) by simp
next
  case (step m)
  have l: "m * 4 + 4 \<le> length b" using step(2) by linarith
  then have "take (m * 4) (take (m * 4) b @ drop (m * 4) res) @ take 4 (drop (m * 4) b) @ drop (m * 4 + 4) (take (m * 4) b @ drop (m * 4) res)
      = take (Suc m * 4) b @ drop (Suc m * 4) res"
    using take_add [of "m * 4" 4 b] by (simp add: add.commute)
  then show ?case
    unfolding upt_conv_Cons [OF step(2)] loop_step [OF step(2)] using step(3) by (simp only:)
qed

theorem text2binary_binary2text:
  assumes "trims trim" and "splits split" and "b \<noteq> []" and "length b mod 4 = 0"
  shows "\<exists>text. binary2text b = Inr text \<and> text2binary trim split text = Inr b"
proof -
  have k: "0 < length b div 4" "length b div 4 * 4 = length b" using assms(3,4) by (cases b; auto)+
  then have "words_of b \<noteq> []" using length_words_of [of b] by auto
  then have "split (trim (concat (map (\<lambda>w. w @ '' '') (words_of b)))) = words_of b"
    by (rule split_trim_words [OF assms(1,2) _ words_of_known])
  moreover have "text2binary_loop (words_of b) [0..<length b div 4] (replicate (length b) 0) = Inr b"
    using loop_copies [of 0 b "replicate (length b) 0"] assms(4) by simp
  ultimately show ?thesis
    using binary2text_eq [OF assms(4)] k(2) by (simp add: text2binary_def length_words_of Let_def)
qed

text \<open>The sizes that are refused, and the words.\<close>

lemma binary2text_error:
  "length b mod 4 \<noteq> 0 \<Longrightarrow> binary2text b = Inl (Runtime_error ''Invalid binary data size for mnemonic encoding'')"
  by (simp add: binary2text_def)

lemma loop_unknown:
  assumes "i \<in> set is" and "\<exists>j<3. map_of wordsMap (tokens ! (i * 3 + j)) = None"
  shows "text2binary_loop tokens is res = Inl (Runtime_error ''Invalid word in mnemonic text'')"
  using assms(1)
proof (induction "is" arbitrary: res)
  case (Cons k ks)
  show ?case
  proof (cases "i = k")
    case True
    obtain j where "j < 3" "map_of wordsMap (tokens ! (k * 3 + j)) = None" using assms(2) True by blast
    then have "map_of wordsMap (tokens ! (k * 3)) = None \<or> map_of wordsMap (tokens ! (k * 3 + 1)) = None
      \<or> map_of wordsMap (tokens ! (k * 3 + 2)) = None" by (auto simp: numeral_3_eq_3 less_Suc_eq)
    then show ?thesis by (auto split: option.split)
  next
    case False
    then have "i \<in> set ks" using Cons.prems by simp
    then show ?thesis using Cons.IH by (simp split: option.split)
  qed
qed simp

lemma text2binary_unknown:
  assumes "split (trim text) = tokens" and "length tokens mod 3 = 0" and "t \<in> set tokens" and "t \<notin> set wordsArray"
  shows "text2binary trim split text = Inl (Runtime_error ''Invalid word in mnemonic text'')"
proof -
  obtain k where k: "k < length tokens" "tokens ! k = t" using assms(3) by (auto simp: in_set_conv_nth)
  have "map_of wordsMap t = None"
    unfolding wordsMap_eq map_of_eq_None_iff using assms(4) by (auto dest: set_zip_leftD simp del: upt_rec_numeral)
  then have "\<exists>j<3. map_of wordsMap (tokens ! (k div 3 * 3 + j)) = None" using k(2) by (intro exI [of _ "k mod 3"]) simp
  moreover have "k div 3 \<in> set [0..<length tokens div 3]" using k(1) assms(2) by (simp add: div_less_mono) presburger
  ultimately show ?thesis using assms(1,2) loop_unknown by (simp add: text2binary_def Let_def)
qed

section \<open>Functions with the behaviour of boost\<close>

definition trim_ref :: "string \<Rightarrow> string" where
  "trim_ref s = rev (dropWhile is_space (rev (dropWhile is_space s)))"

fun split_ref :: "string \<Rightarrow> string list" where
  "split_ref [] = [[]]"
| "split_ref (c # cs) = (if c = CHR '' '' then [] # split_ref cs else (c # hd (split_ref cs)) # tl (split_ref cs))"

lemma drop_spaces: "list_all is_space a \<Longrightarrow> s \<noteq> [] \<Longrightarrow> \<not> is_space (hd s) \<Longrightarrow> dropWhile is_space (a @ s) = s"
  by (cases s) (simp_all add: list_all_iff)

lemma trims_ref: "trims trim_ref"
  unfolding trims_def trim_ref_def
proof (intro allI impI)
  fix a s b assume h: "list_all is_space a \<and> list_all is_space b \<and> s \<noteq> [] \<and> \<not> is_space (hd s) \<and> \<not> is_space (last s)"
  then have "dropWhile is_space (a @ s @ b) = s @ b" by (intro drop_spaces) simp_all
  moreover have "dropWhile is_space (rev b @ rev s) = rev s" using h by (intro drop_spaces) (simp_all add: hd_rev list_all_iff)
  ultimately show "rev (dropWhile is_space (rev (dropWhile is_space (a @ s @ b)))) = s" by simp
qed

lemma split_ref_word: "CHR '' '' \<notin> set w \<Longrightarrow> split_ref w = [w]"
  by (induction w) auto

lemma split_ref_Cons: "CHR '' '' \<notin> set w \<Longrightarrow> split_ref (w @ '' '' @ s) = w # split_ref s"
  by (induction w) auto

lemma splits_ref: "splits split_ref"
  unfolding splits_def
proof (intro allI impI)
  fix ws :: "string list"
  assume "ws \<noteq> [] \<and> list_all (\<lambda>w. CHR '' '' \<notin> set w) ws"
  then show "split_ref (join ws) = ws"
    by (induction ws rule: join.induct) (simp_all add: split_ref_word split_ref_Cons [simplified])
qed

end
