(* ===== verification/ChainProps.thy ===== *)
theory ChainProps
  imports CryptoProps Account Difficulty Emission Mnemonic
begin

text \<open>
  The properties of accounts and addresses, of the encodings as strings and as words, of the difficulty
  and of the money supply, with a witness for each one that has a hypothesis.
\<close>

section \<open>Accounts and addresses\<close>

text \<open>
  C9: an account that is generated on a working random generator can be restored from the returned
  seed, up to its creation time, and its address string is read back as the same address.  No
  exception is thrown and no assertion fails on the way.
\<close>

theorem account_address_roundtrip:
  assumes "prng_live os p"
  shows "\<exists>acc seed q str. generate os now (set_null acc0) p = Some (Inr (acc, seed, q))
    \<and> restore ndebug seed (set_null acc1) = Some (Inr (acc\<lparr>m_creation_timestamp := 0\<rparr>))
    \<and> get_public_address_str acc = Some str
    \<and> get_account_address_from_str a0 str = Some (Some (m_account_address (m_keys acc)))"
proof -
  have n: "\<not> is_swap_address (m_account_address (m_keys (set_null x)))" for x by (simp add: set_null_def null_address_def)
  obtain acc seed q where g: "generate os now (set_null acc0) p = Some (Inr (acc, seed, q))" "wf_keys (m_keys acc)"
    "\<not> is_swap_address (m_account_address (m_keys acc))" "restore ndebug seed (set_null acc1) = Some (Inr (acc\<lparr>m_creation_timestamp := 0\<rparr>))"
    using generate_restore [OF assms, of now "set_null acc0" "set_null acc1" ndebug] n by auto
  obtain str where "get_account_address_as_str (m_account_address (m_keys acc)) = Some str"
    "get_account_address_and_payment_id_from_str a0 str = Some (Some (m_account_address (m_keys acc), []))"
    using address_as_str [OF wf_keys_address [OF g(2,3)]] by blast
  then show ?thesis using g(1,4) by (auto simp: get_public_address_str_def get_account_address_from_str_def)
qed

definition acc_example :: account_base where
  "acc_example = \<lparr>m_keys = \<lparr>m_account_address = null_address, m_spend_secret_key = null_skey, m_view_secret_key = null_skey\<rparr>, m_creation_timestamp = 5\<rparr>"

theorem account_address_roundtrip_witness:
  "\<exists>acc seed q str. generate urandom_example 1400000000 (set_null acc_example) prng_0 = Some (Inr (acc, seed, q))
    \<and> restore False seed (set_null acc_example) = Some (Inr (acc\<lparr>m_creation_timestamp := 0\<rparr>))
    \<and> get_public_address_str acc = Some str
    \<and> get_account_address_from_str null_address str = Some (Some (m_account_address (m_keys acc)))"
  by (rule account_address_roundtrip [OF prng_live_0])

definition address_example :: account_public_address where
  "address_example = \<lparr>m_spend_public_key = ed_encode ed_B, m_view_public_key = ed_encode ed_B, is_swap_address = False\<rparr>"

lemma wf_address_example: "wf_address address_example"
  by (simp add: wf_address_def address_example_def)

text \<open>
  C15: an integrated address is read back with its payment identifier, and the string of a swap
  address is refused by the same function.
\<close>

theorem integrated_address_roundtrip:
  assumes "wf_address a" and "length payment_id < 2 ^ 30"
  shows "(\<exists>str. get_account_address_and_payment_as_str a payment_id = Some str
      \<and> get_account_address_and_payment_id_from_str a0 str = Some (Some (a, payment_id)))
    \<and> (\<exists>str. get_account_swap_address_as_str a = Some str \<and> get_account_address_and_payment_id_from_str a0 str = Some None)"
  using address_and_payment_as_str [OF assms] swap_address_refused [OF assms(1)] by blast

theorem integrated_address_roundtrip_witness:
  "(\<exists>str. get_account_address_and_payment_as_str address_example [1, 2, 3] = Some str
      \<and> get_account_address_and_payment_id_from_str null_address str = Some (Some (address_example, [1, 2, 3])))
    \<and> (\<exists>str. get_account_swap_address_as_str address_example = Some str
      \<and> get_account_address_and_payment_id_from_str null_address str = Some None)"
  by (rule integrated_address_roundtrip [OF wf_address_example]) simp

text \<open>
  C16: an address that is read from any string is well-formed: both keys have 32 bytes and are points of
  the curve, and it is not marked as a swap address.
\<close>

theorem address_parse_type:
  assumes "get_account_address_and_payment_id_from_str a0 str = Some (Some (a, payment_id))"
  shows "length (m_spend_public_key a) = 32 \<and> length (m_view_public_key a) = 32
    \<and> check_key (m_spend_public_key a) \<and> check_key (m_view_public_key a) \<and> \<not> is_swap_address a"
  using from_str_wf [OF assms] by (simp add: wf_address_def)

theorem address_parse_type_witness:
  "\<exists>str. get_account_address_and_payment_id_from_str null_address str = Some (Some (address_example, []))
    \<and> length (m_spend_public_key address_example) = 32 \<and> length (m_view_public_key address_example) = 32
    \<and> check_key (m_spend_public_key address_example) \<and> check_key (m_view_public_key address_example) \<and> \<not> is_swap_address address_example"
proof -
  obtain str where s: "get_account_address_and_payment_id_from_str null_address str = Some (Some (address_example, []))"
    using address_as_str [OF wf_address_example] by blast
  then show ?thesis using address_parse_type [OF s] by blast
qed

section \<open>Words\<close>



text \<open>
  C20: the words shown for the seed of a new account restore the account.
\<close>

theorem mnemonic_restores_account:
  assumes "prng_live os p" and "trims trim_copy" and "splits split"
  shows "\<exists>acc seed q text. generate os now (set_null acc0) p = Some (Inr (acc, seed, q)) \<and> binary2text seed = Inr text
    \<and> text2binary trim_copy split text = Inr seed
    \<and> restore ndebug seed (set_null acc1) = Some (Inr (acc\<lparr>m_creation_timestamp := 0\<rparr>))"
proof -
  have n: "\<not> is_swap_address (m_account_address (m_keys (set_null x)))" for x by (simp add: set_null_def null_address_def)
  obtain acc seed q where g: "generate os now (set_null acc0) p = Some (Inr (acc, seed, q))" "length seed = 32"
    "restore ndebug seed (set_null acc1) = Some (Inr (acc\<lparr>m_creation_timestamp := 0\<rparr>))"
    using generate_restore [OF assms(1), of now "set_null acc0" "set_null acc1" ndebug] n by auto
  then have "seed \<noteq> []" "length seed mod 4 = 0" by auto
  from text2binary_binary2text [OF assms(2,3) this]
  obtain ws where "binary2text seed = Inr ws" "text2binary trim_copy split ws = Inr seed" by (elim exE conjE)
  then show ?thesis using g(1,3) by (intro exI conjI)
qed

theorem mnemonic_restores_account_witness:
  "\<exists>acc seed q text. generate urandom_example 1400000000 (set_null acc_example) prng_0 = Some (Inr (acc, seed, q)) \<and> binary2text seed = Inr text
    \<and> text2binary trim_ref split_ref text = Inr seed
    \<and> restore False seed (set_null acc_example) = Some (Inr (acc\<lparr>m_creation_timestamp := 0\<rparr>))"
  by (rule mnemonic_restores_account [OF prng_live_0 trims_ref splits_ref])

lemma word_numbers:
  "map_of wordsMap ''like'' = Some 0" "map_of wordsMap ''float'' = Some 490" "map_of wordsMap ''insult'' = Some 1297" "map_of wordsMap ''hum'' = Some 1295"
proof -
  have w: "wordsArray ! 0 = ''like''" "wordsArray ! 490 = ''float''" "wordsArray ! 1297 = ''insult''" "wordsArray ! 1295 = ''hum''"
    by (simp_all add: wordsArray_def nth_append length_parts wordsArray_0_def wordsArray_3_def wordsArray_8_def)
  show "map_of wordsMap ''like'' = Some 0" using wordsMap_at [of 0] w(1) by simp
  show "map_of wordsMap ''float'' = Some 490" using wordsMap_at [of 490] w(2) by simp
  show "map_of wordsMap ''insult'' = Some 1297" using wordsMap_at [of 1297] w(3) by simp
  show "map_of wordsMap ''hum'' = Some 1295" using wordsMap_at [of 1295] w(4) by simp
qed

text \<open>
  \<open>text2binary\<close> does not check that three words stand for 32 bits: a text whose value is \<open>2 ^ 32\<close> is
  accepted and read as 0, like the text that \<open>binary2text\<close> makes of 0.
\<close>

lemma mnemonic_wraps:
  assumes "trims trim_copy" and "splits split"
  shows "text2binary trim_copy split ''float insult hum'' = Inr [0, 0, 0, 0]
    \<and> text2binary trim_copy split ''like like like'' = Inr [0, 0, 0, 0]"
proof -
  have t: "trim_copy s = s" if "s \<noteq> []" "\<not> is_space (hd s)" "\<not> is_space (last s)" for s
    using assms(1) that unfolding trims_def by (metis append.left_neutral append.right_neutral list.pred_inject(1))
  have s: "split (join ws) = ws" if "ws \<noteq> []" "list_all (\<lambda>w. CHR '' '' \<notin> set w) ws" for ws
    using assms(2) that unfolding splits_def by blast
  have "split (trim_copy ''float insult hum'') = [''float'', ''insult'', ''hum'']"
    using t [of "''float insult hum''"] s [of "[''float'', ''insult'', ''hum'']"] by (simp add: is_space_def)
  moreover have "split (trim_copy ''like like like'') = [''like'', ''like'', ''like'']"
    using t [of "''like like like''"] s [of "[''like'', ''like'', ''like'']"] by (simp add: is_space_def)
  moreover have "store32 (words_value 490 1297 1295) = [0, 0, 0, 0]" "store32 (words_value 0 0 0) = [0, 0, 0, 0]" by code_simp+
  ultimately show ?thesis by (simp add: text2binary_def word_numbers Let_def)
qed

theorem mnemonic_wraps_witness:
  "text2binary trim_ref split_ref ''float insult hum'' = Inr [0, 0, 0, 0]
    \<and> text2binary trim_ref split_ref ''like like like'' = Inr [0, 0, 0, 0]"
  by (rule mnemonic_wraps [OF trims_ref splits_ref])

section \<open>Base58\<close>

text \<open>
  C10: \<open>encode\<close> is total, \<open>decode\<close> never fails an assertion, and they are inverse to each other: a
  string decodes to some bytes exactly when it is the encoding of these bytes, so the encoding is
  canonical.  What the output string of \<open>decode\<close> held before does not matter.
\<close>

theorem base58_inverse:
  "encode data \<noteq> None \<and> decode enc before \<noteq> None
    \<and> (decode enc before = Some (Some data) \<longleftrightarrow> encode data = Some enc)"
  using decode_encode_ref [of data] encode_decode_ref [of enc data] by (auto simp: encode_eq decode_eq)

section \<open>Difficulty\<close>

text \<open>
  C11: both checks compare the product of the hash and the difficulty with \<open>2 ^ 256\<close>, with no
  overflow; only at the difficulty \<open>2 ^ 64 - 1\<close> the wide check asks for more.
\<close>

theorem check_hash_decides:
  assumes "length hash = 32"
  shows "(check_hash_old hash d \<longleftrightarrow> le_val hash * uint d < 2 ^ 256)
    \<and> (check_hash hash wd \<longleftrightarrow> le_val hash * uint wd < 2 ^ 256 \<and> (uint wd = 2 ^ 64 - 1 \<longrightarrow> le_val hash < 2 ^ 192))"
proof -
  have "le_val hash < 2 ^ 192" if "le_val hash * uint wd < 2 ^ 256" "2 ^ 64 - 1 \<le> uint wd" "uint wd \<noteq> 2 ^ 64 - 1"
  proof (rule ccontr)
    assume "\<not> le_val hash < 2 ^ 192"
    then have "2 ^ 192 * 2 ^ 64 \<le> le_val hash * uint wd" using that(2,3) by (intro mult_mono) simp_all
    then show False using that(1) by simp
  qed
  then show ?thesis unfolding check_hash_eq [OF assms] check_hash_old_eq [OF assms] by auto
qed

theorem check_hash_decides_witness:
  "(check_hash_old (replicate 31 0 @ [1]) 200 \<longleftrightarrow> le_val (replicate 31 0 @ [1]) * uint (200 :: u64) < 2 ^ 256)
    \<and> (check_hash (replicate 31 0 @ [1]) 300 \<longleftrightarrow> le_val (replicate 31 0 @ [1]) * uint (300 :: 128 word) < 2 ^ 256
        \<and> (uint (300 :: 128 word) = 2 ^ 64 - 1 \<longrightarrow> le_val (replicate 31 0 @ [1]) < 2 ^ 192))"
  by (rule check_hash_decides) simp

text \<open>
  The two checks differ at the largest difficulty of 64 bits: there is a hash that the old one
  accepts and the wide one refuses, because its test for a small difficulty is strict and the fast
  path for larger ones assumes at least \<open>2 ^ 64\<close>.
\<close>

lemma check_hash_boundary:
  "check_hash_old (replicate 24 0 @ 1 # replicate 7 0) (- 1) \<and> \<not> check_hash (replicate 24 0 @ 1 # replicate 7 0) (2 ^ 64 - 1)"
proof -
  let ?h = "replicate 24 0 @ 1 # replicate 7 0 :: bytes"
  have v: "le_val ?h = 2 ^ 192" by (simp add: eval_nat_numeral)
  have "uint (- 1 :: u64) = 2 ^ 64 - 1" "uint (2 ^ 64 - 1 :: 128 word) = 2 ^ 64 - 1" by (simp_all add: unsigned_minus_1_eq_mask mask_eq_exp_minus_1)
  then show ?thesis using check_hash_old_eq [of ?h "- 1"] check_hash_eq [of ?h "2 ^ 64 - 1"] v by simp
qed


text \<open>
  C17: the difficulty is at rest when blocks come exactly every \<open>T\<close> seconds: a chain with constant
  difficulty \<open>D\<close> keeps it, for every length of the window.
\<close>

theorem next_difficulty_steady:
  assumes "2 \<le> n" and "0 \<le> t0" and "T \<noteq> 0" and "t0 + int n * uint T < 2 ^ 64"
    and "0 \<le> c0" and "0 < D" and "c0 + int n * D < 2 ^ 128"
  shows "next_difficulty (steady t0 (uint T) n) (steady c0 D n) T = Some (word_of_int D)"
  by (rule next_difficulty_steady_eq [OF assms])

theorem next_difficulty_steady_witness:
  "next_difficulty (steady 1400000000 (uint (120 :: u64)) 900) (steady 0 12345 900) 120 = Some (word_of_int 12345)"
  by (rule next_difficulty_steady) simp_all

section \<open>Money supply\<close>

text \<open>
  C14: the reward of a block of size \<open>S\<close> at median \<open>M\<close>, at least 30000: the base reward up to the median,
  then the base reward times \<open>S * (2 M - S) / M\<^sup>2\<close>, rounded down in two steps, and no reward for a block beyond twice the
  median, of \<open>2 ^ 32 - 1\<close> bytes or more, or with a base reward of 0.  Nothing overflows or divides by zero.
\<close>

theorem block_reward_value:
  "get_block_reward m s c d =
    (let M = max 30000 (uint m); S = uint s; b = get_base_block_reward c
     in Some (if S \<le> M then Some b
        else if S \<le> 2 * M \<and> S < 2 ^ 32 - 1 \<and> b \<noteq> 0 then Some (word_of_int (uint b * (S * (2 * M - S)) div M div M)) else None))"
  unfolding get_block_reward_eq punished_def Let_def by (rule refl)

text \<open>
  C13: the coin counter never exceeds the emission supply and never decreases, whatever blocks are
  added to the main chain: the sum does not wrap around.
\<close>

theorem emission_supply_invariant:
  assumes "mined\<^sup>*\<^sup>* 0 c" and "mined\<^sup>*\<^sup>* c c'"
  shows "uint c \<le> uint c' \<and> uint c' \<le> uint EMISSION_SUPPLY"
  using mined_supply_star [OF assms(1)] mined_supply_star [OF assms(2)] by simp

theorem emission_supply_invariant_witness:
  "\<exists>c. mined 0 c \<and> uint (0 :: u64) \<le> uint c \<and> uint c \<le> uint EMISSION_SUPPLY"
proof -
  have "get_block_reward 0 0 0 0 = Some (Some (get_base_block_reward 0))"
    by (simp add: get_block_reward_eq)
  then have m: "mined 0 (0 + get_base_block_reward 0)" by (rule mined_step)
  then have "mined\<^sup>*\<^sup>* 0 (0 + get_base_block_reward 0)" by (rule r_into_rtranclp)
  from emission_supply_invariant [OF rtranclp.rtrancl_refl this] m show ?thesis by blast
qed

text \<open>
  Once the base reward has dropped to 0, every block above the median is refused, although its
  reward of 0 would be right: the check asks for a reward strictly below the base reward.
\<close>

lemma zero_reward_refuses:
  assumes "get_base_block_reward c = 0" and "max 30000 (uint m) < uint s"
  shows "get_block_reward m s c d = Some None"
  using assms by (auto simp: get_block_reward_eq le_max_iff_disj)

theorem zero_reward_refuses_witness:
  "get_block_reward 0 30001 EMISSION_SUPPLY 0 = Some None"
  by (rule zero_reward_refuses) (simp_all add: get_base_block_reward_def Let_def)

text \<open>
  C18: the donations of a day stay within the remaining supply for donations, at most \<open>1440 / 2 ^ 20\<close> of
  it, and are free of dust; the royalty and the donation of \<open>get_donation_parts\<close> add up.
\<close>

theorem donations_within_supply:
  assumes "uint already_donated_coins \<le> uint DONATIONS_SUPPLY" and "length votes = 720"
  shows "\<exists>amount royalty donation. get_donations_anount_for_day already_donated_coins votes = Some amount
    \<and> 2 ^ 20 * uint amount \<le> 1440 * (uint DONATIONS_SUPPLY - uint already_donated_coins) \<and> uint amount mod 10 ^ 6 = 0
    \<and> get_donation_parts amount = (royalty, donation) \<and> uint royalty + uint donation = uint amount \<and> uint royalty = uint amount div 10"
proof -
  obtain r where r: "get_donations_anount_for_day already_donated_coins votes = Some r"
    "2 ^ 20 * uint r \<le> 1440 * (uint DONATIONS_SUPPLY - uint already_donated_coins)" "uint r mod 10 ^ 6 = 0"
    using donations_eq [OF assms] by (elim exE conjE)
  obtain a b where p: "get_donation_parts r = (a, b)" by fastforce
  show ?thesis by (intro exI conjI) (rule r p donation_parts_eq [OF p, THEN conjunct1] donation_parts_eq [OF p, THEN conjunct2])+
qed

theorem donations_within_supply_witness:
  "\<exists>amount royalty donation. get_donations_anount_for_day 7 (replicate 720 True) = Some amount
    \<and> 2 ^ 20 * uint amount \<le> 1440 * (uint DONATIONS_SUPPLY - uint (7 :: u64)) \<and> uint amount mod 10 ^ 6 = 0
    \<and> get_donation_parts amount = (royalty, donation) \<and> uint royalty + uint donation = uint amount \<and> uint royalty = uint amount div 10"
proof -
  have a: "uint (7 :: u64) \<le> uint DONATIONS_SUPPLY" unfolding supply_values by simp
  have b: "length (replicate 720 True) = 720" by (rule length_replicate)
  show ?thesis by (rule donations_within_supply [OF a b])
qed

end
