(* ===== verification/Spec2Isabelle.thy ===== *)
theory Spec2Isabelle
  imports FieldProps CryptoProps ChainProps
begin

text \<open>
  Boolberry: a verification of the cryptography the currency rests on, and of the rules for
  addresses, difficulty and money supply.

  \<^bold>\<open>The program.\<close>  Boolberry is a CryptoNote currency.  Under \<open>src/src/crypto\<close> it has the arithmetic
  of the curve Ed25519 (\<open>crypto-ops.c\<close>, \<open>crypto-ops-data.c\<close>, \<open>crypto-ops.h\<close>), the hash (\<open>keccak.c\<close>,
  \<open>hash.c\<close>, \<open>tree-hash.c\<close>), the random generator (\<open>random.c\<close>), the cipher of the wallet files
  (\<open>chacha8.c\<close>), the words for a secret seed (\<open>mnemonic-encoding.cpp\<close>) and, on top of them, keys, one-time
  keys, signatures, key images and ring signatures (\<open>crypto.cpp\<close>).  Under \<open>src/src/common\<close> are the helpers for integers that these parts
  share (\<open>int-util.h\<close>, \<open>varint.h\<close>) and the encoding of strings (\<open>base58.cpp\<close>).  Under
  \<open>src/src/currency_core\<close> are the accounts (\<open>account.cpp\<close>), the rules of the currency without the
  format of transactions (\<open>currency_basic_impl.cpp\<close>, with the constants of \<open>currency_config.h\<close>) and the
  difficulty (\<open>difficulty.cpp\<close>).  The block chain, the memory pool, the network and the wallet call
  these functions and \<open>crypto.cpp\<close>, and never the layers below.

  \<^bold>\<open>How the code is modelled.\<close>  A C function is a HOL function with the same name on the same data:
  \<open>int32_t\<close>, \<open>int64_t\<close> and \<open>uint64_t\<close> are words of that width, which wrap around, byte arrays are lists
  of bytes, structs are records, a loop is a fold or a recursion with a proof that it ends.  A
  function that can stop the process (\<open>assert\<close>, \<open>abort\<close>, an exit) or has undefined behaviour returns
  an option whose \<open>None\<close> stands for that; a return value -1 or \<open>false\<close> is an option of its own.
  Global state, the generator of \<open>random.c\<close>, is passed explicitly, and what the operating system
  answers on \<open>/dev/urandom\<close> is an argument.  All definitions are executable.

  \<^bold>\<open>The theories.\<close>

  \<^item> \<open>Prelude\<close>: names for the C types, signed words without overflow as integers, little-endian
    values of bytes, loops that may fail.
  \<^item> \<open>Limbs\<close>, \<open>Radix\<close>: sequences of limb operations (loads, carries, foldings) as data, with one
    lemma that carries the bounds and the value through such a sequence; \<open>fe_*\<close> and \<open>sc_*\<close> are
    instances of it.
  \<^item> \<open>Checked\<close>, \<open>FeChecked\<close>, \<open>ScChecked\<close>: the same sequences with signed operations that have no result
    when the exact one does not fit, as C leaves an overflow undefined.  Where the bounds of
    \<open>Limbs\<close> are accepted both readings agree; \<open>fe_mul\<close> and \<open>sc_reduce\<close> are written out in this way in
    full, with their products, sums, shifts and narrowing stores.
  \<^item> \<open>Field25519\<close>, \<open>Fe\<close>, \<open>FeArith\<close>, \<open>FeBytes\<close>, \<open>FePow\<close>, \<open>FieldProps\<close>: the field with \<open>2 ^ 255 - 19\<close>
    elements and the functions \<open>fe_*\<close>; under the limb bounds that the comments of the C file
    state, each function computes in the field and keeps the bounds.
  \<^item> \<open>Sc\<close>, \<open>ScalarProps\<close>: the functions \<open>sc_*\<close> compute modulo the group order for all inputs.
  \<^item> \<open>GeData\<close>, \<open>Ge\<close>, \<open>Scalarmult\<close>: the point structs, the constants, both tables of multiples of the
    base point, and the functions \<open>ge_*\<close>.
  \<^item> \<open>Curve\<close>, \<open>GeCorrect\<close>, \<open>EdGroup\<close>, \<open>GeGroup\<close>: the curve, its addition law and its group, a type
    of class \<open>ab_group_add\<close>; when a struct of limbs stands for a point, and that every \<open>ge_*\<close>
    operation refines the operation of the group.
  \<^item> \<open>HexArith\<close>, \<open>Primality\<close>, \<open>HexPow\<close>, \<open>PrimeCert\<close>, \<open>OrderCert\<close>, \<open>GfField\<close>: arithmetic on hexadecimal
    digits by rewriting, Pocklington's criterion and the certificates that \<open>2 ^ 255 - 19\<close> and the
    order of the base point are prime; the field axioms and the square roots follow.
  \<^item> \<open>BasePoint\<close>, \<open>PointCert\<close>, \<open>BaseRowsA\<close> to \<open>BaseRowsD\<close>, \<open>BaseTable\<close>: every one of the 256 + 8 entries
    of \<open>ge_base\<close> and \<open>ge_Bi\<close> is the multiple of the base point that it should be.
  \<^item> \<open>Recode\<close>, \<open>ScalarmultCorrect\<close>: the recodings of scalars and the scalar multiplications.
  \<^item> \<open>BaseOrder\<close>, \<open>GroupOrder\<close>: the curve has exactly 8 times as many points as the order of the base
    point, so that 8 times any point has an order that divides the group order.
  \<^item> \<open>PointCodec\<close>, \<open>HashToPoint\<close>, \<open>GroupProps\<close>: decoding, encoding, and the map to points.
  \<^item> \<open>Keccak\<close>, \<open>Hash\<close>, \<open>TreeHash\<close>, \<open>RandomGen\<close>, \<open>IntUtil\<close>, \<open>Varint\<close>, \<open>Chacha8\<close>, \<open>HashProps\<close>: the hash and
    what is built from it, against reference definitions of the specification.
  \<^item> \<open>Crypto\<close>, \<open>CryptoCorrect\<close>, \<open>RingSign\<close>, \<open>CryptoProps\<close>: the whole of \<open>crypto.cpp\<close>.  What each
    function computes is stated over the group and the scalars, and the properties follow:
    signatures and ring signatures that are made are accepted, verification accepts exactly what
    its equation says, derived keys match, key images are valid and cannot be varied by points of
    small order, and no call stops the process.
  \<^item> \<open>Base58\<close>, \<open>Base58Correct\<close>: the encoding of strings and addresses; it is a bijection onto the
    strings that the decoder accepts, and neither direction fails an assertion.
  \<^item> \<open>Account\<close>: accounts, their address strings, and the checksum of swap addresses, on top of
    \<open>Crypto\<close> and \<open>Base58\<close>; seeds and addresses round trip.
  \<^item> \<open>Difficulty\<close>: the checks of a hash as one inequality of integers, and the next difficulty as a
    rounded quotient over the counted part of the window, with the assertions that can fail.
  \<^item> \<open>Emission\<close>: the reward of a block with its penalty, as a formula on every branch, the bound on
    the coins in circulation as an invariant of the step relation \<open>mined\<close>, and the donations.
  \<^item> \<open>Words\<close>, \<open>WordIndex\<close>, \<open>Mnemonic\<close>: the two tables of words, that they are inverse to each other, and the
    conversions between data and words.  The two functions of boost they call are arguments, with
    hypotheses for what their documentation says.
  \<^item> \<open>ChainProps\<close>: the properties of these five groups.

  \<^bold>\<open>Interfaces.\<close>  The locales \<open>signed_selection\<close> (branch-free lookup in a table), \<open>odd_multiples\<close>
  (digits of a sliding window), \<open>annihilated\<close> (an element of a group and a number that
  annihilates it, with Schnorr's identity) and those of the limb theories state what a client
  uses; each is interpreted on the definitions of the code.

  \<^bold>\<open>Bounds.\<close>  There is no fuel: every loop has a termination proof.  Hypotheses that bound an input
  are those of the code: limbs within the documented bounds, a top byte of a scalar of at most
  127 (for the sliding windows, where the source states no bound, a scalar below \<open>2 ^ 255\<close> is
  needed), hashed data below \<open>2 ^ 31\<close> bytes because the length is cast to \<open>int\<close>, at most \<open>2 ^ 63\<close> leaves of
  a hash tree.

  \<^bold>\<open>Not modelled.\<close>  Concurrency: the mutex around the generator is taken for granted.  The Windows
  variant of the random device.  The proof of work \<open>wild_keccak.cpp\<close> with its scratchpad, the block
  chain, memory pool, serialization templates, network, RPC, wallet and user interface: they work
  on boost, LMDB and epee, which are not part of the repository's own code.  Of the serialization
  only the layout of an address, two keys one after the other, is used; of the block chain only
  the step of its coin counter when a block is added, not the removal of blocks.
\<close>

end
